(* ===== verification/Crystal_Prelude.thy ===== *)
theory Crystal_Prelude
  imports Main "HOL-Library.Word" "HOL-Library.Char_ord" "HOL-Library.List_Lexorder"
    "HOL-Library.Sublist" "HOL-Library.Multiset"
begin

text \<open>
  What every component of the development shares: the type abbreviations for Go's machine
  integers, instants and durations; the collections of simplification rules; list facts on
  stable sorting, folding and filtering; and the generic notion of a labelled machine whose
  events are given as an explicit list, with the locale that lifts a step invariant to runs.
\<close>

section \<open>Types\<close>

text \<open>
  Go's \<^verbatim>\<open>int32\<close>, \<^verbatim>\<open>int64\<close> and \<^verbatim>\<open>uint64\<close> are words of
  their width (addition wraps; comparisons of signed values use \<open>sint\<close>). A \<^verbatim>\<open>time.Time\<close>
  is the integer number of nanoseconds since the epoch and a \<^verbatim>\<open>time.Duration\<close> an integer
  number of nanoseconds.
\<close>

type_synonym i32 = "32 word"
type_synonym i64 = "64 word"
type_synonym instant = int
type_synonym duration = int

text \<open>Facts that unfold the executable definitions of a component, collected for its proofs.\<close>

named_theorems exec_defs \<open>definitions unfolded to evaluate a concrete call\<close>
named_theorems queue_defs \<open>definitions of the repository queue\<close>
named_theorems tally_simps \<open>rules for the outcome tallies\<close>
named_theorems tag_simps \<open>rules for snapshot tags\<close>

text \<open>
  Subtraction of instants saturates at the range of a 64-bit count of nanoseconds, as
  \<^verbatim>\<open>time.Time.Sub\<close> does.
\<close>

definition max_duration :: duration where
  "max_duration = 2 ^ 63 - 1"

definition min_duration :: duration where
  "min_duration = - (2 ^ 63)"

definition time_sub :: "instant \<Rightarrow> instant \<Rightarrow> duration" where
  "time_sub t u = max min_duration (min max_duration (t - u))"

abbreviation seconds :: "int \<Rightarrow> duration" where
  "seconds n \<equiv> n * 1000000000"

abbreviation hours :: "int \<Rightarrow> duration" where
  "hours n \<equiv> n * 3600000000000"

lemma time_sub_le_iff:
  assumes "min_duration \<le> d" and "d < max_duration"
  shows "time_sub t u \<le> d \<longleftrightarrow> t - u \<le> d"
  using assms by (auto simp: time_sub_def max_duration_def min_duration_def)

lemma time_sub_mono: "t \<le> t' \<Longrightarrow> time_sub t u \<le> time_sub t' u"
  by (auto simp: time_sub_def)

lemma time_sub_antimono: "u \<le> u' \<Longrightarrow> time_sub t u' \<le> time_sub t u"
  by (auto simp: time_sub_def)

section \<open>Words\<close>

lemma sint_of_nat_i32: "n < 2 ^ 31 \<Longrightarrow> sint (of_nat n :: i32) = int n"
  by (simp add: signed_of_nat signed_take_bit_int_eq_self)

lemma unat_of_nat_i32: "n < 2 ^ 32 \<Longrightarrow> unat (of_nat n :: i32) = n"
  by (simp add: unsigned_of_nat take_bit_nat_eq_self)

lemma i32_of_nat_pos_iff: "n < 2 ^ 31 \<Longrightarrow> 0 <s (of_nat n :: i32) \<longleftrightarrow> 0 < n"
  by (simp add: word_sless_alt sint_of_nat_i32)

lemma i32_of_nat_eq_0_iff: "n < 2 ^ 32 \<Longrightarrow> (of_nat n :: i32) = 0 \<longleftrightarrow> n = 0"
  by (metis unat_of_nat_i32 of_nat_0 unat_eq_zero)

section \<open>Lists\<close>

lemma foldl_invariant:
  "P a \<Longrightarrow> (\<And>a x. x \<in> set xs \<Longrightarrow> P a \<Longrightarrow> P (f a x)) \<Longrightarrow> P (foldl f a xs)"
  by (induction xs arbitrary: a) auto

lemma foldl_collect:
  "foldl (\<lambda>as m. case f m of None \<Rightarrow> as | Some a \<Rightarrow> as @ [a]) acc xs = acc @ List.map_filter f xs"
  by (induction xs arbitrary: acc) (auto simp: List.map_filter_simps split: option.splits)

lemma foldl_append_concat: "foldl (\<lambda>as x. as @ f x) acc xs = acc @ concat (map f xs)"
  by (induction xs arbitrary: acc) auto

lemma filter_eq_Nil_iff: "filter P xs = [] \<longleftrightarrow> (\<forall>x \<in> set xs. \<not> P x)"
  by (simp add: filter_empty_conv)

lemma length_filter_pos_iff: "0 < length (filter P xs) \<longleftrightarrow> (\<exists>x \<in> set xs. P x)"
  by (induction xs) auto

lemma sorted_sort_key_map: "sorted (map f (sort_key f xs))"
  by simp

lemma distinct_sort_key: "distinct (sort_key f xs) = distinct xs"
  by simp

lemma distinct_map_sort_key: "distinct (map f (sort_key f xs)) = distinct (map f xs)"
  by (metis mset_map mset_sort mset_eq_imp_distinct_iff)

lemma distinct_map_sorted_wrt_less:
  fixes f :: "'a \<Rightarrow> 'b :: linorder"
  assumes "sorted (map f xs)" and "distinct (map f xs)"
  shows "sorted_wrt (\<lambda>x y. f x < f y) xs"
proof -
  have "sorted_wrt (<) (map f xs)"
    using assms by (simp add: strict_sorted_iff)
  then show ?thesis by (simp add: sorted_wrt_map)
qed

section \<open>Machines driven by an explicit sequence of events\<close>

text \<open>
  A machine is a step function that answers \<open>None\<close> where the event is not enabled, and a
  run is the fold of the step over a list of events: which goroutine moves next is the choice
  of the list, so a statement about every list is a statement about every interleaving.
\<close>

fun run_events :: "('s \<Rightarrow> 'e \<Rightarrow> 's option) \<Rightarrow> 's \<Rightarrow> 'e list \<Rightarrow> 's option" where
  "run_events step s [] = Some s"
| "run_events step s (e # es) =
     (case step s e of None \<Rightarrow> None | Some s' \<Rightarrow> run_events step s' es)"

lemma run_events_append:
  "run_events step s (es @ fs) =
     (case run_events step s es of None \<Rightarrow> None | Some s' \<Rightarrow> run_events step s' fs)"
  by (induction es arbitrary: s) (auto split: option.splits)

lemma run_events_snocD:
  "run_events step s (es @ [e]) = Some s'' \<Longrightarrow>
     \<exists>s'. run_events step s es = Some s' \<and> step s' e = Some s''"
  by (auto simp: run_events_append split: option.splits)

locale machine_invariant =
  fixes step :: "'s \<Rightarrow> 'e \<Rightarrow> 's option"
    and inv :: "'s \<Rightarrow> bool"
    and ok :: "'s \<Rightarrow> 'e \<Rightarrow> bool"
  assumes step_keeps: "inv s \<Longrightarrow> ok s e \<Longrightarrow> step s e = Some s' \<Longrightarrow> inv s'"
begin

fun run_ok :: "'s \<Rightarrow> 'e list \<Rightarrow> bool" where
  "run_ok s [] = True"
| "run_ok s (e # es) = (ok s e \<and> (\<forall>s'. step s e = Some s' \<longrightarrow> run_ok s' es))"

lemma run_keeps:
  "inv s \<Longrightarrow> run_ok s es \<Longrightarrow> run_events step s es = Some s' \<Longrightarrow> inv s'"
proof (induction es arbitrary: s)
  case Nil
  then show ?case by simp
next
  case (Cons e es)
  from Cons.prems(3) obtain t where t: "step s e = Some t" "run_events step t es = Some s'"
    by (auto split: option.splits)
  with Cons.prems have "inv t" by (auto intro: step_keeps)
  then show ?case using Cons.IH [of t] Cons.prems t by auto
qed

lemma run_keeps_always:
  assumes "\<And>s e. ok s e" and "inv s" and "run_events step s es = Some s'"
  shows "inv s'"
proof -
  have "run_ok s es" for s
    using assms(1) by (induction es arbitrary: s) auto
  then show ?thesis using assms(2,3) by (blast intro: run_keeps)
qed

end

end
