(* ===== verification/Repo_Queue.thy ===== *)
theory Repo_Queue
  imports Crystal_Prelude
begin

text \<open>
  The per-repository exclusive work queue (\<^verbatim>\<open>internal/repo/queue\<close>): handles, one worker
  goroutine per repository key, and the Manager. Handles live in a store (a list indexed by the
  order of creation), since the caller and the worker share them. Every critical section of
  the code is one step of the machine \<open>q_step\<close>; the lock \<open>mg_lock\<close> records where a
  running Enqueue stands between its guard, the append and the wake-up, so that a run over an
  arbitrary list of events covers every interleaving of producers, workers and shutdown.
\<close>

section \<open>Operations and handles\<close>

datatype OpKind = OpInit | OpForget | OpPrune | OpCheck | OpErase | OpUnlock | OpSync

definition blocksMovers :: "OpKind \<Rightarrow> bool" where
  "blocksMovers kind \<longleftrightarrow> kind = OpUnlock \<or> kind = OpPrune"

text \<open>
  The error a handle can carry: the run function's own error, a recovered panic, or the
  cancellation error of the base context. A run function is known by a number (the closure) and
  by how it behaves when it is called.
\<close>

datatype op_error = RunError string | PanicError string | ContextCanceled

datatype run_behaviour = Returns "string option" | Panics string

datatype enqueue_error = ErrStopped | ErrNilRun

record Handle =
  h_kind :: OpKind
  h_run :: "nat option"
  h_done :: bool
  h_err :: "op_error option"

definition newHandle :: "OpKind \<Rightarrow> nat \<Rightarrow> Handle" where
  "newHandle kind run = \<lparr>h_kind = kind, h_run = Some run, h_done = False, h_err = None\<rparr>"

definition Handle_Kind :: "Handle \<Rightarrow> OpKind" where
  "Handle_Kind h = h_kind h"

definition Handle_Err :: "Handle \<Rightarrow> op_error option" where
  "Handle_Err h = h_err h"

text \<open>\<open>None\<close> where the caller would block.\<close>

definition Handle_Wait :: "Handle \<Rightarrow> op_error option option" where
  "Handle_Wait h = (if h_done h then Some (Handle_Err h) else None)"

definition resolve :: "op_error option \<Rightarrow> Handle \<Rightarrow> Handle" where
  "resolve err h = (if h_done h then h else h\<lparr>h_err := err, h_done := True\<rparr>)"

definition takeRun :: "Handle \<Rightarrow> nat option \<times> Handle" where
  "takeRun h = (h_run h, h\<lparr>h_run := None\<rparr>)"

definition safeRun :: "run_behaviour \<Rightarrow> op_error option" where
  "safeRun b = (case b of Returns e \<Rightarrow> map_option RunError e | Panics v \<Rightarrow> Some (PanicError v))"

section \<open>Workers\<close>

text \<open>
  Where a worker goroutine stands in \<^verbatim>\<open>runWorker\<close>: at the top of the loop, before the pop,
  blocked on an empty queue, between the pop and the second shutdown check, inside a run
  function, after the resolution, and in the stages of the shutdown drain.
\<close>

datatype worker_pc =
    WLoop
  | WPop
  | WIdle
  | WPopped nat
  | WRunning nat
  | WRan nat
  | WCancelled nat
  | WDrain
  | WDraining "nat list"
  | WDrainResolved nat "nat list"
  | WExited

record worker =
  w_key :: string
  w_queue :: "nat list"
  w_notify :: bool
  w_moverBlocking :: int
  w_pc :: worker_pc

definition newWorker :: "string \<Rightarrow> worker" where
  "newWorker key = \<lparr>w_key = key, w_queue = [], w_notify = False, w_moverBlocking = 0,
     w_pc = WLoop\<rparr>"

definition worker_enqueue :: "nat \<Rightarrow> OpKind \<Rightarrow> worker \<Rightarrow> worker" where
  "worker_enqueue h kind w =
     w\<lparr>w_queue := w_queue w @ [h],
       w_moverBlocking := w_moverBlocking w + (if blocksMovers kind then 1 else 0)\<rparr>"

definition worker_signal :: "worker \<Rightarrow> worker" where
  "worker_signal w = w\<lparr>w_notify := True\<rparr>"

definition afterResolve :: "OpKind \<Rightarrow> worker \<Rightarrow> worker" where
  "afterResolve kind w =
     (if \<not> blocksMovers kind then w else w\<lparr>w_moverBlocking := w_moverBlocking w - 1\<rparr>)"

definition moverBlockingActive :: "worker \<Rightarrow> bool" where
  "moverBlockingActive w \<longleftrightarrow> w_moverBlocking w > 0"

definition pop :: "worker \<Rightarrow> (nat \<times> worker) option" where
  "pop w = (case w_queue w of [] \<Rightarrow> None | h # hs \<Rightarrow> Some (h, w\<lparr>w_queue := hs\<rparr>))"

definition drain :: "worker \<Rightarrow> nat list \<times> worker" where
  "drain w = (w_queue w, w\<lparr>w_queue := []\<rparr>)"

definition worker_len :: "worker \<Rightarrow> nat" where
  "worker_len w = length (w_queue w)"

section \<open>The Manager\<close>

datatype lock_state = LockFree | LockChecked string nat | LockAppended string

record Manager =
  mg_handles :: "Handle list"
  mg_workers :: "string \<rightharpoonup> worker"
  mg_stopped :: bool
  mg_ctxDone :: bool
  mg_lock :: lock_state

definition NewManager :: Manager where
  "NewManager = \<lparr>mg_handles = [], mg_workers = Map.empty, mg_stopped = False,
     mg_ctxDone = False, mg_lock = LockFree\<rparr>"

definition put_worker :: "string \<Rightarrow> worker \<Rightarrow> Manager \<Rightarrow> Manager" where
  "put_worker k w m = m\<lparr>mg_workers := (mg_workers m)(k \<mapsto> w)\<rparr>"

definition put_handle :: "nat \<Rightarrow> Handle \<Rightarrow> Manager \<Rightarrow> Manager" where
  "put_handle i h m = m\<lparr>mg_handles := (mg_handles m)[i := h]\<rparr>"

abbreviation handle :: "Manager \<Rightarrow> nat \<Rightarrow> Handle" where
  "handle m i \<equiv> mg_handles m ! i"

definition Len :: "Manager \<Rightarrow> string \<Rightarrow> nat" where
  "Len m k = (case mg_workers m k of None \<Rightarrow> 0 | Some w \<Rightarrow> worker_len w)"

definition QuiescenceRequired :: "Manager \<Rightarrow> string \<Rightarrow> bool" where
  "QuiescenceRequired m k =
     (case mg_workers m k of None \<Rightarrow> False | Some w \<Rightarrow> moverBlockingActive w)"

text \<open>
  Enqueue in its three critical sections: the guard together with the worker's creation, the
  append under the worker's lock, and the wake-up. The Manager's lock is held from the first to
  the last.
\<close>

definition enqueue_begin ::
  "string \<Rightarrow> OpKind \<Rightarrow> nat option \<Rightarrow> Manager \<Rightarrow> (enqueue_error + nat) \<times> Manager" where
  "enqueue_begin k kind run m =
     (case run of
        None \<Rightarrow> (Inl ErrNilRun, m)
      | Some body \<Rightarrow>
          if mg_stopped m \<or> mg_ctxDone m then (Inl ErrStopped, m)
          else
            let i = length (mg_handles m);
                w = (case mg_workers m k of Some w \<Rightarrow> w | None \<Rightarrow> newWorker k)
            in (Inr i, (put_worker k w m)\<lparr>mg_handles := mg_handles m @ [newHandle kind body],
                  mg_lock := LockChecked k i\<rparr>))"

definition enqueue_append :: "Manager \<Rightarrow> Manager option" where
  "enqueue_append m =
     (case mg_lock m of
        LockChecked k i \<Rightarrow>
          (case mg_workers m k of
             None \<Rightarrow> None
           | Some w \<Rightarrow> Some ((put_worker k (worker_enqueue i (h_kind (handle m i)) w) m)
               \<lparr>mg_lock := LockAppended k\<rparr>))
      | _ \<Rightarrow> None)"

definition enqueue_signal :: "Manager \<Rightarrow> Manager option" where
  "enqueue_signal m =
     (case mg_lock m of
        LockAppended k \<Rightarrow>
          (case mg_workers m k of
             None \<Rightarrow> None
           | Some w \<Rightarrow> Some ((put_worker k (worker_signal w) m)\<lparr>mg_lock := LockFree\<rparr>))
      | _ \<Rightarrow> None)"

text \<open>The whole call, with nothing else scheduled in between.\<close>

definition Enqueue ::
  "string \<Rightarrow> OpKind \<Rightarrow> nat option \<Rightarrow> Manager \<Rightarrow> (enqueue_error + nat) \<times> Manager" where
  "Enqueue k kind run m =
     (case enqueue_begin k kind run m of
        (Inl e, m') \<Rightarrow> (Inl e, m')
      | (Inr i, m') \<Rightarrow>
          (case Option.bind (enqueue_append m') enqueue_signal of
             None \<Rightarrow> (Inr i, m') | Some m'' \<Rightarrow> (Inr i, m'')))"

definition stop_mark :: "Manager \<Rightarrow> Manager" where
  "stop_mark m = m\<lparr>mg_stopped := True\<rparr>"

definition cancel :: "Manager \<Rightarrow> Manager" where
  "cancel m = m\<lparr>mg_ctxDone := True\<rparr>"

text \<open>
  Stop's last statement, the join of all workers, can return exactly when every worker has
  exited; the bool-valued check takes the keys to look at, since the map of workers is a function.
\<close>

definition all_exited :: "string list \<Rightarrow> Manager \<Rightarrow> bool" where
  "all_exited ks m \<longleftrightarrow>
     list_all (\<lambda>k. case mg_workers m k of None \<Rightarrow> True | Some w \<Rightarrow> w_pc w = WExited) ks"

section \<open>The worker goroutine\<close>

text \<open>
  One step of \<^verbatim>\<open>runWorker\<close> (with \<^verbatim>\<open>drainCancelled\<close> and \<^verbatim>\<open>runOne\<close>) that needs no
  choice of the environment.
\<close>

definition resolve_at :: "op_error option \<Rightarrow> nat \<Rightarrow> Manager \<Rightarrow> Manager" where
  "resolve_at err i m = put_handle i (resolve err (handle m i)) m"

definition runWorker_step :: "Manager \<Rightarrow> string \<Rightarrow> worker \<Rightarrow> Manager option" where
  "runWorker_step m k w =
     (case w_pc w of
        WLoop \<Rightarrow>
          Some (put_worker k (w\<lparr>w_pc := if mg_ctxDone m then WDrain else WPop\<rparr>) m)
      | WPop \<Rightarrow>
          (case pop w of
             None \<Rightarrow> Some (put_worker k (w\<lparr>w_pc := WIdle\<rparr>) m)
           | Some (h, w') \<Rightarrow> Some (put_worker k (w'\<lparr>w_pc := WPopped h\<rparr>) m))
      | WPopped h \<Rightarrow>
          if mg_ctxDone m then
            Some (resolve_at (Some ContextCanceled) h
              (put_worker k (w\<lparr>w_pc := WCancelled h\<rparr>) m))
          else
            Some (put_handle h (snd (takeRun (handle m h)))
              (put_worker k (w\<lparr>w_pc := WRunning h\<rparr>) m))
      | WRan h \<Rightarrow>
          Some (put_worker k ((afterResolve (h_kind (handle m h)) w)\<lparr>w_pc := WLoop\<rparr>) m)
      | WCancelled h \<Rightarrow>
          Some (put_worker k ((afterResolve (h_kind (handle m h)) w)\<lparr>w_pc := WDrain\<rparr>) m)
      | WDrain \<Rightarrow>
          (case drain w of (hs, w') \<Rightarrow> Some (put_worker k (w'\<lparr>w_pc := WDraining hs\<rparr>) m))
      | WDraining [] \<Rightarrow> Some (put_worker k (w\<lparr>w_pc := WExited\<rparr>) m)
      | WDraining (h # hs) \<Rightarrow>
          Some (resolve_at (Some ContextCanceled) h
            (put_worker k (w\<lparr>w_pc := WDrainResolved h hs\<rparr>) m))
      | WDrainResolved h hs \<Rightarrow>
          Some (put_worker k
            ((afterResolve (h_kind (handle m h)) w)\<lparr>w_pc := WDraining hs\<rparr>) m)
      | _ \<Rightarrow> None)"

text \<open>The two cases of the select a worker blocks in, and the return of a run function.\<close>

definition worker_wake :: "Manager \<Rightarrow> string \<Rightarrow> worker \<Rightarrow> Manager option" where
  "worker_wake m k w =
     (if w_pc w = WIdle \<and> w_notify w
      then Some (put_worker k (w\<lparr>w_notify := False, w_pc := WLoop\<rparr>) m) else None)"

definition worker_see_done :: "Manager \<Rightarrow> string \<Rightarrow> worker \<Rightarrow> Manager option" where
  "worker_see_done m k w =
     (if w_pc w = WIdle \<and> mg_ctxDone m
      then Some (put_worker k (w\<lparr>w_pc := WDrain\<rparr>) m) else None)"

definition runOne_finish :: "Manager \<Rightarrow> string \<Rightarrow> worker \<Rightarrow> run_behaviour \<Rightarrow> Manager option" where
  "runOne_finish m k w b =
     (case w_pc w of
        WRunning h \<Rightarrow> Some (resolve_at (safeRun b) h (put_worker k (w\<lparr>w_pc := WRan h\<rparr>) m))
      | _ \<Rightarrow> None)"

section \<open>The machine\<close>

datatype q_event =
    EnqBegin string OpKind "nat option"
  | EnqAppend
  | EnqSignal
  | StopMark
  | StopCancel
  | ParentCancel
  | WStep string
  | WWake string
  | WSeeDone string
  | WFinish string run_behaviour

definition with_worker ::
  "Manager \<Rightarrow> string \<Rightarrow> (Manager \<Rightarrow> string \<Rightarrow> worker \<Rightarrow> Manager option) \<Rightarrow> Manager option" where
  "with_worker m k f = (case mg_workers m k of None \<Rightarrow> None | Some w \<Rightarrow> f m k w)"

fun q_step :: "Manager \<Rightarrow> q_event \<Rightarrow> Manager option" where
  "q_step m (EnqBegin k kind run) =
     (if mg_lock m = LockFree then Some (snd (enqueue_begin k kind run m)) else None)"
| "q_step m EnqAppend = enqueue_append m"
| "q_step m EnqSignal = enqueue_signal m"
| "q_step m StopMark = (if mg_lock m = LockFree then Some (stop_mark m) else None)"
| "q_step m StopCancel = (if mg_stopped m then Some (cancel m) else None)"
| "q_step m ParentCancel = Some (cancel m)"
| "q_step m (WStep k) = with_worker m k runWorker_step"
| "q_step m (WWake k) = with_worker m k worker_wake"
| "q_step m (WSeeDone k) = with_worker m k worker_see_done"
| "q_step m (WFinish k b) = with_worker m k (\<lambda>m k w. runOne_finish m k w b)"

text \<open>What an observer sees of a step: an operation queued, started, finished or cancelled.\<close>

datatype q_obs = Queued string nat | Started string nat | Finished string nat | Cancelled string nat

fun q_observe :: "Manager \<Rightarrow> q_event \<Rightarrow> q_obs list" where
  "q_observe m EnqAppend = (case mg_lock m of LockChecked k i \<Rightarrow> [Queued k i] | _ \<Rightarrow> [])"
| "q_observe m (WStep k) =
     (case mg_workers m k of
        None \<Rightarrow> []
      | Some w \<Rightarrow>
          (case w_pc w of
             WPopped h \<Rightarrow> if mg_ctxDone m then [Cancelled k h] else [Started k h]
           | WDraining (h # hs) \<Rightarrow> [Cancelled k h]
           | _ \<Rightarrow> []))"
| "q_observe m (WFinish k b) =
     (case mg_workers m k of
        None \<Rightarrow> []
      | Some w \<Rightarrow> (case w_pc w of WRunning h \<Rightarrow> [Finished k h] | _ \<Rightarrow> []))"
| "q_observe m _ = []"

definition traced_step :: "Manager \<times> q_obs list \<Rightarrow> q_event \<Rightarrow> (Manager \<times> q_obs list) option" where
  "traced_step s e = map_option (\<lambda>m'. (m', snd s @ q_observe (fst s) e)) (q_step (fst s) e)"

fun queued_on :: "string \<Rightarrow> q_obs list \<Rightarrow> nat list" where
  "queued_on k [] = []"
| "queued_on k (Queued k' i # os) = (if k' = k then [i] else []) @ queued_on k os"
| "queued_on k (_ # os) = queued_on k os"

fun started_on :: "string \<Rightarrow> q_obs list \<Rightarrow> nat list" where
  "started_on k [] = []"
| "started_on k (Started k' i # os) = (if k' = k then [i] else []) @ started_on k os"
| "started_on k (_ # os) = started_on k os"

fun finished_on :: "string \<Rightarrow> q_obs list \<Rightarrow> nat list" where
  "finished_on k [] = []"
| "finished_on k (Finished k' i # os) = (if k' = k then [i] else []) @ finished_on k os"
| "finished_on k (_ # os) = finished_on k os"

fun cancelled_on :: "string \<Rightarrow> q_obs list \<Rightarrow> nat list" where
  "cancelled_on k [] = []"
| "cancelled_on k (Cancelled k' i # os) = (if k' = k then [i] else []) @ cancelled_on k os"
| "cancelled_on k (_ # os) = cancelled_on k os"

fun all_queued :: "q_obs list \<Rightarrow> nat list" where
  "all_queued [] = []"
| "all_queued (Queued k i # os) = i # all_queued os"
| "all_queued (_ # os) = all_queued os"

end
