(* ===== verification/Repo_Queue_Invariant.thy ===== *)
theory Repo_Queue_Invariant
  imports Repo_Queue
begin

text \<open>
  The invariant of the repository queue: per lane, what was queued is what was started, then what
  was cancelled, then what waits; every handle has one identity and is resolved exactly when the
  trace says so; the mover-blocking counter counts the blocking operations not yet accounted for;
  and a worker asleep over a non-empty queue has a wake-up coming. Every event of the machine
  keeps it, whatever the interleaving.
\<close>

section \<open>Facts about the observations\<close>

lemma queued_on_append [simp]: "queued_on k (xs @ ys) = queued_on k xs @ queued_on k ys"
  by (induction k xs rule: queued_on.induct) auto

lemma started_on_append [simp]: "started_on k (xs @ ys) = started_on k xs @ started_on k ys"
  by (induction k xs rule: started_on.induct) auto

lemma finished_on_append [simp]: "finished_on k (xs @ ys) = finished_on k xs @ finished_on k ys"
  by (induction k xs rule: finished_on.induct) auto

lemma cancelled_on_append [simp]: "cancelled_on k (xs @ ys) = cancelled_on k xs @ cancelled_on k ys"
  by (induction k xs rule: cancelled_on.induct) auto

lemma all_queued_append [simp]: "all_queued (xs @ ys) = all_queued xs @ all_queued ys"
  by (induction xs rule: all_queued.induct) auto

lemma set_queued_on: "set (queued_on k tr) \<subseteq> set (all_queued tr)"
  by (induction k tr rule: queued_on.induct) auto

lemma set_all_queued: "i \<in> set (all_queued tr) \<Longrightarrow> \<exists>k. i \<in> set (queued_on k tr)"
  by (induction tr rule: all_queued.induct) (auto, (metis UnCI list.set_intros(1) set_append)?)

lemma finished_on_iff: "i \<in> set (finished_on k tr) \<longleftrightarrow> Finished k i \<in> set tr"
  by (induction k tr rule: finished_on.induct) auto

lemma cancelled_on_iff: "i \<in> set (cancelled_on k tr) \<longleftrightarrow> Cancelled k i \<in> set tr"
  by (induction k tr rule: cancelled_on.induct) auto

lemma started_on_iff: "i \<in> set (started_on k tr) \<longleftrightarrow> Started k i \<in> set tr"
  by (induction k tr rule: started_on.induct) auto

lemma queued_on_iff: "i \<in> set (queued_on k tr) \<longleftrightarrow> Queued k i \<in> set tr"
  by (induction k tr rule: queued_on.induct) auto

lemma distinct_queued_on: "distinct (all_queued tr) \<Longrightarrow> distinct (queued_on k tr)"
  using set_queued_on by (induction k tr rule: queued_on.induct) fastforce+

lemma queued_on_disjoint:
  "distinct (all_queued tr) \<Longrightarrow> k \<noteq> k' \<Longrightarrow> set (queued_on k tr) \<inter> set (queued_on k' tr) = {}"
  using set_queued_on by (induction tr rule: all_queued.induct) fastforce+

section \<open>The state of one lane\<close>

text \<open>The operations a worker has not yet started or cancelled, in order, and the running one.\<close>

definition pending :: "worker \<Rightarrow> nat list" where
  "pending w =
     (case w_pc w of WPopped h \<Rightarrow> [h] | WDraining hs \<Rightarrow> hs | WDrainResolved h hs \<Rightarrow> hs | _ \<Rightarrow> [])
     @ w_queue w"

definition running :: "worker \<Rightarrow> nat list" where
  "running w = (case w_pc w of WRunning h \<Rightarrow> [h] | _ \<Rightarrow> [])"

text \<open>The operations whose resolution \<open>afterResolve\<close> has not yet been told about.\<close>

definition unaccounted :: "worker \<Rightarrow> nat list" where
  "unaccounted w =
     (case w_pc w of WPopped h \<Rightarrow> [h] | WRunning h \<Rightarrow> [h] | WRan h \<Rightarrow> [h] | WCancelled h \<Rightarrow> [h]
      | WDraining hs \<Rightarrow> hs | WDrainResolved h hs \<Rightarrow> h # hs | _ \<Rightarrow> [])
     @ w_queue w"

definition shutting_down :: "worker \<Rightarrow> bool" where
  "shutting_down w =
     (case w_pc w of WCancelled h \<Rightarrow> True | WDrain \<Rightarrow> True | WDraining hs \<Rightarrow> True
      | WDrainResolved h hs \<Rightarrow> True | WExited \<Rightarrow> True | _ \<Rightarrow> False)"

text \<open>Order: what was queued is what was started, then what was cancelled, then what waits.\<close>

definition lane_order :: "bool \<Rightarrow> q_obs list \<Rightarrow> string \<Rightarrow> worker \<Rightarrow> bool" where
  "lane_order ctx tr k w \<longleftrightarrow>
     queued_on k tr = started_on k tr @ cancelled_on k tr @ pending w \<and>
     started_on k tr = finished_on k tr @ running w \<and>
     (cancelled_on k tr \<noteq> [] \<longrightarrow> ctx) \<and>
     (shutting_down w \<longrightarrow> ctx) \<and>
     set (unaccounted w) \<subseteq> set (queued_on k tr)"

definition lane_silent :: "q_obs list \<Rightarrow> string \<Rightarrow> bool" where
  "lane_silent tr k \<longleftrightarrow> queued_on k tr = [] \<and> started_on k tr = [] \<and> finished_on k tr = [] \<and>
     cancelled_on k tr = []"

definition order_inv :: "Manager \<times> q_obs list \<Rightarrow> bool" where
  "order_inv s \<longleftrightarrow>
     (\<forall>k. mg_workers (fst s) k = None \<longrightarrow> lane_silent (snd s) k) \<and>
     (\<forall>k w. mg_workers (fst s) k = Some w \<longrightarrow> lane_order (mg_ctxDone (fst s)) (snd s) k w)"

lemmas queue_ops =
  enqueue_begin_def enqueue_append_def enqueue_signal_def stop_mark_def cancel_def with_worker_def
  runWorker_step_def worker_wake_def worker_see_done_def runOne_finish_def put_worker_def
  put_handle_def resolve_at_def worker_enqueue_def worker_signal_def afterResolve_def pop_def
  drain_def newWorker_def

lemmas lane_defs = lane_order_def pending_def running_def unaccounted_def shutting_down_def

lemma order_inv_init: "order_inv (NewManager, [])"
  by (simp add: order_inv_def NewManager_def lane_silent_def)

lemma lane_order_mono: "lane_order c tr k w \<Longrightarrow> (c \<Longrightarrow> c') \<Longrightarrow> lane_order c' tr k w"
  unfolding lane_order_def by blast

lemma lane_order_notify [simp]: "lane_order c tr k (w\<lparr>w_notify := b\<rparr>) = lane_order c tr k w"
  by (simp add: lane_defs)

lemma lane_order_new: "lane_silent tr k \<Longrightarrow> lane_order c tr k (newWorker k)"
  by (simp add: lane_silent_def lane_defs newWorker_def)

lemma order_inv_frame:
  assumes "order_inv (m, tr)" and "mg_workers m' = mg_workers m"
    and "mg_ctxDone m \<Longrightarrow> mg_ctxDone m'"
  shows "order_inv (m', tr)"
  using assms unfolding order_inv_def by (auto intro: lane_order_mono)

text \<open>
  A step that touches one lane: the other lanes observe nothing, so only the lane of the key
  has to be re-established.
\<close>

definition obs_key :: "q_obs \<Rightarrow> string" where
  "obs_key ob = (case ob of Queued k i \<Rightarrow> k | Started k i \<Rightarrow> k | Finished k i \<Rightarrow> k | Cancelled k i \<Rightarrow> k)"

lemma other_key_silent:
  assumes "\<forall>ob \<in> set os. obs_key ob = k" and "k' \<noteq> k"
  shows "lane_silent os k'"
  using assms
  by (induction os) (auto simp: obs_key_def lane_silent_def split: q_obs.splits)

lemma lane_order_silent: "lane_silent os k \<Longrightarrow> lane_order c (tr @ os) k w = lane_order c tr k w"
  by (simp add: lane_order_def lane_silent_def)

lemma order_inv_lane_step:
  assumes inv: "order_inv (m, tr)"
    and ws: "mg_workers m' = (mg_workers m)(k \<mapsto> w')"
    and ctx: "mg_ctxDone m' = mg_ctxDone m"
    and os: "\<forall>ob \<in> set os. obs_key ob = k"
    and lane: "lane_order (mg_ctxDone m) (tr @ os) k w'"
  shows "order_inv (m', tr @ os)"
proof -
  have "lane_silent (tr @ os) k' = lane_silent tr k'"
    and "lane_order c (tr @ os) k' w = lane_order c tr k' w" if "k' \<noteq> k" for k' c w
    using other_key_silent [OF os that] by (auto simp: lane_silent_def lane_order_silent)
  then show ?thesis
    using inv ws ctx lane by (auto simp: order_inv_def split: if_splits)
qed

lemma runWorker_step_frame:
  assumes "runWorker_step m k w = Some m'"
  shows "mg_workers m' = (mg_workers m)(k \<mapsto> the (mg_workers m' k))"
    and "mg_ctxDone m' = mg_ctxDone m" and "mg_lock m' = mg_lock m"
    and "mg_stopped m' = mg_stopped m"
  using assms by (cases "w_pc w"; auto simp: queue_ops split: list.splits if_splits)+

lemma order_inv_worker_step:
  assumes inv: "order_inv (m, tr)" and w: "mg_workers m k = Some w"
    and step: "runWorker_step m k w = Some m'"
  shows "order_inv (m', tr @ q_observe m (WStep k))"
proof -
  have lane: "lane_order (mg_ctxDone m) tr k w"
    using inv w by (simp add: order_inv_def)
  have os: "\<forall>ob \<in> set (q_observe m (WStep k)). obs_key ob = k"
    using w by (auto simp: obs_key_def split: worker_pc.splits list.splits)
  note frame = runWorker_step_frame [OF step]
  have "lane_order (mg_ctxDone m) (tr @ q_observe m (WStep k)) k (the (mg_workers m' k))"
    using step w lane
    by (cases "w_pc w")
      (auto simp: queue_ops lane_defs split: list.splits if_splits)
  then show ?thesis
    by (rule order_inv_lane_step [OF inv frame(1) frame(2) os])
qed

lemma order_inv_other_worker_events:
  assumes inv: "order_inv (m, tr)" and w: "mg_workers m k = Some w"
  shows "worker_wake m k w = Some m' \<Longrightarrow> order_inv (m', tr)"
    and "worker_see_done m k w = Some m' \<Longrightarrow> order_inv (m', tr)"
    and "runOne_finish m k w b = Some m' \<Longrightarrow> order_inv (m', tr @ q_observe m (WFinish k b))"
proof -
  have lane: "lane_order (mg_ctxDone m) tr k w"
    using inv w by (simp add: order_inv_def)
  show "worker_wake m k w = Some m' \<Longrightarrow> order_inv (m', tr)"
    using order_inv_lane_step [OF inv, of m' k "w\<lparr>w_notify := False, w_pc := WLoop\<rparr>" "[]"] lane
    by (auto simp: queue_ops lane_defs split: if_splits)
  show "worker_see_done m k w = Some m' \<Longrightarrow> order_inv (m', tr)"
    using order_inv_lane_step [OF inv, of m' k "w\<lparr>w_pc := WDrain\<rparr>" "[]"] lane
    by (auto simp: queue_ops lane_defs split: if_splits)
  show "runOne_finish m k w b = Some m' \<Longrightarrow> order_inv (m', tr @ q_observe m (WFinish k b))"
    using order_inv_lane_step [OF inv, of m' k "w\<lparr>w_pc := WRan h\<rparr>" "[Finished k h]" for h] lane w
    by (auto simp: queue_ops lane_defs obs_key_def split: worker_pc.splits)
qed

lemma enqueue_begin_cases:
  "snd (enqueue_begin k kind run m) = m \<or>
   (\<exists>body. run = Some body \<and> \<not> mg_stopped m \<and> \<not> mg_ctxDone m \<and>
      snd (enqueue_begin k kind run m) =
        (put_worker k (case mg_workers m k of Some w \<Rightarrow> w | None \<Rightarrow> newWorker k) m)
          \<lparr>mg_handles := mg_handles m @ [newHandle kind body],
           mg_lock := LockChecked k (length (mg_handles m))\<rparr>)"
  by (cases run) (auto simp: enqueue_begin_def Let_def)

lemma order_inv_enqueue:
  assumes inv: "order_inv (m, tr)"
  shows "order_inv (snd (enqueue_begin k kind run m), tr)"
    and "enqueue_append m = Some m' \<Longrightarrow> order_inv (m', tr @ q_observe m EnqAppend)"
    and "enqueue_signal m = Some m' \<Longrightarrow> order_inv (m', tr)"
proof -
  let ?w = "case mg_workers m k of Some w \<Rightarrow> w | None \<Rightarrow> newWorker k"
  have "lane_order (mg_ctxDone m) tr k ?w"
    using inv by (auto simp: order_inv_def lane_order_new split: option.splits)
  then show "order_inv (snd (enqueue_begin k kind run m), tr)"
    using order_inv_lane_step [OF inv, of _ k ?w "[]"] inv
    by (auto simp: enqueue_begin_def put_worker_def Let_def split: option.splits)
  show "order_inv (m', tr @ q_observe m EnqAppend)" if app: "enqueue_append m = Some m'"
  proof -
    from app obtain j i w where l: "mg_lock m = LockChecked j i" and w: "mg_workers m j = Some w"
      and m': "mg_workers m' = (mg_workers m)(j \<mapsto> worker_enqueue i (h_kind (handle m i)) w)"
        "mg_ctxDone m' = mg_ctxDone m"
      by (auto simp: queue_ops split: lock_state.splits option.splits)
    have "lane_order (mg_ctxDone m) tr j w" using inv w by (simp add: order_inv_def)
    then have "lane_order (mg_ctxDone m) (tr @ [Queued j i]) j
        (worker_enqueue i (h_kind (handle m i)) w)"
      by (auto simp: worker_enqueue_def lane_defs split: worker_pc.splits)
    then show ?thesis
      using order_inv_lane_step [OF inv m'] l by (simp add: obs_key_def)
  qed
  show "order_inv (m', tr)" if sig: "enqueue_signal m = Some m'"
  proof -
    from sig obtain j w where w: "mg_workers m j = Some w"
      and m': "mg_workers m' = (mg_workers m)(j \<mapsto> worker_signal w)" "mg_ctxDone m' = mg_ctxDone m"
      by (auto simp: queue_ops split: lock_state.splits option.splits)
    have "lane_order (mg_ctxDone m) tr j w" using inv w by (simp add: order_inv_def)
    then have "lane_order (mg_ctxDone m) (tr @ []) j (worker_signal w)"
      by (simp add: worker_signal_def)
    then show ?thesis using order_inv_lane_step [OF inv m', of "[]"] by simp
  qed
qed

lemma order_inv_step:
  assumes "order_inv s" and "traced_step s e = Some s'"
  shows "order_inv s'"
proof -
  obtain m tr where s: "s = (m, tr)" by (cases s)
  from assms(2) obtain m' where step: "q_step m e = Some m'" and s': "s' = (m', tr @ q_observe m e)"
    by (auto simp: traced_step_def s)
  note inv = assms(1) [unfolded s]
  have "order_inv (m', tr @ q_observe m e)"
  proof (cases e)
    case (EnqBegin k kind run)
    then show ?thesis using step order_inv_enqueue(1) [OF inv] by (auto split: if_splits)
  next
    case EnqAppend
    then show ?thesis using step order_inv_enqueue(2) [OF inv] by simp
  next
    case EnqSignal
    then show ?thesis using step order_inv_enqueue(3) [OF inv] by simp
  next
    case (WStep k)
    then show ?thesis using step order_inv_worker_step [OF inv]
      by (auto simp: with_worker_def split: option.splits)
  next
    case (WFinish k b)
    then show ?thesis using step order_inv_other_worker_events(3) [OF inv]
      by (auto simp: with_worker_def split: option.splits)
  next
    case (WWake k)
    then show ?thesis using step order_inv_other_worker_events(1) [OF inv]
      by (auto simp: with_worker_def split: option.splits)
  next
    case (WSeeDone k)
    then show ?thesis using step order_inv_other_worker_events(2) [OF inv]
      by (auto simp: with_worker_def split: option.splits)
  qed (use step in \<open>auto simp: stop_mark_def cancel_def split: if_splits intro: order_inv_frame [OF inv]\<close>)
  then show ?thesis by (simp add: s')
qed

section \<open>Handles: identities, kinds and resolution\<close>

lemma resolve_simps [simp]:
  "h_kind (resolve err h) = h_kind h" "h_done (resolve err h)"
  "h_run (resolve err h) = h_run h"
  by (simp_all add: resolve_def)

lemma takeRun_simps [simp]:
  "h_kind (snd (takeRun h)) = h_kind h" "h_done (snd (takeRun h)) = h_done h"
  "h_err (snd (takeRun h)) = h_err h"
  by (simp_all add: takeRun_def)

lemma nth_update_proj:
  "f y = f (xs ! i) \<Longrightarrow> f (xs[i := y] ! j) = f (xs ! j)"
  by (cases "i < length xs"; cases "i = j") (auto simp: list_update_beyond)

fun step_key :: "q_event \<Rightarrow> string option" where
  "step_key (WStep k) = Some k"
| "step_key (WWake k) = Some k"
| "step_key (WSeeDone k) = Some k"
| "step_key (WFinish k b) = Some k"
| "step_key _ = None"

text \<open>Everything a worker's own step can do to the store of handles and to the lock.\<close>

lemma worker_event_frame:
  assumes "step_key e = Some k" and "q_step m e = Some m'"
  shows "mg_lock m' = mg_lock m" "mg_ctxDone m' = mg_ctxDone m" "mg_stopped m' = mg_stopped m"
    "length (mg_handles m') = length (mg_handles m)"
    "h_kind (handle m' i) = h_kind (handle m i)"
    "mg_workers m' = (mg_workers m)(k \<mapsto> the (mg_workers m' k))"
    "mg_workers m k \<noteq> None"
  using assms
  by (cases e; auto simp: with_worker_def queue_ops nth_update_proj
      split: option.splits worker_pc.splits list.splits if_splits)+

lemma worker_event_done:
  assumes "step_key e = Some k" and "q_step m e = Some m'"
    and "\<And>w h. mg_workers m k = Some w \<Longrightarrow> h \<in> set (unaccounted w) \<Longrightarrow> h < length (mg_handles m)"
  shows "h_done (handle m' i) \<longleftrightarrow> h_done (handle m i) \<or>
    Finished k i \<in> set (q_observe m e) \<or> Cancelled k i \<in> set (q_observe m e)"
  using assms(1,2) assms(3)
  by (cases e; cases "i < length (mg_handles m)";
      fastforce simp: with_worker_def queue_ops nth_update_proj nth_list_update unaccounted_def
      split: option.splits worker_pc.splits list.splits if_splits)

definition lock_ids :: "lock_state \<Rightarrow> nat list" where
  "lock_ids l = (case l of LockChecked k i \<Rightarrow> [i] | _ \<Rightarrow> [])"

definition ids_inv :: "Manager \<times> q_obs list \<Rightarrow> bool" where
  "ids_inv s \<longleftrightarrow>
     distinct (all_queued (snd s) @ lock_ids (mg_lock (fst s))) \<and>
     set (all_queued (snd s) @ lock_ids (mg_lock (fst s))) = {..<length (mg_handles (fst s))}"

definition resolved_in :: "q_obs list \<Rightarrow> nat \<Rightarrow> bool" where
  "resolved_in tr i \<longleftrightarrow> (\<exists>k. Finished k i \<in> set tr \<or> Cancelled k i \<in> set tr)"

definition done_inv :: "Manager \<times> q_obs list \<Rightarrow> bool" where
  "done_inv s \<longleftrightarrow>
     (\<forall>i < length (mg_handles (fst s)). h_done (handle (fst s) i) \<longleftrightarrow> resolved_in (snd s) i)"

definition count_inv :: "Manager \<times> q_obs list \<Rightarrow> bool" where
  "count_inv s \<longleftrightarrow>
     (\<forall>k w. mg_workers (fst s) k = Some w \<longrightarrow>
        w_moverBlocking w =
          int (length (filter (\<lambda>h. blocksMovers (h_kind (handle (fst s) h))) (unaccounted w))))"

definition wake_inv :: "Manager \<times> q_obs list \<Rightarrow> bool" where
  "wake_inv s \<longleftrightarrow>
     (\<forall>k w. mg_workers (fst s) k = Some w \<and> w_pc w = WIdle \<and> w_queue w \<noteq> [] \<longrightarrow>
        w_notify w \<or> mg_lock (fst s) = LockAppended k)"

lemma unaccounted_bound:
  assumes "order_inv (m, tr)" "ids_inv (m, tr)" "mg_workers m k = Some w" "h \<in> set (unaccounted w)"
  shows "h < length (mg_handles m)"
proof -
  have "h \<in> set (queued_on k tr)"
    using assms(1,3,4) unfolding order_inv_def lane_order_def fst_conv snd_conv by blast
  then have "h \<in> {..<length (mg_handles m)}"
    using assms(2) set_queued_on by (fastforce simp: ids_inv_def)
  then show ?thesis by simp
qed

section \<open>The whole invariant\<close>

definition queue_inv :: "Manager \<times> q_obs list \<Rightarrow> bool" where
  "queue_inv s \<longleftrightarrow> order_inv s \<and> ids_inv s \<and> done_inv s \<and> count_inv s \<and> wake_inv s"

lemma queue_inv_init: "queue_inv (NewManager, [])"
  using order_inv_init
  by (simp add: queue_inv_def ids_inv_def done_inv_def count_inv_def wake_inv_def
      NewManager_def lock_ids_def)

lemma worker_event_no_queueing:
  "step_key e = Some k \<Longrightarrow> all_queued (q_observe m e) = []"
  by (cases e) (auto split: option.splits worker_pc.splits list.splits)

lemma ids_inv_frame:
  "ids_inv (m, tr) \<Longrightarrow> mg_lock m' = mg_lock m \<Longrightarrow> mg_handles m' = mg_handles m \<Longrightarrow> ids_inv (m', tr)"
  by (simp add: ids_inv_def)

lemma ids_inv_step:
  assumes "ids_inv (m, tr)" and "q_step m e = Some m'"
  shows "ids_inv (m', tr @ q_observe m e)"
proof (cases "step_key e")
  case (Some k)
  note f = worker_event_frame [OF Some assms(2)]
  show ?thesis using assms(1) f(1,4) worker_event_no_queueing [OF Some, of m]
    by (simp add: ids_inv_def)
next
  case None
  show ?thesis
  proof (cases e)
    case (EnqBegin k kind run)
    then have free: "mg_lock m = LockFree" and m': "m' = snd (enqueue_begin k kind run m)"
      using assms(2) by (auto split: if_splits)
    have "distinct (all_queued tr)" "set (all_queued tr) = {..<length (mg_handles m)}"
      using assms(1) free by (simp_all add: ids_inv_def lock_ids_def)
    then show ?thesis
      using enqueue_begin_cases [of k kind run m, folded m'] free EnqBegin
      by (elim disjE exE conjE) (simp_all add: ids_inv_def lock_ids_def lessThan_Suc put_worker_def)
  next
    case EnqAppend
    then obtain k i where "mg_lock m = LockChecked k i" "mg_lock m' = LockAppended k"
        "mg_handles m' = mg_handles m"
      using assms(2) by (auto simp: queue_ops split: lock_state.splits option.splits)
    then show ?thesis using assms(1) EnqAppend by (simp add: ids_inv_def lock_ids_def)
  next
    case EnqSignal
    then obtain k where "mg_lock m = LockAppended k" "mg_lock m' = LockFree"
        "mg_handles m' = mg_handles m"
      using assms(2) by (auto simp: queue_ops split: lock_state.splits option.splits)
    then show ?thesis using assms(1) EnqSignal by (simp add: ids_inv_def lock_ids_def)
  qed (use None assms(2) in \<open>auto simp: stop_mark_def cancel_def split: if_splits
      intro: ids_inv_frame [OF assms(1)]\<close>)
qed

lemma resolved_in_append: "resolved_in (xs @ ys) i \<longleftrightarrow> resolved_in xs i \<or> resolved_in ys i"
  by (auto simp: resolved_in_def)

lemma worker_event_obs_key:
  "step_key e = Some k \<Longrightarrow> \<forall>ob \<in> set (q_observe m e). obs_key ob = k"
  by (cases e; cases "mg_workers m k")
    (auto simp: obs_key_def split: worker_pc.splits list.splits if_splits)

lemma done_inv_step:
  assumes ord: "order_inv (m, tr)" and ids: "ids_inv (m, tr)" and don: "done_inv (m, tr)"
    and step: "q_step m e = Some m'"
  shows "done_inv (m', tr @ q_observe m e)"
proof (cases "step_key e")
  case (Some k)
  note f = worker_event_frame [OF Some step]
  have "resolved_in (q_observe m e) i \<longleftrightarrow>
      Finished k i \<in> set (q_observe m e) \<or> Cancelled k i \<in> set (q_observe m e)" for i
    using worker_event_obs_key [OF Some, of m] by (fastforce simp: resolved_in_def obs_key_def)
  then show ?thesis
    using don worker_event_done [OF Some step unaccounted_bound [OF ord ids]] f(4)
    by (simp add: done_inv_def resolved_in_append)
next
  case None
  have fresh: "\<not> resolved_in tr i" if "length (mg_handles m) \<le> i" for i
  proof
    assume "resolved_in tr i"
    then obtain k where "i \<in> set (finished_on k tr) \<or> i \<in> set (cancelled_on k tr)"
      unfolding resolved_in_def by (auto simp: finished_on_iff cancelled_on_iff)
    then have "i \<in> set (queued_on k tr)"
      using ord by (cases "mg_workers m k") (auto simp: order_inv_def lane_order_def lane_silent_def)
    then have "i \<in> {..<length (mg_handles m)}"
      using ids set_queued_on by (fastforce simp: ids_inv_def)
    with that show False by simp
  qed
  show ?thesis using None don step fresh
    by (cases e)
      (auto simp: done_inv_def resolved_in_append resolved_in_def queue_ops Let_def nth_append
        newHandle_def less_Suc_eq split: option.splits lock_state.splits if_splits)
qed

abbreviation blocking_count :: "Manager \<Rightarrow> nat list \<Rightarrow> int" where
  "blocking_count m hs \<equiv> int (length (filter (\<lambda>h. blocksMovers (h_kind (handle m h))) hs))"

lemma count_inv_worker_event:
  assumes cnt: "count_inv (m, tr)" and key: "step_key e = Some k" and step: "q_step m e = Some m'"
  shows "count_inv (m', tr')"
proof -
  note f = worker_event_frame [OF key step]
  from f(7) obtain w where w: "mg_workers m k = Some w" by auto
  then have old: "w_moverBlocking w = blocking_count m (unaccounted w)"
    using cnt by (simp add: count_inv_def)
  have "w_moverBlocking (the (mg_workers m' k)) = blocking_count m (unaccounted (the (mg_workers m' k)))"
    using key step w old
    by (cases e)
      (auto simp: with_worker_def queue_ops unaccounted_def
        split: worker_pc.splits list.splits if_splits)
  moreover obtain w' where ws: "mg_workers m' = (mg_workers m)(k \<mapsto> w')" using f(6) by blast
  ultimately show ?thesis
    using cnt by (auto simp: count_inv_def ws f(5))
qed

lemma unaccounted_enqueue: "unaccounted (worker_enqueue h kind w) = unaccounted w @ [h]"
  by (simp add: unaccounted_def worker_enqueue_def)

lemma unaccounted_signal: "unaccounted (w\<lparr>w_notify := b\<rparr>) = unaccounted w"
  by (simp add: unaccounted_def)

lemma worker_enqueue_count:
  "w_moverBlocking (worker_enqueue h kind w) =
     w_moverBlocking w + (if blocksMovers kind then 1 else 0)"
  by (simp add: worker_enqueue_def)

lemma count_inv_enqueue:
  assumes ord: "order_inv (m, tr)" and ids: "ids_inv (m, tr)" and cnt: "count_inv (m, tr)"
  shows "count_inv (snd (enqueue_begin k kind run m), tr)"
    and "enqueue_append m = Some m' \<Longrightarrow> count_inv (m', tr')"
    and "enqueue_signal m = Some m' \<Longrightarrow> count_inv (m', tr')"
proof -
  have same: "filter (\<lambda>h. blocksMovers (h_kind ((mg_handles m @ [x]) ! h))) (unaccounted w) =
      filter (\<lambda>h. blocksMovers (h_kind (handle m h))) (unaccounted w)"
    if "mg_workers m j = Some w" for x j w
    using unaccounted_bound [OF ord ids that] by (intro filter_cong) (auto simp: nth_append)
  have new: "unaccounted (newWorker j) = []" "w_moverBlocking (newWorker j) = 0" for j
    by (simp_all add: unaccounted_def newWorker_def)
  show "count_inv (snd (enqueue_begin k kind run m), tr)"
    using enqueue_begin_cases [of k kind run m]
  proof (elim disjE exE conjE)
    assume "snd (enqueue_begin k kind run m) = m"
    then show ?thesis using cnt by simp
  next
    fix body
    assume m': "snd (enqueue_begin k kind run m) =
      (put_worker k (case mg_workers m k of Some w \<Rightarrow> w | None \<Rightarrow> newWorker k) m)
          \<lparr>mg_handles := mg_handles m @ [newHandle kind body],
           mg_lock := LockChecked k (length (mg_handles m))\<rparr>"
    show ?thesis unfolding m' using cnt
      by (auto simp: count_inv_def put_worker_def same new split: option.splits)
  qed
  show "enqueue_append m = Some m' \<Longrightarrow> count_inv (m', tr')"
    using cnt
    by (auto simp: count_inv_def enqueue_append_def put_worker_def unaccounted_enqueue
        worker_enqueue_count split: lock_state.splits option.splits if_splits)
  show "enqueue_signal m = Some m' \<Longrightarrow> count_inv (m', tr')"
    using cnt
    by (auto simp: count_inv_def enqueue_signal_def put_worker_def unaccounted_signal
        worker_signal_def split: lock_state.splits option.splits if_splits)
qed

lemma count_inv_step:
  assumes "order_inv (m, tr)" "ids_inv (m, tr)" "count_inv (m, tr)" "q_step m e = Some m'"
  shows "count_inv (m', tr')"
proof (cases "step_key e")
  case (Some k)
  then show ?thesis using count_inv_worker_event assms(3,4) by blast
next
  case None
  have any: "count_inv (n, t) = count_inv (n, t')" for n t t' by (simp add: count_inv_def)
  show ?thesis
    using None assms(4) count_inv_enqueue [OF assms(1-3)] assms(3)
    by (cases e) (auto simp: any [of _ tr' tr] stop_mark_def cancel_def count_inv_def split: if_splits)
qed

lemma wake_invD:
  "wake_inv (m, tr) \<Longrightarrow> mg_workers m k = Some w \<Longrightarrow> w_pc w = WIdle \<Longrightarrow> w_queue w \<noteq> [] \<Longrightarrow>
     w_notify w \<or> mg_lock m = LockAppended k"
  by (simp add: wake_inv_def)

lemma wake_invI:
  "(\<And>k w. mg_workers m k = Some w \<Longrightarrow> w_pc w = WIdle \<Longrightarrow> w_queue w \<noteq> [] \<Longrightarrow> \<not> w_notify w \<Longrightarrow>
     mg_lock m = LockAppended k) \<Longrightarrow> wake_inv (m, tr)"
  by (auto simp: wake_inv_def)

lemma wake_inv_step:
  assumes wak: "wake_inv (m, tr)" and step: "q_step m e = Some m'"
  shows "wake_inv (m', tr')"
proof (cases "step_key e")
  case (Some k)
  note f = worker_event_frame [OF Some step]
  from f(7) obtain w where w: "mg_workers m k = Some w" by auto
  have "w_pc (the (mg_workers m' k)) = WIdle \<Longrightarrow> w_queue (the (mg_workers m' k)) = []"
    using Some step w
    by (cases e)
      (auto simp: with_worker_def queue_ops split: worker_pc.splits list.splits if_splits)
  moreover obtain w' where ws: "mg_workers m' = (mg_workers m)(k \<mapsto> w')" using f(6) by blast
  ultimately show ?thesis
    using wak by (auto simp: wake_inv_def ws f(1) split: if_splits)
next
  case None
  show ?thesis
  proof (cases e)
    case (EnqBegin k kind run)
    then have free: "mg_lock m = LockFree" and m': "m' = snd (enqueue_begin k kind run m)"
      using step by (auto split: if_splits)
    show ?thesis
      using enqueue_begin_cases [of k kind run m, folded m'] wak free
      by (elim disjE exE conjE)
        (auto simp: wake_inv_def put_worker_def newWorker_def split: option.splits if_splits)
  qed ((use None step wake_invD [OF wak] in \<open>fastforce simp: queue_ops intro!: wake_invI
      split: if_splits option.splits lock_state.splits\<close>)+)
qed

text \<open>
  Every reachable state of the machine satisfies the invariant: the generic lifting, interpreted
  on the queue.
\<close>

interpretation queue_machine: machine_invariant traced_step queue_inv "\<lambda>s e. True"
proof
  fix s e s'
  assume inv: "queue_inv s" and step: "traced_step s e = Some s'"
  obtain m tr where s: "s = (m, tr)" by (cases s)
  from step obtain m' where q: "q_step m e = Some m'" and s': "s' = (m', tr @ q_observe m e)"
    by (auto simp: traced_step_def s)
  from inv have i: "order_inv (m, tr)" "ids_inv (m, tr)" "done_inv (m, tr)" "count_inv (m, tr)"
      "wake_inv (m, tr)"
    by (simp_all add: queue_inv_def s)
  show "queue_inv s'"
    unfolding s' queue_inv_def
    using order_inv_step [OF i(1), of e] q ids_inv_step [OF i(2) q] done_inv_step [OF i(1-3) q]
      count_inv_step [OF i(1,2,4) q] wake_inv_step [OF i(5) q]
    by (auto simp: traced_step_def)
qed

lemma reachable_inv:
  "run_events traced_step (NewManager, []) es = Some s \<Longrightarrow> queue_inv s"
  using queue_machine.run_keeps_always queue_inv_init by blast

end
