(* ===== verification/Repo_Queue_Safety.thy ===== *)
theory Repo_Queue_Safety
  imports Repo_Queue_Invariant
begin

text \<open>
  What the package promises its callers, derived from the invariant: FIFO and mutual exclusion
  per repository, exactly-once resolution, the quiescence signal, no lost wake-up, the shutdown
  drain and its termination, and the one window in which a parent cancellation strands a handle.
\<close>

section \<open>The FIFO contract of a lane\<close>

text \<open>
  What the worker loop relies on: appending adds at the back, popping takes from the front,
  draining takes everything.
\<close>

locale fifo_lane =
  fixes contents :: "'w \<Rightarrow> 'h list"
    and enq :: "'h \<Rightarrow> 'w \<Rightarrow> 'w"
    and deq :: "'w \<Rightarrow> ('h \<times> 'w) option"
    and clear :: "'w \<Rightarrow> 'h list \<times> 'w"
  assumes contents_enq: "contents (enq h w) = contents w @ [h]"
    and deq_None: "deq w = None \<longleftrightarrow> contents w = []"
    and deq_Some: "deq w = Some (h, w') \<Longrightarrow> contents w = h # contents w'"
    and clear_all: "clear w = (hs, w') \<Longrightarrow> hs = contents w \<and> contents w' = []"
begin

fun deq_many :: "nat \<Rightarrow> 'w \<Rightarrow> 'h list \<times> 'w" where
  "deq_many 0 w = ([], w)"
| "deq_many (Suc n) w =
     (case deq w of None \<Rightarrow> ([], w)
      | Some (h, w') \<Rightarrow> (h # fst (deq_many n w'), snd (deq_many n w')))"

lemma contents_fold_enq: "contents (fold enq hs w) = contents w @ hs"
  by (induction hs arbitrary: w) (simp_all add: contents_enq)

lemma deq_many_in_order:
  "fst (deq_many n w) = take n (contents w) \<and> contents (snd (deq_many n w)) = drop n (contents w)"
proof (induction n arbitrary: w)
  case 0
  then show ?case by simp
next
  case (Suc n)
  show ?case
  proof (cases "deq w")
    case None
    then show ?thesis using deq_None [of w] by simp
  next
    case (Some p)
    obtain h w' where p: "p = (h, w')" by (cases p)
    with Some have "contents w = h # contents w'" by (simp add: deq_Some)
    then show ?thesis using Suc.IH [of w'] Some p by simp
  qed
qed

lemma served_in_arrival_order:
  "contents w = [] \<Longrightarrow> fst (deq_many (length hs) (fold enq hs w)) = hs"
  using deq_many_in_order by (simp add: contents_fold_enq)

end

interpretation worker_lane: fifo_lane w_queue "\<lambda>h w. worker_enqueue h kind w" pop drain
  for kind
  by unfold_locales
    (auto simp: worker_enqueue_def pop_def drain_def split: list.splits)

section \<open>From the invariant to the promises of the package\<close>

lemma lane_of_run:
  assumes "run_events traced_step (NewManager, []) es = Some (m, tr)"
  obtains (silent) "mg_workers m k = None" "lane_silent tr k"
    | (lane) w where "mg_workers m k = Some w" "lane_order (mg_ctxDone m) tr k w"
  using reachable_inv [OF assms]
  by (cases "mg_workers m k") (auto simp: queue_inv_def order_inv_def)

lemma run_ids_distinct:
  assumes "run_events traced_step (NewManager, []) es = Some (m, tr)"
  shows "distinct (all_queued tr)" "i \<in> set (all_queued tr) \<Longrightarrow> i < length (mg_handles m)"
  using reachable_inv [OF assms] by (auto simp: queue_inv_def ids_inv_def)

lemma observe_at_most_one: "length (q_observe m e) \<le> 1"
  by (cases e) (auto split: option.splits worker_pc.splits list.splits lock_state.splits)

text \<open>A step emits at most one observation, so every prefix of a trace is the trace of a run.\<close>

lemma trace_prefix_run:
  "run_events traced_step (m0, tr0) es = Some (m, tr0 @ p @ q) \<Longrightarrow>
     \<exists>es' m'. run_events traced_step (m0, tr0) es' = Some (m', tr0 @ p)"
proof (induction es arbitrary: m q rule: rev_induct)
  case Nil
  then have "p = []" by simp
  then show ?case by (intro exI [of _ "[]"]) simp
next
  case (snoc e es)
  from run_events_snocD [OF snoc.prems] obtain m1 tr1 where
    r: "run_events traced_step (m0, tr0) es = Some (m1, tr1)"
    and t: "traced_step (m1, tr1) e = Some (m, tr0 @ p @ q)"
    by (metis surj_pair)
  from t have eq: "tr1 @ q_observe m1 e = tr0 @ p @ q"
    by (auto simp: traced_step_def)
  show ?case
  proof (cases "q = []")
    case True
    then show ?thesis using snoc.prems by auto
  next
    case False
    have "\<exists>q'. tr1 = tr0 @ p @ q'"
    proof (cases "q_observe m1 e = []")
      case True
      then show ?thesis using eq by auto
    next
      case False
      then obtain x where "q_observe m1 e = [x]"
        using observe_at_most_one [of m1 e] by (cases "q_observe m1 e") auto
      then show ?thesis using eq \<open>q \<noteq> []\<close>
        by (metis append_assoc append_butlast_last_id butlast_append butlast_snoc)
    qed
    then show ?thesis using snoc.IH r by blast
  qed
qed

lemma fifo_prefix:
  assumes "run_events traced_step (NewManager, []) es = Some (m, tr)"
  shows "prefix (started_on k tr) (queued_on k tr)"
  using assms by (cases rule: lane_of_run [where k = k]) (auto simp: lane_silent_def lane_order_def)

lemma running_at_most_one: "length (running w) \<le> 1"
  by (simp add: running_def split: worker_pc.splits)

lemma started_finished:
  assumes "run_events traced_step (NewManager, []) es = Some (m, tr)"
  obtains r where "started_on k tr = finished_on k tr @ r" "length r \<le> 1"
  using assms
proof (cases rule: lane_of_run [where k = k])
  case silent
  then show ?thesis using that by (simp add: lane_silent_def)
next
  case (lane w)
  then show ?thesis using that running_at_most_one by (simp add: lane_order_def)
qed

lemma mutex:
  assumes run: "run_events traced_step (NewManager, []) es = Some (m, p @ Started k h' # q)"
    and h: "Started k h \<in> set p"
  shows "Finished k h \<in> set p"
proof -
  from run have "run_events traced_step (NewManager, []) es = Some (m, [] @ p @ (Started k h' # q))"
    by simp
  from trace_prefix_run [OF this] obtain es1 m1
    where r1: "run_events traced_step (NewManager, []) es1 = Some (m1, p)" by auto
  from run have "run_events traced_step (NewManager, []) es = Some (m, [] @ (p @ [Started k h']) @ q)"
    by simp
  from trace_prefix_run [OF this] obtain es2 m2
    where r2: "run_events traced_step (NewManager, []) es2 = Some (m2, p @ [Started k h'])" by auto
  obtain a where a: "started_on k p = finished_on k p @ a"
    using started_finished [OF r1] by blast
  obtain b where b: "started_on k p @ [h'] = finished_on k p @ b" "length b \<le> 1"
    using started_finished [OF r2, of k] by auto
  from a b have "a = []" by (cases a) auto
  with a h show ?thesis by (metis append_Nil2 finished_on_iff started_on_iff)
qed

lemma once:
  assumes run: "run_events traced_step (NewManager, []) es = Some (m, tr)"
  shows "distinct (finished_on k tr @ cancelled_on k tr)"
    and "Cancelled k i \<in> set tr \<Longrightarrow> Started k i \<notin> set tr"
    and "i < length (mg_handles m) \<Longrightarrow> h_done (handle m i) \<longleftrightarrow> resolved_in tr i"
proof -
  have "distinct (queued_on k tr)"
    using run_ids_distinct(1) [OF run] by (rule distinct_queued_on)
  then have d: "distinct (started_on k tr @ cancelled_on k tr) \<and>
      set (finished_on k tr) \<subseteq> set (started_on k tr) \<and> distinct (finished_on k tr)"
    by (cases rule: lane_of_run [OF run, where k = k]) (auto simp: lane_silent_def lane_order_def)
  then show "distinct (finished_on k tr @ cancelled_on k tr)" by auto
  show "Cancelled k i \<in> set tr \<Longrightarrow> Started k i \<notin> set tr"
    using d by (auto simp flip: started_on_iff cancelled_on_iff)
  show "i < length (mg_handles m) \<Longrightarrow> h_done (handle m i) \<longleftrightarrow> resolved_in tr i"
    using reachable_inv [OF run] by (simp add: queue_inv_def done_inv_def)
qed

lemma unresolved_where:
  assumes run: "run_events traced_step (NewManager, []) es = Some (m, tr)"
    and q: "Queued k i \<in> set tr" and nd: "\<not> h_done (handle m i)"
  obtains w where "mg_workers m k = Some w" "i \<in> set (running w @ pending w)"
    "lane_order (mg_ctxDone m) tr k w"
  using run
proof (cases rule: lane_of_run [where k = k])
  case silent
  then show ?thesis using q by (auto simp: lane_silent_def simp flip: queued_on_iff)
next
  case (lane w)
  have i: "i \<in> set (queued_on k tr)" using q by (simp add: queued_on_iff)
  then have "i < length (mg_handles m)"
    using run_ids_distinct(2) [OF run] set_queued_on by blast
  then have "\<not> resolved_in tr i" using once(3) [OF run] nd by simp
  then have "i \<notin> set (finished_on k tr)" "i \<notin> set (cancelled_on k tr)"
    by (auto simp: resolved_in_def finished_on_iff cancelled_on_iff)
  then show ?thesis using lane i that by (auto simp: lane_order_def)
qed

lemma unaccounted_subset: "set (running w @ pending w) \<subseteq> set (unaccounted w)"
  by (auto simp: running_def pending_def unaccounted_def split: worker_pc.splits)

lemma quiescence_counts:
  assumes run: "run_events traced_step (NewManager, []) es = Some (m, tr)"
    and w: "mg_workers m k = Some w"
  shows "QuiescenceRequired m k \<longleftrightarrow> (\<exists>h \<in> set (unaccounted w). blocksMovers (h_kind (handle m h)))"
proof -
  have "w_moverBlocking w = blocking_count m (unaccounted w)"
    using reachable_inv [OF run] w by (simp add: queue_inv_def count_inv_def)
  then show ?thesis
    using w length_filter_pos_iff [of "\<lambda>h. blocksMovers (h_kind (handle m h))" "unaccounted w"]
    by (simp add: QuiescenceRequired_def moverBlockingActive_def)
qed

lemma progress:
  assumes run: "run_events traced_step (NewManager, []) es = Some (m, tr)"
    and q: "Queued k i \<in> set tr" and nd: "\<not> h_done (handle m i)"
    and w: "mg_workers m k = Some w" "w_pc w \<noteq> WExited"
    and l: "mg_lock m \<noteq> LockAppended k"
  shows "\<exists>e m'. step_key e = Some k \<and> q_step m e = Some m'"
proof (cases "w_pc w")
  case WIdle
  from unresolved_where [OF run q nd] w have "i \<in> set (running w @ pending w)" by auto
  then have "w_queue w \<noteq> []" using WIdle by (auto simp: running_def pending_def)
  then have "w_notify w"
    using reachable_inv [OF run] w l WIdle wake_invD by (auto simp: queue_inv_def)
  then have "q_step m (WWake k) \<noteq> None" using w WIdle by (simp add: with_worker_def worker_wake_def)
  then show ?thesis by (intro exI [of _ "WWake k"]) auto
next
  case (WRunning h)
  then have "q_step m (WFinish k (Returns None)) \<noteq> None"
    using w by (simp add: with_worker_def runOne_finish_def)
  then show ?thesis by (intro exI [of _ "WFinish k (Returns None)"]) auto
qed (use w in \<open>(intro exI [of _ "WStep k"], auto simp: with_worker_def runWorker_step_def drain_def
      split: list.splits option.splits)+\<close>)

section \<open>Shutdown\<close>

definition drained :: "worker \<Rightarrow> bool" where
  "drained w = (case w_pc w of WDraining hs \<Rightarrow> True | WDrainResolved h hs \<Rightarrow> True | WExited \<Rightarrow> True
     | _ \<Rightarrow> False)"

definition stop_inv :: "Manager \<times> q_obs list \<Rightarrow> bool" where
  "stop_inv s \<longleftrightarrow>
     (mg_ctxDone (fst s) \<longrightarrow> mg_stopped (fst s)) \<and>
     (\<forall>k i. mg_lock (fst s) = LockChecked k i \<longrightarrow> \<not> mg_stopped (fst s)) \<and>
     (\<forall>k w. mg_workers (fst s) k = Some w \<longrightarrow> drained w \<longrightarrow> w_queue w = [])"

lemma stop_inv_step:
  assumes inv: "queue_inv (m, tr)" and stp: "stop_inv (m, tr)" and ne: "e \<noteq> ParentCancel"
    and step: "q_step m e = Some m'"
  shows "stop_inv (m', tr')"
proof (cases "step_key e")
  case (Some k)
  note f = worker_event_frame [OF Some step]
  from f(7) obtain w where w: "mg_workers m k = Some w" by auto
  have old: "drained w \<Longrightarrow> w_queue w = []" using stp w by (simp add: stop_inv_def)
  have "drained (the (mg_workers m' k)) \<Longrightarrow> w_queue (the (mg_workers m' k)) = []"
    using Some step w old
    by (cases e)
      (auto simp: with_worker_def queue_ops drained_def
        split: worker_pc.splits list.splits if_splits)
  moreover obtain w' where ws: "mg_workers m' = (mg_workers m)(k \<mapsto> w')" using f(6) by blast
  ultimately show ?thesis using stp by (auto simp: stop_inv_def ws f(1-3) split: if_splits)
next
  case None
  have sd: "shutting_down w \<Longrightarrow> mg_ctxDone m" if "mg_workers m k = Some w" for k w
    using inv that by (auto simp: queue_inv_def order_inv_def lane_order_def)
  show ?thesis
  proof (cases e)
    case (EnqBegin k kind run)
    then have m': "m' = snd (enqueue_begin k kind run m)" using step by (auto split: if_splits)
    show ?thesis using enqueue_begin_cases [of k kind run m, folded m'] stp
      by (elim disjE exE conjE)
        (auto simp: stop_inv_def put_worker_def newWorker_def drained_def split: option.splits if_splits)
  next
    case EnqAppend
    then obtain k i w where l: "mg_lock m = LockChecked k i" and w: "mg_workers m k = Some w"
      and m': "m' = (put_worker k (worker_enqueue i (h_kind (handle m i)) w) m)
               \<lparr>mg_lock := LockAppended k\<rparr>"
      using step by (auto simp: enqueue_append_def split: lock_state.splits option.splits)
    have "\<not> mg_ctxDone m" using stp l by (auto simp: stop_inv_def)
    then have "\<not> shutting_down w" using sd w by blast
    then show ?thesis using stp unfolding m'
      by (auto simp: stop_inv_def put_worker_def worker_enqueue_def shutting_down_def drained_def
          split: worker_pc.splits if_splits)
  qed (use None ne step stp in \<open>auto simp: stop_inv_def queue_ops drained_def
        split: if_splits option.splits lock_state.splits\<close>)
qed


interpretation stop_machine: machine_invariant traced_step "\<lambda>s. queue_inv s \<and> stop_inv s"
    "\<lambda>s e. e \<noteq> ParentCancel"
proof
  fix s e s'
  assume inv: "queue_inv s \<and> stop_inv s" and ne: "e \<noteq> ParentCancel"
    and step: "traced_step s e = Some s'"
  obtain m tr where s: "s = (m, tr)" by (cases s)
  from step obtain m' tr' where q: "q_step m e = Some m'" and s': "s' = (m', tr')"
    by (auto simp: traced_step_def s)
  show "queue_inv s' \<and> stop_inv s'"
    using stop_inv_step [of m tr e m' tr'] inv ne q queue_machine.step_keeps [of s e s'] step
    by (simp add: s s')
qed

lemma stop_run_inv:
  assumes "run_events traced_step (NewManager, []) es = Some s" and "ParentCancel \<notin> set es"
  shows "queue_inv s \<and> stop_inv s"
proof (rule stop_machine.run_keeps [OF _ _ assms(1)])
  show "queue_inv (NewManager, []) \<and> stop_inv (NewManager, [])"
    using queue_inv_init by (simp add: stop_inv_def NewManager_def)
  have "stop_machine.run_ok t es" for t
    using assms(2) by (induction es arbitrary: t) auto
  then show "stop_machine.run_ok (NewManager, []) es" .
qed

text \<open>The steps of a lane left to go once the base context is done.\<close>

definition shutdown_measure :: "worker \<Rightarrow> nat" where
  "shutdown_measure w = 2 * length (w_queue w) +
     (case w_pc w of WExited \<Rightarrow> 0 | WDraining hs \<Rightarrow> 2 * length hs + 1
      | WDrainResolved h hs \<Rightarrow> 2 * length hs + 2 | WDrain \<Rightarrow> 2 | WLoop \<Rightarrow> 3 | WCancelled h \<Rightarrow> 3
      | WIdle \<Rightarrow> 4 | WPopped h \<Rightarrow> 4 | WRan h \<Rightarrow> 4 | WPop \<Rightarrow> 5 | WRunning h \<Rightarrow> 5)"

lemma shutdown_step_decreases:
  assumes "mg_ctxDone m" "mg_workers m k = Some w" "step_key e = Some k" "q_step m e = Some m'"
  shows "shutdown_measure (the (mg_workers m' k)) < shutdown_measure w"
  using assms
  by (cases e)
    (auto simp: with_worker_def queue_ops shutdown_measure_def
      split: worker_pc.splits list.splits if_splits)

lemma shutdown_enabled_events:
  assumes "mg_ctxDone m" "mg_workers m k = Some w"
  shows "case w_pc w of
      WExited \<Rightarrow> True
    | WRunning h \<Rightarrow> (\<forall>b. q_step m (WFinish k b) \<noteq> None)
    | WIdle \<Rightarrow> q_step m (WSeeDone k) \<noteq> None
    | _ \<Rightarrow> q_step m (WStep k) \<noteq> None"
  using assms
  by (auto simp: with_worker_def worker_see_done_def runOne_finish_def runWorker_step_def drain_def
      split: worker_pc.splits list.splits option.splits)

text \<open>
  An Enqueue whose guard passed before the cancellation may still append its operation, which the
  lane then has to drain too.
\<close>

definition shutdown_credit :: "string \<Rightarrow> Manager \<Rightarrow> nat" where
  "shutdown_credit k m = (case mg_lock m of LockChecked k' i \<Rightarrow> if k' = k then 2 else 0 | _ \<Rightarrow> 0)"

definition shutdown_potential :: "string \<Rightarrow> Manager \<Rightarrow> worker \<Rightarrow> nat" where
  "shutdown_potential k m w = shutdown_measure w + shutdown_credit k m"

lemma shutdown_measure_enqueue [simp]:
  "shutdown_measure (worker_enqueue h kind w) = shutdown_measure w + 2"
  by (simp add: shutdown_measure_def worker_enqueue_def)

lemma shutdown_measure_signal [simp]: "shutdown_measure (worker_signal w) = shutdown_measure w"
  by (simp add: shutdown_measure_def worker_signal_def)

lemma shutdown_frame:
  assumes "mg_ctxDone m" "mg_workers m k = Some w" "q_step m e = Some m'" "step_key e \<noteq> Some k"
  obtains w' where "mg_ctxDone m'" "mg_workers m' k = Some w'"
    "shutdown_potential k m' w' \<le> shutdown_potential k m w"
proof (cases "step_key e")
  case (Some k')
  note f = worker_event_frame [OF Some assms(3)]
  from f(6) Some assms(4) have "mg_workers m' k = mg_workers m k" by (metis fun_upd_apply)
  then show ?thesis using that [of w] f(1,2) assms(1,2)
    by (simp add: shutdown_potential_def shutdown_credit_def)
next
  case None
  then have "mg_ctxDone m' \<and> (\<exists>w'. mg_workers m' k = Some w' \<and>
      shutdown_potential k m' w' \<le> shutdown_potential k m w)"
    using assms(1,2,3)
    by (cases e)
      (auto simp: enqueue_begin_def enqueue_append_def enqueue_signal_def stop_mark_def cancel_def
        put_worker_def shutdown_potential_def shutdown_credit_def
        split: option.splits lock_state.splits if_splits)
  then show ?thesis using that by blast
qed

lemma shutdown_own:
  assumes "mg_ctxDone m" "mg_workers m k = Some w" "q_step m e = Some m'" "step_key e = Some k"
  obtains w' where "mg_ctxDone m'" "mg_workers m' k = Some w'"
    "shutdown_potential k m' w' < shutdown_potential k m w"
proof -
  note f = worker_event_frame [OF assms(4,3)]
  obtain w' where w': "mg_workers m' k = Some w'" using f(6) by (metis fun_upd_same)
  have "shutdown_measure w' < shutdown_measure w"
    using shutdown_step_decreases [OF assms(1,2,4,3)] w' by simp
  then show ?thesis using that [OF _ w'] f(1,2) assms(1)
    by (simp add: shutdown_potential_def shutdown_credit_def)
qed

lemma shutdown_own_steps_bounded:
  "mg_ctxDone m \<Longrightarrow> mg_workers m k = Some w \<Longrightarrow> run_events q_step m es = Some m' \<Longrightarrow>
     \<exists>w'. mg_ctxDone m' \<and> mg_workers m' k = Some w' \<and>
       length (filter (\<lambda>e. step_key e = Some k) es) + shutdown_potential k m' w'
         \<le> shutdown_potential k m w"
proof (induction es arbitrary: m w)
  case Nil
  then show ?case by auto
next
  case (Cons e es)
  from Cons.prems(3) obtain m1 where m1: "q_step m e = Some m1" "run_events q_step m1 es = Some m'"
    by (auto split: option.splits)
  show ?case
  proof (cases "step_key e = Some k")
    case True
    obtain w1 where w1: "mg_ctxDone m1" "mg_workers m1 k = Some w1"
      "shutdown_potential k m1 w1 < shutdown_potential k m w"
      using shutdown_own [OF Cons.prems(1,2) m1(1) True] .
    from Cons.IH [OF w1(1,2) m1(2)] w1(3) True show ?thesis by auto
  next
    case False
    obtain w1 where w1: "mg_ctxDone m1" "mg_workers m1 k = Some w1"
      "shutdown_potential k m1 w1 \<le> shutdown_potential k m w"
      using shutdown_frame [OF Cons.prems(1,2) m1(1) False] .
    from Cons.IH [OF w1(1,2) m1(2)] w1(3) False show ?thesis by auto
  qed
qed

definition stranded_run :: "q_event list" where
  "stranded_run = [EnqBegin ''repo'' OpUnlock (Some 7), ParentCancel, WStep ''repo'', WStep ''repo'',
     WStep ''repo'', EnqAppend, EnqSignal]"

lemma stranded_state:
  "run_events q_step NewManager stranded_run =
     Some \<lparr>mg_handles = [newHandle OpUnlock 7],
       mg_workers = [''repo'' \<mapsto> \<lparr>w_key = ''repo'', w_queue = [0], w_notify = True,
          w_moverBlocking = 1, w_pc = WExited\<rparr>],
       mg_stopped = False, mg_ctxDone = True, mg_lock = LockFree\<rparr>"
  by (simp add: stranded_run_def NewManager_def queue_ops newHandle_def blocksMovers_def)

definition stranded :: "Manager \<Rightarrow> bool" where
  "stranded m \<longleftrightarrow> mg_ctxDone m \<and> mg_lock m = LockFree \<and>
     (\<forall>k w. mg_workers m k = Some w \<longrightarrow> w_pc w = WExited) \<and>
     (\<exists>h. mg_handles m = [h] \<and> \<not> h_done h) \<and> QuiescenceRequired m ''repo''"

interpretation stranded_machine: machine_invariant q_step stranded "\<lambda>s e. True"
proof
  fix m e m'
  assume s: "stranded m" and step: "q_step m e = Some m'"
  have dead: "step_key e = None"
    using s step
    by (cases e)
      (auto simp: stranded_def with_worker_def queue_ops split: option.splits worker_pc.splits)
  have ws: "mg_workers m' = mg_workers m \<and> mg_handles m' = mg_handles m \<and>
      mg_lock m' = mg_lock m \<and> mg_ctxDone m'"
    using s step dead
    by (cases e)
      (auto simp: stranded_def queue_ops Let_def split: option.splits if_splits)
  then show "stranded m'" using s by (simp add: stranded_def QuiescenceRequired_def)
qed

section \<open>Properties\<close>

text \<open>A concrete run used by the witnesses: two operations queued on one key, the first running.\<close>

definition two_ops :: "q_event list" where
  "two_ops = [EnqBegin ''r'' OpPrune (Some 1), EnqAppend, EnqSignal,
     EnqBegin ''r'' OpCheck (Some 2), EnqAppend, EnqSignal,
     WStep ''r'', WStep ''r'', WStep ''r'']"

definition two_ops_state :: Manager where
  "two_ops_state =
     \<lparr>mg_handles = [(newHandle OpPrune 1)\<lparr>h_run := None\<rparr>, newHandle OpCheck 2],
      mg_workers = [''r'' \<mapsto> \<lparr>w_key = ''r'', w_queue = [1], w_notify = True, w_moverBlocking = 1,
        w_pc = WRunning 0\<rparr>],
      mg_stopped = False, mg_ctxDone = False, mg_lock = LockFree\<rparr>"

definition two_ops_trace :: "q_obs list" where
  "two_ops_trace = [Queued ''r'' 0, Queued ''r'' 1, Started ''r'' 0]"

lemma two_ops_run:
  "run_events traced_step (NewManager, []) two_ops = Some (two_ops_state, two_ops_trace)"
  by (simp add: two_ops_def two_ops_state_def two_ops_trace_def traced_step_def NewManager_def
      queue_ops newHandle_def takeRun_def blocksMovers_def)

text \<open>
  C32: FIFO. Whatever the interleaving of producers, workers and shutdown, the operations started
  on a repository are a prefix of the operations queued on it, in queueing order.
\<close>

theorem queue_fifo:
  assumes "run_events traced_step (NewManager, []) es = Some (m, tr)"
  shows "prefix (started_on k tr) (queued_on k tr)"
  using assms by (rule fifo_prefix)

theorem queue_fifo_witness:
  "queued_on ''r'' two_ops_trace = [0, 1] \<and> started_on ''r'' two_ops_trace = [0] \<and>
   prefix (started_on ''r'' two_ops_trace) (queued_on ''r'' two_ops_trace)"
  using queue_fifo [OF two_ops_run, of "''r''"] by (simp add: two_ops_trace_def)

lemma finish_started:
  assumes run: "run_events traced_step (NewManager, []) es = Some (m, p @ Finished k h # q)"
  shows "Started k h \<in> set p" and "Finished k h \<notin> set p"
proof -
  from run have "run_events traced_step (NewManager, []) es = Some (m, [] @ (p @ [Finished k h]) @ q)"
    by simp
  from trace_prefix_run [OF this] obtain es1 m1
    where r: "run_events traced_step (NewManager, []) es1 = Some (m1, p @ [Finished k h])" by auto
  obtain a where "started_on k (p @ [Finished k h]) = finished_on k (p @ [Finished k h]) @ a"
    using started_finished [OF r] by blast
  then have "h \<in> set (started_on k p)" by simp
  then show "Started k h \<in> set p" by (simp add: started_on_iff)
  have "distinct (finished_on k (p @ [Finished k h]))"
    using once(1) [OF r, of k] by simp
  then show "Finished k h \<notin> set p" by (simp flip: finished_on_iff)
qed

text \<open>
  C33: mutual exclusion. In every run of the Manager, at every point of its trace: when an
  operation starts on a repository, every operation that started on it before has already
  finished; and an operation that finishes has started before and not finished yet. So the runs of
  one repository are disjoint intervals of the trace, and no two exclusive operations of one
  repository overlap.
\<close>

theorem queue_mutual_exclusion:
  assumes "run_events traced_step (NewManager, []) es = Some (m, p @ ev # q)"
  shows "(ev = Started k h' \<longrightarrow> (\<forall>h. Started k h \<in> set p \<longrightarrow> Finished k h \<in> set p)) \<and>
    (ev = Finished k h' \<longrightarrow> Started k h' \<in> set p \<and> Finished k h' \<notin> set p)"
  using mutex [of es m p k h' q] finish_started [of es m p k h' q] assms by blast

theorem queue_mutual_exclusion_witness:
  "\<exists>m. run_events traced_step (NewManager, [])
      (two_ops @ [WFinish ''r'' (Returns None), WStep ''r'', WStep ''r'', WStep ''r'', WStep ''r'']) =
        Some (m, (two_ops_trace @ [Finished ''r'' 0]) @ Started ''r'' 1 # []) \<and>
      Finished ''r'' 0 \<in> set (two_ops_trace @ [Finished ''r'' 0]) \<and>
      Started ''r'' 0 \<in> set two_ops_trace \<and> Finished ''r'' 0 \<notin> set two_ops_trace"
proof -
  obtain m where r: "run_events traced_step (NewManager, [])
      (two_ops @ [WFinish ''r'' (Returns None), WStep ''r'', WStep ''r'', WStep ''r'', WStep ''r'']) =
        Some (m, (two_ops_trace @ [Finished ''r'' 0]) @ Started ''r'' 1 # [])"
    by (simp add: run_events_append two_ops_run)
      (simp add: two_ops_state_def two_ops_trace_def traced_step_def queue_ops newHandle_def
        takeRun_def blocksMovers_def resolve_def safeRun_def)
  then have r': "run_events traced_step (NewManager, [])
      (two_ops @ [WFinish ''r'' (Returns None), WStep ''r'', WStep ''r'', WStep ''r'', WStep ''r'']) =
        Some (m, two_ops_trace @ Finished ''r'' 0 # [Started ''r'' 1])" by simp
  have "Started ''r'' 0 \<in> set (two_ops_trace @ [Finished ''r'' 0])"
    by (simp add: two_ops_trace_def)
  with queue_mutual_exclusion [OF r] queue_mutual_exclusion [OF r'] r show ?thesis by blast
qed

text \<open>
  C34: every handle is resolved at most once. In every run a handle is done exactly when the trace
  shows it finished or cancelled, no operation is both finished and cancelled or either of them
  twice, and an operation resolved as cancelled never ran.
\<close>

theorem handles_resolved_exactly_once:
  assumes "run_events traced_step (NewManager, []) es = Some (m, tr)"
    and "i < length (mg_handles m)"
  shows "(h_done (handle m i) \<longleftrightarrow> resolved_in tr i) \<and>
    distinct (finished_on k tr @ cancelled_on k tr) \<and>
    (Cancelled k i \<in> set tr \<longrightarrow> Started k i \<notin> set tr)"
  using once [OF assms(1)] assms(2) by blast

theorem handles_resolved_exactly_once_witness:
  "0 < length (mg_handles two_ops_state) \<and>
   (h_done (handle two_ops_state 0) \<longleftrightarrow> resolved_in two_ops_trace 0)"
  using handles_resolved_exactly_once [OF two_ops_run, of 0] by (simp add: two_ops_state_def)

lemma pending_needs_quiescence:
  assumes run: "run_events traced_step (NewManager, []) es = Some (m, tr)"
    and "Queued k i \<in> set tr" and "blocksMovers (h_kind (handle m i))" and "\<not> h_done (handle m i)"
  shows "QuiescenceRequired m k"
proof -
  from unresolved_where [OF run assms(2,4)] obtain w where "mg_workers m k = Some w"
    "i \<in> set (unaccounted w)" using unaccounted_subset by blast
  then show "QuiescenceRequired m k" using quiescence_counts [OF run] assms(3) by blast
qed

text \<open>
  The quiescence signal. As long as an operation that needs mover quiescence (an unlock or a
  prune) has been queued on a repository and is not resolved, whether it waits or runs, the
  repository asks for quiescence; and it never asks without such an operation having been queued.
\<close>

theorem quiescence_covers_blocking_ops:
  assumes run: "run_events traced_step (NewManager, []) es = Some (m, tr)"
  shows "(Queued k i \<in> set tr \<longrightarrow> blocksMovers (h_kind (handle m i)) \<longrightarrow> \<not> h_done (handle m i) \<longrightarrow>
      QuiescenceRequired m k) \<and>
    (QuiescenceRequired m k \<longrightarrow>
      (\<exists>j. Queued k j \<in> set tr \<and> blocksMovers (h_kind (handle m j))))"
proof (intro conjI impI)
  assume q: "Queued k i \<in> set tr" and b: "blocksMovers (h_kind (handle m i))"
    and nd: "\<not> h_done (handle m i)"
  show "QuiescenceRequired m k" using pending_needs_quiescence [OF run q b nd] .
next
  assume qr: "QuiescenceRequired m k"
  then obtain w where w: "mg_workers m k = Some w"
    by (auto simp: QuiescenceRequired_def split: option.splits)
  with qr obtain j where j: "j \<in> set (unaccounted w)" "blocksMovers (h_kind (handle m j))"
    using quiescence_counts [OF run] by blast
  have "lane_order (mg_ctxDone m) tr k w"
    using reachable_inv [OF run] w by (simp add: queue_inv_def order_inv_def)
  then have "j \<in> set (queued_on k tr)" using j unfolding lane_order_def by blast
  then show "\<exists>j. Queued k j \<in> set tr \<and> blocksMovers (h_kind (handle m j))"
    using j by (auto simp: queued_on_iff)
qed

theorem quiescence_covers_blocking_ops_witness:
  "QuiescenceRequired two_ops_state ''r''"
  using quiescence_covers_blocking_ops [OF two_ops_run, of "''r''" 0]
  by (simp add: two_ops_state_def two_ops_trace_def newHandle_def blocksMovers_def)

text \<open>
  No lost wake-up. While an operation queued on a repository is unresolved and its worker has
  not exited, the worker has an enabled step, unless the producer that appended the last operation
  is still about to signal.
\<close>

theorem no_lost_wakeup:
  assumes "run_events traced_step (NewManager, []) es = Some (m, tr)"
    and "Queued k i \<in> set tr" and "\<not> h_done (handle m i)"
    and "mg_workers m k = Some w" and "w_pc w \<noteq> WExited" and "mg_lock m \<noteq> LockAppended k"
  shows "\<exists>e m'. step_key e = Some k \<and> q_step m e = Some m'"
  using assms by (rule progress)

theorem no_lost_wakeup_witness:
  "\<exists>e m'. step_key e = Some ''r'' \<and> q_step two_ops_state e = Some m'"
proof -
  have "mg_workers two_ops_state ''r'' =
      Some \<lparr>w_key = ''r'', w_queue = [1], w_notify = True, w_moverBlocking = 1, w_pc = WRunning 0\<rparr>"
    by (simp add: two_ops_state_def)
  from no_lost_wakeup [OF two_ops_run _ _ this, of 0] show ?thesis
    by (simp add: two_ops_state_def two_ops_trace_def newHandle_def)
qed

text \<open>
  Stop leaves nobody waiting. If the queue was shut down through Stop, every worker has exited
  and no Enqueue is in progress, then every handle ever given out is resolved.
\<close>

theorem stop_resolves_every_handle:
  assumes run: "run_events traced_step (NewManager, []) es = Some (m, tr)"
    and no_parent: "ParentCancel \<notin> set es"
    and free: "mg_lock m = LockFree"
    and exited: "\<forall>k w. mg_workers m k = Some w \<longrightarrow> w_pc w = WExited"
  shows "\<forall>i < length (mg_handles m). h_done (handle m i)"
proof (intro allI impI)
  fix i assume i: "i < length (mg_handles m)"
  have inv: "queue_inv (m, tr)" and stp: "stop_inv (m, tr)"
    using stop_run_inv [OF run no_parent] by simp_all
  from inv i free have "i \<in> set (all_queued tr)"
    by (auto simp: queue_inv_def ids_inv_def lock_ids_def)
  then obtain k where k: "Queued k i \<in> set tr"
    using set_all_queued by (auto simp flip: queued_on_iff)
  show "h_done (handle m i)"
  proof (rule ccontr)
    assume nd: "\<not> h_done (handle m i)"
    obtain w where w: "mg_workers m k = Some w" "i \<in> set (running w @ pending w)"
      using unresolved_where [OF run k nd] by blast
    have "w_pc w = WExited" using exited w by blast
    moreover from this have "w_queue w = []" using stp w by (auto simp: stop_inv_def drained_def)
    ultimately show False using w(2) by (simp add: running_def pending_def)
  qed
qed

definition stopped_run :: "q_event list" where
  "stopped_run = [EnqBegin ''r'' OpInit (Some 1), EnqAppend, EnqSignal, StopMark, StopCancel,
     WStep ''r'', WStep ''r'', WStep ''r'', WStep ''r'', WStep ''r'']"

theorem stop_resolves_every_handle_witness:
  "\<exists>m tr. run_events traced_step (NewManager, []) stopped_run = Some (m, tr) \<and>
     length (mg_handles m) = 1 \<and> h_done (handle m 0) \<and>
     Handle_Wait (handle m 0) = Some (Some ContextCanceled)"
proof -
  let ?m = "\<lparr>mg_handles = [(newHandle OpInit 1)\<lparr>h_done := True, h_err := Some ContextCanceled\<rparr>],
      mg_workers = [''r'' \<mapsto> \<lparr>w_key = ''r'', w_queue = [], w_notify = True, w_moverBlocking = 0,
        w_pc = WExited\<rparr>],
      mg_stopped = True, mg_ctxDone = True, mg_lock = LockFree\<rparr>"
  have r: "run_events traced_step (NewManager, []) stopped_run =
      Some (?m, [Queued ''r'' 0, Cancelled ''r'' 0])"
    by (simp add: stopped_run_def traced_step_def NewManager_def queue_ops newHandle_def resolve_def
        blocksMovers_def)
  have "\<forall>i < length (mg_handles ?m). h_done (handle ?m i)"
    by (rule stop_resolves_every_handle [OF r]) (simp_all add: stopped_run_def)
  then show ?thesis using r by (simp add: Handle_Wait_def Handle_Err_def)
qed

text \<open>
  C39: the shutdown drain terminates. Take any schedule, with whatever else the Manager does in
  between, from a state in which the base context is done. The worker of a repository takes at
  most as many steps of its own as its measure counts, two more when an Enqueue whose guard passed
  before the cancellation is still about to append to its lane. And where the schedule ends, the
  worker has exited or its next step is enabled: when it is inside a run function, the return of
  that function is, whether it returns nothing, returns an error or panics.
\<close>

theorem shutdown_terminates:
  assumes "mg_ctxDone m" and "mg_workers m k = Some w" and "run_events q_step m es = Some m'"
  shows "length (filter (\<lambda>e. step_key e = Some k) es) \<le> shutdown_measure w + shutdown_credit k m \<and>
    (\<exists>w'. mg_workers m' k = Some w' \<and>
      (case w_pc w' of
         WExited \<Rightarrow> True
       | WRunning h \<Rightarrow> (\<forall>b. q_step m' (WFinish k b) \<noteq> None)
       | WIdle \<Rightarrow> q_step m' (WSeeDone k) \<noteq> None
       | _ \<Rightarrow> q_step m' (WStep k) \<noteq> None))"
proof -
  obtain w' where w': "mg_ctxDone m'" "mg_workers m' k = Some w'"
    and le: "length (filter (\<lambda>e. step_key e = Some k) es) + shutdown_potential k m' w'
      \<le> shutdown_potential k m w"
    using shutdown_own_steps_bounded [OF assms] by blast
  show ?thesis
    using le w'(2) shutdown_enabled_events [OF w'] by (auto simp: shutdown_potential_def)
qed

definition panicking_drain :: "q_event list" where
  "panicking_drain = [WFinish ''r'' (Panics ''boom''), WStep ''r'', WStep ''r'', WStep ''r'',
     WStep ''r'', WStep ''r'', WStep ''r'']"

theorem shutdown_terminates_witness:
  "\<exists>m' w'. run_events q_step (cancel two_ops_state) panicking_drain = Some m' \<and>
    length (filter (\<lambda>e. step_key e = Some ''r'') panicking_drain) \<le> 7 \<and>
    mg_workers m' ''r'' = Some w' \<and> w_pc w' = WExited"
proof -
  obtain m' w' where r: "run_events q_step (cancel two_ops_state) panicking_drain = Some m'"
    and e: "mg_workers m' ''r'' = Some w'" "w_pc w' = WExited"
    by (simp add: panicking_drain_def cancel_def two_ops_state_def with_worker_def queue_ops
        newHandle_def resolve_def safeRun_def takeRun_def blocksMovers_def)
  have "mg_ctxDone (cancel two_ops_state)" by (simp add: cancel_def)
  moreover obtain w where w: "mg_workers (cancel two_ops_state) ''r'' = Some w" "shutdown_measure w = 7"
    by (simp add: cancel_def two_ops_state_def shutdown_measure_def)
  moreover have "shutdown_credit ''r'' (cancel two_ops_state) = 0"
    by (simp add: cancel_def two_ops_state_def shutdown_credit_def)
  ultimately show ?thesis
    using shutdown_terminates [OF _ w(1) r] r e by auto
qed

text \<open>
  A cancellation of the parent context that falls between the guard and the append of an
  Enqueue strands the operation. There is a run after which the only worker has exited, no
  Enqueue is in progress, the accepted handle is unresolved and its repository asks movers for
  quiescence, and no continuation of that run ever changes any of this.
\<close>

theorem parent_cancel_strands_handle:
  "\<exists>m. run_events q_step NewManager stranded_run = Some m \<and> mg_lock m = LockFree \<and>
     \<not> h_done (handle m 0) \<and>
     (\<forall>es m'. run_events q_step m es = Some m' \<longrightarrow>
        \<not> h_done (handle m' 0) \<and> QuiescenceRequired m' ''repo'')"
proof -
  obtain m where r: "run_events q_step NewManager stranded_run = Some m" and s: "stranded m"
    by (simp add: stranded_state stranded_def newHandle_def QuiescenceRequired_def
        moverBlockingActive_def)
  have "\<not> h_done (handle m' 0) \<and> QuiescenceRequired m' ''repo''"
    if "run_events q_step m es = Some m'" for es m'
    using stranded_machine.run_keeps_always [OF _ s that] by (auto simp: stranded_def)
  then show ?thesis using r s by (auto simp: stranded_def)
qed

theorem parent_cancel_strands_handle_witness:
  "\<exists>m. run_events q_step NewManager stranded_run = Some m \<and> \<not> h_done (handle m 0)"
  using parent_cancel_strands_handle by blast

text \<open>
  Enqueue on every branch. A nil run function and a stopped queue are refused with their own
  errors and leave the state untouched; otherwise the new operation gets a fresh unresolved handle,
  stands last in the queue of its repository, wakes its worker and leaves every other repository
  alone.
\<close>

theorem enqueue_branches:
  "Enqueue k kind None m = (Inl ErrNilRun, m) \<and>
   (mg_stopped m \<or> mg_ctxDone m \<longrightarrow> Enqueue k kind (Some b) m = (Inl ErrStopped, m)) \<and>
   (\<not> mg_stopped m \<and> \<not> mg_ctxDone m \<longrightarrow>
      (let (r, m') = Enqueue k kind (Some b) m in
         r = Inr (length (mg_handles m)) \<and>
         mg_handles m' = mg_handles m @ [newHandle kind b] \<and>
         mg_lock m' = LockFree \<and>
         Len m' k = Suc (Len m k) \<and>
         (\<exists>w. mg_workers m' k = Some w \<and> last (w_queue w) = length (mg_handles m) \<and> w_notify w) \<and>
         (\<forall>k'. k' \<noteq> k \<longrightarrow> mg_workers m' k' = mg_workers m k')))"
  by (auto simp: Enqueue_def queue_ops Let_def Len_def worker_len_def split: option.splits)

theorem enqueue_branches_witness:
  "Enqueue ''r'' OpCheck (Some 3) (cancel NewManager) = (Inl ErrStopped, cancel NewManager) \<and>
   fst (Enqueue ''r'' OpCheck (Some 3) NewManager) = Inr 0"
  using enqueue_branches [of "''r''" OpCheck "cancel NewManager" 3]
    enqueue_branches [of "''r''" OpCheck NewManager 3]
  by (auto simp: cancel_def NewManager_def split: prod.splits)

end
