(* ===== verification/Api_Types.thy ===== *)
theory Api_Types
  imports Crystal_Prelude
begin

text \<open>
  The custom-resource data the components work on, from \<^verbatim>\<open>api/v1alpha1\<close>: the per-volume
  status, the Backup and ClusterBackup objects with the metadata the controllers read, and the
  small records of their status. Pointers to optional values are options; a Go map with string
  keys is a partial map, read with \<open>map_get\<close>, which answers the zero value for a missing
  key. Integer fields that are only stored and compared are plain integers; counters that
  the code increments keep their width.
\<close>

type_synonym string_map = "string \<rightharpoonup> string"

definition map_get :: "string_map \<Rightarrow> string \<Rightarrow> string" where
  "map_get m k = (case m k of None \<Rightarrow> [] | Some v \<Rightarrow> v)"

lemma map_get_upd [simp]: "map_get (m(k \<mapsto> v)) k' = (if k' = k then v else map_get m k')"
  by (simp add: map_get_def)

lemma map_get_empty [simp]: "map_get Map.empty k = []"
  by (simp add: map_get_def)

record VolumeStatus =
  Pvc :: string
  SnapshotID :: string
  SizeBytes :: int
  AddedBytes :: int
  Phase :: string
  Node :: string
  Reason :: string
  FirstAttemptAt :: "instant option"
  PhaseEnteredAt :: "instant option"

record FailureRecord =
  fr_Namespace :: string
  fr_Backup :: string
  fr_Message :: string

record BlockedReason =
  br_Reason :: string
  br_Namespaces :: i32
  br_WithDataAtCoordinate :: i32
  br_StampedByThisRun :: i32

text \<open>The condition record of the Kubernetes API, as the controllers read and write it.\<close>

record Condition =
  cond_Type :: string
  cond_Status :: string
  cond_Reason :: string
  cond_Message :: string
  cond_ObservedGeneration :: int
  cond_LastTransitionTime :: instant

record ObjectMeta =
  m_Namespace :: string
  m_Name :: string
  m_UID :: string
  m_Generation :: int
  m_CreationTimestamp :: "instant option"
  m_DeletionTimestamp :: "instant option"
  m_Finalizers :: "string list"
  m_Annotations :: string_map
  m_Labels :: string_map

record ManifestsStatus =
  ms_SnapshotID :: string
  ms_ResourceCount :: i32

record HookStatus =
  hs_Phase :: string
  hs_Pod :: string
  hs_Container :: string
  hs_Source :: string
  hs_Result :: string
  hs_OnError :: string
  hs_Message :: string
  hs_FinishedAt :: "instant option"

record BackupStatus =
  bs_Phase :: string
  bs_BackupTime :: "instant option"
  bs_CompletionTime :: "instant option"
  bs_Manifests :: "ManifestsStatus option"
  bs_Volumes :: "VolumeStatus list"
  bs_Hooks :: "HookStatus list"
  bs_PostHookAttempts :: i32
  bs_Conditions :: "Condition list"

record Backup =
  b_Meta :: ObjectMeta
  b_Status :: BackupStatus

record ClusterBackupStatus =
  cs_Phase :: string
  cs_StartTime :: "instant option"
  cs_CompletionTime :: "instant option"
  cs_NamespacesMatched :: i32
  cs_NamespacesSucceeded :: i32
  cs_NamespacesFailed :: i32
  cs_NamespacesBlocked :: i32
  cs_PVCsSucceeded :: i32
  cs_PVCsFailed :: i32
  cs_ClusterResourcesCaptured :: i32
  cs_ClusterManifests :: "ManifestsStatus option"
  cs_AddedBytes :: i64
  cs_Failures :: "FailureRecord list"
  cs_BlockedReasons :: "BlockedReason list"
  cs_Conditions :: "Condition list"

record ClusterBackup =
  cb_Meta :: ObjectMeta
  cb_Status :: ClusterBackupStatus

record RetentionSpec =
  KeepLast :: i32
  KeepHourly :: i32
  KeepDaily :: i32
  KeepWeekly :: i32
  KeepMonthly :: i32
  KeepYearly :: i32

record ErasureTarget =
  et_Tenant :: string
  et_Namespace :: string
  et_PVC :: string

end
