(* ===== verification/Status_Rollup.thy ===== *)
theory Status_Rollup
  imports Api_Types
begin

text \<open>
  The status package (\<^verbatim>\<open>internal/status\<close>): the phase vocabularies, the two roll-ups that turn
  per-volume phases into a Backup phase and child Backup phases into a ClusterBackup phase, the
  outcome tallies whose buckets must account for everything they were built from, the erasure
  record, and the capped failure list. The two tallies share one contract, the locale
  \<open>bucket_tally\<close>.
\<close>

section \<open>Phase vocabularies\<close>

abbreviation VolumePhasePending :: string where "VolumePhasePending \<equiv> ''Pending''"
abbreviation VolumePhaseSnapshotting :: string where "VolumePhaseSnapshotting \<equiv> ''Snapshotting''"
abbreviation VolumePhaseUploading :: string where "VolumePhaseUploading \<equiv> ''Uploading''"
abbreviation VolumePhaseCompleted :: string where "VolumePhaseCompleted \<equiv> ''Completed''"
abbreviation VolumePhaseSkipped :: string where "VolumePhaseSkipped \<equiv> ''Skipped''"
abbreviation VolumePhaseFailed :: string where "VolumePhaseFailed \<equiv> ''Failed''"

abbreviation BackupPhasePending :: string where "BackupPhasePending \<equiv> ''Pending''"
abbreviation BackupPhaseSnapshottingHooks :: string
  where "BackupPhaseSnapshottingHooks \<equiv> ''SnapshottingHooks''"
abbreviation BackupPhaseSnapshotting :: string where "BackupPhaseSnapshotting \<equiv> ''Snapshotting''"
abbreviation BackupPhaseUploading :: string where "BackupPhaseUploading \<equiv> ''Uploading''"
abbreviation BackupPhaseCompleted :: string where "BackupPhaseCompleted \<equiv> ''Completed''"
abbreviation BackupPhasePartiallyCompleted :: string
  where "BackupPhasePartiallyCompleted \<equiv> ''PartiallyCompleted''"
abbreviation BackupPhasePartiallyFailed :: string
  where "BackupPhasePartiallyFailed \<equiv> ''PartiallyFailed''"
abbreviation BackupPhaseFailed :: string where "BackupPhaseFailed \<equiv> ''Failed''"

abbreviation ClusterBackupPhasePending :: string where "ClusterBackupPhasePending \<equiv> ''Pending''"
abbreviation ClusterBackupPhaseRunning :: string where "ClusterBackupPhaseRunning \<equiv> ''Running''"
abbreviation ClusterBackupPhaseCompleted :: string
  where "ClusterBackupPhaseCompleted \<equiv> ''Completed''"
abbreviation ClusterBackupPhasePartiallyFailed :: string
  where "ClusterBackupPhasePartiallyFailed \<equiv> ''PartiallyFailed''"
abbreviation ClusterBackupPhaseFailed :: string where "ClusterBackupPhaseFailed \<equiv> ''Failed''"

abbreviation RestorePhaseCompleted :: string where "RestorePhaseCompleted \<equiv> ''Completed''"
abbreviation RestorePhasePartiallyFailed :: string
  where "RestorePhasePartiallyFailed \<equiv> ''PartiallyFailed''"
abbreviation RestorePhaseFailed :: string where "RestorePhaseFailed \<equiv> ''Failed''"

section \<open>Restores\<close>

definition IsTerminalRestorePhase :: "string \<Rightarrow> bool" where
  "IsTerminalRestorePhase phase =
     (phase = RestorePhaseCompleted \<or> phase = RestorePhasePartiallyFailed
      \<or> phase = RestorePhaseFailed)"

definition RollUpRestoreOutcomes :: "int \<Rightarrow> int \<Rightarrow> string" where
  "RollUpRestoreOutcomes completed failed =
     (if failed = 0 then RestorePhaseCompleted
      else if completed > 0 then RestorePhasePartiallyFailed
      else RestorePhaseFailed)"

section \<open>The volume roll-up\<close>

text \<open>The five loop variables of \<^verbatim>\<open>RollUpVolumePhases\<close> and one iteration of its switch.\<close>

record rollup_acc =
  acc_c :: nat
  acc_f :: nat
  anyUploading :: bool
  anySnapshotting :: bool
  anyPending :: bool

definition rollup_start :: rollup_acc where
  "rollup_start = \<lparr>acc_c = 0, acc_f = 0, anyUploading = False, anySnapshotting = False,
     anyPending = False\<rparr>"

definition rollup_step :: "rollup_acc \<Rightarrow> VolumeStatus \<Rightarrow> rollup_acc" where
  "rollup_step a v =
     (if Phase v = VolumePhaseUploading then a\<lparr>anyUploading := True\<rparr>
      else if Phase v = VolumePhaseSnapshotting then a\<lparr>anySnapshotting := True\<rparr>
      else if Phase v = VolumePhasePending \<or> Phase v = '''' then a\<lparr>anyPending := True\<rparr>
      else if Phase v = VolumePhaseCompleted then a\<lparr>acc_c := Suc (acc_c a)\<rparr>
      else if Phase v = VolumePhaseFailed then a\<lparr>acc_f := Suc (acc_f a)\<rparr>
      else a)"

definition RollUpVolumePhases :: "VolumeStatus list \<Rightarrow> string" where
  "RollUpVolumePhases volumes =
     (let n = length volumes; a = foldl rollup_step rollup_start volumes
      in if anyUploading a \<or> anySnapshotting a \<or> anyPending a then
           (if anyUploading a then BackupPhaseUploading
            else if anySnapshotting a then BackupPhaseSnapshotting
            else BackupPhasePending)
         else if n = 0 then BackupPhaseCompleted
         else if acc_f a = 0 then BackupPhaseCompleted
         else if acc_c a > 0 then BackupPhasePartiallyFailed
         else BackupPhaseFailed)"

section \<open>Namespace outcomes of a cluster run\<close>

datatype NamespaceOutcome =
  NamespaceInFlight | NamespaceSucceeded | NamespaceFailed | NamespaceBlocked

definition NamespaceOutcome_String :: "NamespaceOutcome \<Rightarrow> string" where
  "NamespaceOutcome_String oc =
     (case oc of NamespaceSucceeded \<Rightarrow> ''Succeeded'' | NamespaceFailed \<Rightarrow> ''Failed''
      | NamespaceBlocked \<Rightarrow> ''Blocked'' | _ \<Rightarrow> ''InFlight'')"

definition OutcomeForBackupPhase :: "string \<Rightarrow> NamespaceOutcome" where
  "OutcomeForBackupPhase phase =
     (if phase = BackupPhaseCompleted \<or> phase = BackupPhasePartiallyCompleted
      then NamespaceSucceeded
      else if phase = BackupPhaseFailed \<or> phase = BackupPhasePartiallyFailed
      then NamespaceFailed
      else NamespaceInFlight)"

definition OutcomesForBackupPhases :: "string list \<Rightarrow> NamespaceOutcome list" where
  "OutcomesForBackupPhases childPhases =
     foldl (\<lambda>out p. out @ [OutcomeForBackupPhase p]) [] childPhases"

record ClusterTally =
  ct_Namespaces :: i32
  ct_Succeeded :: i32
  ct_Failed :: i32
  ct_Blocked :: i32
  ct_InFlight :: i32

definition ClusterTally_Counted :: "ClusterTally \<Rightarrow> i32" where
  "ClusterTally_Counted t = ct_Succeeded t + ct_Failed t + ct_Blocked t + ct_InFlight t"

definition ClusterTally_SumsUp :: "ClusterTally \<Rightarrow> bool" where
  "ClusterTally_SumsUp t \<longleftrightarrow> ClusterTally_Counted t = ct_Namespaces t"

definition cluster_tally_bump :: "ClusterTally \<Rightarrow> NamespaceOutcome \<Rightarrow> ClusterTally" where
  "cluster_tally_bump t oc =
     (case oc of
        NamespaceSucceeded \<Rightarrow> t\<lparr>ct_Succeeded := ct_Succeeded t + 1\<rparr>
      | NamespaceFailed \<Rightarrow> t\<lparr>ct_Failed := ct_Failed t + 1\<rparr>
      | NamespaceBlocked \<Rightarrow> t\<lparr>ct_Blocked := ct_Blocked t + 1\<rparr>
      | NamespaceInFlight \<Rightarrow> t\<lparr>ct_InFlight := ct_InFlight t + 1\<rparr>)"

definition cluster_tally_zero :: "i32 \<Rightarrow> ClusterTally" where
  "cluster_tally_zero n = \<lparr>ct_Namespaces = n, ct_Succeeded = 0, ct_Failed = 0, ct_Blocked = 0,
     ct_InFlight = 0\<rparr>"

definition TallyNamespaceOutcomes :: "NamespaceOutcome list \<Rightarrow> ClusterTally" where
  "TallyNamespaceOutcomes outcomes =
     foldl cluster_tally_bump (cluster_tally_zero (of_nat (length outcomes))) outcomes"

definition RollUpNamespaceOutcomes :: "NamespaceOutcome list \<Rightarrow> string" where
  "RollUpNamespaceOutcomes outcomes =
     (if length outcomes = 0 then ClusterBackupPhasePending
      else let t = TallyNamespaceOutcomes outcomes in
        if 0 <s ct_InFlight t then ClusterBackupPhaseRunning
        else if ct_Failed t + ct_Blocked t = 0 then ClusterBackupPhaseCompleted
        else if ct_Succeeded t = 0 then ClusterBackupPhaseFailed
        else ClusterBackupPhasePartiallyFailed)"

definition RollUpBackupPhases :: "string list \<Rightarrow> string" where
  "RollUpBackupPhases childPhases = RollUpNamespaceOutcomes (OutcomesForBackupPhases childPhases)"

section \<open>Volume outcomes of a restore\<close>

datatype VolumeRestoreOutcome = VolumeRestoreInFlight | VolumeRestoreRestored | VolumeRestoreFailed

definition VolumeRestoreOutcome_String :: "VolumeRestoreOutcome \<Rightarrow> string" where
  "VolumeRestoreOutcome_String oc =
     (case oc of VolumeRestoreRestored \<Rightarrow> ''Restored'' | VolumeRestoreFailed \<Rightarrow> ''Failed''
      | _ \<Rightarrow> ''InFlight'')"

record RestoreTally =
  rt_Planned :: i32
  rt_Restored :: i32
  rt_Failed :: i32
  rt_InFlight :: i32

definition RestoreTally_Counted :: "RestoreTally \<Rightarrow> i32" where
  "RestoreTally_Counted t = rt_Restored t + rt_Failed t + rt_InFlight t"

definition RestoreTally_SumsUp :: "RestoreTally \<Rightarrow> bool" where
  "RestoreTally_SumsUp t \<longleftrightarrow> RestoreTally_Counted t = rt_Planned t"

definition RestoreTally_Settled :: "RestoreTally \<Rightarrow> i32" where
  "RestoreTally_Settled t = rt_Restored t + rt_Failed t"

definition restore_tally_bump :: "RestoreTally \<Rightarrow> VolumeRestoreOutcome \<Rightarrow> RestoreTally" where
  "restore_tally_bump t oc =
     (case oc of
        VolumeRestoreRestored \<Rightarrow> t\<lparr>rt_Restored := rt_Restored t + 1\<rparr>
      | VolumeRestoreFailed \<Rightarrow> t\<lparr>rt_Failed := rt_Failed t + 1\<rparr>
      | VolumeRestoreInFlight \<Rightarrow> t\<lparr>rt_InFlight := rt_InFlight t + 1\<rparr>)"

definition restore_tally_zero :: "i32 \<Rightarrow> RestoreTally" where
  "restore_tally_zero n = \<lparr>rt_Planned = n, rt_Restored = 0, rt_Failed = 0, rt_InFlight = 0\<rparr>"

definition TallyVolumeRestoreOutcomes :: "VolumeRestoreOutcome list \<Rightarrow> RestoreTally" where
  "TallyVolumeRestoreOutcomes outcomes =
     foldl restore_tally_bump (restore_tally_zero (of_nat (length outcomes))) outcomes"

section \<open>The erasure record\<close>

record ErasureRecord =
  er_Targeted :: i32
  er_Forgotten :: i32
  er_Remaining :: i32

definition ErasureRecord_Counted :: "ErasureRecord \<Rightarrow> i32" where
  "ErasureRecord_Counted r = er_Forgotten r + er_Remaining r"

definition ErasureRecord_SumsUp :: "ErasureRecord \<Rightarrow> bool" where
  "ErasureRecord_SumsUp r \<longleftrightarrow> ErasureRecord_Counted r = er_Targeted r"

definition ErasureScopeMeasured :: "i32 \<Rightarrow> ErasureRecord" where
  "ErasureScopeMeasured targeted =
     \<lparr>er_Targeted = targeted, er_Forgotten = 0, er_Remaining = targeted\<rparr>"

definition ErasureFullyForgotten :: "i32 \<Rightarrow> ErasureRecord" where
  "ErasureFullyForgotten targeted =
     \<lparr>er_Targeted = targeted, er_Forgotten = targeted, er_Remaining = 0\<rparr>"

definition ErasureResidueObserved :: "i32 \<Rightarrow> i32 \<Rightarrow> ErasureRecord" where
  "ErasureResidueObserved targeted remaining =
     (let forgotten = (if 0 <s targeted - remaining then targeted - remaining else 0)
      in \<lparr>er_Targeted = targeted, er_Forgotten = forgotten, er_Remaining = remaining\<rparr>)"

definition ErasureResidueUnverifiable :: "i32 \<Rightarrow> ErasureRecord" where
  "ErasureResidueUnverifiable targeted =
     \<lparr>er_Targeted = targeted, er_Forgotten = 0, er_Remaining = targeted\<rparr>"

section \<open>The capped failure list\<close>

definition DefaultFailureCap :: int where
  "DefaultFailureCap = 10"

definition AppendCappedFailure :: "'r list \<Rightarrow> 'r \<Rightarrow> int \<Rightarrow> 'r list" where
  "AppendCappedFailure failures r cap0 =
     (let cap = (if cap0 \<le> 0 then DefaultFailureCap else cap0)
      in if int (length failures) \<ge> cap then failures else failures @ [r])"

section \<open>The contract the two tallies share\<close>

text \<open>
  A tally starts from the length of the outcome list with every bucket empty and moves exactly
  one bucket per outcome. From that alone the buckets account for everything, in the wrap-around
  arithmetic of the counters' own width.
\<close>

locale bucket_tally =
  fixes zero :: "i32 \<Rightarrow> 't"
    and bump :: "'t \<Rightarrow> 'o \<Rightarrow> 't"
    and total :: "'t \<Rightarrow> i32"
    and counted :: "'t \<Rightarrow> i32"
  assumes total_zero: "total (zero n) = n"
    and counted_zero: "counted (zero n) = 0"
    and total_bump: "total (bump t x) = total t"
    and counted_bump: "counted (bump t x) = counted t + 1"
begin

lemma total_fold: "total (foldl bump t xs) = total t"
  by (induction xs arbitrary: t) (simp_all add: total_bump)

lemma counted_fold: "counted (foldl bump t xs) = counted t + of_nat (length xs)"
  by (induction xs arbitrary: t) (simp_all add: counted_bump algebra_simps)

lemma buckets_account_for_all:
  "counted (foldl bump (zero (of_nat (length xs))) xs) =
   total (foldl bump (zero (of_nat (length xs))) xs)"
  by (simp add: total_fold counted_fold total_zero counted_zero)

end

interpretation ns_tally: bucket_tally cluster_tally_zero cluster_tally_bump ct_Namespaces
    ClusterTally_Counted
  by unfold_locales
    (auto simp: cluster_tally_zero_def cluster_tally_bump_def ClusterTally_Counted_def
      split: NamespaceOutcome.splits)

interpretation vol_tally: bucket_tally restore_tally_zero restore_tally_bump rt_Planned
    RestoreTally_Counted
  by unfold_locales
    (auto simp: restore_tally_zero_def restore_tally_bump_def RestoreTally_Counted_def
      split: VolumeRestoreOutcome.splits)

section \<open>Each bucket counts its own outcome\<close>

definition outcome_count :: "'o \<Rightarrow> 'o list \<Rightarrow> i32" where
  "outcome_count x xs = of_nat (count_list xs x)"

lemma cluster_tally_bump_simps [tally_simps]:
  "cluster_tally_bump t NamespaceSucceeded = t\<lparr>ct_Succeeded := ct_Succeeded t + 1\<rparr>"
  "cluster_tally_bump t NamespaceFailed = t\<lparr>ct_Failed := ct_Failed t + 1\<rparr>"
  "cluster_tally_bump t NamespaceBlocked = t\<lparr>ct_Blocked := ct_Blocked t + 1\<rparr>"
  "cluster_tally_bump t NamespaceInFlight = t\<lparr>ct_InFlight := ct_InFlight t + 1\<rparr>"
  by (simp_all add: cluster_tally_bump_def)

lemma restore_tally_bump_simps [tally_simps]:
  "restore_tally_bump t VolumeRestoreRestored = t\<lparr>rt_Restored := rt_Restored t + 1\<rparr>"
  "restore_tally_bump t VolumeRestoreFailed = t\<lparr>rt_Failed := rt_Failed t + 1\<rparr>"
  "restore_tally_bump t VolumeRestoreInFlight = t\<lparr>rt_InFlight := rt_InFlight t + 1\<rparr>"
  by (simp_all add: restore_tally_bump_def)

lemma cluster_tally_fold:
  "foldl cluster_tally_bump t xs =
     t\<lparr>ct_Succeeded := ct_Succeeded t + outcome_count NamespaceSucceeded xs,
       ct_Failed := ct_Failed t + outcome_count NamespaceFailed xs,
       ct_Blocked := ct_Blocked t + outcome_count NamespaceBlocked xs,
       ct_InFlight := ct_InFlight t + outcome_count NamespaceInFlight xs\<rparr>"
proof (induction xs arbitrary: t)
  case Nil
  then show ?case by (simp add: outcome_count_def)
next
  case (Cons x xs)
  show ?case
    by (cases x)
      (simp_all add: Cons.IH cluster_tally_bump_simps outcome_count_def algebra_simps)
qed

lemma TallyNamespaceOutcomes_eq [tally_simps]:
  "TallyNamespaceOutcomes xs =
     \<lparr>ct_Namespaces = of_nat (length xs),
      ct_Succeeded = outcome_count NamespaceSucceeded xs,
      ct_Failed = outcome_count NamespaceFailed xs,
      ct_Blocked = outcome_count NamespaceBlocked xs,
      ct_InFlight = outcome_count NamespaceInFlight xs\<rparr>"
  by (simp add: TallyNamespaceOutcomes_def cluster_tally_fold cluster_tally_zero_def)

lemma restore_tally_fold:
  "foldl restore_tally_bump t xs =
     t\<lparr>rt_Restored := rt_Restored t + outcome_count VolumeRestoreRestored xs,
       rt_Failed := rt_Failed t + outcome_count VolumeRestoreFailed xs,
       rt_InFlight := rt_InFlight t + outcome_count VolumeRestoreInFlight xs\<rparr>"
proof (induction xs arbitrary: t)
  case Nil
  then show ?case by (simp add: outcome_count_def)
next
  case (Cons x xs)
  show ?case
    by (cases x)
      (simp_all add: Cons.IH restore_tally_bump_simps outcome_count_def algebra_simps)
qed

lemma TallyVolumeRestoreOutcomes_eq [tally_simps]:
  "TallyVolumeRestoreOutcomes xs =
     \<lparr>rt_Planned = of_nat (length xs),
      rt_Restored = outcome_count VolumeRestoreRestored xs,
      rt_Failed = outcome_count VolumeRestoreFailed xs,
      rt_InFlight = outcome_count VolumeRestoreInFlight xs\<rparr>"
  by (simp add: TallyVolumeRestoreOutcomes_def restore_tally_fold restore_tally_zero_def)

section \<open>What the roll-ups decide\<close>

definition in_progress :: "VolumeStatus \<Rightarrow> bool" where
  "in_progress v \<longleftrightarrow> Phase v \<in> {'''', VolumePhasePending, VolumePhaseSnapshotting,
     VolumePhaseUploading}"

lemma rollup_fold:
  "foldl rollup_step a vs =
     a\<lparr>acc_c := acc_c a + length (filter (\<lambda>v. Phase v = VolumePhaseCompleted) vs),
       acc_f := acc_f a + length (filter (\<lambda>v. Phase v = VolumePhaseFailed) vs),
       anyUploading := anyUploading a \<or> (\<exists>v \<in> set vs. Phase v = VolumePhaseUploading),
       anySnapshotting := anySnapshotting a \<or> (\<exists>v \<in> set vs. Phase v = VolumePhaseSnapshotting),
       anyPending := anyPending a \<or>
         (\<exists>v \<in> set vs. Phase v = VolumePhasePending \<or> Phase v = '''')\<rparr>"
proof (induction vs arbitrary: a)
  case Nil
  then show ?case by simp
next
  case (Cons v vs)
  show ?case unfolding foldl_Cons Cons.IH by (simp add: rollup_step_def)
qed

lemma RollUpVolumePhases_eq:
  "RollUpVolumePhases vs =
     (if \<exists>v \<in> set vs. Phase v = VolumePhaseUploading then BackupPhaseUploading
      else if \<exists>v \<in> set vs. Phase v = VolumePhaseSnapshotting then BackupPhaseSnapshotting
      else if \<exists>v \<in> set vs. in_progress v then BackupPhasePending
      else if \<not> (\<exists>v \<in> set vs. Phase v = VolumePhaseFailed) then BackupPhaseCompleted
      else if \<exists>v \<in> set vs. Phase v = VolumePhaseCompleted then BackupPhasePartiallyFailed
      else BackupPhaseFailed)"
proof -
  have f: "(length (filter P vs) = 0) = (\<not> (\<exists>v \<in> set vs. P v))" for P
    by (simp add: filter_empty_conv)
  have c: "(0 < length (filter P vs)) = (\<exists>v \<in> set vs. P v)" for P
    by (rule length_filter_pos_iff)
  have p: "(\<exists>v \<in> set vs. in_progress v) =
      ((\<exists>v \<in> set vs. Phase v = VolumePhaseUploading)
       \<or> (\<exists>v \<in> set vs. Phase v = VolumePhaseSnapshotting)
       \<or> (\<exists>v \<in> set vs. Phase v = VolumePhasePending \<or> Phase v = ''''))"
    by (auto simp: in_progress_def)
  show ?thesis
    unfolding RollUpVolumePhases_def rollup_fold Let_def p
    by (simp add: rollup_start_def f c del: length_0_conv length_greater_0_conv) auto
qed

lemma RollUpVolumePhases_CompletedD:
  "RollUpVolumePhases vs = BackupPhaseCompleted \<Longrightarrow> v \<in> set vs \<Longrightarrow>
     \<not> in_progress v \<and> Phase v \<noteq> VolumePhaseFailed"
  by (auto simp: RollUpVolumePhases_eq split: if_splits)

lemma RollUpVolumePhases_cases:
  "RollUpVolumePhases vs \<in> {BackupPhaseUploading, BackupPhaseSnapshotting, BackupPhasePending,
     BackupPhaseCompleted, BackupPhasePartiallyFailed, BackupPhaseFailed}"
  by (simp add: RollUpVolumePhases_eq)

lemma OutcomesForBackupPhases_map:
  "OutcomesForBackupPhases ps = map OutcomeForBackupPhase ps"
proof -
  have "foldl (\<lambda>out p. out @ [OutcomeForBackupPhase p]) acc ps =
      acc @ map OutcomeForBackupPhase ps" for acc
    by (induction ps arbitrary: acc) auto
  then show ?thesis by (simp add: OutcomesForBackupPhases_def)
qed

lemma outcome_count_pos_iff:
  "length xs < 2 ^ 31 \<Longrightarrow> 0 <s outcome_count x xs \<longleftrightarrow> x \<in> set xs"
  using count_le_length [of xs x]
  by (auto simp: outcome_count_def i32_of_nat_pos_iff count_list_0_iff simp flip: neq0_conv)

lemma outcome_count_0_iff:
  "length xs < 2 ^ 31 \<Longrightarrow> outcome_count x xs = 0 \<longleftrightarrow> x \<notin> set xs"
  using count_le_length [of xs x]
  by (auto simp: outcome_count_def i32_of_nat_eq_0_iff count_list_0_iff)

lemma outcome_count_add_0_iff:
  assumes "length xs < 2 ^ 31" and "x \<noteq> y"
  shows "outcome_count x xs + outcome_count y xs = 0 \<longleftrightarrow> x \<notin> set xs \<and> y \<notin> set xs"
proof -
  have "count_list xs x + count_list xs y < 2 ^ 32"
    using assms(1) count_le_length [of xs x] count_le_length [of xs y] by simp
  then show ?thesis
    by (simp add: outcome_count_def i32_of_nat_eq_0_iff count_list_0_iff flip: of_nat_add)
qed

lemma RollUpNamespaceOutcomes_eq:
  assumes "length xs < 2 ^ 31"
  shows "RollUpNamespaceOutcomes xs =
     (if xs = [] then ClusterBackupPhasePending
      else if NamespaceInFlight \<in> set xs then ClusterBackupPhaseRunning
      else if set xs \<subseteq> {NamespaceSucceeded} then ClusterBackupPhaseCompleted
      else if NamespaceSucceeded \<notin> set xs then ClusterBackupPhaseFailed
      else ClusterBackupPhasePartiallyFailed)"
proof -
  have "NamespaceInFlight \<notin> set xs \<Longrightarrow>
      (NamespaceFailed \<notin> set xs \<and> NamespaceBlocked \<notin> set xs) = (set xs \<subseteq> {NamespaceSucceeded})"
    by (metis (full_types) NamespaceOutcome.distinct NamespaceOutcome.exhaust empty_iff insert_iff
        subset_iff)
  then show ?thesis
    using assms
    by (simp add: RollUpNamespaceOutcomes_def TallyNamespaceOutcomes_eq outcome_count_pos_iff
        outcome_count_add_0_iff outcome_count_0_iff)
qed

lemma foldl_AppendCapped:
  assumes "0 < cap" and "int (length acc) \<le> cap"
  shows "foldl (\<lambda>fs r. AppendCappedFailure fs r cap) acc rs = take (nat cap) (acc @ rs)"
  using assms(2)
proof (induction rs arbitrary: acc)
  case Nil
  then show ?case by simp
next
  case (Cons r rs)
  show ?case
  proof (cases "int (length acc) = cap")
    case True
    then show ?thesis using Cons.IH [of acc] assms(1)
      by (simp add: AppendCappedFailure_def Let_def nat_eq_iff2)
  next
    case False
    with Cons.prems have "AppendCappedFailure acc r cap = acc @ [r]"
      using assms(1) by (simp add: AppendCappedFailure_def)
    then show ?thesis using Cons.IH [of "acc @ [r]"] Cons.prems False by simp
  qed
qed

section \<open>Properties\<close>

text \<open>
  The Backup phase is exactly determined by which volume phases occur. It is Completed
  precisely when nothing is in progress and nothing failed, Failed precisely when nothing is in
  progress, something failed and nothing completed, and PartiallyFailed precisely when a failure
  stands beside a completed volume; the in-progress phases follow the furthest-along volume.
\<close>

theorem volume_rollup_verdict:
  fixes vs :: "VolumeStatus list"
  defines "P \<equiv> Phase ` set vs"
    and "busy \<equiv> {'''', VolumePhasePending, VolumePhaseSnapshotting, VolumePhaseUploading}"
  shows "(RollUpVolumePhases vs = BackupPhaseCompleted \<longleftrightarrow>
            P \<inter> busy = {} \<and> VolumePhaseFailed \<notin> P)
       \<and> (RollUpVolumePhases vs = BackupPhaseFailed \<longleftrightarrow>
            P \<inter> busy = {} \<and> VolumePhaseFailed \<in> P \<and> VolumePhaseCompleted \<notin> P)
       \<and> (RollUpVolumePhases vs = BackupPhasePartiallyFailed \<longleftrightarrow>
            P \<inter> busy = {} \<and> VolumePhaseFailed \<in> P \<and> VolumePhaseCompleted \<in> P)
       \<and> (RollUpVolumePhases vs = BackupPhaseUploading \<longleftrightarrow> VolumePhaseUploading \<in> P)
       \<and> (RollUpVolumePhases vs = BackupPhaseSnapshotting \<longleftrightarrow>
            VolumePhaseSnapshotting \<in> P \<and> VolumePhaseUploading \<notin> P)"
proof -
  have "in_progress v = (Phase v \<in> busy)" for v
    by (simp add: in_progress_def busy_def)
  then have "(\<exists>v \<in> set vs. in_progress v) = (P \<inter> busy \<noteq> {})"
    by (auto simp: P_def)
  moreover have "(\<exists>v \<in> set vs. Phase v = p) = (p \<in> P)" for p
    by (auto simp: P_def)
  moreover have "VolumePhaseUploading \<in> P \<Longrightarrow> P \<inter> busy \<noteq> {}"
    and "VolumePhaseSnapshotting \<in> P \<Longrightarrow> P \<inter> busy \<noteq> {}"
    by (auto simp: busy_def)
  ultimately show ?thesis by (auto simp: RollUpVolumePhases_eq)
qed

text \<open>
  A Skipped volume is neutral. Removing every Skipped volume never changes the phase of the
  Backup, whatever stands beside it.
\<close>

theorem skipped_volumes_are_neutral:
  "RollUpVolumePhases (filter (\<lambda>v. Phase v \<noteq> VolumePhaseSkipped) vs) = RollUpVolumePhases vs"
proof -
  have "(\<exists>v \<in> set (filter (\<lambda>v. Phase v \<noteq> VolumePhaseSkipped) vs). Phase v = p) =
      (\<exists>v \<in> set vs. Phase v = p)" if "p \<noteq> VolumePhaseSkipped" for p
    using that by auto
  moreover have "(\<exists>v \<in> set (filter (\<lambda>v. Phase v \<noteq> VolumePhaseSkipped) vs). in_progress v) =
      (\<exists>v \<in> set vs. in_progress v)"
    by (auto simp: in_progress_def)
  ultimately show ?thesis by (simp add: RollUpVolumePhases_eq)
qed

text \<open>
  The counters of a cluster run and of a restore account for every outcome they were built
  from, even where the 32-bit counters wrap around, and each bucket counts exactly its outcome.
\<close>

theorem tallies_sum_up:
  "ClusterTally_SumsUp (TallyNamespaceOutcomes xs) \<and>
   RestoreTally_SumsUp (TallyVolumeRestoreOutcomes ys) \<and>
   ct_Failed (TallyNamespaceOutcomes xs) = of_nat (count_list xs NamespaceFailed) \<and>
   ct_Blocked (TallyNamespaceOutcomes xs) = of_nat (count_list xs NamespaceBlocked) \<and>
   rt_Failed (TallyVolumeRestoreOutcomes ys) = of_nat (count_list ys VolumeRestoreFailed) \<and>
   RestoreTally_Settled (TallyVolumeRestoreOutcomes ys) =
     of_nat (count_list ys VolumeRestoreRestored + count_list ys VolumeRestoreFailed)"
  using ns_tally.buckets_account_for_all [of xs] vol_tally.buckets_account_for_all [of ys]
  by (simp add: ClusterTally_SumsUp_def RestoreTally_SumsUp_def TallyNamespaceOutcomes_def [symmetric]
      TallyVolumeRestoreOutcomes_def [symmetric])
    (simp add: tally_simps outcome_count_def RestoreTally_Settled_def)

text \<open>
  A ClusterBackup is only announced Completed over fully protected namespaces. If the run's
  phase, rolled up from the phases of its children, themselves rolled up from their volumes, is
  Completed, then the run has children and no volume of any child failed or is still in progress.
\<close>

theorem cluster_completed_sound:
  assumes "length kids < 2 ^ 31"
    and "RollUpBackupPhases (map RollUpVolumePhases kids) = ClusterBackupPhaseCompleted"
  shows "kids \<noteq> [] \<and>
    (\<forall>vs \<in> set kids. \<forall>v \<in> set vs. \<not> in_progress v \<and> Phase v \<noteq> VolumePhaseFailed)"
proof -
  let ?os = "map (OutcomeForBackupPhase \<circ> RollUpVolumePhases) kids"
  have len: "length ?os < 2 ^ 31" using assms(1) by simp
  have roll: "RollUpNamespaceOutcomes ?os = ClusterBackupPhaseCompleted"
    using assms(2) by (simp add: RollUpBackupPhases_def OutcomesForBackupPhases_map)
  then have ne: "kids \<noteq> []" and all: "set ?os \<subseteq> {NamespaceSucceeded}"
    unfolding RollUpNamespaceOutcomes_eq [OF len] by (auto split: if_splits)
  have "RollUpVolumePhases vs = BackupPhaseCompleted" if "vs \<in> set kids" for vs
  proof -
    have "OutcomeForBackupPhase (RollUpVolumePhases vs) = NamespaceSucceeded"
      using all that by auto
    then show ?thesis
      using RollUpVolumePhases_cases [of vs] by (auto simp: OutcomeForBackupPhase_def)
  qed
  then show ?thesis
    using ne RollUpVolumePhases_CompletedD by blast
qed

definition completed_volume :: "string \<Rightarrow> VolumeStatus" where
  "completed_volume p = \<lparr>Pvc = p, SnapshotID = ''s'', SizeBytes = 1, AddedBytes = 1,
     Phase = VolumePhaseCompleted, Node = '''', Reason = '''', FirstAttemptAt = None,
     PhaseEnteredAt = None\<rparr>"

theorem cluster_completed_sound_witness:
  "RollUpBackupPhases (map RollUpVolumePhases [[completed_volume ''data''], []]) =
     ClusterBackupPhaseCompleted \<and>
   \<not> in_progress (completed_volume ''data'') \<and>
   Phase (completed_volume ''data'') \<noteq> VolumePhaseFailed"
proof -
  let ?kids = "[[completed_volume ''data''], []]"
  have l: "length ?kids < 2 ^ 31" by simp
  have r: "RollUpBackupPhases (map RollUpVolumePhases ?kids) = ClusterBackupPhaseCompleted"
    by (simp add: RollUpBackupPhases_def OutcomesForBackupPhases_map RollUpVolumePhases_eq
        in_progress_def completed_volume_def OutcomeForBackupPhase_def RollUpNamespaceOutcomes_eq)
  from cluster_completed_sound [OF l r] r show ?thesis by simp
qed

text \<open>
  An erasure record never overstates destruction. Every constructor keeps the record summing
  up, except a residue larger than the scope; then it claims that nothing was forgotten. A residue
  record never claims more than the scope minus what is still there.
\<close>

theorem erasure_record_honest:
  assumes "0 \<le>s targeted" and "0 \<le>s remaining"
  shows "ErasureRecord_SumsUp (ErasureScopeMeasured targeted) \<and>
    ErasureRecord_SumsUp (ErasureFullyForgotten targeted) \<and>
    ErasureRecord_SumsUp (ErasureResidueUnverifiable targeted) \<and>
    (ErasureRecord_SumsUp (ErasureResidueObserved targeted remaining) \<longleftrightarrow> remaining \<le>s targeted) \<and>
    sint (er_Forgotten (ErasureResidueObserved targeted remaining)) =
      max 0 (sint targeted - sint remaining)"
proof -
  have t: "0 \<le> sint targeted" "0 \<le> sint remaining"
    using assms by (simp_all add: word_sle_eq)
  have b: "sint targeted < 2 ^ 31" "sint remaining < 2 ^ 31"
    using sint_lt [of targeted] sint_lt [of remaining] by simp_all
  have d: "sint (targeted - remaining) = sint targeted - sint remaining"
    using t b by (simp add: sint_word_ariths signed_take_bit_int_eq_self)
  show ?thesis
    by (auto simp: ErasureRecord_SumsUp_def ErasureRecord_Counted_def ErasureScopeMeasured_def
        ErasureFullyForgotten_def ErasureResidueUnverifiable_def ErasureResidueObserved_def Let_def
        word_sless_alt word_sle_eq d intro: signed_word_eqI)
qed

theorem erasure_record_honest_witness:
  "er_Forgotten (ErasureResidueObserved 10 6) = 4 \<and>
   sint (er_Forgotten (ErasureResidueObserved 10 6)) = max 0 (sint (10 :: i32) - sint (6 :: i32))"
  using erasure_record_honest [of 10 6]
  by (simp add: word_sle_eq ErasureResidueObserved_def word_sless_alt)

text \<open>
  Recording failures one by one under a positive cap keeps exactly the first \<open>cap\<close>
  records, in order.
\<close>

lemma capped_failures_keep_first:
  assumes "0 < cap"
  shows "foldl (\<lambda>fs r. AppendCappedFailure fs r cap) [] rs = take (nat cap) rs"
  using foldl_AppendCapped [OF assms, of "[]" rs] assms by simp

section \<open>The phase furthest along\<close>

text \<open>
  The in-progress phases in the order the roll-up prefers them, as a linear order, so that the
  preference is a maximum.
\<close>

datatype progress = AtPending | AtSnapshotting | AtUploading

fun progress_rank :: "progress \<Rightarrow> nat" where
  "progress_rank AtPending = 0"
| "progress_rank AtSnapshotting = 1"
| "progress_rank AtUploading = 2"

instantiation progress :: linorder
begin

definition less_eq_progress :: "progress \<Rightarrow> progress \<Rightarrow> bool" where
  "less_eq_progress a b \<longleftrightarrow> progress_rank a \<le> progress_rank b"

definition less_progress :: "progress \<Rightarrow> progress \<Rightarrow> bool" where
  "less_progress a b \<longleftrightarrow> progress_rank a < progress_rank b"

instance
proof
  fix a b c :: progress
  show "a < b \<longleftrightarrow> a \<le> b \<and> \<not> b \<le> a" by (auto simp: less_eq_progress_def less_progress_def)
  show "a \<le> a" by (simp add: less_eq_progress_def)
  show "a \<le> b \<Longrightarrow> b \<le> c \<Longrightarrow> a \<le> c" by (simp add: less_eq_progress_def)
  show "a \<le> b \<Longrightarrow> b \<le> a \<Longrightarrow> a = b"
    by (cases a; cases b) (simp_all add: less_eq_progress_def)
  show "a \<le> b \<or> b \<le> a" by (auto simp: less_eq_progress_def)
qed

end

definition volume_progress :: "VolumeStatus \<Rightarrow> progress option" where
  "volume_progress v =
     (if Phase v = VolumePhaseUploading then Some AtUploading
      else if Phase v = VolumePhaseSnapshotting then Some AtSnapshotting
      else if Phase v = VolumePhasePending \<or> Phase v = [] then Some AtPending else None)"

fun progress_phase :: "progress \<Rightarrow> string" where
  "progress_phase AtPending = BackupPhasePending"
| "progress_phase AtSnapshotting = BackupPhaseSnapshotting"
| "progress_phase AtUploading = BackupPhaseUploading"

lemma rollup_furthest_along:
  assumes "P = {p. \<exists>v \<in> set vs. volume_progress v = Some p}" and "P \<noteq> {}"
  shows "RollUpVolumePhases vs = progress_phase (Max P)"
proof -
  have fin: "finite P" by (rule finite_subset [of _ "{AtPending, AtSnapshotting, AtUploading}"])
      (use progress.exhaust in auto)
  have vp: "volume_progress v = Some AtUploading \<longleftrightarrow> Phase v = VolumePhaseUploading"
    "volume_progress v = Some AtSnapshotting \<longleftrightarrow> Phase v = VolumePhaseSnapshotting"
    "(\<exists>p. volume_progress v = Some p) \<longleftrightarrow> in_progress v" for v
    by (simp_all add: volume_progress_def in_progress_def)
  have mem: "(AtUploading \<in> P) = (\<exists>v \<in> set vs. Phase v = VolumePhaseUploading)"
    "(AtSnapshotting \<in> P) = (\<exists>v \<in> set vs. Phase v = VolumePhaseSnapshotting)"
    unfolding assms(1) mem_Collect_eq vp by (rule refl)+
  have "P \<noteq> {} \<longleftrightarrow> (\<exists>v \<in> set vs. \<exists>p. volume_progress v = Some p)" unfolding assms(1) by blast
  then have ip: "\<exists>v \<in> set vs. in_progress v" using assms(2) vp(3) by blast
  have top: "Max P = p" if "p \<in> P" "\<And>q. q \<in> P \<Longrightarrow> q \<le> p" for p
    using that fin by (intro Max_eqI) auto
  have other: "p = AtPending" if "p \<in> P" "AtUploading \<notin> P" "AtSnapshotting \<notin> P" for p
    using that by (cases p) simp_all
  consider "AtUploading \<in> P" | "AtUploading \<notin> P" "AtSnapshotting \<in> P" | "P = {AtPending}"
    using assms(2) other by blast
  then show ?thesis
  proof cases
    case 1
    have le: "q \<le> AtUploading" for q by (cases q) (simp_all add: less_eq_progress_def)
    have "Max P = AtUploading" by (rule top [OF 1]) (rule le)
    then show ?thesis using 1 mem(1) by (simp add: RollUpVolumePhases_eq)
  next
    case 2
    have le: "q \<le> AtSnapshotting" if "q \<in> P" for q
      using that 2(1) by (cases q) (simp_all add: less_eq_progress_def)
    have "Max P = AtSnapshotting" by (rule top [OF 2(2)]) (rule le)
    then show ?thesis using 2 mem(1,2) by (simp add: RollUpVolumePhases_eq)
  next
    case 3
    then have "Max P = AtPending" by simp
    then show ?thesis using 3 mem ip by (simp add: RollUpVolumePhases_eq)
  qed
qed

end
