(* ===== verification/Go_Strings.thy ===== *)
theory Go_Strings
  imports Crystal_Prelude
begin

text \<open>
  The functions of Go's \<^verbatim>\<open>strings\<close> and \<^verbatim>\<open>strconv\<close> packages the modelled code
  calls, on byte strings: prefixes and suffixes, trimming, joining and splitting at a
  one-byte separator, cutting, replacement, and decimal formatting and parsing, each with the
  laws its callers rely on. Byte strings are HOL strings, one character per byte.
\<close>

section \<open>Prefixes, trimming\<close>

definition HasPrefix :: "string \<Rightarrow> string \<Rightarrow> bool" where
  "HasPrefix s p \<longleftrightarrow> prefix p s"

definition HasSuffix :: "string \<Rightarrow> string \<Rightarrow> bool" where
  "HasSuffix s p \<longleftrightarrow> suffix p s"

definition TrimPrefix :: "string \<Rightarrow> string \<Rightarrow> string" where
  "TrimPrefix s p = (if HasPrefix s p then drop (length p) s else s)"

definition TrimSuffix :: "string \<Rightarrow> string \<Rightarrow> string" where
  "TrimSuffix s p = (if HasSuffix s p then take (length s - length p) s else s)"

definition TrimLeft :: "string \<Rightarrow> string \<Rightarrow> string" where
  "TrimLeft s cutset = dropWhile (\<lambda>c. c \<in> set cutset) s"

definition TrimRight :: "string \<Rightarrow> string \<Rightarrow> string" where
  "TrimRight s cutset = rev (dropWhile (\<lambda>c. c \<in> set cutset) (rev s))"

definition Trim :: "string \<Rightarrow> string \<Rightarrow> string" where
  "Trim s cutset = TrimRight (TrimLeft s cutset) cutset"

text \<open>White space below 128, which is what the strings of the API types can hold.\<close>

definition ascii_space :: string where
  "ascii_space = [CHR 9, CHR 10, CHR 11, CHR 12, CHR 13, CHR 32]"

definition TrimSpace :: "string \<Rightarrow> string" where
  "TrimSpace s = Trim s ascii_space"

lemma HasPrefix_append [simp]: "HasPrefix (p @ s) p"
  by (simp add: HasPrefix_def)

lemma HasPrefix_same_append [simp]: "HasPrefix (p @ s) (p @ q) \<longleftrightarrow> HasPrefix s q"
  by (simp add: HasPrefix_def)

lemma HasPrefix_Nil [simp]: "HasPrefix s []"
  by (simp add: HasPrefix_def)

lemma HasPrefix_Cons [simp]: "HasPrefix (c # s) (d # p) \<longleftrightarrow> c = d \<and> HasPrefix s p"
  by (auto simp: HasPrefix_def)

lemma HasPrefix_Nil_Cons [simp]: "\<not> HasPrefix [] (d # p)"
  by (simp add: HasPrefix_def)

lemma TrimPrefix_append [simp]: "TrimPrefix (p @ s) p = s"
  by (simp add: TrimPrefix_def)

lemma TrimRight_last: "TrimRight s cs \<noteq> [] \<Longrightarrow> last (TrimRight s cs) \<notin> set cs"
  unfolding TrimRight_def by (metis hd_dropWhile last_rev rev_is_Nil_conv)

lemma TrimRight_prefix: "prefix (TrimRight s cs) s"
  unfolding TrimRight_def by (metis suffix_dropWhile suffix_to_prefix rev_rev_ident)

lemma TrimRight_id [simp]: "s = [] \<or> last s \<notin> set cs \<Longrightarrow> TrimRight s cs = s"
  unfolding TrimRight_def
  by (cases s rule: rev_cases) auto

lemma TrimRight_append_id [simp]: "t \<noteq> [] \<Longrightarrow> last t \<notin> set cs \<Longrightarrow> TrimRight (s @ t) cs = s @ t"
  by simp

lemma TrimRight_snoc [simp]: "TrimRight (s @ [c]) cs = (if c \<in> set cs then TrimRight s cs else s @ [c])"
  by (simp add: TrimRight_def)

lemma TrimRight_append_all: "set t \<subseteq> set cs \<Longrightarrow> TrimRight (s @ t) cs = TrimRight s cs"
  by (induction t rule: rev_induct) (simp_all flip: append_assoc)

lemma TrimRight_append_keep:
  "TrimRight t cs \<noteq> [] \<Longrightarrow> TrimRight (s @ t) cs = s @ TrimRight t cs"
  unfolding TrimRight_def by (induction t rule: rev_induct) (auto split: if_splits)

lemma Trim_hd: "Trim s cs \<noteq> [] \<Longrightarrow> hd (Trim s cs) \<notin> set cs"
proof -
  assume ne: "Trim s cs \<noteq> []"
  have "prefix (Trim s cs) (TrimLeft s cs)" unfolding Trim_def by (rule TrimRight_prefix)
  with ne have "hd (Trim s cs) = hd (TrimLeft s cs)" "TrimLeft s cs \<noteq> []"
    by (auto simp: prefix_def)
  then show ?thesis unfolding TrimLeft_def by (metis hd_dropWhile)
qed

lemma Trim_last: "Trim s cs \<noteq> [] \<Longrightarrow> last (Trim s cs) \<notin> set cs"
  unfolding Trim_def by (rule TrimRight_last)

lemma Trim_Nil_iff: "Trim s cs = [] \<longleftrightarrow> set s \<subseteq> set cs"
proof
  assume "Trim s cs = []"
  then have "set (TrimLeft s cs) \<subseteq> set cs"
    by (auto simp: Trim_def TrimRight_def dropWhile_eq_Nil_conv)
  moreover have "set (takeWhile (\<lambda>c. c \<in> set cs) s) \<subseteq> set cs"
    by (auto dest: set_takeWhileD)
  moreover have "set s = set (takeWhile (\<lambda>c. c \<in> set cs) s) \<union> set (TrimLeft s cs)"
    unfolding TrimLeft_def by (metis set_append takeWhile_dropWhile_id)
  ultimately show "set s \<subseteq> set cs" by simp
next
  assume "set s \<subseteq> set cs"
  then have "TrimLeft s cs = []" by (auto simp: TrimLeft_def dropWhile_eq_Nil_conv)
  then show "Trim s cs = []" by (simp add: Trim_def TrimRight_def)
qed

lemma Trim_decompose: "\<exists>p q. s = p @ Trim s cs @ q \<and> set p \<subseteq> set cs \<and> set q \<subseteq> set cs"
proof -
  let ?P = "\<lambda>c. c \<in> set cs"
  let ?l = "TrimLeft s cs"
  have "s = takeWhile ?P s @ ?l" by (simp add: TrimLeft_def)
  moreover have "?l = Trim s cs @ rev (takeWhile ?P (rev ?l))"
    unfolding Trim_def TrimRight_def by (metis rev_append rev_rev_ident takeWhile_dropWhile_id)
  ultimately show ?thesis
    by (metis set_rev set_takeWhileD subsetI)
qed

section \<open>Joining and splitting\<close>

fun Join :: "string list \<Rightarrow> string \<Rightarrow> string" where
  "Join [] sep = []"
| "Join [x] sep = x"
| "Join (x # y # xs) sep = x @ sep @ Join (y # xs) sep"

text \<open>\<^verbatim>\<open>strings.Split\<close> (and \<^verbatim>\<open>SplitSeq\<close>) at a separator of one byte.\<close>

fun Split :: "string \<Rightarrow> char \<Rightarrow> string list" where
  "Split [] sep = [[]]"
| "Split (c # s) sep =
     (if c = sep then [] # Split s sep
      else case Split s sep of [] \<Rightarrow> [[c]] | x # xs \<Rightarrow> (c # x) # xs)"

text \<open>\<^verbatim>\<open>strings.Cut\<close> at a separator of one byte: before, after, found.\<close>

fun Cut :: "string \<Rightarrow> char \<Rightarrow> string \<times> string \<times> bool" where
  "Cut [] sep = ([], [], False)"
| "Cut (c # s) sep =
     (if c = sep then ([], s, True)
      else case Cut s sep of (a, b, f) \<Rightarrow> (c # a, b, f))"

lemma Split_ne [simp]: "Split s sep \<noteq> []"
  by (cases s) (auto split: list.splits)

lemma Split_no_sep [simp]: "sep \<notin> set s \<Longrightarrow> Split s sep = [s]"
  by (induction s) auto

lemma Split_append_sep: "sep \<notin> set x \<Longrightarrow> Split (x @ sep # s) sep = x # Split s sep"
  by (induction x) auto

lemma Join_Cons: "xs \<noteq> [] \<Longrightarrow> Join (x # xs) sep = x @ sep @ Join xs sep"
  by (cases xs) auto

lemma Join_append: "xs \<noteq> [] \<Longrightarrow> ys \<noteq> [] \<Longrightarrow> Join (xs @ ys) sep = Join xs sep @ sep @ Join ys sep"
proof (induction xs)
  case (Cons x xs)
  then show ?case by (cases "xs = []") (simp_all add: Join_Cons)
qed simp

theorem Split_Join:
  "xs \<noteq> [] \<Longrightarrow> (\<And>x. x \<in> set xs \<Longrightarrow> sep \<notin> set x) \<Longrightarrow> Split (Join xs [sep]) sep = xs"
proof (induction xs)
  case (Cons x xs)
  then show ?case by (cases xs) (simp_all add: Split_append_sep)
qed simp

theorem Join_Split: "Join (Split s sep) [sep] = s"
proof (induction s)
  case (Cons c s)
  obtain x xs where xs: "Split s sep = x # xs" by (meson Split_ne neq_Nil_conv)
  with Cons show ?case by (cases xs) (auto simp: Join_Cons)
qed simp

lemma Split_elems: "x \<in> set (Split s sep) \<Longrightarrow> sep \<notin> set x"
  by (induction s arbitrary: x) (auto split: list.splits if_splits)

lemma Split_append: "Split (a @ sep # b) sep = Split a sep @ Split b sep"
proof (induction a)
  case (Cons c a)
  obtain x xs where "Split a sep = x # xs" by (meson Split_ne neq_Nil_conv)
  with Cons show ?case by simp
qed simp

lemma Split_hd_ne:
  assumes "s \<noteq> []" and "hd s \<noteq> sep"
  obtains x xs where "Split s sep = (hd s # x) # xs"
proof -
  obtain c t where s: "s = c # t" using assms(1) by (cases s) auto
  obtain y ys where "Split t sep = y # ys" by (meson Split_ne neq_Nil_conv)
  then show ?thesis using that assms s by simp
qed

lemma Cut_append_sep: "sep \<notin> set x \<Longrightarrow> Cut (x @ sep # s) sep = (x, s, True)"
  by (induction x) auto

lemma Cut_no_sep: "sep \<notin> set x \<Longrightarrow> Cut x sep = (x, [], False)"
  by (induction x) auto

lemma Cut_found: "Cut s sep = (a, b, True) \<Longrightarrow> s = a @ sep # b \<and> sep \<notin> set a"
  by (induction s arbitrary: a) (auto split: if_splits prod.splits)

lemma Cut_not_found: "Cut s sep = (a, b, False) \<Longrightarrow> s = a \<and> b = [] \<and> sep \<notin> set a"
  by (induction s arbitrary: a) (auto split: if_splits prod.splits)

section \<open>Containment and replacement\<close>

fun Contains :: "string \<Rightarrow> string \<Rightarrow> bool" where
  "Contains [] sub \<longleftrightarrow> sub = []"
| "Contains (c # s) sub \<longleftrightarrow> HasPrefix (c # s) sub \<or> Contains s sub"

lemma Contains_iff_sublist: "Contains s sub \<longleftrightarrow> sublist sub s"
  by (induction s) (auto simp: HasPrefix_def sublist_Cons_right)

text \<open>
  \<^verbatim>\<open>strings.ReplaceAll\<close> for a non-empty old string: non-overlapping occurrences from the
  left. The recursion drops at least one byte per call.
\<close>

function ReplaceAll :: "string \<Rightarrow> string \<Rightarrow> string \<Rightarrow> string" where
  "ReplaceAll s old new =
     (if s = [] then []
      else if old \<noteq> [] \<and> HasPrefix s old then new @ ReplaceAll (drop (length old) s) old new
      else hd s # ReplaceAll (tl s) old new)"
  by pat_completeness auto
termination
  by (relation "measure (\<lambda>(s, old, new). length s)") auto

declare ReplaceAll.simps [simp del]

lemma ReplaceAll_double_length:
  "length (ReplaceAll s [c, c] [c]) \<le> length s \<and>
   (Contains s [c, c] \<longrightarrow> length (ReplaceAll s [c, c] [c]) < length s)"
proof (induction s rule: length_induct)
  case (1 s)
  show ?case
  proof (cases s)
    case Nil
    then show ?thesis by (simp add: ReplaceAll.simps)
  next
    case (Cons a t)
    show ?thesis
    proof (cases "HasPrefix s [c, c]")
      case True
      then obtain r where s: "s = c # c # r" by (auto simp: HasPrefix_def prefix_def)
      with 1 have "length (ReplaceAll r [c, c] [c]) \<le> length r" by simp
      then show ?thesis using s by (subst (1 2) ReplaceAll.simps) simp
    next
      case False
      with Cons 1 show ?thesis by (subst (1 2) ReplaceAll.simps) auto
    qed
  qed
qed

section \<open>Decimal integers\<close>

definition digit_char :: "nat \<Rightarrow> char" where
  "digit_char d = char_of (48 + d)"

definition is_digit :: "char \<Rightarrow> bool" where
  "is_digit c \<longleftrightarrow> 48 \<le> (of_char c :: nat) \<and> (of_char c :: nat) \<le> 57"

definition digit_value :: "char \<Rightarrow> nat" where
  "digit_value c = of_char c - 48"

fun format_nat :: "nat \<Rightarrow> string" where
  "format_nat n =
     (if n < 10 then [digit_char n] else format_nat (n div 10) @ [digit_char (n mod 10)])"

declare format_nat.simps [simp del]

text \<open>\<^verbatim>\<open>strconv.FormatInt(i, 10)\<close>, and \<^verbatim>\<open>strconv.ParseInt(s, 10, 64)\<close> with \<open>None\<close>
  for a syntax or a range error.\<close>

definition FormatInt :: "int \<Rightarrow> string" where
  "FormatInt i = (if i < 0 then CHR ''-'' # format_nat (nat (- i)) else format_nat (nat i))"

definition parse_digits :: "string \<Rightarrow> nat option" where
  "parse_digits s =
     (if s \<noteq> [] \<and> list_all is_digit s
      then Some (foldl (\<lambda>n c. 10 * n + digit_value c) 0 s) else None)"

definition ParseInt :: "string \<Rightarrow> int option" where
  "ParseInt s =
     (let (neg, body) =
        (case s of
           [] \<Rightarrow> (False, [])
         | c # t \<Rightarrow> if c = CHR ''+'' then (False, t) else if c = CHR ''-'' then (True, t)
             else (False, s))
      in case parse_digits body of
           None \<Rightarrow> None
         | Some n \<Rightarrow>
             if \<not> neg \<and> int n \<ge> 2 ^ 63 then None
             else if neg \<and> int n > 2 ^ 63 then None
             else Some (if neg then - int n else int n))"

lemma of_char_digit_char: "d < 10 \<Longrightarrow> (of_char (digit_char d) :: nat) = 48 + d"
  by (simp add: digit_char_def)

lemma digit_char_digit [simp]: "d < 10 \<Longrightarrow> is_digit (digit_char d)"
  by (simp add: is_digit_def of_char_digit_char)

lemma digit_value_char [simp]: "d < 10 \<Longrightarrow> digit_value (digit_char d) = d"
  by (simp add: digit_value_def of_char_digit_char)

lemma format_nat_digits: "list_all is_digit (format_nat n)" "format_nat n \<noteq> []"
proof -
  show "list_all is_digit (format_nat n)"
    by (induction n rule: format_nat.induct) (subst format_nat.simps, auto)
  show "format_nat n \<noteq> []" by (subst format_nat.simps) auto
qed

lemma format_nat_value: "foldl (\<lambda>n c. 10 * n + digit_value c) 0 (format_nat n) = n"
  by (induction n rule: format_nat.induct) (subst format_nat.simps, auto)

lemma parse_digits_format_nat [simp]: "parse_digits (format_nat n) = Some n"
  by (simp add: parse_digits_def format_nat_digits format_nat_value)

lemma is_digit_not_sign: "is_digit c \<Longrightarrow> c \<noteq> CHR ''+'' \<and> c \<noteq> CHR ''-''"
  by (auto simp: is_digit_def)

theorem ParseInt_FormatInt:
  assumes "- (2 ^ 63) \<le> i" and "i < 2 ^ 63"
  shows "ParseInt (FormatInt i) = Some i"
proof (cases "i < 0")
  case True
  then show ?thesis using assms by (simp add: FormatInt_def ParseInt_def)
next
  case False
  obtain c t where ct: "format_nat (nat i) = c # t"
    using format_nat_digits(2) by (meson neq_Nil_conv)
  then have "is_digit c" using format_nat_digits(1) [of "nat i"] by simp
  with ct False assms show ?thesis
    using parse_digits_format_nat [of "nat i"]
    by (simp add: FormatInt_def ParseInt_def is_digit_not_sign)
qed

section \<open>Slash-separated paths\<close>

text \<open>
  The non-empty segments of a path, the specification both ways of building a repository address
  are compared with.
\<close>

definition path_segments :: "string \<Rightarrow> string list" where
  "path_segments s = filter (\<lambda>x. x \<noteq> []) (Split s (CHR ''/''))"

fun squeeze :: "string \<Rightarrow> string" where
  "squeeze [] = []"
| "squeeze (c # s) = (if c = CHR ''/'' \<and> s \<noteq> [] \<and> hd s = CHR ''/'' then squeeze s else c # squeeze s)"

lemma squeeze_Nil_iff [simp]: "squeeze s = [] \<longleftrightarrow> s = []"
  by (induction s) auto

lemma hd_squeeze [simp]: "hd (squeeze s) = hd s"
  by (induction s) auto

lemma squeeze_Cons_squeeze:
  "squeeze (c # s) =
     (if c = CHR ''/'' \<and> squeeze s \<noteq> [] \<and> hd (squeeze s) = CHR ''/'' then squeeze s
      else c # squeeze s)"
  by simp

lemma squeeze_Contains: "\<not> Contains s ''//'' \<Longrightarrow> squeeze s = s"
proof (induction s)
  case (Cons c s)
  then show ?case by (cases s) auto
qed simp

lemma squeeze_not_Contains: "\<not> Contains (squeeze s) ''//''"
proof (induction s)
  case (Cons c s)
  then show ?case by (cases "squeeze s") (auto simp: hd_squeeze simp flip: hd_squeeze [of s])
qed simp

lemma squeeze_ReplaceAll: "squeeze (ReplaceAll s ''//'' ''/'') = squeeze s"
proof (induction s rule: length_induct)
  case (1 s)
  show ?case
  proof (cases s)
    case Nil
    then show ?thesis by (simp add: ReplaceAll.simps)
  next
    case (Cons a t)
    show ?thesis
    proof (cases "HasPrefix s ''//''")
      case True
      then obtain r where s: "s = CHR ''/'' # CHR ''/'' # r" by (auto simp: HasPrefix_def prefix_def)
      with 1 have IH: "squeeze (ReplaceAll r ''//'' ''/'') = squeeze r" by simp
      have "ReplaceAll s ''//'' ''/'' = CHR ''/'' # ReplaceAll r ''//'' ''/''"
        using s by (subst ReplaceAll.simps) simp
      then show ?thesis
        using IH s by (cases "r = []") (simp_all add: squeeze_Cons_squeeze del: squeeze.simps)
    next
      case False
      then have "ReplaceAll s ''//'' ''/'' = a # ReplaceAll t ''//'' ''/''"
        using Cons by (subst ReplaceAll.simps) auto
      moreover have "squeeze (ReplaceAll t ''//'' ''/'') = squeeze t" using 1 Cons by simp
      ultimately show ?thesis using Cons by (simp add: squeeze_Cons_squeeze del: squeeze.simps)
    qed
  qed
qed

lemma TrimRight_Cons:
  "TrimRight (c # s) cs =
     (if TrimRight s cs = [] then if c \<in> set cs then [] else [c] else c # TrimRight s cs)"
proof (cases "\<forall>x \<in> set s. x \<in> set cs")
  case True
  then have "dropWhile (\<lambda>c. c \<in> set cs) (rev s @ [c]) = dropWhile (\<lambda>c. c \<in> set cs) [c]"
    by (intro dropWhile_append2) simp
  then show ?thesis using True by (auto simp: TrimRight_def)
next
  case False
  then have "dropWhile (\<lambda>c. c \<in> set cs) (rev s @ [c]) = dropWhile (\<lambda>c. c \<in> set cs) (rev s) @ [c]"
    by (auto intro: dropWhile_append1)
  then show ?thesis using False by (auto simp: TrimRight_def dropWhile_eq_Nil_conv)
qed

lemma path_segments_Nil [simp]: "path_segments [] = []"
  by (simp add: path_segments_def)

lemma path_segments_slash [simp]: "path_segments (CHR ''/'' # s) = path_segments s"
  by (simp add: path_segments_def)

lemma path_segments_append [simp]:
  "path_segments (a @ CHR ''/'' # b) = path_segments a @ path_segments b"
  by (simp add: path_segments_def Split_append)

lemma path_segments_Cons_slash:
  "c \<noteq> CHR ''/'' \<Longrightarrow> path_segments (c # CHR ''/'' # s) = [c] # path_segments s"
  by (simp add: path_segments_def)

lemma Join_segments_Cons:
  assumes "c \<noteq> CHR ''/''" and "s \<noteq> []" and "hd s \<noteq> CHR ''/''"
  shows "Join (path_segments (c # s)) ''/'' = c # Join (path_segments s) ''/''"
proof -
  obtain x xs where x: "Split s (CHR ''/'') = (hd s # x) # xs"
    using Split_hd_ne [OF assms(2,3)] by blast
  show ?thesis using assms(1) x
    by (cases "filter (\<lambda>x. x \<noteq> []) xs") (simp_all add: path_segments_def)
qed

lemma Join_segments_Nil_iff: "Join (path_segments s) ''/'' = [] \<longleftrightarrow> path_segments s = []"
proof -
  have "Join xs ''/'' = [] \<longleftrightarrow> xs = []" if "[] \<notin> set xs" for xs
    using that by (cases xs rule: list.exhaust; cases "tl xs") auto
  then show ?thesis by (simp add: path_segments_def)
qed

theorem TrimRight_squeeze:
  "TrimRight (squeeze s) ''/'' =
     (if s \<noteq> [] \<and> hd s = CHR ''/'' \<and> path_segments s \<noteq> [] then ''/'' else []) @
     Join (path_segments s) ''/''"
proof (induction s)
  case (Cons c s)
  show ?case
  proof (cases "s = [] \<or> hd s = CHR ''/''")
    case True
    then show ?thesis
    proof (cases s)
      case (Cons d t)
      then show ?thesis using True Cons.IH
        by (cases "path_segments t")
          (auto simp: TrimRight_Cons path_segments_Cons_slash Join_segments_Nil_iff)
    qed (auto simp: TrimRight_Cons path_segments_def TrimRight_def)
  next
    case False
    then show ?thesis
      using Cons.IH Join_segments_Cons [of c s] Join_segments_Nil_iff [of s]
      by (auto simp: TrimRight_Cons)
  qed
qed (simp add: TrimRight_def)

end
