(* ===== verification/Run_Coordinates.thy ===== *)
theory Run_Coordinates
  imports Status_Rollup Go_Strings
begin

text \<open>
  Who owns the Backup found at a run's coordinate (\<^verbatim>\<open>internal/controller/runname.go\<close>): the
  classification of an existing object as this run's own, adoptable, or foreign, the facts recorded
  about it, and the summary of the namespaces a run was blocked in. A missing creation
  timestamp is \<open>None\<close>; the textual form of a duration is an argument of the rendering.
\<close>

abbreviation AnnotationParentUID :: string where
  "AnnotationParentUID \<equiv> ''crystalbackup.io/parent-uid''"
abbreviation AnnotationProjected :: string where
  "AnnotationProjected \<equiv> ''crystalbackup.io/projected''"
abbreviation AnnotationProjectedValue :: string where "AnnotationProjectedValue \<equiv> ''true''"
abbreviation reasonRunNameCollision :: string where "reasonRunNameCollision \<equiv> ''RunNameCollision''"

datatype coordinateOwnership = coordinateMine | coordinateAdoptable | coordinateForeign

abbreviation coordinateCodeMine :: string where "coordinateCodeMine \<equiv> ''OwnChild''"
abbreviation coordinateCodeAdoptable :: string where "coordinateCodeAdoptable \<equiv> ''AdoptableUnstamped''"
abbreviation coordinateCodeForeignParent :: string where "coordinateCodeForeignParent \<equiv> ''ForeignParentUID''"
abbreviation coordinateCodeProjection :: string where "coordinateCodeProjection \<equiv> ''DiscoveryProjection''"
abbreviation coordinateCodeUnstampedTerminal :: string
  where "coordinateCodeUnstampedTerminal \<equiv> ''UnstampedTerminalChild''"
abbreviation coordinateCodeUnstampedWithResults :: string
  where "coordinateCodeUnstampedWithResults \<equiv> ''UnstampedWithResults''"

record coordinateReason =
  cr_Code :: string
  cr_Detail :: string
  cr_Stamp :: string
  cr_Phase :: string
  cr_HasResults :: bool
  cr_Skew :: duration
  cr_SkewKnown :: bool

definition isTerminalBackupPhase :: "string \<Rightarrow> bool" where
  "isTerminalBackupPhase phase \<longleftrightarrow>
     phase = BackupPhaseCompleted \<or> phase = BackupPhasePartiallyCompleted
     \<or> phase = BackupPhasePartiallyFailed \<or> phase = BackupPhaseFailed"

definition Facts :: "(duration \<Rightarrow> string) \<Rightarrow> coordinateReason \<Rightarrow> string" where
  "Facts duration_String r =
     (let phase = (if cr_Phase r = [] then ''none'' else cr_Phase r);
          data = (if cr_HasResults r then ''yes'' else ''no'');
          age = (if cr_SkewKnown r
                 then (if cr_Skew r \<ge> 0 then ''+'' else []) @ duration_String (cr_Skew r)
                 else ''unknown'')
      in ''class='' @ cr_Code r @ '' stamp='' @ cr_Stamp r @ '' phase='' @ phase @ '' data='' @ data
         @ '' age='' @ age)"

fun volumes_have_results :: "VolumeStatus list \<Rightarrow> bool" where
  "volumes_have_results [] = False"
| "volumes_have_results (v # vs) =
     (if SnapshotID v \<noteq> [] \<or> AddedBytes v > 0 then True else volumes_have_results vs)"

definition backupHasResults :: "Backup \<Rightarrow> bool" where
  "backupHasResults b =
     (if bs_BackupTime (b_Status b) \<noteq> None then True
      else volumes_have_results (bs_Volumes (b_Status b)))"

text \<open>\<^verbatim>\<open>Duration.Truncate\<close> rounds towards zero.\<close>

definition truncate_second :: "duration \<Rightarrow> duration" where
  "truncate_second d = sgn d * (\<bar>d\<bar> div seconds 1 * seconds 1)"

abbreviation annotation :: "Backup \<Rightarrow> string \<Rightarrow> string" where
  "annotation b k \<equiv> map_get (m_Annotations (b_Meta b)) k"

definition newCoordinateReason :: "Backup \<Rightarrow> string \<Rightarrow> instant option \<Rightarrow> coordinateReason" where
  "newCoordinateReason existing owner ownerCreated =
     (let stamped = annotation existing AnnotationParentUID;
          stamp = (if stamped \<noteq> [] then (if stamped = owner then ''mine'' else ''other'') else ''none'');
          skew = (case (ownerCreated, m_CreationTimestamp (b_Meta existing)) of
                    (Some o_t, Some e_t) \<Rightarrow> Some (truncate_second (time_sub e_t o_t))
                  | _ \<Rightarrow> None)
      in \<lparr>cr_Code = [], cr_Detail = [], cr_Stamp = stamp, cr_Phase = bs_Phase (b_Status existing),
          cr_HasResults = backupHasResults existing,
          cr_Skew = (case skew of None \<Rightarrow> 0 | Some d \<Rightarrow> d), cr_SkewKnown = (skew \<noteq> None)\<rparr>)"

definition classifyCoordinate ::
  "Backup \<Rightarrow> string \<Rightarrow> instant option \<Rightarrow> coordinateOwnership \<times> coordinateReason" where
  "classifyCoordinate existing owner ownerCreated =
     (let r = newCoordinateReason existing owner ownerCreated;
          stamped = annotation existing AnnotationParentUID
      in if stamped \<noteq> [] \<and> stamped = owner then (coordinateMine, r\<lparr>cr_Code := coordinateCodeMine\<rparr>)
         else if stamped \<noteq> [] then
           (coordinateForeign, r\<lparr>cr_Code := coordinateCodeForeignParent,
             cr_Detail := ''it was created by a different run (parent '' @ stamped @ '')''\<rparr>)
         else if annotation existing AnnotationProjected = AnnotationProjectedValue then
           (coordinateForeign, r\<lparr>cr_Code := coordinateCodeProjection,
             cr_Detail := ''it is a discovery projection of snapshots already in the repository''\<rparr>)
         else if isTerminalBackupPhase (bs_Phase (b_Status existing)) then
           (coordinateForeign, r\<lparr>cr_Code := coordinateCodeUnstampedTerminal,
             cr_Detail := ''it is the terminal record of an earlier backup (phase '' @
               bs_Phase (b_Status existing) @ '')''\<rparr>)
         else if backupHasResults existing then
           (coordinateForeign, r\<lparr>cr_Code := coordinateCodeUnstampedWithResults,
             cr_Detail := ''it already holds results this run did not produce''\<rparr>)
         else (coordinateAdoptable, r\<lparr>cr_Code := coordinateCodeAdoptable\<rparr>))"

section \<open>Blocked namespaces\<close>

record blockedNamespaceFacts =
  bf_reason :: string
  bf_dataAtCoordinate :: bool
  bf_stampedByRun :: bool

text \<open>
  The map from reasons to entries is an association list in order of first occurrence; Go's
  iteration order is arbitrary, but the result is sorted by the key, of which there is one entry
  each.
\<close>

definition count_blocked :: "blockedNamespaceFacts \<Rightarrow> BlockedReason \<Rightarrow> BlockedReason" where
  "count_blocked f e =
     e\<lparr>br_Namespaces := br_Namespaces e + 1,
       br_WithDataAtCoordinate := br_WithDataAtCoordinate e + (if bf_dataAtCoordinate f then 1 else 0),
       br_StampedByThisRun := br_StampedByThisRun e + (if bf_stampedByRun f then 1 else 0)\<rparr>"

fun bump_reason :: "blockedNamespaceFacts \<Rightarrow> BlockedReason list \<Rightarrow> BlockedReason list" where
  "bump_reason f [] =
     [count_blocked f \<lparr>br_Reason = bf_reason f, br_Namespaces = 0, br_WithDataAtCoordinate = 0,
        br_StampedByThisRun = 0\<rparr>]"
| "bump_reason f (e # es) =
     (if br_Reason e = bf_reason f then count_blocked f e # es else e # bump_reason f es)"

definition summariseBlockedReasons :: "blockedNamespaceFacts list \<Rightarrow> BlockedReason list" where
  "summariseBlockedReasons facts =
     (if facts = [] then []
      else sort_key br_Reason (foldl (\<lambda>m f. bump_reason f m) [] facts))"

definition blockedBreakdownLine :: "BlockedReason list \<Rightarrow> string" where
  "blockedBreakdownLine summary =
     Join (map (\<lambda>e. br_Reason e @ ''='' @ FormatInt (sint (br_Namespaces e))) summary) '', ''"

record runNameCollisionError =
  rc_Namespace :: string
  rc_Name :: string
  rc_Detail :: string
  rc_Facts :: string
  rc_Reason :: string
  rc_HasData :: bool

section \<open>Ownership\<close>

lemma volumes_have_results_iff:
  "volumes_have_results vs \<longleftrightarrow> (\<exists>v \<in> set vs. SnapshotID v \<noteq> [] \<or> AddedBytes v > 0)"
  by (induction vs) auto

text \<open>
  Ownership of a coordinate. An object is this run's own exactly when it carries this owner's
  stamp, and adoptable exactly when it carries no stamp, is no discovery projection, is not
  terminal, and holds no result of any kind (no backup time, no snapshot id, no added bytes);
  everything else is foreign. So no data an earlier run wrote can be adopted.
\<close>

theorem coordinate_ownership:
  assumes "owner \<noteq> []"
  shows "(fst (classifyCoordinate b owner created) = coordinateMine \<longleftrightarrow>
      annotation b AnnotationParentUID = owner) \<and>
    (fst (classifyCoordinate b owner created) = coordinateAdoptable \<longleftrightarrow>
      annotation b AnnotationParentUID = [] \<and> annotation b AnnotationProjected \<noteq> AnnotationProjectedValue \<and>
      OutcomeForBackupPhase (bs_Phase (b_Status b)) = NamespaceInFlight \<and>
      bs_BackupTime (b_Status b) = None \<and>
      (\<forall>v \<in> set (bs_Volumes (b_Status b)). SnapshotID v = [] \<and> AddedBytes v \<le> 0)) \<and>
    (fst (classifyCoordinate b owner created) \<noteq> coordinateForeign \<longrightarrow>
      cr_Stamp (snd (classifyCoordinate b owner created)) \<noteq> ''other'')"
proof -
  have "isTerminalBackupPhase p \<longleftrightarrow> OutcomeForBackupPhase p \<noteq> NamespaceInFlight" for p
    by (simp add: isTerminalBackupPhase_def OutcomeForBackupPhase_def)
  then show ?thesis
    using assms
    by (auto simp: classifyCoordinate_def newCoordinateReason_def backupHasResults_def
        volumes_have_results_iff Let_def linorder_not_le [symmetric])
qed

definition empty_backup :: Backup where
  "empty_backup = \<lparr>b_Meta = \<lparr>m_Namespace = ''shop'', m_Name = ''n-1'', m_UID = ''u'', m_Generation = 1,
     m_CreationTimestamp = Some 0, m_DeletionTimestamp = None, m_Finalizers = [], m_Annotations = Map.empty, m_Labels = Map.empty\<rparr>,
     b_Status = \<lparr>bs_Phase = [], bs_BackupTime = None, bs_CompletionTime = None, bs_Manifests = None, bs_Volumes = [],
         bs_Hooks = [], bs_PostHookAttempts = 0,
       bs_Conditions = []\<rparr>\<rparr>"

theorem coordinate_ownership_witness:
  "fst (classifyCoordinate empty_backup ''uid-1'' None) = coordinateAdoptable"
  using coordinate_ownership [of "''uid-1''" empty_backup None]
  by (simp add: empty_backup_def OutcomeForBackupPhase_def)

section \<open>The summary of blocked namespaces\<close>

lemma bump_reason_reasons:
  "br_Reason ` set (bump_reason f m) = insert (bf_reason f) (br_Reason ` set m)"
  by (induction m) (auto simp: count_blocked_def)

lemma bump_reason_distinct:
  "distinct (map br_Reason m) \<Longrightarrow> distinct (map br_Reason (bump_reason f m))"
proof (induction m)
  case (Cons e m)
  have "br_Reason (count_blocked f e) = br_Reason e" by (simp add: count_blocked_def)
  then show ?case using Cons bump_reason_reasons [of f m] by auto
qed simp

definition reason_entry :: "blockedNamespaceFacts list \<Rightarrow> string \<Rightarrow> BlockedReason" where
  "reason_entry fs r =
     (let g = filter (\<lambda>f. bf_reason f = r) fs
      in \<lparr>br_Reason = r, br_Namespaces = of_nat (length g),
          br_WithDataAtCoordinate = of_nat (length (filter bf_dataAtCoordinate g)),
          br_StampedByThisRun = of_nat (length (filter bf_stampedByRun g))\<rparr>)"

lemma bump_reason_entries:
  assumes "set m = reason_entry fs ` (bf_reason ` set fs)" and "distinct (map br_Reason m)"
  shows "set (bump_reason f m) = reason_entry (fs @ [f]) ` (bf_reason ` set (fs @ [f]))"
proof -
  have e: "reason_entry (fs @ [f]) r = (if r = bf_reason f then count_blocked f (reason_entry fs r)
      else reason_entry fs r)" for r
    by (simp add: reason_entry_def count_blocked_def)
  have r: "br_Reason (reason_entry fs r) = r" for r by (simp add: reason_entry_def)
  have hit: "set (bump_reason f m) =
      (\<lambda>x. if br_Reason x = bf_reason f then count_blocked f x else x) ` set m"
    if "bf_reason f \<in> br_Reason ` set m"
    using that assms(2)
  proof (induction m)
    case (Cons x m)
    show ?case
    proof (cases "br_Reason x = bf_reason f")
      case True
      with Cons.prems(2) have "\<forall>y \<in> set m. br_Reason y \<noteq> bf_reason f" by force
      then show ?thesis using True by force
    next
      case False
      with Cons show ?thesis by auto
    qed
  qed simp
  have miss: "set (bump_reason f m) = insert (reason_entry [f] (bf_reason f)) (set m)"
    if "bf_reason f \<notin> br_Reason ` set m"
    using that by (induction m) (auto simp: reason_entry_def count_blocked_def)
  show ?thesis
  proof (cases "bf_reason f \<in> bf_reason ` set fs")
    case True
    then have "bf_reason f \<in> br_Reason ` set m" using assms(1) r by force
    from hit [OF this] show ?thesis using True by (force simp: assms(1) e r)
  next
    case False
    have "filter (\<lambda>g. bf_reason g = bf_reason f) fs = []"
      using False by (simp add: filter_empty_conv) (metis imageI)
    then have n: "reason_entry (fs @ [f]) (bf_reason f) = reason_entry [f] (bf_reason f)"
      by (simp add: reason_entry_def)
    have "bf_reason f \<notin> br_Reason ` set m" using False assms(1) r by auto
    moreover have "reason_entry (fs @ [f]) ` (bf_reason ` set fs) = reason_entry fs ` (bf_reason ` set fs)"
      using False by (intro image_cong refl) (metis e)
    ultimately show ?thesis using miss n assms(1) by simp
  qed
qed

lemma summary_fold:
  "distinct (map br_Reason (foldl (\<lambda>m f. bump_reason f m) [] fs)) \<and>
   set (foldl (\<lambda>m f. bump_reason f m) [] fs) = reason_entry fs ` (bf_reason ` set fs)"
proof (induction fs rule: rev_induct)
  case (snoc f fs)
  then show ?case using bump_reason_distinct bump_reason_entries by auto
qed simp

text \<open>
  The blocked summary is a faithful breakdown. It has exactly one entry per reason that
  occurs, in strictly increasing order of the reason, and each entry counts the blocked
  namespaces with that reason, those with data at the coordinate, and those stamped by the
  run, in 32-bit arithmetic.
\<close>

theorem blocked_summary_breakdown:
  "sorted_wrt (\<lambda>a b. br_Reason a < br_Reason b) (summariseBlockedReasons facts) \<and>
   set (summariseBlockedReasons facts) = reason_entry facts ` (bf_reason ` set facts)"
proof (cases "facts = []")
  case False
  let ?m = "foldl (\<lambda>m f. bump_reason f m) [] facts"
  have d: "distinct (map br_Reason (sort_key br_Reason ?m))"
    using summary_fold [of facts] by (simp only: distinct_map_sort_key)
  have "sorted_wrt (\<lambda>a b. br_Reason a < br_Reason b) (sort_key br_Reason ?m)"
    by (rule distinct_map_sorted_wrt_less [OF sorted_sort_key_map d])
  then show ?thesis using False summary_fold [of facts] by (simp add: summariseBlockedReasons_def)
qed (simp add: summariseBlockedReasons_def)

end
