(* ===== verification/Mover_Admission.thy ===== *)
theory Mover_Admission
  imports Api_Types
begin

text \<open>
  The admission gate for data movers: which Jobs count as running
  (\<^verbatim>\<open>internal/concurrency\<close>), the census of mover Jobs and the gate itself
  (\<^verbatim>\<open>moverSlotBlocked\<close> and its helpers in \<^verbatim>\<open>internal/controller/backup_controller.go\<close>).
  The API server is an argument: the reading of one Job and the labelled listing.
\<close>

record JobCondition =
  jc_Type :: string
  jc_Status :: string

record Job =
  j_Name :: string
  j_Labels :: string_map
  j_Deleting :: bool
  j_CreationTimestamp :: "instant option"
  j_Succeeded :: i32
  j_Failed :: i32
  j_Conditions :: "JobCondition list"

abbreviation ConditionTrue :: string where "ConditionTrue \<equiv> ''True''"
abbreviation JobComplete :: string where "JobComplete \<equiv> ''Complete''"
abbreviation JobFailed :: string where "JobFailed \<equiv> ''Failed''"
abbreviation LabelManagedBy :: string where "LabelManagedBy \<equiv> ''app.kubernetes.io/managed-by''"
abbreviation ManagedByValue :: string where "ManagedByValue \<equiv> ''crystal-backup''"
abbreviation LabelPVC :: string where "LabelPVC \<equiv> ''crystalbackup.io/pvc''"

fun job_terminal_conditions :: "JobCondition list \<Rightarrow> bool" where
  "job_terminal_conditions [] = False"
| "job_terminal_conditions (c # cs) =
     (if jc_Status c \<noteq> ConditionTrue then job_terminal_conditions cs
      else if jc_Type c = JobComplete \<or> jc_Type c = JobFailed then True
      else job_terminal_conditions cs)"

definition jobTerminal :: "Job \<Rightarrow> bool" where
  "jobTerminal j = job_terminal_conditions (j_Conditions j)"

definition RunningMoverJobs :: "Job list \<Rightarrow> nat" where
  "RunningMoverJobs jobs =
     foldl (\<lambda>running j. if \<not> jobTerminal j then Suc running else running) 0 jobs"

text \<open>The conversion of the count to 32 bits is the code's own.\<close>

definition CanStartMover :: "nat \<Rightarrow> i32 \<Rightarrow> bool" where
  "CanStartMover running limit =
     (if limit \<le>s 0 then True else (of_nat running :: i32) <s limit)"

datatype api_error = NotFound | AlreadyExists | Conflict | OtherAPIError string

definition listMoverJobs ::
  "(string \<Rightarrow> (string \<times> string) list \<Rightarrow> api_error + Job list) \<Rightarrow> string \<Rightarrow> api_error + Job list" where
  "listMoverJobs list_jobs operatorNamespace =
     (case list_jobs operatorNamespace [(LabelManagedBy, ManagedByValue)] of
        Inl e \<Rightarrow> Inl e
      | Inr items \<Rightarrow>
          Inr (foldl (\<lambda>movers j. if map_get (j_Labels j) LabelPVC \<noteq> [] then movers @ [j] else movers)
            [] items))"

definition activeMoverCount ::
  "(string \<Rightarrow> (string \<times> string) list \<Rightarrow> api_error + Job list) \<Rightarrow> string \<Rightarrow> api_error + nat" where
  "activeMoverCount list_jobs operatorNamespace =
     (case listMoverJobs list_jobs operatorNamespace of
        Inl e \<Rightarrow> Inl e
      | Inr movers \<Rightarrow>
          Inr (RunningMoverJobs
            (foldl (\<lambda>live j. if \<not> j_Deleting j then live @ [j] else live) [] movers)))"

text \<open>
  The gate. The queue is optional in the code (a nil pointer in tests), so it is an optional
  predicate from repository names to whether quiescence is required.
\<close>

definition moverSlotBlocked ::
  "(string \<Rightarrow> string \<Rightarrow> api_error + Job)
   \<Rightarrow> (string \<Rightarrow> (string \<times> string) list \<Rightarrow> api_error + Job list)
   \<Rightarrow> (string \<Rightarrow> bool) option \<Rightarrow> string \<Rightarrow> string \<Rightarrow> string \<Rightarrow> i32 \<Rightarrow> api_error + bool" where
  "moverSlotBlocked get_job list_jobs queue operatorNamespace moverName repoName limit =
     (case get_job operatorNamespace moverName of
        Inr _ \<Rightarrow> Inr False
      | Inl e \<Rightarrow>
          if e \<noteq> NotFound then Inl e
          else if (case queue of None \<Rightarrow> False | Some quiesce \<Rightarrow> repoName \<noteq> [] \<and> quiesce repoName)
          then Inr True
          else if limit \<le>s 0 then Inr False
          else case listMoverJobs list_jobs operatorNamespace of
                 Inl e \<Rightarrow> Inl e
               | Inr movers \<Rightarrow> Inr (\<not> CanStartMover (RunningMoverJobs movers) limit))"

section \<open>What counts as running\<close>

lemma jobTerminal_iff:
  "jobTerminal j \<longleftrightarrow>
     (\<exists>c \<in> set (j_Conditions j). jc_Status c = ConditionTrue \<and>
        (jc_Type c = JobComplete \<or> jc_Type c = JobFailed))"
proof -
  have "job_terminal_conditions cs \<longleftrightarrow>
      (\<exists>c \<in> set cs. jc_Status c = ConditionTrue \<and> (jc_Type c = JobComplete \<or> jc_Type c = JobFailed))"
    for cs by (induction cs) auto
  then show ?thesis by (simp add: jobTerminal_def)
qed

lemma foldl_count: "foldl (\<lambda>n x. if P x then Suc n else n) k xs = k + length (filter P xs)"
  by (induction xs arbitrary: k) auto

lemma foldl_filter: "foldl (\<lambda>ys x. if P x then ys @ [x] else ys) zs xs = zs @ filter P xs"
  by (induction xs arbitrary: zs) auto

lemma RunningMoverJobs_eq: "RunningMoverJobs jobs = length (filter (\<lambda>j. \<not> jobTerminal j) jobs)"
  using foldl_count [of "\<lambda>j. \<not> jobTerminal j" 0 jobs] by (simp add: RunningMoverJobs_def)

lemma listMoverJobs_eq:
  "listMoverJobs list_jobs ns =
     map_sum id (filter (\<lambda>j. map_get (j_Labels j) LabelPVC \<noteq> []))
       (list_jobs ns [(LabelManagedBy, ManagedByValue)])"
  by (auto simp: listMoverJobs_def foldl_filter split: sum.splits)

lemma CanStartMover_iff:
  assumes "running < 2 ^ 31" and "0 <s limit"
  shows "CanStartMover running limit \<longleftrightarrow> int running < sint limit"
  using assms by (auto simp: CanStartMover_def word_sless_alt word_sle_eq sint_of_nat_i32)

text \<open>
  The mover gate. For fewer than 2^31 Jobs and an answering API server the gate blocks a mover
  exactly when its Job does not exist yet and either the repository needs quiescence or the
  limit is positive and already reached by the non-terminal per-PVC Jobs; an existing Job is always
  re-adopted, and admitting a new one keeps the number of running movers within the limit.
\<close>

theorem mover_gate:
  assumes "list_jobs ns [(LabelManagedBy, ManagedByValue)] = Inr items" and "length items < 2 ^ 31"
    and "get_job ns name = Inl NotFound"
  defines "running \<equiv> length (filter (\<lambda>j. map_get (j_Labels j) LabelPVC \<noteq> [] \<and> \<not> jobTerminal j) items)"
  shows "moverSlotBlocked get_job list_jobs (Some quiesce) ns name repo limit =
      Inr ((repo \<noteq> [] \<and> quiesce repo) \<or> (0 <s limit \<and> sint limit \<le> int running)) \<and>
    (moverSlotBlocked get_job list_jobs q ns name repo limit = Inr False \<longrightarrow> 0 <s limit \<longrightarrow>
      int running + 1 \<le> sint limit) \<and>
    moverSlotBlocked (\<lambda>_ _. Inr job) list_jobs q ns name repo limit = Inr False"
proof -
  have lst: "listMoverJobs list_jobs ns = Inr (filter (\<lambda>j. map_get (j_Labels j) LabelPVC \<noteq> []) items)"
    by (simp add: listMoverJobs_eq assms(1))
  have run: "RunningMoverJobs (filter (\<lambda>j. map_get (j_Labels j) LabelPVC \<noteq> []) items) = running"
    by (simp add: RunningMoverJobs_eq running_def conj_commute)
  have "running < 2 ^ 31" using assms(2) by (simp add: running_def le_less_trans [OF length_filter_le])
  note can = CanStartMover_iff [OF this, of limit]
  show ?thesis
    using assms(3) can
    by (auto simp: moverSlotBlocked_def lst run word_sle_eq word_sless_alt split: if_splits)
qed

theorem mover_gate_witness:
  "moverSlotBlocked (\<lambda>_ _. Inl NotFound)
     (\<lambda>_ _. Inr [\<lparr>j_Name = ''m'', j_Labels = [LabelPVC \<mapsto> ''db''], j_Deleting = False, j_CreationTimestamp = None, j_Succeeded = 0, j_Failed = 0, j_Conditions = []\<rparr>])
     (Some (\<lambda>_. False)) ''op'' ''x'' ''repo'' 1 = Inr True"
  using mover_gate [of "\<lambda>_ _. Inr [\<lparr>j_Name = ''m'', j_Labels = [LabelPVC \<mapsto> ''db''], j_Deleting = False, j_CreationTimestamp = None, j_Succeeded = 0, j_Failed = 0,
      j_Conditions = []\<rparr>]" "''op''" _ "\<lambda>_ _. Inl NotFound" "''x''" "\<lambda>_. False" "''repo''" 1]
  by (simp add: jobTerminal_iff word_sless_alt)

end
