(* ===== verification/Restic_Model.thy ===== *)
theory Restic_Model
  imports Api_Types Go_Strings
begin

text \<open>
  The operator's view of restic (\<^verbatim>\<open>internal/restic\<close>): snapshot tags and identities, the
  repository address, and the argument vectors of forget, erasure, copy, prune, check and
  restore. restic itself is not part of the repository; where a statement needs how restic reads
  a tag filter, that is a named hypothesis on a parameter.
\<close>

section \<open>Tags\<close>

abbreviation TagBase :: string where "TagBase \<equiv> ''crystalbackup''"
abbreviation TagKeyTenant :: string where "TagKeyTenant \<equiv> ''tenant''"
abbreviation TagKeyNamespace :: string where "TagKeyNamespace \<equiv> ''namespace''"
abbreviation TagKeyPVC :: string where "TagKeyPVC \<equiv> ''pvc''"
abbreviation TagKeyKind :: string where "TagKeyKind \<equiv> ''kind''"
abbreviation TagKeySchedule :: string where "TagKeySchedule \<equiv> ''schedule''"
abbreviation TagKeyRun :: string where "TagKeyRun \<equiv> ''run''"
abbreviation TagKeyPVCSize :: string where "TagKeyPVCSize \<equiv> ''pvcsize''"
abbreviation TagKeyPVCClass :: string where "TagKeyPVCClass \<equiv> ''pvcclass''"
abbreviation TagKeyPVCModes :: string where "TagKeyPVCModes \<equiv> ''pvcmodes''"
abbreviation KindData :: string where "KindData \<equiv> ''data''"
abbreviation KindManifests :: string where "KindManifests \<equiv> ''manifests''"
abbreviation KindClusterManifests :: string where "KindClusterManifests \<equiv> ''cluster-manifests''"

abbreviation flagGroupBy :: string where "flagGroupBy \<equiv> ''--group-by''"
abbreviation flagTag :: string where "flagTag \<equiv> ''--tag''"
abbreviation flagJSON :: string where "flagJSON \<equiv> ''--json''"
abbreviation groupByHostPaths :: string where "groupByHostPaths \<equiv> ''host,paths''"
abbreviation forgetCmd :: string where "forgetCmd \<equiv> ''forget''"
abbreviation snapshotsCmd :: string where "snapshotsCmd \<equiv> ''snapshots''"
abbreviation copyCmd :: string where "copyCmd \<equiv> ''copy''"
abbreviation pruneCmd :: string where "pruneCmd \<equiv> ''prune''"
abbreviation checkCmd :: string where "checkCmd \<equiv> ''check''"
abbreviation restoreCmd :: string where "restoreCmd \<equiv> ''restore''"
abbreviation flagNoLock :: string where "flagNoLock \<equiv> ''--no-lock''"
abbreviation flagRetryLock :: string where "flagRetryLock \<equiv> ''--retry-lock''"
abbreviation retryLockFor :: string where "retryLockFor \<equiv> ''5m''"
abbreviation flagUnsafeAllowRemoveAll :: string
  where "flagUnsafeAllowRemoveAll \<equiv> ''--unsafe-allow-remove-all''"
abbreviation flagMaxRepackSize :: string where "flagMaxRepackSize \<equiv> ''--max-repack-size''"
abbreviation flagReadDataSubset :: string where "flagReadDataSubset \<equiv> ''--read-data-subset''"

definition Tag :: "string \<Rightarrow> string \<Rightarrow> string" where
  "Tag key value = key @ ''='' @ value"

fun TagValue :: "string list \<Rightarrow> string \<Rightarrow> string \<times> bool" where
  "TagValue [] key = ([], False)"
| "TagValue (t # ts) key =
     (if HasPrefix t (key @ ''='') then (drop (length (key @ ''='')) t, True)
      else TagValue ts key)"

section \<open>Snapshot identities\<close>

record Identity =
  Host :: string
  Path :: string
  Tags :: "string list"

definition scheduleRunTags :: "string list \<Rightarrow> string \<Rightarrow> string \<Rightarrow> string list" where
  "scheduleRunTags tags schedule run =
     (let tags = (if schedule \<noteq> [] then tags @ [Tag TagKeySchedule schedule] else tags)
      in tags @ [Tag TagKeyRun run])"

definition DataIdentity ::
  "string \<Rightarrow> string \<Rightarrow> string \<Rightarrow> string \<Rightarrow> string \<Rightarrow> string \<Rightarrow> Identity" where
  "DataIdentity clusterID tenant namespace pvc schedule run =
     (let tags = [TagBase, Tag TagKeyKind KindData, Tag TagKeyTenant tenant,
                  Tag TagKeyNamespace namespace, Tag TagKeyPVC pvc]
      in \<lparr>Host = clusterID, Path = ''/data/'' @ namespace @ ''/'' @ pvc,
          Tags = scheduleRunTags tags schedule run\<rparr>)"

definition ManifestsIdentity ::
  "string \<Rightarrow> string \<Rightarrow> string \<Rightarrow> string \<Rightarrow> string \<Rightarrow> Identity" where
  "ManifestsIdentity clusterID tenant namespace schedule run =
     (let tags = [TagBase, Tag TagKeyKind KindManifests, Tag TagKeyTenant tenant,
                  Tag TagKeyNamespace namespace]
      in \<lparr>Host = clusterID, Path = ''/manifests/'' @ namespace,
          Tags = scheduleRunTags tags schedule run\<rparr>)"

definition ClusterManifestsIdentity :: "string \<Rightarrow> string \<Rightarrow> string \<Rightarrow> Identity" where
  "ClusterManifestsIdentity clusterID schedule run =
     (let tags = [TagBase, Tag TagKeyKind KindClusterManifests]
      in \<lparr>Host = clusterID, Path = ''/cluster-manifests'',
          Tags = scheduleRunTags tags schedule run\<rparr>)"

section \<open>The repository address\<close>

definition schemes :: "string list" where
  "schemes = [''https://'', ''http://'']"

definition RepoObjectPrefix :: "string \<Rightarrow> string \<Rightarrow> string" where
  "RepoObjectPrefix pre clusterID =
     (let segments = foldl (\<lambda>segments s.
            let s = Trim s ''/'' in if s \<noteq> [] then segments @ [s] else segments) [] [pre, clusterID]
      in if segments = [] then [] else Join segments ''/'' @ ''/'')"

text \<open>The loop that replaces double slashes until none is left.\<close>

function collapse_slashes :: "string \<Rightarrow> string" where
  "collapse_slashes path =
     (if Contains path ''//'' then collapse_slashes (ReplaceAll path ''//'' ''/'') else path)"
  by pat_completeness auto
termination
  by (relation "measure length") (use ReplaceAll_double_length [of _ "CHR ''/''"] in auto)

declare collapse_slashes.simps [simp del]

fun split_scheme :: "string list \<Rightarrow> string \<Rightarrow> string \<times> string" where
  "split_scheme [] endpoint = ([], endpoint)"
| "split_scheme (s # ss) endpoint =
     (if HasPrefix endpoint s then (s, drop (length s) endpoint) else split_scheme ss endpoint)"

definition RepoURL :: "string \<Rightarrow> string \<Rightarrow> string \<Rightarrow> string \<Rightarrow> string" where
  "RepoURL endpoint bucket pre clusterID =
     (let (scheme, host) = split_scheme schemes endpoint;
          segments = [host, bucket] @ (if pre \<noteq> [] then [pre] else []) @ [clusterID];
          path = TrimRight (collapse_slashes (Join segments ''/'')) ''/''
      in ''s3:'' @ scheme @ path)"

section \<open>Argument vectors\<close>

definition keep :: "string \<Rightarrow> i32 \<Rightarrow> string list \<Rightarrow> string list" where
  "keep bucket n args =
     (if 0 <s n then args @ [''--keep-'' @ bucket, FormatInt (sint n)] else args)"

definition ForgetArgs :: "RetentionSpec \<Rightarrow> string list" where
  "ForgetArgs r =
     (let args = [flagTag, TagBase, flagGroupBy, groupByHostPaths];
          args = keep ''last'' (KeepLast r) args;
          args = keep ''hourly'' (KeepHourly r) args;
          args = keep ''daily'' (KeepDaily r) args;
          args = keep ''weekly'' (KeepWeekly r) args;
          args = keep ''monthly'' (KeepMonthly r) args;
          args = keep ''yearly'' (KeepYearly r) args
      in if length args > 4 then args @ [flagRetryLock, retryLockFor] else args)"

definition ForgetCommand :: "RetentionSpec \<Rightarrow> string list option" where
  "ForgetCommand r =
     (let flags = ForgetArgs r in if length flags \<le> 4 then None else Some (forgetCmd # flags))"

datatype restic_error =
    ErasureSelectsNothing
  | InvalidPruneMaxRepackSize string
  | InvalidCheckReadDataSubset string
  | SnapshotsNotJSON

definition ErasureFilterTags :: "ErasureTarget \<Rightarrow> string list option" where
  "ErasureFilterTags t =
     (if et_Namespace t \<noteq> [] \<and> et_PVC t \<noteq> [] then
        Some [Tag TagKeyNamespace (et_Namespace t), Tag TagKeyPVC (et_PVC t)]
      else if et_Namespace t \<noteq> [] then Some [Tag TagKeyNamespace (et_Namespace t)]
      else if et_Tenant t \<noteq> [] then Some [Tag TagKeyTenant (et_Tenant t)]
      else None)"

definition ErasureTagFilter :: "ErasureTarget \<Rightarrow> string option" where
  "ErasureTagFilter t =
     (case ErasureFilterTags t of
        None \<Rightarrow> None
      | Some tags \<Rightarrow> Some (Join (TagBase # tags) '',''))"

definition ErasureForgetArgs :: "ErasureTarget \<Rightarrow> restic_error + string list" where
  "ErasureForgetArgs t =
     (case ErasureTagFilter t of
        None \<Rightarrow> Inl ErasureSelectsNothing
      | Some flt \<Rightarrow> Inr [forgetCmd, flagUnsafeAllowRemoveAll, flagTag, flt, flagRetryLock,
          retryLockFor])"

definition SnapshotsArgs :: "string list" where
  "SnapshotsArgs = [snapshotsCmd, flagJSON, flagTag, TagBase, flagNoLock]"

definition SnapshotsFilterArgs :: "string list \<Rightarrow> string list" where
  "SnapshotsFilterArgs filterTags =
     [snapshotsCmd, flagJSON, flagTag, Join (TagBase # filterTags) '','', flagNoLock]"

definition SyncArgs :: "string list \<Rightarrow> string list" where
  "SyncArgs namespaces =
     (if namespaces = [] then [copyCmd, flagTag, TagBase]
      else foldl (\<lambda>args ns. args @ [flagTag, Join [TagBase, Tag TagKeyNamespace ns] '','' ])
             [copyCmd] namespaces)"

definition UnlockArgs :: "string list" where
  "UnlockArgs = [''unlock'', ''--remove-all'']"

text \<open>
  The two validation patterns as matchers: a run of digits with an optional fraction, then the
  alternatives of the pattern on what is left.
\<close>

definition match_number :: "string \<Rightarrow> string option" where
  "match_number s =
     (if takeWhile is_digit s = [] then None
      else case dropWhile is_digit s of
             [] \<Rightarrow> Some []
           | c # r \<Rightarrow>
               if c = CHR ''.'' \<and> takeWhile is_digit r \<noteq> [] then Some (dropWhile is_digit r)
               else Some (c # r))"

definition match_unit :: "string \<Rightarrow> bool" where
  "match_unit r \<longleftrightarrow> r = [] \<or> (length r = 1 \<and> hd r \<in> set ''kKmMgGtT'')"

definition repackSizePattern :: "string \<Rightarrow> bool" where
  "repackSizePattern s = (case match_number s of None \<Rightarrow> False | Some r \<Rightarrow> match_unit r)"

definition match_fraction :: "string \<Rightarrow> bool" where
  "match_fraction s =
     (takeWhile is_digit s \<noteq> [] \<and>
      (case dropWhile is_digit s of
         [] \<Rightarrow> False
       | c # r \<Rightarrow> c = CHR ''/'' \<and> r \<noteq> [] \<and> list_all is_digit r))"

definition readDataSubsetPattern :: "string \<Rightarrow> bool" where
  "readDataSubsetPattern s \<longleftrightarrow>
     match_fraction s \<or> match_number s = Some ''%'' \<or> repackSizePattern s"

definition PruneCommand :: "string \<Rightarrow> restic_error + string list" where
  "PruneCommand maxRepackSize =
     (if maxRepackSize = [] then Inr [pruneCmd, flagRetryLock, retryLockFor]
      else if \<not> repackSizePattern maxRepackSize then Inl (InvalidPruneMaxRepackSize maxRepackSize)
      else Inr [pruneCmd, flagRetryLock, retryLockFor, flagMaxRepackSize, maxRepackSize])"

definition CheckCommand :: "string \<Rightarrow> restic_error + string list" where
  "CheckCommand readDataSubset =
     (if readDataSubset = [] then Inr [checkCmd, flagRetryLock, retryLockFor]
      else if \<not> readDataSubsetPattern readDataSubset
      then Inl (InvalidCheckReadDataSubset readDataSubset)
      else Inr [checkCmd, flagRetryLock, retryLockFor, flagReadDataSubset, readDataSubset])"

definition RestoreArgs ::
  "string \<Rightarrow> string \<Rightarrow> string \<Rightarrow> bool \<Rightarrow> string list \<Rightarrow> string list \<Rightarrow> string list" where
  "RestoreArgs snapshotID snapshotPath targetPath deleteExtras includes excludes =
     (let args = [restoreCmd, snapshotID @ '':'' @ snapshotPath, ''--target'', targetPath,
                  ''--overwrite'', ''always''];
          args = (if deleteExtras then args @ [''--delete''] else args);
          args = foldl (\<lambda>args p. args @ [''--include'', p]) args includes;
          args = foldl (\<lambda>args p. args @ [''--exclude'', p]) args excludes
      in args @ [''--sparse'', flagRetryLock, retryLockFor])"

definition ManifestsRestoreArgs :: "string \<Rightarrow> string \<Rightarrow> string \<Rightarrow> string list" where
  "ManifestsRestoreArgs snapshotID snapshotPath targetDir =
     [restoreCmd, snapshotID @ '':'' @ snapshotPath, ''--target'', targetDir,
      ''--overwrite'', ''always'', flagRetryLock, retryLockFor]"

section \<open>PVC metadata in tags\<close>

definition accessModes :: "(string \<times> string) list" where
  "accessModes = [(''ReadWriteOnce'', ''RWO''), (''ReadOnlyMany'', ''ROX''),
     (''ReadWriteMany'', ''RWX''), (''ReadWriteOncePod'', ''RWOP'')]"

definition accessModeAbbrevs :: "string \<rightharpoonup> string" where
  "accessModeAbbrevs = map_of accessModes"

definition accessModeNames :: "string \<rightharpoonup> string" where
  "accessModeNames = foldl (\<lambda>m (name, abbrev). m(abbrev \<mapsto> name)) Map.empty accessModes"

record PVCMeta =
  pm_CapacityBytes :: i64
  pm_StorageClass :: string
  pm_AccessModes :: "string list"

definition PVCMetaTags :: "i64 \<Rightarrow> string \<Rightarrow> string list \<Rightarrow> string list" where
  "PVCMetaTags capacityBytes storageClass modes =
     (let tags = [Tag TagKeyPVCSize (FormatInt (sint capacityBytes))];
          tags = (if storageClass \<noteq> [] then tags @ [Tag TagKeyPVCClass storageClass] else tags);
          abbrevs = foldl (\<lambda>as m. case accessModeAbbrevs m of None \<Rightarrow> as | Some a \<Rightarrow> as @ [a])
            [] modes
      in if abbrevs \<noteq> [] then tags @ [Tag TagKeyPVCModes (Join (sort abbrevs) ''+'')] else tags)"

definition ParsePVCMeta :: "string list \<Rightarrow> PVCMeta" where
  "ParsePVCMeta tags =
     \<lparr>pm_CapacityBytes =
        (case TagValue tags TagKeyPVCSize of
           (v, ok) \<Rightarrow> if \<not> ok then 0
             else case ParseInt v of None \<Rightarrow> 0 | Some n \<Rightarrow> if n > 0 then word_of_int n else 0),
      pm_StorageClass = (case TagValue tags TagKeyPVCClass of (v, ok) \<Rightarrow> if ok then v else []),
      pm_AccessModes =
        (case TagValue tags TagKeyPVCModes of
           (v, ok) \<Rightarrow> if \<not> ok then []
             else foldl (\<lambda>ms a. case accessModeNames a of None \<Rightarrow> ms | Some name \<Rightarrow> ms @ [name])
               [] (Split v (CHR ''+'')))\<rparr>"

section \<open>Snapshots\<close>

record SnapshotSummary =
  TotalBytesProcessed :: i64

record Snapshot =
  sn_ID :: string
  sn_ShortID :: string
  sn_Time :: instant
  sn_Host :: string
  sn_Paths :: "string list"
  sn_Tags :: "string list"
  sn_Summary :: "SnapshotSummary option"
  sn_Original :: string

text \<open>The JSON decoder of the standard library is an argument: \<open>None\<close> is its error.\<close>

definition ParseSnapshots ::
  "(string \<Rightarrow> Snapshot list option) \<Rightarrow> string \<Rightarrow> restic_error + Snapshot list" where
  "ParseSnapshots unmarshal data =
     (case unmarshal data of None \<Rightarrow> Inl SnapshotsNotJSON | Some snaps \<Rightarrow> Inr snaps)"

record NamespaceRun =
  nr_Namespace :: string
  nr_Run :: string

definition snapshot_key :: "Snapshot \<Rightarrow> NamespaceRun" where
  "snapshot_key s =
     \<lparr>nr_Namespace = fst (TagValue (sn_Tags s) TagKeyNamespace),
      nr_Run = fst (TagValue (sn_Tags s) TagKeyRun)\<rparr>"

definition GroupByNamespaceRun :: "Snapshot list \<Rightarrow> (NamespaceRun \<rightharpoonup> Snapshot list)" where
  "GroupByNamespaceRun snaps =
     foldl (\<lambda>groups s.
         let key = snapshot_key s;
             old = (case groups key of None \<Rightarrow> [] | Some g \<Rightarrow> g)
         in groups(key \<mapsto> old @ [s]))
       Map.empty snaps"

section \<open>The tag contract\<close>

text \<open>
  What the discovery and erasure code relies on: a tag that was written is read back, tags of
  other keys and bare tags are passed over, so a list of key/value tags reads like the
  association list it was written from.
\<close>

locale tag_codec =
  fixes tag :: "string \<Rightarrow> string \<Rightarrow> 't"
    and val :: "'t list \<Rightarrow> string \<Rightarrow> string \<times> bool"
    and key_ok :: "string \<Rightarrow> bool"
    and bare :: "'t \<Rightarrow> bool"
  assumes val_Nil: "val [] k = ([], False)"
    and val_hit: "val (tag k v # ts) k = (v, True)"
    and val_skip: "key_ok k \<Longrightarrow> key_ok k' \<Longrightarrow> k \<noteq> k' \<Longrightarrow> val (tag k' v # ts) k = val ts k"
    and val_bare: "bare t \<Longrightarrow> val (t # ts) k = val ts k"
begin

definition write_tags :: "(string \<times> string) list \<Rightarrow> 't list" where
  "write_tags kvs = map (\<lambda>(k, v). tag k v) kvs"

lemma val_write:
  assumes "key_ok k" and "list_all (key_ok \<circ> fst) kvs"
  shows "val (write_tags kvs @ ts) k =
    (case map_of kvs k of Some v \<Rightarrow> (v, True) | None \<Rightarrow> val ts k)"
  using assms(2)
proof (induction kvs)
  case Nil
  then show ?case by (simp add: write_tags_def)
next
  case (Cons kv kvs)
  obtain k' v where "kv = (k', v)" by fastforce
  with Cons assms(1) show ?case
    by (cases "k = k'") (simp_all add: write_tags_def val_hit val_skip split: option.splits)
qed

lemma val_bare_write:
  assumes "bare t" and "key_ok k" and "list_all (key_ok \<circ> fst) kvs"
  shows "val (t # write_tags kvs) k =
    (case map_of kvs k of Some v \<Rightarrow> (v, True) | None \<Rightarrow> ([], False))"
  using val_write [OF assms(2,3), of "[]"] by (simp add: val_bare [OF assms(1)] val_Nil split: option.splits)

end

definition plain_key :: "string \<Rightarrow> bool" where
  "plain_key k \<longleftrightarrow> CHR ''='' \<notin> set k"

lemma key_eq_prefix:
  "plain_key k \<Longrightarrow> plain_key k' \<Longrightarrow> HasPrefix (k' @ ''='' @ v) (k @ ''='') \<longleftrightarrow> k = k'"
proof (induction k arbitrary: k')
  case Nil
  then show ?case by (cases k') (auto simp: plain_key_def)
next
  case (Cons c k)
  then show ?case by (cases k') (auto simp: plain_key_def)
qed

interpretation restic_tags: tag_codec Tag TagValue plain_key plain_key
proof
  show "TagValue [] k = ([], False)" for k by simp
  show "TagValue (Tag k v # ts) k = (v, True)" for k v ts
    using HasPrefix_append [of "k @ ''=''" v] by (simp add: Tag_def del: HasPrefix_append)
  show "TagValue (Tag k' v # ts) k = TagValue ts k"
    if "plain_key k" "plain_key k'" "k \<noteq> k'" for k k' v ts
    using that key_eq_prefix [of k k' v] by (simp add: Tag_def)
  show "TagValue (t # ts) k = TagValue ts k" if "plain_key t" for t ts k
    using that by (auto simp: HasPrefix_def prefix_def plain_key_def)
qed

lemma plain_keys [tag_simps]:
  "plain_key TagBase" "plain_key TagKeyTenant" "plain_key TagKeyNamespace" "plain_key TagKeyPVC"
  "plain_key TagKeyKind" "plain_key TagKeySchedule" "plain_key TagKeyRun"
  "plain_key TagKeyPVCSize" "plain_key TagKeyPVCClass" "plain_key TagKeyPVCModes"
  by (simp_all add: plain_key_def)

text \<open>Each identity's tags are the base tag followed by the writing of an association list.\<close>

definition schedule_run_kvs :: "string \<Rightarrow> string \<Rightarrow> (string \<times> string) list" where
  "schedule_run_kvs schedule run =
     (if schedule \<noteq> [] then [(TagKeySchedule, schedule)] else []) @ [(TagKeyRun, run)]"

definition data_kvs where
  "data_kvs tenant ns pvc schedule run =
     [(TagKeyKind, KindData), (TagKeyTenant, tenant), (TagKeyNamespace, ns), (TagKeyPVC, pvc)] @
     schedule_run_kvs schedule run"

lemma DataIdentity_Tags [tag_simps]:
  "Tags (DataIdentity c tenant ns pvc schedule run) =
     TagBase # restic_tags.write_tags (data_kvs tenant ns pvc schedule run)"
  by (simp add: DataIdentity_def scheduleRunTags_def data_kvs_def schedule_run_kvs_def
      restic_tags.write_tags_def)

lemma ManifestsIdentity_Tags [tag_simps]:
  "Tags (ManifestsIdentity c tenant ns schedule run) =
     TagBase # restic_tags.write_tags ([(TagKeyKind, KindManifests), (TagKeyTenant, tenant),
       (TagKeyNamespace, ns)] @ schedule_run_kvs schedule run)"
  by (simp add: ManifestsIdentity_def scheduleRunTags_def schedule_run_kvs_def
      restic_tags.write_tags_def)

lemma ClusterManifestsIdentity_Tags [tag_simps]:
  "Tags (ClusterManifestsIdentity c schedule run) =
     TagBase # restic_tags.write_tags ((TagKeyKind, KindClusterManifests) #
       schedule_run_kvs schedule run)"
  by (simp add: ClusterManifestsIdentity_def scheduleRunTags_def schedule_run_kvs_def
      restic_tags.write_tags_def)

lemma schedule_run_kvs_ok [tag_simps]:
  "list_all (plain_key \<circ> fst) (schedule_run_kvs schedule run)"
  by (simp add: schedule_run_kvs_def plain_keys)

lemma data_kvs_ok [tag_simps]: "list_all (plain_key \<circ> fst) (data_kvs tenant ns pvc schedule run)"
  by (simp add: data_kvs_def plain_keys schedule_run_kvs_ok)

lemma TagValue_data:
  "plain_key k \<Longrightarrow> TagValue (Tags (DataIdentity c tenant ns pvc schedule run)) k =
     (case map_of (data_kvs tenant ns pvc schedule run) k of
        Some v \<Rightarrow> (v, True) | None \<Rightarrow> ([], False))"
  by (simp only: DataIdentity_Tags restic_tags.val_bare_write plain_keys data_kvs_ok)

lemma TagValue_manifests:
  "plain_key k \<Longrightarrow> TagValue (Tags (ManifestsIdentity c tenant ns schedule run)) k =
     (case map_of ([(TagKeyKind, KindManifests), (TagKeyTenant, tenant), (TagKeyNamespace, ns)] @
         schedule_run_kvs schedule run) k of
        Some v \<Rightarrow> (v, True) | None \<Rightarrow> ([], False))"
  by (subst ManifestsIdentity_Tags, rule restic_tags.val_bare_write)
    (simp_all add: plain_keys schedule_run_kvs_ok)

lemma TagValue_cluster_manifests:
  "plain_key k \<Longrightarrow> TagValue (Tags (ClusterManifestsIdentity c schedule run)) k =
     (case map_of ((TagKeyKind, KindClusterManifests) # schedule_run_kvs schedule run) k of
        Some v \<Rightarrow> (v, True) | None \<Rightarrow> ([], False))"
  by (subst ClusterManifestsIdentity_Tags, rule restic_tags.val_bare_write)
    (simp_all add: plain_keys schedule_run_kvs_ok)

text \<open>
  C40: snapshot identities read back. Every coordinate written into the tags of a data snapshot is
  the one \<^verbatim>\<open>TagValue\<close> finds, whatever characters it contains; the schedule tag is absent
  exactly when there was no schedule, and the three kinds of snapshots are told apart by their
  kind tag; a cluster-manifests snapshot has no namespace.
\<close>

theorem identity_tags_roundtrip:
  fixes c tenant ns pvc schedule run
  defines "D \<equiv> Tags (DataIdentity c tenant ns pvc schedule run)"
    and "M \<equiv> Tags (ManifestsIdentity c tenant ns schedule run)"
    and "K \<equiv> Tags (ClusterManifestsIdentity c schedule run)"
  shows "map (TagValue D) [TagKeyKind, TagKeyTenant, TagKeyNamespace, TagKeyPVC, TagKeyRun] =
      [(KindData, True), (tenant, True), (ns, True), (pvc, True), (run, True)] \<and>
    map (TagValue M) [TagKeyKind, TagKeyTenant, TagKeyNamespace, TagKeyPVC, TagKeyRun] =
      [(KindManifests, True), (tenant, True), (ns, True), ([], False), (run, True)] \<and>
    map (TagValue K) [TagKeyKind, TagKeyTenant, TagKeyNamespace, TagKeyPVC, TagKeyRun] =
      [(KindClusterManifests, True), ([], False), ([], False), ([], False), (run, True)] \<and>
    (\<forall>T \<in> {D, M, K}. TagValue T TagKeySchedule = (schedule, schedule \<noteq> []))"
  by (simp add: D_def M_def K_def TagValue_data TagValue_manifests TagValue_cluster_manifests
      plain_keys data_kvs_def schedule_run_kvs_def)

theorem identity_tags_roundtrip_witness:
  "TagValue (Tags (DataIdentity ''c1'' ''t'' ''shop'' ''data=x'' ''nightly'' ''r7'')) TagKeyPVC =
     (''data=x'', True)"
  using identity_tags_roundtrip [of "''c1''" "''t''" "''shop''" "''data=x''" "''nightly''" "''r7''"]
  by simp

section \<open>PVC metadata round trip\<close>

definition meta_kvs :: "i64 \<Rightarrow> string \<Rightarrow> string list \<Rightarrow> (string \<times> string) list" where
  "meta_kvs cap cls modes =
     [(TagKeyPVCSize, FormatInt (sint cap))] @
     (if cls \<noteq> [] then [(TagKeyPVCClass, cls)] else []) @
     (if List.map_filter accessModeAbbrevs modes \<noteq> []
      then [(TagKeyPVCModes, Join (sort (List.map_filter accessModeAbbrevs modes)) ''+'')] else [])"

lemma PVCMetaTags_kvs: "PVCMetaTags cap cls modes = restic_tags.write_tags (meta_kvs cap cls modes)"
  by (simp add: PVCMetaTags_def meta_kvs_def foldl_collect restic_tags.write_tags_def)

lemma meta_kvs_ok: "list_all (plain_key \<circ> fst) (meta_kvs cap cls modes)"
  by (simp add: meta_kvs_def plain_keys)

lemma TagValue_data_meta:
  assumes "plain_key k"
  shows "TagValue (Tags (DataIdentity c tenant ns pvc schedule run) @ PVCMetaTags cap cls modes) k =
    (case map_of (data_kvs tenant ns pvc schedule run @ meta_kvs cap cls modes) k of
       Some v \<Rightarrow> (v, True) | None \<Rightarrow> ([], False))"
proof -
  have "Tags (DataIdentity c tenant ns pvc schedule run) @ PVCMetaTags cap cls modes =
      TagBase # restic_tags.write_tags (data_kvs tenant ns pvc schedule run @ meta_kvs cap cls modes)"
    by (simp add: DataIdentity_Tags PVCMetaTags_kvs restic_tags.write_tags_def)
  moreover have "list_all (plain_key \<circ> fst)
      (data_kvs tenant ns pvc schedule run @ meta_kvs cap cls modes)"
    by (simp add: data_kvs_ok meta_kvs_ok)
  ultimately show ?thesis
    by (simp only: restic_tags.val_bare_write [OF plain_keys(1) assms])
qed

lemma accessModeAbbrevs_SomeD:
  "accessModeAbbrevs m = Some a \<Longrightarrow> accessModeNames a = Some m \<and> CHR ''+'' \<notin> set a"
  by (auto simp: accessModeAbbrevs_def accessModeNames_def accessModes_def split: if_splits)

lemma map_filter_abbrevs:
  "List.map_filter accessModeAbbrevs modes =
     map (the \<circ> accessModeAbbrevs) (filter (\<lambda>m. accessModeAbbrevs m \<noteq> None) modes)"
  by (simp add: List.map_filter_def)

lemma sort_map_key: "sort (map f xs) = map f (sort_key f xs)"
  by (rule properties_for_sort) simp_all

lemma names_of_sorted_abbrevs:
  "List.map_filter accessModeNames (sort (List.map_filter accessModeAbbrevs modes)) =
     sort_key (the \<circ> accessModeAbbrevs) (filter (\<lambda>m. accessModeAbbrevs m \<noteq> None) modes)"
proof -
  have inverse: "List.map_filter accessModeNames (map (the \<circ> accessModeAbbrevs) ms) = ms"
    if "\<And>m. m \<in> set ms \<Longrightarrow> accessModeAbbrevs m \<noteq> None" for ms
    using that accessModeAbbrevs_SomeD
    by (induction ms) (fastforce simp: List.map_filter_simps)+
  show ?thesis unfolding map_filter_abbrevs sort_map_key by (rule inverse) simp
qed

lemma Split_sorted_abbrevs:
  assumes "List.map_filter accessModeAbbrevs modes \<noteq> []"
  shows "Split (Join (sort (List.map_filter accessModeAbbrevs modes)) ''+'') (CHR ''+'') =
    sort (List.map_filter accessModeAbbrevs modes)"
proof (rule Split_Join)
  show "sort (List.map_filter accessModeAbbrevs modes) \<noteq> []"
    using assms by (metis set_empty set_sort)
  show "CHR ''+'' \<notin> set x" if "x \<in> set (sort (List.map_filter accessModeAbbrevs modes))" for x
    using that accessModeAbbrevs_SomeD by (fastforce simp: map_filter_abbrevs)
qed

lemma FormatInt_sint: "ParseInt (FormatInt (sint (x :: i64))) = Some (sint x)"
  using sint_greater_eq [of x] sint_less [of x] by (intro ParseInt_FormatInt) simp_all

text \<open>
  PVC metadata survives the repository. Parsing the tags of a data snapshot that carries the
  metadata of its claim gives back the capacity (or zero when it was not positive), the storage
  class and the known access modes, ordered by their abbreviation; modes without an abbreviation
  are dropped. A snapshot without these tags yields the zero record.
\<close>

theorem pvc_meta_roundtrip:
  "ParsePVCMeta (Tags (DataIdentity c tenant ns pvc schedule run) @ PVCMetaTags cap cls modes) =
     \<lparr>pm_CapacityBytes = (if 0 <s cap then cap else 0), pm_StorageClass = cls,
      pm_AccessModes = sort_key (the \<circ> accessModeAbbrevs)
        (filter (\<lambda>m. accessModeAbbrevs m \<noteq> None) modes)\<rparr> \<and>
   ParsePVCMeta (Tags (DataIdentity c tenant ns pvc schedule run)) =
     \<lparr>pm_CapacityBytes = 0, pm_StorageClass = [], pm_AccessModes = []\<rparr>"
proof -
  have names: "List.map_filter accessModeAbbrevs modes = [] \<Longrightarrow>
      sort_key (the \<circ> accessModeAbbrevs) (filter (\<lambda>m. accessModeAbbrevs m \<noteq> None) modes) = []"
    by (simp add: map_filter_abbrevs)
  show ?thesis
    using names
    by (simp add: ParsePVCMeta_def TagValue_data_meta TagValue_data plain_keys data_kvs_def
        schedule_run_kvs_def meta_kvs_def FormatInt_sint Split_sorted_abbrevs foldl_collect
        names_of_sorted_abbrevs word_sless_alt)
qed

section \<open>Erasure\<close>

lemma Tag_inj: "plain_key k \<Longrightarrow> plain_key k' \<Longrightarrow> Tag k v = Tag k' v' \<longleftrightarrow> k = k' \<and> v = v'"
proof
  assume "plain_key k" "plain_key k'" "Tag k v = Tag k' v'"
  moreover from this have "HasPrefix (k' @ ''='' @ v') (k @ ''='')"
    by (metis HasPrefix_append append.assoc Tag_def)
  ultimately show "k = k' \<and> v = v'" using key_eq_prefix by (auto simp: Tag_def)
qed simp

lemma Tag_in_write:
  assumes "plain_key k" and "list_all (plain_key \<circ> fst) kvs"
  shows "Tag k v \<in> set (TagBase # restic_tags.write_tags kvs) \<longleftrightarrow> (k, v) \<in> set kvs"
proof -
  have "Tag k v \<noteq> TagBase"
  proof
    assume "Tag k v = TagBase"
    then have "CHR ''='' \<in> set TagBase" by (metis Tag_def in_set_conv_decomp append_Cons)
    then show False by simp
  qed
  then show ?thesis
    using assms Tag_inj
    by (fastforce simp: restic_tags.write_tags_def list_all_iff image_iff)
qed

definition comma_free :: "string \<Rightarrow> bool" where
  "comma_free s \<longleftrightarrow> CHR '','' \<notin> set s"

lemma comma_free_tags:
  "comma_free v \<Longrightarrow> comma_free (Tag TagKeyNamespace v)"
  "comma_free v \<Longrightarrow> comma_free (Tag TagKeyPVC v)"
  "comma_free v \<Longrightarrow> comma_free (Tag TagKeyTenant v)"
  "comma_free TagBase"
  by (simp_all add: comma_free_def Tag_def)

lemma Split_filter:
  "list_all comma_free tags \<Longrightarrow> Split (Join (TagBase # tags) '','') (CHR '','') = TagBase # tags"
  using comma_free_tags(4) by (intro Split_Join) (auto simp: comma_free_def list_all_iff)

lemma ErasureForgetArgs_Inr:
  "ErasureForgetArgs t = Inr args \<Longrightarrow>
     \<exists>tags. ErasureFilterTags t = Some tags \<and>
       args = [forgetCmd, flagUnsafeAllowRemoveAll, flagTag, Join (TagBase # tags) '','',
               flagRetryLock, retryLockFor]"
  by (auto simp: ErasureForgetArgs_def ErasureTagFilter_def split: option.splits)

definition in_erasure_scope :: "ErasureTarget \<Rightarrow> string \<Rightarrow> string \<Rightarrow> string option \<Rightarrow> bool" where
  "in_erasure_scope t tenant ns pvc \<longleftrightarrow>
     (if et_Namespace t \<noteq> [] then
        ns = et_Namespace t \<and> (et_PVC t \<noteq> [] \<longrightarrow> pvc = Some (et_PVC t))
      else tenant = et_Tenant t)"

text \<open>
  C35: an erasure selects exactly its scope. restic's documented reading of a \<^verbatim>\<open>--tag\<close> value is
  the hypothesis: a snapshot matches when it carries every tag of the comma-separated list. For
  names without commas the forget command then selects a data snapshot, or a manifests snapshot,
  exactly when it belongs to the target's namespace (and claim), or else to its tenant, and never
  a cluster-manifests snapshot; and the command exists exactly when the target names a namespace
  or a tenant, so an empty target can never select the whole repository.
\<close>

theorem erasure_scope_exact:
  assumes restic_tag_filter: "\<And>flt tags. selects flt tags \<longleftrightarrow> set (Split flt (CHR '','')) \<subseteq> set tags"
    and names: "comma_free (et_Namespace t)" "comma_free (et_PVC t)" "comma_free (et_Tenant t)"
  shows "(\<forall>args. ErasureForgetArgs t = Inr args \<longrightarrow>
      selects (args ! 3) (Tags (DataIdentity c tenant ns pvc schedule run)) =
        in_erasure_scope t tenant ns (Some pvc) \<and>
      selects (args ! 3) (Tags (ManifestsIdentity c tenant ns schedule run)) =
        in_erasure_scope t tenant ns None \<and>
      \<not> selects (args ! 3) (Tags (ClusterManifestsIdentity c schedule run))) \<and>
    (ErasureForgetArgs t = Inl ErasureSelectsNothing \<longleftrightarrow> et_Namespace t = [] \<and> et_Tenant t = [])"
proof (intro conjI allI impI)
  show "ErasureForgetArgs t = Inl ErasureSelectsNothing \<longleftrightarrow> et_Namespace t = [] \<and> et_Tenant t = []"
    by (simp add: ErasureForgetArgs_def ErasureTagFilter_def ErasureFilterTags_def)
next
  fix args assume "ErasureForgetArgs t = Inr args"
  then obtain tags where tags: "ErasureFilterTags t = Some tags"
    and args: "args ! 3 = Join (TagBase # tags) '',''"
    by (auto dest: ErasureForgetArgs_Inr)
  have cf: "list_all comma_free tags"
    using tags names by (auto simp: ErasureFilterTags_def comma_free_tags split: if_splits)
  have sel: "selects (args ! 3) (TagBase # restic_tags.write_tags kvs) =
      (if et_Namespace t \<noteq> []
       then (TagKeyNamespace, et_Namespace t) \<in> set kvs \<and>
         (et_PVC t \<noteq> [] \<longrightarrow> (TagKeyPVC, et_PVC t) \<in> set kvs)
       else (TagKeyTenant, et_Tenant t) \<in> set kvs)"
    if "list_all (plain_key \<circ> fst) kvs" for kvs
  proof -
    have "selects (args ! 3) (TagBase # restic_tags.write_tags kvs) =
        list_all (\<lambda>x. x \<in> set (TagBase # restic_tags.write_tags kvs)) tags"
      by (auto simp: restic_tag_filter args Split_filter [OF cf] list_all_iff)
    then show ?thesis
      using tags Tag_in_write [OF _ that]
      by (auto simp: ErasureFilterTags_def plain_keys simp del: set_simps split: if_splits)
  qed
  note mem = in_erasure_scope_def plain_keys data_kvs_def schedule_run_kvs_def
  show "selects (args ! 3) (Tags (DataIdentity c tenant ns pvc schedule run)) =
        in_erasure_scope t tenant ns (Some pvc)"
    by (simp add: DataIdentity_Tags sel mem eq_commute)
  show "selects (args ! 3) (Tags (ManifestsIdentity c tenant ns schedule run)) =
        in_erasure_scope t tenant ns None"
    by (simp add: ManifestsIdentity_Tags sel mem eq_commute)
  show "\<not> selects (args ! 3) (Tags (ClusterManifestsIdentity c schedule run))"
    by (simp add: ClusterManifestsIdentity_Tags sel mem)
qed

theorem erasure_scope_exact_witness:
  "\<exists>args. ErasureForgetArgs \<lparr>et_Tenant = [], et_Namespace = ''shop'', et_PVC = ''db''\<rparr> = Inr args \<and>
     set (Split (args ! 3) (CHR '','')) \<subseteq> set (Tags (DataIdentity ''c'' ''t'' ''shop'' ''db'' [] ''r''))"
proof -
  let ?t = "\<lparr>et_Tenant = [], et_Namespace = ''shop'', et_PVC = ''db''\<rparr>"
  note e = erasure_scope_exact [of "\<lambda>flt tags. set (Split flt (CHR '','')) \<subseteq> set tags" ?t "''c''" "''t''"
      "''shop''" "''db''" "[]" "''r''"]
  obtain args where a: "ErasureForgetArgs ?t = Inr args"
    by (auto simp: ErasureForgetArgs_def ErasureTagFilter_def ErasureFilterTags_def)
  then show ?thesis using e by (auto simp: comma_free_def in_erasure_scope_def)
qed

section \<open>Retention\<close>

definition keep_buckets :: "RetentionSpec \<Rightarrow> (string \<times> i32) list" where
  "keep_buckets r = [(''last'', KeepLast r), (''hourly'', KeepHourly r), (''daily'', KeepDaily r),
     (''weekly'', KeepWeekly r), (''monthly'', KeepMonthly r), (''yearly'', KeepYearly r)]"

definition keep_flags :: "(string \<times> i32) list \<Rightarrow> string list" where
  "keep_flags bs = concat (map (\<lambda>(b, n). [''--keep-'' @ b, FormatInt (sint n)])
     (filter (\<lambda>(b, n). 0 <s n) bs))"

lemma keep_flags_Nil_iff: "keep_flags bs = [] \<longleftrightarrow> list_all (\<lambda>(b, n). n \<le>s 0) bs"
proof -
  have "\<not> 0 <s n \<longleftrightarrow> n \<le>s 0" for n :: i32 by (simp add: word_sless_alt word_sle_eq not_less)
  then show ?thesis by (induction bs) (auto simp: keep_flags_def)
qed

lemma ForgetArgs_eq:
  "ForgetArgs r =
     [flagTag, TagBase, flagGroupBy, groupByHostPaths] @ keep_flags (keep_buckets r) @
     (if keep_flags (keep_buckets r) = [] then [] else [flagRetryLock, retryLockFor])"
proof -
  have keep: "keep b n (xs @ keep_flags bs) = xs @ keep_flags (bs @ [(b, n)])" for b n xs bs
    by (simp add: keep_def keep_flags_def)
  have "keep ''yearly'' (KeepYearly r) (keep ''monthly'' (KeepMonthly r) (keep ''weekly'' (KeepWeekly r)
      (keep ''daily'' (KeepDaily r) (keep ''hourly'' (KeepHourly r) (keep ''last'' (KeepLast r)
      (xs @ keep_flags [])))))) = xs @ keep_flags (keep_buckets r)" for xs
    by (simp only: keep append.simps keep_buckets_def)
  then have "keep ''yearly'' (KeepYearly r) (keep ''monthly'' (KeepMonthly r) (keep ''weekly'' (KeepWeekly r)
      (keep ''daily'' (KeepDaily r) (keep ''hourly'' (KeepHourly r) (keep ''last'' (KeepLast r)
      xs))))) = xs @ keep_flags (keep_buckets r)" for xs
    by (simp add: keep_flags_def)
  then show ?thesis by (simp add: ForgetArgs_def)
qed

text \<open>
  Forget never runs without a keep policy. The command is refused exactly when no bucket is
  positive, so a retention left empty cannot become a forget of everything; otherwise it is the
  tag filter, the grouping by host and paths, exactly the positive buckets in their fixed order
  with their decimal counts, and the lock retry.
\<close>

theorem forget_needs_keep_policy:
  "ForgetCommand r =
     (if list_all (\<lambda>(b, n). n \<le>s 0) (keep_buckets r) then None
      else Some ([forgetCmd, flagTag, TagBase, flagGroupBy, groupByHostPaths] @
        concat (map (\<lambda>(b, n). [''--keep-'' @ b, FormatInt (sint n)])
          (filter (\<lambda>(b, n). 0 <s n) (keep_buckets r))) @ [flagRetryLock, retryLockFor]))"
  using keep_flags_Nil_iff [of "keep_buckets r"]
  by (auto simp: ForgetCommand_def ForgetArgs_eq keep_flags_def)

section \<open>Validated arguments\<close>

definition digits1 :: "string \<Rightarrow> bool" where
  "digits1 s \<longleftrightarrow> s \<noteq> [] \<and> list_all is_digit s"

definition number :: "string \<Rightarrow> bool" where
  "number s \<longleftrightarrow> digits1 s \<or> (\<exists>d f. s = d @ ''.'' @ f \<and> digits1 d \<and> digits1 f)"

lemma digit_chars: "\<not> is_digit (CHR ''.'')" "\<not> is_digit (CHR ''/'')" "\<not> is_digit (CHR ''%'')"
  "c \<in> set ''kKmMgGtT'' \<Longrightarrow> \<not> is_digit c" "c \<in> set ''kKmMgGtT'' \<Longrightarrow> c \<noteq> CHR ''.''"
  by (auto simp: is_digit_def)

lemma digits1_takeWhile: "takeWhile is_digit s \<noteq> [] \<Longrightarrow> digits1 (takeWhile is_digit s)"
  by (auto simp: digits1_def list_all_iff dest: set_takeWhileD)

lemma digits1_span:
  assumes "digits1 d" and "r = [] \<or> \<not> is_digit (hd r)"
  shows "takeWhile is_digit (d @ r) = d" and "dropWhile is_digit (d @ r) = r"
proof -
  have d: "\<And>x. x \<in> set d \<Longrightarrow> is_digit x" using assms(1) by (auto simp: digits1_def list_all_iff)
  show "takeWhile is_digit (d @ r) = d" "dropWhile is_digit (d @ r) = r"
    using assms(2) d by (cases r; simp add: takeWhile_append2 dropWhile_append2)+
qed

lemma match_number_sound: "match_number s = Some r \<Longrightarrow> \<exists>n. s = n @ r \<and> number n"
proof -
  assume m: "match_number s = Some r"
  let ?d = "takeWhile is_digit s"
  have d: "digits1 ?d" using m by (auto simp: match_number_def intro: digits1_takeWhile split: if_splits)
  have s: "s = ?d @ dropWhile is_digit s" by simp
  show ?thesis
  proof (cases "dropWhile is_digit s")
    case Nil
    have "r = []" using m unfolding match_number_def Nil by (auto split: if_splits)
    moreover have "s = ?d" using s Nil by (metis append_Nil2)
    ultimately show ?thesis using d unfolding number_def by (metis append_Nil2)
  next
    case (Cons c t)
    show ?thesis
    proof (cases "c = CHR ''.'' \<and> takeWhile is_digit t \<noteq> []")
      case True
      with Cons m have "r = dropWhile is_digit t" by (auto simp: match_number_def split: if_splits)
      then have "s = (?d @ ''.'' @ takeWhile is_digit t) @ r" using s Cons True by simp
      moreover have "number (?d @ ''.'' @ takeWhile is_digit t)"
        using d True digits1_takeWhile by (auto simp: number_def)
      ultimately show ?thesis by blast
    next
      case False
      with Cons m have "r = dropWhile is_digit s" by (auto simp: match_number_def split: if_splits)
      moreover have "number ?d" using d by (simp add: number_def)
      ultimately show ?thesis using s by metis
    qed
  qed
qed

lemma match_number_complete:
  assumes "number n" and "r = [] \<or> (\<not> is_digit (hd r) \<and> hd r \<noteq> CHR ''.'')"
  shows "match_number (n @ r) = Some r"
proof -
  from assms(1) consider "digits1 n"
    | d f where "n = d @ ''.'' @ f" "digits1 d" "digits1 f" by (auto simp: number_def)
  then show ?thesis
  proof cases
    case 1
    have span: "takeWhile is_digit (n @ r) = n" "dropWhile is_digit (n @ r) = r"
      using digits1_span [OF 1, of r] assms(2) by auto
    show ?thesis unfolding match_number_def span
      using 1 assms(2) by (auto simp: digits1_def split: list.splits)
  next
    case 2
    have "n @ r = d @ CHR ''.'' # f @ r" using 2 by simp
    moreover have "takeWhile is_digit (d @ CHR ''.'' # f @ r) = d"
      "dropWhile is_digit (d @ CHR ''.'' # f @ r) = CHR ''.'' # f @ r"
      using digits1_span [OF 2(2), of "CHR ''.'' # f @ r"] digit_chars(1) by simp_all
    moreover have "takeWhile is_digit (f @ r) = f" "dropWhile is_digit (f @ r) = r"
      using digits1_span [OF 2(3), of r] assms(2) by auto
    moreover have "d \<noteq> []" "f \<noteq> []" using 2 by (auto simp: digits1_def)
    ultimately show ?thesis unfolding match_number_def by simp
  qed
qed

definition size_arg :: "string \<Rightarrow> bool" where
  "size_arg s \<longleftrightarrow> (\<exists>n u. s = n @ u \<and> number n \<and> (u = [] \<or> (\<exists>c \<in> set ''kKmMgGtT''. u = [c])))"

lemma repackSizePattern_iff: "repackSizePattern s \<longleftrightarrow> size_arg s"
proof
  assume "repackSizePattern s"
  then obtain r where "match_number s = Some r" "match_unit r"
    by (auto simp: repackSizePattern_def split: option.splits)
  moreover have "match_unit r \<Longrightarrow> r = [] \<or> (\<exists>c \<in> set ''kKmMgGtT''. r = [c])"
    unfolding match_unit_def by (cases r) auto
  ultimately show "size_arg s" using match_number_sound unfolding size_arg_def by blast
next
  assume "size_arg s"
  then obtain n u where s: "s = n @ u" "number n" and u: "u = [] \<or> (\<exists>c \<in> set ''kKmMgGtT''. u = [c])"
    by (auto simp: size_arg_def)
  have "u = [] \<or> (\<not> is_digit (hd u) \<and> hd u \<noteq> CHR ''.'')"
    using u digit_chars(4,5) by (metis list.sel(1))
  then have "match_number s = Some u"
    using s match_number_complete [of n u] by simp
  then show "repackSizePattern s"
    using u by (auto simp: repackSizePattern_def match_unit_def)
qed

definition part_arg :: "string \<Rightarrow> bool" where
  "part_arg s \<longleftrightarrow> (\<exists>a b. s = a @ ''/'' @ b \<and> digits1 a \<and> digits1 b)"

lemma match_fraction_iff: "match_fraction s \<longleftrightarrow> part_arg s"
proof
  assume m: "match_fraction s"
  then obtain b where "dropWhile is_digit s = CHR ''/'' # b" "digits1 b" "takeWhile is_digit s \<noteq> []"
    by (auto simp: match_fraction_def digits1_def split: list.splits)
  moreover have "s = takeWhile is_digit s @ dropWhile is_digit s" by simp
  ultimately show "part_arg s"
    unfolding part_arg_def using digits1_takeWhile [of s] by (metis append_Cons append_Nil)
next
  assume "part_arg s"
  then obtain a b where s: "s = a @ CHR ''/'' # b" "digits1 a" "digits1 b" by (auto simp: part_arg_def)
  with digits1_span [OF s(2), of "CHR ''/'' # b"] digit_chars(2) show "match_fraction s"
    by (auto simp: match_fraction_def digits1_def)
qed

text \<open>
  Prune and check take only well-formed sizes. A non-empty setting is put into the command
  line exactly when it is a decimal number with an optional unit letter (or, for check, a
  part \<open>n/t\<close> or a percentage), and every other setting is refused with an error that
  names it; an empty setting leaves the flag out.
\<close>

theorem maintenance_arguments_validated:
  "PruneCommand s =
     (if s = [] then Inr [pruneCmd, flagRetryLock, retryLockFor]
      else if size_arg s then Inr [pruneCmd, flagRetryLock, retryLockFor, flagMaxRepackSize, s]
      else Inl (InvalidPruneMaxRepackSize s)) \<and>
   CheckCommand s =
     (if s = [] then Inr [checkCmd, flagRetryLock, retryLockFor]
      else if part_arg s \<or> (\<exists>n. s = n @ ''%'' \<and> number n) \<or> size_arg s
      then Inr [checkCmd, flagRetryLock, retryLockFor, flagReadDataSubset, s]
      else Inl (InvalidCheckReadDataSubset s))"
proof -
  have "match_number s = Some ''%'' \<longleftrightarrow> (\<exists>n. s = n @ ''%'' \<and> number n)"
    using match_number_sound match_number_complete [of _ "''%''"] digit_chars(3) by auto
  then show ?thesis
    by (auto simp: PruneCommand_def CheckCommand_def repackSizePattern_iff readDataSubsetPattern_def
        match_fraction_iff)
qed

section \<open>Grouping\<close>

text \<open>
  Grouping snapshots by namespace and run loses and invents nothing: the group of a key is
  exactly the sublist of the snapshots whose tags carry that namespace and run, in their
  original order, and a key without snapshots has no group.
\<close>

theorem snapshot_groups_partition:
  "GroupByNamespaceRun snaps key =
     (let g = filter (\<lambda>s. snapshot_key s = key) snaps in if g = [] then None else Some g)"
proof -
  have "foldl (\<lambda>groups s. let key = snapshot_key s;
             old = (case groups key of None \<Rightarrow> [] | Some g \<Rightarrow> g)
         in groups(key \<mapsto> old @ [s])) m xs key =
    (let g = filter (\<lambda>s. snapshot_key s = key) xs
     in if g = [] then m key else Some ((case m key of None \<Rightarrow> [] | Some h \<Rightarrow> h) @ g))" for m xs
    by (induction xs arbitrary: m) (auto simp: Let_def)
  then show ?thesis by (simp add: GroupByNamespaceRun_def Let_def)
qed

section \<open>The address and the object prefix\<close>

lemma collapse_slashes_squeeze: "collapse_slashes s = squeeze s"
proof (induction s rule: collapse_slashes.induct)
  case (1 s)
  then show ?case
    by (subst collapse_slashes.simps) (auto simp: squeeze_ReplaceAll squeeze_Contains)
qed

lemma path_segments_slashes: "set p \<subseteq> {CHR ''/''} \<Longrightarrow> path_segments (p @ s) = path_segments s"
  by (induction p) auto

lemma path_segments_trailing: "set q \<subseteq> {CHR ''/''} \<Longrightarrow> path_segments (s @ q) = path_segments s"
proof (induction q arbitrary: s)
  case (Cons c q)
  then have "path_segments (s @ c # q) = path_segments s @ path_segments q" by simp
  also have "path_segments q = []"
    using Cons.prems path_segments_slashes [of q "[]"] by simp
  finally show ?case by simp
qed simp

lemma path_segments_Trim: "path_segments (Trim s ''/'') = path_segments s"
proof -
  obtain p q where "s = p @ Trim s ''/'' @ q" "set p \<subseteq> set ''/''" "set q \<subseteq> set ''/''"
    using Trim_decompose by blast
  then show ?thesis
    by (metis path_segments_slashes path_segments_trailing list.simps(15) empty_set)
qed

text \<open>A clean path: no empty segment inside; its segments join to itself.\<close>

lemma Join_segments_clean:
  assumes "\<not> Contains s ''//''" and "s = [] \<or> (hd s \<noteq> CHR ''/'' \<and> last s \<noteq> CHR ''/'')"
  shows "Join (path_segments s) ''/'' = s"
proof -
  have "TrimRight (squeeze s) ''/'' = s"
    using assms by (cases "s = []") (simp_all add: squeeze_Contains)
  then show ?thesis using assms(2) TrimRight_squeeze [of s] by (auto split: if_splits)
qed

lemma Join_Trim_clean:
  "\<not> Contains (Trim s ''/'') ''//'' \<Longrightarrow> Join (path_segments s) ''/'' = Trim s ''/''"
  using Join_segments_clean [of "Trim s ''/''"] Trim_hd [of s "''/''"] Trim_last [of s "''/''"]
  by (auto simp: path_segments_Trim)

lemma path_segments_plain: "CHR ''/'' \<notin> set s \<Longrightarrow> s \<noteq> [] \<Longrightarrow> path_segments s = [s]"
  by (simp add: path_segments_def)

lemma RepoURL_segments:
  assumes "split_scheme schemes endpoint = (scheme, host)"
    and "CHR ''/'' \<notin> set host" and "host \<noteq> []" and "CHR ''/'' \<notin> set bucket" and "bucket \<noteq> []"
  shows "RepoURL endpoint bucket pre clusterID = ''s3:'' @ scheme @
    Join ([host, bucket] @ path_segments pre @ path_segments clusterID) ''/''"
proof -
  let ?s = "Join ([host, bucket] @ (if pre \<noteq> [] then [pre] else []) @ [clusterID]) ''/''"
  have "?s \<noteq> []" "hd ?s \<noteq> CHR ''/''"
    using assms(2,3) by (auto simp: neq_Nil_conv)
  moreover have "path_segments ?s = [host, bucket] @ path_segments pre @ path_segments clusterID"
    using assms by (simp add: path_segments_plain)
  ultimately have "TrimRight (squeeze ?s) ''/'' =
      Join ([host, bucket] @ path_segments pre @ path_segments clusterID) ''/''"
    by (simp add: TrimRight_squeeze del: Join.simps)
  then show ?thesis using assms(1) by (simp add: RepoURL_def collapse_slashes_squeeze del: Join.simps)
qed

text \<open>
  The repository address and the object prefix agree. For an endpoint with a plain host and a
  plain bucket name, and a prefix and a cluster id without empty inner path segments, the
  objects under the address the operator hands to restic are exactly those below the key prefix
  it lists to measure the repository.
\<close>

theorem repo_url_agrees_with_object_prefix:
  assumes "split_scheme schemes endpoint = (scheme, host)"
    and "CHR ''/'' \<notin> set host" and "host \<noteq> []" and "CHR ''/'' \<notin> set bucket" and "bucket \<noteq> []"
    and "\<not> Contains (Trim pre ''/'') ''//''" and "\<not> Contains (Trim clusterID ''/'') ''//''"
  shows "RepoURL endpoint bucket pre clusterID @ ''/'' =
    ''s3:'' @ scheme @ host @ ''/'' @ bucket @ ''/'' @ RepoObjectPrefix pre clusterID"
proof -
  have ne: "path_segments s = [] \<longleftrightarrow> Trim s ''/'' = []" if "\<not> Contains (Trim s ''/'') ''//''" for s
    using Join_Trim_clean [OF that] Join_segments_Nil_iff [of s] by auto
  have "Join ([host, bucket] @ path_segments pre @ path_segments clusterID) ''/'' @ ''/'' =
      host @ ''/'' @ bucket @ ''/'' @ RepoObjectPrefix pre clusterID"
    using Join_Trim_clean [OF assms(6)] Join_Trim_clean [OF assms(7)] ne [OF assms(6)] ne [OF assms(7)]
    by (cases "path_segments pre = []"; cases "path_segments clusterID = []")
      (simp_all add: RepoObjectPrefix_def Join_Cons Join_append)
  then show ?thesis using RepoURL_segments [OF assms(1-5), of pre clusterID] by simp
qed

theorem repo_url_agrees_with_object_prefix_witness:
  "RepoURL ''https://s3.example'' ''bkt'' ''/dr/'' ''c1'' @ ''/'' =
     ''s3:https://s3.example/bkt/'' @ RepoObjectPrefix ''/dr/'' ''c1''"
proof -
  have "split_scheme schemes ''https://s3.example'' = (''https://'', ''s3.example'')"
    by (simp add: schemes_def)
  from repo_url_agrees_with_object_prefix [OF this, of "''bkt''" "''/dr/''" "''c1''"] show ?thesis
    by (simp add: Trim_def TrimLeft_def TrimRight_def)
qed

text \<open>
  The restriction is needed. With an empty segment inside the prefix the address collapses
  the double slash and the object prefix keeps it, so the two name different objects.
\<close>

lemma repo_url_drifts_on_double_slash:
  "RepoURL ''s3.example'' ''bkt'' ''a//b'' ''c1'' = ''s3:s3.example/bkt/a/b/c1'' \<and>
   RepoObjectPrefix ''a//b'' ''c1'' = ''a//b/c1/''"
  by (simp add: RepoURL_def schemes_def collapse_slashes_squeeze RepoObjectPrefix_def Trim_def
      TrimLeft_def TrimRight_def)

end
