(* ===== verification/Object_Names.thy ===== *)
theory Object_Names
  imports Restic_Model
begin

text \<open>
  The deterministic names of the Jobs, Secrets and exposures in the operator namespace
  (\<^verbatim>\<open>sanitizeDNSName\<close> and its callers in \<^verbatim>\<open>internal/controller\<close>), and the backup
  command line. Inputs are Kubernetes names, so lower-casing is that of ASCII; any byte
  above 127 counts as not alphanumeric, as its rune does.
\<close>

definition is_lower :: "char \<Rightarrow> bool" where
  "is_lower c \<longleftrightarrow> 97 \<le> (of_char c :: nat) \<and> (of_char c :: nat) \<le> 122"

definition is_upper :: "char \<Rightarrow> bool" where
  "is_upper c \<longleftrightarrow> 65 \<le> (of_char c :: nat) \<and> (of_char c :: nat) \<le> 90"

definition ToLower :: "string \<Rightarrow> string" where
  "ToLower s = map (\<lambda>c. if is_upper c then char_of ((of_char c :: nat) + 32) else c) s"

definition dns_alnum :: "char \<Rightarrow> bool" where
  "dns_alnum c \<longleftrightarrow> is_lower c \<or> is_digit c"

text \<open>The loop over the characters, with the flag for a hyphen just written.\<close>

fun hyphenate :: "bool \<Rightarrow> string \<Rightarrow> string" where
  "hyphenate prevHyphen [] = []"
| "hyphenate prevHyphen (c # s) =
     (if dns_alnum c then c # hyphenate False s
      else if \<not> prevHyphen then CHR ''-'' # hyphenate True s
      else hyphenate True s)"

text \<open>The 32-bit FNV-1a hash and its eight hexadecimal digits.\<close>

definition fnv1a_32 :: "string \<Rightarrow> i32" where
  "fnv1a_32 s = foldl (\<lambda>h c. (xor h (of_nat (of_char c))) * 16777619) 2166136261 s"

definition hex_digit :: "nat \<Rightarrow> char" where
  "hex_digit d = (if d < 10 then digit_char d else char_of (87 + d))"

definition hex8 :: "i32 \<Rightarrow> string" where
  "hex8 w = map (\<lambda>i. hex_digit (unat w div 16 ^ i mod 16)) [7, 6, 5, 4, 3, 2, 1, 0]"

definition sanitizeDNSName :: "string \<Rightarrow> nat \<Rightarrow> string" where
  "sanitizeDNSName raw mx =
     (let s = Trim (hyphenate False (ToLower raw)) ''-'';
          s = (if s = [] then ''x'' else s)
      in if length s \<le> mx then s
         else let suffix = hex8 (fnv1a_32 raw);
                  kp = int mx - int (length suffix) - 1;
                  kp = (if kp < 1 then 1 else nat kp)
              in TrimRight (take kp s) ''-'' @ ''-'' @ suffix)"

definition moverNamePrefixMax :: nat where "moverNamePrefixMax = 56"
definition restoreNamePrefixMax :: nat where "restoreNamePrefixMax = 55"

definition moverNamePrefix :: "string \<Rightarrow> string \<Rightarrow> string \<Rightarrow> string" where
  "moverNamePrefix ns backupName pvcName =
     sanitizeDNSName (ns @ ''-'' @ backupName @ ''-'' @ pvcName) moverNamePrefixMax"

definition clusterManifestsJobName :: "string \<Rightarrow> string" where
  "clusterManifestsJobName runName =
     sanitizeDNSName (runName @ ''-cluster-manifests'') moverNamePrefixMax @ ''-mover''"

definition clusterManifestBindingName :: "string \<Rightarrow> string" where
  "clusterManifestBindingName jobName = ''crystal-cluster-manifest-'' @ jobName"

definition clusterRestoreJobName :: "string \<Rightarrow> string" where
  "clusterRestoreJobName ownerID =
     sanitizeDNSName (ownerID @ ''-cluster-resources'') moverNamePrefixMax @ ''-mover''"

definition clusterManifestsResolveJobName :: "string \<Rightarrow> string" where
  "clusterManifestsResolveJobName ownerID =
     sanitizeDNSName (ownerID @ ''-cluster-manifests'') restoreNamePrefixMax @ ''-resolve''"

definition restoreNamePrefix :: "string \<Rightarrow> string \<Rightarrow> string" where
  "restoreNamePrefix ownerID pvcName = sanitizeDNSName (ownerID @ ''-'' @ pvcName) restoreNamePrefixMax"

definition restoreJobName :: "string \<Rightarrow> string" where
  "restoreJobName pre = pre @ ''-restore''"

definition restoreResolveJobName :: "string \<Rightarrow> string" where
  "restoreResolveJobName ownerID = sanitizeDNSName ownerID restoreNamePrefixMax @ ''-resolve''"

definition resourcesJobPrefix :: "string \<Rightarrow> string" where
  "resourcesJobPrefix ownerID = sanitizeDNSName (ownerID @ ''-resources'') moverNamePrefixMax"

definition manifestsJobPrefix :: "string \<Rightarrow> string \<Rightarrow> string" where
  "manifestsJobPrefix ns backupName =
     sanitizeDNSName (ns @ ''-'' @ backupName @ ''-manifests'') moverNamePrefixMax"

definition manifestsJobName :: "string \<Rightarrow> string" where
  "manifestsJobName pre = pre @ ''-mover''"

definition resticBackupArgs :: "Identity \<Rightarrow> string list" where
  "resticBackupArgs ident =
     foldl (\<lambda>args tag. args @ [''--tag'', tag]) [''backup'', Path ident, ''--host'', Host ident] (Tags ident)
     @ [''--pack-size'', ''64'', ''--retry-lock'', ''5m'']"

section \<open>Valid labels\<close>

definition dns_char :: "char \<Rightarrow> bool" where
  "dns_char c \<longleftrightarrow> dns_alnum c \<or> c = CHR ''-''"

definition dns_label :: "string \<Rightarrow> bool" where
  "dns_label s \<longleftrightarrow> s \<noteq> [] \<and> list_all dns_char s \<and> dns_alnum (hd s) \<and> dns_alnum (last s)"

lemma hyphen_not_alnum [simp]: "\<not> dns_alnum (CHR ''-'')"
  by (simp add: dns_alnum_def is_lower_def is_digit_def)

lemma hyphenate_chars: "list_all dns_char (hyphenate b s)"
  by (induction b s rule: hyphenate.induct) (auto simp: dns_char_def)

lemma dns_char_not_hyphen: "dns_char c \<Longrightarrow> c \<notin> set ''-'' \<Longrightarrow> dns_alnum c"
  by (simp add: dns_char_def)

lemma Trim_set: "set (Trim s cs) \<subseteq> set s"
  using Trim_decompose [of s cs] by (metis Un_subset_iff set_append subset_refl)

lemma TrimRight_set: "set (TrimRight s cs) \<subseteq> set s"
  using TrimRight_prefix set_mono_prefix by blast

lemma trimmed_label:
  assumes "list_all dns_char s" and "Trim s ''-'' \<noteq> []"
  shows "dns_label (Trim s ''-'')"
proof -
  have "list_all dns_char (Trim s ''-'')"
    using assms(1) Trim_set [of s "''-''"] by (auto simp: list_all_iff)
  then show ?thesis
    using assms(2) Trim_hd [OF assms(2)] Trim_last [OF assms(2)]
    by (auto simp: dns_label_def list_all_iff intro: dns_char_not_hyphen)
qed

lemma hex_digit_alnum: "d < 16 \<Longrightarrow> dns_alnum (hex_digit d)"
  by (auto simp: hex_digit_def dns_alnum_def is_lower_def)

lemma hex8_label: "list_all dns_alnum (hex8 w)" "length (hex8 w) = 8"
  by (simp_all add: hex8_def hex_digit_alnum)

lemma hex8_last: "dns_alnum (last (hex8 w))"
  by (simp add: hex8_def hex_digit_alnum)

lemma TrimRight_hd:
  assumes "s \<noteq> []" and "hd s \<notin> set cs"
  shows "TrimRight s cs \<noteq> []" and "hd (TrimRight s cs) = hd s"
proof -
  obtain c t where s: "s = c # t" using assms(1) by (cases s) auto
  then show "TrimRight s cs \<noteq> []" "hd (TrimRight s cs) = hd s"
    using assms(2) by (auto simp: TrimRight_Cons)
qed

lemma truncated_label:
  assumes "dns_label s" and "1 \<le> k"
  shows "dns_label (TrimRight (take k s) ''-'' @ ''-'' @ hex8 w)"
    and "length (TrimRight (take k s) ''-'' @ ''-'' @ hex8 w) \<le> k + 9"
proof -
  let ?t = "take k s"
  have t: "?t \<noteq> []" "hd ?t = hd s" using assms by (auto simp: dns_label_def hd_take)
  have "hd ?t \<notin> set ''-''" using assms(1) t by (auto simp: dns_label_def)
  note h = TrimRight_hd [OF t(1) this]
  have "list_all dns_char (TrimRight ?t ''-'')"
    using assms(1) TrimRight_set [of ?t "''-''"] set_take_subset [of k s]
    by (auto simp: dns_label_def list_all_iff)
  moreover have "list_all dns_char (hex8 w)"
    using hex8_label(1) [of w] by (auto simp: dns_char_def list_all_iff)
  moreover have "hex8 w \<noteq> []" by (simp add: hex8_def)
  ultimately show "dns_label (TrimRight ?t ''-'' @ ''-'' @ hex8 w)"
    using h t assms(1) hex8_last [of w] by (simp add: dns_label_def dns_char_def)
  have "length (TrimRight ?t ''-'') \<le> k"
    using prefix_length_le [OF TrimRight_prefix [of ?t "''-''"]] by simp
  then show "length (TrimRight ?t ''-'' @ ''-'' @ hex8 w) \<le> k + 9"
    by (simp add: hex8_label)
qed

text \<open>
  Derived names are valid. For every input and every cap of at least ten the sanitised name is
  a DNS label (non-empty, lower-case alphanumerics and hyphens, alphanumeric at both ends) within
  the cap, so a mover Job's name with its suffix stays within the 63 bytes Kubernetes
  allows.
\<close>

theorem sanitized_names_are_labels:
  assumes "10 \<le> mx"
  shows "dns_label (sanitizeDNSName raw mx) \<and> length (sanitizeDNSName raw mx) \<le> mx \<and>
    length (moverNamePrefix ns backupName pvcName @ ''-mover'') \<le> 63 \<and>
    length (restoreJobName (restoreNamePrefix ownerID pvcName)) \<le> 63"
proof -
  have lab: "dns_label (sanitizeDNSName r m) \<and> length (sanitizeDNSName r m) \<le> m" if "10 \<le> m" for r m
  proof -
    let ?h = "hyphenate False (ToLower r)"
    define s where "s = (if Trim ?h ''-'' = [] then ''x'' else Trim ?h ''-'')"
    have s: "dns_label s"
      using trimmed_label [OF hyphenate_chars]
      by (auto simp: s_def dns_label_def dns_char_def dns_alnum_def is_lower_def)
    have "nat (int m - 8 - 1) + 9 \<le> m" "1 \<le> nat (int m - 8 - 1)" using that by auto
    then show ?thesis
      using s truncated_label [OF s, of "nat (int m - 8 - 1)" "fnv1a_32 r"] that
      by (auto simp: sanitizeDNSName_def Let_def hex8_label simp flip: s_def)
  qed
  show ?thesis
    using assms lab [of mx raw] lab [of 56 "ns @ ''-'' @ backupName @ ''-'' @ pvcName"]
      lab [of 55 "ownerID @ ''-'' @ pvcName"]
    by (simp add: moverNamePrefix_def moverNamePrefixMax_def restoreJobName_def restoreNamePrefix_def
        restoreNamePrefixMax_def)
qed

theorem sanitized_names_are_labels_witness:
  "length (sanitizeDNSName ''Some--Very_Long name'' 12) \<le> 12"
  using sanitized_names_are_labels [of 12 "''Some--Very_Long name''"] by simp

text \<open>
  Mover names are not unique. Joining namespace, backup and claim with the hyphen that each of
  them may contain lets two different volumes of two namespaces derive the same name, although
  their restic identities differ, so the second re-adopts the first one's Job.
\<close>

theorem mover_names_collide:
  "moverNamePrefix ''team'' ''a-nightly-1'' ''data'' = moverNamePrefix ''team-a'' ''nightly-1'' ''data'' \<and>
   DataIdentity c tenant ''team'' ''data'' s ''a-nightly-1'' \<noteq>
     DataIdentity c tenant ''team-a'' ''data'' s ''nightly-1''"
proof -
  have "Path (DataIdentity c tenant ''team'' ''data'' s ''a-nightly-1'') \<noteq>
      Path (DataIdentity c tenant ''team-a'' ''data'' s ''nightly-1'')"
    by (simp add: DataIdentity_def)
  then show ?thesis by (auto simp: moverNamePrefix_def)
qed

end
