(* ===== verification/Run_Abandonment.thy ===== *)
theory Run_Abandonment
  imports Run_Coordinates Mover_Admission Object_Names
begin

text \<open>
  When a schedule may declare a previous run abandoned, and what terminating it does
  (\<^verbatim>\<open>internal/controller/schedule_abandonment.go\<close>), for a namespace's Backup and for a
  cluster run. The sentences the code builds as evidence are values of \<open>evidence\<close>, one
  constructor per sentence; the code only tests them for emptiness and prints them, so an empty
  sentence is \<open>None\<close> and the printing is a parameter. The API server, the condition helpers of
  apimachinery and the clock are the fields of \<open>env\<close>.
\<close>

abbreviation ConditionReady :: string where "ConditionReady \<equiv> ''Ready''"
abbreviation ConditionFalse :: string where "ConditionFalse \<equiv> ''False''"
abbreviation reasonTerminatedAsAbandoned :: string
  where "reasonTerminatedAsAbandoned \<equiv> ''TerminatedAsAbandoned''"

definition scheduleAbandonmentGrace :: duration where "scheduleAbandonmentGrace = hours 4"
definition pendingResolveDeadline :: duration where "pendingResolveDeadline = hours 1"

datatype evidence =
    VolumeIsUploading string
  | VolumeIsSnapshotting string
  | VolumeIsQueued string
  | VolumeIsPending string duration duration
  | RecentProgress duration duration
  | NoProgressSince nat instant duration duration
  | ChildInFlight string evidence
  | CaptureJobUnfinished string
  | CaptureJobUnreadable api_error
  | ClusterNoProgressSince nat string instant duration duration
  | ParentTerminated string evidence

datatype run_event =
    AbandonedRunTerminated string evidence nat
  | ConcurrencySkip string evidence
  | TickTerminated string evidence
  | BackupStamped string
  | RunNameCollisionEvent runNameCollisionError

record 'w control =
  c_world :: 'w
  c_events :: "run_event list"

record 'w env =
  e_now :: instant
  e_set_condition :: "Condition \<Rightarrow> Condition list \<Rightarrow> Condition list"
  e_find_condition :: "Condition list \<Rightarrow> string \<Rightarrow> Condition option"
  e_show :: "evidence \<Rightarrow> string"
  e_update_backup :: "Backup \<Rightarrow> 'w \<Rightarrow> api_error option \<times> 'w"
  e_update_run :: "ClusterBackup \<Rightarrow> 'w \<Rightarrow> api_error option \<times> 'w"
  e_list_children :: "string \<Rightarrow> 'w \<Rightarrow> api_error + Backup list"
  e_job_status :: "string \<Rightarrow> 'w \<Rightarrow> api_error + (i32 \<times> i32)"
  e_delete_binding :: "string \<Rightarrow> 'w \<Rightarrow> api_error option \<times> 'w"
  e_delete_job_secret :: "string \<Rightarrow> 'w \<Rightarrow> 'w"

section \<open>Is a run in flight\<close>

abbreviation terminal_volume :: "VolumeStatus \<Rightarrow> bool" where
  "terminal_volume v \<equiv> Phase v = VolumePhaseCompleted \<or> Phase v = VolumePhaseSkipped \<or>
     Phase v = VolumePhaseFailed"

definition volumeInFlightReason :: "VolumeStatus \<Rightarrow> instant \<Rightarrow> duration \<Rightarrow> evidence option" where
  "volumeInFlightReason v now pendingDeadline =
     (if terminal_volume v then None
      else if Phase v = VolumePhaseUploading then Some (VolumeIsUploading (Pvc v))
      else if Phase v = VolumePhaseSnapshotting then Some (VolumeIsSnapshotting (Pvc v))
      else case FirstAttemptAt v of
             None \<Rightarrow> Some (VolumeIsQueued (Pvc v))
           | Some t \<Rightarrow>
               let waited = time_sub now t
               in if waited \<le> pendingDeadline then Some (VolumeIsPending (Pvc v) waited pendingDeadline)
                  else None)"

fun volumes_in_flight :: "VolumeStatus list \<Rightarrow> instant \<Rightarrow> duration \<Rightarrow> evidence option" where
  "volumes_in_flight [] now pendingDeadline = None"
| "volumes_in_flight (v # vs) now pendingDeadline =
     (case volumeInFlightReason v now pendingDeadline of
        Some reason \<Rightarrow> Some reason
      | None \<Rightarrow> volumes_in_flight vs now pendingDeadline)"

definition backupInFlightReason :: "Backup \<Rightarrow> instant \<Rightarrow> duration \<Rightarrow> evidence option" where
  "backupInFlightReason b now pendingDeadline =
     volumes_in_flight (bs_Volumes (b_Status b)) now pendingDeadline"

text \<open>The zero time of an object without a creation timestamp.\<close>

definition created_at :: "ObjectMeta \<Rightarrow> instant" where
  "created_at m = (case m_CreationTimestamp m of None \<Rightarrow> - seconds 62135596800 | Some t \<Rightarrow> t)"

definition later :: "instant \<Rightarrow> instant option \<Rightarrow> instant" where
  "later latest t = (case t of None \<Rightarrow> latest | Some t \<Rightarrow> if t > latest then t else latest)"

definition backupLastProgressAt :: "'w env \<Rightarrow> Backup \<Rightarrow> instant" where
  "backupLastProgressAt e b =
     (let latest = created_at (b_Meta b);
          latest = later latest
            (map_option cond_LastTransitionTime (e_find_condition e (bs_Conditions (b_Status b)) ConditionReady))
      in foldl (\<lambda>latest v. later latest (FirstAttemptAt v)) latest (bs_Volumes (b_Status b)))"

definition backupAbandonment ::
  "'w env \<Rightarrow> Backup \<Rightarrow> instant \<Rightarrow> duration \<Rightarrow> duration \<Rightarrow> evidence \<times> bool" where
  "backupAbandonment e b now pendingDeadline grace =
     (case backupInFlightReason b now pendingDeadline of
        Some inFlight \<Rightarrow> (inFlight, False)
      | None \<Rightarrow>
          let last_progress = backupLastProgressAt e b;
              quiet = time_sub now last_progress
          in if quiet \<le> grace then (RecentProgress quiet grace, False)
             else (NoProgressSince (length (bs_Volumes (b_Status b))) last_progress quiet grace, True))"

section \<open>Terminating an abandoned Backup\<close>

definition clusterBackupMessageCap :: nat where "clusterBackupMessageCap = 384"

text \<open>The runes of a UTF-8 string as groups of a leading byte and its continuation bytes.\<close>

definition continuation :: "char \<Rightarrow> bool" where
  "continuation c \<longleftrightarrow> 128 \<le> (of_char c :: nat) \<and> (of_char c :: nat) < 192"

function runes :: "string \<Rightarrow> string list" where
  "runes [] = []"
| "runes (c # s) = (c # takeWhile continuation s) # runes (dropWhile continuation s)"
  by pat_completeness auto
termination
  by (relation "measure length") (simp_all add: le_imp_less_Suc length_dropWhile_le)

definition clampMessage :: "string \<Rightarrow> string" where
  "clampMessage s =
     (let r = runes s
      in if length r \<le> clusterBackupMessageCap then s
         else concat (take (clusterBackupMessageCap - 1) r) @ [CHR 0xE2, CHR 0x80, CHR 0xA6])"

definition shortReason :: "string \<Rightarrow> string" where
  "shortReason msg =
     (let msg = TrimSpace msg
      in if msg = [] then ''MoverJobFailed'' else if length msg > 200 then take 200 msg else msg)"

definition fail_abandoned_volume :: "VolumeStatus \<Rightarrow> VolumeStatus" where
  "fail_abandoned_volume v =
     (if terminal_volume v then v
      else v\<lparr>Phase := VolumePhaseFailed,
             Reason := (if Reason v = [] then reasonTerminatedAsAbandoned
                        else shortReason (reasonTerminatedAsAbandoned @ '': '' @ Reason v))\<rparr>)"

fun abandonedTerminalPhase :: "VolumeStatus list \<Rightarrow> string" where
  "abandonedTerminalPhase [] = BackupPhaseFailed"
| "abandonedTerminalPhase (v # vs) =
     (if Phase v = VolumePhaseCompleted then BackupPhasePartiallyFailed else abandonedTerminalPhase vs)"

definition setCompletionTime :: "instant \<Rightarrow> Backup \<Rightarrow> Backup" where
  "setCompletionTime now b =
     (if bs_CompletionTime (b_Status b) \<noteq> None then b
      else b\<lparr>b_Status := (b_Status b)\<lparr>bs_CompletionTime := Some now\<rparr>\<rparr>)"

definition abandoned_condition :: "'w env \<Rightarrow> evidence \<Rightarrow> int \<Rightarrow> Condition" where
  "abandoned_condition e ev gen =
     \<lparr>cond_Type = ConditionReady, cond_Status = ConditionFalse,
      cond_Reason = reasonTerminatedAsAbandoned,
      cond_Message = clampMessage
        (''terminated by its schedule as abandoned so the next run could start: '' @ e_show e ev),
      cond_ObservedGeneration = gen, cond_LastTransitionTime = - seconds 62135596800\<rparr>"

definition terminated_backup :: "'w env \<Rightarrow> Backup \<Rightarrow> evidence \<Rightarrow> Backup" where
  "terminated_backup e b ev =
     (let volumes = map fail_abandoned_volume (bs_Volumes (b_Status b));
          st = (b_Status b)\<lparr>bs_Volumes := volumes, bs_Phase := abandonedTerminalPhase volumes\<rparr>;
          st = (if bs_BackupTime st = None then st\<lparr>bs_BackupTime := Some (e_now e)\<rparr> else st);
          b = setCompletionTime (e_now e) (b\<lparr>b_Status := st\<rparr>)
      in b\<lparr>b_Status := (b_Status b)\<lparr>bs_Conditions :=
            e_set_condition e (abandoned_condition e ev (m_Generation (b_Meta b)))
              (bs_Conditions (b_Status b))\<rparr>\<rparr>)"

definition terminateAbandonedBackup ::
  "'w env \<Rightarrow> Backup \<Rightarrow> evidence \<Rightarrow> 'w control \<Rightarrow> api_error option \<times> 'w control" where
  "terminateAbandonedBackup e b ev st =
     (let killed = length (filter (\<lambda>v. \<not> terminal_volume v) (bs_Volumes (b_Status b)))
      in case e_update_backup e (terminated_backup e b ev) (c_world st) of
           (Some err, w) \<Rightarrow> (Some err, st\<lparr>c_world := w\<rparr>)
         | (None, w) \<Rightarrow>
             (None, st\<lparr>c_world := w,
                c_events := c_events st @ [AbandonedRunTerminated (m_Name (b_Meta b)) ev killed]\<rparr>))"

section \<open>Cluster runs\<close>

definition isTerminalClusterBackupPhase :: "string \<Rightarrow> bool" where
  "isTerminalClusterBackupPhase phase \<longleftrightarrow>
     phase = ClusterBackupPhaseCompleted \<or> phase = ClusterBackupPhaseFailed
     \<or> phase = ClusterBackupPhasePartiallyFailed"

definition runChildren :: "'w env \<Rightarrow> ClusterBackup \<Rightarrow> 'w \<Rightarrow> api_error + Backup list" where
  "runChildren e cb w =
     (case e_list_children e (m_Name (cb_Meta cb)) w of
        Inl err \<Rightarrow> Inl err
      | Inr items \<Rightarrow>
          Inr (foldl (\<lambda>kept child.
                 if annotation child AnnotationProjected = AnnotationProjectedValue then kept
                 else kept @ [child]) [] items))"

fun children_in_flight :: "Backup list \<Rightarrow> instant \<Rightarrow> evidence option" where
  "children_in_flight [] now = None"
| "children_in_flight (child # rest) now =
     (if isTerminalBackupPhase (bs_Phase (b_Status child)) then children_in_flight rest now
      else case backupInFlightReason child now pendingResolveDeadline of
             Some reason \<Rightarrow> Some (ChildInFlight (m_Namespace (b_Meta child)) reason)
           | None \<Rightarrow> children_in_flight rest now)"

definition clusterRunInFlightReason ::
  "'w env \<Rightarrow> ClusterBackup \<Rightarrow> instant \<Rightarrow> 'w \<Rightarrow> api_error + evidence option" where
  "clusterRunInFlightReason e cb now w =
     (case runChildren e cb w of
        Inl err \<Rightarrow> Inl err
      | Inr children \<Rightarrow>
          (case children_in_flight children now of
             Some reason \<Rightarrow> Inr (Some reason)
           | None \<Rightarrow>
               let jobName = clusterManifestsJobName (m_Name (cb_Meta cb))
               in case e_job_status e jobName w of
                    Inr (succeeded, failed) \<Rightarrow>
                      if succeeded = 0 \<and> failed = 0 then Inr (Some (CaptureJobUnfinished jobName))
                      else Inr None
                  | Inl err \<Rightarrow>
                      if err \<noteq> NotFound then Inr (Some (CaptureJobUnreadable err)) else Inr None))"

definition clusterRunLastProgressAt :: "'w env \<Rightarrow> ClusterBackup \<Rightarrow> Backup list \<Rightarrow> instant" where
  "clusterRunLastProgressAt e cb children =
     (let latest = created_at (cb_Meta cb);
          latest = later latest
            (map_option cond_LastTransitionTime (e_find_condition e (cs_Conditions (cb_Status cb)) ConditionReady));
          latest = later latest (cs_StartTime (cb_Status cb))
      in foldl (\<lambda>latest child. later latest (Some (backupLastProgressAt e child))) latest children)"

definition clusterRunAbandonment ::
  "'w env \<Rightarrow> ClusterBackup \<Rightarrow> instant \<Rightarrow> 'w \<Rightarrow> api_error + evidence \<times> bool" where
  "clusterRunAbandonment e cb now w =
     (case clusterRunInFlightReason e cb now w of
        Inl err \<Rightarrow> Inl err
      | Inr (Some inFlight) \<Rightarrow> Inr (inFlight, False)
      | Inr None \<Rightarrow>
          (case runChildren e cb w of
             Inl err \<Rightarrow> Inl err
           | Inr children \<Rightarrow>
               let last_progress = clusterRunLastProgressAt e cb children;
                   quiet = time_sub now last_progress
               in if quiet \<le> scheduleAbandonmentGrace
                  then Inr (RecentProgress quiet scheduleAbandonmentGrace, False)
                  else Inr (ClusterNoProgressSince (length children) (cs_Phase (cb_Status cb)) last_progress
                    quiet scheduleAbandonmentGrace, True)))"

fun terminate_children ::
  "'w env \<Rightarrow> evidence \<Rightarrow> Backup list \<Rightarrow> 'w control \<Rightarrow> api_error option \<times> 'w control" where
  "terminate_children e ev [] st = (None, st)"
| "terminate_children e ev (child # rest) st =
     (if isTerminalBackupPhase (bs_Phase (b_Status child)) then terminate_children e ev rest st
      else case terminateAbandonedBackup e child ev st of
             (Some err, st') \<Rightarrow> (Some err, st')
           | (None, st') \<Rightarrow> terminate_children e ev rest st')"

definition terminated_run :: "'w env \<Rightarrow> ClusterBackup \<Rightarrow> evidence \<Rightarrow> ClusterBackup" where
  "terminated_run e cb ev =
     (let st = cb_Status cb;
          st = st\<lparr>cs_Phase := (if 0 <s cs_NamespacesSucceeded st then ClusterBackupPhasePartiallyFailed
                 else ClusterBackupPhaseFailed)\<rparr>;
          st = (if cs_StartTime st = None then st\<lparr>cs_StartTime := Some (e_now e)\<rparr> else st);
          st = (if cs_CompletionTime st = None then st\<lparr>cs_CompletionTime := Some (e_now e)\<rparr> else st);
          st = st\<lparr>cs_Failures := AppendCappedFailure (cs_Failures st)
                 \<lparr>fr_Namespace = [], fr_Backup = m_Name (cb_Meta cb),
                  fr_Message = clampMessage (reasonTerminatedAsAbandoned @ '': '' @ e_show e ev)\<rparr>
                 DefaultFailureCap\<rparr>;
          st = st\<lparr>cs_Conditions := e_set_condition e
                 (abandoned_condition e ev (m_Generation (cb_Meta cb))) (cs_Conditions st)\<rparr>
      in cb\<lparr>cb_Status := st\<rparr>)"

definition terminateAbandonedRun ::
  "'w env \<Rightarrow> ClusterBackup \<Rightarrow> evidence \<Rightarrow> 'w control \<Rightarrow> api_error option \<times> 'w control" where
  "terminateAbandonedRun e cb ev st =
     (case runChildren e cb (c_world st) of
        Inl err \<Rightarrow> (Some err, st)
      | Inr children \<Rightarrow>
          (case terminate_children e (ParentTerminated (m_Name (cb_Meta cb)) ev) children st of
             (Some err, st') \<Rightarrow> (Some err, st')
           | (None, st') \<Rightarrow>
               let jobName = clusterManifestsJobName (m_Name (cb_Meta cb))
               in case e_delete_binding e (clusterManifestBindingName jobName) (c_world st') of
                    (Some err, w) \<Rightarrow> (Some err, st'\<lparr>c_world := w\<rparr>)
                  | (None, w) \<Rightarrow>
                      (case e_update_run e (terminated_run e cb ev) (e_delete_job_secret e jobName w) of
                         (Some err, w') \<Rightarrow> (Some err, st'\<lparr>c_world := w'\<rparr>)
                       | (None, w') \<Rightarrow>
                           (None, st'\<lparr>c_world := w', c_events := c_events st' @
                              [AbandonedRunTerminated (m_Name (cb_Meta cb)) ev (length children)]\<rparr>))))"

section \<open>Overlap between a tick and earlier runs\<close>

text \<open>
  The two loops of the overlap check, shared by both planes: first every active run is judged,
  and only when all of them are abandoned are they terminated, one after the other.
\<close>

datatype ('e, 'r) judgement = JudgeError 'e | StillRunning 'r evidence | AllAbandoned "('r \<times> evidence) list"

fun judge :: "('r \<Rightarrow> 'e + evidence \<times> bool) \<Rightarrow> 'r list \<Rightarrow> ('r \<times> evidence) list \<Rightarrow> ('e, 'r) judgement" where
  "judge f [] abandoned = AllAbandoned abandoned"
| "judge f (r # rs) abandoned =
     (case f r of
        Inl err \<Rightarrow> JudgeError err
      | Inr (ev, isAbandoned) \<Rightarrow>
          if \<not> isAbandoned then StillRunning r ev else judge f rs (abandoned @ [(r, ev)]))"

fun terminate_each ::
  "('r \<Rightarrow> evidence \<Rightarrow> 'w control \<Rightarrow> api_error option \<times> 'w control) \<Rightarrow> ('r \<Rightarrow> string) \<Rightarrow> ('r \<times> evidence) list
   \<Rightarrow> 'w control \<Rightarrow> (api_error + bool) \<times> 'w control" where
  "terminate_each term nm [] st = (Inr False, st)"
| "terminate_each term nm ((r, ev) # rest) st =
     (case term r ev st of
        (Some err, st') \<Rightarrow> (Inl err, st')
      | (None, st') \<Rightarrow>
          terminate_each term nm rest (st'\<lparr>c_events := c_events st' @ [TickTerminated (nm r) ev]\<rparr>))"

definition activeBackups :: "Backup list \<Rightarrow> Backup list" where
  "activeBackups backups =
     foldl (\<lambda>active b.
         if annotation b AnnotationProjected = AnnotationProjectedValue then active
         else if \<not> isTerminalBackupPhase (bs_Phase (b_Status b)) then active @ [b] else active)
       [] backups"

definition activeRuns :: "ClusterBackup list \<Rightarrow> ClusterBackup list" where
  "activeRuns runs =
     foldl (\<lambda>active r. if \<not> isTerminalClusterBackupPhase (cs_Phase (cb_Status r)) then active @ [r] else active)
       [] runs"

text \<open>Each answers whether the tick is blocked.\<close>

definition resolveOverlap ::
  "'w env \<Rightarrow> Backup list \<Rightarrow> instant \<Rightarrow> 'w control \<Rightarrow> (api_error + bool) \<times> 'w control" where
  "resolveOverlap e backups now st =
     (case judge (\<lambda>b. Inr (backupAbandonment e b now pendingResolveDeadline scheduleAbandonmentGrace))
             (activeBackups backups) [] of
        JudgeError err \<Rightarrow> (Inl err, st)
      | StillRunning b ev \<Rightarrow>
          (Inr True, st\<lparr>c_events := c_events st @ [ConcurrencySkip (m_Name (b_Meta b)) ev]\<rparr>)
      | AllAbandoned vs \<Rightarrow> terminate_each (terminateAbandonedBackup e) (\<lambda>b. m_Name (b_Meta b)) vs st)"

definition resolveClusterOverlap ::
  "'w env \<Rightarrow> ClusterBackup list \<Rightarrow> instant \<Rightarrow> 'w control \<Rightarrow> (api_error + bool) \<times> 'w control" where
  "resolveClusterOverlap e runs now st =
     (case judge (\<lambda>r. clusterRunAbandonment e r now (c_world st)) (activeRuns runs) [] of
        JudgeError err \<Rightarrow> (Inl err, st)
      | StillRunning r ev \<Rightarrow>
          (Inr True, st\<lparr>c_events := c_events st @ [ConcurrencySkip (m_Name (cb_Meta r)) ev]\<rparr>)
      | AllAbandoned vs \<Rightarrow> terminate_each (terminateAbandonedRun e) (\<lambda>r. m_Name (cb_Meta r)) vs st)"

section \<open>What abandonment means\<close>

definition progress_marks :: "'w env \<Rightarrow> Backup \<Rightarrow> instant set" where
  "progress_marks e b =
     {created_at (b_Meta b)} \<union>
     set_option (map_option cond_LastTransitionTime
       (e_find_condition e (bs_Conditions (b_Status b)) ConditionReady)) \<union>
     {t. \<exists>v \<in> set (bs_Volumes (b_Status b)). FirstAttemptAt v = Some t}"

definition stalled_volume :: "instant \<Rightarrow> duration \<Rightarrow> VolumeStatus \<Rightarrow> bool" where
  "stalled_volume now pd v \<longleftrightarrow>
     Phase v \<noteq> VolumePhaseUploading \<and> Phase v \<noteq> VolumePhaseSnapshotting \<and>
     (case FirstAttemptAt v of None \<Rightarrow> False | Some t \<Rightarrow> pd < time_sub now t)"

lemma volumeInFlightReason_None:
  "volumeInFlightReason v now pd = None \<longleftrightarrow> terminal_volume v \<or> stalled_volume now pd v"
  by (auto simp: volumeInFlightReason_def stalled_volume_def Let_def split: option.splits)

lemma volumes_in_flight_None:
  "volumes_in_flight vs now pd = None \<longleftrightarrow> (\<forall>v \<in> set vs. terminal_volume v \<or> stalled_volume now pd v)"
proof (induction vs)
  case (Cons v vs)
  then show ?case
    using volumeInFlightReason_None [of v now pd] by (cases "volumeInFlightReason v now pd") auto
qed simp

lemma quiet_later:
  "g < time_sub now (later l t) \<longleftrightarrow> g < time_sub now l \<and> (\<forall>u \<in> set_option t. g < time_sub now u)"
proof (cases t)
  case (Some u)
  then show ?thesis
    using time_sub_antimono [of l u now] time_sub_antimono [of u l now]
    by (auto simp: later_def)
qed (simp add: later_def)

lemma quiet_foldl_later:
  "g < time_sub now (foldl (\<lambda>latest x. later latest (f x)) l xs) \<longleftrightarrow>
     g < time_sub now l \<and> (\<forall>x \<in> set xs. \<forall>u \<in> set_option (f x). g < time_sub now u)"
  by (induction xs arbitrary: l) (auto simp: quiet_later)

lemma quiet_backup:
  "g < time_sub now (backupLastProgressAt e b) \<longleftrightarrow> (\<forall>t \<in> progress_marks e b. g < time_sub now t)"
  by (auto simp: backupLastProgressAt_def Let_def quiet_foldl_later quiet_later progress_marks_def)

lemma backupAbandonment_iff:
  "snd (backupAbandonment e b now pd grace) \<longleftrightarrow>
     (\<forall>v \<in> set (bs_Volumes (b_Status b)). terminal_volume v \<or> stalled_volume now pd v) \<and>
     (\<forall>t \<in> progress_marks e b. grace < time_sub now t)"
  using quiet_backup [of grace now e b] volumes_in_flight_None [of "bs_Volumes (b_Status b)" now pd]
  by (auto simp: backupAbandonment_def backupInFlightReason_def Let_def not_le split: option.splits)

text \<open>
  A Backup is declared abandoned exactly when no volume of it can be in flight (each is
  terminal, or is neither snapshotting nor uploading and has waited longer than its budget since
  its first attempt) and no progress mark of it, its creation, its last Ready transition, any first
  attempt, is within the grace period. A volume that was never attempted always keeps its run
  alive.
\<close>

theorem abandonment_exact:
  "snd (backupAbandonment e b now pd grace) \<longleftrightarrow>
     list_all (\<lambda>v. terminal_volume v \<or> stalled_volume now pd v) (bs_Volumes (b_Status b)) \<and>
     progress_marks e b \<subseteq> {t. grace < time_sub now t}"
  unfolding backupAbandonment_iff list_all_iff by blast

section \<open>What termination does\<close>

lemma fail_abandoned_terminal: "terminal_volume (fail_abandoned_volume v)"
  by (simp add: fail_abandoned_volume_def)

lemma abandonedTerminalPhase_eq:
  "abandonedTerminalPhase vs =
     (if \<exists>v \<in> set vs. Phase v = VolumePhaseCompleted then BackupPhasePartiallyFailed else BackupPhaseFailed)"
  by (induction vs) auto

lemma fail_abandoned_completed:
  "Phase (fail_abandoned_volume v) = VolumePhaseCompleted \<longleftrightarrow> Phase v = VolumePhaseCompleted"
  by (simp add: fail_abandoned_volume_def)

lemma terminated_backup_status:
  "bs_Volumes (b_Status (terminated_backup e b ev)) = map fail_abandoned_volume (bs_Volumes (b_Status b))"
  "bs_Phase (b_Status (terminated_backup e b ev)) =
     abandonedTerminalPhase (map fail_abandoned_volume (bs_Volumes (b_Status b)))"
  "b_Meta (terminated_backup e b ev) = b_Meta b"
  "bs_BackupTime (b_Status (terminated_backup e b ev)) \<noteq> None"
  "bs_CompletionTime (b_Status (terminated_backup e b ev)) \<noteq> None"
  by (simp_all add: terminated_backup_def setCompletionTime_def Let_def)

text \<open>
  Terminating an abandoned Backup settles it as a failure and destroys nothing. Every volume
  ends terminal, a volume that already was terminal keeps its whole record (so the snapshot id of
  a completed one), the phase is PartiallyFailed when a volume had completed and Failed
  otherwise, so the namespace counts as failed and never as succeeded, the times are set, and the
  object no longer blocks its schedule.
\<close>

theorem terminated_backup_settled:
  fixes e :: "'w env" and b :: Backup and ev :: evidence
  defines "b' \<equiv> terminated_backup e b ev" and "vs \<equiv> bs_Volumes (b_Status b)"
  shows "list_all terminal_volume (bs_Volumes (b_Status b')) \<and>
    list_all2 (\<lambda>v v'. Pvc v' = Pvc v \<and> SnapshotID v' = SnapshotID v \<and>
      (if terminal_volume v then v' = v else Phase v' = VolumePhaseFailed)) vs (bs_Volumes (b_Status b')) \<and>
    bs_Phase (b_Status b') = (if \<exists>v \<in> set vs. Phase v = VolumePhaseCompleted
      then BackupPhasePartiallyFailed else BackupPhaseFailed) \<and>
    OutcomeForBackupPhase (bs_Phase (b_Status b')) = NamespaceFailed \<and>
    bs_BackupTime (b_Status b') \<noteq> None \<and> bs_CompletionTime (b_Status b') \<noteq> None \<and>
    activeBackups [b'] = []"
proof -
  have "list_all terminal_volume (bs_Volumes (b_Status b'))"
    using fail_abandoned_terminal by (simp add: b'_def terminated_backup_status list_all_iff)
  moreover have "list_all2 (\<lambda>v v'. Pvc v' = Pvc v \<and> SnapshotID v' = SnapshotID v \<and>
      (if terminal_volume v then v' = v else Phase v' = VolumePhaseFailed)) vs (bs_Volumes (b_Status b'))"
    unfolding b'_def vs_def terminated_backup_status list_all2_map2
    by (rule list_all2_refl) (simp add: fail_abandoned_volume_def)
  moreover have p: "bs_Phase (b_Status b') = (if \<exists>v \<in> set vs. Phase v = VolumePhaseCompleted
      then BackupPhasePartiallyFailed else BackupPhaseFailed)"
    by (simp add: b'_def vs_def terminated_backup_status abandonedTerminalPhase_eq fail_abandoned_completed)
  moreover from p have "OutcomeForBackupPhase (bs_Phase (b_Status b')) = NamespaceFailed"
    by (simp add: OutcomeForBackupPhase_def)
  moreover from p have "activeBackups [b'] = []"
    by (simp add: activeBackups_def isTerminalBackupPhase_def)
  moreover have "bs_BackupTime (b_Status b') \<noteq> None" "bs_CompletionTime (b_Status b') \<noteq> None"
    unfolding b'_def by (rule terminated_backup_status)+
  ultimately show ?thesis by blast
qed

section \<open>Overlap\<close>

lemma judge_cases:
  "judge f rs acc = JudgeError err \<Longrightarrow> \<exists>r \<in> set rs. f r = Inl err"
  "judge f rs acc = StillRunning r ev \<Longrightarrow> r \<in> set rs \<and> f r = Inr (ev, False)"
  "judge f rs acc = AllAbandoned vs \<Longrightarrow>
     (\<forall>r \<in> set rs. \<exists>ev. f r = Inr (ev, True)) \<and> map fst vs = map fst acc @ rs"
  by (induction rs arbitrary: acc) (fastforce split: sum.splits if_splits prod.splits)+

lemma judge_total:
  assumes "\<And>r. r \<in> set rs \<Longrightarrow> f r = Inr (g r)"
  shows "(\<exists>r ev. judge f rs acc = StillRunning r ev) \<longleftrightarrow> (\<exists>r \<in> set rs. \<not> snd (g r))"
  using assms by (induction rs arbitrary: acc) (auto split: prod.splits)

lemma terminate_each_not_blocked: "fst (terminate_each t nm vs st) \<noteq> Inr True"
  by (induction t nm vs st rule: terminate_each.induct) (auto split: prod.splits option.splits)

lemma blocked_overlap:
  assumes "\<exists>b \<in> set (activeBackups backups).
    \<not> snd (backupAbandonment e b now pendingResolveDeadline scheduleAbandonmentGrace)"
  shows "fst (resolveOverlap e backups now st) = Inr True"
    and "c_world (snd (resolveOverlap e backups now st)) = c_world st"
proof -
  let ?f = "\<lambda>b. backupAbandonment e b now pendingResolveDeadline scheduleAbandonmentGrace"
  obtain b ev where "judge (\<lambda>b. Inr (?f b) :: api_error + evidence \<times> bool) (activeBackups backups) [] =
      StillRunning b ev"
    using assms judge_total [of "activeBackups backups" "\<lambda>b. Inr (?f b) :: api_error + evidence \<times> bool" ?f "[]"]
    by blast
  then show "fst (resolveOverlap e backups now st) = Inr True"
    "c_world (snd (resolveOverlap e backups now st)) = c_world st"
    by (simp_all add: resolveOverlap_def)
qed

text \<open>
  A running backup is never disturbed by its schedule. The tick is blocked exactly when some
  active Backup is not abandoned, and then nothing at all is written; the same holds for a
  cluster run whenever its tick is blocked. A tick is let through only when every active run of
  the plane was judged abandoned.
\<close>

theorem overlap_protects_running_backups:
  "(fst (resolveOverlap e backups now st) = Inr True \<longleftrightarrow>
      (\<exists>b \<in> set (activeBackups backups).
         \<not> snd (backupAbandonment e b now pendingResolveDeadline scheduleAbandonmentGrace))) \<and>
   (fst (resolveOverlap e backups now st) = Inr True \<longrightarrow>
      c_world (snd (resolveOverlap e backups now st)) = c_world st) \<and>
   (fst (resolveClusterOverlap e runs now st) = Inr True \<longrightarrow>
      c_world (snd (resolveClusterOverlap e runs now st)) = c_world st \<and>
      (\<exists>r \<in> set (activeRuns runs). \<exists>ev. clusterRunAbandonment e r now (c_world st) = Inr (ev, False))) \<and>
   (fst (resolveClusterOverlap e runs now st) = Inr False \<longrightarrow>
      (\<forall>r \<in> set (activeRuns runs). \<exists>ev. clusterRunAbandonment e r now (c_world st) = Inr (ev, True)))"
proof -
  let ?f = "\<lambda>b. backupAbandonment e b now pendingResolveDeadline scheduleAbandonmentGrace"
  have 1: "fst (resolveOverlap e backups now st) = Inr True \<longleftrightarrow>
      (\<exists>b ev. judge (\<lambda>b. Inr (?f b) :: api_error + evidence \<times> bool) (activeBackups backups) [] = StillRunning b ev)"
    using terminate_each_not_blocked [of "terminateAbandonedBackup e" "\<lambda>b. m_Name (b_Meta b)" _ st]
    by (auto simp: resolveOverlap_def split: judgement.splits)
  moreover have "c_world (snd (resolveOverlap e backups now st)) = c_world st"
    if "fst (resolveOverlap e backups now st) = Inr True"
    using that 1 by (auto simp: resolveOverlap_def)
  moreover have "c_world (snd (resolveClusterOverlap e runs now st)) = c_world st \<and>
      (\<exists>r \<in> set (activeRuns runs). \<exists>ev. clusterRunAbandonment e r now (c_world st) = Inr (ev, False))"
    if "fst (resolveClusterOverlap e runs now st) = Inr True"
    using that judge_cases(2)
      terminate_each_not_blocked [of "terminateAbandonedRun e" "\<lambda>r. m_Name (cb_Meta r)" _ st]
    by (fastforce simp: resolveClusterOverlap_def split: judgement.splits)
  moreover have "\<forall>r \<in> set (activeRuns runs). \<exists>ev. clusterRunAbandonment e r now (c_world st) = Inr (ev, True)"
    if "fst (resolveClusterOverlap e runs now st) = Inr False"
    using that judge_cases(3)
    by (fastforce simp: resolveClusterOverlap_def split: judgement.splits)
  ultimately show ?thesis
    using judge_total [of "activeBackups backups" "\<lambda>b. Inr (?f b) :: api_error + evidence \<times> bool" ?f "[]"]
    by blast
qed

text \<open>A concrete environment: the world is the list of Backups, an update replaces by name.\<close>

definition list_env :: "instant \<Rightarrow> Backup list env" where
  "list_env now =
     \<lparr>e_now = now, e_set_condition = (\<lambda>c cs. c # filter (\<lambda>d. cond_Type d \<noteq> cond_Type c) cs),
      e_find_condition = (\<lambda>cs t. find (\<lambda>c. cond_Type c = t) cs), e_show = (\<lambda>_. []),
      e_update_backup = (\<lambda>b w. (None, map (\<lambda>x. if m_Name (b_Meta x) = m_Name (b_Meta b) then b else x) w)),
      e_update_run = (\<lambda>_ w. (None, w)), e_list_children = (\<lambda>_ w. Inr w),
      e_job_status = (\<lambda>_ _. Inl NotFound), e_delete_binding = (\<lambda>_ w. (None, w)),
      e_delete_job_secret = (\<lambda>_ w. w)\<rparr>"

theorem overlap_protects_running_backups_witness:
  "fst (resolveOverlap (list_env 0) [empty_backup] 0 \<lparr>c_world = [empty_backup], c_events = []\<rparr>) = Inr True \<and>
   c_world (snd (resolveOverlap (list_env 0) [empty_backup] 0
     \<lparr>c_world = [empty_backup], c_events = []\<rparr>)) = [empty_backup]"
proof -
  have a: "activeBackups [empty_backup] = [empty_backup]"
    by (simp add: activeBackups_def empty_backup_def isTerminalBackupPhase_def)
  have n: "\<not> snd (backupAbandonment (list_env 0) empty_backup 0 pendingResolveDeadline scheduleAbandonmentGrace)"
    by (simp add: backupAbandonment_iff progress_marks_def empty_backup_def created_at_def time_sub_def
        scheduleAbandonmentGrace_def min_duration_def max_duration_def)
  show ?thesis
    using overlap_protects_running_backups [of "list_env 0" "[empty_backup]" 0
        "\<lparr>c_world = [empty_backup], c_events = []\<rparr>" "[]"] a n
    by simp
qed

end
