(* ===== verification/Schedule_Timing.thy ===== *)
theory Schedule_Timing
  imports Api_Types
begin

text \<open>
  Cron schedules (\<^verbatim>\<open>internal/schedule\<close>): parsing, the due activation, the longest gap and
  the jitter. The cron library and the time-zone database are arguments: a parsed expression is
  the function from a location and an instant to the next activation. Its documented behaviour is
  the hypothesis \<open>next_activation\<close> below: the first activation strictly after the instant, or
  the zero time when there is none.
\<close>

definition maxCatchupTicks :: nat where
  "maxCatchupTicks = 1000"

definition periodSamples :: nat where
  "periodSamples = 8"

text \<open>The zero \<^verbatim>\<open>time.Time\<close>, January 1 of year 1, in nanoseconds from the epoch.\<close>

definition zero_time :: instant where
  "zero_time = - seconds 62135596800"

record 'loc Schedule =
  s_cron :: "'loc \<Rightarrow> instant \<Rightarrow> instant"
  s_loc :: 'loc

datatype schedule_error = LoadTimezone string | ParseCron string

definition Parse ::
  "'loc \<Rightarrow> (string \<Rightarrow> 'loc option) \<Rightarrow> (string \<Rightarrow> ('loc \<Rightarrow> instant \<Rightarrow> instant) option) \<Rightarrow> string \<Rightarrow> string
   \<Rightarrow> schedule_error + 'loc Schedule" where
  "Parse utc load_location parse_standard expr timezone =
     (case (if timezone = [] then Some utc else load_location timezone) of
        None \<Rightarrow> Inl (LoadTimezone timezone)
      | Some loc \<Rightarrow>
          (case parse_standard expr of
             None \<Rightarrow> Inl (ParseCron expr)
           | Some c \<Rightarrow> Inr \<lparr>s_cron = c, s_loc = loc\<rparr>))"

definition Next :: "'loc Schedule \<Rightarrow> instant \<Rightarrow> instant" where
  "Next s t = s_cron s (s_loc s) t"

text \<open>The loop of \<^verbatim>\<open>DueTick\<close>: remaining rounds, the next activation, the last one kept.\<close>

fun due_loop :: "'loc Schedule \<Rightarrow> nat \<Rightarrow> instant \<Rightarrow> instant \<Rightarrow> instant option \<Rightarrow> instant option" where
  "due_loop s 0 now t tick = tick"
| "due_loop s (Suc i) now t tick =
     (if \<not> t > now then due_loop s i now (Next s t) (Some t) else tick)"

definition DueTick :: "'loc Schedule \<Rightarrow> instant \<Rightarrow> instant \<Rightarrow> duration option \<Rightarrow> instant option" where
  "DueTick s after now deadline =
     (case due_loop s maxCatchupTicks now (Next s after) None of
        None \<Rightarrow> None
      | Some tick \<Rightarrow>
          (case deadline of
             Some d \<Rightarrow> if time_sub now tick > d then None else Some tick
           | None \<Rightarrow> Some tick))"

fun period_loop :: "'loc Schedule \<Rightarrow> nat \<Rightarrow> instant \<Rightarrow> duration \<Rightarrow> duration" where
  "period_loop s 0 prev longest = longest"
| "period_loop s (Suc n) prev longest =
     (let nxt = Next s prev; gap = time_sub nxt prev
      in period_loop s n nxt (if gap > longest then gap else longest))"

definition Period :: "'loc Schedule \<Rightarrow> instant \<Rightarrow> duration" where
  "Period s t = period_loop s periodSamples (Next s t) 0"

text \<open>The 64-bit FNV-1a hash of the standard library, on the bytes of the seed.\<close>

definition fnv1a_64 :: "string \<Rightarrow> i64" where
  "fnv1a_64 seed =
     foldl (\<lambda>h c. (xor h (of_nat (of_char c))) * 1099511628211) 14695981039346656037 seed"

definition JitterOffset :: "string \<Rightarrow> duration \<Rightarrow> duration" where
  "JitterOffset seed window =
     (if window \<le> 0 then 0 else sint (fnv1a_64 seed mod (word_of_int window)))"

section \<open>Due activations\<close>

text \<open>
  The documented contract of the cron library, over the set of activations of an expression.
\<close>

definition next_activation :: "instant set \<Rightarrow> 'loc Schedule \<Rightarrow> bool" where
  "next_activation A s \<longleftrightarrow>
     (\<forall>t. if \<exists>a \<in> A. t < a then Next s t \<in> A \<and> t < Next s t \<and> (\<forall>a \<in> A. t < a \<longrightarrow> Next s t \<le> a)
          else Next s t = zero_time)"

definition due_set :: "instant set \<Rightarrow> instant \<Rightarrow> instant \<Rightarrow> instant set" where
  "due_set A after now = {a \<in> A. after < a \<and> a \<le> now}"

lemma next_activationD:
  assumes "next_activation A s" and "a \<in> A" and "t < a"
  shows "Next s t \<in> A" and "t < Next s t" and "Next s t \<le> a"
  using assms unfolding next_activation_def by meson+

lemma due_set_step:
  assumes "next_activation A s" and "a \<in> A" and "after < a" and "Next s after \<le> now"
  shows "due_set A after now = insert (Next s after) (due_set A (Next s after) now)"
    and "Next s after \<notin> due_set A (Next s after) now"
proof -
  note n = next_activationD [OF assms(1-3)]
  have "Next s after \<le> b" if "b \<in> A" "after < b" for b using next_activationD(3) [OF assms(1) that] .
  then show "due_set A after now = insert (Next s after) (due_set A (Next s after) now)"
    using n assms(4) by (force simp: due_set_def)
  show "Next s after \<notin> due_set A (Next s after) now" by (simp add: due_set_def)
qed

text \<open>
  The loop over an unbounded set of activations finds the latest one that is due, provided no
  more than the catch-up bound are due.
\<close>

lemma due_loop_latest:
  assumes "next_activation A s" and "\<And>t. \<exists>a \<in> A. t < a"
    and "finite (due_set A after now)" and "card (due_set A after now) \<le> n"
  shows "due_loop s n now (Next s after) tick =
    (if due_set A after now = {} then tick else Some (Max (due_set A after now)))"
  using assms(3,4)
proof (induction n arbitrary: after tick)
  case 0
  then show ?case by (simp add: card_0_eq)
next
  case (Suc n)
  obtain a where a: "a \<in> A" "after < a" using assms(2) by blast
  note n = next_activationD [OF assms(1) a]
  show ?case
  proof (cases "Next s after \<le> now")
    case True
    note step = due_set_step [OF assms(1) a True]
    let ?D = "due_set A (Next s after) now"
    have fin: "finite ?D" using Suc.prems(1) step(1) by simp
    have "card ?D \<le> n" using Suc.prems(2) step fin by simp
    from Suc.IH [OF fin this, of "Some (Next s after)"]
    have "due_loop s (Suc n) now (Next s after) tick =
        (if ?D = {} then Some (Next s after) else Some (Max ?D))"
      using True by simp
    moreover have "Max (insert (Next s after) ?D) = Max ?D" if "?D \<noteq> {}"
    proof -
      have "Next s after < Max ?D" using Max_in [OF fin that] by (simp add: due_set_def)
      then show ?thesis using Max_insert [OF fin that] by simp
    qed
    ultimately show ?thesis using step(1) by simp
  next
    case False
    have "due_set A after now = {}"
    proof (rule ccontr)
      assume "due_set A after now \<noteq> {}"
      then obtain b where "b \<in> A" "after < b" "b \<le> now" by (auto simp: due_set_def)
      with next_activationD(3) [OF assms(1), of b after] False show False by simp
    qed
    then show ?thesis using False by simp
  qed
qed

text \<open>
  The due tick is the single latest one. With a cron expression that always has a further
  activation and at most the catch-up bound of them since the last run, \<^verbatim>\<open>DueTick\<close> answers the
  latest activation after the last run and not after now, unless the starting deadline has
  passed since it; it answers nothing when there is none, so a fresh schedule does not fire when
  it is applied.
\<close>

theorem due_tick_is_latest:
  assumes "next_activation A s" and "\<And>t. \<exists>a \<in> A. t < a"
    and "finite (due_set A after now)" and "card (due_set A after now) \<le> maxCatchupTicks"
  shows "DueTick s after now deadline =
    (if due_set A after now = {} then None
     else let tick = Max (due_set A after now)
       in if (\<exists>d. deadline = Some d \<and> time_sub now tick > d) then None else Some tick)"
  using due_loop_latest [OF assms, of None]
  by (auto simp: DueTick_def Let_def split: option.splits)

definition hourly :: "unit Schedule" where
  "hourly = \<lparr>s_cron = (\<lambda>_ t. hours (t div hours 1 + 1)), s_loc = ()\<rparr>"

lemma hourly_next: "next_activation {hours k |k. True} hourly"
proof -
  have N: "Next hourly t = hours (t div hours 1 + 1)" for t
    by (simp add: Next_def hourly_def)
  have "t < hours (t div hours 1 + 1)" for t :: int
    using mult_div_mod_eq [of "3600000000000" t] pos_mod_bound [of "3600000000000" t]
    by (simp add: algebra_simps)
  moreover have "hours (t div hours 1 + 1) \<le> hours k" if "t < hours k" for t k :: int
  proof -
    have "t div hours 1 < k" using that by (simp add: div_less_iff_less_mult)
    then show ?thesis by simp
  qed
  ultimately have "Next hourly t \<in> {hours k |k. True} \<and> t < Next hourly t \<and>
      (\<forall>a \<in> {hours k |k. True}. t < a \<longrightarrow> Next hourly t \<le> a)" for t
    unfolding N by blast
  then show ?thesis unfolding next_activation_def by metis
qed

lemma hourly_unbounded: "\<exists>a \<in> {hours k |k. True}. t < a"
proof
  show "hours (\<bar>t\<bar> + 1) \<in> {hours k |k. True}" by blast
  show "t < hours (\<bar>t\<bar> + 1)" by simp
qed

theorem due_tick_is_latest_witness:
  "DueTick hourly 0 (hours 2 + 5) (Some (hours 1)) = Some (hours 2)"
proof -
  let ?D = "due_set {hours k |k. True} 0 (hours 2 + 5)"
  have D: "?D = {hours 1, hours 2}" by (auto simp: due_set_def)
  show ?thesis
    using due_tick_is_latest [OF hourly_next hourly_unbounded, of 0 "hours 2 + 5" "Some (hours 1)"]
    unfolding D
    by (simp add: maxCatchupTicks_def time_sub_def max_duration_def min_duration_def)
qed

section \<open>An expression that never fires\<close>

lemma due_loop_zero:
  assumes "\<And>t. Next s t = zero_time" and "zero_time \<le> now"
  shows "due_loop s (Suc n) now zero_time tick = Some zero_time"
  using assms by (induction n arbitrary: tick) auto

text \<open>
  An expression without activations is due. For a cron expression that can never fire (the
  30th of February), whose next activation the library documents to be the zero time,
  \<^verbatim>\<open>DueTick\<close> without a starting deadline reports the zero time as a due activation, at any
  moment and also for a schedule that was just created.
\<close>

theorem impossible_cron_is_due:
  assumes "next_activation {} s" and "zero_time \<le> now"
  shows "DueTick s after now None = Some zero_time"
proof -
  have z: "\<And>t. Next s t = zero_time" using assms(1) by (simp add: next_activation_def)
  have "maxCatchupTicks = Suc 999" by (simp add: maxCatchupTicks_def)
  then show ?thesis using due_loop_zero [OF z assms(2), of 999 None] by (simp add: DueTick_def z)
qed

theorem impossible_cron_is_due_witness:
  "DueTick \<lparr>s_cron = (\<lambda>_ _. zero_time), s_loc = ()\<rparr> 0 (hours 1) None = Some zero_time"
  by (rule impossible_cron_is_due) (simp_all add: next_activation_def Next_def zero_time_def)

section \<open>The longest gap and the jitter\<close>

lemma period_loop_ge:
  "longest \<le> period_loop s n prev longest \<and>
   (\<forall>k < n. time_sub ((Next s ^^ Suc k) prev) ((Next s ^^ k) prev) \<le> period_loop s n prev longest)"
proof (induction n arbitrary: prev longest)
  case (Suc n)
  let ?g = "time_sub (Next s prev) prev"
  let ?l = "if ?g > longest then ?g else longest"
  have IH: "?l \<le> period_loop s n (Next s prev) ?l"
    "\<forall>k < n. time_sub ((Next s ^^ Suc k) (Next s prev)) ((Next s ^^ k) (Next s prev))
      \<le> period_loop s n (Next s prev) ?l"
    using Suc.IH by blast+
  have "time_sub ((Next s ^^ Suc k) prev) ((Next s ^^ k) prev) \<le> period_loop s n (Next s prev) ?l"
    if "k < Suc n" for k
    using that IH by (cases k) (auto simp: funpow_swap1 split: if_splits)
  then show ?case using IH(1) by (auto simp: Let_def split: if_splits)
qed simp

lemma period_loop_attained:
  "period_loop s n prev longest = longest \<or>
   (\<exists>k < n. period_loop s n prev longest = time_sub ((Next s ^^ Suc k) prev) ((Next s ^^ k) prev))"
proof (induction n arbitrary: prev longest)
  case (Suc n)
  let ?g = "time_sub (Next s prev) prev"
  let ?l = "if ?g > longest then ?g else longest"
  have "period_loop s n (Next s prev) ?l = ?l \<or>
      (\<exists>k < n. period_loop s n (Next s prev) ?l =
        time_sub ((Next s ^^ Suc (Suc k)) prev) ((Next s ^^ Suc k) prev))"
    using Suc.IH [of "Next s prev" ?l] by (simp add: funpow_swap1)
  moreover have "?g = time_sub ((Next s ^^ Suc 0) prev) ((Next s ^^ 0) prev)" by simp
  ultimately show ?case unfolding period_loop.simps Let_def by (metis Suc_less_eq zero_less_Suc)
qed simp

text \<open>
  The period is the longest gap. \<^verbatim>\<open>Period\<close> bounds every gap between the sampled consecutive
  activations after the instant, and is one of them unless it is zero; and the jitter of a
  schedule always lies in its window, whatever the seed.
\<close>

theorem period_and_jitter_bounds:
  fixes s :: "'loc Schedule" and t
  defines "act k \<equiv> (Next s ^^ k) (Next s t)"
  assumes "0 < window" and "window < 2 ^ 63"
  shows "(\<forall>k < periodSamples. time_sub (act (Suc k)) (act k) \<le> Period s t) \<and>
    (Period s t = 0 \<or> (\<exists>k < periodSamples. Period s t = time_sub (act (Suc k)) (act k))) \<and>
    0 \<le> JitterOffset seed window \<and> JitterOffset seed window < window"
proof -
  let ?m = "fnv1a_64 seed mod word_of_int window"
  have u: "uint ?m = uint (fnv1a_64 seed) mod window"
    using assms(2,3) by (simp add: uint_mod uint_word_of_int take_bit_int_eq_self)
  have b: "0 \<le> uint ?m" "uint ?m < window" using assms(2) by (simp_all add: u)
  then have "- (2 ^ 63) \<le> uint ?m" "uint ?m < 2 ^ 63" using assms(3) by linarith+
  then have "sint ?m = uint ?m" by (simp add: sint_uint signed_take_bit_int_eq_self)
  then show ?thesis
    using b assms(2) period_loop_ge [of 0 s periodSamples "Next s t"]
      period_loop_attained [of s periodSamples "Next s t" 0]
    by (simp add: JitterOffset_def Period_def act_def)
qed

theorem period_and_jitter_bounds_witness:
  "JitterOffset ''a'' 60 < 60 \<and> time_sub (hours 2) (hours 1) \<le> Period hourly 0"
proof -
  have "Next hourly 0 = hours 1" "Next hourly (hours 1) = hours 2"
    by (simp_all add: Next_def hourly_def)
  moreover have "0 < periodSamples" by (simp add: periodSamples_def)
  ultimately show ?thesis
    using period_and_jitter_bounds [of 60 hourly 0 "''a''"] by fastforce
qed

end
