(* ===== verification/Schedule_Controller.thy ===== *)
theory Schedule_Controller
  imports Run_Abandonment Schedule_Timing
begin

text \<open>
  The BackupSchedule reconciler (\<^verbatim>\<open>internal/controller/backupschedule_controller.go\<close>): from
  the schedule and the Backups in its namespace to a due tick, the overlap check, the stamping of
  one Backup per tick, and the schedule's status. The API server, the cron and time-zone libraries
  and the formatting of instants are fields of \<open>sched_env\<close>; the run specification a schedule
  freezes into its Backups is only copied, so it is a type parameter.
\<close>

abbreviation LabelSchedule :: string where "LabelSchedule \<equiv> ''crystalbackup.io/schedule''"
abbreviation LabelOrigin :: string where "LabelOrigin \<equiv> ''crystalbackup.io/origin''"
abbreviation LabelNamespace :: string where "LabelNamespace \<equiv> ''crystalbackup.io/namespace''"
abbreviation OriginCluster :: string where "OriginCluster \<equiv> ''cluster''"
abbreviation OriginNamespace :: string where "OriginNamespace \<equiv> ''namespace''"

definition scheduleJitterWindow :: duration where "scheduleJitterWindow = seconds 60"
definition scheduleMinRequeue :: duration where "scheduleMinRequeue = seconds 5"
definition scheduleMaxRequeue :: duration where "scheduleMaxRequeue = seconds 60"
definition shortRequeueInterval :: duration where "shortRequeueInterval = seconds 30"

record 'run BackupSpec =
  bsp_ScheduleRef :: string
  bsp_LocationKind :: string
  bsp_LocationName :: string
  bsp_Run :: "'run option"

record 'run BackupScheduleSpec =
  ss_LocationName :: string
  ss_Schedule :: string
  ss_Timezone :: string
  ss_Paused :: bool
  ss_Jitter :: bool
  ss_StartingDeadlineSeconds :: "int option"
  ss_Run :: 'run

record BackupScheduleStatus =
  st_Phase :: string
  st_LastRunName :: string
  st_LastSuccessTime :: "instant option"
  st_NextScheduleTime :: "instant option"
  st_Conditions :: "Condition list"

record 'run BackupSchedule =
  sc_Meta :: ObjectMeta
  sc_Spec :: "'run BackupScheduleSpec"
  sc_Status :: BackupScheduleStatus

record ('w, 'run, 'loc) sched_env = "'w env" +
  se_utc :: 'loc
  se_load_location :: "string \<Rightarrow> 'loc option"
  se_parse_standard :: "string \<Rightarrow> ('loc \<Rightarrow> instant \<Rightarrow> instant) option"
  se_format :: "instant \<Rightarrow> string"
  se_parse_in_utc :: "string \<Rightarrow> instant option"
  se_describe :: "schedule_error \<Rightarrow> string"
  se_rfc3339 :: "instant \<Rightarrow> string"
  se_duration_String :: "duration \<Rightarrow> string"
  se_collision_Error :: "runNameCollisionError \<Rightarrow> string"
  se_get_schedule :: "string \<Rightarrow> string \<Rightarrow> 'w \<Rightarrow> api_error + 'run BackupSchedule"
  se_list_backups :: "string \<Rightarrow> (string \<times> string) list \<Rightarrow> 'w \<Rightarrow> api_error + Backup list"
  se_get_backup :: "string \<Rightarrow> string \<Rightarrow> 'w \<Rightarrow> api_error + Backup"
  se_create_backup :: "Backup \<Rightarrow> 'run BackupSpec \<Rightarrow> 'w \<Rightarrow> api_error option \<times> 'w"
  se_patch_backup :: "Backup \<Rightarrow> 'w \<Rightarrow> api_error option \<times> 'w"
  se_update_schedule :: "'run BackupSchedule \<Rightarrow> 'w \<Rightarrow> api_error option \<times> 'w"

definition RunName :: "('w, 'run, 'loc) sched_env \<Rightarrow> string \<Rightarrow> instant \<Rightarrow> string" where
  "RunName e schedule t = schedule @ ''-'' @ se_format e t"

definition parseRunTick :: "('w, 'run, 'loc) sched_env \<Rightarrow> string \<Rightarrow> string \<Rightarrow> instant option" where
  "parseRunTick e scheduleName runName =
     (let pre = scheduleName @ ''-''
      in if runName = [] \<or> \<not> HasPrefix runName pre then None
         else se_parse_in_utc e (TrimPrefix runName pre))"

definition backupSucceeded :: "string \<Rightarrow> bool" where
  "backupSucceeded phase \<longleftrightarrow> phase = BackupPhaseCompleted \<or> phase = BackupPhasePartiallyCompleted"

definition clampDuration :: "duration \<Rightarrow> duration \<Rightarrow> duration \<Rightarrow> duration" where
  "clampDuration d lo hi = (if d < lo then lo else if d > hi then hi else d)"

definition listBackups ::
  "('w, 'run, 'loc) sched_env \<Rightarrow> 'run BackupSchedule \<Rightarrow> 'w \<Rightarrow> api_error + Backup list" where
  "listBackups e sched w =
     (case se_list_backups e (m_Namespace (sc_Meta sched)) [(LabelSchedule, m_Name (sc_Meta sched))] w of
        Inl err \<Rightarrow> Inl err
      | Inr items \<Rightarrow>
          Inr (foldl (\<lambda>kept b. if map_get (m_Labels (b_Meta b)) LabelOrigin = OriginCluster then kept
                 else kept @ [b]) [] items))"

definition baselineTick ::
  "('w, 'run, 'loc) sched_env \<Rightarrow> 'run BackupSchedule \<Rightarrow> Backup list \<Rightarrow> instant" where
  "baselineTick e sched backups =
     (let nm = m_Name (sc_Meta sched);
          baseline = created_at (sc_Meta sched);
          baseline = later baseline (parseRunTick e nm (st_LastRunName (sc_Status sched)))
      in foldl (\<lambda>baseline b. later baseline (parseRunTick e nm (m_Name (b_Meta b)))) baseline backups)"

datatype stamp_error = StampAPI api_error | StampCollision runNameCollisionError

definition stamped_backup ::
  "('w, 'run, 'loc) sched_env \<Rightarrow> 'run BackupSchedule \<Rightarrow> instant \<Rightarrow> Backup \<times> 'run BackupSpec" where
  "stamped_backup e sched tick =
     (\<lparr>b_Meta = \<lparr>m_Namespace = m_Namespace (sc_Meta sched), m_Name = RunName e (m_Name (sc_Meta sched)) tick,
          m_UID = [], m_Generation = 0, m_CreationTimestamp = None, m_DeletionTimestamp = None, m_Finalizers = [],
          m_Annotations = [AnnotationParentUID \<mapsto> m_UID (sc_Meta sched)],
          m_Labels = [LabelSchedule \<mapsto> m_Name (sc_Meta sched), LabelOrigin \<mapsto> OriginNamespace,
            LabelNamespace \<mapsto> m_Namespace (sc_Meta sched)]\<rparr>,
       b_Status = \<lparr>bs_Phase = [], bs_BackupTime = None, bs_CompletionTime = None, bs_Manifests = None, bs_Volumes = [],
         bs_Hooks = [], bs_PostHookAttempts = 0,
         bs_Conditions = []\<rparr>\<rparr>,
      \<lparr>bsp_ScheduleRef = m_Name (sc_Meta sched), bsp_LocationKind = ''BackupLocation'',
       bsp_LocationName = ss_LocationName (sc_Spec sched), bsp_Run = Some (ss_Run (sc_Spec sched))\<rparr>)"

definition stampBackup ::
  "('w, 'run, 'loc) sched_env \<Rightarrow> 'run BackupSchedule \<Rightarrow> instant \<Rightarrow> 'w control
   \<Rightarrow> (stamp_error + string) \<times> 'w control" where
  "stampBackup e sched tick st =
     (let nm = RunName e (m_Name (sc_Meta sched)) tick;
          ns = m_Namespace (sc_Meta sched);
          (backup, spec) = stamped_backup e sched tick
      in case se_create_backup e backup spec (c_world st) of
           (None, w) \<Rightarrow> (Inr nm, st\<lparr>c_world := w, c_events := c_events st @ [BackupStamped nm]\<rparr>)
         | (Some err, w) \<Rightarrow>
             if err \<noteq> AlreadyExists then (Inl (StampAPI err), st\<lparr>c_world := w\<rparr>)
             else (case se_get_backup e ns nm w of
                     Inl gerr \<Rightarrow> (Inl (StampAPI gerr), st\<lparr>c_world := w\<rparr>)
                   | Inr existing \<Rightarrow>
                       (case classifyCoordinate existing (m_UID (sc_Meta sched))
                               (m_CreationTimestamp (sc_Meta sched)) of
                          (coordinateMine, _) \<Rightarrow> (Inr nm, st\<lparr>c_world := w\<rparr>)
                        | (coordinateAdoptable, _) \<Rightarrow>
                            (case se_patch_backup e (existing\<lparr>b_Meta := (b_Meta existing)\<lparr>m_Annotations :=
                                    (m_Annotations (b_Meta existing))(AnnotationParentUID \<mapsto>
                                      m_UID (sc_Meta sched))\<rparr>\<rparr>) w of
                               (Some perr, w') \<Rightarrow> (Inl (StampAPI perr), st\<lparr>c_world := w'\<rparr>)
                             | (None, w') \<Rightarrow> (Inr nm, st\<lparr>c_world := w'\<rparr>))
                        | (coordinateForeign, reason) \<Rightarrow>
                            (Inl (StampCollision \<lparr>rc_Namespace = ns, rc_Name = nm, rc_Detail = cr_Detail reason,
                               rc_Facts = Facts (se_duration_String e) reason, rc_Reason = cr_Code reason,
                               rc_HasData = cr_HasResults reason\<rparr>), st\<lparr>c_world := w\<rparr>))))"

definition applyBackupSummary ::
  "('w, 'run, 'loc) sched_env \<Rightarrow> 'run BackupSchedule \<Rightarrow> Backup list \<Rightarrow> string \<Rightarrow> instant
   \<Rightarrow> BackupScheduleStatus" where
  "applyBackupSummary e sched backups stampedName nextFire =
     (let st = sc_Status sched;
          lastRun = (if stampedName \<noteq> [] then stampedName
            else snd (foldl (\<lambda>(newest, lr) b.
                 case parseRunTick e (m_Name (sc_Meta sched)) (m_Name (b_Meta b)) of
                   None \<Rightarrow> (newest, lr)
                 | Some t \<Rightarrow> if t > newest then (t, m_Name (b_Meta b)) else (newest, lr))
               (zero_time, st_LastRunName st) backups));
          lastSuccess = foldl (\<lambda>ls b.
               case (backupSucceeded (bs_Phase (b_Status b)), bs_BackupTime (b_Status b)) of
                 (True, Some t) \<Rightarrow> (case ls of None \<Rightarrow> Some t | Some l \<Rightarrow> if t > l then Some t else ls)
               | _ \<Rightarrow> ls)
             (st_LastSuccessTime st) backups
      in st\<lparr>st_LastRunName := lastRun, st_LastSuccessTime := lastSuccess,
            st_NextScheduleTime := Some nextFire\<rparr>)"

text \<open>The status is written only when it differs from what was read.\<close>

definition writeStatus ::
  "('w, 'run, 'loc) sched_env \<Rightarrow> 'run BackupSchedule \<Rightarrow> BackupScheduleStatus \<Rightarrow> string \<Rightarrow> string \<Rightarrow> string
   \<Rightarrow> string \<Rightarrow> duration option \<Rightarrow> 'w control \<Rightarrow> (api_error + duration option) \<times> 'w control" where
  "writeStatus e sched status phase ready reason message result st =
     (let new = status\<lparr>st_Phase := phase, st_Conditions := e_set_condition e
              \<lparr>cond_Type = ConditionReady, cond_Status = ready, cond_Reason = reason,
               cond_Message = message, cond_ObservedGeneration = m_Generation (sc_Meta sched),
               cond_LastTransitionTime = zero_time\<rparr> (st_Conditions status)\<rparr>
      in if new = sc_Status sched then (Inr result, st)
         else case se_update_schedule e (sched\<lparr>sc_Status := new\<rparr>) (c_world st) of
                (Some err, w) \<Rightarrow> (Inl err, st\<lparr>c_world := w\<rparr>)
              | (None, w) \<Rightarrow> (Inr result, st\<lparr>c_world := w\<rparr>))"

text \<open>
  The tick part of the handler: overlap, then the stamp. Nothing due, or blocked, stamps nothing.
  The overlap check updates terminated Backups in the list it was given as well; the later
  summary reads only successful ones, so the list is passed on as it was.
\<close>

datatype tick_result = TickAPIError api_error | TickCollision runNameCollisionError | TickDone string

definition fire_tick ::
  "('w, 'run, 'loc) sched_env \<Rightarrow> 'run BackupSchedule \<Rightarrow> Backup list \<Rightarrow> instant option \<Rightarrow> instant
   \<Rightarrow> 'w control \<Rightarrow> tick_result \<times> 'w control" where
  "fire_tick e sched backups due now st =
     (case due of
        None \<Rightarrow> (TickDone [], st)
      | Some tick \<Rightarrow>
          (case resolveOverlap (env.truncate e) backups now st of
             (Inl err, st') \<Rightarrow> (TickAPIError err, st')
           | (Inr True, st') \<Rightarrow> (TickDone [], st')
           | (Inr False, st') \<Rightarrow>
               (case stampBackup e sched tick st' of
                  (Inl (StampCollision c), st'') \<Rightarrow>
                    (TickCollision c, st''\<lparr>c_events := c_events st'' @ [RunNameCollisionEvent c]\<rparr>)
                | (Inl (StampAPI err), st'') \<Rightarrow> (TickAPIError err, st'')
                | (Inr nm, st'') \<Rightarrow> (TickDone nm, st''))))"

definition Reconcile ::
  "('w, 'run, 'loc) sched_env \<Rightarrow> string \<Rightarrow> string \<Rightarrow> instant \<Rightarrow> 'w control
   \<Rightarrow> (api_error + duration option) \<times> 'w control" where
  "Reconcile e ns name now st =
     (case se_get_schedule e ns name (c_world st) of
        Inl NotFound \<Rightarrow> (Inr None, st)
      | Inl err \<Rightarrow> (Inl err, st)
      | Inr sched \<Rightarrow>
          if ss_Paused (sc_Spec sched) then
            writeStatus e sched (sc_Status sched) ''Paused'' ConditionFalse ''Paused''
              ''schedule is paused; no backups are stamped'' None st
          else (case listBackups e sched (c_world st) of
            Inl err \<Rightarrow> (Inl err, st)
          | Inr backups \<Rightarrow>
              (case Parse (se_utc e) (se_load_location e) (se_parse_standard e)
                      (ss_Schedule (sc_Spec sched)) (ss_Timezone (sc_Spec sched)) of
                 Inl perr \<Rightarrow>
                   writeStatus e sched (sc_Status sched) ''InvalidSchedule'' ConditionFalse
                     ''InvalidSchedule'' (se_describe e perr) None st
               | Inr cronSched \<Rightarrow>
                   let offset = (if ss_Jitter (sc_Spec sched)
                         then JitterOffset (m_UID (sc_Meta sched)) scheduleJitterWindow else 0);
                       effectiveNow = now - offset;
                       deadline = map_option (\<lambda>n. sint (word_of_int (seconds n) :: i64))
                         (ss_StartingDeadlineSeconds (sc_Spec sched));
                       due = DueTick cronSched (baselineTick e sched backups) effectiveNow deadline
                   in case fire_tick e sched backups due now st of
                        (TickAPIError err, st') \<Rightarrow> (Inl err, st')
                      | (TickCollision c, st') \<Rightarrow>
                          writeStatus e sched (sc_Status sched) reasonRunNameCollision ConditionFalse
                            reasonRunNameCollision (clampMessage (se_collision_Error e c))
                            (Some shortRequeueInterval) st'
                      | (TickDone stampedName, st') \<Rightarrow>
                          let nextFire = Next cronSched effectiveNow + offset;
                              requeue = clampDuration (time_sub nextFire now) scheduleMinRequeue scheduleMaxRequeue
                          in writeStatus e sched
                               (applyBackupSummary e sched backups stampedName nextFire) ''Active''
                               ConditionTrue ''Scheduled''
                               (''schedule active; next backup at '' @ se_rfc3339 e nextFire) (Some requeue) st')))"

section \<open>One Backup per tick\<close>

lemma parseRunTick_RunName:
  "se_parse_in_utc e (se_format e t) = Some t \<Longrightarrow> parseRunTick e s (RunName e s t) = Some t"
  using TrimPrefix_append [of "s @ ''-''" "se_format e t"]
  by (simp add: parseRunTick_def RunName_def)

lemma later_ge: "l \<le> later l t" "t = Some u \<Longrightarrow> u \<le> later l t"
  by (auto simp: later_def split: option.splits)

lemma foldl_later_ge:
  "l \<le> foldl (\<lambda>l x. later l (f x)) l xs"
  "x \<in> set xs \<Longrightarrow> f x = Some u \<Longrightarrow> u \<le> foldl (\<lambda>l x. later l (f x)) l xs"
proof -
  show ge: "l \<le> foldl (\<lambda>l x. later l (f x)) l xs" for l xs
    by (induction xs arbitrary: l) (auto intro: order_trans [OF later_ge(1)])
  show "u \<le> foldl (\<lambda>l x. later l (f x)) l xs" if "x \<in> set xs" "f x = Some u"
    using that
  proof (induction xs arbitrary: l)
    case (Cons y ys)
    show ?case
    proof (cases "x = y")
      case True
      then have "u \<le> later l (f y)" using Cons.prems(2) later_ge(2) by blast
      also have "\<dots> \<le> foldl (\<lambda>l x. later l (f x)) (later l (f y)) ys" by (rule ge)
      finally show ?thesis by simp
    next
      case False
      then show ?thesis using Cons by simp
    qed
  qed simp
qed

lemma due_loop_after:
  assumes "\<And>t. t < Next s t" and "after < t" and "\<And>x. tick = Some x \<Longrightarrow> after < x"
    and "due_loop s n now t tick = Some r"
  shows "after < r"
  using assms(2-4)
proof (induction n arbitrary: t tick)
  case (Suc n)
  show ?case
  proof (cases "t > now")
    case True
    then show ?thesis using Suc.prems by simp
  next
    case False
    have "after < Next s t" using Suc.prems(1) assms(1) [of t] by simp
    then show ?thesis using Suc.IH [of "Next s t" "Some t"] Suc.prems False by simp
  qed
qed simp

lemma DueTick_after:
  "(\<And>t. t < Next s t) \<Longrightarrow> DueTick s after now d = Some r \<Longrightarrow> after < r"
  using due_loop_after [of s after "Next s after" None maxCatchupTicks now r]
  by (auto simp: DueTick_def split: option.splits if_splits)

section \<open>A concrete environment for the witnesses\<close>

text \<open>
  The world is one schedule and the list of Backups; an instant is formatted as its decimal number
  and every cron expression is hourly.
\<close>

type_synonym demo_world = "unit BackupSchedule \<times> Backup list"

definition demo_env :: "(demo_world, unit, unit) sched_env" where
  "demo_env =
     \<lparr>e_now = 0, e_set_condition = (\<lambda>c cs. c # filter (\<lambda>d. cond_Type d \<noteq> cond_Type c) cs),
      e_find_condition = (\<lambda>cs t. find (\<lambda>c. cond_Type c = t) cs), e_show = (\<lambda>_. []),
      e_update_backup = (\<lambda>b (s, bs). (None, (s, map (\<lambda>x. if m_Name (b_Meta x) = m_Name (b_Meta b) then b else x) bs))),
      e_update_run = (\<lambda>_ w. (None, w)), e_list_children = (\<lambda>_ w. Inr (snd w)),
      e_job_status = (\<lambda>_ _. Inl NotFound), e_delete_binding = (\<lambda>_ w. (None, w)),
      e_delete_job_secret = (\<lambda>_ w. w),
      se_utc = (), se_load_location = (\<lambda>_. None), se_parse_standard = (\<lambda>_. Some (s_cron hourly)),
      se_format = FormatInt, se_parse_in_utc = ParseInt, se_describe = (\<lambda>_. []), se_rfc3339 = FormatInt,
      se_duration_String = FormatInt, se_collision_Error = (\<lambda>_. []),
      se_get_schedule = (\<lambda>_ _ w. Inr (fst w)), se_list_backups = (\<lambda>_ _ w. Inr (snd w)),
      se_get_backup = (\<lambda>_ n w. case find (\<lambda>b. m_Name (b_Meta b) = n) (snd w) of None \<Rightarrow> Inl NotFound | Some b \<Rightarrow> Inr b),
      se_create_backup = (\<lambda>b _ (s, bs). if \<exists>x \<in> set bs. m_Name (b_Meta x) = m_Name (b_Meta b)
        then (Some AlreadyExists, (s, bs)) else (None, (s, bs @ [b]))),
      se_patch_backup = (\<lambda>b (s, bs). (None, (s, map (\<lambda>x. if m_Name (b_Meta x) = m_Name (b_Meta b) then b else x) bs))),
      se_update_schedule = (\<lambda>s' (s, bs). (None, (s', bs)))\<rparr>"

definition demo_sched :: "unit BackupSchedule" where
  "demo_sched =
     \<lparr>sc_Meta = \<lparr>m_Namespace = ''shop'', m_Name = ''nightly'', m_UID = ''u1'', m_Generation = 1,
        m_CreationTimestamp = Some 0, m_DeletionTimestamp = None, m_Finalizers = [], m_Annotations = Map.empty, m_Labels = Map.empty\<rparr>,
      sc_Spec = \<lparr>ss_LocationName = ''loc'', ss_Schedule = ''@hourly'', ss_Timezone = [], ss_Paused = False,
        ss_Jitter = False, ss_StartingDeadlineSeconds = None, ss_Run = ()\<rparr>,
      sc_Status = \<lparr>st_Phase = [], st_LastRunName = [], st_LastSuccessTime = None,
        st_NextScheduleTime = None, st_Conditions = []\<rparr>\<rparr>"

definition demo_backup :: Backup where
  "demo_backup =
     (let b = fst (stamped_backup demo_env demo_sched (hours 1))
      in b\<lparr>b_Meta := (b_Meta b)\<lparr>m_CreationTimestamp := Some (hours 1)\<rparr>\<rparr>)"

lemma demo_env_simps:
  "se_format demo_env = FormatInt" "se_parse_in_utc demo_env = ParseInt"
  "se_create_backup demo_env b spec (s, bs) = (if \<exists>x \<in> set bs. m_Name (b_Meta x) = m_Name (b_Meta b)
     then (Some AlreadyExists, (s, bs)) else (None, (s, bs @ [b])))"
  "se_get_backup demo_env ns n (s, bs) =
     (case find (\<lambda>b. m_Name (b_Meta b) = n) bs of None \<Rightarrow> Inl NotFound | Some b \<Rightarrow> Inr b)"
  "se_get_schedule demo_env ns n (s, bs) = Inr s" "se_list_backups demo_env ns ls (s, bs) = Inr bs"
  "se_update_schedule demo_env s' (s, bs) = (None, (s', bs))"
  by (simp_all add: demo_env_def)

lemma demo_parse: "ParseInt (FormatInt (hours 1)) = Some (hours 1)"
  by (rule ParseInt_FormatInt) simp_all

lemma demo_backup_name: "m_Name (b_Meta demo_backup) = RunName demo_env ''nightly'' (hours 1)"
  by (simp add: demo_backup_def stamped_backup_def demo_sched_def Let_def)

lemma demo_baseline: "baselineTick demo_env demo_sched [demo_backup] = hours 1"
proof -
  have "parseRunTick demo_env ''nightly'' (m_Name (b_Meta demo_backup)) = Some (hours 1)"
    unfolding demo_backup_name by (rule parseRunTick_RunName) (use demo_parse in \<open>simp add: demo_env_simps\<close>)
  then show ?thesis
    by (simp add: baselineTick_def demo_sched_def created_at_def later_def parseRunTick_def [of _ _ "[]"])
qed

lemma hourly_increases: "t < Next hourly t"
  using hourly_next hourly_unbounded unfolding next_activation_def by meson

lemma demo_due: "DueTick hourly (hours 1) (hours 2) None = Some (hours 2)"
proof -
  have m: "maxCatchupTicks = Suc (Suc 998)" by (simp add: maxCatchupTicks_def)
  show ?thesis
    unfolding DueTick_def m due_loop.simps by (simp add: Next_def hourly_def)
qed

text \<open>
  No tick is stamped twice and none before the schedule existed. When the listing holds the
  Backup a tick was stamped as, any tick due later is strictly later, for formats that parse back;
  and a due tick is always later than the schedule's creation.
\<close>

theorem ticks_move_forward:
  assumes "\<And>t. t < Next c t" and "se_parse_in_utc e (se_format e T) = Some T"
    and "b \<in> set backups" and "m_Name (b_Meta b) = RunName e (m_Name (sc_Meta sched)) T"
    and "DueTick c (baselineTick e sched backups) now deadline = Some tick"
  shows "T < tick \<and> created_at (sc_Meta sched) < tick"
proof -
  let ?f = "\<lambda>b. parseRunTick e (m_Name (sc_Meta sched)) (m_Name (b_Meta b))"
  have "?f b = Some T" using assms(2,4) by (simp add: parseRunTick_RunName)
  then have "T \<le> baselineTick e sched backups"
    using foldl_later_ge(2) [OF assms(3), of ?f] by (simp add: baselineTick_def Let_def)
  moreover have "created_at (sc_Meta sched) \<le> baselineTick e sched backups"
    unfolding baselineTick_def Let_def by (rule order_trans [OF later_ge(1) foldl_later_ge(1)])
  ultimately show ?thesis using DueTick_after [OF assms(1,5)] by simp
qed

theorem ticks_move_forward_witness:
  "DueTick hourly (baselineTick demo_env demo_sched [demo_backup]) (hours 2) None = Some (hours 2) \<and>
   hours 1 < hours 2 \<and> created_at (sc_Meta demo_sched) < hours 2"
proof -
  have due: "DueTick hourly (baselineTick demo_env demo_sched [demo_backup]) (hours 2) None = Some (hours 2)"
    using demo_due by (simp only: demo_baseline)
  have "m_Name (b_Meta demo_backup) = RunName demo_env (m_Name (sc_Meta demo_sched)) (hours 1)"
    unfolding demo_backup_name by (simp add: demo_sched_def)
  from ticks_move_forward [OF hourly_increases _ _ this due] due show ?thesis
    using demo_parse by (simp add: demo_env_simps)
qed

section \<open>Stamping\<close>

text \<open>
  Stamping never overwrites. When the tick's name is taken (the API server refuses the create
  and leaves the object as it is), the outcome depends on whose object it is: this schedule's own
  is accepted without any write, an adoptable one gets this schedule's stamp and nothing else,
  and a foreign one, in particular any object with data, is reported as a collision that names it,
  again without any write.
\<close>

theorem stamping_never_overwrites:
  assumes "se_create_backup e (fst (stamped_backup e sched tick)) (snd (stamped_backup e sched tick)) (c_world st)
      = (Some AlreadyExists, c_world st)"
    and "se_get_backup e (m_Namespace (sc_Meta sched)) (RunName e (m_Name (sc_Meta sched)) tick) (c_world st)
      = Inr existing"
    and "m_UID (sc_Meta sched) \<noteq> []"
  defines "owner \<equiv> fst (classifyCoordinate existing (m_UID (sc_Meta sched)) (m_CreationTimestamp (sc_Meta sched)))"
    and "nm \<equiv> RunName e (m_Name (sc_Meta sched)) tick"
  shows "(owner = coordinateMine \<longrightarrow> stampBackup e sched tick st = (Inr nm, st)) \<and>
    (owner = coordinateForeign \<longrightarrow>
      (\<exists>c. stampBackup e sched tick st = (Inl (StampCollision c), st) \<and> rc_Name c = nm \<and>
         rc_HasData c = backupHasResults existing)) \<and>
    (owner = coordinateAdoptable \<longrightarrow>
      \<not> backupHasResults existing \<and>
      c_world (snd (stampBackup e sched tick st)) =
        snd (se_patch_backup e (existing\<lparr>b_Meta := (b_Meta existing)\<lparr>m_Annotations :=
          (m_Annotations (b_Meta existing))(AnnotationParentUID \<mapsto> m_UID (sc_Meta sched))\<rparr>\<rparr>) (c_world st)))"
proof -
  obtain bk spec where p: "stamped_backup e sched tick = (bk, spec)" by fastforce
  obtain ow reason where cl: "classifyCoordinate existing (m_UID (sc_Meta sched))
      (m_CreationTimestamp (sc_Meta sched)) = (ow, reason)" by fastforce
  have ad: "ow = coordinateAdoptable \<Longrightarrow> \<not> backupHasResults existing"
    using cl by (auto simp: classifyCoordinate_def Let_def split: if_splits)
  have hr: "cr_HasResults reason = backupHasResults existing"
    using cl by (auto simp: classifyCoordinate_def newCoordinateReason_def Let_def split: if_splits)
  show ?thesis
    using assms(1,2) p cl ad hr
    by (auto simp: stampBackup_def owner_def nm_def split: prod.splits option.splits)
qed

theorem stamping_never_overwrites_witness:
  "stampBackup demo_env demo_sched (hours 1) \<lparr>c_world = (demo_sched, [demo_backup]), c_events = []\<rparr> =
     (Inr (RunName demo_env ''nightly'' (hours 1)), \<lparr>c_world = (demo_sched, [demo_backup]), c_events = []\<rparr>)"
proof -
  let ?st = "\<lparr>c_world = (demo_sched, [demo_backup]), c_events = []\<rparr>"
  have c: "se_create_backup demo_env (fst (stamped_backup demo_env demo_sched (hours 1)))
      (snd (stamped_backup demo_env demo_sched (hours 1))) (c_world ?st) = (Some AlreadyExists, c_world ?st)"
    by (simp add: demo_env_simps demo_backup_def Let_def)
  have g: "se_get_backup demo_env (m_Namespace (sc_Meta demo_sched))
      (RunName demo_env (m_Name (sc_Meta demo_sched)) (hours 1)) (c_world ?st) = Inr demo_backup"
    using demo_backup_name by (simp add: demo_env_simps demo_sched_def)
  have o: "fst (classifyCoordinate demo_backup (m_UID (sc_Meta demo_sched))
      (m_CreationTimestamp (sc_Meta demo_sched))) = coordinateMine"
    by (simp add: classifyCoordinate_def demo_backup_def stamped_backup_def demo_sched_def Let_def)
  have "m_UID (sc_Meta demo_sched) \<noteq> []" "m_Name (sc_Meta demo_sched) = ''nightly''"
    by (simp_all add: demo_sched_def)
  then show ?thesis using stamping_never_overwrites [OF c g] o by simp
qed

section \<open>The whole handler\<close>

lemma writeStatus_world:
  "c_world (snd (writeStatus e sched status phase ready reason message result st)) = c_world st \<or>
   (\<exists>s'. c_world (snd (writeStatus e sched status phase ready reason message result st)) =
      snd (se_update_schedule e s' (c_world st)))"
proof -
  let ?new = "status\<lparr>st_Phase := phase, st_Conditions := e_set_condition e
      \<lparr>cond_Type = ConditionReady, cond_Status = ready, cond_Reason = reason,
       cond_Message = message, cond_ObservedGeneration = m_Generation (sc_Meta sched),
       cond_LastTransitionTime = zero_time\<rparr> (st_Conditions status)\<rparr>"
  obtain r w where u: "se_update_schedule e (sched\<lparr>sc_Status := ?new\<rparr>) (c_world st) = (r, w)"
    by fastforce
  then have "c_world (snd (writeStatus e sched status phase ready reason message result st)) =
      (if ?new = sc_Status sched then c_world st else w)"
    by (cases r) (auto simp: writeStatus_def Let_def)
  then show ?thesis using u by (metis snd_conv)
qed



text \<open>
  While an earlier Backup of the schedule is active and not abandoned, or while the schedule is
  paused, a reconcile writes nothing but the schedule's own status: it neither stamps a new
  Backup nor terminates an old one.
\<close>

theorem blocked_reconcile_writes_only_status:
  assumes "se_get_schedule e ns name (c_world st) = Inr sched"
    and "listBackups e sched (c_world st) = Inr backups"
    and "ss_Paused (sc_Spec sched) \<or> (\<exists>b \<in> set (activeBackups backups).
      \<not> snd (backupAbandonment (env.truncate e) b now pendingResolveDeadline scheduleAbandonmentGrace))"
  shows "c_world (snd (Reconcile e ns name now st)) = c_world st \<or>
    (\<exists>s'. c_world (snd (Reconcile e ns name now st)) = snd (se_update_schedule e s' (c_world st)))"
proof (cases "ss_Paused (sc_Spec sched)")
  case True
  then show ?thesis using assms(1) writeStatus_world by (simp add: Reconcile_def)
next
  case False
  have ov: "fst (resolveOverlap (env.truncate e) backups now st) = Inr True"
    "c_world (snd (resolveOverlap (env.truncate e) backups now st)) = c_world st"
    using False assms(3) blocked_overlap [of backups "env.truncate e" now st]
    by auto
  have fire: "\<exists>st'. fire_tick e sched backups due now st = (TickDone [], st') \<and> c_world st' = c_world st"
    for due
    using ov by (cases due) (auto simp: fire_tick_def split: prod.splits)
  show ?thesis
  proof (cases "Parse (se_utc e) (se_load_location e) (se_parse_standard e)
      (ss_Schedule (sc_Spec sched)) (ss_Timezone (sc_Spec sched))")
    case (Inl perr)
    then show ?thesis using False assms(1,2) writeStatus_world by (simp add: Reconcile_def)
  next
    case (Inr cr)
    let ?off = "if ss_Jitter (sc_Spec sched)
        then JitterOffset (m_UID (sc_Meta sched)) scheduleJitterWindow else 0"
    obtain st' where st': "fire_tick e sched backups (DueTick cr (baselineTick e sched backups) (now - ?off)
        (map_option (\<lambda>n. sint (word_of_int (seconds n) :: i64))
          (ss_StartingDeadlineSeconds (sc_Spec sched)))) now st = (TickDone [], st')" "c_world st' = c_world st"
      using fire by blast
    then show ?thesis
      using False Inr assms(1,2) writeStatus_world [where st = st' and e = e]
      by (simp add: Reconcile_def Let_def)
  qed
qed

theorem blocked_reconcile_writes_only_status_witness:
  "\<exists>s'. c_world (snd (Reconcile demo_env ''shop'' ''nightly'' (hours 2)
     \<lparr>c_world = (demo_sched, [demo_backup]), c_events = []\<rparr>)) = (s', [demo_backup])"
proof -
  let ?st = "\<lparr>c_world = (demo_sched, [demo_backup]), c_events = []\<rparr>"
  have g: "se_get_schedule demo_env ''shop'' ''nightly'' (c_world ?st) = Inr demo_sched"
    by (simp add: demo_env_simps)
  have l: "listBackups demo_env demo_sched (c_world ?st) = Inr [demo_backup]"
    by (simp add: listBackups_def demo_env_simps demo_backup_def stamped_backup_def Let_def)
  have a: "demo_backup \<in> set (activeBackups [demo_backup])"
    by (simp add: activeBackups_def isTerminalBackupPhase_def demo_backup_def stamped_backup_def Let_def)
  have n: "\<not> snd (backupAbandonment (env.truncate demo_env) demo_backup (hours 2)
      pendingResolveDeadline scheduleAbandonmentGrace)"
    by (simp add: backupAbandonment_iff progress_marks_def demo_backup_def stamped_backup_def created_at_def
        time_sub_def scheduleAbandonmentGrace_def min_duration_def max_duration_def Let_def)
  have "\<exists>b \<in> set (activeBackups [demo_backup]). \<not> snd (backupAbandonment (env.truncate demo_env) b (hours 2)
      pendingResolveDeadline scheduleAbandonmentGrace)"
    using a n by blast
  from blocked_reconcile_writes_only_status [OF g l disjI2, OF this] show ?thesis
    by (auto simp: demo_env_simps)
qed

end
