(* ===== verification/Go_Path_Match.thy ===== *)
theory Go_Path_Match
  imports Go_Strings
begin

text \<open>
  \<^verbatim>\<open>path.Match\<close> of the Go standard library, function by function (\<^verbatim>\<open>Match\<close>,
  \<^verbatim>\<open>scanChunk\<close>, \<^verbatim>\<open>matchChunk\<close>, \<^verbatim>\<open>getEsc\<close>), for names and patterns in ASCII,
  where a rune is a byte. \<open>None\<close> is \<^verbatim>\<open>ErrBadPattern\<close>.
\<close>

fun skip_stars :: "string \<Rightarrow> bool \<times> string" where
  "skip_stars (c # p) = (if c = CHR ''*'' then (True, snd (skip_stars p)) else (False, c # p))"
| "skip_stars [] = (False, [])"

text \<open>The scan for the end of a chunk: the chunk and the rest.\<close>

fun scan_chunk :: "bool \<Rightarrow> string \<Rightarrow> string \<times> string" where
  "scan_chunk inrange [] = ([], [])"
| "scan_chunk inrange [c] =
     (if c = CHR ''*'' \<and> \<not> inrange then ([], [c]) else ([c], []))"
| "scan_chunk inrange (c # d # p) =
     (if c = CHR 0x5C then (case scan_chunk inrange p of (a, r) \<Rightarrow> (c # d # a, r))
      else if c = CHR ''*'' \<and> \<not> inrange then ([], c # d # p)
      else case scan_chunk (if c = CHR ''['' then True else if c = CHR '']'' then False else inrange) (d # p) of
             (a, r) \<Rightarrow> (c # a, r))"

definition scanChunk :: "string \<Rightarrow> bool \<times> string \<times> string" where
  "scanChunk pattern =
     (case skip_stars pattern of (star, p) \<Rightarrow>
        (case scan_chunk False p of (chunk, rest) \<Rightarrow> (star, chunk, rest)))"

definition getEsc :: "string \<Rightarrow> (char \<times> string) option" where
  "getEsc chunk =
     (case chunk of
        [] \<Rightarrow> None
      | c # p \<Rightarrow>
          if c = CHR ''-'' \<or> c = CHR '']'' then None
          else case (if c = CHR 0x5C then p else chunk) of
                 [] \<Rightarrow> None
               | r # nchunk \<Rightarrow> if nchunk = [] then None else Some (r, nchunk))"

lemma getEsc_shorter: "getEsc chunk = Some (r, q) \<Longrightarrow> length q < length chunk"
  by (auto simp: getEsc_def split: list.splits if_splits)

text \<open>
  The ranges of a character class against the character read (none when the match has already
  failed): whether one of them holds, and the chunk after the closing bracket.
\<close>

abbreviation in_range :: "char \<Rightarrow> char \<Rightarrow> char option \<Rightarrow> bool" where
  "in_range lo hi r \<equiv> (case r of None \<Rightarrow> False | Some c \<Rightarrow> lo \<le> c \<and> c \<le> hi)"

function match_ranges :: "bool \<Rightarrow> bool \<Rightarrow> char option \<Rightarrow> string \<Rightarrow> (bool \<times> string) option" where
  "match_ranges seen matched r chunk =
     (if seen \<and> chunk \<noteq> [] \<and> hd chunk = CHR '']'' then Some (matched, tl chunk)
      else case getEsc chunk of
             None \<Rightarrow> None
           | Some (lo, q) \<Rightarrow>
               if hd q = CHR ''-'' then
                 (case getEsc (tl q) of
                    None \<Rightarrow> None
                  | Some (hi, q') \<Rightarrow> match_ranges True (matched \<or> in_range lo hi r) r q')
               else match_ranges True (matched \<or> in_range lo lo r) r q)"
  by pat_completeness auto
termination
proof (relation "measure (\<lambda>(seen, matched, r, chunk). length chunk)", goal_cases)
  case 1
  show ?case by simp
next
  case (2 seen matched r chunk x2 lo q y hi q')
  then have "length q < length chunk" "length q' < length (tl q)" by (auto dest: getEsc_shorter)
  then show ?case by simp
next
  case (3 seen matched r chunk x2 lo q)
  then show ?case by (auto dest: getEsc_shorter)
qed

declare match_ranges.simps [simp del]

lemma match_ranges_shorter:
  "match_ranges seen matched r chunk = Some (m, q) \<Longrightarrow> length q < length chunk"
proof (induction seen matched r chunk arbitrary: m q rule: match_ranges.induct)
  case (1 seen matched r chunk)
  show ?case
  proof (cases "seen \<and> chunk \<noteq> [] \<and> hd chunk = CHR '']''")
    case True
    then show ?thesis using 1(3) by (subst (asm) match_ranges.simps) auto
  next
    case False
    then obtain lo p where lo: "getEsc chunk = Some (lo, p)"
      using 1(3) by (subst (asm) match_ranges.simps) (auto split: option.splits)
    have len: "length p < length chunk" using getEsc_shorter [OF lo] .
    show ?thesis
    proof (cases "hd p = CHR ''-''")
      case True
      then obtain hi p' where hi: "getEsc (tl p) = Some (hi, p')"
        using 1(3) False lo by (subst (asm) match_ranges.simps) (auto split: option.splits)
      have "length q < length p'"
        using 1(1) [OF False lo _ True hi] 1(3) False lo True hi
        by (subst (asm) match_ranges.simps) simp
      then show ?thesis using getEsc_shorter [OF hi] len by simp
    next
      case not_dash: False
      have "length q < length p"
        using 1(2) [OF False lo _ not_dash] 1(3) False lo not_dash
        by (subst (asm) match_ranges.simps) simp
      then show ?thesis using len by simp
    qed
  qed
qed

text \<open>
  One chunk against the start of the name: \<open>None\<close> is a bad pattern, \<open>Some None\<close> no match,
  \<open>Some (Some t)\<close> a match that leaves \<open>t\<close>. After a failure the chunk is still checked
  to its end.
\<close>

function matchChunk :: "bool \<Rightarrow> string \<Rightarrow> string \<Rightarrow> string option option" where
  "matchChunk failed chunk s =
     (if chunk = [] then Some (if failed then None else Some s)
      else
        let failed = (failed \<or> s = []) in
        if hd chunk = CHR ''['' then
          let r = (if failed then None else Some (hd s));
              s' = (if failed then s else tl s);
              c = tl chunk;
              negated = (c \<noteq> [] \<and> hd c = CHR ''^'');
              c = (if negated then tl c else c)
          in case match_ranges False False r c of
               None \<Rightarrow> None
             | Some (m, q) \<Rightarrow> matchChunk (failed \<or> m = negated) q s'
        else if hd chunk = CHR ''?'' then
          matchChunk (failed \<or> hd s = CHR ''/'') (tl chunk) (if failed then s else tl s)
        else
          let c = (if hd chunk = CHR 0x5C then tl chunk else chunk)
          in if c = [] then None
             else matchChunk (failed \<or> hd c \<noteq> hd s) (tl c) (if failed then s else tl s))"
  by pat_completeness auto
termination
proof (relation "measure (\<lambda>(failed, chunk, s). length chunk)", goal_cases)
  case 1
  show ?case by simp
next
  case (2 failed chunk s f r s' c neg c' x m q)
  then have "length q < length c'" by (auto dest: match_ranges_shorter)
  moreover have "length c' < length chunk" using 2 by (cases chunk) (auto split: if_splits)
  ultimately show ?case by simp
next
  case (3 failed chunk s f)
  then show ?case by (cases chunk) auto
next
  case (4 failed chunk s f c)
  then show ?case by (cases chunk; cases "tl chunk") (auto split: if_splits)
qed

declare matchChunk.simps [simp del]

text \<open>The positions a star may skip to: every proper suffix up to the first slash.\<close>

fun try_skip :: "string \<Rightarrow> bool \<Rightarrow> string \<Rightarrow> string option option" where
  "try_skip chunk last_chunk [] = Some None"
| "try_skip chunk last_chunk (c # s) =
     (if c = CHR ''/'' then Some None
      else case matchChunk False chunk s of
             None \<Rightarrow> None
           | Some (Some t) \<Rightarrow> if last_chunk \<and> t \<noteq> [] then try_skip chunk last_chunk s else Some (Some t)
           | Some None \<Rightarrow> try_skip chunk last_chunk s)"

lemma skip_stars_le: "length (snd (skip_stars p)) \<le> length p"
  by (induction p rule: skip_stars.induct) auto

lemma scan_chunk_le: "length (snd (scan_chunk b p)) \<le> length p"
  by (induction b p rule: scan_chunk.induct) (auto split: prod.splits)

lemma skip_stars_hd: "skip_stars p = (star, q) \<Longrightarrow> (q = [] \<or> hd q \<noteq> CHR ''*'') \<and> (star \<longrightarrow> length q < length p) \<and> (\<not> star \<longrightarrow> q = p)"
proof (induction p arbitrary: star q rule: skip_stars.induct)
  case (1 c p)
  then show ?case using skip_stars_le [of p] by (cases "skip_stars p") (auto split: if_splits)
qed simp

lemma scan_chunk_progress:
  "p \<noteq> [] \<Longrightarrow> hd p \<noteq> CHR ''*'' \<Longrightarrow> length (snd (scan_chunk b p)) < length p"
proof -
  assume p: "p \<noteq> []" "hd p \<noteq> CHR ''*''"
  then consider c where "p = [c]" | c d q where "p = c # d # q" by (metis list.exhaust)
  then show ?thesis
  proof cases
    case 2
    have "length (snd (scan_chunk b' q)) \<le> length q" "length (snd (scan_chunk b' (d # q))) \<le> Suc (length q)"
      for b' using scan_chunk_le [of b' q] scan_chunk_le [of b' "d # q"] by simp_all
    then show ?thesis
      using p 2 by (simp add: case_prod_beta le_imp_less_Suc le_SucI)
  qed (use p in simp)
qed

lemma scanChunk_shorter: "p \<noteq> [] \<Longrightarrow> scanChunk p = (star, chunk, rest) \<Longrightarrow> length rest < length p"
proof -
  assume ne: "p \<noteq> []" and sc: "scanChunk p = (star, chunk, rest)"
  obtain q where q: "skip_stars p = (star, q)" "scan_chunk False q = (chunk, rest)"
    using sc by (auto simp: scanChunk_def split: prod.splits)
  note h = skip_stars_hd [OF q(1)]
  show ?thesis
  proof (cases "q = []")
    case True
    then show ?thesis using q(2) ne by simp
  next
    case False
    then have "length rest < length q" using scan_chunk_progress [of q False] h q(2) by simp
    then show ?thesis using h by (cases star) auto
  qed
qed

function valid_rest :: "string \<Rightarrow> bool" where
  "valid_rest pattern =
     (if pattern = [] then True
      else case scanChunk pattern of
             (_, chunk, rest) \<Rightarrow> matchChunk False chunk [] \<noteq> None \<and> valid_rest rest)"
  by pat_completeness auto
termination
  by (relation "measure length") (auto intro: scanChunk_shorter [OF _ sym])

function path_Match :: "string \<Rightarrow> string \<Rightarrow> bool option" where
  "path_Match pattern name =
     (if pattern = [] then Some (name = [])
      else case scanChunk pattern of
             (star, chunk, rest) \<Rightarrow>
               if star \<and> chunk = [] then Some (CHR ''/'' \<notin> set name)
               else case matchChunk False chunk name of
                      None \<Rightarrow> None
                    | Some first \<Rightarrow>
                        (case (case first of
                                 Some t \<Rightarrow> if t = [] \<or> rest \<noteq> [] then Some (Some t)
                                   else if star then try_skip chunk (rest = []) name else Some None
                               | None \<Rightarrow> if star then try_skip chunk (rest = []) name else Some None) of
                           None \<Rightarrow> None
                         | Some (Some t) \<Rightarrow> path_Match rest t
                         | Some None \<Rightarrow> if valid_rest rest then Some False else None))"
  by pat_completeness auto
termination
  by (relation "measure (\<lambda>(p, n). length p)") (auto intro: scanChunk_shorter [OF _ sym])

declare valid_rest.simps [simp del]
declare path_Match.simps [simp del]

section \<open>Literal patterns and prefixes\<close>

definition literal :: "string \<Rightarrow> bool" where
  "literal p \<longleftrightarrow> list_all (\<lambda>c. c \<notin> {CHR ''*'', CHR ''?'', CHR ''['', CHR 0x5C}) p"

lemma literal_simps [simp]:
  "literal []" "literal (c # p) \<longleftrightarrow> c \<notin> {CHR ''*'', CHR ''?'', CHR ''['', CHR 0x5C} \<and> literal p"
  by (simp_all add: literal_def)

lemma path_Match_base [simp]:
  "valid_rest [] = True" "path_Match [] n = Some (n = [])" "matchChunk b [] s = Some (if b then None else Some s)"
  by (subst valid_rest.simps path_Match.simps matchChunk.simps, simp)+

lemma scan_chunk_literal: "literal p \<Longrightarrow> rest = [] \<or> hd rest = CHR ''*'' \<Longrightarrow> scan_chunk False (p @ rest) = (p, rest)"
proof (induction p)
  case Nil
  then show ?case by (cases rest; cases "tl rest") auto
next
  case (Cons c p)
  then have IH: "scan_chunk False (p @ rest) = (p, rest)" by simp
  show ?case
  proof (cases "p @ rest")
    case Nil
    then show ?thesis using Cons.prems by simp
  next
    case (Cons d q)
    then show ?thesis using IH \<open>literal (c # p)\<close> by simp
  qed
qed

lemma scanChunk_literal:
  "p \<noteq> [] \<Longrightarrow> literal p \<Longrightarrow> rest = [] \<or> hd rest = CHR ''*'' \<Longrightarrow> scanChunk (p @ rest) = (False, p, rest)"
proof -
  assume p: "p \<noteq> []" "literal p" "rest = [] \<or> hd rest = CHR ''*''"
  then have "skip_stars (p @ rest) = (False, p @ rest)" by (cases p) auto
  then show ?thesis using p by (simp add: scanChunk_def scan_chunk_literal)
qed

lemma matchChunk_failed_literal: "literal p \<Longrightarrow> matchChunk True p s = Some None"
  by (induction p arbitrary: s) (subst matchChunk.simps, simp)+

lemma matchChunk_literal:
  "literal p \<Longrightarrow> matchChunk False p s = Some (if HasPrefix s p then Some (drop (length p) s) else None)"
proof (induction p arbitrary: s)
  case Nil
  then show ?case by (subst matchChunk.simps) simp
next
  case (Cons c p)
  have "matchChunk False (c # p) s =
      matchChunk (s = [] \<or> c \<noteq> hd s) p (if s = [] then s else tl s)"
    using Cons.prems by (subst matchChunk.simps) (simp add: Let_def)
  then show ?case
    using Cons.IH [of "tl s"] Cons.prems
    by (cases s; cases "c = hd s") (auto simp: matchChunk_failed_literal)
qed

lemma path_Match_literal: "literal p \<Longrightarrow> path_Match p n = Some (p = n)"
proof (cases "p = []")
  case False
  assume l: "literal p"
  have sc: "scanChunk p = (False, p, [])" using scanChunk_literal [OF False l, of "[]"] by simp
  have "HasPrefix n p \<and> drop (length p) n = [] \<longleftrightarrow> p = n"
    by (auto simp: HasPrefix_def prefix_def)
  then show ?thesis
    using False l sc
    by (subst path_Match.simps) (auto simp: matchChunk_literal)
qed (subst path_Match.simps, auto)

lemma path_Match_star: "path_Match ''*'' n = Some (CHR ''/'' \<notin> set n)"
  by (subst path_Match.simps) (simp add: scanChunk_def)

lemma path_Match_prefix_star:
  assumes "literal p"
  shows "path_Match (p @ ''*'') n = Some (\<exists>t. n = p @ t \<and> CHR ''/'' \<notin> set t)"
proof (cases "p = []")
  case True
  then show ?thesis by (simp add: path_Match_star)
next
  case False
  have sc: "scanChunk (p @ ''*'') = (False, p, ''*'')" using scanChunk_literal [OF False assms] by simp
  have v: "valid_rest ''*''"
    by (subst valid_rest.simps) (simp add: scanChunk_def)
  show ?thesis
    using sc v assms
    by (subst path_Match.simps) (auto simp: matchChunk_literal path_Match_star HasPrefix_def prefix_def)
qed

end
