(* ===== verification/Namespace_Selection.thy ===== *)
theory Namespace_Selection
  imports Api_Types Go_Path_Match
begin

text \<open>
  Which namespaces a cluster run fans out into (\<^verbatim>\<open>internal/nsselector\<close>) and which claims a
  schedule covers (\<^verbatim>\<open>PVCSelector.Matches\<close> in \<^verbatim>\<open>api/v1alpha1\<close>). Compiling a label
  selector or a regular expression is an argument: from its source to a matcher, or nothing when it
  does not compile.
\<close>

record Namespace =
  ns_Name :: string
  ns_Labels :: string_map

text \<open>Label pairs are an association list; expressions are kept abstract, they are only compiled.\<close>

record 'expr NamespaceSelector =
  MatchNames :: "string list"
  MatchLabels :: "(string \<times> string) list"
  MatchExpressions :: "'expr list"
  Regexp :: string
  Exclude :: "string list"

datatype selector_error =
    NoPositiveForm
  | ManyPositiveForms nat
  | BadMatchLabels
  | BadMatchExpressions
  | BadRegexp string
  | BadGlob string

fun anyGlobMatches :: "string list \<Rightarrow> string \<Rightarrow> selector_error + bool" where
  "anyGlobMatches [] name = Inr False"
| "anyGlobMatches (p # ps) name =
     (case path_Match p name of
        None \<Rightarrow> Inl (BadGlob p)
      | Some ok \<Rightarrow> if ok then Inr True else anyGlobMatches ps name)"

record 'expr selector_env =
  compile_labels :: "(string \<times> string) list \<Rightarrow> (string_map \<Rightarrow> bool) option"
  compile_expressions :: "'expr list \<Rightarrow> (string_map \<Rightarrow> bool) option"
  compile_regexp :: "string \<Rightarrow> (string \<Rightarrow> bool) option"

definition labelMatcher :: "(string_map \<Rightarrow> bool) \<Rightarrow> Namespace \<Rightarrow> selector_error + bool" where
  "labelMatcher selector ns = Inr (selector (ns_Labels ns))"

definition positive_forms :: "'expr NamespaceSelector \<Rightarrow> nat" where
  "positive_forms sel =
     (if MatchNames sel \<noteq> [] then 1 else 0) + (if MatchLabels sel \<noteq> [] then 1 else 0) +
     (if MatchExpressions sel \<noteq> [] then 1 else 0) + (if Regexp sel \<noteq> [] then 1 else 0)"

definition positiveMatcher ::
  "'expr selector_env \<Rightarrow> 'expr NamespaceSelector \<Rightarrow> selector_error + (Namespace \<Rightarrow> selector_error + bool)" where
  "positiveMatcher env sel =
     (let forms = positive_forms sel
      in if forms = 0 then Inl NoPositiveForm
         else if forms > 1 then Inl (ManyPositiveForms forms)
         else if MatchNames sel \<noteq> [] then Inr (\<lambda>ns. anyGlobMatches (MatchNames sel) (ns_Name ns))
         else if MatchLabels sel \<noteq> [] then
           (case compile_labels env (MatchLabels sel) of
              None \<Rightarrow> Inl BadMatchLabels | Some selector \<Rightarrow> Inr (labelMatcher selector))
         else if MatchExpressions sel \<noteq> [] then
           (case compile_expressions env (MatchExpressions sel) of
              None \<Rightarrow> Inl BadMatchExpressions | Some selector \<Rightarrow> Inr (labelMatcher selector))
         else (case compile_regexp env (Regexp sel) of
                 None \<Rightarrow> Inl (BadRegexp (Regexp sel))
               | Some re \<Rightarrow> Inr (\<lambda>ns. Inr (re (ns_Name ns)))))"

fun match_loop ::
  "(Namespace \<Rightarrow> selector_error + bool) \<Rightarrow> string list \<Rightarrow> Namespace list \<Rightarrow> string list \<Rightarrow> selector_error + string list" where
  "match_loop matcher exclude [] out = Inr out"
| "match_loop matcher exclude (ns # rest) out =
     (case matcher ns of
        Inl err \<Rightarrow> Inl err
      | Inr False \<Rightarrow> match_loop matcher exclude rest out
      | Inr True \<Rightarrow>
          (case anyGlobMatches exclude (ns_Name ns) of
             Inl err \<Rightarrow> Inl err
           | Inr True \<Rightarrow> match_loop matcher exclude rest out
           | Inr False \<Rightarrow> match_loop matcher exclude rest (out @ [ns_Name ns])))"

definition Match ::
  "'expr selector_env \<Rightarrow> Namespace list \<Rightarrow> 'expr NamespaceSelector \<Rightarrow> selector_error + string list" where
  "Match env namespaces sel =
     (case positiveMatcher env sel of
        Inl err \<Rightarrow> Inl err
      | Inr matcher \<Rightarrow>
          (case match_loop matcher (Exclude sel) namespaces [] of
             Inl err \<Rightarrow> Inl err | Inr out \<Rightarrow> Inr (sort out)))"

section \<open>Claim selection\<close>

record PVCSelector =
  pvc_MatchLabels :: "(string \<times> string) list"
  pvc_Include :: "string list"
  pvc_Exclude :: "string list"

fun matchesAnyGlob :: "string \<Rightarrow> string list \<Rightarrow> bool" where
  "matchesAnyGlob name [] = False"
| "matchesAnyGlob name (g # gs) = (if path_Match g name = Some True then True else matchesAnyGlob name gs)"

fun labels_match :: "(string \<times> string) list \<Rightarrow> string_map \<Rightarrow> bool" where
  "labels_match [] labels = True"
| "labels_match ((k, v) # kvs) labels = (if map_get labels k \<noteq> v then False else labels_match kvs labels)"

definition PVCSelector_Matches :: "PVCSelector \<Rightarrow> string \<Rightarrow> string_map \<Rightarrow> bool" where
  "PVCSelector_Matches s name labels =
     (if \<not> labels_match (pvc_MatchLabels s) labels then False
      else if pvc_Include s \<noteq> [] \<and> \<not> matchesAnyGlob name (pvc_Include s) then False
      else \<not> matchesAnyGlob name (pvc_Exclude s))"

section \<open>What is selected\<close>

lemma anyGlobMatches_Inr:
  "anyGlobMatches ps name = Inr ok \<Longrightarrow> ok \<longleftrightarrow> (\<exists>p \<in> set ps. path_Match p name = Some True)"
  by (induction ps) (auto split: option.splits if_splits)

lemma anyGlobMatches_False:
  "anyGlobMatches ps name = Inr False \<Longrightarrow> \<forall>p \<in> set ps. path_Match p name = Some False"
  by (induction ps) (auto split: option.splits if_splits)

lemma match_loop_Inr:
  "match_loop m ex nss out = Inr r \<Longrightarrow>
     r = out @ map ns_Name (filter (\<lambda>ns. m ns = Inr True \<and> anyGlobMatches ex (ns_Name ns) = Inr False) nss)"
proof (induction nss arbitrary: out)
  case (Cons a nss)
  from Cons.prems show ?case
    by (auto dest!: Cons.IH split: sum.splits bool.splits)
qed simp

text \<open>
  A run fans out into exactly the selected namespaces. A resolution that succeeds has exactly
  one positive form, answers the names in sorted order, and each of them is matched by that form
  and by no exclude pattern; a namespace that form matches and that is missing from the answer is
  caught by an exclude pattern. A selector with no positive form, or with several, never
  selects anything.
\<close>

theorem namespace_selection_exact:
  assumes "Match env nss sel = Inr names"
  shows "positive_forms sel = 1 \<and> sorted names \<and>
    (\<exists>matcher. positiveMatcher env sel = Inr matcher \<and>
      mset names = mset (map ns_Name (filter (\<lambda>ns. matcher ns = Inr True \<and>
        (\<forall>p \<in> set (Exclude sel). path_Match p (ns_Name ns) = Some False)) nss)))"
proof -
  from assms obtain m where m: "positiveMatcher env sel = Inr m"
    by (auto simp: Match_def split: sum.splits)
  with assms obtain out where out: "match_loop m (Exclude sel) nss [] = Inr out" "names = sort out"
    by (auto simp: Match_def split: sum.splits)
  have "positive_forms sel = 1"
    using m by (auto simp: positiveMatcher_def Let_def split: if_splits)
  moreover have "anyGlobMatches ps n = Inr False \<longleftrightarrow> (\<forall>p \<in> set ps. path_Match p n = Some False)" for ps n
    by (induction ps) (auto split: option.splits)
  then have "mset names = mset (map ns_Name (filter (\<lambda>ns. m ns = Inr True \<and>
        (\<forall>p \<in> set (Exclude sel). path_Match p (ns_Name ns) = Some False)) nss))"
    using match_loop_Inr [OF out(1)] out(2) by simp
  ultimately show ?thesis using m out(2) by auto
qed

theorem namespace_selection_exact_witness:
  "\<exists>names. Match \<lparr>compile_labels = (\<lambda>_. None), compile_expressions = (\<lambda>_ :: unit list. None), compile_regexp = (\<lambda>_. None)\<rparr>
       [\<lparr>ns_Name = ''shop'', ns_Labels = Map.empty\<rparr>, \<lparr>ns_Name = ''kube-system'', ns_Labels = Map.empty\<rparr>]
       \<lparr>MatchNames = [''*''], MatchLabels = [], MatchExpressions = [], Regexp = [], Exclude = [''kube-*'']\<rparr>
     = Inr names \<and> sorted names"
proof -
  let ?env = "\<lparr>compile_labels = (\<lambda>_. None), compile_expressions = (\<lambda>_ :: unit list. None), compile_regexp = (\<lambda>_. None)\<rparr>"
  let ?sel = "\<lparr>MatchNames = [''*''], MatchLabels = [], MatchExpressions = [], Regexp = [], Exclude = [''kube-*'']\<rparr>"
  let ?nss = "[\<lparr>ns_Name = ''shop'', ns_Labels = Map.empty\<rparr>, \<lparr>ns_Name = ''kube-system'', ns_Labels = Map.empty\<rparr>]"
  have "path_Match ''kube-*'' n = Some (\<exists>t. n = ''kube-'' @ t \<and> CHR ''/'' \<notin> set t)" for n
    using path_Match_prefix_star [of "''kube-''" n] by simp
  then obtain names where "Match ?env ?nss ?sel = Inr names"
    by (auto simp: Match_def positiveMatcher_def positive_forms_def path_Match_star)
  with namespace_selection_exact [OF this] show ?thesis by blast
qed

lemma matchesAnyGlob_iff: "matchesAnyGlob name gs \<longleftrightarrow> (\<exists>g \<in> set gs. path_Match g name = Some True)"
  by (induction gs) auto

lemma labels_match_iff: "labels_match kvs labels \<longleftrightarrow> (\<forall>(k, v) \<in> set kvs. map_get labels k = v)"
  by (induction kvs labels rule: labels_match.induct) auto

text \<open>
  An exclude that names a claim literally always wins, and the empty selector covers every
  claim.
\<close>

lemma literal_exclude_wins:
  "literal name \<Longrightarrow> name \<in> set (pvc_Exclude s) \<Longrightarrow> \<not> PVCSelector_Matches s name labels"
  using path_Match_literal [of name name] by (auto simp: PVCSelector_Matches_def matchesAnyGlob_iff)

lemma empty_selector_matches:
  "PVCSelector_Matches \<lparr>pvc_MatchLabels = [], pvc_Include = [], pvc_Exclude = []\<rparr> name labels"
  by (simp add: PVCSelector_Matches_def)

end
