(* ===== verification/Manifest_Sanitizer.thy ===== *)
theory Manifest_Sanitizer
  imports Api_Types Go_Path_Match "HOL-Library.AList"
begin

text \<open>
  The manifest sanitizer (\<^verbatim>\<open>internal/sanitize\<close>): the rule set and its validation, the
  removal operations on the JSON tree of an object, the pipeline, and the exclusion of objects a
  controller recreates. A JSON object is an association list read by its first entry; the
  code works on a deep copy, so an in-place update of a nested map is the update of that subtree.
  The accessors of apimachinery's unstructured objects are the fields of \<open>object_api\<close>.
\<close>

section \<open>JSON trees\<close>

datatype json =
    JNull
  | JBool bool
  | JNum int
  | JStr string
  | JList "json list"
  | JMap "(string \<times> json) list"

type_synonym obj = "(string \<times> json) list"

record OwnerReference =
  or_Kind :: string
  or_Controller :: "bool option"

record object_api =
  oa_GroupKind :: "obj \<Rightarrow> string \<times> string"
  oa_Name :: "obj \<Rightarrow> string"
  oa_Labels :: "obj \<Rightarrow> string_map"
  oa_OwnerReferences :: "obj \<Rightarrow> OwnerReference list"
  oa_NestedString :: "obj \<Rightarrow> string list \<Rightarrow> string"

section \<open>The rule set\<close>

abbreviation OpRemove :: string where "OpRemove \<equiv> ''remove''"
abbreviation OpRemoveAnnotation :: string where "OpRemoveAnnotation \<equiv> ''removeAnnotation''"
abbreviation OpRemoveFinalizer :: string where "OpRemoveFinalizer \<equiv> ''removeFinalizer''"
abbreviation OpKeep :: string where "OpKeep \<equiv> ''keep''"
abbreviation OpKeepIfValue :: string where "OpKeepIfValue \<equiv> ''keepIfValue''"
abbreviation OpPruneEmptyMap :: string where "OpPruneEmptyMap \<equiv> ''pruneEmptyMap''"
abbreviation OpRemoveProjectedTokenVolumes :: string
  where "OpRemoveProjectedTokenVolumes \<equiv> ''removeProjectedTokenVolumes''"

definition mutatingOps :: "string \<Rightarrow> bool" where
  "mutatingOps op \<longleftrightarrow> op \<in> {OpRemove, OpRemoveAnnotation, OpRemoveFinalizer, OpPruneEmptyMap,
     OpRemoveProjectedTokenVolumes}"

record Op =
  op_Op :: string
  op_Path :: string
  op_Value :: string

record RuleMatch =
  ma_Group :: "string option"
  ma_Kind :: string

record Rule =
  ru_ID :: string
  ru_Description :: string
  ru_Match :: RuleMatch
  ru_Ops :: "Op list"

record Ruleset =
  rs_Version :: string
  rs_Rules :: "Rule list"

definition Rule_Generic :: "Rule \<Rightarrow> bool" where
  "Rule_Generic r \<longleftrightarrow> ma_Kind (ru_Match r) = ''*''"

fun ops_mutating :: "Op list \<Rightarrow> bool" where
  "ops_mutating [] = False"
| "ops_mutating (op # ops) = (if mutatingOps (op_Op op) then True else ops_mutating ops)"

definition Rule_Mutating :: "Rule \<Rightarrow> bool" where
  "Rule_Mutating r = ops_mutating (ru_Ops r)"

definition Rule_matches :: "Rule \<Rightarrow> string \<Rightarrow> string \<Rightarrow> bool" where
  "Rule_matches r grp kind =
     (if ma_Kind (ru_Match r) \<noteq> ''*'' \<and> ma_Kind (ru_Match r) \<noteq> kind then False
      else case ma_Group (ru_Match r) of None \<Rightarrow> True | Some g \<Rightarrow> g = grp)"

datatype ruleset_error =
    NoVersion
  | NoRules
  | NoID nat
  | DuplicateID string
  | NoDescription string
  | NoMatchKind string
  | NoOps string
  | GenericAfterPerKind string
  | UnknownOp string string
  | NoPath string
  | NoKeepValue string
  | RulesetNotYAML

fun validate_ops :: "string \<Rightarrow> Op list \<Rightarrow> ruleset_error option" where
  "validate_ops rid [] = None"
| "validate_ops rid (op # ops) =
     (if \<not> mutatingOps (op_Op op) \<and> op_Op op \<noteq> OpKeep \<and> op_Op op \<noteq> OpKeepIfValue
      then Some (UnknownOp rid (op_Op op))
      else if TrimSpace (op_Path op) = [] then Some (NoPath rid)
      else if op_Op op = OpKeepIfValue \<and> op_Value op = [] then Some (NoKeepValue rid)
      else validate_ops rid ops)"

text \<open>The loop over the rules: index, ids seen, the previous rule.\<close>

fun validate_rules :: "nat \<Rightarrow> string list \<Rightarrow> Rule option \<Rightarrow> Rule list \<Rightarrow> ruleset_error option" where
  "validate_rules i seen prev [] = None"
| "validate_rules i seen prev (r # rs) =
     (if TrimSpace (ru_ID r) = [] then Some (NoID i)
      else if ru_ID r \<in> set seen then Some (DuplicateID (ru_ID r))
      else if TrimSpace (ru_Description r) = [] then Some (NoDescription (ru_ID r))
      else if ma_Kind (ru_Match r) = [] then Some (NoMatchKind (ru_ID r))
      else if ru_Ops r = [] then Some (NoOps (ru_ID r))
      else if Rule_Generic r \<and> (case prev of None \<Rightarrow> False | Some p \<Rightarrow> \<not> Rule_Generic p)
      then Some (GenericAfterPerKind (ru_ID r))
      else case validate_ops (ru_ID r) (ru_Ops r) of
             Some e \<Rightarrow> Some e
           | None \<Rightarrow> validate_rules (Suc i) (ru_ID r # seen) (Some r) rs)"

definition validate :: "Ruleset \<Rightarrow> ruleset_error option" where
  "validate rs =
     (if TrimSpace (rs_Version rs) = [] then Some NoVersion
      else if rs_Rules rs = [] then Some NoRules
      else validate_rules 0 [] None (rs_Rules rs))"

text \<open>Decoding the embedded YAML is an argument.\<close>

definition LoadRuleset :: "Ruleset option \<Rightarrow> ruleset_error + Ruleset" where
  "LoadRuleset decoded =
     (case decoded of
        None \<Rightarrow> Inl RulesetNotYAML
      | Some rs \<Rightarrow> (case validate rs of Some e \<Rightarrow> Inl e | None \<Rightarrow> Inr rs))"

section \<open>Paths\<close>

text \<open>
  \<^verbatim>\<open>walkParent\<close> for reading, and \<open>at_parent\<close> for an update of the map it answers: the
  function gets the last segment and that map.
\<close>

fun walk_segments :: "string list \<Rightarrow> obj \<Rightarrow> (obj \<times> string) option" where
  "walk_segments [] ob = None"
| "walk_segments [k] ob = Some (ob, k)"
| "walk_segments (s # t # ss) ob =
     (case map_of ob s of Some (JMap m) \<Rightarrow> walk_segments (t # ss) m | _ \<Rightarrow> None)"

definition walkParent :: "obj \<Rightarrow> string \<Rightarrow> (obj \<times> string) option" where
  "walkParent ob dotted = walk_segments (Split dotted (CHR ''.'')) ob"

fun at_parent :: "string list \<Rightarrow> (string \<Rightarrow> obj \<Rightarrow> obj \<times> bool) \<Rightarrow> obj \<Rightarrow> obj \<times> bool" where
  "at_parent [] f ob = (ob, False)"
| "at_parent [k] f ob = f k ob"
| "at_parent (s # t # ss) f ob =
     (case map_of ob s of
        Some (JMap m) \<Rightarrow>
          (case at_parent (t # ss) f m of (m', changed) \<Rightarrow> (AList.update s (JMap m') ob, changed))
      | _ \<Rightarrow> (ob, False))"

definition valueMatches :: "obj \<Rightarrow> string \<Rightarrow> string \<Rightarrow> bool" where
  "valueMatches ob dotted want =
     (case walkParent ob dotted of
        None \<Rightarrow> False
      | Some (parent, key) \<Rightarrow>
          (case map_of parent key of
             Some (JStr v) \<Rightarrow> v = want
           | Some (JList items) \<Rightarrow> list_ex (\<lambda>it. it = JStr want) items
           | _ \<Rightarrow> False))"

definition isProtected :: "string \<Rightarrow> string list \<Rightarrow> bool" where
  "isProtected removed protected =
     (if removed \<in> set protected then True
      else list_ex (\<lambda>p. HasPrefix p (removed @ ''.'') \<or> HasPrefix p (removed @ ''[]'')) protected)"

fun cut_brackets :: "string \<Rightarrow> (string \<times> string) option" where
  "cut_brackets [] = None"
| "cut_brackets (c # s) =
     (if HasPrefix (c # s) ''[]'' then Some ([], drop 2 (c # s))
      else map_option (\<lambda>(a, b). (c # a, b)) (cut_brackets s))"

lemma cut_brackets_shorter: "cut_brackets s = Some (a, b) \<Longrightarrow> length b < length s"
  by (induction s arbitrary: a b) (auto split: if_splits)

lemma TrimPrefix_le: "length (TrimPrefix s p) \<le> length s"
  by (simp add: TrimPrefix_def)

definition delete_key :: "string \<Rightarrow> obj \<Rightarrow> obj \<times> bool" where
  "delete_key key parent =
     (if map_of parent key = None then (parent, False) else (AList.delete key parent, True))"

definition in_items :: "(obj \<Rightarrow> obj \<times> bool) \<Rightarrow> string \<Rightarrow> obj \<Rightarrow> obj \<times> bool" where
  "in_items f key parent =
     (case map_of parent key of
        Some (JList items) \<Rightarrow>
          let rs = map (\<lambda>it. case it of JMap m \<Rightarrow> (case f m of (m', c) \<Rightarrow> (JMap m', c)) | _ \<Rightarrow> (it, False)) items
          in (AList.update key (JList (map fst rs)) parent, list_ex snd rs)
      | _ \<Rightarrow> (parent, False))"

function removePath :: "string \<Rightarrow> obj \<Rightarrow> obj \<times> bool" where
  "removePath dotted ob =
     (case cut_brackets dotted of
        Some (arrPath, after) \<Rightarrow>
          let rest = TrimPrefix after ''.''
          in at_parent (Split arrPath (CHR ''.''))
               (in_items (\<lambda>m. if rest = [] then (m, False) else removePath rest m)) ob
      | None \<Rightarrow> at_parent (Split dotted (CHR ''.'')) delete_key ob)"
  by pat_completeness auto
termination
  by (relation "measure (\<lambda>(dotted, ob). length dotted)")
    (auto intro: le_less_trans [OF TrimPrefix_le] dest: cut_brackets_shorter)

declare removePath.simps [simp del]

definition drop_map_key :: "string \<Rightarrow> string \<Rightarrow> obj \<Rightarrow> obj \<times> bool" where
  "drop_map_key key k parent =
     (case map_of parent k of
        Some (JMap m) \<Rightarrow>
          if map_of m key = None then (parent, False)
          else (AList.update k (JMap (AList.delete key m)) parent, True)
      | _ \<Rightarrow> (parent, False))"

definition removeMapKey :: "obj \<Rightarrow> string \<Rightarrow> string \<Rightarrow> obj \<times> bool" where
  "removeMapKey ob dotted key = at_parent (Split dotted (CHR ''.'')) (drop_map_key key) ob"

definition finalizersPath :: string where "finalizersPath = ''metadata.finalizers''"

definition put_list :: "string \<Rightarrow> json list \<Rightarrow> obj \<Rightarrow> obj" where
  "put_list k kept m = (if kept = [] then AList.delete k m else AList.update k (JList kept) m)"

definition drop_finalizer :: "string \<Rightarrow> string \<Rightarrow> obj \<Rightarrow> obj \<times> bool" where
  "drop_finalizer value k parent =
     (case map_of parent k of
        Some (JList items) \<Rightarrow>
          if list_ex (\<lambda>it. it = JStr value) items
          then (put_list k (filter (\<lambda>it. it \<noteq> JStr value) items) parent, True)
          else (parent, False)
      | _ \<Rightarrow> (parent, False))"

definition removeFinalizer :: "obj \<Rightarrow> string \<Rightarrow> obj \<times> bool" where
  "removeFinalizer ob value = at_parent (Split finalizersPath (CHR ''.'')) (drop_finalizer value) ob"

definition drop_empty_map :: "string \<Rightarrow> obj \<Rightarrow> obj \<times> bool" where
  "drop_empty_map k parent =
     (case map_of parent k of
        Some (JMap m) \<Rightarrow> if m \<noteq> [] then (parent, False) else (AList.delete k parent, True)
      | _ \<Rightarrow> (parent, False))"

definition pruneEmptyMap :: "obj \<Rightarrow> string \<Rightarrow> obj \<times> bool" where
  "pruneEmptyMap ob dotted = at_parent (Split dotted (CHR ''.'')) drop_empty_map ob"

definition string_field :: "obj \<Rightarrow> string \<Rightarrow> string" where
  "string_field m k = (case map_of m k of Some (JStr s) \<Rightarrow> s | _ \<Rightarrow> [])"

definition token_volume :: "string \<Rightarrow> json \<Rightarrow> string option" where
  "token_volume glob v =
     (case v of
        JMap vm \<Rightarrow>
          if path_Match glob (string_field vm ''name'') = Some True \<and> map_of vm ''projected'' \<noteq> None
          then Some (string_field vm ''name'') else None
      | _ \<Rightarrow> None)"

definition drop_mounts :: "string list \<Rightarrow> json \<Rightarrow> json" where
  "drop_mounts dropped c =
     (case c of
        JMap cm \<Rightarrow>
          (case map_of cm ''volumeMounts'' of
             Some (JList mounts) \<Rightarrow>
               JMap (put_list ''volumeMounts''
                 (filter (\<lambda>mnt. case mnt of JMap mm \<Rightarrow> string_field mm ''name'' \<notin> set dropped | _ \<Rightarrow> True) mounts)
                 cm)
           | _ \<Rightarrow> c)
      | _ \<Rightarrow> c)"

definition drop_in_list :: "string list \<Rightarrow> obj \<Rightarrow> string \<Rightarrow> obj" where
  "drop_in_list dropped spec listKey =
     (case map_of spec listKey of
        Some (JList cs) \<Rightarrow> AList.update listKey (JList (map (drop_mounts dropped) cs)) spec
      | _ \<Rightarrow> spec)"

definition removeProjectedTokenVolumes :: "obj \<Rightarrow> string \<Rightarrow> obj \<times> bool" where
  "removeProjectedTokenVolumes ob glob =
     (case map_of ob ''spec'' of
        Some (JMap spec) \<Rightarrow>
          (case map_of spec ''volumes'' of
             Some (JList volumes) \<Rightarrow>
               let dropped = List.map_filter (token_volume glob) volumes;
                   kept = filter (\<lambda>v. token_volume glob v = None) volumes
               in if dropped = [] then (ob, False)
                  else (AList.update ''spec'' (JMap (foldl (drop_in_list dropped)
                      (put_list ''volumes'' kept spec)
                      [''containers'', ''initContainers'', ''ephemeralContainers''])) ob, True)
           | _ \<Rightarrow> (ob, False))
      | _ \<Rightarrow> (ob, False))"

section \<open>The pipeline\<close>

datatype sanitize_error = NilObject | NoKind | UnknownOperation string string

definition applyOp :: "obj \<Rightarrow> Op \<Rightarrow> string list \<Rightarrow> string + obj \<times> bool" where
  "applyOp ob op protected =
     (if op_Op op = OpRemove then
        (if isProtected (op_Path op) protected then Inr (ob, False) else Inr (removePath (op_Path op) ob))
      else if op_Op op = OpRemoveAnnotation then Inr (removeMapKey ob ''metadata.annotations'' (op_Path op))
      else if op_Op op = OpRemoveFinalizer then Inr (removeFinalizer ob (op_Path op))
      else if op_Op op = OpPruneEmptyMap then Inr (pruneEmptyMap ob (op_Path op))
      else if op_Op op = OpRemoveProjectedTokenVolumes then
        Inr (removeProjectedTokenVolumes ob (op_Path op))
      else if op_Op op = OpKeep \<or> op_Op op = OpKeepIfValue then Inr (ob, False)
      else Inl (op_Op op))"

definition protected_paths :: "obj \<Rightarrow> Rule list \<Rightarrow> string list" where
  "protected_paths ob applicable =
     foldl (\<lambda>protected op.
         if op_Op op = OpKeep then protected @ [op_Path op]
         else if op_Op op = OpKeepIfValue \<and> valueMatches ob (op_Path op) (op_Value op)
         then protected @ [op_Path op]
         else protected)
       [] (concat (map ru_Ops applicable))"

fun apply_ops :: "string list \<Rightarrow> Op list \<Rightarrow> obj \<Rightarrow> bool \<Rightarrow> string + obj \<times> bool" where
  "apply_ops protected [] ob changed = Inr (ob, changed)"
| "apply_ops protected (op # ops) ob changed =
     (case applyOp ob op protected of
        Inl e \<Rightarrow> Inl e
      | Inr (ob', c) \<Rightarrow> apply_ops protected ops ob' (changed \<or> c))"

record Result =
  Matched :: "string list"
  Mutated :: "string list"

fun apply_rules :: "string list \<Rightarrow> Rule list \<Rightarrow> obj \<Rightarrow> Result \<Rightarrow> sanitize_error + obj \<times> Result" where
  "apply_rules protected [] ob res = Inr (ob, res)"
| "apply_rules protected (r # rs) ob res =
     (let res = res\<lparr>Matched := Matched res @ [ru_ID r]\<rparr>
      in case apply_ops protected (ru_Ops r) ob False of
           Inl op \<Rightarrow> Inl (UnknownOperation (ru_ID r) op)
         | Inr (ob', changed) \<Rightarrow>
             apply_rules protected rs ob'
               (if changed then res\<lparr>Mutated := Mutated res @ [ru_ID r]\<rparr> else res))"

definition Sanitize :: "object_api \<Rightarrow> Ruleset \<Rightarrow> obj option \<Rightarrow> sanitize_error + obj \<times> Result" where
  "Sanitize api rs input =
     (case input of
        None \<Rightarrow> Inl NilObject
      | Some ob \<Rightarrow>
          (case oa_GroupKind api ob of (grp, kind) \<Rightarrow>
             if kind = [] then Inl NoKind
             else let applicable = filter (\<lambda>r. Rule_matches r grp kind) (rs_Rules rs)
                  in apply_rules (protected_paths ob applicable) applicable ob
                       \<lparr>Matched = [], Mutated = []\<rparr>))"

section \<open>Objects that are not captured\<close>

record ExcludeContext =
  ServicesWithSelector :: "string list"

fun has_controller :: "OwnerReference list \<Rightarrow> string \<Rightarrow> bool" where
  "has_controller [] ofKind = False"
| "has_controller (ref # refs) ofKind =
     (if or_Controller ref \<noteq> Some True then has_controller refs ofKind
      else if ofKind = [] \<or> or_Kind ref = ofKind then True
      else has_controller refs ofKind)"

definition hasControllerOwner :: "object_api \<Rightarrow> obj \<Rightarrow> string \<Rightarrow> bool" where
  "hasControllerOwner api ob ofKind = has_controller (oa_OwnerReferences api ob) ofKind"

definition excludeCertManagerTransient :: "object_api \<Rightarrow> obj \<Rightarrow> string \<Rightarrow> string \<Rightarrow> string option" where
  "excludeCertManagerTransient api ob grp kind =
     (if map_get (oa_Labels api ob) ''acme.cert-manager.io/http01-solver'' = ''true'' then Some ''E8''
      else if grp = ''acme.cert-manager.io'' \<and> (kind = ''Order'' \<or> kind = ''Challenge'')
         \<or> grp = ''cert-manager.io'' \<and> kind = ''CertificateRequest'' then Some ''E8''
      else None)"

definition excludeEphemeralKind :: "object_api \<Rightarrow> obj \<Rightarrow> string \<Rightarrow> string \<Rightarrow> string option" where
  "excludeEphemeralKind api ob grp kind =
     (if kind = ''Event'' \<and> (grp = [] \<or> grp = ''events.k8s.io'') then Some ''E5''
      else if kind = ''Lease'' \<and> grp = ''coordination.k8s.io'' then Some ''E6''
      else if kind = ''VolumeSnapshot'' \<and> grp = ''snapshot.storage.k8s.io'' then Some ''E9''
      else if grp = ''crystalbackup.io'' \<and> (kind = ''Backup'' \<or> kind = ''Restore'') then Some ''E10''
      else if grp = [] \<and> kind = ''ConfigMap'' \<and> oa_Name api ob = ''kube-root-ca.crt'' then Some ''E11''
      else if grp = [] \<and> kind = ''Secret'' then
        (if oa_NestedString api ob [''type''] = ''kubernetes.io/service-account-token'' then Some ''E7'' else None)
      else None)"

definition excludeRecreatedByAController ::
  "object_api \<Rightarrow> obj \<Rightarrow> string \<Rightarrow> string \<Rightarrow> ExcludeContext \<Rightarrow> string option" where
  "excludeRecreatedByAController api ob grp kind ctx =
     (if grp = [] \<and> kind = ''Pod'' then (if hasControllerOwner api ob [] then Some ''E1'' else None)
      else if grp = ''apps'' \<and> kind = ''ReplicaSet'' then
        (if hasControllerOwner api ob ''Deployment'' then Some ''E2'' else None)
      else if grp = ''batch'' \<and> kind = ''Job'' then
        (if hasControllerOwner api ob ''CronJob'' then Some ''E3'' else None)
      else if kind = ''EndpointSlice'' \<and> grp = ''discovery.k8s.io'' then
        (if map_get (oa_Labels api ob) ''endpointslice.kubernetes.io/managed-by'' =
             ''endpointslice-controller.k8s.io'' then Some ''E4'' else None)
      else if grp = [] \<and> kind = ''Endpoints'' then
        (if oa_Name api ob \<in> set (ServicesWithSelector ctx) then Some ''E4'' else None)
      else None)"

text \<open>The rule an object is excluded by, if any; the three checks in the code's order.\<close>

definition ShouldExclude :: "object_api \<Rightarrow> obj option \<Rightarrow> ExcludeContext \<Rightarrow> string option" where
  "ShouldExclude api input ctx =
     (case input of
        None \<Rightarrow> None
      | Some ob \<Rightarrow>
          (case oa_GroupKind api ob of (grp, kind) \<Rightarrow>
             (case excludeCertManagerTransient api ob grp kind of
                Some r \<Rightarrow> Some r
              | None \<Rightarrow>
                  (case excludeEphemeralKind api ob grp kind of
                     Some r \<Rightarrow> Some r
                   | None \<Rightarrow> excludeRecreatedByAController api ob grp kind ctx))))"

end
