(* ===== verification/Sanitizer_Safety.thy ===== *)
theory Sanitizer_Safety
  imports Manifest_Sanitizer
begin

text \<open>
  What the sanitizer promises: it only removes. The relation \<open>pruned\<close> says that one JSON tree
  is obtained from another by dropping map entries and list elements, at any depth; every operation
  of the pipeline respects it, changes nothing when it reports no change, and keeps protected
  paths present. A validated rule set makes the pipeline total.
\<close>

section \<open>Pruned trees\<close>

inductive pruned :: "json \<Rightarrow> json \<Rightarrow> bool" where
  pruned_refl: "pruned j j"
| pruned_list: "list_emb pruned xs ys \<Longrightarrow> pruned (JList xs) (JList ys)"
| pruned_map: "(\<And>k v. map_of m k = Some v \<Longrightarrow> \<exists>w. map_of m' k = Some w \<and> pruned v w) \<Longrightarrow>
    pruned (JMap m) (JMap m')"
monos list_emb_mono

declare pruned_refl [simp, intro]

inductive_cases pruned_JListE: "pruned (JList xs) c"
inductive_cases pruned_JMapE: "pruned (JMap m) c"

lemma list_emb_compose:
  "list_emb P ys zs \<Longrightarrow> list_emb (\<lambda>x y. P x y \<and> (\<forall>z. P y z \<longrightarrow> P x z)) xs ys \<Longrightarrow> list_emb P xs zs"
proof (induction ys zs arbitrary: xs rule: list_emb.induct)
  case (list_emb_Nil ys)
  then have "xs = []" by (rule list_emb_Nil2)
  then show ?case by simp
next
  case (list_emb_Cons xs ys y)
  then show ?case by (blast intro: list_emb.list_emb_Cons)
next
  case (list_emb_Cons2 y z ys zs)
  let ?Q = "\<lambda>x y. P x y \<and> (\<forall>z. P y z \<longrightarrow> P x z)"
  have "xs = [] \<or> list_emb ?Q xs ys \<or> (\<exists>x xs'. xs = x # xs' \<and> ?Q x y \<and> list_emb ?Q xs' ys)"
    using list_emb_Cons2.prems by (cases xs) (auto elim: list_emb.cases)
  then show ?case
    using list_emb_Cons2.IH list_emb_Cons2.hyps
    by (auto intro: list_emb.list_emb_Cons list_emb.list_emb_Cons2)
qed

lemma pruned_trans: "pruned a b \<Longrightarrow> pruned b c \<Longrightarrow> pruned a c"
proof (induction a b arbitrary: c rule: pruned.induct)
  case (pruned_list xs ys)
  have xy: "list_emb pruned xs ys"
    using pruned_list.IH by (rule list_emb_mono [rule_format, rotated]) simp
  have "c = JList ys \<or> (\<exists>zs. c = JList zs \<and> list_emb pruned ys zs)"
    using pruned_list.prems by (auto elim: pruned_JListE)
  then show ?case
    using xy pruned_list.IH list_emb_compose [of pruned ys _ xs] pruned.pruned_list by blast
next
  case (pruned_map m m')
  have xy: "pruned (JMap m) (JMap m')" by (rule pruned.pruned_map) (use pruned_map.IH in blast)
  have "c = JMap m' \<or> (\<exists>m''. c = JMap m'' \<and>
      (\<forall>k v. map_of m' k = Some v \<longrightarrow> (\<exists>w. map_of m'' k = Some w \<and> pruned v w)))"
    using pruned_map.prems by (auto elim: pruned_JMapE)
  then show ?case
  proof
    assume "\<exists>m''. c = JMap m'' \<and>
      (\<forall>k v. map_of m' k = Some v \<longrightarrow> (\<exists>w. map_of m'' k = Some w \<and> pruned v w))"
    then show ?thesis using pruned_map.IH by (metis pruned.pruned_map)
  qed (use xy in simp)
qed simp

abbreviation opruned :: "obj \<Rightarrow> obj \<Rightarrow> bool" where
  "opruned m m' \<equiv> pruned (JMap m) (JMap m')"

lemma opruned_delete: "opruned (AList.delete k m) m"
  by (rule pruned_map) (auto simp: delete_conv' split: if_splits)

lemma opruned_update:
  assumes "map_of m k = Some w" and "pruned v w"
  shows "opruned (AList.update k v m) m"
  using assms by (intro pruned_map) (auto simp: update_conv' split: if_splits)

lemma update_same: "map_of m k = Some v \<Longrightarrow> AList.update k v m = m"
  by (induction m) auto

lemma pruned_filter: "pruned (JList (filter P xs)) (JList xs)"
proof (rule pruned_list)
  have "list_emb (=) (filter P xs) xs" by (rule subseq_filter_left)
  then show "list_emb pruned (filter P xs) xs"
    by (rule list_emb_mono [rule_format, rotated]) simp
qed

lemma pruned_map_list:
  assumes "\<And>x. x \<in> set xs \<Longrightarrow> pruned (f x) x"
  shows "pruned (JList (map f xs)) (JList xs)"
proof (rule pruned_list)
  show "list_emb pruned (map f xs) xs" using assms by (induction xs) auto
qed

section \<open>Every operation only removes\<close>

text \<open>
  The contract of an update of one map: the result is pruned, and no change reported means no
  change. Walking to the map preserves it.
\<close>

locale parent_removal =
  fixes f :: "string \<Rightarrow> obj \<Rightarrow> obj \<times> bool"
  assumes removes: "opruned (fst (f k ob)) ob"
    and honest: "\<not> snd (f k ob) \<Longrightarrow> fst (f k ob) = ob"
begin

lemma at_parent_removes: "opruned (fst (at_parent segs f ob)) ob"
proof (induction segs arbitrary: ob)
  case (Cons s ss)
  show ?case
  proof (cases "ss \<noteq> [] \<and> (\<exists>m. map_of ob s = Some (JMap m))")
    case True
    then obtain m t ts where m: "map_of ob s = Some (JMap m)" "ss = t # ts" by (auto simp: neq_Nil_conv)
    then show ?thesis using Cons.IH [of m] by (auto intro: opruned_update split: prod.splits)
  qed (use removes in \<open>cases ss; auto split: option.splits json.splits\<close>)
qed simp

lemma at_parent_honest: "\<not> snd (at_parent segs f ob) \<Longrightarrow> fst (at_parent segs f ob) = ob"
proof (induction segs arbitrary: ob)
  case (Cons s ss)
  show ?case
  proof (cases "ss \<noteq> [] \<and> (\<exists>m. map_of ob s = Some (JMap m))")
    case True
    then obtain m t ts where m: "map_of ob s = Some (JMap m)" "ss = t # ts" by (auto simp: neq_Nil_conv)
    then show ?thesis
      using Cons.IH [of m] Cons.prems by (auto simp: update_same split: prod.splits)
  qed (use honest Cons.prems in \<open>cases ss; auto split: option.splits json.splits\<close>)
qed simp

end

lemma opruned_put_list:
  "map_of m k = Some (JList xs) \<Longrightarrow> opruned (put_list k (filter P xs) m) m"
  by (simp add: put_list_def opruned_delete opruned_update [OF _ pruned_filter])

interpretation delete_key: parent_removal delete_key
  by unfold_locales (auto simp: delete_key_def opruned_delete split: if_splits)

interpretation map_key: parent_removal "drop_map_key k" for k
  by unfold_locales
    (auto simp: drop_map_key_def intro: opruned_update opruned_delete split: option.splits json.splits if_splits)

interpretation finalizer: parent_removal "drop_finalizer v" for v
  by unfold_locales
    (auto simp: drop_finalizer_def intro: opruned_put_list split: option.splits json.splits if_splits)

interpretation empty_map: parent_removal drop_empty_map
  by unfold_locales
    (auto simp: drop_empty_map_def opruned_delete split: option.splits json.splits if_splits)

lemma in_items_removal:
  assumes "\<And>m. opruned (fst (f m)) m" and "\<And>m. \<not> snd (f m) \<Longrightarrow> fst (f m) = m"
  shows "parent_removal (in_items f)"
proof
  let ?g = "\<lambda>it. case it of JMap m \<Rightarrow> (case f m of (m', c) \<Rightarrow> (JMap m', c)) | _ \<Rightarrow> (it, False)"
  have p: "pruned (fst (?g it)) it" for it
    using assms(1) by (auto split: json.splits prod.splits) (metis fst_conv)
  have h: "\<not> snd (?g it) \<Longrightarrow> fst (?g it) = it" for it
    using assms(2) by (auto split: json.splits prod.splits) (metis fst_conv snd_conv)
  show "opruned (fst (in_items f k ob)) ob" for k ob
    using p by (auto simp: in_items_def Let_def o_def split: option.splits json.splits
        intro!: opruned_update pruned_map_list)
  show "fst (in_items f k ob) = ob" if "\<not> snd (in_items f k ob)" for k ob
  proof (cases "\<exists>items. map_of ob k = Some (JList items)")
    case True
    then obtain items where i: "map_of ob k = Some (JList items)" by blast
    then have "\<forall>it \<in> set items. \<not> snd (?g it)"
      using that by (auto simp: in_items_def Let_def list_ex_iff)
    then have "map (fst \<circ> ?g) items = items" using h by (auto intro: map_idI)
    then show ?thesis using i by (simp add: in_items_def Let_def update_same)
  qed (auto simp: in_items_def split: option.splits json.splits)
qed

lemma removePath_removal:
  "opruned (fst (removePath dotted ob)) ob \<and> (\<not> snd (removePath dotted ob) \<longrightarrow> fst (removePath dotted ob) = ob)"
proof (induction dotted arbitrary: ob rule: length_induct)
  case (1 dotted)
  show ?case
  proof (cases "cut_brackets dotted")
    case None
    then show ?thesis
      using delete_key.at_parent_removes delete_key.at_parent_honest by (simp add: removePath.simps)
  next
    case (Some p)
    obtain arr after where p: "p = (arr, after)" by fastforce
    let ?rest = "TrimPrefix after ''.''"
    have "length ?rest < length dotted"
      using cut_brackets_shorter Some p TrimPrefix_le [of after "''.''"] by fastforce
    with 1 have IH: "opruned (fst (removePath ?rest m)) m"
      "\<not> snd (removePath ?rest m) \<Longrightarrow> fst (removePath ?rest m) = m" for m
      by blast+
    have "parent_removal (in_items (\<lambda>m. if ?rest = [] then (m, False) else removePath ?rest m))"
      by (rule in_items_removal) (use IH in \<open>auto split: if_splits\<close>)
    note r = parent_removal.at_parent_removes [OF this] parent_removal.at_parent_honest [OF this]
    show ?thesis using r Some p by (subst (1 2 3) removePath.simps) (simp add: Let_def)
  qed
qed

lemma drop_mounts_pruned: "pruned (drop_mounts dropped c) c"
  by (auto simp: drop_mounts_def intro: opruned_put_list split: json.splits option.splits)

lemma drop_in_list_pruned: "opruned (drop_in_list dropped spec k) spec"
  by (auto simp: drop_in_list_def intro!: opruned_update pruned_map_list drop_mounts_pruned
      split: option.splits json.splits)

lemma removeProjected_removal:
  "opruned (fst (removeProjectedTokenVolumes ob glob)) ob \<and>
   (\<not> snd (removeProjectedTokenVolumes ob glob) \<longrightarrow> fst (removeProjectedTokenVolumes ob glob) = ob)"
proof -
  have "opruned (foldl (drop_in_list d) (put_list ''volumes'' (filter P vs) spec) ks) spec"
    if "map_of spec ''volumes'' = Some (JList vs)" for d P vs spec ks
  proof (rule foldl_invariant)
    show "opruned (put_list ''volumes'' (filter P vs) spec) spec" using that by (rule opruned_put_list)
    show "opruned (drop_in_list d a k) spec" if "opruned a spec" for a k
      using drop_in_list_pruned that by (rule pruned_trans)
  qed
  then show ?thesis
    by (auto simp: removeProjectedTokenVolumes_def Let_def simp del: foldl.simps foldl_Cons
        intro!: opruned_update split: option.splits json.splits)
qed

definition removal_result :: "obj \<Rightarrow> obj \<times> bool \<Rightarrow> bool" where
  "removal_result ob r \<longleftrightarrow> opruned (fst r) ob \<and> (\<not> snd r \<longrightarrow> fst r = ob)"

lemma removal_results:
  "removal_result ob (removePath p ob)" "removal_result ob (removeProjectedTokenVolumes ob p)"
  "removal_result ob (removeMapKey ob d p)" "removal_result ob (removeFinalizer ob p)"
  "removal_result ob (pruneEmptyMap ob p)" "removal_result ob (ob, c)"
  using removePath_removal removeProjected_removal
  by (simp_all add: removal_result_def removeMapKey_def removeFinalizer_def pruneEmptyMap_def
      map_key.at_parent_removes map_key.at_parent_honest finalizer.at_parent_removes
      finalizer.at_parent_honest empty_map.at_parent_removes empty_map.at_parent_honest)

lemma applyOp_removal: "applyOp ob op protected = Inr r \<Longrightarrow> removal_result ob r"
  by (auto simp: applyOp_def removal_results split: if_splits)

lemma removal_result_trans:
  "removal_result ob (ob', c) \<Longrightarrow> removal_result ob' (ob'', d) \<Longrightarrow> removal_result ob (ob'', c \<or> d)"
  by (auto simp: removal_result_def intro: pruned_trans)

lemma apply_ops_removal:
  "removal_result o0 (ob, changed) \<Longrightarrow> apply_ops protected ops ob changed = Inr r \<Longrightarrow> removal_result o0 r"
proof (induction ops arbitrary: ob changed)
  case (Cons op ops)
  then obtain ob' c where a: "applyOp ob op protected = Inr (ob', c)"
    "apply_ops protected ops ob' (changed \<or> c) = Inr r"
    by (auto split: sum.splits)
  with Cons show ?case using applyOp_removal [OF a(1)] removal_result_trans by blast
qed simp

lemma apply_rules_removal:
  assumes "apply_rules protected rules ob res = Inr (ob', res')"
  shows "opruned ob' ob \<and> Matched res' = Matched res @ map ru_ID rules \<and>
    (\<exists>ms. subseq ms (map ru_ID rules) \<and> Mutated res' = Mutated res @ ms \<and> (ms = [] \<longrightarrow> ob' = ob))"
  using assms
proof (induction rules arbitrary: ob res)
  case (Cons r rs)
  from Cons.prems obtain o1 ch where a: "apply_ops protected (ru_Ops r) ob False = Inr (o1, ch)"
    "apply_rules protected rs o1 (if ch then res\<lparr>Matched := Matched res @ [ru_ID r],
       Mutated := Mutated res @ [ru_ID r]\<rparr> else res\<lparr>Matched := Matched res @ [ru_ID r]\<rparr>) = Inr (ob', res')"
    by (auto simp: Let_def cong: if_cong split: sum.splits prod.splits)
  have r1: "removal_result ob (o1, ch)"
    using apply_ops_removal [OF removal_results(6) a(1)] .
  from Cons.IH [OF a(2)] obtain ms where IH: "opruned ob' o1"
    "Matched res' = Matched res @ ru_ID r # map ru_ID rs" "subseq ms (map ru_ID rs)"
    "Mutated res' = (if ch then Mutated res @ [ru_ID r] else Mutated res) @ ms" "ms = [] \<longrightarrow> ob' = o1"
    by (auto split: if_splits)
  let ?ms = "(if ch then [ru_ID r] else []) @ ms"
  have "subseq ?ms (map ru_ID (r # rs))" using IH(3) by auto
  moreover have "Mutated res' = Mutated res @ ?ms" "?ms = [] \<longrightarrow> ob' = ob"
    using IH(4,5) r1 by (auto simp: removal_result_def split: if_splits)
  moreover have "opruned ob' ob" using IH(1) r1 pruned_trans by (auto simp: removal_result_def)
  ultimately show ?case using IH(2) by (metis append_Cons append_assoc list.simps(9) append_Nil)
qed simp

text \<open>
  C36: sanitising only removes. Whatever the rule set, the sanitised manifest is the captured one
  with map entries and list elements dropped: no value is changed, added or moved. The result
  names the rules that matched and, among them, those that changed something; when it names none,
  the manifest is returned as it was.
\<close>

theorem sanitize_only_removes:
  assumes "Sanitize api rs (Some ob) = Inr (ob', res)"
  shows "pruned (JMap ob') (JMap ob) \<and> subseq (Mutated res) (Matched res) \<and>
    subseq (Matched res) (map ru_ID (rs_Rules rs)) \<and> (Mutated res = [] \<longrightarrow> ob' = ob)"
proof -
  obtain g k where gk: "oa_GroupKind api ob = (g, k)" by fastforce
  let ?ap = "filter (\<lambda>r. Rule_matches r g k) (rs_Rules rs)"
  have "apply_rules (protected_paths ob ?ap) ?ap ob \<lparr>Matched = [], Mutated = []\<rparr> = Inr (ob', res)"
    using assms gk by (auto simp: Sanitize_def Let_def split: if_splits)
  from apply_rules_removal [OF this] show ?thesis
    by (auto intro: subseq_map)
qed

definition sample_object :: obj where
  "sample_object = [(''kind'', JStr ''Pod''), (''metadata'', JMap [(''name'', JStr ''p''), (''uid'', JStr ''1'')]),
     (''status'', JMap [])]"

definition sample_rules :: Ruleset where
  "sample_rules = \<lparr>rs_Version = ''1'', rs_Rules = [\<lparr>ru_ID = ''G1'', ru_Description = ''server fields'',
     ru_Match = \<lparr>ma_Group = None, ma_Kind = ''*''\<rparr>,
     ru_Ops = [\<lparr>op_Op = OpRemove, op_Path = ''metadata.uid'', op_Value = []\<rparr>,
       \<lparr>op_Op = OpPruneEmptyMap, op_Path = ''status'', op_Value = []\<rparr>]\<rparr>]\<rparr>"

definition sample_api :: object_api where
  "sample_api = \<lparr>oa_GroupKind = (\<lambda>ob. ([], string_field ob ''kind'')), oa_Name = (\<lambda>_. []),
     oa_Labels = (\<lambda>_. Map.empty), oa_OwnerReferences = (\<lambda>_. []), oa_NestedString = (\<lambda>_ _. [])\<rparr>"

lemma sample_sanitized:
  "Sanitize sample_api sample_rules (Some sample_object) =
     Inr ([(''kind'', JStr ''Pod''), (''metadata'', JMap [(''name'', JStr ''p'')])],
       \<lparr>Matched = [''G1''], Mutated = [''G1'']\<rparr>)"
  by (simp add: Sanitize_def sample_api_def sample_object_def sample_rules_def string_field_def
      Rule_matches_def protected_paths_def applyOp_def isProtected_def removePath.simps delete_key_def
      pruneEmptyMap_def drop_empty_map_def)

theorem sanitize_only_removes_witness:
  "pruned (JMap [(''kind'', JStr ''Pod''), (''metadata'', JMap [(''name'', JStr ''p'')])]) (JMap sample_object)"
  using sanitize_only_removes [OF sample_sanitized] by blast

section \<open>Protected paths\<close>

fun present :: "string list \<Rightarrow> obj \<Rightarrow> bool" where
  "present [] ob = True"
| "present [k] ob = (map_of ob k \<noteq> None)"
| "present (s # t # ss) ob = (case map_of ob s of Some (JMap m) \<Rightarrow> present (t # ss) m | _ \<Rightarrow> False)"

lemma present_update:
  assumes "present p ob" and "map_of ob s = Some (JMap m)" and "\<And>p'. p = s # p' \<Longrightarrow> present p' m'"
  shows "present p (AList.update s (JMap m') ob)"
  using assms by (cases p; cases "tl p") (auto simp: update_conv' split: option.splits)

lemma at_parent_present:
  assumes f: "\<And>k m p. present p m \<Longrightarrow> ok [k] p \<Longrightarrow> present p (fst (f k m))"
    and ok: "\<And>s t ss p. ok (s # t # ss) (s # p) \<Longrightarrow> ok (t # ss) p"
  shows "present p ob \<Longrightarrow> ok segs p \<Longrightarrow> present p (fst (at_parent segs f ob))"
proof (induction segs arbitrary: ob p)
  case (Cons s ss)
  show ?case
  proof (cases "ss \<noteq> [] \<and> (\<exists>m. map_of ob s = Some (JMap m))")
    case True
    then obtain m t ts where m: "map_of ob s = Some (JMap m)" "ss = t # ts" by (auto simp: neq_Nil_conv)
    have "present p' (fst (at_parent ss f m))" if p': "p = s # p'" for p'
    proof (rule Cons.IH)
      show "present p' m" using Cons.prems(1) m(1) p' by (cases p') auto
      show "ok ss p'" using Cons.prems(2) m(2) p' ok by blast
    qed
    then show ?thesis
      using m Cons.prems(1) by (auto intro!: present_update split: prod.splits)
  next
    case False
    then show ?thesis
      using f [OF Cons.prems(1)] Cons.prems by (cases ss) (auto split: option.splits json.splits)
  qed
qed simp

lemma delete_key_present: "present p m \<Longrightarrow> \<not> prefix [k] p \<Longrightarrow> present p (fst (delete_key k m))"
  by (cases p; cases "tl p") (auto simp: delete_key_def delete_conv')

lemma in_items_present: "present p m \<Longrightarrow> present p (fst (in_items g k m))"
  by (cases p; cases "tl p")
    (auto simp: in_items_def Let_def update_conv' split: option.splits json.splits)

lemma Split_prefix:
  assumes "prefix (Split q c) (Split p c)"
  shows "p = q \<or> HasPrefix p (q @ [c])"
proof -
  obtain ys where ys: "Split p c = Split q c @ ys" using assms by (auto simp: prefix_def)
  have p: "p = Join (Split q c @ ys) [c]" by (metis Join_Split ys)
  show ?thesis
  proof (cases "ys = []")
    case True
    then show ?thesis using p by (simp add: Join_Split)
  next
    case False
    then have "p = q @ [c] @ Join ys [c]" using p by (simp add: Join_append Join_Split)
    then show ?thesis using HasPrefix_append [of "q @ [c]"] by simp
  qed
qed

lemma removePath_present:
  assumes "present p ob" and "\<not> prefix (Split q (CHR ''.'')) p"
  shows "present p (fst (removePath q ob))"
proof (cases "cut_brackets q")
  case None
  then show ?thesis
    using at_parent_present [of "\<lambda>q p. \<not> prefix q p" delete_key p ob] assms delete_key_present
    by (simp add: removePath.simps)
next
  case (Some x)
  then show ?thesis
    using at_parent_present [of "\<lambda>_ _. True" "in_items _" p ob] assms(1) in_items_present
    by (cases x) (simp add: removePath.simps Let_def)
qed

text \<open>
  A kept path survives every remove. Whichever remove operation of the pipeline runs, a path
  that a keep rule protects and that is present in the manifest is still present
  afterwards: a remove of the path itself or of anything above it is skipped, and a remove of
  anything else cannot take it away.
\<close>

theorem kept_paths_survive_removes:
  assumes "p \<in> set protected" and "op_Op op = OpRemove"
    and "applyOp ob op protected = Inr (ob', changed)" and "present (Split p (CHR ''.'')) ob"
  shows "present (Split p (CHR ''.'')) ob'"
proof (cases "isProtected (op_Path op) protected")
  case True
  then show ?thesis using assms by (simp add: applyOp_def)
next
  case False
  then have "p \<noteq> op_Path op" "\<not> HasPrefix p (op_Path op @ ''.'')"
    using assms(1) by (auto simp: isProtected_def list_ex_iff split: if_splits)
  then have "\<not> prefix (Split (op_Path op) (CHR ''.'')) (Split p (CHR ''.''))"
    using Split_prefix by blast
  from removePath_present [OF assms(4) this] show ?thesis
    using assms(2,3) False by (simp add: applyOp_def)
qed

theorem kept_paths_survive_removes_witness:
  "\<exists>ob' c. applyOp sample_object \<lparr>op_Op = OpRemove, op_Path = ''metadata'', op_Value = []\<rparr> [''metadata.name''] =
     Inr (ob', c) \<and> present [''metadata'', ''name''] ob'"
proof -
  let ?op = "\<lparr>op_Op = OpRemove, op_Path = ''metadata'', op_Value = []\<rparr>"
  have a: "applyOp sample_object ?op [''metadata.name''] = Inr (sample_object, False)"
    by (simp add: applyOp_def isProtected_def)
  have "present (Split ''metadata.name'' (CHR ''.'')) sample_object" by (simp add: sample_object_def)
  from kept_paths_survive_removes [OF _ _ a this] have "present [''metadata'', ''name''] sample_object"
    by simp
  then show ?thesis using a by blast
qed

text \<open>
  A keep does not protect what lies below the kept path: a remove of a descendant is carried out.
\<close>

lemma keep_does_not_cover_descendants:
  "applyOp [(''spec'', JMap [(''a'', JNum 1)])] \<lparr>op_Op = OpRemove, op_Path = ''spec.a'', op_Value = []\<rparr> [''spec''] =
     Inr ([(''spec'', JMap [])], True)"
  by (simp add: applyOp_def isProtected_def removePath.simps delete_key_def)

text \<open>
  A keepIfValue looks for its value among all entries of a list, not only in a single entry.
\<close>

lemma keep_if_value_any_entry:
  "valueMatches [(''ips'', JList [JStr ''None'', JStr ''10.0.0.1''])] ''ips'' ''None''"
  by (simp add: valueMatches_def walkParent_def)

section \<open>Validated rule sets\<close>

definition known_op :: "Op \<Rightarrow> bool" where
  "known_op op \<longleftrightarrow> mutatingOps (op_Op op) \<or> op_Op op = OpKeep \<or> op_Op op = OpKeepIfValue"

lemma validate_ops_known: "validate_ops rid ops = None \<Longrightarrow> list_all known_op ops"
  by (induction ops) (auto simp: known_op_def split: if_splits)

lemma validate_rules_ok:
  "validate_rules i seen prev rs = None \<Longrightarrow>
     distinct (map ru_ID rs) \<and> set (map ru_ID rs) \<inter> set seen = {} \<and>
     list_all (\<lambda>r. list_all known_op (ru_Ops r)) rs \<and>
     (\<forall>p. prev = Some p \<longrightarrow> \<not> Rule_Generic p \<longrightarrow> list_all (\<lambda>r. \<not> Rule_Generic r) rs) \<and>
     sorted_wrt (\<lambda>a b. Rule_Generic b \<longrightarrow> Rule_Generic a) rs"
proof (induction i seen prev rs rule: validate_rules.induct)
  case (2 i seen prev r rs)
  from "2.prems" have ops: "validate_ops (ru_ID r) (ru_Ops r) = None"
    and rec: "validate_rules (Suc i) (ru_ID r # seen) (Some r) rs = None"
    and new: "ru_ID r \<notin> set seen"
    and gen: "\<not> (Rule_Generic r \<and> (case prev of None \<Rightarrow> False | Some p \<Rightarrow> \<not> Rule_Generic p))"
    by (auto split: if_splits option.splits)
  have IH: "distinct (map ru_ID rs) \<and> set (map ru_ID rs) \<inter> set (ru_ID r # seen) = {} \<and>
     list_all (\<lambda>r. list_all known_op (ru_Ops r)) rs \<and>
     (\<forall>p. Some r = Some p \<longrightarrow> \<not> Rule_Generic p \<longrightarrow> list_all (\<lambda>r. \<not> Rule_Generic r) rs) \<and>
     sorted_wrt (\<lambda>a b. Rule_Generic b \<longrightarrow> Rule_Generic a) rs"
    using "2.IH" "2.prems" rec by (auto split: if_splits option.splits)
  then show ?case
    using validate_ops_known [OF ops] new gen by (auto simp: list_all_iff)
qed simp

lemma apply_ops_total: "list_all known_op ops \<Longrightarrow> \<exists>r. apply_ops protected ops ob changed = Inr r"
proof (induction ops arbitrary: ob changed)
  case (Cons op ops)
  have "\<exists>r. applyOp ob op protected = Inr r"
    using Cons.prems by (auto simp: applyOp_def known_op_def mutatingOps_def)
  with Cons show ?case by (auto split: prod.splits)
qed simp

lemma apply_rules_total:
  "list_all (\<lambda>r. list_all known_op (ru_Ops r)) rs \<Longrightarrow> \<exists>r. apply_rules protected rs ob res = Inr r"
proof (induction rs arbitrary: ob res)
  case (Cons r rs)
  have "list_all known_op (ru_Ops r)" using Cons.prems by simp
  then obtain x where "apply_ops protected (ru_Ops r) ob False = Inr x"
    using apply_ops_total by blast
  with Cons show ?case by (cases x) (auto simp: Let_def)
qed simp

text \<open>
  A rule set that passes validation is usable. Its rule ids are distinct, no generic rule comes
  after a rule for one kind, and with it the sanitizer fails on no object that has a kind.
\<close>

theorem validated_ruleset_is_usable:
  assumes "LoadRuleset decoded = Inr rs"
  shows "distinct (map ru_ID (rs_Rules rs)) \<and>
    sorted_wrt (\<lambda>a b. Rule_Generic b \<longrightarrow> Rule_Generic a) (rs_Rules rs) \<and>
    (\<forall>ob. snd (oa_GroupKind api ob) \<noteq> [] \<longrightarrow> (\<exists>r. Sanitize api rs (Some ob) = Inr r))"
proof -
  have "validate_rules 0 [] None (rs_Rules rs) = None"
    using assms by (auto simp: LoadRuleset_def validate_def split: option.splits if_splits)
  note v = validate_rules_ok [OF this]
  have "\<exists>r. Sanitize api rs (Some ob) = Inr r" if "snd (oa_GroupKind api ob) \<noteq> []" for ob
  proof -
    obtain g k where gk: "oa_GroupKind api ob = (g, k)" by fastforce
    let ?ap = "filter (\<lambda>r. Rule_matches r g k) (rs_Rules rs)"
    have "list_all (\<lambda>r. list_all known_op (ru_Ops r)) ?ap" using v by (auto simp: list_all_iff)
    then have "\<exists>r. apply_rules (protected_paths ob ?ap) ?ap ob \<lparr>Matched = [], Mutated = []\<rparr> = Inr r"
      by (rule apply_rules_total)
    then show ?thesis using gk that by (simp add: Sanitize_def Let_def)
  qed
  then show ?thesis using v by blast
qed

theorem validated_ruleset_is_usable_witness:
  "\<exists>r. Sanitize sample_api sample_rules (Some [(''kind'', JStr ''Pod'')]) = Inr r"
proof -
  have "LoadRuleset (Some sample_rules) = Inr sample_rules"
    by (simp add: LoadRuleset_def validate_def sample_rules_def TrimSpace_def Trim_def TrimLeft_def
        TrimRight_def ascii_space_def mutatingOps_def)
  from validated_ruleset_is_usable [OF this, of sample_api] show ?thesis
    by (simp add: sample_api_def string_field_def)
qed

end
