(* ===== verification/Kube_Objects.thy ===== *)
theory Kube_Objects
  imports Run_Abandonment
begin

text \<open>
  The Kubernetes objects the backup controller reads besides its own resources: pods with the
  container states it judges, label selectors, and the small helpers over them
  (\<^verbatim>\<open>jobConditionTrue\<close>, \<^verbatim>\<open>truncate\<close>) that several controllers share. A pod carries exactly the
  fields the code looks at; a time that may be unset is an option.
\<close>

abbreviation PodRunning :: string where "PodRunning \<equiv> ''Running''"
abbreviation PodSucceeded :: string where "PodSucceeded \<equiv> ''Succeeded''"
abbreviation PodFailed :: string where "PodFailed \<equiv> ''Failed''"
abbreviation LabelBackup :: string where "LabelBackup \<equiv> ''crystalbackup.io/backup''"
abbreviation LabelClusterBackup :: string where "LabelClusterBackup \<equiv> ''crystalbackup.io/cluster-backup''"
abbreviation LabelNamespace :: string where "LabelNamespace \<equiv> ''crystalbackup.io/namespace''"
abbreviation LabelTenant :: string where "LabelTenant \<equiv> ''crystalbackup.io/tenant''"

record Terminated =
  t_ExitCode :: i32
  t_Reason :: string
  t_Message :: string

record ContainerStatus =
  cst_Running :: bool
  cst_Terminated :: "Terminated option"
  cst_LastTerminated :: "Terminated option"

record Pod =
  pod_Namespace :: string
  pod_Name :: string
  pod_Labels :: string_map
  pod_Annotations :: string_map
  pod_DeletionTimestamp :: "instant option"
  pod_NodeName :: string
  pod_Containers :: "string list"
  pod_Volumes :: "string option list"
  pod_Phase :: string
  pod_Reason :: string
  pod_Message :: string
  pod_ContainerStatuses :: "ContainerStatus list"

record 'expr LabelSelector =
  lsel_MatchLabels :: "(string \<times> string) list"
  lsel_MatchExpressions :: "'expr list"

text \<open>
  Go errors as values: an API error, a fresh message, a wrapped cause (the \<^verbatim>\<open>%w\<close> of
  \<^verbatim>\<open>fmt.Errorf\<close> at the end of its message) and \<^verbatim>\<open>errors.Join\<close>. The text of an API error comes
  from the server.
\<close>

datatype go_error = APIError api_error | ErrorNew string | Wrap string go_error | JoinErrors "go_error list"

fun Error :: "(api_error \<Rightarrow> string) \<Rightarrow> go_error \<Rightarrow> string" where
  "Error show_api (APIError e) = show_api e"
| "Error show_api (ErrorNew msg) = msg"
| "Error show_api (Wrap msg cause) = msg @ '': '' @ Error show_api cause"
| "Error show_api (JoinErrors es) = Join (map (Error show_api) es) [CHR 10]"

definition errors_Join :: "go_error option list \<Rightarrow> go_error option" where
  "errors_Join es =
     (let errs = List.map_filter (\<lambda>e. e) es in if errs = [] then None else Some (JoinErrors errs))"

text \<open>What a reconcile pass asks of the work queue.\<close>

datatype ctrl_result = NoRequeue | Requeue | RequeueAfter duration

definition truncate_string :: "string \<Rightarrow> nat \<Rightarrow> string" where
  "truncate_string s limit =
     (if length s \<le> limit then s
      else if limit \<le> 3 then take limit s
      else take (limit - 3) s @ ''...'')"

fun job_condition_true :: "JobCondition list \<Rightarrow> string \<Rightarrow> bool" where
  "job_condition_true [] condType = False"
| "job_condition_true (c # cs) condType =
     (if jc_Type c = condType \<and> jc_Status c = ConditionTrue then True else job_condition_true cs condType)"

definition jobConditionTrue :: "Job \<Rightarrow> string \<Rightarrow> bool" where
  "jobConditionTrue job condType = job_condition_true (j_Conditions job) condType"

text \<open>
  Conditions are written through apimachinery's helper, an argument of the model here; the
  record handed to it leaves the transition time at Go's zero time.
\<close>

definition SetCondition ::
  "(Condition \<Rightarrow> Condition list \<Rightarrow> Condition list) \<Rightarrow> string \<Rightarrow> string \<Rightarrow> string \<Rightarrow> string \<Rightarrow> int
   \<Rightarrow> Condition list \<Rightarrow> Condition list" where
  "SetCondition set_condition condType status reason message observedGeneration =
     set_condition \<lparr>cond_Type = condType, cond_Status = status, cond_Reason = reason,
       cond_Message = message, cond_ObservedGeneration = observedGeneration,
       cond_LastTransitionTime = - seconds 62135596800\<rparr>"

lemma truncate_string_length: "length (truncate_string s limit) \<le> limit"
  by (auto simp: truncate_string_def)

lemma jobConditionTrue_iff:
  "jobConditionTrue job t \<longleftrightarrow> (\<exists>c \<in> set (j_Conditions job). jc_Type c = t \<and> jc_Status c = ConditionTrue)"
proof -
  have "job_condition_true cs t \<longleftrightarrow> (\<exists>c \<in> set cs. jc_Type c = t \<and> jc_Status c = ConditionTrue)" for cs
    by (induction cs) auto
  then show ?thesis by (simp add: jobConditionTrue_def)
qed

end
