(* ===== verification/Repo_Keys.thy ===== *)
theory Repo_Keys
  imports Kube_Objects
begin

text \<open>
  The password of a repository (\<^verbatim>\<open>internal/keys\<close>, \<^verbatim>\<open>internal/client/secrets\<close>): the platform
  key wrapped under the cluster key, and the tenant's own password. The age library and the API
  server are not part of the repository: wrapping, unwrapping, parsing an identity, reading random
  bytes, and the two calls on Secrets are arguments. A call returns the world after it, in which
  other reconciles may have written too, so one definition covers every interleaving of concurrent callers.
\<close>

section \<open>Secrets\<close>

type_synonym secret_data = "string \<rightharpoonup> string"

record Secret =
  sec_Namespace :: string
  sec_Name :: string
  sec_Labels :: string_map
  sec_Data :: secret_data

definition GetValue ::
  "(string \<Rightarrow> string \<Rightarrow> 'w \<Rightarrow> api_error + secret_data) \<Rightarrow> string \<Rightarrow> string \<Rightarrow> string \<Rightarrow> 'w \<Rightarrow> go_error + string" where
  "GetValue get namespace name key w =
     (case get namespace name w of
        Inl err \<Rightarrow> Inl (APIError err)
      | Inr data \<Rightarrow>
          (case data key of
             None \<Rightarrow> Inl (ErrorNew (''secret '' @ namespace @ ''/'' @ name @ '': key not found in secret: '' @
                 [CHR 34] @ key @ [CHR 34]))
           | Some v \<Rightarrow> Inr v))"

section \<open>Entropy\<close>

definition dekEntropyBytes :: nat where "dekEntropyBytes = 32"

definition b64_alphabet :: string where
  "b64_alphabet = ''ABCDEFGHIJKLMNOPQRSTUVWXYZabcdefghijklmnopqrstuvwxyz0123456789+/''"

definition b64_char :: "nat \<Rightarrow> char" where
  "b64_char n = b64_alphabet ! n"

abbreviation byte :: "char \<Rightarrow> nat" where "byte c \<equiv> of_char c"

fun b64_encode :: "string \<Rightarrow> string" where
  "b64_encode [] = []"
| "b64_encode [a] = [b64_char (byte a div 4), b64_char (byte a mod 4 * 16), CHR ''='', CHR ''='']"
| "b64_encode [a, b] =
     [b64_char (byte a div 4), b64_char (byte a mod 4 * 16 + byte b div 16), b64_char (byte b mod 16 * 4), CHR ''='']"
| "b64_encode (a # b # c # s) =
     b64_char (byte a div 4) # b64_char (byte a mod 4 * 16 + byte b div 16) #
     b64_char (byte b mod 16 * 4 + byte c div 64) # b64_char (byte c mod 64) # b64_encode s"

section \<open>The wrapper and the API\<close>

record ('w, 'identity) key_env =
  ke_ParseIdentities :: "string \<Rightarrow> go_error + 'identity option list"
  ke_Encrypt :: "'identity \<Rightarrow> string \<Rightarrow> 'w \<Rightarrow> (go_error + string) \<times> 'w"
  ke_Decrypt :: "'identity \<Rightarrow> string \<Rightarrow> go_error + string"
  ke_random :: "nat \<Rightarrow> 'w \<Rightarrow> (go_error + string) \<times> 'w"
  ke_get :: "string \<Rightarrow> string \<Rightarrow> 'w \<Rightarrow> (api_error + secret_data) \<times> 'w"
  ke_create :: "Secret \<Rightarrow> 'w \<Rightarrow> api_error option \<times> 'w"

definition NewAgeWrapper :: "('w, 'identity, 'z) key_env_scheme \<Rightarrow> string \<Rightarrow> go_error + 'identity" where
  "NewAgeWrapper e kekIdentity =
     (let trimmed = TrimSpace kekIdentity
      in if trimmed = [] then Inl (ErrorNew ''keys: empty cluster KEK identity'')
         else case ke_ParseIdentities e trimmed of
                Inl err \<Rightarrow> Inl (Wrap ''keys: parse cluster KEK identity'' err)
              | Inr identities \<Rightarrow>
                  if length identities \<noteq> 1
                  then Inl (ErrorNew (''keys: cluster KEK must hold exactly one age identity, found '' @
                         FormatInt (int (length identities))))
                  else case hd identities of
                         None \<Rightarrow> Inl (ErrorNew ''keys: cluster KEK is not an age X25519 identity (AGE-SECRET-KEY-1...)'')
                       | Some identity \<Rightarrow> Inr identity)"

definition GenerateDEK :: "('w, 'identity, 'z) key_env_scheme \<Rightarrow> 'w \<Rightarrow> (go_error + string) \<times> 'w" where
  "GenerateDEK e w =
     (case ke_random e dekEntropyBytes w of
        (Inl err, w) \<Rightarrow>
          (Inl (Wrap (''keys: read '' @ FormatInt (int dekEntropyBytes) @ '' bytes of DEK entropy'') err), w)
      | (Inr raw, w) \<Rightarrow> (Inr (b64_encode raw), w))"

section \<open>The platform key\<close>

abbreviation dekSecretNamePrefix :: string where "dekSecretNamePrefix \<equiv> ''crystal-dek-''"
abbreviation DEKSecretKey :: string where "DEKSecretKey \<equiv> ''dek''"
abbreviation labelAppValue :: string where "labelAppValue \<equiv> ''crystal-backup''"

definition key_labels :: string_map where
  "key_labels = [''app.kubernetes.io/managed-by'' \<mapsto> labelAppValue, ''app.kubernetes.io/name'' \<mapsto> labelAppValue]"

definition DEKSecretName :: "string \<Rightarrow> string" where
  "DEKSecretName locationName = dekSecretNamePrefix @ locationName"

record 'identity DEKManager =
  dm_wrapper :: 'identity
  dm_operatorNamespace :: string

definition data_value :: "secret_data \<Rightarrow> string \<Rightarrow> string option" where
  "data_value data key = (case data key of None \<Rightarrow> None | Some v \<Rightarrow> if v = [] then None else Some v)"

definition unwrapDEK ::
  "('w, 'identity, 'z) key_env_scheme \<Rightarrow> 'identity DEKManager \<Rightarrow> secret_data \<Rightarrow> string \<Rightarrow> go_error + string" where
  "unwrapDEK e m data name =
     (case data_value data DEKSecretKey of
        None \<Rightarrow> Inl (ErrorNew (''keys: DEK secret '' @ name @ '' is missing data key '' @ [CHR 34] @ DEKSecretKey @ [CHR 34]))
      | Some wrapped \<Rightarrow>
          (case ke_Decrypt e (dm_wrapper m) wrapped of
             Inl err \<Rightarrow> Inl (Wrap (''keys: unwrap DEK from secret '' @ name) err)
           | Inr pt \<Rightarrow> Inr pt))"

text \<open>A freshly generated value, created once; when another writer was first, its value is read back.\<close>

definition create_or_read ::
  "('w, 'identity, 'z) key_env_scheme \<Rightarrow> string \<Rightarrow> string \<Rightarrow> string \<Rightarrow> secret_data \<Rightarrow> string
   \<Rightarrow> (secret_data \<Rightarrow> go_error + string) \<Rightarrow> 'w \<Rightarrow> (go_error + string) \<times> 'w" where
  "create_or_read e what namespace name data fresh read w =
     (case ke_create e \<lparr>sec_Namespace = namespace, sec_Name = name, sec_Labels = key_labels, sec_Data = data\<rparr> w of
        (None, w) \<Rightarrow> (Inr fresh, w)
      | (Some err, w) \<Rightarrow>
          if err = AlreadyExists then
            (case ke_get e namespace name w of
               (Inl getErr, w) \<Rightarrow>
                 (Inl (Wrap (''keys: re-get '' @ what @ '' secret '' @ namespace @ ''/'' @ name @ '' after create race'')
                    (APIError getErr)), w)
             | (Inr winner, w) \<Rightarrow> (read winner, w))
          else (Inl (Wrap (''keys: create '' @ what @ '' secret '' @ namespace @ ''/'' @ name) (APIError err)), w))"

definition EnsureDEK ::
  "('w, 'identity, 'z) key_env_scheme \<Rightarrow> 'identity DEKManager \<Rightarrow> string \<Rightarrow> 'w \<Rightarrow> (go_error + string) \<times> 'w" where
  "EnsureDEK e m locationName w =
     (let name = DEKSecretName locationName; ns = dm_operatorNamespace m
      in case ke_get e ns name w of
           (Inr existing, w) \<Rightarrow> (unwrapDEK e m existing name, w)
         | (Inl err, w) \<Rightarrow>
             if err \<noteq> NotFound then
               (Inl (Wrap (''keys: get DEK secret '' @ ns @ ''/'' @ name) (APIError err)), w)
             else (case GenerateDEK e w of
                     (Inl err, w) \<Rightarrow> (Inl err, w)
                   | (Inr dek, w) \<Rightarrow>
                       (case ke_Encrypt e (dm_wrapper m) dek w of
                          (Inl err, w) \<Rightarrow> (Inl (Wrap (''keys: wrap DEK for secret '' @ name) err), w)
                        | (Inr wrapped, w) \<Rightarrow>
                            create_or_read e ''DEK'' ns name [DEKSecretKey \<mapsto> wrapped] dek
                              (\<lambda>winner. unwrapDEK e m winner name) w)))"

definition WrappedDEK ::
  "('w, 'identity, 'z) key_env_scheme \<Rightarrow> 'identity DEKManager \<Rightarrow> string \<Rightarrow> 'w \<Rightarrow> (go_error + string option) \<times> 'w" where
  "WrappedDEK e m locationName w =
     (let name = DEKSecretName locationName; ns = dm_operatorNamespace m
      in case ke_get e ns name w of
           (Inl err, w) \<Rightarrow>
             if err = NotFound then (Inr None, w)
             else (Inl (Wrap (''keys: get DEK secret '' @ ns @ ''/'' @ name) (APIError err)), w)
         | (Inr data, w) \<Rightarrow>
             (case data_value data DEKSecretKey of
                None \<Rightarrow> (Inl (ErrorNew (''keys: DEK secret '' @ name @ '' is missing data key '' @ [CHR 34] @ DEKSecretKey @ [CHR 34])), w)
              | Some wrapped \<Rightarrow> (Inr (Some wrapped), w)))"

definition AdoptWrappedDEK ::
  "('w, 'identity, 'z) key_env_scheme \<Rightarrow> 'identity DEKManager \<Rightarrow> string \<Rightarrow> string \<Rightarrow> 'w \<Rightarrow> go_error option \<times> 'w" where
  "AdoptWrappedDEK e m locationName wrapped w =
     (let name = DEKSecretName locationName; ns = dm_operatorNamespace m
      in case ke_Decrypt e (dm_wrapper m) wrapped of
           Inl err \<Rightarrow>
             (Some (Wrap (''keys: recovered wrapped DEK for '' @ name @ '' does not unwrap under the current KEK'') err), w)
         | Inr _ \<Rightarrow>
             (case ke_create e \<lparr>sec_Namespace = ns, sec_Name = name, sec_Labels = key_labels,
                      sec_Data = [DEKSecretKey \<mapsto> wrapped]\<rparr> w of
                (None, w) \<Rightarrow> (None, w)
              | (Some err, w) \<Rightarrow>
                  if err = AlreadyExists then
                    (case WrappedDEK e m locationName w of
                       (Inl getErr, w) \<Rightarrow> (Some getErr, w)
                     | (Inr existing, w) \<Rightarrow>
                         if existing = Some wrapped then (None, w)
                         else (Some (ErrorNew (''keys: DEK secret '' @ name @
                           '' already exists with different content; refusing to overwrite (one DEK for life)'')), w))
                  else (Some (Wrap (''keys: create recovered DEK secret '' @ ns @ ''/'' @ name) (APIError err)), w)))"

section \<open>The tenant's password\<close>

abbreviation userPasswordSecretNamePrefix :: string where "userPasswordSecretNamePrefix \<equiv> ''crystal-repo-password-''"
abbreviation UserPasswordSecretKey :: string where "UserPasswordSecretKey \<equiv> ''restic-password''"

definition UserPasswordSecretName :: "string \<Rightarrow> string" where
  "UserPasswordSecretName locationName = userPasswordSecretNamePrefix @ locationName"

definition passwordFrom :: "secret_data \<Rightarrow> string \<Rightarrow> string \<Rightarrow> go_error + string" where
  "passwordFrom data namespace name =
     (case data_value data UserPasswordSecretKey of
        None \<Rightarrow> Inl (ErrorNew (''keys: repository password secret '' @ namespace @ ''/'' @ name @
            '' is missing data key '' @ [CHR 34] @ UserPasswordSecretKey @ [CHR 34]))
      | Some password \<Rightarrow> Inr password)"

definition readPassword ::
  "('w, 'identity, 'z) key_env_scheme \<Rightarrow> string \<Rightarrow> string \<Rightarrow> 'w \<Rightarrow> (go_error + string) \<times> 'w" where
  "readPassword e namespace name w =
     (case ke_get e namespace name w of
        (Inl err, w) \<Rightarrow>
          (Inl (Wrap (''keys: get referenced repository password secret '' @ namespace @ ''/'' @ name) (APIError err)), w)
      | (Inr data, w) \<Rightarrow> (passwordFrom data namespace name, w))"

definition EnsureUserPassword ::
  "('w, 'identity, 'z) key_env_scheme \<Rightarrow> string \<Rightarrow> string \<Rightarrow> string \<Rightarrow> 'w \<Rightarrow> (go_error + string) \<times> 'w" where
  "EnsureUserPassword e namespace locationName refName w =
     (if refName \<noteq> [] then readPassword e namespace refName w
      else
        let name = UserPasswordSecretName locationName
        in case ke_get e namespace name w of
             (Inr existing, w) \<Rightarrow> (passwordFrom existing namespace name, w)
           | (Inl err, w) \<Rightarrow>
               if err \<noteq> NotFound then
                 (Inl (Wrap (''keys: get repository password secret '' @ namespace @ ''/'' @ name) (APIError err)), w)
               else (case GenerateDEK e w of
                       (Inl err, w) \<Rightarrow> (Inl err, w)
                     | (Inr password, w) \<Rightarrow>
                         create_or_read e ''repository password'' namespace name [UserPasswordSecretKey \<mapsto> password] password
                           (\<lambda>winner. passwordFrom winner namespace name) w))"

end
