(* ===== verification/Repo_Keys_Safety.thy ===== *)
theory Repo_Keys_Safety
  imports Repo_Keys
begin

text \<open>
  A repository has one password for its whole life. One key Secret of the API server is seen through
  \<open>view\<close>; \<open>kube_secrets\<close> says what Kubernetes documents of a read and a create, and that nobody
  rewrites or deletes this one Secret once it is there; nothing is assumed of any other. Two callers may overlap in
  any way, since the world a call returns may hold whatever others have written in the meantime, and a read may miss a
  Secret that is already there.
\<close>

section \<open>What is relied on\<close>

definition kept :: "'d option \<Rightarrow> 'd option \<Rightarrow> bool" where
  "kept a b \<longleftrightarrow> (\<forall>d. a = Some d \<longrightarrow> b = Some d)"

definition kube_secrets :: "('w, 'identity, 'z) key_env_scheme \<Rightarrow> string \<times> string \<Rightarrow> ('w \<Rightarrow> secret_data option) \<Rightarrow> bool" where
  "kube_secrets e key view \<longleftrightarrow>
     (\<forall>ns n w r w'. ke_get e ns n w = (r, w') \<longrightarrow>
        kept (view w) (view w') \<and> (\<forall>d. (ns, n) = key \<and> r = Inr d \<longrightarrow> view w' = Some d)) \<and>
     (\<forall>s w r w'. ke_create e s w = (r, w') \<longrightarrow>
        kept (view w) (view w') \<and> ((sec_Namespace s, sec_Name s) = key \<and> r = None \<longrightarrow> view w' = Some (sec_Data s))) \<and>
     (\<forall>n w r w'. ke_random e n w = (r, w') \<longrightarrow> kept (view w) (view w')) \<and>
     (\<forall>i pt w r w'. ke_Encrypt e i pt w = (r, w') \<longrightarrow> kept (view w) (view w'))"

definition wrapping_opens :: "('w, 'identity, 'z) key_env_scheme \<Rightarrow> bool" where
  "wrapping_opens e \<longleftrightarrow>
     (\<forall>i pt w ct w'. ke_Encrypt e i pt w = (Inr ct, w') \<longrightarrow> ct \<noteq> [] \<and> ke_Decrypt e i ct = Inr pt)"

lemma kube_get:
  assumes "kube_secrets e (ns, n) view" and "ke_get e ns n w = (Inr d, w')"
  shows "view w' = Some d"
  using assms unfolding kube_secrets_def by blast

lemma kube_create:
  assumes "kube_secrets e (sec_Namespace s, sec_Name s) view" and "ke_create e s w = (None, w')"
  shows "view w' = Some (sec_Data s)"
  using assms unfolding kube_secrets_def by blast

section \<open>What is returned is what is stored\<close>

lemma create_or_read_stored:
  assumes k: "kube_secrets e (ns, n) view" and fresh: "read data = Inr fresh"
    and c: "create_or_read e what ns n data fresh read w = (Inr v, w')"
  shows "\<exists>d. view w' = Some d \<and> read d = Inr v"
proof -
  let ?s = "\<lparr>sec_Namespace = ns, sec_Name = n, sec_Labels = key_labels, sec_Data = data\<rparr>"
  obtain r w1 where r: "ke_create e ?s w = (r, w1)" by fastforce
  show ?thesis
  proof (cases r)
    case None
    with c r have "v = fresh" "w' = w1" by (auto simp: create_or_read_def)
    with kube_create [of e ?s view w w1] k r None fresh show ?thesis by simp
  next
    case (Some err)
    obtain g w2 where g: "ke_get e ns n w1 = (g, w2)" by fastforce
    with c r Some obtain d where "g = Inr d" "w' = w2" "read d = Inr v"
      by (cases g) (auto simp: create_or_read_def split: if_splits)
    with kube_get [OF k, of w1 d w2] g show ?thesis by auto
  qed
qed

lemma EnsureDEK_stored:
  assumes k: "kube_secrets e (dm_operatorNamespace m, DEKSecretName loc) view" and wr: "wrapping_opens e"
    and c: "EnsureDEK e m loc w = (Inr dek, w')"
  shows "\<exists>d. view w' = Some d \<and> unwrapDEK e m d (DEKSecretName loc) = Inr dek"
proof -
  let ?n = "DEKSecretName loc" and ?ns = "dm_operatorNamespace m"
  obtain g w1 where g: "ke_get e ?ns ?n w = (g, w1)" by fastforce
  show ?thesis
  proof (cases g)
    case (Inr d)
    with c g have "unwrapDEK e m d ?n = Inr dek" "w' = w1" by (auto simp: EnsureDEK_def Let_def)
    with kube_get [OF k, of w d w1] g Inr show ?thesis by simp
  next
    case (Inl err)
    with c g obtain fresh w2 wrapped w3 where "GenerateDEK e w1 = (Inr fresh, w2)"
      and enc: "ke_Encrypt e (dm_wrapper m) fresh w2 = (Inr wrapped, w3)"
      and cr: "create_or_read e ''DEK'' ?ns ?n [DEKSecretKey \<mapsto> wrapped] fresh (\<lambda>winner. unwrapDEK e m winner ?n) w3 = (Inr dek, w')"
      by (auto simp: EnsureDEK_def Let_def split: if_splits prod.splits sum.splits)
    from wr enc have "wrapped \<noteq> []" "ke_Decrypt e (dm_wrapper m) wrapped = Inr fresh" unfolding wrapping_opens_def by blast+
    then have "unwrapDEK e m [DEKSecretKey \<mapsto> wrapped] ?n = Inr fresh" by (simp add: unwrapDEK_def data_value_def)
    from create_or_read_stored [OF k this cr] show ?thesis .
  qed
qed

lemma WrappedDEK_stored:
  assumes k: "kube_secrets e (dm_operatorNamespace m, DEKSecretName loc) view" and c: "WrappedDEK e m loc w = (Inr (Some wrapped), w')"
  shows "\<exists>d. view w' = Some d \<and> data_value d DEKSecretKey = Some wrapped"
proof -
  obtain g w1 where g: "ke_get e (dm_operatorNamespace m) (DEKSecretName loc) w = (g, w1)" by fastforce
  with c obtain d where "g = Inr d" "w' = w1" "data_value d DEKSecretKey = Some wrapped"
    by (cases g) (auto simp: WrappedDEK_def Let_def split: if_splits option.splits)
  with kube_get [OF k, of w d w1] g show ?thesis by auto
qed

lemma AdoptWrappedDEK_stored:
  assumes k: "kube_secrets e (dm_operatorNamespace m, DEKSecretName loc) view" and ne: "wrapped \<noteq> []" and c: "AdoptWrappedDEK e m loc wrapped w = (None, w')"
  shows "\<exists>d. view w' = Some d \<and> data_value d DEKSecretKey = Some wrapped"
proof -
  let ?s = "\<lparr>sec_Namespace = dm_operatorNamespace m, sec_Name = DEKSecretName loc, sec_Labels = key_labels,
    sec_Data = [DEKSecretKey \<mapsto> wrapped]\<rparr>"
  obtain r w1 where r: "ke_create e ?s w = (r, w1)" by fastforce
  show ?thesis
  proof (cases r)
    case None
    with c r have "w' = w1" by (auto simp: AdoptWrappedDEK_def Let_def split: sum.splits)
    with kube_create [of e ?s view w w1] k r None ne show ?thesis by (simp add: data_value_def)
  next
    case (Some err)
    with c r have "WrappedDEK e m loc w1 = (Inr (Some wrapped), w')"
      by (auto simp: AdoptWrappedDEK_def Let_def split: sum.splits if_splits prod.splits)
    from WrappedDEK_stored [OF k this] show ?thesis .
  qed
qed

text \<open>
  C25: a location has one platform key for life. Once a call of \<open>EnsureDEK\<close> has answered a key, that key is what the
  Secret of the location holds, wrapped. Take any later world, and any other call that is over by then, however
  the two overlapped: another \<open>EnsureDEK\<close> has answered the same key or an error, never another key, so that the one
  that lost a race has discarded the key it generated; and an \<open>AdoptWrappedDEK\<close> that was accepted was given that very
  key. The assumption on the API server is about the one Secret of the location: it is not rewritten or deleted.
\<close>

theorem one_dek_for_life:
  assumes k: "kube_secrets e (dm_operatorNamespace m, DEKSecretName loc) view" and wr: "wrapping_opens e"
    and a: "EnsureDEK e m loc w1 = (Inr dek, w1')"
  shows "\<exists>wrapped0. (\<exists>d. view w1' = Some d \<and> d DEKSecretKey = Some wrapped0) \<and> ke_Decrypt e (dm_wrapper m) wrapped0 = Inr dek \<and>
    (\<forall>w. kept (view w1') (view w) \<longrightarrow>
      (\<forall>w2 r w2'. EnsureDEK e m loc w2 = (r, w2') \<and> kept (view w2') (view w) \<longrightarrow> (case r of Inl _ \<Rightarrow> True | Inr dek' \<Rightarrow> dek' = dek)) \<and>
      (\<forall>wrapped w3 w3'. AdoptWrappedDEK e m loc wrapped w3 = (None, w3') \<and> wrapped \<noteq> [] \<and> kept (view w3') (view w) \<longrightarrow>
        wrapped = wrapped0))"
proof -
  from EnsureDEK_stored [OF k wr a] obtain d where d: "view w1' = Some d" "unwrapDEK e m d (DEKSecretName loc) = Inr dek" by blast
  then obtain wrapped0 where u: "d DEKSecretKey = Some wrapped0" "data_value d DEKSecretKey = Some wrapped0"
      "ke_Decrypt e (dm_wrapper m) wrapped0 = Inr dek"
    by (auto simp: unwrapDEK_def data_value_def split: option.splits sum.splits if_splits)
  have ensured: "dek' = dek" if "kept (view w1') (view w)" "EnsureDEK e m loc w2 = (Inr dek', w2')" "kept (view w2') (view w)" for w w2 w2' dek'
  proof -
    from EnsureDEK_stored [OF k wr that(2)] obtain d' where "view w2' = Some d'" "unwrapDEK e m d' (DEKSecretName loc) = Inr dek'" by blast
    then show ?thesis using d that(1,3) by (simp add: kept_def)
  qed
  have adopted: "wrapped = wrapped0"
    if "kept (view w1') (view w)" "AdoptWrappedDEK e m loc wrapped w3 = (None, w3')" "wrapped \<noteq> []" "kept (view w3') (view w)" for w wrapped w3 w3'
  proof -
    from AdoptWrappedDEK_stored [OF k that(3,2)] obtain d' where "view w3' = Some d'" "data_value d' DEKSecretKey = Some wrapped" by blast
    then show ?thesis using d(1) u(2) that(1,4) by (simp add: kept_def)
  qed
  show ?thesis
    by (rule exI [of _ wrapped0]) (use d(1) u ensured adopted in \<open>auto split: sum.split\<close>)
qed

definition entropy_given :: "('w, 'identity, 'z) key_env_scheme \<Rightarrow> bool" where
  "entropy_given e \<longleftrightarrow> (\<forall>n w r w'. 0 < n \<and> ke_random e n w = (Inr r, w') \<longrightarrow> length r = n)"

lemma EnsureUserPassword_stored:
  assumes k: "kube_secrets e (ns, if ref \<noteq> [] then ref else UserPasswordSecretName loc) view"
    and c: "EnsureUserPassword e ns loc ref w = (Inr v, w')" and fresh: "entropy_given e"
  shows "\<exists>d. view w' = Some d \<and>
    passwordFrom d ns (if ref \<noteq> [] then ref else UserPasswordSecretName loc) = Inr v"
proof (cases "ref = []")
  case False
  obtain g w1 where g: "ke_get e ns ref w = (g, w1)" by fastforce
  with c False obtain d where "g = Inr d" "w' = w1" "passwordFrom d ns ref = Inr v"
    by (cases g) (auto simp: EnsureUserPassword_def readPassword_def)
  with kube_get [of e ns ref view w d w1] k g False show ?thesis by auto
next
  case True
  then have k': "kube_secrets e (ns, UserPasswordSecretName loc) view" using k by simp
  let ?n = "UserPasswordSecretName loc"
  obtain g w1 where g: "ke_get e ns ?n w = (g, w1)" by fastforce
  show ?thesis
  proof (cases g)
    case (Inr d)
    with c g True have "passwordFrom d ns ?n = Inr v" "w' = w1" by (auto simp: EnsureUserPassword_def Let_def)
    with kube_get [OF k', of w d w1] g Inr True show ?thesis by simp
  next
    case (Inl err)
    with c g True obtain p w2 where gen: "GenerateDEK e w1 = (Inr p, w2)"
      and cr: "create_or_read e ''repository password'' ns ?n [UserPasswordSecretKey \<mapsto> p] p (\<lambda>winner. passwordFrom winner ns ?n) w2
        = (Inr v, w')"
      by (auto simp: EnsureUserPassword_def Let_def split: if_splits prod.splits sum.splits)
    from gen obtain raw where raw: "ke_random e dekEntropyBytes w1 = (Inr raw, w2)" "p = b64_encode raw"
      by (auto simp: GenerateDEK_def split: prod.splits sum.splits)
    have "0 < dekEntropyBytes" by (simp add: dekEntropyBytes_def)
    with fresh raw(1) have "length raw = dekEntropyBytes" unfolding entropy_given_def by blast
    with raw(2) have "p \<noteq> []" by (cases raw rule: b64_encode.cases) (auto simp: dekEntropyBytes_def)
    then have "passwordFrom [UserPasswordSecretKey \<mapsto> p] ns ?n = Inr p" by (simp add: passwordFrom_def data_value_def)
    from create_or_read_stored [OF k' this cr] True show ?thesis by simp
  qed
qed

text \<open>
  A tenant's repository opens with one password. Two calls for the same location and reference,
  however they raced, answer the same password, and it is the one in the tenant's own Secret: the
  referenced one, or the generated one of the location.
\<close>

theorem one_tenant_password:
  assumes k: "kube_secrets e (ns, if ref \<noteq> [] then ref else UserPasswordSecretName loc) view" and fresh: "entropy_given e"
    and a: "EnsureUserPassword e ns loc ref w1 = (Inr p, w1')"
    and b: "EnsureUserPassword e ns loc ref w2 = (Inr p', w2')"
    and later: "kept (view w1') (view w)" "kept (view w2') (view w)"
  shows "p' = p \<and> (\<exists>d. view w = Some d \<and> d UserPasswordSecretKey = Some p)"
proof -
  let ?n = "if ref \<noteq> [] then ref else UserPasswordSecretName loc"
  have up: "view w = Some d" if "view v = Some d" "kept (view v) (view w)" for v d
    using that by (simp add: kept_def)
  from EnsureUserPassword_stored [OF k a fresh] obtain d where d: "view w = Some d" "passwordFrom d ns ?n = Inr p"
    using up [OF _ later(1)] by blast
  from EnsureUserPassword_stored [OF k b fresh] have "passwordFrom d ns ?n = Inr p'"
    using up [OF _ later(2)] d(1) by fastforce
  with d show ?thesis by (auto simp: passwordFrom_def data_value_def split: option.splits if_splits)
qed

section \<open>Generated keys\<close>

definition b64_value :: "char \<Rightarrow> nat" where
  "b64_value c = length (takeWhile (\<lambda>d. d \<noteq> c) b64_alphabet)"

fun b64_decode :: "string \<Rightarrow> string" where
  "b64_decode (p # q # r # s # rest) =
     (if r = CHR ''='' then [char_of (b64_value p * 4 + b64_value q div 16)]
      else if s = CHR ''='' then
        [char_of (b64_value p * 4 + b64_value q div 16), char_of (b64_value q mod 16 * 16 + b64_value r div 4)]
      else char_of (b64_value p * 4 + b64_value q div 16) # char_of (b64_value q mod 16 * 16 + b64_value r div 4) #
        char_of (b64_value r mod 4 * 64 + b64_value s) # b64_decode rest)"
| "b64_decode _ = []"

lemma takeWhile_distinct_nth:
  "distinct xs \<Longrightarrow> n < length xs \<Longrightarrow> length (takeWhile (\<lambda>d. d \<noteq> xs ! n) xs) = n"
  by (induction xs arbitrary: n) (auto simp: nth_Cons split: nat.splits)

lemma b64_alphabet_facts: "distinct b64_alphabet" "length b64_alphabet = 64" "CHR ''='' \<notin> set b64_alphabet"
  by code_simp+

lemma b64_value_char [simp]: "n < 64 \<Longrightarrow> b64_value (b64_char n) = n"
  unfolding b64_value_def b64_char_def using b64_alphabet_facts by (intro takeWhile_distinct_nth) simp_all

lemma b64_char_mem: "n < 64 \<Longrightarrow> b64_char n \<in> set b64_alphabet"
  unfolding b64_char_def using b64_alphabet_facts(2) by (intro nth_mem) simp

lemma b64_char_not_pad [simp]: "n < 64 \<Longrightarrow> b64_char n \<noteq> CHR ''=''"
  using b64_char_mem b64_alphabet_facts(3) by metis

lemma byte_less: "byte a < 256"
  using of_char_mod_256 [of a, where 'a = nat] mod_less_divisor [of 256 "byte a"] by simp

lemma sextets [simp]: "byte a div 4 < 64" "byte a mod 4 * 16 < 64" "byte a mod 4 * 16 + byte b div 16 < 64"
    "byte b mod 16 * 4 < 64" "byte b mod 16 * 4 + byte c div 64 < 64" "byte c mod 64 < 64"
  using byte_less [of a] byte_less [of b] byte_less [of c] by linarith+

lemma high_bits [simp]: "byte b div 16 div 16 = 0" "byte b div 16 mod 16 = byte b div 16"
    "byte c div 64 div 4 = 0" "byte c div 64 mod 4 = byte c div 64"
  using byte_less [of b] byte_less [of c] by (simp_all add: div_mult2_eq [symmetric] less_mult_imp_div_less)

lemma b64_roundtrip: "b64_decode (b64_encode s) = s"
  by (induction s rule: b64_encode.induct) simp_all

text \<open>
  A generated key carries all its entropy: the 32 random bytes become 44 characters of the
  base64 alphabet, without a line break, and different bytes always give different keys.
\<close>

theorem generated_keys_keep_their_entropy:
  assumes "length raw = dekEntropyBytes" "length raw' = dekEntropyBytes"
  shows "(b64_encode raw = b64_encode raw' \<longleftrightarrow> raw = raw') \<and> length (b64_encode raw) = 44 \<and>
    set (b64_encode raw) \<subseteq> insert (CHR ''='') (set b64_alphabet)"
proof (intro conjI)
  show "b64_encode raw = b64_encode raw' \<longleftrightarrow> raw = raw'" using b64_roundtrip by metis
  have l: "(5 + n) div 3 = Suc (Suc (Suc n) div 3)" for n :: nat using div_add_self2 [of 3 "n + 2"] by simp
  have "length (b64_encode s) = 4 * ((length s + 2) div 3)" for s
    by (induction s rule: b64_encode.induct) (simp_all add: l)
  then show "length (b64_encode raw) = 44" using assms(1) by (simp add: dekEntropyBytes_def)
  show "set (b64_encode raw) \<subseteq> insert (CHR ''='') (set b64_alphabet)"
    by (induction raw rule: b64_encode.induct) (simp_all add: b64_char_mem)
qed

section \<open>A concrete store\<close>

type_synonym demo_store = "string \<times> string \<rightharpoonup> secret_data"

definition demo_keys :: "(demo_store, unit) key_env" where
  "demo_keys = \<lparr>ke_ParseIdentities = \<lambda>_. Inr [Some ()], ke_Encrypt = \<lambda>_ pt w. (Inr (CHR ''x'' # pt), w),
     ke_Decrypt = \<lambda>_ ct. (case ct of [] \<Rightarrow> Inl (ErrorNew []) | _ # pt \<Rightarrow> Inr pt),
     ke_random = \<lambda>n w. (Inr (replicate n (CHR ''r'')), w),
     ke_get = \<lambda>ns n w. (case w (ns, n) of None \<Rightarrow> Inl NotFound | Some d \<Rightarrow> Inr d, w),
     ke_create = \<lambda>s w. (case w (sec_Namespace s, sec_Name s) of
        None \<Rightarrow> (None, w((sec_Namespace s, sec_Name s) \<mapsto> sec_Data s)) | Some _ \<Rightarrow> (Some AlreadyExists, w))\<rparr>"

lemma demo_kube: "kube_secrets demo_keys key (\<lambda>w. w key)" "wrapping_opens demo_keys" "entropy_given demo_keys"
  by (auto simp: kube_secrets_def kept_def wrapping_opens_def entropy_given_def demo_keys_def split: option.splits)

abbreviation demo_dek :: string where "demo_dek \<equiv> b64_encode (replicate 32 (CHR ''r''))"
abbreviation demo_dm :: "unit DEKManager" where "demo_dm \<equiv> \<lparr>dm_wrapper = (), dm_operatorNamespace = ''ops''\<rparr>"
abbreviation demo_after :: demo_store where
  "demo_after \<equiv> [(''ops'', DEKSecretName ''l'') \<mapsto> [DEKSecretKey \<mapsto> CHR ''x'' # demo_dek]]"

lemma demo_dek_calls:
  "EnsureDEK demo_keys demo_dm ''l'' Map.empty = (Inr demo_dek, demo_after)"
  "EnsureDEK demo_keys demo_dm ''l'' demo_after = (Inr demo_dek, demo_after)"
  "AdoptWrappedDEK demo_keys demo_dm ''l'' (CHR ''x'' # demo_dek) demo_after = (None, demo_after)"
  by (simp_all add: EnsureDEK_def AdoptWrappedDEK_def WrappedDEK_def unwrapDEK_def data_value_def create_or_read_def GenerateDEK_def
      demo_keys_def dekEntropyBytes_def Let_def del: b64_encode.simps)

theorem one_dek_for_life_witness:
  "\<exists>dek w'. EnsureDEK demo_keys demo_dm ''l'' demo_after = (Inr dek, w') \<and> dek = demo_dek \<and>
     ke_Decrypt demo_keys () (CHR ''x'' # demo_dek) = Inr demo_dek"
proof -
  let ?key = "(dm_operatorNamespace demo_dm, DEKSecretName ''l'')"
  have k: "kept (demo_after ?key) (demo_after ?key)" by (simp add: kept_def)
  from one_dek_for_life [OF demo_kube(1) demo_kube(2) demo_dek_calls(1)] obtain wrapped0 where o:
    "ke_Decrypt demo_keys (dm_wrapper demo_dm) wrapped0 = Inr demo_dek"
    "\<And>w. kept (demo_after ?key) (w ?key) \<Longrightarrow>
      (\<forall>w2 r w2'. EnsureDEK demo_keys demo_dm ''l'' w2 = (r, w2') \<and> kept (w2' ?key) (w ?key) \<longrightarrow> (case r of Inl _ \<Rightarrow> True | Inr dek' \<Rightarrow> dek' = demo_dek)) \<and>
      (\<forall>wrapped w3 w3'. AdoptWrappedDEK demo_keys demo_dm ''l'' wrapped w3 = (None, w3') \<and> wrapped \<noteq> [] \<and> kept (w3' ?key) (w ?key) \<longrightarrow> wrapped = wrapped0)"
    by blast
  have "CHR ''x'' # demo_dek = wrapped0" using o(2) [of demo_after, OF k] demo_dek_calls(3) k by blast
  with o(1) demo_dek_calls(2) show ?thesis by (simp del: b64_encode.simps)
qed

theorem one_tenant_password_witness:
  "\<exists>d. [(''shop'', ''ref'') \<mapsto> [UserPasswordSecretKey \<mapsto> ''pw'']] (''shop'', ''ref'') = Some d \<and> d UserPasswordSecretKey = Some ''pw''"
proof -
  let ?w = "[(''shop'', ''ref'') \<mapsto> [UserPasswordSecretKey \<mapsto> ''pw'']]"
  have c: "EnsureUserPassword demo_keys ''shop'' ''l'' ''ref'' ?w = (Inr ''pw'', ?w)"
    by (simp add: EnsureUserPassword_def readPassword_def passwordFrom_def data_value_def demo_keys_def)
  show ?thesis using one_tenant_password [OF demo_kube(1) demo_kube(3) c c, of ?w] by (simp add: kept_def)
qed

theorem generated_keys_keep_their_entropy_witness: "length demo_dek = 44"
  using generated_keys_keep_their_entropy [of "replicate 32 (CHR ''r'')" "replicate 32 (CHR ''r'')"]
  by (simp add: dekEntropyBytes_def)

end
