(* ===== verification/Hooks.thy ===== *)
theory Hooks
  imports Kube_Objects
begin

text \<open>
  Consistency hooks (\<^verbatim>\<open>internal/hooks\<close>): the resolution of annotation and spec hooks against the
  pods of a run, the execution of a chain of hooks with its per-phase stopping rule, and the pod
  executor's identity and messages. The exec call itself, the JSON decoding of a command
  annotation, Go's duration parser and apimachinery's selector compiler are arguments.
\<close>

section \<open>Types\<close>

abbreviation PhasePre :: string where "PhasePre \<equiv> ''pre''"
abbreviation PhasePost :: string where "PhasePost \<equiv> ''post''"
abbreviation SourceAnnotation :: string where "SourceAnnotation \<equiv> ''annotation''"
abbreviation SourceSpec :: string where "SourceSpec \<equiv> ''spec''"
abbreviation HookErrorPolicyFail :: string where "HookErrorPolicyFail \<equiv> ''Fail''"
abbreviation HookErrorPolicyContinue :: string where "HookErrorPolicyContinue \<equiv> ''Continue''"
abbreviation AnnotationPreBackupPrefix :: string
  where "AnnotationPreBackupPrefix \<equiv> ''crystalbackup.io/pre-backup-''"
abbreviation AnnotationPostBackupPrefix :: string
  where "AnnotationPostBackupPrefix \<equiv> ''crystalbackup.io/post-backup-''"
abbreviation annCommand :: string where "annCommand \<equiv> ''command''"
abbreviation annContainer :: string where "annContainer \<equiv> ''container''"
abbreviation annOnError :: string where "annOnError \<equiv> ''on-error''"
abbreviation annTimeout :: string where "annTimeout \<equiv> ''timeout''"

definition DefaultTimeout :: duration where "DefaultTimeout = seconds 30"

record 'expr Hook =
  hk_PodSelector :: "'expr LabelSelector"
  hk_Container :: string
  hk_Command :: "string list"
  hk_Timeout :: duration
  hk_OnError :: string

record 'expr HooksSpec =
  hsp_HonorAnnotations :: bool
  hsp_Pre :: "'expr Hook list"
  hsp_Post :: "'expr Hook list"
  hsp_ServiceAccountName :: string

record Resolved =
  rh_PodNamespace :: string
  rh_PodName :: string
  rh_Container :: string
  rh_Command :: "string list"
  rh_Timeout :: duration
  rh_OnError :: string
  rh_Source :: string
  rh_Phase :: string
  rh_ServiceAccountName :: string

datatype hook_error = ErrNoCommand | ErrSkipped | HookTimedOut duration string | ExecError string

record Result =
  hr_Hook :: Resolved
  hr_Err :: "hook_error option"
  hr_Stdout :: string
  hr_Stderr :: string

definition Result_Failed :: "Result \<Rightarrow> bool" where
  "Result_Failed r \<longleftrightarrow> hr_Err r \<noteq> None"

definition Aborts :: "Result \<Rightarrow> bool" where
  "Aborts r \<longleftrightarrow> hr_Err r \<noteq> None \<and> rh_OnError (hr_Hook r) \<noteq> HookErrorPolicyContinue"

text \<open>The libraries the resolution calls.\<close>

record 'expr hook_libs =
  hl_as_selector :: "'expr LabelSelector \<Rightarrow> (string_map \<Rightarrow> bool) option"
  hl_unmarshal_strings :: "string \<Rightarrow> string list option"
  hl_ParseDuration :: "string \<Rightarrow> duration option"

section \<open>Resolution\<close>

definition selectorMatches :: "'expr hook_libs \<Rightarrow> 'expr LabelSelector \<Rightarrow> string_map \<Rightarrow> bool" where
  "selectorMatches L sel podLabels =
     (if lsel_MatchLabels sel = [] \<and> lsel_MatchExpressions sel = [] then True
      else case hl_as_selector L sel of None \<Rightarrow> False | Some s \<Rightarrow> s podLabels)"

definition defaultContainer :: "Pod \<Rightarrow> string \<Rightarrow> string" where
  "defaultContainer pod named =
     (if named \<noteq> [] then named
      else case pod_Containers pod of c # _ \<Rightarrow> c | [] \<Rightarrow> [])"

definition parseCommand :: "'expr hook_libs \<Rightarrow> string \<Rightarrow> string list" where
  "parseCommand L raw =
     (let raw = TrimSpace raw
      in if HasPrefix raw ''['' then
           (case hl_unmarshal_strings L raw of
              Some (a # argv) \<Rightarrow> a # argv
            | _ \<Rightarrow> [raw])
         else [raw])"

definition fromAnnotations :: "'expr hook_libs \<Rightarrow> Pod \<Rightarrow> string \<Rightarrow> Resolved option" where
  "fromAnnotations L pod phase =
     (let pre = (if phase = PhasePost then AnnotationPostBackupPrefix else AnnotationPreBackupPrefix)
      in case pod_Annotations pod (pre @ annCommand) of
           None \<Rightarrow> None
         | Some raw \<Rightarrow>
             if TrimSpace raw = [] then None
             else
               let v = map_get (pod_Annotations pod) (pre @ annTimeout);
                   timeout = (if v \<noteq> [] then
                       (case hl_ParseDuration L v of
                          Some d \<Rightarrow> if d > 0 then d else DefaultTimeout
                        | None \<Rightarrow> DefaultTimeout)
                     else DefaultTimeout);
                   p = map_get (pod_Annotations pod) (pre @ annOnError);
                   onError = (if ToLower p = ToLower HookErrorPolicyContinue
                     then HookErrorPolicyContinue else HookErrorPolicyFail)
               in Some \<lparr>rh_PodNamespace = pod_Namespace pod, rh_PodName = pod_Name pod,
                    rh_Container = defaultContainer pod (map_get (pod_Annotations pod) (pre @ annContainer)),
                    rh_Command = parseCommand L raw, rh_Timeout = timeout, rh_OnError = onError,
                    rh_Source = SourceAnnotation, rh_Phase = phase, rh_ServiceAccountName = []\<rparr>)"

definition spec_hook :: "Pod \<Rightarrow> string \<Rightarrow> 'expr Hook \<Rightarrow> Resolved" where
  "spec_hook pod phase h =
     \<lparr>rh_PodNamespace = pod_Namespace pod, rh_PodName = pod_Name pod,
      rh_Container = defaultContainer pod (hk_Container h), rh_Command = hk_Command h,
      rh_Timeout = (if hk_Timeout h \<le> 0 then DefaultTimeout else hk_Timeout h),
      rh_OnError = (if hk_OnError h = [] then HookErrorPolicyFail else hk_OnError h),
      rh_Source = SourceSpec, rh_Phase = phase, rh_ServiceAccountName = []\<rparr>"

definition fromSpec :: "'expr hook_libs \<Rightarrow> Pod \<Rightarrow> 'expr HooksSpec \<Rightarrow> string \<Rightarrow> Resolved list" where
  "fromSpec L pod spec phase =
     foldl (\<lambda>out h. if \<not> selectorMatches L (hk_PodSelector h) (pod_Labels pod) then out
              else out @ [spec_hook pod phase h])
       [] (if phase = PhasePost then hsp_Post spec else hsp_Pre spec)"

fun resolve_pods :: "'expr hook_libs \<Rightarrow> Pod list \<Rightarrow> 'expr HooksSpec \<Rightarrow> string \<Rightarrow> Resolved list \<Rightarrow> Resolved list" where
  "resolve_pods L [] spec phase out = out"
| "resolve_pods L (pod # pods) spec phase out =
     (if pod_Phase pod \<noteq> PodRunning \<or> pod_DeletionTimestamp pod \<noteq> None
      then resolve_pods L pods spec phase out
      else case (if hsp_HonorAnnotations spec then fromAnnotations L pod phase else None) of
             Some h \<Rightarrow> resolve_pods L pods spec phase (out @ [h])
           | None \<Rightarrow> resolve_pods L pods spec phase (out @ fromSpec L pod spec phase))"

definition Resolve :: "'expr hook_libs \<Rightarrow> Pod list \<Rightarrow> 'expr HooksSpec \<Rightarrow> string \<Rightarrow> Resolved list" where
  "Resolve L pods spec phase =
     map (\<lambda>h. h\<lparr>rh_ServiceAccountName := hsp_ServiceAccountName spec\<rparr>) (resolve_pods L pods spec phase [])"

section \<open>Execution\<close>

text \<open>
  An executor runs one command in one container within a deadline, as a given ServiceAccount, and
  answers the output and an error with whether the deadline had passed. It changes the world the
  workloads live in.
\<close>

record exec_call =
  x_Timeout :: duration
  x_PodNamespace :: string
  x_PodName :: string
  x_Container :: string
  x_Command :: "string list"
  x_ServiceAccountName :: string

type_synonym 'w executor = "exec_call \<Rightarrow> 'w \<Rightarrow> (string \<times> string \<times> (string \<times> bool) option) \<times> 'w"

definition chainStopsOnAbort :: "string \<Rightarrow> bool" where
  "chainStopsOnAbort phase \<longleftrightarrow> phase \<noteq> PhasePost"

definition hook_call :: "Resolved \<Rightarrow> exec_call" where
  "hook_call h =
     \<lparr>x_Timeout = (if rh_Timeout h \<le> 0 then DefaultTimeout else rh_Timeout h),
      x_PodNamespace = rh_PodNamespace h, x_PodName = rh_PodName h, x_Container = rh_Container h,
      x_Command = rh_Command h, x_ServiceAccountName = rh_ServiceAccountName h\<rparr>"

definition runOne :: "'w executor \<Rightarrow> Resolved \<Rightarrow> 'w \<Rightarrow> Result \<times> 'w" where
  "runOne exec h w =
     (if rh_Command h = [] then (\<lparr>hr_Hook = h, hr_Err = Some ErrNoCommand, hr_Stdout = [], hr_Stderr = []\<rparr>, w)
      else
        let call = hook_call h
        in case exec call w of
             ((out, err_out, Some (err, deadlineExceeded)), w') \<Rightarrow>
               (\<lparr>hr_Hook = h,
                 hr_Err = Some (if deadlineExceeded then HookTimedOut (x_Timeout call) err else ExecError err),
                 hr_Stdout = out, hr_Stderr = err_out\<rparr>, w')
           | ((out, err_out, None), w') \<Rightarrow>
               (\<lparr>hr_Hook = h, hr_Err = None, hr_Stdout = out, hr_Stderr = err_out\<rparr>, w'))"

definition skipped_result :: "Resolved \<Rightarrow> Result" where
  "skipped_result h = \<lparr>hr_Hook = h, hr_Err = Some ErrSkipped, hr_Stdout = [], hr_Stderr = []\<rparr>"

fun Run :: "'w executor \<Rightarrow> Resolved list \<Rightarrow> 'w \<Rightarrow> Result list \<times> 'w" where
  "Run exec [] w = ([], w)"
| "Run exec (h # hs) w =
     (case runOne exec h w of
        (res, w') \<Rightarrow>
          if Aborts res \<and> chainStopsOnAbort (rh_Phase h) then (res # map skipped_result hs, w')
          else case Run exec hs w' of (rs, w'') \<Rightarrow> (res # rs, w''))"

section \<open>The pod executor\<close>

definition outputLimit :: nat where "outputLimit = 2048"

definition truncateOutput :: "string \<Rightarrow> string" where
  "truncateOutput s = (if length s \<le> outputLimit then s else take outputLimit s @ ''... (truncated)'')"

definition asSuffix :: "string \<Rightarrow> string" where
  "asSuffix as = (if as = [] then [] else '' as '' @ as)"

definition stderrSuffix :: "string \<Rightarrow> string" where
  "stderrSuffix stderr = (let s = TrimSpace stderr in if s \<noteq> [] then '': '' @ s else [])"

definition print_argv :: "string list \<Rightarrow> string" where
  "print_argv command = ''['' @ Join command '' '' @ '']''"

text \<open>
  The SPDY dial is an argument: it is handed the identity to impersonate (none for the operator
  itself), and either fails to prepare or streams the command.
\<close>

datatype 'w spdy = DialError string bool | Stream "'w \<Rightarrow> (string \<times> string \<times> (string \<times> bool) option) \<times> 'w"

definition PodExecutor_Exec :: "(string option \<Rightarrow> exec_call \<Rightarrow> 'w spdy) \<Rightarrow> 'w executor" where
  "PodExecutor_Exec dial call w =
     (let as = (if x_ServiceAccountName call \<noteq> []
            then ''system:serviceaccount:'' @ x_PodNamespace call @ '':'' @ x_ServiceAccountName call else []);
          at = x_PodNamespace call @ ''/'' @ x_PodName call @ '' ['' @ x_Container call @ '']'' @ asSuffix as
      in case dial (if x_ServiceAccountName call \<noteq> [] then Some as else None) call of
           DialError err late \<Rightarrow> (([], [], Some (''prepare exec in '' @ at @ '': '' @ err, late)), w)
         | Stream run \<Rightarrow>
             (case run w of
                ((out, err_out, err), w') \<Rightarrow>
                  let outStr = truncateOutput out; errStr = truncateOutput err_out
                  in case err of
                       None \<Rightarrow> ((outStr, errStr, None), w')
                     | Some (msg, late) \<Rightarrow>
                         ((outStr, errStr,
                           Some (''exec '' @ print_argv (x_Command call) @ '' in '' @ at @ '': '' @ msg @
                             stderrSuffix errStr, late)), w')))"

section \<open>What a resolution contains\<close>

abbreviation live_pod :: "Pod \<Rightarrow> bool" where
  "live_pod pod \<equiv> pod_Phase pod = PodRunning \<and> pod_DeletionTimestamp pod = None"

definition pod_hooks :: "'expr hook_libs \<Rightarrow> 'expr HooksSpec \<Rightarrow> string \<Rightarrow> Pod \<Rightarrow> Resolved list" where
  "pod_hooks L spec phase pod =
     (if \<not> live_pod pod then []
      else case (if hsp_HonorAnnotations spec then fromAnnotations L pod phase else None) of
             Some h \<Rightarrow> [h]
           | None \<Rightarrow> map (spec_hook pod phase)
               (filter (\<lambda>h. selectorMatches L (hk_PodSelector h) (pod_Labels pod))
                  (if phase = PhasePost then hsp_Post spec else hsp_Pre spec)))"

lemma fromSpec_eq:
  "fromSpec L pod spec phase = map (spec_hook pod phase)
     (filter (\<lambda>h. selectorMatches L (hk_PodSelector h) (pod_Labels pod))
        (if phase = PhasePost then hsp_Post spec else hsp_Pre spec))"
proof -
  have "foldl (\<lambda>out h. if \<not> P h then out else out @ [f h]) acc hs = acc @ map f (filter P hs)"
    for P and f :: "'a Hook \<Rightarrow> Resolved" and acc hs by (induction hs arbitrary: acc) auto
  then show ?thesis by (simp add: fromSpec_def)
qed

lemma resolve_pods_eq: "resolve_pods L pods spec phase out = out @ concat (map (pod_hooks L spec phase) pods)"
proof (induction pods arbitrary: out)
  case (Cons pod pods)
  then show ?case
    by (cases "if hsp_HonorAnnotations spec then fromAnnotations L pod phase else None")
      (auto simp: pod_hooks_def fromSpec_eq split: if_splits)
qed simp

lemma case_option_SomeD:
  "(case x of None \<Rightarrow> None | Some a \<Rightarrow> f a) = Some h \<Longrightarrow> \<exists>a. x = Some a \<and> f a = Some h"
  by (cases x) simp_all

lemma if_None_SomeD: "(if b then None else x) = Some h \<Longrightarrow> x = Some h"
  by (cases b) simp_all

lemma parseCommand_nonempty: "parseCommand L raw \<noteq> []"
  by (simp add: parseCommand_def Let_def split: option.split list.split)

definition annotated_timeout :: "'expr hook_libs \<Rightarrow> string \<Rightarrow> duration" where
  "annotated_timeout L v =
     (if v \<noteq> [] then
        (case hl_ParseDuration L v of
           Some d \<Rightarrow> if d > 0 then d else DefaultTimeout
         | None \<Rightarrow> DefaultTimeout)
      else DefaultTimeout)"

lemma annotated_timeout_pos: "0 < annotated_timeout L v"
  by (simp add: annotated_timeout_def DefaultTimeout_def split: option.split)

lemma fromAnnotations_fields:
  assumes "fromAnnotations L pod phase = Some h"
  shows "rh_PodNamespace h = pod_Namespace pod \<and> rh_PodName h = pod_Name pod \<and> rh_Phase h = phase \<and>
    0 < rh_Timeout h \<and> rh_Source h = SourceAnnotation \<and> rh_OnError h \<noteq> [] \<and> rh_Command h \<noteq> []"
proof -
  obtain raw v p c where h: "h = \<lparr>rh_PodNamespace = pod_Namespace pod, rh_PodName = pod_Name pod,
      rh_Container = c, rh_Command = parseCommand L raw, rh_Timeout = annotated_timeout L v,
      rh_OnError = (if p then HookErrorPolicyContinue else HookErrorPolicyFail),
      rh_Source = SourceAnnotation, rh_Phase = phase, rh_ServiceAccountName = []\<rparr>"
    using assms unfolding fromAnnotations_def Let_def annotated_timeout_def [symmetric]
    by (blast dest!: case_option_SomeD if_None_SomeD)
  show ?thesis by (simp add: h parseCommand_nonempty annotated_timeout_pos)
qed

lemma pod_hooks_fields:
  assumes "h \<in> set (pod_hooks L spec phase pod)"
  shows "live_pod pod \<and> rh_PodNamespace h = pod_Namespace pod \<and> rh_PodName h = pod_Name pod \<and>
    rh_Phase h = phase \<and> 0 < rh_Timeout h \<and> rh_OnError h \<noteq> []"
proof -
  have "live_pod pod" using assms by (auto simp: pod_hooks_def split: if_splits)
  then show ?thesis using assms fromAnnotations_fields [of L pod phase]
    by (auto simp: pod_hooks_def spec_hook_def DefaultTimeout_def split: if_splits option.splits)
qed

definition exec_identity :: "string \<Rightarrow> string \<Rightarrow> string option" where
  "exec_identity namespace sa =
     (if sa = [] then None else Some (''system:serviceaccount:'' @ namespace @ '':'' @ sa))"

lemma PodExecutor_Exec_identity:
  assumes "dial (exec_identity (x_PodNamespace c) (x_ServiceAccountName c)) c =
    dial' (exec_identity (x_PodNamespace c) (x_ServiceAccountName c)) c"
  shows "PodExecutor_Exec dial c w = PodExecutor_Exec dial' c w"
  using assms by (cases "x_ServiceAccountName c = []") (simp_all add: PodExecutor_Exec_def exec_identity_def)

text \<open>
  Hooks are confined. Every resolved hook targets a running, non-terminating pod of the list
  it was resolved against, carries the phase asked for, a positive timeout and a policy, and is
  executed under the ServiceAccount of the spec in the namespace of that very pod: two dialers that agree
  on that one identity give the same execution, whatever they do for any other identity, and this
  holds for hooks declared by pod annotations too.
\<close>

theorem hooks_confined:
  assumes "h \<in> set (Resolve L pods spec phase)"
  shows "\<exists>pod \<in> set pods. live_pod pod \<and> rh_PodNamespace h = pod_Namespace pod \<and>
      rh_PodName h = pod_Name pod \<and> rh_Phase h = phase \<and> 0 < rh_Timeout h \<and> rh_OnError h \<noteq> [] \<and>
      rh_ServiceAccountName h = hsp_ServiceAccountName spec \<and>
      (\<forall>(dial :: string option \<Rightarrow> exec_call \<Rightarrow> 'w spdy) dial' w.
        dial (exec_identity (pod_Namespace pod) (hsp_ServiceAccountName spec)) (hook_call h) =
          dial' (exec_identity (pod_Namespace pod) (hsp_ServiceAccountName spec)) (hook_call h) \<longrightarrow>
        PodExecutor_Exec dial (hook_call h) w = PodExecutor_Exec dial' (hook_call h) w)"
proof -
  from assms obtain g pod where g: "h = g\<lparr>rh_ServiceAccountName := hsp_ServiceAccountName spec\<rparr>"
    and pod: "pod \<in> set pods" "g \<in> set (pod_hooks L spec phase pod)"
    by (auto simp: Resolve_def resolve_pods_eq)
  note f = pod_hooks_fields [OF pod(2)]
  have same: "PodExecutor_Exec dial (hook_call h) w = PodExecutor_Exec dial' (hook_call h) w"
    if "dial (exec_identity (pod_Namespace pod) (hsp_ServiceAccountName spec)) (hook_call h) =
      dial' (exec_identity (pod_Namespace pod) (hsp_ServiceAccountName spec)) (hook_call h)"
    for dial dial' :: "string option \<Rightarrow> exec_call \<Rightarrow> 'w spdy" and w
    using that f g by (intro PodExecutor_Exec_identity) (simp add: hook_call_def)
  have "live_pod pod \<and> rh_PodNamespace h = pod_Namespace pod \<and> rh_PodName h = pod_Name pod \<and>
      rh_Phase h = phase \<and> 0 < rh_Timeout h \<and> rh_OnError h \<noteq> [] \<and>
      rh_ServiceAccountName h = hsp_ServiceAccountName spec" using f by (simp add: g)
  then show ?thesis using pod(1) same by blast
qed

definition demo_pod :: Pod where
  "demo_pod = \<lparr>pod_Namespace = ''shop'', pod_Name = ''db-0'', pod_Labels = Map.empty,
     pod_Annotations = [AnnotationPreBackupPrefix @ annCommand \<mapsto> ''freeze''], pod_DeletionTimestamp = None,
     pod_NodeName = ''n1'', pod_Containers = [''db''], pod_Volumes = [Some ''data''], pod_Phase = PodRunning,
     pod_Reason = [], pod_Message = [], pod_ContainerStatuses = []\<rparr>"

definition demo_libs :: "unit hook_libs" where
  "demo_libs = \<lparr>hl_as_selector = \<lambda>_. None, hl_unmarshal_strings = \<lambda>_. None, hl_ParseDuration = \<lambda>_. None\<rparr>"

definition demo_hooks :: "unit HooksSpec" where
  "demo_hooks = \<lparr>hsp_HonorAnnotations = True, hsp_Pre = [],
     hsp_Post = [\<lparr>hk_PodSelector = \<lparr>lsel_MatchLabels = [], lsel_MatchExpressions = []\<rparr>, hk_Container = [],
       hk_Command = [''thaw''], hk_Timeout = 0, hk_OnError = []\<rparr>],
     hsp_ServiceAccountName = ''hooks''\<rparr>"

lemma demo_resolution:
  "Resolve demo_libs [demo_pod] demo_hooks PhasePre =
     [\<lparr>rh_PodNamespace = ''shop'', rh_PodName = ''db-0'', rh_Container = ''db'', rh_Command = [''freeze''],
       rh_Timeout = seconds 30, rh_OnError = HookErrorPolicyFail, rh_Source = SourceAnnotation,
       rh_Phase = PhasePre, rh_ServiceAccountName = ''hooks''\<rparr>]"
  by (simp add: Resolve_def demo_pod_def demo_libs_def demo_hooks_def fromAnnotations_def parseCommand_def
      defaultContainer_def DefaultTimeout_def HasPrefix_def TrimSpace_def Trim_def TrimLeft_def TrimRight_def
      ascii_space_def ToLower_def is_upper_def map_get_def)

theorem hooks_confined_witness:
  "\<exists>pod \<in> {demo_pod}. pod_Namespace pod = ''shop'' \<and>
     (\<forall>h \<in> set (Resolve demo_libs [demo_pod] demo_hooks PhasePre). rh_PodName h = pod_Name pod \<and>
        rh_ServiceAccountName h = ''hooks'')"
proof -
  have "rh_PodName h = pod_Name demo_pod \<and> rh_ServiceAccountName h = hsp_ServiceAccountName demo_hooks"
    if "h \<in> set (Resolve demo_libs [demo_pod] demo_hooks PhasePre)" for h
    using hooks_confined [OF that, where ?'w = unit] by auto
  then show ?thesis by (simp add: demo_pod_def demo_hooks_def)
qed

text \<open>
  Annotations win per pod and are never merged with the spec: the hooks of a phase are, pod by
  pod in order, the single annotation hook when annotations are honoured and the pod declares one,
  else the spec's hooks of that phase whose selector matches, and nothing for a pod that is not
  running.
\<close>

theorem annotations_win_per_pod:
  "Resolve L pods spec phase =
     concat (map (\<lambda>pod. map (\<lambda>h. h\<lparr>rh_ServiceAccountName := hsp_ServiceAccountName spec\<rparr>)
       (if \<not> live_pod pod then []
        else case (if hsp_HonorAnnotations spec then fromAnnotations L pod phase else None) of
               Some h \<Rightarrow> [h]
             | None \<Rightarrow> map (spec_hook pod phase)
                 (filter (\<lambda>h. selectorMatches L (hk_PodSelector h) (pod_Labels pod))
                    (if phase = PhasePost then hsp_Post spec else hsp_Pre spec)))) pods)"
  by (simp add: Resolve_def resolve_pods_eq map_concat comp_def pod_hooks_def cong: if_cong option.case_cong)

section \<open>What a chain executes\<close>

fun run_all :: "'w executor \<Rightarrow> Resolved list \<Rightarrow> 'w \<Rightarrow> Result list \<times> 'w" where
  "run_all exec [] w = ([], w)"
| "run_all exec (h # hs) w =
     (case runOne exec h w of (res, w') \<Rightarrow> (case run_all exec hs w' of (rs, w'') \<Rightarrow> (res # rs, w'')))"

lemma run_all_length [simp]: "length (fst (run_all exec hs w)) = length hs"
  by (induction hs arbitrary: w) (simp_all add: case_prod_beta)

lemma runOne_hook [simp]: "hr_Hook (fst (runOne exec h w)) = h"
  by (auto simp: runOne_def Let_def split: prod.splits option.splits)

lemma runOne_not_skipped: "hr_Err (fst (runOne exec h w)) \<noteq> Some ErrSkipped"
  by (auto simp: runOne_def Let_def split: prod.splits option.splits)

lemma run_all_hooks: "map hr_Hook (fst (run_all exec hs w)) = hs"
proof (induction hs arbitrary: w)
  case (Cons h hs)
  obtain r w' where r: "runOne exec h w = (r, w')" by fastforce
  then have "hr_Hook r = h" using runOne_hook [of exec h w] by simp
  then show ?case using Cons [of w'] r by (auto split: prod.splits)
qed simp

lemma run_all_not_skipped: "r \<in> set (fst (run_all exec hs w)) \<Longrightarrow> hr_Err r \<noteq> Some ErrSkipped"
proof (induction hs arbitrary: w)
  case (Cons h hs)
  obtain r' w' where r': "runOne exec h w = (r', w')" by fastforce
  then have "hr_Err r' \<noteq> Some ErrSkipped" using runOne_not_skipped [of exec h w] by simp
  then show ?case using Cons.prems Cons.IH [of w'] r' by (auto split: prod.splits)
qed simp

lemma Run_hooks: "map hr_Hook (fst (Run exec hs w)) = hs"
proof (induction hs arbitrary: w)
  case (Cons h hs)
  obtain r w' where r: "runOne exec h w = (r, w')" by fastforce
  then have "hr_Hook r = h" using runOne_hook [of exec h w] by simp
  then show ?case using Cons [of w'] r by (auto simp: skipped_result_def comp_def split: prod.splits)
qed simp

lemma Run_length [simp]: "length (fst (Run exec hs w)) = length hs"
  using Run_hooks [of exec hs w] by (metis length_map)

lemma Run_post: "(\<And>h. h \<in> set hs \<Longrightarrow> rh_Phase h = PhasePost) \<Longrightarrow> Run exec hs w = run_all exec hs w"
  by (induction hs arbitrary: w) (auto simp: chainStopsOnAbort_def split: prod.splits)

text \<open>
  One result per hook, in order, and the chain stops where its phase says. There is a number
  of executed hooks such that exactly these ran, one after the other, and every later one is
  reported as skipped; no executed hook but the last one aborted a stopping phase; the chain was
  cut short only behind a hook that aborted in a phase other than the release; and a release chain always
  runs to its end, with no entry reported as skipped.
\<close>

theorem hook_chain:
  "\<exists>k \<le> length hs. \<exists>rs w'. run_all exec (take k hs) w = (rs, w') \<and>
     Run exec hs w = (rs @ map skipped_result (drop k hs), w') \<and>
     (\<forall>i. Suc i < k \<longrightarrow> \<not> (Aborts (rs ! i) \<and> chainStopsOnAbort (rh_Phase (hs ! i)))) \<and>
     (k < length hs \<longrightarrow> (\<exists>i. k = Suc i \<and> Aborts (rs ! i) \<and> rh_Phase (hs ! i) \<noteq> PhasePost)) \<and>
     ((\<forall>h \<in> set hs. rh_Phase h = PhasePost) \<longrightarrow> k = length hs) \<and>
     (\<forall>r \<in> set rs. hr_Err r \<noteq> Some ErrSkipped)"
proof (induction hs arbitrary: w)
  case Nil
  show ?case by simp
next
  case (Cons h hs)
  obtain r w1 where r: "runOne exec h w = (r, w1)" by fastforce
  have ns: "hr_Err r \<noteq> Some ErrSkipped" using runOne_not_skipped [of exec h w] r by simp
  show ?case
  proof (cases "Aborts r \<and> chainStopsOnAbort (rh_Phase h)")
    case True
    then show ?thesis using r ns
      by (intro exI [of _ 1] conjI exI [of _ "[r]"] exI [of _ w1]) (auto simp: chainStopsOnAbort_def)
  next
    case False
    from Cons [of w1] obtain k rs w' where k: "k \<le> length hs" "run_all exec (take k hs) w1 = (rs, w')"
      "Run exec hs w1 = (rs @ map skipped_result (drop k hs), w')"
      "\<And>i. Suc i < k \<Longrightarrow> \<not> (Aborts (rs ! i) \<and> chainStopsOnAbort (rh_Phase (hs ! i)))"
      "k < length hs \<Longrightarrow> (\<exists>i. k = Suc i \<and> Aborts (rs ! i) \<and> rh_Phase (hs ! i) \<noteq> PhasePost)"
      "(\<forall>h \<in> set hs. rh_Phase h = PhasePost) \<Longrightarrow> k = length hs"
      "\<forall>r \<in> set rs. hr_Err r \<noteq> Some ErrSkipped" by blast
    have "\<not> (Aborts ((r # rs) ! i) \<and> chainStopsOnAbort (rh_Phase ((h # hs) ! i)))" if "Suc i < Suc k" for i
      using that k(4) False by (cases i) auto
    moreover have "\<exists>i. Suc k = Suc i \<and> Aborts ((r # rs) ! i) \<and> rh_Phase ((h # hs) ! i) \<noteq> PhasePost"
      if "Suc k < length (h # hs)"
      using k(5) that by auto
    moreover have "run_all exec (take (Suc k) (h # hs)) w = (r # rs, w')"
      "Run exec (h # hs) w = ((r # rs) @ map skipped_result (drop (Suc k) (h # hs)), w')"
      using r k(2,3) False by auto
    moreover have "(\<forall>g \<in> set (h # hs). rh_Phase g = PhasePost) \<longrightarrow> Suc k = length (h # hs)"
      using k(6) by simp
    moreover have "\<forall>r \<in> set (r # rs). hr_Err r \<noteq> Some ErrSkipped" using k(7) ns by simp
    moreover have "Suc k \<le> length (h # hs)" using k(1) by simp
    ultimately show ?thesis by (intro exI [of _ "Suc k"] conjI exI [of _ "r # rs"] exI [of _ w']; blast)
  qed
qed

text \<open>
  A step that only exec calls can take: what every exec call of a chain keeps, the chain keeps.
\<close>

lemma runOne_keeps:
  assumes "I w" and "\<And>w. I w \<Longrightarrow> I (snd (exec (hook_call h) w))"
  shows "I (snd (runOne exec h w))"
  using assms(1) assms(2) [of w] by (auto simp: runOne_def Let_def split: prod.splits option.splits)

lemma Run_keeps:
  assumes "I w" and "\<And>h w. h \<in> set hs \<Longrightarrow> I w \<Longrightarrow> I (snd (exec (hook_call h) w))"
  shows "I (snd (Run exec hs w))"
  using assms
proof (induction hs arbitrary: w)
  case (Cons h hs)
  obtain r w1 where r: "runOne exec h w = (r, w1)" by fastforce
  have "I w1" using runOne_keeps [of I w exec h] Cons.prems r by simp
  then show ?case using r Cons.IH [of w1] Cons.prems(2) by (auto split: prod.splits)
qed simp

end
