(* ===== verification/Freeze_Window.thy ===== *)
theory Freeze_Window
  imports Hooks
begin

text \<open>
  The freeze window of a Backup (\<^verbatim>\<open>internal/controller/hooks_phase.go\<close>): the quiesce before the
  first snapshot, the release once every snapshot is cut, the release of what an aborted quiesce
  had already frozen, and the durable record in the Backup's status from which every later pass
  derives the state of the window. The in-memory Backup is passed and returned; the cluster is
  the world of \<open>bstate\<close>, read and written through the fields of \<open>hook_env\<close>. Span and metric
  emission is left out; events of the recorder are kept as a list.
\<close>

abbreviation HookSucceeded :: string where "HookSucceeded \<equiv> ''Succeeded''"
abbreviation HookFailed :: string where "HookFailed \<equiv> ''Failed''"
abbreviation HookSkipped :: string where "HookSkipped \<equiv> ''Skipped''"
abbreviation ConditionApplicationConsistent :: string
  where "ConditionApplicationConsistent \<equiv> ''ApplicationConsistent''"
abbreviation reasonQuiesced :: string where "reasonQuiesced \<equiv> ''Quiesced''"
abbreviation reasonCrashConsistent :: string where "reasonCrashConsistent \<equiv> ''CrashConsistent''"
abbreviation reasonReleasingAfterAbort :: string
  where "reasonReleasingAfterAbort \<equiv> ''ReleasingAfterAbortedQuiesce''"

definition postHookMaxAttempts :: i32 where "postHookMaxAttempts = 3"
definition hookMessageLimit :: nat where "hookMessageLimit = 1024"
definition backupPollInterval :: duration where "backupPollInterval = seconds 5"

record hookPhaseState =
  preRan :: bool
  aborted :: bool
  abortMessage :: string

datatype backup_event =
    HookExecutedEvent string string string
  | HookFailedEvent string string string hook_error
  | ConsistencyDegraded string
  | UnfreezeFailed nat i32
  | ReleaseRetrying nat i32
  | ReleaseUnresolvable i32 go_error
  | ReleaseUnresolved i32 go_error
  | BackupFailedEvent string
  | VolumeFailedEvent string string
  | VolumeSkippedEvent string
  | StaleLockUnlockEnqueued string
  | RetentionEnqueued string
  | FinalizingEvent

record 'w bstate =
  bw :: 'w
  bev :: "backup_event list"

abbreviation emit :: "backup_event \<Rightarrow> 'w bstate \<Rightarrow> 'w bstate" where
  "emit ev st \<equiv> st\<lparr>bev := bev st @ [ev]\<rparr>"

record ('w, 'expr) hook_env =
  he_libs :: "'expr hook_libs"
  he_now :: "'w \<Rightarrow> instant"
  he_Hooks :: "'w executor option"
  he_list_pods :: "string \<Rightarrow> 'w \<Rightarrow> api_error + Pod list"
  he_update_status :: "Backup \<Rightarrow> 'w \<Rightarrow> api_error option \<times> 'w"
  he_set_condition :: "Condition \<Rightarrow> Condition list \<Rightarrow> Condition list"
  he_find_condition :: "Condition list \<Rightarrow> string \<Rightarrow> Condition option"
  he_duration_String :: "duration \<Rightarrow> string"
  he_show_api :: "api_error \<Rightarrow> string"

fun hook_error_Error :: "(duration \<Rightarrow> string) \<Rightarrow> hook_error \<Rightarrow> string" where
  "hook_error_Error show ErrNoCommand = ''hook has no command''"
| "hook_error_Error show ErrSkipped = ''skipped: an earlier hook failed with onError=Fail''"
| "hook_error_Error show (HookTimedOut t err) = ''hook timed out after '' @ show t @ '': '' @ err"
| "hook_error_Error show (ExecError err) = err"

abbreviation b_hooks :: "Backup \<Rightarrow> HookStatus list" where "b_hooks b \<equiv> bs_Hooks (b_Status b)"
abbreviation b_attempts :: "Backup \<Rightarrow> i32" where "b_attempts b \<equiv> bs_PostHookAttempts (b_Status b)"
abbreviation b_volumes :: "Backup \<Rightarrow> VolumeStatus list" where "b_volumes b \<equiv> bs_Volumes (b_Status b)"

definition set_cond :: "('w, 'expr, 'z) hook_env_scheme \<Rightarrow> string \<Rightarrow> string \<Rightarrow> string \<Rightarrow> string \<Rightarrow> Backup \<Rightarrow> Backup" where
  "set_cond e condType status reason message b =
     b\<lparr>b_Status := (b_Status b)\<lparr>bs_Conditions :=
         SetCondition (he_set_condition e) condType status reason message (m_Generation (b_Meta b))
           (bs_Conditions (b_Status b))\<rparr>\<rparr>"

section \<open>State derived from the durable record\<close>

definition hookFailureTolerated :: "HookStatus \<Rightarrow> bool" where
  "hookFailureTolerated h \<longleftrightarrow> hs_OnError h = HookErrorPolicyContinue"

definition hookState :: "Backup \<Rightarrow> hookPhaseState" where
  "hookState backup =
     foldl (\<lambda>st h.
         if hs_Phase h \<noteq> PhasePre then st
         else
           let st = st\<lparr>preRan := True\<rparr>
           in if hs_Result h = HookFailed \<and> \<not> hookFailureTolerated h
              then st\<lparr>aborted := True,
                abortMessage := ''pre-backup hook failed in pod '' @ hs_Pod h @ '': '' @ hs_Message h\<rparr>
              else st)
       \<lparr>preRan = False, aborted = False, abortMessage = []\<rparr> (b_hooks backup)"

fun post_entries_settled :: "HookStatus list \<Rightarrow> bool \<Rightarrow> bool" where
  "post_entries_settled [] seen = seen"
| "post_entries_settled (h # hs) seen =
     (if hs_Phase h \<noteq> PhasePost then post_entries_settled hs seen
      else if hs_Result h = HookFailed \<and> \<not> hookFailureTolerated h then False
      else post_entries_settled hs True)"

definition postHooksRan :: "Backup \<Rightarrow> bool" where
  "postHooksRan backup =
     (if postHookMaxAttempts \<le>s b_attempts backup then True
      else post_entries_settled (b_hooks backup) False)"

fun snapshotsCut :: "VolumeStatus list \<Rightarrow> bool" where
  "snapshotsCut [] = True"
| "snapshotsCut (v # vs) =
     (if Phase v = VolumePhasePending \<or> Phase v = [] \<or> Phase v = VolumePhaseSnapshotting then False
      else snapshotsCut vs)"

text \<open>A set of owed pods, or \<open>None\<close> for no restriction.\<close>

type_synonym quiescedPods = "string set option"

definition quiescedPodsFromStatus :: "Backup \<Rightarrow> string set" where
  "quiescedPodsFromStatus backup =
     foldl (\<lambda>out h. if hs_Phase h = PhasePre \<and> hs_Result h = HookSucceeded then insert (hs_Pod h) out else out)
       {} (b_hooks backup)"

definition restrictToPods :: "Resolved list \<Rightarrow> quiescedPods \<Rightarrow> Resolved list" where
  "restrictToPods resolved owedTo =
     (case owedTo of
        None \<Rightarrow> resolved
      | Some pods \<Rightarrow> foldl (\<lambda>out h. if rh_PodName h \<in> pods then out @ [h] else out) [] resolved)"

section \<open>Resolving and recording\<close>

definition hookPhaseDeclared :: "'expr HooksSpec \<Rightarrow> string \<Rightarrow> bool" where
  "hookPhaseDeclared spec phase =
     (if hsp_HonorAnnotations spec then True
      else if phase = PhasePost then hsp_Post spec \<noteq> []
      else hsp_Pre spec \<noteq> [])"

fun mounts_any :: "string option list \<Rightarrow> string set \<Rightarrow> bool" where
  "mounts_any [] claims = False"
| "mounts_any (v # vs) claims =
     (case v of
        None \<Rightarrow> mounts_any vs claims
      | Some claim \<Rightarrow> if claim \<in> claims then True else mounts_any vs claims)"

definition podMountsAny :: "Pod \<Rightarrow> string set \<Rightarrow> bool" where
  "podMountsAny pod claims = mounts_any (pod_Volumes pod) claims"

definition resolveHooks ::
  "('w, 'expr, 'z) hook_env_scheme \<Rightarrow> Backup \<Rightarrow> 'expr HooksSpec \<Rightarrow> VolumeStatus list \<Rightarrow> string \<Rightarrow> 'w
   \<Rightarrow> go_error + Resolved list" where
  "resolveHooks e backup spec volumes phase w =
     (if \<not> hookPhaseDeclared spec phase then Inr []
      else case he_list_pods e (m_Namespace (b_Meta backup)) w of
             Inl err \<Rightarrow> Inl (Wrap (''list pods for hooks in '' @ m_Namespace (b_Meta backup)) (APIError err))
           | Inr pods \<Rightarrow>
               let claimed = set (map Pvc volumes);
                   mounting = foldl (\<lambda>ms p. if podMountsAny p claimed then ms @ [p] else ms) [] pods
               in Inr (Resolve (he_libs e) mounting spec phase))"

definition isSkipped :: "Result \<Rightarrow> bool" where
  "isSkipped res \<longleftrightarrow> hr_Err res = Some ErrSkipped"

definition failedResults :: "Result list \<Rightarrow> nat" where
  "failedResults results =
     foldl (\<lambda>n res. if hr_Err res \<noteq> None \<and> \<not> isSkipped res then Suc n else n) 0 results"

definition untoleratedResults :: "Result list \<Rightarrow> nat" where
  "untoleratedResults results =
     foldl (\<lambda>n res. if Aborts res \<and> \<not> isSkipped res then Suc n else n) 0 results"

definition dropHookPhase :: "HookStatus list \<Rightarrow> string \<Rightarrow> HookStatus list" where
  "dropHookPhase entries phase = foldl (\<lambda>out h. if hs_Phase h \<noteq> phase then out @ [h] else out) [] entries"

definition hook_entry :: "(duration \<Rightarrow> string) \<Rightarrow> instant \<Rightarrow> Result \<Rightarrow> HookStatus" where
  "hook_entry show now res =
     \<lparr>hs_Phase = rh_Phase (hr_Hook res), hs_Pod = rh_PodName (hr_Hook res),
      hs_Container = rh_Container (hr_Hook res), hs_Source = rh_Source (hr_Hook res),
      hs_Result = (case hr_Err res of None \<Rightarrow> HookSucceeded
                   | Some _ \<Rightarrow> if isSkipped res then HookSkipped else HookFailed),
      hs_OnError = rh_OnError (hr_Hook res),
      hs_Message = (case hr_Err res of None \<Rightarrow> []
                    | Some err \<Rightarrow> if isSkipped res then hook_error_Error show err
                        else truncate_string (hook_error_Error show err) hookMessageLimit),
      hs_FinishedAt = Some now\<rparr>"

definition hook_events :: "Result \<Rightarrow> backup_event list" where
  "hook_events res =
     (case hr_Err res of
        None \<Rightarrow> [HookExecutedEvent (rh_Phase (hr_Hook res)) (rh_PodName (hr_Hook res)) (rh_Container (hr_Hook res))]
      | Some err \<Rightarrow>
          if isSkipped res then []
          else [HookFailedEvent (rh_Phase (hr_Hook res)) (rh_PodName (hr_Hook res)) (rh_Container (hr_Hook res)) err])"

definition recordHookResults ::
  "('w, 'expr, 'z) hook_env_scheme \<Rightarrow> Result list \<Rightarrow> Backup \<Rightarrow> 'w bstate \<Rightarrow> Backup \<times> 'w bstate" where
  "recordHookResults e results backup st =
     (let now = he_now e (bw st)
      in foldl (\<lambda>(b, st) res.
             (b\<lparr>b_Status := (b_Status b)\<lparr>bs_Hooks := b_hooks b @ [hook_entry (he_duration_String e) now res]\<rparr>\<rparr>,
              st\<lparr>bev := bev st @ hook_events res\<rparr>))
           (backup, st) results)"

fun tolerated_failures :: "(duration \<Rightarrow> string) \<Rightarrow> Result list \<Rightarrow> string list \<Rightarrow> string list option" where
  "tolerated_failures show [] acc = Some acc"
| "tolerated_failures show (res # rs) acc =
     (if rh_Phase (hr_Hook res) \<noteq> PhasePre \<or> hr_Err res = None \<or> isSkipped res
      then tolerated_failures show rs acc
      else if \<not> Aborts res
      then tolerated_failures show rs (acc @ [''pod '' @ rh_PodName (hr_Hook res) @ '' ['' @
        rh_Container (hr_Hook res) @ ''] ('' @ rh_Source (hr_Hook res) @ ''): '' @
        (case hr_Err res of None \<Rightarrow> [] | Some err \<Rightarrow> hook_error_Error show err)])
      else None)"

definition recordConsistencyVerdict ::
  "('w, 'expr, 'z) hook_env_scheme \<Rightarrow> Result list \<Rightarrow> Backup \<Rightarrow> 'w bstate \<Rightarrow> Backup \<times> 'w bstate" where
  "recordConsistencyVerdict e results backup st =
     (case tolerated_failures (he_duration_String e) results [] of
        None \<Rightarrow> (backup, st)
      | Some tolerated \<Rightarrow>
          if tolerated = [] then
            (set_cond e ConditionApplicationConsistent ConditionTrue reasonQuiesced
               ''every pre-backup hook succeeded: the snapshots are application-consistent'' backup, st)
          else
            let message = truncate_string (''THIS RESTORE POINT IS CRASH-CONSISTENT ONLY: '' @
                  format_nat (length tolerated) @ '' pre-backup hook(s) failed and onError=Continue '' @
                  ''tolerated the failure, so the snapshots were taken without the quiesce having happened '' @
                  [CHR 0xE2, CHR 0x80, CHR 0x94] @ '' '' @ Join tolerated ''; '') hookMessageLimit
            in (set_cond e ConditionApplicationConsistent ConditionFalse reasonCrashConsistent message backup,
                emit (ConsistencyDegraded message) st))"

section \<open>Advancing the two phases\<close>

definition advancePreHooks ::
  "('w, 'expr, 'z) hook_env_scheme \<Rightarrow> Backup \<Rightarrow> 'expr HooksSpec \<Rightarrow> VolumeStatus list \<Rightarrow> 'w bstate
   \<Rightarrow> (go_error + bool) \<times> Backup \<times> 'w bstate" where
  "advancePreHooks e backup spec volumes st =
     (case resolveHooks e backup spec volumes PhasePre (bw st) of
        Inl err \<Rightarrow> (Inl err, backup, st)
      | Inr [] \<Rightarrow> (Inr False, backup, st)
      | Inr resolved \<Rightarrow>
          (case he_Hooks e of
             None \<Rightarrow> (Inl (ErrorNew (''hooks are configured for Backup '' @ m_Namespace (b_Meta backup) @ ''/'' @
                m_Name (b_Meta backup) @ '' but no pod-exec executor is wired'')), backup, st)
           | Some exec \<Rightarrow>
               (case Run exec resolved (bw st) of
                  (results, w) \<Rightarrow>
                    (case recordHookResults e results backup (st\<lparr>bw := w\<rparr>) of
                       (b, st) \<Rightarrow> (case recordConsistencyVerdict e results b st of
                         (b, st) \<Rightarrow> (Inr True, b, st))))))"

abbreviation bump_attempts :: "Backup \<Rightarrow> Backup" where
  "bump_attempts b \<equiv> b\<lparr>b_Status := (b_Status b)\<lparr>bs_PostHookAttempts := b_attempts b + 1\<rparr>\<rparr>"

definition recordUnresolvedRelease :: "go_error \<Rightarrow> Backup \<Rightarrow> 'w bstate \<Rightarrow> Backup \<times> 'w bstate" where
  "recordUnresolvedRelease cause backup st =
     (let backup = bump_attempts backup
      in if postHookMaxAttempts \<le>s b_attempts backup
         then (backup, emit (ReleaseUnresolvable (b_attempts backup) cause) st)
         else (backup, emit (ReleaseUnresolved (b_attempts backup) cause) st))"

definition advancePostHooks ::
  "('w, 'expr, 'z) hook_env_scheme \<Rightarrow> Backup \<Rightarrow> 'expr HooksSpec \<Rightarrow> VolumeStatus list \<Rightarrow> quiescedPods \<Rightarrow> 'w bstate
   \<Rightarrow> (go_error + bool) \<times> Backup \<times> 'w bstate" where
  "advancePostHooks e backup spec volumes owedTo st =
     (case resolveHooks e backup spec volumes PhasePost (bw st) of
        Inl err \<Rightarrow> (case recordUnresolvedRelease err backup st of (b, st) \<Rightarrow> (Inl err, b, st))
      | Inr resolved \<Rightarrow>
          let resolved = restrictToPods resolved owedTo
          in case (resolved, he_Hooks e) of
               (_ # _, Some exec) \<Rightarrow>
                 let backup = bump_attempts backup;
                     backup = backup\<lparr>b_Status := (b_Status backup)\<lparr>bs_Hooks :=
                       dropHookPhase (b_hooks backup) PhasePost\<rparr>\<rparr>
                 in (case Run exec resolved (bw st) of
                       (results, w) \<Rightarrow>
                         (case recordHookResults e results backup (st\<lparr>bw := w\<rparr>) of
                            (b, st) \<Rightarrow>
                              let n = untoleratedResults results
                              in (Inr True, b,
                                  if n > 0 then
                                    (if postHookMaxAttempts \<le>s b_attempts b
                                     then emit (UnfreezeFailed n (b_attempts b)) st
                                     else emit (ReleaseRetrying n (b_attempts b)) st)
                                  else st)))
             | _ \<Rightarrow> (Inr False, backup, st))"

section \<open>The steps of a reconcile pass\<close>

definition failHooks ::
  "('w, 'expr, 'z) hook_env_scheme \<Rightarrow> string \<Rightarrow> Backup \<Rightarrow> 'w bstate \<Rightarrow> go_error option \<times> Backup \<times> 'w bstate" where
  "failHooks e message backup st =
     (let now = he_now e (bw st);
          s = (b_Status backup)\<lparr>bs_Phase := BackupPhaseFailed\<rparr>;
          s = (if bs_BackupTime s = None then s\<lparr>bs_BackupTime := Some now\<rparr> else s);
          b = setCompletionTime now (backup\<lparr>b_Status := s\<rparr>);
          b = set_cond e ConditionReady ConditionFalse ''PreHookFailed'' message b
      in case he_update_status e b (bw st) of
           (Some err, w) \<Rightarrow> (Some (Wrap (''update status for Backup '' @ m_Namespace (b_Meta b) @ ''/'' @
              m_Name (b_Meta b)) (APIError err)), b, st\<lparr>bw := w\<rparr>)
         | (None, w) \<Rightarrow> (None, b, emit (BackupFailedEvent message) (st\<lparr>bw := w\<rparr>)))"

definition releaseAbortedQuiesce ::
  "('w, 'expr, 'z) hook_env_scheme \<Rightarrow> Backup \<Rightarrow> 'expr HooksSpec \<Rightarrow> 'w bstate
   \<Rightarrow> (bool \<times> go_error option) \<times> Backup \<times> 'w bstate" where
  "releaseAbortedQuiesce e backup spec st =
     (if postHooksRan backup then ((False, None), backup, st)
      else if hsp_Post spec = [] \<and> \<not> hsp_HonorAnnotations spec then ((False, None), backup, st)
      else
        let frozen = quiescedPodsFromStatus backup
        in if frozen = {} then ((False, None), backup, st)
           else (case advancePostHooks e backup spec (b_volumes backup) (Some frozen) st of
                   (Inl err, b, st) \<Rightarrow> ((True, Some err), b, st)
                 | (Inr False, b, st) \<Rightarrow> ((False, None), b, st)
                 | (Inr True, b, st) \<Rightarrow> ((\<not> postHooksRan b, None), b, st)))"

definition abortFreezeWindow ::
  "('w, 'expr, 'z) hook_env_scheme \<Rightarrow> Backup \<Rightarrow> hookPhaseState \<Rightarrow> 'expr HooksSpec \<Rightarrow> 'w bstate
   \<Rightarrow> (ctrl_result \<times> go_error option) \<times> Backup \<times> 'w bstate" where
  "abortFreezeWindow e backup hst spec st =
     (case releaseAbortedQuiesce e backup spec st of
        ((owed, releaseErr), b, st) \<Rightarrow>
          if \<not> owed then
            (case failHooks e (abortMessage hst) b st of (err, b, st) \<Rightarrow> ((NoRequeue, err), b, st))
          else
            let b = set_cond e ConditionReady ConditionFalse reasonReleasingAfterAbort
                  (truncate_string (abortMessage hst @ '' '' @ [CHR 0xE2, CHR 0x80, CHR 0x94] @
                     '' releasing the applications this run had already quiesced before the abort (attempt '' @
                     FormatInt (sint (b_attempts b)) @ '' of '' @ FormatInt (sint postHookMaxAttempts) @
                     ''); the run will then be reported Failed'') hookMessageLimit) b
            in (case he_update_status e b (bw st) of
                  (Some err, w) \<Rightarrow>
                    ((NoRequeue, errors_Join [Some (Wrap (''record the post-abort release for Backup '' @
                        m_Namespace (b_Meta b) @ ''/'' @ m_Name (b_Meta b)) (APIError err)), releaseErr]),
                     b, st\<lparr>bw := w\<rparr>)
                | (None, w) \<Rightarrow>
                    (case releaseErr of
                       Some err \<Rightarrow> ((NoRequeue, Some err), b, st\<lparr>bw := w\<rparr>)
                     | None \<Rightarrow> ((RequeueAfter backupPollInterval, None), b, st\<lparr>bw := w\<rparr>))))"

definition openFreezeWindow ::
  "('w, 'expr, 'z) hook_env_scheme \<Rightarrow> Backup \<Rightarrow> hookPhaseState \<Rightarrow> 'expr HooksSpec \<Rightarrow> 'w bstate
   \<Rightarrow> (ctrl_result \<times> bool \<times> go_error option) \<times> Backup \<times> 'w bstate" where
  "openFreezeWindow e backup hst spec st =
     (if aborted hst then
        (case abortFreezeWindow e backup hst spec st of ((res, err), b, st) \<Rightarrow> ((res, True, err), b, st))
      else if preRan hst then ((NoRequeue, False, None), backup, st)
      else (case advancePreHooks e backup spec (b_volumes backup) st of
              (Inl err, b, st) \<Rightarrow>
                (case failHooks e (''the pre-backup quiesce could not be performed: '' @
                        truncate_string (Error (he_show_api e) err) hookMessageLimit) b st of
                   (ferr, b, st) \<Rightarrow> ((NoRequeue, True, ferr), b, st))
            | (Inr False, b, st) \<Rightarrow> ((NoRequeue, False, None), b, st)
            | (Inr True, b, st) \<Rightarrow>
                let b = b\<lparr>b_Status := (b_Status b)\<lparr>bs_Phase := BackupPhaseSnapshottingHooks\<rparr>\<rparr>
                in (case he_update_status e b (bw st) of
                      (Some err, w) \<Rightarrow>
                        ((NoRequeue, True, Some (Wrap (''record pre-backup hooks for Backup '' @
                            m_Namespace (b_Meta b) @ ''/'' @ m_Name (b_Meta b)) (APIError err))), b, st\<lparr>bw := w\<rparr>)
                    | (None, w) \<Rightarrow> ((Requeue, True, None), b, st\<lparr>bw := w\<rparr>))))"

definition closeFreezeWindow ::
  "('w, 'expr, 'z) hook_env_scheme \<Rightarrow> Backup \<Rightarrow> 'expr HooksSpec \<Rightarrow> 'w bstate
   \<Rightarrow> (bool \<times> go_error option) \<times> Backup \<times> 'w bstate" where
  "closeFreezeWindow e backup spec st =
     (if postHooksRan backup then ((False, None), backup, st)
      else if hsp_Post spec = [] \<and> \<not> hsp_HonorAnnotations spec then ((False, None), backup, st)
      else if \<not> snapshotsCut (b_volumes backup) then ((True, None), backup, st)
      else (case advancePostHooks e backup spec (b_volumes backup) None st of
              (Inl err, b, st) \<Rightarrow> ((True, Some err), b, st)
            | (Inr False, b, st) \<Rightarrow> ((False, None), b, st)
            | (Inr True, b, st) \<Rightarrow> ((\<not> postHooksRan b, None), b, st)))"

end
