(* ===== verification/Location_Binding.thy ===== *)
theory Location_Binding
  imports Kube_Objects
begin

text \<open>
  Where a backup goes (\<^verbatim>\<open>internal/controller/location_binding.go\<close>): the two kinds of location,
  the one binding both are reduced to, and the lookups that lead from a repository back to its
  location and from a namespaced location to the cluster identifier it inherits. Reads of the API
  server are arguments; a reference to a Secret is its name, empty where it is unset.
\<close>

abbreviation kindBackupLocation :: string where "kindBackupLocation \<equiv> ''BackupLocation''"
abbreviation kindClusterBackupLocation :: string where "kindClusterBackupLocation \<equiv> ''ClusterBackupLocation''"
abbreviation scopeNamespaced :: string where "scopeNamespaced \<equiv> ''Namespaced''"
abbreviation scopeCluster :: string where "scopeCluster \<equiv> ''Cluster''"
abbreviation keySlotTenant :: string where "keySlotTenant \<equiv> ''tenant''"
abbreviation keySlotPlatform :: string where "keySlotPlatform \<equiv> ''platform''"
abbreviation namespacedRepoSeparator :: string where "namespacedRepoSeparator \<equiv> ''--''"
abbreviation LabelLocation :: string where "LabelLocation \<equiv> ''crystalbackup.io/location''"

datatype LocationMode = LocationModeStandard | LocationModeImmutable

record S3Spec =
  s3_Endpoint :: string
  s3_Bucket :: string
  s3_Prefix :: string
  s3_Region :: string
  s3_CredentialsSecretRef :: string
  s3_CABundle :: string
  s3_ForcePathStyle :: bool
  s3_Connections :: "i32 option"

record ClusterBackupLocation =
  cbl_Name :: string
  cbl_Default :: bool
  cbl_Mode :: LocationMode
  cbl_ClusterID :: string
  cbl_S3 :: S3Spec
  cbl_ClusterKEKSecretRef :: string
  cbl_Retention :: RetentionSpec

record BackupLocation =
  bl_Namespace :: string
  bl_Name :: string
  bl_Mode :: LocationMode
  bl_S3 :: S3Spec
  bl_RepositoryPasswordSecretRef :: "string option"
  bl_Retention :: RetentionSpec
  bl_StatusClusterID :: string

record BackupRepository =
  rep_Name :: string
  rep_Labels :: string_map
  rep_Controller :: "(string \<times> string) option"
  rep_Initialized :: bool
  rep_RepositoryURL :: string

record locationBinding =
  lb_Kind :: string
  lb_Namespace :: string
  lb_Name :: string
  lb_S3 :: S3Spec
  lb_Mode :: LocationMode
  lb_ClusterID :: string
  lb_CredsNamespace :: string
  lb_PasswordSecretRef :: string
  lb_Retention :: RetentionSpec

definition namespacedRepositoryName :: "string \<Rightarrow> string \<Rightarrow> string" where
  "namespacedRepositoryName namespace name = namespace @ namespacedRepoSeparator @ name"

definition Namespaced :: "locationBinding \<Rightarrow> bool" where
  "Namespaced b \<longleftrightarrow> lb_Kind b = kindBackupLocation"

definition Scope :: "locationBinding \<Rightarrow> string" where
  "Scope b = (if Namespaced b then scopeNamespaced else scopeCluster)"

definition KeySlots :: "locationBinding \<Rightarrow> string list" where
  "KeySlots b = (if \<not> Namespaced b then [keySlotPlatform] else [keySlotTenant])"

definition Describe :: "locationBinding \<Rightarrow> string" where
  "Describe b =
     (if lb_Namespace b = [] then lb_Kind b @ '' '' @ lb_Name b
      else lb_Kind b @ '' '' @ lb_Namespace b @ ''/'' @ lb_Name b)"

definition bindingFromClusterLocation :: "ClusterBackupLocation \<Rightarrow> string \<Rightarrow> locationBinding" where
  "bindingFromClusterLocation cbl operatorNamespace =
     \<lparr>lb_Kind = kindClusterBackupLocation, lb_Namespace = [], lb_Name = cbl_Name cbl, lb_S3 = cbl_S3 cbl,
      lb_Mode = cbl_Mode cbl, lb_ClusterID = cbl_ClusterID cbl, lb_CredsNamespace = operatorNamespace,
      lb_PasswordSecretRef = [], lb_Retention = cbl_Retention cbl\<rparr>"

definition passwordSecretRefName :: "BackupLocation \<Rightarrow> string" where
  "passwordSecretRefName loc = (case bl_RepositoryPasswordSecretRef loc of None \<Rightarrow> [] | Some name \<Rightarrow> name)"

definition bindingFromNamespacedLocation :: "BackupLocation \<Rightarrow> locationBinding" where
  "bindingFromNamespacedLocation loc =
     \<lparr>lb_Kind = kindBackupLocation, lb_Namespace = bl_Namespace loc, lb_Name = bl_Name loc, lb_S3 = bl_S3 loc,
      lb_Mode = bl_Mode loc, lb_ClusterID = bl_StatusClusterID loc, lb_CredsNamespace = bl_Namespace loc,
      lb_PasswordSecretRef = passwordSecretRefName loc, lb_Retention = bl_Retention loc\<rparr>"

definition repositoryBackLinkLabels :: "string \<Rightarrow> string \<Rightarrow> string_map" where
  "repositoryBackLinkLabels namespace name =
     [LabelManagedBy \<mapsto> ManagedByValue, LabelNamespace \<mapsto> namespace, LabelLocation \<mapsto> name]"

definition resolveLocationBinding ::
  "(string \<Rightarrow> string \<Rightarrow> api_error + BackupLocation) \<Rightarrow> (string \<Rightarrow> api_error + ClusterBackupLocation)
   \<Rightarrow> BackupRepository \<Rightarrow> string \<Rightarrow> api_error + locationBinding" where
  "resolveLocationBinding get_location get_cluster_location br operatorNamespace =
     (let ns = map_get (rep_Labels br) LabelNamespace; name = map_get (rep_Labels br) LabelLocation
      in if ns \<noteq> [] \<and> name \<noteq> [] then
           (case get_location ns name of
              Inl err \<Rightarrow> Inl err
            | Inr loc \<Rightarrow> Inr (bindingFromNamespacedLocation loc))
         else
           (case rep_Controller br of
              None \<Rightarrow> Inl NotFound
            | Some (kind, owner) \<Rightarrow>
                if kind \<noteq> kindClusterBackupLocation then Inl NotFound
                else (case get_cluster_location owner of
                        Inl err \<Rightarrow> Inl err
                      | Inr cbl \<Rightarrow> Inr (bindingFromClusterLocation cbl operatorNamespace))))"

fun best_default :: "ClusterBackupLocation list \<Rightarrow> string \<Rightarrow> string" where
  "best_default [] best = best"
| "best_default (l # ls) best =
     (if \<not> cbl_Default l \<or> cbl_ClusterID l = [] then best_default ls best
      else if best = [] \<or> cbl_Name l < best then best_default ls (cbl_Name l)
      else best_default ls best)"

fun cluster_id_of :: "ClusterBackupLocation list \<Rightarrow> string \<Rightarrow> string" where
  "cluster_id_of [] best = []"
| "cluster_id_of (l # ls) best = (if cbl_Name l = best then cbl_ClusterID l else cluster_id_of ls best)"

definition defaultClusterID :: "api_error + ClusterBackupLocation list \<Rightarrow> go_error + string" where
  "defaultClusterID listed =
     (case listed of
        Inl err \<Rightarrow> Inl (Wrap ''list ClusterBackupLocations to default the cluster ID'' (APIError err))
      | Inr locations \<Rightarrow>
          let best = best_default locations []
          in if best = [] then Inr [] else Inr (cluster_id_of locations best))"

section \<open>Properties\<close>

abbreviation default_candidate :: "ClusterBackupLocation \<Rightarrow> bool" where
  "default_candidate l \<equiv> cbl_Default l \<and> cbl_ClusterID l \<noteq> []"

lemma Min_insert2: "finite S \<Longrightarrow> Min (insert a (insert b S)) = Min (insert (min a b) S)" for a :: "'a :: linorder"
  by (cases "S = {}") (simp_all add: min.assoc)

lemma best_default_min:
  assumes "\<And>l. l \<in> set ls \<Longrightarrow> cbl_Name l \<noteq> []"
  shows "best_default ls best =
    (let names = cbl_Name ` {l \<in> set ls. default_candidate l} \<union> (if best = [] then {} else {best})
     in if names = {} then [] else Min names)"
  using assms
proof (induction ls arbitrary: best)
  case (Cons l ls)
  have rest: "\<And>l'. l' \<in> set ls \<Longrightarrow> cbl_Name l' \<noteq> []" and n: "cbl_Name l \<noteq> []" using Cons.prems by simp_all
  let ?S = "cbl_Name ` {l' \<in> set ls. default_candidate l'}"
  show ?case
  proof (cases "default_candidate l")
    case False
    then have "{l' \<in> set (l # ls). default_candidate l'} = {l' \<in> set ls. default_candidate l'}" by auto
    with False show ?thesis using Cons.IH [OF rest] by simp
  next
    case True
    then have set: "cbl_Name ` {l' \<in> set (l # ls). default_candidate l'} = insert (cbl_Name l) ?S" by auto
    show ?thesis
    proof (cases "best = []")
      case b: True
      then show ?thesis unfolding set using True n Cons.IH [OF rest, of "cbl_Name l"] by (simp add: Let_def)
    next
      case b: False
      let ?m = "min (cbl_Name l) best"
      have "Min (insert (cbl_Name l) (insert best ?S)) = Min (insert ?m ?S)" by (rule Min_insert2) simp
      moreover have "best_default (l # ls) best = best_default ls ?m"
        using True b by (auto simp: min_def not_less order.strict_iff_order)
      moreover have "?m \<noteq> []" using n b by (simp add: min_def)
      ultimately show ?thesis unfolding set using Cons.IH [OF rest, of ?m] b by (simp add: Let_def insert_commute)
    qed
  qed
qed simp

lemma cluster_id_of_unique:
  "distinct (map cbl_Name ls) \<Longrightarrow> l \<in> set ls \<Longrightarrow> cluster_id_of ls (cbl_Name l) = cbl_ClusterID l"
  by (induction ls) auto

text \<open>
  The cluster identifier a namespaced location inherits is the one of the default location whose
  name comes first, whatever order the server lists the locations in: two lists of the same
  locations answer the same, and the answer is empty exactly when no default location has one.
\<close>

theorem default_cluster_id_is_stable:
  assumes names: "\<And>l. l \<in> set ls \<Longrightarrow> cbl_Name l \<noteq> []" and d: "distinct (map cbl_Name ls)"
    and same: "set ls' = set ls" "distinct (map cbl_Name ls')"
  shows "defaultClusterID (Inr ls') = defaultClusterID (Inr ls) \<and>
    (defaultClusterID (Inr ls) = Inr [] \<longleftrightarrow> \<not> (\<exists>l \<in> set ls. default_candidate l)) \<and>
    (\<forall>l \<in> set ls. default_candidate l \<and> (\<forall>k \<in> set ls. default_candidate k \<longrightarrow> cbl_Name l \<le> cbl_Name k) \<longrightarrow>
       defaultClusterID (Inr ls) = Inr (cbl_ClusterID l))"
proof -
  let ?S = "cbl_Name ` {l \<in> set ls. default_candidate l}"
  have b: "best_default ls [] = (if ?S = {} then [] else Min ?S)" using best_default_min [of ls "[]"] names by (simp add: Let_def)
  have b': "best_default ls' [] = best_default ls []"
    unfolding b using best_default_min [of ls' "[]"] names same(1) by (simp add: Let_def)
  have pick: "defaultClusterID (Inr xs) = Inr (cbl_ClusterID l)"
    if "best_default xs [] = best_default ls []" "set xs = set ls" "distinct (map cbl_Name xs)" "l \<in> set ls"
      "default_candidate l" "best_default ls [] = cbl_Name l" for xs l
    using that cluster_id_of_unique [of xs l] names by (simp add: defaultClusterID_def)
  have low: "best_default ls [] = cbl_Name l" if "l \<in> set ls" "default_candidate l"
    "\<forall>k \<in> set ls. default_candidate k \<longrightarrow> cbl_Name l \<le> cbl_Name k" for l
  proof -
    have "Min ?S = cbl_Name l" using that by (intro Min_eqI) auto
    with that show ?thesis by (auto simp: b)
  qed
  show ?thesis
  proof (cases "?S = {}")
    case True
    with b b' show ?thesis by (auto simp: defaultClusterID_def)
  next
    case False
    then have "Min ?S \<in> ?S" by (intro Min_in) auto
    then obtain l where l: "l \<in> set ls" "default_candidate l" "Min ?S = cbl_Name l" by auto
    with False have l3: "best_default ls [] = cbl_Name l" by (simp only: b if_False)
    have e: "defaultClusterID (Inr ls) = Inr (cbl_ClusterID l)" by (rule pick [OF refl refl d l(1,2) l3])
    show ?thesis
    proof (intro conjI ballI impI)
      show "defaultClusterID (Inr ls') = defaultClusterID (Inr ls)"
        unfolding e by (rule pick [OF b' same l(1,2) l3])
      show "defaultClusterID (Inr ls) = Inr [] \<longleftrightarrow> \<not> (\<exists>l \<in> set ls. default_candidate l)" using e l(1,2) by auto
      show "defaultClusterID (Inr ls) = Inr (cbl_ClusterID k)" if "k \<in> set ls"
        "default_candidate k \<and> (\<forall>j \<in> set ls. default_candidate j \<longrightarrow> cbl_Name k \<le> cbl_Name j)" for k
        by (rule pick [OF refl refl d that(1) conjunct1 [OF that(2)] low [OF that(1) conjunct1 [OF that(2)] conjunct2 [OF that(2)]]])
    qed
  qed
qed

text \<open>
  A repository made for a namespaced location leads back to that location and to nothing else:
  the back-link labels name its namespace, the credentials and the password are read there, and the
  repository advertises the tenant's key; a repository without the labels resolves only through a
  controlling cluster location, whose credentials are the operator's own.
\<close>

theorem repository_leads_back_to_its_location:
  assumes "resolveLocationBinding get_location get_cluster_location br ops = Inr b"
  shows "if map_get (rep_Labels br) LabelNamespace \<noteq> [] \<and> map_get (rep_Labels br) LabelLocation \<noteq> []
    then \<exists>loc. get_location (map_get (rep_Labels br) LabelNamespace) (map_get (rep_Labels br) LabelLocation) = Inr loc \<and>
      b = bindingFromNamespacedLocation loc \<and> Namespaced b \<and> KeySlots b = [keySlotTenant] \<and>
      lb_CredsNamespace b = bl_Namespace loc
    else \<exists>owner cbl. rep_Controller br = Some (kindClusterBackupLocation, owner) \<and> get_cluster_location owner = Inr cbl \<and>
      b = bindingFromClusterLocation cbl ops \<and> \<not> Namespaced b \<and> KeySlots b = [keySlotPlatform] \<and>
      lb_CredsNamespace b = ops"
  using assms unfolding resolveLocationBinding_def Let_def
  by (auto simp: bindingFromNamespacedLocation_def bindingFromClusterLocation_def Namespaced_def KeySlots_def
      split: if_splits sum.splits option.splits prod.splits)

definition demo_retention :: RetentionSpec where
  "demo_retention = \<lparr>KeepLast = 0, KeepHourly = 0, KeepDaily = 7, KeepWeekly = 0, KeepMonthly = 0, KeepYearly = 0\<rparr>"

definition demo_s3 :: S3Spec where
  "demo_s3 = \<lparr>s3_Endpoint = ''e'', s3_Bucket = ''b'', s3_Prefix = [], s3_Region = [], s3_CredentialsSecretRef = ''s3'',
     s3_CABundle = [], s3_ForcePathStyle = False, s3_Connections = None\<rparr>"

definition demo_location :: "string \<Rightarrow> string \<Rightarrow> ClusterBackupLocation" where
  "demo_location name cid = \<lparr>cbl_Name = name, cbl_Default = True, cbl_Mode = LocationModeStandard, cbl_ClusterID = cid,
     cbl_S3 = demo_s3, cbl_ClusterKEKSecretRef = ''kek'', cbl_Retention = demo_retention\<rparr>"

theorem default_cluster_id_is_stable_witness:
  "defaultClusterID (Inr [demo_location ''b'' ''two'', demo_location ''a'' ''one'']) = Inr ''one''"
proof -
  let ?ls = "[demo_location ''a'' ''one'', demo_location ''b'' ''two'']"
  have "defaultClusterID (Inr [demo_location ''b'' ''two'', demo_location ''a'' ''one'']) = defaultClusterID (Inr ?ls)"
    by (rule conjunct1 [OF default_cluster_id_is_stable]) (auto simp: demo_location_def)
  then show ?thesis by (simp add: defaultClusterID_def demo_location_def)
qed

theorem repository_leads_back_to_its_location_witness:
  "Namespaced (bindingFromNamespacedLocation \<lparr>bl_Namespace = ''shop'', bl_Name = ''off'', bl_Mode = LocationModeStandard,
     bl_S3 = demo_s3, bl_RepositoryPasswordSecretRef = None, bl_Retention = demo_retention, bl_StatusClusterID = ''c''\<rparr>)"
proof -
  let ?loc = "\<lparr>bl_Namespace = ''shop'', bl_Name = ''off'', bl_Mode = LocationModeStandard,
     bl_S3 = demo_s3, bl_RepositoryPasswordSecretRef = None, bl_Retention = demo_retention, bl_StatusClusterID = ''c''\<rparr>"
  let ?br = "\<lparr>rep_Name = ''shop--off'', rep_Labels = repositoryBackLinkLabels ''shop'' ''off'', rep_Controller = None,
     rep_Initialized = True, rep_RepositoryURL = []\<rparr>"
  have l: "map_get (rep_Labels ?br) LabelNamespace = ''shop''" "map_get (rep_Labels ?br) LabelLocation = ''off''"
    by (simp_all add: repositoryBackLinkLabels_def map_get_def)
  then have "resolveLocationBinding (\<lambda>_ _. Inr ?loc) (\<lambda>_. Inl NotFound) ?br ''ops'' = Inr (bindingFromNamespacedLocation ?loc)"
    by (simp add: resolveLocationBinding_def Let_def)
  from repository_leads_back_to_its_location [OF this] l show ?thesis by simp
qed

end
