(* ===== verification/Mover_Result.thy ===== *)
theory Mover_Result
  imports Kube_Objects
begin

text \<open>
  The mover's result contract (\<^verbatim>\<open>internal/mover/result.go\<close>) and how the controllers read it back
  from the pods of a Job (\<^verbatim>\<open>readMoverResult\<close> and its helpers in
  \<^verbatim>\<open>internal/controller/backup_controller.go\<close>). JSON encoding and decoding are arguments; the measured
  memory figures, which nothing here reads, are left out of the record.
\<close>

section \<open>The result and its budget\<close>

record ResourceEntry =
  re_Group :: string
  re_Kind :: string
  re_Name :: string
  re_Outcome :: string
  re_Reason :: string
  re_Changed :: "string list"

record MoverResult =
  OK :: bool
  mr_Operation :: string
  mr_SnapshotID :: string
  mr_SizeBytes :: int
  mr_AddedBytes :: int
  mr_RestoredBytes :: int
  mr_ResourceCount :: i32
  IncompleteManifests :: bool
  RestoredResources :: i32
  FailedResources :: i32
  SkippedResources :: i32
  ResourceEntries :: "ResourceEntry list"
  ResourcesTruncated :: bool
  mr_Error :: string

definition zero_result :: MoverResult where
  "zero_result = \<lparr>OK = False, mr_Operation = [], mr_SnapshotID = [], mr_SizeBytes = 0, mr_AddedBytes = 0,
     mr_RestoredBytes = 0, mr_ResourceCount = 0, IncompleteManifests = False, RestoredResources = 0,
     FailedResources = 0, SkippedResources = 0, ResourceEntries = [], ResourcesTruncated = False, mr_Error = []\<rparr>"

definition TerminationMessageLimit :: nat where "TerminationMessageLimit = 4096"
definition resultSizeMargin :: nat where "resultSizeMargin = 256"
definition maxReasonLength :: nat where "maxReasonLength = 180"
abbreviation OutcomeFailedWire :: string where "OutcomeFailedWire \<equiv> ''Failed''"

definition encodedLen :: "(MoverResult \<Rightarrow> string option) \<Rightarrow> MoverResult \<Rightarrow> nat" where
  "encodedLen marshal r =
     (case marshal r of None \<Rightarrow> TerminationMessageLimit + 1 | Some encoded \<Rightarrow> length encoded)"

definition shorten_reason :: "ResourceEntry \<Rightarrow> ResourceEntry" where
  "shorten_reason en =
     (if length (re_Reason en) > maxReasonLength
      then en\<lparr>re_Reason := take maxReasonLength (re_Reason en) @ [CHR 0xE2, CHR 0x80, CHR 0xA6]\<rparr> else en)"

function drop_tail :: "(MoverResult \<Rightarrow> string option) \<Rightarrow> MoverResult \<Rightarrow> MoverResult" where
  "drop_tail marshal r =
     (if length (ResourceEntries r) > 0 \<and>
         encodedLen marshal r > TerminationMessageLimit - resultSizeMargin
      then drop_tail marshal (r\<lparr>ResourceEntries := butlast (ResourceEntries r), ResourcesTruncated := True\<rparr>)
      else r)"
  by pat_completeness auto
termination by (relation "measure (\<lambda>(m, r). length (ResourceEntries r))") simp_all

declare drop_tail.simps [simp del]

definition Fit :: "(MoverResult \<Rightarrow> string option) \<Rightarrow> MoverResult \<Rightarrow> MoverResult" where
  "Fit marshal r =
     (let r = r\<lparr>ResourceEntries := map shorten_reason (ResourceEntries r)\<rparr>
      in if encodedLen marshal r \<le> TerminationMessageLimit - resultSizeMargin then r
         else
           let failed = foldl (\<lambda>es en. if re_Outcome en = OutcomeFailedWire then es @ [en] else es) []
                 (ResourceEntries r);
               ordered = foldl (\<lambda>es en. if re_Outcome en \<noteq> OutcomeFailedWire then es @ [en] else es) failed
                 (ResourceEntries r)
           in drop_tail marshal (r\<lparr>ResourceEntries := ordered\<rparr>))"

section \<open>Decoding\<close>

datatype result_error = EmptyTerminationMessage | UndecodableMessage string string

definition ParseMoverResult :: "(string \<Rightarrow> string + MoverResult) \<Rightarrow> string \<Rightarrow> result_error + MoverResult" where
  "ParseMoverResult unmarshal msg =
     (if TrimSpace msg = [] then Inl EmptyTerminationMessage
      else case unmarshal msg of Inl err \<Rightarrow> Inl (UndecodableMessage msg err) | Inr r \<Rightarrow> Inr r)"

abbreviation messageTypeSummary :: string where "messageTypeSummary \<equiv> ''summary''"

record ResticBackupSummary =
  sum_MessageType :: string
  sum_SnapshotID :: string
  sum_TotalBytesProcessed :: int
  sum_DataAdded :: int

record ResticRestoreSummary =
  rsum_MessageType :: string
  rsum_TotalBytes :: int
  rsum_BytesRestored :: int
  rsum_FilesRestored :: int

text \<open>
  The scan keeps what the closure keeps: the last line that decodes. \<^verbatim>\<open>ReadBytes\<close> hands out the
  lines of the stream, the last one possibly unterminated.
\<close>

definition scanSummaryLines :: "string \<Rightarrow> (string \<Rightarrow> 's option) \<Rightarrow> 's option" where
  "scanSummaryLines stdout tryDecode =
     foldl (\<lambda>found candidate.
         let trimmed = TrimSpace candidate
         in if trimmed \<noteq> [] \<and> hd trimmed = CHR ''{'' then
              (case tryDecode trimmed of Some s \<Rightarrow> Some s | None \<Rightarrow> found)
            else found)
       None (Split stdout (CHR 10))"

definition ParseBackupSummary :: "(string \<Rightarrow> ResticBackupSummary option) \<Rightarrow> string \<Rightarrow> nat + ResticBackupSummary" where
  "ParseBackupSummary unmarshal stdout =
     (case scanSummaryLines stdout (\<lambda>line.
             case unmarshal line of
               Some candidate \<Rightarrow> if sum_MessageType candidate = messageTypeSummary then Some candidate else None
             | None \<Rightarrow> None) of
        None \<Rightarrow> Inl (length stdout)
      | Some summary \<Rightarrow> Inr summary)"

definition SummaryToResult :: "string \<Rightarrow> ResticBackupSummary \<Rightarrow> MoverResult" where
  "SummaryToResult oper s = zero_result\<lparr>OK := True, mr_Operation := oper, mr_SnapshotID := sum_SnapshotID s,
     mr_SizeBytes := sum_TotalBytesProcessed s, mr_AddedBytes := sum_DataAdded s\<rparr>"

definition ParseRestoreSummary :: "(string \<Rightarrow> ResticRestoreSummary option) \<Rightarrow> string \<Rightarrow> nat + ResticRestoreSummary" where
  "ParseRestoreSummary unmarshal stdout =
     (case scanSummaryLines stdout (\<lambda>line.
             case unmarshal line of
               Some candidate \<Rightarrow> if rsum_MessageType candidate = messageTypeSummary then Some candidate else None
             | None \<Rightarrow> None) of
        None \<Rightarrow> Inl (length stdout)
      | Some summary \<Rightarrow> Inr summary)"

definition RestoreSummaryToResult :: "ResticRestoreSummary \<Rightarrow> MoverResult" where
  "RestoreSummaryToResult s = zero_result\<lparr>OK := True, mr_Operation := ''restore'',
     mr_SizeBytes := rsum_TotalBytes s, mr_RestoredBytes := rsum_BytesRestored s\<rparr>"

section \<open>Reading a result from the pods of a Job\<close>

abbreviation podReasonEvicted :: string where "podReasonEvicted \<equiv> ''Evicted''"
abbreviation containerReasonOOMKilled :: string where "containerReasonOOMKilled \<equiv> ''OOMKilled''"

fun oom_killed :: "ContainerStatus list \<Rightarrow> bool" where
  "oom_killed [] = False"
| "oom_killed (c # cs) =
     (case cst_Terminated c of
        Some t \<Rightarrow> if t_Reason t = containerReasonOOMKilled then True else oom_killed cs
      | None \<Rightarrow> oom_killed cs)"

definition podKillReason :: "Pod \<Rightarrow> string" where
  "podKillReason pod =
     (if pod_Reason pod = podReasonEvicted then
        (let message = TrimSpace (pod_Message pod)
         in if message = [] then ''MoverEvicted'' else ''MoverEvicted: '' @ message)
      else if oom_killed (pod_ContainerStatuses pod) then ''MoverOOMKilled: the mover exceeded its memory limit''
      else [])"

datatype read_error = ReadListError api_error | moverKilledError string | ReadParseError result_error | NoTerminatedPod

text \<open>The first container's termination, if it has one.\<close>

definition first_termination :: "Pod \<Rightarrow> Terminated option" where
  "first_termination pod =
     (case pod_ContainerStatuses pod of [] \<Rightarrow> None | c # _ \<Rightarrow> cst_Terminated c)"

definition parsed_result ::
  "(string \<Rightarrow> string + MoverResult) \<Rightarrow> string \<Rightarrow> string \<Rightarrow> MoverResult \<times> string \<times> read_error option" where
  "parsed_result unmarshal msg node =
     (case ParseMoverResult unmarshal msg of
        Inl err \<Rightarrow> (zero_result, node, Some (ReadParseError err))
      | Inr r \<Rightarrow> (r, node, None))"

fun read_pods ::
  "(string \<Rightarrow> string + MoverResult) \<Rightarrow> Pod list \<Rightarrow> (Pod \<times> string) option \<Rightarrow> (Pod \<times> Terminated) option
   \<Rightarrow> MoverResult \<times> string \<times> read_error option" where
  "read_pods unmarshal [] killed fallback =
     (case killed of
        Some (pod, reason) \<Rightarrow> (zero_result, pod_NodeName pod, Some (moverKilledError reason))
      | None \<Rightarrow>
          (case fallback of
             Some (pod, t) \<Rightarrow> parsed_result unmarshal (t_Message t) (pod_NodeName pod)
           | None \<Rightarrow> (zero_result, [], Some NoTerminatedPod)))"
| "read_pods unmarshal (pod # pods) killed fallback =
     (let reason = podKillReason pod;
          killed = (if reason \<noteq> [] \<and> killed = None then Some (pod, reason) else killed)
      in case first_termination pod of
           None \<Rightarrow> read_pods unmarshal pods killed fallback
         | Some t \<Rightarrow>
             if t_ExitCode t = 0 then parsed_result unmarshal (t_Message t) (pod_NodeName pod)
             else read_pods unmarshal pods killed (if fallback = None then Some (pod, t) else fallback))"

definition readMoverResult ::
  "(string \<Rightarrow> string + MoverResult) \<Rightarrow> api_error + Pod list \<Rightarrow> MoverResult \<times> string \<times> read_error option" where
  "readMoverResult unmarshal listed =
     (case listed of
        Inl err \<Rightarrow> (zero_result, [], Some (ReadListError err))
      | Inr pods \<Rightarrow> read_pods unmarshal pods None None)"

fun kill_detail :: "Pod list \<Rightarrow> string" where
  "kill_detail [] = []"
| "kill_detail (pod # pods) = (let reason = podKillReason pod in if reason \<noteq> [] then '': '' @ reason else kill_detail pods)"

definition killDetail :: "api_error + Pod list \<Rightarrow> string" where
  "killDetail listed = (case listed of Inl _ \<Rightarrow> [] | Inr pods \<Rightarrow> kill_detail pods)"

definition moverFailureReason :: "MoverResult \<Rightarrow> read_error option \<Rightarrow> string" where
  "moverFailureReason result parseErr =
     (case parseErr of
        Some (moverKilledError reason) \<Rightarrow> shortReason reason
      | Some _ \<Rightarrow> ''MoverCrashed''
      | None \<Rightarrow> if mr_Error result \<noteq> [] then shortReason (mr_Error result) else ''MoverJobFailed'')"

section \<open>The budget is met and failures go last\<close>

lemma drop_tail_prefix:
  "\<exists>n. ResourceEntries (drop_tail m r) = take n (ResourceEntries r) \<and>
     (ResourcesTruncated (drop_tail m r) \<longleftrightarrow> ResourcesTruncated r \<or> n < length (ResourceEntries r)) \<and>
     drop_tail m r = r\<lparr>ResourceEntries := ResourceEntries (drop_tail m r),
       ResourcesTruncated := ResourcesTruncated (drop_tail m r)\<rparr>"
proof (induction m r rule: drop_tail.induct)
  case (1 m r)
  show ?case
  proof (cases "length (ResourceEntries r) > 0 \<and> encodedLen m r > TerminationMessageLimit - resultSizeMargin")
    case True
    let ?r = "r\<lparr>ResourceEntries := butlast (ResourceEntries r), ResourcesTruncated := True\<rparr>"
    from 1 [OF True] obtain n where "ResourceEntries (drop_tail m ?r) = take n (ResourceEntries ?r)"
      "ResourcesTruncated (drop_tail m ?r) \<longleftrightarrow> ResourcesTruncated ?r \<or> n < length (ResourceEntries ?r)"
      "drop_tail m ?r = ?r\<lparr>ResourceEntries := ResourceEntries (drop_tail m ?r),
        ResourcesTruncated := ResourcesTruncated (drop_tail m ?r)\<rparr>" by blast
    then have n: "ResourceEntries (drop_tail m ?r) = take n (butlast (ResourceEntries r))"
      "ResourcesTruncated (drop_tail m ?r)"
      "drop_tail m ?r = ?r\<lparr>ResourceEntries := ResourceEntries (drop_tail m ?r),
        ResourcesTruncated := ResourcesTruncated (drop_tail m ?r)\<rparr>" by simp_all
    have step: "drop_tail m r = drop_tail m ?r" using True by (subst drop_tail.simps) simp
    have "take n (butlast (ResourceEntries r)) = take (min n (length (ResourceEntries r) - 1)) (ResourceEntries r)"
      by (simp add: butlast_conv_take min.commute)
    moreover have "min n (length (ResourceEntries r) - 1) < length (ResourceEntries r)"
      using True by (cases "ResourceEntries r") simp_all
    moreover have "drop_tail m r = r\<lparr>ResourceEntries := ResourceEntries (drop_tail m r),
       ResourcesTruncated := ResourcesTruncated (drop_tail m r)\<rparr>"
      unfolding step by (subst n(3)) simp
    ultimately show ?thesis using n(1,2) step
      by (intro exI [of _ "min n (length (ResourceEntries r) - 1)"] conjI) simp_all
  next
    case False
    have "drop_tail m r = r" by (rule trans [OF drop_tail.simps if_not_P [OF False]])
    then show ?thesis by (intro exI [of _ "length (ResourceEntries r)"]) simp
  qed
qed

lemma drop_tail_fits:
  "encodedLen m (drop_tail m r) \<le> TerminationMessageLimit - resultSizeMargin \<or> ResourceEntries (drop_tail m r) = []"
proof (induction m r rule: drop_tail.induct)
  case (1 m r)
  show ?case
  proof (cases "length (ResourceEntries r) > 0 \<and> encodedLen m r > TerminationMessageLimit - resultSizeMargin")
    case True
    then show ?thesis using 1 by (simp add: drop_tail.simps [of m r])
  next
    case False
    have "drop_tail m r = r" by (rule trans [OF drop_tail.simps if_not_P [OF False]])
    then show ?thesis using False by auto
  qed
qed

abbreviation failure_first :: "ResourceEntry list \<Rightarrow> ResourceEntry list" where
  "failure_first es \<equiv> filter (\<lambda>en. re_Outcome en = OutcomeFailedWire) es @
     filter (\<lambda>en. re_Outcome en \<noteq> OutcomeFailedWire) es"

text \<open>
  The report fits the termination message as far as entries can make it fit, and nothing is
  lost silently. After trimming, either the encoding is within the budget or no entry is left; the
  entries are the shortened ones, all of them in order or an initial part of the failures followed by the rest, so
  a failure is dropped only when every other entry is gone; the truncation flag is raised exactly when an entry was
  dropped; and every other field, the counts included, is untouched.
\<close>

theorem fit_keeps_the_accounting:
  assumes "Fit m r = r'" and "\<not> ResourcesTruncated r"
  shows "(encodedLen m r' \<le> TerminationMessageLimit - resultSizeMargin \<or> ResourceEntries r' = []) \<and>
    (ResourceEntries r' = map shorten_reason (ResourceEntries r) \<and> \<not> ResourcesTruncated r' \<or>
     (\<exists>n. ResourceEntries r' = take n (failure_first (map shorten_reason (ResourceEntries r))) \<and>
        (ResourcesTruncated r' \<longleftrightarrow> n < length (ResourceEntries r)))) \<and>
    r' = r\<lparr>ResourceEntries := ResourceEntries r', ResourcesTruncated := ResourcesTruncated r'\<rparr>"
proof -
  let ?r1 = "r\<lparr>ResourceEntries := map shorten_reason (ResourceEntries r)\<rparr>"
  let ?r2 = "?r1\<lparr>ResourceEntries := failure_first (map shorten_reason (ResourceEntries r))\<rparr>"
  have fit: "r' = (if encodedLen m ?r1 \<le> TerminationMessageLimit - resultSizeMargin then ?r1 else drop_tail m ?r2)"
    using assms(1) unfolding Fit_def Let_def foldl_filter append_Nil by (auto split: if_splits)
  show ?thesis
  proof (cases "encodedLen m ?r1 \<le> TerminationMessageLimit - resultSizeMargin")
    case True
    then show ?thesis using fit assms(2) by simp
  next
    case False
    have len: "length (failure_first (map shorten_reason (ResourceEntries r))) = length (ResourceEntries r)"
      using sum_length_filter_compl [of "\<lambda>en. re_Outcome en = OutcomeFailedWire" "map shorten_reason (ResourceEntries r)"]
      by simp
    have r': "r' = drop_tail m ?r2" using fit False by (simp only: if_False)
    obtain n where "ResourceEntries r' = take n (ResourceEntries ?r2)"
      "ResourcesTruncated r' \<longleftrightarrow> ResourcesTruncated ?r2 \<or> n < length (ResourceEntries ?r2)"
      and n3: "r' = ?r2\<lparr>ResourceEntries := ResourceEntries r', ResourcesTruncated := ResourcesTruncated r'\<rparr>"
      unfolding r' using drop_tail_prefix [of m ?r2] by blast
    then have n: "ResourceEntries r' = take n (failure_first (map shorten_reason (ResourceEntries r)))"
      "ResourcesTruncated r' \<longleftrightarrow> n < length (ResourceEntries r)"
      using assms(2) len by simp_all
    have "r' = r\<lparr>ResourceEntries := ResourceEntries r', ResourcesTruncated := ResourcesTruncated r'\<rparr>"
      by (subst n3) simp
    then show ?thesis using n drop_tail_fits [of m ?r2] unfolding r' by blast
  qed
qed

theorem fit_keeps_the_accounting_witness:
  "ResourceEntries (Fit (\<lambda>_. Some []) zero_result) = []"
proof -
  have z: "ResourceEntries zero_result = []" "\<not> ResourcesTruncated zero_result" by (simp_all add: zero_result_def)
  show ?thesis using fit_keeps_the_accounting [OF refl z(2), of "\<lambda>_. Some []"] z(1)
    by (elim conjE disjE exE) simp_all
qed

section \<open>What the shim reports\<close>

abbreviation OpBackup :: string where "OpBackup \<equiv> ''backup''"
abbreviation OpRestore :: string where "OpRestore \<equiv> ''restore''"
abbreviation OpInit :: string where "OpInit \<equiv> ''init''"
abbreviation OpManifestsBackup :: string where "OpManifestsBackup \<equiv> ''manifests-backup''"
abbreviation OpManifestsRestore :: string where "OpManifestsRestore \<equiv> ''manifests-restore''"
abbreviation OpClusterManifestsBackup :: string where "OpClusterManifestsBackup \<equiv> ''cluster-manifests-backup''"
abbreviation OpClusterManifestsRestore :: string where "OpClusterManifestsRestore \<equiv> ''cluster-manifests-restore''"
abbreviation jsonFlag :: string where "jsonFlag \<equiv> ''--json''"

definition maxErrorBytes :: nat where "maxErrorBytes = 512"

definition parsesJSONSummary :: "string \<Rightarrow> bool" where
  "parsesJSONSummary oper \<longleftrightarrow> oper = OpBackup \<or> oper = OpRestore \<or> oper = OpManifestsBackup \<or>
     oper = OpManifestsRestore \<or> oper = OpClusterManifestsBackup \<or> oper = OpClusterManifestsRestore"

definition ensureSummaryJSON :: "string \<Rightarrow> string list \<Rightarrow> string list" where
  "ensureSummaryJSON oper resticArgv =
     (if \<not> parsesJSONSummary oper then resticArgv
      else if jsonFlag \<in> set resticArgv then resticArgv
      else resticArgv @ [jsonFlag])"

definition isAlreadyInitialized :: "string option \<Rightarrow> bool" where
  "isAlreadyInitialized err =
     (case err of None \<Rightarrow> False | Some msg \<Rightarrow> Contains (ToLower msg) ''already initialized'')"

text \<open>\<^verbatim>\<open>strings.Fields\<close> on the ASCII white space it meets here.\<close>

function Fields :: "string \<Rightarrow> string list" where
  "Fields s =
     (let t = dropWhile (\<lambda>c. c \<in> set ascii_space) s
      in if t = [] then []
         else takeWhile (\<lambda>c. c \<notin> set ascii_space) t # Fields (dropWhile (\<lambda>c. c \<notin> set ascii_space) t))"
  by pat_completeness auto
termination
proof (relation "measure length")
  fix s t assume t: "t = dropWhile (\<lambda>c. c \<in> set ascii_space) s" "t \<noteq> []"
  then obtain c u where cu: "t = c # u" "c \<notin> set ascii_space" by (metis hd_dropWhile list.collapse)
  then have "length (dropWhile (\<lambda>c. c \<notin> set ascii_space) t) \<le> length u" by (simp add: length_dropWhile_le)
  moreover have "length t \<le> length s" unfolding t by (rule length_dropWhile_le)
  ultimately show "(dropWhile (\<lambda>c. c \<notin> set ascii_space) t, s) \<in> measure length" using cu by simp
qed simp

declare Fields.simps [simp del]

definition clampError :: "string \<Rightarrow> string" where
  "clampError err =
     (let msg = Join (Fields err) '' '';
          msg = (if msg = [] then ''restic exited with an unspecified error'' else msg)
      in if length msg > maxErrorBytes then take maxErrorBytes msg else msg)"

definition missing_summary :: "string \<Rightarrow> nat \<Rightarrow> string" where
  "missing_summary what n = ''no restic '' @ what @ '' summary (message_type=\"summary\") in '' @ format_nat n @
     '' bytes of --json output''"

definition failed_result :: "string \<Rightarrow> string \<Rightarrow> MoverResult" where
  "failed_result oper err = zero_result\<lparr>mr_Operation := oper, mr_Error := clampError err\<rparr>"

definition buildResult ::
  "(string \<Rightarrow> ResticBackupSummary option) \<Rightarrow> (string \<Rightarrow> ResticRestoreSummary option)
   \<Rightarrow> string \<Rightarrow> string \<Rightarrow> string option \<Rightarrow> MoverResult" where
  "buildResult backup_json restore_json oper stdout resticErr =
     (case resticErr of
        Some err \<Rightarrow>
          if oper = OpInit \<and> isAlreadyInitialized resticErr then zero_result\<lparr>OK := True, mr_Operation := oper\<rparr>
          else failed_result oper err
      | None \<Rightarrow>
          if oper = OpBackup \<or> oper = OpManifestsBackup \<or> oper = OpClusterManifestsBackup then
            (case ParseBackupSummary backup_json stdout of
               Inl n \<Rightarrow> failed_result oper (missing_summary ''backup'' n)
             | Inr summary \<Rightarrow> SummaryToResult oper summary)
          else if oper = OpRestore \<or> oper = OpManifestsRestore \<or> oper = OpClusterManifestsRestore then
            (case ParseRestoreSummary restore_json stdout of
               Inl n \<Rightarrow> failed_result oper (missing_summary ''restore'' n)
             | Inr summary \<Rightarrow> (RestoreSummaryToResult summary)\<lparr>mr_Operation := oper\<rparr>)
          else zero_result\<lparr>OK := True, mr_Operation := oper\<rparr>)"

record tailWriter =
  tw_max :: nat
  tw_buf :: string

definition tailWriter_Write :: "tailWriter \<Rightarrow> string \<Rightarrow> nat \<times> tailWriter" where
  "tailWriter_Write w p =
     (let buf = tw_buf w @ p
      in (length p, w\<lparr>tw_buf := (if length buf > tw_max w then drop (length buf - tw_max w) buf else buf)\<rparr>))"

definition lastLine :: "string \<Rightarrow> string" where
  "lastLine b =
     (case find (\<lambda>s. s \<noteq> []) (map TrimSpace (rev (Split b (CHR 10)))) of None \<Rightarrow> [] | Some s \<Rightarrow> s)"

lemma scanSummaryLines_Some:
  "scanSummaryLines out f = Some s \<Longrightarrow> \<exists>line. f line = Some s"
proof -
  have "foldl (\<lambda>found candidate. let trimmed = TrimSpace candidate
         in if trimmed \<noteq> [] \<and> hd trimmed = CHR ''{'' then
              (case f trimmed of Some s \<Rightarrow> Some s | None \<Rightarrow> found) else found) acc ls = Some s \<Longrightarrow>
       acc = Some s \<or> (\<exists>line. f line = Some s)" for acc ls
  proof (induction ls arbitrary: acc)
    case (Cons l ls)
    then show ?case
      by (cases "TrimSpace l \<noteq> [] \<and> hd (TrimSpace l) = CHR ''{''"; cases "f (TrimSpace l)") (auto simp: Let_def)
  qed simp
  then show "scanSummaryLines out f = Some s \<Longrightarrow> \<exists>line. f line = Some s"
    unfolding scanSummaryLines_def by blast
qed

lemma clampError_bounds: "clampError err \<noteq> [] \<and> length (clampError err) \<le> maxErrorBytes"
  by (auto simp: clampError_def Let_def maxErrorBytes_def)

text \<open>
  The shim never reports an unverified success. A result is OK only when restic succeeded (or
  an init found the repository already initialised) and, for every operation whose proof is a summary, a line of the
  stream decoded as a summary; the snapshot id and sizes of an OK backup are those of that summary; and a failure
  carries a non-empty reason of at most 512 bytes.
\<close>

theorem shim_reports_verified_success:
  assumes r_def: "r = buildResult bj rj oper out err"
  shows "(OK r \<longrightarrow> (err \<noteq> None \<longrightarrow> oper = OpInit \<and> isAlreadyInitialized err) \<and>
      (parsesJSONSummary oper \<longrightarrow> err = None \<and>
        ((\<exists>line s. bj line = Some s \<and> sum_MessageType s = messageTypeSummary \<and>
            mr_SnapshotID r = sum_SnapshotID s \<and> mr_SizeBytes r = sum_TotalBytesProcessed s \<and>
            mr_AddedBytes r = sum_DataAdded s) \<or>
         (\<exists>line s. rj line = Some s \<and> rsum_MessageType s = messageTypeSummary \<and> mr_SnapshotID r = [] \<and>
            mr_RestoredBytes r = rsum_BytesRestored s)))) \<and>
    (\<not> OK r \<longrightarrow> mr_Error r \<noteq> [] \<and> length (mr_Error r) \<le> maxErrorBytes) \<and> mr_Operation r = oper"
proof -
  have b: "\<exists>line s. bj line = Some s \<and> sum_MessageType s = messageTypeSummary \<and> s = su"
    if "ParseBackupSummary bj out = Inr su" for su
    using that by (auto simp: ParseBackupSummary_def split: option.splits if_splits dest!: scanSummaryLines_Some)
  have rs: "\<exists>line s. rj line = Some s \<and> rsum_MessageType s = messageTypeSummary \<and> s = su"
    if "ParseRestoreSummary rj out = Inr su" for su
    using that by (auto simp: ParseRestoreSummary_def split: option.splits if_splits dest!: scanSummaryLines_Some)
  show ?thesis
  proof (cases err)
    case (Some e)
    then show ?thesis using clampError_bounds [of e]
      by (auto simp: r_def buildResult_def failed_result_def zero_result_def parsesJSONSummary_def)
  next
    case None
    show ?thesis
    proof (cases "parsesJSONSummary oper")
      case False
      then have "r = zero_result\<lparr>OK := True, mr_Operation := oper\<rparr>"
        using None by (simp add: r_def buildResult_def parsesJSONSummary_def)
      then show ?thesis using None False by (simp add: zero_result_def)
    next
      case True
      show ?thesis
      proof (cases "oper = OpBackup \<or> oper = OpManifestsBackup \<or> oper = OpClusterManifestsBackup")
        case True
        then have r: "r = (case ParseBackupSummary bj out of Inl n \<Rightarrow> failed_result oper (missing_summary ''backup'' n)
            | Inr summary \<Rightarrow> SummaryToResult oper summary)"
          using None by (simp only: r_def buildResult_def option.case if_True)
        show ?thesis
        proof (cases "ParseBackupSummary bj out")
          case (Inl n)
          then show ?thesis using r clampError_bounds by (simp add: failed_result_def zero_result_def)
        next
          case (Inr su)
          obtain line where line: "bj line = Some su" "sum_MessageType su = messageTypeSummary" using b [OF Inr] by auto
          have r: "OK r" "mr_Operation r = oper" "mr_SnapshotID r = sum_SnapshotID su"
            "mr_SizeBytes r = sum_TotalBytesProcessed su" "mr_AddedBytes r = sum_DataAdded su"
            using r Inr by (simp_all add: SummaryToResult_def zero_result_def)
          show ?thesis unfolding r using r(1) None line
            by (intro conjI impI disjI1 exI [of _ line] exI [of _ su]) simp_all
        qed
      next
        case False
        then have "oper = OpRestore \<or> oper = OpManifestsRestore \<or> oper = OpClusterManifestsRestore"
          using True by (simp only: parsesJSONSummary_def de_Morgan_disj simp_thms)
        then have r: "r = (case ParseRestoreSummary rj out of Inl n \<Rightarrow> failed_result oper (missing_summary ''restore'' n)
            | Inr summary \<Rightarrow> (RestoreSummaryToResult summary)\<lparr>mr_Operation := oper\<rparr>)"
          using None False by (simp only: r_def buildResult_def option.case if_True if_False)
        show ?thesis
        proof (cases "ParseRestoreSummary rj out")
          case (Inl n)
          then show ?thesis using r clampError_bounds by (simp add: failed_result_def zero_result_def)
        next
          case (Inr su)
          obtain line where line: "rj line = Some su" "rsum_MessageType su = messageTypeSummary" using rs [OF Inr] by auto
          have r: "OK r" "mr_Operation r = oper" "mr_SnapshotID r = []" "mr_RestoredBytes r = rsum_BytesRestored su"
            using r Inr by (simp_all add: RestoreSummaryToResult_def zero_result_def)
          show ?thesis unfolding r using r(1) None line
            by (intro conjI impI disjI2 exI [of _ line] exI [of _ su]) simp_all
        qed
      qed
    qed
  qed
qed

theorem shim_reports_verified_success_witness:
  "mr_Error (buildResult (\<lambda>_. None) (\<lambda>_. None) OpBackup [] None) \<noteq> []"
  using shim_reports_verified_success [OF refl, of "\<lambda>_. None" "\<lambda>_. None" OpBackup "[]" None]
  by (auto simp: parsesJSONSummary_def)

section \<open>Where a result comes from\<close>

lemma parsed_result_None: "parsed_result u msg node = (r, node', None) \<Longrightarrow> u msg = Inr r \<and> node' = node"
  by (auto simp: parsed_result_def ParseMoverResult_def split: if_splits sum.splits)

lemma read_pods_source:
  "read_pods u pods killed fallback = (r, node, None) \<Longrightarrow>
     (\<exists>pod t. fallback = Some (pod, t) \<and> u (t_Message t) = Inr r) \<or>
     (\<exists>pod \<in> set pods. \<exists>t. first_termination pod = Some t \<and> u (t_Message t) = Inr r)"
proof (induction pods arbitrary: killed fallback)
  case Nil
  then show ?case using parsed_result_None by (fastforce split: option.splits)
next
  case (Cons pod pods)
  let ?k = "if podKillReason pod \<noteq> [] \<and> killed = None then Some (pod, podKillReason pod) else killed"
  show ?case
  proof (cases "first_termination pod")
    case None
    then have "read_pods u pods ?k fallback = (r, node, None)" using Cons.prems by (simp add: Let_def)
    from Cons.IH [OF this] show ?thesis by auto
  next
    case (Some t)
    show ?thesis
    proof (cases "t_ExitCode t = 0")
      case True
      then show ?thesis using Cons.prems Some parsed_result_None by (auto simp: Let_def)
    next
      case False
      then have "read_pods u pods ?k (if fallback = None then Some (pod, t) else fallback) = (r, node, None)"
        using Cons.prems Some by (simp add: Let_def)
      from Cons.IH [OF this] show ?thesis using Some by (auto split: if_splits)
    qed
  qed
qed

end
