(* ===== verification/Repo_Maintenance.thy ===== *)
theory Repo_Maintenance
  imports Location_Binding Repo_Keys Mover_Result Repo_Queue
begin

text \<open>
  Running one maintenance operation of a repository as a Job
  (\<^verbatim>\<open>internal/controller/backup_maintenance.go\<close>): the credentials Secret of a mover, the drain of
  the movers before an operation that removes locks, the adoption or replacement of a Job of an
  earlier run, and the poll for its end. \<open>repoMaintenanceDeps\<close> is the source's struct of that name:
  the client's calls as functions of the world, and the clock. A loop of the source takes a number of
  rounds and is \<open>None\<close> when they do not suffice; a \<^verbatim>\<open>select\<close> between the context and a ticker is
  \<open>rd_wait\<close>, which answers the context's error when the context ended first.
\<close>

section \<open>Requests and dependencies\<close>

abbreviation OpForgetJob :: string where "OpForgetJob \<equiv> ''forget''"
abbreviation OpPruneJob :: string where "OpPruneJob \<equiv> ''prune''"
abbreviation OpCheckJob :: string where "OpCheckJob \<equiv> ''check''"
abbreviation OpUnlockJob :: string where "OpUnlockJob \<equiv> ''unlock''"
abbreviation SecretKeyResticPassword :: string where "SecretKeyResticPassword \<equiv> ''restic-password''"
abbreviation SecretKeyAWSAccessKeyID :: string where "SecretKeyAWSAccessKeyID \<equiv> ''AWS_ACCESS_KEY_ID''"
abbreviation SecretKeyAWSSecretAccessKey :: string where "SecretKeyAWSSecretAccessKey \<equiv> ''AWS_SECRET_ACCESS_KEY''"
abbreviation DeletePropagationForeground :: string where "DeletePropagationForeground \<equiv> ''Foreground''"
abbreviation DeletePropagationBackground :: string where "DeletePropagationBackground \<equiv> ''Background''"

abbreviation minutes :: "int \<Rightarrow> duration" where "minutes n \<equiv> n * 60000000000"

definition maintenanceJobBackoffLimit :: i32 where "maintenanceJobBackoffLimit = 1"
definition maintenanceJobTTLSeconds :: i32 where "maintenanceJobTTLSeconds = 600"
definition maintenanceJobPollInterval :: duration where "maintenanceJobPollInterval = seconds 2"
definition maintenanceJobVisibilityGrace :: duration where "maintenanceJobVisibilityGrace = minutes 1"
definition maintenanceJobDeadline :: duration where "maintenanceJobDeadline = minutes 10"
definition maintenanceLongOpDeadline :: duration where "maintenanceLongOpDeadline = hours 4"
definition moverQuiescencePoll :: duration where "moverQuiescencePoll = seconds 2"
definition moverQuiescenceDeadline :: duration where "moverQuiescenceDeadline = minutes 30"

record JobRequest =
  jr_Name :: string
  jr_Operation :: string
  jr_ResticArgs :: "string list"
  jr_RepoURL :: string
  jr_S3Connections :: "i32 option"
  jr_SecretName :: string
  jr_PVC :: "(string \<times> string) option"
  jr_BackoffLimit :: i32
  jr_TTLSeconds :: i32
  jr_Labels :: string_map
  jr_ExtraEnv :: "(string \<times> string) list"
  jr_ServiceAccountName :: string
  jr_ManifestsVolume :: bool

record 'w repoMaintenanceDeps =
  rd_OperatorNamespace :: string
  rd_now :: "'w \<Rightarrow> instant"
  rd_elapsed_String :: "duration \<Rightarrow> string"
  rd_wait :: "instant \<Rightarrow> duration \<Rightarrow> 'w \<Rightarrow> go_error option \<times> 'w"
  rd_get_secret :: "string \<Rightarrow> string \<Rightarrow> 'w \<Rightarrow> api_error + secret_data"
  rd_create_secret :: "Secret \<Rightarrow> 'w \<Rightarrow> api_error option \<times> 'w"
  rd_delete_secret :: "string \<Rightarrow> string \<Rightarrow> 'w \<Rightarrow> api_error option \<times> 'w"
  rd_get_job :: "'w \<Rightarrow> string \<Rightarrow> string \<Rightarrow> api_error + Job"
  rd_list_jobs :: "'w \<Rightarrow> string \<Rightarrow> (string \<times> string) list \<Rightarrow> api_error + Job list"
  rd_create_job :: "JobRequest \<Rightarrow> 'w \<Rightarrow> api_error option \<times> 'w"
  rd_delete_job :: "string \<Rightarrow> string \<Rightarrow> string \<Rightarrow> 'w \<Rightarrow> api_error option \<times> 'w"
  rd_job_pods :: "string \<Rightarrow> 'w \<Rightarrow> api_error + Pod list"

record repoMaintenanceRequest =
  rm_RepoName :: string
  rm_Kind :: OpKind
  rm_Name :: string
  rm_Op :: string
  rm_ResticArgs :: "string list"
  rm_RepoURL :: string
  rm_DEK :: string
  rm_S3CredsSecret :: string
  rm_CredsNamespace :: string
  rm_S3Connections :: "i32 option"

definition maintenanceResourceName :: "string \<Rightarrow> string \<Rightarrow> string" where
  "maintenanceResourceName backupName oper = backupName @ ''-'' @ oper"

definition maintenanceJobLabels :: string_map where
  "maintenanceJobLabels = [''app.kubernetes.io/name'' \<mapsto> ''crystal-mover'',
     ''app.kubernetes.io/managed-by'' \<mapsto> ''crystal-backup'', ''app.kubernetes.io/component'' \<mapsto> ''maintenance'']"

definition maintenanceOpBlocksMovers :: "string \<Rightarrow> bool" where
  "maintenanceOpBlocksMovers oper \<longleftrightarrow> oper = OpUnlockJob \<or> oper = OpPruneJob"

definition maintenanceOpDeadline :: "string \<Rightarrow> duration" where
  "maintenanceOpDeadline oper =
     (if oper = OpPruneJob \<or> oper = OpCheckJob then maintenanceLongOpDeadline else maintenanceJobDeadline)"

section \<open>Secrets and deletions\<close>

definition ensureMoverCredsSecret ::
  "('w, 'z) repoMaintenanceDeps_scheme \<Rightarrow> string \<Rightarrow> string \<Rightarrow> string \<Rightarrow> string \<Rightarrow> string_map \<Rightarrow> 'w
   \<Rightarrow> go_error option \<times> 'w" where
  "ensureMoverCredsSecret deps name dek s3CredsSecret credsNamespace labels w =
     (let ns = (if credsNamespace = [] then rd_OperatorNamespace deps else credsNamespace);
          from = ns @ ''/'' @ s3CredsSecret
      in case GetValue (rd_get_secret deps) ns s3CredsSecret SecretKeyAWSAccessKeyID w of
           Inl err \<Rightarrow> (Some (Wrap (''read S3 access key from secret '' @ from) err), w)
         | Inr accessKey \<Rightarrow>
             (case GetValue (rd_get_secret deps) ns s3CredsSecret SecretKeyAWSSecretAccessKey w of
                Inl err \<Rightarrow> (Some (Wrap (''read S3 secret key from secret '' @ from) err), w)
              | Inr secretKey \<Rightarrow>
                  (case rd_create_secret deps \<lparr>sec_Namespace = rd_OperatorNamespace deps, sec_Name = name,
                           sec_Labels = labels, sec_Data = [SecretKeyResticPassword \<mapsto> dek,
                             SecretKeyAWSAccessKeyID \<mapsto> accessKey, SecretKeyAWSSecretAccessKey \<mapsto> secretKey]\<rparr> w of
                     (None, w) \<Rightarrow> (None, w)
                   | (Some err, w) \<Rightarrow>
                       if err = AlreadyExists then (None, w)
                       else (Some (Wrap (''create mover creds secret '' @ rd_OperatorNamespace deps @ ''/'' @ name)
                              (APIError err)), w))))"

definition deleteJobAndSecret :: "('w, 'z) repoMaintenanceDeps_scheme \<Rightarrow> string \<Rightarrow> string \<Rightarrow> 'w \<Rightarrow> 'w" where
  "deleteJobAndSecret deps namespace name w =
     (let (_, w) = rd_delete_job deps DeletePropagationBackground namespace name w;
          (_, w) = rd_delete_secret deps namespace name w
      in w)"

definition deleteMaintenanceResources :: "('w, 'z) repoMaintenanceDeps_scheme \<Rightarrow> string \<Rightarrow> 'w \<Rightarrow> 'w" where
  "deleteMaintenanceResources deps name w =
     (let (_, w) = rd_delete_job deps DeletePropagationForeground (rd_OperatorNamespace deps) name w;
          (_, w) = rd_delete_secret deps (rd_OperatorNamespace deps) name w
      in w)"

section \<open>The drain of the movers\<close>

fun waitForMoverQuiescence ::
  "nat \<Rightarrow> ('w, 'z) repoMaintenanceDeps_scheme \<Rightarrow> instant \<Rightarrow> 'w \<Rightarrow> (go_error option \<times> 'w) option" where
  "waitForMoverQuiescence 0 deps deadline w = None"
| "waitForMoverQuiescence (Suc rounds) deps deadline w =
     (case activeMoverCount (rd_list_jobs deps w) (rd_OperatorNamespace deps) of
        Inl err \<Rightarrow> Some (Some (Wrap ''counting in-flight movers before an exclusive lock removal'' (APIError err)), w)
      | Inr n \<Rightarrow>
          if n = 0 then Some (None, w)
          else case rd_wait deps deadline moverQuiescencePoll w of
                 (Some err, w) \<Rightarrow>
                   Some (Some (Wrap (''timed out waiting for '' @ FormatInt (int n) @ '' in-flight mover(s) to drain'') err), w)
               | (None, w) \<Rightarrow> waitForMoverQuiescence rounds deps deadline w)"

section \<open>The Job\<close>

fun createMaintenanceJob ::
  "nat \<Rightarrow> ('w, 'z) repoMaintenanceDeps_scheme \<Rightarrow> instant \<Rightarrow> string \<Rightarrow> JobRequest \<Rightarrow> 'w \<Rightarrow> (go_error option \<times> 'w) option" where
  "createMaintenanceJob 0 deps deadline oper job w = None"
| "createMaintenanceJob (Suc rounds) deps deadline oper job w =
     (let at = oper @ '' job '' @ rd_OperatorNamespace deps @ ''/'' @ jr_Name job
      in case rd_create_job deps job w of
           (None, w) \<Rightarrow> Some (None, w)
         | (Some err, w) \<Rightarrow>
             if err \<noteq> AlreadyExists then Some (Some (Wrap (''create '' @ at) (APIError err)), w)
             else case rd_get_job deps w (rd_OperatorNamespace deps) (jr_Name job) of
                    Inl getErr \<Rightarrow>
                      if getErr = NotFound then createMaintenanceJob rounds deps deadline oper job w
                      else Some (Some (Wrap (''inspect existing '' @ at) (APIError getErr)), w)
                  | Inr existing \<Rightarrow>
                      if \<not> j_Deleting existing then Some (None, w)
                      else case rd_wait deps deadline maintenanceJobPollInterval w of
                             (Some ctxErr, w) \<Rightarrow>
                               Some (Some (Wrap (''waiting for the previous '' @ at @ '' to finish deleting'') ctxErr), w)
                           | (None, w) \<Rightarrow> createMaintenanceJob rounds deps deadline oper job w)"

fun waitForMaintenanceJob ::
  "nat \<Rightarrow> ('w, 'z) repoMaintenanceDeps_scheme \<Rightarrow> instant \<Rightarrow> string \<Rightarrow> instant option \<Rightarrow> 'w
   \<Rightarrow> (go_error option \<times> 'w) option" where
  "waitForMaintenanceJob 0 deps deadline jobName missingSince w = None"
| "waitForMaintenanceJob (Suc rounds) deps deadline jobName missingSince w =
     (let at = ''maintenance job '' @ rd_OperatorNamespace deps @ ''/'' @ jobName
      in case rd_get_job deps w (rd_OperatorNamespace deps) jobName of
           Inl err \<Rightarrow>
             if err = NotFound then
               (let since = (case missingSince of None \<Rightarrow> rd_now deps w | Some t \<Rightarrow> t)
                in if time_sub (rd_now deps w) since > maintenanceJobVisibilityGrace then
                     Some (Some (Wrap (''get '' @ at @ '': absent for '' @
                       rd_elapsed_String deps (time_sub (rd_now deps w) since)) (APIError err)), w)
                   else case rd_wait deps deadline maintenanceJobPollInterval w of
                          (Some ctxErr, w) \<Rightarrow> Some (Some (Wrap (at @ '' did not complete'') ctxErr), w)
                        | (None, w) \<Rightarrow> waitForMaintenanceJob rounds deps deadline jobName (Some since) w)
             else Some (Some (Wrap (''get '' @ at) (APIError err)), w)
         | Inr job \<Rightarrow>
             if 1 \<le>s j_Succeeded job \<or> jobConditionTrue job JobComplete then Some (None, w)
             else if jobConditionTrue job JobFailed \<or> maintenanceJobBackoffLimit <s j_Failed job then
               Some (Some (ErrorNew (at @ '' failed (failed pods='' @ FormatInt (sint (j_Failed job)) @ '', backoffLimit='' @
                 FormatInt (sint maintenanceJobBackoffLimit) @ '')'' @ killDetail (rd_job_pods deps jobName w))), w)
             else case rd_wait deps deadline maintenanceJobPollInterval w of
                    (Some ctxErr, w) \<Rightarrow> Some (Some (Wrap (at @ '' did not complete'') ctxErr), w)
                  | (None, w) \<Rightarrow> waitForMaintenanceJob rounds deps deadline jobName None w)"

text \<open>
  The operation itself, between the drain and the deferred cleanup, then the whole: the deferred
  deletion runs on every way out.
\<close>

definition maintenance_job :: "repoMaintenanceRequest \<Rightarrow> JobRequest" where
  "maintenance_job req =
     \<lparr>jr_Name = rm_Name req, jr_Operation = rm_Op req, jr_ResticArgs = rm_ResticArgs req, jr_RepoURL = rm_RepoURL req,
      jr_S3Connections = rm_S3Connections req, jr_SecretName = rm_Name req, jr_PVC = None,
      jr_BackoffLimit = maintenanceJobBackoffLimit, jr_TTLSeconds = maintenanceJobTTLSeconds,
      jr_Labels = maintenanceJobLabels, jr_ExtraEnv = [], jr_ServiceAccountName = [], jr_ManifestsVolume = False\<rparr>"

definition maintenance_body ::
  "nat \<Rightarrow> ('w, 'z) repoMaintenanceDeps_scheme \<Rightarrow> repoMaintenanceRequest \<Rightarrow> instant \<Rightarrow> 'w \<Rightarrow> (go_error option \<times> 'w) option" where
  "maintenance_body rounds deps req deadline w =
     (case ensureMoverCredsSecret deps (rm_Name req) (rm_DEK req) (rm_S3CredsSecret req) (rm_CredsNamespace req)
             maintenanceJobLabels w of
        (Some err, w) \<Rightarrow> Some (Some err, w)
      | (None, w) \<Rightarrow>
          (case createMaintenanceJob rounds deps deadline (rm_Op req) (maintenance_job req) w of
             None \<Rightarrow> None
           | Some (Some err, w) \<Rightarrow> Some (Some err, w)
           | Some (None, w) \<Rightarrow> waitForMaintenanceJob rounds deps deadline (rm_Name req) None w))"

definition runRepoMaintenance ::
  "nat \<Rightarrow> ('w, 'z) repoMaintenanceDeps_scheme \<Rightarrow> repoMaintenanceRequest \<Rightarrow> 'w \<Rightarrow> (go_error option \<times> 'w) option" where
  "runRepoMaintenance rounds deps req w =
     (let deadline = rd_now deps w + maintenanceOpDeadline (rm_Op req);
          drained =
            (if maintenanceOpBlocksMovers (rm_Op req)
             then waitForMoverQuiescence rounds deps (min deadline (rd_now deps w + moverQuiescenceDeadline)) w
             else Some (None, w))
      in map_option (\<lambda>(err, w). (err, deleteMaintenanceResources deps (rm_Name req) w))
           (case drained of
              None \<Rightarrow> None
            | Some (Some err, w) \<Rightarrow> Some (Some err, w)
            | Some (None, w) \<Rightarrow> maintenance_body rounds deps req deadline w))"

definition backupSucceeded :: "string \<Rightarrow> bool" where
  "backupSucceeded phase \<longleftrightarrow> phase = BackupPhaseCompleted \<or> phase = BackupPhasePartiallyCompleted"

section \<open>Properties\<close>

text \<open>A world reached by waiting only, and a clock that waiting moves on.\<close>

inductive polled :: "('w, 'z) repoMaintenanceDeps_scheme \<Rightarrow> 'w \<Rightarrow> 'w \<Rightarrow> bool" for deps w where
  start: "polled deps w w"
| tick: "polled deps w w1 \<Longrightarrow> rd_wait deps d i w1 = (None, w2) \<Longrightarrow> polled deps w w2"

lemma polled_first:
  assumes "polled deps w1 w2" and "rd_wait deps d i w = (None, w1)"
  shows "polled deps w w2"
  using assms(1)
proof (induction rule: polled.induct)
  case start
  show ?case by (rule polled.tick [OF polled.start assms(2)])
next
  case (tick w' d' i' w'')
  from polled.tick [OF tick.IH tick.hyps(2)] show ?case .
qed

definition fair_waits :: "('w, 'z) repoMaintenanceDeps_scheme \<Rightarrow> bool" where
  "fair_waits deps \<longleftrightarrow>
     (\<forall>d i w w'. rd_wait deps d i w = (None, w') \<longrightarrow> rd_now deps w < d \<and> rd_now deps w < rd_now deps w')"

lemma quiescence_outcome:
  "waitForMoverQuiescence rounds deps deadline w = Some (err, w') \<Longrightarrow>
     \<exists>w1. polled deps w w1 \<and>
       (if err = None then w' = w1 \<and> activeMoverCount (rd_list_jobs deps w1) (rd_OperatorNamespace deps) = Inr 0
        else activeMoverCount (rd_list_jobs deps w1) (rd_OperatorNamespace deps) \<noteq> Inr 0 \<and>
          (w' = w1 \<or> (\<exists>c. rd_wait deps deadline moverQuiescencePoll w1 = (Some c, w'))))"
proof (induction rounds arbitrary: w)
  case (Suc rounds)
  let ?count = "activeMoverCount (rd_list_jobs deps w) (rd_OperatorNamespace deps)"
  show ?case
  proof (cases "\<exists>n w1. ?count = Inr n \<and> n \<noteq> 0 \<and> rd_wait deps deadline moverQuiescencePoll w = (None, w1)")
    case True
    then obtain n w1 where n: "?count = Inr n" "n \<noteq> 0" "rd_wait deps deadline moverQuiescencePoll w = (None, w1)" by blast
    with Suc.prems have "waitForMoverQuiescence rounds deps deadline w1 = Some (err, w')" by simp
    from Suc.IH [OF this] show ?thesis using polled_first [OF _ n(3)] by blast
  next
    case False
    with Suc.prems polled.start [of deps w] show ?thesis
      by (intro exI [of _ w]) (auto split: sum.splits if_splits prod.splits option.splits)
  qed
qed simp

lemma rounds_left:
  assumes "fair_waits deps" and "rd_wait deps d i w = (None, w1)" and "nat (d - rd_now deps w) < Suc rounds"
  shows "nat (d - rd_now deps w1) < rounds"
proof -
  have "rd_now deps w < d" "rd_now deps w < rd_now deps w1" using assms(1,2) by (auto simp: fair_waits_def)
  with assms(3) show ?thesis by linarith
qed

lemma polls_end:
  assumes fair: "fair_waits deps" and n: "nat (deadline - rd_now deps w) < rounds"
  shows "waitForMoverQuiescence rounds deps deadline w \<noteq> None \<and>
    waitForMaintenanceJob rounds deps deadline name since w \<noteq> None"
proof
  show "waitForMoverQuiescence rounds deps deadline w \<noteq> None" using n
  proof (induction rounds arbitrary: w)
    case (Suc rounds)
    obtain e w1 where "rd_wait deps deadline moverQuiescencePoll w = (e, w1)" by fastforce
    then show ?case using Suc.IH [of w1] rounds_left [OF fair _ Suc.prems]
      by (cases e) (auto split: sum.split)
  qed simp
  show "waitForMaintenanceJob rounds deps deadline name since w \<noteq> None" using n
  proof (induction rounds arbitrary: w since)
    case (Suc rounds)
    obtain e w1 where "rd_wait deps deadline maintenanceJobPollInterval w = (e, w1)" by fastforce
    then show ?case using Suc.IH [of w1] rounds_left [OF fair _ Suc.prems]
      by (cases e) (auto simp: Let_def split: sum.split)
  qed simp
qed

text \<open>
  What is relied on for the one loop that retries without waiting: a request under a context whose deadline has passed
  fails with the context's error, so that AlreadyExists is answered only before the deadline; such an answer takes
  time; and no request turns the clock back.
\<close>

definition timely_requests :: "('w, 'z) repoMaintenanceDeps_scheme \<Rightarrow> instant \<Rightarrow> bool" where
  "timely_requests deps deadline \<longleftrightarrow>
     (\<forall>s w r w'. rd_create_secret deps s w = (r, w') \<longrightarrow> rd_now deps w \<le> rd_now deps w') \<and>
     (\<forall>job w r w'. rd_create_job deps job w = (r, w') \<longrightarrow> rd_now deps w \<le> rd_now deps w' \<and>
        (r = Some AlreadyExists \<longrightarrow> rd_now deps w < deadline \<and> rd_now deps w < rd_now deps w'))"

lemma createMaintenanceJob_answers:
  assumes "fair_waits deps" and "timely_requests deps deadline"
  shows "nat (deadline - rd_now deps w) < rounds \<Longrightarrow>
    \<exists>err w'. createMaintenanceJob rounds deps deadline oper job w = Some (err, w') \<and> (err = None \<longrightarrow> rd_now deps w \<le> rd_now deps w')"
proof (induction rounds arbitrary: w)
  case (Suc rounds)
  obtain r w1 where r: "rd_create_job deps job w = (r, w1)" by fastforce
  have t: "rd_now deps w \<le> rd_now deps w1" "r = Some AlreadyExists \<Longrightarrow> rd_now deps w < deadline \<and> rd_now deps w < rd_now deps w1"
    using assms(2) r unfolding timely_requests_def by blast+
  show ?case
  proof (cases "r = Some AlreadyExists")
    case False
    then show ?thesis using r t(1) by (cases r) (auto simp: Let_def)
  next
    case True
    have less: "nat (deadline - rd_now deps w1) < rounds" using Suc.prems t(2) [OF True] by linarith
    have up: ?thesis if "createMaintenanceJob (Suc rounds) deps deadline oper job w = createMaintenanceJob rounds deps deadline oper job w2"
      "rd_now deps w1 \<le> rd_now deps w2" "nat (deadline - rd_now deps w2) < rounds" for w2
    proof -
      from Suc.IH [OF that(3)] obtain err w' where "createMaintenanceJob rounds deps deadline oper job w2 = Some (err, w')"
        "err = None \<Longrightarrow> rd_now deps w2 \<le> rd_now deps w'" by blast
      then show ?thesis using that(1,2) t(1) by (intro exI [of _ err] exI [of _ w']) auto
    qed
    show ?thesis
    proof (cases "rd_get_job deps w1 (rd_OperatorNamespace deps) (jr_Name job)")
      case (Inl g)
      show ?thesis
      proof (cases "g = NotFound")
        case nf: True
        then show ?thesis using up [of w1] r True Inl less by (simp add: Let_def)
      qed (use r True Inl in \<open>simp add: Let_def\<close>)
    next
      case (Inr existing)
      obtain c w2 where c: "rd_wait deps deadline maintenanceJobPollInterval w1 = (c, w2)" by fastforce
      show ?thesis
      proof (cases "j_Deleting existing \<and> c = None")
        case go: True
        then have "rd_now deps w1 < rd_now deps w2" using assms(1) c by (auto simp: fair_waits_def)
        then show ?thesis using up [of w2] r True Inr c go less by (simp add: Let_def)
      next
        case False
        then show ?thesis using r True Inr c t(1) by (cases c) (auto simp: Let_def)
      qed
    qed
  qed
qed simp

lemma ensureMoverCredsSecret_clock:
  assumes "timely_requests deps deadline" and "ensureMoverCredsSecret deps name dek s3 ns labels w = (err, w')"
  shows "rd_now deps w \<le> rd_now deps w'"
  using assms unfolding ensureMoverCredsSecret_def timely_requests_def Let_def
  by (auto split: sum.splits prod.splits option.splits if_splits)

lemma maintenance_body_answers:
  assumes "fair_waits deps" and "timely_requests deps deadline" and "nat (deadline - rd_now deps w) < rounds"
  shows "\<exists>err w'. maintenance_body rounds deps req deadline w = Some (err, w')"
proof -
  obtain serr w1 where s: "ensureMoverCredsSecret deps (rm_Name req) (rm_DEK req) (rm_S3CredsSecret req) (rm_CredsNamespace req)
      maintenanceJobLabels w = (serr, w1)" by fastforce
  have "nat (deadline - rd_now deps w1) < rounds"
    using ensureMoverCredsSecret_clock [OF assms(2) s] assms(3) by linarith
  from createMaintenanceJob_answers [OF assms(1,2) this, of "rm_Op req" "maintenance_job req"] obtain cerr w2 where
    c: "createMaintenanceJob rounds deps deadline (rm_Op req) (maintenance_job req) w1 = Some (cerr, w2)" "cerr = None \<Longrightarrow> rd_now deps w1 \<le> rd_now deps w2"
    by blast
  show ?thesis
  proof (cases "serr = None \<and> cerr = None")
    case True
    then have "nat (deadline - rd_now deps w2) < rounds" using c(2) \<open>nat (deadline - rd_now deps w1) < rounds\<close> by linarith
    from polls_end [OF assms(1) this] have "waitForMaintenanceJob rounds deps deadline (rm_Name req) None w2 \<noteq> None" by blast
    then show ?thesis using True s c(1) by (auto simp: maintenance_body_def)
  next
    case False
    then show ?thesis using s c(1) by (cases serr; cases cerr) (auto simp: maintenance_body_def)
  qed
qed

text \<open>
  No data mover is running: of the Jobs a list by the operator's label answers, each one that carries a claim label, as the
  movers of volumes do and the captures of manifests do not, is being deleted or has ended.
\<close>

definition no_data_mover :: "('w, 'z) repoMaintenanceDeps_scheme \<Rightarrow> 'w \<Rightarrow> bool" where
  "no_data_mover deps w \<longleftrightarrow>
     (\<exists>jobs. rd_list_jobs deps w (rd_OperatorNamespace deps) [(LabelManagedBy, ManagedByValue)] = Inr jobs \<and>
       (\<forall>j \<in> set jobs. map_get (j_Labels j) LabelPVC \<noteq> [] \<longrightarrow> j_Deleting j \<or>
         (\<exists>c \<in> set (j_Conditions j). jc_Status c = ConditionTrue \<and> (jc_Type c = JobComplete \<or> jc_Type c = JobFailed))))"

lemma no_data_mover_iff:
  "no_data_mover deps w \<longleftrightarrow> activeMoverCount (rd_list_jobs deps w) (rd_OperatorNamespace deps) = Inr 0"
  unfolding no_data_mover_def activeMoverCount_def listMoverJobs_eq foldl_filter RunningMoverJobs_eq jobTerminal_iff
  by (cases "rd_list_jobs deps w (rd_OperatorNamespace deps) [(LabelManagedBy, ManagedByValue)]")
    (auto simp: filter_empty_conv)

lemma polled_clock:
  assumes "fair_waits deps" and "polled deps w w1"
  shows "rd_now deps w \<le> rd_now deps w1"
  using assms(2)
proof (induction rule: polled.induct)
  case (tick w1 d i w2)
  then have "rd_now deps w1 < rd_now deps w2" using assms(1) unfolding fair_waits_def by blast
  with tick.IH show ?case by simp
qed simp

text \<open>
  C30: an operation that removes locks (unlock, prune) touches the repository only after a list of the mover Jobs has
  shown no data mover running: until then it only waits, and when the list fails or the drain runs out of time it
  ends with an error and no Job. Its Job and Secret are deleted on every way out. And it does end: as many rounds of its
  loops as its deadline has nanoseconds are enough for an answer, whatever the cluster answers, as long as waiting
  moves the clock on and no request is served after its deadline. Captures of manifests are no data movers: they
  carry no claim label and are not waited for.
\<close>

theorem exclusive_maintenance_waits_for_movers:
  assumes b: "maintenanceOpBlocksMovers (rm_Op req)"
    and fair: "fair_waits deps" and timely: "timely_requests deps (rd_now deps w + maintenanceOpDeadline (rm_Op req))"
    and n: "nat (maintenanceOpDeadline (rm_Op req)) < rounds"
  shows "\<exists>err w'. runRepoMaintenance rounds deps req w = Some (err, w') \<and>
    (\<exists>w1. polled deps w w1 \<and>
      (if no_data_mover deps w1
       then \<exists>w2. maintenance_body rounds deps req (rd_now deps w + maintenanceOpDeadline (rm_Op req)) w1 = Some (err, w2) \<and>
         w' = deleteMaintenanceResources deps (rm_Name req) w2
       else err \<noteq> None \<and> (\<exists>w2 d. (w2 = w1 \<or> (\<exists>c. rd_wait deps d moverQuiescencePoll w1 = (Some c, w2))) \<and>
         w' = deleteMaintenanceResources deps (rm_Name req) w2)))"
proof -
  let ?d = "rd_now deps w + maintenanceOpDeadline (rm_Op req)"
  let ?q = "min ?d (rd_now deps w + moverQuiescenceDeadline)"
  have "nat (?q - rd_now deps w) < rounds" using n by linarith
  from polls_end [OF fair this] obtain qerr w1 where q: "waitForMoverQuiescence rounds deps ?q w = Some (qerr, w1)"
    by (metis not_None_eq surj_pair)
  from quiescence_outcome [OF q] obtain w0 where w0: "polled deps w w0"
    "if qerr = None then w1 = w0 \<and> no_data_mover deps w0
     else \<not> no_data_mover deps w0 \<and> (w1 = w0 \<or> (\<exists>c. rd_wait deps ?q moverQuiescencePoll w0 = (Some c, w1)))"
    unfolding no_data_mover_iff by blast
  show ?thesis
  proof (cases qerr)
    case None
    have "nat (?d - rd_now deps w1) < rounds" using polled_clock [OF fair w0(1)] w0(2) None n by simp
    from maintenance_body_answers [OF fair timely this] obtain err w2 where
      body: "maintenance_body rounds deps req ?d w1 = Some (err, w2)" by blast
    then have "runRepoMaintenance rounds deps req w = Some (err, deleteMaintenanceResources deps (rm_Name req) w2)"
      using b q None by (simp add: runRepoMaintenance_def Let_def)
    with None w0 body show ?thesis by auto
  next
    case (Some c)
    then have "runRepoMaintenance rounds deps req w = Some (Some c, deleteMaintenanceResources deps (rm_Name req) w1)"
      using b q by (simp add: runRepoMaintenance_def Let_def)
    with Some w0 show ?thesis by auto
  qed
qed

lemma wait_success:
  "waitForMaintenanceJob rounds deps deadline name since w = Some (None, w') \<Longrightarrow>
     \<exists>job. rd_get_job deps w' (rd_OperatorNamespace deps) name = Inr job \<and>
       (1 \<le>s j_Succeeded job \<or> jobConditionTrue job JobComplete)"
  by (induction rounds arbitrary: since w)
    (auto simp: Let_def split: sum.splits if_splits prod.splits option.splits)

text \<open>
  Maintenance reports success only for a Job it saw complete, and deletes the Job and its Secret
  only after that.
\<close>

theorem maintenance_success_is_observed:
  assumes "runRepoMaintenance rounds deps req w = Some (None, w')"
  shows "\<exists>w1 job. rd_get_job deps w1 (rd_OperatorNamespace deps) (rm_Name req) = Inr job \<and>
    (1 \<le>s j_Succeeded job \<or> jobConditionTrue job JobComplete) \<and>
    w' = deleteMaintenanceResources deps (rm_Name req) w1"
proof -
  from assms obtain deadline w0 w1 where b: "maintenance_body rounds deps req deadline w0 = Some (None, w1)"
    and w': "w' = deleteMaintenanceResources deps (rm_Name req) w1"
    by (auto simp: runRepoMaintenance_def Let_def split: option.splits if_splits)
  from b obtain w2 where "waitForMaintenanceJob rounds deps deadline (rm_Name req) None w2 = Some (None, w1)"
    by (auto simp: maintenance_body_def split: prod.splits option.splits)
  from wait_success [OF this] w' show ?thesis by blast
qed

text \<open>
  With a clock that moves on at every tick and a context that ends at its deadline, neither the
  drain nor the poll runs for ever: as many rounds as the deadline has nanoseconds left are
  enough for an answer.
\<close>

theorem maintenance_polls_end:
  assumes "fair_waits deps" and "nat (deadline - rd_now deps w) < rounds"
  shows "waitForMoverQuiescence rounds deps deadline w \<noteq> None \<and>
    waitForMaintenanceJob rounds deps deadline name since w \<noteq> None"
  using assms by (rule polls_end)

text \<open>A cluster whose world is the clock: its one mover ends after three seconds.\<close>

definition demo_job :: "i32 \<Rightarrow> Job" where
  "demo_job succeeded = \<lparr>j_Name = ''m'', j_Labels = [LabelManagedBy \<mapsto> ManagedByValue, LabelPVC \<mapsto> ''data''], j_Deleting = False,
     j_CreationTimestamp = None, j_Succeeded = succeeded, j_Failed = 0, j_Conditions = []\<rparr>"

definition demo_deps :: "int repoMaintenanceDeps" where
  "demo_deps = \<lparr>rd_OperatorNamespace = ''ops'', rd_now = (\<lambda>w. w), rd_elapsed_String = (\<lambda>_. []),
     rd_wait = (\<lambda>d i w. if w < d then (None, w + max 1 i) else (Some (ErrorNew ''context deadline exceeded''), w)),
     rd_get_secret = (\<lambda>_ _ _. Inr (\<lambda>_. Some ''k'')), rd_create_secret = (\<lambda>_ w. (None, w)), rd_delete_secret = (\<lambda>_ _ w. (None, w)),
     rd_get_job = (\<lambda>_ _ _. Inr (demo_job 1)),
     rd_list_jobs = (\<lambda>w _ _. Inr (if w < seconds 3 then [demo_job 0] else [])),
     rd_create_job = (\<lambda>_ w. (None, w)), rd_delete_job = (\<lambda>_ _ _ w. (None, w)), rd_job_pods = (\<lambda>_ _. Inr [])\<rparr>"

definition demo_unlock :: repoMaintenanceRequest where
  "demo_unlock = \<lparr>rm_RepoName = ''shop'', rm_Kind = OpKind.OpUnlock, rm_Name = ''n-1-unlock'', rm_Op = OpUnlockJob,
     rm_ResticArgs = UnlockArgs, rm_RepoURL = [], rm_DEK = [], rm_S3CredsSecret = ''s3'', rm_CredsNamespace = [],
     rm_S3Connections = None\<rparr>"

lemma demo_count:
  "activeMoverCount (rd_list_jobs demo_deps w) (rd_OperatorNamespace demo_deps) = Inr (if w < seconds 3 then 1 else 0)"
  by (simp add: activeMoverCount_def listMoverJobs_def RunningMoverJobs_def jobTerminal_def demo_deps_def demo_job_def map_get_def)

abbreviation demo_rounds :: nat where "demo_rounds \<equiv> Suc (Suc (Suc 0))"

lemma demo_wait: "w < d \<Longrightarrow> rd_wait demo_deps d moverQuiescencePoll w = (None, w + 2000000000)"
  by (simp add: demo_deps_def moverQuiescencePoll_def)

lemma demo_drain: "waitForMoverQuiescence demo_rounds demo_deps 600000000000 0 = Some (None, 4000000000)"
  by (simp add: demo_count demo_wait)

lemma demo_body: "maintenance_body demo_rounds demo_deps demo_unlock d w = Some (None, w)"
  by (simp add: maintenance_body_def ensureMoverCredsSecret_def GetValue_def demo_deps_def demo_job_def word_sle_eq Let_def)

lemma demo_run: "runRepoMaintenance demo_rounds demo_deps demo_unlock 0 = Some (None, 4000000000)"
proof -
  have "min (rd_now demo_deps 0 + maintenanceOpDeadline (rm_Op demo_unlock)) (rd_now demo_deps 0 + moverQuiescenceDeadline)
      = 600000000000"
    by (simp add: demo_deps_def demo_unlock_def maintenanceOpDeadline_def maintenanceJobDeadline_def moverQuiescenceDeadline_def)
  moreover have "maintenanceOpBlocksMovers (rm_Op demo_unlock)" by (simp add: demo_unlock_def maintenanceOpBlocksMovers_def)
  moreover have "deleteMaintenanceResources demo_deps n w = w" for n w by (simp add: deleteMaintenanceResources_def demo_deps_def)
  ultimately show ?thesis by (simp only: runRepoMaintenance_def demo_drain demo_body Let_def if_True option.case prod.case
      option.map)
qed

lemma demo_fair: "fair_waits demo_deps" "timely_requests demo_deps d"
  by (auto simp: fair_waits_def timely_requests_def demo_deps_def split: if_splits)

theorem exclusive_maintenance_waits_for_movers_witness:
  "\<exists>err w' w1. runRepoMaintenance (10 ^ 12) demo_deps demo_unlock 0 = Some (err, w') \<and> polled demo_deps 0 w1"
proof -
  have b: "maintenanceOpBlocksMovers (rm_Op demo_unlock)" by (simp add: demo_unlock_def maintenanceOpBlocksMovers_def)
  have "nat (maintenanceOpDeadline (rm_Op demo_unlock)) < 10 ^ 12"
    by (simp add: demo_unlock_def maintenanceOpDeadline_def maintenanceJobDeadline_def)
  from exclusive_maintenance_waits_for_movers [OF b demo_fair(1) demo_fair(2) this, of 0] show ?thesis by blast
qed

theorem maintenance_success_is_observed_witness:
  "\<exists>w1. 4000000000 = deleteMaintenanceResources demo_deps (rm_Name demo_unlock) w1"
  using maintenance_success_is_observed [OF demo_run] by blast

theorem maintenance_polls_end_witness:
  "waitForMoverQuiescence 5 demo_deps 3 0 \<noteq> None \<and> waitForMaintenanceJob 5 demo_deps 3 ''x'' None 0 \<noteq> None"
proof (rule maintenance_polls_end)
  show "fair_waits demo_deps" by (rule demo_fair(1))
  show "nat (3 - rd_now demo_deps 0) < 5" by (simp add: demo_deps_def)
qed

end
