(* ===== verification/Volume_Machine.thy ===== *)
theory Volume_Machine
  imports Freeze_Window Repo_Maintenance Namespace_Selection
begin

text \<open>
  The per-volume state machine of the Backup controller
  (\<^verbatim>\<open>internal/controller/backup_controller.go\<close>): a claim is Pending, then Snapshotting, then
  Uploading, and ends Completed, Skipped or Failed. Every handler of the three live phases is
  here with its guards, deadlines and error branches. The exposer is the source's interface
  \<^verbatim>\<open>SnapshotExposer\<close>: its methods and the API calls are the fields of \<open>backup_env\<close>; a
  handler takes the volume, and returns the volume to tear down or an error with the changed volume.
\<close>

section \<open>Constants and types\<close>

abbreviation backupReasonSkippedUnsupported :: string
  where "backupReasonSkippedUnsupported \<equiv> ''CSISnapshotUnsupported''"
abbreviation backupReasonExposerUnresolvable :: string
  where "backupReasonExposerUnresolvable \<equiv> ''ExposerUnresolvable''"
abbreviation backupReasonAdvanceRetrying :: string where "backupReasonAdvanceRetrying \<equiv> ''AdvanceRetrying''"
abbreviation backupReasonPrecheckFailed :: string where "backupReasonPrecheckFailed \<equiv> ''SnapshotPrecheckFailed''"
abbreviation backupReasonSnapshotProgressDeadline :: string
  where "backupReasonSnapshotProgressDeadline \<equiv> ''SnapshotProgressDeadlineExceeded''"
abbreviation backupReasonSnapshotReadyDeadline :: string
  where "backupReasonSnapshotReadyDeadline \<equiv> ''SnapshotReadyDeadlineExceeded''"
abbreviation backupReasonMoverStartDeadline :: string
  where "backupReasonMoverStartDeadline \<equiv> ''MoverStartDeadlineExceeded''"
abbreviation backupReasonPendingDeadline :: string where "backupReasonPendingDeadline \<equiv> ''PendingDeadlineExceeded''"
abbreviation backupReasonAdvanceDeadline :: string where "backupReasonAdvanceDeadline \<equiv> ''AdvanceDeadlineExceeded''"

definition snapshotProgressDeadline :: duration where "snapshotProgressDeadline = minutes 15"
definition snapshotReadyDeadline :: duration where "snapshotReadyDeadline = hours 2"
definition moverStartDeadline :: duration where "moverStartDeadline = minutes 30"
definition advanceRetryDeadline :: duration where "advanceRetryDeadline = hours 4"
definition moverJobTTLSeconds :: i32 where "moverJobTTLSeconds = 3600"

record PersistentVolumeClaim =
  pc_Namespace :: string
  pc_Name :: string
  pc_Labels :: string_map
  pc_VolumeName :: string
  pc_StorageClassName :: "string option"
  pc_AccessModes :: "string list"
  pc_Capacity :: i64

record ExposeRequest =
  xr_Namespace :: string
  xr_PVCName :: string
  xr_StorageClass :: string
  xr_Capacity :: i64
  xr_NamePrefix :: string
  xr_Labels :: string_map

record Exposure =
  ex_Kind :: string
  ex_OriginNamespace :: string
  ex_OperatorNamespace :: string
  ex_OriginVSName :: string
  ex_StaticVSCName :: string
  ex_StaticVSName :: string
  ex_TempPVCName :: string
  ex_ExposedPVCName :: string
  ex_StorageClass :: string
  ex_Capacity :: i64
  ex_Labels :: string_map

record SnapshotProgress =
  sp_StartedAt :: "instant option"
  sp_Acknowledged :: bool

datatype exposer_error = ErrUnsupported go_error | ErrPrecheckFailed go_error | ExposerFault go_error

fun exposer_cause :: "exposer_error \<Rightarrow> go_error" where
  "exposer_cause (ErrUnsupported c) = c"
| "exposer_cause (ErrPrecheckFailed c) = c"
| "exposer_cause (ExposerFault c) = c"

record Event =
  ev_Type :: string
  ev_Reason :: string
  ev_Message :: string
  ev_LastTimestamp :: "instant option"
  ev_SeriesLastObserved :: "instant option"
  ev_EventTime :: "instant option"
  ev_CreationTimestamp :: "instant option"

record backupRunContext =
  rc_scheduleRef :: string
  rc_run :: string
  rc_clusterID :: string
  rc_tenant :: string
  rc_repoName :: string
  rc_repoURL :: string
  rc_dek :: string
  rc_s3CredsSecret :: string
  rc_s3Connections :: "i32 option"
  rc_credsNamespace :: string
  rc_retention :: RetentionSpec
  rc_mode :: LocationMode
  rc_backoffLimit :: i32
  rc_maxConcurrentMovers :: i32

record ('w, 'expr, 'ex) backup_env = "('w, 'expr) hook_env" +
  be_deps :: "'w repoMaintenanceDeps"
  be_enqueue :: "repoMaintenanceRequest \<Rightarrow> 'w \<Rightarrow> 'w"
  be_MoverStartDeadline :: duration
  be_PendingResolveDeadline :: duration
  be_AdvanceRetryDeadline :: duration
  be_get_pvc :: "string \<Rightarrow> string \<Rightarrow> 'w \<Rightarrow> api_error + PersistentVolumeClaim"
  be_For :: "PersistentVolumeClaim \<Rightarrow> 'w \<Rightarrow> exposer_error + 'ex"
  be_Precheck :: "'ex \<Rightarrow> 'w \<Rightarrow> exposer_error option"
  be_Expose :: "'ex \<Rightarrow> ExposeRequest \<Rightarrow> 'w \<Rightarrow> (exposer_error + Exposure) \<times> 'w"
  be_Ready :: "'ex \<Rightarrow> Exposure \<Rightarrow> 'w \<Rightarrow> (go_error + bool) \<times> 'w"
  be_Progress :: "'ex \<Rightarrow> Exposure \<Rightarrow> 'w \<Rightarrow> SnapshotProgress option"
  be_QuiescenceRequired :: "'w \<Rightarrow> (string \<Rightarrow> bool) option"
  be_warning_events :: "(string \<Rightarrow> string \<Rightarrow> 'w \<Rightarrow> api_error + Event list) option"
  be_unmarshal_result :: "string \<Rightarrow> string + MoverResult"

abbreviation be_OperatorNamespace :: "('w, 'expr, 'ex, 'z) backup_env_scheme \<Rightarrow> string" where
  "be_OperatorNamespace e \<equiv> rd_OperatorNamespace (be_deps e)"
abbreviation be_get_job :: "('w, 'expr, 'ex, 'z) backup_env_scheme \<Rightarrow> 'w \<Rightarrow> string \<Rightarrow> string \<Rightarrow> api_error + Job" where
  "be_get_job e \<equiv> rd_get_job (be_deps e)"
abbreviation be_job_pods :: "('w, 'expr, 'ex, 'z) backup_env_scheme \<Rightarrow> string \<Rightarrow> 'w \<Rightarrow> api_error + Pod list" where
  "be_job_pods e \<equiv> rd_job_pods (be_deps e)"

definition effectiveMoverStartDeadline :: "('w, 'expr, 'ex, 'z) backup_env_scheme \<Rightarrow> duration" where
  "effectiveMoverStartDeadline e =
     (if be_MoverStartDeadline e > 0 then be_MoverStartDeadline e else moverStartDeadline)"

definition effectivePendingResolveDeadline :: "('w, 'expr, 'ex, 'z) backup_env_scheme \<Rightarrow> duration" where
  "effectivePendingResolveDeadline e =
     (if be_PendingResolveDeadline e > 0 then be_PendingResolveDeadline e else pendingResolveDeadline)"

definition effectiveAdvanceRetryDeadline :: "('w, 'expr, 'ex, 'z) backup_env_scheme \<Rightarrow> duration" where
  "effectiveAdvanceRetryDeadline e =
     (if be_AdvanceRetryDeadline e > 0 then be_AdvanceRetryDeadline e else advanceRetryDeadline)"

section \<open>Which volume a pass advances\<close>

definition volumeIsParked :: "VolumeStatus \<Rightarrow> bool" where
  "volumeIsParked vol =
     (if Phase vol = VolumePhasePending \<or> Phase vol = []
      then HasPrefix (Reason vol) (backupReasonExposerUnresolvable @ '':'') else False)"

fun first_non_terminal :: "VolumeStatus list \<Rightarrow> nat \<Rightarrow> nat option \<Rightarrow> nat option" where
  "first_non_terminal [] i parked = parked"
| "first_non_terminal (v # vs) i parked =
     (if terminal_volume v then first_non_terminal vs (Suc i) parked
      else if volumeIsParked v then first_non_terminal vs (Suc i) (if parked = None then Some i else parked)
      else Some i)"

definition firstNonTerminalVolume :: "VolumeStatus list \<Rightarrow> nat option" where
  "firstNonTerminalVolume vols = first_non_terminal vols 0 None"

section \<open>Reasons and clocks\<close>

definition parkVolume :: "('w, 'expr, 'ex, 'z) backup_env_scheme \<Rightarrow> go_error \<Rightarrow> VolumeStatus \<Rightarrow> VolumeStatus" where
  "parkVolume e cause vol =
     vol\<lparr>Reason := clampMessage (backupReasonExposerUnresolvable @ '': '' @ Error (he_show_api e) cause)\<rparr>"

definition recordAdvanceFailure ::
  "('w, 'expr, 'ex, 'z) backup_env_scheme \<Rightarrow> go_error \<Rightarrow> VolumeStatus \<Rightarrow> VolumeStatus" where
  "recordAdvanceFailure e cause vol =
     (if Phase vol = VolumePhasePending \<or> Phase vol = [] then parkVolume e cause vol
      else vol\<lparr>Reason := clampMessage (backupReasonAdvanceRetrying @ '': '' @ Error (he_show_api e) cause)\<rparr>)"

definition advanceBackstopApplies :: "string \<Rightarrow> bool" where
  "advanceBackstopApplies phase \<longleftrightarrow> phase = VolumePhaseSnapshotting \<or> phase = VolumePhaseUploading"

definition stampVolumePhaseEntry :: "instant \<Rightarrow> string \<Rightarrow> VolumeStatus \<Rightarrow> VolumeStatus" where
  "stampVolumePhaseEntry now entryPhase vol =
     (if Phase vol = entryPhase \<and> (PhaseEnteredAt vol \<noteq> None \<or> \<not> advanceBackstopApplies (Phase vol)) then vol
      else vol\<lparr>PhaseEnteredAt := Some now\<rparr>)"

definition clearStaleAdvanceReason :: "string \<Rightarrow> VolumeStatus \<Rightarrow> VolumeStatus" where
  "clearStaleAdvanceReason entryPhase vol =
     (if Phase vol = entryPhase \<or> Reason vol = [] then vol
      else if Phase vol = VolumePhaseFailed \<or> Phase vol = VolumePhaseSkipped then vol
      else vol\<lparr>Reason := []\<rparr>)"

definition deadlineReason :: "string \<Rightarrow> string \<Rightarrow> string" where
  "deadlineReason reason detail = (if detail = [] then reason else shortReason (reason @ '': '' @ detail))"

text \<open>The volume fails when it has been in its phase longer than the outer bound.\<close>

definition failVolumeOnAdvanceBackstop ::
  "('w, 'expr, 'ex, 'z) backup_env_scheme \<Rightarrow> go_error \<Rightarrow> VolumeStatus \<Rightarrow> 'w bstate
   \<Rightarrow> (VolumeStatus \<times> 'w bstate) option" where
  "failVolumeOnAdvanceBackstop e cause vol st =
     (case PhaseEnteredAt vol of
        None \<Rightarrow> None
      | Some t \<Rightarrow>
          if time_sub (he_now e (bw st)) t \<le> effectiveAdvanceRetryDeadline e then None
          else Some (vol\<lparr>Phase := VolumePhaseFailed,
                 Reason := deadlineReason backupReasonAdvanceDeadline (Error (he_show_api e) cause)\<rparr>,
               emit (VolumeFailedEvent (Pvc vol) ''AdvanceBackstop'') st))"

text \<open>The shape every error branch takes: give up on the volume past the bound, else report.\<close>

definition backstop_or ::
  "('w, 'expr, 'ex, 'z) backup_env_scheme \<Rightarrow> go_error \<Rightarrow> (go_error + string) \<Rightarrow> VolumeStatus \<Rightarrow> 'w bstate
   \<Rightarrow> (go_error + string) \<times> VolumeStatus \<times> 'w bstate" where
  "backstop_or e cause otherwise vol st =
     (case failVolumeOnAdvanceBackstop e cause vol st of
        Some (vol', st') \<Rightarrow> (Inr (Pvc vol'), vol', st')
      | None \<Rightarrow> (otherwise, vol, st))"

definition eventObservedAt :: "Event \<Rightarrow> instant" where
  "eventObservedAt ev =
     (let zero = - seconds 62135596800;
          at = (case ev_LastTimestamp ev of None \<Rightarrow> zero | Some t \<Rightarrow> t);
          at = (case ev_SeriesLastObserved ev of Some t \<Rightarrow> if t > at then t else at | None \<Rightarrow> at);
          at = (case ev_EventTime ev of Some t \<Rightarrow> if t > at then t else at | None \<Rightarrow> at)
      in if at = zero then (case ev_CreationTimestamp ev of None \<Rightarrow> zero | Some t \<Rightarrow> t) else at)"

fun newest_warning :: "Event list \<Rightarrow> (Event \<times> instant) option \<Rightarrow> (Event \<times> instant) option" where
  "newest_warning [] newest = newest"
| "newest_warning (ev # evs) newest =
     (if ev_Type ev \<noteq> ''Warning'' then newest_warning evs newest
      else
        let at = eventObservedAt ev
        in newest_warning evs
             (case newest of None \<Rightarrow> Some (ev, at) | Some (_, t) \<Rightarrow> if at > t then Some (ev, at) else newest))"

definition latestWarningEvent ::
  "('w, 'expr, 'ex, 'z) backup_env_scheme \<Rightarrow> string \<Rightarrow> string \<Rightarrow> 'w \<Rightarrow> string" where
  "latestWarningEvent e namespace name w =
     (case be_warning_events e of
        None \<Rightarrow> []
      | Some list_events \<Rightarrow>
          if name = [] then []
          else case list_events namespace name w of
                 Inl _ \<Rightarrow> []
               | Inr evs \<Rightarrow>
                   (case newest_warning evs None of
                      None \<Rightarrow> []
                    | Some (ev, _) \<Rightarrow>
                        let message = TrimSpace (ev_Message ev); reason = TrimSpace (ev_Reason ev)
                        in if reason \<noteq> [] \<and> message \<noteq> [] then reason @ '': '' @ message
                           else if message \<noteq> [] then message else reason))"

section \<open>Identity of what a volume creates\<close>

definition exposureLabels :: "Backup \<Rightarrow> string \<Rightarrow> string_map" where
  "exposureLabels backup pvcName =
     (let labels = [LabelManagedBy \<mapsto> ManagedByValue, LabelBackup \<mapsto> m_Name (b_Meta backup),
            LabelNamespace \<mapsto> m_Namespace (b_Meta backup), LabelPVC \<mapsto> pvcName];
          run = map_get (m_Labels (b_Meta backup)) LabelClusterBackup
      in if run \<noteq> [] then labels(LabelClusterBackup \<mapsto> run) else labels)"

definition ownerBackupNameFromLabels :: "string_map \<Rightarrow> string" where
  "ownerBackupNameFromLabels labels =
     (if map_get labels LabelBackup \<noteq> [] then map_get labels LabelBackup else map_get labels LabelClusterBackup)"

definition mapJobToBackup :: "string_map \<Rightarrow> (string \<times> string) list" where
  "mapJobToBackup labels =
     (if map_get labels LabelManagedBy \<noteq> ManagedByValue then []
      else
        let name = ownerBackupNameFromLabels labels; namespace = map_get labels LabelNamespace
        in if name = [] \<or> namespace = [] then [] else [(namespace, name)])"

definition exposeRequest :: "Backup \<Rightarrow> PersistentVolumeClaim \<Rightarrow> ExposeRequest" where
  "exposeRequest backup pvc =
     \<lparr>xr_Namespace = m_Namespace (b_Meta backup), xr_PVCName = pc_Name pvc,
      xr_StorageClass = (case pc_StorageClassName pvc of None \<Rightarrow> [] | Some c \<Rightarrow> c),
      xr_Capacity = pc_Capacity pvc,
      xr_NamePrefix = moverNamePrefix (m_Namespace (b_Meta backup)) (m_Name (b_Meta backup)) (pc_Name pvc),
      xr_Labels = exposureLabels backup (pc_Name pvc)\<rparr>"

abbreviation volume_prefix :: "Backup \<Rightarrow> string \<Rightarrow> string" where
  "volume_prefix backup pvc \<equiv> moverNamePrefix (m_Namespace (b_Meta backup)) (m_Name (b_Meta backup)) pvc"

section \<open>The Pending phase\<close>

definition pending_attempt ::
  "('w, 'expr, 'ex, 'z) backup_env_scheme \<Rightarrow> Backup \<Rightarrow> VolumeStatus \<Rightarrow> 'w bstate \<Rightarrow> VolumeStatus \<times> 'w bstate" where
  "pending_attempt e backup vol st =
     (case be_get_pvc e (m_Namespace (b_Meta backup)) (Pvc vol) (bw st) of
        Inl err \<Rightarrow>
          if err = NotFound then (vol\<lparr>Phase := VolumePhaseFailed, Reason := ''SourcePVCMissing''\<rparr>, st)
          else (parkVolume e (APIError err) vol, st)
      | Inr pvc \<Rightarrow>
          (case be_For e pvc (bw st) of
             Inl (ErrUnsupported _) \<Rightarrow>
               (vol\<lparr>Phase := VolumePhaseSkipped, Reason := backupReasonSkippedUnsupported\<rparr>,
                emit (VolumeSkippedEvent (Pvc vol)) st)
           | Inl err \<Rightarrow> (parkVolume e (exposer_cause err) vol, st)
           | Inr ex \<Rightarrow>
               (case be_Precheck e ex (bw st) of
                  Some (ErrPrecheckFailed _) \<Rightarrow>
                    (vol\<lparr>Phase := VolumePhaseFailed, Reason := backupReasonPrecheckFailed\<rparr>,
                     emit (VolumeFailedEvent (Pvc vol) ''SnapshotPrecheck'') st)
                | Some err \<Rightarrow> (parkVolume e (exposer_cause err) vol, st)
                | None \<Rightarrow>
                    (case be_Expose e ex (exposeRequest backup pvc) (bw st) of
                       (Inl err, w) \<Rightarrow> (parkVolume e (exposer_cause err) vol, st\<lparr>bw := w\<rparr>)
                     | (Inr _, w) \<Rightarrow> (vol\<lparr>Phase := VolumePhaseSnapshotting\<rparr>, st\<lparr>bw := w\<rparr>)))))"

definition advancePending ::
  "('w, 'expr, 'ex, 'z) backup_env_scheme \<Rightarrow> Backup \<Rightarrow> VolumeStatus \<Rightarrow> 'w bstate \<Rightarrow> VolumeStatus \<times> 'w bstate" where
  "advancePending e backup vol st =
     (case FirstAttemptAt vol of
        None \<Rightarrow> pending_attempt e backup (vol\<lparr>FirstAttemptAt := Some (he_now e (bw st))\<rparr>) st
      | Some t \<Rightarrow>
          if time_sub (he_now e (bw st)) t > effectivePendingResolveDeadline e
          then (vol\<lparr>Phase := VolumePhaseFailed,
                  Reason := (if Reason vol = [] then backupReasonPendingDeadline else Reason vol)\<rparr>,
                emit (VolumeFailedEvent (Pvc vol) ''ExposeVolume'') st)
          else pending_attempt e backup vol st)"

section \<open>The Snapshotting phase\<close>

definition reconstructExposure ::
  "('w, 'expr, 'ex, 'z) backup_env_scheme \<Rightarrow> Backup \<Rightarrow> string \<Rightarrow> 'w bstate
   \<Rightarrow> (go_error + 'ex \<times> Exposure) \<times> 'w bstate" where
  "reconstructExposure e backup pvcName st =
     (case be_get_pvc e (m_Namespace (b_Meta backup)) pvcName (bw st) of
        Inl err \<Rightarrow> (Inl (APIError err), st)
      | Inr pvc \<Rightarrow>
          (case be_For e pvc (bw st) of
             Inl err \<Rightarrow> (Inl (exposer_cause err), st)
           | Inr ex \<Rightarrow>
               (case be_Expose e ex (exposeRequest backup pvc) (bw st) of
                  (Inl err, w) \<Rightarrow> (Inl (exposer_cause err), st\<lparr>bw := w\<rparr>)
                | (Inr exposure, w) \<Rightarrow> (Inr (ex, exposure), st\<lparr>bw := w\<rparr>))))"

definition snapshotDeadlineExceeded ::
  "('w, 'expr, 'ex, 'z) backup_env_scheme \<Rightarrow> 'ex \<Rightarrow> Exposure \<Rightarrow> 'w \<Rightarrow> string" where
  "snapshotDeadlineExceeded e ex exposure w =
     (case be_Progress e ex exposure w of
        None \<Rightarrow> []
      | Some progress \<Rightarrow>
          (case sp_StartedAt progress of
             None \<Rightarrow> []
           | Some t \<Rightarrow>
               let elapsed = time_sub (he_now e w) t
               in if \<not> sp_Acknowledged progress \<and> elapsed > snapshotProgressDeadline
                  then backupReasonSnapshotProgressDeadline
                  else if sp_Acknowledged progress \<and> elapsed > snapshotReadyDeadline
                  then backupReasonSnapshotReadyDeadline
                  else []))"

definition meta_tag_args :: "PersistentVolumeClaim \<Rightarrow> string list" where
  "meta_tag_args pvc =
     concat (map (\<lambda>tag. [''--tag'', tag])
       (PVCMetaTags (pc_Capacity pvc) (case pc_StorageClassName pvc of None \<Rightarrow> [] | Some c \<Rightarrow> c)
          (pc_AccessModes pvc)))"

definition mover_job_request ::
  "('w, 'expr, 'ex, 'z) backup_env_scheme \<Rightarrow> Backup \<Rightarrow> backupRunContext \<Rightarrow> VolumeStatus \<Rightarrow> Exposure \<Rightarrow> 'w \<Rightarrow> JobRequest" where
  "mover_job_request e backup rc vol exposure w =
     (let identity = DataIdentity (rc_clusterID rc) (rc_tenant rc) (m_Namespace (b_Meta backup)) (Pvc vol)
            (rc_scheduleRef rc) (rc_run rc);
          args = resticBackupArgs identity;
          args = (case be_get_pvc e (m_Namespace (b_Meta backup)) (Pvc vol) w of
                    Inr pvc \<Rightarrow> args @ meta_tag_args pvc | Inl _ \<Rightarrow> args);
          moverName = volume_prefix backup (Pvc vol) @ ''-mover''
      in \<lparr>jr_Name = moverName, jr_Operation = OpBackup, jr_ResticArgs = args, jr_RepoURL = rc_repoURL rc,
          jr_S3Connections = rc_s3Connections rc, jr_SecretName = moverName,
          jr_PVC = Some (ex_ExposedPVCName exposure, Path identity),
          jr_BackoffLimit = rc_backoffLimit rc, jr_TTLSeconds = moverJobTTLSeconds,
          jr_Labels = exposureLabels backup (Pvc vol), jr_ExtraEnv = [],
          jr_ServiceAccountName = [], jr_ManifestsVolume = False\<rparr>)"

text \<open>The text \<open>moverSlotBlocked\<close> puts around the error it met.\<close>

definition slot_error :: "('w, 'expr, 'ex, 'z) backup_env_scheme \<Rightarrow> string \<Rightarrow> api_error \<Rightarrow> 'w \<Rightarrow> go_error" where
  "slot_error e moverName err w =
     (case be_get_job e w (be_OperatorNamespace e) moverName of
        Inl get_err \<Rightarrow>
          if get_err = NotFound then Wrap ''list mover Jobs for the concurrency gate'' (APIError err)
          else Wrap (''get mover Job '' @ be_OperatorNamespace e @ ''/'' @ moverName @ '' for the mover admission gate'')
                 (APIError err)
      | Inr _ \<Rightarrow> APIError err)"

definition deleteMoverJobAndSecret :: "('w, 'expr, 'ex, 'z) backup_env_scheme \<Rightarrow> string \<Rightarrow> 'w \<Rightarrow> 'w" where
  "deleteMoverJobAndSecret e stem w =
     deleteJobAndSecret (be_deps e) (be_OperatorNamespace e) (stem @ ''-mover'') w"

text \<open>From a ready exposure to a running mover.\<close>

definition start_mover ::
  "('w, 'expr, 'ex, 'z) backup_env_scheme \<Rightarrow> Backup \<Rightarrow> backupRunContext \<Rightarrow> Exposure \<Rightarrow> VolumeStatus \<Rightarrow> 'w bstate
   \<Rightarrow> (go_error + string) \<times> VolumeStatus \<times> 'w bstate" where
  "start_mover e backup rc exposure vol st =
     (let prefix = volume_prefix backup (Pvc vol);
          moverName = prefix @ ''-mover'';
          request = mover_job_request e backup rc vol exposure (bw st)
      in case moverSlotBlocked (be_get_job e (bw st)) (rd_list_jobs (be_deps e) (bw st)) (be_QuiescenceRequired e (bw st))
                (be_OperatorNamespace e) moverName (rc_repoName rc) (rc_maxConcurrentMovers rc) of
           Inl err \<Rightarrow> (let cause = slot_error e moverName err (bw st) in backstop_or e cause (Inl cause) vol st)
         | Inr True \<Rightarrow> (Inr [], vol, st)
         | Inr False \<Rightarrow>
             (case ensureMoverCredsSecret (be_deps e) moverName (rc_dek rc) (rc_s3CredsSecret rc) (rc_credsNamespace rc)
                    (jr_Labels request) (bw st) of
                (Some err, w) \<Rightarrow> backstop_or e err (Inl err) vol (st\<lparr>bw := w\<rparr>)
              | (None, w) \<Rightarrow>
                  (case rd_create_job (be_deps e) request w of
                     (err, w) \<Rightarrow>
                       let st = st\<lparr>bw := w\<rparr>
                       in if err \<noteq> None \<and> err \<noteq> Some AlreadyExists then
                            (let cause = Wrap (''create mover Job '' @ be_OperatorNamespace e @ ''/'' @ moverName)
                                   (APIError (the err))
                             in backstop_or e cause (Inl cause) vol st)
                          else if err = None \<and>
                              (case be_QuiescenceRequired e (bw st) of
                                 None \<Rightarrow> False
                               | Some quiesce \<Rightarrow> rc_repoName rc \<noteq> [] \<and> quiesce (rc_repoName rc))
                          then (Inr [], vol, st\<lparr>bw := deleteMoverJobAndSecret e prefix (bw st)\<rparr>)
                          else (Inr [], vol\<lparr>Phase := VolumePhaseUploading\<rparr>, st))))"

definition advanceSnapshotting ::
  "('w, 'expr, 'ex, 'z) backup_env_scheme \<Rightarrow> Backup \<Rightarrow> backupRunContext \<Rightarrow> VolumeStatus \<Rightarrow> 'w bstate
   \<Rightarrow> (go_error + string) \<times> VolumeStatus \<times> 'w bstate" where
  "advanceSnapshotting e backup rc vol st =
     (let claim = m_Namespace (b_Meta backup) @ ''/'' @ Pvc vol
      in case reconstructExposure e backup (Pvc vol) st of
           (Inl err, st) \<Rightarrow>
             (let cause = Wrap (''reconstruct exposure for PVC '' @ claim) err
              in backstop_or e cause (Inl cause) vol st)
         | (Inr (ex, exposure), st) \<Rightarrow>
             (case be_Ready e ex exposure (bw st) of
                (ready, w) \<Rightarrow>
                  let st = st\<lparr>bw := w\<rparr>;
                      vol = (case ready of
                          Inl err \<Rightarrow> recordAdvanceFailure e (Wrap (''check exposure readiness for PVC '' @ claim) err) vol
                        | Inr _ \<Rightarrow> vol)
                  in if ready = Inr True then start_mover e backup rc exposure vol st
                     else
                       let late = snapshotDeadlineExceeded e ex exposure (bw st)
                       in if late = backupReasonSnapshotProgressDeadline then
                            (Inr (Pvc vol),
                             vol\<lparr>Phase := VolumePhaseFailed, Reason := backupReasonSnapshotProgressDeadline\<rparr>,
                             emit (VolumeFailedEvent (Pvc vol) ''SnapshotProgress'') st)
                          else if late = backupReasonSnapshotReadyDeadline then
                            (Inr (Pvc vol),
                             vol\<lparr>Phase := VolumePhaseFailed, Reason := deadlineReason backupReasonSnapshotReadyDeadline
                               (latestWarningEvent e (ex_OriginNamespace exposure) (ex_OriginVSName exposure) (bw st))\<rparr>,
                             emit (VolumeFailedEvent (Pvc vol) ''SnapshotReady'') st)
                          else
                            backstop_or e (ErrorNew (''the exposure for PVC '' @ claim @
                                '' never became ready and nothing could be read about its origin VolumeSnapshot, '' @
                                ''so neither snapshot deadline could judge it'')) (Inr []) vol st))"

section \<open>The Uploading phase\<close>

fun container_started :: "ContainerStatus list \<Rightarrow> bool" where
  "container_started [] = False"
| "container_started (c # cs) =
     (if cst_Running c \<or> cst_Terminated c \<noteq> None \<or> cst_LastTerminated c \<noteq> None then True else container_started cs)"

fun moverPodEverStarted :: "Pod list \<Rightarrow> bool" where
  "moverPodEverStarted [] = False"
| "moverPodEverStarted (pod # pods) =
     (if pod_Phase pod = PodRunning \<or> pod_Phase pod = PodSucceeded \<or> pod_Phase pod = PodFailed then True
      else if container_started (pod_ContainerStatuses pod) then True
      else moverPodEverStarted pods)"

fun stalledMoverDetail ::
  "('w, 'expr, 'ex, 'z) backup_env_scheme \<Rightarrow> Pod list \<Rightarrow> string \<Rightarrow> 'w \<Rightarrow> string" where
  "stalledMoverDetail e [] jobName w = latestWarningEvent e (be_OperatorNamespace e) jobName w"
| "stalledMoverDetail e (pod # pods) jobName w =
     (let msg = latestWarningEvent e (be_OperatorNamespace e) (pod_Name pod) w
      in if msg \<noteq> [] then msg else stalledMoverDetail e pods jobName w)"

definition moverStalled ::
  "('w, 'expr, 'ex, 'z) backup_env_scheme \<Rightarrow> Job \<Rightarrow> 'w \<Rightarrow> string option" where
  "moverStalled e job w =
     (case j_CreationTimestamp job of
        None \<Rightarrow> None
      | Some t \<Rightarrow>
          if time_sub (he_now e w) t \<le> effectiveMoverStartDeadline e then None
          else case be_job_pods e (j_Name job) w of
                 Inl _ \<Rightarrow> None
               | Inr pods \<Rightarrow>
                   if moverPodEverStarted pods then None else Some (stalledMoverDetail e pods (j_Name job) w))"

definition enqueueStaleLockUnlock ::
  "('w, 'expr, 'ex, 'z) backup_env_scheme \<Rightarrow> Backup \<Rightarrow> backupRunContext \<Rightarrow> 'w bstate \<Rightarrow> 'w bstate" where
  "enqueueStaleLockUnlock e backup rc st =
     emit (StaleLockUnlockEnqueued (rc_repoName rc))
       (st\<lparr>bw := be_enqueue e \<lparr>rm_RepoName = rc_repoName rc, rm_Kind = OpKind.OpUnlock,
          rm_Name = maintenanceResourceName (m_Name (b_Meta backup)) ''unlock'', rm_Op = OpUnlockJob,
          rm_ResticArgs = UnlockArgs, rm_RepoURL = rc_repoURL rc, rm_DEK = rc_dek rc,
          rm_S3CredsSecret = rc_s3CredsSecret rc, rm_CredsNamespace = rc_credsNamespace rc,
          rm_S3Connections = rc_s3Connections rc\<rparr> (bw st)\<rparr>)"

definition finish_upload ::
  "('w, 'expr, 'ex, 'z) backup_env_scheme \<Rightarrow> Backup \<Rightarrow> backupRunContext \<Rightarrow> string \<Rightarrow> bool \<Rightarrow> VolumeStatus \<Rightarrow> 'w bstate
   \<Rightarrow> VolumeStatus \<times> 'w bstate" where
  "finish_upload e backup rc moverName complete vol st =
     (case readMoverResult (be_unmarshal_result e) (be_job_pods e moverName (bw st)) of
        (result, node, rerr) \<Rightarrow>
          let vol = vol\<lparr>Node := node\<rparr>
          in if complete \<and> rerr = None \<and> OK result then
               (vol\<lparr>SnapshotID := mr_SnapshotID result, SizeBytes := mr_SizeBytes result,
                  AddedBytes := mr_AddedBytes result, Phase := VolumePhaseCompleted\<rparr>, st)
             else
               let st = emit (VolumeFailedEvent (Pvc vol) ''BackupVolume'') st
               in (vol\<lparr>Phase := VolumePhaseFailed, Reason := moverFailureReason result rerr\<rparr>,
                   if rerr \<noteq> None then
                     enqueueStaleLockUnlock e backup rc st
                   else st))"

definition advanceUploading ::
  "('w, 'expr, 'ex, 'z) backup_env_scheme \<Rightarrow> Backup \<Rightarrow> backupRunContext \<Rightarrow> VolumeStatus \<Rightarrow> 'w bstate
   \<Rightarrow> (go_error + string) \<times> VolumeStatus \<times> 'w bstate" where
  "advanceUploading e backup rc vol st =
     (let moverName = volume_prefix backup (Pvc vol) @ ''-mover'';
          job_ref = be_OperatorNamespace e @ ''/'' @ moverName
      in case be_get_job e (bw st) (be_OperatorNamespace e) moverName of
           Inl err \<Rightarrow>
             if err = NotFound then
               backstop_or e (ErrorNew (''mover Job '' @ job_ref @ '' does not exist, so there is nothing to poll and '' @
                   ''no clock to measure: it was never created, or it was deleted from under this run''))
                 (Inr []) vol st
             else (let cause = Wrap (''get mover Job '' @ job_ref) (APIError err)
                   in backstop_or e cause (Inl cause) vol st)
         | Inr job \<Rightarrow>
             (let complete = (1 \<le>s j_Succeeded job \<or> jobConditionTrue job JobComplete);
                  job_failed = (jobConditionTrue job JobFailed \<or> rc_backoffLimit rc <s j_Failed job)
              in if \<not> complete \<and> \<not> job_failed then
                   (case moverStalled e job (bw st) of
                      Some detail \<Rightarrow>
                        (Inr (Pvc vol),
                         vol\<lparr>Phase := VolumePhaseFailed, Reason := deadlineReason backupReasonMoverStartDeadline detail\<rparr>,
                         emit (VolumeFailedEvent (Pvc vol) ''MoverStart'') st)
                    | None \<Rightarrow> (Inr [], vol, st))
                 else (case finish_upload e backup rc moverName complete vol st of
                         (vol, st) \<Rightarrow> (Inr (Pvc vol), vol, st))))"

section \<open>One step of a volume\<close>

definition advanceVolumePhase ::
  "('w, 'expr, 'ex, 'z) backup_env_scheme \<Rightarrow> Backup \<Rightarrow> backupRunContext \<Rightarrow> VolumeStatus \<Rightarrow> 'w bstate
   \<Rightarrow> (go_error + string) \<times> VolumeStatus \<times> 'w bstate" where
  "advanceVolumePhase e backup rc vol st =
     (if Phase vol = VolumePhasePending \<or> Phase vol = [] then
        (case advancePending e backup vol st of (vol, st) \<Rightarrow> (Inr [], vol, st))
      else if Phase vol = VolumePhaseSnapshotting then advanceSnapshotting e backup rc vol st
      else if Phase vol = VolumePhaseUploading then advanceUploading e backup rc vol st
      else (Inr [], vol, st))"

definition advanceVolume ::
  "('w, 'expr, 'ex, 'z) backup_env_scheme \<Rightarrow> Backup \<Rightarrow> backupRunContext \<Rightarrow> VolumeStatus \<Rightarrow> 'w bstate
   \<Rightarrow> (go_error + string) \<times> VolumeStatus \<times> 'w bstate" where
  "advanceVolume e backup rc vol st =
     (let entryPhase = Phase vol
      in case advanceVolumePhase e backup rc vol st of
           (res, vol, st) \<Rightarrow>
             let vol = stampVolumePhaseEntry (he_now e (bw st)) entryPhase vol
             in (res, (case res of Inr _ \<Rightarrow> clearStaleAdvanceReason entryPhase vol | Inl _ \<Rightarrow> vol), st))"

end
