(* ===== verification/Manifest_Phase.thy ===== *)
theory Manifest_Phase
  imports Volume_Machine
begin

text \<open>
  Capturing the manifests of a namespace beside its volumes
  (\<^verbatim>\<open>internal/controller/manifests_phase.go\<close>, \<^verbatim>\<open>manifest_rbac.go\<close>): one mover Job with a
  transient RoleBinding in the namespace it reads, and its verdict on the Backup. The two calls on
  RoleBindings and Go's quoting of a string are fields of \<open>manifest_env\<close>.
\<close>

section \<open>The transient RoleBinding\<close>

abbreviation LabelMoverRole :: string where "LabelMoverRole \<equiv> ''crystalbackup.io/mover-role''"
abbreviation LabelMoverJob :: string where "LabelMoverJob \<equiv> ''crystalbackup.io/mover-job''"
abbreviation LabelOperatorNS :: string where "LabelOperatorNS \<equiv> ''crystalbackup.io/operator-namespace''"
abbreviation MoverRoleManifest :: string where "MoverRoleManifest \<equiv> ''manifest''"
abbreviation EnvManifestsNamespace :: string where "EnvManifestsNamespace \<equiv> ''CRYSTAL_MANIFESTS_NAMESPACE''"
abbreviation EnvManifestsClusterID :: string where "EnvManifestsClusterID \<equiv> ''CRYSTAL_MANIFESTS_CLUSTER_ID''"
abbreviation EnvManifestsBackupName :: string where "EnvManifestsBackupName \<equiv> ''CRYSTAL_MANIFESTS_BACKUP_NAME''"
abbreviation EnvManifestsExcludeSecretData :: string
  where "EnvManifestsExcludeSecretData \<equiv> ''CRYSTAL_MANIFESTS_EXCLUDE_SECRET_DATA''"

record manifestRBACRequest =
  mq_TargetNamespace :: string
  mq_JobName :: string
  mq_ClusterRoleName :: string
  mq_ServiceAccountName :: string
  mq_OperatorNamespace :: string

record RoleBinding =
  rb_Namespace :: string
  rb_Name :: string
  rb_Labels :: string_map
  rb_RoleRef :: "string \<times> string"
  rb_Subjects :: "(string \<times> string \<times> string) list"

record ('w, 'expr, 'ex) manifest_env = "('w, 'expr, 'ex) backup_env" +
  me_ManifestReaderClusterRole :: string
  me_ManifestMoverServiceAccount :: string
  me_create_binding :: "RoleBinding \<Rightarrow> 'w \<Rightarrow> api_error option \<times> 'w"
  me_delete_binding :: "string \<Rightarrow> string \<Rightarrow> 'w \<Rightarrow> api_error option \<times> 'w"
  me_Quote :: "string \<Rightarrow> string"

definition manifestBindingName :: "string \<Rightarrow> string" where
  "manifestBindingName jobName = ''crystal-manifest-'' @ jobName"

definition manifest_binding :: "manifestRBACRequest \<Rightarrow> RoleBinding" where
  "manifest_binding req =
     \<lparr>rb_Namespace = mq_TargetNamespace req, rb_Name = manifestBindingName (mq_JobName req),
      rb_Labels = [LabelManagedBy \<mapsto> ManagedByValue, LabelMoverRole \<mapsto> MoverRoleManifest,
        LabelMoverJob \<mapsto> mq_JobName req, LabelOperatorNS \<mapsto> mq_OperatorNamespace req],
      rb_RoleRef = (''ClusterRole'', mq_ClusterRoleName req),
      rb_Subjects = [(''ServiceAccount'', mq_OperatorNamespace req, mq_ServiceAccountName req)]\<rparr>"

definition ensureManifestRoleBinding ::
  "('w, 'expr, 'ex, 'z) manifest_env_scheme \<Rightarrow> manifestRBACRequest \<Rightarrow> 'w \<Rightarrow> go_error option \<times> 'w" where
  "ensureManifestRoleBinding e req w =
     (case me_create_binding e (manifest_binding req) w of
        (None, w) \<Rightarrow> (None, w)
      | (Some err, w) \<Rightarrow>
          if err = AlreadyExists then (None, w)
          else (Some (Wrap (''create transient RoleBinding '' @ mq_TargetNamespace req @ ''/'' @
              manifestBindingName (mq_JobName req) @ '' to '' @ mq_ClusterRoleName req) (APIError err)), w))"

definition deleteManifestRoleBinding ::
  "('w, 'expr, 'ex, 'z) manifest_env_scheme \<Rightarrow> string \<Rightarrow> string \<Rightarrow> 'w \<Rightarrow> go_error option \<times> 'w" where
  "deleteManifestRoleBinding e targetNamespace jobName w =
     (case me_delete_binding e targetNamespace (manifestBindingName jobName) w of
        (Some err, w) \<Rightarrow>
          if err = NotFound then (None, w)
          else (Some (Wrap (''delete transient RoleBinding '' @ targetNamespace @ ''/'' @ manifestBindingName jobName)
                 (APIError err)), w)
      | (None, w) \<Rightarrow> (None, w))"

section \<open>The capture\<close>

abbreviation ConditionManifestsComplete :: string where "ConditionManifestsComplete \<equiv> ''ManifestsComplete''"
abbreviation reasonManifestsComplete :: string where "reasonManifestsComplete \<equiv> ''Captured''"
abbreviation reasonManifestsPartial :: string where "reasonManifestsPartial \<equiv> ''PartiallyEnumerated''"
abbreviation reasonManifestsFailed :: string where "reasonManifestsFailed \<equiv> ''CaptureFailed''"

definition manifestsLabels :: "Backup \<Rightarrow> string_map" where
  "manifestsLabels backup =
     (let labels = [LabelManagedBy \<mapsto> ManagedByValue, LabelBackup \<mapsto> m_Name (b_Meta backup),
            LabelNamespace \<mapsto> m_Namespace (b_Meta backup), LabelMoverRole \<mapsto> MoverRoleManifest];
          run = map_get (m_Labels (b_Meta backup)) LabelClusterBackup
      in if run \<noteq> [] then labels(LabelClusterBackup \<mapsto> run) else labels)"

definition manifests_job ::
  "('w, 'expr, 'ex, 'z) manifest_env_scheme \<Rightarrow> Backup \<Rightarrow> backupRunContext \<Rightarrow> string \<Rightarrow> bool \<Rightarrow> JobRequest" where
  "manifests_job e backup rc jobName excludeSecretData =
     (let identity = ManifestsIdentity (rc_clusterID rc) (rc_tenant rc) (m_Namespace (b_Meta backup))
            (rc_scheduleRef rc) (rc_run rc)
      in \<lparr>jr_Name = jobName, jr_Operation = OpManifestsBackup, jr_ResticArgs = resticBackupArgs identity,
          jr_RepoURL = rc_repoURL rc, jr_S3Connections = rc_s3Connections rc, jr_SecretName = jobName, jr_PVC = None,
          jr_BackoffLimit = rc_backoffLimit rc, jr_TTLSeconds = moverJobTTLSeconds, jr_Labels = manifestsLabels backup,
          jr_ExtraEnv = [(EnvManifestsNamespace, m_Namespace (b_Meta backup)), (EnvManifestsClusterID, rc_clusterID rc),
            (EnvManifestsBackupName, rc_run rc),
            (EnvManifestsExcludeSecretData, if excludeSecretData then ''true'' else ''false'')],
          jr_ServiceAccountName = me_ManifestMoverServiceAccount e, jr_ManifestsVolume = True\<rparr>)"

definition startManifestsJob ::
  "('w, 'expr, 'ex, 'z) manifest_env_scheme \<Rightarrow> Backup \<Rightarrow> backupRunContext \<Rightarrow> string \<Rightarrow> bool \<Rightarrow> 'w
   \<Rightarrow> go_error option \<times> 'w" where
  "startManifestsJob e backup rc jobName excludeSecretData w =
     (case ensureMoverCredsSecret (be_deps e) jobName (rc_dek rc) (rc_s3CredsSecret rc) (rc_credsNamespace rc)
             (manifestsLabels backup) w of
        (Some err, w) \<Rightarrow> (Some err, w)
      | (None, w) \<Rightarrow>
          (case ensureManifestRoleBinding e \<lparr>mq_TargetNamespace = m_Namespace (b_Meta backup), mq_JobName = jobName,
                   mq_ClusterRoleName = me_ManifestReaderClusterRole e,
                   mq_ServiceAccountName = me_ManifestMoverServiceAccount e,
                   mq_OperatorNamespace = be_OperatorNamespace e\<rparr> w of
             (Some err, w) \<Rightarrow> (Some err, w)
           | (None, w) \<Rightarrow>
               (case rd_create_job (be_deps e) (manifests_job e backup rc jobName excludeSecretData) w of
                  (None, w) \<Rightarrow> (None, w)
                | (Some err, w) \<Rightarrow>
                    if err = AlreadyExists then (None, w)
                    else (Some (Wrap (''create manifest mover Job '' @ be_OperatorNamespace e @ ''/'' @ jobName) (APIError err)),
                          snd (deleteManifestRoleBinding e (m_Namespace (b_Meta backup)) jobName w)))))"

definition recordManifestsFailure ::
  "('w, 'expr, 'ex, 'z) manifest_env_scheme \<Rightarrow> string \<Rightarrow> Backup \<Rightarrow> Backup" where
  "recordManifestsFailure e reason backup =
     set_cond e ConditionManifestsComplete ConditionFalse reasonManifestsFailed
       (if reason = [] then ''the manifest mover reported a failure with no reason'' else reason) backup"

fun result_error_Error :: "(string \<Rightarrow> string) \<Rightarrow> result_error \<Rightarrow> string" where
  "result_error_Error quote EmptyTerminationMessage =
     ''empty mover termination message: the container terminated without writing a result '' @
     ''(e.g. OOMKilled, SIGKILL or eviction); treat as failure''"
| "result_error_Error quote (UndecodableMessage msg err) =
     ''decode mover termination message '' @ quote msg @ '': '' @ err"

fun read_error_Error :: "('w, 'expr, 'ex, 'z) manifest_env_scheme \<Rightarrow> string \<Rightarrow> read_error \<Rightarrow> string" where
  "read_error_Error e jobName (ReadListError err) = ''list mover pods for job '' @ jobName @ '': '' @ he_show_api e err"
| "read_error_Error e jobName (moverKilledError reason) = reason"
| "read_error_Error e jobName (ReadParseError err) = result_error_Error (me_Quote e) err"
| "read_error_Error e jobName NoTerminatedPod =
     ''no terminated mover pod found for job '' @ be_OperatorNamespace e @ ''/'' @ jobName"

definition record_manifests ::
  "('w, 'expr, 'ex, 'z) manifest_env_scheme \<Rightarrow> MoverResult \<Rightarrow> Backup \<Rightarrow> Backup" where
  "record_manifests e result backup =
     (let n = FormatInt (sint (mr_ResourceCount result));
          b = backup\<lparr>b_Status := (b_Status backup)\<lparr>bs_Manifests :=
                Some \<lparr>ms_SnapshotID = mr_SnapshotID result, ms_ResourceCount = mr_ResourceCount result\<rparr>\<rparr>\<rparr>
      in if IncompleteManifests result
         then set_cond e ConditionManifestsComplete ConditionFalse reasonManifestsPartial
           (''captured '' @ n @ '' resource(s); some kinds could not be enumerated '' @ [CHR 0xE2, CHR 0x80, CHR 0x94] @
            '' see the warnings in index.json of snapshot '' @ mr_SnapshotID result) b
         else set_cond e ConditionManifestsComplete ConditionTrue reasonManifestsComplete
           (''captured '' @ n @ '' resource(s)'') b)"

text \<open>Whether the manifests are done, the stem of the Job to tear down, and an error.\<close>

definition advanceManifests ::
  "('w, 'expr, 'ex, 'z) manifest_env_scheme \<Rightarrow> Backup \<Rightarrow> backupRunContext \<Rightarrow> bool \<Rightarrow> bool \<Rightarrow> 'w
   \<Rightarrow> (bool \<times> string \<times> go_error option) \<times> Backup \<times> 'w" where
  "advanceManifests e backup rc includeManifests excludeSecretData w =
     (if \<not> includeManifests then ((True, [], None), backup, w)
      else if bs_Manifests (b_Status backup) \<noteq> None then ((True, [], None), backup, w)
      else if (case he_find_condition e (bs_Conditions (b_Status backup)) ConditionManifestsComplete of
                 None \<Rightarrow> False | Some c \<Rightarrow> cond_Reason c = reasonManifestsFailed)
      then ((True, [], None), backup, w)
      else
        let stem = manifestsJobPrefix (m_Namespace (b_Meta backup)) (m_Name (b_Meta backup));
            jobName = manifestsJobName stem
        in case be_get_job e w (be_OperatorNamespace e) jobName of
             Inl err \<Rightarrow>
               if err = NotFound then
                 (case startManifestsJob e backup rc jobName excludeSecretData w of
                    (err, w) \<Rightarrow> ((False, [], err), backup, w))
               else ((False, [], Some (Wrap (''get manifest mover Job '' @ be_OperatorNamespace e @ ''/'' @ jobName)
                        (APIError err))), backup, w)
           | Inr job \<Rightarrow>
               if j_Succeeded job = 0 \<and> j_Failed job = 0 then ((False, [], None), backup, w)
               else
                 (case readMoverResult (be_unmarshal_result e) (be_job_pods e jobName w) of
                    (result, _, readErr) \<Rightarrow>
                      ((True, stem, None),
                       (case readErr of
                          Some err \<Rightarrow> recordManifestsFailure e
                            (''could not read the mover result: '' @ read_error_Error e jobName err) backup
                        | None \<Rightarrow>
                            if \<not> OK result then recordManifestsFailure e (mr_Error result) backup
                            else record_manifests e result backup),
                       w)))"

definition teardownManifests ::
  "('w, 'expr, 'ex, 'z) manifest_env_scheme \<Rightarrow> Backup \<Rightarrow> string \<Rightarrow> 'w \<Rightarrow> 'w" where
  "teardownManifests e backup stem w =
     deleteMoverJobAndSecret e stem
       (snd (deleteManifestRoleBinding e (m_Namespace (b_Meta backup)) (manifestsJobName stem) w))"

section \<open>Properties\<close>

lemma set_cond_frame [simp]:
  "b_Meta (set_cond e t s r m b) = b_Meta b" "bs_Manifests (b_Status (set_cond e t s r m b)) = bs_Manifests (b_Status b)"
  "bs_Volumes (b_Status (set_cond e t s r m b)) = bs_Volumes (b_Status b)"
  "bs_Phase (b_Status (set_cond e t s r m b)) = bs_Phase (b_Status b)"
  "bs_Hooks (b_Status (set_cond e t s r m b)) = bs_Hooks (b_Status b)"
  "bs_PostHookAttempts (b_Status (set_cond e t s r m b)) = bs_PostHookAttempts (b_Status b)"
  "bs_BackupTime (b_Status (set_cond e t s r m b)) = bs_BackupTime (b_Status b)"
  "bs_CompletionTime (b_Status (set_cond e t s r m b)) = bs_CompletionTime (b_Status b)"
  by (simp_all add: set_cond_def)

text \<open>
  The first failed pod ends the capture, whatever retries the Job has left: its verdict is recorded
  and its teardown requested for every backoff limit.
\<close>

lemma manifests_capture_not_retried:
  assumes "be_get_job e w (be_OperatorNamespace e) (manifestsJobName (manifestsJobPrefix (m_Namespace (b_Meta backup))
      (m_Name (b_Meta backup)))) = Inr job"
    and "j_Succeeded job = 0" and "j_Failed job = 1" and "bs_Manifests (b_Status backup) = None"
    and "he_find_condition e (bs_Conditions (b_Status backup)) ConditionManifestsComplete = None"
  shows "fst (advanceManifests e backup (rc\<lparr>rc_backoffLimit := limit\<rparr>) True excl w) =
    (True, manifestsJobPrefix (m_Namespace (b_Meta backup)) (m_Name (b_Meta backup)), None)"
  using assms by (simp add: advanceManifests_def Let_def split: prod.split)

text \<open>
  Manifests are recorded as captured only from the parsed, successful result of their mover;
  anything else that ends the capture leaves no snapshot on the Backup, only the condition that says it failed. A
  capture that has ended is never started again, and a Job is torn down only after a verdict.
\<close>

theorem manifests_recorded_only_from_a_result:
  assumes s: "advanceManifests e backup rc inc excl w = ((done, stem, err), b', w')"
  shows "b_Meta b' = b_Meta backup \<and> bs_Volumes (b_Status b') = bs_Volumes (b_Status backup) \<and>
    (bs_Manifests (b_Status b') \<noteq> bs_Manifests (b_Status backup) \<longrightarrow>
       (\<exists>pods pod t result. be_job_pods e (manifestsJobName (manifestsJobPrefix (m_Namespace (b_Meta backup))
            (m_Name (b_Meta backup)))) w = Inr pods \<and> pod \<in> set pods \<and> first_termination pod = Some t \<and>
          be_unmarshal_result e (t_Message t) = Inr result \<and> OK result \<and>
          bs_Manifests (b_Status b') = Some \<lparr>ms_SnapshotID = mr_SnapshotID result, ms_ResourceCount = mr_ResourceCount result\<rparr>)) \<and>
    (stem \<noteq> [] \<longrightarrow> done \<and> err = None) \<and>
    (bs_Manifests (b_Status backup) \<noteq> None \<longrightarrow> done \<and> b' = backup \<and> w' = w)"
proof -
  let ?stem = "manifestsJobPrefix (m_Namespace (b_Meta backup)) (m_Name (b_Meta backup))"
  let ?job = "manifestsJobName ?stem"
  let ?failed = "case he_find_condition e (bs_Conditions (b_Status backup)) ConditionManifestsComplete of
    None \<Rightarrow> False | Some c \<Rightarrow> cond_Reason c = reasonManifestsFailed"
  show ?thesis
  proof (cases "\<not> inc \<or> bs_Manifests (b_Status backup) \<noteq> None \<or> ?failed")
    case True
    then have "done" "stem = []" "err = None" "b' = backup" "w' = w"
      using s unfolding advanceManifests_def by (simp_all split: if_splits)
    then show ?thesis by simp
  next
    case False
    then have g: "inc" "bs_Manifests (b_Status backup) = None" "\<not> ?failed" by simp_all
    show ?thesis
    proof (cases "be_get_job e w (be_OperatorNamespace e) ?job")
      case (Inl gerr)
      then have "stem = [] \<and> b' = backup" using s g unfolding advanceManifests_def Let_def
        by (simp only: if_False if_True not_True_eq_False sum.case simp_thms) (auto split: if_splits prod.splits)
      then show ?thesis using g(2) by simp
    next
      case (Inr job)
      obtain result node rerr where r: "readMoverResult (be_unmarshal_result e) (be_job_pods e ?job w) = (result, node, rerr)"
        by (metis prod_cases3)
      show ?thesis
      proof (cases "j_Succeeded job = 0 \<and> j_Failed job = 0")
        case True
        then have "stem = [] \<and> b' = backup" using s g Inr unfolding advanceManifests_def Let_def
          by (simp only: if_False if_True not_True_eq_False sum.case simp_thms) auto
        then show ?thesis using g(2) by simp
      next
        case False
        then have b': "b' = (case rerr of
            Some err \<Rightarrow> recordManifestsFailure e (''could not read the mover result: '' @ read_error_Error e ?job err) backup
          | None \<Rightarrow> if \<not> OK result then recordManifestsFailure e (mr_Error result) backup else record_manifests e result backup)"
          and d: "done" "err = None"
          using s g Inr r unfolding advanceManifests_def Let_def
          by (simp_all only: if_False if_True not_True_eq_False sum.case simp_thms prod.case) auto
        have m: "b_Meta b' = b_Meta backup \<and> bs_Volumes (b_Status b') = bs_Volumes (b_Status backup)"
          unfolding b' by (simp add: recordManifestsFailure_def record_manifests_def Let_def split: option.split)
        show ?thesis
        proof (cases "rerr = None \<and> OK result")
          case True
          then have "bs_Manifests (b_Status b') = Some \<lparr>ms_SnapshotID = mr_SnapshotID result, ms_ResourceCount = mr_ResourceCount result\<rparr>"
            unfolding b' by (simp add: record_manifests_def Let_def)
          moreover from r True obtain pods where "be_job_pods e ?job w = Inr pods"
            "read_pods (be_unmarshal_result e) pods None None = (result, node, None)"
            by (auto simp: readMoverResult_def split: sum.splits)
          moreover from read_pods_source [OF this(2)] obtain pod t where "pod \<in> set pods" "first_termination pod = Some t"
            "be_unmarshal_result e (t_Message t) = Inr result" by auto
          ultimately show ?thesis using m d g(2) True by auto
        next
          case False
          then have "bs_Manifests (b_Status b') = bs_Manifests (b_Status backup)"
            unfolding b' by (auto simp: recordManifestsFailure_def split: option.split)
          then show ?thesis using m d g(2) by simp
        qed
      qed
    qed
  qed
qed

end
