(* ===== verification/Backup_Controller.thy ===== *)
theory Backup_Controller
  imports Manifest_Phase
begin

text \<open>
  The reconcile pass of a Backup (\<^verbatim>\<open>internal/controller/backup_controller.go\<close>): deletion,
  the projected and the ended object, the gates before the first snapshot, the freeze window, one
  step of one volume, the manifests, the status write and only then the teardown. The handlers of
  the parts are the ones of \<open>Freeze_Window\<close>, \<open>Volume_Machine\<close> and \<open>Manifest_Phase\<close>; the world
  threads through all of them. Spans and metrics are not modelled.
\<close>

section \<open>The environment\<close>

abbreviation FinalizerBackup :: string where "FinalizerBackup \<equiv> ''crystalbackup.io/backup''"
abbreviation AnnotationExposuresCleaned :: string where "AnnotationExposuresCleaned \<equiv> ''crystalbackup.io/exposures-cleaned''"
abbreviation AnnotationExposuresCleanedValue :: string where "AnnotationExposuresCleanedValue \<equiv> ''true''"
abbreviation reasonLocationUnreadable :: string where "reasonLocationUnreadable \<equiv> ''LocationUnreadable''"
abbreviation reasonKEKUnavailable :: string where "reasonKEKUnavailable \<equiv> ''KEKUnavailable''"
abbreviation reasonKEKInvalid :: string where "reasonKEKInvalid \<equiv> ''KEKInvalid''"
abbreviation kekIdentityDataKey :: string where "kekIdentityDataKey \<equiv> ''identity''"

definition shortRequeueInterval :: duration where "shortRequeueInterval = seconds 30"
definition exposureDrainRecheckInterval :: duration where "exposureDrainRecheckInterval = seconds 15"

record 'expr BackupRunSpec =
  brs_PVCSelector :: PVCSelector
  brs_IncludeManifests :: "bool option"
  brs_ExcludeSecretData :: bool
  brs_Hooks :: "'expr HooksSpec"
  brs_MaxConcurrentMovers :: i32
  brs_BackoffLimit :: i32

record 'expr BackupSpec =
  bsp_ScheduleRef :: string
  bsp_LocationKind :: string
  bsp_LocationName :: string
  bsp_Run :: "'expr BackupRunSpec option"

type_synonym residue = "(string \<times> string_map) list"

record ('w, 'expr, 'ex, 'identity) ctl_env = "('w, 'expr, 'ex) manifest_env" +
  ce_get_backup :: "string \<Rightarrow> string \<Rightarrow> 'w \<Rightarrow> api_error + 'expr BackupSpec \<times> Backup"
  ce_update :: "Backup \<Rightarrow> 'w \<Rightarrow> api_error option \<times> 'w"
  ce_patch :: "Backup \<Rightarrow> 'w \<Rightarrow> api_error option \<times> 'w"
  ce_get_fresh :: "(string \<Rightarrow> string \<Rightarrow> 'w \<Rightarrow> api_error + Backup) option"
  ce_get_cluster_run :: "string \<Rightarrow> 'w \<Rightarrow> api_error + 'expr BackupRunSpec"
  ce_get_location :: "string \<Rightarrow> string \<Rightarrow> 'w \<Rightarrow> api_error + BackupLocation"
  ce_get_cluster_location :: "string \<Rightarrow> 'w \<Rightarrow> api_error + ClusterBackupLocation"
  ce_get_repository :: "string \<Rightarrow> 'w \<Rightarrow> api_error + BackupRepository"
  ce_namespace_labels :: "string \<Rightarrow> 'w \<Rightarrow> api_error + string_map"
  ce_list_pvcs :: "string \<Rightarrow> 'w \<Rightarrow> api_error + PersistentVolumeClaim list"
  ce_keys :: "('w, 'identity) key_env"
  ce_TeardownExposure :: "string \<Rightarrow> string \<Rightarrow> string_map \<Rightarrow> 'w \<Rightarrow> go_error option \<times> 'w"
  ce_list_contents :: "string_map \<Rightarrow> 'w \<Rightarrow> (api_error + residue) option"
  ce_list_snapshots :: "string_map \<Rightarrow> string \<Rightarrow> 'w \<Rightarrow> (api_error + residue) option"
  ce_list_clones :: "string_map \<Rightarrow> string \<Rightarrow> 'w \<Rightarrow> api_error + residue"

abbreviation b_ns :: "Backup \<Rightarrow> string" where "b_ns b \<equiv> m_Namespace (b_Meta b)"
abbreviation b_name :: "Backup \<Rightarrow> string" where "b_name b \<equiv> m_Name (b_Meta b)"
abbreviation b_key :: "Backup \<Rightarrow> string" where "b_key b \<equiv> b_ns b @ ''/'' @ b_name b"

section \<open>Small decisions\<close>

definition hooksDeclared :: "'expr HooksSpec \<Rightarrow> bool" where
  "hooksDeclared spec \<longleftrightarrow> length (hsp_Pre spec) > 0 \<or> length (hsp_Post spec) > 0 \<or> hsp_HonorAnnotations spec"

definition includeManifests :: "'expr BackupRunSpec \<Rightarrow> bool" where
  "includeManifests run = (case brs_IncludeManifests run of None \<Rightarrow> True | Some b \<Rightarrow> b)"

definition setTerminalCondition :: "('w, 'expr, 'z) hook_env_scheme \<Rightarrow> string \<Rightarrow> Backup \<Rightarrow> Backup" where
  "setTerminalCondition e phase backup =
     (if phase = BackupPhaseCompleted then
        set_cond e ConditionReady ConditionTrue ''Completed'' ''all selected volumes were backed up'' backup
      else if phase = BackupPhasePartiallyCompleted then
        set_cond e ConditionReady ConditionTrue ''PartiallyCompleted''
          ''some volumes were skipped (unsupported storage); none failed'' backup
      else if phase = BackupPhasePartiallyFailed then
        set_cond e ConditionReady ConditionFalse ''PartiallyFailed''
          ''at least one volume failed; some data was backed up'' backup
      else set_cond e ConditionReady ConditionFalse ''Failed'' ''every volume failed'' backup)"

section \<open>Resolving the run\<close>

definition gate ::
  "('w, 'expr, 'z) hook_env_scheme \<Rightarrow> string \<Rightarrow> string \<Rightarrow> Backup \<Rightarrow> 'w bstate
   \<Rightarrow> (ctrl_result \<times> go_error option) \<times> Backup \<times> 'w bstate" where
  "gate e reason message backup st =
     (let b = set_cond e ConditionReady ConditionFalse reason message
                (backup\<lparr>b_Status := (b_Status backup)\<lparr>bs_Phase := BackupPhasePending\<rparr>\<rparr>)
      in case he_update_status e b (bw st) of
           (Some err, w) \<Rightarrow>
             ((NoRequeue, Some (Wrap (''update status for Backup '' @ b_key b) (APIError err))), b, st\<lparr>bw := w\<rparr>)
         | (None, w) \<Rightarrow> ((RequeueAfter shortRequeueInterval, None), b, st\<lparr>bw := w\<rparr>))"

definition resolveRun ::
  "('w, 'expr, 'ex, 'identity, 'z) ctl_env_scheme \<Rightarrow> 'expr BackupSpec \<Rightarrow> Backup \<Rightarrow> 'w
   \<Rightarrow> go_error + 'expr BackupRunSpec option" where
  "resolveRun e spec backup w =
     (case bsp_Run spec of
        Some run \<Rightarrow> Inr (Some run)
      | None \<Rightarrow>
          let runName = map_get (m_Labels (b_Meta backup)) LabelClusterBackup
          in if runName = [] then Inr None
             else case ce_get_cluster_run e runName w of
                    Inl err \<Rightarrow>
                      if err = NotFound then Inr None
                      else Inl (Wrap (''get parent ClusterBackup '' @ runName) (APIError err))
                  | Inr run \<Rightarrow> Inr (Some run))"

text \<open>A refusal is a reason and a message.\<close>

definition resolveBackupLocation ::
  "('w, 'expr, 'ex, 'identity, 'z) ctl_env_scheme \<Rightarrow> 'expr BackupSpec \<Rightarrow> Backup \<Rightarrow> 'w
   \<Rightarrow> (string \<times> string) + locationBinding" where
  "resolveBackupLocation e spec backup w =
     (let name = bsp_LocationName spec
      in if bsp_LocationKind spec = kindBackupLocation then
           (case ce_get_location e (b_ns backup) name w of
              Inl err \<Rightarrow>
                if err = NotFound
                then Inl (''LocationNotFound'', ''BackupLocation '' @ b_ns backup @ ''/'' @ name @ '' not found'')
                else Inl (reasonLocationUnreadable, ''get BackupLocation '' @ b_ns backup @ ''/'' @ name @ '': '' @ he_show_api e err)
            | Inr loc \<Rightarrow>
                if bl_StatusClusterID loc = []
                then Inl (''LocationNotReady'', ''BackupLocation '' @ b_ns backup @ ''/'' @ name @
                       '' has not resolved its cluster ID yet'')
                else Inr (bindingFromNamespacedLocation loc))
         else
           (case ce_get_cluster_location e name w of
              Inl err \<Rightarrow>
                if err = NotFound
                then Inl (''LocationNotFound'', ''ClusterBackupLocation '' @ me_Quote e name @ '' not found'')
                else Inl (reasonLocationUnreadable, ''get ClusterBackupLocation '' @ name @ '': '' @ he_show_api e err)
            | Inr cbl \<Rightarrow> Inr (bindingFromClusterLocation cbl (be_OperatorNamespace e))))"

definition resolvePlatformDEKCommon ::
  "('w, 'expr, 'ex, 'identity, 'z) ctl_env_scheme \<Rightarrow> ClusterBackupLocation \<Rightarrow> 'w \<Rightarrow> ((string \<times> string) + string) \<times> 'w" where
  "resolvePlatformDEKCommon e loc w =
     (let ns = be_OperatorNamespace e; kekName = cbl_ClusterKEKSecretRef loc
      in case GetValue (rd_get_secret (be_deps e)) ns kekName kekIdentityDataKey w of
           Inl err \<Rightarrow> (Inl (reasonKEKUnavailable, ''read cluster KEK secret '' @ ns @ ''/'' @ kekName @ '': '' @
               Error (he_show_api e) err), w)
         | Inr ident \<Rightarrow>
             (case NewAgeWrapper (ce_keys e) ident of
                Inl err \<Rightarrow> (Inl (reasonKEKInvalid, ''parse cluster KEK secret '' @ ns @ ''/'' @ kekName @ '': '' @
                    Error (he_show_api e) err), w)
              | Inr wrapper \<Rightarrow>
                  (case EnsureDEK (ce_keys e) \<lparr>dm_wrapper = wrapper, dm_operatorNamespace = ns\<rparr> (cbl_Name loc) w of
                     (Inl err, w) \<Rightarrow> (Inl (''DEKUnavailable'', ''ensure platform DEK for location '' @ cbl_Name loc @ '': '' @
                         Error (he_show_api e) err), w)
                   | (Inr d, w) \<Rightarrow> (Inr d, w))))"

definition ensureRepositoryPassword ::
  "('w, 'expr, 'ex, 'identity, 'z) ctl_env_scheme \<Rightarrow> locationBinding \<Rightarrow> 'w \<Rightarrow> ((string \<times> string) + string) \<times> 'w" where
  "ensureRepositoryPassword e binding w =
     (if Namespaced binding then
        (case EnsureUserPassword (ce_keys e) (lb_Namespace binding) (lb_Name binding) (lb_PasswordSecretRef binding) w of
           (Inl err, w) \<Rightarrow> (Inl (''PasswordUnavailable'', Error (he_show_api e) err), w)
         | (Inr p, w) \<Rightarrow> (Inr p, w))
      else
        (case ce_get_cluster_location e (lb_Name binding) w of
           Inl err \<Rightarrow> (Inl (reasonLocationUnreadable, ''get ClusterBackupLocation '' @ lb_Name binding @ '': '' @ he_show_api e err), w)
         | Inr loc \<Rightarrow> resolvePlatformDEKCommon e loc w))"

definition tenantFor :: "('w, 'expr, 'ex, 'identity, 'z) ctl_env_scheme \<Rightarrow> string \<Rightarrow> 'w \<Rightarrow> string" where
  "tenantFor e namespace w =
     (case ce_namespace_labels e namespace w of
        Inr labels \<Rightarrow> if map_get labels LabelTenant \<noteq> [] then map_get labels LabelTenant else namespace
      | Inl _ \<Rightarrow> namespace)"

text \<open>A resolved context, or the answer the pass gives instead.\<close>

definition resolveRunContext ::
  "('w, 'expr, 'ex, 'identity, 'z) ctl_env_scheme \<Rightarrow> 'expr BackupSpec \<Rightarrow> Backup \<Rightarrow> 'expr BackupRunSpec \<Rightarrow> 'w bstate
   \<Rightarrow> ((ctrl_result \<times> go_error option) + backupRunContext) \<times> Backup \<times> 'w bstate" where
  "resolveRunContext e spec backup run st =
     (let refuse = (\<lambda>reason message st. case gate e reason message backup st of (res, b, st) \<Rightarrow> (Inl res, b, st))
      in case resolveBackupLocation e spec backup (bw st) of
           Inl (reason, message) \<Rightarrow> refuse reason message st
         | Inr binding \<Rightarrow>
             let repoName = (if Namespaced binding then namespacedRepositoryName (lb_Namespace binding) (lb_Name binding)
                             else lb_Name binding)
             in case ce_get_repository e repoName (bw st) of
                  Inl err \<Rightarrow>
                    if err = NotFound then
                      refuse ''RepositoryNotReady'' (''BackupRepository '' @ me_Quote e repoName @ '' does not exist yet'') st
                    else (Inl (NoRequeue, Some (Wrap (''get BackupRepository '' @ repoName) (APIError err))), backup, st)
                | Inr repo \<Rightarrow>
                    if \<not> rep_Initialized repo then
                      refuse ''RepositoryNotReady'' (''BackupRepository '' @ me_Quote e repoName @ '' is not initialized yet'') st
                    else if Namespaced binding \<and> hooksDeclared (brs_Hooks run) \<and> hsp_ServiceAccountName (brs_Hooks run) = [] then
                      refuse ''HooksNeedServiceAccount'' (''hooks on a namespaced BackupLocation must set hooks.serviceAccountName '' @
                        [CHR 0xE2, CHR 0x80, CHR 0x94] @ '' a ServiceAccount in this namespace, granted `create pods/exec`, '' @
                        ''that the operator impersonates to run them'') st
                    else (case ensureRepositoryPassword e binding (bw st) of
                            (Inl (reason, message), w) \<Rightarrow> refuse reason message (st\<lparr>bw := w\<rparr>)
                          | (Inr password, w) \<Rightarrow>
                              (Inr \<lparr>rc_scheduleRef = bsp_ScheduleRef spec, rc_run = b_name backup,
                                 rc_clusterID = lb_ClusterID binding, rc_tenant = tenantFor e (b_ns backup) w,
                                 rc_repoName = repoName, rc_repoURL = rep_RepositoryURL repo, rc_dek = password,
                                 rc_s3CredsSecret = s3_CredentialsSecretRef (lb_S3 binding),
                                 rc_s3Connections = s3_Connections (lb_S3 binding),
                                 rc_credsNamespace = lb_CredsNamespace binding, rc_retention = lb_Retention binding,
                                 rc_mode = lb_Mode binding, rc_backoffLimit = brs_BackoffLimit run,
                                 rc_maxConcurrentMovers = brs_MaxConcurrentMovers run\<rparr>,
                               backup, st\<lparr>bw := w\<rparr>)))"

definition new_volume :: "string \<Rightarrow> VolumeStatus" where
  "new_volume name = \<lparr>Pvc = name, SnapshotID = [], SizeBytes = 0, AddedBytes = 0, Phase = VolumePhasePending, Node = [],
     Reason = [], FirstAttemptAt = None, PhaseEnteredAt = None\<rparr>"

definition matchPVC :: "PersistentVolumeClaim \<Rightarrow> PVCSelector \<Rightarrow> bool" where
  "matchPVC pvc sel = PVCSelector_Matches sel (pc_Name pvc) (pc_Labels pvc)"

definition ensureVolumes ::
  "('w, 'expr, 'ex, 'identity, 'z) ctl_env_scheme \<Rightarrow> PVCSelector \<Rightarrow> Backup \<Rightarrow> 'w \<Rightarrow> api_error + Backup" where
  "ensureVolumes e sel backup w =
     (case ce_list_pvcs e (b_ns backup) w of
        Inl err \<Rightarrow> Inl err
      | Inr pvcs \<Rightarrow>
          let matched = sort (map pc_Name (filter (\<lambda>pvc. matchPVC pvc sel) pvcs));
              tracked = Pvc ` set (b_volumes backup);
              vols = foldl (\<lambda>vs name. if name \<notin> tracked then vs @ [new_volume name] else vs) (b_volumes backup) matched
          in Inr (backup\<lparr>b_Status := (b_Status backup)\<lparr>bs_Volumes := vols\<rparr>\<rparr>))"

section \<open>The status write\<close>

text \<open>The status a pass writes; the terminal phase is held back while manifests or a release are open.\<close>

definition status_to_write ::
  "('w, 'expr, 'z) hook_env_scheme \<Rightarrow> instant \<Rightarrow> bool \<Rightarrow> bool \<Rightarrow> Backup \<Rightarrow> Backup" where
  "status_to_write e now manifestsDone releaseOwed backup =
     (let phase = RollUpVolumePhases (b_volumes backup);
          phase = (if isTerminalBackupPhase phase \<and> (\<not> manifestsDone \<or> releaseOwed) then BackupPhaseUploading else phase);
          b = backup\<lparr>b_Status := (b_Status backup)\<lparr>bs_Phase := phase\<rparr>\<rparr>
      in if isTerminalBackupPhase phase then
           let b = (if bs_BackupTime (b_Status b) = None then b\<lparr>b_Status := (b_Status b)\<lparr>bs_BackupTime := Some now\<rparr>\<rparr> else b)
           in setTerminalCondition e phase (setCompletionTime now b)
         else set_cond e ConditionReady ConditionFalse ''InProgress'' (''backup is in progress ('' @ phase @ '')'') b)"

definition writeStatus ::
  "('w, 'expr, 'z) hook_env_scheme \<Rightarrow> bool \<Rightarrow> bool \<Rightarrow> Backup \<Rightarrow> 'w bstate
   \<Rightarrow> (ctrl_result \<times> go_error option) \<times> Backup \<times> 'w bstate" where
  "writeStatus e manifestsDone releaseOwed backup st =
     (let b = status_to_write e (he_now e (bw st)) manifestsDone releaseOwed backup
      in case he_update_status e b (bw st) of
           (Some err, w) \<Rightarrow>
             ((NoRequeue, Some (Wrap (''update status for Backup '' @ b_key b) (APIError err))), b, st\<lparr>bw := w\<rparr>)
         | (None, w) \<Rightarrow>
             ((if isTerminalBackupPhase (bs_Phase (b_Status b)) then NoRequeue else RequeueAfter backupPollInterval, None),
              b, st\<lparr>bw := w\<rparr>))"

fun is_conflict :: "go_error \<Rightarrow> bool" where
  "is_conflict (APIError err) = (err = Conflict)"
| "is_conflict (ErrorNew _) = False"
| "is_conflict (Wrap _ cause) = is_conflict cause"
| "is_conflict (JoinErrors es) = list_ex is_conflict es"

definition terminalPhaseCommitted ::
  "('w, 'expr, 'ex, 'identity, 'z) ctl_env_scheme \<Rightarrow> Backup \<Rightarrow> go_error \<Rightarrow> 'w \<Rightarrow> bool" where
  "terminalPhaseCommitted e backup writeErr w =
     (case ce_get_fresh e of
        None \<Rightarrow> False
      | Some get \<Rightarrow>
          if \<not> isTerminalBackupPhase (bs_Phase (b_Status backup)) then False
          else if is_conflict writeErr then False
          else case get (b_ns backup) (b_name backup) w of
                 Inl _ \<Rightarrow> False
               | Inr fresh \<Rightarrow> bs_Phase (b_Status fresh) = bs_Phase (b_Status backup))"

section \<open>Teardown\<close>

definition cleanupVolumeExposure ::
  "('w, 'expr, 'ex, 'identity, 'z) ctl_env_scheme \<Rightarrow> Backup \<Rightarrow> string \<Rightarrow> 'w \<Rightarrow> go_error option \<times> 'w" where
  "cleanupVolumeExposure e backup pvcName w =
     ce_TeardownExposure e (b_ns backup) (volume_prefix backup pvcName) (exposureLabels backup pvcName) w"

definition teardownVolume :: "('w, 'expr, 'ex, 'identity, 'z) ctl_env_scheme \<Rightarrow> Backup \<Rightarrow> string \<Rightarrow> 'w \<Rightarrow> 'w" where
  "teardownVolume e backup pvcName w =
     deleteMoverJobAndSecret e (volume_prefix backup pvcName) (snd (cleanupVolumeExposure e backup pvcName w))"

text \<open>The sweep both the deletion and the terminal pass make: a failed cleanup keeps the volume's Job.\<close>

fun sweep_volumes ::
  "('w, 'expr, 'ex, 'identity, 'z) ctl_env_scheme \<Rightarrow> (string \<Rightarrow> string) \<Rightarrow> Backup \<Rightarrow> VolumeStatus list \<Rightarrow> 'w
   \<Rightarrow> go_error list \<times> 'w" where
  "sweep_volumes e label backup [] w = ([], w)"
| "sweep_volumes e label backup (vol # vols) w =
     (if Phase vol = VolumePhaseSkipped then sweep_volumes e label backup vols w
      else case cleanupVolumeExposure e backup (Pvc vol) w of
             (Some err, w) \<Rightarrow>
               (case sweep_volumes e label backup vols w of (errs, w) \<Rightarrow> (Wrap (label (Pvc vol)) err # errs, w))
           | (None, w) \<Rightarrow>
               sweep_volumes e label backup vols (deleteMoverJobAndSecret e (volume_prefix backup (Pvc vol)) w))"

abbreviation has_finalizer :: "Backup \<Rightarrow> bool" where "has_finalizer b \<equiv> FinalizerBackup \<in> set (m_Finalizers (b_Meta b))"

definition finalize ::
  "('w, 'expr, 'ex, 'identity, 'z) ctl_env_scheme \<Rightarrow> Backup \<Rightarrow> 'w bstate \<Rightarrow> (ctrl_result \<times> go_error option) \<times> 'w bstate" where
  "finalize e backup st =
     (if \<not> has_finalizer backup then ((NoRequeue, None), st)
      else case sweep_volumes e (\<lambda>pvc. ''exposure cleanup of PVC '' @ pvc @ '' on delete'') backup (b_volumes backup) (bw st) of
             (errs, w) \<Rightarrow>
               if errs \<noteq> [] then ((NoRequeue, errors_Join (map Some errs)), st\<lparr>bw := w\<rparr>)
               else
                 let w = teardownManifests e backup (manifestsJobPrefix (b_ns backup) (b_name backup)) w;
                     b = backup\<lparr>b_Meta := (b_Meta backup)\<lparr>m_Finalizers := removeAll FinalizerBackup (m_Finalizers (b_Meta backup))\<rparr>\<rparr>
                 in case ce_update e b w of
                      (None, w) \<Rightarrow> ((NoRequeue, None), emit FinalizingEvent (st\<lparr>bw := w\<rparr>))
                    | (Some err, w) \<Rightarrow>
                        if err = NotFound then ((NoRequeue, None), emit FinalizingEvent (st\<lparr>bw := w\<rparr>))
                        else ((NoRequeue, Some (Wrap (''remove finalizer from Backup '' @ b_key backup) (APIError err))),
                              emit FinalizingEvent (st\<lparr>bw := w\<rparr>)))"

fun any_volume :: "VolumeStatus list \<Rightarrow> string \<Rightarrow> bool" where
  "any_volume [] pvc = False"
| "any_volume (v # vs) pvc = (if Pvc v = pvc then True else any_volume vs pvc)"

definition exposureResidueBelongsTo :: "Backup \<Rightarrow> string_map \<Rightarrow> bool" where
  "exposureResidueBelongsTo backup labels =
     (if map_get labels LabelBackup \<noteq> [] then map_get labels LabelBackup = b_name backup
      else if map_get labels LabelClusterBackup \<noteq> []
      then map_get labels LabelClusterBackup = map_get (m_Labels (b_Meta backup)) LabelClusterBackup
      else if map_get labels LabelPVC = [] then False
      else any_volume (b_volumes backup) (map_get labels LabelPVC))"

fun first_residue :: "Backup \<Rightarrow> residue \<Rightarrow> string option" where
  "first_residue backup [] = None"
| "first_residue backup ((name, labels) # objs) =
     (if exposureResidueBelongsTo backup labels then Some name else first_residue backup objs)"

definition residue_in ::
  "(api_error \<Rightarrow> string) \<Rightarrow> Backup \<Rightarrow> string \<Rightarrow> string \<Rightarrow> (api_error + residue) option \<Rightarrow> string" where
  "residue_in show backup kind at listed =
     (case listed of
        None \<Rightarrow> []
      | Some (Inl err) \<Rightarrow> kind @ '' list unreadable: '' @ show err
      | Some (Inr objs) \<Rightarrow>
          (case first_residue backup objs of None \<Rightarrow> [] | Some name \<Rightarrow> kind @ '' '' @ at @ name))"

definition residue_selector :: "Backup \<Rightarrow> string_map" where
  "residue_selector backup = [LabelManagedBy \<mapsto> ManagedByValue, LabelNamespace \<mapsto> b_ns backup]"

definition exposureResidueRemains ::
  "('w, 'expr, 'ex, 'identity, 'z) ctl_env_scheme \<Rightarrow> Backup \<Rightarrow> 'w \<Rightarrow> string" where
  "exposureResidueRemains e backup w =
     (let sel = residue_selector backup; ops = be_OperatorNamespace e; show = he_show_api e
      in if b_ns backup = [] then
           ''exposure residue selector unresolvable: label '' @ LabelNamespace @
           '' has no value for this Backup, so no read can address its exposure objects''
         else if b_name backup = [] then
           ''exposure residue selector unresolvable: the Backup has no name to attribute residue to''
         else
           let contents = residue_in show backup ''VolumeSnapshotContent'' [] (ce_list_contents e sel w);
               origin = residue_in show backup ''VolumeSnapshot'' (b_ns backup @ ''/'') (ce_list_snapshots e sel (b_ns backup) w);
               copies = residue_in show backup ''VolumeSnapshot'' (ops @ ''/'') (ce_list_snapshots e sel ops w);
               clones = residue_in show backup ''temp clone PVC'' (ops @ ''/'') (Some (ce_list_clones e sel ops w))
           in if contents \<noteq> [] then contents else if origin \<noteq> [] then origin
              else if copies \<noteq> [] then copies else clones)"

definition ensureTerminalTeardown ::
  "('w, 'expr, 'ex, 'identity, 'z) ctl_env_scheme \<Rightarrow> Backup \<Rightarrow> 'w \<Rightarrow> (ctrl_result \<times> go_error option) \<times> 'w" where
  "ensureTerminalTeardown e backup w =
     (if annotation backup AnnotationExposuresCleaned = AnnotationExposuresCleanedValue then ((NoRequeue, None), w)
      else case sweep_volumes e (\<lambda>pvc. ''sweep exposure of PVC '' @ pvc) backup (b_volumes backup) w of
             (errs, w) \<Rightarrow>
               let w = teardownManifests e backup (manifestsJobPrefix (b_ns backup) (b_name backup)) w
               in if errs \<noteq> [] then ((NoRequeue, errors_Join (map Some errs)), w)
                  else if exposureResidueRemains e backup w \<noteq> [] then ((RequeueAfter exposureDrainRecheckInterval, None), w)
                  else
                    let b = backup\<lparr>b_Meta := (b_Meta backup)\<lparr>m_Annotations :=
                              (m_Annotations (b_Meta backup))(AnnotationExposuresCleaned \<mapsto> AnnotationExposuresCleanedValue)\<rparr>\<rparr>
                    in case ce_patch e b w of
                         (None, w) \<Rightarrow> ((NoRequeue, None), w)
                       | (Some err, w) \<Rightarrow>
                           ((NoRequeue, Some (Wrap (''stamp '' @ AnnotationExposuresCleaned @ '' on Backup '' @ b_key backup)
                              (APIError err))), w))"

section \<open>Retention\<close>

definition maybeEnqueueRetentionForget ::
  "('w, 'expr, 'ex, 'z) backup_env_scheme \<Rightarrow> Backup \<Rightarrow> backupRunContext \<Rightarrow> 'w bstate \<Rightarrow> 'w bstate" where
  "maybeEnqueueRetentionForget e backup rc st =
     (if rc_mode rc = LocationModeImmutable then st
      else case ForgetCommand (rc_retention rc) of
             None \<Rightarrow> st
           | Some argv \<Rightarrow>
               emit (RetentionEnqueued (rc_repoName rc))
                 (st\<lparr>bw := be_enqueue e \<lparr>rm_RepoName = rc_repoName rc, rm_Kind = OpKind.OpForget,
                  rm_Name = maintenanceResourceName (b_name backup) ''forget'', rm_Op = OpForgetJob, rm_ResticArgs = argv,
                  rm_RepoURL = rc_repoURL rc, rm_DEK = rc_dek rc, rm_S3CredsSecret = rc_s3CredsSecret rc,
                  rm_CredsNamespace = rc_credsNamespace rc, rm_S3Connections = rc_s3Connections rc\<rparr> (bw st)\<rparr>))"

section \<open>One pass\<close>

definition put_volume :: "nat \<Rightarrow> VolumeStatus \<Rightarrow> Backup \<Rightarrow> Backup" where
  "put_volume i v b = b\<lparr>b_Status := (b_Status b)\<lparr>bs_Volumes := (b_volumes b)[i := v]\<rparr>\<rparr>"

text \<open>The volume step of a pass: the claim to tear down once the status is written, empty for none.\<close>

definition advance_one ::
  "('w, 'expr, 'ex, 'z) backup_env_scheme \<Rightarrow> backupRunContext \<Rightarrow> Backup \<Rightarrow> 'w bstate \<Rightarrow> string \<times> Backup \<times> 'w bstate" where
  "advance_one e rc backup st =
     (case firstNonTerminalVolume (b_volumes backup) of
        None \<Rightarrow> ([], backup, st)
      | Some i \<Rightarrow>
          (case advanceVolume e backup rc (b_volumes backup ! i) st of
             (Inl err, vol, st) \<Rightarrow> ([], put_volume i (recordAdvanceFailure e err vol) backup, st)
           | (Inr pvc, vol, st) \<Rightarrow> (pvc, put_volume i vol backup, st)))"

text \<open>After the status write: teardown and retention, then the answer.\<close>

definition after_write ::
  "('w, 'expr, 'ex, 'identity, 'z) ctl_env_scheme \<Rightarrow> backupRunContext \<Rightarrow> Backup \<Rightarrow> string \<Rightarrow> string \<Rightarrow> 'w bstate \<Rightarrow> 'w bstate" where
  "after_write e rc b teardownPVC stem st =
     (let st = (if teardownPVC \<noteq> [] then st\<lparr>bw := teardownVolume e b teardownPVC (bw st)\<rparr> else st);
          st = (if stem \<noteq> [] then st\<lparr>bw := teardownManifests e b stem (bw st)\<rparr> else st)
      in if backupSucceeded (bs_Phase (b_Status b)) then maybeEnqueueRetentionForget e b rc st else st)"

definition run_pass ::
  "('w, 'expr, 'ex, 'identity, 'z) ctl_env_scheme \<Rightarrow> 'expr BackupRunSpec \<Rightarrow> backupRunContext \<Rightarrow> Backup \<Rightarrow> 'w bstate
   \<Rightarrow> (ctrl_result \<times> go_error option) \<times> Backup \<times> 'w bstate" where
  "run_pass e run rc backup st =
     (case advance_one e rc backup st of
        (teardownPVC, b, st) \<Rightarrow>
          (case advanceManifests e b rc (includeManifests run) (brs_ExcludeSecretData run) (bw st) of
             ((manifestsDone, stem, manifestsErr), b, w) \<Rightarrow>
               (case closeFreezeWindow e b (brs_Hooks run) (st\<lparr>bw := w\<rparr>) of
                  ((releaseOwed, releaseErr), b, st) \<Rightarrow>
                    (case writeStatus e manifestsDone releaseOwed b st of
                       ((res, err), b, st) \<Rightarrow>
                         if err \<noteq> None \<and> \<not> terminalPhaseCommitted e b (the err) (bw st) then ((res, err), b, st)
                         else
                           let res = (if err \<noteq> None then NoRequeue else res);
                               res = (if \<not> manifestsDone \<and> res = NoRequeue then RequeueAfter backupPollInterval else res);
                               st = after_write e rc b teardownPVC stem st
                           in (case errors_Join [manifestsErr, releaseErr] of
                                 Some deferred \<Rightarrow> ((NoRequeue, Some deferred), b, st)
                               | None \<Rightarrow> ((res, None), b, st))))))"

definition reconcile_live ::
  "('w, 'expr, 'ex, 'identity, 'z) ctl_env_scheme \<Rightarrow> 'expr BackupSpec \<Rightarrow> Backup \<Rightarrow> 'w bstate
   \<Rightarrow> (ctrl_result \<times> go_error option) \<times> Backup \<times> 'w bstate" where
  "reconcile_live e spec backup st =
     (case resolveRun e spec backup (bw st) of
        Inl err \<Rightarrow> ((NoRequeue, Some err), backup, st)
      | Inr None \<Rightarrow>
          gate e ''NoRunSpec'' (''no run configuration: spec.run is absent and no parent ClusterBackup resolved from label '' @
            LabelClusterBackup) backup st
      | Inr (Some run) \<Rightarrow>
          (case resolveRunContext e spec backup run st of
             (Inl answer, b, st) \<Rightarrow> (answer, b, st)
           | (Inr rc, b, st) \<Rightarrow>
               (case ensureVolumes e (brs_PVCSelector run) b (bw st) of
                  Inl err \<Rightarrow> ((NoRequeue, Some (Wrap (''enumerate PVCs for Backup '' @ b_key b) (APIError err))), b, st)
                | Inr b \<Rightarrow>
                    (case openFreezeWindow e b (hookState b) (brs_Hooks run) st of
                       ((res, stop, err), b, st) \<Rightarrow>
                         if stop then ((res, err), b, st) else run_pass e run rc b st))))"

definition Reconcile ::
  "('w, 'expr, 'ex, 'identity, 'z) ctl_env_scheme \<Rightarrow> string \<Rightarrow> string \<Rightarrow> 'w bstate \<Rightarrow> (ctrl_result \<times> go_error option) \<times> 'w bstate" where
  "Reconcile e namespace name st =
     (case ce_get_backup e namespace name (bw st) of
        Inl err \<Rightarrow>
          if err = NotFound then ((NoRequeue, None), st)
          else ((NoRequeue, Some (Wrap (''get Backup '' @ namespace @ ''/'' @ name) (APIError err))), st)
      | Inr (spec, backup) \<Rightarrow>
          if m_DeletionTimestamp (b_Meta backup) \<noteq> None then finalize e backup st
          else if annotation backup AnnotationProjected = AnnotationProjectedValue then ((NoRequeue, None), st)
          else if \<not> has_finalizer backup then
            (let b = backup\<lparr>b_Meta := (b_Meta backup)\<lparr>m_Finalizers := m_Finalizers (b_Meta backup) @ [FinalizerBackup]\<rparr>\<rparr>
             in case ce_update e b (bw st) of
                  (Some err, w) \<Rightarrow> ((NoRequeue, Some (Wrap (''add finalizer to Backup '' @ b_key backup) (APIError err))), st\<lparr>bw := w\<rparr>)
                | (None, w) \<Rightarrow> ((Requeue, None), st\<lparr>bw := w\<rparr>))
          else if isTerminalBackupPhase (bs_Phase (b_Status backup)) then
            (case ensureTerminalTeardown e backup (bw st) of (answer, w) \<Rightarrow> (answer, st\<lparr>bw := w\<rparr>))
          else (case reconcile_live e spec backup st of (answer, _, st) \<Rightarrow> (answer, st)))"

end
