(* ===== verification/Cluster_Backup.thy ===== *)
theory Cluster_Backup
  imports Backup_Controller "HOL-Library.AList"
begin

text \<open>
  A cluster-wide run (\<^verbatim>\<open>internal/controller/clusterbackup_controller.go\<close>,
  \<^verbatim>\<open>cluster_manifests_phase.go\<close>, \<^verbatim>\<open>cluster_manifest_rbac.go\<close>): the fan-out into one child
  Backup per matched namespace, the one capture of cluster-scoped resources, and the ledger from
  which the aggregate status is rebuilt on every pass. Maps of Go that are iterated in sorted order
  are association lists; metrics and spans are not modelled.
\<close>

section \<open>The run and its environment\<close>

abbreviation LabelSchedule :: string where "LabelSchedule \<equiv> ''crystalbackup.io/schedule''"
abbreviation LabelOrigin :: string where "LabelOrigin \<equiv> ''crystalbackup.io/origin''"
abbreviation OriginCluster :: string where "OriginCluster \<equiv> ''cluster''"
abbreviation ConditionClusterManifestsComplete :: string
  where "ConditionClusterManifestsComplete \<equiv> ''ClusterManifestsComplete''"
abbreviation reasonClusterManifestsCaptured :: string where "reasonClusterManifestsCaptured \<equiv> ''Captured''"
abbreviation reasonClusterManifestsPartial :: string where "reasonClusterManifestsPartial \<equiv> ''PartiallyEnumerated''"
abbreviation reasonClusterManifestsFailed :: string where "reasonClusterManifestsFailed \<equiv> ''CaptureFailed''"
abbreviation OpClusterManifestsBackup :: string where "OpClusterManifestsBackup \<equiv> ''cluster-manifests-backup''"
abbreviation ClusterManifestsRoot :: string where "ClusterManifestsRoot \<equiv> ''/cluster-manifests''"
abbreviation EnvClusterManifestsClusterID :: string
  where "EnvClusterManifestsClusterID \<equiv> ''CRYSTAL_CLUSTER_MANIFESTS_CLUSTER_ID''"
abbreviation EnvClusterManifestsBackupName :: string
  where "EnvClusterManifestsBackupName \<equiv> ''CRYSTAL_CLUSTER_MANIFESTS_BACKUP_NAME''"
abbreviation EnvClusterManifestsSelection :: string
  where "EnvClusterManifestsSelection \<equiv> ''CRYSTAL_CLUSTER_MANIFESTS_SELECTION''"

definition clusterBackupPollInterval :: duration where "clusterBackupPollInterval = seconds 15"

record 'expr ClusterResourceCaptureSpec =
  crc_Enabled :: "bool option"
  crc_Include :: "string list"
  crc_Exclude :: "string list"
  crc_LabelSelector :: "'expr LabelSelector"

record 'expr ClusterBackupSpec =
  cls_ScheduleRef :: string
  cls_LocationRef :: string
  cls_Namespaces :: "'expr NamespaceSelector"
  cls_ClusterResources :: "'expr ClusterResourceCaptureSpec"
  cls_Run :: "'expr BackupRunSpec"

datatype cluster_event =
    FannedOut string
  | NamespacesCollided nat string string string
  | AggregateInconsistent i32 i32
  | NoNamespacesMatched

record 'w clstate =
  lw :: 'w
  lev :: "cluster_event list"

abbreviation announce :: "cluster_event \<Rightarrow> 'w clstate \<Rightarrow> 'w clstate" where "announce ev st \<equiv> st\<lparr>lev := lev st @ [ev]\<rparr>"

record ClusterRoleBinding =
  crb_Name :: string
  crb_Labels :: string_map
  crb_RoleRef :: "string \<times> string"
  crb_Subjects :: "(string \<times> string \<times> string) list"

record ClusterJobRequest = JobRequest +
  jr_ManifestsMountPath :: string

record ('w, 'expr, 'ex, 'identity) cluster_env = "('w, 'expr, 'ex, 'identity) ctl_env" +
  le_ClusterManifestReaderClusterRole :: string
  le_get_run :: "string \<Rightarrow> 'w \<Rightarrow> api_error + 'expr ClusterBackupSpec \<times> ClusterBackup"
  le_update_status :: "ClusterBackup \<Rightarrow> 'w \<Rightarrow> api_error option \<times> 'w"
  le_list_namespaces :: "'w \<Rightarrow> api_error + Namespace list"
  le_selector :: "'expr selector_env"
  le_show_selector :: "selector_error \<Rightarrow> string"
  le_get_child :: "string \<Rightarrow> string \<Rightarrow> 'w \<Rightarrow> api_error + Backup"
  le_create_child :: "'expr BackupSpec \<Rightarrow> Backup \<Rightarrow> 'w \<Rightarrow> api_error option \<times> 'w"
  le_patch_child :: "Backup \<Rightarrow> 'w \<Rightarrow> api_error option \<times> 'w"
  le_list_children :: "string_map \<Rightarrow> 'w \<Rightarrow> api_error + Backup list"
  le_create_crb :: "ClusterRoleBinding \<Rightarrow> 'w \<Rightarrow> api_error option \<times> 'w"
  le_delete_crb :: "string \<Rightarrow> 'w \<Rightarrow> api_error option \<times> 'w"
  le_create_job :: "ClusterJobRequest \<Rightarrow> 'w \<Rightarrow> api_error option \<times> 'w"
  le_marshal :: "string list \<Rightarrow> string list \<Rightarrow> go_error + string"

abbreviation cb_name :: "ClusterBackup \<Rightarrow> string" where "cb_name cb \<equiv> m_Name (cb_Meta cb)"
abbreviation cb_uid :: "ClusterBackup \<Rightarrow> string" where "cb_uid cb \<equiv> m_UID (cb_Meta cb)"

definition set_cluster_cond ::
  "('w, 'expr, 'z) hook_env_scheme \<Rightarrow> string \<Rightarrow> string \<Rightarrow> string \<Rightarrow> string \<Rightarrow> ClusterBackup \<Rightarrow> ClusterBackup" where
  "set_cluster_cond e condType status reason message cb =
     cb\<lparr>cb_Status := (cb_Status cb)\<lparr>cs_Conditions :=
         SetCondition (he_set_condition e) condType status reason message (m_Generation (cb_Meta cb))
           (cs_Conditions (cb_Status cb))\<rparr>\<rparr>"

section \<open>The cluster-scoped capture\<close>

record clusterManifestRBACRequest =
  cq_JobName :: string
  cq_ClusterRoleName :: string
  cq_ServiceAccountName :: string
  cq_OperatorNamespace :: string

definition cluster_manifest_binding :: "clusterManifestRBACRequest \<Rightarrow> ClusterRoleBinding" where
  "cluster_manifest_binding req =
     \<lparr>crb_Name = clusterManifestBindingName (cq_JobName req),
      crb_Labels = [LabelManagedBy \<mapsto> ManagedByValue, LabelMoverRole \<mapsto> MoverRoleManifest,
        LabelMoverJob \<mapsto> cq_JobName req, LabelOperatorNS \<mapsto> cq_OperatorNamespace req],
      crb_RoleRef = (''ClusterRole'', cq_ClusterRoleName req),
      crb_Subjects = [(''ServiceAccount'', cq_OperatorNamespace req, cq_ServiceAccountName req)]\<rparr>"

definition ensureClusterManifestBinding ::
  "(ClusterRoleBinding \<Rightarrow> 'w \<Rightarrow> api_error option \<times> 'w) \<Rightarrow> clusterManifestRBACRequest \<Rightarrow> 'w \<Rightarrow> go_error option \<times> 'w" where
  "ensureClusterManifestBinding create req w =
     (case create (cluster_manifest_binding req) w of
        (None, w) \<Rightarrow> (None, w)
      | (Some err, w) \<Rightarrow>
          if err = AlreadyExists then (None, w)
          else (Some (Wrap (''create transient ClusterRoleBinding '' @ clusterManifestBindingName (cq_JobName req) @ '' to '' @
              cq_ClusterRoleName req) (APIError err)), w))"

definition deleteClusterManifestBinding ::
  "(string \<Rightarrow> 'w \<Rightarrow> api_error option \<times> 'w) \<Rightarrow> string \<Rightarrow> 'w \<Rightarrow> go_error option \<times> 'w" where
  "deleteClusterManifestBinding delete jobName w =
     (case delete (clusterManifestBindingName jobName) w of
        (Some err, w) \<Rightarrow>
          if err = NotFound then (None, w)
          else (Some (Wrap (''delete transient ClusterRoleBinding '' @ clusterManifestBindingName jobName) (APIError err)), w)
      | (None, w) \<Rightarrow> (None, w))"

definition captureClusterManifests :: "'expr ClusterBackupSpec \<Rightarrow> bool" where
  "captureClusterManifests spec =
     (case crc_Enabled (cls_ClusterResources spec) of None \<Rightarrow> True | Some b \<Rightarrow> b)"

record clusterCaptureContext =
  cc_clusterID :: string
  cc_scheduleRef :: string
  cc_run :: string
  cc_repoURL :: string
  cc_dek :: string
  cc_s3CredsSecret :: string
  cc_s3Connections :: "i32 option"
  cc_include :: "string list"
  cc_exclude :: "string list"

definition resolveClusterCaptureContext ::
  "('w, 'expr, 'ex, 'identity, 'z) cluster_env_scheme \<Rightarrow> 'expr ClusterBackupSpec \<Rightarrow> ClusterBackup \<Rightarrow> ClusterBackupLocation \<Rightarrow> 'w
   \<Rightarrow> (go_error + clusterCaptureContext option) \<times> 'w" where
  "resolveClusterCaptureContext e spec cb loc w =
     (case ce_get_repository e (cbl_Name loc) w of
        Inl err \<Rightarrow>
          if err = NotFound then (Inr None, w)
          else (Inl (Wrap (''get BackupRepository '' @ cbl_Name loc) (APIError err)), w)
      | Inr repo \<Rightarrow>
          if \<not> rep_Initialized repo then (Inr None, w)
          else (case resolvePlatformDEKCommon e loc w of
                  (Inl _, w) \<Rightarrow> (Inr None, w)
                | (Inr dek, w) \<Rightarrow>
                    (Inr (Some \<lparr>cc_clusterID = cbl_ClusterID loc, cc_scheduleRef = cls_ScheduleRef spec, cc_run = cb_name cb,
                       cc_repoURL = rep_RepositoryURL repo, cc_dek = dek,
                       cc_s3CredsSecret = s3_CredentialsSecretRef (cbl_S3 loc), cc_s3Connections = s3_Connections (cbl_S3 loc),
                       cc_include = crc_Include (cls_ClusterResources spec),
                       cc_exclude = crc_Exclude (cls_ClusterResources spec)\<rparr>), w)))"

definition EncodeClusterCaptureOptions ::
  "('w, 'expr, 'ex, 'identity, 'z) cluster_env_scheme \<Rightarrow> string list \<Rightarrow> string list \<Rightarrow> go_error + string" where
  "EncodeClusterCaptureOptions e include exclude =
     (case le_marshal e include exclude of
        Inl err \<Rightarrow> Inl (Wrap ''encode cluster capture options'' err)
      | Inr b \<Rightarrow> Inr b)"

definition cluster_manifests_labels :: "ClusterBackup \<Rightarrow> string_map" where
  "cluster_manifests_labels cb =
     [LabelManagedBy \<mapsto> ManagedByValue, LabelClusterBackup \<mapsto> cb_name cb, LabelMoverRole \<mapsto> MoverRoleManifest]"

definition cluster_manifests_job ::
  "('w, 'expr, 'ex, 'identity, 'z) cluster_env_scheme \<Rightarrow> ClusterBackup \<Rightarrow> clusterCaptureContext \<Rightarrow> string \<Rightarrow> string \<Rightarrow> ClusterJobRequest" where
  "cluster_manifests_job e cb cc jobName selection =
     \<lparr>jr_Name = jobName, jr_Operation = OpClusterManifestsBackup,
      jr_ResticArgs = resticBackupArgs (ClusterManifestsIdentity (cc_clusterID cc) (cc_scheduleRef cc) (cc_run cc)),
      jr_RepoURL = cc_repoURL cc, jr_S3Connections = cc_s3Connections cc, jr_SecretName = jobName, jr_PVC = None,
      jr_BackoffLimit = 0, jr_TTLSeconds = moverJobTTLSeconds, jr_Labels = cluster_manifests_labels cb,
      jr_ExtraEnv = [(EnvClusterManifestsClusterID, cc_clusterID cc), (EnvClusterManifestsBackupName, cc_run cc),
        (EnvClusterManifestsSelection, selection)],
      jr_ServiceAccountName = me_ManifestMoverServiceAccount e, jr_ManifestsVolume = True,
      jr_ManifestsMountPath = ClusterManifestsRoot\<rparr>"

definition startClusterManifestsJob ::
  "('w, 'expr, 'ex, 'identity, 'z) cluster_env_scheme \<Rightarrow> ClusterBackup \<Rightarrow> clusterCaptureContext \<Rightarrow> string \<Rightarrow> 'w
   \<Rightarrow> go_error option \<times> 'w" where
  "startClusterManifestsJob e cb cc jobName w =
     (case ensureMoverCredsSecret (be_deps e) jobName (cc_dek cc) (cc_s3CredsSecret cc) [] (cluster_manifests_labels cb) w of
        (Some err, w) \<Rightarrow> (Some err, w)
      | (None, w) \<Rightarrow>
          (case ensureClusterManifestBinding (le_create_crb e) \<lparr>cq_JobName = jobName,
                   cq_ClusterRoleName = le_ClusterManifestReaderClusterRole e,
                   cq_ServiceAccountName = me_ManifestMoverServiceAccount e,
                   cq_OperatorNamespace = be_OperatorNamespace e\<rparr> w of
             (Some err, w) \<Rightarrow> (Some err, w)
           | (None, w) \<Rightarrow>
               (case EncodeClusterCaptureOptions e (cc_include cc) (cc_exclude cc) of
                  Inl err \<Rightarrow> (Some err, w)
                | Inr selection \<Rightarrow>
                    (case le_create_job e (cluster_manifests_job e cb cc jobName selection) w of
                       (None, w) \<Rightarrow> (None, w)
                     | (Some err, w) \<Rightarrow>
                         if err = AlreadyExists then (None, w)
                         else (Some (Wrap (''create cluster-manifest Job '' @ be_OperatorNamespace e @ ''/'' @ jobName) (APIError err)),
                               snd (deleteClusterManifestBinding (le_delete_crb e) jobName w))))))"

definition recordClusterManifestsFailure ::
  "('w, 'expr, 'z) hook_env_scheme \<Rightarrow> string \<Rightarrow> ClusterBackup \<Rightarrow> ClusterBackup" where
  "recordClusterManifestsFailure e reason cb =
     set_cluster_cond e ConditionClusterManifestsComplete ConditionFalse reasonClusterManifestsFailed
       (if reason = [] then ''the cluster-manifest mover reported a failure with no reason'' else reason) cb"

definition record_cluster_manifests ::
  "('w, 'expr, 'z) hook_env_scheme \<Rightarrow> MoverResult \<Rightarrow> ClusterBackup \<Rightarrow> ClusterBackup" where
  "record_cluster_manifests e result cb =
     (let n = FormatInt (sint (mr_ResourceCount result));
          cb = cb\<lparr>cb_Status := (cb_Status cb)\<lparr>cs_ClusterManifests :=
                Some \<lparr>ms_SnapshotID = mr_SnapshotID result, ms_ResourceCount = mr_ResourceCount result\<rparr>\<rparr>\<rparr>
      in if IncompleteManifests result
         then set_cluster_cond e ConditionClusterManifestsComplete ConditionFalse reasonClusterManifestsPartial
           (''captured '' @ n @ '' cluster-scoped resource(s); some kinds could not be enumerated '' @
            [CHR 0xE2, CHR 0x80, CHR 0x94] @ '' see the warnings in index.json of snapshot '' @ mr_SnapshotID result) cb
         else set_cluster_cond e ConditionClusterManifestsComplete ConditionTrue reasonClusterManifestsCaptured
           (''captured '' @ n @ '' cluster-scoped resource(s)'') cb)"

definition advanceClusterManifests ::
  "('w, 'expr, 'ex, 'identity, 'z) cluster_env_scheme \<Rightarrow> ClusterBackup \<Rightarrow> clusterCaptureContext \<Rightarrow> 'w
   \<Rightarrow> (bool \<times> string \<times> go_error option) \<times> ClusterBackup \<times> 'w" where
  "advanceClusterManifests e cb cc w =
     (if cs_ClusterManifests (cb_Status cb) \<noteq> None then ((True, [], None), cb, w)
      else if (case he_find_condition e (cs_Conditions (cb_Status cb)) ConditionClusterManifestsComplete of
                 None \<Rightarrow> False | Some c \<Rightarrow> cond_Reason c = reasonClusterManifestsFailed)
      then ((True, [], None), cb, w)
      else
        let jobName = clusterManifestsJobName (cb_name cb)
        in case be_get_job e w (be_OperatorNamespace e) jobName of
             Inl err \<Rightarrow>
               if err = NotFound then
                 (case startClusterManifestsJob e cb cc jobName w of (err, w) \<Rightarrow> ((False, [], err), cb, w))
               else ((False, [], Some (Wrap (''get cluster-manifest Job '' @ be_OperatorNamespace e @ ''/'' @ jobName)
                        (APIError err))), cb, w)
           | Inr job \<Rightarrow>
               if j_Succeeded job = 0 \<and> j_Failed job = 0 then ((False, [], None), cb, w)
               else
                 (case readMoverResult (be_unmarshal_result e) (be_job_pods e jobName w) of
                    (result, _, readErr) \<Rightarrow>
                      ((True, jobName, None),
                       (case readErr of
                          Some err \<Rightarrow> recordClusterManifestsFailure e
                            (''could not read the mover result: '' @ read_error_Error e jobName err) cb
                        | None \<Rightarrow>
                            if \<not> OK result then recordClusterManifestsFailure e (mr_Error result) cb
                            else record_cluster_manifests e result cb),
                       w)))"

definition teardownClusterManifests ::
  "('w, 'expr, 'ex, 'identity, 'z) cluster_env_scheme \<Rightarrow> string \<Rightarrow> 'w \<Rightarrow> 'w" where
  "teardownClusterManifests e jobName w =
     deleteJobAndSecret (be_deps e) (be_OperatorNamespace e) jobName (snd (deleteClusterManifestBinding (le_delete_crb e) jobName w))"

section \<open>The fan-out\<close>

definition runNameCollisionError_Error :: "runNameCollisionError \<Rightarrow> string" where
  "runNameCollisionError_Error err =
     (let facts = (if rc_Facts err \<noteq> [] then ''['' @ rc_Facts err @ '']'' else [])
      in reasonRunNameCollision @ facts @ '': nothing was backed up here '' @ [CHR 0xE2, CHR 0x80, CHR 0x94] @
         '' this run name already designates data this run did not write. '' @
         ''Re-run under a name no earlier run or schedule has used (both planes build run names '' @
         ''identically). Occupant: '' @ rc_Namespace err @ ''/'' @ rc_Name err @ '', '' @ rc_Detail err)"

datatype child_error = ChildError go_error | ChildCollision runNameCollisionError

definition childBackupLabels :: "'expr ClusterBackupSpec \<Rightarrow> ClusterBackup \<Rightarrow> string \<Rightarrow> string_map" where
  "childBackupLabels spec cb ns =
     (let l = [LabelClusterBackup \<mapsto> cb_name cb, LabelOrigin \<mapsto> OriginCluster, LabelNamespace \<mapsto> ns]
      in if cls_ScheduleRef spec \<noteq> [] then l(LabelSchedule \<mapsto> cls_ScheduleRef spec) else l)"

definition child_backup :: "'expr ClusterBackupSpec \<Rightarrow> ClusterBackup \<Rightarrow> string \<Rightarrow> Backup" where
  "child_backup spec cb ns =
     \<lparr>b_Meta = \<lparr>m_Namespace = ns, m_Name = cb_name cb, m_UID = [], m_Generation = 0, m_CreationTimestamp = None,
        m_DeletionTimestamp = None, m_Finalizers = [], m_Annotations = [AnnotationParentUID \<mapsto> cb_uid cb],
        m_Labels = childBackupLabels spec cb ns\<rparr>,
      b_Status = \<lparr>bs_Phase = [], bs_BackupTime = None, bs_CompletionTime = None, bs_Manifests = None, bs_Volumes = [],
        bs_Hooks = [], bs_PostHookAttempts = 0, bs_Conditions = []\<rparr>\<rparr>"

definition child_spec :: "'expr ClusterBackupSpec \<Rightarrow> 'expr BackupSpec" where
  "child_spec spec =
     \<lparr>bsp_ScheduleRef = cls_ScheduleRef spec, bsp_LocationKind = kindClusterBackupLocation,
      bsp_LocationName = cls_LocationRef spec, bsp_Run = Some (cls_Run spec)\<rparr>"

definition resolveExistingChild ::
  "('w, 'expr, 'ex, 'identity, 'z) cluster_env_scheme \<Rightarrow> ClusterBackup \<Rightarrow> Backup \<Rightarrow> 'w clstate \<Rightarrow> child_error option \<times> 'w clstate" where
  "resolveExistingChild e cb existing st =
     (case classifyCoordinate existing (cb_uid cb) (m_CreationTimestamp (cb_Meta cb)) of
        (owner, reason) \<Rightarrow>
          (case owner of
             coordinateMine \<Rightarrow> (None, st)
           | coordinateAdoptable \<Rightarrow>
               let stamped = existing\<lparr>b_Meta := (b_Meta existing)\<lparr>m_Annotations :=
                     (m_Annotations (b_Meta existing))(AnnotationParentUID \<mapsto> cb_uid cb)\<rparr>\<rparr>
               in (case le_patch_child e stamped (lw st) of
                     (Some err, w) \<Rightarrow> (Some (ChildError (Wrap (''stamp parent UID on child Backup '' @ b_key existing)
                         (APIError err))), st\<lparr>lw := w\<rparr>)
                   | (None, w) \<Rightarrow> (None, st\<lparr>lw := w\<rparr>))
           | coordinateForeign \<Rightarrow>
               (Some (ChildCollision \<lparr>rc_Namespace = b_ns existing, rc_Name = b_name existing, rc_Detail = cr_Detail reason,
                  rc_Facts = Facts (he_duration_String e) reason, rc_Reason = cr_Code reason,
                  rc_HasData = cr_HasResults reason\<rparr>), st)))"

definition ensureChildBackup ::
  "('w, 'expr, 'ex, 'identity, 'z) cluster_env_scheme \<Rightarrow> 'expr ClusterBackupSpec \<Rightarrow> ClusterBackup \<Rightarrow> string \<Rightarrow> 'w clstate
   \<Rightarrow> child_error option \<times> 'w clstate" where
  "ensureChildBackup e spec cb ns st =
     (let at = ns @ ''/'' @ cb_name cb
      in case le_get_child e ns (cb_name cb) (lw st) of
           Inr existing \<Rightarrow> resolveExistingChild e cb existing st
         | Inl err \<Rightarrow>
             if err \<noteq> NotFound then (Some (ChildError (Wrap (''get child Backup '' @ at) (APIError err))), st)
             else
               (case le_create_child e (child_spec spec) (child_backup spec cb ns) (lw st) of
                  (None, w) \<Rightarrow> (None, announce (FannedOut ns) (st\<lparr>lw := w\<rparr>))
                | (Some err, w) \<Rightarrow>
                    if err = AlreadyExists then
                      (case le_get_child e ns (cb_name cb) w of
                         Inl gerr \<Rightarrow> (Some (ChildError (Wrap (''re-read child Backup '' @ at @ '' after AlreadyExists'')
                             (APIError gerr))), st\<lparr>lw := w\<rparr>)
                       | Inr raced \<Rightarrow> resolveExistingChild e cb raced (st\<lparr>lw := w\<rparr>))
                    else (Some (ChildError (Wrap (''create child Backup '' @ at) (APIError err))), st\<lparr>lw := w\<rparr>)))"

record blockedCoordinate =
  bc_reason :: string
  bc_hasData :: bool
  bc_err :: runNameCollisionError

type_synonym collisions = "(string \<times> blockedCoordinate) list"

fun fan_out ::
  "('w, 'expr, 'ex, 'identity, 'z) cluster_env_scheme \<Rightarrow> 'expr ClusterBackupSpec \<Rightarrow> ClusterBackup \<Rightarrow> string list
   \<Rightarrow> FailureRecord list \<Rightarrow> collisions \<Rightarrow> 'w clstate \<Rightarrow> FailureRecord list \<times> collisions \<times> 'w clstate" where
  "fan_out e spec cb [] failures collided st = (failures, collided, st)"
| "fan_out e spec cb (ns # nss) failures collided st =
     (case ensureChildBackup e spec cb ns st of
        (None, st) \<Rightarrow> fan_out e spec cb nss failures collided st
      | (Some (ChildCollision c), st) \<Rightarrow>
          fan_out e spec cb nss failures
            (AList.update ns \<lparr>bc_reason = rc_Reason c, bc_hasData = rc_HasData c, bc_err = c\<rparr> collided) st
      | (Some (ChildError err), st) \<Rightarrow>
          fan_out e spec cb nss
            (failures @ [\<lparr>fr_Namespace = ns, fr_Backup = cb_name cb, fr_Message = clampMessage (Error (he_show_api e) err)\<rparr>])
            collided st)"

definition announce_collisions :: "collisions \<Rightarrow> 'w clstate \<Rightarrow> 'w clstate" where
  "announce_collisions collided st =
     (case sort (map fst collided) of
        [] \<Rightarrow> st
      | first # rest \<Rightarrow>
          let facts = map (\<lambda>ns. \<lparr>bf_reason = bc_reason (the (map_of collided ns)),
                bf_dataAtCoordinate = bc_hasData (the (map_of collided ns)), bf_stampedByRun = False\<rparr>) (first # rest)
          in announce (NamespacesCollided (length collided) (blockedBreakdownLine (summariseBlockedReasons facts)) first
               (runNameCollisionError_Error (bc_err (the (map_of collided first))))) st)"

section \<open>The ledger of a run\<close>

record namespaceVerdict =
  nv_namespace :: string
  nv_outcome :: NamespaceOutcome
  nv_failure :: "FailureRecord option"
  nv_blocked :: "blockedNamespaceFacts option"

record runLedger =
  rl_verdicts :: "namespaceVerdict list"
  rl_pvcsSucceeded :: i32
  rl_pvcsFailed :: i32
  rl_addedBytes :: i64

definition outcomes :: "runLedger \<Rightarrow> NamespaceOutcome list" where
  "outcomes l = map nv_outcome (rl_verdicts l)"

definition blockedFacts :: "runLedger \<Rightarrow> blockedNamespaceFacts list" where
  "blockedFacts l = foldl (\<lambda>out v. case nv_blocked v of None \<Rightarrow> out | Some f \<Rightarrow> out @ [f]) [] (rl_verdicts l)"

definition childFailureMessage :: "('w, 'expr, 'z) hook_env_scheme \<Rightarrow> Backup \<Rightarrow> string" where
  "childFailureMessage e child =
     (case he_find_condition e (bs_Conditions (b_Status child)) ConditionReady of
        Some c \<Rightarrow> if cond_Message c \<noteq> [] then clampMessage (cond_Message c)
                  else clampMessage (''backup phase '' @ bs_Phase (b_Status child))
      | None \<Rightarrow> clampMessage (''backup phase '' @ bs_Phase (b_Status child)))"

definition count_volume :: "runLedger \<Rightarrow> VolumeStatus \<Rightarrow> runLedger" where
  "count_volume l v =
     l\<lparr>rl_pvcsSucceeded := rl_pvcsSucceeded l + (if Phase v = VolumePhaseCompleted then 1 else 0),
       rl_pvcsFailed := rl_pvcsFailed l + (if Phase v = VolumePhaseFailed then 1 else 0),
       rl_addedBytes := rl_addedBytes l + of_int (AddedBytes v)\<rparr>"

definition verdict_of ::
  "('w, 'expr, 'z) hook_env_scheme \<Rightarrow> string \<Rightarrow> string \<Rightarrow> instant option \<Rightarrow> collisions \<Rightarrow> string \<Rightarrow> Backup option \<Rightarrow> namespaceVerdict" where
  "verdict_of e runName runUID runCreated collided ns child =
     (case map_of collided ns of
        Some bc \<Rightarrow>
          let mine = (case child of None \<Rightarrow> False | Some c \<Rightarrow> annotation c AnnotationParentUID = runUID);
              facts = \<lparr>bf_reason = bc_reason bc,
                bf_dataAtCoordinate = bc_hasData bc \<or> (case child of None \<Rightarrow> False | Some c \<Rightarrow> backupHasResults c),
                bf_stampedByRun = mine\<rparr>;
              collision = (if mine then (bc_err bc)\<lparr>rc_Facts := rc_Facts (bc_err bc) @ '' recheck=stampedByThisRun''\<rparr> else bc_err bc)
          in \<lparr>nv_namespace = ns, nv_outcome = NamespaceBlocked,
              nv_failure = Some \<lparr>fr_Namespace = ns, fr_Backup = runName,
                fr_Message = clampMessage (runNameCollisionError_Error collision)\<rparr>,
              nv_blocked = Some facts\<rparr>
      | None \<Rightarrow>
          (case child of
             None \<Rightarrow> \<lparr>nv_namespace = ns, nv_outcome = NamespaceInFlight, nv_failure = None, nv_blocked = None\<rparr>
           | Some c \<Rightarrow>
               if annotation c AnnotationProjected = AnnotationProjectedValue then
                 let reason = (newCoordinateReason c runUID runCreated)\<lparr>cr_Code := coordinateCodeProjection,
                       cr_Detail := ''it is a discovery projection of snapshots already in the repository''\<rparr>
                 in \<lparr>nv_namespace = ns, nv_outcome = NamespaceBlocked,
                     nv_failure = Some \<lparr>fr_Namespace = ns, fr_Backup = b_name c,
                       fr_Message = clampMessage (runNameCollisionError_Error \<lparr>rc_Namespace = ns, rc_Name = b_name c,
                         rc_Detail = cr_Detail reason, rc_Facts = Facts (he_duration_String e) reason, rc_Reason = cr_Code reason,
                         rc_HasData = cr_HasResults reason\<rparr>)\<rparr>,
                     nv_blocked = Some \<lparr>bf_reason = cr_Code reason, bf_dataAtCoordinate = cr_HasResults reason,
                       bf_stampedByRun = (cr_Stamp reason = ''mine'')\<rparr>\<rparr>
               else
                 let outcome = OutcomeForBackupPhase (bs_Phase (b_Status c))
                 in \<lparr>nv_namespace = ns, nv_outcome = outcome,
                     nv_failure = (if outcome = NamespaceFailed
                       then Some \<lparr>fr_Namespace = ns, fr_Backup = b_name c, fr_Message = childFailureMessage e c\<rparr> else None),
                     nv_blocked = None\<rparr>))"

definition add_verdict ::
  "('w, 'expr, 'z) hook_env_scheme \<Rightarrow> string \<Rightarrow> string \<Rightarrow> instant option \<Rightarrow> collisions \<Rightarrow> (string \<times> Backup) list
   \<Rightarrow> runLedger \<Rightarrow> string \<Rightarrow> runLedger" where
  "add_verdict e runName runUID runCreated collided atCoordinate l ns =
     (let child = map_of atCoordinate ns;
          v = verdict_of e runName runUID runCreated collided ns child;
          l = (case child of
                 Some c \<Rightarrow> if nv_blocked v = None then foldl count_volume l (bs_Volumes (b_Status c)) else l
               | None \<Rightarrow> l)
      in l\<lparr>rl_verdicts := rl_verdicts l @ [v]\<rparr>)"

definition buildRunLedger ::
  "('w, 'expr, 'z) hook_env_scheme \<Rightarrow> string \<Rightarrow> string \<Rightarrow> instant option \<Rightarrow> string list \<Rightarrow> Backup list \<Rightarrow> collisions \<Rightarrow> runLedger" where
  "buildRunLedger e runName runUID runCreated matched children collided =
     (let atCoordinate = foldl (\<lambda>m c. if b_name c \<noteq> runName then m else AList.update (b_ns c) c m) [] children;
          strays = sort (map fst (filter (\<lambda>(ns, child). \<not> (ns \<in> set matched \<or> annotation child AnnotationParentUID \<noteq> runUID))
            atCoordinate))
      in foldl (add_verdict e runName runUID runCreated collided atCoordinate)
           \<lparr>rl_verdicts = [], rl_pvcsSucceeded = 0, rl_pvcsFailed = 0, rl_addedBytes = 0\<rparr> (matched @ strays))"

section \<open>The aggregate\<close>

definition setClusterBackupCondition :: "('w, 'expr, 'z) hook_env_scheme \<Rightarrow> string \<Rightarrow> ClusterBackup \<Rightarrow> ClusterBackup" where
  "setClusterBackupCondition e phase cb =
     (if phase = ClusterBackupPhaseCompleted then
        set_cluster_cond e ConditionReady ConditionTrue ''Completed'' ''all matched namespaces backed up'' cb
      else if phase = ClusterBackupPhaseFailed then
        set_cluster_cond e ConditionReady ConditionFalse ''Failed'' ''every matched namespace failed'' cb
      else if phase = ClusterBackupPhasePartiallyFailed then
        set_cluster_cond e ConditionReady ConditionFalse ''PartiallyFailed'' ''one or more matched namespaces failed'' cb
      else set_cluster_cond e ConditionReady ConditionFalse ''InProgress'' (''run in progress ('' @ phase @ '')'') cb)"

definition run_phase :: "NamespaceOutcome list \<Rightarrow> bool \<Rightarrow> string" where
  "run_phase outs captureDone =
     (let phase = RollUpNamespaceOutcomes outs
      in if length outs = 0 then ClusterBackupPhaseCompleted
         else if \<not> captureDone \<and> isTerminalClusterBackupPhase phase then ClusterBackupPhaseRunning
         else phase)"

definition run_failures :: "FailureRecord list \<Rightarrow> runLedger \<Rightarrow> FailureRecord list" where
  "run_failures fanoutFailures l =
     foldl (\<lambda>fs v. case nv_failure v of None \<Rightarrow> fs | Some f \<Rightarrow> AppendCappedFailure fs f DefaultFailureCap)
       (foldl (\<lambda>fs f. AppendCappedFailure fs f DefaultFailureCap) [] fanoutFailures) (rl_verdicts l)"

definition aggregate_status ::
  "('w, 'expr, 'z) hook_env_scheme \<Rightarrow> instant \<Rightarrow> ClusterBackup \<Rightarrow> string list \<Rightarrow> FailureRecord list \<Rightarrow> runLedger \<Rightarrow> bool \<Rightarrow> ClusterBackup" where
  "aggregate_status e now cb matched fanoutFailures l captureDone =
     (let tally = TallyNamespaceOutcomes (outcomes l);
          phase = run_phase (outcomes l) captureDone;
          st = (cb_Status cb)\<lparr>cs_NamespacesMatched := of_nat (length matched), cs_NamespacesSucceeded := ct_Succeeded tally,
            cs_NamespacesFailed := ct_Failed tally, cs_NamespacesBlocked := ct_Blocked tally,
            cs_PVCsSucceeded := rl_pvcsSucceeded l, cs_PVCsFailed := rl_pvcsFailed l, cs_AddedBytes := rl_addedBytes l,
            cs_ClusterResourcesCaptured := (case cs_ClusterManifests (cb_Status cb) of Some m \<Rightarrow> ms_ResourceCount m | None \<Rightarrow> 0),
            cs_Failures := run_failures fanoutFailures l,
            cs_BlockedReasons := summariseBlockedReasons (blockedFacts l), cs_Phase := phase\<rparr>;
          st = (if cs_StartTime st = None then st\<lparr>cs_StartTime := Some now\<rparr> else st);
          st = (if isTerminalClusterBackupPhase phase \<and> cs_CompletionTime st = None
                then st\<lparr>cs_CompletionTime := Some now\<rparr> else st)
      in setClusterBackupCondition e phase (cb\<lparr>cb_Status := st\<rparr>))"

definition aggregateAndWrite ::
  "('w, 'expr, 'ex, 'identity, 'z) cluster_env_scheme \<Rightarrow> ClusterBackup \<Rightarrow> string list \<Rightarrow> FailureRecord list \<Rightarrow> collisions \<Rightarrow> bool
   \<Rightarrow> 'w clstate \<Rightarrow> (ctrl_result \<times> go_error option) \<times> ClusterBackup \<times> 'w clstate" where
  "aggregateAndWrite e cb matched fanoutFailures collided captureDone st =
     (case le_list_children e [LabelClusterBackup \<mapsto> cb_name cb] (lw st) of
        Inl err \<Rightarrow> ((NoRequeue, Some (Wrap (''list child Backups for run '' @ cb_name cb) (APIError err))), cb, st)
      | Inr children \<Rightarrow>
          let l = buildRunLedger e (cb_name cb) (cb_uid cb) (m_CreationTimestamp (cb_Meta cb)) matched children collided;
              tally = TallyNamespaceOutcomes (outcomes l);
              st = (if \<not> ClusterTally_SumsUp tally
                    then announce (AggregateInconsistent (ct_Namespaces tally) (ClusterTally_Counted tally)) st else st);
              st = (if length (outcomes l) = 0 then announce NoNamespacesMatched st else st);
              cb = aggregate_status e (he_now e (lw st)) cb matched fanoutFailures l captureDone
          in case le_update_status e cb (lw st) of
               (Some err, w) \<Rightarrow>
                 ((NoRequeue, Some (Wrap (''update status for ClusterBackup '' @ cb_name cb) (APIError err))), cb, st\<lparr>lw := w\<rparr>)
             | (None, w) \<Rightarrow>
                 ((if isTerminalClusterBackupPhase (cs_Phase (cb_Status cb)) then NoRequeue
                   else RequeueAfter clusterBackupPollInterval, None), cb, st\<lparr>lw := w\<rparr>))"

definition blocked ::
  "('w, 'expr, 'ex, 'identity, 'z) cluster_env_scheme \<Rightarrow> ClusterBackup \<Rightarrow> string \<Rightarrow> string \<Rightarrow> 'w clstate
   \<Rightarrow> (ctrl_result \<times> go_error option) \<times> ClusterBackup \<times> 'w clstate" where
  "blocked e cb reason message st =
     (let cb = set_cluster_cond e ConditionReady ConditionFalse reason message
                 (cb\<lparr>cb_Status := (cb_Status cb)\<lparr>cs_Phase := ClusterBackupPhasePending\<rparr>\<rparr>)
      in case le_update_status e cb (lw st) of
           (Some err, w) \<Rightarrow>
             ((NoRequeue, Some (Wrap (''update status for ClusterBackup '' @ cb_name cb) (APIError err))), cb, st\<lparr>lw := w\<rparr>)
         | (None, w) \<Rightarrow> ((RequeueAfter shortRequeueInterval, None), cb, st\<lparr>lw := w\<rparr>))"

text \<open>The capture of a pass: whether it is done, the Job to tear down, an error.\<close>

definition capture_step ::
  "('w, 'expr, 'ex, 'identity, 'z) cluster_env_scheme \<Rightarrow> 'expr ClusterBackupSpec \<Rightarrow> ClusterBackup \<Rightarrow> ClusterBackupLocation
   \<Rightarrow> string list \<Rightarrow> 'w \<Rightarrow> (bool \<times> string \<times> go_error option) \<times> ClusterBackup \<times> 'w" where
  "capture_step e spec cb loc matched w =
     (if length matched > 0 \<and> captureClusterManifests spec \<and> le_ClusterManifestReaderClusterRole e \<noteq> [] then
        (case resolveClusterCaptureContext e spec cb loc w of
           (Inl err, w) \<Rightarrow> ((False, [], Some err), cb, w)
         | (Inr None, w) \<Rightarrow> ((False, [], None), cb, w)
         | (Inr (Some cc), w) \<Rightarrow>
             (case advanceClusterManifests e cb cc w of
                ((done, job, err), cb, w) \<Rightarrow> ((if err \<noteq> None then False else done, job, err), cb, w)))
      else ((True, [], None), cb, w))"

definition reconcile_run ::
  "('w, 'expr, 'ex, 'identity, 'z) cluster_env_scheme \<Rightarrow> 'expr ClusterBackupSpec \<Rightarrow> ClusterBackup \<Rightarrow> 'w clstate
   \<Rightarrow> (ctrl_result \<times> go_error option) \<times> ClusterBackup \<times> 'w clstate" where
  "reconcile_run e spec cb st =
     (if isTerminalClusterBackupPhase (cs_Phase (cb_Status cb)) then ((NoRequeue, None), cb, st)
      else let locName = cls_LocationRef spec in
        case ce_get_cluster_location e locName (lw st) of
          Inl err \<Rightarrow>
            if err = NotFound then
              blocked e cb ''LocationNotFound'' (''ClusterBackupLocation '' @ me_Quote e locName @ '' not found'') st
            else ((NoRequeue, Some (Wrap (''get ClusterBackupLocation '' @ locName) (APIError err))), cb, st)
        | Inr loc \<Rightarrow>
            (case le_list_namespaces e (lw st) of
               Inl err \<Rightarrow> ((NoRequeue, Some (Wrap ''list namespaces'' (APIError err))), cb, st)
             | Inr nss \<Rightarrow>
                 (case Match (le_selector e) nss (cls_Namespaces spec) of
                    Inl err \<Rightarrow> blocked e cb ''SelectorInvalid'' (clampMessage (le_show_selector e err)) st
                  | Inr matched \<Rightarrow>
                      (case fan_out e spec cb matched [] [] st of
                         (failures, collided, st) \<Rightarrow>
                           let st = announce_collisions collided st
                           in (case capture_step e spec cb loc matched (lw st) of
                                 ((captureDone, teardown, captureErr), cb, w) \<Rightarrow>
                                   (case aggregateAndWrite e cb matched failures collided captureDone (st\<lparr>lw := w\<rparr>) of
                                      ((res, Some err), cb, st) \<Rightarrow> ((res, Some err), cb, st)
                                    | ((res, None), cb, st) \<Rightarrow>
                                        let st = (if teardown \<noteq> [] then st\<lparr>lw := teardownClusterManifests e teardown (lw st)\<rparr> else st);
                                            res = (if \<not> captureDone \<and> res = NoRequeue
                                                   then RequeueAfter clusterBackupPollInterval else res)
                                        in (case captureErr of
                                              Some err \<Rightarrow> ((NoRequeue, Some err), cb, st)
                                            | None \<Rightarrow> ((res, None), cb, st))))))))"

definition Reconcile ::
  "('w, 'expr, 'ex, 'identity, 'z) cluster_env_scheme \<Rightarrow> string \<Rightarrow> 'w clstate \<Rightarrow> (ctrl_result \<times> go_error option) \<times> 'w clstate" where
  "Reconcile e name st =
     (case le_get_run e name (lw st) of
        Inl err \<Rightarrow> ((NoRequeue, if err = NotFound then None else Some (APIError err)), st)
      | Inr (spec, cb) \<Rightarrow> (case reconcile_run e spec cb st of (answer, _, st) \<Rightarrow> (answer, st)))"

definition mapChildToRun :: "string_map \<Rightarrow> string list" where
  "mapChildToRun labels =
     (if map_get labels LabelOrigin \<noteq> OriginCluster then []
      else let run = map_get labels LabelClusterBackup in if run = [] then [] else [run])"

end
