(* ===== verification/Freeze_Window_Safety.thy ===== *)
theory Freeze_Window_Safety
  imports Freeze_Window
begin

text \<open>
  What the freeze window guarantees: the record of a quiesce decides abort and debt exactly as the
  executions went, an aborted quiesce never reaches a snapshot and releases exactly the pods it
  froze, a release is retried a bounded number of times, and the consistency condition tells the
  truth about the quiesce.
\<close>

section \<open>Reading the record\<close>

lemma hookState_fields:
  "preRan (hookState b) \<longleftrightarrow> (\<exists>h \<in> set (b_hooks b). hs_Phase h = PhasePre)"
  "aborted (hookState b) \<longleftrightarrow> (\<exists>h \<in> set (b_hooks b). hs_Phase h = PhasePre \<and> hs_Result h = HookFailed \<and>
     \<not> hookFailureTolerated h)"
proof -
  let ?f = "\<lambda>(st :: hookPhaseState) h. if hs_Phase h \<noteq> PhasePre then st
      else let st = st\<lparr>preRan := True\<rparr>
        in if hs_Result h = HookFailed \<and> \<not> hookFailureTolerated h
           then st\<lparr>aborted := True,
             abortMessage := ''pre-backup hook failed in pod '' @ hs_Pod h @ '': '' @ hs_Message h\<rparr>
           else st"
  have p: "preRan (foldl ?f s hs) \<longleftrightarrow> preRan s \<or> (\<exists>h \<in> set hs. hs_Phase h = PhasePre)" for s hs
    by (induction hs arbitrary: s) (auto simp: Let_def)
  have a: "aborted (foldl ?f s hs) \<longleftrightarrow> aborted s \<or> (\<exists>h \<in> set hs. hs_Phase h = PhasePre \<and>
      hs_Result h = HookFailed \<and> \<not> hookFailureTolerated h)" for s hs
    by (induction hs arbitrary: s) (auto simp: Let_def)
  show "preRan (hookState b) \<longleftrightarrow> (\<exists>h \<in> set (b_hooks b). hs_Phase h = PhasePre)"
    using p by (simp add: hookState_def)
  show "aborted (hookState b) \<longleftrightarrow> (\<exists>h \<in> set (b_hooks b). hs_Phase h = PhasePre \<and> hs_Result h = HookFailed \<and>
     \<not> hookFailureTolerated h)"
    using a by (simp add: hookState_def)
qed

lemma post_entries_settled_iff:
  "post_entries_settled hs seen \<longleftrightarrow> (seen \<or> (\<exists>h \<in> set hs. hs_Phase h = PhasePost)) \<and>
     (\<forall>h \<in> set hs. hs_Phase h = PhasePost \<longrightarrow> hs_Result h = HookFailed \<longrightarrow> hookFailureTolerated h)"
  by (induction hs arbitrary: seen) auto

lemma quiescedPods_eq:
  "quiescedPodsFromStatus b =
     {hs_Pod h | h. h \<in> set (b_hooks b) \<and> hs_Phase h = PhasePre \<and> hs_Result h = HookSucceeded}"
proof -
  have "foldl (\<lambda>out h. if P h then insert (f h) out else out) A hs = A \<union> {f h | h. h \<in> set hs \<and> P h}"
    for P :: "HookStatus \<Rightarrow> bool" and f :: "HookStatus \<Rightarrow> string" and A hs
    by (induction hs arbitrary: A) auto
  then show ?thesis by (simp add: quiescedPodsFromStatus_def)
qed

lemma restrictToPods_eq:
  "restrictToPods hs None = hs" "restrictToPods hs (Some P) = filter (\<lambda>h. rh_PodName h \<in> P) hs"
  using foldl_filter [of "\<lambda>h. rh_PodName h \<in> P" "[]" hs] by (simp_all add: restrictToPods_def)

lemma dropHookPhase_eq: "dropHookPhase hs p = filter (\<lambda>h. hs_Phase h \<noteq> p) hs"
  using foldl_filter [of "\<lambda>h. hs_Phase h \<noteq> p" "[]" hs] by (simp add: dropHookPhase_def)

section \<open>Writing the record\<close>

lemma recordHookResults_eq:
  "recordHookResults e rs b st =
     (b\<lparr>b_Status := (b_Status b)\<lparr>bs_Hooks := b_hooks b @
         map (hook_entry (he_duration_String e) (he_now e (bw st))) rs\<rparr>\<rparr>,
      st\<lparr>bev := bev st @ concat (map hook_events rs)\<rparr>)"
proof -
  have "foldl (\<lambda>(b, st) res. (b\<lparr>b_Status := (b_Status b)\<lparr>bs_Hooks := b_hooks b @ [f res]\<rparr>\<rparr>,
          st\<lparr>bev := bev st @ hook_events res\<rparr>)) (b, st) rs =
      (b\<lparr>b_Status := (b_Status b)\<lparr>bs_Hooks := b_hooks b @ map f rs\<rparr>\<rparr>,
       st\<lparr>bev := bev st @ concat (map hook_events rs)\<rparr>)"
    for f :: "Result \<Rightarrow> HookStatus" and b and st :: "'a bstate"
    by (induction rs arbitrary: b st) simp_all
  then show ?thesis by (simp add: recordHookResults_def Let_def)
qed

lemma set_cond_fields [simp]:
  "b_Meta (set_cond e t s r m b) = b_Meta b" "b_hooks (set_cond e t s r m b) = b_hooks b"
  "b_attempts (set_cond e t s r m b) = b_attempts b" "b_volumes (set_cond e t s r m b) = b_volumes b"
  "bs_Phase (b_Status (set_cond e t s r m b)) = bs_Phase (b_Status b)"
  by (simp_all add: set_cond_def)

lemma setCompletionTime_fields [simp]:
  "b_Meta (setCompletionTime now b) = b_Meta b" "b_hooks (setCompletionTime now b) = b_hooks b"
  "b_attempts (setCompletionTime now b) = b_attempts b" "b_volumes (setCompletionTime now b) = b_volumes b"
  "bs_Phase (b_Status (setCompletionTime now b)) = bs_Phase (b_Status b)"
  by (simp_all add: setCompletionTime_def)

lemma recordConsistencyVerdict_fields:
  assumes "recordConsistencyVerdict e rs b st = (b', st')"
  shows "b_hooks b' = b_hooks b" "b_attempts b' = b_attempts b" "b_volumes b' = b_volumes b" "bw st' = bw st"
  using assms by (auto simp: recordConsistencyVerdict_def Let_def split: option.splits if_splits)

lemma failHooks_fields:
  assumes "failHooks e m b st = (err, b', st')"
  shows "b_hooks b' = b_hooks b" "b_attempts b' = b_attempts b" "b_volumes b' = b_volumes b"
    "bs_Phase (b_Status b') = BackupPhaseFailed" "bw st' = snd (he_update_status e b' (bw st))"
  using assms
  by (auto simp: failHooks_def Let_def set_cond_def setCompletionTime_def split: prod.splits option.splits if_splits)

lemma hook_entry_fields [simp]:
  "hs_Phase (hook_entry sh now r) = rh_Phase (hr_Hook r)" "hs_Pod (hook_entry sh now r) = rh_PodName (hr_Hook r)"
  "hs_OnError (hook_entry sh now r) = rh_OnError (hr_Hook r)"
  "hs_Result (hook_entry sh now r) = HookSucceeded \<longleftrightarrow> hr_Err r = None"
  "hs_Result (hook_entry sh now r) = HookFailed \<longleftrightarrow> hr_Err r \<noteq> None \<and> \<not> isSkipped r"
  "hookFailureTolerated (hook_entry sh now r) \<longleftrightarrow> rh_OnError (hr_Hook r) = HookErrorPolicyContinue"
  by (auto simp: hook_entry_def hookFailureTolerated_def split: option.splits)

lemma resolveHooks_phase:
  assumes "resolveHooks e b spec vols phase w = Inr hs" and "h \<in> set hs"
  shows "rh_Phase h = phase"
  using assms by (auto simp: resolveHooks_def Let_def Resolve_def resolve_pods_eq dest!: pod_hooks_fields
      split: if_splits sum.splits)

lemma Run_phase:
  assumes "\<And>h. h \<in> set hs \<Longrightarrow> rh_Phase h = phase" and "r \<in> set (fst (Run exec hs w))"
  shows "rh_Phase (hr_Hook r) = phase"
proof -
  have "hr_Hook r \<in> set (map hr_Hook (fst (Run exec hs w)))" using assms(2) by simp
  then have "hr_Hook r \<in> set hs" by (simp only: Run_hooks)
  then show ?thesis by (rule assms(1))
qed

section \<open>The quiesce\<close>

lemma advancePreHooks_ran:
  assumes "resolveHooks e b spec vols PhasePre (bw st) = Inr resolved" and "resolved \<noteq> []"
    and "he_Hooks e = Some exec" and "Run exec resolved (bw st) = (results, w')"
  obtains b' st' where "advancePreHooks e b spec vols st = (Inr True, b', st')"
    "b_hooks b' = b_hooks b @ map (hook_entry (he_duration_String e) (he_now e w')) results"
    "b_attempts b' = b_attempts b" "b_volumes b' = b_volumes b" "bw st' = w'"
proof -
  obtain b1 st1 where r: "recordHookResults e results b (st\<lparr>bw := w'\<rparr>) = (b1, st1)" by fastforce
  obtain b2 st2 where v: "recordConsistencyVerdict e results b1 st1 = (b2, st2)" by fastforce
  from r have b1: "b_hooks b1 = b_hooks b @ map (hook_entry (he_duration_String e) (he_now e w')) results"
    "b_attempts b1 = b_attempts b" "b_volumes b1 = b_volumes b" "bw st1 = w'"
    by (auto simp: recordHookResults_eq)
  have "advancePreHooks e b spec vols st = (Inr True, b2, st2)"
    using assms r v by (cases resolved) (simp_all add: advancePreHooks_def)
  then show ?thesis using that b1 recordConsistencyVerdict_fields [OF v] by simp
qed

lemma ex_new_entries:
  "(\<And>x. x \<in> set xs \<Longrightarrow> \<not> Q x) \<Longrightarrow> (\<exists>x \<in> set (xs @ map f ys). Q x) \<longleftrightarrow> (\<exists>y \<in> set ys. Q (f y))"
  by auto

text \<open>
  The durable record decides exactly as the executions went. On the pass that runs the quiesce
  the reconciler goes no further; the status it leaves reads back as having run, as aborted exactly when some hook
  really failed (not skipped behind another failure) under a policy other than Continue, and as
  owing a release to exactly the pods in which a hook succeeded.
\<close>

theorem quiesce_record_exact:
  assumes fresh: "\<not> preRan (hookState b)"
    and resolved: "resolveHooks e b spec (b_volumes b) PhasePre (bw st) = Inr resolved" "resolved \<noteq> []"
    and exec: "he_Hooks e = Some exec" "Run exec resolved (bw st) = (results, w')"
    and pass: "openFreezeWindow e b (hookState b) spec st = ((res, stop, err), b', st')"
  shows "stop \<and> preRan (hookState b') \<and>
    (aborted (hookState b') \<longleftrightarrow> (\<exists>r \<in> set results. hr_Err r \<noteq> None \<and> hr_Err r \<noteq> Some ErrSkipped \<and>
       rh_OnError (hr_Hook r) \<noteq> HookErrorPolicyContinue)) \<and>
    quiescedPodsFromStatus b' = {rh_PodName (hr_Hook r) | r. r \<in> set results \<and> hr_Err r = None}"
proof -
  let ?entry = "hook_entry (he_duration_String e) (he_now e w')"
  obtain b1 st1 where a: "advancePreHooks e b spec (b_volumes b) st = (Inr True, b1, st1)"
    "b_hooks b1 = b_hooks b @ map (hook_entry (he_duration_String e) (he_now e w')) results"
    using advancePreHooks_ran [OF resolved exec] by metis
  have "\<not> aborted (hookState b)" using fresh by (auto simp: hookState_fields)
  then have b': "stop" "b_hooks b' = b_hooks b1"
    using pass a(1) fresh by (auto simp: openFreezeWindow_def Let_def split: prod.splits option.splits)
  have old: "hs_Phase h \<noteq> PhasePre" if "h \<in> set (b_hooks b)" for h
    using fresh that by (auto simp: hookState_fields)
  have pre: "rh_Phase (hr_Hook r) = PhasePre" if "r \<in> set results" for r
    using Run_phase [of resolved PhasePre r exec "bw st"] resolveHooks_phase [OF resolved(1)] that exec(2) by simp
  have "length results = length resolved" using Run_length [of exec resolved "bw st"] exec(2) by simp
  then obtain r where "r \<in> set results" using resolved(2) by (cases results) auto
  then have "preRan (hookState b')" using b'(2) a(2) pre by (force simp: hookState_fields)
  moreover have "aborted (hookState b') \<longleftrightarrow> (\<exists>r \<in> set results. hr_Err r \<noteq> None \<and> hr_Err r \<noteq> Some ErrSkipped \<and>
       rh_OnError (hr_Hook r) \<noteq> HookErrorPolicyContinue)"
  proof -
    have "aborted (hookState b') \<longleftrightarrow> (\<exists>r \<in> set results. hs_Phase (?entry r) = PhasePre \<and>
        hs_Result (?entry r) = HookFailed \<and> \<not> hookFailureTolerated (?entry r))"
      unfolding hookState_fields b'(2) a(2) by (rule ex_new_entries) (use old in blast)
    then show ?thesis by (simp add: isSkipped_def pre cong: bex_cong)
  qed
  moreover have "quiescedPodsFromStatus b' = {rh_PodName (hr_Hook r) | r. r \<in> set results \<and> hr_Err r = None}"
  proof -
    have "{hs_Pod h | h. h \<in> set (xs @ map ?entry results) \<and> hs_Phase h = PhasePre \<and> hs_Result h = HookSucceeded} =
        {hs_Pod (?entry r) | r. r \<in> set results \<and> hs_Phase (?entry r) = PhasePre \<and>
          hs_Result (?entry r) = HookSucceeded}" if "\<forall>h \<in> set xs. hs_Phase h \<noteq> PhasePre" for xs
      using that by (auto simp del: hook_entry_fields)
    then have "quiescedPodsFromStatus b' = {hs_Pod (?entry r) | r. r \<in> set results \<and>
        hs_Phase (?entry r) = PhasePre \<and> hs_Result (?entry r) = HookSucceeded}"
      unfolding quiescedPods_eq b'(2) a(2) using old by blast
    then show ?thesis using pre by (simp cong: conj_cong)
  qed
  ultimately show ?thesis using b'(1) by blast
qed

text \<open>A concrete cluster whose world is the list of exec calls made so far.\<close>

definition logging_exec :: "(exec_call list) executor" where
  "logging_exec call w = (([], [], if x_Command call = [''bad''] then Some (''exit 1'', False) else None), w @ [call])"

definition demo_hook_env :: "Pod list \<Rightarrow> (exec_call list, unit) hook_env" where
  "demo_hook_env pods = \<lparr>he_libs = demo_libs, he_now = \<lambda>_. 0, he_Hooks = Some logging_exec,
     he_list_pods = \<lambda>_ _. Inr pods, he_update_status = \<lambda>_ w. (None, w),
     he_set_condition = \<lambda>c cs. c # filter (\<lambda>d. cond_Type d \<noteq> cond_Type c) cs,
     he_find_condition = \<lambda>cs t. find (\<lambda>c. cond_Type c = t) cs, he_duration_String = \<lambda>_. [],
     he_show_api = \<lambda>_. []\<rparr>"

lemma demo_executor: "he_Hooks (demo_hook_env pods) = Some logging_exec"
  by (simp add: demo_hook_env_def)

definition demo_run :: Backup where
  "demo_run = empty_backup\<lparr>b_Status := (b_Status empty_backup)\<lparr>bs_Volumes :=
     [\<lparr>Pvc = ''data'', SnapshotID = [], SizeBytes = 0, AddedBytes = 0, Phase = VolumePhasePending, Node = [],
       Reason = [], FirstAttemptAt = None, PhaseEnteredAt = None\<rparr>]\<rparr>\<rparr>"

lemma demo_run_fields [simp]: "b_hooks demo_run = []" "b_attempts demo_run = 0"
  "map Pvc (b_volumes demo_run) = [''data'']"
  by (simp_all add: demo_run_def empty_backup_def)

lemma demo_resolveHooks:
  "resolveHooks (demo_hook_env [demo_pod]) demo_run demo_hooks (b_volumes demo_run) PhasePre w =
     Inr [\<lparr>rh_PodNamespace = ''shop'', rh_PodName = ''db-0'', rh_Container = ''db'', rh_Command = [''freeze''],
       rh_Timeout = seconds 30, rh_OnError = HookErrorPolicyFail, rh_Source = SourceAnnotation,
       rh_Phase = PhasePre, rh_ServiceAccountName = ''hooks''\<rparr>]"
proof -
  have m: "podMountsAny demo_pod {''data''}" by (simp add: podMountsAny_def demo_pod_def)
  have d: "hookPhaseDeclared demo_hooks PhasePre" by (simp add: hookPhaseDeclared_def demo_hooks_def)
  have "set (map Pvc (b_volumes demo_run)) = {''data''}" by simp
  then show ?thesis using m d by (simp add: resolveHooks_def demo_hook_env_def demo_resolution del: set_map)
qed

theorem quiesce_record_exact_witness:
  "\<exists>b' st' x. openFreezeWindow (demo_hook_env [demo_pod]) demo_run (hookState demo_run) demo_hooks
       \<lparr>bw = [], bev = []\<rparr> = (x, b', st') \<and> preRan (hookState b') \<and> \<not> aborted (hookState b') \<and>
     quiescedPodsFromStatus b' = {''db-0''}"
proof -
  let ?st = "\<lparr>bw = [], bev = []\<rparr> :: exec_call list bstate"
  obtain x b' st' where p: "openFreezeWindow (demo_hook_env [demo_pod]) demo_run (hookState demo_run) demo_hooks ?st =
      (x, b', st')" by (metis prod_cases3)
  obtain res stop err where x: "x = (res, stop, err)" by (metis prod_cases3)
  have f: "\<not> preRan (hookState demo_run)" by (simp add: hookState_fields)
  note q = quiesce_record_exact [OF f, where e = "demo_hook_env [demo_pod]" and spec = demo_hooks and st = ?st and
      exec = logging_exec, OF _ _ _ _ p [unfolded x]]
  obtain h where hs: "resolveHooks (demo_hook_env [demo_pod]) demo_run demo_hooks (b_volumes demo_run) PhasePre
      (bw ?st) = Inr [h]" and h: "rh_PodName h = ''db-0''" "rh_Command h = [''freeze'']"
    by (rule that [OF demo_resolveHooks]) simp_all
  have r: "Run logging_exec [h] (bw ?st) =
      ([\<lparr>hr_Hook = h, hr_Err = None, hr_Stdout = [], hr_Stderr = []\<rparr>], [hook_call h])"
    using h by (simp add: runOne_def logging_exec_def Aborts_def hook_call_def)
  have "preRan (hookState b') \<and> \<not> aborted (hookState b') \<and> quiescedPodsFromStatus b' = {''db-0''}"
    using q [OF hs list.simps(3) demo_executor r] by (simp add: h(1))
  then show ?thesis by (intro exI [of _ b'] exI [of _ st'] exI [of _ x] conjI p) blast+
qed

section \<open>The release\<close>

lemma advancePostHooks_ran:
  assumes "resolveHooks e b spec vols PhasePost (bw st) = Inr hs" and "restrictToPods hs owedTo \<noteq> []"
    and "he_Hooks e = Some exec" and "Run exec (restrictToPods hs owedTo) (bw st) = (rs, w')"
  obtains st' where "advancePostHooks e b spec vols owedTo st = (Inr True,
      b\<lparr>b_Status := (b_Status b)\<lparr>bs_PostHookAttempts := b_attempts b + 1,
        bs_Hooks := filter (\<lambda>h. hs_Phase h \<noteq> PhasePost) (b_hooks b) @
          map (hook_entry (he_duration_String e) (he_now e w')) rs\<rparr>\<rparr>, st')" "bw st' = w'"
proof -
  obtain h hs' where hs: "restrictToPods hs owedTo = h # hs'"
    using assms(2) by (cases "restrictToPods hs owedTo") auto
  show ?thesis
    using that assms hs
    by (simp add: advancePostHooks_def Let_def recordHookResults_eq dropHookPhase_eq del: Run.simps)
qed

lemma filter_pre_not_post: "filter (\<lambda>h. hs_Phase h = PhasePre \<and> hs_Phase h \<noteq> PhasePost) hs =
    filter (\<lambda>h. hs_Phase h = PhasePre) hs"
  by (rule filter_cong) auto

lemma Run_entries_not_pre:
  assumes "\<And>h. h \<in> set hs \<Longrightarrow> rh_Phase h = PhasePost" and "Run exec hs w = (rs, w')"
  shows "filter (\<lambda>h. hs_Phase h = PhasePre) (map (hook_entry sh now) rs) = []"
  using Run_phase [OF assms(1), where exec = exec and w = w] assms(2) by (auto simp: filter_empty_conv)

lemma advancePostHooks_fields:
  assumes "advancePostHooks e b spec vols owedTo st = (r, b', st')"
  shows "b_volumes b' = b_volumes b" "b_Meta b' = b_Meta b"
    "filter (\<lambda>h. hs_Phase h = PhasePre) (b_hooks b') = filter (\<lambda>h. hs_Phase h = PhasePre) (b_hooks b)"
    "r = Inr False \<Longrightarrow> b' = b \<and> st' = st" "r \<noteq> Inr False \<Longrightarrow> b_attempts b' = b_attempts b + 1"
proof -
  consider (err) c where "resolveHooks e b spec vols PhasePost (bw st) = Inl c"
    | (none) hs where "resolveHooks e b spec vols PhasePost (bw st) = Inr hs"
      "restrictToPods hs owedTo = [] \<or> he_Hooks e = None"
    | (run) hs exec where "resolveHooks e b spec vols PhasePost (bw st) = Inr hs"
      "restrictToPods hs owedTo \<noteq> []" "he_Hooks e = Some exec"
    by (cases "resolveHooks e b spec vols PhasePost (bw st)"; cases "he_Hooks e") auto
  then have "b_volumes b' = b_volumes b \<and> b_Meta b' = b_Meta b \<and>
    filter (\<lambda>h. hs_Phase h = PhasePre) (b_hooks b') = filter (\<lambda>h. hs_Phase h = PhasePre) (b_hooks b) \<and>
    (r = Inr False \<longrightarrow> b' = b \<and> st' = st) \<and> (r \<noteq> Inr False \<longrightarrow> b_attempts b' = b_attempts b + 1)"
  proof cases
    case err
    then show ?thesis using assms
      by (auto simp: advancePostHooks_def recordUnresolvedRelease_def Let_def split: if_splits)
  next
    case none
    then show ?thesis using assms
      by (auto simp: advancePostHooks_def Let_def split: list.splits option.splits)
  next
    case run
    let ?hs = "restrictToPods hs owedTo"
    have post: "rh_Phase h = PhasePost" if "h \<in> set ?hs" for h
      using that resolveHooks_phase [OF run(1)] by (cases owedTo) (auto simp: restrictToPods_eq)
    obtain rs w' where rs: "Run exec ?hs (bw st) = (rs, w')" by fastforce
    from advancePostHooks_ran [OF run rs] assms obtain st1 where
      "r = Inr True" "b' = b\<lparr>b_Status := (b_Status b)\<lparr>bs_PostHookAttempts := b_attempts b + 1,
        bs_Hooks := filter (\<lambda>h. hs_Phase h \<noteq> PhasePost) (b_hooks b) @
          map (hook_entry (he_duration_String e) (he_now e w')) rs\<rparr>\<rparr>" by auto
    then show ?thesis using Run_entries_not_pre [OF post rs] by (simp add: filter_pre_not_post conj_commute)
  qed
  then show "b_volumes b' = b_volumes b" "b_Meta b' = b_Meta b"
    "filter (\<lambda>h. hs_Phase h = PhasePre) (b_hooks b') = filter (\<lambda>h. hs_Phase h = PhasePre) (b_hooks b)"
    "r = Inr False \<Longrightarrow> b' = b \<and> st' = st" "r \<noteq> Inr False \<Longrightarrow> b_attempts b' = b_attempts b + 1"
    by blast+
qed

lemma releaseAbortedQuiesce_fields:
  assumes "releaseAbortedQuiesce e b spec st = ((owed, err), b', st')"
  shows "b_volumes b' = b_volumes b" "b_Meta b' = b_Meta b"
    "filter (\<lambda>h. hs_Phase h = PhasePre) (b_hooks b') = filter (\<lambda>h. hs_Phase h = PhasePre) (b_hooks b)"
proof -
  obtain r b1 st1 where a: "advancePostHooks e b spec (b_volumes b) (Some (quiescedPodsFromStatus b)) st = (r, b1, st1)"
    by (metis prod_cases3)
  then have "b' = b \<or> b' = b1"
    using assms by (auto simp: releaseAbortedQuiesce_def Let_def split: if_splits sum.splits bool.splits)
  then show "b_volumes b' = b_volumes b" "b_Meta b' = b_Meta b"
    "filter (\<lambda>h. hs_Phase h = PhasePre) (b_hooks b') = filter (\<lambda>h. hs_Phase h = PhasePre) (b_hooks b)"
    using advancePostHooks_fields(1-3) [OF a] by auto
qed

lemma hookState_cong:
  assumes "filter (\<lambda>h. hs_Phase h = PhasePre) (b_hooks b') = filter (\<lambda>h. hs_Phase h = PhasePre) (b_hooks b)"
  shows "preRan (hookState b') = preRan (hookState b)" "aborted (hookState b') = aborted (hookState b)"
    "quiescedPodsFromStatus b' = quiescedPodsFromStatus b"
proof -
  from assms have m: "h \<in> set (b_hooks b') \<and> hs_Phase h = PhasePre \<longleftrightarrow> h \<in> set (b_hooks b) \<and> hs_Phase h = PhasePre"
    for h using arg_cong [OF assms, of set] unfolding set_filter set_eq_iff mem_Collect_eq by blast
  show "preRan (hookState b') = preRan (hookState b)" using m by (auto simp: hookState_fields)
  show "aborted (hookState b') = aborted (hookState b)" using m by (auto simp: hookState_fields)
  show "quiescedPodsFromStatus b' = quiescedPodsFromStatus b" using m by (auto simp: quiescedPods_eq)
qed

text \<open>
  An aborted quiesce never reaches a snapshot. The pass stops at the freeze window, the status
  it leaves still reads as aborted and as owing the same pods, so every later pass stops there
  too; and either the run is reported Failed, or the abort is still releasing and the pass asks to be
  run again or reports the error.
\<close>

theorem aborted_quiesce_is_final:
  assumes "aborted (hookState b)" and "openFreezeWindow e b (hookState b) spec st = ((res, stop, err), b', st')"
  shows "stop \<and> aborted (hookState b') \<and> quiescedPodsFromStatus b' = quiescedPodsFromStatus b \<and>
    b_volumes b' = b_volumes b \<and>
    (bs_Phase (b_Status b') = BackupPhaseFailed \<or> res = RequeueAfter backupPollInterval \<or> err \<noteq> None)"
proof -
  obtain owed rerr b1 st1 where r: "releaseAbortedQuiesce e b spec st = ((owed, rerr), b1, st1)"
    by (metis prod_cases4 surj_pair)
  note f = releaseAbortedQuiesce_fields [OF r]
  obtain res1 err1 b2 st2 where a: "abortFreezeWindow e b (hookState b) spec st = ((res1, err1), b2, st2)"
    by (metis prod_cases4 surj_pair)
  have o: "stop" "res = res1" "err = err1" "b' = b2" using assms a by (auto simp: openFreezeWindow_def)
  have "b_hooks b2 = b_hooks b1 \<and> b_volumes b2 = b_volumes b1 \<and>
    (bs_Phase (b_Status b2) = BackupPhaseFailed \<or> res1 = RequeueAfter backupPollInterval \<or> err1 \<noteq> None)"
  proof (cases owed)
    case False
    obtain ferr b3 st3 where "failHooks e (abortMessage (hookState b)) b1 st1 = (ferr, b3, st3)" by (metis prod_cases3)
    with failHooks_fields [OF this] False a r show ?thesis by (simp add: abortFreezeWindow_def)
  next
    case True
    with a r show ?thesis
      by (auto simp: abortFreezeWindow_def Let_def errors_Join_def List.map_filter_simps
          split: prod.splits option.splits)
  qed
  with f o hookState_cong [of b2 b] assms(1) show ?thesis by simp
qed

text \<open>
  C37: An aborted quiesce releases exactly what it froze. While a release is declared and not yet settled, the
  commands the abort path runs are, in order and to the end, the release hooks resolved for
  this run whose pod has a succeeded quiesce in the record: no pod whose quiesce failed or was
  skipped is touched.
\<close>

theorem abort_releases_exactly_the_frozen:
  assumes "\<not> postHooksRan b" and "hsp_Post spec \<noteq> [] \<or> hsp_HonorAnnotations spec"
    and "resolveHooks e b spec (b_volumes b) PhasePost (bw st) = Inr resolved" and "he_Hooks e = Some exec"
  shows "bw (snd (snd (releaseAbortedQuiesce e b spec st))) =
    snd (run_all exec (filter (\<lambda>h. \<exists>p \<in> set (b_hooks b). hs_Phase p = PhasePre \<and> hs_Result p = HookSucceeded \<and>
       hs_Pod p = rh_PodName h) resolved) (bw st))"
proof -
  let ?frozen = "quiescedPodsFromStatus b"
  let ?hs = "restrictToPods resolved (Some ?frozen)"
  have hs: "?hs = filter (\<lambda>h. \<exists>p \<in> set (b_hooks b). hs_Phase p = PhasePre \<and> hs_Result p = HookSucceeded \<and>
       hs_Pod p = rh_PodName h) resolved"
    unfolding restrictToPods_eq quiescedPods_eq mem_Collect_eq by (rule filter_cong [OF refl]) metis
  have post: "rh_Phase h = PhasePost" if "h \<in> set ?hs" for h
    using that resolveHooks_phase [OF assms(3)] by (auto simp: restrictToPods_eq)
  show ?thesis
  proof (cases "?hs = []")
    case True
    then have "advancePostHooks e b spec (b_volumes b) (Some ?frozen) st = (Inr False, b, st)"
      using assms(3) by (simp add: advancePostHooks_def Let_def)
    then show ?thesis using assms(1,2) True hs
      by (auto simp: releaseAbortedQuiesce_def Let_def)
  next
    case False
    obtain rs w' where rs: "Run exec ?hs (bw st) = (rs, w')" by fastforce
    have w': "w' = snd (run_all exec ?hs (bw st))" using rs Run_post [of ?hs exec "bw st", OF post] by simp
    obtain b1 st1 where "advancePostHooks e b spec (b_volumes b) (Some ?frozen) st = (Inr True, b1, st1)" "bw st1 = w'"
      using advancePostHooks_ran [OF assms(3) False assms(4) rs] by metis
    moreover have "?frozen \<noteq> {}" using False by (auto simp: restrictToPods_eq)
    ultimately show ?thesis using assms(1,2) w' hs by (auto simp: releaseAbortedQuiesce_def Let_def)
  qed
qed

text \<open>A world in which both pods are live and the second one's quiesce has failed.\<close>

definition demo_entry :: "string \<Rightarrow> string \<Rightarrow> HookStatus" where
  "demo_entry pod result = \<lparr>hs_Phase = PhasePre, hs_Pod = pod, hs_Container = [], hs_Source = SourceSpec,
     hs_Result = result, hs_OnError = HookErrorPolicyFail, hs_Message = [], hs_FinishedAt = None\<rparr>"

definition demo_aborted :: Backup where
  "demo_aborted = demo_run\<lparr>b_Status := (b_Status demo_run)\<lparr>bs_Hooks :=
     [demo_entry ''db-0'' HookSucceeded, demo_entry ''db-1'' HookFailed]\<rparr>\<rparr>"

lemma demo_aborted_fields [simp]: "b_hooks demo_aborted = [demo_entry ''db-0'' HookSucceeded, demo_entry ''db-1'' HookFailed]"
  "b_attempts demo_aborted = 0" "b_volumes demo_aborted = b_volumes demo_run" "b_Meta demo_aborted = b_Meta demo_run"
  by (simp_all add: demo_aborted_def demo_run_def empty_backup_def)

definition demo_pod2 :: Pod where
  "demo_pod2 = demo_pod\<lparr>pod_Name := ''db-1'', pod_Annotations := Map.empty\<rparr>"

lemma demo_release_resolution:
  "resolveHooks (demo_hook_env [demo_pod, demo_pod2]) demo_aborted demo_hooks (b_volumes demo_aborted) PhasePost w =
     Inr (map (\<lambda>n. \<lparr>rh_PodNamespace = ''shop'', rh_PodName = n, rh_Container = ''db'', rh_Command = [''thaw''],
       rh_Timeout = seconds 30, rh_OnError = HookErrorPolicyFail, rh_Source = SourceSpec,
       rh_Phase = PhasePost, rh_ServiceAccountName = ''hooks''\<rparr>) [''db-0'', ''db-1''])"
proof -
  have m: "podMountsAny demo_pod {''data''}" "podMountsAny demo_pod2 {''data''}"
    by (simp_all add: podMountsAny_def demo_pod_def demo_pod2_def)
  have d: "hookPhaseDeclared demo_hooks PhasePost" by (simp add: hookPhaseDeclared_def demo_hooks_def)
  have s: "set (map Pvc (b_volumes demo_aborted)) = {''data''}" by simp
  have "pod_hooks demo_libs demo_hooks PhasePost demo_pod = [spec_hook demo_pod PhasePost (hsp_Post demo_hooks ! 0)]"
    "pod_hooks demo_libs demo_hooks PhasePost demo_pod2 = [spec_hook demo_pod2 PhasePost (hsp_Post demo_hooks ! 0)]"
    by (simp_all add: pod_hooks_def demo_hooks_def demo_pod_def demo_pod2_def fromAnnotations_def selectorMatches_def)
  then show ?thesis using m d
    by (simp add: resolveHooks_def demo_hook_env_def s [unfolded set_map] Resolve_def resolve_pods_eq spec_hook_def
        demo_pod_def demo_pod2_def demo_hooks_def defaultContainer_def DefaultTimeout_def)
qed

theorem aborted_quiesce_is_final_witness:
  "\<exists>x b' st'. openFreezeWindow (demo_hook_env [demo_pod, demo_pod2]) demo_aborted (hookState demo_aborted) demo_hooks
     \<lparr>bw = [], bev = []\<rparr> = (x, b', st') \<and> aborted (hookState b') \<and> fst (snd x)"
proof -
  obtain res stop err b' st' where p: "openFreezeWindow (demo_hook_env [demo_pod, demo_pod2]) demo_aborted
      (hookState demo_aborted) demo_hooks \<lparr>bw = [], bev = []\<rparr> = ((res, stop, err), b', st')"
    by (metis prod_cases3)
  have "aborted (hookState demo_aborted)"
    by (simp add: hookState_fields demo_entry_def hookFailureTolerated_def)
  from aborted_quiesce_is_final [OF this p] have "aborted (hookState b')" "stop" by blast+
  then show ?thesis by (intro exI [of _ "(res, stop, err)"] exI [of _ b'] exI [of _ st'] conjI p) simp_all
qed

theorem abort_releases_exactly_the_frozen_witness:
  "map x_PodName (bw (snd (snd (releaseAbortedQuiesce (demo_hook_env [demo_pod, demo_pod2]) demo_aborted demo_hooks
     \<lparr>bw = [], bev = []\<rparr>)))) = [''db-0'']"
proof -
  have n: "\<not> postHooksRan demo_aborted"
    by (simp add: postHooksRan_def postHookMaxAttempts_def demo_entry_def word_sle_eq)
  have d: "hsp_Post demo_hooks \<noteq> [] \<or> hsp_HonorAnnotations demo_hooks" by (simp add: demo_hooks_def)
  show ?thesis
    unfolding abort_releases_exactly_the_frozen [OF n d demo_release_resolution demo_executor]
    by (simp add: demo_entry_def runOne_def logging_exec_def hook_call_def)
qed

section \<open>The release is bounded\<close>

lemma attempts_step:
  assumes "\<not> postHookMaxAttempts \<le>s (n :: i32)"
  shows "sint (n + 1) = sint n + 1"
proof -
  have "sint n < 3" using assms by (simp add: postHookMaxAttempts_def word_sle_eq)
  moreover have "- (2 ^ 31) \<le> sint n" using sint_ge [of n] by simp
  ultimately show ?thesis by (simp add: sint_word_add signed_take_bit_int_eq_self)
qed

text \<open>
  A release pass is repeated in whatever worlds the cluster goes through; \<open>still_owed\<close> tells
  whether every one of the given passes left the release owed.
\<close>

fun still_owed ::
  "(Backup \<Rightarrow> 'w bstate \<Rightarrow> (bool \<times> go_error option) \<times> Backup \<times> 'w bstate) \<Rightarrow> Backup \<Rightarrow> 'w bstate list \<Rightarrow> bool" where
  "still_owed pass b [] = True"
| "still_owed pass b (st # sts) = (case pass b st of ((owed, _), b', _) \<Rightarrow> owed \<and> still_owed pass b' sts)"

locale bounded_release =
  fixes pass :: "Backup \<Rightarrow> 'w bstate \<Rightarrow> (bool \<times> go_error option) \<times> Backup \<times> 'w bstate"
    and ready :: "Backup \<Rightarrow> bool"
  assumes pass_owed: "ready b \<Longrightarrow> pass b st = ((True, err), b', st') \<Longrightarrow>
    \<not> postHookMaxAttempts \<le>s b_attempts b \<and> b_attempts b' = b_attempts b + 1 \<and> ready b'"
begin

lemma settles_within:
  "ready b \<Longrightarrow> sts \<noteq> [] \<Longrightarrow> 3 < sint (b_attempts b) + int (length sts) \<Longrightarrow> \<not> still_owed pass b sts"
proof (induction sts arbitrary: b)
  case (Cons st sts)
  obtain owed err b' st' where p: "pass b st = ((owed, err), b', st')" by (metis prod_cases4 surj_pair)
  show ?case
  proof (cases owed)
    case True
    then have s: "\<not> postHookMaxAttempts \<le>s b_attempts b" "b_attempts b' = b_attempts b + 1" "ready b'"
      using pass_owed [of b st err b' st'] Cons.prems(1) p by auto
    have "sint (b_attempts b) < 3" using s(1) by (simp add: postHookMaxAttempts_def word_sle_eq)
    then have "sts \<noteq> []" using Cons.prems(3) by auto
    then have "\<not> still_owed pass b' sts"
      using Cons.prems(3) attempts_step [OF s(1)] s(2,3) by (intro Cons.IH) simp_all
    then show ?thesis using p by simp
  qed (use p in simp)
qed simp

lemma settles: "ready b \<Longrightarrow> 0 \<le>s b_attempts b \<Longrightarrow> 4 \<le> length sts \<Longrightarrow> \<not> still_owed pass b sts"
  using settles_within [of b sts] by (cases "sts = []") (auto simp: word_sle_eq)

end

lemma not_ran_below_max: "\<not> postHooksRan b \<Longrightarrow> \<not> postHookMaxAttempts \<le>s b_attempts b"
  by (auto simp: postHooksRan_def)

lemma closeFreezeWindow_owed:
  assumes "snapshotsCut (b_volumes b)" and "closeFreezeWindow e b spec st = ((True, err), b', st')"
  shows "\<not> postHookMaxAttempts \<le>s b_attempts b \<and> b_attempts b' = b_attempts b + 1 \<and> snapshotsCut (b_volumes b')"
proof -
  obtain r b1 st1 where a: "advancePostHooks e b spec (b_volumes b) None st = (r, b1, st1)" by (metis prod_cases3)
  have "\<not> postHooksRan b" "b' = b1" "r \<noteq> Inr False"
    using assms a by (auto simp: closeFreezeWindow_def split: if_splits sum.splits bool.splits)
  then show ?thesis using advancePostHooks_fields(1,5) [OF a] not_ran_below_max assms(1) by simp
qed

lemma releaseAbortedQuiesce_owed:
  assumes "releaseAbortedQuiesce e b spec st = ((True, err), b', st')"
  shows "\<not> postHookMaxAttempts \<le>s b_attempts b \<and> b_attempts b' = b_attempts b + 1"
proof -
  obtain r b1 st1 where a: "advancePostHooks e b spec (b_volumes b) (Some (quiescedPodsFromStatus b)) st = (r, b1, st1)"
    by (metis prod_cases3)
  have "\<not> postHooksRan b" "b' = b1" "r \<noteq> Inr False"
    using assms a by (auto simp: releaseAbortedQuiesce_def Let_def split: if_splits sum.splits bool.splits)
  then show ?thesis using advancePostHooks_fields(5) [OF a] not_ran_below_max by simp
qed

interpretation close: bounded_release "\<lambda>b. closeFreezeWindow e b spec" "\<lambda>b. snapshotsCut (b_volumes b)" for e spec
  by unfold_locales (rule closeFreezeWindow_owed)

interpretation thaw: bounded_release "\<lambda>b. releaseAbortedQuiesce e b spec" "\<lambda>b. True" for e spec
  by unfold_locales (use releaseAbortedQuiesce_owed in blast)

text \<open>
  A release never holds a run for ever. From any number of attempts already counted, four passes that
  reach the release are enough for one of them to report that nothing is owed any more, whatever
  the cluster does in between (pods that cannot be listed, commands that keep failing); this holds for the
  release of a run whose snapshots are cut and for the release of an aborted quiesce.
\<close>

theorem release_is_bounded:
  assumes "0 \<le>s b_attempts b" and "4 \<le> length sts"
  shows "(snapshotsCut (b_volumes b) \<longrightarrow> \<not> still_owed (\<lambda>b. closeFreezeWindow e b spec) b sts) \<and>
    \<not> still_owed (\<lambda>b. releaseAbortedQuiesce e b spec) b sts"
  using close.settles [of b sts e spec] thaw.settles [of b sts e spec] assms by blast

theorem release_is_bounded_witness:
  "\<not> still_owed (\<lambda>b. closeFreezeWindow (demo_hook_env []) b demo_hooks) empty_backup
     (replicate 4 \<lparr>bw = [], bev = []\<rparr>)"
  using release_is_bounded [of empty_backup "replicate 4 \<lparr>bw = [], bev = []\<rparr>" "demo_hook_env []" demo_hooks]
  by (simp add: empty_backup_def)

section \<open>The consistency condition\<close>

lemma tolerated_failures_eq:
  assumes "\<And>r. r \<in> set rs \<Longrightarrow> rh_Phase (hr_Hook r) = PhasePre"
  shows "(tolerated_failures sh rs acc = None \<longleftrightarrow> (\<exists>r \<in> set rs. Aborts r \<and> \<not> isSkipped r)) \<and>
    (\<forall>ts. tolerated_failures sh rs acc = Some ts \<longrightarrow>
      (ts = [] \<longleftrightarrow> acc = [] \<and> (\<forall>r \<in> set rs. hr_Err r = None \<or> isSkipped r)))"
  using assms by (induction rs arbitrary: acc) (auto simp: Aborts_def)

lemma Run_skipped_behind_abort:
  "r \<in> set (fst (Run exec hs w)) \<Longrightarrow> isSkipped r \<Longrightarrow> \<exists>r' \<in> set (fst (Run exec hs w)). Aborts r' \<and> \<not> isSkipped r'"
proof (induction hs arbitrary: w)
  case (Cons h hs)
  obtain q w1 where q: "runOne exec h w = (q, w1)" by fastforce
  have nq: "\<not> isSkipped q" using runOne_not_skipped [of exec h w] q by (simp add: isSkipped_def)
  show ?case
  proof (cases "Aborts q \<and> chainStopsOnAbort (rh_Phase h)")
    case True
    then show ?thesis using q nq by simp
  next
    case False
    obtain rs w2 where rs: "Run exec hs w1 = (rs, w2)" by fastforce
    then have "fst (Run exec (h # hs) w) = q # rs" using q False by auto
    then show ?thesis using Cons.IH [of w1] Cons.prems nq rs by auto
  qed
qed simp

text \<open>
  The ApplicationConsistent condition tells the truth. After a quiesce ran, the condition is
  True exactly when every hook succeeded, False exactly when one failed under onError=Continue and none aborted, and is
  left as it was when a hook aborted the run.
\<close>

theorem consistency_verdict:
  assumes resolved: "resolveHooks e b spec vols PhasePre (bw st) = Inr resolved" "resolved \<noteq> []"
    and exec: "he_Hooks e = Some exec" "Run exec resolved (bw st) = (results, w')"
    and laws: "\<And>c cs t. map_option cond_Status (he_find_condition e (he_set_condition e c cs) t) =
      (if t = cond_Type c then Some (cond_Status c) else map_option cond_Status (he_find_condition e cs t))"
    and pass: "advancePreHooks e b spec vols st = (r, b', st')"
  shows "map_option cond_Status (he_find_condition e (bs_Conditions (b_Status b')) ConditionApplicationConsistent) =
    (if \<exists>r \<in> set results. hr_Err r \<noteq> None \<and> hr_Err r \<noteq> Some ErrSkipped \<and>
          rh_OnError (hr_Hook r) \<noteq> HookErrorPolicyContinue
     then map_option cond_Status (he_find_condition e (bs_Conditions (b_Status b)) ConditionApplicationConsistent)
     else if \<forall>r \<in> set results. hr_Err r = None then Some ConditionTrue
     else Some ConditionFalse)"
proof -
  have pre: "rh_Phase (hr_Hook r) = PhasePre" if "r \<in> set results" for r
    using Run_phase [of resolved PhasePre r exec "bw st"] resolveHooks_phase [OF resolved(1)] that exec(2) by simp
  let ?t = "tolerated_failures (he_duration_String e) results []"
  note t = tolerated_failures_eq [OF pre, of results "he_duration_String e" "[]", simplified]
  obtain b1 st1 where b1: "recordHookResults e results b (st\<lparr>bw := w'\<rparr>) = (b1, st1)"
    "bs_Conditions (b_Status b1) = bs_Conditions (b_Status b)" by (simp add: recordHookResults_eq)
  then have v: "recordConsistencyVerdict e results b1 st1 = (b', st')"
    using pass resolved exec by (cases resolved) (auto simp: advancePreHooks_def split: prod.splits)
  have skip: "(\<exists>r \<in> set results. Aborts r \<and> \<not> isSkipped r) \<longleftrightarrow> (\<exists>r \<in> set results. hr_Err r \<noteq> None \<and>
      hr_Err r \<noteq> Some ErrSkipped \<and> rh_OnError (hr_Hook r) \<noteq> HookErrorPolicyContinue)"
    by (auto simp: Aborts_def isSkipped_def)
  have sc: "map_option cond_Status (he_find_condition e (bs_Conditions (b_Status (set_cond e t s q m c))) t) = Some s"
    for t s q m c by (simp add: set_cond_def SetCondition_def laws)
  have ok: "(\<forall>r \<in> set results. hr_Err r = None \<or> isSkipped r) \<longleftrightarrow> (\<forall>r \<in> set results. hr_Err r = None)"
    if "\<not> (\<exists>r \<in> set results. Aborts r \<and> \<not> isSkipped r)"
    using that Run_skipped_behind_abort [of _ exec resolved "bw st"] exec(2) by auto
  show ?thesis
  proof (cases ?t)
    case None
    then show ?thesis using t v b1(2) skip by (simp add: recordConsistencyVerdict_def)
  next
    case (Some ts)
    then have na: "\<not> (\<exists>r \<in> set results. Aborts r \<and> \<not> isSkipped r)" using t by simp
    have "ts = [] \<longleftrightarrow> (\<forall>r \<in> set results. hr_Err r = None)" using t Some ok [OF na] by simp
    moreover obtain q m where b': "b' = set_cond e ConditionApplicationConsistent
        (if ts = [] then ConditionTrue else ConditionFalse) q m b1"
      using v Some by (cases "ts = []") (auto simp: recordConsistencyVerdict_def Let_def)
    ultimately show ?thesis unfolding b' sc using na skip by auto
  qed
qed

theorem consistency_verdict_witness:
  "\<exists>r b' st'. advancePreHooks (demo_hook_env [demo_pod]) demo_run demo_hooks (b_volumes demo_run)
     \<lparr>bw = [], bev = []\<rparr> = (r, b', st') \<and>
     map_option cond_Status (find (\<lambda>c. cond_Type c = ConditionApplicationConsistent) (bs_Conditions (b_Status b'))) =
       Some ConditionTrue"
proof -
  let ?st = "\<lparr>bw = [], bev = []\<rparr> :: exec_call list bstate"
  obtain r b' st' where p: "advancePreHooks (demo_hook_env [demo_pod]) demo_run demo_hooks (b_volumes demo_run) ?st =
      (r, b', st')" by (metis prod_cases3)
  obtain h where hs: "resolveHooks (demo_hook_env [demo_pod]) demo_run demo_hooks (b_volumes demo_run) PhasePre
      (bw ?st) = Inr [h]" and h: "rh_PodName h = ''db-0''" "rh_Command h = [''freeze'']"
    by (rule that [OF demo_resolveHooks]) simp_all
  have ran: "Run logging_exec [h] (bw ?st) =
      ([\<lparr>hr_Hook = h, hr_Err = None, hr_Stdout = [], hr_Stderr = []\<rparr>], [hook_call h])"
    using h by (simp add: runOne_def logging_exec_def Aborts_def hook_call_def)
  have find: "he_find_condition (demo_hook_env [demo_pod]) cs t = find (\<lambda>c. cond_Type c = t) cs" for cs t
    by (simp add: demo_hook_env_def)
  have "find (\<lambda>c. cond_Type c = t) (filter (\<lambda>d. cond_Type d \<noteq> u) cs) = find (\<lambda>c. cond_Type c = t) cs"
    if "t \<noteq> u" for t u and cs :: "Condition list" using that by (induction cs) auto
  then have laws: "map_option cond_Status (he_find_condition (demo_hook_env [demo_pod])
        (he_set_condition (demo_hook_env [demo_pod]) c cs) t) =
      (if t = cond_Type c then Some (cond_Status c)
       else map_option cond_Status (he_find_condition (demo_hook_env [demo_pod]) cs t))" for c cs t
    by (simp add: demo_hook_env_def)
  from consistency_verdict [OF hs list.simps(3) demo_executor ran laws p]
  have "map_option cond_Status (find (\<lambda>c. cond_Type c = ConditionApplicationConsistent) (bs_Conditions (b_Status b'))) =
       Some ConditionTrue" by (simp add: find)
  then show ?thesis by (intro exI [of _ r] exI [of _ b'] exI [of _ st'] conjI p)
qed

end
