(* ===== verification/Volume_Safety.thy ===== *)
theory Volume_Safety
  imports Volume_Machine
begin

text \<open>
  What one pass and any sequence of passes may do to a volume. The abstract machine
  \<open>volume_step\<close> has the six states of a volume and its seven moves; \<open>advanceVolume\<close> refines it. A
  volume is Completed only by the result its mover wrote, an error of a live phase is bounded by the
  outer deadline, and a volume waiting for its exposer never holds back its namespace.
\<close>

section \<open>The abstract machine\<close>

datatype volume_state =
    Waiting
  | Cutting
  | Moving
  | Taken string
  | NotTaken
  | GaveUp

definition volume_abs :: "VolumeStatus \<Rightarrow> volume_state option" where
  "volume_abs v =
     (if Phase v = VolumePhasePending \<or> Phase v = [] then Some Waiting
      else if Phase v = VolumePhaseSnapshotting then Some Cutting
      else if Phase v = VolumePhaseUploading then Some Moving
      else if Phase v = VolumePhaseCompleted then Some (Taken (SnapshotID v))
      else if Phase v = VolumePhaseSkipped then Some NotTaken
      else if Phase v = VolumePhaseFailed then Some GaveUp
      else None)"

inductive volume_step :: "volume_state \<Rightarrow> volume_state \<Rightarrow> bool" where
  cut: "volume_step Waiting Cutting"
| skip: "volume_step Waiting NotTaken"
| refuse: "volume_step Waiting GaveUp"
| upload: "volume_step Cutting Moving"
| lose_cut: "volume_step Cutting GaveUp"
| take: "volume_step Moving (Taken s)"
| lose_upload: "volume_step Moving GaveUp"

inductive_cases volume_stepE: "volume_step s t"
inductive_simps volume_step_Taken: "volume_step (Taken i) t"
inductive_simps volume_step_NotTaken: "volume_step NotTaken t"
inductive_simps volume_step_GaveUp: "volume_step GaveUp t"

primrec moves_left :: "volume_state \<Rightarrow> nat" where
  "moves_left Waiting = 3"
| "moves_left Cutting = 2"
| "moves_left Moving = 1"
| "moves_left (Taken _) = 0"
| "moves_left NotTaken = 0"
| "moves_left GaveUp = 0"

lemma volume_step_decreases: "volume_step s t \<Longrightarrow> moves_left t < moves_left s"
  by (induction rule: volume_step.induct) simp_all

lemma volume_steps_bound: "(volume_step ^^ n) s t \<Longrightarrow> n + moves_left t \<le> moves_left s"
proof (induction n arbitrary: t)
  case (Suc n)
  from Suc.prems obtain u where u: "(volume_step ^^ n) s u" "volume_step u t" by auto
  from Suc.IH [OF u(1)] volume_step_decreases [OF u(2)] show ?case by simp
qed simp

section \<open>The handlers\<close>

lemma backstop_or_cases:
  assumes "backstop_or e cause otherwise vol st = (res, vol', st')"
  obtains
    (waits) "res = otherwise" "vol' = vol" "st' = st"
      "\<And>t. PhaseEnteredAt vol = Some t \<Longrightarrow> time_sub (he_now e (bw st')) t \<le> effectiveAdvanceRetryDeadline e"
  | (fails) t where "PhaseEnteredAt vol = Some t"
      "effectiveAdvanceRetryDeadline e < time_sub (he_now e (bw st)) t" "res = Inr (Pvc vol)"
      "vol' = vol\<lparr>Phase := VolumePhaseFailed,
         Reason := deadlineReason backupReasonAdvanceDeadline (Error (he_show_api e) cause)\<rparr>"
  using assms unfolding backstop_or_def failVolumeOnAdvanceBackstop_def
  by (fastforce split: option.splits if_splits)

text \<open>The clock of the phase has not passed the outer deadline.\<close>

definition within_bound :: "('w, 'expr, 'ex, 'z) backup_env_scheme \<Rightarrow> VolumeStatus \<Rightarrow> 'w bstate \<Rightarrow> bool" where
  "within_bound e vol st \<longleftrightarrow>
     (\<forall>t. PhaseEnteredAt vol = Some t \<longrightarrow> time_sub (he_now e (bw st)) t \<le> effectiveAdvanceRetryDeadline e)"

text \<open>What a handler may do to the volume and what it answers, for the phase it was entered in.\<close>

definition handled ::
  "('w, 'expr, 'ex, 'z) backup_env_scheme \<Rightarrow> VolumeStatus \<Rightarrow> (go_error + string) \<Rightarrow> VolumeStatus \<Rightarrow> 'w bstate \<Rightarrow> bool" where
  "handled e vol res vol' st' \<longleftrightarrow>
     (case res of Inl _ \<Rightarrow> within_bound e vol st' | Inr _ \<Rightarrow> True) \<and>
     Pvc vol' = Pvc vol \<and> FirstAttemptAt vol' = FirstAttemptAt vol \<and> PhaseEnteredAt vol' = PhaseEnteredAt vol \<and>
     (if Phase vol' = Phase vol
      then SnapshotID vol' = SnapshotID vol \<and> (case res of Inl _ \<Rightarrow> True | Inr pvc \<Rightarrow> pvc = [])
      else res = Inr (if Phase vol' = VolumePhaseUploading then [] else Pvc vol))"

lemma handled_backstop:
  assumes "backstop_or e cause otherwise vol st = (res, vol', st')"
    and "Phase vol = VolumePhaseSnapshotting \<or> Phase vol = VolumePhaseUploading"
    and "case otherwise of Inl _ \<Rightarrow> True | Inr pvc \<Rightarrow> pvc = []"
  shows "handled e vol res vol' st' \<and> (Phase vol' = Phase vol \<or> Phase vol' = VolumePhaseFailed) \<and>
    (Phase vol' = Phase vol \<longrightarrow> within_bound e vol st')"
  using assms(1)
  by (rule backstop_or_cases) (use assms(2,3) in \<open>auto simp: handled_def within_bound_def split: sum.split\<close>)

lemma within_bound_Reason: "within_bound e (vol\<lparr>Reason := r\<rparr>) st' = within_bound e vol st'"
  by (simp add: within_bound_def)

lemma handled_Reason: "handled e (vol\<lparr>Reason := r\<rparr>) res vol' st' = handled e vol res vol' st'"
  by (cases res) (simp_all add: handled_def within_bound_Reason)

lemma handled_stays: "handled e vol (Inr []) vol st'"
  by (simp add: handled_def)

lemma start_mover_handled:
  assumes s: "start_mover e backup rc exposure vol st = (res, vol', st')"
    and ph: "Phase vol = VolumePhaseSnapshotting"
  shows "handled e vol res vol' st' \<and>
    (Phase vol' = Phase vol \<or> Phase vol' = VolumePhaseFailed \<or> Phase vol' = VolumePhaseUploading)"
proof -
  let ?m = "volume_prefix backup (Pvc vol) @ ''-mover''"
  let ?r = "mover_job_request e backup rc vol exposure (bw st)"
  note live = handled_backstop [OF _ disjI1 [OF ph]]
  show ?thesis
  proof (cases "moverSlotBlocked (be_get_job e (bw st)) (rd_list_jobs (be_deps e) (bw st)) (be_QuiescenceRequired e (bw st))
      (be_OperatorNamespace e) ?m (rc_repoName rc) (rc_maxConcurrentMovers rc)")
    case (Inl err)
    with s have "backstop_or e (slot_error e ?m err (bw st)) (Inl (slot_error e ?m err (bw st))) vol st = (res, vol', st')"
      by (simp add: start_mover_def Let_def)
    then show ?thesis using live by fastforce
  next
    case (Inr blocked)
    show ?thesis
    proof (cases blocked)
      case True
      with s Inr have "vol' = vol" "res = Inr []" by (simp_all add: start_mover_def Let_def)
      then show ?thesis by (simp add: handled_stays)
    next
      case False
      obtain cerr w1 where c: "ensureMoverCredsSecret (be_deps e) ?m (rc_dek rc) (rc_s3CredsSecret rc) (rc_credsNamespace rc)
          (jr_Labels ?r) (bw st) = (cerr, w1)" by fastforce
      obtain jerr w where j: "rd_create_job (be_deps e) ?r w1 = (jerr, w)" by fastforce
      show ?thesis
      proof (cases cerr)
        case (Some err)
        with s Inr False c have "backstop_or e err (Inl err) vol (st\<lparr>bw := w1\<rparr>) = (res, vol', st')"
          by (simp add: start_mover_def Let_def)
        then show ?thesis using live by fastforce
      next
        case None
        let ?bad = "jerr \<noteq> None \<and> jerr \<noteq> Some AlreadyExists"
        let ?cause = "Wrap (''create mover Job '' @ be_OperatorNamespace e @ ''/'' @ ?m) (APIError (the jerr))"
        show ?thesis
        proof (cases ?bad)
          case True
          with s Inr False c None j have "backstop_or e ?cause (Inl ?cause) vol (st\<lparr>bw := w\<rparr>) = (res, vol', st')"
            by (simp add: start_mover_def Let_def)
          then show ?thesis using live by fastforce
        next
          case ok: False
          with s Inr False c None j have "res = Inr [] \<and> (vol' = vol \<or> vol' = vol\<lparr>Phase := VolumePhaseUploading\<rparr>)"
            by (auto simp add: start_mover_def Let_def split: if_splits)
          then show ?thesis using ph by (auto simp: handled_def)
        qed
      qed
    qed
  qed
qed

definition exposure_ready ::
  "('w, 'expr, 'ex, 'z) backup_env_scheme \<Rightarrow> Backup \<Rightarrow> VolumeStatus \<Rightarrow> 'w bstate \<Rightarrow> bool" where
  "exposure_ready e backup vol st \<longleftrightarrow>
     (case reconstructExposure e backup (Pvc vol) st of
        (Inr (ex, exposure), st1) \<Rightarrow> fst (be_Ready e ex exposure (bw st1)) = Inr True
      | _ \<Rightarrow> False)"

lemma advanceSnapshotting_handled:
  assumes s: "advanceSnapshotting e backup rc vol st = (res, vol', st')"
    and ph: "Phase vol = VolumePhaseSnapshotting"
  shows "handled e vol res vol' st' \<and>
    (Phase vol' = Phase vol \<or> Phase vol' = VolumePhaseFailed \<or> Phase vol' = VolumePhaseUploading) \<and>
    (Phase vol' = Phase vol \<longrightarrow> within_bound e vol st' \<or> exposure_ready e backup vol st)"
proof -
  obtain r st1 where r: "reconstructExposure e backup (Pvc vol) st = (r, st1)" by fastforce
  show ?thesis
  proof (cases r)
    case (Inl err)
    let ?c = "Wrap (''reconstruct exposure for PVC '' @ m_Namespace (b_Meta backup) @ ''/'' @ Pvc vol) err"
    from s r Inl have "backstop_or e ?c (Inl ?c) vol st1 = (res, vol', st')"
      by (simp add: advanceSnapshotting_def Let_def)
    then show ?thesis using handled_backstop [OF _ disjI1 [OF ph]] by fastforce
  next
    case (Inr p)
    obtain ex exposure where p: "p = (ex, exposure)" by fastforce
    obtain ready w where rd: "be_Ready e ex exposure (bw st1) = (ready, w)" by fastforce
    obtain reason where v: "(case ready of
        Inl err \<Rightarrow> recordAdvanceFailure e (Wrap (''check exposure readiness for PVC '' @
          m_Namespace (b_Meta backup) @ ''/'' @ Pvc vol) err) vol
      | Inr _ \<Rightarrow> vol) = vol\<lparr>Reason := reason\<rparr>"
    proof (cases ready)
      case (Inr b)
      then show ?thesis using that [of "Reason vol"] by simp
    qed (use that ph in \<open>simp add: recordAdvanceFailure_def\<close>)
    let ?v = "vol\<lparr>Reason := reason\<rparr>" and ?st = "st1\<lparr>bw := w\<rparr>"
    let ?late = "snapshotDeadlineExceeded e ex exposure w"
    have pv: "Phase ?v = VolumePhaseSnapshotting" using ph by simp
    show ?thesis
    proof (cases "ready = Inr True")
      case True
      then have "start_mover e backup rc exposure vol ?st = (res, vol', st')"
        using s r Inr p rd by (simp add: advanceSnapshotting_def Let_def)
      moreover have "exposure_ready e backup vol st" using r Inr p rd True by (simp add: exposure_ready_def)
      ultimately show ?thesis using start_mover_handled [OF _ ph] by blast
    next
      case False
      let ?c = "ErrorNew (''the exposure for PVC '' @ (m_Namespace (b_Meta backup) @ ''/'' @ Pvc vol) @
          '' never became ready and nothing could be read about its origin VolumeSnapshot, '' @
          ''so neither snapshot deadline could judge it'')"
      have "(res = Inr (Pvc vol) \<and> (\<exists>z. vol' = vol\<lparr>Phase := VolumePhaseFailed, Reason := z\<rparr>)) \<or>
          backstop_or e ?c (Inr []) ?v ?st = (res, vol', st')"
        using s r Inr p rd False unfolding advanceSnapshotting_def Let_def
        by (simp only: prod.case sum.case v if_False) (auto split: if_splits)
      then show ?thesis
      proof
        assume "backstop_or e ?c (Inr []) ?v ?st = (res, vol', st')"
        from handled_backstop [OF this disjI1 [OF pv]] show ?thesis by (auto simp: handled_Reason within_bound_Reason)
      qed (auto simp: handled_def ph)
    qed
  qed
qed

definition mover_waiting ::
  "('w, 'expr, 'ex, 'z) backup_env_scheme \<Rightarrow> Backup \<Rightarrow> VolumeStatus \<Rightarrow> 'w bstate \<Rightarrow> bool" where
  "mover_waiting e backup vol st \<longleftrightarrow>
     (case be_get_job e (bw st) (be_OperatorNamespace e) (volume_prefix backup (Pvc vol) @ ''-mover'') of
        Inl _ \<Rightarrow> False
      | Inr job \<Rightarrow> j_Succeeded job <s 1 \<and> \<not> jobConditionTrue job JobComplete \<and> \<not> jobConditionTrue job JobFailed \<and>
          moverStalled e job (bw st) = None)"

lemma advanceUploading_handled:
  assumes s: "advanceUploading e backup rc vol st = (res, vol', st')"
    and ph: "Phase vol = VolumePhaseUploading"
  shows "handled e vol res vol' st' \<and>
    (Phase vol' = Phase vol \<or> Phase vol' = VolumePhaseFailed \<or> Phase vol' = VolumePhaseCompleted) \<and>
    (Phase vol' = Phase vol \<longrightarrow> within_bound e vol st' \<or> mover_waiting e backup vol st)"
proof (cases "be_get_job e (bw st) (be_OperatorNamespace e) (volume_prefix backup (Pvc vol) @ ''-mover'')")
  case (Inl err)
  then obtain c ow where "backstop_or e c ow vol st = (res, vol', st')"
    and "case ow of Inl _ \<Rightarrow> True | Inr pvc \<Rightarrow> pvc = []"
    using s by (fastforce simp add: advanceUploading_def Let_def split: if_splits)
  from handled_backstop [OF this(1) disjI2 [OF ph] this(2)] show ?thesis by blast
next
  case (Inr job)
  let ?m = "volume_prefix backup (Pvc vol) @ ''-mover''"
  let ?complete = "1 \<le>s j_Succeeded job \<or> jobConditionTrue job JobComplete"
  let ?failed = "jobConditionTrue job JobFailed \<or> rc_backoffLimit rc <s j_Failed job"
  show ?thesis
  proof (cases "\<not> ?complete \<and> \<not> ?failed")
    case True
    then have "(\<exists>z. res = Inr (Pvc vol) \<and> vol' = vol\<lparr>Phase := VolumePhaseFailed, Reason := z\<rparr>) \<or>
        res = Inr [] \<and> vol' = vol \<and> mover_waiting e backup vol st"
      using s Inr by (cases "moverStalled e job (bw st)")
        (auto simp add: advanceUploading_def mover_waiting_def Let_def word_sless_alt word_sle_eq)
    then show ?thesis using ph by (auto simp: handled_def)
  next
    case False
    obtain v1 st1 where f: "finish_upload e backup rc ?m ?complete vol st = (v1, st1)" by fastforce
    with s Inr False have "res = Inr (Pvc v1)" "vol' = v1" by (auto simp add: advanceUploading_def Let_def)
    moreover have "Pvc v1 = Pvc vol \<and> FirstAttemptAt v1 = FirstAttemptAt vol \<and> PhaseEnteredAt v1 = PhaseEnteredAt vol \<and>
      (Phase v1 = VolumePhaseFailed \<or> Phase v1 = VolumePhaseCompleted)"
      using f by (auto simp add: finish_upload_def Let_def split: prod.splits if_splits)
    ultimately show ?thesis using ph by (auto simp: handled_def)
  qed
qed

lemma pending_attempt_phase:
  assumes "pending_attempt e backup vol st = (vol', st')"
  shows "Pvc vol' = Pvc vol \<and> PhaseEnteredAt vol' = PhaseEnteredAt vol \<and> SnapshotID vol' = SnapshotID vol \<and>
    (Phase vol' = Phase vol \<or> Phase vol' = VolumePhaseFailed \<or> Phase vol' = VolumePhaseSkipped \<or>
     Phase vol' = VolumePhaseSnapshotting)"
  using assms unfolding pending_attempt_def parkVolume_def
  by (auto split: sum.splits option.splits exposer_error.splits prod.splits if_splits)

lemma advancePending_phase:
  assumes "advancePending e backup vol st = (vol', st')"
  shows "Pvc vol' = Pvc vol \<and> PhaseEnteredAt vol' = PhaseEnteredAt vol \<and> SnapshotID vol' = SnapshotID vol \<and>
    (Phase vol' = Phase vol \<or> Phase vol' = VolumePhaseFailed \<or> Phase vol' = VolumePhaseSkipped \<or>
     Phase vol' = VolumePhaseSnapshotting)"
proof (cases "FirstAttemptAt vol")
  case None
  then show ?thesis using assms pending_attempt_phase [of e backup "vol\<lparr>FirstAttemptAt := Some (he_now e (bw st))\<rparr>" st vol' st']
    by (simp add: advancePending_def)
next
  case (Some t)
  show ?thesis
  proof (cases "time_sub (he_now e (bw st)) t > effectivePendingResolveDeadline e")
    case True
    then show ?thesis using assms Some by (auto simp: advancePending_def)
  next
    case False
    then show ?thesis using assms Some pending_attempt_phase [of e backup vol st vol' st'] by (simp add: advancePending_def)
  qed
qed

section \<open>One pass\<close>

lemma clearStaleAdvanceReason_frame [simp]:
  "Phase (clearStaleAdvanceReason p v) = Phase v" "Pvc (clearStaleAdvanceReason p v) = Pvc v"
  "SnapshotID (clearStaleAdvanceReason p v) = SnapshotID v" "SizeBytes (clearStaleAdvanceReason p v) = SizeBytes v"
  "AddedBytes (clearStaleAdvanceReason p v) = AddedBytes v"
  "PhaseEnteredAt (clearStaleAdvanceReason p v) = PhaseEnteredAt v"
  by (simp_all add: clearStaleAdvanceReason_def)

lemma stampVolumePhaseEntry_frame [simp]:
  "Phase (stampVolumePhaseEntry now p v) = Phase v" "Pvc (stampVolumePhaseEntry now p v) = Pvc v"
  "SnapshotID (stampVolumePhaseEntry now p v) = SnapshotID v" "SizeBytes (stampVolumePhaseEntry now p v) = SizeBytes v"
  "AddedBytes (stampVolumePhaseEntry now p v) = AddedBytes v"
  by (simp_all add: stampVolumePhaseEntry_def)

lemma stamp_starts_the_clock:
  "advanceBackstopApplies (Phase v) \<Longrightarrow> PhaseEnteredAt (stampVolumePhaseEntry now p v) \<noteq> None"
  "Phase v = p \<Longrightarrow> PhaseEnteredAt v = Some t \<Longrightarrow> PhaseEnteredAt (stampVolumePhaseEntry now p v) = Some t"
  by (simp_all add: stampVolumePhaseEntry_def)

lemma advanceVolume_phase:
  assumes s: "advanceVolume e backup rc vol st = (res, vol', st')"
  obtains v1 where "advanceVolumePhase e backup rc vol st = (res, v1, st')"
    "Phase vol' = Phase v1" "Pvc vol' = Pvc v1" "SnapshotID vol' = SnapshotID v1" "SizeBytes vol' = SizeBytes v1"
    "AddedBytes vol' = AddedBytes v1"
    "PhaseEnteredAt vol' = PhaseEnteredAt (stampVolumePhaseEntry (he_now e (bw st')) (Phase vol) v1)"
proof -
  obtain r1 v1 s1 where a: "advanceVolumePhase e backup rc vol st = (r1, v1, s1)" by (metis prod_cases3)
  with s have "r1 = res" "s1 = st'"
    and v: "vol' = (case res of Inr _ \<Rightarrow> clearStaleAdvanceReason (Phase vol) (stampVolumePhaseEntry (he_now e (bw st')) (Phase vol) v1)
      | Inl _ \<Rightarrow> stampVolumePhaseEntry (he_now e (bw st')) (Phase vol) v1)"
    by (auto simp: advanceVolume_def Let_def)
  moreover have "Phase vol' = Phase v1 \<and> Pvc vol' = Pvc v1 \<and> SnapshotID vol' = SnapshotID v1 \<and> SizeBytes vol' = SizeBytes v1 \<and>
      AddedBytes vol' = AddedBytes v1 \<and>
      PhaseEnteredAt vol' = PhaseEnteredAt (stampVolumePhaseEntry (he_now e (bw st')) (Phase vol) v1)"
    unfolding v by (simp split: sum.split)
  ultimately show ?thesis using a that by blast
qed

lemma advanceVolume_at_rest:
  assumes "Phase vol \<notin> {VolumePhasePending, [], VolumePhaseSnapshotting, VolumePhaseUploading}"
  shows "advanceVolume e backup rc vol st = (Inr [], vol, st)"
  using assms by (simp add: advanceVolume_def advanceVolumePhase_def Let_def stampVolumePhaseEntry_def
      advanceBackstopApplies_def clearStaleAdvanceReason_def)

lemma advanceVolume_refines:
  assumes "volume_abs vol = Some s"
    and s: "advanceVolume e backup rc vol st = (res, vol', st')"
  shows "\<exists>s'. volume_abs vol' = Some s' \<and> (s' = s \<or> volume_step s s') \<and>
    Pvc vol' = Pvc vol \<and>
    (case res of
       Inl _ \<Rightarrow> s' = s
     | Inr pvc \<Rightarrow> pvc = (if s \<in> {Cutting, Moving} \<and> moves_left s' = 0 then Pvc vol else [])) \<and>
    (moves_left s = 0 \<longrightarrow> vol' = vol \<and> st' = st)"
proof -
  from s obtain v1 where v1: "advanceVolumePhase e backup rc vol st = (res, v1, st')"
    and eq: "Phase vol' = Phase v1" "Pvc vol' = Pvc v1" "SnapshotID vol' = SnapshotID v1"
    by (rule advanceVolume_phase)
  consider (pending) "Phase vol = VolumePhasePending \<or> Phase vol = []" | (snap) "Phase vol = VolumePhaseSnapshotting"
    | (up) "Phase vol = VolumePhaseUploading"
    | (rest) "Phase vol \<notin> {VolumePhasePending, [], VolumePhaseSnapshotting, VolumePhaseUploading}" by blast
  then show ?thesis
  proof cases
    case pending
    then have S: "s = Waiting" using assms(1) by (auto simp: volume_abs_def)
    from pending v1 have "advancePending e backup vol st = (v1, st')" "res = Inr []"
      by (auto simp: advanceVolumePhase_def split: prod.splits)
    from advancePending_phase [OF this(1)] this(2) pending show ?thesis
      by (auto simp: S volume_abs_def eq volume_step.simps)
  next
    case snap
    then have S: "s = Cutting" using assms(1) by (auto simp: volume_abs_def)
    from snap v1 have "advanceSnapshotting e backup rc vol st = (res, v1, st')" by (simp add: advanceVolumePhase_def)
    from advanceSnapshotting_handled [OF this snap] snap show ?thesis
      by (auto simp: S volume_abs_def eq volume_step.simps handled_def split: sum.splits if_splits)
  next
    case up
    then have S: "s = Moving" using assms(1) by (auto simp: volume_abs_def)
    from up v1 have "advanceUploading e backup rc vol st = (res, v1, st')" by (simp add: advanceVolumePhase_def)
    from advanceUploading_handled [OF this up] up show ?thesis
      by (auto simp: S volume_abs_def eq volume_step.simps handled_def split: sum.splits if_splits)
  next
    case rest
    then have "s \<notin> {Waiting, Cutting, Moving}" using assms(1) by (auto simp: volume_abs_def split: if_splits)
    then show ?thesis using s assms(1) advanceVolume_at_rest [OF rest, of e backup rc st] by auto
  qed
qed

text \<open>
  C28: one pass over a volume refines the abstract machine: it stutters or makes one of the seven
  moves, on the same claim. It asks for the teardown of the claim exactly when it ends a volume that
  had an exposure, an error leaves the phase as it was, and whatever has reached an end is never touched.
\<close>

theorem volume_pass_refines_the_phase_machine:
  assumes "volume_abs vol = Some s"
    and s: "advanceVolume e backup rc vol st = (res, vol', st')"
  shows "\<exists>s'. volume_abs vol' = Some s' \<and> (s' = s \<or> volume_step s s') \<and>
    Pvc vol' = Pvc vol \<and>
    (case res of
       Inl _ \<Rightarrow> s' = s
     | Inr pvc \<Rightarrow> pvc = (if s \<in> {Cutting, Moving} \<and> moves_left s' = 0 then Pvc vol else [])) \<and>
    (moves_left s = 0 \<longrightarrow> vol' = vol \<and> st' = st)"
  using assms by (rule advanceVolume_refines)

section \<open>What ends an upload\<close>

lemma finish_upload_Completed:
  assumes f: "finish_upload e backup rc m complete vol st = (v, st1)" and c: "Phase v = VolumePhaseCompleted"
  shows "\<exists>pods pod t result. complete \<and> be_job_pods e m (bw st) = Inr pods \<and> pod \<in> set pods \<and>
    first_termination pod = Some t \<and> be_unmarshal_result e (t_Message t) = Inr result \<and> OK result \<and>
    SnapshotID v = mr_SnapshotID result \<and> SizeBytes v = mr_SizeBytes result \<and> AddedBytes v = mr_AddedBytes result"
proof -
  obtain result node rerr
    where r: "readMoverResult (be_unmarshal_result e) (be_job_pods e m (bw st)) = (result, node, rerr)"
    by (metis prod_cases3)
  have ok: "complete \<and> rerr = None \<and> OK result" and v: "v = vol\<lparr>Node := node, SnapshotID := mr_SnapshotID result,
      SizeBytes := mr_SizeBytes result, AddedBytes := mr_AddedBytes result, Phase := VolumePhaseCompleted\<rparr>"
    using f c r by (auto simp: finish_upload_def Let_def split: if_splits)
  then obtain pods where pods: "be_job_pods e m (bw st) = Inr pods"
      "read_pods (be_unmarshal_result e) pods None None = (result, node, None)"
    using r by (auto simp: readMoverResult_def split: sum.splits)
  from read_pods_source [OF this(2)] obtain pod t where "pod \<in> set pods" "first_termination pod = Some t"
      "be_unmarshal_result e (t_Message t) = Inr result" by auto
  with ok v pods(1) show ?thesis by auto
qed

lemma advanceUploading_Completed:
  assumes s: "advanceUploading e backup rc vol st = (res, vol', st')"
    and ph: "Phase vol = VolumePhaseUploading" and c: "Phase vol' = VolumePhaseCompleted"
  shows "\<exists>job. be_get_job e (bw st) (be_OperatorNamespace e) (volume_prefix backup (Pvc vol) @ ''-mover'') = Inr job \<and>
    (\<exists>st1. finish_upload e backup rc (volume_prefix backup (Pvc vol) @ ''-mover'')
       (1 \<le>s j_Succeeded job \<or> jobConditionTrue job JobComplete) vol st = (vol', st1))"
proof (cases "be_get_job e (bw st) (be_OperatorNamespace e) (volume_prefix backup (Pvc vol) @ ''-mover'')")
  case (Inl err)
  then obtain cause ow where "backstop_or e cause ow vol st = (res, vol', st')"
    using s by (fastforce simp add: advanceUploading_def Let_def split: if_splits)
  then show ?thesis by (rule backstop_or_cases) (use ph c in auto)
next
  case (Inr job)
  let ?complete = "1 \<le>s j_Succeeded job \<or> jobConditionTrue job JobComplete"
  obtain v1 st1 where f: "finish_upload e backup rc (volume_prefix backup (Pvc vol) @ ''-mover'') ?complete vol st = (v1, st1)"
    by fastforce
  have "vol' = v1" using s Inr f ph c
    by (auto simp add: advanceUploading_def Let_def split: if_splits option.splits)
  with f Inr show ?thesis by auto
qed

text \<open>
  C29: a pass completes a volume only in Uploading, only when the mover Job of this backup and this
  claim reports success, and only with what a terminated pod of that Job wrote as a parsed, successful
  result: the recorded snapshot and both sizes are the ones of that result.
\<close>

theorem completed_only_by_a_mover_result:
  assumes s: "advanceVolume e backup rc vol st = (res, vol', st')"
    and c: "Phase vol' = VolumePhaseCompleted" "Phase vol \<noteq> VolumePhaseCompleted"
  shows "Phase vol = VolumePhaseUploading \<and>
    (\<exists>job pods pod t result.
       be_get_job e (bw st) (be_OperatorNamespace e) (volume_prefix backup (Pvc vol) @ ''-mover'') = Inr job \<and>
       (1 \<le>s j_Succeeded job \<or> jobConditionTrue job JobComplete) \<and>
       be_job_pods e (volume_prefix backup (Pvc vol) @ ''-mover'') (bw st) = Inr pods \<and> pod \<in> set pods \<and>
       first_termination pod = Some t \<and> be_unmarshal_result e (t_Message t) = Inr result \<and> OK result \<and>
       SnapshotID vol' = mr_SnapshotID result \<and> SizeBytes vol' = mr_SizeBytes result \<and>
       AddedBytes vol' = mr_AddedBytes result)"
proof -
  from s obtain v1 where v1: "advanceVolumePhase e backup rc vol st = (res, v1, st')"
    and eq: "Phase vol' = Phase v1" "SnapshotID vol' = SnapshotID v1" "SizeBytes vol' = SizeBytes v1"
      "AddedBytes vol' = AddedBytes v1"
    by (rule advanceVolume_phase)
  have up: "Phase vol = VolumePhaseUploading"
  proof (rule ccontr)
    assume n: "Phase vol \<noteq> VolumePhaseUploading"
    consider (p) "Phase vol = VolumePhasePending \<or> Phase vol = []" | (s) "Phase vol = VolumePhaseSnapshotting"
      | (rest) "Phase vol \<notin> {VolumePhasePending, [], VolumePhaseSnapshotting, VolumePhaseUploading}" using n by blast
    then show False
    proof cases
      case p
      then have "advancePending e backup vol st = (v1, st')" using v1
        by (auto simp: advanceVolumePhase_def split: prod.splits)
      from advancePending_phase [OF this] p c eq show False by auto
    next
      case s
      then have "advanceSnapshotting e backup rc vol st = (res, v1, st')" using v1 by (simp add: advanceVolumePhase_def)
      from advanceSnapshotting_handled [OF this s] s c eq show False by auto
    next
      case rest
      then show False using assms advanceVolume_at_rest [OF rest, of e backup rc st] by auto
    qed
  qed
  then have "advanceUploading e backup rc vol st = (res, v1, st')" using v1 by (simp add: advanceVolumePhase_def)
  from advanceUploading_Completed [OF this up] c(1) eq(1) obtain job st1 where
      j: "be_get_job e (bw st) (be_OperatorNamespace e) (volume_prefix backup (Pvc vol) @ ''-mover'') = Inr job"
    and f: "finish_upload e backup rc (volume_prefix backup (Pvc vol) @ ''-mover'')
       (1 \<le>s j_Succeeded job \<or> jobConditionTrue job JobComplete) vol st = (v1, st1)" by auto
  from finish_upload_Completed [OF f] c(1) eq obtain pods pod t result where
    "1 \<le>s j_Succeeded job \<or> jobConditionTrue job JobComplete"
    "be_job_pods e (volume_prefix backup (Pvc vol) @ ''-mover'') (bw st) = Inr pods" "pod \<in> set pods"
    "first_termination pod = Some t" "be_unmarshal_result e (t_Message t) = Inr result" "OK result"
    "SnapshotID v1 = mr_SnapshotID result" "SizeBytes v1 = mr_SizeBytes result" "AddedBytes v1 = mr_AddedBytes result"
    by metis
  with j eq up show ?thesis by (intro conjI exI [of _ job] exI [of _ pods] exI [of _ pod] exI [of _ t] exI [of _ result]) simp_all
qed

section \<open>No phase lasts for ever on errors\<close>

text \<open>
  C38: a pass that leaves a Snapshotting or Uploading volume in its phase has started the clock of
  the phase, and does not restart a running one. Past the outer deadline such a pass is possible only
  when its exposure is ready and waits for a mover slot, or its mover Job exists, has not ended and is
  not stalled; in particular an error is returned only within the deadline.
\<close>

theorem stuck_volume_gives_up:
  assumes s: "advanceVolume e backup rc vol st = (res, vol', st')"
    and live: "advanceBackstopApplies (Phase vol)" and same: "Phase vol' = Phase vol"
  shows "PhaseEnteredAt vol' \<noteq> None \<and>
    (PhaseEnteredAt vol \<noteq> None \<longrightarrow> PhaseEnteredAt vol' = PhaseEnteredAt vol) \<and>
    (within_bound e vol st' \<or>
       (\<exists>pvc. res = Inr pvc) \<and>
       (if Phase vol = VolumePhaseSnapshotting then exposure_ready e backup vol st else mover_waiting e backup vol st))"
proof -
  from s obtain v1 where v1: "advanceVolumePhase e backup rc vol st = (res, v1, st')"
    and eq: "Phase vol' = Phase v1"
    and at: "PhaseEnteredAt vol' = PhaseEnteredAt (stampVolumePhaseEntry (he_now e (bw st')) (Phase vol) v1)"
    by (rule advanceVolume_phase)
  have "handled e vol res v1 st' \<and> (within_bound e vol st' \<or>
    (if Phase vol = VolumePhaseSnapshotting then exposure_ready e backup vol st else mover_waiting e backup vol st))"
  proof (cases "Phase vol = VolumePhaseSnapshotting")
    case True
    then have "advanceSnapshotting e backup rc vol st = (res, v1, st')" using v1 by (simp add: advanceVolumePhase_def)
    from advanceSnapshotting_handled [OF this True] True same eq show ?thesis by simp
  next
    case False
    then have up: "Phase vol = VolumePhaseUploading" using live by (simp add: advanceBackstopApplies_def)
    then have "advanceUploading e backup rc vol st = (res, v1, st')" using v1 by (simp add: advanceVolumePhase_def)
    from advanceUploading_handled [OF this up] up same eq show ?thesis by simp
  qed
  moreover have "PhaseEnteredAt vol' \<noteq> None" unfolding at
    using live same eq by (intro stamp_starts_the_clock(1)) simp
  moreover have "PhaseEnteredAt vol' = PhaseEnteredAt vol" if "PhaseEnteredAt vol \<noteq> None"
  proof -
    have "PhaseEnteredAt v1 = PhaseEnteredAt vol" using calculation(1) by (simp add: handled_def)
    then show ?thesis unfolding at using that same eq stamp_starts_the_clock(2) [of v1 "Phase vol"] by auto
  qed
  ultimately show ?thesis by (cases res) (auto simp: handled_def)
qed

text \<open>
  A claim whose exposer cannot be resolved is not retried for ever: the first pass past the
  resolve deadline of its first attempt fails it, with the last reason recorded on it, and reads
  nothing else of the cluster.
\<close>

theorem pending_volume_gives_up:
  assumes "Phase vol = VolumePhasePending \<or> Phase vol = []" and "FirstAttemptAt vol = Some t"
    and "effectivePendingResolveDeadline e < time_sub (he_now e (bw st)) t"
  shows "advanceVolume e backup rc vol st =
    (Inr [], vol\<lparr>Phase := VolumePhaseFailed,
       Reason := (if Reason vol = [] then backupReasonPendingDeadline else Reason vol),
       PhaseEnteredAt := Some (he_now e (bw st))\<rparr>,
     emit (VolumeFailedEvent (Pvc vol) ''ExposeVolume'') st)"
proof -
  have "Phase vol \<noteq> VolumePhaseFailed" using assms(1) by auto
  then show ?thesis using assms
    by (auto simp: advanceVolume_def advanceVolumePhase_def advancePending_def Let_def
        stampVolumePhaseEntry_def clearStaleAdvanceReason_def)
qed

section \<open>Which volume a pass advances\<close>

lemma first_non_terminal_spec:
  "first_non_terminal vs i parked =
     (if \<exists>v \<in> set vs. \<not> terminal_volume v \<and> \<not> volumeIsParked v
      then Some (i + length (takeWhile (\<lambda>v. terminal_volume v \<or> volumeIsParked v) vs))
      else if parked \<noteq> None \<or> (\<forall>v \<in> set vs. terminal_volume v) then parked
      else Some (i + length (takeWhile terminal_volume vs)))"
proof -
  define P where "P v \<longleftrightarrow> terminal_volume v" for v
  show ?thesis unfolding P_def [symmetric]
  proof (induction vs arbitrary: i parked)
    case (Cons v vs)
    have "first_non_terminal (v # vs) i parked =
        (if P v then first_non_terminal vs (Suc i) parked
         else if volumeIsParked v then first_non_terminal vs (Suc i) (if parked = None then Some i else parked)
         else Some i)"
      unfolding P_def by (rule first_non_terminal.simps)
    then show ?case by (cases "P v"; cases "volumeIsParked v"; cases parked) (auto simp: Cons.IH)
  qed simp
qed

text \<open>
  The volume a pass advances is the first one that is neither ended nor parked on its exposer;
  only when every open volume is parked is the first parked one retried, and only when every volume
  has ended is there none. A claim on broken storage never holds back the claims after it.
\<close>

theorem parked_volumes_do_not_block:
  "firstNonTerminalVolume vols =
     (if \<exists>v \<in> set vols. \<not> terminal_volume v \<and> \<not> volumeIsParked v
      then Some (length (takeWhile (\<lambda>v. terminal_volume v \<or> volumeIsParked v) vols))
      else if \<forall>v \<in> set vols. terminal_volume v then None
      else Some (length (takeWhile terminal_volume vols)))"
  using first_non_terminal_spec [of vols 0 None] unfolding firstNonTerminalVolume_def by (simp only: add_0 simp_thms)

text \<open>
  An event of a mover Job finds its way home: the labels a Backup puts on every object it makes
  for a claim lead the watch back to that Backup, also for a Backup of a cluster-wide run whose run
  has another name.
\<close>

theorem job_labels_lead_home:
  assumes "m_Name (b_Meta backup) \<noteq> []" and "m_Namespace (b_Meta backup) \<noteq> []"
  shows "mapJobToBackup (exposureLabels backup pvc) = [(m_Namespace (b_Meta backup), m_Name (b_Meta backup))]"
proof -
  have "map_get (exposureLabels backup pvc) LabelManagedBy = ManagedByValue"
    "map_get (exposureLabels backup pvc) LabelBackup = m_Name (b_Meta backup)"
    "map_get (exposureLabels backup pvc) LabelNamespace = m_Namespace (b_Meta backup)"
    by (simp_all add: exposureLabels_def map_get_def Let_def)
  with assms show ?thesis by (simp add: mapJobToBackup_def ownerBackupNameFromLabels_def)
qed

section \<open>A concrete cluster\<close>

definition demo_volume_env :: "api_error + Job \<Rightarrow> Pod list \<Rightarrow> instant \<Rightarrow> (unit, unit, unit) backup_env" where
  "demo_volume_env job pods now =
     \<lparr>he_libs = demo_libs, he_now = \<lambda>_. now, he_Hooks = None, he_list_pods = \<lambda>_ _. Inr [],
      he_update_status = \<lambda>_ w. (None, w), he_set_condition = \<lambda>c cs. c # cs, he_find_condition = \<lambda>cs t. None,
      he_duration_String = \<lambda>_. [], he_show_api = \<lambda>_. ''api'',
      be_deps = \<lparr>rd_OperatorNamespace = ''ops'', rd_now = \<lambda>_. now, rd_elapsed_String = \<lambda>_. [],
        rd_wait = \<lambda>_ _ w. (None, w), rd_get_secret = \<lambda>_ _ _. Inl NotFound, rd_create_secret = \<lambda>_ w. (None, w),
        rd_delete_secret = \<lambda>_ _ w. (None, w), rd_get_job = \<lambda>_ _ _. job, rd_list_jobs = \<lambda>_ _ _. Inr [],
        rd_create_job = \<lambda>_ w. (None, w), rd_delete_job = \<lambda>_ _ _ w. (None, w), rd_job_pods = \<lambda>_ _. Inr pods\<rparr>,
      be_enqueue = \<lambda>_ w. w, be_MoverStartDeadline = 0, be_PendingResolveDeadline = 0, be_AdvanceRetryDeadline = 0,
      be_get_pvc = \<lambda>_ _ _. Inl NotFound, be_For = \<lambda>_ _. Inr (), be_Precheck = \<lambda>_ _. None,
      be_Expose = \<lambda>_ _ w. (Inl (ExposerFault (ErrorNew ''no'')), w), be_Ready = \<lambda>_ _ w. (Inr False, w),
      be_Progress = \<lambda>_ _ _. None, be_QuiescenceRequired = \<lambda>_. None, be_warning_events = None,
      be_unmarshal_result = \<lambda>_. Inr (zero_result\<lparr>OK := True, mr_SnapshotID := ''abc''\<rparr>)\<rparr>"

definition demo_volume :: "string \<Rightarrow> VolumeStatus" where
  "demo_volume phase = \<lparr>Pvc = ''data'', SnapshotID = [], SizeBytes = 0, AddedBytes = 0, Phase = phase, Node = [],
     Reason = [], FirstAttemptAt = Some 0, PhaseEnteredAt = Some 0\<rparr>"

definition demo_rc :: backupRunContext where
  "demo_rc = \<lparr>rc_scheduleRef = [], rc_run = ''r'', rc_clusterID = ''c'', rc_tenant = ''t'', rc_repoName = ''shop'',
     rc_repoURL = [], rc_dek = [], rc_s3CredsSecret = [], rc_s3Connections = None, rc_credsNamespace = [],
     rc_retention = demo_retention, rc_mode = LocationModeStandard,
     rc_backoffLimit = 3, rc_maxConcurrentMovers = 0\<rparr>"

definition demo_done_job :: Job where
  "demo_done_job = \<lparr>j_Name = ''m'', j_Labels = Map.empty, j_Deleting = False, j_CreationTimestamp = None,
     j_Succeeded = 1, j_Failed = 0, j_Conditions = []\<rparr>"

definition demo_done_pod :: Pod where
  "demo_done_pod = demo_pod\<lparr>pod_Phase := PodSucceeded, pod_ContainerStatuses :=
     [\<lparr>cst_Running = False, cst_Terminated = Some \<lparr>t_ExitCode = 0, t_Reason = [], t_Message = ''m''\<rparr>,
       cst_LastTerminated = None\<rparr>]\<rparr>"

abbreviation demo_up_env :: "(unit, unit, unit) backup_env" where
  "demo_up_env \<equiv> demo_volume_env (Inr demo_done_job) [demo_done_pod] 0"
abbreviation demo_st :: "unit bstate" where "demo_st \<equiv> \<lparr>bw = (), bev = []\<rparr>"

lemma demo_upload:
  "advanceVolume demo_up_env empty_backup demo_rc (demo_volume VolumePhaseUploading) demo_st =
     (Inr ''data'', (demo_volume VolumePhaseCompleted)\<lparr>Node := ''n1'', SnapshotID := ''abc'',
        SizeBytes := mr_SizeBytes zero_result, AddedBytes := mr_AddedBytes zero_result\<rparr>, demo_st)"
proof -
  have "TrimSpace ''m'' \<noteq> []" by code_simp
  then show ?thesis
    by (simp add: advanceVolume_def advanceVolumePhase_def advanceUploading_def demo_volume_env_def demo_done_job_def
      demo_done_pod_def demo_pod_def demo_volume_def finish_upload_def readMoverResult_def parsed_result_def
      ParseMoverResult_def first_termination_def word_sle_eq Let_def stampVolumePhaseEntry_def clearStaleAdvanceReason_def)
qed

theorem volume_pass_refines_the_phase_machine_witness:
  "volume_abs (fst (snd (advanceVolume demo_up_env empty_backup demo_rc (demo_volume VolumePhaseUploading) demo_st)))
     = Some (Taken ''abc'')"
proof -
  have "volume_abs (demo_volume VolumePhaseUploading) = Some Moving" by (simp add: volume_abs_def demo_volume_def)
  from volume_pass_refines_the_phase_machine [OF this demo_upload] show ?thesis
    unfolding demo_upload by (simp add: volume_abs_def demo_volume_def)
qed

theorem completed_only_by_a_mover_result_witness:
  "\<exists>result :: MoverResult. SnapshotID (fst (snd (advanceVolume demo_up_env empty_backup demo_rc (demo_volume VolumePhaseUploading) demo_st)))
     = mr_SnapshotID result \<and> OK result"
proof -
  have "Phase (demo_volume VolumePhaseUploading) \<noteq> VolumePhaseCompleted" by (simp add: demo_volume_def)
  moreover have "Phase ((demo_volume VolumePhaseCompleted)\<lparr>Node := ''n1'', SnapshotID := ''abc'',
      SizeBytes := mr_SizeBytes zero_result, AddedBytes := mr_AddedBytes zero_result\<rparr>) = VolumePhaseCompleted"
    by (simp add: demo_volume_def)
  ultimately show ?thesis using completed_only_by_a_mover_result [OF demo_upload]
    unfolding demo_upload fst_conv snd_conv by blast
qed

abbreviation demo_lost_env :: "instant \<Rightarrow> (unit, unit, unit) backup_env" where
  "demo_lost_env now \<equiv> demo_volume_env (Inl NotFound) [] now"

lemma demo_lost:
  "advanceVolume (demo_lost_env (hours 1)) empty_backup demo_rc (demo_volume VolumePhaseUploading) demo_st =
     (Inr [], demo_volume VolumePhaseUploading, demo_st)"
  by (simp add: advanceVolume_def advanceVolumePhase_def advanceUploading_def demo_volume_env_def demo_volume_def
      backstop_or_def failVolumeOnAdvanceBackstop_def effectiveAdvanceRetryDeadline_def advanceRetryDeadline_def
      time_sub_def min_duration_def max_duration_def stampVolumePhaseEntry_def clearStaleAdvanceReason_def Let_def)

theorem stuck_volume_gives_up_witness:
  "within_bound (demo_lost_env (hours 1)) (demo_volume VolumePhaseUploading) demo_st"
proof -
  have "advanceBackstopApplies (Phase (demo_volume VolumePhaseUploading))"
    by (simp add: advanceBackstopApplies_def demo_volume_def)
  from stuck_volume_gives_up [OF demo_lost this refl] show ?thesis
    by (simp add: mover_waiting_def demo_volume_env_def demo_volume_def)
qed

theorem pending_volume_gives_up_witness:
  "Phase (fst (snd (advanceVolume (demo_lost_env (hours 100)) empty_backup demo_rc (demo_volume VolumePhasePending) demo_st)))
     = VolumePhaseFailed"
proof -
  have "FirstAttemptAt (demo_volume VolumePhasePending) = Some 0" by (simp add: demo_volume_def)
  moreover have "effectivePendingResolveDeadline (demo_lost_env (hours 100)) < time_sub (he_now (demo_lost_env (hours 100)) (bw demo_st)) 0"
    by (simp add: effectivePendingResolveDeadline_def demo_volume_env_def pendingResolveDeadline_def time_sub_def min_duration_def max_duration_def)
  moreover have "Phase (demo_volume VolumePhasePending) = VolumePhasePending" by (simp add: demo_volume_def)
  ultimately show ?thesis using pending_volume_gives_up [of "demo_volume VolumePhasePending" 0 "demo_lost_env (hours 100)" demo_st]
    by simp
qed

theorem parked_volumes_do_not_block_witness:
  "firstNonTerminalVolume [(demo_volume VolumePhasePending)\<lparr>Reason := ''ExposerUnresolvable: x''\<rparr>,
     demo_volume VolumePhaseCompleted, demo_volume VolumePhaseUploading] = Some 2"
  unfolding parked_volumes_do_not_block by (simp add: demo_volume_def volumeIsParked_def HasPrefix_def)

theorem job_labels_lead_home_witness:
  "mapJobToBackup (exposureLabels empty_backup ''data'') = [(''shop'', ''n-1'')]"
  using job_labels_lead_home [of empty_backup "''data''"] by (simp add: empty_backup_def)

end
