(* ===== verification/Backup_Safety.thy ===== *)
theory Backup_Safety
  imports Backup_Controller Freeze_Window_Safety Volume_Safety
begin

text \<open>
  What a reconcile pass of a Backup promises. A pass moves at most one volume and that one along the
  abstract machine of \<open>Volume_Safety\<close>; a run is reported ended only when its volumes, its manifests
  and its freeze window all have a verdict, or when its quiesce failed; an exposure is torn down only after the
  status with the verdict on its volume was written; the cleaned marker and the finalizer move only once every exposure is gone.
\<close>

section \<open>What the parts of a pass leave alone\<close>

lemma openFreezeWindow_volumes:
  assumes "openFreezeWindow e b hst spec st = (x, b', st')"
  shows "b_volumes b' = b_volumes b"
proof -
  have abort: "b_volumes b2 = b_volumes b" if "abortFreezeWindow e b hst spec st = (y, b2, st2)" for y b2 st2
  proof -
    obtain owed rerr b1 st1 where r: "releaseAbortedQuiesce e b spec st = ((owed, rerr), b1, st1)" by (metis prod_cases3 surj_pair)
    have "b_volumes b2 = b_volumes b1"
      using that failHooks_fields(3) [of e "abortMessage hst" b1 st1]
      by (auto simp: abortFreezeWindow_def r Let_def split: prod.splits option.splits if_splits)
    then show ?thesis using releaseAbortedQuiesce_fields(1) [OF r] by simp
  qed
  have pre: "b_volumes b2 = b_volumes b" if "advancePreHooks e b spec vols st = (y, b2, st2)" for vols y b2 st2
    using that by (auto simp: advancePreHooks_def recordHookResults_eq dest: recordConsistencyVerdict_fields(3)
        split: sum.splits list.splits option.splits prod.splits)
  obtain y b1 st1 where p: "advancePreHooks e b spec (b_volumes b) st = (y, b1, st1)" by (metis prod_cases3)
  consider "aborted hst" | "b' = b" | m where "\<exists>r. failHooks e m b1 st1 = (r, b', st')" | "b_volumes b' = b_volumes b1"
    using assms p by (auto simp: openFreezeWindow_def Let_def split: if_splits prod.splits sum.splits bool.splits option.splits)
  then show ?thesis
  proof cases
    case 1
    obtain z b2 st2 where z: "abortFreezeWindow e b hst spec st = (z, b2, st2)" by (metis prod_cases3)
    with 1 assms have "b' = b2" by (simp add: openFreezeWindow_def split: prod.splits)
    then show ?thesis using abort [OF z] by simp
  qed (use pre [OF p] in \<open>auto dest!: failHooks_fields(3)\<close>)
qed

lemma advancePostHooks_frame:
  assumes "advancePostHooks e b spec vols owedTo st = (r, b', st')"
  shows "bs_Manifests (b_Status b') = bs_Manifests (b_Status b) \<and> bs_Conditions (b_Status b') = bs_Conditions (b_Status b)"
  using assms
  by (auto simp: advancePostHooks_def recordUnresolvedRelease_def Let_def recordHookResults_eq
      split: sum.splits list.splits option.splits prod.splits if_splits)

lemma closeFreezeWindow_frame:
  assumes "closeFreezeWindow e b spec st = (x, b', st')"
  shows "b_volumes b' = b_volumes b \<and> b_Meta b' = b_Meta b \<and> bs_Manifests (b_Status b') = bs_Manifests (b_Status b) \<and>
    bs_Conditions (b_Status b') = bs_Conditions (b_Status b)"
proof -
  obtain r b1 st1 where a: "advancePostHooks e b spec (b_volumes b) None st = (r, b1, st1)" by (metis prod_cases3)
  then have "b' = b \<or> b' = b1"
    using assms by (auto simp: closeFreezeWindow_def split: if_splits sum.splits bool.splits)
  then show ?thesis using advancePostHooks_fields(1,2) [OF a] advancePostHooks_frame [OF a] by auto
qed

abbreviation b_phase :: "Backup \<Rightarrow> string" where "b_phase b \<equiv> bs_Phase (b_Status b)"

lemma advancePostHooks_phase:
  "advancePostHooks e b spec vols owedTo st = (r, b', st') \<Longrightarrow> b_phase b' = b_phase b"
  by (auto simp: advancePostHooks_def recordUnresolvedRelease_def Let_def recordHookResults_eq
      split: sum.splits list.splits option.splits prod.splits if_splits)

lemma releaseAbortedQuiesce_phase:
  assumes "releaseAbortedQuiesce e b spec st = (x, b', st')"
  shows "b_phase b' = b_phase b"
proof -
  obtain r b1 st1 where a: "advancePostHooks e b spec (b_volumes b) (Some (quiescedPodsFromStatus b)) st = (r, b1, st1)"
    by (metis prod_cases3)
  then have "b' = b \<or> b' = b1"
    using assms by (auto simp: releaseAbortedQuiesce_def Let_def split: if_splits sum.splits bool.splits)
  then show ?thesis using advancePostHooks_phase [OF a] by auto
qed

lemma abortFreezeWindow_phase:
  assumes "abortFreezeWindow e b hst spec st = (x, b', st')"
  shows "b_phase b' \<in> {b_phase b, BackupPhaseFailed}"
proof -
  obtain owed rerr b1 st1 where r: "releaseAbortedQuiesce e b spec st = ((owed, rerr), b1, st1)" by (metis prod_cases3 surj_pair)
  have "b_phase b' = b_phase b1 \<or> b_phase b' = BackupPhaseFailed"
    using assms failHooks_fields(4) [of e "abortMessage hst" b1 st1]
    by (auto simp: abortFreezeWindow_def r Let_def split: prod.splits option.splits if_splits)
  then show ?thesis using releaseAbortedQuiesce_phase [OF r] by auto
qed

lemma recordConsistencyVerdict_phase: "recordConsistencyVerdict e rs b st = (b', st') \<Longrightarrow> b_phase b' = b_phase b"
  by (auto simp: recordConsistencyVerdict_def Let_def split: option.splits if_splits)

lemma advancePreHooks_phase: "advancePreHooks e b spec vols st = (y, b', st') \<Longrightarrow> b_phase b' = b_phase b"
  by (auto simp: advancePreHooks_def recordHookResults_eq dest!: recordConsistencyVerdict_phase
      split: sum.splits list.splits option.splits prod.splits)

lemma openFreezeWindow_phase:
  assumes "openFreezeWindow e b hst spec st = (x, b', st')"
  shows "b_phase b' \<in> {b_phase b, BackupPhaseFailed, BackupPhaseSnapshottingHooks}"
proof -
  obtain y b1 st1 where p: "advancePreHooks e b spec (b_volumes b) st = (y, b1, st1)" by (metis prod_cases3)
  consider "aborted hst" | "b' = b" | m where "\<exists>r. failHooks e m b1 st1 = (r, b', st')" | "b' = b1"
    | "b_phase b' = BackupPhaseSnapshottingHooks"
    using assms p by (auto simp: openFreezeWindow_def Let_def split: if_splits prod.splits sum.splits bool.splits option.splits)
  then show ?thesis
  proof cases
    case 1
    obtain z b2 st2 where z: "abortFreezeWindow e b hst spec st = (z, b2, st2)" by (metis prod_cases3)
    with 1 assms have "b' = b2" by (simp add: openFreezeWindow_def split: prod.splits)
    then show ?thesis using abortFreezeWindow_phase [OF z] by auto
  qed (use advancePreHooks_phase [OF p] in \<open>auto dest!: failHooks_fields(4)\<close>)
qed

text \<open>
  The release after the snapshots is settled for a Backup in a world when the release hooks have run or
  were given up, when nothing can run them, or when in that world no pod has one to run.
\<close>

definition release_settled :: "('w, 'expr, 'z) hook_env_scheme \<Rightarrow> 'expr HooksSpec \<Rightarrow> Backup \<Rightarrow> 'w \<Rightarrow> bool" where
  "release_settled e spec b w \<longleftrightarrow> postHooksRan b \<or> he_Hooks e = None \<or> resolveHooks e b spec (b_volumes b) PhasePost w = Inr []"

lemma closeFreezeWindow_settles:
  assumes s: "closeFreezeWindow e b spec st = ((False, err), b', st')"
  shows "release_settled e spec b' (bw st)"
proof -
  obtain r b1 st1 where a: "advancePostHooks e b spec (b_volumes b) None st = (r, b1, st1)" by (metis prod_cases3)
  consider "postHooksRan b" "b' = b" | "\<not> hookPhaseDeclared spec PhasePost" | "r = Inr False" "b' = b1" | "postHooksRan b'"
    using s a by (auto simp: closeFreezeWindow_def hookPhaseDeclared_def split: if_splits sum.splits bool.splits)
  then show ?thesis
  proof cases
    case 3
    then have b: "b' = b" using advancePostHooks_fields(4) [OF a] by simp
    have "he_Hooks e = None \<or> resolveHooks e b spec (b_volumes b) PhasePost (bw st) = Inr []"
      using a 3(1) by (auto simp: advancePostHooks_def Let_def restrictToPods_eq split: sum.splits list.splits option.splits prod.splits if_splits)
    then show ?thesis unfolding release_settled_def b by blast
  qed (simp_all add: release_settled_def resolveHooks_def)
qed

section \<open>The status a pass writes\<close>

lemma rollup_terminal: "isTerminalBackupPhase (RollUpVolumePhases vs) \<longleftrightarrow> (\<forall>v \<in> set vs. \<not> in_progress v)"
proof -
  have "v \<in> set vs \<Longrightarrow> Phase v = VolumePhaseUploading \<or> Phase v = VolumePhaseSnapshotting \<Longrightarrow> in_progress v" for v
    by (auto simp: in_progress_def)
  then show ?thesis unfolding RollUpVolumePhases_eq isTerminalBackupPhase_def by (simp split: if_splits) blast
qed

lemma status_to_write_frame [simp]:
  "b_volumes (status_to_write e now d ow b) = b_volumes b" "b_Meta (status_to_write e now d ow b) = b_Meta b"
  "bs_Manifests (b_Status (status_to_write e now d ow b)) = bs_Manifests (b_Status b)"
  "b_hooks (status_to_write e now d ow b) = b_hooks b" "b_attempts (status_to_write e now d ow b) = b_attempts b"
  by (simp_all add: status_to_write_def setTerminalCondition_def setCompletionTime_def Let_def)

lemma status_to_write_phase:
  "isTerminalBackupPhase (bs_Phase (b_Status (status_to_write e now d ow b))) \<longleftrightarrow>
     d \<and> \<not> ow \<and> (\<forall>v \<in> set (b_volumes b). \<not> in_progress v)"
proof -
  have u: "\<not> isTerminalBackupPhase BackupPhaseUploading" by (simp add: isTerminalBackupPhase_def)
  have "bs_Phase (b_Status (status_to_write e now d ow b)) =
      (if isTerminalBackupPhase (RollUpVolumePhases (b_volumes b)) \<and> (\<not> d \<or> ow) then BackupPhaseUploading
       else RollUpVolumePhases (b_volumes b))"
    by (simp add: status_to_write_def setTerminalCondition_def setCompletionTime_def Let_def)
  then show ?thesis using u by (auto simp: rollup_terminal)
qed

lemma release_settled_status: "release_settled e spec (status_to_write e now d ow b) w = release_settled e spec b w"
proof -
  have "resolveHooks e (status_to_write e now d ow b) spec vs p w = resolveHooks e b spec vs p w" for vs p w
    unfolding resolveHooks_def status_to_write_frame ..
  then show ?thesis by (simp add: release_settled_def postHooksRan_def)
qed

lemma set_cond_conditions:
  "\<exists>c. cond_Type c = t \<and> bs_Conditions (b_Status (set_cond e t s r m b)) = he_set_condition e c (bs_Conditions (b_Status b))"
  by (rule exI [of _ "\<lparr>cond_Type = t, cond_Status = s, cond_Reason = r, cond_Message = m,
      cond_ObservedGeneration = m_Generation (b_Meta b), cond_LastTransitionTime = - seconds 62135596800\<rparr>"])
    (simp add: set_cond_def SetCondition_def)

lemma setTerminalCondition_conditions:
  "\<exists>c. cond_Type c = ConditionReady \<and>
     bs_Conditions (b_Status (setTerminalCondition e p b)) = he_set_condition e c (bs_Conditions (b_Status b))"
  unfolding setTerminalCondition_def by (split if_split | rule conjI impI set_cond_conditions)+

lemma status_to_write_conditions:
  "\<exists>c. cond_Type c = ConditionReady \<and>
     bs_Conditions (b_Status (status_to_write e now d ow b)) = he_set_condition e c (bs_Conditions (b_Status b))"
proof -
  define p where "p = (if isTerminalBackupPhase (RollUpVolumePhases (b_volumes b)) \<and> (\<not> d \<or> ow) then BackupPhaseUploading
    else RollUpVolumePhases (b_volumes b))"
  define b1 where "b1 = b\<lparr>b_Status := (b_Status b)\<lparr>bs_Phase := p\<rparr>\<rparr>"
  define b2 where "b2 = setCompletionTime now
    (if bs_BackupTime (b_Status b1) = None then b1\<lparr>b_Status := (b_Status b1)\<lparr>bs_BackupTime := Some now\<rparr>\<rparr> else b1)"
  have eq: "status_to_write e now d ow b = (if isTerminalBackupPhase p then setTerminalCondition e p b2
      else set_cond e ConditionReady ConditionFalse ''InProgress'' (''backup is in progress ('' @ p @ '')'') b1)"
    by (simp only: status_to_write_def Let_def p_def b1_def b2_def)
  have c: "bs_Conditions (b_Status b1) = bs_Conditions (b_Status b)" "bs_Conditions (b_Status b2) = bs_Conditions (b_Status b)"
    by (simp_all add: b1_def b2_def setCompletionTime_def)
  show ?thesis
  proof (cases "isTerminalBackupPhase p")
    case True
    from setTerminalCondition_conditions [of e p b2] show ?thesis unfolding eq if_P [OF True] c .
  next
    case False
    show ?thesis unfolding eq if_not_P [OF False] c(1) [symmetric] by (rule set_cond_conditions)
  qed
qed

section \<open>One pass\<close>

text \<open>
  What the API machinery documents of its condition helpers, as far as reasons go: the condition
  set is found under its type, every other type is found as before.
\<close>

definition reason_of :: "('w, 'expr, 'z) hook_env_scheme \<Rightarrow> Backup \<Rightarrow> string \<Rightarrow> string option" where
  "reason_of e b t = map_option cond_Reason (he_find_condition e (bs_Conditions (b_Status b)) t)"

definition conditions_by_type :: "('w, 'expr, 'z) hook_env_scheme \<Rightarrow> bool" where
  "conditions_by_type e \<longleftrightarrow> (\<forall>c cs t. map_option cond_Reason (he_find_condition e (he_set_condition e c cs) t) =
     (if cond_Type c = t then Some (cond_Reason c) else map_option cond_Reason (he_find_condition e cs t)))"

lemma reason_of_set_cond:
  "conditions_by_type e \<Longrightarrow> reason_of e (set_cond e t s r m b) t' = (if t = t' then Some r else reason_of e b t')"
  unfolding conditions_by_type_def reason_of_def set_cond_def SetCondition_def by simp

definition manifests_settled :: "('w, 'expr, 'z) hook_env_scheme \<Rightarrow> Backup \<Rightarrow> bool" where
  "manifests_settled e b \<longleftrightarrow> bs_Manifests (b_Status b) \<noteq> None \<or> reason_of e b ConditionManifestsComplete = Some reasonManifestsFailed"

lemma advanceManifests_volumes:
  assumes "advanceManifests e b rc inc excl w = (x, b', w')"
  shows "b_volumes b' = b_volumes b \<and> b_Meta b' = b_Meta b"
  using assms unfolding advanceManifests_def Let_def
  by (auto simp: recordManifestsFailure_def record_manifests_def Let_def split: if_splits sum.splits prod.splits option.splits)

lemma advanceManifests_settles:
  assumes "conditions_by_type e" and s: "advanceManifests e b rc inc excl w = ((d, stem, err), b', w')"
  shows "d \<Longrightarrow> inc \<Longrightarrow> manifests_settled e b'" and "stem \<noteq> [] \<Longrightarrow> d \<and> inc"
proof -
  have f: "manifests_settled e (recordManifestsFailure e r b)" for r
    unfolding manifests_settled_def recordManifestsFailure_def reason_of_set_cond [OF assms(1)] by simp
  have c: "manifests_settled e (record_manifests e r b)" for r
    by (simp add: manifests_settled_def record_manifests_def Let_def)
  have o: "manifests_settled e b" if "bs_Manifests (b_Status b) \<noteq> None \<or>
      (case he_find_condition e (bs_Conditions (b_Status b)) ConditionManifestsComplete of
         None \<Rightarrow> False | Some c \<Rightarrow> cond_Reason c = reasonManifestsFailed)"
    using that by (auto simp: manifests_settled_def reason_of_def split: option.splits)
  show "d \<Longrightarrow> inc \<Longrightarrow> manifests_settled e b'" and "stem \<noteq> [] \<Longrightarrow> d \<and> inc"
    using s o f c unfolding advanceManifests_def Let_def
    by (auto split: if_splits sum.splits prod.splits option.splits)
qed

definition persisted :: "('w, 'expr, 'ex, 'identity, 'z) ctl_env_scheme \<Rightarrow> Backup \<Rightarrow> api_error option \<Rightarrow> 'w \<Rightarrow> bool" where
  "persisted e b r w \<longleftrightarrow> r = None \<or> (\<exists>get fresh. ce_get_fresh e = Some get \<and> get (b_ns b) (b_name b) w = Inr fresh \<and>
     bs_Phase (b_Status fresh) = bs_Phase (b_Status b) \<and> isTerminalBackupPhase (bs_Phase (b_Status b)) \<and> r \<noteq> Some Conflict)"

lemma terminalPhaseCommitted_persisted:
  "terminalPhaseCommitted e b (Wrap m (APIError err)) w \<longleftrightarrow> persisted e b (Some err) w"
  by (auto simp: terminalPhaseCommitted_def persisted_def split: option.splits if_splits sum.splits)

lemma run_pass_cases:
  assumes "run_pass e run rc b st = (ans, b', st')"
  obtains pvc b1 st1 d stem merr b2 w2 owed rerr b3 st3 r w where
    "advance_one e rc b st = (pvc, b1, st1)"
    "advanceManifests e b1 rc (includeManifests run) (brs_ExcludeSecretData run) (bw st1) = ((d, stem, merr), b2, w2)"
    "closeFreezeWindow e b2 (brs_Hooks run) (st1\<lparr>bw := w2\<rparr>) = ((owed, rerr), b3, st3)"
    "b' = status_to_write e (he_now e (bw st3)) d owed b3"
    "he_update_status e b' (bw st3) = (r, w)"
    "st' = (if persisted e b' r w then after_write e rc b' pvc stem (st3\<lparr>bw := w\<rparr>) else st3\<lparr>bw := w\<rparr>)"
proof -
  obtain pvc b1 st1 where 1: "advance_one e rc b st = (pvc, b1, st1)" by (metis prod_cases3)
  obtain d stem merr b2 w2 where
    2: "advanceManifests e b1 rc (includeManifests run) (brs_ExcludeSecretData run) (bw st1) = ((d, stem, merr), b2, w2)"
    by (metis prod_cases3)
  obtain owed rerr b3 st3 where 3: "closeFreezeWindow e b2 (brs_Hooks run) (st1\<lparr>bw := w2\<rparr>) = ((owed, rerr), b3, st3)"
    by (metis prod_cases3 surj_pair)
  define bb where "bb = status_to_write e (he_now e (bw st3)) d owed b3"
  obtain r w where 4: "he_update_status e bb (bw st3) = (r, w)" by (metis surj_pair)
  have "b' = bb \<and> st' = (if persisted e bb r w then after_write e rc bb pvc stem (st3\<lparr>bw := w\<rparr>) else st3\<lparr>bw := w\<rparr>)"
  proof (cases r)
    case None
    then show ?thesis using assms 1 2 3 4
      by (auto simp: run_pass_def writeStatus_def bb_def [symmetric] persisted_def Let_def split: option.splits)
  next
    case (Some err)
    let ?we = "Wrap (''update status for Backup '' @ b_key bb) (APIError err)"
    have "run_pass e run rc b st =
        (if \<not> terminalPhaseCommitted e bb ?we w then ((NoRequeue, Some ?we), bb, st3\<lparr>bw := w\<rparr>)
         else (case errors_Join [merr, rerr] of
             Some deferred \<Rightarrow> ((NoRequeue, Some deferred), bb, after_write e rc bb pvc stem (st3\<lparr>bw := w\<rparr>))
           | None \<Rightarrow> ((if \<not> d \<and> NoRequeue = NoRequeue then RequeueAfter backupPollInterval else NoRequeue, None), bb,
               after_write e rc bb pvc stem (st3\<lparr>bw := w\<rparr>))))"
      using 1 2 3 4 Some by (simp add: run_pass_def writeStatus_def bb_def [symmetric] Let_def)
    then show ?thesis using assms Some unfolding terminalPhaseCommitted_persisted
      by (auto split: if_splits option.splits)
  qed
  then show ?thesis using that [OF 1 2 3] 4 by (auto simp: bb_def)
qed

text \<open>The world in which a pass gets to the window: its volume and its manifests have been advanced.\<close>

definition window_world ::
  "('w, 'expr, 'ex, 'identity, 'z) ctl_env_scheme \<Rightarrow> 'expr BackupRunSpec \<Rightarrow> backupRunContext \<Rightarrow> Backup \<Rightarrow> 'w bstate \<Rightarrow> 'w" where
  "window_world e run rc b st = (case advance_one e rc b st of (pvc, b1, st1) \<Rightarrow>
     snd (snd (advanceManifests e b1 rc (includeManifests run) (brs_ExcludeSecretData run) (bw st1))))"

lemma run_pass_terminal:
  assumes law: "conditions_by_type e" and p: "run_pass e run rc b st = (ans, b', st')" and t: "isTerminalBackupPhase (b_phase b')"
  shows "\<forall>v \<in> set (b_volumes b'). \<not> in_progress v" and "includeManifests run \<longrightarrow> manifests_settled e b'"
    and "release_settled e (brs_Hooks run) b' (window_world e run rc b st)"
proof -
  from p obtain pvc b1 st1 d stem merr b2 w2 owed rerr b3 st3 where
    1: "advance_one e rc b st = (pvc, b1, st1)" and
    2: "advanceManifests e b1 rc (includeManifests run) (brs_ExcludeSecretData run) (bw st1) = ((d, stem, merr), b2, w2)" and
    3: "closeFreezeWindow e b2 (brs_Hooks run) (st1\<lparr>bw := w2\<rparr>) = ((owed, rerr), b3, st3)" and
    b': "b' = status_to_write e (he_now e (bw st3)) d owed b3" by (rule run_pass_cases)
  note fr = closeFreezeWindow_frame [OF 3]
  obtain c where "cond_Type c = ConditionReady" "bs_Conditions (b_Status b') = he_set_condition e c (bs_Conditions (b_Status b3))"
    unfolding b' using status_to_write_conditions by blast
  then have r: "reason_of e b' ConditionManifestsComplete = reason_of e b2 ConditionManifestsComplete"
    using law fr by (simp add: reason_of_def conditions_by_type_def)
  from t have t': "d" "\<not> owed" "\<forall>v \<in> set (b_volumes b'). \<not> in_progress v"
    unfolding b' by (simp_all add: status_to_write_phase)
  show "\<forall>v \<in> set (b_volumes b'). \<not> in_progress v" by (rule t'(3))
  show "includeManifests run \<longrightarrow> manifests_settled e b'"
    using advanceManifests_settles(1) [OF law 2 t'(1)] fr r unfolding manifests_settled_def b' by simp
  have "window_world e run rc b st = w2" by (simp add: window_world_def 1 2)
  moreover from 3 t'(2) have "closeFreezeWindow e b2 (brs_Hooks run) (st1\<lparr>bw := w2\<rparr>) = ((False, rerr), b3, st3)" by simp
  from closeFreezeWindow_settles [OF this] have "release_settled e (brs_Hooks run) b3 w2" by simp
  ultimately show "release_settled e (brs_Hooks run) b' (window_world e run rc b st)" unfolding b' by (simp add: release_settled_status)
qed

text \<open>A run for which all of that already holds is reported ended by its next pass, whatever the cluster answers.\<close>

lemma ended_run_is_reported:
  assumes p: "run_pass e run rc b st = (ans, b', st')" and v: "\<forall>v \<in> set (b_volumes b). \<not> in_progress v"
    and ms: "manifests_settled e b" and ran: "postHooksRan b"
  shows "isTerminalBackupPhase (b_phase b')"
proof -
  from p obtain pvc b1 st1 d stem merr b2 w2 owed rerr b3 st3 where
    1: "advance_one e rc b st = (pvc, b1, st1)" and
    2: "advanceManifests e b1 rc (includeManifests run) (brs_ExcludeSecretData run) (bw st1) = ((d, stem, merr), b2, w2)" and
    3: "closeFreezeWindow e b2 (brs_Hooks run) (st1\<lparr>bw := w2\<rparr>) = ((owed, rerr), b3, st3)" and
    b': "b' = status_to_write e (he_now e (bw st3)) d owed b3" by (rule run_pass_cases)
  have b1: "b1 = b"
  proof (cases "firstNonTerminalVolume (b_volumes b)")
    case None
    then show ?thesis using 1 by (simp add: advance_one_def)
  next
    case (Some i)
    show ?thesis
    proof (cases "i < length (b_volumes b)")
      case True
      then have "Phase (b_volumes b ! i) \<notin> {VolumePhasePending, [], VolumePhaseSnapshotting, VolumePhaseUploading}"
        using v by (auto simp: in_progress_def)
      then show ?thesis using 1 Some by (simp add: advance_one_def advanceVolume_at_rest put_volume_def)
    next
      case False
      then have "put_volume i x b = b" for x by (simp add: put_volume_def list_update_beyond)
      then show ?thesis using 1 Some by (auto simp: advance_one_def split: prod.splits sum.splits)
    qed
  qed
  have "d \<and> b2 = b" using 2 ms unfolding b1 advanceManifests_def manifests_settled_def reason_of_def
    by (auto split: if_splits)
  moreover from this have "\<not> owed \<and> b3 = b" using 3 ran by (simp add: closeFreezeWindow_def)
  ultimately show ?thesis using v unfolding b' by (simp add: status_to_write_phase)
qed

lemma failHooks_reason:
  assumes "conditions_by_type e" and "failHooks e m b st = (r, b', st')"
  shows "reason_of e b' ConditionReady = Some ''PreHookFailed''"
proof -
  have "\<exists>b0. b' = set_cond e ConditionReady ConditionFalse ''PreHookFailed'' m b0"
    using assms(2) unfolding failHooks_def Let_def by (auto split: prod.splits option.splits)
  then show ?thesis using reason_of_set_cond [OF assms(1)] by auto
qed

text \<open>A window that stops the pass with the Backup ended says that the quiesce failed.\<close>

lemma openFreezeWindow_verdict:
  assumes law: "conditions_by_type e" and o: "openFreezeWindow e b hst spec st = ((res, stop, err), b', st')"
    and live: "\<not> isTerminalBackupPhase (b_phase b)" and t: "isTerminalBackupPhase (b_phase b')"
  shows "stop \<and> b_phase b' = BackupPhaseFailed \<and> reason_of e b' ConditionReady = Some ''PreHookFailed''"
proof -
  have f: "\<not> isTerminalBackupPhase BackupPhaseSnapshottingHooks" by (simp add: isTerminalBackupPhase_def)
  obtain y b1 st1 where p: "advancePreHooks e b spec (b_volumes b) st = (y, b1, st1)" by (metis prod_cases3)
  obtain owed rerr b2 st2 where r: "releaseAbortedQuiesce e b spec st = ((owed, rerr), b2, st2)" by (metis prod_cases3 surj_pair)
  have "b_phase b' = b_phase b \<or> b_phase b' = b_phase b1 \<or> b_phase b' = b_phase b2 \<or> b_phase b' = BackupPhaseSnapshottingHooks \<or>
      stop \<and> (\<exists>m b0 st0 x st'. failHooks e m b0 st0 = (x, b', st'))"
    using o p r unfolding openFreezeWindow_def abortFreezeWindow_def Let_def
    by (auto split: if_splits prod.splits sum.splits bool.splits option.splits)
  then show ?thesis
    using live t f advancePreHooks_phase [OF p] releaseAbortedQuiesce_phase [OF r] failHooks_reason [OF law] failHooks_fields(4) by metis
qed

section \<open>What a pass cannot see of the teardown\<close>

text \<open>
  Everything a pass does up to its status write leaves the exposer's teardown alone: under another
  teardown it computes the same. The write itself and the judgement of its answer do too.
\<close>

abbreviation with_teardown ::
  "('w, 'expr, 'ex, 'identity, 'z) ctl_env_scheme \<Rightarrow> (string \<Rightarrow> string \<Rightarrow> string_map \<Rightarrow> 'w \<Rightarrow> go_error option \<times> 'w)
   \<Rightarrow> ('w, 'expr, 'ex, 'identity, 'z) ctl_env_scheme" where
  "with_teardown e T \<equiv> e\<lparr>ce_TeardownExposure := T\<rparr>"

lemma teardown_fields:
  "he_libs (with_teardown e T) = he_libs e" "he_now (with_teardown e T) = he_now e" "he_Hooks (with_teardown e T) = he_Hooks e"
  "he_list_pods (with_teardown e T) = he_list_pods e" "he_update_status (with_teardown e T) = he_update_status e"
  "he_set_condition (with_teardown e T) = he_set_condition e" "he_find_condition (with_teardown e T) = he_find_condition e"
  "he_duration_String (with_teardown e T) = he_duration_String e" "he_show_api (with_teardown e T) = he_show_api e"
  "be_deps (with_teardown e T) = be_deps e" "be_enqueue (with_teardown e T) = be_enqueue e"
  "be_MoverStartDeadline (with_teardown e T) = be_MoverStartDeadline e"
  "be_PendingResolveDeadline (with_teardown e T) = be_PendingResolveDeadline e"
  "be_AdvanceRetryDeadline (with_teardown e T) = be_AdvanceRetryDeadline e" "be_get_pvc (with_teardown e T) = be_get_pvc e"
  "be_For (with_teardown e T) = be_For e" "be_Precheck (with_teardown e T) = be_Precheck e"
  "be_Expose (with_teardown e T) = be_Expose e" "be_Ready (with_teardown e T) = be_Ready e"
  "be_Progress (with_teardown e T) = be_Progress e" "be_QuiescenceRequired (with_teardown e T) = be_QuiescenceRequired e"
  "be_warning_events (with_teardown e T) = be_warning_events e" "be_unmarshal_result (with_teardown e T) = be_unmarshal_result e"
  "me_ManifestReaderClusterRole (with_teardown e T) = me_ManifestReaderClusterRole e"
  "me_ManifestMoverServiceAccount (with_teardown e T) = me_ManifestMoverServiceAccount e"
  "me_create_binding (with_teardown e T) = me_create_binding e" "me_delete_binding (with_teardown e T) = me_delete_binding e"
  "me_Quote (with_teardown e T) = me_Quote e" "ce_get_fresh (with_teardown e T) = ce_get_fresh e"
  by simp_all

lemma latestWarningEvent_teardown: "latestWarningEvent (with_teardown e T) ns n w = latestWarningEvent e ns n w"
  unfolding latestWarningEvent_def teardown_fields ..

lemma stalledMoverDetail_teardown: "stalledMoverDetail (with_teardown e T) pods job w = stalledMoverDetail e pods job w"
  by (induction pods) (simp_all add: latestWarningEvent_teardown Let_def)

lemma recordAdvanceFailure_teardown: "recordAdvanceFailure (with_teardown e T) err v = recordAdvanceFailure e err v"
  unfolding recordAdvanceFailure_def parkVolume_def teardown_fields ..

lemma backstop_or_teardown: "backstop_or (with_teardown e T) cause x v st = backstop_or e cause x v st"
  unfolding backstop_or_def failVolumeOnAdvanceBackstop_def effectiveAdvanceRetryDeadline_def teardown_fields ..

lemma start_mover_teardown: "start_mover (with_teardown e T) b rc x v st = start_mover e b rc x v st"
  unfolding start_mover_def mover_job_request_def slot_error_def deleteMoverJobAndSecret_def backstop_or_teardown teardown_fields ..

lemma advanceSnapshotting_teardown: "advanceSnapshotting (with_teardown e T) b rc v st = advanceSnapshotting e b rc v st"
  unfolding advanceSnapshotting_def reconstructExposure_def snapshotDeadlineExceeded_def start_mover_teardown backstop_or_teardown
    recordAdvanceFailure_teardown latestWarningEvent_teardown teardown_fields ..

lemma advanceUploading_teardown: "advanceUploading (with_teardown e T) b rc v st = advanceUploading e b rc v st"
  unfolding advanceUploading_def moverStalled_def finish_upload_def enqueueStaleLockUnlock_def effectiveMoverStartDeadline_def
    stalledMoverDetail_teardown backstop_or_teardown teardown_fields ..

lemma advancePending_teardown: "advancePending (with_teardown e T) b v st = advancePending e b v st"
  unfolding advancePending_def pending_attempt_def effectivePendingResolveDeadline_def parkVolume_def teardown_fields ..

lemma advance_one_teardown: "advance_one (with_teardown e T) rc b st = advance_one e rc b st"
  unfolding advance_one_def advanceVolume_def advanceVolumePhase_def advancePending_teardown advanceSnapshotting_teardown
    advanceUploading_teardown recordAdvanceFailure_teardown teardown_fields ..

lemma set_cond_teardown: "set_cond (with_teardown e T) t s r m b = set_cond e t s r m b"
  unfolding set_cond_def teardown_fields ..

lemma read_error_Error_teardown: "read_error_Error (with_teardown e T) job err = read_error_Error e job err"
  by (cases err) simp_all

lemma advanceManifests_teardown: "advanceManifests (with_teardown e T) b rc inc excl w = advanceManifests e b rc inc excl w"
  unfolding advanceManifests_def startManifestsJob_def ensureManifestRoleBinding_def deleteManifestRoleBinding_def manifests_job_def
    recordManifestsFailure_def record_manifests_def set_cond_teardown read_error_Error_teardown teardown_fields ..

lemma closeFreezeWindow_teardown: "closeFreezeWindow (with_teardown e T) b spec st = closeFreezeWindow e b spec st"
  unfolding closeFreezeWindow_def advancePostHooks_def resolveHooks_def recordHookResults_def teardown_fields ..

lemma status_to_write_teardown: "status_to_write (with_teardown e T) now d owed b = status_to_write e now d owed b"
  unfolding status_to_write_def setTerminalCondition_def set_cond_teardown ..

lemma persisted_teardown: "persisted (with_teardown e T) b r w = persisted e b r w"
  unfolding persisted_def teardown_fields ..

section \<open>The volumes of a run\<close>

text \<open>
  The lists of volumes a run may go through: a pass adds claims at the end, all Pending, and moves
  at most one volume, by the abstract machine.
\<close>

definition volume_moves :: "VolumeStatus list \<Rightarrow> VolumeStatus list \<Rightarrow> bool" where
  "volume_moves vs vs' \<longleftrightarrow> vs' = vs \<or> (\<exists>i < length vs. \<exists>v s s'. vs' = vs[i := v] \<and> Pvc v = Pvc (vs ! i) \<and>
     volume_abs (vs ! i) = Some s \<and> volume_abs v = Some s' \<and> (s' = s \<or> volume_step s s'))"

definition wf_volumes :: "VolumeStatus list \<Rightarrow> bool" where
  "wf_volumes vs \<longleftrightarrow> distinct (map Pvc vs) \<and> (\<forall>v \<in> set vs. volume_abs v \<noteq> None)"

lemma volume_moves_wf: "volume_moves vs vs' \<Longrightarrow> wf_volumes vs \<Longrightarrow> wf_volumes vs'"
proof -
  assume m: "volume_moves vs vs'" and wf: "wf_volumes vs"
  have "map Pvc (vs[i := v]) = map Pvc vs" if "Pvc v = Pvc (vs ! i)" for i v
    using that by (metis list_update_id map_update)
  then show "wf_volumes vs'" using m wf unfolding volume_moves_def wf_volumes_def
    by (auto dest!: set_update_subset_insert [THEN subsetD])
qed

lemma recordAdvanceFailure_frame [simp]:
  "Phase (recordAdvanceFailure e c v) = Phase v" "Pvc (recordAdvanceFailure e c v) = Pvc v"
  "SnapshotID (recordAdvanceFailure e c v) = SnapshotID v"
  by (simp_all add: recordAdvanceFailure_def parkVolume_def)

lemma volume_abs_recordAdvanceFailure [simp]: "volume_abs (recordAdvanceFailure e c v) = volume_abs v"
  by (simp add: volume_abs_def)

lemma volume_abs_ended: "volume_abs v = Some s \<Longrightarrow> moves_left s = 0 \<longleftrightarrow> \<not> in_progress v"
  by (auto simp: volume_abs_def in_progress_def split: if_splits)

lemma put_volume_frame [simp]:
  "b_volumes (put_volume i v b) = (b_volumes b)[i := v]" "b_Meta (put_volume i v b) = b_Meta b"
  "bs_Manifests (b_Status (put_volume i v b)) = bs_Manifests (b_Status b)"
  by (simp_all add: put_volume_def)

lemma firstNonTerminalVolume_bound: "firstNonTerminalVolume vs = Some i \<Longrightarrow> i < length vs"
proof -
  have l: "length (takeWhile P vs) < length vs" if "\<exists>v \<in> set vs. \<not> P v" for P
    using that by (induction vs) auto
  assume "firstNonTerminalVolume vs = Some i"
  then show ?thesis
    unfolding firstNonTerminalVolume_def first_non_terminal_spec
    using l [of "\<lambda>v. terminal_volume v \<or> volumeIsParked v"] l [of terminal_volume]
    by (simp only: add_0 split: if_splits) blast+
qed

lemma advance_one_moves:
  assumes wf: "\<forall>v \<in> set (b_volumes b). volume_abs v \<noteq> None" and a: "advance_one e rc b st = (pvc, b', st')"
  shows "volume_moves (b_volumes b) (b_volumes b')"
    and "pvc \<noteq> [] \<Longrightarrow> \<exists>v \<in> set (b_volumes b'). Pvc v = pvc \<and> \<not> in_progress v"
proof -
  have "volume_moves (b_volumes b) (b_volumes b') \<and>
    (pvc \<noteq> [] \<longrightarrow> (\<exists>v \<in> set (b_volumes b'). Pvc v = pvc \<and> \<not> in_progress v))"
  proof (cases "firstNonTerminalVolume (b_volumes b)")
    case None
    then show ?thesis using a by (simp add: advance_one_def volume_moves_def)
  next
    case (Some i)
    let ?v = "b_volumes b ! i"
    from firstNonTerminalVolume_bound [OF Some] have i: "i < length (b_volumes b)" .
    with wf obtain s where s: "volume_abs ?v = Some s" using nth_mem by blast
    obtain res v1 st1 where v1: "advanceVolume e b rc ?v st = (res, v1, st1)" by (metis prod_cases3)
    from advanceVolume_refines [OF s v1] obtain s' where s': "volume_abs v1 = Some s'" "s' = s \<or> volume_step s s'"
      "Pvc v1 = Pvc ?v" "case res of Inl _ \<Rightarrow> s' = s
       | Inr pvc \<Rightarrow> pvc = (if s \<in> {Cutting, Moving} \<and> moves_left s' = 0 then Pvc ?v else [])" by blast
    show ?thesis
    proof (cases res)
      case (Inl err)
      then have "b' = put_volume i (recordAdvanceFailure e err v1) b" "pvc = []" using a Some v1 by (simp_all add: advance_one_def)
      then show ?thesis using i s s' unfolding volume_moves_def by (intro conjI disjI2 exI [of _ i]) auto
    next
      case (Inr p)
      then have b': "b' = put_volume i v1 b" "pvc = p" using a Some v1 by (simp_all add: advance_one_def)
      have "volume_moves (b_volumes b) (b_volumes b')"
        using i s s' b' unfolding volume_moves_def by (intro disjI2 exI [of _ i]) auto
      moreover have "v1 \<in> set (b_volumes b')" using i b' by (simp add: set_update_memI)
      moreover have "pvc \<noteq> [] \<longrightarrow> Pvc v1 = pvc \<and> \<not> in_progress v1"
        using s'(3,4) Inr b'(2) volume_abs_ended [OF s'(1)] by (auto split: if_splits)
      ultimately show ?thesis by blast
    qed
  qed
  then show "volume_moves (b_volumes b) (b_volumes b')"
    and "pvc \<noteq> [] \<Longrightarrow> \<exists>v \<in> set (b_volumes b'). Pvc v = pvc \<and> \<not> in_progress v" by blast+
qed

text \<open>
  What a pass reaches its write with does not depend on the teardown, and after the write the teardown
  is asked at most for one exposure, in the world the write left.
\<close>

lemma after_write_teardown:
  assumes "pvc \<noteq> [] \<Longrightarrow> T (b_ns b) (volume_prefix b pvc) (exposureLabels b pvc) (bw st) =
    U (b_ns b) (volume_prefix b pvc) (exposureLabels b pvc) (bw st)"
  shows "after_write (with_teardown e T) rc b pvc stem st = after_write (with_teardown e U) rc b pvc stem st"
proof -
  have m: "maybeEnqueueRetentionForget (with_teardown e V) b rc s = maybeEnqueueRetentionForget e b rc s" for V s
    unfolding maybeEnqueueRetentionForget_def teardown_fields ..
  have t: "teardownManifests (with_teardown e V) b stem w = teardownManifests e b stem w" for V w
    unfolding teardownManifests_def deleteManifestRoleBinding_def deleteMoverJobAndSecret_def teardown_fields ..
  have "teardownVolume (with_teardown e T) b pvc (bw st) = teardownVolume (with_teardown e U) b pvc (bw st)" if "pvc \<noteq> []"
    using assms [OF that] unfolding teardownVolume_def cleanupVolumeExposure_def deleteMoverJobAndSecret_def teardown_fields by simp
  then show ?thesis unfolding after_write_def Let_def m t by simp
qed

lemma run_pass_teardown:
  assumes 1: "advance_one e rc b st = (pvc, b1, st1)"
    and 2: "advanceManifests e b1 rc (includeManifests run) (brs_ExcludeSecretData run) (bw st1) = ((d, stem, merr), b2, w2)"
    and 3: "closeFreezeWindow e b2 (brs_Hooks run) (st1\<lparr>bw := w2\<rparr>) = ((owed, rerr), b3, st3)"
    and b': "b' = status_to_write e (he_now e (bw st3)) d owed b3" and w: "he_update_status e b' (bw st3) = (r, w)"
  shows "run_pass (with_teardown e T) run rc b st = (fst (run_pass e run rc b st), b',
    if persisted e b' r w then after_write (with_teardown e T) rc b' pvc stem (st3\<lparr>bw := w\<rparr>) else st3\<lparr>bw := w\<rparr>)"
proof (cases r)
  case None
  then show ?thesis unfolding run_pass_def writeStatus_def Let_def advance_one_teardown advanceManifests_teardown
      closeFreezeWindow_teardown status_to_write_teardown teardown_fields
    by (cases "errors_Join [merr, rerr]") (simp_all add: 1 2 3 b' [symmetric] w persisted_def)
next
  case (Some err)
  show ?thesis unfolding run_pass_def writeStatus_def Let_def advance_one_teardown advanceManifests_teardown
      closeFreezeWindow_teardown status_to_write_teardown teardown_fields
    by (cases "errors_Join [merr, rerr]") (simp_all add: 1 2 3 b' [symmetric] w Some terminalPhaseCommitted_persisted persisted_teardown)
qed

text \<open>
  C6: an exposure is torn down only after the verdict on its volume has reached the cluster. Whatever
  the exposer's teardown would do, a pass reaches its status write in the same world with the same status.
  The teardown is then asked at most for the exposure of one claim, in the world that write left: two
  teardowns that agree there cannot be told apart by the pass. And it is asked only when the write succeeded,
  or failed and the terminal phase was read back, and only for a volume that has ended in the status written.
\<close>

theorem teardown_only_after_the_write:
  assumes wf: "wf_volumes (b_volumes b)"
  shows "\<exists>b' w0 r w pvc. he_update_status e b' w0 = (r, w) \<and>
    (\<forall>T. fst (snd (run_pass (e\<lparr>ce_TeardownExposure := T\<rparr>) run rc b st)) = b') \<and>
    (pvc \<noteq> [] \<longrightarrow> persisted e b' r w \<and> (\<exists>v \<in> set (b_volumes b'). Pvc v = pvc \<and> \<not> in_progress v)) \<and>
    (\<forall>T U. (pvc \<noteq> [] \<longrightarrow> T (b_ns b') (volume_prefix b' pvc) (exposureLabels b' pvc) w =
                          U (b_ns b') (volume_prefix b' pvc) (exposureLabels b' pvc) w) \<longrightarrow>
       run_pass (e\<lparr>ce_TeardownExposure := T\<rparr>) run rc b st = run_pass (e\<lparr>ce_TeardownExposure := U\<rparr>) run rc b st)"
proof -
  obtain ans b' st' where p: "run_pass e run rc b st = (ans, b', st')" by (metis prod_cases3)
  then obtain pvc b1 st1 d stem merr b2 w2 owed rerr b3 st3 r w where
    1: "advance_one e rc b st = (pvc, b1, st1)" and
    2: "advanceManifests e b1 rc (includeManifests run) (brs_ExcludeSecretData run) (bw st1) = ((d, stem, merr), b2, w2)" and
    3: "closeFreezeWindow e b2 (brs_Hooks run) (st1\<lparr>bw := w2\<rparr>) = ((owed, rerr), b3, st3)" and
    b': "b' = status_to_write e (he_now e (bw st3)) d owed b3" and
    w: "he_update_status e b' (bw st3) = (r, w)" by (rule run_pass_cases)
  note run = run_pass_teardown [OF 1 2 3 b' w]
  define asked where "asked = (if persisted e b' r w then pvc else [])"
  have ended: "\<exists>v \<in> set (b_volumes b'). Pvc v = pvc \<and> \<not> in_progress v" if "pvc \<noteq> []"
    using advance_one_moves(2) [OF _ 1 that] wf closeFreezeWindow_frame [OF 3] advanceManifests_volumes [OF 2]
    unfolding b' wf_volumes_def by simp
  have "run_pass (with_teardown e T) run rc b st = run_pass (with_teardown e U) run rc b st"
    if "asked \<noteq> [] \<Longrightarrow> T (b_ns b') (volume_prefix b' asked) (exposureLabels b' asked) w =
      U (b_ns b') (volume_prefix b' asked) (exposureLabels b' asked) w" for T U
    using that after_write_teardown [of pvc T b' "st3\<lparr>bw := w\<rparr>" U e rc stem] unfolding run
    by (cases "persisted e b' r w") (simp_all add: asked_def)
  then have "\<forall>T U. (asked \<noteq> [] \<longrightarrow> T (b_ns b') (volume_prefix b' asked) (exposureLabels b' asked) w =
      U (b_ns b') (volume_prefix b' asked) (exposureLabels b' asked) w) \<longrightarrow>
    run_pass (with_teardown e T) run rc b st = run_pass (with_teardown e U) run rc b st" by blast
  moreover have "\<forall>T. fst (snd (run_pass (with_teardown e T) run rc b st)) = b'" unfolding run by simp
  moreover have "asked \<noteq> [] \<longrightarrow> persisted e b' r w \<and> (\<exists>v \<in> set (b_volumes b'). Pvc v = asked \<and> \<not> in_progress v)"
    using ended by (simp add: asked_def)
  ultimately show ?thesis using w by (intro exI [of _ b'] exI [of _ "bw st3"] exI [of _ r] exI [of _ w] exI [of _ asked] conjI)
qed

section \<open>A live pass\<close>

lemma gate_volumes: "gate e reason m b st = (x, b', st') \<Longrightarrow> b_volumes b' = b_volumes b"
  by (auto simp: gate_def Let_def split: prod.splits option.splits)

lemma resolveRunContext_gate:
  assumes "resolveRunContext e spec b run st = (x, b', st')"
  shows "b' = b \<or> (\<exists>reason m st0 ans. gate e reason m b st0 = (ans, b', st') \<and> x = Inl ans)"
proof -
  define ok where "ok r \<longleftrightarrow> (\<forall>x b' st'. r = (x, b', st') \<longrightarrow>
      b' = b \<or> (\<exists>reason m st0 ans. gate e reason m b st0 = (ans, b', st') \<and> x = Inl ans))"
    for r :: "((ctrl_result \<times> go_error option) + backupRunContext) \<times> Backup \<times> 'a bstate"
  have refuse: "ok (case gate e r m b s of (res, b, st) \<Rightarrow> (Inl res, b, st))" for r m s
    by (cases "gate e r m b s") (auto simp: ok_def)
  have keep: "ok (y, b, s)" for y s by (simp add: ok_def)
  have "ok (resolveRunContext e spec b run st)"
    unfolding resolveRunContext_def Let_def
    by (rule refuse keep conjI allI impI | split if_split sum.split prod.split)+
  then show ?thesis using assms by (simp add: ok_def)
qed

lemma resolveRunContext_frame:
  assumes "resolveRunContext e spec b run st = (x, b', st')"
  shows "b_volumes b' = b_volumes b" and "x = Inr rc \<Longrightarrow> b' = b"
  using resolveRunContext_gate [OF assms] gate_volumes by blast+

lemma ensureVolumes_eq:
  assumes "ensureVolumes e sel b w = Inr b'"
  obtains pvcs names where "ce_list_pvcs e (b_ns b) w = Inr pvcs"
    "names = filter (\<lambda>n. n \<notin> Pvc ` set (b_volumes b)) (sort (map pc_Name (filter (\<lambda>pvc. matchPVC pvc sel) pvcs)))"
    "b_volumes b' = b_volumes b @ map new_volume names"
proof -
  have f: "foldl (\<lambda>vs n. if n \<notin> T then vs @ [new_volume n] else vs) vs ns = vs @ map new_volume (filter (\<lambda>n. n \<notin> T) ns)"
    for T vs ns by (induction ns arbitrary: vs) simp_all
  show ?thesis using assms that unfolding ensureVolumes_def Let_def f by (auto split: sum.splits)
qed

definition pvc_names_unique :: "('w, 'expr, 'ex, 'identity, 'z) ctl_env_scheme \<Rightarrow> bool" where
  "pvc_names_unique e \<longleftrightarrow> (\<forall>ns w pvcs. ce_list_pvcs e ns w = Inr pvcs \<longrightarrow> distinct (map pc_Name pvcs))"

lemma new_volumes_wf:
  assumes "wf_volumes vs" and "distinct names" and "set names \<inter> Pvc ` set vs = {}"
  shows "wf_volumes (vs @ map new_volume names)"
proof -
  have "Pvc (new_volume n) = n" "volume_abs (new_volume n) = Some Waiting" for n
    by (simp_all add: new_volume_def volume_abs_def)
  then show ?thesis using assms by (auto simp: wf_volumes_def comp_def)
qed

lemma reconcile_live_moves:
  assumes u: "pvc_names_unique e" and wf: "wf_volumes (b_volumes b)" and p: "reconcile_live e spec b st = (ans, b', st')"
  shows "\<exists>names. distinct names \<and> set names \<inter> Pvc ` set (b_volumes b) = {} \<and>
    volume_moves (b_volumes b @ map new_volume names) (b_volumes b')"
proof -
  have same: ?thesis if "b_volumes b' = b_volumes b"
    using that by (intro exI [of _ "[]"]) (simp add: volume_moves_def)
  show ?thesis
  proof (cases "resolveRun e spec b (bw st)")
    case (Inl err)
    then show ?thesis using p same by (simp add: reconcile_live_def)
  next
    case (Inr orun)
    show ?thesis
    proof (cases orun)
      case None
      with p Inr obtain m where "gate e ''NoRunSpec'' m b st = (ans, b', st')" by (simp add: reconcile_live_def)
      then show ?thesis using same gate_volumes by blast
    next
      case (Some run)
      obtain x b1 st1 where x: "resolveRunContext e spec b run st = (x, b1, st1)" by (metis prod_cases3)
      show ?thesis
      proof (cases x)
        case (Inl a)
        then show ?thesis using p Inr Some x same resolveRunContext_frame(1) [OF x] by (simp add: reconcile_live_def)
      next
        case rc: (Inr rc)
        with resolveRunContext_frame(2) [OF x] have b1: "b1 = b" by blast
        show ?thesis
        proof (cases "ensureVolumes e (brs_PVCSelector run) b (bw st1)")
          case (Inl err)
          then show ?thesis using p Inr Some x rc b1 same by (simp add: reconcile_live_def)
        next
          case ev: (Inr b2)
          obtain res stop err b3 st3 where o: "openFreezeWindow e b2 (hookState b2) (brs_Hooks run) st1 = ((res, stop, err), b3, st3)"
            by (metis prod_cases3)
          have b': "b_volumes b' = b_volumes b3 \<or> run_pass e run rc b3 st3 = (ans, b', st')"
            using p Inr Some x rc b1 ev o by (simp add: reconcile_live_def split: if_splits)
          from ev obtain pvcs names where n: "ce_list_pvcs e (b_ns b) (bw st1) = Inr pvcs"
            "names = filter (\<lambda>n. n \<notin> Pvc ` set (b_volumes b)) (sort (map pc_Name (filter (\<lambda>pvc. matchPVC pvc (brs_PVCSelector run)) pvcs)))"
            "b_volumes b2 = b_volumes b @ map new_volume names" by (rule ensureVolumes_eq)
          from u n(1) have "distinct (map pc_Name pvcs)" by (simp add: pvc_names_unique_def)
          then have d: "distinct names" "set names \<inter> Pvc ` set (b_volumes b) = {}"
            unfolding n(2) by (auto simp: distinct_map_filter)
          have v3: "b_volumes b3 = b_volumes b @ map new_volume names" using openFreezeWindow_volumes [OF o] n(3) by simp
          have "volume_moves (b_volumes b3) (b_volumes b')"
            using b'
          proof
            assume "run_pass e run rc b3 st3 = (ans, b', st')"
            then obtain pvc b4 st4 d stem merr b5 w5 owed rerr b6 st6 where
              1: "advance_one e rc b3 st3 = (pvc, b4, st4)" and
              2: "advanceManifests e b4 rc (includeManifests run) (brs_ExcludeSecretData run) (bw st4) = ((d, stem, merr), b5, w5)" and
              3: "closeFreezeWindow e b5 (brs_Hooks run) (st4\<lparr>bw := w5\<rparr>) = ((owed, rerr), b6, st6)" and
              4: "b' = status_to_write e (he_now e (bw st6)) d owed b6" by (rule run_pass_cases)
            have "\<forall>v \<in> set (b_volumes b3). volume_abs v \<noteq> None"
              using new_volumes_wf [OF wf d] by (simp add: v3 wf_volumes_def)
            from advance_one_moves(1) [OF this 1] show ?thesis
              using advanceManifests_volumes [OF 2] closeFreezeWindow_frame [OF 3] by (simp add: 4)
          qed (simp add: volume_moves_def)
          then show ?thesis using d v3 by auto
        qed
      qed
    qed
  qed
qed

text \<open>The ways a live pass comes to its answer.\<close>

lemma reconcile_live_cases:
  assumes p: "reconcile_live e spec b st = (ans, b', st')" and live: "\<not> isTerminalBackupPhase (b_phase b)"
    and t: "isTerminalBackupPhase (b_phase b')"
  obtains run rc st0 bv res stop err b1 st1 where "resolveRun e spec b (bw st) = Inr (Some run)"
    "resolveRunContext e spec b run st = (Inr rc, b, st0)" "ensureVolumes e (brs_PVCSelector run) b (bw st0) = Inr bv"
    "openFreezeWindow e bv (hookState bv) (brs_Hooks run) st0 = ((res, stop, err), b1, st1)"
    "if stop then b' = b1 \<and> st' = st1 else run_pass e run rc b1 st1 = (ans, b', st')"
proof -
  have g: "\<not> isTerminalBackupPhase (b_phase b2)" if "gate e reason m b st0 = (x, b2, st2)" for reason m st0 x b2 st2
  proof -
    have "b_phase b2 = BackupPhasePending" using that by (auto simp: gate_def Let_def split: prod.splits option.splits)
    then show ?thesis by (simp add: isTerminalBackupPhase_def)
  qed
  obtain run where run: "resolveRun e spec b (bw st) = Inr (Some run)"
    using p live t g unfolding reconcile_live_def by (auto split: sum.splits option.splits)
  obtain x b2 st0 where x: "resolveRunContext e spec b run st = (x, b2, st0)" by (metis prod_cases3)
  have b2: "\<not> isTerminalBackupPhase (b_phase b2)" using resolveRunContext_gate [OF x] g live by blast
  then obtain rc where rc: "x = Inr rc" using p t run x unfolding reconcile_live_def by (cases x) auto
  with resolveRunContext_frame(2) [OF x] have eq: "b2 = b" by blast
  obtain bv where ev: "ensureVolumes e (brs_PVCSelector run) b (bw st0) = Inr bv"
    using p t live run x rc eq unfolding reconcile_live_def by (auto split: sum.splits)
  obtain res stop err b1 st1 where o: "openFreezeWindow e bv (hookState bv) (brs_Hooks run) st0 = ((res, stop, err), b1, st1)"
    by (metis prod_cases3)
  have "if stop then b' = b1 \<and> st' = st1 else run_pass e run rc b1 st1 = (ans, b', st')"
    using p run x rc eq ev o unfolding reconcile_live_def by (simp split: if_splits)
  then show ?thesis using that [OF run _ ev o] x rc eq by simp
qed

text \<open>
  C5: a live Backup is reported ended for one of two reasons only. Either its quiesce failed before the run:
  then the report is Failed with the reason PreHookFailed, the hooks of the run were aborted or had not run
  before, and the pass moved no volume, it only took up new claims as Pending. Or the
  run is over: every volume has ended, the manifests the run was to capture have a verdict, and the release
  after its snapshots is settled in the very world in which the pass came to it.
\<close>

theorem terminal_phase_is_earned:
  assumes law: "conditions_by_type e" and live: "\<not> isTerminalBackupPhase (bs_Phase (b_Status b))"
    and p: "reconcile_live e spec b st = (ans, b', st')" and t: "isTerminalBackupPhase (bs_Phase (b_Status b'))"
  shows "\<exists>run rc st0 bv res stop err b1 st1. resolveRun e spec b (bw st) = Inr (Some run) \<and>
    resolveRunContext e spec b run st = (Inr rc, b, st0) \<and> ensureVolumes e (brs_PVCSelector run) b (bw st0) = Inr bv \<and>
    openFreezeWindow e bv (hookState bv) (brs_Hooks run) st0 = ((res, stop, err), b1, st1) \<and>
    (if stop
     then bs_Phase (b_Status b') = BackupPhaseFailed \<and> reason_of e b' ConditionReady = Some ''PreHookFailed'' \<and>
       (aborted (hookState b) \<or> \<not> preRan (hookState b)) \<and> (\<exists>names. b_volumes b' = b_volumes b @ map new_volume names)
     else (\<forall>v \<in> set (b_volumes b'). \<not> in_progress v) \<and> (includeManifests run \<longrightarrow> manifests_settled e b') \<and>
       release_settled e (brs_Hooks run) b' (window_world e run rc b1 st1))"
proof -
  from p live t obtain run rc st0 bv res stop err b1 st1 where c: "resolveRun e spec b (bw st) = Inr (Some run)"
    "resolveRunContext e spec b run st = (Inr rc, b, st0)" "ensureVolumes e (brs_PVCSelector run) b (bw st0) = Inr bv"
    "openFreezeWindow e bv (hookState bv) (brs_Hooks run) st0 = ((res, stop, err), b1, st1)"
    "if stop then b' = b1 \<and> st' = st1 else run_pass e run rc b1 st1 = (ans, b', st')" by (rule reconcile_live_cases)
  have bv: "b_phase bv = b_phase b" "b_hooks bv = b_hooks b"
    using c(3) by (auto simp: ensureVolumes_def Let_def split: sum.splits)
  then have h: "hookState bv = hookState b" by (simp add: hookState_def)
  have "(if stop
     then b_phase b' = BackupPhaseFailed \<and> reason_of e b' ConditionReady = Some ''PreHookFailed'' \<and>
       (aborted (hookState b) \<or> \<not> preRan (hookState b)) \<and> (\<exists>names. b_volumes b' = b_volumes b @ map new_volume names)
     else (\<forall>v \<in> set (b_volumes b'). \<not> in_progress v) \<and> (includeManifests run \<longrightarrow> manifests_settled e b') \<and>
       release_settled e (brs_Hooks run) b' (window_world e run rc b1 st1))"
  proof (cases stop)
    case True
    with c(5) have b': "b' = b1" by simp
    have "\<not> isTerminalBackupPhase (b_phase bv)" using live bv(1) by simp
    from openFreezeWindow_verdict [OF law c(4) this] t
    have v: "b_phase b' = BackupPhaseFailed" "reason_of e b' ConditionReady = Some ''PreHookFailed''" unfolding b' by simp_all
    have "aborted (hookState b) \<or> \<not> preRan (hookState b)"
      using c(4) True by (auto simp: openFreezeWindow_def h split: if_splits)
    moreover from c(3) obtain names where "b_volumes bv = b_volumes b @ map new_volume names" by (rule ensureVolumes_eq)
    ultimately show ?thesis using True v openFreezeWindow_volumes [OF c(4)] unfolding b' by auto
  next
    case False
    with c(5) have r: "run_pass e run rc b1 st1 = (ans, b', st')" by simp
    show ?thesis unfolding if_not_P [OF False] by (intro conjI run_pass_terminal [OF law r t])
  qed
  with c(1-4) show ?thesis by (intro exI conjI)
qed

text \<open>
  C7: a live pass refines the machine of its volumes: it may take up claims that appeared, each
  under a name not yet tracked and Pending, and beyond that it moves at most one volume, by one move of the
  phase machine; every other volume is left exactly as it was, whatever else the pass did or failed to do.
\<close>

theorem live_pass_refines_the_run:
  assumes "pvc_names_unique e" and "wf_volumes (b_volumes b)" and "reconcile_live e spec b st = (ans, b', st')"
  shows "\<exists>names. distinct names \<and> set names \<inter> Pvc ` set (b_volumes b) = {} \<and>
    volume_moves (b_volumes b @ map new_volume names) (b_volumes b')"
  using assms by (rule reconcile_live_moves)

text \<open>
  C27: a live pass keeps the status well formed: claims tracked once each, every volume in a phase the
  machine knows.
\<close>

theorem live_pass_keeps_the_status_well_formed:
  assumes "pvc_names_unique e" and "wf_volumes (b_volumes b)" and "reconcile_live e spec b st = (ans, b', st')"
  shows "wf_volumes (b_volumes b')"
proof -
  from reconcile_live_moves [OF assms] obtain names where "distinct names" "set names \<inter> Pvc ` set (b_volumes b) = {}"
    "volume_moves (b_volumes b @ map new_volume names) (b_volumes b')" by blast
  from volume_moves_wf [OF this(3) new_volumes_wf [OF assms(2) this(1,2)]] show ?thesis .
qed

section \<open>Teardown and deletion\<close>

lemma sweep_volumes_clean:
  assumes "sweep_volumes e label b vs w = ([], w')" and "v \<in> set vs" and "Phase v \<noteq> VolumePhaseSkipped"
  shows "\<exists>w0. fst (cleanupVolumeExposure e b (Pvc v) w0) = None"
  using assms
proof (induction vs arbitrary: w)
  case (Cons u vs)
  show ?case
  proof (cases "Phase u = VolumePhaseSkipped")
    case True
    then show ?thesis using Cons by auto
  next
    case False
    obtain r w1 where r: "cleanupVolumeExposure e b (Pvc u) w = (r, w1)" by (metis surj_pair)
    with False Cons.prems(1) have "r = None" by (cases r) (auto split: prod.splits)
    then show ?thesis using Cons r False by (cases "v = u") (auto intro: exI [of _ w])
  qed
qed simp

lemma sweep_volumes_env [simp]:
  "sweep_volumes (e\<lparr>ce_patch := p\<rparr>) label b vs w = sweep_volumes e label b vs w"
  "sweep_volumes (e\<lparr>ce_update := u\<rparr>) label b vs w = sweep_volumes e label b vs w"
proof -
  have c: "cleanupVolumeExposure (e\<lparr>ce_patch := p\<rparr>) b v w = cleanupVolumeExposure e b v w"
    "cleanupVolumeExposure (e\<lparr>ce_update := u\<rparr>) b v w = cleanupVolumeExposure e b v w"
    "deleteMoverJobAndSecret (e\<lparr>ce_patch := p\<rparr>) stem w = deleteMoverJobAndSecret e stem w"
    "deleteMoverJobAndSecret (e\<lparr>ce_update := u\<rparr>) stem w = deleteMoverJobAndSecret e stem w" for v w stem
    by (simp_all add: cleanupVolumeExposure_def deleteMoverJobAndSecret_def)
  show "sweep_volumes (e\<lparr>ce_patch := p\<rparr>) label b vs w = sweep_volumes e label b vs w"
    "sweep_volumes (e\<lparr>ce_update := u\<rparr>) label b vs w = sweep_volumes e label b vs w"
    by (induction vs arbitrary: w) (simp_all add: c split: prod.split option.split)
qed

lemma teardownManifests_env [simp]:
  "teardownManifests (e\<lparr>ce_patch := p\<rparr>) b stem w = teardownManifests e b stem w"
  "teardownManifests (e\<lparr>ce_update := u\<rparr>) b stem w = teardownManifests e b stem w"
  by (simp_all add: teardownManifests_def deleteManifestRoleBinding_def deleteMoverJobAndSecret_def)

lemma exposureResidueRemains_env [simp]:
  "exposureResidueRemains (e\<lparr>ce_patch := p\<rparr>) b w = exposureResidueRemains e b w"
  by (simp add: exposureResidueRemains_def Let_def)

lemma first_residue_None: "first_residue b objs = None \<longleftrightarrow> (\<forall>(n, labels) \<in> set objs. \<not> exposureResidueBelongsTo b labels)"
  by (induction b objs rule: first_residue.induct) auto

definition listed_clean :: "Backup \<Rightarrow> (api_error + residue) option \<Rightarrow> bool" where
  "listed_clean b listed \<longleftrightarrow> (case listed of None \<Rightarrow> True | Some (Inl _) \<Rightarrow> False
     | Some (Inr objs) \<Rightarrow> \<forall>(n, labels) \<in> set objs. \<not> exposureResidueBelongsTo b labels)"

lemma residue_in_clean: "residue_in show b kind at listed = [] \<Longrightarrow> kind \<noteq> [] \<Longrightarrow> listed_clean b listed"
  by (auto simp: residue_in_def listed_clean_def first_residue_None split: option.splits sum.splits)

lemma exposureResidueRemains_clean:
  assumes "exposureResidueRemains e b w = []"
  shows "listed_clean b (ce_list_contents e (residue_selector b) w)"
    "listed_clean b (ce_list_snapshots e (residue_selector b) (b_ns b) w)"
    "listed_clean b (ce_list_snapshots e (residue_selector b) (be_OperatorNamespace e) w)"
    "listed_clean b (Some (ce_list_clones e (residue_selector b) (be_OperatorNamespace e) w))"
proof -
  have n: "''VolumeSnapshotContent'' \<noteq> []" "''VolumeSnapshot'' \<noteq> []" "''temp clone PVC'' \<noteq> []" by simp_all
  note r = residue_in_clean [OF _ n(1), of _ b "[]"] residue_in_clean [OF _ n(2), of _ b] residue_in_clean [OF _ n(3), of _ b]
  have "residue_in (he_show_api e) b ''VolumeSnapshotContent'' [] (ce_list_contents e (residue_selector b) w) = [] \<and>
      residue_in (he_show_api e) b ''VolumeSnapshot'' (b_ns b @ ''/'') (ce_list_snapshots e (residue_selector b) (b_ns b) w) = [] \<and>
      residue_in (he_show_api e) b ''VolumeSnapshot'' (be_OperatorNamespace e @ ''/'')
        (ce_list_snapshots e (residue_selector b) (be_OperatorNamespace e) w) = [] \<and>
      residue_in (he_show_api e) b ''temp clone PVC'' (be_OperatorNamespace e @ ''/'')
        (Some (ce_list_clones e (residue_selector b) (be_OperatorNamespace e) w)) = []"
    using assms unfolding exposureResidueRemains_def Let_def by (simp only: append_is_Nil_conv split: if_splits) simp_all
  then show "listed_clean b (ce_list_contents e (residue_selector b) w)"
    "listed_clean b (ce_list_snapshots e (residue_selector b) (b_ns b) w)"
    "listed_clean b (ce_list_snapshots e (residue_selector b) (be_OperatorNamespace e) w)"
    "listed_clean b (Some (ce_list_clones e (residue_selector b) (be_OperatorNamespace e) w))"
    using r by blast+
qed

text \<open>
  C26: an ended Backup is stamped as cleaned only when it is. Two clusters that differ only in how they
  answer the stamp can be told apart only after every exposure cleanup succeeded and, in the world
  left by the teardown, all four reads were answered and none lists an object of this Backup.
\<close>

theorem cleaned_marker_only_when_clean:
  assumes "ensureTerminalTeardown (e\<lparr>ce_patch := p\<rparr>) b w \<noteq> ensureTerminalTeardown (e\<lparr>ce_patch := q\<rparr>) b w"
  shows "\<exists>label w1 w2. sweep_volumes e label b (b_volumes b) w = ([], w1) \<and>
    w2 = teardownManifests e b (manifestsJobPrefix (b_ns b) (b_name b)) w1 \<and>
    (\<forall>v \<in> set (b_volumes b). Phase v \<noteq> VolumePhaseSkipped \<longrightarrow> (\<exists>w0. fst (cleanupVolumeExposure e b (Pvc v) w0) = None)) \<and>
    listed_clean b (ce_list_contents e (residue_selector b) w2) \<and>
    listed_clean b (ce_list_snapshots e (residue_selector b) (b_ns b) w2) \<and>
    listed_clean b (ce_list_snapshots e (residue_selector b) (be_OperatorNamespace e) w2) \<and>
    listed_clean b (Some (ce_list_clones e (residue_selector b) (be_OperatorNamespace e) w2))"
proof -
  define label where "label pvc = ''sweep exposure of PVC '' @ pvc" for pvc
  obtain errs w1 where s: "sweep_volumes e label b (b_volumes b) w = (errs, w1)" by (metis surj_pair)
  let ?w2 = "teardownManifests e b (manifestsJobPrefix (b_ns b) (b_name b)) w1"
  have "errs = [] \<and> exposureResidueRemains e b ?w2 = []"
    using assms s unfolding ensureTerminalTeardown_def label_def [symmetric] by (simp add: Let_def split: if_splits)
  then show ?thesis using s sweep_volumes_clean [of e label b "b_volumes b" w w1] exposureResidueRemains_clean [of e b ?w2]
    by (intro exI [of _ label] exI [of _ w1] exI [of _ ?w2]) auto
qed

text \<open>
  The finalizer of a deleted Backup goes only after every exposure it made was cleaned up; a
  cleanup that failed keeps it, and with it the record of what is left to clean.
\<close>

theorem finalizer_held_until_clean:
  assumes "finalize (e\<lparr>ce_update := p\<rparr>) b st \<noteq> finalize (e\<lparr>ce_update := q\<rparr>) b st"
  shows "\<exists>label w1. sweep_volumes e label b (b_volumes b) (bw st) = ([], w1) \<and>
    (\<forall>v \<in> set (b_volumes b). Phase v \<noteq> VolumePhaseSkipped \<longrightarrow> (\<exists>w0. fst (cleanupVolumeExposure e b (Pvc v) w0) = None))"
proof -
  define label where "label pvc = ''exposure cleanup of PVC '' @ pvc @ '' on delete''" for pvc
  obtain errs w1 where s: "sweep_volumes e label b (b_volumes b) (bw st) = (errs, w1)" by (metis surj_pair)
  have "errs = []"
    using assms s unfolding finalize_def label_def [symmetric] by (simp add: Let_def split: if_splits)
  then show ?thesis using s sweep_volumes_clean [of e label b "b_volumes b" "bw st" w1]
    by (intro exI [of _ label] exI [of _ w1]) auto
qed

section \<open>A concrete cluster\<close>

definition demo_ctl_env :: "api_error + Job \<Rightarrow> Pod list \<Rightarrow> ('w, unit, unit, unit) ctl_env" where
  "demo_ctl_env job pods =
     \<lparr>he_libs = demo_libs, he_now = \<lambda>_. 0, he_Hooks = None, he_list_pods = \<lambda>_ _. Inr [],
      he_update_status = \<lambda>_ w. (None, w),
      he_set_condition = \<lambda>c cs. c # filter (\<lambda>d. cond_Type d \<noteq> cond_Type c) cs,
      he_find_condition = \<lambda>cs t. find (\<lambda>c. cond_Type c = t) cs, he_duration_String = \<lambda>_. [], he_show_api = \<lambda>_. ''api'',
      be_deps = \<lparr>rd_OperatorNamespace = ''ops'', rd_now = \<lambda>_. 0, rd_elapsed_String = \<lambda>_. [],
        rd_wait = \<lambda>_ _ w. (None, w), rd_get_secret = \<lambda>_ _ _. Inl NotFound, rd_create_secret = \<lambda>_ w. (None, w),
        rd_delete_secret = \<lambda>_ _ w. (None, w), rd_get_job = \<lambda>_ _ _. job, rd_list_jobs = \<lambda>_ _ _. Inr [],
        rd_create_job = \<lambda>_ w. (None, w), rd_delete_job = \<lambda>_ _ _ w. (None, w), rd_job_pods = \<lambda>_ _. Inr pods\<rparr>,
      be_enqueue = \<lambda>_ w. w, be_MoverStartDeadline = 0, be_PendingResolveDeadline = 0, be_AdvanceRetryDeadline = 0,
      be_get_pvc = \<lambda>_ _ _. Inl NotFound, be_For = \<lambda>_ _. Inr (), be_Precheck = \<lambda>_ _. None,
      be_Expose = \<lambda>_ _ w. (Inl (ExposerFault (ErrorNew ''no'')), w), be_Ready = \<lambda>_ _ w. (Inr False, w),
      be_Progress = \<lambda>_ _ _. None, be_QuiescenceRequired = \<lambda>_. None, be_warning_events = None,
      be_unmarshal_result = \<lambda>_. Inr (zero_result\<lparr>OK := True, mr_SnapshotID := ''abc''\<rparr>),
      me_ManifestReaderClusterRole = ''reader'', me_ManifestMoverServiceAccount = ''mover'',
      me_create_binding = \<lambda>_ w. (None, w), me_delete_binding = \<lambda>_ _ w. (None, w), me_Quote = \<lambda>s. s,
      ce_get_backup = \<lambda>_ _ _. Inl NotFound, ce_update = \<lambda>_ w. (None, w), ce_patch = \<lambda>_ w. (None, w),
      ce_get_fresh = None, ce_get_cluster_run = \<lambda>_ _. Inl NotFound, ce_get_location = \<lambda>_ _ _. Inl NotFound,
      ce_get_cluster_location = \<lambda>_ _. Inl NotFound, ce_get_repository = \<lambda>_ _. Inl NotFound,
      ce_namespace_labels = \<lambda>_ _. Inl NotFound, ce_list_pvcs = \<lambda>_ _. Inr [],
      ce_keys = \<lparr>ke_ParseIdentities = \<lambda>_. Inr [], ke_Encrypt = \<lambda>_ s w. (Inr s, w), ke_Decrypt = \<lambda>_ s. Inr s,
        ke_random = \<lambda>n w. (Inr (replicate n (CHR ''r'')), w), ke_get = \<lambda>_ _ w. (Inl NotFound, w), ke_create = \<lambda>_ w. (None, w)\<rparr>,
      ce_TeardownExposure = \<lambda>_ _ _ w. (None, w), ce_list_contents = \<lambda>_ _. Some (Inr []),
      ce_list_snapshots = \<lambda>_ _ _. Some (Inr []), ce_list_clones = \<lambda>_ _ _. Inr []\<rparr>"

definition demo_run_spec :: "unit BackupRunSpec" where
  "demo_run_spec = \<lparr>brs_PVCSelector = \<lparr>pvc_MatchLabels = [], pvc_Include = [], pvc_Exclude = []\<rparr>, brs_IncludeManifests = None,
     brs_ExcludeSecretData = False, brs_Hooks = demo_hooks, brs_MaxConcurrentMovers = 0, brs_BackoffLimit = 3\<rparr>"

definition demo_backup_of :: "VolumeStatus list \<Rightarrow> Backup" where
  "demo_backup_of vols = empty_backup\<lparr>b_Meta := (b_Meta empty_backup)\<lparr>m_Finalizers := [FinalizerBackup]\<rparr>,
     b_Status := (b_Status empty_backup)\<lparr>bs_Volumes := vols,
     bs_Manifests := Some \<lparr>ms_SnapshotID = ''m1'', ms_ResourceCount = 4\<rparr>, bs_PostHookAttempts := 3\<rparr>\<rparr>"

abbreviation demo_ctl :: "(unit, unit, unit, unit) ctl_env" where
  "demo_ctl \<equiv> demo_ctl_env (Inr demo_done_job) [demo_done_pod]"

lemma demo_conditions: "conditions_by_type (demo_ctl_env job pods)"
proof -
  have "t \<noteq> u \<Longrightarrow> find (\<lambda>c. cond_Type c = u) (filter (\<lambda>d. cond_Type d \<noteq> t) cs) = find (\<lambda>c. cond_Type c = u) cs"
    for t u and cs :: "Condition list"
    by (induction cs) auto
  then show ?thesis by (auto simp: conditions_by_type_def demo_ctl_env_def)
qed

lemma demo_backup_wf:
  "wf_volumes (b_volumes (demo_backup_of [demo_volume VolumePhaseUploading]))"
  "wf_volumes (b_volumes (demo_backup_of [demo_volume VolumePhaseCompleted]))"
  by (simp_all add: wf_volumes_def demo_backup_of_def demo_volume_def volume_abs_def)

lemma demo_unique: "pvc_names_unique (demo_ctl_env job pods)"
  by (simp add: pvc_names_unique_def demo_ctl_env_def)

text \<open>A cluster whose location is ready, so that a live pass gets to its end.\<close>

definition demo_ready_ctl :: "(unit, unit, unit, unit) ctl_env" where
  "demo_ready_ctl = demo_ctl\<lparr>
     ce_get_location := \<lambda>ns n _. Inr \<lparr>bl_Namespace = ns, bl_Name = n, bl_Mode = LocationModeImmutable,
       bl_S3 = \<lparr>s3_Endpoint = ''s3'', s3_Bucket = ''b'', s3_Prefix = [], s3_Region = [], s3_CredentialsSecretRef = ''creds'',
         s3_CABundle = [], s3_ForcePathStyle = False, s3_Connections = None\<rparr>,
       bl_RepositoryPasswordSecretRef = None,
       bl_Retention = \<lparr>KeepLast = 0, KeepHourly = 0, KeepDaily = 0, KeepWeekly = 0, KeepMonthly = 0, KeepYearly = 0\<rparr>,
       bl_StatusClusterID = ''c1''\<rparr>,
     ce_get_repository := \<lambda>n _. Inr \<lparr>rep_Name = n, rep_Labels = Map.empty, rep_Controller = None, rep_Initialized = True,
       rep_RepositoryURL = ''s3:b''\<rparr>\<rparr>"

definition demo_namespaced_spec :: "unit BackupSpec" where
  "demo_namespaced_spec = \<lparr>bsp_ScheduleRef = ''nightly'', bsp_LocationKind = kindBackupLocation, bsp_LocationName = ''main'',
     bsp_Run = Some demo_run_spec\<rparr>"

abbreviation demo_ended :: Backup where "demo_ended \<equiv> demo_backup_of [demo_volume VolumePhaseCompleted]"

lemma demo_ready_steps:
  "\<exists>rc. resolveRunContext demo_ready_ctl demo_namespaced_spec demo_ended demo_run_spec demo_st = (Inr rc, demo_ended, demo_st)"
  "resolveRun demo_ready_ctl demo_namespaced_spec demo_ended w = Inr (Some demo_run_spec)"
  "ensureVolumes demo_ready_ctl (brs_PVCSelector demo_run_spec) demo_ended w = Inr demo_ended"
  "openFreezeWindow demo_ready_ctl demo_ended (hookState demo_ended) (brs_Hooks demo_run_spec) demo_st =
     ((NoRequeue, False, None), demo_ended, demo_st)"
proof -
  show "\<exists>rc. resolveRunContext demo_ready_ctl demo_namespaced_spec demo_ended demo_run_spec demo_st = (Inr rc, demo_ended, demo_st)"
    by (simp add: resolveRunContext_def resolveBackupLocation_def demo_ready_ctl_def demo_namespaced_spec_def demo_ctl_env_def
        bindingFromNamespacedLocation_def Namespaced_def demo_run_spec_def demo_hooks_def ensureRepositoryPassword_def
        EnsureUserPassword_def passwordSecretRefName_def GenerateDEK_def create_or_read_def Let_def)
  show "resolveRun demo_ready_ctl demo_namespaced_spec demo_ended w = Inr (Some demo_run_spec)"
    by (simp add: resolveRun_def demo_namespaced_spec_def)
  show "ensureVolumes demo_ready_ctl (brs_PVCSelector demo_run_spec) demo_ended w = Inr demo_ended"
    by (simp add: ensureVolumes_def demo_ready_ctl_def demo_ctl_env_def)
  show "openFreezeWindow demo_ready_ctl demo_ended (hookState demo_ended) (brs_Hooks demo_run_spec) demo_st =
     ((NoRequeue, False, None), demo_ended, demo_st)"
    by (simp add: openFreezeWindow_def demo_backup_of_def empty_backup_def hookState_def advancePreHooks_def resolveHooks_def
        demo_ready_ctl_def demo_ctl_env_def demo_run_spec_def demo_hooks_def hookPhaseDeclared_def Resolve_def Let_def)
qed

lemma demo_ready_conditions: "conditions_by_type demo_ready_ctl"
proof -
  have f: "he_find_condition demo_ready_ctl = he_find_condition demo_ctl" "he_set_condition demo_ready_ctl = he_set_condition demo_ctl"
    by (simp_all add: demo_ready_ctl_def)
  have "conditions_by_type demo_ctl" by (rule demo_conditions)
  then show ?thesis unfolding conditions_by_type_def f .
qed

lemma demo_ended_verdicts: "\<forall>v \<in> set (b_volumes demo_ended). \<not> in_progress v" "manifests_settled demo_ready_ctl demo_ended"
  "postHooksRan demo_ended" "\<not> isTerminalBackupPhase (bs_Phase (b_Status demo_ended))"
  by (simp_all add: demo_backup_of_def demo_volume_def in_progress_def manifests_settled_def postHooksRan_def
      postHookMaxAttempts_def empty_backup_def isTerminalBackupPhase_def)

theorem terminal_phase_is_earned_witness:
  "\<exists>rc b'. b' = fst (snd (reconcile_live demo_ready_ctl demo_namespaced_spec demo_ended demo_st)) \<and>
     isTerminalBackupPhase (bs_Phase (b_Status b')) \<and> (\<forall>v \<in> set (b_volumes b'). \<not> in_progress v) \<and>
     manifests_settled demo_ready_ctl b' \<and>
     release_settled demo_ready_ctl (brs_Hooks demo_run_spec) b' (window_world demo_ready_ctl demo_run_spec rc demo_ended demo_st)"
proof -
  obtain ans b' st' where r: "reconcile_live demo_ready_ctl demo_namespaced_spec demo_ended demo_st = (ans, b', st')" by (metis prod_cases3)
  from demo_ready_steps(1) obtain rc
    where c: "resolveRunContext demo_ready_ctl demo_namespaced_spec demo_ended demo_run_spec demo_st = (Inr rc, demo_ended, demo_st)" ..
  have p: "run_pass demo_ready_ctl demo_run_spec rc demo_ended demo_st = (ans, b', st')"
    using r by (simp add: reconcile_live_def demo_ready_steps c)
  from ended_run_is_reported [OF this demo_ended_verdicts(1-3)] have t: "isTerminalBackupPhase (bs_Phase (b_Status b'))" .
  have i: "includeManifests demo_run_spec" by (simp add: includeManifests_def demo_run_spec_def)
  from terminal_phase_is_earned [OF demo_ready_conditions demo_ended_verdicts(4) r t] t i show ?thesis
    unfolding r fst_conv snd_conv by (auto simp: demo_ready_steps c)
qed

theorem teardown_only_after_the_write_witness:
  "\<exists>w0 r w pvc b'. b' = fst (snd (run_pass demo_ctl demo_run_spec demo_rc
       (demo_backup_of [demo_volume VolumePhaseUploading]) demo_st)) \<and>
     he_update_status demo_ctl b' w0 = (r, w) \<and>
     (pvc \<noteq> [] \<longrightarrow> persisted demo_ctl b' r w \<and> (\<exists>v \<in> set (b_volumes b'). Pvc v = pvc \<and> \<not> in_progress v))"
proof -
  have e: "demo_ctl\<lparr>ce_TeardownExposure := ce_TeardownExposure demo_ctl\<rparr> = demo_ctl" by simp
  from teardown_only_after_the_write [OF demo_backup_wf(1), of demo_ctl demo_run_spec demo_rc demo_st]
  obtain b' w0 r w pvc where "he_update_status demo_ctl b' w0 = (r, w)"
    and b': "\<And>T. fst (snd (run_pass (demo_ctl\<lparr>ce_TeardownExposure := T\<rparr>) demo_run_spec demo_rc
      (demo_backup_of [demo_volume VolumePhaseUploading]) demo_st)) = b'"
    and "pvc \<noteq> [] \<longrightarrow> persisted demo_ctl b' r w \<and> (\<exists>v \<in> set (b_volumes b'). Pvc v = pvc \<and> \<not> in_progress v)"
    by (elim exE conjE) (erule that, erule spec, assumption)
  then show ?thesis using b' [of "ce_TeardownExposure demo_ctl", unfolded e]
    by (intro exI [of _ w0] exI [of _ r] exI [of _ w] exI [of _ pvc] exI [of _ b'] conjI) simp_all
qed

definition demo_spec :: "unit BackupSpec" where
  "demo_spec = \<lparr>bsp_ScheduleRef = ''nightly'', bsp_LocationKind = [], bsp_LocationName = ''main'', bsp_Run = Some demo_run_spec\<rparr>"

theorem live_pass_refines_the_run_witness:
  "\<exists>names. distinct names \<and> volume_moves (demo_volume VolumePhaseUploading # map new_volume names)
     (b_volumes (fst (snd (reconcile_live demo_ctl demo_spec (demo_backup_of [demo_volume VolumePhaseUploading]) demo_st))))"
proof -
  let ?b = "demo_backup_of [demo_volume VolumePhaseUploading]"
  obtain ans b' st' where r: "reconcile_live demo_ctl demo_spec ?b demo_st = (ans, b', st')" by (metis prod_cases3)
  have "b_volumes ?b @ map new_volume names = demo_volume VolumePhaseUploading # map new_volume names" for names
    by (simp add: demo_backup_of_def)
  with live_pass_refines_the_run [OF demo_unique demo_backup_wf(1) r] show ?thesis unfolding r fst_conv snd_conv by auto
qed

theorem live_pass_keeps_the_status_well_formed_witness:
  "wf_volumes (b_volumes (fst (snd (reconcile_live demo_ctl demo_spec
     (demo_backup_of [demo_volume VolumePhaseUploading]) demo_st))))"
proof -
  obtain ans b' st' where r: "reconcile_live demo_ctl demo_spec (demo_backup_of [demo_volume VolumePhaseUploading]) demo_st =
    (ans, b', st')" by (metis prod_cases3)
  from live_pass_keeps_the_status_well_formed [OF demo_unique demo_backup_wf(1) r] show ?thesis unfolding r fst_conv snd_conv .
qed

lemma demo_sweep:
  "sweep_volumes (demo_ctl_env job pods) label (demo_backup_of [demo_volume VolumePhaseCompleted]) [demo_volume VolumePhaseCompleted] () = ([], ())"
  by (simp add: demo_volume_def cleanupVolumeExposure_def demo_ctl_env_def)

theorem cleaned_marker_only_when_clean_witness:
  "\<exists>label w1. sweep_volumes demo_ctl label (demo_backup_of [demo_volume VolumePhaseCompleted]) [demo_volume VolumePhaseCompleted] () = ([], w1)"
proof -
  let ?b = "demo_backup_of [demo_volume VolumePhaseCompleted]"
  have v: "b_volumes ?b = [demo_volume VolumePhaseCompleted]" by (simp add: demo_backup_of_def)
  have res: "exposureResidueRemains demo_ctl ?b () = []"
    by (simp add: exposureResidueRemains_def demo_ctl_env_def demo_backup_of_def empty_backup_def residue_in_def Let_def)
  have ann: "annotation ?b AnnotationExposuresCleaned \<noteq> AnnotationExposuresCleanedValue"
    by (simp add: demo_backup_of_def empty_backup_def map_get_def)
  have "ensureTerminalTeardown (demo_ctl\<lparr>ce_patch := \<lambda>_ w. (None, w)\<rparr>) ?b () \<noteq>
      ensureTerminalTeardown (demo_ctl\<lparr>ce_patch := \<lambda>_ w. (Some Conflict, w)\<rparr>) ?b ()"
    using ann res by (simp add: ensureTerminalTeardown_def v demo_sweep Let_def del: sweep_volumes.simps)
  from cleaned_marker_only_when_clean [OF this] show ?thesis unfolding v by blast
qed

theorem finalizer_held_until_clean_witness:
  "\<exists>label w1. sweep_volumes demo_ctl label (demo_backup_of [demo_volume VolumePhaseCompleted]) [demo_volume VolumePhaseCompleted] () = ([], w1)"
proof -
  let ?b = "demo_backup_of [demo_volume VolumePhaseCompleted]"
  have v: "b_volumes ?b = [demo_volume VolumePhaseCompleted]" by (simp add: demo_backup_of_def)
  have f: "has_finalizer ?b" by (simp add: demo_backup_of_def)
  have "finalize (demo_ctl\<lparr>ce_update := \<lambda>_ w. (None, w)\<rparr>) ?b demo_st \<noteq>
      finalize (demo_ctl\<lparr>ce_update := \<lambda>_ w. (Some Conflict, w)\<rparr>) ?b demo_st"
    using f by (simp add: finalize_def v demo_sweep Let_def del: sweep_volumes.simps)
  from finalizer_held_until_clean [OF this] show ?thesis unfolding v by simp
qed

lemma demo_manifests:
  "bs_Manifests (b_Status (fst (snd (advanceManifests demo_ctl empty_backup demo_rc True False ())))) \<noteq> None"
proof -
  have t: "TrimSpace ''m'' \<noteq> []" by code_simp
  have r: "readMoverResult (be_unmarshal_result demo_ctl) (be_job_pods demo_ctl n ()) =
      (zero_result\<lparr>OK := True, mr_SnapshotID := ''abc''\<rparr>, ''n1'', None)" for n
    using t by (simp add: demo_ctl_env_def demo_done_pod_def demo_pod_def readMoverResult_def parsed_result_def
      ParseMoverResult_def first_termination_def)
  have j: "be_get_job demo_ctl () ns n = Inr demo_done_job" for ns n by (simp add: demo_ctl_env_def)
  have c: "he_find_condition demo_ctl [] t = None" for t by (simp add: demo_ctl_env_def)
  have "j_Succeeded demo_done_job \<noteq> 0" by (simp add: demo_done_job_def)
  then show ?thesis
    by (simp add: advanceManifests_def r j c Let_def empty_backup_def record_manifests_def)
qed

theorem manifests_recorded_only_from_a_result_witness:
  "\<exists>result :: MoverResult. OK result \<and> bs_Manifests (b_Status (fst (snd (advanceManifests demo_ctl empty_backup demo_rc True False ())))) =
     Some \<lparr>ms_SnapshotID = mr_SnapshotID result, ms_ResourceCount = mr_ResourceCount result\<rparr>"
proof -
  obtain d stem err b' w' where s: "advanceManifests demo_ctl empty_backup demo_rc True False () = ((d, stem, err), b', w')"
    by (metis prod_cases3)
  have "bs_Manifests (b_Status b') \<noteq> bs_Manifests (b_Status empty_backup)"
    using demo_manifests unfolding s by (simp add: empty_backup_def)
  with manifests_recorded_only_from_a_result [OF s] show ?thesis unfolding s fst_conv snd_conv by blast
qed

end
