(* ===== verification/Cluster_Safety.thy ===== *)
theory Cluster_Safety
  imports Cluster_Backup Backup_Safety
begin

text \<open>
  What a cluster-wide run promises: its ledger has one verdict for every namespace it answers for,
  its fan-out touches only coordinates that are free or its own, a child leads back to its run, and
  a run announced Completed has protected every namespace it matched, down to the volumes.
\<close>

section \<open>The ledger\<close>

text \<open>The reference reading of the children: the last listed Backup of the run's name in a namespace.\<close>

definition child_at :: "Backup list \<Rightarrow> string \<Rightarrow> string \<Rightarrow> Backup option" where
  "child_at children run ns =
     (let cs = filter (\<lambda>c. b_name c = run \<and> b_ns c = ns) children in if cs = [] then None else Some (last cs))"

definition stray_namespaces :: "Backup list \<Rightarrow> string \<Rightarrow> string \<Rightarrow> string list \<Rightarrow> string set" where
  "stray_namespaces children run uid matched =
     {ns. ns \<notin> set matched \<and> (\<exists>c. child_at children run ns = Some c \<and> annotation c AnnotationParentUID = uid)}"

abbreviation coordinates :: "string \<Rightarrow> Backup list \<Rightarrow> (string \<times> Backup) list" where
  "coordinates run children \<equiv> foldl (\<lambda>m c. if b_name c \<noteq> run then m else AList.update (b_ns c) c m) [] children"

lemma coordinates_child_at: "map_of (coordinates run children) ns = child_at children run ns"
  and coordinates_distinct: "distinct (map fst (coordinates run children))"
proof -
  have "map_of (coordinates run children) ns = child_at children run ns \<and> distinct (map fst (coordinates run children))" for ns
  proof (induction children rule: rev_induct)
    case (snoc c cs)
    then show ?case by (auto simp: child_at_def update_conv' Let_def intro: distinct_update)
  qed (simp add: child_at_def)
  then show "map_of (coordinates run children) ns = child_at children run ns"
    and "distinct (map fst (coordinates run children))" by blast+
qed

lemma child_at_SomeD: "child_at children run ns = Some c \<Longrightarrow> c \<in> set children \<and> b_name c = run \<and> b_ns c = ns"
proof -
  assume "child_at children run ns = Some c"
  then have "filter (\<lambda>c. b_name c = run \<and> b_ns c = ns) children \<noteq> []"
    "c = last (filter (\<lambda>c. b_name c = run \<and> b_ns c = ns) children)"
    by (simp_all add: child_at_def Let_def split: if_splits)
  then have "c \<in> set (filter (\<lambda>c. b_name c = run \<and> b_ns c = ns) children)" using last_in_set by blast
  then show ?thesis by simp
qed

lemma count_volume_fold:
  "foldl count_volume l vs = l\<lparr>rl_pvcsSucceeded := rl_pvcsSucceeded l + of_nat (length (filter (\<lambda>v. Phase v = VolumePhaseCompleted) vs)),
     rl_pvcsFailed := rl_pvcsFailed l + of_nat (length (filter (\<lambda>v. Phase v = VolumePhaseFailed) vs)),
     rl_addedBytes := rl_addedBytes l + of_int (sum_list (map AddedBytes vs))\<rparr>"
  by (induction vs arbitrary: l) (simp_all add: count_volume_def add_ac)

text \<open>
  What a run says of a namespace, read off the collisions it met and the children listed: Blocked where its own child
  could not be created or the coordinate is held by a projection, in flight where there is no child, and what the
  child's phase says otherwise.
\<close>

definition blocked_at :: "string \<Rightarrow> collisions \<Rightarrow> Backup list \<Rightarrow> string \<Rightarrow> bool" where
  "blocked_at run collided children ns \<longleftrightarrow> ns \<in> fst ` set collided \<or>
     (\<exists>c. child_at children run ns = Some c \<and> annotation c AnnotationProjected = AnnotationProjectedValue)"

definition expected_outcome :: "string \<Rightarrow> collisions \<Rightarrow> Backup list \<Rightarrow> string \<Rightarrow> NamespaceOutcome" where
  "expected_outcome run collided children ns =
     (if blocked_at run collided children ns then NamespaceBlocked
      else case child_at children run ns of
             None \<Rightarrow> NamespaceInFlight
           | Some c \<Rightarrow>
               if bs_Phase (b_Status c) \<in> {''Completed'', ''PartiallyCompleted''} then NamespaceSucceeded
               else if bs_Phase (b_Status c) \<in> {''PartiallyFailed'', ''Failed''} then NamespaceFailed
               else NamespaceInFlight)"

text \<open>
  A verdict that says so, with its evidence: facts exactly for a blocked namespace, which say whether the object there
  carries this run's stamp, and a failure record exactly for a blocked or failed one, naming the namespace and the run.
\<close>

definition accountable :: "string \<Rightarrow> string \<Rightarrow> collisions \<Rightarrow> Backup list \<Rightarrow> namespaceVerdict \<Rightarrow> bool" where
  "accountable run uid collided children v \<longleftrightarrow>
     nv_outcome v = expected_outcome run collided children (nv_namespace v) \<and>
     (nv_blocked v \<noteq> None \<longleftrightarrow> blocked_at run collided children (nv_namespace v)) \<and>
     (\<forall>f. nv_blocked v = Some f \<and> nv_namespace v \<in> fst ` set collided \<longrightarrow>
        (bf_stampedByRun f \<longleftrightarrow> (\<exists>c. child_at children run (nv_namespace v) = Some c \<and> annotation c AnnotationParentUID = uid))) \<and>
     (nv_failure v \<noteq> None \<longleftrightarrow> nv_outcome v = NamespaceBlocked \<or> nv_outcome v = NamespaceFailed) \<and>
     (\<forall>f. nv_failure v = Some f \<longrightarrow> fr_Namespace f = nv_namespace v \<and> fr_Backup f = run)"

lemma verdict_of_namespace: "nv_namespace (verdict_of e run uid created collided ns child) = ns"
  by (simp add: verdict_of_def Let_def split: option.split)

lemma verdict_of_blocked:
  "nv_blocked (verdict_of e run uid created collided ns (child_at children run ns)) = None \<longleftrightarrow> \<not> blocked_at run collided children ns"
  by (auto simp: verdict_of_def blocked_at_def Let_def map_of_eq_None_iff [symmetric] split: option.splits)

lemma verdict_of_accountable:
  "accountable run uid collided children (verdict_of e run uid created collided ns (child_at children run ns))"
proof (cases "map_of collided ns")
  case (Some bc)
  then have "ns \<in> fst ` set collided" using map_of_SomeD by force
  then show ?thesis using Some
    by (auto simp: accountable_def expected_outcome_def blocked_at_def verdict_of_def Let_def split: option.splits)
next
  case None
  then have n: "ns \<notin> fst ` set collided" by (simp add: map_of_eq_None_iff)
  show ?thesis
  proof (cases "child_at children run ns")
    case none: None
    then show ?thesis using None n by (simp add: accountable_def expected_outcome_def blocked_at_def verdict_of_def)
  next
    case (Some c)
    have "b_name c = run" using child_at_SomeD [OF Some] by simp
    then show ?thesis using None n Some
      by (auto simp: accountable_def expected_outcome_def blocked_at_def verdict_of_def OutcomeForBackupPhase_def Let_def)
  qed
qed

text \<open>The volumes a run counts: those of its children in namespaces that are not blocked.\<close>

definition counted_volumes :: "string \<Rightarrow> collisions \<Rightarrow> Backup list \<Rightarrow> string list \<Rightarrow> VolumeStatus list" where
  "counted_volumes run collided children nss =
     concat (map (\<lambda>ns. case child_at children run ns of
       Some c \<Rightarrow> if blocked_at run collided children ns then [] else b_volumes c
     | None \<Rightarrow> []) nss)"

lemma add_verdict_fold:
  fixes l :: runLedger
  assumes "\<And>ns. map_of at ns = child_at children run ns"
  shows "foldl (add_verdict e run uid created collided at) l nss =
    (let vs = counted_volumes run collided children nss
     in (foldl count_volume l vs)\<lparr>rl_verdicts := rl_verdicts l @
          map (\<lambda>ns. verdict_of e run uid created collided ns (child_at children run ns)) nss\<rparr>)"
proof (induction nss arbitrary: l)
  case (Cons ns nss)
  define v where "v = verdict_of e run uid created collided ns (child_at children run ns)"
  have blocked: "nv_blocked v = None \<longleftrightarrow> \<not> blocked_at run collided children ns" unfolding v_def by (rule verdict_of_blocked)
  have c: "counted_volumes run collided children (ns # nss) =
      (case child_at children run ns of Some c \<Rightarrow> if nv_blocked v = None then b_volumes c else [] | None \<Rightarrow> []) @
      counted_volumes run collided children nss"
    by (simp add: counted_volumes_def blocked split: option.split)
  have step: "add_verdict e run uid created collided at l ns =
      (foldl count_volume l (case child_at children run ns of Some c \<Rightarrow> if nv_blocked v = None then b_volumes c else [] | None \<Rightarrow> []))
        \<lparr>rl_verdicts := rl_verdicts l @ [v]\<rparr>"
    unfolding add_verdict_def Let_def assms v_def [symmetric]
    by (simp add: count_volume_fold split: option.split)
  show ?case
    unfolding foldl_Cons Cons.IH Let_def c step by (simp add: count_volume_fold v_def add_ac)
qed (simp add: counted_volumes_def)

lemma buildRunLedger_eq:
  obtains strays where "sorted strays" "distinct strays" "set strays = stray_namespaces children run uid matched"
    "rl_verdicts (buildRunLedger e run uid created matched children collided) =
       map (\<lambda>ns. verdict_of e run uid created collided ns (child_at children run ns)) (matched @ strays)"
    "length strays \<le> length children"
    "buildRunLedger e run uid created matched children collided =
       (foldl count_volume \<lparr>rl_verdicts = [], rl_pvcsSucceeded = 0, rl_pvcsFailed = 0, rl_addedBytes = 0\<rparr>
         (counted_volumes run collided children (matched @ strays)))\<lparr>rl_verdicts :=
           map (\<lambda>ns. verdict_of e run uid created collided ns (child_at children run ns)) (matched @ strays)\<rparr>"
proof -
  let ?at = "coordinates run children"
  define strays where "strays = sort (map fst (filter (\<lambda>(ns, child). \<not> (ns \<in> set matched \<or>
      annotation child AnnotationParentUID \<noteq> uid)) ?at))"
  have d: "distinct (map fst ?at)" by (rule coordinates_distinct)
  have mem: "(ns, c) \<in> set ?at \<longleftrightarrow> child_at children run ns = Some c" for ns c
    using map_of_eq_Some_iff [OF d, of ns c] unfolding coordinates_child_at by blast
  have "set strays = stray_namespaces children run uid matched"
    unfolding strays_def stray_namespaces_def by (force simp: mem)
  moreover have "sorted strays" "distinct strays" using d by (simp_all add: strays_def distinct_map_filter)
  moreover have "length strays \<le> length children"
  proof -
    have "length ?at \<le> length children"
    proof (induction children rule: rev_induct)
      case (snoc c cs)
      have "length (AList.update k v al) \<le> Suc (length al)" for k and v :: Backup and al by (induction al) auto
      from this [of "b_ns c" c "coordinates run cs"] snoc show ?case by simp
    qed simp
    then show ?thesis unfolding strays_def length_sort length_map by (rule order_trans [OF length_filter_le])
  qed
  moreover have "buildRunLedger e run uid created matched children collided =
       (foldl count_volume \<lparr>rl_verdicts = [], rl_pvcsSucceeded = 0, rl_pvcsFailed = 0, rl_addedBytes = 0\<rparr>
         (counted_volumes run collided children (matched @ strays)))\<lparr>rl_verdicts :=
           map (\<lambda>ns. verdict_of e run uid created collided ns (child_at children run ns)) (matched @ strays)\<rparr>"
    unfolding buildRunLedger_def Let_def strays_def [symmetric]
    by (subst add_verdict_fold [where children = children]) (simp_all add: coordinates_child_at Let_def)
  ultimately show ?thesis using that by simp
qed

text \<open>
  C10: the ledger of a run has exactly one verdict per namespace it answers for: the matched ones, in their order, then
  the namespaces outside the selector in which this run has a child, in ascending order. Each verdict is the right one:
  Blocked where the run met a collision or a projection holds the coordinate, in flight where no child is
  listed, and otherwise succeeded for a child that is Completed or PartiallyCompleted, failed for one that is PartiallyFailed or
  Failed, in flight for one that has not ended; it has blocking facts exactly when Blocked and a failure record exactly when Blocked or
  failed. Volumes that completed and that failed, and the bytes they added, are counted from the children of the namespaces
  that are not blocked, in 32- and 64-bit arithmetic.
\<close>

theorem ledger_accounts_for_every_namespace:
  assumes "l = buildRunLedger e run uid created matched children collided"
  shows "\<exists>strays. map nv_namespace (rl_verdicts l) = matched @ strays \<and>
     sorted strays \<and> distinct strays \<and> set strays = stray_namespaces children run uid matched \<and>
     (\<forall>v \<in> set (rl_verdicts l). accountable run uid collided children v) \<and>
     rl_pvcsSucceeded l = of_nat (length (filter (\<lambda>v. Phase v = VolumePhaseCompleted) (counted_volumes run collided children (matched @ strays)))) \<and>
     rl_pvcsFailed l = of_nat (length (filter (\<lambda>v. Phase v = VolumePhaseFailed) (counted_volumes run collided children (matched @ strays)))) \<and>
     rl_addedBytes l = of_int (sum_list (map AddedBytes (counted_volumes run collided children (matched @ strays))))"
proof -
  obtain strays where s: "sorted strays" "distinct strays" "set strays = stray_namespaces children run uid matched"
    "rl_verdicts (buildRunLedger e run uid created matched children collided) =
       map (\<lambda>ns. verdict_of e run uid created collided ns (child_at children run ns)) (matched @ strays)"
    "buildRunLedger e run uid created matched children collided =
       (foldl count_volume \<lparr>rl_verdicts = [], rl_pvcsSucceeded = 0, rl_pvcsFailed = 0, rl_addedBytes = 0\<rparr>
         (counted_volumes run collided children (matched @ strays)))\<lparr>rl_verdicts :=
           map (\<lambda>ns. verdict_of e run uid created collided ns (child_at children run ns)) (matched @ strays)\<rparr>"
    by (rule buildRunLedger_eq)
  have "map nv_namespace (rl_verdicts l) = matched @ strays"
    unfolding assms s(4) map_map comp_def verdict_of_namespace by simp
  moreover have "\<forall>v \<in> set (rl_verdicts l). accountable run uid collided children v"
    unfolding assms s(4) set_map by (intro ballI) (erule imageE, simp only: verdict_of_accountable)
  ultimately show ?thesis using s(1-3) unfolding assms s(5)
    by (intro exI [of _ strays] conjI) (simp_all add: count_volume_fold)
qed

section \<open>The verdict of a run\<close>

definition honest :: "Backup \<Rightarrow> bool" where
  "honest b \<longleftrightarrow> (OutcomeForBackupPhase (bs_Phase (b_Status b)) = NamespaceSucceeded \<longrightarrow>
     (\<forall>v \<in> set (b_volumes b). \<not> in_progress v \<and> Phase v \<noteq> VolumePhaseFailed))"

lemma status_to_write_honest: "honest (status_to_write e now d ow b)"
proof -
  have "bs_Phase (b_Status (status_to_write e now d ow b)) \<in> {BackupPhaseUploading, RollUpVolumePhases (b_volumes b)}"
    by (simp add: status_to_write_def setTerminalCondition_def setCompletionTime_def Let_def)
  moreover have "OutcomeForBackupPhase BackupPhaseUploading \<noteq> NamespaceSucceeded" by (simp add: OutcomeForBackupPhase_def)
  moreover have "RollUpVolumePhases vs = BackupPhaseCompleted" if "OutcomeForBackupPhase (RollUpVolumePhases vs) = NamespaceSucceeded" for vs
    using that RollUpVolumePhases_cases [of vs] by (auto simp: OutcomeForBackupPhase_def split: if_splits)
  ultimately show ?thesis using RollUpVolumePhases_CompletedD [of "b_volumes b"]
    unfolding honest_def status_to_write_frame by fastforce
qed

lemma aggregate_phase:
  "cs_Phase (cb_Status (aggregate_status e now cb matched ff l d)) = run_phase (outcomes l) d"
  by (simp add: aggregate_status_def setClusterBackupCondition_def set_cluster_cond_def Let_def)

lemma verdict_succeeded:
  assumes "nv_outcome (verdict_of e run uid created collided ns child) = NamespaceSucceeded"
  obtains c where "child = Some c" "map_of collided ns = None" "annotation c AnnotationProjected \<noteq> AnnotationProjectedValue"
    "OutcomeForBackupPhase (bs_Phase (b_Status c)) = NamespaceSucceeded"
  using assms unfolding verdict_of_def by (auto simp: Let_def split: option.splits if_splits)

text \<open>
  C2: a run is announced Completed only over protected namespaces. When the aggregate turns
  Completed, the capture is done and every matched namespace has a child of the run's
  name, uncollided and no projection, that ended in success; and if the children report honestly, no
  volume of any of them failed or is still open.
\<close>

theorem completed_run_protects_every_namespace:
  assumes l: "le_list_children e [LabelClusterBackup \<mapsto> cb_name cb] (lw st) = Inr children"
    and small: "length matched + length children < 2 ^ 31"
    and a: "aggregateAndWrite e cb matched ff collided d st = (ans, cb', st')"
    and c: "cs_Phase (cb_Status cb') = ClusterBackupPhaseCompleted"
    and ns: "ns \<in> set matched"
  shows "d \<and> (\<exists>child. child_at children (cb_name cb) ns = Some child \<and> map_of collided ns = None \<and>
    annotation child AnnotationProjected \<noteq> AnnotationProjectedValue \<and>
    OutcomeForBackupPhase (bs_Phase (b_Status child)) = NamespaceSucceeded \<and>
    (honest child \<longrightarrow> (\<forall>v \<in> set (b_volumes child). \<not> in_progress v \<and> Phase v \<noteq> VolumePhaseFailed)))"
proof -
  let ?created = "m_CreationTimestamp (cb_Meta cb)"
  let ?l = "buildRunLedger e (cb_name cb) (cb_uid cb) ?created matched children collided"
  obtain strays where s: "rl_verdicts ?l =
      map (\<lambda>ns. verdict_of e (cb_name cb) (cb_uid cb) ?created collided ns (child_at children (cb_name cb) ns)) (matched @ strays)"
    "length strays \<le> length children" by (rule buildRunLedger_eq)
  have "\<exists>now. cb' = aggregate_status e now cb matched ff ?l d"
    using a l by (auto simp: aggregateAndWrite_def Let_def split: prod.splits option.splits)
  then have ph: "run_phase (outcomes ?l) d = ClusterBackupPhaseCompleted" using c by (auto simp: aggregate_phase)
  have ne: "outcomes ?l \<noteq> []" using ns by (auto simp: outcomes_def s(1))
  have len: "length (outcomes ?l) < 2 ^ 31" using s(2) small by (simp add: outcomes_def s(1))
  have roll: "d \<and> RollUpNamespaceOutcomes (outcomes ?l) = ClusterBackupPhaseCompleted"
    using ph ne by (auto simp: run_phase_def isTerminalClusterBackupPhase_def Let_def split: if_splits)
  then have "set (outcomes ?l) \<subseteq> {NamespaceSucceeded}"
    unfolding RollUpNamespaceOutcomes_eq [OF len] using ne by (auto split: if_splits)
  then have "nv_outcome (verdict_of e (cb_name cb) (cb_uid cb) ?created collided ns (child_at children (cb_name cb) ns)) = NamespaceSucceeded"
    using ns by (auto simp: outcomes_def s(1))
  then show ?thesis using roll by (auto simp: honest_def elim!: verdict_succeeded)
qed

section \<open>Backups report honestly\<close>

lemma honest_open: "OutcomeForBackupPhase (b_phase b) \<noteq> NamespaceSucceeded \<Longrightarrow> honest b"
  by (simp add: honest_def)

text \<open>
  C8: a Backup never reports success over an unfinished or failed volume: whatever a live pass
  leaves behind, a phase that counts as success means that every volume of the same status has ended and
  none has failed. So the aggregate of a cluster run may rest on the phase alone.
\<close>

theorem success_is_reported_honestly:
  assumes live: "\<not> isTerminalBackupPhase (b_phase b)" and p: "reconcile_live e spec b st = (ans, b', st')"
  shows "honest b'"
proof -
  have o: "OutcomeForBackupPhase (b_phase b) \<noteq> NamespaceSucceeded"
    using live by (auto simp: isTerminalBackupPhase_def OutcomeForBackupPhase_def)
  have g: "honest b1" if "gate e reason m b st0 = (x, b1, st1)" for reason m st0 x b1 st1
  proof -
    have "b_phase b1 = BackupPhasePending" using that by (auto simp: gate_def Let_def split: prod.splits option.splits)
    then show ?thesis by (intro honest_open) (simp add: OutcomeForBackupPhase_def)
  qed
  show ?thesis
  proof (cases "resolveRun e spec b (bw st)")
    case (Inl err)
    then show ?thesis using p honest_open [OF o] by (simp add: reconcile_live_def)
  next
    case (Inr orun)
    show ?thesis
    proof (cases orun)
      case None
      with p Inr obtain m where "gate e ''NoRunSpec'' m b st = (ans, b', st')" by (simp add: reconcile_live_def)
      then show ?thesis by (rule g)
    next
      case (Some run)
      obtain x b1 st1 where x: "resolveRunContext e spec b run st = (x, b1, st1)" by (metis prod_cases3)
      have h1: "honest b1" using resolveRunContext_gate [OF x] g honest_open [OF o] by blast
      show ?thesis
      proof (cases x)
        case (Inl a)
        then show ?thesis using p Inr Some x h1 by (simp add: reconcile_live_def)
      next
        case rc: (Inr rc)
        with resolveRunContext_frame(2) [OF x] have b1: "b1 = b" by blast
        show ?thesis
        proof (cases "ensureVolumes e (brs_PVCSelector run) b (bw st1)")
          case (Inl err)
          then show ?thesis using p Inr Some x rc b1 h1 by (simp add: reconcile_live_def)
        next
          case ev: (Inr b2)
          have ph2: "b_phase b2 = b_phase b" using ev by (auto simp: ensureVolumes_def Let_def split: sum.splits)
          obtain res stop err b3 st3 where w: "openFreezeWindow e b2 (hookState b2) (brs_Hooks run) st1 = ((res, stop, err), b3, st3)"
            by (metis prod_cases3)
          have "OutcomeForBackupPhase (b_phase b3) \<noteq> NamespaceSucceeded"
            using openFreezeWindow_phase [OF w] o by (auto simp: ph2 OutcomeForBackupPhase_def)
          moreover have "b' = b3 \<or> run_pass e run rc b3 st3 = (ans, b', st')"
            using p Inr Some x rc b1 ev w by (simp add: reconcile_live_def split: if_splits)
          moreover have "honest b'" if "run_pass e run rc b3 st3 = (ans, b', st')"
            using that by (rule run_pass_cases) (simp add: status_to_write_honest)
          ultimately show ?thesis using honest_open by blast
        qed
      qed
    qed
  qed
qed

section \<open>The fan-out\<close>

lemma resolveExistingChild_cases:
  assumes "cb_uid cb \<noteq> []" and "resolveExistingChild e cb existing st = (r, st')"
  shows "(r = None \<longrightarrow> annotation existing AnnotationParentUID \<in> {[], cb_uid cb}) \<and>
    (lw st' \<noteq> lw st \<longrightarrow> \<not> backupHasResults existing \<and> annotation existing AnnotationParentUID = [] \<and>
       lw st' = snd (le_patch_child e (existing\<lparr>b_Meta := (b_Meta existing)\<lparr>m_Annotations :=
         (m_Annotations (b_Meta existing))(AnnotationParentUID \<mapsto> cb_uid cb)\<rparr>\<rparr>) (lw st))) \<and>
    (\<forall>c. r = Some (ChildCollision c) \<longrightarrow> st' = st \<and> rc_HasData c = backupHasResults existing)"
proof -
  obtain owner reason where o: "classifyCoordinate existing (cb_uid cb) (m_CreationTimestamp (cb_Meta cb)) = (owner, reason)"
    by (metis surj_pair)
  have own: "owner = coordinateMine \<Longrightarrow> annotation existing AnnotationParentUID = cb_uid cb"
    "owner = coordinateAdoptable \<Longrightarrow> annotation existing AnnotationParentUID = [] \<and> \<not> backupHasResults existing"
    "cr_HasResults reason = backupHasResults existing"
    using o assms(1) by (auto simp: classifyCoordinate_def newCoordinateReason_def Let_def split: if_splits)
  show ?thesis using assms(2) own
    by (cases owner) (auto simp: resolveExistingChild_def o Let_def split: prod.splits option.splits)
qed

text \<open>
  C9: the fan-out touches only what is its own. Whatever it finds at a coordinate, it either leaves
  the cluster as it is or puts this run's stamp, and nothing else, on an unstamped object
  without results; an object of another run, or an unstamped one with results, is left alone and reported
  as a collision that says truthfully whether it holds data.
\<close>

theorem fan_out_respects_ownership:
  assumes uid: "cb_uid cb \<noteq> []" and s: "ensureChildBackup e spec cb ns st = (r, st')"
    and found: "le_get_child e ns (cb_name cb) (lw st) = Inr existing"
  shows "(r = None \<longrightarrow> annotation existing AnnotationParentUID \<in> {[], cb_uid cb}) \<and>
    (lw st' \<noteq> lw st \<longrightarrow> \<not> backupHasResults existing \<and> annotation existing AnnotationParentUID = [] \<and>
       lw st' = snd (le_patch_child e (existing\<lparr>b_Meta := (b_Meta existing)\<lparr>m_Annotations :=
         (m_Annotations (b_Meta existing))(AnnotationParentUID \<mapsto> cb_uid cb)\<rparr>\<rparr>) (lw st))) \<and>
    (annotation existing AnnotationParentUID \<notin> {[], cb_uid cb} \<or> backupHasResults existing \<and> annotation existing AnnotationParentUID = [] \<longrightarrow>
       st' = st \<and> (\<exists>c. r = Some (ChildCollision c) \<and> rc_HasData c = backupHasResults existing))"
proof -
  have e: "resolveExistingChild e cb existing st = (r, st')" using s found by (simp add: ensureChildBackup_def)
  note c = resolveExistingChild_cases [OF uid e]
  have "fst (classifyCoordinate existing (cb_uid cb) (m_CreationTimestamp (cb_Meta cb))) = coordinateForeign"
    if "annotation existing AnnotationParentUID \<notin> {[], cb_uid cb} \<or> backupHasResults existing \<and> annotation existing AnnotationParentUID = []"
    using that uid by (auto simp: classifyCoordinate_def Let_def)
  then have "\<exists>c. r = Some (ChildCollision c)"
    if "annotation existing AnnotationParentUID \<notin> {[], cb_uid cb} \<or> backupHasResults existing \<and> annotation existing AnnotationParentUID = []"
    using that e unfolding resolveExistingChild_def
    by (cases "classifyCoordinate existing (cb_uid cb) (m_CreationTimestamp (cb_Meta cb))") auto
  then show ?thesis using c by blast
qed

text \<open>
  A child leads back to its run. The object the fan-out creates is found again as this run's
  own, its watch event wakes exactly this run, its label is what the aggregate lists by, and its own
  reconcile resolves the run configuration of its parent.
\<close>

theorem children_lead_back:
  assumes "cb_uid cb \<noteq> []" and "cb_name cb \<noteq> []"
  shows "fst (classifyCoordinate (child_backup spec cb ns) (cb_uid cb) created) = coordinateMine \<and>
    mapChildToRun (m_Labels (b_Meta (child_backup spec cb ns))) = [cb_name cb] \<and>
    map_get (m_Labels (b_Meta (child_backup spec cb ns))) LabelClusterBackup = cb_name cb \<and>
    child_at [child_backup spec cb ns] (cb_name cb) ns = Some (child_backup spec cb ns) \<and>
    resolveRun e (child_spec spec) (child_backup spec cb ns) w = Inr (Some (cls_Run spec)) \<and>
    nv_outcome (verdict_of e' (cb_name cb) (cb_uid cb) created [] ns (Some (child_backup spec cb ns))) = NamespaceInFlight"
proof -
  have l: "map_get (m_Labels (b_Meta (child_backup spec cb ns))) LabelClusterBackup = cb_name cb"
    "map_get (m_Labels (b_Meta (child_backup spec cb ns))) LabelOrigin = OriginCluster"
    by (simp_all add: child_backup_def childBackupLabels_def Let_def)
  have n: "b_name (child_backup spec cb ns) = cb_name cb" "b_ns (child_backup spec cb ns) = ns"
    by (simp_all add: child_backup_def)
  have a: "annotation (child_backup spec cb ns) AnnotationParentUID = cb_uid cb"
    "annotation (child_backup spec cb ns) AnnotationProjected = []" "b_phase (child_backup spec cb ns) = []"
    by (simp_all add: child_backup_def)
  have "fst (classifyCoordinate (child_backup spec cb ns) (cb_uid cb) created) = coordinateMine"
    using assms(1) a(1) by (simp add: classifyCoordinate_def Let_def)
  moreover have "mapChildToRun (m_Labels (b_Meta (child_backup spec cb ns))) = [cb_name cb]"
    unfolding mapChildToRun_def l Let_def using assms(2) by simp
  moreover have "child_at [child_backup spec cb ns] (cb_name cb) ns = Some (child_backup spec cb ns)"
    by (simp add: child_at_def n)
  moreover have "resolveRun e (child_spec spec) (child_backup spec cb ns) w = Inr (Some (cls_Run spec))"
    by (simp add: resolveRun_def child_spec_def)
  moreover have "nv_outcome (verdict_of e' (cb_name cb) (cb_uid cb) created [] ns (Some (child_backup spec cb ns))) = NamespaceInFlight"
    by (simp add: verdict_of_def a OutcomeForBackupPhase_def Let_def)
  ultimately show ?thesis using l(1) by blast
qed

text \<open>
  The label selector of the cluster-scoped capture has no effect: two runs that differ only in it are
  reconciled alike.
\<close>

lemma cluster_label_selector_is_ignored:
  "reconcile_run e (spec\<lparr>cls_ClusterResources := (cls_ClusterResources spec)\<lparr>crc_LabelSelector := sel\<rparr>\<rparr>) cb st =
     reconcile_run e spec cb st"
proof -
  let ?s = "spec\<lparr>cls_ClusterResources := (cls_ClusterResources spec)\<lparr>crc_LabelSelector := sel\<rparr>\<rparr>"
  have c: "child_spec ?s = child_spec spec" "child_backup ?s cb ns = child_backup spec cb ns" for ns
    by (simp_all add: child_spec_def child_backup_def childBackupLabels_def Let_def)
  have en: "ensureChildBackup e ?s cb ns st = ensureChildBackup e spec cb ns st" for ns st
    unfolding ensureChildBackup_def c ..
  have f: "fan_out e ?s cb nss ff collided st = fan_out e spec cb nss ff collided st" for nss ff collided st
    by (induction nss arbitrary: ff collided st) (simp_all add: en split: prod.split option.split child_error.split)
  have k: "cls_ScheduleRef ?s = cls_ScheduleRef spec" "cls_LocationRef ?s = cls_LocationRef spec"
    "cls_Namespaces ?s = cls_Namespaces spec" "crc_Enabled (cls_ClusterResources ?s) = crc_Enabled (cls_ClusterResources spec)"
    "crc_Include (cls_ClusterResources ?s) = crc_Include (cls_ClusterResources spec)"
    "crc_Exclude (cls_ClusterResources ?s) = crc_Exclude (cls_ClusterResources spec)" by simp_all
  have cap: "capture_step e ?s cb loc matched w = capture_step e spec cb loc matched w" for loc matched w
    unfolding capture_step_def captureClusterManifests_def resolveClusterCaptureContext_def k ..
  show ?thesis unfolding reconcile_run_def f k cap ..
qed

section \<open>A concrete run\<close>

definition demo_cluster_env :: "Backup list \<Rightarrow> (unit, unit, unit, unit) cluster_env" where
  "demo_cluster_env children = ctl_env.extend demo_ctl (cluster_env.fields ''reader'' (\<lambda>_ _. Inl NotFound) (\<lambda>_ w. (None, w))
     (\<lambda>_. Inr []) \<lparr>compile_labels = \<lambda>_. None, compile_expressions = \<lambda>_. None, compile_regexp = \<lambda>_. None\<rparr> (\<lambda>_. [])
     (\<lambda>_ _ _. case children of [] \<Rightarrow> Inl NotFound | c # _ \<Rightarrow> Inr c) (\<lambda>_ _ w. (None, w)) (\<lambda>_ w. (None, w)) (\<lambda>_ _. Inr children)
     (\<lambda>_ w. (None, w)) (\<lambda>_ w. (None, w)) (\<lambda>_ w. (None, w)) (\<lambda>_ _. Inr []))"

lemmas demo_cluster_simps = demo_cluster_env_def ctl_env.extend_def cluster_env.fields_def

definition demo_cluster_spec :: "unit ClusterBackupSpec" where
  "demo_cluster_spec = \<lparr>cls_ScheduleRef = [], cls_LocationRef = ''main'',
     cls_Namespaces = \<lparr>MatchNames = [''shop''], MatchLabels = [], MatchExpressions = [], Regexp = [], Exclude = []\<rparr>,
     cls_ClusterResources = \<lparr>crc_Enabled = None, crc_Include = [], crc_Exclude = [],
       crc_LabelSelector = \<lparr>lsel_MatchLabels = [], lsel_MatchExpressions = []\<rparr>\<rparr>, cls_Run = demo_run_spec\<rparr>"

definition demo_cluster_run :: ClusterBackup where
  "demo_cluster_run = \<lparr>cb_Meta = (b_Meta empty_backup)\<lparr>m_Namespace := [], m_UID := ''run-uid''\<rparr>,
     cb_Status = \<lparr>cs_Phase = [], cs_StartTime = None, cs_CompletionTime = None, cs_NamespacesMatched = 0, cs_NamespacesSucceeded = 0,
       cs_NamespacesFailed = 0, cs_NamespacesBlocked = 0, cs_PVCsSucceeded = 0, cs_PVCsFailed = 0, cs_ClusterResourcesCaptured = 0,
       cs_ClusterManifests = None, cs_AddedBytes = 0, cs_Failures = [], cs_BlockedReasons = [], cs_Conditions = []\<rparr>\<rparr>"

definition demo_child :: Backup where
  "demo_child = (child_backup demo_cluster_spec demo_cluster_run ''shop'')\<lparr>b_Status := (b_Status empty_backup)\<lparr>
     bs_Phase := BackupPhaseCompleted, bs_Volumes := [demo_volume VolumePhaseCompleted]\<rparr>\<rparr>"

abbreviation demo_lst :: "unit clstate" where "demo_lst \<equiv> \<lparr>lw = (), lev = []\<rparr>"

lemma demo_run_meta [simp]: "cb_uid demo_cluster_run = ''run-uid''" "cb_name demo_cluster_run = ''n-1''"
  by (simp_all add: demo_cluster_run_def empty_backup_def)

lemma demo_child_fields [simp]:
  "b_name demo_child = ''n-1''" "b_ns demo_child = ''shop''" "annotation demo_child AnnotationParentUID = ''run-uid''"
  "annotation demo_child AnnotationProjected = []" "b_phase demo_child = BackupPhaseCompleted"
  "b_volumes demo_child = [demo_volume VolumePhaseCompleted]"
  by (simp_all add: demo_child_def child_backup_def)

lemma demo_ledger:
  "outcomes (buildRunLedger e ''n-1'' ''run-uid'' created [''shop''] [demo_child] []) = [NamespaceSucceeded]"
proof -
  let ?l = "buildRunLedger e ''n-1'' ''run-uid'' created [''shop''] [demo_child] []"
  obtain strays where s: "set strays = stray_namespaces [demo_child] ''n-1'' ''run-uid'' [''shop'']"
    "rl_verdicts ?l = map (\<lambda>ns. verdict_of e ''n-1'' ''run-uid'' created [] ns (child_at [demo_child] ''n-1'' ns)) ([''shop''] @ strays)"
    by (rule buildRunLedger_eq)
  have "stray_namespaces [demo_child] ''n-1'' ''run-uid'' [''shop''] = {}"
    by (auto simp: stray_namespaces_def child_at_def Let_def split: if_splits)
  then have "strays = []" using s(1) by simp
  moreover have "child_at [demo_child] ''n-1'' ''shop'' = Some demo_child" by (simp add: child_at_def)
  ultimately show ?thesis using s(2) by (simp add: outcomes_def verdict_of_def Let_def OutcomeForBackupPhase_def)
qed

definition demo_collision :: blockedCoordinate where
  "demo_collision = \<lparr>bc_reason = ''foreign'', bc_hasData = True, bc_err = \<lparr>rc_Namespace = ''lab'', rc_Name = ''n-1'', rc_Detail = [],
     rc_Facts = [], rc_Reason = ''foreign'', rc_HasData = True\<rparr>\<rparr>"

theorem ledger_accounts_for_every_namespace_witness:
  "\<exists>v v'. rl_verdicts (buildRunLedger demo_ctl ''n-1'' ''run-uid'' None [''shop'', ''lab''] [demo_child] [(''lab'', demo_collision)]) = [v, v'] \<and>
     nv_outcome v = NamespaceSucceeded \<and> nv_outcome v' = NamespaceBlocked \<and> nv_failure v' \<noteq> None"
proof -
  let ?l = "buildRunLedger demo_ctl ''n-1'' ''run-uid'' None [''shop'', ''lab''] [demo_child] [(''lab'', demo_collision)]"
  from ledger_accounts_for_every_namespace [OF refl, of demo_ctl "''n-1''" "''run-uid''" None "[''shop'', ''lab'']" "[demo_child]" "[(''lab'', demo_collision)]"]
  obtain strays where s: "map nv_namespace (rl_verdicts ?l) = [''shop'', ''lab''] @ strays" "set strays = stray_namespaces [demo_child] ''n-1'' ''run-uid'' [''shop'', ''lab'']"
    and a: "\<And>v. v \<in> set (rl_verdicts ?l) \<Longrightarrow> accountable ''n-1'' ''run-uid'' [(''lab'', demo_collision)] [demo_child] v" by blast
  have "stray_namespaces [demo_child] ''n-1'' ''run-uid'' [''shop'', ''lab''] = {}"
    by (auto simp: stray_namespaces_def child_at_def Let_def split: if_splits)
  with s obtain v v' where v: "rl_verdicts ?l = [v, v']" "nv_namespace v = ''shop''" "nv_namespace v' = ''lab''" by auto
  have "child_at [demo_child] ''n-1'' ''shop'' = Some demo_child" by (simp add: child_at_def)
  then show ?thesis using v a [of v] a [of v'] by (auto simp: accountable_def expected_outcome_def blocked_at_def)
qed

theorem completed_run_protects_every_namespace_witness:
  "\<exists>child. child_at [demo_child] ''n-1'' ''shop'' = Some child \<and> OutcomeForBackupPhase (b_phase child) = NamespaceSucceeded"
proof -
  let ?e = "demo_cluster_env [demo_child]"
  have l: "le_list_children ?e [LabelClusterBackup \<mapsto> cb_name demo_cluster_run] (lw demo_lst) = Inr [demo_child]"
    by (simp add: demo_cluster_simps)
  obtain ans cb' st' where a: "aggregateAndWrite ?e demo_cluster_run [''shop''] [] [] True demo_lst = (ans, cb', st')"
    by (metis prod_cases3)
  have "\<exists>now created. cb' = aggregate_status ?e now demo_cluster_run [''shop'']  []
      (buildRunLedger ?e ''n-1'' ''run-uid'' created [''shop''] [demo_child] []) True"
    using a l by (auto simp: aggregateAndWrite_def Let_def split: prod.splits option.splits)
  then have c: "cs_Phase (cb_Status cb') = ClusterBackupPhaseCompleted"
    by (auto simp: aggregate_phase demo_ledger run_phase_def RollUpNamespaceOutcomes_eq Let_def)
  have "length [''shop''] + length [demo_child] < 2 ^ 31" by simp
  from completed_run_protects_every_namespace [OF l this a c, of "''shop''"] show ?thesis by auto
qed

theorem success_is_reported_honestly_witness:
  "honest (fst (snd (reconcile_live demo_ctl demo_spec (demo_backup_of [demo_volume VolumePhaseUploading]) demo_st)))"
proof -
  let ?b = "demo_backup_of [demo_volume VolumePhaseUploading]"
  obtain ans b' st' where r: "reconcile_live demo_ctl demo_spec ?b demo_st = (ans, b', st')" by (metis prod_cases3)
  have "\<not> isTerminalBackupPhase (b_phase ?b)" by (simp add: demo_backup_of_def empty_backup_def isTerminalBackupPhase_def)
  from success_is_reported_honestly [OF this r] show ?thesis unfolding r fst_conv snd_conv .
qed

theorem fan_out_respects_ownership_witness:
  "\<exists>c. fst (ensureChildBackup (demo_cluster_env [demo_child]) demo_cluster_spec
     (demo_cluster_run\<lparr>cb_Meta := (cb_Meta demo_cluster_run)\<lparr>m_UID := ''other''\<rparr>\<rparr>) ''shop'' demo_lst) = Some (ChildCollision c)"
proof -
  let ?cb = "demo_cluster_run\<lparr>cb_Meta := (cb_Meta demo_cluster_run)\<lparr>m_UID := ''other''\<rparr>\<rparr>"
  obtain r st' where s: "ensureChildBackup (demo_cluster_env [demo_child]) demo_cluster_spec ?cb ''shop'' demo_lst = (r, st')"
    by (metis surj_pair)
  have u: "cb_uid ?cb \<noteq> []" by simp
  have f: "le_get_child (demo_cluster_env [demo_child]) ''shop'' (cb_name ?cb) (lw demo_lst) = Inr demo_child"
    by (simp add: demo_cluster_simps)
  from fan_out_respects_ownership [OF u s f] show ?thesis unfolding s fst_conv by auto
qed

theorem children_lead_back_witness:
  "mapChildToRun (m_Labels (b_Meta (child_backup demo_cluster_spec demo_cluster_run ''shop''))) = [''n-1'']"
  using children_lead_back [of demo_cluster_run demo_cluster_spec "''shop''" None demo_ctl "()" demo_ctl] by simp

end
