(* ===== verification/Restore_Engine.thy ===== *)
theory Restore_Engine
  imports Backup_Controller
begin

text \<open>
  The engine both restore controllers share (\<^verbatim>\<open>internal/controller/restore_engine.go\<close>): the
  per-owner memory of resolved snapshots, pinned sources, unlock requests and error counts, and one pass
  over the planned volumes, each advanced through exposing its target, starting a mover, reading the
  mover's verdict and handing the volume over. The target exposer (\<^verbatim>\<open>internal/rexposer\<close>) is called
  through the fields of \<open>restore_env\<close>; capacities are bytes.
\<close>

section \<open>Names and paths\<close>

abbreviation LabelRestore :: string where "LabelRestore \<equiv> ''crystalbackup.io/restore''"
abbreviation LabelClusterRestore :: string where "LabelClusterRestore \<equiv> ''crystalbackup.io/cluster-restore''"
abbreviation LabelExposureKind :: string where "LabelExposureKind \<equiv> ''crystalbackup.io/exposure-kind''"
abbreviation AnnotationMoverResult :: string where "AnnotationMoverResult \<equiv> ''crystalbackup.io/mover-result''"
abbreviation KindTransplant :: string where "KindTransplant \<equiv> ''pvc-transplant''"
abbreviation KindTwin :: string where "KindTwin \<equiv> ''pv-twin''"

definition restorePollInterval :: duration where "restorePollInterval = backupPollInterval"
definition restoreMoverBackoffLimit :: i32 where "restoreMoverBackoffLimit = 2"
definition restoreTargetMountPath :: string where "restoreTargetMountPath = ''/crystal/target''"
definition maxVolumeAdviseErrors :: int where "maxVolumeAdviseErrors = 60"
definition restoreVolumeDeadline :: duration where "restoreVolumeDeadline = minutes 30"
definition restoreOwnerMoverCap :: int where "restoreOwnerMoverCap = 4"
definition NoTTL :: i32 where "NoTTL = - 1"

definition restoreOwnerID :: "string \<Rightarrow> string \<Rightarrow> string" where
  "restoreOwnerID namespace name = ''rst-'' @ namespace @ ''-'' @ name"

definition clusterRestoreOwnerID :: "string \<Rightarrow> string" where
  "clusterRestoreOwnerID name = ''crst-'' @ name"

definition StagingPVCName :: "string \<Rightarrow> string" where "StagingPVCName pre = pre @ ''-target''"
definition TwinPVName :: "string \<Rightarrow> string" where "TwinPVName pre = pre @ ''-twin''"

text \<open>\<^verbatim>\<open>path.Clean\<close> of Go's library on a rooted path, segment by segment.\<close>

fun clean_segments :: "string list \<Rightarrow> string list \<Rightarrow> string list" where
  "clean_segments out [] = out"
| "clean_segments out (s # ss) =
     (if s = [] \<or> s = ''.'' then clean_segments out ss
      else if s = ''..'' then clean_segments (butlast out) ss
      else clean_segments (out @ [s]) ss)"

definition path_Clean_rooted :: "string \<Rightarrow> string" where
  "path_Clean_rooted p = ''/'' @ Join (clean_segments [] (Split p (CHR ''/''))) ''/''"

definition restoreTargetPath :: "(string \<Rightarrow> string) \<Rightarrow> string \<Rightarrow> go_error + string" where
  "restoreTargetPath quote targetPath =
     (if targetPath = [] \<or> targetPath = ''/'' then Inr restoreTargetMountPath
      else if ''..'' \<in> set (Split targetPath (CHR ''/''))
      then Inl (ErrorNew (''targetPath '' @ quote targetPath @ '' contains a '' @ [CHR 0x27] @ ''..'' @ [CHR 0x27] @ '' segment''))
      else let cleaned = path_Clean_rooted (''/'' @ targetPath)
           in if cleaned = ''/'' then Inr restoreTargetMountPath else Inr (restoreTargetMountPath @ cleaned))"

section \<open>Plans, contexts and the environment\<close>

record restoreVolumePlan =
  rp_pvc :: string
  rp_snapshotID :: string
  rp_snapshotPath :: string
  rp_include :: "string list"
  rp_exclude :: "string list"
  rp_targetPath :: string
  rp_capacity :: int
  rp_storageClass :: string
  rp_accessModes :: "string list"

record restoreExecContext =
  rx_ownerName :: string
  rx_ownerLabelKey :: string
  rx_ownerID :: string
  rx_targetNamespace :: string
  rx_deleteExtras :: bool
  rx_restoredFromRun :: string
  rx_repoName :: string
  rx_repoURL :: string
  rx_dek :: string
  rx_s3CredsSecret :: string
  rx_s3Connections :: "i32 option"
  rx_clusterID :: string
  rx_startBudget :: int

record volumeOutcome =
  vo_settled :: bool
  vo_failed :: bool
  vo_reason :: string
  vo_restoredBytes :: int

definition open_outcome :: volumeOutcome where
  "open_outcome = \<lparr>vo_settled = False, vo_failed = False, vo_reason = [], vo_restoredBytes = 0\<rparr>"

definition failed_outcome :: "string \<Rightarrow> volumeOutcome" where
  "failed_outcome reason = \<lparr>vo_settled = True, vo_failed = True, vo_reason = reason, vo_restoredBytes = 0\<rparr>"

record TargetRequest =
  tr_TargetNamespace :: string
  tr_PVCName :: string
  tr_StorageClass :: string
  tr_Capacity :: int
  tr_AccessModes :: "string list"
  tr_NamePrefix :: string
  tr_Labels :: string_map
  tr_RestoredFromRun :: string

record TargetExposure =
  te_Kind :: string
  te_TargetNamespace :: string
  te_TargetPVCName :: string
  te_OperatorNamespace :: string
  te_StagingPVCName :: string
  te_TwinPVName :: string
  te_NodeName :: string
  te_Labels :: string_map
  te_RestoredFromRun :: string

datatype target_error = ErrBlockUnsupported | TargetFault go_error

record RestoreJob = Job +
  j_Annotations :: string_map

record RestoreJobRequest = JobRequest +
  jr_ReadWrite :: bool
  jr_NodeName :: string
  jr_SpreadOverLabels :: string_map

record resolvedSnapshots =
  rs_run :: string
  rs_byPVC :: "string \<rightharpoonup> Snapshot"
  rs_manifests :: "Snapshot list"
  rs_clusterManifests :: "Snapshot list"

record restoreEngine =
  en_resolved :: "string \<rightharpoonup> resolvedSnapshots"
  en_pinnedSource :: "string \<rightharpoonup> string"
  en_unlockOnce :: "string set"
  en_errCounts :: "string \<rightharpoonup> int"

definition newRestoreEngine :: restoreEngine where
  "newRestoreEngine = \<lparr>en_resolved = Map.empty, en_pinnedSource = Map.empty, en_unlockOnce = {}, en_errCounts = Map.empty\<rparr>"

record 'w rstate =
  rw :: 'w
  ren :: restoreEngine

text \<open>Of a pod the stall check reads only its phase and its age.\<close>

record ('w, 'expr, 'ex, 'identity) restore_env = "('w, 'expr, 'ex, 'identity) ctl_env" +
  re_Expose :: "TargetRequest \<Rightarrow> 'w \<Rightarrow> (target_error + TargetExposure) \<times> 'w"
  re_Ready :: "TargetExposure \<Rightarrow> 'w \<Rightarrow> (go_error + bool) \<times> 'w"
  re_Finalize :: "TargetExposure \<Rightarrow> 'w \<Rightarrow> (go_error + bool) \<times> 'w"
  re_Cleanup :: "TargetExposure \<Rightarrow> 'w \<Rightarrow> go_error option \<times> 'w"
  re_get_job :: "string \<Rightarrow> string \<Rightarrow> 'w \<Rightarrow> api_error + RestoreJob"
  re_create_job :: "RestoreJobRequest \<Rightarrow> 'w \<Rightarrow> api_error option \<times> 'w"
  re_marshal_result :: "MoverResult \<Rightarrow> go_error + string"
  re_marshal_patch :: "string \<Rightarrow> go_error + string"
  re_patch_job :: "string \<Rightarrow> string \<Rightarrow> 'w \<Rightarrow> api_error option \<times> 'w"
  re_delete_pods :: "string \<Rightarrow> string \<Rightarrow> 'w \<Rightarrow> api_error option \<times> 'w"
  re_pod_ages :: "string \<Rightarrow> string \<Rightarrow> 'w \<Rightarrow> api_error + (string \<times> instant) list"
  re_get_pv :: "string \<Rightarrow> 'w \<Rightarrow> api_error + unit"

section \<open>The memory of the engine\<close>

definition pinSource :: "string \<Rightarrow> string \<Rightarrow> restoreEngine \<Rightarrow> string \<times> restoreEngine" where
  "pinSource owner name en =
     (case en_pinnedSource en owner of
        Some pinned \<Rightarrow> (pinned, en)
      | None \<Rightarrow> (name, en\<lparr>en_pinnedSource := (en_pinnedSource en)(owner \<mapsto> name)\<rparr>))"

definition pinnedSourceFor :: "string \<Rightarrow> restoreEngine \<Rightarrow> string option" where
  "pinnedSourceFor owner en = en_pinnedSource en owner"

definition shouldEnqueueUnlock :: "string \<Rightarrow> restoreEngine \<Rightarrow> bool \<times> restoreEngine" where
  "shouldEnqueueUnlock key en =
     (if key \<in> en_unlockOnce en then (False, en)
      else (True, en\<lparr>en_unlockOnce := insert key (en_unlockOnce en)\<rparr>))"

definition err_count :: "restoreEngine \<Rightarrow> string \<Rightarrow> int" where
  "err_count en key = (case en_errCounts en key of None \<Rightarrow> 0 | Some n \<Rightarrow> n)"

definition noteVolumeError :: "string \<Rightarrow> restoreEngine \<Rightarrow> bool \<times> restoreEngine" where
  "noteVolumeError key en =
     (let n = err_count en key + 1
      in (n \<ge> maxVolumeAdviseErrors, en\<lparr>en_errCounts := (en_errCounts en)(key \<mapsto> n)\<rparr>))"

definition clearVolumeError :: "string \<Rightarrow> restoreEngine \<Rightarrow> restoreEngine" where
  "clearVolumeError key en = en\<lparr>en_errCounts := (en_errCounts en)(key := None)\<rparr>"

definition cachedResolution :: "string \<Rightarrow> string \<Rightarrow> restoreEngine \<Rightarrow> ((string \<rightharpoonup> Snapshot) \<times> Snapshot list) option" where
  "cachedResolution owner run en =
     (case en_resolved en owner of
        None \<Rightarrow> None
      | Some r \<Rightarrow> if rs_run r \<noteq> run then None else Some (rs_byPVC r, rs_manifests r))"

definition storeResolution :: "string \<Rightarrow> string \<Rightarrow> (string \<rightharpoonup> Snapshot) \<Rightarrow> Snapshot list \<Rightarrow> restoreEngine \<Rightarrow> restoreEngine" where
  "storeResolution owner run byPVC manifestSnaps en =
     en\<lparr>en_resolved := (en_resolved en)(owner \<mapsto> \<lparr>rs_run = run, rs_byPVC = byPVC, rs_manifests = manifestSnaps,
        rs_clusterManifests = []\<rparr>)\<rparr>"

definition cachedClusterResolution :: "string \<Rightarrow> string \<Rightarrow> restoreEngine \<Rightarrow> ((string \<rightharpoonup> Snapshot) \<times> Snapshot list) option" where
  "cachedClusterResolution owner run en =
     (case en_resolved en owner of
        None \<Rightarrow> None
      | Some r \<Rightarrow> if rs_run r \<noteq> run then None else Some (rs_byPVC r, rs_clusterManifests r))"

definition storeClusterResolution :: "string \<Rightarrow> string \<Rightarrow> (string \<rightharpoonup> Snapshot) \<Rightarrow> Snapshot list \<Rightarrow> restoreEngine \<Rightarrow> restoreEngine" where
  "storeClusterResolution owner run byPVC clusterManifestSnaps en =
     en\<lparr>en_resolved := (en_resolved en)(owner \<mapsto> \<lparr>rs_run = run, rs_byPVC = byPVC, rs_manifests = [],
        rs_clusterManifests = clusterManifestSnaps\<rparr>)\<rparr>"

definition forgetListing :: "string \<Rightarrow> restoreEngine \<Rightarrow> restoreEngine" where
  "forgetListing owner en = en\<lparr>en_resolved := (en_resolved en)(owner := None)\<rparr>"

definition forgetResolution :: "string \<Rightarrow> string \<Rightarrow> restoreEngine \<Rightarrow> restoreEngine" where
  "forgetResolution owner ownerID en =
     (let pre = ownerID @ ''/''
      in en\<lparr>en_resolved := (en_resolved en)(owner := None), en_pinnedSource := (en_pinnedSource en)(owner := None),
            en_unlockOnce := Set.filter (\<lambda>k. \<not> HasPrefix k pre) (en_unlockOnce en),
            en_errCounts := (\<lambda>k. if HasPrefix k pre then None else en_errCounts en k)\<rparr>)"

section \<open>One volume\<close>

definition volumeLabels :: "restoreExecContext \<Rightarrow> string \<Rightarrow> string_map" where
  "volumeLabels rc pvc =
     [LabelManagedBy \<mapsto> ManagedByValue, rx_ownerLabelKey rc \<mapsto> rx_ownerName rc,
      LabelNamespace \<mapsto> rx_targetNamespace rc, LabelPVC \<mapsto> pvc]"

definition exposureFor ::
  "('w, 'expr, 'ex, 'identity, 'z) restore_env_scheme \<Rightarrow> restoreExecContext \<Rightarrow> string \<Rightarrow> string \<Rightarrow> TargetExposure" where
  "exposureFor e rc pvc kind =
     (let pre = restoreNamePrefix (rx_ownerID rc) pvc
      in \<lparr>te_Kind = kind, te_TargetNamespace = rx_targetNamespace rc, te_TargetPVCName = pvc,
          te_OperatorNamespace = be_OperatorNamespace e, te_StagingPVCName = StagingPVCName pre, te_TwinPVName = TwinPVName pre,
          te_NodeName = [], te_Labels = volumeLabels rc pvc, te_RestoredFromRun = rx_restoredFromRun rc\<rparr>)"

text \<open>A result, a read error that settles the volume, and a transient error that does not.\<close>

definition resolveMoverOutcome ::
  "('w, 'expr, 'ex, 'identity, 'z) restore_env_scheme \<Rightarrow> RestoreJob \<Rightarrow> bool \<Rightarrow> 'w
   \<Rightarrow> (MoverResult \<times> read_error option \<times> go_error option) \<times> 'w" where
  "resolveMoverOutcome e job jobFailed w =
     (let enc = map_get (j_Annotations job) AnnotationMoverResult;
          cached = (if enc \<noteq> [] then (case be_unmarshal_result e enc of Inr r \<Rightarrow> Some r | Inl _ \<Rightarrow> None) else None)
      in case cached of
           Some r \<Rightarrow> ((r, None, None), w)
         | None \<Rightarrow>
             (case readMoverResult (be_unmarshal_result e) (be_job_pods e (j_Name job) w) of
                (result, _, rerr) \<Rightarrow>
                  if jobFailed \<or> rerr \<noteq> None \<or> \<not> OK result then ((result, rerr, None), w)
                  else (case re_marshal_result e result of
                          Inl err \<Rightarrow> ((result, None, Some (Wrap (''encode mover result for Job '' @ j_Name job) err)), w)
                        | Inr enc \<Rightarrow>
                            (case re_marshal_patch e enc of
                               Inl err \<Rightarrow> ((result, None, Some (Wrap (''build mover-result patch for Job '' @ j_Name job) err)), w)
                             | Inr patch \<Rightarrow>
                                 (case re_patch_job e (j_Name job) patch w of
                                    (Some err, w) \<Rightarrow>
                                      ((result, None, Some (Wrap (''stamp mover result on Job '' @ j_Name job) (APIError err))), w)
                                  | (None, w) \<Rightarrow> ((result, None, None), w))))))"

definition deleteJobPods :: "('w, 'expr, 'ex, 'identity, 'z) restore_env_scheme \<Rightarrow> string \<Rightarrow> 'w \<Rightarrow> 'w" where
  "deleteJobPods e jobName w = snd (re_delete_pods e (be_OperatorNamespace e) jobName w)"

fun oldest_waiting :: "(string \<times> instant) list \<Rightarrow> instant \<Rightarrow> instant option" where
  "oldest_waiting [] oldest = Some oldest"
| "oldest_waiting ((phase, created) # pods) oldest =
     (if phase = PodRunning \<or> phase = PodSucceeded then None
      else oldest_waiting pods (if created < oldest then created else oldest))"

definition moverPodsStalled :: "(string \<times> instant) list \<Rightarrow> instant \<Rightarrow> duration \<Rightarrow> bool" where
  "moverPodsStalled pods now deadline =
     (if length pods = 0 then False
      else case oldest_waiting pods now of
             None \<Rightarrow> False
           | Some oldest \<Rightarrow> time_sub now oldest > deadline)"

definition moverStuckPending :: "('w, 'expr, 'ex, 'identity, 'z) restore_env_scheme \<Rightarrow> string \<Rightarrow> 'w \<Rightarrow> bool" where
  "moverStuckPending e jobName w =
     (case re_pod_ages e (be_OperatorNamespace e) jobName w of
        Inl _ \<Rightarrow> False
      | Inr pods \<Rightarrow> moverPodsStalled pods (he_now e w) restoreVolumeDeadline)"

definition restore_job ::
  "restoreExecContext \<Rightarrow> restoreVolumePlan \<Rightarrow> string \<Rightarrow> string \<Rightarrow> TargetExposure \<Rightarrow> RestoreJobRequest" where
  "restore_job rc plan jobName target ex =
     \<lparr>jr_Name = jobName, jr_Operation = OpRestore,
      jr_ResticArgs = RestoreArgs (rp_snapshotID plan) (rp_snapshotPath plan) target (rx_deleteExtras rc)
        (rp_include plan) (rp_exclude plan),
      jr_RepoURL = rx_repoURL rc, jr_S3Connections = rx_s3Connections rc, jr_SecretName = jobName,
      jr_PVC = Some (te_StagingPVCName ex, restoreTargetMountPath), jr_BackoffLimit = restoreMoverBackoffLimit,
      jr_TTLSeconds = NoTTL, jr_Labels = (volumeLabels rc (rp_pvc plan))(LabelExposureKind \<mapsto> te_Kind ex),
      jr_ExtraEnv = [], jr_ServiceAccountName = [], jr_ManifestsVolume = False,
      jr_ReadWrite = True, jr_NodeName = te_NodeName ex, jr_SpreadOverLabels = [LabelManagedBy \<mapsto> ManagedByValue]\<rparr>"

definition restore_startVolume ::
  "('w, 'expr, 'ex, 'identity, 'z) restore_env_scheme \<Rightarrow> restoreExecContext \<Rightarrow> restoreVolumePlan \<Rightarrow> string \<Rightarrow> string \<Rightarrow> 'w
   \<Rightarrow> (go_error + volumeOutcome) \<times> restoreExecContext \<times> 'w" where
  "restore_startVolume e rc plan pre jobName w =
     (let at = rx_targetNamespace rc @ ''/'' @ rp_pvc plan
      in case re_Expose e \<lparr>tr_TargetNamespace = rx_targetNamespace rc, tr_PVCName = rp_pvc plan,
                tr_StorageClass = rp_storageClass plan, tr_Capacity = rp_capacity plan, tr_AccessModes = rp_accessModes plan,
                tr_NamePrefix = pre, tr_Labels = volumeLabels rc (rp_pvc plan), tr_RestoredFromRun = rx_restoredFromRun rc\<rparr> w of
           (Inl ErrBlockUnsupported, w) \<Rightarrow> (Inr (failed_outcome ''RestoreBlockUnsupported''), rc, w)
         | (Inl (TargetFault err), w) \<Rightarrow> (Inl (Wrap (''expose restore target '' @ at) err), rc, w)
         | (Inr ex, w) \<Rightarrow>
             (case re_Ready e ex w of
                (Inl err, w) \<Rightarrow> (Inl (Wrap (''check restore target readiness '' @ at) err), rc, w)
              | (Inr False, w) \<Rightarrow> (Inr open_outcome, rc, w)
              | (Inr True, w) \<Rightarrow>
                  if (case be_QuiescenceRequired e w of None \<Rightarrow> False
                      | Some required \<Rightarrow> rx_repoName rc \<noteq> [] \<and> required (rx_repoName rc))
                  then (Inr open_outcome, rc, w)
                  else if rx_startBudget rc \<le> 0 then (Inr open_outcome, rc, w)
                  else
                    (case ensureMoverCredsSecret (be_deps e) jobName (rx_dek rc) (rx_s3CredsSecret rc) []
                            (volumeLabels rc (rp_pvc plan)) w of
                       (Some err, w) \<Rightarrow> (Inl err, rc, w)
                     | (None, w) \<Rightarrow>
                         (case restoreTargetPath (me_Quote e) (rp_targetPath plan) of
                            Inl _ \<Rightarrow> (Inr (failed_outcome ''InvalidTargetPath''), rc, w)
                          | Inr target \<Rightarrow>
                              let started = rc\<lparr>rx_startBudget := rx_startBudget rc - 1\<rparr>
                              in (case re_create_job e (restore_job rc plan jobName target ex) w of
                                    (None, w) \<Rightarrow> (Inr open_outcome, started, w)
                                  | (Some err, w) \<Rightarrow>
                                      if err = AlreadyExists then (Inr open_outcome, started, w)
                                      else (Inl (Wrap (''create restore mover Job '' @ be_OperatorNamespace e @ ''/'' @ jobName)
                                             (APIError err)), rc, w))))))"

text \<open>Which mechanism exposed the target: the Job's label, or what the cluster shows.\<close>

definition exposure_kind ::
  "('w, 'expr, 'ex, 'identity, 'z) restore_env_scheme \<Rightarrow> RestoreJob \<Rightarrow> string \<Rightarrow> 'w \<Rightarrow> api_error + string" where
  "exposure_kind e job pre w =
     (let kind = map_get (j_Labels job) LabelExposureKind
      in if kind \<noteq> KindTransplant \<and> kind \<noteq> KindTwin then
           (case re_get_pv e (TwinPVName pre) w of
              Inr _ \<Rightarrow> Inr KindTwin
            | Inl err \<Rightarrow> if err = NotFound then Inr KindTransplant else Inl err)
         else Inr kind)"

definition adviseVolume ::
  "('w, 'expr, 'ex, 'identity, 'z) restore_env_scheme \<Rightarrow> restoreExecContext \<Rightarrow> restoreVolumePlan \<Rightarrow> 'w rstate
   \<Rightarrow> (go_error + volumeOutcome) \<times> restoreExecContext \<times> 'w rstate" where
  "adviseVolume e rc plan st =
     (let pre = restoreNamePrefix (rx_ownerID rc) (rp_pvc plan);
          jobName = restoreJobName pre;
          at = rx_targetNamespace rc @ ''/'' @ rp_pvc plan
      in case re_get_job e (be_OperatorNamespace e) jobName (rw st) of
           Inl err \<Rightarrow>
             if err = NotFound then
               (case restore_startVolume e rc plan pre jobName (rw st) of (r, rc, w) \<Rightarrow> (r, rc, st\<lparr>rw := w\<rparr>))
             else (Inl (Wrap (''get restore mover Job '' @ be_OperatorNamespace e @ ''/'' @ jobName) (APIError err)), rc, st)
         | Inr job \<Rightarrow>
             let complete = (1 \<le>s j_Succeeded job \<or> jobConditionTrue (Job.truncate job) JobComplete);
                 failed = (jobConditionTrue (Job.truncate job) JobFailed \<or> restoreMoverBackoffLimit <s j_Failed job)
             in if \<not> complete \<and> \<not> failed then
                  (Inr (if moverStuckPending e jobName (rw st) then failed_outcome ''RestoreTimedOut'' else open_outcome), rc, st)
                else
                  (case resolveMoverOutcome e job failed (rw st) of
                     ((result, rerr, terr), w) \<Rightarrow>
                       (case terr of
                          Some err \<Rightarrow> (Inl err, rc, st\<lparr>rw := w\<rparr>)
                        | None \<Rightarrow>
                            if failed \<or> rerr \<noteq> None \<or> \<not> OK result then
                              (let (unlock, en) = (if rerr \<noteq> None then shouldEnqueueUnlock (rx_ownerID rc @ ''/'' @ rp_pvc plan) (ren st)
                                     else (False, ren st));
                                   w = (if unlock then be_enqueue e \<lparr>rm_RepoName = rx_repoName rc, rm_Kind = OpKind.OpUnlock,
                                          rm_Name = maintenanceResourceName pre ''unlock'', rm_Op = OpUnlockJob, rm_ResticArgs = UnlockArgs,
                                          rm_RepoURL = rx_repoURL rc, rm_DEK = rx_dek rc, rm_S3CredsSecret = rx_s3CredsSecret rc,
                                          rm_CredsNamespace = [], rm_S3Connections = rx_s3Connections rc\<rparr> w
                                        else w)
                               in (Inr (failed_outcome (moverFailureReason result rerr)), rc, \<lparr>rw = w, ren = en\<rparr>))
                            else
                              let w = deleteJobPods e jobName w
                              in (case exposure_kind e job pre w of
                                    Inl err \<Rightarrow> (Inl (Wrap (''derive exposure kind for '' @ at) (APIError err)), rc, st\<lparr>rw := w\<rparr>)
                                  | Inr kind \<Rightarrow>
                                      (case re_Finalize e (exposureFor e rc (rp_pvc plan) kind) w of
                                         (Inl err, w) \<Rightarrow> (Inl (Wrap (''finalize restore target '' @ at) err), rc, st\<lparr>rw := w\<rparr>)
                                       | (Inr False, w) \<Rightarrow> (Inr open_outcome, rc, st\<lparr>rw := w\<rparr>)
                                       | (Inr True, w) \<Rightarrow>
                                           (Inr (open_outcome\<lparr>vo_settled := True, vo_restoredBytes := mr_RestoredBytes result\<rparr>), rc,
                                            st\<lparr>rw := w\<rparr>))))))"

section \<open>One pass over the volumes\<close>

record volumeDrive =
  vd_tally :: RestoreTally
  vd_restoredBytes :: i64
  vd_failures :: "string list"
  vd_volumeErr :: "go_error option"
  vd_passErr :: "go_error option"

definition tallied :: "volumeDrive \<Rightarrow> bool" where "tallied d \<longleftrightarrow> vd_passErr d = None"
definition settled :: "volumeDrive \<Rightarrow> int" where "settled d = sint (RestoreTally_Settled (vd_tally d))"
definition completed :: "volumeDrive \<Rightarrow> int" where "completed d = sint (rt_Restored (vd_tally d))"
definition failedCount :: "volumeDrive \<Rightarrow> int" where "failedCount d = sint (rt_Failed (vd_tally d))"

definition ownerRunningMovers ::
  "('w, 'expr, 'ex, 'identity, 'z) restore_env_scheme \<Rightarrow> restoreExecContext \<Rightarrow> 'w \<Rightarrow> go_error + nat" where
  "ownerRunningMovers e rc w =
     (case rd_list_jobs (be_deps e) w (be_OperatorNamespace e)
             [(LabelManagedBy, ManagedByValue), (rx_ownerLabelKey rc, rx_ownerName rc), (LabelNamespace, rx_targetNamespace rc)] of
        Inl err \<Rightarrow> Inl (Wrap ''list restore mover Jobs for the concurrency gate'' (APIError err))
      | Inr jobs \<Rightarrow>
          Inr (RunningMoverJobs (foldl (\<lambda>live j. if map_get (j_Labels j) LabelPVC \<noteq> [] \<and> \<not> j_Deleting j then live @ [j] else live) [] jobs)))"

definition classifyVolumeOutcome :: "volumeOutcome \<Rightarrow> go_error option \<Rightarrow> bool \<Rightarrow> VolumeRestoreOutcome" where
  "classifyVolumeOutcome outcome adviseErr budgetExhausted =
     (if adviseErr \<noteq> None \<and> budgetExhausted then VolumeRestoreFailed
      else if adviseErr \<noteq> None then VolumeRestoreInFlight
      else if \<not> vo_settled outcome then VolumeRestoreInFlight
      else if vo_failed outcome then VolumeRestoreFailed
      else VolumeRestoreRestored)"

definition drive_one ::
  "('w, 'expr, 'ex, 'identity, 'z) restore_env_scheme \<Rightarrow> restoreExecContext \<Rightarrow> restoreVolumePlan \<Rightarrow> volumeDrive \<Rightarrow> 'w rstate
   \<Rightarrow> VolumeRestoreOutcome \<times> volumeDrive \<times> restoreExecContext \<times> 'w rstate" where
  "drive_one e rc plan d st =
     (let key = rx_ownerID rc @ ''/'' @ rp_pvc plan
      in case adviseVolume e rc plan st of
           (Inl err, rc, st) \<Rightarrow>
             (case noteVolumeError key (ren st) of
                (exhausted, en) \<Rightarrow>
                  (classifyVolumeOutcome open_outcome (Some err) exhausted,
                   (if exhausted
                    then d\<lparr>vd_failures := vd_failures d @ [rp_pvc plan @ '': gave up after repeated errors, last: '' @ Error (he_show_api e) err]\<rparr>
                    else if vd_volumeErr d = None then d\<lparr>vd_volumeErr := Some err\<rparr> else d),
                   rc, st\<lparr>ren := en\<rparr>))
         | (Inr outcome, rc, st) \<Rightarrow>
             let verdict = classifyVolumeOutcome outcome None False
             in (verdict,
                 (if verdict = VolumeRestoreFailed then d\<lparr>vd_failures := vd_failures d @ [rp_pvc plan @ '': '' @ vo_reason outcome]\<rparr>
                  else if verdict = VolumeRestoreRestored
                  then d\<lparr>vd_restoredBytes := vd_restoredBytes d + of_int (vo_restoredBytes outcome)\<rparr> else d),
                 rc, st\<lparr>ren := clearVolumeError key (ren st)\<rparr>))"

fun drive_loop ::
  "('w, 'expr, 'ex, 'identity, 'z) restore_env_scheme \<Rightarrow> restoreExecContext \<Rightarrow> restoreVolumePlan list \<Rightarrow> VolumeRestoreOutcome list
   \<Rightarrow> volumeDrive \<Rightarrow> 'w rstate \<Rightarrow> VolumeRestoreOutcome list \<times> volumeDrive \<times> restoreExecContext \<times> 'w rstate" where
  "drive_loop e rc [] outs d st = (outs, d, rc, st)"
| "drive_loop e rc (plan # plans) outs d st =
     (case drive_one e rc plan d st of (verdict, d, rc, st) \<Rightarrow> drive_loop e rc plans (outs @ [verdict]) d st)"

definition zero_drive :: volumeDrive where
  "zero_drive = \<lparr>vd_tally = TallyVolumeRestoreOutcomes [], vd_restoredBytes = 0, vd_failures = [], vd_volumeErr = None, vd_passErr = None\<rparr>"

definition driveVolumes ::
  "('w, 'expr, 'ex, 'identity, 'z) restore_env_scheme \<Rightarrow> restoreExecContext \<Rightarrow> restoreVolumePlan list \<Rightarrow> 'w rstate
   \<Rightarrow> volumeDrive \<times> restoreExecContext \<times> 'w rstate" where
  "driveVolumes e rc plans st =
     (case ownerRunningMovers e rc (rw st) of
        Inl err \<Rightarrow> (zero_drive\<lparr>vd_passErr := Some err\<rparr>, rc, st)
      | Inr running \<Rightarrow>
          (case drive_loop e (rc\<lparr>rx_startBudget := restoreOwnerMoverCap - int running\<rparr>) plans [] zero_drive st of
             (outs, d, rc, st) \<Rightarrow> (d\<lparr>vd_tally := TallyVolumeRestoreOutcomes outs\<rparr>, rc, st)))"

section \<open>Teardown and selection\<close>

definition restore_teardownVolume ::
  "('w, 'expr, 'ex, 'identity, 'z) restore_env_scheme \<Rightarrow> restoreExecContext \<Rightarrow> string \<Rightarrow> 'w \<Rightarrow> 'w" where
  "restore_teardownVolume e rc pvc w =
     foldl (\<lambda>w kind. snd (re_Cleanup e (exposureFor e rc pvc kind) w))
       (deleteJobAndSecret (be_deps e) (be_OperatorNamespace e) (restoreJobName (restoreNamePrefix (rx_ownerID rc) pvc)) w)
       [KindTwin, KindTransplant]"

definition teardownAll ::
  "('w, 'expr, 'ex, 'identity, 'z) restore_env_scheme \<Rightarrow> restoreExecContext \<Rightarrow> restoreVolumePlan list \<Rightarrow> 'w \<Rightarrow> 'w" where
  "teardownAll e rc plans w =
     deleteJobAndSecret (be_deps e) (be_OperatorNamespace e) (restoreResolveJobName (rx_ownerID rc))
       (foldl (\<lambda>w plan. restore_teardownVolume e rc (rp_pvc plan) w) w plans)"

record VolumeSelectorItem =
  vsi_Names :: "string list"
  vsi_Include :: "string list"
  vsi_Exclude :: "string list"
  vsi_TargetPath :: string

definition volumeItemMatches :: "VolumeSelectorItem \<Rightarrow> string \<Rightarrow> bool" where
  "volumeItemMatches item pvc \<longleftrightarrow> length (vsi_Names item) = 0 \<or> pvc \<in> set (vsi_Names item)"

fun first_item :: "VolumeSelectorItem list \<Rightarrow> string \<Rightarrow> VolumeSelectorItem option" where
  "first_item [] pvc = None"
| "first_item (item # items) pvc = (if volumeItemMatches item pvc then Some item else first_item items pvc)"

text \<open>A selected claim maps to the item that narrows it, or to none for the whole claim.\<close>

definition planVolumes :: "VolumeSelectorItem list \<Rightarrow> string list \<Rightarrow> bool \<Rightarrow> (string \<rightharpoonup> VolumeSelectorItem option)" where
  "planVolumes volumes sourcePVCs hasSelection =
     foldl (\<lambda>selected pvc.
         if \<not> hasSelection then selected(pvc \<mapsto> None)
         else case first_item volumes pvc of None \<Rightarrow> selected | Some item \<Rightarrow> selected(pvc \<mapsto> Some item))
       Map.empty sourcePVCs"

end
