(* ===== verification/Restore_Controller.thy ===== *)
theory Restore_Controller
  imports Restore_Engine "HOL-Library.Signed_Division"
begin

text \<open>
  The Restore controller (\<^verbatim>\<open>internal/controller/restore_controller.go\<close> and \<^verbatim>\<open>restore_resources.go\<close>):
  a Restore waits for its confirmation, resolves the Backup it reads and pins it, plans its volumes from the
  snapshots of that run, starts the manifest half, drives the volumes through the engine and ends in a phase
  that rolls up both halves. The lister of snapshots, the API server, the JSON encoder and the two time
  layouts the source tries are fields of \<open>restorectl_env\<close>; logs and metrics are left out.
\<close>

section \<open>The resource\<close>

abbreviation FinalizerRestore :: string where "FinalizerRestore \<equiv> ''crystalbackup.io/restore-teardown''"
abbreviation LabelOrigin :: string where "LabelOrigin \<equiv> ''crystalbackup.io/origin''"
abbreviation RestorePhasePending :: string where "RestorePhasePending \<equiv> ''Pending''"
abbreviation RestorePhaseAwaitingConfirmation :: string where "RestorePhaseAwaitingConfirmation \<equiv> ''AwaitingConfirmation''"
abbreviation RestorePhaseRunning :: string where "RestorePhaseRunning \<equiv> ''Running''"
abbreviation RestoreModeRecreate :: string where "RestoreModeRecreate \<equiv> ''Recreate''"
abbreviation RestoreResourceFailed :: string where "RestoreResourceFailed \<equiv> ''Failed''"
abbreviation ConditionConfirmed :: string where "ConditionConfirmed \<equiv> ''Confirmed''"
abbreviation sourceTimeLatest :: string where "sourceTimeLatest \<equiv> ''latest''"
abbreviation ManifestsRoot :: string where "ManifestsRoot \<equiv> ''/manifests''"
abbreviation ManifestsRestoreDir :: string where "ManifestsRestoreDir \<equiv> ''/manifests/restore''"
abbreviation EnvManifestsRestoreDir :: string where "EnvManifestsRestoreDir \<equiv> ''CRYSTAL_MANIFESTS_RESTORE_DIR''"
abbreviation EnvManifestsMode :: string where "EnvManifestsMode \<equiv> ''CRYSTAL_MANIFESTS_MODE''"
abbreviation EnvManifestsDryRun :: string where "EnvManifestsDryRun \<equiv> ''CRYSTAL_MANIFESTS_DRY_RUN''"
abbreviation EnvManifestsSelection :: string where "EnvManifestsSelection \<equiv> ''CRYSTAL_MANIFESTS_SELECTION''"
abbreviation EnvManifestsStorageClassMapping :: string
  where "EnvManifestsStorageClassMapping \<equiv> ''CRYSTAL_MANIFESTS_STORAGE_CLASS_MAPPING''"
abbreviation EnvTrue :: string where "EnvTrue \<equiv> ''true''"

definition MaxRestoreResourceEntries :: nat where "MaxRestoreResourceEntries = 100"
definition MaxRestoreChangedPaths :: nat where "MaxRestoreChangedPaths = 20"

record RestoreSource =
  rsrc_Backup :: string
  rsrc_Time :: string
  rsrc_Origin :: string

record 'expr ResourceSelectorItem =
  rsi_Selector :: "'expr LabelSelector"
  rsi_Include :: "string list"
  rsi_Exclude :: "string list"

text \<open>A list field that Go distinguishes from its absence is an option.\<close>

record 'expr RestoreSpec =
  rsp_Source :: RestoreSource
  rsp_Mode :: string
  rsp_Resources :: "'expr ResourceSelectorItem list option"
  rsp_Volumes :: "VolumeSelectorItem list option"
  rsp_Confirmation :: string
  rsp_DryRun :: bool

record RestoreResourceEntry =
  rre_Group :: string
  rre_Kind :: string
  rre_Name :: string
  rre_Outcome :: string
  rre_Reason :: string
  rre_Changed :: "string list"

record RestoreResourcesStatus =
  rrs_FailedCount :: i32
  rrs_Truncated :: bool
  rrs_Entries :: "RestoreResourceEntry list"

record RestoreStatus =
  rst_Phase :: string
  rst_RestoredResources :: i32
  rst_Resources :: "RestoreResourcesStatus option"
  rst_PlannedVolumes :: i32
  rst_RestoredVolumes :: i32
  rst_FailedVolumes :: i32
  rst_RestoredBytes :: i64
  rst_Conditions :: "Condition list"

record Restore =
  r_Meta :: ObjectMeta
  r_Status :: RestoreStatus

abbreviation r_ns :: "Restore \<Rightarrow> string" where "r_ns r \<equiv> m_Namespace (r_Meta r)"
abbreviation r_name :: "Restore \<Rightarrow> string" where "r_name r \<equiv> m_Name (r_Meta r)"
abbreviation r_uid :: "Restore \<Rightarrow> string" where "r_uid r \<equiv> m_UID (r_Meta r)"
abbreviation r_key :: "Restore \<Rightarrow> string" where "r_key r \<equiv> r_ns r @ ''/'' @ r_name r"
abbreviation r_phase :: "Restore \<Rightarrow> string" where "r_phase r \<equiv> rst_Phase (r_Status r)"

record 'expr SelectionItem =
  sit_Selector :: "'expr LabelSelector option"
  sit_Include :: "string list"
  sit_Exclude :: "string list"

record 'expr Selection =
  sel_All :: bool
  sel_Items :: "'expr SelectionItem list"

record 'expr resourcesPlan =
  rpl_snapshotID :: string
  rpl_snapshotPath :: string
  rpl_selection :: "'expr Selection"
  rpl_mode :: string
  rpl_dryRun :: bool
  rpl_storageClassMapping :: "(string \<times> string) list"

datatype restore_event =
    ConfirmationAccepted string
  | ConfirmationRequired string
  | RestoreFinalizing
  | VolumeCountsInconsistent i32 i32
  | RestoreCompletedEvent int i64
  | RestoreFailedEvent string string

record 'w vstate =
  vrs :: "'w rstate"
  vev :: "restore_event list"

abbreviation vw :: "'w vstate \<Rightarrow> 'w" where "vw st \<equiv> rw (vrs st)"
abbreviation with_world :: "'w \<Rightarrow> 'w vstate \<Rightarrow> 'w vstate" where "with_world w st \<equiv> st\<lparr>vrs := (vrs st)\<lparr>rw := w\<rparr>\<rparr>"
abbreviation with_engine :: "restoreEngine \<Rightarrow> 'w vstate \<Rightarrow> 'w vstate" where "with_engine en st \<equiv> st\<lparr>vrs := (vrs st)\<lparr>ren := en\<rparr>\<rparr>"
abbreviation report :: "restore_event \<Rightarrow> 'w vstate \<Rightarrow> 'w vstate" where "report ev st \<equiv> st\<lparr>vev := vev st @ [ev]\<rparr>"

type_synonym 'expr source_backup = "'expr BackupSpec \<times> Backup"

record ('w, 'expr, 'ex, 'identity) restorectl_env = "('w, 'expr, 'ex, 'identity) restore_env" +
  ve_get_restore :: "string \<Rightarrow> string \<Rightarrow> 'w \<Rightarrow> api_error + 'expr RestoreSpec \<times> Restore"
  ve_update :: "Restore \<Rightarrow> 'w \<Rightarrow> api_error option \<times> 'w"
  ve_update_status :: "Restore \<Rightarrow> 'w \<Rightarrow> api_error option \<times> 'w"
  ve_list_backups :: "string \<Rightarrow> 'w \<Rightarrow> api_error + 'expr source_backup list"
  ve_ListFiltered :: "BackupRepository \<Rightarrow> string \<Rightarrow> string list \<Rightarrow> 'w \<Rightarrow> (go_error + Snapshot list) \<times> 'w"
  ve_list_staging :: "string \<Rightarrow> string_map \<Rightarrow> 'w \<Rightarrow> api_error + string_map list"
  ve_list_pvs :: "string_map \<Rightarrow> 'w \<Rightarrow> api_error + string_map list"
  ve_ManifestWriterClusterRole :: string
  ve_parse_RFC3339 :: "string \<Rightarrow> instant option"
  ve_parse_zoneless :: "string \<Rightarrow> instant option"
  ve_marshal_selection :: "'expr Selection \<Rightarrow> go_error + string"
  ve_marshal_mapping :: "(string \<times> string) list \<Rightarrow> go_error + string"

section \<open>Status and conditions\<close>

definition rset_cond ::
  "('w, 'expr, 'z) hook_env_scheme \<Rightarrow> string \<Rightarrow> string \<Rightarrow> string \<Rightarrow> string \<Rightarrow> Restore \<Rightarrow> Restore" where
  "rset_cond e condType cstatus reason message r =
     r\<lparr>r_Status := (r_Status r)\<lparr>rst_Conditions := SetCondition (he_set_condition e) condType cstatus reason message
         (m_Generation (r_Meta r)) (rst_Conditions (r_Status r))\<rparr>\<rparr>"

definition set_phase :: "string \<Rightarrow> Restore \<Rightarrow> Restore" where
  "set_phase phase r = r\<lparr>r_Status := (r_Status r)\<lparr>rst_Phase := phase\<rparr>\<rparr>"

definition IsConditionTrue :: "('w, 'expr, 'z) hook_env_scheme \<Rightarrow> Condition list \<Rightarrow> string \<Rightarrow> bool" where
  "IsConditionTrue e conds condType \<longleftrightarrow>
     (case he_find_condition e conds condType of None \<Rightarrow> False | Some c \<Rightarrow> cond_Status c = ConditionTrue)"

definition joinFailures :: "string list \<Rightarrow> string" where
  "joinFailures failures =
     (case failures of
        [] \<Rightarrow> ''no volumes restored''
      | f # fs \<Rightarrow> foldl (\<lambda>out f. out @ ''; '' @ f) f fs)"

definition setRestoreTerminalCondition ::
  "('w, 'expr, 'z) hook_env_scheme \<Rightarrow> string \<Rightarrow> string list \<Rightarrow> Restore \<Rightarrow> Restore" where
  "setRestoreTerminalCondition e phase failures r =
     (if phase = RestorePhaseCompleted
      then rset_cond e ConditionReady ConditionTrue ''Completed'' ''all selected volumes were restored'' r
      else rset_cond e ConditionReady ConditionFalse phase (clampMessage (joinFailures failures)) r)"

definition restoreProgressMessage :: "(api_error \<Rightarrow> string) \<Rightarrow> volumeDrive \<Rightarrow> string \<Rightarrow> string" where
  "restoreProgressMessage show_api d extra =
     (let msg = (case vd_passErr d of
                   None \<Rightarrow> ''restoring: '' @ FormatInt (sint (rt_Restored (vd_tally d))) @ ''/'' @
                     FormatInt (sint (rt_Planned (vd_tally d))) @ '' volumes restored, '' @
                     FormatInt (sint (rt_Failed (vd_tally d))) @ '' failed''
                 | Some err \<Rightarrow> ''restoring: this pass could not assess the volumes, so the published counts are the '' @
                     ''previous pass'' @ [CHR 0x27] @ ''s: '' @ Error show_api err) @ extra
      in clampMessage (case vd_volumeErr d of
           None \<Rightarrow> msg
         | Some err \<Rightarrow> msg @ ''; one volume is retrying after an error: '' @ Error show_api err))"

definition stampVolumeCounts :: "RestoreTally \<Rightarrow> Restore \<Rightarrow> 'w vstate \<Rightarrow> Restore \<times> 'w vstate" where
  "stampVolumeCounts t r st =
     (r\<lparr>r_Status := (r_Status r)\<lparr>rst_PlannedVolumes := rt_Planned t, rst_RestoredVolumes := rt_Restored t,
          rst_FailedVolumes := rt_Failed t\<rparr>\<rparr>,
      if RestoreTally_SumsUp t then st
      else report (VolumeCountsInconsistent (rt_Planned t) (RestoreTally_Counted t)) st)"

type_synonym answer = "ctrl_result \<times> go_error option"

definition status_answer ::
  "('w, 'expr, 'ex, 'identity, 'z) restorectl_env_scheme \<Rightarrow> Restore \<Rightarrow> 'w vstate \<Rightarrow> go_error option \<times> 'w vstate" where
  "status_answer e r st =
     (case ve_update_status e r (vw st) of
        (Some err, w) \<Rightarrow> (Some (Wrap (''update status for Restore '' @ r_key r) (APIError err)), with_world w st)
      | (None, w) \<Rightarrow> (None, with_world w st))"

definition awaitConfirmation ::
  "('w, 'expr, 'ex, 'identity, 'z) restorectl_env_scheme \<Rightarrow> 'expr RestoreSpec \<Rightarrow> Restore \<Rightarrow> 'w vstate
   \<Rightarrow> answer \<times> Restore \<times> 'w vstate" where
  "awaitConfirmation e spec restore st =
     (let first = (r_phase restore \<noteq> RestorePhaseAwaitingConfirmation);
          r = rset_cond e ConditionReady ConditionFalse ''ConfirmationRequired''
                (''a '' @ rsp_Mode spec @ '' restore modifies existing data: set spec.confirmation to '' @
                 me_Quote e (r_ns restore) @ '' to proceed'') (set_phase RestorePhaseAwaitingConfirmation restore)
      in case status_answer e r st of
           (Some err, st) \<Rightarrow> ((NoRequeue, Some err), r, st)
         | (None, st) \<Rightarrow>
             ((RequeueAfter shortRequeueInterval, None), r,
              if first then report (ConfirmationRequired (r_ns restore)) st else st))"

definition gate ::
  "('w, 'expr, 'ex, 'identity, 'z) restorectl_env_scheme \<Rightarrow> string \<Rightarrow> string \<Rightarrow> Restore \<Rightarrow> 'w vstate
   \<Rightarrow> answer \<times> Restore \<times> 'w vstate" where
  "gate e reason message restore st =
     (let r = rset_cond e ConditionReady ConditionFalse reason message (set_phase RestorePhasePending restore)
      in case status_answer e r st of
           (Some err, st) \<Rightarrow> ((NoRequeue, Some err), r, st)
         | (None, st) \<Rightarrow> ((RequeueAfter shortRequeueInterval, None), r, st))"

section \<open>The source\<close>

definition parseRestoreTime :: "('w, 'expr, 'ex, 'identity, 'z) restorectl_env_scheme \<Rightarrow> string \<Rightarrow> instant option" where
  "parseRestoreTime e value =
     (case ve_parse_RFC3339 e value of Some t \<Rightarrow> Some t | None \<Rightarrow> ve_parse_zoneless e value)"

definition better_source :: "string \<Rightarrow> instant option \<Rightarrow> 'expr source_backup option \<Rightarrow> 'expr source_backup \<Rightarrow> 'expr source_backup option" where
  "better_source origin cutoff best sb =
     (let b = snd sb
      in if origin \<noteq> [] \<and> map_get (m_Labels (b_Meta b)) LabelOrigin \<noteq> origin then best
         else if \<not> backupSucceeded (bs_Phase (b_Status b)) then best
         else case bs_BackupTime (b_Status b) of
                None \<Rightarrow> best
              | Some t \<Rightarrow>
                  if (case cutoff of None \<Rightarrow> False | Some c \<Rightarrow> t > c) then best
                  else (case best of
                          None \<Rightarrow> Some sb
                        | Some prev \<Rightarrow>
                            (case bs_BackupTime (b_Status (snd prev)) of
                               None \<Rightarrow> Some sb
                             | Some t' \<Rightarrow> if t > t' then Some sb else best)))"

definition resolveSource ::
  "('w, 'expr, 'ex, 'identity, 'z) restorectl_env_scheme \<Rightarrow> 'expr RestoreSpec \<Rightarrow> Restore \<Rightarrow> 'w rstate
   \<Rightarrow> (go_error + 'expr source_backup option) \<times> 'w rstate" where
  "resolveSource e spec restore st =
     (let src = rsp_Source spec; ns = r_ns restore
      in if rsrc_Backup src \<noteq> [] then
           (case ce_get_backup e ns (rsrc_Backup src) (rw st) of
              Inl err \<Rightarrow>
                if err = NotFound then (Inr None, st)
                else (Inl (Wrap (''get source Backup '' @ ns @ ''/'' @ rsrc_Backup src) (APIError err)), st)
            | Inr b \<Rightarrow> (Inr (Some b), st))
         else
           (case pinnedSourceFor (r_uid restore) (ren st) of
              Some pinned \<Rightarrow>
                (case ce_get_backup e ns pinned (rw st) of
                   Inl err \<Rightarrow>
                     if err = NotFound then (Inr None, st)
                     else (Inl (Wrap (''get pinned source Backup '' @ ns @ ''/'' @ pinned) (APIError err)), st)
                 | Inr b \<Rightarrow> (Inr (Some b), st))
            | None \<Rightarrow>
                let at = rsrc_Time src; bounded = (at \<noteq> [] \<and> at \<noteq> sourceTimeLatest)
                in if bounded \<and> parseRestoreTime e at = None then (Inr None, st)
                   else (case ve_list_backups e ns (rw st) of
                           Inl err \<Rightarrow> (Inl (Wrap (''list Backups in '' @ ns) (APIError err)), st)
                         | Inr backups \<Rightarrow>
                             (case foldl (better_source (rsrc_Origin src) (if bounded then parseRestoreTime e at else None)) None backups of
                                None \<Rightarrow> (Inr None, st)
                              | Some best \<Rightarrow>
                                  (Inr (Some best), st\<lparr>ren := snd (pinSource (r_uid restore) (b_name (snd best)) (ren st))\<rparr>)))))"

section \<open>The plan of the volumes\<close>

definition restorable_step :: "string list \<Rightarrow> VolumeStatus \<Rightarrow> string list" where
  "restorable_step out v =
     (if Phase v \<noteq> VolumePhaseCompleted \<or> SnapshotID v = [] then out
      else if Pvc v \<in> set out then out else out @ [Pvc v])"

definition restorableVolumes :: "Backup \<Rightarrow> string list" where
  "restorableVolumes source = foldl restorable_step [] (bs_Volumes (b_Status source))"

definition dataSnapshotsByPVC :: "Snapshot list \<Rightarrow> (string \<rightharpoonup> Snapshot)" where
  "dataSnapshotsByPVC snaps =
     foldl (\<lambda>byPVC s.
         if fst (TagValue (sn_Tags s) TagKeyKind) \<noteq> KindData then byPVC
         else case TagValue (sn_Tags s) TagKeyPVC of
                (pvc, ok) \<Rightarrow>
                  if \<not> ok \<or> pvc = [] then byPVC
                  else (case byPVC pvc of
                          None \<Rightarrow> byPVC(pvc \<mapsto> s)
                        | Some prev \<Rightarrow> if sn_Time s > sn_Time prev then byPVC(pvc \<mapsto> s) else byPVC))
       Map.empty snaps"

fun volume_size :: "VolumeStatus list \<Rightarrow> string \<Rightarrow> int" where
  "volume_size [] pvc = 0"
| "volume_size (v # vs) pvc = (if Pvc v = pvc then SizeBytes v else volume_size vs pvc)"

definition sourceVolumeSize :: "Backup \<Rightarrow> string \<Rightarrow> i64" where
  "sourceVolumeSize source pvc = of_int (volume_size (bs_Volumes (b_Status source)) pvc)"

text \<open>Division of 64-bit integers truncates towards zero.\<close>

definition fallbackRestoreCapacity :: "i64 \<Rightarrow> int" where
  "fallbackRestoreCapacity dataSizeBytes =
     (let gib = (2 ^ 30 :: i64);
          padded = dataSizeBytes + of_int (sint dataSizeBytes sdiv 5);
          gibs = max (sint (padded + gib - 1) sdiv sint gib) 1
      in sint (of_int gibs * gib))"

definition sizePlan ::
  "('w, 'expr, 'ex, 'identity, 'z) restorectl_env_scheme \<Rightarrow> string \<Rightarrow> Backup \<Rightarrow> Snapshot \<Rightarrow> 'w \<Rightarrow> restoreVolumePlan \<Rightarrow> restoreVolumePlan" where
  "sizePlan e namespace source snap w plan =
     (case be_get_pvc e namespace (rp_pvc plan) w of
        Inr target \<Rightarrow>
          plan\<lparr>rp_capacity := sint (pc_Capacity target),
               rp_storageClass := (case pc_StorageClassName target of None \<Rightarrow> rp_storageClass plan | Some c \<Rightarrow> c),
               rp_accessModes := pc_AccessModes target\<rparr>
      | Inl _ \<Rightarrow>
          let meta = ParsePVCMeta (sn_Tags snap)
          in plan\<lparr>rp_capacity := (if 0 <s pm_CapacityBytes meta then sint (pm_CapacityBytes meta)
                                   else fallbackRestoreCapacity (sourceVolumeSize source (rp_pvc plan))),
                  rp_storageClass := pm_StorageClass meta,
                  rp_accessModes := rp_accessModes plan @ pm_AccessModes meta\<rparr>)"

definition base_plan :: "string \<Rightarrow> string \<Rightarrow> Snapshot \<Rightarrow> VolumeSelectorItem option \<Rightarrow> restoreVolumePlan" where
  "base_plan namespace pvc snap item =
     \<lparr>rp_pvc = pvc, rp_snapshotID = sn_ID snap, rp_snapshotPath = ''/data/'' @ namespace @ ''/'' @ pvc,
      rp_include = (case item of None \<Rightarrow> [] | Some i \<Rightarrow> vsi_Include i),
      rp_exclude = (case item of None \<Rightarrow> [] | Some i \<Rightarrow> vsi_Exclude i),
      rp_targetPath = (case item of None \<Rightarrow> [] | Some i \<Rightarrow> vsi_TargetPath i),
      rp_capacity = 0, rp_storageClass = [], rp_accessModes = []\<rparr>"

definition plan_step ::
  "('w, 'expr, 'ex, 'identity, 'z) restorectl_env_scheme \<Rightarrow> string \<Rightarrow> Backup \<Rightarrow> (string \<rightharpoonup> VolumeSelectorItem option)
   \<Rightarrow> (string \<rightharpoonup> Snapshot) \<Rightarrow> 'w \<Rightarrow> restoreVolumePlan list \<times> string list \<Rightarrow> string \<Rightarrow> restoreVolumePlan list \<times> string list" where
  "plan_step e namespace source selected byPVC w acc pvc =
     (case acc of
        (plans, missing) \<Rightarrow>
          (case selected pvc of
             None \<Rightarrow> (plans, missing)
           | Some item \<Rightarrow>
               (case byPVC pvc of
                  None \<Rightarrow> (plans, missing @ [pvc])
                | Some snap \<Rightarrow> (plans @ [sizePlan e namespace source snap w (base_plan namespace pvc snap item)], missing))))"

definition buildPlans ::
  "('w, 'expr, 'ex, 'identity, 'z) restorectl_env_scheme \<Rightarrow> 'expr RestoreSpec \<Rightarrow> Restore \<Rightarrow> Backup \<Rightarrow> (string \<rightharpoonup> Snapshot) \<Rightarrow> 'w
   \<Rightarrow> restoreVolumePlan list \<times> string list" where
  "buildPlans e spec restore source byPVC w =
     (let sourcePVCs = restorableVolumes source;
          selected = planVolumes (case rsp_Volumes spec of None \<Rightarrow> [] | Some vs \<Rightarrow> vs) sourcePVCs (rsp_Volumes spec \<noteq> None)
      in foldl (plan_step e (r_ns restore) source selected byPVC w) ([], []) (sort sourcePVCs))"

section \<open>The manifest half\<close>

definition toSelectionItems :: "'expr ResourceSelectorItem list \<Rightarrow> 'expr SelectionItem list" where
  "toSelectionItems items =
     foldl (\<lambda>out i. out @ [\<lparr>sit_Selector =
           (if length (lsel_MatchLabels (rsi_Selector i)) > 0 \<or> length (lsel_MatchExpressions (rsi_Selector i)) > 0
            then Some (rsi_Selector i) else None), sit_Include = rsi_Include i, sit_Exclude = rsi_Exclude i\<rparr>]) [] items"

definition manifestsSnapshot :: "Snapshot list \<Rightarrow> Snapshot option" where
  "manifestsSnapshot snaps =
     foldl (\<lambda>newest s.
         if fst (TagValue (sn_Tags s) TagKeyKind) \<noteq> KindManifests then newest
         else case newest of None \<Rightarrow> Some s | Some n \<Rightarrow> if sn_Time s > sn_Time n then Some s else newest) None snaps"

definition manifestsSnapshotPath :: "Snapshot \<Rightarrow> string" where
  "manifestsSnapshotPath snap = (case sn_Paths snap of [] \<Rightarrow> ManifestsRoot | p # _ \<Rightarrow> p)"

definition resolveResourcesPlan ::
  "'expr ResourceSelectorItem list option \<Rightarrow> string \<Rightarrow> bool \<Rightarrow> Snapshot list \<Rightarrow> (string \<times> string) list
   \<Rightarrow> 'expr resourcesPlan option \<times> bool" where
  "resolveResourcesPlan resources mode dryRun snaps classMapping =
     (if resources = Some [] then (None, True)
      else case manifestsSnapshot snaps of
             None \<Rightarrow> (None, False)
           | Some snap \<Rightarrow>
               (Some \<lparr>rpl_snapshotID = sn_ID snap, rpl_snapshotPath = manifestsSnapshotPath snap,
                  rpl_selection = (case resources of
                     None \<Rightarrow> \<lparr>sel_All = True, sel_Items = []\<rparr>
                   | Some items \<Rightarrow> \<lparr>sel_All = False, sel_Items = toSelectionItems items\<rparr>),
                  rpl_mode = mode, rpl_dryRun = dryRun, rpl_storageClassMapping = classMapping\<rparr>, True))"

definition doneWord :: "bool \<Rightarrow> string" where
  "doneWord isDone = (if isDone then ''settled'' else ''applying'')"

definition EncodeSelection ::
  "('w, 'expr, 'ex, 'identity, 'z) restorectl_env_scheme \<Rightarrow> 'expr Selection \<Rightarrow> go_error + string" where
  "EncodeSelection e s =
     (case ve_marshal_selection e s of Inl err \<Rightarrow> Inl (Wrap ''encode manifest selection'' err) | Inr b \<Rightarrow> Inr b)"

definition resourcesJobEnv ::
  "('w, 'expr, 'ex, 'identity, 'z) restorectl_env_scheme \<Rightarrow> string \<Rightarrow> 'expr resourcesPlan \<Rightarrow> go_error + (string \<times> string) list" where
  "resourcesJobEnv e targetNamespace plan =
     (case EncodeSelection e (rpl_selection plan) of
        Inl err \<Rightarrow> Inl err
      | Inr selection \<Rightarrow>
          let env = [(EnvManifestsNamespace, targetNamespace), (EnvManifestsRestoreDir, ManifestsRestoreDir),
                     (EnvManifestsMode, rpl_mode plan), (EnvManifestsSelection, selection)];
              env = (if rpl_dryRun plan then env @ [(EnvManifestsDryRun, EnvTrue)] else env)
          in if length (rpl_storageClassMapping plan) > 0 then
               (case ve_marshal_mapping e (rpl_storageClassMapping plan) of
                  Inl err \<Rightarrow> Inl (Wrap ''encode storageClassMapping'' err)
                | Inr encoded \<Rightarrow> Inr (env @ [(EnvManifestsStorageClassMapping, encoded)]))
             else Inr env)"

definition resourcesLabels :: "restoreExecContext \<Rightarrow> string_map" where
  "resourcesLabels rc =
     [LabelManagedBy \<mapsto> ManagedByValue, rx_ownerLabelKey rc \<mapsto> rx_ownerName rc,
      LabelNamespace \<mapsto> rx_targetNamespace rc, LabelMoverRole \<mapsto> MoverRoleManifest]"

definition resources_job ::
  "('w, 'expr, 'ex, 'identity, 'z) restorectl_env_scheme \<Rightarrow> restoreExecContext \<Rightarrow> 'expr resourcesPlan \<Rightarrow> string
   \<Rightarrow> (string \<times> string) list \<Rightarrow> JobRequest" where
  "resources_job e rc plan jobName env =
     \<lparr>jr_Name = jobName, jr_Operation = OpManifestsRestore,
      jr_ResticArgs = ManifestsRestoreArgs (rpl_snapshotID plan) (rpl_snapshotPath plan) ManifestsRestoreDir,
      jr_RepoURL = rx_repoURL rc, jr_S3Connections = rx_s3Connections rc, jr_SecretName = jobName, jr_PVC = None,
      jr_BackoffLimit = restoreMoverBackoffLimit, jr_TTLSeconds = NoTTL, jr_Labels = resourcesLabels rc,
      jr_ExtraEnv = env, jr_ServiceAccountName = me_ManifestMoverServiceAccount e, jr_ManifestsVolume = True\<rparr>"

definition startResourcesJob ::
  "('w, 'expr, 'ex, 'identity, 'z) restorectl_env_scheme \<Rightarrow> restoreExecContext \<Rightarrow> 'expr resourcesPlan \<Rightarrow> string \<Rightarrow> 'w
   \<Rightarrow> go_error option \<times> 'w" where
  "startResourcesJob e rc plan jobName w =
     (case ensureMoverCredsSecret (be_deps e) jobName (rx_dek rc) (rx_s3CredsSecret rc) [] (resourcesLabels rc) w of
        (Some err, w) \<Rightarrow> (Some err, w)
      | (None, w) \<Rightarrow>
          (case ensureManifestRoleBinding e \<lparr>mq_TargetNamespace = rx_targetNamespace rc, mq_JobName = jobName,
                   mq_ClusterRoleName = ve_ManifestWriterClusterRole e,
                   mq_ServiceAccountName = me_ManifestMoverServiceAccount e,
                   mq_OperatorNamespace = be_OperatorNamespace e\<rparr> w of
             (Some err, w) \<Rightarrow> (Some err, w)
           | (None, w) \<Rightarrow>
               (case resourcesJobEnv e (rx_targetNamespace rc) plan of
                  Inl err \<Rightarrow> (Some err, w)
                | Inr env \<Rightarrow>
                    (case rd_create_job (be_deps e) (resources_job e rc plan jobName env) w of
                       (None, w) \<Rightarrow> (None, w)
                     | (Some err, w) \<Rightarrow>
                         if err = AlreadyExists then (None, w)
                         else (Some (Wrap (''create manifest restore Job '' @ be_OperatorNamespace e @ ''/'' @ jobName) (APIError err)),
                               snd (deleteManifestRoleBinding e (rx_targetNamespace rc) jobName w))))))"

fun take_entries :: "ResourceEntry list \<Rightarrow> RestoreResourcesStatus \<Rightarrow> RestoreResourcesStatus" where
  "take_entries [] out = out"
| "take_entries (x # xs) out =
     (if length (rrs_Entries out) \<ge> MaxRestoreResourceEntries then out\<lparr>rrs_Truncated := True\<rparr>
      else let long = (length (re_Changed x) > MaxRestoreChangedPaths)
           in take_entries xs
                (out\<lparr>rrs_Truncated := (rrs_Truncated out \<or> long),
                     rrs_Entries := rrs_Entries out @ [\<lparr>rre_Group = re_Group x, rre_Kind = re_Kind x, rre_Name = re_Name x,
                       rre_Outcome = re_Outcome x, rre_Reason = clampMessage (re_Reason x),
                       rre_Changed = (if long then take MaxRestoreChangedPaths (re_Changed x) else re_Changed x)\<rparr>]\<rparr>))"

definition resourcesStatusFrom :: "MoverResult \<Rightarrow> RestoreResourcesStatus" where
  "resourcesStatusFrom result =
     take_entries (ResourceEntries result)
       \<lparr>rrs_FailedCount = FailedResources result, rrs_Truncated = ResourcesTruncated result, rrs_Entries = []\<rparr>"

definition failed_resources :: "string \<Rightarrow> RestoreResourcesStatus" where
  "failed_resources reason =
     \<lparr>rrs_FailedCount = 1, rrs_Truncated = False,
      rrs_Entries = [\<lparr>rre_Group = [], rre_Kind = [], rre_Name = [], rre_Outcome = RestoreResourceFailed, rre_Reason = reason,
        rre_Changed = []\<rparr>]\<rparr>"

definition advanceResources ::
  "('w, 'expr, 'ex, 'identity, 'z) restorectl_env_scheme \<Rightarrow> Restore \<Rightarrow> restoreExecContext \<Rightarrow> 'expr resourcesPlan option \<Rightarrow> 'w
   \<Rightarrow> (bool \<times> string \<times> go_error option) \<times> Restore \<times> 'w" where
  "advanceResources e restore rc plan w =
     (case plan of
        None \<Rightarrow> ((True, [], None), restore, w)
      | Some plan \<Rightarrow>
          if rst_Resources (r_Status restore) \<noteq> None then ((True, [], None), restore, w)
          else
            let stem = resourcesJobPrefix (rx_ownerID rc);
                jobName = manifestsJobName stem
            in case be_get_job e w (be_OperatorNamespace e) jobName of
                 Inl err \<Rightarrow>
                   if err = NotFound then
                     (case startResourcesJob e rc plan jobName w of (err, w) \<Rightarrow> ((False, [], err), restore, w))
                   else ((False, [], Some (Wrap (''get manifest restore Job '' @ be_OperatorNamespace e @ ''/'' @ jobName)
                            (APIError err))), restore, w)
               | Inr job \<Rightarrow>
                   if j_Succeeded job = 0 \<and> j_Failed job = 0 then ((False, [], None), restore, w)
                   else
                     (case readMoverResult (be_unmarshal_result e) (be_job_pods e jobName w) of
                        (result, _, readErr) \<Rightarrow>
                          ((True, stem, None),
                           restore\<lparr>r_Status :=
                             (case readErr of
                                Some err \<Rightarrow> (r_Status restore)\<lparr>rst_Resources := Some (failed_resources
                                  (''the manifest restore did not report a result ('' @ read_error_Error e jobName err @ ''); '' @
                                   ''some resources may have been applied '' @ [CHR 0xE2, CHR 0x80, CHR 0x94] @
                                   '' see the mover'' @ [CHR 0x27] @ ''s pod log''))\<rparr>
                              | None \<Rightarrow>
                                  if \<not> OK result
                                  then (r_Status restore)\<lparr>rst_Resources := Some (failed_resources (clampMessage (mr_Error result)))\<rparr>
                                  else (r_Status restore)\<lparr>rst_RestoredResources := RestoredResources result,
                                         rst_Resources := Some (resourcesStatusFrom result)\<rparr>)\<rparr>,
                           w)))"

definition teardownResources ::
  "('w, 'expr, 'ex, 'identity, 'z) restorectl_env_scheme \<Rightarrow> restoreExecContext \<Rightarrow> string \<Rightarrow> 'w \<Rightarrow> 'w" where
  "teardownResources e rc stem w =
     (let jobName = manifestsJobName stem
      in deleteJobAndSecret (be_deps e) (be_OperatorNamespace e) jobName
           (snd (deleteManifestRoleBinding e (rx_targetNamespace rc) jobName w)))"

section \<open>Preparation\<close>

text \<open>Either the answer of a pass that stops here, or what the pass goes on with.\<close>

definition exec_context :: "'expr RestoreSpec \<Rightarrow> Restore \<Rightarrow> Backup \<Rightarrow> ClusterBackupLocation \<Rightarrow> BackupRepository \<Rightarrow> string \<Rightarrow> restoreExecContext" where
  "exec_context spec restore source loc repo dek =
     \<lparr>rx_ownerName = r_name restore, rx_ownerLabelKey = LabelRestore, rx_ownerID = restoreOwnerID (r_ns restore) (r_name restore),
      rx_targetNamespace = r_ns restore, rx_deleteExtras = (rsp_Mode spec = RestoreModeRecreate), rx_restoredFromRun = b_name source,
      rx_repoName = cbl_Name loc, rx_repoURL = rep_RepositoryURL repo, rx_dek = dek,
      rx_s3CredsSecret = s3_CredentialsSecretRef (cbl_S3 loc), rx_s3Connections = s3_Connections (cbl_S3 loc),
      rx_clusterID = cbl_ClusterID loc, rx_startBudget = 0\<rparr>"

definition plan_pass ::
  "('w, 'expr, 'ex, 'identity, 'z) restorectl_env_scheme \<Rightarrow> 'expr RestoreSpec \<Rightarrow> Backup \<Rightarrow> restoreExecContext
   \<Rightarrow> (string \<rightharpoonup> Snapshot) \<Rightarrow> Snapshot list \<Rightarrow> bool \<Rightarrow> Restore \<Rightarrow> 'w vstate
   \<Rightarrow> (answer + restoreExecContext \<times> restoreVolumePlan list \<times> 'expr resourcesPlan option) \<times> Restore \<times> 'w vstate" where
  "plan_pass e spec source rc byPVC manifestSnaps cached restore st =
     (case buildPlans e spec restore source byPVC (vw st) of
        (plans, missing) \<Rightarrow>
          if length missing > 0 then
            (case gate e ''SnapshotNotFound'' (''no snapshot under the namespace filter for PVC(s): '' @ clampMessage (joinFailures missing))
                    restore (with_engine (forgetListing (r_uid restore) (ren (vrs st))) st) of
               (ans, r, st) \<Rightarrow> (Inl ans, r, st))
          else
            let st = (if \<not> cached then with_engine (storeResolution (r_uid restore) (b_name source) byPVC manifestSnaps (ren (vrs st))) st
                      else st);
                resources = fst (resolveResourcesPlan (rsp_Resources spec) (rsp_Mode spec) (rsp_DryRun spec) manifestSnaps [])
            in if resources \<noteq> None \<and> ve_ManifestWriterClusterRole e = [] then
                 (case gate e ''ManifestRestoreUnavailable''
                         (''this operator was not configured with --manifest-writer-cluster-role, so the '' @
                          ''resources[] half of a restore cannot run; restore volumes only with resources: []'') restore st of
                    (ans, r, st) \<Rightarrow> (Inl ans, r, st))
               else (Inr (rc, plans, resources), restore, st))"

definition prepare ::
  "('w, 'expr, 'ex, 'identity, 'z) restorectl_env_scheme \<Rightarrow> 'expr RestoreSpec \<Rightarrow> 'expr source_backup \<Rightarrow> Restore \<Rightarrow> 'w vstate
   \<Rightarrow> (answer + restoreExecContext \<times> restoreVolumePlan list \<times> 'expr resourcesPlan option) \<times> Restore \<times> 'w vstate" where
  "prepare e spec sb restore st =
     (let stop = (\<lambda>(ans, r, st). (Inl ans, r, st)); locName = bsp_LocationName (fst sb); source = snd sb
      in if bsp_LocationKind (fst sb) \<noteq> kindClusterBackupLocation then
           stop (gate e ''NamespacePlaneRestoreUnavailable''
             (''restoring from a namespace-plane BackupLocation lands with the namespace plane (M5); '' @
              ''this Backup references location kind BackupLocation'') restore st)
         else
           (case ce_get_cluster_location e locName (vw st) of
              Inl err \<Rightarrow>
                if err = NotFound then
                  stop (gate e ''LocationNotFound'' (''ClusterBackupLocation '' @ me_Quote e locName @ '' not found'') restore st)
                else (Inl (NoRequeue, Some (Wrap (''get ClusterBackupLocation '' @ locName) (APIError err))), restore, st)
            | Inr loc \<Rightarrow>
                let not_ready = stop (gate e ''RepositoryNotReady''
                      (''BackupRepository '' @ me_Quote e (cbl_Name loc) @ '' is not initialized'') restore st)
                in (case ce_get_repository e (cbl_Name loc) (vw st) of
                      Inl err \<Rightarrow>
                        if err \<noteq> NotFound
                        then (Inl (NoRequeue, Some (Wrap (''get BackupRepository '' @ cbl_Name loc) (APIError err))), restore, st)
                        else not_ready
                    | Inr repo \<Rightarrow>
                        if \<not> rep_Initialized repo then not_ready
                        else
                          (case resolvePlatformDEKCommon e loc (vw st) of
                             (Inl (reason, message), w) \<Rightarrow> stop (gate e reason message restore (with_world w st))
                           | (Inr dek, w) \<Rightarrow>
                               let st = with_world w st; rc = exec_context spec restore source loc repo dek
                               in (case cachedResolution (r_uid restore) (b_name source) (ren (vrs st)) of
                                     Some (byPVC, manifestSnaps) \<Rightarrow> plan_pass e spec source rc byPVC manifestSnaps True restore st
                                   | None \<Rightarrow>
                                       (case ve_ListFiltered e repo (restoreResolveJobName (restoreOwnerID (r_ns restore) (r_name restore)))
                                               [Tag TagKeyNamespace (r_ns restore), Tag TagKeyRun (b_name source)] (vw st) of
                                          (Inl err, w) \<Rightarrow>
                                            stop (gate e ''SnapshotResolutionFailed''
                                              (''mediated snapshot resolution failed: '' @ Error (he_show_api e) err) restore (with_world w st))
                                        | (Inr snaps, w) \<Rightarrow>
                                            plan_pass e spec source rc (dataSnapshotsByPVC snaps) snaps False restore (with_world w st)))))))"

section \<open>One pass\<close>

definition drive_pass ::
  "('w, 'expr, 'ex, 'identity, 'z) restorectl_env_scheme \<Rightarrow> restoreExecContext \<Rightarrow> restoreVolumePlan list \<Rightarrow> 'w vstate
   \<Rightarrow> volumeDrive \<times> restoreExecContext \<times> 'w vstate" where
  "drive_pass e rc plans st = (case driveVolumes e rc plans (vrs st) of (d, rc, rs) \<Rightarrow> (d, rc, st\<lparr>vrs := rs\<rparr>))"

definition tear_resources ::
  "('w, 'expr, 'ex, 'identity, 'z) restorectl_env_scheme \<Rightarrow> restoreExecContext \<Rightarrow> string \<Rightarrow> 'w vstate \<Rightarrow> 'w vstate" where
  "tear_resources e rc stem st = (if stem \<noteq> [] then with_world (teardownResources e rc stem (vw st)) st else st)"

definition running_pass ::
  "('w, 'expr, 'ex, 'identity, 'z) restorectl_env_scheme \<Rightarrow> restoreExecContext \<Rightarrow> volumeDrive \<Rightarrow> bool \<times> string \<times> go_error option
   \<Rightarrow> Restore \<Rightarrow> 'w vstate \<Rightarrow> answer \<times> Restore \<times> 'w vstate" where
  "running_pass e rc d res restore st =
     (case res of
        (resourcesDone, stem, resourcesErr) \<Rightarrow>
          let r = set_phase RestorePhaseRunning restore;
              (r, st) = (if tallied d then stampVolumeCounts (vd_tally d) r st else (r, st));
              r = rset_cond e ConditionReady ConditionFalse ''InProgress''
                    (restoreProgressMessage (he_show_api e) d ('', manifests '' @ doneWord resourcesDone)) r
          in (case status_answer e r st of
                (Some err, st) \<Rightarrow> ((NoRequeue, Some err), r, st)
              | (None, st) \<Rightarrow>
                  let st = tear_resources e rc stem st
                  in (case errors_Join [resourcesErr, vd_passErr d] of
                        Some deferred \<Rightarrow> ((NoRequeue, Some deferred), r, st)
                      | None \<Rightarrow> ((RequeueAfter restorePollInterval, None), r, st))))"

definition terminal_phase :: "volumeDrive \<Rightarrow> Restore \<Rightarrow> string" where
  "terminal_phase d restore =
     (case rst_Resources (r_Status restore) of
        None \<Rightarrow> RollUpRestoreOutcomes (completed d) (failedCount d)
      | Some res \<Rightarrow> RollUpRestoreOutcomes (completed d + sint (rst_RestoredResources (r_Status restore)))
                       (failedCount d + sint (rrs_FailedCount res)))"

definition terminal_pass ::
  "('w, 'expr, 'ex, 'identity, 'z) restorectl_env_scheme \<Rightarrow> restoreExecContext \<Rightarrow> restoreVolumePlan list \<Rightarrow> volumeDrive \<Rightarrow> string
   \<Rightarrow> Restore \<Rightarrow> 'w vstate \<Rightarrow> answer \<times> Restore \<times> 'w vstate" where
  "terminal_pass e rc plans d stem restore st =
     (let phase = terminal_phase d restore;
          (r, st) = stampVolumeCounts (vd_tally d) (set_phase phase restore) st;
          r = setRestoreTerminalCondition e phase (vd_failures d)
                (r\<lparr>r_Status := (r_Status r)\<lparr>rst_RestoredBytes := vd_restoredBytes d\<rparr>\<rparr>)
      in case status_answer e r st of
           (Some err, st) \<Rightarrow> ((NoRequeue, Some err), r, st)
         | (None, st) \<Rightarrow>
             let st = tear_resources e rc stem st;
                 st = with_world (teardownAll e rc plans (vw st)) st;
                 st = with_engine (forgetResolution (r_uid restore) (rx_ownerID rc) (ren (vrs st))) st
             in ((NoRequeue, None), r,
                 report (if phase = RestorePhaseCompleted then RestoreCompletedEvent (completed d) (vd_restoredBytes d)
                         else RestoreFailedEvent phase (clampMessage (joinFailures (vd_failures d)))) st))"

definition confirm ::
  "('w, 'expr, 'ex, 'identity, 'z) restorectl_env_scheme \<Rightarrow> Restore \<Rightarrow> 'w vstate \<Rightarrow> Restore \<times> 'w vstate" where
  "confirm e restore st =
     (if IsConditionTrue e (rst_Conditions (r_Status restore)) ConditionConfirmed then (restore, st)
      else (rset_cond e ConditionConfirmed ConditionTrue ''ConfirmationAccepted'' ''spec.confirmation matches the target namespace'' restore,
            report (ConfirmationAccepted (r_ns restore)) st))"

definition restore_pass ::
  "('w, 'expr, 'ex, 'identity, 'z) restorectl_env_scheme \<Rightarrow> 'expr RestoreSpec \<Rightarrow> 'expr source_backup \<Rightarrow> Restore \<Rightarrow> 'w vstate
   \<Rightarrow> answer \<times> Restore \<times> 'w vstate" where
  "restore_pass e spec source restore st =
     (case prepare e spec source restore st of
        (Inl ans, r, st) \<Rightarrow> (ans, r, st)
      | (Inr (rc, plans, resources), r, st) \<Rightarrow>
          (case advanceResources e r rc resources (vw st) of
             (res, r, w) \<Rightarrow>
               (case drive_pass e rc plans (with_world w st) of
                  (d, rc, st) \<Rightarrow>
                    if \<not> tallied d \<or> settled d < int (length plans) \<or> \<not> fst res then running_pass e rc d res r st
                    else terminal_pass e rc plans d (fst (snd res)) r st)))"

definition reconcile_restore ::
  "('w, 'expr, 'ex, 'identity, 'z) restorectl_env_scheme \<Rightarrow> 'expr RestoreSpec \<Rightarrow> Restore \<Rightarrow> 'w vstate
   \<Rightarrow> answer \<times> Restore \<times> 'w vstate" where
  "reconcile_restore e spec restore st =
     (let at = rsrc_Time (rsp_Source spec)
      in if rsp_Confirmation spec \<noteq> r_ns restore then awaitConfirmation e spec restore st
         else if at \<noteq> [] \<and> at \<noteq> sourceTimeLatest \<and> parseRestoreTime e at = None then
           gate e ''InvalidSourceTime'' (''spec.source.time '' @ me_Quote e at @ '' is not '' @ [CHR 0x22] @ ''latest'' @ [CHR 0x22] @
             '' or a valid RFC3339 timestamp'') restore st
         else
           (case resolveSource e spec restore (vrs st) of
              (Inl err, rs) \<Rightarrow> ((NoRequeue, Some err), restore, st\<lparr>vrs := rs\<rparr>)
            | (Inr None, rs) \<Rightarrow>
                gate e ''SourceBackupNotFound'' ''no Backup in this namespace matches spec.source (it may not be projected yet)''
                  restore (st\<lparr>vrs := rs\<rparr>)
            | (Inr (Some source), rs) \<Rightarrow>
                (case confirm e restore (st\<lparr>vrs := rs\<rparr>) of (r, st) \<Rightarrow> restore_pass e spec source r st)))"

definition teardown_labelled ::
  "('w, 'expr, 'ex, 'identity, 'z) restorectl_env_scheme \<Rightarrow> restoreExecContext \<Rightarrow> api_error + string_map list \<Rightarrow> 'w \<Rightarrow> 'w" where
  "teardown_labelled e rc listed w =
     (case listed of
        Inl _ \<Rightarrow> w
      | Inr objs \<Rightarrow>
          foldl (\<lambda>w labels. let pvc = map_get labels LabelPVC in if pvc \<noteq> [] then restore_teardownVolume e rc pvc w else w) w objs)"

definition teardownRestoreResidue ::
  "('w, 'expr, 'ex, 'identity, 'z) restorectl_env_scheme \<Rightarrow> restoreExecContext \<Rightarrow> 'w \<Rightarrow> 'w" where
  "teardownRestoreResidue e rc w =
     (let w = deleteJobAndSecret (be_deps e) (be_OperatorNamespace e) (restoreResolveJobName (rx_ownerID rc)) w;
          sel = [(LabelManagedBy, ManagedByValue), (rx_ownerLabelKey rc, rx_ownerName rc), (LabelNamespace, rx_targetNamespace rc)];
          w = teardown_labelled e rc
                (case rd_list_jobs (be_deps e) w (be_OperatorNamespace e) sel of Inl err \<Rightarrow> Inl err | Inr jobs \<Rightarrow> Inr (map j_Labels jobs)) w;
          w = teardown_labelled e rc (ve_list_staging e (be_OperatorNamespace e) (map_of sel) w) w
      in teardown_labelled e rc (ve_list_pvs e (map_of sel) w) w)"

definition finalizing_context :: "Restore \<Rightarrow> restoreExecContext" where
  "finalizing_context restore =
     \<lparr>rx_ownerName = r_name restore, rx_ownerLabelKey = LabelRestore, rx_ownerID = restoreOwnerID (r_ns restore) (r_name restore),
      rx_targetNamespace = r_ns restore, rx_deleteExtras = False, rx_restoredFromRun = [], rx_repoName = [], rx_repoURL = [],
      rx_dek = [], rx_s3CredsSecret = [], rx_s3Connections = None, rx_clusterID = [], rx_startBudget = 0\<rparr>"

definition finalize ::
  "('w, 'expr, 'ex, 'identity, 'z) restorectl_env_scheme \<Rightarrow> Restore \<Rightarrow> 'w vstate \<Rightarrow> answer \<times> 'w vstate" where
  "finalize e restore st =
     (if FinalizerRestore \<notin> set (m_Finalizers (r_Meta restore)) then ((NoRequeue, None), st)
      else
        let rc = finalizing_context restore;
            st = with_engine (forgetResolution (r_uid restore) (rx_ownerID rc) (ren (vrs st))) st;
            st = report RestoreFinalizing (with_world (teardownRestoreResidue e rc (vw st)) st);
            r = restore\<lparr>r_Meta := (r_Meta restore)\<lparr>m_Finalizers := removeAll FinalizerRestore (m_Finalizers (r_Meta restore))\<rparr>\<rparr>
        in case ve_update e r (vw st) of
             (None, w) \<Rightarrow> ((NoRequeue, None), with_world w st)
           | (Some err, w) \<Rightarrow>
               if err = NotFound then ((NoRequeue, None), with_world w st)
               else ((NoRequeue, Some (Wrap (''remove finalizer from Restore '' @ r_key restore) (APIError err))), with_world w st))"

definition Reconcile ::
  "('w, 'expr, 'ex, 'identity, 'z) restorectl_env_scheme \<Rightarrow> string \<Rightarrow> string \<Rightarrow> 'w vstate \<Rightarrow> answer \<times> 'w vstate" where
  "Reconcile e namespace name st =
     (case ve_get_restore e namespace name (vw st) of
        Inl err \<Rightarrow>
          if err = NotFound then ((NoRequeue, None), st)
          else ((NoRequeue, Some (Wrap (''get Restore '' @ namespace @ ''/'' @ name) (APIError err))), st)
      | Inr (spec, restore) \<Rightarrow>
          if m_DeletionTimestamp (r_Meta restore) \<noteq> None then finalize e restore st
          else if FinalizerRestore \<notin> set (m_Finalizers (r_Meta restore)) then
            (let r = restore\<lparr>r_Meta := (r_Meta restore)\<lparr>m_Finalizers := m_Finalizers (r_Meta restore) @ [FinalizerRestore]\<rparr>\<rparr>
             in case ve_update e r (vw st) of
                  (Some err, w) \<Rightarrow> ((NoRequeue, Some (Wrap (''add finalizer to Restore '' @ r_key restore) (APIError err))), with_world w st)
                | (None, w) \<Rightarrow> ((Requeue, None), with_world w st))
          else if IsTerminalRestorePhase (r_phase restore) then ((NoRequeue, None), st)
          else (case reconcile_restore e spec restore st of (ans, _, st) \<Rightarrow> (ans, st)))"

definition mapJobToRestore :: "string_map \<Rightarrow> (string \<times> string) list" where
  "mapJobToRestore labels =
     (if map_get labels LabelManagedBy \<noteq> ManagedByValue then []
      else let name = map_get labels LabelRestore; namespace = map_get labels LabelNamespace
           in if name = [] \<or> namespace = [] then [] else [(namespace, name)])"

end
