(* ===== verification/Cluster_Restore.thy ===== *)
theory Cluster_Restore
  imports Restore_Controller Cluster_Backup
begin

text \<open>
  The ClusterRestore controller (\<^verbatim>\<open>internal/controller/clusterrestore_controller.go\<close> and
  \<^verbatim>\<open>cluster_restore_resources.go\<close>): the administrator's restore of a run into any namespace. The run is
  chosen from a listing of the repository, not from Backup objects; the cluster-scoped manifests, when
  asked for, are applied before any volume moves; the volumes go through the same engine as a
  Restore's. Go iterates maps in no fixed order: \<open>xe_order\<close> is the order of one iteration.
\<close>

section \<open>The resource\<close>

abbreviation FinalizerClusterRestore :: string where "FinalizerClusterRestore \<equiv> ''crystalbackup.io/cluster-restore-teardown''"
abbreviation ClusterManifestsRestoreDir :: string where "ClusterManifestsRestoreDir \<equiv> ''/cluster-manifests/restore''"

definition periodicRequeueInterval :: duration where "periodicRequeueInterval = minutes 5"

record ClusterRestoreSource =
  crs_LocationRef :: string
  crs_Namespace :: string
  crs_Backup :: string
  crs_Time :: string

record ClusterRestoreTarget =
  crt_Namespace :: string
  crt_CreateNamespace :: bool
  crt_StorageClassMapping :: "string \<rightharpoonup> string"

record ClusterResourceRestoreSpec =
  crr_Include :: "string list"
  crr_Exclude :: "string list"

record 'expr ClusterRestoreSpec =
  csp_Source :: ClusterRestoreSource
  csp_Target :: ClusterRestoreTarget
  csp_Mode :: string
  csp_Resources :: "'expr ResourceSelectorItem list option"
  csp_Volumes :: "VolumeSelectorItem list option"
  csp_ClusterResources :: "ClusterResourceRestoreSpec option"
  csp_Confirmation :: string
  csp_DryRun :: bool

text \<open>The status of a ClusterRestore has the fields of a Restore's, and so has the object.\<close>

type_synonym ClusterRestore = Restore

record 'expr clusterRestoreResourcesPlan =
  cpl_snapshotID :: string
  cpl_snapshotPath :: string
  cpl_selection :: "'expr Selection"
  cpl_mode :: string
  cpl_dryRun :: bool

datatype cluster_restore_event =
    ClusterConfirmationAccepted string
  | ClusterConfirmationRequired string
  | TargetNamespaceCreated string
  | RunResolved string string
  | ClusterRestoreFinalizing
  | ClusterVolumeCountsInconsistent i32 i32
  | ClusterRestoreCompleted int i64 string
  | ClusterRestoreFailed string string

record 'w xstate =
  xrs :: "'w rstate"
  xev :: "cluster_restore_event list"

abbreviation xw :: "'w xstate \<Rightarrow> 'w" where "xw st \<equiv> rw (xrs st)"
abbreviation xworld :: "'w \<Rightarrow> 'w xstate \<Rightarrow> 'w xstate" where "xworld w st \<equiv> st\<lparr>xrs := (xrs st)\<lparr>rw := w\<rparr>\<rparr>"
abbreviation xengine :: "restoreEngine \<Rightarrow> 'w xstate \<Rightarrow> 'w xstate" where "xengine en st \<equiv> st\<lparr>xrs := (xrs st)\<lparr>ren := en\<rparr>\<rparr>"
abbreviation xreport :: "cluster_restore_event \<Rightarrow> 'w xstate \<Rightarrow> 'w xstate" where "xreport ev st \<equiv> st\<lparr>xev := xev st @ [ev]\<rparr>"

record ('w, 'expr, 'ex, 'identity) clusterrestore_env = "('w, 'expr, 'ex, 'identity) restorectl_env" +
  xe_get :: "string \<Rightarrow> 'w \<Rightarrow> api_error + 'expr ClusterRestoreSpec \<times> ClusterRestore"
  xe_update :: "ClusterRestore \<Rightarrow> 'w \<Rightarrow> api_error option \<times> 'w"
  xe_update_status :: "ClusterRestore \<Rightarrow> 'w \<Rightarrow> api_error option \<times> 'w"
  xe_get_namespace :: "string \<Rightarrow> 'w \<Rightarrow> api_error option"
  xe_create_namespace :: "string \<Rightarrow> 'w \<Rightarrow> api_error option \<times> 'w"
  xe_create_crb :: "ClusterRoleBinding \<Rightarrow> 'w \<Rightarrow> api_error option \<times> 'w"
  xe_delete_crb :: "string \<Rightarrow> 'w \<Rightarrow> api_error option \<times> 'w"
  xe_create_job :: "ClusterJobRequest \<Rightarrow> 'w \<Rightarrow> api_error option \<times> 'w"
  xe_ClusterManifestWriterClusterRole :: string
  xe_order :: "string list \<Rightarrow> string list"

section \<open>Choosing the run\<close>

definition zero_time :: instant where "zero_time = - seconds 62135596800"

text \<open>The snapshots of each run in the order listed, and each run's newest instant after Go's zero time.\<close>

record run_index =
  ri_byRun :: "(string \<times> Snapshot list) list"
  ri_newest :: "(string \<times> instant) list"

definition index_snapshot :: "run_index \<Rightarrow> Snapshot \<Rightarrow> run_index" where
  "index_snapshot ix s =
     (case TagValue (sn_Tags s) TagKeyRun of
        (run, ok) \<Rightarrow>
          if \<not> ok \<or> run = [] then ix
          else
            let known = (case map_of (ri_byRun ix) run of None \<Rightarrow> [] | Some ss \<Rightarrow> ss);
                newest = (case map_of (ri_newest ix) run of None \<Rightarrow> zero_time | Some t \<Rightarrow> t)
            in ix\<lparr>ri_byRun := AList.update run (known @ [s]) (ri_byRun ix),
                  ri_newest := (if sn_Time s > newest then AList.update run (sn_Time s) (ri_newest ix) else ri_newest ix)\<rparr>)"

definition later_run :: "(string \<rightharpoonup> instant) \<Rightarrow> instant option \<Rightarrow> string \<Rightarrow> string \<Rightarrow> string" where
  "later_run newest cutoff best run =
     (case newest run of
        None \<Rightarrow> best
      | Some t \<Rightarrow>
          if (case cutoff of None \<Rightarrow> False | Some c \<Rightarrow> t > c) then best
          else if best = [] \<or> t > (case newest best of None \<Rightarrow> zero_time | Some u \<Rightarrow> u) then run else best)"

definition selectRun ::
  "('w, 'expr, 'ex, 'identity, 'z) clusterrestore_env_scheme \<Rightarrow> Snapshot list \<Rightarrow> string \<Rightarrow> string \<Rightarrow> (string \<times> Snapshot list) option" where
  "selectRun e snaps namedRun timeSpec =
     (let ix = foldl index_snapshot \<lparr>ri_byRun = [], ri_newest = []\<rparr> snaps
      in if namedRun \<noteq> [] then (case map_of (ri_byRun ix) namedRun of None \<Rightarrow> None | Some rs \<Rightarrow> Some (namedRun, rs))
         else
           let bounded = (timeSpec \<noteq> [] \<and> timeSpec \<noteq> sourceTimeLatest); cutoff = (if bounded then parseRestoreTime e timeSpec else None)
           in if bounded \<and> cutoff = None then None
              else
                let best = foldl (later_run (map_of (ri_newest ix)) cutoff) [] (xe_order e (map fst (ri_newest ix)))
                in if best = [] then None
                   else Some (best, case map_of (ri_byRun ix) best of None \<Rightarrow> [] | Some rs \<Rightarrow> rs))"

fun run_of :: "(string \<rightharpoonup> Snapshot) \<Rightarrow> string list \<Rightarrow> string" where
  "run_of byPVC [] = []"
| "run_of byPVC (pvc # pvcs) =
     (case byPVC pvc of
        None \<Rightarrow> run_of byPVC pvcs
      | Some s \<Rightarrow> (case TagValue (sn_Tags s) TagKeyRun of (run, ok) \<Rightarrow> if ok then run else run_of byPVC pvcs))"

text \<open>The keys of a map the source collects and sorts, and the run its first tagged value names.\<close>

definition sorted_keys :: "(string \<rightharpoonup> 'v) \<Rightarrow> string list" where
  "sorted_keys m = sorted_list_of_set (dom m)"

definition runOf :: "('w, 'expr, 'ex, 'identity, 'z) clusterrestore_env_scheme \<Rightarrow> (string \<rightharpoonup> Snapshot) \<Rightarrow> string" where
  "runOf e byPVC = run_of byPVC (xe_order e (sorted_keys byPVC))"

definition snapshotDataSize :: "Snapshot \<Rightarrow> i64" where
  "snapshotDataSize s = (case sn_Summary s of None \<Rightarrow> 0 | Some su \<Rightarrow> TotalBytesProcessed su)"

section \<open>Gates\<close>

definition xstatus ::
  "('w, 'expr, 'ex, 'identity, 'z) clusterrestore_env_scheme \<Rightarrow> ClusterRestore \<Rightarrow> 'w xstate \<Rightarrow> go_error option \<times> 'w xstate" where
  "xstatus e r st =
     (case xe_update_status e r (xw st) of
        (Some err, w) \<Rightarrow> (Some (Wrap (''update status for ClusterRestore '' @ r_name r) (APIError err)), xworld w st)
      | (None, w) \<Rightarrow> (None, xworld w st))"

definition gateAt ::
  "('w, 'expr, 'ex, 'identity, 'z) clusterrestore_env_scheme \<Rightarrow> string \<Rightarrow> string \<Rightarrow> duration \<Rightarrow> ClusterRestore \<Rightarrow> 'w xstate
   \<Rightarrow> answer \<times> ClusterRestore \<times> 'w xstate" where
  "gateAt e reason message after cr st =
     (let r = rset_cond e ConditionReady ConditionFalse reason message (set_phase RestorePhasePending cr)
      in case xstatus e r st of
           (Some err, st) \<Rightarrow> ((NoRequeue, Some err), r, st)
         | (None, st) \<Rightarrow> ((RequeueAfter after, None), r, st))"

definition cluster_gate ::
  "('w, 'expr, 'ex, 'identity, 'z) clusterrestore_env_scheme \<Rightarrow> string \<Rightarrow> string \<Rightarrow> ClusterRestore \<Rightarrow> 'w xstate
   \<Rightarrow> answer \<times> ClusterRestore \<times> 'w xstate" where
  "cluster_gate e reason message cr st = gateAt e reason message shortRequeueInterval cr st"

definition cluster_awaitConfirmation ::
  "('w, 'expr, 'ex, 'identity, 'z) clusterrestore_env_scheme \<Rightarrow> 'expr ClusterRestoreSpec \<Rightarrow> ClusterRestore \<Rightarrow> 'w xstate
   \<Rightarrow> answer \<times> ClusterRestore \<times> 'w xstate" where
  "cluster_awaitConfirmation e spec cr st =
     (let first = (r_phase cr \<noteq> RestorePhaseAwaitingConfirmation); ns = crt_Namespace (csp_Target spec);
          r = rset_cond e ConditionReady ConditionFalse ''ConfirmationRequired''
                (''a '' @ csp_Mode spec @ '' restore modifies existing data: set spec.confirmation to '' @ me_Quote e ns @ '' to proceed'')
                (set_phase RestorePhaseAwaitingConfirmation cr)
      in case xstatus e r st of
           (Some err, st) \<Rightarrow> ((NoRequeue, Some err), r, st)
         | (None, st) \<Rightarrow>
             ((RequeueAfter shortRequeueInterval, None), r, if first then xreport (ClusterConfirmationRequired ns) st else st))"

text \<open>An answer that ends the pass, or none.\<close>

definition ensureTargetNamespace ::
  "('w, 'expr, 'ex, 'identity, 'z) clusterrestore_env_scheme \<Rightarrow> 'expr ClusterRestoreSpec \<Rightarrow> ClusterRestore \<Rightarrow> 'w xstate
   \<Rightarrow> answer option \<times> ClusterRestore \<times> 'w xstate" where
  "ensureTargetNamespace e spec cr st =
     (let ns = crt_Namespace (csp_Target spec)
      in case xe_get_namespace e ns (xw st) of
           None \<Rightarrow> (None, cr, st)
         | Some err \<Rightarrow>
             if err \<noteq> NotFound then (Some (NoRequeue, Some (Wrap (''get target namespace '' @ ns) (APIError err))), cr, st)
             else if \<not> crt_CreateNamespace (csp_Target spec) then
               (case cluster_gate e ''TargetNamespaceNotFound''
                       (''target namespace '' @ me_Quote e ns @ '' does not exist and target.createNamespace is false'') cr st of
                  (ans, r, st) \<Rightarrow> (Some ans, r, st))
             else
               (case xe_create_namespace e ns (xw st) of
                  (res, w) \<Rightarrow>
                    (case res of
                       Some err \<Rightarrow>
                         if err \<noteq> AlreadyExists
                         then (Some (NoRequeue, Some (Wrap (''create target namespace '' @ ns) (APIError err))), cr, xworld w st)
                         else (None, cr, xreport (TargetNamespaceCreated ns) (xworld w st))
                     | None \<Rightarrow> (None, cr, xreport (TargetNamespaceCreated ns) (xworld w st)))))"

section \<open>The plan of the volumes\<close>

definition cluster_sizePlan ::
  "('w, 'expr, 'ex, 'identity, 'z) clusterrestore_env_scheme \<Rightarrow> ClusterRestoreTarget \<Rightarrow> Snapshot \<Rightarrow> 'w \<Rightarrow> restoreVolumePlan \<Rightarrow> restoreVolumePlan" where
  "cluster_sizePlan e target snap w plan =
     (case be_get_pvc e (crt_Namespace target) (rp_pvc plan) w of
        Inr pvc \<Rightarrow>
          plan\<lparr>rp_capacity := sint (pc_Capacity pvc),
               rp_storageClass := (case pc_StorageClassName pvc of None \<Rightarrow> rp_storageClass plan | Some c \<Rightarrow> c),
               rp_accessModes := pc_AccessModes pvc\<rparr>
      | Inl _ \<Rightarrow>
          let meta = ParsePVCMeta (sn_Tags snap); class = pm_StorageClass meta
          in plan\<lparr>rp_capacity := (if 0 <s pm_CapacityBytes meta then sint (pm_CapacityBytes meta)
                                   else fallbackRestoreCapacity (snapshotDataSize snap)),
                  rp_storageClass := (case crt_StorageClassMapping target class of
                      Some mapped \<Rightarrow> if class \<noteq> [] then mapped else class | None \<Rightarrow> class),
                  rp_accessModes := rp_accessModes plan @ pm_AccessModes meta\<rparr>)"

definition cluster_plan_step ::
  "('w, 'expr, 'ex, 'identity, 'z) clusterrestore_env_scheme \<Rightarrow> 'expr ClusterRestoreSpec \<Rightarrow> (string \<rightharpoonup> VolumeSelectorItem option)
   \<Rightarrow> (string \<rightharpoonup> Snapshot) \<Rightarrow> 'w \<Rightarrow> restoreVolumePlan list \<Rightarrow> string \<Rightarrow> restoreVolumePlan list" where
  "cluster_plan_step e spec selected byPVC w plans pvc =
     (case (selected pvc, byPVC pvc) of
        (Some item, Some snap) \<Rightarrow>
          plans @ [cluster_sizePlan e (csp_Target spec) snap w (base_plan (crs_Namespace (csp_Source spec)) pvc snap item)]
      | _ \<Rightarrow> plans)"

definition cluster_buildPlans ::
  "('w, 'expr, 'ex, 'identity, 'z) clusterrestore_env_scheme \<Rightarrow> 'expr ClusterRestoreSpec \<Rightarrow> (string \<rightharpoonup> Snapshot) \<Rightarrow> 'w
   \<Rightarrow> restoreVolumePlan list" where
  "cluster_buildPlans e spec byPVC w =
     (let sourcePVCs = sorted_keys byPVC;
          selected = planVolumes (case csp_Volumes spec of None \<Rightarrow> [] | Some vs \<Rightarrow> vs) sourcePVCs (csp_Volumes spec \<noteq> None)
      in foldl (cluster_plan_step e spec selected byPVC w) [] sourcePVCs)"

section \<open>The cluster-scoped half\<close>

definition clusterManifestsRestoreSnapshot :: "Snapshot list \<Rightarrow> Snapshot option" where
  "clusterManifestsRestoreSnapshot snaps =
     foldl (\<lambda>newest s.
         if fst (TagValue (sn_Tags s) TagKeyKind) \<noteq> KindClusterManifests then newest
         else case newest of None \<Rightarrow> Some s | Some n \<Rightarrow> if sn_Time s > sn_Time n then Some s else newest) None snaps"

definition clusterManifestsRestoreSnapshotPath :: "Snapshot \<Rightarrow> string" where
  "clusterManifestsRestoreSnapshotPath snap = (case sn_Paths snap of [] \<Rightarrow> ClusterManifestsRoot | p # _ \<Rightarrow> p)"

definition resolveClusterRestorePlan ::
  "'expr ClusterRestoreSpec \<Rightarrow> Snapshot list \<Rightarrow> 'expr clusterRestoreResourcesPlan option \<times> bool" where
  "resolveClusterRestorePlan spec snaps =
     (case csp_ClusterResources spec of
        None \<Rightarrow> (None, True)
      | Some res \<Rightarrow>
          (case clusterManifestsRestoreSnapshot snaps of
             None \<Rightarrow> (None, False)
           | Some snap \<Rightarrow>
               (Some \<lparr>cpl_snapshotID = sn_ID snap, cpl_snapshotPath = clusterManifestsRestoreSnapshotPath snap,
                  cpl_selection = (if length (crr_Include res) = 0 \<and> length (crr_Exclude res) = 0
                     then \<lparr>sel_All = True, sel_Items = []\<rparr>
                     else \<lparr>sel_All = False, sel_Items = [\<lparr>sit_Selector = None, sit_Include = crr_Include res, sit_Exclude = crr_Exclude res\<rparr>]\<rparr>),
                  cpl_mode = csp_Mode spec, cpl_dryRun = csp_DryRun spec\<rparr>, True)))"

definition clusterRestoreJobEnv ::
  "('w, 'expr, 'ex, 'identity, 'z) clusterrestore_env_scheme \<Rightarrow> 'expr clusterRestoreResourcesPlan \<Rightarrow> go_error + (string \<times> string) list" where
  "clusterRestoreJobEnv e plan =
     (case EncodeSelection e (cpl_selection plan) of
        Inl err \<Rightarrow> Inl err
      | Inr selection \<Rightarrow>
          let env = [(EnvManifestsRestoreDir, ClusterManifestsRestoreDir), (EnvManifestsMode, cpl_mode plan), (EnvManifestsSelection, selection)]
          in Inr (if cpl_dryRun plan then env @ [(EnvManifestsDryRun, EnvTrue)] else env))"

definition clusterRestoreLabels :: "restoreExecContext \<Rightarrow> string_map" where
  "clusterRestoreLabels rc =
     [LabelManagedBy \<mapsto> ManagedByValue, rx_ownerLabelKey rc \<mapsto> rx_ownerName rc, LabelMoverRole \<mapsto> MoverRoleManifest]"

definition cluster_restore_job ::
  "('w, 'expr, 'ex, 'identity, 'z) clusterrestore_env_scheme \<Rightarrow> restoreExecContext \<Rightarrow> 'expr clusterRestoreResourcesPlan \<Rightarrow> string
   \<Rightarrow> (string \<times> string) list \<Rightarrow> ClusterJobRequest" where
  "cluster_restore_job e rc plan jobName env =
     \<lparr>jr_Name = jobName, jr_Operation = OpClusterManifestsRestore,
      jr_ResticArgs = ManifestsRestoreArgs (cpl_snapshotID plan) (cpl_snapshotPath plan) ClusterManifestsRestoreDir,
      jr_RepoURL = rx_repoURL rc, jr_S3Connections = rx_s3Connections rc, jr_SecretName = jobName, jr_PVC = None,
      jr_BackoffLimit = restoreMoverBackoffLimit, jr_TTLSeconds = NoTTL, jr_Labels = clusterRestoreLabels rc,
      jr_ExtraEnv = env, jr_ServiceAccountName = me_ManifestMoverServiceAccount e, jr_ManifestsVolume = True,
      jr_ManifestsMountPath = ClusterManifestsRoot\<rparr>"

definition startClusterRestoreJob ::
  "('w, 'expr, 'ex, 'identity, 'z) clusterrestore_env_scheme \<Rightarrow> restoreExecContext \<Rightarrow> 'expr clusterRestoreResourcesPlan \<Rightarrow> string \<Rightarrow> 'w
   \<Rightarrow> go_error option \<times> 'w" where
  "startClusterRestoreJob e rc plan jobName w =
     (case ensureMoverCredsSecret (be_deps e) jobName (rx_dek rc) (rx_s3CredsSecret rc) [] (clusterRestoreLabels rc) w of
        (Some err, w) \<Rightarrow> (Some err, w)
      | (None, w) \<Rightarrow>
          (case ensureClusterManifestBinding (xe_create_crb e) \<lparr>cq_JobName = jobName,
                   cq_ClusterRoleName = xe_ClusterManifestWriterClusterRole e,
                   cq_ServiceAccountName = me_ManifestMoverServiceAccount e,
                   cq_OperatorNamespace = be_OperatorNamespace e\<rparr> w of
             (Some err, w) \<Rightarrow> (Some err, w)
           | (None, w) \<Rightarrow>
               (case clusterRestoreJobEnv e plan of
                  Inl err \<Rightarrow> (Some err, w)
                | Inr env \<Rightarrow>
                    (case xe_create_job e (cluster_restore_job e rc plan jobName env) w of
                       (None, w) \<Rightarrow> (None, w)
                     | (Some err, w) \<Rightarrow>
                         if err = AlreadyExists then (None, w)
                         else (Some (Wrap (''create cluster-manifest restore Job '' @ be_OperatorNamespace e @ ''/'' @ jobName) (APIError err)),
                               snd (deleteClusterManifestBinding (xe_delete_crb e) jobName w))))))"

definition advanceClusterRestore ::
  "('w, 'expr, 'ex, 'identity, 'z) clusterrestore_env_scheme \<Rightarrow> ClusterRestore \<Rightarrow> restoreExecContext
   \<Rightarrow> 'expr clusterRestoreResourcesPlan option \<Rightarrow> 'w \<Rightarrow> (bool \<times> string \<times> go_error option) \<times> ClusterRestore \<times> 'w" where
  "advanceClusterRestore e cr rc plan w =
     (case plan of
        None \<Rightarrow> ((True, [], None), cr, w)
      | Some plan \<Rightarrow>
          if rst_Resources (r_Status cr) \<noteq> None then ((True, [], None), cr, w)
          else
            let jobName = clusterRestoreJobName (rx_ownerID rc)
            in case be_get_job e w (be_OperatorNamespace e) jobName of
                 Inl err \<Rightarrow>
                   if err = NotFound then
                     (case startClusterRestoreJob e rc plan jobName w of (err, w) \<Rightarrow> ((False, [], err), cr, w))
                   else ((False, [], Some (Wrap (''get cluster-manifest restore Job '' @ be_OperatorNamespace e @ ''/'' @ jobName)
                            (APIError err))), cr, w)
               | Inr job \<Rightarrow>
                   if j_Succeeded job = 0 \<and> j_Failed job = 0 then ((False, [], None), cr, w)
                   else
                     (case readMoverResult (be_unmarshal_result e) (be_job_pods e jobName w) of
                        (result, _, readErr) \<Rightarrow>
                          ((True, jobName, None),
                           cr\<lparr>r_Status :=
                             (case readErr of
                                Some err \<Rightarrow> (r_Status cr)\<lparr>rst_Resources := Some (failed_resources
                                  (''the cluster-scoped restore did not report a result ('' @ read_error_Error e jobName err @ ''); '' @
                                   ''some resources may have been applied '' @ [CHR 0xE2, CHR 0x80, CHR 0x94] @
                                   '' see the mover'' @ [CHR 0x27] @ ''s pod log''))\<rparr>
                              | None \<Rightarrow>
                                  if \<not> OK result
                                  then (r_Status cr)\<lparr>rst_Resources := Some (failed_resources (clampMessage (mr_Error result)))\<rparr>
                                  else (r_Status cr)\<lparr>rst_RestoredResources := RestoredResources result,
                                         rst_Resources := Some (resourcesStatusFrom result)\<rparr>)\<rparr>,
                           w)))"

definition teardownClusterRestore ::
  "('w, 'expr, 'ex, 'identity, 'z) clusterrestore_env_scheme \<Rightarrow> string \<Rightarrow> 'w \<Rightarrow> 'w" where
  "teardownClusterRestore e jobName w =
     deleteJobAndSecret (be_deps e) (be_OperatorNamespace e) jobName (snd (deleteClusterManifestBinding (xe_delete_crb e) jobName w))"

section \<open>Preparation\<close>

definition cluster_exec_context ::
  "'expr ClusterRestoreSpec \<Rightarrow> ClusterRestore \<Rightarrow> string \<Rightarrow> ClusterBackupLocation \<Rightarrow> BackupRepository \<Rightarrow> string \<Rightarrow> restoreExecContext" where
  "cluster_exec_context spec cr run loc repo dek =
     \<lparr>rx_ownerName = r_name cr, rx_ownerLabelKey = LabelClusterRestore, rx_ownerID = clusterRestoreOwnerID (r_name cr),
      rx_targetNamespace = crt_Namespace (csp_Target spec), rx_deleteExtras = (csp_Mode spec = RestoreModeRecreate), rx_restoredFromRun = run,
      rx_repoName = cbl_Name loc, rx_repoURL = rep_RepositoryURL repo, rx_dek = dek,
      rx_s3CredsSecret = s3_CredentialsSecretRef (cbl_S3 loc), rx_s3Connections = s3_Connections (cbl_S3 loc),
      rx_clusterID = cbl_ClusterID loc, rx_startBudget = 0\<rparr>"

text \<open>The snapshots a ClusterRestore reads: listed, narrowed to one run, and remembered.\<close>

definition resolve_run ::
  "('w, 'expr, 'ex, 'identity, 'z) clusterrestore_env_scheme \<Rightarrow> 'expr ClusterRestoreSpec \<Rightarrow> BackupRepository \<Rightarrow> ClusterRestore \<Rightarrow> 'w xstate
   \<Rightarrow> (answer + (string \<rightharpoonup> Snapshot) \<times> Snapshot list) \<times> ClusterRestore \<times> 'w xstate" where
  "resolve_run e spec repo cr st =
     (let stop = (\<lambda>(ans, r, st). (Inl ans, r, st)); src = csp_Source spec; ns = crs_Namespace src;
          coordinate = ns @ ''/'' @ crs_Backup src @ ''/'' @ crs_Time src; ownerID = clusterRestoreOwnerID (r_name cr)
      in case cachedClusterResolution (r_uid cr) coordinate (ren (xrs st)) of
           Some found \<Rightarrow> (Inr found, cr, st)
         | None \<Rightarrow>
             (case ve_ListFiltered e repo (restoreResolveJobName ownerID) [Tag TagKeyNamespace ns] (xw st) of
                (Inl err, w) \<Rightarrow>
                  stop (cluster_gate e ''SnapshotResolutionFailed''
                    (''repository listing for namespace '' @ me_Quote e ns @ '' failed: '' @ Error (he_show_api e) err) cr (xworld w st))
              | (Inr snaps, w) \<Rightarrow>
                  let st = xworld w st
                  in (case selectRun e snaps (crs_Backup src) (crs_Time src) of
                        None \<Rightarrow>
                          stop (gateAt e ''RunNotFound'' (''no run matching spec.source in the repository for namespace '' @ me_Quote e ns)
                            periodicRequeueInterval cr st)
                      | Some (run, runSnaps) \<Rightarrow>
                          let byPVC = dataSnapshotsByPVC runSnaps
                          in if dom byPVC = {} then
                               stop (gateAt e ''RunNotFound'' (''run '' @ me_Quote e run @ '' holds no data snapshots for namespace '' @
                                 me_Quote e ns) periodicRequeueInterval cr st)
                             else
                               let st = xreport (RunResolved run ns) st
                               in if csp_ClusterResources spec = None then
                                    (Inr (byPVC, []), cr, xengine (storeClusterResolution (r_uid cr) coordinate byPVC [] (ren (xrs st))) st)
                                  else
                                    (case ve_ListFiltered e repo (clusterManifestsResolveJobName ownerID)
                                            [Tag TagKeyKind KindClusterManifests, Tag TagKeyRun run] (xw st) of
                                       (Inl err, w) \<Rightarrow>
                                         stop (cluster_gate e ''ClusterManifestResolutionFailed''
                                           (''repository listing for cluster-scoped resources of run '' @ me_Quote e run @ '' failed: '' @
                                            Error (he_show_api e) err) cr (xworld w st))
                                     | (Inr manifests, w) \<Rightarrow>
                                         (Inr (byPVC, manifests), cr,
                                          xengine (storeClusterResolution (r_uid cr) coordinate byPVC manifests (ren (xrs st))) (xworld w st))))))"

definition cluster_prepare ::
  "('w, 'expr, 'ex, 'identity, 'z) clusterrestore_env_scheme \<Rightarrow> 'expr ClusterRestoreSpec \<Rightarrow> ClusterRestore \<Rightarrow> 'w xstate
   \<Rightarrow> (answer + restoreExecContext \<times> restoreVolumePlan list \<times> 'expr clusterRestoreResourcesPlan option) \<times> ClusterRestore \<times> 'w xstate" where
  "cluster_prepare e spec cr st =
     (let stop = (\<lambda>(ans, r, st). (Inl ans, r, st)); locName = crs_LocationRef (csp_Source spec)
      in case ce_get_cluster_location e locName (xw st) of
           Inl err \<Rightarrow>
             if err = NotFound then
               stop (cluster_gate e ''LocationNotFound'' (''ClusterBackupLocation '' @ me_Quote e locName @ '' not found'') cr st)
             else (Inl (NoRequeue, Some (Wrap (''get ClusterBackupLocation '' @ locName) (APIError err))), cr, st)
         | Inr loc \<Rightarrow>
             let not_ready = stop (cluster_gate e ''RepositoryNotReady''
                   (''BackupRepository '' @ me_Quote e (cbl_Name loc) @ '' is not initialized'') cr st)
             in (case ce_get_repository e (cbl_Name loc) (xw st) of
                   Inl err \<Rightarrow>
                     if err \<noteq> NotFound
                     then (Inl (NoRequeue, Some (Wrap (''get BackupRepository '' @ cbl_Name loc) (APIError err))), cr, st)
                     else not_ready
                 | Inr repo \<Rightarrow>
                     if \<not> rep_Initialized repo then not_ready
                     else
                       (case resolvePlatformDEKCommon e loc (xw st) of
                          (Inl (reason, message), w) \<Rightarrow> stop (cluster_gate e reason message cr (xworld w st))
                        | (Inr dek, w) \<Rightarrow>
                            (case resolve_run e spec repo cr (xworld w st) of
                               (Inl ans, r, st) \<Rightarrow> (Inl ans, r, st)
                             | (Inr (byPVC, manifests), r, st) \<Rightarrow>
                                 let rc = cluster_exec_context spec r (runOf e byPVC) loc repo dek;
                                     plans = cluster_buildPlans e spec byPVC (xw st);
                                     clusterPlan = fst (resolveClusterRestorePlan spec manifests)
                                 in if clusterPlan \<noteq> None \<and> xe_ClusterManifestWriterClusterRole e = [] then
                                      stop (cluster_gate e ''ClusterManifestRestoreUnavailable''
                                        (''this operator was not configured with --cluster-manifest-writer-cluster-role, so the '' @
                                         ''cluster-scoped half of a ClusterRestore cannot run; omit spec.clusterResources to restore volumes only'') r st)
                                    else (Inr (rc, plans, clusterPlan), r, st)))))"

section \<open>One pass\<close>

definition tear_cluster ::
  "('w, 'expr, 'ex, 'identity, 'z) clusterrestore_env_scheme \<Rightarrow> string \<Rightarrow> 'w xstate \<Rightarrow> 'w xstate" where
  "tear_cluster e jobName st = (if jobName \<noteq> [] then xworld (teardownClusterRestore e jobName (xw st)) st else st)"

definition cluster_stamp :: "RestoreTally \<Rightarrow> ClusterRestore \<Rightarrow> 'w xstate \<Rightarrow> ClusterRestore \<times> 'w xstate" where
  "cluster_stamp t r st =
     (r\<lparr>r_Status := (r_Status r)\<lparr>rst_PlannedVolumes := rt_Planned t, rst_RestoredVolumes := rt_Restored t,
          rst_FailedVolumes := rt_Failed t\<rparr>\<rparr>,
      if RestoreTally_SumsUp t then st
      else xreport (ClusterVolumeCountsInconsistent (rt_Planned t) (RestoreTally_Counted t)) st)"

definition holdForClusterResources ::
  "('w, 'expr, 'ex, 'identity, 'z) clusterrestore_env_scheme \<Rightarrow> string \<Rightarrow> go_error option \<Rightarrow> ClusterRestore \<Rightarrow> 'w xstate
   \<Rightarrow> answer \<times> ClusterRestore \<times> 'w xstate" where
  "holdForClusterResources e jobName clusterErr cr st =
     (let msg = ''restoring cluster-scoped resources before volumes'';
          msg = (case clusterErr of None \<Rightarrow> msg
                 | Some err \<Rightarrow> clampMessage (msg @ ''; the last attempt failed and is being retried: '' @ Error (he_show_api e) err));
          r = rset_cond e ConditionReady ConditionFalse ''InProgress'' msg (set_phase RestorePhaseRunning cr)
      in case xstatus e r st of
           (Some err, st) \<Rightarrow> ((NoRequeue, Some err), r, st)
         | (None, st) \<Rightarrow>
             let st = tear_cluster e jobName st
             in (case clusterErr of
                   Some err \<Rightarrow> ((NoRequeue, Some err), r, st)
                 | None \<Rightarrow> ((RequeueAfter restorePollInterval, None), r, st)))"

definition cluster_running_pass ::
  "('w, 'expr, 'ex, 'identity, 'z) clusterrestore_env_scheme \<Rightarrow> volumeDrive \<Rightarrow> string \<Rightarrow> ClusterRestore \<Rightarrow> 'w xstate
   \<Rightarrow> answer \<times> ClusterRestore \<times> 'w xstate" where
  "cluster_running_pass e d jobName cr st =
     (let r = set_phase RestorePhaseRunning cr;
          (r, st) = (if tallied d then cluster_stamp (vd_tally d) r st else (r, st));
          r = rset_cond e ConditionReady ConditionFalse ''InProgress'' (restoreProgressMessage (he_show_api e) d []) r
      in case xstatus e r st of
           (Some err, st) \<Rightarrow> ((NoRequeue, Some err), r, st)
         | (None, st) \<Rightarrow>
             let st = tear_cluster e jobName st
             in (case vd_passErr d of
                   Some err \<Rightarrow> ((NoRequeue, Some err), r, st)
                 | None \<Rightarrow> ((RequeueAfter restorePollInterval, None), r, st)))"

definition cluster_terminal_pass ::
  "('w, 'expr, 'ex, 'identity, 'z) clusterrestore_env_scheme \<Rightarrow> 'expr ClusterRestoreSpec \<Rightarrow> restoreExecContext \<Rightarrow> restoreVolumePlan list
   \<Rightarrow> volumeDrive \<Rightarrow> string \<Rightarrow> ClusterRestore \<Rightarrow> 'w xstate \<Rightarrow> answer \<times> ClusterRestore \<times> 'w xstate" where
  "cluster_terminal_pass e spec rc plans d jobName cr st =
     (let phase = terminal_phase d cr;
          (r, st) = cluster_stamp (vd_tally d) (set_phase phase cr) st;
          r = setRestoreTerminalCondition e phase (vd_failures d)
                (r\<lparr>r_Status := (r_Status r)\<lparr>rst_RestoredBytes := vd_restoredBytes d\<rparr>\<rparr>)
      in case xstatus e r st of
           (Some err, st) \<Rightarrow> ((NoRequeue, Some err), r, st)
         | (None, st) \<Rightarrow>
             let st = tear_cluster e jobName st;
                 st = xworld (teardownAll e rc plans (xw st)) st;
                 st = xengine (forgetResolution (r_uid cr) (rx_ownerID rc) (ren (xrs st))) st
             in ((NoRequeue, None), r,
                 xreport (if phase = RestorePhaseCompleted
                          then ClusterRestoreCompleted (completed d) (vd_restoredBytes d) (crt_Namespace (csp_Target spec))
                          else ClusterRestoreFailed phase (clampMessage (joinFailures (vd_failures d)))) st))"

definition cluster_confirm ::
  "('w, 'expr, 'ex, 'identity, 'z) clusterrestore_env_scheme \<Rightarrow> 'expr ClusterRestoreSpec \<Rightarrow> ClusterRestore \<Rightarrow> 'w xstate \<Rightarrow> ClusterRestore \<times> 'w xstate" where
  "cluster_confirm e spec cr st =
     (if IsConditionTrue e (rst_Conditions (r_Status cr)) ConditionConfirmed then (cr, st)
      else (rset_cond e ConditionConfirmed ConditionTrue ''ConfirmationAccepted'' ''spec.confirmation matches the target namespace'' cr,
            xreport (ClusterConfirmationAccepted (crt_Namespace (csp_Target spec))) st))"

definition cluster_restore_pass ::
  "('w, 'expr, 'ex, 'identity, 'z) clusterrestore_env_scheme \<Rightarrow> 'expr ClusterRestoreSpec \<Rightarrow> ClusterRestore \<Rightarrow> 'w xstate
   \<Rightarrow> answer \<times> ClusterRestore \<times> 'w xstate" where
  "cluster_restore_pass e spec cr st =
     (case cluster_prepare e spec cr st of
        (Inl ans, r, st) \<Rightarrow> (ans, r, st)
      | (Inr (rc, plans, clusterPlan), r, st) \<Rightarrow>
          (case advanceClusterRestore e r rc clusterPlan (xw st) of
             ((isDone, jobName, clusterErr), r, w) \<Rightarrow>
               let st = xworld w st
               in if clusterErr \<noteq> None \<or> \<not> isDone then holdForClusterResources e jobName clusterErr r st
                  else
                    (case driveVolumes e rc plans (xrs st) of
                       (d, rc, rs) \<Rightarrow>
                         let st = st\<lparr>xrs := rs\<rparr>
                         in if \<not> tallied d \<or> settled d < int (length plans) then cluster_running_pass e d jobName r st
                            else cluster_terminal_pass e spec rc plans d jobName r st)))"

definition reconcile_cluster_restore ::
  "('w, 'expr, 'ex, 'identity, 'z) clusterrestore_env_scheme \<Rightarrow> 'expr ClusterRestoreSpec \<Rightarrow> ClusterRestore \<Rightarrow> 'w xstate
   \<Rightarrow> answer \<times> ClusterRestore \<times> 'w xstate" where
  "reconcile_cluster_restore e spec cr st =
     (let at = crs_Time (csp_Source spec)
      in if csp_Confirmation spec \<noteq> crt_Namespace (csp_Target spec) then cluster_awaitConfirmation e spec cr st
         else
           (case cluster_confirm e spec cr st of
              (r, st) \<Rightarrow>
                if at \<noteq> [] \<and> at \<noteq> sourceTimeLatest \<and> parseRestoreTime e at = None then
                  cluster_gate e ''InvalidSourceTime'' (''spec.source.time '' @ me_Quote e at @ '' is not '' @ [CHR 0x22] @ ''latest'' @
                    [CHR 0x22] @ '' or a valid RFC3339 timestamp'') r st
                else
                  (case ensureTargetNamespace e spec r st of
                     (Some ans, r, st) \<Rightarrow> (ans, r, st)
                   | (None, r, st) \<Rightarrow> cluster_restore_pass e spec r st)))"

definition cluster_finalizing_context :: "'expr ClusterRestoreSpec \<Rightarrow> ClusterRestore \<Rightarrow> restoreExecContext" where
  "cluster_finalizing_context spec cr =
     \<lparr>rx_ownerName = r_name cr, rx_ownerLabelKey = LabelClusterRestore, rx_ownerID = clusterRestoreOwnerID (r_name cr),
      rx_targetNamespace = crt_Namespace (csp_Target spec), rx_deleteExtras = False, rx_restoredFromRun = [], rx_repoName = [],
      rx_repoURL = [], rx_dek = [], rx_s3CredsSecret = [], rx_s3Connections = None, rx_clusterID = [], rx_startBudget = 0\<rparr>"

definition cluster_finalize ::
  "('w, 'expr, 'ex, 'identity, 'z) clusterrestore_env_scheme \<Rightarrow> 'expr ClusterRestoreSpec \<Rightarrow> ClusterRestore \<Rightarrow> 'w xstate \<Rightarrow> answer \<times> 'w xstate" where
  "cluster_finalize e spec cr st =
     (if FinalizerClusterRestore \<notin> set (m_Finalizers (r_Meta cr)) then ((NoRequeue, None), st)
      else
        let rc = cluster_finalizing_context spec cr;
            st = xengine (forgetResolution (r_uid cr) (rx_ownerID rc) (ren (xrs st))) st;
            st = xreport ClusterRestoreFinalizing (xworld (teardownRestoreResidue e rc (xw st)) st);
            r = cr\<lparr>r_Meta := (r_Meta cr)\<lparr>m_Finalizers := removeAll FinalizerClusterRestore (m_Finalizers (r_Meta cr))\<rparr>\<rparr>
        in case xe_update e r (xw st) of
             (None, w) \<Rightarrow> ((NoRequeue, None), xworld w st)
           | (Some err, w) \<Rightarrow>
               if err = NotFound then ((NoRequeue, None), xworld w st)
               else ((NoRequeue, Some (Wrap (''remove finalizer from ClusterRestore '' @ r_name cr) (APIError err))), xworld w st))"

definition cluster_restore_Reconcile ::
  "('w, 'expr, 'ex, 'identity, 'z) clusterrestore_env_scheme \<Rightarrow> string \<Rightarrow> 'w xstate \<Rightarrow> answer \<times> 'w xstate" where
  "cluster_restore_Reconcile e name st =
     (case xe_get e name (xw st) of
        Inl err \<Rightarrow>
          if err = NotFound then ((NoRequeue, None), st)
          else ((NoRequeue, Some (Wrap (''get ClusterRestore '' @ name) (APIError err))), st)
      | Inr (spec, cr) \<Rightarrow>
          if m_DeletionTimestamp (r_Meta cr) \<noteq> None then cluster_finalize e spec cr st
          else if FinalizerClusterRestore \<notin> set (m_Finalizers (r_Meta cr)) then
            (let r = cr\<lparr>r_Meta := (r_Meta cr)\<lparr>m_Finalizers := m_Finalizers (r_Meta cr) @ [FinalizerClusterRestore]\<rparr>\<rparr>
             in case xe_update e r (xw st) of
                  (Some err, w) \<Rightarrow> ((NoRequeue, Some (Wrap (''add finalizer to ClusterRestore '' @ r_name cr) (APIError err))), xworld w st)
                | (None, w) \<Rightarrow> ((Requeue, None), xworld w st))
          else if IsTerminalRestorePhase (r_phase cr) then ((NoRequeue, None), st)
          else (case reconcile_cluster_restore e spec cr st of (ans, _, st) \<Rightarrow> (ans, st)))"

definition mapJobToClusterRestore :: "string_map \<Rightarrow> string list" where
  "mapJobToClusterRestore labels =
     (if map_get labels LabelManagedBy \<noteq> ManagedByValue then []
      else let name = map_get labels LabelClusterRestore in if name = [] then [] else [name])"

end
