(* ===== verification/Restore_Safety.thy ===== *)
theory Restore_Safety
  imports Restore_Engine Backup_Safety
begin

text \<open>
  What the restore engine promises: a volume counts as restored only when its mover reported
  success and the handover is done, restic writes only below the staging mount, an owner never has more
  than its share of movers, and a volume that keeps failing is given up after a fixed number of
  passes. And one thing it does not: owner identities of different Restores can coincide.
\<close>

section \<open>Target paths\<close>

lemma Split_no_sep_in: "seg \<in> set (Split s c) \<Longrightarrow> c \<notin> set seg"
  by (induction s arbitrary: seg) (auto split: if_splits list.splits)

definition proper_segment :: "string \<Rightarrow> bool" where
  "proper_segment s \<longleftrightarrow> s \<noteq> [] \<and> s \<noteq> ''.'' \<and> s \<noteq> ''..''"

lemma clean_segments_Cons:
  "clean_segments out (s # ss) = clean_segments (if proper_segment s then out @ [s] else if s = ''..'' then butlast out else out) ss"
  by (simp add: proper_segment_def)

lemma clean_segments_subset: "set (clean_segments out ss) \<subseteq> set out \<union> {s \<in> set ss. proper_segment s}"
proof (induction ss arbitrary: out)
  case (Cons s ss)
  let ?out = "if proper_segment s then out @ [s] else if s = ''..'' then butlast out else out"
  have "set ?out \<subseteq> set out \<union> {x \<in> set (s # ss). proper_segment x}" using in_set_butlastD [of _ out] by auto
  with Cons.IH [of ?out] show ?case unfolding clean_segments_Cons by auto
qed simp

text \<open>
  Restic is only ever pointed below the staging mount. A target path that is accepted becomes the mount
  point itself or the mount point followed by proper segments: none is empty, none is a dot or a double dot,
  none contains a separator. Any path with a double-dot segment is refused.
\<close>

theorem restore_targets_confined:
  assumes "restoreTargetPath quote p = Inr t"
  shows "''..'' \<notin> set (Split p (CHR ''/'')) \<and> (\<exists>segs. t = restoreTargetMountPath @ concat (map (\<lambda>s. CHR ''/'' # s) segs) \<and>
    (\<forall>s \<in> set segs. proper_segment s \<and> CHR ''/'' \<notin> set s))"
proof -
  let ?segs = "clean_segments [] (Split (''/'' @ p) (CHR ''/''))"
  have join: "segs \<noteq> [] \<Longrightarrow> ''/'' @ Join segs ''/'' = concat (map (\<lambda>s. CHR ''/'' # s) segs)" for segs :: "string list"
    by (induction segs rule: induct_list012) auto
  have dots: "''..'' \<notin> set (Split p (CHR ''/''))"
    using assms by (auto simp: restoreTargetPath_def split: if_splits)
  have ok: "\<forall>s \<in> set ?segs. proper_segment s \<and> CHR ''/'' \<notin> set s"
  proof
    fix s assume "s \<in> set ?segs"
    from subsetD [OF clean_segments_subset this] have "s \<in> set (Split (''/'' @ p) (CHR ''/''))" "proper_segment s" by simp_all
    then show "proper_segment s \<and> CHR ''/'' \<notin> set s" using Split_no_sep_in by blast
  qed
  have "t = restoreTargetMountPath \<or> t = restoreTargetMountPath @ path_Clean_rooted (''/'' @ p) \<and> path_Clean_rooted (''/'' @ p) \<noteq> ''/''"
    using assms by (auto simp: restoreTargetPath_def Let_def split: if_splits)
  then show ?thesis
  proof
    assume "t = restoreTargetMountPath"
    then show ?thesis using dots by (intro conjI exI [of _ "[]"]) simp_all
  next
    assume t: "t = restoreTargetMountPath @ path_Clean_rooted (''/'' @ p) \<and> path_Clean_rooted (''/'' @ p) \<noteq> ''/''"
    then have "?segs \<noteq> []" by (auto simp: path_Clean_rooted_def)
    from join [OF this] t have "t = restoreTargetMountPath @ concat (map (\<lambda>s. CHR ''/'' # s) ?segs)"
      by (simp add: path_Clean_rooted_def)
    then show ?thesis using dots ok by blast
  qed
qed

theorem restore_targets_confined_witness:
  "restoreTargetPath id ''a//./b'' = Inr ''/crystal/target/a/b'' \<and> ''..'' \<notin> set (Split ''a//./b'' (CHR ''/''))"
proof -
  have "restoreTargetPath id ''a//./b'' = Inr ''/crystal/target/a/b''"
    by (simp add: restoreTargetPath_def path_Clean_rooted_def restoreTargetMountPath_def)
  with restore_targets_confined [OF this] show ?thesis by blast
qed

section \<open>What counts as restored\<close>

text \<open>Where a successful result may come from: the stamp on the Job, or one of its pods.\<close>

definition reported ::
  "('w, 'expr, 'ex, 'identity, 'z) restore_env_scheme \<Rightarrow> RestoreJob \<Rightarrow> 'w \<Rightarrow> MoverResult \<Rightarrow> bool" where
  "reported e job w result \<longleftrightarrow>
     map_get (j_Annotations job) AnnotationMoverResult \<noteq> [] \<and>
       be_unmarshal_result e (map_get (j_Annotations job) AnnotationMoverResult) = Inr result \<or>
     (\<exists>pods pod t. be_job_pods e (j_Name job) w = Inr pods \<and> pod \<in> set pods \<and> first_termination pod = Some t \<and>
        be_unmarshal_result e (t_Message t) = Inr result)"

lemma resolveMoverOutcome_reported:
  assumes "resolveMoverOutcome e job failed w = ((result, None, None), w')" and "OK result"
  shows "reported e job w result"
proof (cases "map_get (j_Annotations job) AnnotationMoverResult \<noteq> [] \<and>
    (\<exists>r. be_unmarshal_result e (map_get (j_Annotations job) AnnotationMoverResult) = Inr r)")
  case True
  then show ?thesis using assms by (auto simp: resolveMoverOutcome_def reported_def)
next
  case False
  obtain r node rerr where r: "readMoverResult (be_unmarshal_result e) (be_job_pods e (j_Name job) w) = (r, node, rerr)"
    by (metis prod_cases3)
  have "(if map_get (j_Annotations job) AnnotationMoverResult \<noteq> [] then (case be_unmarshal_result e
      (map_get (j_Annotations job) AnnotationMoverResult) of Inr r \<Rightarrow> Some r | Inl _ \<Rightarrow> None) else None) = None"
    using False by (auto split: sum.splits)
  then have "r = result \<and> rerr = None"
    using assms(1) r by (auto simp: resolveMoverOutcome_def Let_def split: if_splits sum.splits prod.splits option.splits)
  with r obtain pods where p: "be_job_pods e (j_Name job) w = Inr pods"
    "read_pods (be_unmarshal_result e) pods None None = (result, node, None)"
    by (auto simp: readMoverResult_def split: sum.splits)
  from read_pods_source [OF p(2)] assms(2) p(1) show ?thesis unfolding reported_def by auto
qed

text \<open>
  C12: a volume counts as restored only when its mover reported success and its handover is done: its
  Job exists and has completed without failing, the successful result is the one stamped on the Job or
  written by one of its pods, the bytes published are that result's, and the target exposer finished
  the handover of exactly this claim.
\<close>

theorem restored_only_after_handover:
  assumes s: "adviseVolume e rc plan st = (Inr oc, rc', st')" and "vo_settled oc" and "\<not> vo_failed oc"
  shows "\<exists>job result w kind. re_get_job e (be_OperatorNamespace e)
      (restoreJobName (restoreNamePrefix (rx_ownerID rc) (rp_pvc plan))) (rw st) = Inr job \<and>
    (1 \<le>s j_Succeeded job \<or> jobConditionTrue (Job.truncate job) JobComplete) \<and> \<not> jobConditionTrue (Job.truncate job) JobFailed \<and>
    OK result \<and> reported e job (rw st) result \<and> vo_restoredBytes oc = mr_RestoredBytes result \<and>
    re_Finalize e (exposureFor e rc (rp_pvc plan) kind) w = (Inr True, rw st') \<and> kind \<in> {KindTwin, KindTransplant}"
proof -
  let ?pre = "restoreNamePrefix (rx_ownerID rc) (rp_pvc plan)"
  have not_open: "oc \<noteq> open_outcome" "\<And>r. oc \<noteq> failed_outcome r" using assms(2,3) by (auto simp: open_outcome_def failed_outcome_def)
  show ?thesis
  proof (cases "re_get_job e (be_OperatorNamespace e) (restoreJobName ?pre) (rw st)")
    case (Inl err)
    have "restore_startVolume e rc plan p n w \<noteq> (Inr oc, r2, w2)" for p n w r2 w2
      using not_open unfolding restore_startVolume_def Let_def
      by (auto split: prod.splits sum.splits target_error.splits bool.splits if_splits option.splits)
    then show ?thesis using s Inl by (auto simp: adviseVolume_def Let_def split: if_splits prod.splits)
  next
    case (Inr job)
    define complete where "complete \<longleftrightarrow> (1 \<le>s j_Succeeded job \<or> jobConditionTrue (Job.truncate job) JobComplete)"
    define failed where "failed \<longleftrightarrow> (jobConditionTrue (Job.truncate job) JobFailed \<or> restoreMoverBackoffLimit <s j_Failed job)"
    obtain result rerr terr w where r: "resolveMoverOutcome e job failed (rw st) = ((result, rerr, terr), w)"
      by (metis prod_cases3 surj_pair)
    let ?w = "deleteJobPods e (restoreJobName ?pre) w"
    note step = s [unfolded adviseVolume_def Let_def Inr sum.case, folded complete_def failed_def, unfolded r prod.case]
    have ran: "complete \<or> failed"
      by (rule ccontr) (use step not_open in \<open>auto split: if_splits\<close>)
    have terr: "terr = None"
      using step ran by (cases terr) auto
    have ok: "\<not> failed" "rerr = None" "OK result"
      using step ran terr not_open by (auto split: if_splits prod.splits)
    note step' = step [unfolded terr option.case]
    obtain kind where k: "exposure_kind e job ?pre ?w = Inr kind"
      using step' ran ok by (cases "exposure_kind e job ?pre ?w") auto
    obtain fin w2 where f0: "re_Finalize e (exposureFor e rc (rp_pvc plan) kind) ?w = (fin, w2)"
      by (metis surj_pair)
    have f: "re_Finalize e (exposureFor e rc (rp_pvc plan) kind) ?w = (Inr True, rw st')"
      and b: "vo_restoredBytes oc = mr_RestoredBytes result"
      using step' ran ok k f0 not_open by (auto split: sum.splits bool.splits)
    have "kind \<in> {KindTwin, KindTransplant}"
      using k by (auto simp: exposure_kind_def Let_def split: if_splits sum.splits)
    moreover have "reported e job (rw st) result"
      using resolveMoverOutcome_reported ok(2,3) terr r by metis
    ultimately show ?thesis using Inr ran ok f b unfolding complete_def failed_def
      by (intro exI [of _ job] exI [of _ result] exI [of _ ?w] exI [of _ kind] conjI) simp_all
  qed
qed

section \<open>The share of movers\<close>

lemma restore_startVolume_frame:
  assumes "restore_startVolume e rc plan pre jobName w = (r, rc', w')"
  shows "rc' = rc \<or> 0 < rx_startBudget rc \<and> rc' = rc\<lparr>rx_startBudget := rx_startBudget rc - 1\<rparr>"
  using assms unfolding restore_startVolume_def Let_def
  by (auto split: prod.splits sum.splits target_error.splits bool.splits if_splits option.splits)

lemma adviseVolume_frame:
  assumes "adviseVolume e rc plan st = (r, rc', st')"
  shows "(rc' = rc \<or> 0 < rx_startBudget rc \<and> rc' = rc\<lparr>rx_startBudget := rx_startBudget rc - 1\<rparr>) \<and>
    en_errCounts (ren st') = en_errCounts (ren st)"
proof (cases "re_get_job e (be_OperatorNamespace e) (restoreJobName (restoreNamePrefix (rx_ownerID rc) (rp_pvc plan))) (rw st)")
  case (Inl err)
  then show ?thesis using assms unfolding adviseVolume_def Let_def
    by (auto dest: restore_startVolume_frame split: if_splits prod.splits)
next
  case (Inr job)
  then show ?thesis using assms unfolding adviseVolume_def Let_def Inr sum.case
    by (auto simp: shouldEnqueueUnlock_def split: if_splits prod.splits option.splits sum.splits bool.splits)
qed

text \<open>A count of the movers a world has seen created: only the creation of a restore Job moves it.\<close>

definition counts_movers :: "('w, 'expr, 'ex, 'identity, 'z) restore_env_scheme \<Rightarrow> ('w \<Rightarrow> nat) \<Rightarrow> bool" where
  "counts_movers e c \<longleftrightarrow>
     (\<forall>x w. c (snd (re_Expose e x w)) = c w) \<and> (\<forall>x w. c (snd (re_Ready e x w)) = c w) \<and> (\<forall>x w. c (snd (re_Finalize e x w)) = c w) \<and>
     (\<forall>x w. c (snd (rd_create_secret (be_deps e) x w)) = c w) \<and> (\<forall>n p w. c (snd (re_patch_job e n p w)) = c w) \<and>
     (\<forall>ns n w. c (snd (re_delete_pods e ns n w)) = c w) \<and> (\<forall>x w. c (be_enqueue e x w) = c w) \<and>
     (\<forall>x w. c (snd (re_create_job e x w)) = c w + (if fst (re_create_job e x w) = None then 1 else 0))"

lemma counts_moversD:
  assumes "counts_movers e c"
  shows "re_Expose e x w = (r1, w') \<Longrightarrow> c w' = c w" "re_Ready e y w = (r2, w') \<Longrightarrow> c w' = c w"
    "re_Finalize e y w = (r2, w') \<Longrightarrow> c w' = c w" "rd_create_secret (be_deps e) s w = (r3, w') \<Longrightarrow> c w' = c w"
    "re_patch_job e n p w = (r3, w') \<Longrightarrow> c w' = c w" "c (deleteJobPods e n w) = c w" "c (be_enqueue e q w) = c w"
    "re_create_job e j w = (r3, w') \<Longrightarrow> c w' = c w + (if r3 = None then 1 else 0)"
  using assms unfolding counts_movers_def deleteJobPods_def by (metis fst_conv snd_conv)+

lemma ensureMoverCredsSecret_count:
  assumes "counts_movers e c" "ensureMoverCredsSecret (be_deps e) n k s cn l w = (r, w')"
  shows "c w' = c w"
  using assms(2) unfolding ensureMoverCredsSecret_def Let_def
  by (auto split: sum.splits prod.splits option.splits if_splits dest: counts_moversD(4) [OF assms(1)])

lemma restore_startVolume_count:
  assumes "counts_movers e c" "restore_startVolume e rc plan pre jobName w = (r, rc', w')"
  shows "int (c w') + rx_startBudget rc' \<le> int (c w) + rx_startBudget rc"
proof -
  note cnt = counts_moversD(1,2,8) [OF assms(1)] ensureMoverCredsSecret_count [OF assms(1)]
  show ?thesis using assms(2) unfolding restore_startVolume_def Let_def
    by (auto split: prod.splits sum.splits target_error.splits bool.splits if_splits option.splits dest!: cnt)
qed

lemma resolveMoverOutcome_count:
  assumes "counts_movers e c" "resolveMoverOutcome e job failed w = (r, w')"
  shows "c w' = c w"
  using assms(2) unfolding resolveMoverOutcome_def Let_def
  by (auto split: sum.splits prod.splits option.splits if_splits dest: counts_moversD(5) [OF assms(1)])

lemma adviseVolume_count:
  assumes cnt: "counts_movers e c" and s: "adviseVolume e rc plan st = (r, rc', st')"
  shows "int (c (rw st')) + rx_startBudget rc' \<le> int (c (rw st)) + rx_startBudget rc"
proof (cases "re_get_job e (be_OperatorNamespace e) (restoreJobName (restoreNamePrefix (rx_ownerID rc) (rp_pvc plan))) (rw st)")
  case (Inl err)
  then show ?thesis using s unfolding adviseVolume_def Let_def
    by (auto dest: restore_startVolume_count [OF cnt] split: if_splits prod.splits)
next
  case (Inr job)
  note move = resolveMoverOutcome_count [OF cnt] counts_moversD(3) [OF cnt] and keep = counts_moversD(6,7) [OF cnt]
  have "rc' = rc \<and> c (rw st') = c (rw st)"
    using s unfolding adviseVolume_def Let_def Inr sum.case
    by (auto simp: keep dest!: move split: if_splits prod.splits option.splits sum.splits bool.splits)
  then show ?thesis by simp
qed

lemma drive_one_count:
  assumes "counts_movers e c" "drive_one e rc plan d st = (v, d', rc', st')"
  shows "int (c (rw st')) + rx_startBudget rc' \<le> int (c (rw st)) + rx_startBudget rc \<and>
    min 0 (rx_startBudget rc) \<le> rx_startBudget rc'"
proof -
  obtain r rc1 st1 where a: "adviseVolume e rc plan st = (r, rc1, st1)" by (metis prod_cases3)
  have "rc' = rc1 \<and> rw st' = rw st1"
    using assms(2) a by (auto simp: drive_one_def Let_def split: sum.splits prod.splits)
  then show ?thesis using adviseVolume_count [OF assms(1) a] adviseVolume_frame [OF a] by auto
qed

lemma drive_loop_count:
  assumes "counts_movers e c" "drive_loop e rc plans outs d st = (outs', d', rc', st')"
  shows "int (c (rw st')) + rx_startBudget rc' \<le> int (c (rw st)) + rx_startBudget rc \<and>
    min 0 (rx_startBudget rc) \<le> rx_startBudget rc'"
  using assms(2)
proof (induction plans arbitrary: rc outs d st)
  case (Cons plan plans)
  obtain v d1 rc1 st1 where one: "drive_one e rc plan d st = (v, d1, rc1, st1)" by (metis prod_cases4)
  from Cons.IH [of rc1 "outs @ [v]" d1 st1] Cons.prems one drive_one_count [OF assms(1) one] show ?case by auto
qed simp

text \<open>
  C31: one pass never takes an owner above its share of movers. The movers the pass creates, added to the
  owner's movers that were running when it began, stay within the cap of four, or create nothing at all when
  the owner already runs that many.
\<close>

theorem restore_movers_capped:
  assumes "counts_movers e c" and "ownerRunningMovers e rc (rw st) = Inr running"
    and "driveVolumes e rc plans st = (d, rc', st')"
  shows "int (c (rw st')) - int (c (rw st)) + int running \<le> max restoreOwnerMoverCap (int running)"
proof -
  let ?rc = "rc\<lparr>rx_startBudget := restoreOwnerMoverCap - int running\<rparr>"
  obtain outs d1 where "drive_loop e ?rc plans [] zero_drive st = (outs, d1, rc', st')"
    using assms(2,3) by (auto simp: driveVolumes_def split: prod.splits)
  from drive_loop_count [OF assms(1) this] show ?thesis by (auto simp: min_def max_def split: if_splits)
qed

section \<open>The error budget\<close>

abbreviation volume_key :: "restoreExecContext \<Rightarrow> restoreVolumePlan \<Rightarrow> string" where
  "volume_key rc plan \<equiv> rx_ownerID rc @ ''/'' @ rp_pvc plan"

lemma drive_one_errors:
  assumes "drive_one e rc plan d st = (v, d', rc', st')"
  shows "case fst (adviseVolume e rc plan st) of
      Inl err \<Rightarrow> err_count (ren st') (volume_key rc plan) = err_count (ren st) (volume_key rc plan) + 1 \<and>
        v = (if maxVolumeAdviseErrors \<le> err_count (ren st) (volume_key rc plan) + 1 then VolumeRestoreFailed else VolumeRestoreInFlight)
    | Inr oc \<Rightarrow> err_count (ren st') (volume_key rc plan) = 0 \<and>
        v = (if \<not> vo_settled oc then VolumeRestoreInFlight else if vo_failed oc then VolumeRestoreFailed else VolumeRestoreRestored)"
proof -
  obtain r rc1 st1 where a: "adviseVolume e rc plan st = (r, rc1, st1)" by (metis prod_cases3)
  have "en_errCounts (ren st1) = en_errCounts (ren st)" using adviseVolume_frame [OF a] by simp
  then show ?thesis using assms a
    by (auto simp: drive_one_def Let_def noteVolumeError_def clearVolumeError_def err_count_def classifyVolumeOutcome_def split: sum.splits)
qed

text \<open>
  A volume whose passes keep failing is given up after sixty of them and not before. In a
  sequence of passes over a volume that starts from a clean count, when every pass ends in an error and
  nothing else touches the volume's count between them, the volume stays in flight for fifty-nine passes and
  fails on the sixtieth.
\<close>

theorem failing_volume_given_up:
  fixes sts :: "nat \<Rightarrow> 'w rstate"
  assumes "err_count (ren (sts 0)) (volume_key rc plan) = 0"
    and "\<And>i. i < n \<Longrightarrow> \<exists>d' rc' st'. drive_one e rc plan (ds i) (sts i) = (vs i, d', rc', st') \<and>
        err_count (ren (sts (Suc i))) (volume_key rc plan) = err_count (ren st') (volume_key rc plan)"
    and "\<And>i. i < n \<Longrightarrow> isl (fst (adviseVolume e rc plan (sts i)))"
    and "i < n"
  shows "vs i = (if i < 59 then VolumeRestoreInFlight else VolumeRestoreFailed)"
proof -
  have step: "err_count (ren (sts (Suc j))) (volume_key rc plan) = err_count (ren (sts j)) (volume_key rc plan) + 1 \<and>
      vs j = (if maxVolumeAdviseErrors \<le> err_count (ren (sts j)) (volume_key rc plan) + 1 then VolumeRestoreFailed else VolumeRestoreInFlight)"
    if j: "j < n" for j
  proof -
    from assms(2) [OF j] obtain d' rc' st' where "drive_one e rc plan (ds j) (sts j) = (vs j, d', rc', st')"
      and "err_count (ren (sts (Suc j))) (volume_key rc plan) = err_count (ren st') (volume_key rc plan)" by blast
    with drive_one_errors [OF this(1)] assms(3) [OF j] show ?thesis by (auto split: sum.splits)
  qed
  have "j \<le> n \<Longrightarrow> err_count (ren (sts j)) (volume_key rc plan) = int j" for j
    by (induction j) (use assms(1) step in auto)
  with step [OF assms(4)] assms(4) show ?thesis by (auto simp: maxVolumeAdviseErrors_def)
qed

section \<open>A pass accounts for every planned volume\<close>

definition same_owner :: "restoreExecContext \<Rightarrow> restoreExecContext \<Rightarrow> bool" where
  "same_owner rc rc' \<longleftrightarrow> rc\<lparr>rx_startBudget := 0\<rparr> = rc'\<lparr>rx_startBudget := 0\<rparr>"

lemma same_owner_simps [simp]: "same_owner rc rc" "same_owner (rc\<lparr>rx_startBudget := b\<rparr>) rc' \<longleftrightarrow> same_owner rc rc'"
  by (simp_all add: same_owner_def)

lemma same_owner_trans: "same_owner a b \<Longrightarrow> same_owner b c \<Longrightarrow> same_owner a c"
  by (simp add: same_owner_def)

text \<open>The verdict of a volume, seen from some moment of the pass.\<close>

definition restored_in_pass ::
  "('w, 'expr, 'ex, 'identity, 'z) restore_env_scheme \<Rightarrow> restoreExecContext \<Rightarrow> restoreVolumePlan \<Rightarrow> bool" where
  "restored_in_pass e rc plan \<longleftrightarrow>
     (\<exists>rc0 st0 oc rc1 st1. same_owner rc0 rc \<and> adviseVolume e rc0 plan st0 = (Inr oc, rc1, st1) \<and> vo_settled oc \<and> \<not> vo_failed oc)"

lemma drive_one_owner:
  assumes "drive_one e rc plan d st = (v, d', rc', st')"
  shows "same_owner rc' rc" "v = VolumeRestoreRestored \<Longrightarrow> restored_in_pass e rc plan"
proof -
  obtain r rc1 st1 where a: "adviseVolume e rc plan st = (r, rc1, st1)" by (metis prod_cases3)
  have "rc' = rc1" using assms a by (auto simp: drive_one_def Let_def split: sum.splits prod.splits)
  then show "same_owner rc' rc" using adviseVolume_frame [OF a] by auto
  assume v: "v = VolumeRestoreRestored"
  have "\<exists>oc. r = Inr oc \<and> vo_settled oc \<and> \<not> vo_failed oc"
    using drive_one_errors [OF assms] a v by (auto split: sum.splits if_splits)
  then show "restored_in_pass e rc plan" using a same_owner_simps(1) [of rc] unfolding restored_in_pass_def by fastforce
qed

lemma restored_in_pass_owner: "same_owner rc rc' \<Longrightarrow> restored_in_pass e rc plan \<Longrightarrow> restored_in_pass e rc' plan"
  unfolding restored_in_pass_def using same_owner_trans by blast

lemma drive_loop_outcomes:
  assumes "drive_loop e rc plans outs d st = (outs', d', rc', st')"
  shows "\<exists>vs. outs' = outs @ vs \<and> list_all2 (\<lambda>plan v. v = VolumeRestoreRestored \<longrightarrow> restored_in_pass e rc plan) plans vs"
  using assms
proof (induction plans arbitrary: rc outs d st)
  case (Cons plan plans)
  obtain v d1 rc1 st1 where one: "drive_one e rc plan d st = (v, d1, rc1, st1)" by (metis prod_cases4)
  with Cons.prems have "drive_loop e rc1 plans (outs @ [v]) d1 st1 = (outs', d', rc', st')" by simp
  from Cons.IH [OF this] obtain vs where vs: "outs' = (outs @ [v]) @ vs"
    "list_all2 (\<lambda>plan v. v = VolumeRestoreRestored \<longrightarrow> restored_in_pass e rc1 plan) plans vs" by blast
  have "list_all2 (\<lambda>plan v. v = VolumeRestoreRestored \<longrightarrow> restored_in_pass e rc plan) plans vs"
    by (rule list_all2_mono [OF vs(2)]) (use drive_one_owner(1) [OF one] restored_in_pass_owner in blast)
  then show ?case using vs(1) drive_one_owner(2) [OF one] by (intro exI [of _ "v # vs"]) simp
qed simp

lemma driveVolumes_outcomes:
  assumes "driveVolumes e rc plans st = (d, rc', st')" "tallied d"
  shows "\<exists>vs. vd_tally d = TallyVolumeRestoreOutcomes vs \<and>
    list_all2 (\<lambda>plan v. v = VolumeRestoreRestored \<longrightarrow> restored_in_pass e rc plan) plans vs"
proof (cases "ownerRunningMovers e rc (rw st)")
  case (Inl err)
  then show ?thesis using assms by (auto simp: driveVolumes_def tallied_def)
next
  case (Inr running)
  let ?rc = "rc\<lparr>rx_startBudget := restoreOwnerMoverCap - int running\<rparr>"
  obtain outs d1 where loop: "drive_loop e ?rc plans [] zero_drive st = (outs, d1, rc', st')"
    and d: "vd_tally d = TallyVolumeRestoreOutcomes outs"
    using assms(1) Inr by (auto simp: driveVolumes_def split: prod.splits)
  from drive_loop_outcomes [OF loop]
  have "list_all2 (\<lambda>plan v. v = VolumeRestoreRestored \<longrightarrow> restored_in_pass e ?rc plan) plans outs" by simp
  then have "list_all2 (\<lambda>plan v. v = VolumeRestoreRestored \<longrightarrow> restored_in_pass e rc plan) plans outs"
    by (rule list_all2_mono) (simp add: restored_in_pass_owner [of ?rc rc])
  with d show ?thesis by blast
qed

text \<open>With every volume settled and none failed, every planned volume was restored.\<close>

lemma driveVolumes_all_restored:
  assumes "driveVolumes e rc plans st = (d, rc', st')" "tallied d" "int (length plans) \<le> settled d" "failedCount d = 0"
    and "length plans < 2 ^ 31"
  shows "\<forall>plan \<in> set plans. restored_in_pass e rc plan"
proof -
  from driveVolumes_outcomes [OF assms(1,2)] obtain vs where t: "vd_tally d = TallyVolumeRestoreOutcomes vs"
    and all: "list_all2 (\<lambda>plan v. v = VolumeRestoreRestored \<longrightarrow> restored_in_pass e rc plan) plans vs" by blast
  have len: "length vs = length plans" using all by (simp add: list_all2_lengthD)
  have two: "count_list vs VolumeRestoreRestored + count_list vs VolumeRestoreFailed \<le> length vs" by (induction vs) auto
  have "failedCount d = int (count_list vs VolumeRestoreFailed)"
    using two len assms(5) by (simp add: failedCount_def t tally_simps outcome_count_def sint_of_nat_i32)
  moreover have "settled d = int (count_list vs VolumeRestoreRestored + count_list vs VolumeRestoreFailed)"
    using two len assms(5) sint_of_nat_i32 [of "count_list vs VolumeRestoreRestored + count_list vs VolumeRestoreFailed"]
    by (simp add: settled_def t tally_simps outcome_count_def RestoreTally_Settled_def)
  ultimately have r: "length vs \<le> count_list vs VolumeRestoreRestored" using assms(3,4) len by simp
  have "length vs \<le> count_list vs v \<Longrightarrow> \<forall>x \<in> set vs. x = v" for v
  proof (induction vs)
    case (Cons x xs)
    have "count_list xs v \<le> length xs" by (rule count_le_length)
    with Cons show ?case by (auto split: if_splits)
  qed simp
  from this [OF r] have "\<forall>v \<in> set vs. v = VolumeRestoreRestored" .
  then have "\<forall>i < length vs. vs ! i = VolumeRestoreRestored" by simp
  then show ?thesis using all by (auto simp: list_all2_conv_all_nth in_set_conv_nth)
qed

section \<open>Selection and memory\<close>

lemma first_item_find: "first_item items pvc = find (\<lambda>i. volumeItemMatches i pvc) items"
  by (induction items) auto

text \<open>
  The selection of volumes, folded into a map by the code, is the plain one: the first item that
  matches a source claim narrows it, and without a selection every source claim is taken whole.
\<close>

lemma planVolumes_eq:
  "planVolumes volumes sourcePVCs hasSelection pvc =
     (if pvc \<notin> set sourcePVCs then None
      else if \<not> hasSelection then Some None
      else map_option Some (find (\<lambda>i. vsi_Names i = [] \<or> pvc \<in> set (vsi_Names i)) volumes))"
proof -
  let ?f = "\<lambda>selected pvc. if \<not> hasSelection then selected(pvc \<mapsto> None)
      else case first_item volumes pvc of None \<Rightarrow> selected | Some item \<Rightarrow> selected(pvc \<mapsto> Some item)"
  have "foldl ?f m pvcs pvc = (if pvc \<notin> set pvcs then m pvc else if \<not> hasSelection then Some None
      else case first_item volumes pvc of None \<Rightarrow> m pvc | Some item \<Rightarrow> Some (Some item))" for m pvcs
    by (induction pvcs arbitrary: m) (auto split: option.splits)
  then show ?thesis by (simp add: planVolumes_def first_item_find volumeItemMatches_def split: option.split)
qed

text \<open>
  The identity a Restore's objects are named by does not separate namespace from name, so two Restores
  of different namespaces can share every mover Job and staging claim.
\<close>

lemma restore_owner_ids_collide:
  "restoreOwnerID ''shop'' ''eu-r1'' = restoreOwnerID ''shop-eu'' ''r1'' \<and>
   restoreJobName (restoreNamePrefix (restoreOwnerID ''shop'' ''eu-r1'') pvc) =
   restoreJobName (restoreNamePrefix (restoreOwnerID ''shop-eu'' ''r1'') pvc)"
  by (simp add: restoreOwnerID_def)

section \<open>A concrete restore\<close>

definition demo_restore_job :: RestoreJob where
  "demo_restore_job = \<lparr>j_Name = ''m'', j_Labels = [LabelExposureKind \<mapsto> KindTwin], j_Deleting = False, j_CreationTimestamp = None,
     j_Succeeded = 1, j_Failed = 0, j_Conditions = [], j_Annotations = [AnnotationMoverResult \<mapsto> ''{}'']\<rparr>"

definition demo_restore_env :: "api_error + RestoreJob \<Rightarrow> (nat, unit, unit, unit) restore_env" where
  "demo_restore_env job = ctl_env.extend (demo_ctl_env (Inl NotFound) []) (restore_env.fields
     (\<lambda>req w. (Inr \<lparr>te_Kind = KindTwin, te_TargetNamespace = tr_TargetNamespace req, te_TargetPVCName = tr_PVCName req,
        te_OperatorNamespace = ''ops'', te_StagingPVCName = StagingPVCName (tr_NamePrefix req), te_TwinPVName = TwinPVName (tr_NamePrefix req),
        te_NodeName = [], te_Labels = tr_Labels req, te_RestoredFromRun = tr_RestoredFromRun req\<rparr>, w))
     (\<lambda>_ w. (Inr True, w)) (\<lambda>_ w. (Inr True, w)) (\<lambda>_ w. (None, w)) (\<lambda>_ _ _. job) (\<lambda>_ w. (None, Suc w))
     (\<lambda>_. Inr ''{}'') (\<lambda>s. Inr s) (\<lambda>_ _ w. (None, w)) (\<lambda>_ _ w. (None, w)) (\<lambda>_ _ _. Inr []) (\<lambda>_ _. Inl NotFound))"

lemmas demo_restore_simps = demo_restore_env_def ctl_env.extend_def restore_env.fields_def demo_ctl_env_def

definition demo_restore_rc :: restoreExecContext where
  "demo_restore_rc = \<lparr>rx_ownerName = ''r1'', rx_ownerLabelKey = LabelRestore, rx_ownerID = ''rst-shop-r1'', rx_targetNamespace = ''shop'',
     rx_deleteExtras = False, rx_restoredFromRun = ''n-1'', rx_repoName = ''main'', rx_repoURL = ''s3:x'', rx_dek = ''dek'',
     rx_s3CredsSecret = ''creds'', rx_s3Connections = None, rx_clusterID = ''c'', rx_startBudget = 4\<rparr>"

definition demo_plan :: restoreVolumePlan where
  "demo_plan = \<lparr>rp_pvc = ''data'', rp_snapshotID = ''abc'', rp_snapshotPath = ''/data/shop/data'', rp_include = [], rp_exclude = [],
     rp_targetPath = [], rp_capacity = 1, rp_storageClass = [], rp_accessModes = []\<rparr>"

abbreviation demo_rstate :: "nat rstate" where "demo_rstate \<equiv> \<lparr>rw = 0, ren = newRestoreEngine\<rparr>"

lemma demo_advise:
  "adviseVolume (demo_restore_env (Inr demo_restore_job)) demo_restore_rc demo_plan demo_rstate =
     (Inr (open_outcome\<lparr>vo_settled := True\<rparr>), demo_restore_rc, demo_rstate)"
  by (simp add: adviseVolume_def demo_restore_simps demo_restore_job_def resolveMoverOutcome_def map_get_def deleteJobPods_def
      exposure_kind_def jobConditionTrue_def Job.defs zero_result_def open_outcome_def restoreMoverBackoffLimit_def word_sless_alt Let_def)

theorem restored_only_after_handover_witness:
  "\<exists>job (result :: MoverResult). re_get_job (demo_restore_env (Inr demo_restore_job)) ''ops''
     (restoreJobName (restoreNamePrefix ''rst-shop-r1'' ''data'')) 0 = Inr job \<and> OK result \<and> 0 = mr_RestoredBytes result"
proof -
  let ?P = "\<lambda>job (result :: MoverResult). re_get_job (demo_restore_env (Inr demo_restore_job)) ''ops''
     (restoreJobName (restoreNamePrefix ''rst-shop-r1'' ''data'')) 0 = Inr job \<and> OK result \<and> 0 = mr_RestoredBytes result"
  have oc: "vo_settled (open_outcome\<lparr>vo_settled := True\<rparr>)" "\<not> vo_failed (open_outcome\<lparr>vo_settled := True\<rparr>)"
    by (simp_all add: open_outcome_def)
  have f: "be_OperatorNamespace (demo_restore_env (Inr demo_restore_job)) = ''ops''" by (simp add: demo_restore_simps)
  have g: "rx_ownerID demo_restore_rc = ''rst-shop-r1''" "rp_pvc demo_plan = ''data''" "vo_restoredBytes (open_outcome\<lparr>vo_settled := True\<rparr>) = 0"
    by (simp_all add: demo_restore_rc_def demo_plan_def open_outcome_def)
  from restored_only_after_handover [OF demo_advise oc, unfolded f g rstate.simps] obtain job result where "?P job result"
    by (elim exE conjE) (rule that, intro conjI, assumption+)
  then show ?thesis by (intro exI)
qed

theorem restore_movers_capped_witness:
  "(case driveVolumes (demo_restore_env (Inl NotFound)) demo_restore_rc [demo_plan] demo_rstate of (_, _, st) \<Rightarrow> rw st \<le> 4)"
proof -
  let ?e = "demo_restore_env (Inl NotFound)"
  obtain d rc' st' where s: "driveVolumes ?e demo_restore_rc [demo_plan] demo_rstate = (d, rc', st')" by (metis prod_cases3)
  have c: "counts_movers ?e id" by (simp add: counts_movers_def demo_restore_simps)
  have r: "ownerRunningMovers ?e demo_restore_rc (rw demo_rstate) = Inr 0"
    by (simp add: ownerRunningMovers_def demo_restore_simps RunningMoverJobs_def)
  from restore_movers_capped [OF c r s] show ?thesis unfolding s by (simp add: restoreOwnerMoverCap_def)
qed

lemma demo_stuck:
  "adviseVolume (demo_restore_env (Inl Conflict)) demo_restore_rc demo_plan st =
     (Inl (Wrap (''get restore mover Job ops/'' @ restoreJobName (restoreNamePrefix ''rst-shop-r1'' ''data'')) (APIError Conflict)), demo_restore_rc, st)"
  by (simp add: adviseVolume_def demo_restore_simps demo_restore_rc_def demo_plan_def)

primrec demo_passes :: "nat \<Rightarrow> nat rstate" where
  "demo_passes 0 = demo_rstate"
| "demo_passes (Suc i) = (case drive_one (demo_restore_env (Inl Conflict)) demo_restore_rc demo_plan zero_drive (demo_passes i) of (_, _, _, st) \<Rightarrow> st)"

theorem failing_volume_given_up_witness:
  "fst (drive_one (demo_restore_env (Inl Conflict)) demo_restore_rc demo_plan zero_drive (demo_passes 59)) = VolumeRestoreFailed \<and>
   fst (drive_one (demo_restore_env (Inl Conflict)) demo_restore_rc demo_plan zero_drive (demo_passes 58)) = VolumeRestoreInFlight"
proof -
  let ?one = "\<lambda>i. drive_one (demo_restore_env (Inl Conflict)) demo_restore_rc demo_plan zero_drive (demo_passes i)"
  have 0: "err_count (ren (demo_passes 0)) (volume_key demo_restore_rc demo_plan) = 0" by (simp add: err_count_def newRestoreEngine_def)
  have 1: "\<exists>d' rc' st'. ?one i = (fst (?one i), d', rc', st') \<and>
      err_count (ren (demo_passes (Suc i))) (volume_key demo_restore_rc demo_plan) = err_count (ren st') (volume_key demo_restore_rc demo_plan)" for i
    by (cases "?one i") simp
  have 2: "isl (fst (adviseVolume (demo_restore_env (Inl Conflict)) demo_restore_rc demo_plan (demo_passes i)))" for i
    by (simp add: demo_stuck)
  have "fst (?one i) = (if i < 59 then VolumeRestoreInFlight else VolumeRestoreFailed)" for i
    by (rule failing_volume_given_up [of demo_passes demo_restore_rc demo_plan "Suc i" "demo_restore_env (Inl Conflict)" "\<lambda>_. zero_drive"
          "\<lambda>i. fst (?one i)"]) (rule 0 1 2 lessI)+
  from this [of 59] this [of 58] show ?thesis by simp
qed

end
