(* ===== verification/Restore_Run_Safety.thy ===== *)
theory Restore_Run_Safety
  imports Restore_Controller Restore_Safety
begin

text \<open>
  What the Restore controller promises: an unconfirmed Restore touches nothing but its own status, the
  source is the latest eligible Backup and stays pinned, the volumes planned are exactly the selected
  restorable ones, a Restore reads Completed only when each of them was handed over and no manifest failed,
  and what it publishes about manifests is bounded.
\<close>

section \<open>Frames\<close>

lemma rset_cond_frame [simp]:
  "r_Meta (rset_cond e t s r m x) = r_Meta x" "r_phase (rset_cond e t s r m x) = r_phase x"
  "rst_Resources (r_Status (rset_cond e t s r m x)) = rst_Resources (r_Status x)"
  by (simp_all add: rset_cond_def)

lemma set_phase_frame [simp]:
  "r_Meta (set_phase p x) = r_Meta x" "r_phase (set_phase p x) = p"
  "rst_Resources (r_Status (set_phase p x)) = rst_Resources (r_Status x)"
  by (simp_all add: set_phase_def)

lemma stampVolumeCounts_frame:
  assumes "stampVolumeCounts t r st = (r', st')"
  shows "r_Meta r' = r_Meta r" "r_phase r' = r_phase r" "rst_Resources (r_Status r') = rst_Resources (r_Status r)" "vrs st' = vrs st"
  using assms by (auto simp: stampVolumeCounts_def)

lemma setRestoreTerminalCondition_frame [simp]:
  "r_Meta (setRestoreTerminalCondition e p f x) = r_Meta x" "r_phase (setRestoreTerminalCondition e p f x) = r_phase x"
  "rst_Resources (r_Status (setRestoreTerminalCondition e p f x)) = rst_Resources (r_Status x)"
  by (simp_all add: setRestoreTerminalCondition_def)

lemma gate_phase: "Restore_Controller.gate e reason message restore st = (ans, r, st') \<Longrightarrow> r_phase r = RestorePhasePending"
  by (auto simp: Restore_Controller.gate_def Let_def split: prod.splits option.splits)

lemma confirm_frame: "confirm e restore st = (r, st') \<Longrightarrow> r_Meta r = r_Meta restore \<and> r_phase r = r_phase restore \<and> vrs st' = vrs st"
  by (auto simp: confirm_def split: if_splits)

section \<open>Confirmation\<close>

text \<open>
  C11: without the confirmation a Restore does nothing. As long as the confirmation does not name
  the namespace, a pass writes the Restore's status once, with the phase AwaitingConfirmation, and changes
  nothing else: the cluster is as that one write leaves it and the engine's memory is untouched.
\<close>

theorem nothing_without_confirmation:
  assumes "rsp_Confirmation spec \<noteq> r_ns restore" and "reconcile_restore e spec restore st = (ans, r, st')"
  shows "r_phase r = RestorePhaseAwaitingConfirmation \<and> r_Meta r = r_Meta restore \<and>
    vrs st' = \<lparr>rw = snd (ve_update_status e r (vw st)), ren = ren (vrs st)\<rparr>"
  using assms by (auto simp: reconcile_restore_def awaitConfirmation_def status_answer_def Let_def split: prod.splits option.splits if_splits)

section \<open>The source\<close>

text \<open>A Backup the Restore may read from: of the right origin, successful, timed, and not after the cutoff.\<close>

definition eligible_source :: "string \<Rightarrow> instant option \<Rightarrow> 'expr source_backup \<Rightarrow> instant \<Rightarrow> bool" where
  "eligible_source origin cutoff sb t \<longleftrightarrow>
     (origin = [] \<or> map_get (m_Labels (b_Meta (snd sb))) LabelOrigin = origin) \<and> backupSucceeded (bs_Phase (b_Status (snd sb))) \<and>
     bs_BackupTime (b_Status (snd sb)) = Some t \<and> (case cutoff of None \<Rightarrow> True | Some c \<Rightarrow> t \<le> c)"

definition best_of :: "string \<Rightarrow> instant option \<Rightarrow> 'expr source_backup list \<Rightarrow> 'expr source_backup option \<Rightarrow> bool" where
  "best_of origin cutoff backups best \<longleftrightarrow>
     (case best of
        None \<Rightarrow> \<forall>sb \<in> set backups. \<forall>t. \<not> eligible_source origin cutoff sb t
      | Some sb \<Rightarrow> sb \<in> set backups \<and> (\<exists>t. eligible_source origin cutoff sb t \<and>
          (\<forall>sb' \<in> set backups. \<forall>t'. eligible_source origin cutoff sb' t' \<longrightarrow> t' \<le> t)))"

lemma better_source_step:
  assumes "best_of origin cutoff backups best"
  shows "best_of origin cutoff (backups @ [sb]) (better_source origin cutoff best sb)"
proof (cases "\<exists>t. eligible_source origin cutoff sb t")
  case False
  then have "better_source origin cutoff best sb = best"
    by (auto simp: better_source_def eligible_source_def Let_def split: option.splits)
  then show ?thesis using assms False by (auto simp: best_of_def split: option.splits)
next
  case True
  then obtain t where t: "eligible_source origin cutoff sb t" by blast
  have u: "eligible_source origin cutoff sb t' \<longleftrightarrow> t' = t" for t' using t by (auto simp: eligible_source_def)
  show ?thesis
  proof (cases best)
    case None
    then have "better_source origin cutoff best sb = Some sb"
      using t by (auto simp: better_source_def eligible_source_def Let_def split: option.splits)
    then show ?thesis using assms None t u by (auto simp: best_of_def)
  next
    case (Some prev)
    then obtain t0 where t0: "eligible_source origin cutoff prev t0" "prev \<in> set backups"
      and max: "\<forall>sb' \<in> set backups. \<forall>t'. eligible_source origin cutoff sb' t' \<longrightarrow> t' \<le> t0"
      using assms by (auto simp: best_of_def)
    then have "better_source origin cutoff best sb = (if t > t0 then Some sb else best)"
      using t Some by (auto simp: better_source_def eligible_source_def Let_def split: option.splits)
    then show ?thesis using Some t t0 max u by (fastforce simp: best_of_def)
  qed
qed

lemma best_source: "best_of origin cutoff backups (foldl (better_source origin cutoff) None backups)"
proof (induction backups rule: rev_induct)
  case (snoc sb backups)
  then show ?case using better_source_step by simp
qed (simp add: best_of_def)

text \<open>
  The source of a Restore that names none is the latest Backup of its namespace that succeeded, has the
  requested origin and is not after the requested time, no eligible one being later; it is pinned at once, and
  a Restore with a pin is answered with that Backup or with none, whatever Backups exist by then.
\<close>

theorem source_is_latest_and_pinned:
  assumes "rsrc_Backup (rsp_Source spec) = []" and "resolveSource e spec restore st = (Inr (Some sb), st')"
  shows "(\<forall>pinned. pinnedSourceFor (r_uid restore) (ren st) = Some pinned \<longrightarrow>
      st' = st \<and> ce_get_backup e (r_ns restore) pinned (rw st) = Inr sb) \<and>
    (pinnedSourceFor (r_uid restore) (ren st) = None \<longrightarrow>
      pinnedSourceFor (r_uid restore) (ren st') = Some (b_name (snd sb)) \<and> rw st' = rw st \<and>
      (\<exists>backups. ve_list_backups e (r_ns restore) (rw st) = Inr backups \<and>
        best_of (rsrc_Origin (rsp_Source spec))
          (if rsrc_Time (rsp_Source spec) \<in> {[], sourceTimeLatest} then None else parseRestoreTime e (rsrc_Time (rsp_Source spec)))
          backups (Some sb)))"
proof (cases "pinnedSourceFor (r_uid restore) (ren st)")
  case (Some pinned)
  then show ?thesis using assms by (auto simp: resolveSource_def Let_def split: sum.splits if_splits)
next
  case None
  let ?at = "rsrc_Time (rsp_Source spec)"
  let ?cut = "if ?at \<noteq> [] \<and> ?at \<noteq> sourceTimeLatest then parseRestoreTime e ?at else None"
  obtain backups where l: "ve_list_backups e (r_ns restore) (rw st) = Inr backups"
    and b: "foldl (better_source (rsrc_Origin (rsp_Source spec)) ?cut) None backups = Some sb"
    and st': "st' = st\<lparr>ren := snd (pinSource (r_uid restore) (b_name (snd sb)) (ren st))\<rparr>"
    using assms None unfolding resolveSource_def Let_def
    by (auto split: sum.splits if_splits option.splits simp del: foldl.simps)
  have cut: "?cut = (if ?at \<in> {[], sourceTimeLatest} then None else parseRestoreTime e ?at)" by simp
  have best: "best_of (rsrc_Origin (rsp_Source spec)) ?cut backups (Some sb)"
    using best_source [of "rsrc_Origin (rsp_Source spec)" ?cut backups] unfolding b .
  have pin: "pinnedSourceFor (r_uid restore) (ren st') = Some (b_name (snd sb)) \<and> rw st' = rw st"
    using None unfolding st' by (simp add: pinnedSourceFor_def pinSource_def)
  show ?thesis using None pin l best [unfolded cut] by (intro conjI allI impI exI [of _ backups]) simp_all
qed

section \<open>The plan\<close>

abbreviation restorable :: "VolumeStatus \<Rightarrow> bool" where
  "restorable v \<equiv> Phase v = VolumePhaseCompleted \<and> SnapshotID v \<noteq> []"

definition takes :: "'expr RestoreSpec \<Rightarrow> string \<Rightarrow> bool" where
  "takes spec pvc \<longleftrightarrow>
     (case rsp_Volumes spec of None \<Rightarrow> True | Some items \<Rightarrow> \<exists>i \<in> set items. vsi_Names i = [] \<or> pvc \<in> set (vsi_Names i))"

lemma restorableVolumes_set:
  "set (restorableVolumes source) = Pvc ` {v \<in> set (bs_Volumes (b_Status source)). restorable v}"
  "distinct (restorableVolumes source)"
proof -
  have "set (foldl restorable_step out vols) = set out \<union> Pvc ` {v \<in> set vols. restorable v} \<and>
      (distinct out \<longrightarrow> distinct (foldl restorable_step out vols))" for out vols
    by (induction vols arbitrary: out) (auto simp: restorable_step_def)
  from this [of "[]"] show "set (restorableVolumes source) = Pvc ` {v \<in> set (bs_Volumes (b_Status source)). restorable v}"
    "distinct (restorableVolumes source)" by (simp_all add: restorableVolumes_def)
qed

lemma sizePlan_frame [simp]:
  "rp_pvc (sizePlan e ns source snap w p) = rp_pvc p" "rp_snapshotID (sizePlan e ns source snap w p) = rp_snapshotID p"
  "rp_snapshotPath (sizePlan e ns source snap w p) = rp_snapshotPath p" "rp_targetPath (sizePlan e ns source snap w p) = rp_targetPath p"
  by (simp_all add: sizePlan_def Let_def split: sum.split)

lemma plan_steps:
  "foldl (plan_step e ns source selected byPVC w) (plans, missing) pvcs =
     (plans @ map (\<lambda>pvc. sizePlan e ns source (the (byPVC pvc)) w (base_plan ns pvc (the (byPVC pvc)) (the (selected pvc))))
                (filter (\<lambda>pvc. selected pvc \<noteq> None \<and> byPVC pvc \<noteq> None) pvcs),
      missing @ filter (\<lambda>pvc. selected pvc \<noteq> None \<and> byPVC pvc = None) pvcs)"
  by (induction pvcs arbitrary: plans missing) (auto simp: plan_step_def split: option.splits)

lemma planVolumes_takes:
  "pvc \<in> set pvcs \<Longrightarrow>
     planVolumes (case rsp_Volumes spec of None \<Rightarrow> [] | Some vs \<Rightarrow> vs) pvcs (rsp_Volumes spec \<noteq> None) pvc \<noteq> None \<longleftrightarrow> takes spec pvc"
proof -
  have "find P xs = None \<longleftrightarrow> (\<forall>x \<in> set xs. \<not> P x)" for P and xs :: "VolumeSelectorItem list"
    by (induction xs) auto
  then show "pvc \<in> set pvcs \<Longrightarrow> ?thesis"
    by (cases "rsp_Volumes spec") (simp_all add: planVolumes_eq takes_def Bex_def del: not_None_eq)
qed

lemma buildPlans_parts:
  assumes "buildPlans e spec restore source byPVC w = (plans, missing)"
  shows "\<exists>sel. plans = map (\<lambda>pvc. sizePlan e (r_ns restore) source (the (byPVC pvc)) w
        (base_plan (r_ns restore) pvc (the (byPVC pvc)) (sel pvc))) (map rp_pvc plans) \<and>
      map rp_pvc plans = filter (\<lambda>pvc. takes spec pvc \<and> byPVC pvc \<noteq> None) (sort (restorableVolumes source)) \<and>
      missing = filter (\<lambda>pvc. takes spec pvc \<and> byPVC pvc = None) (sort (restorableVolumes source))"
proof -
  define pvcs where "pvcs = restorableVolumes source"
  define sel where "sel = planVolumes (case rsp_Volumes spec of None \<Rightarrow> [] | Some vs \<Rightarrow> vs) pvcs (rsp_Volumes spec \<noteq> None)"
  let ?plan = "\<lambda>pvc. sizePlan e (r_ns restore) source (the (byPVC pvc)) w (base_plan (r_ns restore) pvc (the (byPVC pvc)) (the (sel pvc)))"
  have sel: "sel pvc \<noteq> None \<longleftrightarrow> takes spec pvc" if "pvc \<in> set pvcs" for pvc
    unfolding sel_def by (rule planVolumes_takes [OF that])
  have "plans = map ?plan (filter (\<lambda>pvc. sel pvc \<noteq> None \<and> byPVC pvc \<noteq> None) (sort pvcs))"
    and m: "missing = filter (\<lambda>pvc. sel pvc \<noteq> None \<and> byPVC pvc = None) (sort pvcs)"
    using assms unfolding buildPlans_def Let_def pvcs_def [symmetric] sel_def [symmetric] plan_steps by simp_all
  moreover have "filter (\<lambda>pvc. sel pvc \<noteq> None \<and> Q pvc) (sort pvcs) = filter (\<lambda>pvc. takes spec pvc \<and> Q pvc) (sort pvcs)" for Q
    using sel by (intro filter_cong) auto
  ultimately have p: "plans = map ?plan (filter (\<lambda>pvc. takes spec pvc \<and> byPVC pvc \<noteq> None) (sort pvcs))"
    and m: "missing = filter (\<lambda>pvc. takes spec pvc \<and> byPVC pvc = None) (sort pvcs)" by simp_all
  have "rp_pvc \<circ> ?plan = id" by (auto simp: base_plan_def)
  then have names: "map rp_pvc plans = filter (\<lambda>pvc. takes spec pvc \<and> byPVC pvc \<noteq> None) (sort pvcs)" unfolding p map_map by simp
  show ?thesis unfolding pvcs_def [symmetric] names
    by (intro exI [of _ "\<lambda>pvc. the (sel pvc)"] conjI) (rule p m refl)+
qed

lemma buildPlans_names:
  assumes "buildPlans e spec restore source byPVC w = (plans, missing)"
  shows "set (map rp_pvc plans) \<union> set missing =
      {pvc. takes spec pvc \<and> (\<exists>v \<in> set (bs_Volumes (b_Status source)). restorable v \<and> Pvc v = pvc)}"
    "distinct (map rp_pvc plans)"
proof -
  from buildPlans_parts [OF assms]
  have n: "map rp_pvc plans = filter (\<lambda>pvc. takes spec pvc \<and> byPVC pvc \<noteq> None) (sort (restorableVolumes source))"
    and m: "missing = filter (\<lambda>pvc. takes spec pvc \<and> byPVC pvc = None) (sort (restorableVolumes source))" by auto
  have "set (map rp_pvc plans) \<union> set missing = {pvc \<in> set (restorableVolumes source). takes spec pvc}"
    unfolding n m by auto
  then show "set (map rp_pvc plans) \<union> set missing =
      {pvc. takes spec pvc \<and> (\<exists>v \<in> set (bs_Volumes (b_Status source)). restorable v \<and> Pvc v = pvc)}"
    unfolding restorableVolumes_set(1) by auto
  show "distinct (map rp_pvc plans)" unfolding n using restorableVolumes_set(2) [of source] by simp
qed

text \<open>
  The plan is exactly the selection. The claims planned and the claims reported missing are
  together the restorable claims of the source that the selection takes, each once, in sorted order; the
  missing ones are those without a snapshot of the run; and each plan reads the snapshot found for its own
  claim, under the path of its own namespace and claim.
\<close>

theorem plan_is_the_selection:
  assumes "buildPlans e spec restore source byPVC w = (plans, missing)"
  shows "set (map rp_pvc plans) \<union> set missing =
      {pvc. takes spec pvc \<and> (\<exists>v \<in> set (bs_Volumes (b_Status source)). restorable v \<and> Pvc v = pvc)} \<and>
    (\<forall>pvc \<in> set missing. byPVC pvc = None) \<and> sorted (map rp_pvc plans) \<and> distinct (map rp_pvc plans) \<and>
    (\<forall>plan \<in> set plans. \<exists>snap. byPVC (rp_pvc plan) = Some snap \<and> rp_snapshotID plan = sn_ID snap \<and>
       rp_snapshotPath plan = ''/data/'' @ r_ns restore @ ''/'' @ rp_pvc plan)"
proof -
  from buildPlans_parts [OF assms] obtain sel where
    p: "plans = map (\<lambda>pvc. sizePlan e (r_ns restore) source (the (byPVC pvc)) w
        (base_plan (r_ns restore) pvc (the (byPVC pvc)) (sel pvc))) (map rp_pvc plans)"
    and n: "map rp_pvc plans = filter (\<lambda>pvc. takes spec pvc \<and> byPVC pvc \<noteq> None) (sort (restorableVolumes source))"
    and m: "missing = filter (\<lambda>pvc. takes spec pvc \<and> byPVC pvc = None) (sort (restorableVolumes source))" by blast
  have "\<exists>snap. byPVC (rp_pvc plan) = Some snap \<and> rp_snapshotID plan = sn_ID snap \<and>
      rp_snapshotPath plan = ''/data/'' @ r_ns restore @ ''/'' @ rp_pvc plan" if in_plans: "plan \<in> set plans" for plan
  proof -
    from in_plans have "byPVC (rp_pvc plan) \<noteq> None" using arg_cong [OF n, of set] by auto
    moreover obtain pvc where "plan = sizePlan e (r_ns restore) source (the (byPVC pvc)) w
        (base_plan (r_ns restore) pvc (the (byPVC pvc)) (sel pvc))"
    proof -
      have "plan \<in> (\<lambda>pvc. sizePlan e (r_ns restore) source (the (byPVC pvc)) w
          (base_plan (r_ns restore) pvc (the (byPVC pvc)) (sel pvc))) ` set (map rp_pvc plans)"
        using in_plans unfolding set_map [symmetric] p [symmetric] .
      then show thesis by (elim imageE) (rule that)
    qed
    ultimately show ?thesis by (auto simp: base_plan_def)
  qed
  moreover have "sorted (map rp_pvc plans)" unfolding n by (simp add: sorted_wrt_filter)
  ultimately show ?thesis using buildPlans_names [OF assms] m by (intro conjI ballI) auto
qed

section \<open>A Restore that reads Completed\<close>

lemma terminal_pass_phase:
  assumes "terminal_pass e rc plans d stem restore st = (ans, r, st')"
  shows "r_phase r = terminal_phase d restore \<and> r_Meta r = r_Meta restore \<and> rst_Resources (r_Status r) = rst_Resources (r_Status restore)"
  using assms unfolding terminal_pass_def Let_def stampVolumeCounts_def by (auto split: prod.splits option.splits)

lemma running_pass_phase: "running_pass e rc d res restore st = (ans, r, st') \<Longrightarrow> r_phase r = RestorePhaseRunning"
  unfolding running_pass_def Let_def stampVolumeCounts_def by (auto split: prod.splits option.splits if_splits)

lemma advanceResources_done:
  assumes "advanceResources e restore rc plan w = (res, r, w')" "fst res"
  shows "r_Meta r = r_Meta restore \<and> (plan \<noteq> None \<longrightarrow> rst_Resources (r_Status r) \<noteq> None)"
  using assms unfolding advanceResources_def Let_def by (auto split: option.splits if_splits sum.splits prod.splits)

lemma plan_pass_plans:
  assumes "plan_pass e spec source rc byPVC snaps cached restore st = (Inr (rc', plans, resources), r, st')"
  shows "buildPlans e spec restore source byPVC (vw st) = (plans, []) \<and> rc' = rc \<and> r = restore \<and>
    resources = fst (resolveResourcesPlan (rsp_Resources spec) (rsp_Mode spec) (rsp_DryRun spec) snaps [])"
  using assms unfolding plan_pass_def Let_def by (auto split: prod.splits if_splits)

lemma plan_pass_gated: "plan_pass e spec source rc byPVC snaps cached restore st = (Inl ans, r, st') \<Longrightarrow> r_phase r = RestorePhasePending"
  unfolding plan_pass_def Let_def by (auto split: prod.splits if_splits dest: gate_phase)

lemma prepare_ready:
  assumes "prepare e spec sb restore st = (Inr (rc, plans, resources), r, st')"
  shows "r = restore \<and> (\<exists>loc repo dek byPVC snaps w. rc = exec_context spec restore (snd sb) loc repo dek \<and>
    buildPlans e spec restore (snd sb) byPVC w = (plans, []) \<and>
    resources = fst (resolveResourcesPlan (rsp_Resources spec) (rsp_Mode spec) (rsp_DryRun spec) snaps []))"
proof -
  obtain loc repo dek byPVC snaps cached st1 where
    "plan_pass e spec (snd sb) (exec_context spec restore (snd sb) loc repo dek) byPVC snaps cached restore st1 =
       (Inr (rc, plans, resources), r, st')"
    using assms unfolding prepare_def Let_def
    by (auto split: if_splits sum.splits prod.splits option.splits)
  from plan_pass_plans [OF this] show ?thesis by blast
qed

lemma prepare_gated:
  assumes "prepare e spec sb restore st = (Inl ans, r, st')"
  shows "r = restore \<or> r_phase r = RestorePhasePending"
  using assms unfolding prepare_def Let_def
  by (auto split: if_splits sum.splits prod.splits option.splits dest: gate_phase plan_pass_gated)

lemma restore_pass_completed:
  assumes s: "restore_pass e spec sb restore st = (ans, r, st')" and c: "r_phase r = RestorePhaseCompleted"
    and nt: "r_phase restore \<noteq> RestorePhaseCompleted"
  obtains rc plans resources st1 d rc' st2 st3 r1 where "prepare e spec sb restore st = (Inr (rc, plans, resources), restore, st1)"
    "driveVolumes e rc plans st2 = (d, rc', st3)" "tallied d" "int (length plans) \<le> settled d"
    "terminal_phase d r1 = RestorePhaseCompleted" "rst_Resources (r_Status r) = rst_Resources (r_Status r1)"
    "resources \<noteq> None \<Longrightarrow> rst_Resources (r_Status r) \<noteq> None"
proof (cases "fst (prepare e spec sb restore st)")
  case (Inl a)
  then have "prepare e spec sb restore st = (Inl ans, r, st')"
    using s by (auto simp: restore_pass_def split: prod.splits sum.splits)
  from prepare_gated [OF this] c nt show ?thesis by auto
next
  case (Inr x)
  obtain rc plans resources r0 st1 where p: "prepare e spec sb restore st = (Inr (rc, plans, resources), r0, st1)"
    using Inr by (metis prod_cases3 fst_conv)
  have r0: "r0 = restore" using prepare_ready [OF p] by simp
  obtain res r1 w1 where a: "advanceResources e restore rc resources (vw st1) = (res, r1, w1)" by (metis prod_cases3)
  obtain d rc' st3 where d: "driveVolumes e rc plans ((vrs st1)\<lparr>rw := w1\<rparr>) = (d, rc', st3)" by (metis prod_cases3)
  let ?go = "\<not> tallied d \<or> settled d < int (length plans) \<or> \<not> fst res"
  have run: "(if ?go then running_pass e rc' d res r1 (st1\<lparr>vrs := st3\<rparr>) else terminal_pass e rc' plans d (fst (snd res)) r1 (st1\<lparr>vrs := st3\<rparr>)) =
      (ans, r, st')"
    using s by (simp add: restore_pass_def p r0 a drive_pass_def d)
  have go: "\<not> ?go" using run c running_pass_phase [of e rc' d res r1 _ ans r st'] by (auto split: if_splits)
  with run have t: "terminal_pass e rc' plans d (fst (snd res)) r1 (st1\<lparr>vrs := st3\<rparr>) = (ans, r, st')" by simp
  show ?thesis
  proof (rule that [OF p [unfolded r0] d])
    show "tallied d" "int (length plans) \<le> settled d" using go by auto
    show "terminal_phase d r1 = RestorePhaseCompleted" "rst_Resources (r_Status r) = rst_Resources (r_Status r1)"
      using terminal_pass_phase [OF t] c by simp_all
    show "resources \<noteq> None \<Longrightarrow> rst_Resources (r_Status r) \<noteq> None"
      using terminal_pass_phase [OF t] advanceResources_done [OF a] go by simp
  qed
qed

lemma failedCount_nonneg:
  assumes "driveVolumes e rc plans st = (d, rc', st')" "tallied d" "length plans < 2 ^ 31"
  shows "0 \<le> failedCount d"
proof -
  from driveVolumes_outcomes [OF assms(1,2)] obtain vs where t: "vd_tally d = TallyVolumeRestoreOutcomes vs"
    and "length vs = length plans" by (auto dest: list_all2_lengthD)
  moreover have "count_list vs VolumeRestoreFailed \<le> length vs" by (rule count_le_length)
  ultimately have "failedCount d = int (count_list vs VolumeRestoreFailed)"
    using assms(3) by (simp add: failedCount_def t tally_simps outcome_count_def sint_of_nat_i32)
  then show ?thesis by simp
qed

text \<open>
  C3: a Restore that comes to read Completed restored everything it was asked to. It was confirmed; its source was
  resolved; every volume of the source that completed with a snapshot and that the selection takes was
  handed over, into the Restore's own namespace, from a verdict of this pass; and when manifests were to be
  restored their report is recorded with no failure. Counts are assumed to fit their 32-bit fields, and the
  reported count of failed manifests not to be negative.
\<close>

theorem completed_restore_is_complete:
  assumes s: "reconcile_restore e spec restore st = (ans, r, st')" and c: "r_phase r = RestorePhaseCompleted"
    and nt: "r_phase restore \<noteq> RestorePhaseCompleted"
    and few: "\<And>sb rs. resolveSource e spec restore (vrs st) = (Inr (Some sb), rs) \<Longrightarrow> length (bs_Volumes (b_Status (snd sb))) < 2 ^ 31"
    and honest: "\<And>res. rst_Resources (r_Status r) = Some res \<Longrightarrow> 0 \<le> sint (rrs_FailedCount res)"
  shows "rsp_Confirmation spec = r_ns restore \<and>
    (\<exists>sb rs rc. resolveSource e spec restore (vrs st) = (Inr (Some sb), rs) \<and> rx_targetNamespace rc = r_ns restore \<and>
      (\<forall>v \<in> set (bs_Volumes (b_Status (snd sb))). restorable v \<and> takes spec (Pvc v) \<longrightarrow>
        (\<exists>plan. rp_pvc plan = Pvc v \<and> restored_in_pass e rc plan))) \<and>
    (\<forall>res. rst_Resources (r_Status r) = Some res \<longrightarrow> rrs_FailedCount res = 0)"
proof -
  have conf: "rsp_Confirmation spec = r_ns restore"
    using s c by (auto simp: reconcile_restore_def awaitConfirmation_def Let_def split: if_splits prod.splits option.splits)
  let ?at = "rsrc_Time (rsp_Source spec)"
  have timed: "\<not> (?at \<noteq> [] \<and> ?at \<noteq> sourceTimeLatest \<and> parseRestoreTime e ?at = None)"
    using s c conf by (auto simp: reconcile_restore_def Let_def split: if_splits dest: gate_phase)
  note step = s [unfolded reconcile_restore_def Let_def conf, simplified timed, simplified]
  obtain x rs where src: "resolveSource e spec restore (vrs st) = (x, rs)" by (metis surj_pair)
  obtain sb where x: "x = Inr (Some sb)"
    using step c nt unfolding src by (cases x) (auto split: option.splits dest: gate_phase)
  obtain r0 st0 where cf: "confirm e restore (st\<lparr>vrs := rs\<rparr>) = (r0, st0)" by (metis surj_pair)
  have meta: "r_ns r0 = r_ns restore" and ph: "r_phase r0 \<noteq> RestorePhaseCompleted" using confirm_frame [OF cf] nt by auto
  have pass: "restore_pass e spec sb r0 st0 = (ans, r, st')" using step unfolding src x by (simp add: cf)
  obtain rc plans resources st1 d rc' st2 st3 r1 where prep: "prepare e spec sb r0 st0 = (Inr (rc, plans, resources), r0, st1)"
    and dv: "driveVolumes e rc plans st2 = (d, rc', st3)" and ta: "tallied d" and se: "int (length plans) \<le> settled d"
    and te: "terminal_phase d r1 = RestorePhaseCompleted" and re: "rst_Resources (r_Status r) = rst_Resources (r_Status r1)"
    using restore_pass_completed [OF pass c ph] by metis
  from prepare_ready [OF prep] obtain loc repo dek byPVC w where rc: "rc = exec_context spec r0 (snd sb) loc repo dek"
    and bp: "buildPlans e spec r0 (snd sb) byPVC w = (plans, [])" by blast
  let ?vols = "bs_Volumes (b_Status (snd sb))"
  have "set (map rp_pvc plans) \<subseteq> Pvc ` set ?vols" using buildPlans_names(1) [OF bp] by auto
  then have "length plans \<le> length ?vols"
    using buildPlans_names(2) [OF bp] by (metis card_image_le card_mono distinct_card finite_imageI finite_set length_map order_trans card_length)
  then have small: "length plans < 2 ^ 31" using few [OF src [unfolded x]] by simp
  have zero: "failedCount d = 0 \<and> (\<forall>res. rst_Resources (r_Status r1) = Some res \<longrightarrow> sint (rrs_FailedCount res) = 0)"
    using te honest failedCount_nonneg [OF dv ta small] unfolding re terminal_phase_def RollUpRestoreOutcomes_def
    by (auto split: option.splits if_splits)
  from driveVolumes_all_restored [OF dv ta se conjunct1 [OF zero] small]
  have all: "\<forall>plan \<in> set plans. restored_in_pass e rc plan" .
  have "\<exists>plan. rp_pvc plan = Pvc v \<and> restored_in_pass e rc plan"
    if "v \<in> set ?vols" "restorable v" "takes spec (Pvc v)" for v
  proof -
    have "Pvc v \<in> set (map rp_pvc plans)" using buildPlans_names(1) [OF bp] that by auto
    then show ?thesis using all by auto
  qed
  moreover have "rx_targetNamespace rc = r_ns restore" unfolding rc exec_context_def using meta by simp
  moreover have "\<forall>res. rst_Resources (r_Status r) = Some res \<longrightarrow> rrs_FailedCount res = 0"
    using zero unfolding re by (simp add: signed_eq_0_iff)
  ultimately show ?thesis using conf src x by blast
qed

section \<open>Bounds and reach\<close>

text \<open>
  A claim created without any recorded size is large enough. For a data size whose padded sum stays
  within 64 bits, the fallback capacity is a positive whole number of gibibytes, covers the data with a fifth
  on top, and exceeds that by less than one gibibyte unless it is the minimum of one.
\<close>

theorem fallback_capacity_covers:
  assumes "0 \<le> sint bytes" and "sint bytes + sint bytes div 5 + 2 ^ 30 < 2 ^ 63"
  shows "sint bytes + sint bytes div 5 \<le> fallbackRestoreCapacity bytes \<and> 2 ^ 30 dvd fallbackRestoreCapacity bytes \<and>
    2 ^ 30 \<le> fallbackRestoreCapacity bytes \<and>
    (fallbackRestoreCapacity bytes = 2 ^ 30 \<or> fallbackRestoreCapacity bytes < sint bytes + sint bytes div 5 + 2 ^ 30)"
proof -
  define n where "n = sint bytes"
  define p where "p = n + n div 5"
  define g where "g = max ((p + 2 ^ 30 - 1) div 2 ^ 30) 1"
  have n: "0 \<le> n" "p + 2 ^ 30 < 2 ^ 63" "0 \<le> p" using assms unfolding n_def p_def by auto
  have fit: "sint (of_int k :: i64) = k" if "0 \<le> k" "k < 2 ^ 63" for k
    using that by (simp add: signed_of_int signed_take_bit_int_eq_self)
  have bytes: "bytes = of_int n" by (simp add: n_def)
  have pos: "k sdiv m = k div m" if "0 \<le> k" "0 < m" for k m :: int
    using that by (cases "k = 0") (simp_all add: signed_divide_int_def)
  have "n sdiv 5 = n div 5" using n by (intro pos) auto
  then have "bytes + of_int (sint bytes sdiv 5) + 2 ^ 30 - 1 = (of_int (p + 2 ^ 30 - 1) :: i64)"
    unfolding n_def [symmetric] by (simp add: bytes p_def)
  moreover have "sint (of_int (p + 2 ^ 30 - 1) :: i64) = p + 2 ^ 30 - 1" using n by (intro fit) auto
  moreover have "(p + 2 ^ 30 - 1) sdiv 2 ^ 30 = (p + 2 ^ 30 - 1) div 2 ^ 30" using n by (intro pos) auto
  moreover have "sint (2 ^ 30 :: i64) = 2 ^ 30" using fit [of "2 ^ 30"] by simp
  ultimately have cap: "fallbackRestoreCapacity bytes = sint (of_int (g * 2 ^ 30) :: i64)"
    unfolding fallbackRestoreCapacity_def Let_def g_def by simp
  have g: "1 \<le> g" "p \<le> g * 2 ^ 30" "g = 1 \<or> g * 2 ^ 30 < p + 2 ^ 30" unfolding g_def by (auto simp: max_def)
  then have "g * 2 ^ 30 < 2 ^ 63" using n by auto
  then have "fallbackRestoreCapacity bytes = g * 2 ^ 30" using cap fit [of "g * 2 ^ 30"] g by simp
  then show ?thesis using g unfolding n_def [symmetric] p_def [symmetric] by auto
qed

definition keep_entry :: "ResourceEntry \<Rightarrow> RestoreResourcesStatus \<Rightarrow> RestoreResourcesStatus" where
  "keep_entry x out = out\<lparr>rrs_Truncated := (rrs_Truncated out \<or> length (re_Changed x) > MaxRestoreChangedPaths),
     rrs_Entries := rrs_Entries out @ [\<lparr>rre_Group = re_Group x, rre_Kind = re_Kind x, rre_Name = re_Name x,
       rre_Outcome = re_Outcome x, rre_Reason = clampMessage (re_Reason x), rre_Changed = take MaxRestoreChangedPaths (re_Changed x)\<rparr>]\<rparr>"

lemma take_entries_Cons:
  "take_entries (x # xs) out =
     (if MaxRestoreResourceEntries \<le> length (rrs_Entries out) then out\<lparr>rrs_Truncated := True\<rparr> else take_entries xs (keep_entry x out))"
  by (simp add: keep_entry_def Let_def)

lemma keep_entry_frame:
  "length (rrs_Entries (keep_entry x out)) = Suc (length (rrs_Entries out))" "rrs_FailedCount (keep_entry x out) = rrs_FailedCount out"
  "\<forall>y \<in> set (rrs_Entries out). length (rre_Changed y) \<le> MaxRestoreChangedPaths \<Longrightarrow>
   \<forall>y \<in> set (rrs_Entries (keep_entry x out)). length (rre_Changed y) \<le> MaxRestoreChangedPaths"
  by (auto simp: keep_entry_def)

lemma take_entries_bounds:
  assumes "length (rrs_Entries out) \<le> MaxRestoreResourceEntries" "\<forall>x \<in> set (rrs_Entries out). length (rre_Changed x) \<le> MaxRestoreChangedPaths"
  shows "length (rrs_Entries (take_entries xs out)) \<le> MaxRestoreResourceEntries \<and>
    (\<forall>x \<in> set (rrs_Entries (take_entries xs out)). length (rre_Changed x) \<le> MaxRestoreChangedPaths) \<and>
    rrs_FailedCount (take_entries xs out) = rrs_FailedCount out"
  using assms
proof (induction xs arbitrary: out)
  case (Cons x xs)
  from Cons.prems Cons.IH [of "keep_entry x out"] keep_entry_frame(1,2) [of x out] keep_entry_frame(3) [of out x] show ?case unfolding take_entries_Cons by simp
qed simp

abbreviation published :: "RestoreResourceEntry \<Rightarrow> string \<times> string \<times> string \<times> string \<times> string list" where
  "published x \<equiv> (rre_Group x, rre_Kind x, rre_Name x, rre_Outcome x, rre_Changed x)"
abbreviation reported_entry :: "ResourceEntry \<Rightarrow> string \<times> string \<times> string \<times> string \<times> string list" where
  "reported_entry x \<equiv> (re_Group x, re_Kind x, re_Name x, re_Outcome x, re_Changed x)"

lemma take_entries_complete:
  "\<not> rrs_Truncated (take_entries xs out) \<Longrightarrow>
     \<not> rrs_Truncated out \<and> map published (rrs_Entries (take_entries xs out)) = map published (rrs_Entries out) @ map reported_entry xs"
proof (induction xs arbitrary: out)
  case (Cons x xs)
  have "\<not> MaxRestoreResourceEntries \<le> length (rrs_Entries out)" using Cons.prems unfolding take_entries_Cons by auto
  then have t: "take_entries (x # xs) out = take_entries xs (keep_entry x out)" by (simp only: take_entries_Cons if_False)
  from Cons.IH [of "keep_entry x out"] Cons.prems have ih: "\<not> rrs_Truncated (keep_entry x out)"
    "map published (rrs_Entries (take_entries xs (keep_entry x out))) = map published (rrs_Entries (keep_entry x out)) @ map reported_entry xs"
    unfolding t by simp_all
  then show ?case unfolding t by (simp add: keep_entry_def)
qed simp

text \<open>
  The published report of the manifests is bounded and admits what it leaves out. It has at most a
  hundred entries of at most twenty changed paths each, keeps the mover's count of failures, and unless it is
  marked truncated it names every entry the mover reported, in order, with its outcome and all its paths.
\<close>

theorem manifest_report_bounded:
  "length (rrs_Entries (resourcesStatusFrom result)) \<le> 100 \<and>
   (\<forall>x \<in> set (rrs_Entries (resourcesStatusFrom result)). length (rre_Changed x) \<le> 20) \<and>
   rrs_FailedCount (resourcesStatusFrom result) = FailedResources result \<and>
   (\<not> rrs_Truncated (resourcesStatusFrom result) \<longrightarrow>
      \<not> ResourcesTruncated result \<and>
      map published (rrs_Entries (resourcesStatusFrom result)) =
      map reported_entry (ResourceEntries result))"
proof -
  let ?out = "\<lparr>rrs_FailedCount = FailedResources result, rrs_Truncated = ResourcesTruncated result, rrs_Entries = []\<rparr>"
  show ?thesis using take_entries_bounds [of ?out "ResourceEntries result"] take_entries_complete [of "ResourceEntries result" ?out]
    unfolding resourcesStatusFrom_def MaxRestoreResourceEntries_def MaxRestoreChangedPaths_def by auto
qed

text \<open>
  The dry-run switch reaches the manifest half only: the volumes are planned, and then driven by
  movers, exactly as without it.
\<close>

lemma plan_pass_dry_run:
  "plan_pass e (spec\<lparr>rsp_DryRun := b\<rparr>) source rc byPVC snaps cached restore st =
     (case plan_pass e spec source rc byPVC snaps cached restore st of
        (Inl ans, r, st') \<Rightarrow> (Inl ans, r, st')
      | (Inr (rc', plans, resources), r, st') \<Rightarrow> (Inr (rc', plans, map_option (\<lambda>p. p\<lparr>rpl_dryRun := b\<rparr>) resources), r, st'))"
  by (auto simp: plan_pass_def buildPlans_def resolveResourcesPlan_def Let_def split: prod.splits option.splits)

lemma dry_run_does_not_reach_volumes:
  "prepare e (spec\<lparr>rsp_DryRun := b\<rparr>) sb restore st =
     (case prepare e spec sb restore st of
        (Inl ans, r, st') \<Rightarrow> (Inl ans, r, st')
      | (Inr (rc, plans, resources), r, st') \<Rightarrow> (Inr (rc, plans, map_option (\<lambda>p. p\<lparr>rpl_dryRun := b\<rparr>) resources), r, st'))"
  unfolding prepare_def Let_def plan_pass_dry_run exec_context_def
  by (auto split: prod.splits option.splits sum.splits)

text \<open>Omitting the list of manifests selects every manifest, whether or not volumes are listed.\<close>

lemma omitted_resources_select_all:
  assumes "resolveResourcesPlan resources mode dry snaps m = (Some plan, ok)"
  shows "sel_All (rpl_selection plan) \<longleftrightarrow> resources = None"
  using assms by (auto simp: resolveResourcesPlan_def split: if_splits option.splits)

text \<open>Every Job of a Restore leads the watch back to it.\<close>

lemma restore_jobs_lead_back:
  assumes "rx_ownerLabelKey rc = LabelRestore" "rx_ownerName rc \<noteq> []" "rx_targetNamespace rc \<noteq> []"
  shows "mapJobToRestore (volumeLabels rc pvc) = [(rx_targetNamespace rc, rx_ownerName rc)]"
    "mapJobToRestore (resourcesLabels rc) = [(rx_targetNamespace rc, rx_ownerName rc)]"
  using assms by (simp_all add: mapJobToRestore_def volumeLabels_def resourcesLabels_def map_get_def)

section \<open>A concrete Restore\<close>

definition demo_repo :: BackupRepository where
  "demo_repo = \<lparr>rep_Name = ''main'', rep_Labels = Map.empty, rep_Controller = None, rep_Initialized = True, rep_RepositoryURL = ''s3:x''\<rparr>"

definition demo_source :: "unit source_backup" where
  "demo_source = (\<lparr>bsp_ScheduleRef = [], bsp_LocationKind = kindClusterBackupLocation, bsp_LocationName = ''main'', bsp_Run = None\<rparr>,
     (demo_backup_of [])\<lparr>b_Status := (b_Status (demo_backup_of []))\<lparr>bs_Phase := BackupPhaseCompleted, bs_BackupTime := Some 7\<rparr>\<rparr>)"

definition demo_restorectl :: "(nat, unit, unit, unit) restorectl_env" where
  "demo_restorectl = restore_env.extend (demo_restore_env (Inr demo_restore_job)) (restorectl_env.fields
     (\<lambda>_ _ _. Inl NotFound) (\<lambda>_ w. (None, w)) (\<lambda>_ w. (None, w)) (\<lambda>_ _. Inr [demo_source]) (\<lambda>_ _ _ w. (Inr [], w))
     (\<lambda>_ _ _. Inr []) (\<lambda>_ _. Inr []) [] (\<lambda>_. None) (\<lambda>_. None) (\<lambda>_. Inr ''{}'') (\<lambda>_. Inr ''{}''))"

lemmas demo_restorectl_simps = demo_restorectl_def restore_env.extend_def restorectl_env.fields_def demo_restore_simps

definition demo_restore :: Restore where
  "demo_restore = \<lparr>r_Meta = (b_Meta empty_backup)\<lparr>m_Namespace := ''shop'', m_Name := ''r1'', m_UID := ''u1''\<rparr>,
     r_Status = \<lparr>rst_Phase = [], rst_RestoredResources = 0, rst_Resources = None, rst_PlannedVolumes = 0, rst_RestoredVolumes = 0,
       rst_FailedVolumes = 0, rst_RestoredBytes = 0, rst_Conditions = []\<rparr>\<rparr>"

definition demo_restore_spec :: "string \<Rightarrow> unit RestoreSpec" where
  "demo_restore_spec confirmation = \<lparr>rsp_Source = \<lparr>rsrc_Backup = [], rsrc_Time = ''latest'', rsrc_Origin = []\<rparr>, rsp_Mode = ''Overwrite'',
     rsp_Resources = Some [], rsp_Volumes = None, rsp_Confirmation = confirmation, rsp_DryRun = False\<rparr>"

abbreviation demo_vstate :: "nat vstate" where "demo_vstate \<equiv> \<lparr>vrs = demo_rstate, vev = []\<rparr>"

theorem nothing_without_confirmation_witness:
  "r_phase (fst (snd (reconcile_restore demo_restorectl (demo_restore_spec []) demo_restore demo_vstate))) = RestorePhaseAwaitingConfirmation"
proof -
  obtain ans r st' where s: "reconcile_restore demo_restorectl (demo_restore_spec []) demo_restore demo_vstate = (ans, r, st')"
    by (metis prod_cases3)
  have "rsp_Confirmation (demo_restore_spec []) \<noteq> r_ns demo_restore" by (simp add: demo_restore_spec_def demo_restore_def)
  from nothing_without_confirmation [OF this s] show ?thesis unfolding s by simp
qed

lemma demo_resolve:
  "resolveSource demo_restorectl (demo_restore_spec c) demo_restore demo_rstate =
     (Inr (Some demo_source), demo_rstate\<lparr>ren := newRestoreEngine\<lparr>en_pinnedSource := [''u1'' \<mapsto> b_name (snd demo_source)]\<rparr>\<rparr>)"
  by (simp add: resolveSource_def demo_restorectl_simps demo_restore_spec_def demo_restore_def pinnedSourceFor_def pinSource_def
      newRestoreEngine_def better_source_def demo_source_def backupSucceeded_def Let_def)

theorem source_is_latest_and_pinned_witness:
  "pinnedSourceFor ''u1'' (ren (snd (resolveSource demo_restorectl (demo_restore_spec []) demo_restore demo_rstate))) =
     Some (b_name (snd demo_source))"
proof -
  have "rsrc_Backup (rsp_Source (demo_restore_spec [])) = []" by (simp add: demo_restore_spec_def)
  from source_is_latest_and_pinned [OF this demo_resolve]
  show ?thesis unfolding demo_resolve by (simp add: pinnedSourceFor_def newRestoreEngine_def demo_restore_def)
qed

definition demo_snap :: Snapshot where
  "demo_snap = \<lparr>sn_ID = ''abc'', sn_ShortID = [], sn_Time = 0, sn_Host = [], sn_Paths = [], sn_Tags = [], sn_Summary = None, sn_Original = []\<rparr>"

theorem plan_is_the_selection_witness:
  "map rp_pvc (fst (buildPlans demo_restorectl (demo_restore_spec []) demo_restore
     (demo_backup_of [(demo_volume VolumePhaseCompleted)\<lparr>SnapshotID := ''abc''\<rparr>]) (\<lambda>_. Some demo_snap) 0)) \<noteq> []"
proof -
  let ?v = "(demo_volume VolumePhaseCompleted)\<lparr>SnapshotID := ''abc''\<rparr>"
  let ?b = "demo_backup_of [?v]"
  obtain plans missing where s: "buildPlans demo_restorectl (demo_restore_spec []) demo_restore ?b (\<lambda>_. Some demo_snap) 0 = (plans, missing)"
    by (metis surj_pair)
  have "?v \<in> set (bs_Volumes (b_Status ?b))" "restorable ?v" "takes (demo_restore_spec []) (Pvc ?v)"
    by (simp_all add: demo_backup_of_def demo_volume_def takes_def demo_restore_spec_def)
  with plan_is_the_selection [OF s] have "Pvc ?v \<in> set (map rp_pvc plans) \<union> set missing" "missing = []"
    by (blast, cases missing) auto
  then show ?thesis unfolding s by auto
qed

theorem fallback_capacity_covers_witness:
  "6 * 2 ^ 30 \<le> fallbackRestoreCapacity (5 * 2 ^ 30)"
proof -
  have v: "sint (5 * 2 ^ 30 :: i64) = 5 * 2 ^ 30" by simp
  have "0 \<le> sint (5 * 2 ^ 30 :: i64)" "sint (5 * 2 ^ 30 :: i64) + sint (5 * 2 ^ 30 :: i64) div 5 + 2 ^ 30 < 2 ^ 63"
    unfolding v by simp_all
  from fallback_capacity_covers [OF this] show ?thesis unfolding v by simp
qed

theorem manifest_report_bounded_witness:
  "length (rrs_Entries (resourcesStatusFrom (zero_result\<lparr>ResourceEntries := replicate 300
     \<lparr>re_Group = [], re_Kind = ''Secret'', re_Name = ''s'', re_Outcome = ''Failed'', re_Reason = [], re_Changed = []\<rparr>\<rparr>))) \<le> 100"
  using manifest_report_bounded [of "zero_result\<lparr>ResourceEntries := replicate 300
     \<lparr>re_Group = [], re_Kind = ''Secret'', re_Name = ''s'', re_Outcome = ''Failed'', re_Reason = [], re_Changed = []\<rparr>\<rparr>"] by blast

definition demo_live_source :: "unit source_backup" where
  "demo_live_source = (fst demo_source, (snd demo_source)\<lparr>b_Status := (b_Status (snd demo_source))\<lparr>bs_Volumes :=
     [(demo_volume VolumePhaseCompleted)\<lparr>Pvc := ''data'', SnapshotID := ''abc''\<rparr>]\<rparr>\<rparr>)"

definition demo_cbl :: ClusterBackupLocation where
  "demo_cbl = \<lparr>cbl_Name = ''main'', cbl_Default = True, cbl_Mode = LocationModeStandard, cbl_ClusterID = ''c'',
     cbl_S3 = \<lparr>s3_Endpoint = [], s3_Bucket = ''b'', s3_Prefix = [], s3_Region = [], s3_CredentialsSecretRef = ''creds'', s3_CABundle = [],
       s3_ForcePathStyle = False, s3_Connections = None\<rparr>, cbl_ClusterKEKSecretRef = ''kek'', cbl_Retention = \<lparr>KeepLast = 1, KeepHourly = 0, KeepDaily = 0, KeepWeekly = 0, KeepMonthly = 0, KeepYearly = 0\<rparr>\<rparr>"

definition demo_live :: "(nat, unit, unit, unit) restorectl_env" where
  "demo_live = demo_restorectl\<lparr>
     ve_list_backups := \<lambda>_ _. Inr [demo_live_source],
     ve_ListFiltered := \<lambda>_ _ _ w. (Inr [demo_snap\<lparr>sn_Tags := [Tag TagKeyKind KindData, Tag TagKeyPVC ''data'']\<rparr>], w),
     ce_get_cluster_location := \<lambda>_ _. Inr demo_cbl, ce_get_repository := \<lambda>_ _. Inr demo_repo,
     be_deps := (be_deps demo_restorectl)\<lparr>rd_get_secret := \<lambda>_ _ _. Inr [kekIdentityDataKey \<mapsto> ''k'']\<rparr>,
     ce_keys := (ce_keys demo_restorectl)\<lparr>ke_ParseIdentities := \<lambda>_. Inr [Some ()], ke_get := \<lambda>_ _ w. (Inr [DEKSecretKey \<mapsto> ''x''], w)\<rparr>\<rparr>"

lemma demo_live_dek: "resolvePlatformDEKCommon demo_live demo_cbl w = (Inr ''x'', w)"
  by (simp add: resolvePlatformDEKCommon_def demo_live_def demo_restorectl_simps demo_cbl_def GetValue_def NewAgeWrapper_def
      EnsureDEK_def unwrapDEK_def data_value_def TrimSpace_def Trim_def TrimLeft_def TrimRight_def ascii_space_def Let_def)

lemma demo_live_advise: "adviseVolume demo_live rc plan st = (Inr (open_outcome\<lparr>vo_settled := True\<rparr>), rc, st)"
  by (simp add: adviseVolume_def demo_live_def demo_restorectl_simps demo_restore_job_def resolveMoverOutcome_def map_get_def deleteJobPods_def
      exposure_kind_def jobConditionTrue_def Job.defs zero_result_def open_outcome_def restoreMoverBackoffLimit_def word_sless_alt Let_def)

lemma demo_live_drive:
  "\<exists>d rc' rs. driveVolumes demo_live rc [plan] st = (d, rc', rs) \<and> tallied d \<and> settled d = 1 \<and> failedCount d = 0 \<and> completed d = 1"
proof -
  have "ownerRunningMovers demo_live rc (rw st) = Inr 0"
    by (simp add: ownerRunningMovers_def demo_live_def demo_restorectl_simps RunningMoverJobs_def)
  then show ?thesis
    by (simp add: driveVolumes_def drive_one_def demo_live_advise classifyVolumeOutcome_def open_outcome_def zero_drive_def tallied_def
        settled_def failedCount_def completed_def tally_simps outcome_count_def RestoreTally_Settled_def Let_def)
qed

lemma demo_live_prepare:
  assumes "r_Meta r = r_Meta demo_restore" "cachedResolution ''u1'' (b_name (snd demo_live_source)) (ren (vrs st)) = None"
  shows "\<exists>rc plan st'. prepare demo_live (demo_restore_spec ''shop'') demo_live_source r st = (Inr (rc, [plan], None), r, st')"
proof -
  have uid: "r_uid r = ''u1''" using assms(1) by (simp add: demo_restore_def)
  have loc: "bsp_LocationKind (fst demo_live_source) = kindClusterBackupLocation"
    "ce_get_cluster_location demo_live n w = Inr demo_cbl" "ce_get_repository demo_live n w = Inr demo_repo" "rep_Initialized demo_repo" for n w
    by (simp_all add: demo_live_source_def demo_source_def demo_live_def demo_repo_def)
  have vols: "restorableVolumes (snd demo_live_source) = [''data'']"
    by (simp add: restorableVolumes_def demo_live_source_def restorable_step_def demo_volume_def)
  have snaps: "dataSnapshotsByPVC [demo_snap\<lparr>sn_Tags := [Tag TagKeyKind KindData, Tag TagKeyPVC ''data'']\<rparr>] ''data'' =
      Some (demo_snap\<lparr>sn_Tags := [Tag TagKeyKind KindData, Tag TagKeyPVC ''data'']\<rparr>)"
    by (simp add: dataSnapshotsByPVC_def Tag_def)
  obtain plan where bp: "buildPlans demo_live (demo_restore_spec ''shop'') r (snd demo_live_source)
      (dataSnapshotsByPVC [demo_snap\<lparr>sn_Tags := [Tag TagKeyKind KindData, Tag TagKeyPVC ''data'']\<rparr>]) (vw st) = ([plan], [])"
    unfolding buildPlans_def vols Let_def
    by (simp add: plan_step_def planVolumes_def demo_restore_spec_def snaps)
  have list: "ve_ListFiltered demo_live rp n ts w = (Inr [demo_snap\<lparr>sn_Tags := [Tag TagKeyKind KindData, Tag TagKeyPVC ''data'']\<rparr>], w)" for rp n ts w
    by (simp add: demo_live_def)
  have none: "fst (resolveResourcesPlan (rsp_Resources (demo_restore_spec ''shop'')) m b sn []) = None" for m b sn
    by (simp add: resolveResourcesPlan_def demo_restore_spec_def)
  show ?thesis unfolding prepare_def Let_def
    by (simp add: loc demo_live_dek uid assms(2) list plan_pass_def bp none Let_def)
qed

lemma demo_live_pass:
  "\<exists>ans r st'. reconcile_restore demo_live (demo_restore_spec ''shop'') demo_restore demo_vstate = (ans, r, st') \<and>
     r_phase r = RestorePhaseCompleted \<and> rst_Resources (r_Status r) = None"
proof -
  have src: "resolveSource demo_live (demo_restore_spec ''shop'') demo_restore demo_rstate =
      (Inr (Some demo_live_source), demo_rstate\<lparr>ren := newRestoreEngine\<lparr>en_pinnedSource := [''u1'' \<mapsto> b_name (snd demo_live_source)]\<rparr>\<rparr>)"
    by (simp add: resolveSource_def demo_live_def demo_restorectl_simps demo_restore_spec_def demo_restore_def pinnedSourceFor_def
        pinSource_def newRestoreEngine_def better_source_def demo_live_source_def demo_source_def backupSucceeded_def Let_def)
  define st0 :: "nat vstate" where "st0 = demo_vstate\<lparr>vrs := demo_rstate\<lparr>ren := newRestoreEngine\<lparr>en_pinnedSource :=
      [''u1'' \<mapsto> b_name (snd demo_live_source)]\<rparr>\<rparr>\<rparr>"
  obtain r0 st1 where cf: "confirm demo_live demo_restore st0 = (r0, st1)" by (metis surj_pair)
  note fr = confirm_frame [OF cf]
  have res0: "rst_Resources (r_Status r0) = None"
    using cf by (auto simp: confirm_def demo_restore_def rset_cond_def split: if_splits)
  have "cachedResolution ''u1'' (b_name (snd demo_live_source)) (ren (vrs st1)) = None"
    using fr by (simp add: st0_def cachedResolution_def newRestoreEngine_def)
  with fr obtain rc plan st2 where p: "prepare demo_live (demo_restore_spec ''shop'') demo_live_source r0 st1 = (Inr (rc, [plan], None), r0, st2)"
    using demo_live_prepare by blast
  obtain d rc' rs where d: "driveVolumes demo_live rc [plan] (vrs st2) = (d, rc', rs)" "tallied d" "settled d = 1" "failedCount d = 0"
    using demo_live_drive by blast
  have pass: "restore_pass demo_live (demo_restore_spec ''shop'') demo_live_source r0 st1 =
      terminal_pass demo_live rc' [plan] d [] r0 (st2\<lparr>vrs := rs\<rparr>)"
    using d by (simp add: restore_pass_def p advanceResources_def drive_pass_def)
  obtain ans r st' where t: "terminal_pass demo_live rc' [plan] d [] r0 (st2\<lparr>vrs := rs\<rparr>) = (ans, r, st')" by (metis prod_cases3)
  have "reconcile_restore demo_live (demo_restore_spec ''shop'') demo_restore demo_vstate =
      restore_pass demo_live (demo_restore_spec ''shop'') demo_live_source r0 st1"
  proof -
    have "rsp_Confirmation (demo_restore_spec ''shop'') = r_ns demo_restore" "rsrc_Time (rsp_Source (demo_restore_spec ''shop'')) = sourceTimeLatest"
      by (simp_all add: demo_restore_spec_def demo_restore_def)
    then show ?thesis using cf unfolding st0_def reconcile_restore_def Let_def by (simp add: src)
  qed
  moreover have "terminal_phase d r0 = RestorePhaseCompleted" by (simp add: terminal_phase_def res0 d RollUpRestoreOutcomes_def)
  ultimately show ?thesis using pass t terminal_pass_phase [OF t] res0 by simp
qed

theorem completed_restore_is_complete_witness:
  "\<exists>rc plan. rx_targetNamespace rc = ''shop'' \<and> rp_pvc plan = ''data'' \<and> restored_in_pass demo_live rc plan"
proof -
  obtain ans r st' where s: "reconcile_restore demo_live (demo_restore_spec ''shop'') demo_restore demo_vstate = (ans, r, st')"
    and c: "r_phase r = RestorePhaseCompleted" and n: "rst_Resources (r_Status r) = None" using demo_live_pass by blast
  have nt: "r_phase demo_restore \<noteq> RestorePhaseCompleted" by (simp add: demo_restore_def)
  have src: "fst (resolveSource demo_live (demo_restore_spec ''shop'') demo_restore (vrs demo_vstate)) = Inr (Some demo_live_source)"
    by (simp add: resolveSource_def demo_live_def demo_restorectl_simps demo_restore_spec_def demo_restore_def pinnedSourceFor_def
        pinSource_def newRestoreEngine_def better_source_def demo_live_source_def demo_source_def backupSucceeded_def Let_def)
  have few: "length (bs_Volumes (b_Status (snd sb))) < 2 ^ 31"
    if "resolveSource demo_live (demo_restore_spec ''shop'') demo_restore (vrs demo_vstate) = (Inr (Some sb), rs)" for sb rs
    using that src by (simp add: demo_live_source_def)
  let ?v = "(demo_volume VolumePhaseCompleted)\<lparr>Pvc := ''data'', SnapshotID := ''abc''\<rparr>"
  have v: "?v \<in> set (bs_Volumes (b_Status (snd demo_live_source)))" "restorable ?v \<and> takes (demo_restore_spec ''shop'') (Pvc ?v)" "Pvc ?v = ''data''"
    by (simp_all add: demo_live_source_def demo_volume_def takes_def demo_restore_spec_def)
  have ns: "r_ns demo_restore = ''shop''" by (simp add: demo_restore_def)
  have honest: "0 \<le> sint (rrs_FailedCount res)" if "rst_Resources (r_Status r) = Some res" for res using that n by simp
  have "\<exists>sb rs rc. resolveSource demo_live (demo_restore_spec ''shop'') demo_restore (vrs demo_vstate) = (Inr (Some sb), rs) \<and>
      rx_targetNamespace rc = r_ns demo_restore \<and>
      (\<forall>v \<in> set (bs_Volumes (b_Status (snd sb))). restorable v \<and> takes (demo_restore_spec ''shop'') (Pvc v) \<longrightarrow>
        (\<exists>plan. rp_pvc plan = Pvc v \<and> restored_in_pass demo_live rc plan))"
    by (rule completed_restore_is_complete [OF s c nt, THEN conjunct2, THEN conjunct1]) (rule few honest, assumption)+
  then obtain sb rs rc where "resolveSource demo_live (demo_restore_spec ''shop'') demo_restore (vrs demo_vstate) = (Inr (Some sb), rs)"
    and rc: "rx_targetNamespace rc = r_ns demo_restore"
    and all: "\<forall>v \<in> set (bs_Volumes (b_Status (snd sb))). restorable v \<and> takes (demo_restore_spec ''shop'') (Pvc v) \<longrightarrow>
        (\<exists>plan. rp_pvc plan = Pvc v \<and> restored_in_pass demo_live rc plan)" by blast
  then have "sb = demo_live_source" using src by simp
  with all v rc ns show ?thesis by metis
qed

end
