(* ===== verification/Cluster_Restore_Safety.thy ===== *)
theory Cluster_Restore_Safety
  imports Cluster_Restore Restore_Run_Safety
begin

text \<open>
  What the ClusterRestore controller promises: nothing happens before the confirmation, no volume moves
  before the cluster-scoped half has reported, the run chosen from a listing is the latest one within the
  time asked for whatever order Go iterates its maps in, and a ClusterRestore reads Completed only when
  every selected claim of the resolved run was handed over.
\<close>

section \<open>Frames\<close>

lemma xstatus_frame: "xstatus e r st = (err, st') \<Longrightarrow> xrs st' = (xrs st)\<lparr>rw := snd (xe_update_status e r (xw st))\<rparr> \<and> xev st' = xev st"
  by (auto simp: xstatus_def split: prod.splits option.splits)

lemma gateAt_phase: "gateAt e reason message after cr st = (ans, r, st') \<Longrightarrow> r_phase r = RestorePhasePending"
  by (auto simp: gateAt_def Let_def split: prod.splits option.splits)

lemma cluster_gate_phase: "cluster_gate e reason message cr st = (ans, r, st') \<Longrightarrow> r_phase r = RestorePhasePending"
  unfolding cluster_gate_def by (rule gateAt_phase)

lemma cluster_confirm_frame:
  "cluster_confirm e spec cr st = (r, st') \<Longrightarrow> r_Meta r = r_Meta cr \<and> r_phase r = r_phase cr \<and>
     rst_Resources (r_Status r) = rst_Resources (r_Status cr) \<and> xrs st' = xrs st"
  by (auto simp: cluster_confirm_def split: if_splits)

lemma ensureTargetNamespace_frame:
  assumes "ensureTargetNamespace e spec cr st = (None, r, st')"
  shows "r = cr \<and> ren (xrs st') = ren (xrs st)"
  using assms unfolding ensureTargetNamespace_def Let_def by (auto split: option.splits prod.splits if_splits)

lemma ensureTargetNamespace_gated:
  assumes "ensureTargetNamespace e spec cr st = (Some ans, r, st')"
  shows "r = cr \<or> r_phase r = RestorePhasePending"
  using assms unfolding ensureTargetNamespace_def Let_def
  by (auto split: option.splits prod.splits if_splits dest: cluster_gate_phase)

section \<open>Confirmation\<close>

text \<open>
  Without the confirmation a ClusterRestore does nothing. As long as the confirmation does not
  name the target namespace, a pass writes the status once, with the phase AwaitingConfirmation, and
  nothing else: no namespace is created, no grant is made, and the engine's memory is untouched.
\<close>

theorem cluster_restore_waits_for_confirmation:
  assumes "csp_Confirmation spec \<noteq> crt_Namespace (csp_Target spec)" and "reconcile_cluster_restore e spec cr st = (ans, r, st')"
  shows "r_phase r = RestorePhaseAwaitingConfirmation \<and> r_Meta r = r_Meta cr \<and>
    xrs st' = (xrs st)\<lparr>rw := snd (xe_update_status e r (xw st))\<rparr>"
  using assms unfolding reconcile_cluster_restore_def cluster_awaitConfirmation_def Let_def
  by (auto split: prod.splits option.splits if_splits dest: xstatus_frame)

section \<open>Order of the two halves\<close>

lemma advanceClusterRestore_open:
  assumes "advanceClusterRestore e cr rc (Some plan) w = ((isDone, jobName, err), r, w')" and "rst_Resources (r_Status r) = None"
  shows "\<not> isDone \<and> jobName = [] \<and> r = cr"
  using assms unfolding advanceClusterRestore_def Let_def
  by (auto split: if_splits sum.splits prod.splits option.splits)

lemma holdForClusterResources_frame:
  assumes "holdForClusterResources e [] err cr st = (ans, r, st')"
  shows "r_phase r = RestorePhaseRunning \<and> rst_Resources (r_Status r) = rst_Resources (r_Status cr) \<and>
    xrs st' = (xrs st)\<lparr>rw := snd (xe_update_status e r (xw st))\<rparr>"
  using assms unfolding holdForClusterResources_def tear_cluster_def Let_def
  by (auto split: prod.splits option.splits dest: xstatus_frame)

lemma cluster_terminal_pass_frame:
  assumes "cluster_terminal_pass e spec rc plans d jobName cr st = (ans, r, st')"
  shows "r_phase r = terminal_phase d cr \<and> rst_Resources (r_Status r) = rst_Resources (r_Status cr)"
  using assms unfolding cluster_terminal_pass_def cluster_stamp_def Let_def by (auto split: prod.splits option.splits)

lemma cluster_running_pass_frame:
  assumes "cluster_running_pass e d jobName cr st = (ans, r, st')"
  shows "r_phase r = RestorePhaseRunning \<and> rst_Resources (r_Status r) = rst_Resources (r_Status cr)"
  using assms unfolding cluster_running_pass_def cluster_stamp_def Let_def by (auto split: prod.splits option.splits if_splits)

lemma cluster_restore_pass_step:
  assumes "cluster_prepare e spec cr st = (Inr (rc, plans, plan), r1, st1)"
    and "advanceClusterRestore e r1 rc plan (xw st1) = ((isDone, jobName, err), r2, w)"
    and "driveVolumes e rc plans ((xrs st1)\<lparr>rw := w\<rparr>) = (d, rc', rs)"
  shows "cluster_restore_pass e spec cr st =
    (if err \<noteq> None \<or> \<not> isDone then holdForClusterResources e jobName err r2 (xworld w st1)
     else if \<not> tallied d \<or> settled d < int (length plans) then cluster_running_pass e d jobName r2 (st1\<lparr>xrs := rs\<rparr>)
     else cluster_terminal_pass e spec rc' plans d jobName r2 (st1\<lparr>xrs := rs\<rparr>))"
  by (simp add: cluster_restore_pass_def assms Let_def)

text \<open>
  No volume moves before the cluster-scoped half has reported. While a ClusterRestore that
  has cluster-scoped resources to apply ends a pass without their report, that pass did nothing
  beyond advancing the cluster-scoped half and writing the status: the engine's memory of the
  volumes is unchanged and the cluster is as those two steps leave it.
\<close>

theorem volumes_wait_for_cluster_resources:
  assumes p: "cluster_prepare e spec cr st = (Inr (rc, plans, Some plan), r1, st1)"
    and s: "cluster_restore_pass e spec cr st = (ans, r, st')" and unreported: "rst_Resources (r_Status r) = None"
  shows "r_phase r = RestorePhaseRunning \<and> ren (xrs st') = ren (xrs st1) \<and>
    xw st' = snd (xe_update_status e r (snd (snd (advanceClusterRestore e r1 rc (Some plan) (xw st1)))))"
proof -
  obtain isDone jobName err r2 w where a: "advanceClusterRestore e r1 rc (Some plan) (xw st1) = ((isDone, jobName, err), r2, w)"
    by (metis prod_cases3)
  obtain d rc' rs where d: "driveVolumes e rc plans ((xrs st1)\<lparr>rw := w\<rparr>) = (d, rc', rs)" by (metis prod_cases3)
  let ?hold = "err \<noteq> None \<or> \<not> isDone"
  have step: "(if ?hold then holdForClusterResources e jobName err r2 (xworld w st1)
      else if \<not> tallied d \<or> settled d < int (length plans) then cluster_running_pass e d jobName r2 (st1\<lparr>xrs := rs\<rparr>)
      else cluster_terminal_pass e spec rc' plans d jobName r2 (st1\<lparr>xrs := rs\<rparr>)) = (ans, r, st')"
    using cluster_restore_pass_step [OF p a d] s by simp
  have keep: "rst_Resources (r_Status r) = rst_Resources (r_Status r2)" if "\<not> ?hold"
    using step that cluster_running_pass_frame [of e d jobName r2 _ ans r st']
      cluster_terminal_pass_frame [of e spec rc' plans d jobName r2 _ ans r st'] by (auto split: if_splits)
  have h: "?hold"
  proof (rule ccontr)
    assume n: "\<not> ?hold"
    then have "rst_Resources (r_Status r2) = None" using keep unreported by simp
    from advanceClusterRestore_open [OF a this] n show False by simp
  qed
  have r2: "rst_Resources (r_Status r2) = None"
    using step h unreported unfolding holdForClusterResources_def Let_def by (auto split: prod.splits option.splits)
  from advanceClusterRestore_open [OF a r2] have "jobName = []" by simp
  with step h have "holdForClusterResources e [] err r2 (xworld w st1) = (ans, r, st')" by simp
  from holdForClusterResources_frame [OF this] show ?thesis by (simp add: a)
qed

section \<open>The run\<close>

definition of_run :: "string \<Rightarrow> Snapshot \<Rightarrow> bool" where
  "of_run run s \<longleftrightarrow> TagValue (sn_Tags s) TagKeyRun = (run, True)"

abbreviation within :: "instant option \<Rightarrow> instant \<Rightarrow> bool" where
  "within cutoff t \<equiv> (case cutoff of None \<Rightarrow> True | Some c \<Rightarrow> t \<le> c)"

abbreviation indexed :: "Snapshot list \<Rightarrow> run_index" where
  "indexed snaps \<equiv> foldl index_snapshot \<lparr>ri_byRun = [], ri_newest = []\<rparr> snaps"

lemma index_snapshot_other:
  assumes "\<not> of_run run s"
  shows "map_of (ri_byRun (index_snapshot ix s)) run = map_of (ri_byRun ix) run"
    "map_of (ri_newest (index_snapshot ix s)) run = map_of (ri_newest ix) run"
  using assms by (auto simp: index_snapshot_def of_run_def Let_def update_conv' split: prod.splits)

lemma index_snapshot_same:
  assumes "of_run run s" "run \<noteq> []"
  shows "map_of (ri_byRun (index_snapshot ix s)) run = Some ((case map_of (ri_byRun ix) run of None \<Rightarrow> [] | Some ss \<Rightarrow> ss) @ [s])"
    "map_of (ri_newest (index_snapshot ix s)) run =
       (if sn_Time s > (case map_of (ri_newest ix) run of None \<Rightarrow> zero_time | Some t \<Rightarrow> t) then Some (sn_Time s) else map_of (ri_newest ix) run)"
  using assms by (auto simp: index_snapshot_def of_run_def Let_def update_conv')

lemma indexed_byRun:
  "run \<noteq> [] \<Longrightarrow> map_of (ri_byRun (indexed snaps)) run = (case filter (of_run run) snaps of [] \<Rightarrow> None | ss \<Rightarrow> Some ss)"
proof (induction snaps rule: rev_induct)
  case (snoc s snaps)
  then show ?case
    by (cases "of_run run s") (auto simp: index_snapshot_other index_snapshot_same split: list.splits)
qed simp

lemma index_snapshot_nameless:
  "map_of (ri_newest ix) [] = None \<Longrightarrow> map_of (ri_newest (index_snapshot ix s)) [] = None"
  by (auto simp: index_snapshot_def Let_def update_conv' split: prod.splits)

lemma indexed_nameless: "map_of (ri_newest (indexed snaps)) [] = None"
  by (induction snaps rule: rev_induct) (simp_all add: index_snapshot_nameless)

text \<open>What the index records of a run: its newest instant, when that is after Go's zero time.\<close>

definition newest_of :: "Snapshot list \<Rightarrow> string \<Rightarrow> instant option \<Rightarrow> bool" where
  "newest_of snaps run known \<longleftrightarrow>
     (\<forall>s \<in> set snaps. of_run run s \<longrightarrow> sn_Time s \<le> (case known of None \<Rightarrow> zero_time | Some t \<Rightarrow> t)) \<and>
     (\<forall>t. known = Some t \<longrightarrow> zero_time < t \<and> (\<exists>s \<in> set snaps. of_run run s \<and> sn_Time s = t))"

lemma indexed_newest: "run \<noteq> [] \<Longrightarrow> newest_of snaps run (map_of (ri_newest (indexed snaps)) run)"
proof (induction snaps rule: rev_induct)
  case (snoc s snaps)
  then have ih: "newest_of snaps run (map_of (ri_newest (indexed snaps)) run)" by simp
  show ?case
  proof (cases "of_run run s")
    case False
    then show ?thesis using ih by (simp add: index_snapshot_other newest_of_def)
  next
    case True
    then show ?thesis using ih snoc.prems
      by (auto simp: index_snapshot_same newest_of_def split: option.splits)
  qed
qed (simp add: newest_of_def)

definition best_run :: "(string \<rightharpoonup> instant) \<Rightarrow> instant option \<Rightarrow> string set \<Rightarrow> string \<Rightarrow> bool" where
  "best_run newest cutoff runs best \<longleftrightarrow>
     (best \<noteq> [] \<longrightarrow> (\<exists>t. newest best = Some t \<and> within cutoff t)) \<and>
     (\<forall>run \<in> runs. \<forall>t. newest run = Some t \<and> within cutoff t \<longrightarrow> best \<noteq> [] \<and> t \<le> the (newest best))"

lemma later_run_step:
  assumes "newest [] = None" "best_run newest cutoff runs best"
  shows "best_run newest cutoff (insert run runs) (later_run newest cutoff best run)"
proof (cases "newest run")
  case None
  then show ?thesis using assms by (auto simp: best_run_def later_run_def)
next
  case (Some t)
  then have "run \<noteq> []" using assms(1) by auto
  then show ?thesis using assms Some
    by (fastforce simp: best_run_def later_run_def split: option.splits)
qed

lemma best_run_foldl:
  assumes "newest [] = None"
  shows "best_run newest cutoff (set runs) (foldl (later_run newest cutoff) [] runs)"
proof (induction runs rule: rev_induct)
  case (snoc run runs)
  then show ?case using later_run_step [of newest, OF assms] by simp
qed (simp add: best_run_def)

text \<open>
  A ClusterRestore that names no run gets the latest one. Whatever order the map of runs is
  iterated in, the run chosen comes with exactly its own snapshots, the newest of them lies
  within the requested time, and no other run that lies within it as a whole has a later snapshot.
\<close>

theorem selected_run_is_latest:
  assumes ord: "\<And>ks. set (xe_order e ks) = set ks" and sel: "selectRun e snaps [] at = Some (run, rs)"
  defines "cutoff \<equiv> if at \<in> {[], sourceTimeLatest} then None else parseRestoreTime e at"
  shows "run \<noteq> [] \<and> rs = filter (of_run run) snaps \<and>
    (\<exists>newest \<in> set rs. within cutoff (sn_Time newest) \<and> (\<forall>s \<in> set rs. sn_Time s \<le> sn_Time newest) \<and>
      (\<forall>other. other \<noteq> [] \<and> (\<forall>s \<in> set snaps. of_run other s \<longrightarrow> within cutoff (sn_Time s)) \<longrightarrow>
         (\<forall>s \<in> set snaps. of_run other s \<longrightarrow> sn_Time s \<le> sn_Time newest)))"
proof -
  define newest where "newest = map_of (ri_newest (indexed snaps))"
  define runs where "runs = xe_order e (map fst (ri_newest (indexed snaps)))"
  have dom: "set runs = dom newest" unfolding runs_def newest_def ord by (simp add: dom_map_of_conv_image_fst)
  have none: "newest [] = None" unfolding newest_def by (rule indexed_nameless)
  have "(if foldl (later_run newest cutoff) [] runs = [] then None
      else Some (foldl (later_run newest cutoff) [] runs,
        case map_of (ri_byRun (indexed snaps)) (foldl (later_run newest cutoff) [] runs) of None \<Rightarrow> [] | Some rs \<Rightarrow> rs)) = Some (run, rs)"
    using sel unfolding selectRun_def Let_def newest_def runs_def cutoff_def by (auto split: if_splits)
  then have run: "run = foldl (later_run newest cutoff) [] runs" "run \<noteq> []"
    and byrun: "rs = (case map_of (ri_byRun (indexed snaps)) run of None \<Rightarrow> [] | Some rs \<Rightarrow> rs)" by (auto split: if_splits)
  have rs: "rs = filter (of_run run) snaps" unfolding byrun indexed_byRun [OF run(2)] by (auto split: list.splits)
  note best = best_run_foldl [of newest, OF none, of cutoff runs, folded run(1), unfolded best_run_def dom]
  from best run(2) obtain t where t: "newest run = Some t" "within cutoff t" by blast
  have top: "newest_of snaps q (newest q)" if "q \<noteq> []" for q unfolding newest_def by (rule indexed_newest [OF that])
  from top [OF run(2)] t(1) obtain s where s: "s \<in> set snaps" "of_run run s" "sn_Time s = t" "zero_time < t"
    by (auto simp: newest_of_def)
  have "sn_Time s' \<le> t" if other: "q \<noteq> []" "\<forall>s \<in> set snaps. of_run q s \<longrightarrow> within cutoff (sn_Time s)" and s': "s' \<in> set snaps" "of_run q s'" for q s'
  proof (cases "newest q")
    case None
    then show ?thesis using top [OF other(1)] s' s(4) by (fastforce simp: newest_of_def)
  next
    case (Some u)
    then have "within cutoff u" using top [OF other(1)] other(2) by (auto simp: newest_of_def)
    then have "u \<le> t" using best Some t(1) by auto
    then show ?thesis using top [OF other(1)] s' Some by (fastforce simp: newest_of_def)
  qed
  moreover have "\<forall>s' \<in> set rs. sn_Time s' \<le> t" using top [OF run(2)] t(1) by (auto simp: newest_of_def rs)
  ultimately show ?thesis using run(2) rs s t(2) by (intro conjI bexI [of _ s]) auto
qed

section \<open>A ClusterRestore that reads Completed\<close>

text \<open>Where the snapshots of a pass come from: the memory of an earlier pass, or one run of a listing.\<close>

definition coordinate_of :: "'expr ClusterRestoreSpec \<Rightarrow> string" where
  "coordinate_of spec = crs_Namespace (csp_Source spec) @ ''/'' @ crs_Backup (csp_Source spec) @ ''/'' @ crs_Time (csp_Source spec)"

definition listed_run ::
  "('w, 'expr, 'ex, 'identity, 'z) clusterrestore_env_scheme \<Rightarrow> 'expr ClusterRestoreSpec \<Rightarrow> (string \<rightharpoonup> Snapshot) \<Rightarrow> bool" where
  "listed_run e spec byPVC \<longleftrightarrow>
     (\<exists>repo job w snaps w' run rs. ve_ListFiltered e repo job [Tag TagKeyNamespace (crs_Namespace (csp_Source spec))] w = (Inr snaps, w') \<and>
        selectRun e snaps (crs_Backup (csp_Source spec)) (crs_Time (csp_Source spec)) = Some (run, rs) \<and> byPVC = dataSnapshotsByPVC rs)"

lemma resolve_run_ready:
  assumes "resolve_run e spec repo cr st = (Inr (byPVC, manifests), r, st')"
  shows "r = cr \<and> (cachedClusterResolution (r_uid cr) (coordinate_of spec) (ren (xrs st)) = Some (byPVC, manifests) \<or> listed_run e spec byPVC)"
proof (cases "cachedClusterResolution (r_uid cr) (coordinate_of spec) (ren (xrs st))")
  case (Some found)
  then show ?thesis using assms by (simp add: resolve_run_def coordinate_of_def Let_def)
next
  case None
  let ?job = "restoreResolveJobName (clusterRestoreOwnerID (r_name cr))"
  obtain snaps w run rs where l: "ve_ListFiltered e repo ?job [Tag TagKeyNamespace (crs_Namespace (csp_Source spec))] (xw st) = (Inr snaps, w)"
    "selectRun e snaps (crs_Backup (csp_Source spec)) (crs_Time (csp_Source spec)) = Some (run, rs)"
    "r = cr" "byPVC = dataSnapshotsByPVC rs"
    using assms None unfolding resolve_run_def coordinate_of_def Let_def
    by (auto split: sum.splits prod.splits option.splits if_splits)
  then show ?thesis unfolding listed_run_def by blast
qed

lemma resolve_run_gated: "resolve_run e spec repo cr st = (Inl ans, r, st') \<Longrightarrow> r_phase r = RestorePhasePending"
  unfolding resolve_run_def Let_def
  by (auto split: sum.splits prod.splits option.splits if_splits dest: cluster_gate_phase gateAt_phase)

lemma cluster_prepare_ready:
  assumes "cluster_prepare e spec cr st = (Inr (rc, plans, plan), r, st')"
  shows "r = cr \<and> rx_targetNamespace rc = crt_Namespace (csp_Target spec) \<and>
    (\<exists>byPVC manifests. plans = cluster_buildPlans e spec byPVC (xw st') \<and> plan = fst (resolveClusterRestorePlan spec manifests) \<and>
      (cachedClusterResolution (r_uid cr) (coordinate_of spec) (ren (xrs st)) = Some (byPVC, manifests) \<or> listed_run e spec byPVC))"
proof -
  obtain loc repo dek w byPVC manifests where rr: "resolve_run e spec repo cr (xworld w st) = (Inr (byPVC, manifests), r, st')"
    and rc: "rc = cluster_exec_context spec r (runOf e byPVC) loc repo dek" "plans = cluster_buildPlans e spec byPVC (xw st')"
      "plan = fst (resolveClusterRestorePlan spec manifests)"
    using assms unfolding cluster_prepare_def Let_def
    by (auto split: if_splits sum.splits prod.splits)
  from resolve_run_ready [OF rr] rc show ?thesis by (auto simp: cluster_exec_context_def)
qed

lemma cluster_prepare_gated:
  assumes "cluster_prepare e spec cr st = (Inl ans, r, st')"
  shows "r = cr \<or> r_phase r = RestorePhasePending"
  using assms unfolding cluster_prepare_def Let_def
  by (auto split: if_splits sum.splits prod.splits dest: cluster_gate_phase resolve_run_gated)

definition cluster_takes :: "'expr ClusterRestoreSpec \<Rightarrow> string \<Rightarrow> bool" where
  "cluster_takes spec pvc \<longleftrightarrow>
     (case csp_Volumes spec of None \<Rightarrow> True | Some items \<Rightarrow> \<exists>i \<in> set items. vsi_Names i = [] \<or> pvc \<in> set (vsi_Names i))"

lemma cluster_plan_steps:
  "foldl (cluster_plan_step e spec sel byPVC w) plans pvcs =
     plans @ map (\<lambda>pvc. cluster_sizePlan e (csp_Target spec) (the (byPVC pvc)) w
         (base_plan (crs_Namespace (csp_Source spec)) pvc (the (byPVC pvc)) (the (sel pvc))))
       (filter (\<lambda>pvc. sel pvc \<noteq> None \<and> byPVC pvc \<noteq> None) pvcs)"
  by (induction pvcs arbitrary: plans) (auto simp: cluster_plan_step_def split: option.splits)

lemma cluster_sizePlan_frame [simp]:
  "rp_pvc (cluster_sizePlan e t snap w p) = rp_pvc p" "rp_snapshotID (cluster_sizePlan e t snap w p) = rp_snapshotID p"
  "rp_snapshotPath (cluster_sizePlan e t snap w p) = rp_snapshotPath p"
  by (simp_all add: cluster_sizePlan_def Let_def split: sum.split)

lemma cluster_buildPlans_parts:
  fixes spec :: "'expr ClusterRestoreSpec"
  assumes "finite (dom byPVC)"
  shows "distinct (map rp_pvc (cluster_buildPlans e spec byPVC w))"
    "\<lbrakk>byPVC pvc = Some snap; cluster_takes spec pvc\<rbrakk> \<Longrightarrow>
       \<exists>plan \<in> set (cluster_buildPlans e spec byPVC w). rp_pvc plan = pvc \<and> rp_snapshotID plan = sn_ID snap \<and>
         rp_snapshotPath plan = ''/data/'' @ crs_Namespace (csp_Source spec) @ ''/'' @ pvc"
    "length (cluster_buildPlans e spec byPVC w) \<le> card (dom byPVC)"
proof -
  define sel where "sel = planVolumes (case csp_Volumes spec of None \<Rightarrow> [] | Some vs \<Rightarrow> vs) (sorted_keys byPVC) (csp_Volumes spec \<noteq> None)"
  let ?names = "filter (\<lambda>pvc. sel pvc \<noteq> None \<and> byPVC pvc \<noteq> None) (sorted_keys byPVC)"
  let ?plan = "\<lambda>pvc. cluster_sizePlan e (csp_Target spec) (the (byPVC pvc)) w
    (base_plan (crs_Namespace (csp_Source spec)) pvc (the (byPVC pvc)) (the (sel pvc)))"
  have keys: "set (sorted_keys byPVC) = dom byPVC" "distinct (sorted_keys byPVC)" "length (sorted_keys byPVC) = card (dom byPVC)"
    using assms by (simp_all add: sorted_keys_def)
  have plans: "cluster_buildPlans e spec byPVC w = map ?plan ?names"
    by (simp add: cluster_buildPlans_def cluster_plan_steps sel_def Let_def)
  have "map rp_pvc (map ?plan ?names) = ?names" by (simp add: base_plan_def comp_def)
  then show "distinct (map rp_pvc (cluster_buildPlans e spec byPVC w))" unfolding plans using keys(2) by simp
  show "length (cluster_buildPlans e spec byPVC w) \<le> card (dom byPVC)"
    unfolding plans length_map keys(3) [symmetric] by (rule length_filter_le)
  show "\<exists>plan \<in> set (cluster_buildPlans e spec byPVC w). rp_pvc plan = pvc \<and> rp_snapshotID plan = sn_ID snap \<and>
      rp_snapshotPath plan = ''/data/'' @ crs_Namespace (csp_Source spec) @ ''/'' @ pvc"
    if s: "byPVC pvc = Some snap" and t: "cluster_takes spec pvc"
  proof (rule bexI [of _ "?plan pvc"])
    have in_keys: "pvc \<in> set (sorted_keys byPVC)" using s keys(1) by auto
    have "sel pvc \<noteq> None"
      using planVolumes_takes [OF in_keys, of "(r :: 'expr RestoreSpec)\<lparr>rsp_Volumes := csp_Volumes spec\<rparr>"] t
      unfolding sel_def takes_def cluster_takes_def by simp
    with in_keys s have "pvc \<in> set ?names" by simp
    then show "?plan pvc \<in> set (cluster_buildPlans e spec byPVC w)" unfolding plans set_map by (rule imageI)
    show "rp_pvc (?plan pvc) = pvc \<and> rp_snapshotID (?plan pvc) = sn_ID snap \<and>
        rp_snapshotPath (?plan pvc) = ''/data/'' @ crs_Namespace (csp_Source spec) @ ''/'' @ pvc" by (simp add: base_plan_def s)
  qed
qed

lemma dataSnapshotsByPVC_finite: "finite (dom (dataSnapshotsByPVC snaps))" "card (dom (dataSnapshotsByPVC snaps)) \<le> length snaps"
proof -
  have "finite (dom (dataSnapshotsByPVC snaps)) \<and> card (dom (dataSnapshotsByPVC snaps)) \<le> length snaps"
  proof (induction snaps rule: rev_induct)
    case (snoc s snaps)
    then show ?case
      by (auto simp: dataSnapshotsByPVC_def card_insert_if Let_def split: option.splits prod.splits if_splits)
  qed (simp add: dataSnapshotsByPVC_def)
  then show "finite (dom (dataSnapshotsByPVC snaps))" "card (dom (dataSnapshotsByPVC snaps)) \<le> length snaps" by simp_all
qed

lemma selectRun_length:
  assumes "selectRun e snaps named at = Some (run, rs)"
  shows "length rs \<le> length snaps"
proof -
  have "rs = (case map_of (ri_byRun (indexed snaps)) run of None \<Rightarrow> [] | Some rs \<Rightarrow> rs)" "run \<noteq> []"
    using assms unfolding selectRun_def Let_def by (auto split: if_splits option.splits)
  then have "rs = filter (of_run run) snaps" by (auto simp: indexed_byRun split: list.splits)
  then show ?thesis by simp
qed

lemma listed_run_small:
  assumes "listed_run e spec byPVC"
    and few: "\<And>repo job tags w snaps w'. ve_ListFiltered e repo job tags w = (Inr snaps, w') \<Longrightarrow> length snaps < 2 ^ 31"
  shows "finite (dom byPVC) \<and> card (dom byPVC) < 2 ^ 31"
proof -
  from assms(1) obtain repo job w snaps w' run rs where
    l: "ve_ListFiltered e repo job [Tag TagKeyNamespace (crs_Namespace (csp_Source spec))] w = (Inr snaps, w')"
    and s: "selectRun e snaps (crs_Backup (csp_Source spec)) (crs_Time (csp_Source spec)) = Some (run, rs)"
    and b: "byPVC = dataSnapshotsByPVC rs" unfolding listed_run_def by blast
  have "card (dom byPVC) \<le> length snaps"
    unfolding b using dataSnapshotsByPVC_finite(2) selectRun_length [OF s] order_trans by blast
  then show ?thesis using few [OF l] dataSnapshotsByPVC_finite(1) [of rs] by (simp add: b)
qed

lemma cluster_restore_pass_completed:
  assumes s: "cluster_restore_pass e spec cr st = (ans, r, st')" and c: "r_phase r = RestorePhaseCompleted"
    and nt: "r_phase cr \<noteq> RestorePhaseCompleted"
  obtains rc plans plan st1 st2 d rc' rs r2 where "cluster_prepare e spec cr st = (Inr (rc, plans, plan), cr, st1)"
    "driveVolumes e rc plans st2 = (d, rc', rs)" "tallied d" "int (length plans) \<le> settled d"
    "terminal_phase d r2 = RestorePhaseCompleted" "rst_Resources (r_Status r) = rst_Resources (r_Status r2)"
    "plan \<noteq> None \<Longrightarrow> rst_Resources (r_Status r) \<noteq> None"
proof (cases "fst (cluster_prepare e spec cr st)")
  case (Inl a)
  then have "cluster_prepare e spec cr st = (Inl ans, r, st')"
    using s by (auto simp: cluster_restore_pass_def split: prod.splits sum.splits)
  from cluster_prepare_gated [OF this] c nt show ?thesis by auto
next
  case (Inr x)
  then obtain rc plans plan r1 st1 where p: "cluster_prepare e spec cr st = (Inr (rc, plans, plan), r1, st1)"
    by (metis prod_cases3 fst_conv)
  have r1: "r1 = cr" using cluster_prepare_ready [OF p] by simp
  obtain isDone jobName err r2 w where a: "advanceClusterRestore e cr rc plan (xw st1) = ((isDone, jobName, err), r2, w)"
    by (metis prod_cases3)
  obtain d rc' rs where d: "driveVolumes e rc plans ((xrs st1)\<lparr>rw := w\<rparr>) = (d, rc', rs)" by (metis prod_cases3)
  let ?hold = "err \<noteq> None \<or> \<not> isDone" and ?go = "\<not> tallied d \<or> settled d < int (length plans)"
  have step: "(if ?hold then holdForClusterResources e jobName err r2 (xworld w st1)
      else if ?go then cluster_running_pass e d jobName r2 (st1\<lparr>xrs := rs\<rparr>)
      else cluster_terminal_pass e spec rc' plans d jobName r2 (st1\<lparr>xrs := rs\<rparr>)) = (ans, r, st')"
    using cluster_restore_pass_step [OF p, unfolded r1, OF a d] s by simp
  have "\<not> ?hold"
    using step c by (auto simp: holdForClusterResources_def Let_def split: prod.splits option.splits if_splits)
  moreover have "\<not> ?go" using step c calculation cluster_running_pass_frame [of e d jobName r2 _ ans r st'] by (auto split: if_splits)
  ultimately have t: "cluster_terminal_pass e spec rc' plans d jobName r2 (st1\<lparr>xrs := rs\<rparr>) = (ans, r, st')" "isDone" and
    go: "tallied d" "int (length plans) \<le> settled d" using step by auto
  note fr = cluster_terminal_pass_frame [OF t(1)]
  show ?thesis
  proof (rule that [OF p [unfolded r1] d go])
    show "terminal_phase d r2 = RestorePhaseCompleted" "rst_Resources (r_Status r) = rst_Resources (r_Status r2)" using fr c by simp_all
    show "rst_Resources (r_Status r) \<noteq> None" if "plan \<noteq> None"
      using that fr advanceClusterRestore_open [of e cr rc _ "xw st1" isDone jobName err r2 w] a t(2) by auto
  qed
qed

text \<open>
  What the mover Job of a plan runs: a restore of the subtree of one claim out of one snapshot, into the path it is given.
\<close>

definition restores_from :: "restoreExecContext \<Rightarrow> restoreVolumePlan \<Rightarrow> string \<Rightarrow> string \<Rightarrow> string \<Rightarrow> bool" where
  "restores_from rc plan snapshotID ns pvc \<longleftrightarrow>
     (\<forall>jobName target ex. take 4 (jr_ResticArgs (restore_job rc plan jobName target ex)) =
        [''restore'', snapshotID @ '':/data/'' @ ns @ ''/'' @ pvc, ''--target'', target])"

lemma RestoreArgs_head:
  "take 4 (RestoreArgs snapshotID path target del incl excl) = [''restore'', snapshotID @ '':'' @ path, ''--target'', target]"
proof -
  have f: "foldl (\<lambda>args p. args @ [flag, p]) args ps = args @ concat (map (\<lambda>p. [flag, p]) ps)" for flag :: string and args ps
    by (induction ps arbitrary: args) auto
  show ?thesis by (simp add: RestoreArgs_def f Let_def)
qed


section \<open>Fields that are not read\<close>

text \<open>
  The list of manifests to restore, \<open>spec.resources\<close>, is declared on a ClusterRestore as on a
  Restore, but no pass of the controller depends on it; and the dry-run flag reaches only the
  cluster-scoped half, so that without one a dry run moves the volumes like any other restore.
\<close>

lemma resources_select:
  "csp_Source (spec\<lparr>csp_Resources := x\<rparr>) = csp_Source spec"
  "csp_Target (spec\<lparr>csp_Resources := x\<rparr>) = csp_Target spec"
  "csp_Mode (spec\<lparr>csp_Resources := x\<rparr>) = csp_Mode spec"
  "csp_Volumes (spec\<lparr>csp_Resources := x\<rparr>) = csp_Volumes spec"
  "csp_ClusterResources (spec\<lparr>csp_Resources := x\<rparr>) = csp_ClusterResources spec"
  "csp_Confirmation (spec\<lparr>csp_Resources := x\<rparr>) = csp_Confirmation spec"
  "csp_DryRun (spec\<lparr>csp_Resources := x\<rparr>) = csp_DryRun spec"
  by simp_all

lemma resources_unread:
  "cluster_awaitConfirmation e (spec\<lparr>csp_Resources := x\<rparr>) = cluster_awaitConfirmation e spec"
  "cluster_confirm e (spec\<lparr>csp_Resources := x\<rparr>) = cluster_confirm e spec"
  "ensureTargetNamespace e (spec\<lparr>csp_Resources := x\<rparr>) = ensureTargetNamespace e spec"
  "resolve_run e (spec\<lparr>csp_Resources := x\<rparr>) = resolve_run e spec"
  "cluster_buildPlans e (spec\<lparr>csp_Resources := x\<rparr>) = cluster_buildPlans e spec"
  "cluster_exec_context (spec\<lparr>csp_Resources := x\<rparr>) = cluster_exec_context spec"
  "cluster_terminal_pass e (spec\<lparr>csp_Resources := x\<rparr>) = cluster_terminal_pass e spec"
  "resolveClusterRestorePlan (spec\<lparr>csp_Resources := x\<rparr>) = resolveClusterRestorePlan spec"
  unfolding fun_eq_iff cluster_awaitConfirmation_def cluster_confirm_def ensureTargetNamespace_def resolve_run_def
      cluster_buildPlans_def cluster_plan_steps cluster_exec_context_def cluster_terminal_pass_def
    resolveClusterRestorePlan_def resources_select by simp_all

lemma manifest_selection_is_ignored:
  "reconcile_cluster_restore e (spec\<lparr>csp_Resources := x\<rparr>) cr st = reconcile_cluster_restore e spec cr st"
  unfolding reconcile_cluster_restore_def cluster_restore_pass_def cluster_prepare_def resources_unread resources_select ..

lemma dry_run_select:
  "csp_Source (spec\<lparr>csp_DryRun := b\<rparr>) = csp_Source spec"
  "csp_Target (spec\<lparr>csp_DryRun := b\<rparr>) = csp_Target spec"
  "csp_Mode (spec\<lparr>csp_DryRun := b\<rparr>) = csp_Mode spec"
  "csp_Resources (spec\<lparr>csp_DryRun := b\<rparr>) = csp_Resources spec"
  "csp_Volumes (spec\<lparr>csp_DryRun := b\<rparr>) = csp_Volumes spec"
  "csp_ClusterResources (spec\<lparr>csp_DryRun := b\<rparr>) = csp_ClusterResources spec"
  "csp_Confirmation (spec\<lparr>csp_DryRun := b\<rparr>) = csp_Confirmation spec"
  by simp_all

lemma dry_run_unread:
  "cluster_awaitConfirmation e (spec\<lparr>csp_DryRun := b\<rparr>) = cluster_awaitConfirmation e spec"
  "cluster_confirm e (spec\<lparr>csp_DryRun := b\<rparr>) = cluster_confirm e spec"
  "ensureTargetNamespace e (spec\<lparr>csp_DryRun := b\<rparr>) = ensureTargetNamespace e spec"
  "resolve_run e (spec\<lparr>csp_DryRun := b\<rparr>) = resolve_run e spec"
  "cluster_buildPlans e (spec\<lparr>csp_DryRun := b\<rparr>) = cluster_buildPlans e spec"
  "cluster_exec_context (spec\<lparr>csp_DryRun := b\<rparr>) = cluster_exec_context spec"
  "cluster_terminal_pass e (spec\<lparr>csp_DryRun := b\<rparr>) = cluster_terminal_pass e spec"
  unfolding fun_eq_iff cluster_awaitConfirmation_def cluster_confirm_def ensureTargetNamespace_def resolve_run_def
      cluster_buildPlans_def cluster_plan_steps cluster_exec_context_def cluster_terminal_pass_def
    dry_run_select by simp_all

lemma cluster_dry_run_moves_volumes:
  assumes "csp_ClusterResources spec = None"
  shows "reconcile_cluster_restore e (spec\<lparr>csp_DryRun := b\<rparr>) cr st = reconcile_cluster_restore e spec cr st"
proof -
  have plan: "resolveClusterRestorePlan (spec\<lparr>csp_DryRun := b\<rparr>) = resolveClusterRestorePlan spec"
    using assms by (simp add: resolveClusterRestorePlan_def fun_eq_iff)
  show ?thesis
    unfolding reconcile_cluster_restore_def cluster_restore_pass_def cluster_prepare_def dry_run_unread dry_run_select plan ..
qed

section \<open>A concrete ClusterRestore\<close>

definition demo_csnap :: "string \<Rightarrow> instant \<Rightarrow> Snapshot" where
  "demo_csnap run t = demo_snap\<lparr>sn_Time := t, sn_Tags := [Tag TagKeyKind KindData, Tag TagKeyPVC ''data'', Tag TagKeyRun run]\<rparr>"

definition demo_cluster :: "(nat, unit, unit, unit) clusterrestore_env" where
  "demo_cluster = restorectl_env.extend (demo_live\<lparr>ve_ListFiltered := \<lambda>_ _ tags w.
       (Inr (if Tag TagKeyKind KindClusterManifests \<in> set tags then [demo_snap\<lparr>sn_Tags := [Tag TagKeyKind KindClusterManifests]\<rparr>]
             else [demo_csnap ''mon'' 5, demo_csnap ''tue'' 9]), w)\<rparr>)
     (clusterrestore_env.fields (\<lambda>_ _. Inl NotFound) (\<lambda>_ w. (None, w)) (\<lambda>_ w. (None, w)) (\<lambda>_ _. None) (\<lambda>_ w. (None, w)) (\<lambda>_ w. (None, w))
       (\<lambda>_ w. (None, w)) (\<lambda>_ w. (None, w)) ''writer'' rev)"

lemmas demo_cluster_simps = demo_cluster_def restorectl_env.extend_def clusterrestore_env.fields_def demo_live_def demo_restorectl_simps

definition demo_cluster_spec :: "string \<Rightarrow> ClusterResourceRestoreSpec option \<Rightarrow> unit ClusterRestoreSpec" where
  "demo_cluster_spec confirmation res = \<lparr>csp_Source = \<lparr>crs_LocationRef = ''main'', crs_Namespace = ''shop'', crs_Backup = [], crs_Time = []\<rparr>,
     csp_Target = \<lparr>crt_Namespace = ''dr'', crt_CreateNamespace = False, crt_StorageClassMapping = Map.empty\<rparr>, csp_Mode = ''Overwrite'',
     csp_Resources = None, csp_Volumes = None, csp_ClusterResources = res, csp_Confirmation = confirmation, csp_DryRun = False\<rparr>"

abbreviation demo_xstate :: "nat xstate" where "demo_xstate \<equiv> \<lparr>xrs = demo_rstate, xev = []\<rparr>"

theorem cluster_restore_waits_for_confirmation_witness:
  "r_phase (fst (snd (reconcile_cluster_restore demo_cluster (demo_cluster_spec [] None) demo_restore demo_xstate))) =
     RestorePhaseAwaitingConfirmation"
proof -
  obtain ans r st' where s: "reconcile_cluster_restore demo_cluster (demo_cluster_spec [] None) demo_restore demo_xstate = (ans, r, st')"
    by (metis prod_cases3)
  have "csp_Confirmation (demo_cluster_spec [] None) \<noteq> crt_Namespace (csp_Target (demo_cluster_spec [] None))"
    by (simp add: demo_cluster_spec_def)
  from cluster_restore_waits_for_confirmation [OF this s] show ?thesis unfolding s by simp
qed

lemma demo_select: "selectRun demo_cluster [demo_csnap ''mon'' 5, demo_csnap ''tue'' 9] [] [] = Some (''tue'', [demo_csnap ''tue'' 9])"
  by (simp add: selectRun_def index_snapshot_def later_run_def demo_csnap_def demo_cluster_simps zero_time_def Tag_def Let_def)

theorem selected_run_is_latest_witness:
  "\<exists>newest \<in> set [demo_csnap ''tue'' 9]. \<forall>s \<in> set [demo_csnap ''mon'' 5, demo_csnap ''tue'' 9]. of_run ''mon'' s \<longrightarrow> sn_Time s \<le> sn_Time newest"
proof -
  have "set (xe_order demo_cluster ks) = set ks" for ks by (simp add: demo_cluster_simps)
  note sel = selected_run_is_latest [of demo_cluster, OF this demo_select]
  then obtain newest where "newest \<in> set [demo_csnap ''tue'' 9]" and
    n: "\<And>other s. \<lbrakk>other \<noteq> []; s \<in> set [demo_csnap ''mon'' 5, demo_csnap ''tue'' 9]; of_run other s\<rbrakk> \<Longrightarrow> sn_Time s \<le> sn_Time newest" by force
  then show ?thesis by (intro bexI [of _ newest] ballI impI n [of "''mon''"]) simp_all
qed

lemma demo_cluster_dek: "resolvePlatformDEKCommon demo_cluster demo_cbl w = (Inr ''x'', w)"
  by (simp add: resolvePlatformDEKCommon_def demo_cluster_simps demo_cbl_def GetValue_def NewAgeWrapper_def
      EnsureDEK_def unwrapDEK_def data_value_def TrimSpace_def Trim_def TrimLeft_def TrimRight_def ascii_space_def Let_def)

lemma demo_cluster_byPVC: "dataSnapshotsByPVC [demo_csnap ''tue'' 9] = [''data'' \<mapsto> demo_csnap ''tue'' 9]"
  by (simp add: dataSnapshotsByPVC_def demo_csnap_def Tag_def)

lemma demo_cluster_run:
  assumes "cachedClusterResolution (r_uid cr) (coordinate_of (demo_cluster_spec c res)) (ren (xrs st)) = None"
  shows "\<exists>st' manifests. resolve_run demo_cluster (demo_cluster_spec c res) repo cr st =
    (Inr ([''data'' \<mapsto> demo_csnap ''tue'' 9], manifests), cr, st') \<and>
    (res \<noteq> None \<longrightarrow> manifests = [demo_snap\<lparr>sn_Tags := [Tag TagKeyKind KindClusterManifests]\<rparr>])"
proof -
  have src: "csp_Source (demo_cluster_spec c q) = \<lparr>crs_LocationRef = ''main'', crs_Namespace = ''shop'', crs_Backup = [], crs_Time = []\<rparr>"
    "csp_ClusterResources (demo_cluster_spec c q) = q" for q by (simp_all add: demo_cluster_spec_def)
  have list: "ve_ListFiltered demo_cluster repo n [Tag TagKeyNamespace ''shop''] w = (Inr [demo_csnap ''mon'' 5, demo_csnap ''tue'' 9], w)"
    "ve_ListFiltered demo_cluster repo n [Tag TagKeyKind KindClusterManifests, t] w =
       (Inr [demo_snap\<lparr>sn_Tags := [Tag TagKeyKind KindClusterManifests]\<rparr>], w)" for n w t
    by (simp_all add: demo_cluster_simps Tag_def)
  have sel: "selectRun demo_cluster [demo_csnap ''mon'' 5, demo_csnap ''tue'' 9] [] [] = Some (''tue'', [demo_csnap ''tue'' 9])"
    by (rule demo_select)
  show ?thesis using assms
    by (cases res) (simp_all add: resolve_run_def coordinate_of_def src list sel demo_cluster_byPVC Let_def)
qed

lemma demo_cluster_prepare:
  assumes "cachedClusterResolution (r_uid cr) (coordinate_of (demo_cluster_spec c res)) (ren (xrs st)) = None"
  shows "\<exists>rc plan clusterPlan st'. cluster_prepare demo_cluster (demo_cluster_spec c res) cr st = (Inr (rc, [plan], clusterPlan), cr, st') \<and>
    (clusterPlan = None \<longleftrightarrow> res = None)"
proof -
  have loc: "crs_LocationRef (csp_Source (demo_cluster_spec c res)) = ''main''"
    "ce_get_cluster_location demo_cluster n w = Inr demo_cbl" "ce_get_repository demo_cluster n w = Inr demo_repo"
    "xe_ClusterManifestWriterClusterRole demo_cluster = ''writer''" "rep_Initialized demo_repo" for n w
    by (simp_all add: demo_cluster_spec_def demo_cluster_simps demo_repo_def)
  define st1 where "st1 = xworld (xw st) st"
  have st1: "cachedClusterResolution (r_uid cr) (coordinate_of (demo_cluster_spec c res)) (ren (xrs st1)) = None" using assms by (simp add: st1_def)
  obtain st' manifests where rr: "resolve_run demo_cluster (demo_cluster_spec c res) demo_repo cr st1 =
      (Inr ([''data'' \<mapsto> demo_csnap ''tue'' 9], manifests), cr, st')"
    and m: "res \<noteq> None \<longrightarrow> manifests = [demo_snap\<lparr>sn_Tags := [Tag TagKeyKind KindClusterManifests]\<rparr>]" using demo_cluster_run [OF st1] by blast
  have cp: "fst (resolveClusterRestorePlan (demo_cluster_spec c res) manifests) = None \<longleftrightarrow> res = None"
    using m by (cases res) (auto simp: resolveClusterRestorePlan_def demo_cluster_spec_def clusterManifestsRestoreSnapshot_def Tag_def)
  obtain plan where bp: "cluster_buildPlans demo_cluster (demo_cluster_spec c res) [''data'' \<mapsto> demo_csnap ''tue'' 9] (xw st') = [plan]"
    by (simp add: cluster_buildPlans_def sorted_keys_def cluster_plan_step_def planVolumes_def demo_cluster_spec_def)
  show ?thesis unfolding cluster_prepare_def Let_def
    using rr bp cp by (simp add: loc demo_cluster_dek st1_def)
qed

theorem volumes_wait_for_cluster_resources_witness:
  "r_phase (fst (snd (cluster_restore_pass demo_cluster (demo_cluster_spec ''dr'' (Some \<lparr>crr_Include = [], crr_Exclude = []\<rparr>)) demo_restore demo_xstate))) =
     RestorePhaseRunning"
proof -
  let ?spec = "demo_cluster_spec ''dr'' (Some \<lparr>crr_Include = [], crr_Exclude = []\<rparr>)"
  have "cachedClusterResolution (r_uid demo_restore) (coordinate_of ?spec) (ren (xrs demo_xstate)) = None"
    by (simp add: cachedClusterResolution_def newRestoreEngine_def)
  from demo_cluster_prepare [OF this] obtain rc vol plan st1 where
    p: "cluster_prepare demo_cluster ?spec demo_restore demo_xstate = (Inr (rc, [vol], Some plan), demo_restore, st1)" by auto
  obtain ans r st' where s: "cluster_restore_pass demo_cluster ?spec demo_restore demo_xstate = (ans, r, st')" by (metis prod_cases3)
  have get: "be_get_job demo_cluster w n j = Inl NotFound" for w n j by (simp add: demo_cluster_simps)
  obtain err w where start: "startClusterRestoreJob demo_cluster rc plan (clusterRestoreJobName (rx_ownerID rc)) (xw st1) = (err, w)" by (metis surj_pair)
  have a: "advanceClusterRestore demo_cluster demo_restore rc (Some plan) (xw st1) = ((False, [], err), demo_restore, w)"
    by (simp add: advanceClusterRestore_def get start) (simp add: demo_restore_def)
  obtain d rc' rs where d: "driveVolumes demo_cluster rc [vol] ((xrs st1)\<lparr>rw := w\<rparr>) = (d, rc', rs)" by (metis prod_cases3)
  have "rst_Resources (r_Status r) = None"
    using holdForClusterResources_frame [of demo_cluster err demo_restore "xworld w st1" ans r st'] s
    unfolding cluster_restore_pass_step [OF p a d] by (simp add: demo_restore_def)
  from volumes_wait_for_cluster_resources [OF p s this] show ?thesis unfolding s by simp
qed

lemma demo_cluster_advise: "adviseVolume demo_cluster rc plan st = (Inr (open_outcome\<lparr>vo_settled := True\<rparr>), rc, st)"
  by (simp add: adviseVolume_def demo_cluster_simps demo_restore_job_def resolveMoverOutcome_def map_get_def deleteJobPods_def
      exposure_kind_def jobConditionTrue_def Job.defs zero_result_def open_outcome_def restoreMoverBackoffLimit_def word_sless_alt Let_def)

lemma demo_cluster_drive:
  "\<exists>d rc' rs. driveVolumes demo_cluster rc [plan] st = (d, rc', rs) \<and> tallied d \<and> settled d = 1 \<and> failedCount d = 0"
proof -
  have "ownerRunningMovers demo_cluster rc (rw st) = Inr 0"
    by (simp add: ownerRunningMovers_def demo_cluster_simps RunningMoverJobs_def)
  then show ?thesis
    by (simp add: driveVolumes_def drive_one_def demo_cluster_advise classifyVolumeOutcome_def open_outcome_def zero_drive_def tallied_def
        settled_def failedCount_def tally_simps outcome_count_def RestoreTally_Settled_def Let_def)
qed

lemma demo_cluster_pass:
  "\<exists>ans r st'. reconcile_cluster_restore demo_cluster (demo_cluster_spec ''dr'' None) demo_restore demo_xstate = (ans, r, st') \<and>
     r_phase r = RestorePhaseCompleted \<and> rst_Resources (r_Status r) = None"
proof -
  let ?spec = "demo_cluster_spec ''dr'' None"
  obtain r0 st0 where cf: "cluster_confirm demo_cluster ?spec demo_restore demo_xstate = (r0, st0)" by (metis surj_pair)
  note fr = cluster_confirm_frame [OF cf]
  have ns: "ensureTargetNamespace demo_cluster ?spec r0 st0 = (None, r0, st0)" by (simp add: ensureTargetNamespace_def demo_cluster_simps Let_def)
  have "cachedClusterResolution (r_uid r0) (coordinate_of ?spec) (ren (xrs st0)) = None"
    using fr by (simp add: cachedClusterResolution_def newRestoreEngine_def)
  from demo_cluster_prepare [OF this] obtain rc vol st1 where
    p: "cluster_prepare demo_cluster ?spec r0 st0 = (Inr (rc, [vol], None), r0, st1)" by auto
  have a: "advanceClusterRestore demo_cluster r0 rc None (xw st1) = ((True, [], None), r0, xw st1)" by (simp add: advanceClusterRestore_def)
  obtain d rc' rs where d: "driveVolumes demo_cluster rc [vol] ((xrs st1)\<lparr>rw := xw st1\<rparr>) = (d, rc', rs)" "tallied d" "settled d = 1" "failedCount d = 0"
    using demo_cluster_drive by blast
  have res: "rst_Resources (r_Status r0) = None" using fr by (simp add: demo_restore_def)
  obtain ans r st' where t: "cluster_terminal_pass demo_cluster ?spec rc' [vol] d [] r0 (st1\<lparr>xrs := rs\<rparr>) = (ans, r, st')" by (metis prod_cases3)
  have "reconcile_cluster_restore demo_cluster ?spec demo_restore demo_xstate = cluster_restore_pass demo_cluster ?spec r0 st0"
  proof -
    have "csp_Confirmation ?spec = crt_Namespace (csp_Target ?spec)" "crs_Time (csp_Source ?spec) = []" by (simp_all add: demo_cluster_spec_def)
    then show ?thesis unfolding reconcile_cluster_restore_def Let_def by (simp add: cf ns)
  qed
  then have "reconcile_cluster_restore demo_cluster ?spec demo_restore demo_xstate = (ans, r, st')"
    using cluster_restore_pass_step [OF p a d(1)] d t by simp
  moreover have "terminal_phase d r0 = RestorePhaseCompleted" by (simp add: terminal_phase_def res d RollUpRestoreOutcomes_def)
  ultimately show ?thesis using cluster_terminal_pass_frame [OF t] res by simp
qed


end
