(* ===== verification/Reaper.thy ===== *)
theory Reaper
  imports Restore_Controller
begin

text \<open>
  The orphan reaper (\<^verbatim>\<open>internal/controller/reaper.go\<close>, with \<^verbatim>\<open>internal/exposer/reap.go\<close> and the policy
  patch of \<^verbatim>\<open>internal/exposer/cleanup.go\<close>): the periodic sweep over what an interrupted backup or restore
  left behind. The API server is an argument: its lists take the selectors the code sends, its reads and
  writes are functions of the world. What the reaper logs is a list of reports, with the published gauge
  beside it; \<open>time.Now\<close> is read from the world.
\<close>

section \<open>Objects\<close>

abbreviation kindJob :: string where "kindJob \<equiv> ''Job''"
abbreviation kindPVC :: string where "kindPVC \<equiv> ''PersistentVolumeClaim''"
abbreviation kindSecret :: string where "kindSecret \<equiv> ''Secret''"
abbreviation kindPV :: string where "kindPV \<equiv> ''PersistentVolume''"
abbreviation kindVolumeSnapshot :: string where "kindVolumeSnapshot \<equiv> ''VolumeSnapshot''"
abbreviation kindVolumeSnapshotContent :: string where "kindVolumeSnapshotContent \<equiv> ''VolumeSnapshotContent''"
abbreviation kindRoleBinding :: string where "kindRoleBinding \<equiv> ''RoleBinding''"
abbreviation kindClusterRoleBinding :: string where "kindClusterRoleBinding \<equiv> ''ClusterRoleBinding''"

abbreviation Domain :: string where "Domain \<equiv> ''crystalbackup.io''"
abbreviation LabelPVRole :: string where "LabelPVRole \<equiv> ''crystalbackup.io/pv-role''"
abbreviation PVRoleTwin :: string where "PVRoleTwin \<equiv> ''twin''"
abbreviation PVRoleTransplant :: string where "PVRoleTransplant \<equiv> ''transplant''"
abbreviation PersistentVolumeReclaimDelete :: string where "PersistentVolumeReclaimDelete \<equiv> ''Delete''"
abbreviation deletionPolicyDelete :: string where "deletionPolicyDelete \<equiv> ''Delete''"

definition defaultReaperInterval :: duration where "defaultReaperInterval = minutes 10"
definition defaultReaperMinAge :: duration where "defaultReaperMinAge = minutes 30"
definition manifestBindingMinAge :: duration where "manifestBindingMinAge = minutes 2"

record PersistentVolume =
  pv_Meta :: ObjectMeta
  pv_ClaimRef :: "(string \<times> string) option"
  pv_ReclaimPolicy :: string
  pv_StorageClassName :: string

text \<open>
  An unstructured VolumeSnapshotContent: what \<open>NestedString\<close> answers for the fields the code reads
  (an error for a field of another type, none for an absent one) and what \<open>SetNestedField\<close> answers.
  The handle of a pre-provisioned content is in its specification, that of a dynamic one in its status;
  the reference back to a snapshot is an apiVersion, a kind, a name and a namespace.
\<close>

record VolumeSnapshotContent =
  vsc_Meta :: ObjectMeta
  vsc_snapshotHandle :: "go_error + string option"
  vsc_deletionPolicy :: "go_error + string option"
  vsc_SetError :: "go_error option"
  vsc_driver :: "go_error + string option"
  vsc_statusHandle :: "go_error + string option"
  vsc_VolumeSnapshotRef :: "(string \<times> string \<times> string \<times> string) option"

datatype selector = MatchingLabels "(string \<times> string) list" | HasLabels "string list"

datatype reapOutcome = reapConfirmedGone | reapStuck | reapRequested

datatype reap_report =
    OrphanCheckFailed string string string go_error
  | PrepareFailed string string string go_error
  | DeleteFailed string string string api_error
  | Reaped string string string
  | Stuck string string string "string list" bool
  | StuckEvent string string string "string list"
  | Unconfirmed string string string "api_error option"
  | ListFailed string api_error
  | NoJobLabel string string string
  | JobCheckFailed string string string api_error
  | HandoverTailFailed string api_error
  | HandoverFinished string
  | ReclaimPatchFailed string api_error
  | TransplantReclaimed string
  | SweepFailed api_error

type_synonym reapTally = "string \<rightharpoonup> int"

record 'w reaper_state =
  pw :: 'w
  ptally :: "reapTally option"
  preports :: "reap_report list"
  pgauge :: "string \<rightharpoonup> int"

record 'w reaper_env =
  pe_OperatorNamespace :: string
  pe_MinAge :: duration
  pe_Recorder :: bool
  pe_now :: "'w \<Rightarrow> instant"
  pe_list :: "string \<Rightarrow> string option \<Rightarrow> selector list \<Rightarrow> 'w \<Rightarrow> api_error + ObjectMeta list"
  pe_list_pvs :: "selector list \<Rightarrow> 'w \<Rightarrow> api_error + PersistentVolume list"
  pe_list_contents :: "selector list \<Rightarrow> 'w \<Rightarrow> api_error + VolumeSnapshotContent list"
  pe_list_backups :: "string \<Rightarrow> 'w \<Rightarrow> api_error + Backup list"
  pe_get :: "string \<Rightarrow> string \<Rightarrow> string \<Rightarrow> 'w \<Rightarrow> api_error + ObjectMeta"
  pe_APIReader :: "(string \<Rightarrow> string \<Rightarrow> string \<Rightarrow> 'w \<Rightarrow> api_error + ObjectMeta) option"
  pe_get_backup :: "string \<Rightarrow> string \<Rightarrow> 'w \<Rightarrow> api_error + Backup"
  pe_get_restore :: "string \<Rightarrow> string \<Rightarrow> 'w \<Rightarrow> api_error + Restore"
  pe_get_cluster_restore :: "string \<Rightarrow> 'w \<Rightarrow> api_error + Restore"
  pe_get_job :: "string \<Rightarrow> string \<Rightarrow> 'w \<Rightarrow> api_error + Job"
  pe_get_volume_name :: "string \<Rightarrow> string \<Rightarrow> 'w \<Rightarrow> api_error + string"
  pe_get_class_policy :: "string \<Rightarrow> 'w \<Rightarrow> api_error + string option"
  pe_delete :: "string \<Rightarrow> string \<Rightarrow> string \<Rightarrow> bool \<Rightarrow> 'w \<Rightarrow> api_error option \<times> 'w"
  pe_patch_pv :: "PersistentVolume \<Rightarrow> 'w \<Rightarrow> api_error option \<times> 'w"
  pe_patch_content :: "VolumeSnapshotContent \<Rightarrow> 'w \<Rightarrow> (api_error + VolumeSnapshotContent) \<times> 'w"
  pe_IsNoMatchError :: "api_error \<Rightarrow> bool"

abbreviation report :: "reap_report \<Rightarrow> 'w reaper_state \<Rightarrow> 'w reaper_state" where
  "report r st \<equiv> st\<lparr>preports := preports st @ [r]\<rparr>"

text \<open>The API error at the bottom of a chain of wrapped errors, as \<open>errors.As\<close> finds it.\<close>

fun api_cause :: "go_error \<Rightarrow> api_error option" and first_cause :: "go_error list \<Rightarrow> api_error option" where
  "api_cause (APIError e) = Some e"
| "api_cause (ErrorNew msg) = None"
| "api_cause (Wrap msg cause) = api_cause cause"
| "api_cause (JoinErrors es) = first_cause es"
| "first_cause [] = None"
| "first_cause (err # es) = (case api_cause err of None \<Rightarrow> first_cause es | Some e \<Rightarrow> Some e)"

definition absentOK :: "('w, 'z) reaper_env_scheme \<Rightarrow> api_error \<Rightarrow> bool" where
  "absentOK e err \<longleftrightarrow> err = NotFound \<or> pe_IsNoMatchError e err"

section \<open>The tally\<close>

definition newReapTally :: "reapTally option" where "newReapTally = Some Map.empty"

definition markStuck :: "string \<Rightarrow> reapTally option \<Rightarrow> reapTally option" where
  "markStuck kind t =
     (case t of None \<Rightarrow> None
      | Some stuck \<Rightarrow> Some (stuck(kind \<mapsto> (case stuck kind of None \<Rightarrow> 0 | Some n \<Rightarrow> n) + 1)))"

definition orphanReapStuckKinds :: "string list" where
  "orphanReapStuckKinds = [kindClusterRoleBinding, kindJob, kindPV, kindPVC, kindRoleBinding, kindSecret, kindVolumeSnapshot,
     kindVolumeSnapshot @ ''Content'']"

definition SetOrphanReapStuck :: "reapTally \<Rightarrow> (string \<rightharpoonup> int) \<Rightarrow> (string \<rightharpoonup> int)" where
  "SetOrphanReapStuck stuck gauge =
     (\<lambda>kind. if kind \<in> set orphanReapStuckKinds then Some (case stuck kind of None \<Rightarrow> 0 | Some n \<Rightarrow> n)
             else case stuck kind of None \<Rightarrow> gauge kind | Some n \<Rightarrow> Some n)"

definition publish :: "reapTally option \<Rightarrow> (string \<rightharpoonup> int) \<Rightarrow> (string \<rightharpoonup> int)" where
  "publish t gauge = (case t of None \<Rightarrow> gauge | Some stuck \<Rightarrow> SetOrphanReapStuck stuck gauge)"

section \<open>One reap\<close>

definition confirmReap :: "('w, 'z) reaper_env_scheme \<Rightarrow> string \<Rightarrow> ObjectMeta \<Rightarrow> 'w \<Rightarrow> reapOutcome \<times> string list \<times> api_error option" where
  "confirmReap e kind obj w =
     (let reader = (case pe_APIReader e of None \<Rightarrow> pe_get e | Some r \<Rightarrow> r)
      in case reader kind (m_Namespace obj) (m_Name obj) w of
           Inl err \<Rightarrow> if absentOK e err then (reapConfirmedGone, [], None) else (reapRequested, [], Some err)
         | Inr probe \<Rightarrow>
             if m_UID obj \<noteq> [] \<and> m_UID probe \<noteq> [] \<and> m_UID probe \<noteq> m_UID obj then (reapConfirmedGone, [], None)
             else if m_DeletionTimestamp probe \<noteq> None then (reapStuck, m_Finalizers probe, None)
             else (reapRequested, [], None))"

definition report_outcome ::
  "('w, 'z) reaper_env_scheme \<Rightarrow> string \<Rightarrow> ObjectMeta \<Rightarrow> bool \<Rightarrow> 'w reaper_state \<Rightarrow> 'w reaper_state" where
  "report_outcome e kind obj alreadyPending st =
     (case confirmReap e kind obj (pw st) of
        (reapConfirmedGone, _, _) \<Rightarrow> report (Reaped kind (m_Namespace obj) (m_Name obj)) st
      | (reapStuck, finalizers, _) \<Rightarrow>
          let st = report (Stuck kind (m_Namespace obj) (m_Name obj) finalizers alreadyPending) (st\<lparr>ptally := markStuck kind (ptally st)\<rparr>)
          in if pe_Recorder e then report (StuckEvent kind (m_Namespace obj) (m_Name obj) finalizers) st else st
      | (reapRequested, _, confirmErr) \<Rightarrow> report (Unconfirmed kind (m_Namespace obj) (m_Name obj) confirmErr) st)"

text \<open>
  The preparation answers with an error or none and with the object as the server then returned it, because a patch
  overwrites the object it was given; \<open>del\<close> is the delete request for that object.
\<close>

definition delete_and_report ::
  "('w, 'z) reaper_env_scheme \<Rightarrow> string \<Rightarrow> ObjectMeta \<Rightarrow> (ObjectMeta \<Rightarrow> 'w \<Rightarrow> api_error option \<times> 'w) \<Rightarrow> 'w reaper_state \<Rightarrow> 'w reaper_state" where
  "delete_and_report e kind obj del st =
     (if m_DeletionTimestamp obj \<noteq> None then report_outcome e kind obj True st
      else
        (case del obj (pw st) of
           (res, w) \<Rightarrow>
             (case res of
                Some err \<Rightarrow>
                  if absentOK e err then report_outcome e kind obj False (st\<lparr>pw := w\<rparr>)
                  else report (DeleteFailed kind (m_Namespace obj) (m_Name obj) err) (st\<lparr>pw := w\<rparr>)
              | None \<Rightarrow> report_outcome e kind obj False (st\<lparr>pw := w\<rparr>))))"

definition reapAndReport ::
  "('w, 'z) reaper_env_scheme \<Rightarrow> string \<Rightarrow> ObjectMeta \<Rightarrow> ('w \<Rightarrow> (go_error option \<times> ObjectMeta) \<times> 'w) option
   \<Rightarrow> (ObjectMeta \<Rightarrow> 'w \<Rightarrow> api_error option \<times> 'w) \<Rightarrow> 'w reaper_state \<Rightarrow> 'w reaper_state" where
  "reapAndReport e kind obj prep del st =
     (case (case prep of None \<Rightarrow> ((None, obj), pw st) | Some f \<Rightarrow> f (pw st)) of
        ((perr, obj), w) \<Rightarrow>
          let st = st\<lparr>pw := w\<rparr>; tolerated = (\<lambda>err. case api_cause err of None \<Rightarrow> False | Some a \<Rightarrow> absentOK e a)
          in case perr of
               None \<Rightarrow> delete_and_report e kind obj del st
             | Some err \<Rightarrow>
                 if tolerated err then delete_and_report e kind obj del st
                 else report (PrepareFailed kind (m_Namespace obj) (m_Name obj) err) st)"

section \<open>The verdict\<close>

definition volumePhaseTerminal :: "string \<Rightarrow> bool" where
  "volumePhaseTerminal phase \<longleftrightarrow> phase = VolumePhaseCompleted \<or> phase = VolumePhaseSkipped \<or> phase = VolumePhaseFailed"

definition restoreOrphaned :: "('w, 'z) reaper_env_scheme \<Rightarrow> string \<Rightarrow> string \<Rightarrow> 'w \<Rightarrow> go_error + bool" where
  "restoreOrphaned e namespace name w =
     (if namespace = [] then Inr False
      else
        (case pe_get_restore e namespace name w of
           Inl err \<Rightarrow> if err = NotFound then Inr True else Inl (APIError err)
         | Inr restore \<Rightarrow>
             if m_DeletionTimestamp (r_Meta restore) \<noteq> None then Inr False else Inr (IsTerminalRestorePhase (r_phase restore))))"

definition clusterRestoreOrphaned :: "('w, 'z) reaper_env_scheme \<Rightarrow> string \<Rightarrow> 'w \<Rightarrow> go_error + bool" where
  "clusterRestoreOrphaned e name w =
     (case pe_get_cluster_restore e name w of
        Inl err \<Rightarrow> if err = NotFound then Inr True else Inl (APIError err)
      | Inr cr \<Rightarrow> if m_DeletionTimestamp (r_Meta cr) \<noteq> None then Inr False else Inr (IsTerminalRestorePhase (r_phase cr)))"

definition backupMayStillNeedExposure :: "Backup \<Rightarrow> string \<Rightarrow> bool" where
  "backupMayStillNeedExposure b pvc =
     (case List.find (\<lambda>v. Pvc v = pvc) (bs_Volumes (b_Status b)) of
        Some v \<Rightarrow> \<not> volumePhaseTerminal (Phase v) \<or> m_DeletionTimestamp (b_Meta b) \<noteq> None
      | None \<Rightarrow> \<not> isTerminalBackupPhase (bs_Phase (b_Status b)))"

definition unattributedExposureOrphaned :: "('w, 'z) reaper_env_scheme \<Rightarrow> string \<Rightarrow> string \<Rightarrow> 'w \<Rightarrow> go_error + bool" where
  "unattributedExposureOrphaned e ns pvc w =
     (if pvc = [] then Inr False
      else
        (case pe_list_backups e ns w of
           Inl err \<Rightarrow> Inl (Wrap (''list Backups in '' @ ns @ '' to resolve an unattributed exposure object'') (APIError err))
         | Inr backups \<Rightarrow> Inr (\<not> list_ex (\<lambda>b. backupMayStillNeedExposure b pvc) backups)))"

definition created_after :: "ObjectMeta \<Rightarrow> instant \<Rightarrow> bool" where
  "created_after obj cutoff \<longleftrightarrow> (case m_CreationTimestamp obj of None \<Rightarrow> - seconds 62135596800 | Some t \<Rightarrow> t) > cutoff"

definition orphaned :: "('w, 'z) reaper_env_scheme \<Rightarrow> ObjectMeta \<Rightarrow> instant \<Rightarrow> 'w \<Rightarrow> go_error + bool" where
  "orphaned e obj cutoff w =
     (let labels = m_Labels obj; pvc = map_get labels LabelPVC; ns = map_get labels LabelNamespace
      in if pvc = [] then Inr False
         else if created_after obj cutoff then Inr False
         else if map_get labels LabelRestore \<noteq> [] then restoreOrphaned e ns (map_get labels LabelRestore) w
         else if map_get labels LabelClusterRestore \<noteq> [] then clusterRestoreOrphaned e (map_get labels LabelClusterRestore) w
         else if ns = [] then Inr False
         else
           let name = ownerBackupNameFromLabels labels
           in if name = [] then unattributedExposureOrphaned e ns pvc w
              else
                (case pe_get_backup e ns name w of
                   Inl err \<Rightarrow> if err = NotFound then Inr True else Inl (APIError err)
                 | Inr backup \<Rightarrow>
                     if m_DeletionTimestamp (b_Meta backup) \<noteq> None then Inr False
                     else
                       (case List.find (\<lambda>v. Pvc v = pvc) (bs_Volumes (b_Status backup)) of
                          Some v \<Rightarrow> Inr (volumePhaseTerminal (Phase v))
                        | None \<Rightarrow> Inr True)))"

text \<open>An object that cannot be judged is reported and left; one that is not orphaned is left.\<close>

definition if_orphaned ::
  "('w, 'z) reaper_env_scheme \<Rightarrow> string \<Rightarrow> ObjectMeta \<Rightarrow> instant \<Rightarrow> ('w reaper_state \<Rightarrow> 'w reaper_state) \<Rightarrow> 'w reaper_state \<Rightarrow> 'w reaper_state" where
  "if_orphaned e kind obj cutoff reap st =
     (case orphaned e obj cutoff (pw st) of
        Inl err \<Rightarrow> report (OrphanCheckFailed kind (m_Namespace obj) (m_Name obj) err) st
      | Inr False \<Rightarrow> st
      | Inr True \<Rightarrow> reap st)"

section \<open>The sub-sweeps\<close>

abbreviation delete_object :: "('w, 'z) reaper_env_scheme \<Rightarrow> string \<Rightarrow> bool \<Rightarrow> ObjectMeta \<Rightarrow> 'w \<Rightarrow> api_error option \<times> 'w" where
  "delete_object e kind background \<equiv> (\<lambda>obj. pe_delete e kind (m_Namespace obj) (m_Name obj) background)"

definition reap_native :: "('w, 'z) reaper_env_scheme \<Rightarrow> instant \<Rightarrow> string \<Rightarrow> 'w reaper_state \<Rightarrow> ObjectMeta \<Rightarrow> 'w reaper_state" where
  "reap_native e cutoff kind st obj =
     if_orphaned e kind obj cutoff (reapAndReport e kind obj None (delete_object e kind True)) st"

definition IsPreProvisionedContent :: "VolumeSnapshotContent \<Rightarrow> bool" where
  "IsPreProvisionedContent vsc \<longleftrightarrow> (case vsc_snapshotHandle vsc of Inr (Some h) \<Rightarrow> h \<noteq> [] | _ \<Rightarrow> False)"

definition setOriginVSCToDelete ::
  "('w, 'z) reaper_env_scheme \<Rightarrow> VolumeSnapshotContent \<Rightarrow> 'w \<Rightarrow> (go_error option \<times> VolumeSnapshotContent) \<times> 'w" where
  "setOriginVSCToDelete e vsc w =
     (let name = m_Name (vsc_Meta vsc)
      in case vsc_deletionPolicy vsc of
           Inl err \<Rightarrow> ((Some (Wrap (''read origin VolumeSnapshotContent '' @ name @ '' spec.deletionPolicy'') err), vsc), w)
         | Inr dp \<Rightarrow>
             if dp = Some deletionPolicyDelete then ((None, vsc), w)
             else
               (case vsc_SetError vsc of
                  Some err \<Rightarrow> ((Some (Wrap (''set origin VolumeSnapshotContent '' @ name @ '' spec.deletionPolicy=Delete'') err), vsc), w)
                | None \<Rightarrow>
                    (case pe_patch_content e (vsc\<lparr>vsc_deletionPolicy := Inr (Some deletionPolicyDelete)\<rparr>) w of
                       (Inl err, w) \<Rightarrow>
                         ((Some (Wrap (''restore origin VolumeSnapshotContent '' @ name @ '' deletionPolicy to Delete'') (APIError err)),
                           vsc\<lparr>vsc_deletionPolicy := Inr (Some deletionPolicyDelete)\<rparr>), w)
                     | (Inr fresh, w) \<Rightarrow> ((None, fresh), w))))"

definition PrepareOrphanVolumeSnapshotContentForReclaim ::
  "('w, 'z) reaper_env_scheme \<Rightarrow> VolumeSnapshotContent \<Rightarrow> 'w \<Rightarrow> (go_error option \<times> VolumeSnapshotContent) \<times> 'w" where
  "PrepareOrphanVolumeSnapshotContentForReclaim e vsc w =
     (if IsPreProvisionedContent vsc then ((None, vsc), w) else setOriginVSCToDelete e vsc w)"

definition prepare_content :: "('w, 'z) reaper_env_scheme \<Rightarrow> VolumeSnapshotContent \<Rightarrow> 'w \<Rightarrow> (go_error option \<times> ObjectMeta) \<times> 'w" where
  "prepare_content e vsc w =
     (case PrepareOrphanVolumeSnapshotContentForReclaim e vsc w of ((err, fresh), w) \<Rightarrow> ((err, vsc_Meta fresh), w))"

definition reap_content :: "('w, 'z) reaper_env_scheme \<Rightarrow> instant \<Rightarrow> 'w reaper_state \<Rightarrow> VolumeSnapshotContent \<Rightarrow> 'w reaper_state" where
  "reap_content e cutoff st vsc =
     if_orphaned e kindVolumeSnapshotContent (vsc_Meta vsc) cutoff
       (reapAndReport e kindVolumeSnapshotContent (vsc_Meta vsc) (Some (prepare_content e vsc)) (delete_object e kindVolumeSnapshotContent False)) st"

definition reap_snapshot :: "('w, 'z) reaper_env_scheme \<Rightarrow> instant \<Rightarrow> 'w reaper_state \<Rightarrow> ObjectMeta \<Rightarrow> 'w reaper_state" where
  "reap_snapshot e cutoff st obj =
     if_orphaned e kindVolumeSnapshot obj cutoff
       (reapAndReport e kindVolumeSnapshot obj None (delete_object e kindVolumeSnapshot False)) st"

abbreviation managed :: selector where "managed \<equiv> MatchingLabels [(LabelManagedBy, ManagedByValue)]"
abbreviation has_pvc :: selector where "has_pvc \<equiv> HasLabels [LabelPVC]"

definition reapSnapshotObjects :: "('w, 'z) reaper_env_scheme \<Rightarrow> instant \<Rightarrow> 'w reaper_state \<Rightarrow> 'w reaper_state" where
  "reapSnapshotObjects e cutoff st =
     (let failed = (\<lambda>kind err. if pe_IsNoMatchError e err then st else report (ListFailed kind err) st)
      in case pe_list_contents e [managed, has_pvc] (pw st) of
           Inl err \<Rightarrow> failed kindVolumeSnapshotContent err
         | Inr vscs \<Rightarrow>
             (case pe_list e kindVolumeSnapshot None [managed, has_pvc] (pw st) of
                Inl err \<Rightarrow> failed kindVolumeSnapshot err
              | Inr vss \<Rightarrow>
                  let st = foldl (reap_content e cutoff) st (filter IsPreProvisionedContent vscs);
                      st = foldl (reap_snapshot e cutoff) st vss
                  in foldl (reap_content e cutoff) st (filter (\<lambda>vsc. \<not> IsPreProvisionedContent vsc) vscs)))"

text \<open>The two binding sweeps differ in the kind they list and delete.\<close>

definition reap_binding :: "('w, 'z) reaper_env_scheme \<Rightarrow> string \<Rightarrow> instant \<Rightarrow> 'w reaper_state \<Rightarrow> ObjectMeta \<Rightarrow> 'w reaper_state" where
  "reap_binding e kind cutoff st rb =
     (let jobName = map_get (m_Labels rb) LabelMoverJob; reap = reapAndReport e kind rb None (delete_object e kind False)
      in if created_after rb cutoff then st
         else if jobName = [] then report (NoJobLabel kind (m_Namespace rb) (m_Name rb)) st
         else
           (case pe_get_job e (pe_OperatorNamespace e) jobName (pw st) of
              Inl err \<Rightarrow> if err = NotFound then reap st else report (JobCheckFailed kind (m_Namespace rb) (m_Name rb) err) st
            | Inr job \<Rightarrow> if j_Succeeded job = 0 \<and> j_Failed job = 0 then st else reap st))"

definition reap_bindings :: "('w, 'z) reaper_env_scheme \<Rightarrow> string \<Rightarrow> 'w reaper_state \<Rightarrow> 'w reaper_state" where
  "reap_bindings e kind st =
     (case pe_list e kind None [MatchingLabels [(LabelManagedBy, ManagedByValue), (LabelMoverRole, MoverRoleManifest),
             (LabelOperatorNS, pe_OperatorNamespace e)]] (pw st) of
        Inl err \<Rightarrow> report (ListFailed kind err) st
      | Inr bindings \<Rightarrow> foldl (reap_binding e kind (pe_now e (pw st) - manifestBindingMinAge)) st bindings)"

definition reapManifestBindings :: "('w, 'z) reaper_env_scheme \<Rightarrow> 'w reaper_state \<Rightarrow> 'w reaper_state" where
  "reapManifestBindings e st = reap_bindings e kindRoleBinding st"

definition reapClusterManifestBindings :: "('w, 'z) reaper_env_scheme \<Rightarrow> 'w reaper_state \<Rightarrow> 'w reaper_state" where
  "reapClusterManifestBindings e st = reap_bindings e kindClusterRoleBinding st"

definition classReclaimPolicy :: "('w, 'z) reaper_env_scheme \<Rightarrow> string \<Rightarrow> 'w \<Rightarrow> string" where
  "classReclaimPolicy e scName w =
     (if scName = [] then PersistentVolumeReclaimDelete
      else (case pe_get_class_policy e scName w of Inr (Some policy) \<Rightarrow> policy | _ \<Rightarrow> PersistentVolumeReclaimDelete))"

definition delivered :: "('w, 'z) reaper_env_scheme \<Rightarrow> PersistentVolume \<Rightarrow> 'w \<Rightarrow> bool" where
  "delivered e pv w \<longleftrightarrow>
     (case pv_ClaimRef pv of
        None \<Rightarrow> False
      | Some (ns, name) \<Rightarrow> ns \<noteq> pe_OperatorNamespace e \<and> pe_get_volume_name e ns name w = Inr (m_Name (pv_Meta pv)))"

definition strip_domain :: "string_map \<Rightarrow> string_map" where
  "strip_domain labels = (\<lambda>k. if HasPrefix k (Domain @ ''/'') then None else labels k)"

definition handed_over :: "('w, 'z) reaper_env_scheme \<Rightarrow> PersistentVolume \<Rightarrow> 'w \<Rightarrow> PersistentVolume" where
  "handed_over e pv w =
     pv\<lparr>pv_ReclaimPolicy := classReclaimPolicy e (pv_StorageClassName pv) w,
        pv_Meta := (pv_Meta pv)\<lparr>m_Labels := strip_domain (m_Labels (pv_Meta pv))\<rparr>\<rparr>"

definition reap_transplant :: "('w, 'z) reaper_env_scheme \<Rightarrow> PersistentVolume \<Rightarrow> 'w reaper_state \<Rightarrow> 'w reaper_state" where
  "reap_transplant e pv st =
     (let name = m_Name (pv_Meta pv)
      in if delivered e pv (pw st) then
           (case pe_patch_pv e (handed_over e pv (pw st)) (pw st) of
              (Some err, w) \<Rightarrow> report (HandoverTailFailed name err) (st\<lparr>pw := w\<rparr>)
            | (None, w) \<Rightarrow> report (HandoverFinished name) (st\<lparr>pw := w\<rparr>))
         else if pv_ReclaimPolicy pv = PersistentVolumeReclaimDelete then st
         else
           (case pe_patch_pv e (pv\<lparr>pv_ReclaimPolicy := PersistentVolumeReclaimDelete\<rparr>) (pw st) of
              (Some err, w) \<Rightarrow> report (ReclaimPatchFailed name err) (st\<lparr>pw := w\<rparr>)
            | (None, w) \<Rightarrow> report (TransplantReclaimed name) (st\<lparr>pw := w\<rparr>)))"

definition reapRestorePV :: "('w, 'z) reaper_env_scheme \<Rightarrow> instant \<Rightarrow> 'w reaper_state \<Rightarrow> PersistentVolume \<Rightarrow> 'w reaper_state" where
  "reapRestorePV e cutoff st pv =
     if_orphaned e kindPV (pv_Meta pv) cutoff
       (\<lambda>st. let role = map_get (m_Labels (pv_Meta pv)) LabelPVRole
             in if role = PVRoleTwin then reapAndReport e kindPV (pv_Meta pv) None (delete_object e kindPV False) st
                else if role = PVRoleTransplant then reap_transplant e pv st
                else st) st"

section \<open>The sweep\<close>

definition sweepOnce :: "('w, 'z) reaper_env_scheme \<Rightarrow> 'w reaper_state \<Rightarrow> api_error option \<times> 'w reaper_state" where
  "sweepOnce e st =
     (let st = st\<lparr>ptally := newReapTally\<rparr>; cutoff = pe_now e (pw st) - pe_MinAge e;
          native = (\<lambda>kind. pe_list e kind (Some (pe_OperatorNamespace e)) [managed, has_pvc] (pw st))
      in case native kindJob of
           Inl err \<Rightarrow> (Some err, st)
         | Inr jobs \<Rightarrow>
             (case native kindPVC of
                Inl err \<Rightarrow> (Some err, st)
              | Inr pvcs \<Rightarrow>
                  (case native kindSecret of
                     Inl err \<Rightarrow> (Some err, st)
                   | Inr secrets \<Rightarrow>
                       (case pe_list_pvs e [HasLabels [LabelPVRole]] (pw st) of
                          Inl err \<Rightarrow> (Some err, st)
                        | Inr pvs \<Rightarrow>
                            let st = foldl (reap_native e cutoff kindJob) st jobs;
                                st = foldl (reap_native e cutoff kindPVC) st pvcs;
                                st = foldl (reap_native e cutoff kindSecret) st secrets;
                                st = foldl (reapRestorePV e cutoff) st pvs;
                                st = reapSnapshotObjects e cutoff st;
                                st = reapManifestBindings e st;
                                st = reapClusterManifestBindings e st
                            in (None, st\<lparr>pgauge := publish (ptally st) (pgauge st)\<rparr>)))))"

text \<open>The defaults of \<open>Start\<close>, and the sweeps of so many ticks: a failed one is reported and the loop goes on.\<close>

definition reaper_defaults :: "('w, 'z) reaper_env_scheme \<Rightarrow> ('w, 'z) reaper_env_scheme" where
  "reaper_defaults e = (if pe_MinAge e \<le> 0 then e\<lparr>pe_MinAge := defaultReaperMinAge\<rparr> else e)"

fun sweeps :: "('w, 'z) reaper_env_scheme \<Rightarrow> nat \<Rightarrow> 'w reaper_state \<Rightarrow> 'w reaper_state" where
  "sweeps e 0 st = st"
| "sweeps e (Suc ticks) st =
     (case sweepOnce e st of
        (None, st) \<Rightarrow> sweeps e ticks st
      | (Some err, st) \<Rightarrow> sweeps e ticks (report (SweepFailed err) st))"

definition Start :: "('w, 'z) reaper_env_scheme \<Rightarrow> nat \<Rightarrow> 'w reaper_state \<Rightarrow> 'w reaper_state" where
  "Start e ticks st = sweeps (reaper_defaults e) ticks st"

end
