(* ===== verification/Target_Exposer.thy ===== *)
theory Target_Exposer
  imports Reaper
begin

text \<open>
  The exposure of restore targets (\<^verbatim>\<open>internal/rexposer\<close>): how the claim a restore writes into becomes mountable
  by a mover in the operator's namespace. A bound target is aliased by a twin volume; any other is restored
  into a staging claim whose volume is afterwards handed over. The API server is an argument; a patch of a
  volume answers with the object as the server then returned it, which the code goes on with. The volume
  source and the node affinity are opaque, the code only copies them.
\<close>

section \<open>Volumes and claims\<close>

abbreviation ClaimBound :: string where "ClaimBound \<equiv> ''Bound''"
abbreviation VolumeBound :: string where "VolumeBound \<equiv> ''Bound''"
abbreviation PersistentVolumeBlock :: string where "PersistentVolumeBlock \<equiv> ''Block''"
abbreviation ReadWriteOnce :: string where "ReadWriteOnce \<equiv> ''ReadWriteOnce''"
abbreviation PersistentVolumeReclaimRetain :: string where "PersistentVolumeReclaimRetain \<equiv> ''Retain''"
abbreviation NodeReady :: string where "NodeReady \<equiv> ''Ready''"
abbreviation AnnotationExposureNode :: string where "AnnotationExposureNode \<equiv> ''crystalbackup.io/exposure-node''"
abbreviation AnnotationRestoredFrom :: string where "AnnotationRestoredFrom \<equiv> ''crystalbackup.io/restored-from''"

record ('src, 'aff) Volume = PersistentVolume +
  pv_Source :: 'src
  pv_Capacity :: int
  pv_AccessModes :: "string list"
  pv_MountOptions :: "string list"
  pv_VolumeMode :: "string option"
  pv_NodeAffinity :: 'aff
  pv_Phase :: string

record Claim =
  cl_Meta :: ObjectMeta
  cl_AccessModes :: "string list"
  cl_Request :: int
  cl_StorageClassName :: "string option"
  cl_VolumeName :: string
  cl_VolumeMode :: "string option"
  cl_Phase :: string

record VolumeAttachment =
  va_PersistentVolumeName :: "string option"
  va_NodeName :: string
  va_Attached :: bool

record ('w, 'src, 'aff) target_env =
  ge_OperatorNamespace :: string
  ge_get_claim :: "string \<Rightarrow> string \<Rightarrow> 'w \<Rightarrow> api_error + Claim"
  ge_get_pv :: "string \<Rightarrow> 'w \<Rightarrow> api_error + ('src, 'aff) Volume"
  ge_get_class_policy :: "string \<Rightarrow> 'w \<Rightarrow> api_error + string option"
  ge_get_node :: "string \<Rightarrow> 'w \<Rightarrow> api_error + (string \<times> string) list"
  ge_list_pvs :: "string_map \<Rightarrow> 'w \<Rightarrow> api_error + ('src, 'aff) Volume list"
  ge_list_attachments :: "'w \<Rightarrow> api_error + VolumeAttachment list"
  ge_create_claim :: "Claim \<Rightarrow> 'w \<Rightarrow> api_error option \<times> 'w"
  ge_create_pv :: "('src, 'aff) Volume \<Rightarrow> 'w \<Rightarrow> api_error option \<times> 'w"
  ge_patch_claim :: "Claim \<Rightarrow> 'w \<Rightarrow> api_error option \<times> 'w"
  ge_patch_pv :: "('src, 'aff) Volume \<Rightarrow> 'w \<Rightarrow> (api_error + ('src, 'aff) Volume) \<times> 'w"
  ge_delete_claim :: "string \<Rightarrow> string \<Rightarrow> 'w \<Rightarrow> api_error option \<times> 'w"
  ge_delete_pv :: "string \<Rightarrow> 'w \<Rightarrow> api_error option \<times> 'w"
  ge_Quote :: "string \<Rightarrow> string"

text \<open>The metadata of an object the code builds: only the fields set are present.\<close>

definition new_meta :: "string \<Rightarrow> string \<Rightarrow> string_map \<Rightarrow> string_map \<Rightarrow> ObjectMeta" where
  "new_meta ns name labels annotations =
     \<lparr>m_Namespace = ns, m_Name = name, m_UID = [], m_Generation = 0, m_CreationTimestamp = None, m_DeletionTimestamp = None,
      m_Finalizers = [], m_Annotations = annotations, m_Labels = labels\<rparr>"

section \<open>Exposing\<close>

definition exposure :: "('w, 'src, 'aff, 'z) target_env_scheme \<Rightarrow> string \<Rightarrow> TargetRequest \<Rightarrow> string \<Rightarrow> string \<Rightarrow> TargetExposure" where
  "exposure e kind req twinPV node =
     \<lparr>te_Kind = kind, te_TargetNamespace = tr_TargetNamespace req, te_TargetPVCName = tr_PVCName req,
      te_OperatorNamespace = ge_OperatorNamespace e, te_StagingPVCName = StagingPVCName (tr_NamePrefix req), te_TwinPVName = twinPV,
      te_NodeName = node, te_Labels = tr_Labels req, te_RestoredFromRun = tr_RestoredFromRun req\<rparr>"

definition staging_claim :: "('w, 'src, 'aff, 'z) target_env_scheme \<Rightarrow> TargetRequest \<Rightarrow> Claim" where
  "staging_claim e req =
     \<lparr>cl_Meta = new_meta (ge_OperatorNamespace e) (StagingPVCName (tr_NamePrefix req)) (tr_Labels req) Map.empty,
      cl_AccessModes = (if tr_AccessModes req = [] then [ReadWriteOnce] else tr_AccessModes req), cl_Request = tr_Capacity req,
      cl_StorageClassName = (if tr_StorageClass req \<noteq> [] then Some (tr_StorageClass req) else None),
      cl_VolumeName = [], cl_VolumeMode = None, cl_Phase = []\<rparr>"

definition claim_error :: "string \<Rightarrow> string \<Rightarrow> string \<Rightarrow> api_error \<Rightarrow> go_error" where
  "claim_error what ns name err = Wrap (what @ '' '' @ ns @ ''/'' @ name) (APIError err)"

definition create_staging ::
  "('w, 'src, 'aff, 'z) target_env_scheme \<Rightarrow> Claim \<Rightarrow> TargetExposure \<Rightarrow> 'w \<Rightarrow> (target_error + TargetExposure) \<times> 'w" where
  "create_staging e staging ex w =
     (case ge_create_claim e staging w of
        (res, w) \<Rightarrow>
          if res \<noteq> None \<and> res \<noteq> Some AlreadyExists
          then (Inl (TargetFault (claim_error ''create staging PVC'' (ge_OperatorNamespace e) (m_Name (cl_Meta staging)) (the res))), w)
          else (Inr ex, w))"

definition exposeTransplant ::
  "('w, 'src, 'aff, 'z) target_env_scheme \<Rightarrow> TargetRequest \<Rightarrow> 'w \<Rightarrow> (target_error + TargetExposure) \<times> 'w" where
  "exposeTransplant e req w = create_staging e (staging_claim e req) (exposure e KindTransplant req [] []) w"

fun node_ready :: "(string \<times> string) list \<Rightarrow> bool" where
  "node_ready [] = True"
| "node_ready ((t, status) # cs) = (if t = NodeReady then status = ConditionTrue else node_ready cs)"

definition attachedNode :: "('w, 'src, 'aff, 'z) target_env_scheme \<Rightarrow> string \<Rightarrow> 'w \<Rightarrow> go_error + string" where
  "attachedNode e pvName w =
     (case ge_list_attachments e w of
        Inl err \<Rightarrow> Inl (Wrap (''list VolumeAttachments for PV '' @ pvName) (APIError err))
      | Inr vas \<Rightarrow>
          (case remdups (map va_NodeName (filter (\<lambda>va. va_PersistentVolumeName va = Some pvName \<and> va_Attached va) vas)) of
             [name] \<Rightarrow>
               (case ge_get_node e name w of
                  Inl err \<Rightarrow>
                    if err = NotFound then Inr []
                    else Inl (Wrap (''get attached node '' @ name @ '' for PV '' @ pvName) (APIError err))
                | Inr conditions \<Rightarrow> Inr (if node_ready conditions then name else []))
           | _ \<Rightarrow> Inr []))"

definition twin_volume :: "('w, 'src, 'aff, 'z) target_env_scheme \<Rightarrow> TargetRequest \<Rightarrow> ('src, 'aff) Volume \<Rightarrow> ('src, 'aff) Volume" where
  "twin_volume e req boundPV =
     \<lparr>pv_Meta = new_meta [] (TwinPVName (tr_NamePrefix req)) ((tr_Labels req)(LabelPVRole \<mapsto> PVRoleTwin)) Map.empty,
      pv_ClaimRef = Some (ge_OperatorNamespace e, StagingPVCName (tr_NamePrefix req)),
      pv_ReclaimPolicy = PersistentVolumeReclaimRetain, pv_StorageClassName = pv_StorageClassName boundPV,
      pv_Source = pv_Source boundPV, pv_Capacity = pv_Capacity boundPV, pv_AccessModes = pv_AccessModes boundPV,
      pv_MountOptions = pv_MountOptions boundPV, pv_VolumeMode = pv_VolumeMode boundPV, pv_NodeAffinity = pv_NodeAffinity boundPV,
      pv_Phase = []\<rparr>"

definition twin_staging_claim ::
  "('w, 'src, 'aff, 'z) target_env_scheme \<Rightarrow> TargetRequest \<Rightarrow> ('src, 'aff) Volume \<Rightarrow> string \<Rightarrow> Claim" where
  "twin_staging_claim e req boundPV node =
     \<lparr>cl_Meta = new_meta (ge_OperatorNamespace e) (StagingPVCName (tr_NamePrefix req)) (tr_Labels req)
        (if node \<noteq> [] then [AnnotationExposureNode \<mapsto> node] else Map.empty),
      cl_AccessModes = pv_AccessModes boundPV, cl_Request = pv_Capacity boundPV,
      cl_StorageClassName = Some (pv_StorageClassName boundPV), cl_VolumeName = TwinPVName (tr_NamePrefix req),
      cl_VolumeMode = None, cl_Phase = []\<rparr>"

definition exposeTwin ::
  "('w, 'src, 'aff, 'z) target_env_scheme \<Rightarrow> TargetRequest \<Rightarrow> Claim \<Rightarrow> 'w \<Rightarrow> (target_error + TargetExposure) \<times> 'w" where
  "exposeTwin e req target w =
     (let twinName = TwinPVName (tr_NamePrefix req)
      in case ge_get_pv e (cl_VolumeName target) w of
           Inl err \<Rightarrow>
             (Inl (TargetFault (Wrap (''get bound PV '' @ cl_VolumeName target @ '' of target PVC '' @ m_Namespace (cl_Meta target) @ ''/'' @
                m_Name (cl_Meta target)) (APIError err))), w)
         | Inr boundPV \<Rightarrow>
             if pv_VolumeMode boundPV = Some PersistentVolumeBlock then (Inl ErrBlockUnsupported, w)
             else
               (case ge_create_pv e (twin_volume e req boundPV) w of
                  (res, w) \<Rightarrow>
                    if res \<noteq> None \<and> res \<noteq> Some AlreadyExists
                    then (Inl (TargetFault (Wrap (''create twin PV '' @ twinName) (APIError (the res)))), w)
                    else
                      (case attachedNode e (m_Name (pv_Meta boundPV)) w of
                         Inl err \<Rightarrow> (Inl (TargetFault err), w)
                       | Inr node \<Rightarrow>
                           create_staging e (twin_staging_claim e req boundPV node) (exposure e KindTwin req twinName node) w)))"

definition Expose ::
  "('w, 'src, 'aff, 'z) target_env_scheme \<Rightarrow> TargetRequest \<Rightarrow> 'w \<Rightarrow> (target_error + TargetExposure) \<times> 'w" where
  "Expose e req w =
     (let stagingName = StagingPVCName (tr_NamePrefix req); twinName = TwinPVName (tr_NamePrefix req)
      in case ge_get_claim e (ge_OperatorNamespace e) stagingName w of
           Inr staging \<Rightarrow>
             if cl_VolumeName staging = twinName
             then (Inr (exposure e KindTwin req twinName (map_get (m_Annotations (cl_Meta staging)) AnnotationExposureNode)), w)
             else (Inr (exposure e KindTransplant req [] []), w)
         | Inl err \<Rightarrow>
             if err \<noteq> NotFound then (Inl (TargetFault (claim_error ''get staging PVC'' (ge_OperatorNamespace e) stagingName err)), w)
             else
               (case ge_get_claim e (tr_TargetNamespace req) (tr_PVCName req) w of
                  Inl err \<Rightarrow>
                    if err = NotFound then exposeTransplant e req w
                    else (Inl (TargetFault (claim_error ''get restore target PVC'' (tr_TargetNamespace req) (tr_PVCName req) err)), w)
                | Inr target \<Rightarrow>
                    if cl_VolumeMode target = Some PersistentVolumeBlock then (Inl ErrBlockUnsupported, w)
                    else if cl_Phase target \<noteq> ClaimBound \<or> cl_VolumeName target = [] then exposeTransplant e req w
                    else exposeTwin e req target w))"

definition Ready :: "('w, 'src, 'aff, 'z) target_env_scheme \<Rightarrow> TargetExposure \<Rightarrow> 'w \<Rightarrow> go_error + bool" where
  "Ready e ex w =
     (case ge_get_claim e (te_OperatorNamespace ex) (te_StagingPVCName ex) w of
        Inl err \<Rightarrow> if err = NotFound then Inr False else Inl (APIError err)
      | Inr staging \<Rightarrow> Inr (if te_Kind ex = KindTwin then cl_Phase staging = ClaimBound else True))"

section \<open>Handing over\<close>

text \<open>A step of the handover: an error, or whether it is complete.\<close>

definition transplant_labels :: "TargetExposure \<Rightarrow> string_map" where
  "transplant_labels ex = (te_Labels ex)(LabelPVRole \<mapsto> PVRoleTransplant)"

definition marked :: "TargetExposure \<Rightarrow> ('src, 'aff) Volume \<Rightarrow> ('src, 'aff) Volume" where
  "marked ex pv =
     pv\<lparr>pv_Meta := (pv_Meta pv)\<lparr>m_Labels := m_Labels (pv_Meta pv) ++ transplant_labels ex\<rparr>, pv_ReclaimPolicy := PersistentVolumeReclaimRetain\<rparr>"

definition delete_claim :: "('w, 'src, 'aff, 'z) target_env_scheme \<Rightarrow> string \<Rightarrow> string \<Rightarrow> 'w \<Rightarrow> go_error option \<times> 'w" where
  "delete_claim e ns name w =
     (case ge_delete_claim e ns name w of
        (res, w) \<Rightarrow> (if res \<noteq> None \<and> res \<noteq> Some NotFound then Some (claim_error ''delete staging PVC'' ns name (the res)) else None, w))"

definition retainAndReleaseStaging ::
  "('w, 'src, 'aff, 'z) target_env_scheme \<Rightarrow> TargetExposure \<Rightarrow> Claim \<Rightarrow> 'w \<Rightarrow> go_error option \<times> 'w" where
  "retainAndReleaseStaging e ex staging w =
     (let delete = delete_claim e (m_Namespace (cl_Meta staging)) (m_Name (cl_Meta staging))
      in if cl_VolumeName staging = [] then (None, w)
         else
           (case ge_get_pv e (cl_VolumeName staging) w of
              Inl err \<Rightarrow> (Some (Wrap (''get transplant PV '' @ cl_VolumeName staging) (APIError err)), w)
            | Inr pv \<Rightarrow>
                if map_get (m_Labels (pv_Meta pv)) LabelPVRole \<noteq> PVRoleTransplant \<or> pv_ReclaimPolicy pv \<noteq> PersistentVolumeReclaimRetain then
                  (case ge_patch_pv e (marked ex pv) w of
                     (Inl err, w) \<Rightarrow> (Some (Wrap (''label+retain transplant PV '' @ m_Name (pv_Meta pv)) (APIError err)), w)
                   | (Inr _, w) \<Rightarrow> delete w)
                else delete w))"

definition findTransplantPV ::
  "('w, 'src, 'aff, 'z) target_env_scheme \<Rightarrow> TargetExposure \<Rightarrow> 'w \<Rightarrow> go_error + ('src, 'aff) Volume option" where
  "findTransplantPV e ex w =
     (case ge_list_pvs e (transplant_labels ex) w of
        Inl err \<Rightarrow> Inl (claim_error ''list transplant PVs for'' (te_TargetNamespace ex) (te_TargetPVCName ex) err)
      | Inr [] \<Rightarrow> Inr None
      | Inr (pv # _) \<Rightarrow> Inr (Some pv))"

definition storageClassReclaimPolicy :: "('w, 'src, 'aff, 'z) target_env_scheme \<Rightarrow> string \<Rightarrow> 'w \<Rightarrow> string" where
  "storageClassReclaimPolicy e scName w =
     (if scName = [] then PersistentVolumeReclaimDelete
      else (case ge_get_class_policy e scName w of Inr (Some policy) \<Rightarrow> policy | _ \<Rightarrow> PersistentVolumeReclaimDelete))"

definition provenance :: "TargetExposure \<Rightarrow> string_map \<Rightarrow> string_map" where
  "provenance ex ann = (if te_RestoredFromRun ex \<noteq> [] then ann(AnnotationRestoredFrom \<mapsto> te_RestoredFromRun ex) else ann)"

definition final_claim :: "TargetExposure \<Rightarrow> ('src, 'aff) Volume \<Rightarrow> Claim" where
  "final_claim ex pv =
     \<lparr>cl_Meta = new_meta (te_TargetNamespace ex) (te_TargetPVCName ex) Map.empty (provenance ex Map.empty),
      cl_AccessModes = pv_AccessModes pv, cl_Request = pv_Capacity pv, cl_StorageClassName = Some (pv_StorageClassName pv),
      cl_VolumeName = m_Name (pv_Meta pv), cl_VolumeMode = None, cl_Phase = []\<rparr>"

definition createFinalPVC ::
  "('w, 'src, 'aff, 'z) target_env_scheme \<Rightarrow> TargetExposure \<Rightarrow> ('src, 'aff) Volume \<Rightarrow> 'w \<Rightarrow> go_error option \<times> 'w" where
  "createFinalPVC e ex pv w =
     (case ge_create_claim e (final_claim ex pv) w of
        (res, w) \<Rightarrow>
          (if res \<noteq> None \<and> res \<noteq> Some AlreadyExists
           then Some (claim_error ''create final PVC'' (te_TargetNamespace ex) (te_TargetPVCName ex) (the res)) else None, w))"

definition released :: "('w, 'src, 'aff, 'z) target_env_scheme \<Rightarrow> TargetExposure \<Rightarrow> 'w \<Rightarrow> ('src, 'aff) Volume \<Rightarrow> ('src, 'aff) Volume" where
  "released e ex w pv =
     pv\<lparr>pv_ReclaimPolicy := storageClassReclaimPolicy e (pv_StorageClassName pv) w,
        pv_Meta := (pv_Meta pv)\<lparr>m_Labels := m_Labels (pv_Meta pv) |` (- insert LabelPVRole (dom (te_Labels ex)))\<rparr>\<rparr>"

text \<open>The second half of \<open>handOver\<close>, on a volume whose claim reference is the final claim.\<close>

definition hand_to_final ::
  "('w, 'src, 'aff, 'z) target_env_scheme \<Rightarrow> TargetExposure \<Rightarrow> ('src, 'aff) Volume \<Rightarrow> 'w \<Rightarrow> (go_error + bool) \<times> 'w" where
  "hand_to_final e ex pv w =
     (let ns = te_TargetNamespace ex; name = te_TargetPVCName ex; pvName = m_Name (pv_Meta pv)
      in case ge_get_claim e ns name w of
           Inl err \<Rightarrow>
             if err = NotFound then
               (case createFinalPVC e ex pv w of (Some err, w) \<Rightarrow> (Inl err, w) | (None, w) \<Rightarrow> (Inr False, w))
             else (Inl (claim_error ''get final PVC'' ns name err), w)
         | Inr final \<Rightarrow>
             if cl_VolumeName final = [] then
               (case ge_patch_claim e (final\<lparr>cl_VolumeName := pvName,
                        cl_Meta := (cl_Meta final)\<lparr>m_Annotations := provenance ex (m_Annotations (cl_Meta final))\<rparr>\<rparr>) w of
                  (Some err, w) \<Rightarrow>
                    (Inl (Wrap (''bind pre-existing final PVC '' @ ns @ ''/'' @ name @ '' to the transplant volume'') (APIError err)), w)
                | (None, w) \<Rightarrow> (Inr False, w))
             else if cl_VolumeName final \<noteq> pvName then
               (Inl (ErrorNew (''final PVC '' @ ns @ ''/'' @ name @ '' is bound to volume '' @ ge_Quote e (cl_VolumeName final) @
                  '', not the transplant volume '' @ ge_Quote e pvName)), w)
             else if cl_Phase final \<noteq> ClaimBound then (Inr False, w)
             else
               (case ge_patch_pv e (released e ex w pv) w of
                  (Inl err, w) \<Rightarrow> (Inl (Wrap (''release transplant PV '' @ pvName @ '' to its class policy'') (APIError err)), w)
                | (Inr _, w) \<Rightarrow> (Inr True, w)))"

definition handOver ::
  "('w, 'src, 'aff, 'z) target_env_scheme \<Rightarrow> TargetExposure \<Rightarrow> ('src, 'aff) Volume \<Rightarrow> 'w \<Rightarrow> (go_error + bool) \<times> 'w" where
  "handOver e ex pv w =
     (let final = Some (te_TargetNamespace ex, te_TargetPVCName ex)
      in if pv_ClaimRef pv = final then hand_to_final e ex pv w
         else if pv_Phase pv = VolumeBound then (Inr False, w)
         else
           (case ge_patch_pv e (pv\<lparr>pv_ClaimRef := final\<rparr>) w of
              (Inl err, w) \<Rightarrow> (Inl (Wrap (''re-point transplant PV '' @ m_Name (pv_Meta pv) @ '' claimRef'') (APIError err)), w)
            | (Inr fresh, w) \<Rightarrow> hand_to_final e ex fresh w))"

definition Finalize ::
  "('w, 'src, 'aff, 'z) target_env_scheme \<Rightarrow> TargetExposure \<Rightarrow> 'w \<Rightarrow> (go_error + bool) \<times> 'w" where
  "Finalize e ex w =
     (if te_Kind ex \<noteq> KindTransplant then (Inr True, w)
      else
        (case ge_get_claim e (te_OperatorNamespace ex) (te_StagingPVCName ex) w of
           Inr staging \<Rightarrow>
             if m_DeletionTimestamp (cl_Meta staging) \<noteq> None then (Inr False, w)
             else (case retainAndReleaseStaging e ex staging w of (Some err, w) \<Rightarrow> (Inl err, w) | (None, w) \<Rightarrow> (Inr False, w))
         | Inl err \<Rightarrow>
             if err \<noteq> NotFound then (Inl (claim_error ''get staging PVC'' (te_OperatorNamespace ex) (te_StagingPVCName ex) err), w)
             else
               (case findTransplantPV e ex w of
                  Inl err \<Rightarrow> (Inl err, w)
                | Inr None \<Rightarrow>
                    (case ge_get_claim e (te_TargetNamespace ex) (te_TargetPVCName ex) w of
                       Inr final \<Rightarrow> if cl_VolumeName final \<noteq> [] then (Inr True, w) else
                         (Inl (ErrorNew (''transplant volume for '' @ te_TargetNamespace ex @ ''/'' @ te_TargetPVCName ex @
                            '' not found: no staging PVC, no labeled PV, no bound final claim'')), w)
                     | Inl _ \<Rightarrow>
                         (Inl (ErrorNew (''transplant volume for '' @ te_TargetNamespace ex @ ''/'' @ te_TargetPVCName ex @
                            '' not found: no staging PVC, no labeled PV, no bound final claim'')), w))
                | Inr (Some pv) \<Rightarrow> handOver e ex pv w)))"

section \<open>Cleaning up\<close>

definition reclaimUnfinishedTransplant ::
  "('w, 'src, 'aff, 'z) target_env_scheme \<Rightarrow> TargetExposure \<Rightarrow> 'w \<Rightarrow> go_error option \<times> 'w" where
  "reclaimUnfinishedTransplant e ex w =
     (case findTransplantPV e ex w of
        Inl err \<Rightarrow> (Some err, w)
      | Inr None \<Rightarrow> (None, w)
      | Inr (Some pv) \<Rightarrow>
          let reclaim =
            (if pv_ReclaimPolicy pv \<noteq> PersistentVolumeReclaimDelete then
               (case ge_patch_pv e (pv\<lparr>pv_ReclaimPolicy := PersistentVolumeReclaimDelete\<rparr>) w of
                  (Inl err, w) \<Rightarrow> (Some (Wrap (''set reclaimPolicy Delete on failed transplant PV '' @ m_Name (pv_Meta pv)) (APIError err)), w)
                | (Inr _, w) \<Rightarrow> (None, w))
             else (None, w))
          in case ge_get_claim e (te_TargetNamespace ex) (te_TargetPVCName ex) w of
               Inl _ \<Rightarrow> reclaim
             | Inr final \<Rightarrow>
                 if cl_VolumeName final = m_Name (pv_Meta pv) then
                   (case handOver e ex pv w of (Inl err, w) \<Rightarrow> (Some err, w) | (Inr _, w) \<Rightarrow> (None, w))
                 else reclaim)"

definition Cleanup :: "('w, 'src, 'aff, 'z) target_env_scheme \<Rightarrow> TargetExposure \<Rightarrow> 'w \<Rightarrow> go_error option \<times> 'w" where
  "Cleanup e ex w =
     (case delete_claim e (te_OperatorNamespace ex) (te_StagingPVCName ex) w of
        (Some err, w) \<Rightarrow> (Some err, w)
      | (None, w) \<Rightarrow>
          if te_Kind ex = KindTwin then
            (case ge_delete_pv e (te_TwinPVName ex) w of
               (res, w) \<Rightarrow>
                 (if res \<noteq> None \<and> res \<noteq> Some NotFound then Some (Wrap (''delete twin PV '' @ te_TwinPVName ex) (APIError (the res))) else None, w))
          else if te_Kind ex = KindTransplant then reclaimUnfinishedTransplant e ex w
          else (None, w))"

end
