(* ===== verification/Snapshot_Exposer.thy ===== *)
theory Snapshot_Exposer
  imports Target_Exposer
begin

text \<open>
  The exposure of source volumes (\<^verbatim>\<open>internal/exposer\<close>): how a claim becomes a read-only copy a mover can mount in
  the operator's namespace, and how all of it is removed again. The API server is an argument; the reads of
  unstructured objects are fields that hold what \<open>NestedString\<close>, \<open>NestedBool\<close> and \<open>NestedMap\<close> answer. Go ranges over
  a map in an order it does not promise, so the order is an argument too. Quantities are 64-bit words;
  \<open>resource.ParseQuantity\<close> and \<open>time.Parse\<close> are arguments.
\<close>

section \<open>Objects\<close>

abbreviation KindCSIGeneric :: string where "KindCSIGeneric \<equiv> ''csi-generic''"
abbreviation KindCephFSShallow :: string where "KindCephFSShallow \<equiv> ''cephfs-shallow''"
abbreviation volumeSnapshotGroup :: string where "volumeSnapshotGroup \<equiv> ''snapshot.storage.k8s.io''"
abbreviation volumeSnapshotVersion :: string where "volumeSnapshotVersion \<equiv> ''v1''"
abbreviation dataSourceKindVolumeSnapshot :: string where "dataSourceKindVolumeSnapshot \<equiv> ''VolumeSnapshot''"
abbreviation deletionPolicyRetain :: string where "deletionPolicyRetain \<equiv> ''Retain''"
abbreviation ReadOnlyMany :: string where "ReadOnlyMany \<equiv> ''ReadOnlyMany''"
abbreviation cephfsProvisionerMarker :: string where "cephfsProvisionerMarker \<equiv> ''.cephfs.csi.''"
abbreviation migratedToAnnotation :: string where "migratedToAnnotation \<equiv> ''pv.kubernetes.io/migrated-to''"
abbreviation snapshotterSecretNameParam :: string
  where "snapshotterSecretNameParam \<equiv> ''csi.storage.k8s.io/snapshotter-secret-name''"
abbreviation snapshotterSecretNamespaceParam :: string
  where "snapshotterSecretNamespaceParam \<equiv> ''csi.storage.k8s.io/snapshotter-secret-namespace''"
abbreviation csiTemplateMarker :: string where "csiTemplateMarker \<equiv> ''${''"
abbreviation checkSnapshotterSecret :: string where "checkSnapshotterSecret \<equiv> ''SnapshotterSecret''"
abbreviation reasonSnapshotterSecretMissing :: string where "reasonSnapshotterSecretMissing \<equiv> ''SnapshotterSecretMissing''"

record VolumeSnapshot =
  vs_Meta :: ObjectMeta
  vs_ClassName :: "string option"
  vs_SourceClaim :: "string option"
  vs_SourceContent :: "string option"
  vs_readyToUse :: "go_error + bool option"
  vs_boundContent :: "go_error + string option"
  vs_restoreSize :: "go_error + string option"
  vs_error :: "go_error + bool"
  vs_creationTime :: "go_error + string option"

datatype param_value = ParamNull | ParamString string | ParamOther string

record VolumeSnapshotClass =
  vc_Name :: string
  vc_driver :: "go_error + string option"
  vc_parameters :: "go_error + (string \<rightharpoonup> param_value) option"

record BoundVolume =
  bv_Name :: string
  bv_Annotations :: string_map
  bv_CSIDriver :: "string option"
  bv_NFS :: bool
  bv_HostPath :: bool
  bv_Local :: bool
  bv_ISCSI :: bool
  bv_FC :: bool

record SnapshotClaim =
  sc_Meta :: ObjectMeta
  sc_AccessModes :: "string list"
  sc_StorageClassName :: "string option"
  sc_Request :: i64
  sc_DataSource :: "string \<times> string \<times> string"

datatype SnapshotExposer = csiGenericExposer VolumeSnapshotClass | cephfsShallowExposer VolumeSnapshotClass

datatype CheckStatus = CheckOK | CheckFailed | CheckNotCheckable

record Check =
  ck_Name :: string
  ck_Status :: CheckStatus
  ck_Detail :: string

record PrecheckResult =
  pk_OK :: bool
  pk_Reason :: string
  pk_Message :: string
  pk_Checks :: "Check list"

record 'w exposer_env = "'w reaper_env" +
  xe_get_vs :: "string \<Rightarrow> string \<Rightarrow> 'w \<Rightarrow> api_error + VolumeSnapshot"
  xe_get_content :: "string \<Rightarrow> 'w \<Rightarrow> api_error + VolumeSnapshotContent"
  xe_get_claim_phase :: "string \<Rightarrow> string \<Rightarrow> 'w \<Rightarrow> api_error + string"
  xe_get_pv :: "string \<Rightarrow> 'w \<Rightarrow> api_error + BoundVolume"
  xe_get_class :: "string \<Rightarrow> 'w \<Rightarrow> api_error + string_map \<times> string"
  xe_get_secret :: "string \<Rightarrow> string \<Rightarrow> 'w \<Rightarrow> api_error option"
  xe_list_classes :: "'w \<Rightarrow> api_error + VolumeSnapshotClass list"
  xe_list_contents :: "string_map \<Rightarrow> 'w \<Rightarrow> api_error + VolumeSnapshotContent list"
  xe_create_vs :: "VolumeSnapshot \<Rightarrow> 'w \<Rightarrow> api_error option \<times> 'w"
  xe_create_content :: "VolumeSnapshotContent \<Rightarrow> 'w \<Rightarrow> api_error option \<times> 'w"
  xe_create_claim :: "SnapshotClaim \<Rightarrow> 'w \<Rightarrow> api_error option \<times> 'w"
  xe_range :: "string_map \<Rightarrow> (string \<times> string) list"
  xe_ParseQuantity :: "string \<Rightarrow> i64 option"
  xe_ParseTime :: "string \<Rightarrow> instant option"
  xe_show :: "api_error \<Rightarrow> string"
  xe_Quote :: "string \<Rightarrow> string"

text \<open>Reading a field that is absent gives the zero value of its type.\<close>

fun nested :: "'a \<Rightarrow> go_error + 'a option \<Rightarrow> go_error + 'a" where
  "nested zero (Inl err) = Inl err"
| "nested zero (Inr None) = Inr zero"
| "nested zero (Inr (Some v)) = Inr v"

definition accepted :: "api_error option \<Rightarrow> bool" where
  "accepted res \<longleftrightarrow> res = None \<or> res = Some AlreadyExists"

section \<open>Names and builders\<close>

definition volumeSnapshotName :: "string \<Rightarrow> string" where "volumeSnapshotName name_prefix = name_prefix @ ''-snap''"
definition staticVSCName :: "string \<Rightarrow> string" where "staticVSCName name_prefix = name_prefix @ ''-vsc''"
definition staticVSName :: "string \<Rightarrow> string" where "staticVSName name_prefix = name_prefix @ ''-restore''"
definition tempPVCName :: "string \<Rightarrow> string" where "tempPVCName name_prefix = name_prefix @ ''-clone''"

definition buildVolumeSnapshot :: "ExposeRequest \<Rightarrow> string \<Rightarrow> VolumeSnapshot" where
  "buildVolumeSnapshot req volumeSnapshotClass =
     \<lparr>vs_Meta = new_meta (xr_Namespace req) (volumeSnapshotName (xr_NamePrefix req)) (xr_Labels req) Map.empty,
      vs_ClassName = Some volumeSnapshotClass, vs_SourceClaim = Some (xr_PVCName req), vs_SourceContent = None,
      vs_readyToUse = Inr None, vs_boundContent = Inr None, vs_restoreSize = Inr None, vs_error = Inr False,
      vs_creationTime = Inr None\<rparr>"

definition newTempPVCFromSnapshot :: "Exposure \<Rightarrow> i64 \<Rightarrow> string \<Rightarrow> SnapshotClaim" where
  "newTempPVCFromSnapshot ex capacity accessMode =
     \<lparr>sc_Meta = new_meta (ex_OperatorNamespace ex) (ex_TempPVCName ex) (ex_Labels ex) Map.empty,
      sc_AccessModes = [accessMode], sc_StorageClassName = Some (ex_StorageClass ex), sc_Request = capacity,
      sc_DataSource = (volumeSnapshotGroup, dataSourceKindVolumeSnapshot, ex_StaticVSName ex)\<rparr>"

definition buildTempPVC :: "Exposure \<Rightarrow> i64 \<Rightarrow> SnapshotClaim" where
  "buildTempPVC ex capacity = newTempPVCFromSnapshot ex capacity ReadWriteOnce"

definition buildShallowPVC :: "Exposure \<Rightarrow> i64 \<Rightarrow> SnapshotClaim" where
  "buildShallowPVC ex capacity = newTempPVCFromSnapshot ex capacity ReadOnlyMany"

definition buildStaticVolumeSnapshotContent :: "Exposure \<Rightarrow> string \<Rightarrow> string \<Rightarrow> VolumeSnapshotContent" where
  "buildStaticVolumeSnapshotContent ex driver snapshotHandle =
     \<lparr>vsc_Meta = new_meta [] (ex_StaticVSCName ex) (ex_Labels ex) Map.empty, vsc_snapshotHandle = Inr (Some snapshotHandle),
      vsc_deletionPolicy = Inr (Some deletionPolicyRetain), vsc_SetError = None, vsc_driver = Inr (Some driver),
      vsc_statusHandle = Inr None,
      vsc_VolumeSnapshotRef = Some (volumeSnapshotGroup @ ''/'' @ volumeSnapshotVersion, dataSourceKindVolumeSnapshot,
        ex_StaticVSName ex, ex_OperatorNamespace ex)\<rparr>"

definition buildStaticVolumeSnapshot :: "Exposure \<Rightarrow> VolumeSnapshot" where
  "buildStaticVolumeSnapshot ex =
     \<lparr>vs_Meta = new_meta (ex_OperatorNamespace ex) (ex_StaticVSName ex) (ex_Labels ex) Map.empty,
      vs_ClassName = None, vs_SourceClaim = None, vs_SourceContent = Some (ex_StaticVSCName ex),
      vs_readyToUse = Inr None, vs_boundContent = Inr None, vs_restoreSize = Inr None, vs_error = Inr False,
      vs_creationTime = Inr None\<rparr>"

section \<open>Exposing\<close>

definition object_error :: "string \<Rightarrow> string \<Rightarrow> string \<Rightarrow> go_error \<Rightarrow> go_error" where
  "object_error what ns name err = Wrap (what @ '' '' @ ns @ ''/'' @ name) err"

definition expose ::
  "('w, 'z) exposer_env_scheme \<Rightarrow> string \<Rightarrow> ExposeRequest \<Rightarrow> string \<Rightarrow> string \<Rightarrow> 'w \<Rightarrow> (exposer_error + Exposure) \<times> 'w" where
  "expose x kind req operatorNamespace volumeSnapshotClass w =
     (case xe_create_vs x (buildVolumeSnapshot req volumeSnapshotClass) w of
        (res, w) \<Rightarrow>
          if \<not> accepted res
          then (Inl (ExposerFault (object_error (''exposer('' @ kind @ ''): create origin VolumeSnapshot'') (xr_Namespace req)
                  (volumeSnapshotName (xr_NamePrefix req)) (APIError (the res)))), w)
          else
            (Inr \<lparr>ex_Kind = kind, ex_OriginNamespace = xr_Namespace req, ex_OperatorNamespace = operatorNamespace,
               ex_OriginVSName = volumeSnapshotName (xr_NamePrefix req), ex_StaticVSCName = staticVSCName (xr_NamePrefix req),
               ex_StaticVSName = staticVSName (xr_NamePrefix req), ex_TempPVCName = tempPVCName (xr_NamePrefix req),
               ex_ExposedPVCName = tempPVCName (xr_NamePrefix req), ex_StorageClass = xr_StorageClass req,
               ex_Capacity = xr_Capacity req, ex_Labels = xr_Labels req\<rparr>, w))"

definition volumeSnapshotReady :: "('w, 'z) exposer_env_scheme \<Rightarrow> string \<Rightarrow> string \<Rightarrow> 'w \<Rightarrow> go_error + bool" where
  "volumeSnapshotReady x namespace name w =
     (case xe_get_vs x namespace name w of
        Inl err \<Rightarrow>
          if err = NotFound then Inr False else Inl (object_error ''get VolumeSnapshot'' namespace name (APIError err))
      | Inr got \<Rightarrow>
          (case nested False (vs_readyToUse got) of
             Inl err \<Rightarrow> Inl (object_error ''read status.readyToUse of VolumeSnapshot'' namespace name err)
           | Inr ready \<Rightarrow> Inr ready))"

definition merge_label :: "string_map \<times> bool \<Rightarrow> string \<times> string \<Rightarrow> string_map \<times> bool" where
  "merge_label acc kv =
     (if map_get (fst acc) (fst kv) \<noteq> snd kv then ((fst acc)(fst kv \<mapsto> snd kv), True) else acc)"

definition mergeLabels ::
  "('w, 'z) exposer_env_scheme \<Rightarrow> VolumeSnapshotContent \<Rightarrow> string_map \<Rightarrow> VolumeSnapshotContent \<times> bool" where
  "mergeLabels x obj add =
     (case foldl merge_label (m_Labels (vsc_Meta obj), False) (xe_range x add) of
        (labels, changed) \<Rightarrow>
          (if changed then obj\<lparr>vsc_Meta := (vsc_Meta obj)\<lparr>m_Labels := labels\<rparr>\<rparr> else obj, changed))"

section \<open>The handover\<close>

definition guard_policy :: "VolumeSnapshotContent \<Rightarrow> go_error + VolumeSnapshotContent \<times> bool" where
  "guard_policy vsc =
     (let name = m_Name (vsc_Meta vsc)
      in case nested [] (vsc_deletionPolicy vsc) of
           Inl err \<Rightarrow> Inl (Wrap (''read origin VolumeSnapshotContent '' @ name @ '' spec.deletionPolicy'') err)
         | Inr dp \<Rightarrow>
             if dp = deletionPolicyRetain then Inr (vsc, False)
             else
               (case vsc_SetError vsc of
                  Some err \<Rightarrow> Inl (Wrap (''set origin VolumeSnapshotContent '' @ name @ '' spec.deletionPolicy=Retain'') err)
                | None \<Rightarrow> Inr (vsc\<lparr>vsc_deletionPolicy := Inr (Some deletionPolicyRetain)\<rparr>, True)))"

definition patchOriginVSCForHandover ::
  "('w, 'z) exposer_env_scheme \<Rightarrow> VolumeSnapshotContent \<Rightarrow> string_map \<Rightarrow> 'w \<Rightarrow> go_error option \<times> 'w" where
  "patchOriginVSCForHandover x vsc labels w =
     (case guard_policy vsc of
        Inl err \<Rightarrow> (Some err, w)
      | Inr (vsc, changed) \<Rightarrow>
          (case mergeLabels x vsc labels of
             (vsc, merged) \<Rightarrow>
               if \<not> (changed \<or> merged) then (None, w)
               else
                 (case pe_patch_content x vsc w of
                    (Inl err, w) \<Rightarrow>
                      (Some (Wrap (''patch origin VolumeSnapshotContent '' @ m_Name (vsc_Meta vsc) @ '' to Retain for handover'')
                         (APIError err)), w)
                  | (Inr _, w) \<Rightarrow> (None, w))))"

definition readRestoreSize :: "('w, 'z) exposer_env_scheme \<Rightarrow> VolumeSnapshot \<Rightarrow> i64 option" where
  "readRestoreSize x originVS =
     (case vs_restoreSize originVS of
        Inr (Some raw) \<Rightarrow> if raw = [] then None else xe_ParseQuantity x raw
      | _ \<Rightarrow> None)"

definition resolveTempPVCCapacity :: "('w, 'z) exposer_env_scheme \<Rightarrow> i64 \<Rightarrow> VolumeSnapshot \<Rightarrow> i64" where
  "resolveTempPVCCapacity x requested originVS =
     (case readRestoreSize x originVS of
        Some restore \<Rightarrow> if requested <s restore then restore else requested
      | None \<Rightarrow> requested)"

text \<open>Step 7: the static snapshot is ready and the temporary claim is bound.\<close>

definition consumable :: "('w, 'z) exposer_env_scheme \<Rightarrow> Exposure \<Rightarrow> 'w \<Rightarrow> go_error + bool" where
  "consumable x ex w =
     (case volumeSnapshotReady x (ex_OperatorNamespace ex) (ex_StaticVSName ex) w of
        Inl err \<Rightarrow> Inl err
      | Inr False \<Rightarrow> Inr False
      | Inr True \<Rightarrow>
          (case xe_get_claim_phase x (ex_OperatorNamespace ex) (ex_TempPVCName ex) w of
             Inl err \<Rightarrow>
               if err = NotFound then Inr False
               else Inl (object_error ''get temp PVC'' (ex_OperatorNamespace ex) (ex_TempPVCName ex) (APIError err))
           | Inr phase \<Rightarrow> Inr (phase = ClaimBound)))"

text \<open>Steps 4 to 7: the static pair and the temporary claim, once the origin's content is guarded.\<close>

definition rebind ::
  "('w, 'z) exposer_env_scheme \<Rightarrow> Exposure \<Rightarrow> (Exposure \<Rightarrow> i64 \<Rightarrow> SnapshotClaim) \<Rightarrow> VolumeSnapshot \<Rightarrow> string \<Rightarrow> string
   \<Rightarrow> 'w \<Rightarrow> (go_error + bool) \<times> 'w" where
  "rebind x ex build originVS driver snapshotHandle w =
     (case xe_create_content x (buildStaticVolumeSnapshotContent ex driver snapshotHandle) w of
        (res, w) \<Rightarrow>
          if \<not> accepted res
          then (Inl (Wrap (''create static VolumeSnapshotContent '' @ ex_StaticVSCName ex) (APIError (the res))), w)
          else
            (case xe_create_vs x (buildStaticVolumeSnapshot ex) w of
               (res, w) \<Rightarrow>
                 if \<not> accepted res
                 then (Inl (object_error ''create static VolumeSnapshot'' (ex_OperatorNamespace ex) (ex_StaticVSName ex)
                         (APIError (the res))), w)
                 else
                   (case xe_create_claim x (build ex (resolveTempPVCCapacity x (ex_Capacity ex) originVS)) w of
                      (res, w) \<Rightarrow>
                        if \<not> accepted res
                        then (Inl (object_error ''create temp PVC'' (ex_OperatorNamespace ex) (ex_TempPVCName ex)
                                (APIError (the res))), w)
                        else (consumable x ex w, w))))"

text \<open>Steps 1 and 2: what is known of the origin, \<open>Inr None\<close> when it is not there yet.\<close>

definition origin_content ::
  "('w, 'z) exposer_env_scheme \<Rightarrow> Exposure \<Rightarrow> VolumeSnapshot \<Rightarrow> 'w \<Rightarrow> go_error + (VolumeSnapshotContent \<times> string \<times> string) option" where
  "origin_content x ex originVS w =
     (case nested [] (vs_boundContent originVS) of
        Inl err \<Rightarrow>
          Inl (Wrap (''read origin VolumeSnapshot '' @ ex_OriginNamespace ex @ ''/'' @ ex_OriginVSName ex @
            '' boundVolumeSnapshotContentName'') err)
      | Inr bound \<Rightarrow>
          if bound = [] then Inr None
          else
            (case xe_get_content x bound w of
               Inl err \<Rightarrow>
                 if err = NotFound then Inr None else Inl (Wrap (''get origin VolumeSnapshotContent '' @ bound) (APIError err))
             | Inr vsc \<Rightarrow>
                 (case nested [] (vsc_driver vsc) of
                    Inl err \<Rightarrow> Inl (Wrap (''read origin VolumeSnapshotContent '' @ bound @ '' spec.driver'') err)
                  | Inr driver \<Rightarrow>
                      (case nested [] (vsc_statusHandle vsc) of
                         Inl err \<Rightarrow> Inl (Wrap (''read origin VolumeSnapshotContent '' @ bound @ '' status.snapshotHandle'') err)
                       | Inr snap_handle \<Rightarrow>
                           if driver = [] \<or> snap_handle = [] then Inr None else Inr (Some (vsc, driver, snap_handle))))))"

definition ready_origin :: "('w, 'z) exposer_env_scheme \<Rightarrow> Exposure \<Rightarrow> 'w \<Rightarrow> go_error + VolumeSnapshot option" where
  "ready_origin x ex w =
     (case xe_get_vs x (ex_OriginNamespace ex) (ex_OriginVSName ex) w of
        Inl err \<Rightarrow>
          if err = NotFound then Inr None
          else Inl (object_error ''get origin VolumeSnapshot'' (ex_OriginNamespace ex) (ex_OriginVSName ex) (APIError err))
      | Inr originVS \<Rightarrow>
          (case nested False (vs_readyToUse originVS) of
             Inl err \<Rightarrow>
               Inl (Wrap (''read origin VolumeSnapshot '' @ ex_OriginNamespace ex @ ''/'' @ ex_OriginVSName ex @ '' status.readyToUse'') err)
           | Inr True \<Rightarrow> Inr (Some originVS)
           | Inr False \<Rightarrow> Inr None))"

definition ready ::
  "('w, 'z) exposer_env_scheme \<Rightarrow> Exposure \<Rightarrow> (Exposure \<Rightarrow> i64 \<Rightarrow> SnapshotClaim) \<Rightarrow> 'w \<Rightarrow> (go_error + bool) \<times> 'w" where
  "ready x ex build w =
     (case ready_origin x ex w of
        Inl err \<Rightarrow> (Inl err, w)
      | Inr None \<Rightarrow> (Inr False, w)
      | Inr (Some originVS) \<Rightarrow>
          (case origin_content x ex originVS w of
             Inl err \<Rightarrow> (Inl err, w)
           | Inr None \<Rightarrow> (Inr False, w)
           | Inr (Some (originVSC, driver, snapshotHandle)) \<Rightarrow>
               (case patchOriginVSCForHandover x originVSC (ex_Labels ex) w of
                  (Some err, w) \<Rightarrow> (Inl err, w)
                | (None, w) \<Rightarrow> rebind x ex build originVS driver snapshotHandle w)))"

section \<open>What has happened to the origin\<close>

definition StartedAt :: "('w, 'z) exposer_env_scheme \<Rightarrow> Exposure \<Rightarrow> 'w \<Rightarrow> instant option" where
  "StartedAt x ex w =
     (case xe_get_vs x (ex_OriginNamespace ex) (ex_OriginVSName ex) w of
        Inl _ \<Rightarrow> None
      | Inr vs \<Rightarrow> m_CreationTimestamp (vs_Meta vs))"

definition originProgress :: "('w, 'z) exposer_env_scheme \<Rightarrow> Exposure \<Rightarrow> 'w \<Rightarrow> SnapshotProgress option" where
  "originProgress x ex w =
     (case xe_get_vs x (ex_OriginNamespace ex) (ex_OriginVSName ex) w of
        Inl _ \<Rightarrow> None
      | Inr vs \<Rightarrow>
          (case m_CreationTimestamp (vs_Meta vs) of
             None \<Rightarrow> None
           | Some created \<Rightarrow>
               (case (nested [] (vs_boundContent vs), vs_error vs) of
                  (Inr boundContent, Inr hasError) \<Rightarrow>
                    Some \<lparr>sp_StartedAt = Some created, sp_Acknowledged = (boundContent \<noteq> [] \<or> hasError)\<rparr>
                | _ \<Rightarrow> None)))"

definition CutAt :: "('w, 'z) exposer_env_scheme \<Rightarrow> Exposure \<Rightarrow> 'w \<Rightarrow> instant option" where
  "CutAt x ex w =
     (case xe_get_vs x (ex_OriginNamespace ex) (ex_OriginVSName ex) w of
        Inl _ \<Rightarrow> None
      | Inr vs \<Rightarrow>
          (case vs_creationTime vs of
             Inr (Some raw) \<Rightarrow> if raw = [] then None else xe_ParseTime x raw
           | _ \<Rightarrow> None))"

section \<open>Teardown\<close>

definition deletePVC :: "('w, 'z) exposer_env_scheme \<Rightarrow> string \<Rightarrow> string \<Rightarrow> 'w \<Rightarrow> go_error option \<times> 'w" where
  "deletePVC x namespace name w =
     (case pe_delete x kindPVC namespace name False w of
        (res, w) \<Rightarrow>
          (case res of
             Some err \<Rightarrow> if err = NotFound then (None, w) else (Some (object_error ''delete temp PVC'' namespace name (APIError err)), w)
           | None \<Rightarrow> (None, w)))"

definition deleteVolumeSnapshot :: "('w, 'z) exposer_env_scheme \<Rightarrow> string \<Rightarrow> string \<Rightarrow> 'w \<Rightarrow> go_error option \<times> 'w" where
  "deleteVolumeSnapshot x namespace name w =
     (case pe_delete x kindVolumeSnapshot namespace name False w of
        (res, w) \<Rightarrow>
          (case res of
             Some err \<Rightarrow>
               if absentOK x err then (None, w) else (Some (object_error ''delete VolumeSnapshot'' namespace name (APIError err)), w)
           | None \<Rightarrow> (None, w)))"

definition deleteVolumeSnapshotContent :: "('w, 'z) exposer_env_scheme \<Rightarrow> string \<Rightarrow> 'w \<Rightarrow> go_error option \<times> 'w" where
  "deleteVolumeSnapshotContent x name w =
     (case pe_delete x kindVolumeSnapshotContent [] name False w of
        (res, w) \<Rightarrow>
          (case res of
             Some err \<Rightarrow>
               if absentOK x err then (None, w) else (Some (Wrap (''delete VolumeSnapshotContent '' @ name) (APIError err)), w)
           | None \<Rightarrow> (None, w)))"

definition restoreOriginVSCByName :: "('w, 'z) exposer_env_scheme \<Rightarrow> string \<Rightarrow> 'w \<Rightarrow> go_error option \<times> 'w" where
  "restoreOriginVSCByName x name w =
     (case xe_get_content x name w of
        Inl err \<Rightarrow>
          if err = NotFound then (None, w) else (Some (Wrap (''get origin VolumeSnapshotContent '' @ name) (APIError err)), w)
      | Inr vsc \<Rightarrow> (case setOriginVSCToDelete x vsc w of ((err, _), w) \<Rightarrow> (err, w)))"

fun reclaim_contents ::
  "('w, 'z) exposer_env_scheme \<Rightarrow> Exposure \<Rightarrow> VolumeSnapshotContent list \<Rightarrow> 'w \<Rightarrow> go_error option \<times> 'w" where
  "reclaim_contents x ex [] w = (None, w)"
| "reclaim_contents x ex (item # items) w =
     (if m_Name (vsc_Meta item) = ex_StaticVSCName ex then reclaim_contents x ex items w
      else
        (case setOriginVSCToDelete x item w of
           ((Some err, _), w) \<Rightarrow> (Some err, w)
         | ((None, item), w) \<Rightarrow>
             (case pe_delete x kindVolumeSnapshotContent (m_Namespace (vsc_Meta item)) (m_Name (vsc_Meta item)) False w of
                (res, w) \<Rightarrow>
                  if res \<noteq> None \<and> res \<noteq> Some NotFound
                  then (Some (Wrap (''delete orphaned origin VolumeSnapshotContent '' @ m_Name (vsc_Meta item)) (APIError (the res))), w)
                  else reclaim_contents x ex items w)))"

definition reclaimOrphanOriginVSC :: "('w, 'z) exposer_env_scheme \<Rightarrow> Exposure \<Rightarrow> 'w \<Rightarrow> go_error option \<times> 'w" where
  "reclaimOrphanOriginVSC x ex w =
     (if xe_range x (ex_Labels ex) = [] then (None, w)
      else
        (case List.find (\<lambda>(key, value). value = []) (xe_range x (ex_Labels ex)) of
           Some (key, value) \<Rightarrow>
             (Some (ErrorNew (''exposure label '' @ xe_Quote x key @
                '' has an empty value, so no selector built from these labels can identify this exposure's origin VolumeSnapshotContent: refusing the crash-window reclaim and leaving it to the orphan reaper'')), w)
         | None \<Rightarrow>
             (case xe_list_contents x (ex_Labels ex) w of
                Inl err \<Rightarrow>
                  if pe_IsNoMatchError x err then (None, w)
                  else (Some (Wrap ''list origin VolumeSnapshotContents by exposure labels'' (APIError err)), w)
              | Inr items \<Rightarrow> reclaim_contents x ex items w)))"

definition reclaimOrigin :: "('w, 'z) exposer_env_scheme \<Rightarrow> Exposure \<Rightarrow> 'w \<Rightarrow> go_error option \<times> 'w" where
  "reclaimOrigin x ex w =
     (case xe_get_vs x (ex_OriginNamespace ex) (ex_OriginVSName ex) w of
        Inr originVS \<Rightarrow>
          (case nested [] (vs_boundContent originVS) of
             Inl err \<Rightarrow>
               (Some (Wrap (''read origin VolumeSnapshot '' @ ex_OriginNamespace ex @ ''/'' @ ex_OriginVSName ex @
                  '' boundVolumeSnapshotContentName'') err), w)
           | Inr bound \<Rightarrow>
               (case (if bound \<noteq> [] then restoreOriginVSCByName x bound w else (None, w)) of
                  (Some err, w) \<Rightarrow> (Some err, w)
                | (None, w) \<Rightarrow> deleteVolumeSnapshot x (ex_OriginNamespace ex) (ex_OriginVSName ex) w))
      | Inl err \<Rightarrow>
          if err = NotFound then reclaimOrphanOriginVSC x ex w
          else if pe_IsNoMatchError x err then (None, w)
          else (Some (object_error ''get origin VolumeSnapshot'' (ex_OriginNamespace ex) (ex_OriginVSName ex) (APIError err)), w))"

definition cleanup :: "('w, 'z) exposer_env_scheme \<Rightarrow> Exposure \<Rightarrow> 'w \<Rightarrow> go_error option \<times> 'w" where
  "cleanup x ex w =
     (case deletePVC x (ex_OperatorNamespace ex) (ex_TempPVCName ex) w of
        (Some err, w) \<Rightarrow> (Some err, w)
      | (None, w) \<Rightarrow>
          (case deleteVolumeSnapshot x (ex_OperatorNamespace ex) (ex_StaticVSName ex) w of
             (Some err, w) \<Rightarrow> (Some err, w)
           | (None, w) \<Rightarrow>
               (case deleteVolumeSnapshotContent x (ex_StaticVSCName ex) w of
                  (Some err, w) \<Rightarrow> (Some err, w)
                | (None, w) \<Rightarrow> reclaimOrigin x ex w)))"

definition deriveExposure :: "string \<Rightarrow> string \<Rightarrow> string \<Rightarrow> string_map \<Rightarrow> Exposure" where
  "deriveExposure originNamespace operatorNamespace namePrefix labels =
     \<lparr>ex_Kind = [], ex_OriginNamespace = originNamespace, ex_OperatorNamespace = operatorNamespace,
      ex_OriginVSName = volumeSnapshotName namePrefix, ex_StaticVSCName = staticVSCName namePrefix,
      ex_StaticVSName = staticVSName namePrefix, ex_TempPVCName = tempPVCName namePrefix,
      ex_ExposedPVCName = tempPVCName namePrefix, ex_StorageClass = [], ex_Capacity = 0, ex_Labels = labels\<rparr>"

definition TeardownExposure ::
  "('w, 'z) exposer_env_scheme \<Rightarrow> string \<Rightarrow> string \<Rightarrow> string \<Rightarrow> string_map \<Rightarrow> 'w \<Rightarrow> go_error option \<times> 'w" where
  "TeardownExposure x originNamespace operatorNamespace namePrefix labels w =
     cleanup x (deriveExposure originNamespace operatorNamespace namePrefix labels) w"

definition Registry_TeardownExposure ::
  "('w, 'z) exposer_env_scheme \<Rightarrow> string \<Rightarrow> string \<Rightarrow> string_map \<Rightarrow> 'w \<Rightarrow> go_error option \<times> 'w" where
  "Registry_TeardownExposure x originNamespace namePrefix labels w =
     TeardownExposure x originNamespace (pe_OperatorNamespace x) namePrefix labels w"

section \<open>Choosing an exposer\<close>

definition persistentVolumeSourceName :: "BoundVolume \<Rightarrow> string" where
  "persistentVolumeSourceName pv =
     (if bv_NFS pv then ''nfs'' else if bv_HostPath pv then ''hostPath'' else if bv_Local pv then ''local''
      else if bv_ISCSI pv then ''iscsi'' else if bv_FC pv then ''fc'' else ''non-CSI'')"

definition pvc_key :: "PersistentVolumeClaim \<Rightarrow> string" where
  "pvc_key pvc = pc_Namespace pvc @ ''/'' @ pc_Name pvc"

text \<open>The errors of the resolution: a volume no CSI driver serves, a read that failed, a claim that names nothing.\<close>

definition not_csi_error :: "('w, 'z) exposer_env_scheme \<Rightarrow> PersistentVolumeClaim \<Rightarrow> BoundVolume \<Rightarrow> exposer_error" where
  "not_csi_error x pvc pv =
     ErrUnsupported (ErrorNew (''exposer: storage class has no CSI snapshot support: PersistentVolume '' @ xe_Quote x (bv_Name pv) @
       '' bound to PVC '' @ pvc_key pvc @ '' is a '' @ persistentVolumeSourceName pv @ '' volume, not CSI''))"

definition no_class_error :: "('w, 'z) exposer_env_scheme \<Rightarrow> string \<Rightarrow> string \<Rightarrow> exposer_error" where
  "no_class_error x driver origin =
     ErrUnsupported (ErrorNew (''exposer: storage class has no CSI snapshot support: driver '' @ xe_Quote x driver @ '' ('' @ origin @
       '') has no matching VolumeSnapshotClass''))"

definition unread_error :: "string \<Rightarrow> string \<Rightarrow> PersistentVolumeClaim \<Rightarrow> api_error \<Rightarrow> exposer_error" where
  "unread_error what link pvc err = ExposerFault (Wrap (''exposer: get '' @ what @ link @ pvc_key pvc) (APIError err))"

definition unbound_error :: "PersistentVolumeClaim \<Rightarrow> exposer_error" where
  "unbound_error pvc =
     ExposerFault (ErrorNew (''exposer: PVC '' @ pvc_key pvc @ '' is bound to no volume and has no spec.storageClassName set''))"

definition volume_driver ::
  "('w, 'z) exposer_env_scheme \<Rightarrow> PersistentVolumeClaim \<Rightarrow> BoundVolume \<Rightarrow> exposer_error + string \<times> string" where
  "volume_driver x pvc pv =
     (if bv_CSIDriver pv \<noteq> None \<and> bv_CSIDriver pv \<noteq> Some []
      then Inr (the (bv_CSIDriver pv), ''PersistentVolume '' @ xe_Quote x (bv_Name pv))
      else if map_get (bv_Annotations pv) migratedToAnnotation \<noteq> []
      then Inr (map_get (bv_Annotations pv) migratedToAnnotation, ''PersistentVolume '' @ xe_Quote x (bv_Name pv) @ '', CSI-migrated'')
      else Inl (not_csi_error x pvc pv))"

definition driverFor ::
  "('w, 'z) exposer_env_scheme \<Rightarrow> PersistentVolumeClaim \<Rightarrow> 'w \<Rightarrow> exposer_error + string \<times> string" where
  "driverFor x pvc w =
     (if pc_VolumeName pvc \<noteq> []
      then
        (case xe_get_pv x (pc_VolumeName pvc) w of
           Inl err \<Rightarrow> Inl (unread_error (''PersistentVolume '' @ xe_Quote x (pc_VolumeName pvc)) '' bound to PVC '' pvc err)
         | Inr pv \<Rightarrow> volume_driver x pvc pv)
      else
        (case pc_StorageClassName pvc of
           None \<Rightarrow> Inl (unbound_error pvc)
         | Some scName \<Rightarrow>
             if scName = [] then Inl (unbound_error pvc)
             else
               (case xe_get_class x scName w of
                  Inl err \<Rightarrow> Inl (unread_error (''StorageClass '' @ xe_Quote x scName) '' for unbound PVC '' pvc err)
                | Inr (annotations, provisioner) \<Rightarrow>
                    if map_get annotations migratedToAnnotation \<noteq> []
                    then Inr (map_get annotations migratedToAnnotation, ''StorageClass '' @ xe_Quote x scName @ '', CSI-migrated'')
                    else Inr (provisioner, ''StorageClass '' @ xe_Quote x scName))))"

fun class_candidates :: "string \<Rightarrow> VolumeSnapshotClass list \<Rightarrow> go_error + VolumeSnapshotClass list" where
  "class_candidates provisioner [] = Inr []"
| "class_candidates provisioner (c # cs) =
     (case nested [] (vc_driver c) of
        Inl err \<Rightarrow> Inl (Wrap (''read .driver of VolumeSnapshotClass '' @ vc_Name c) err)
      | Inr driver \<Rightarrow>
          (case class_candidates provisioner cs of
             Inl err \<Rightarrow> Inl err
           | Inr rest \<Rightarrow> Inr (if driver = provisioner then c # rest else rest)))"

definition findVolumeSnapshotClass ::
  "('w, 'z) exposer_env_scheme \<Rightarrow> string \<Rightarrow> 'w \<Rightarrow> go_error + VolumeSnapshotClass option" where
  "findVolumeSnapshotClass x provisioner w =
     (case xe_list_classes x w of
        Inl err \<Rightarrow> Inl (APIError err)
      | Inr items \<Rightarrow>
          (case class_candidates provisioner items of
             Inl err \<Rightarrow> Inl err
           | Inr candidates \<Rightarrow> Inr (case sort_key vc_Name candidates of [] \<Rightarrow> None | c # _ \<Rightarrow> Some c)))"

definition For :: "('w, 'z) exposer_env_scheme \<Rightarrow> PersistentVolumeClaim \<Rightarrow> 'w \<Rightarrow> exposer_error + SnapshotExposer" where
  "For x pvc w =
     (case driverFor x pvc w of
        Inl err \<Rightarrow> Inl err
      | Inr (driver, origin) \<Rightarrow>
          (case findVolumeSnapshotClass x driver w of
             Inl err \<Rightarrow> Inl (ExposerFault (Wrap (''exposer: list VolumeSnapshotClasses for driver '' @ xe_Quote x driver) err))
           | Inr None \<Rightarrow> Inl (no_class_error x driver origin)
           | Inr (Some vsClass) \<Rightarrow>
               Inr (if Contains driver cephfsProvisionerMarker then cephfsShallowExposer vsClass else csiGenericExposer vsClass)))"

section \<open>The pre-check\<close>

definition okResult :: "string \<Rightarrow> string \<Rightarrow> PrecheckResult" where
  "okResult name detail =
     \<lparr>pk_OK = True, pk_Reason = [], pk_Message = [], pk_Checks = [\<lparr>ck_Name = name, ck_Status = CheckOK, ck_Detail = detail\<rparr>]\<rparr>"

definition notCheckableResult :: "string \<Rightarrow> string \<Rightarrow> PrecheckResult" where
  "notCheckableResult name detail =
     \<lparr>pk_OK = True, pk_Reason = [], pk_Message = [],
      pk_Checks = [\<lparr>ck_Name = name, ck_Status = CheckNotCheckable, ck_Detail = detail\<rparr>]\<rparr>"

definition failedResult :: "string \<Rightarrow> string \<Rightarrow> string \<Rightarrow> PrecheckResult" where
  "failedResult name reason detail =
     \<lparr>pk_OK = False, pk_Reason = reason, pk_Message = detail,
      pk_Checks = [\<lparr>ck_Name = name, ck_Status = CheckFailed, ck_Detail = detail\<rparr>]\<rparr>"

definition Err :: "PrecheckResult \<Rightarrow> exposer_error option" where
  "Err r =
     (if pk_OK r then None
      else Some (ErrPrecheckFailed (Wrap ''exposer: snapshot pre-check failed'' (ErrorNew (pk_Message r)))))"

definition paramString :: "(string \<rightharpoonup> param_value) \<Rightarrow> string \<Rightarrow> string \<times> bool" where
  "paramString params key =
     (case params key of
        None \<Rightarrow> ([], True)
      | Some ParamNull \<Rightarrow> ([], True)
      | Some (ParamOther shown) \<Rightarrow> (shown, False)
      | Some (ParamString s) \<Rightarrow> (TrimSpace s, True))"

definition snapshotterSecretRef :: "VolumeSnapshotClass \<Rightarrow> string \<times> string \<times> bool" where
  "snapshotterSecretRef vsc =
     (case vc_parameters vsc of
        Inr (Some params) \<Rightarrow>
          (case (paramString params snapshotterSecretNamespaceParam, paramString params snapshotterSecretNameParam) of
             ((namespace, nsOK), (name, nameOK)) \<Rightarrow>
               (namespace, name,
                Contains namespace csiTemplateMarker \<or> Contains name csiTemplateMarker \<or> \<not> nsOK \<or> \<not> nameOK))
      | _ \<Rightarrow> ([], [], False))"

abbreviation em_dash :: string where "em_dash \<equiv> [CHR 0xE2, CHR 0x80, CHR 0x94]"

definition secret_params :: "('w, 'z) exposer_env_scheme \<Rightarrow> string \<Rightarrow> string \<Rightarrow> string" where
  "secret_params x namespace name =
     snapshotterSecretNamespaceParam @ ''='' @ xe_Quote x namespace @ '', '' @ snapshotterSecretNameParam @ ''='' @ xe_Quote x name"

text \<open>The sentences of the verdicts.\<close>

definition class_label :: "('w, 'z) exposer_env_scheme \<Rightarrow> VolumeSnapshotClass \<Rightarrow> string" where
  "class_label x vsc = ''VolumeSnapshotClass '' @ xe_Quote x (vc_Name vsc)"

definition templated_detail :: "('w, 'z) exposer_env_scheme \<Rightarrow> VolumeSnapshotClass \<Rightarrow> string \<Rightarrow> string \<Rightarrow> string" where
  "templated_detail x vsc namespace name =
     class_label x vsc @ '' names its snapshotter Secret in a form that cannot be resolved ahead of time '' @ em_dash @
     '' CSI templating (a different Secret per snapshot), or a parameter that is not a plain string: '' @
     secret_params x namespace name"

definition half_detail :: "('w, 'z) exposer_env_scheme \<Rightarrow> VolumeSnapshotClass \<Rightarrow> string \<Rightarrow> string \<Rightarrow> string" where
  "half_detail x vsc namespace name =
     class_label x vsc @ '' specifies only half of its snapshotter Secret reference ('' @ secret_params x namespace name @
     ''); no Secret key can be formed from it''"

definition missing_detail :: "('w, 'z) exposer_env_scheme \<Rightarrow> VolumeSnapshotClass \<Rightarrow> string \<Rightarrow> string \<Rightarrow> string" where
  "missing_detail x vsc namespace name =
     class_label x vsc @ '' names snapshotter Secret '' @ namespace @ ''/'' @ name @
     '', which does not exist; the CSI snapshotter cannot authenticate and any VolumeSnapshot on this class would never become ready''"

definition secret_detail :: "('w, 'z) exposer_env_scheme \<Rightarrow> VolumeSnapshotClass \<Rightarrow> string \<Rightarrow> string \<Rightarrow> string \<Rightarrow> string" where
  "secret_detail x vsc namespace name what =
     ''snapshotter Secret '' @ namespace @ ''/'' @ name @ '' for '' @ class_label x vsc @ what"

definition Precheck :: "('w, 'z) exposer_env_scheme \<Rightarrow> VolumeSnapshotClass option \<Rightarrow> 'w \<Rightarrow> PrecheckResult" where
  "Precheck x vsc w =
     (case vsc of
        None \<Rightarrow>
          notCheckableResult checkSnapshotterSecret
            ''no VolumeSnapshotClass was resolved, so its snapshotter Secret cannot be identified''
      | Some vsc \<Rightarrow>
          (case snapshotterSecretRef vsc of
             (namespace, name, templated) \<Rightarrow>
               if templated then notCheckableResult checkSnapshotterSecret (templated_detail x vsc namespace name)
               else if namespace = [] \<and> name = []
               then okResult checkSnapshotterSecret (class_label x vsc @ '' declares no snapshotter Secret'')
               else if namespace = [] \<or> name = [] then notCheckableResult checkSnapshotterSecret (half_detail x vsc namespace name)
               else
                 (case xe_get_secret x namespace name w of
                    None \<Rightarrow> okResult checkSnapshotterSecret (secret_detail x vsc namespace name '' exists'')
                  | Some err \<Rightarrow>
                      if err = NotFound
                      then failedResult checkSnapshotterSecret reasonSnapshotterSecretMissing (missing_detail x vsc namespace name)
                      else notCheckableResult checkSnapshotterSecret
                        (secret_detail x vsc namespace name ('' could not be read: '' @ xe_show x err)))))"

section \<open>The two exposers\<close>

fun Kind :: "SnapshotExposer \<Rightarrow> string" where
  "Kind (csiGenericExposer c) = KindCSIGeneric"
| "Kind (cephfsShallowExposer c) = KindCephFSShallow"

fun vsClass :: "SnapshotExposer \<Rightarrow> VolumeSnapshotClass" where
  "vsClass (csiGenericExposer c) = c"
| "vsClass (cephfsShallowExposer c) = c"

definition SnapshotExposer_Precheck :: "('w, 'z) exposer_env_scheme \<Rightarrow> SnapshotExposer \<Rightarrow> 'w \<Rightarrow> exposer_error option" where
  "SnapshotExposer_Precheck x exp w = Err (Precheck x (Some (vsClass exp)) w)"

definition SnapshotExposer_Expose ::
  "('w, 'z) exposer_env_scheme \<Rightarrow> SnapshotExposer \<Rightarrow> ExposeRequest \<Rightarrow> 'w \<Rightarrow> (exposer_error + Exposure) \<times> 'w" where
  "SnapshotExposer_Expose x exp req w = expose x (Kind exp) req (pe_OperatorNamespace x) (vc_Name (vsClass exp)) w"

fun temp_builder :: "SnapshotExposer \<Rightarrow> Exposure \<Rightarrow> i64 \<Rightarrow> SnapshotClaim" where
  "temp_builder (csiGenericExposer c) = buildTempPVC"
| "temp_builder (cephfsShallowExposer c) = buildShallowPVC"

definition SnapshotExposer_Ready ::
  "('w, 'z) exposer_env_scheme \<Rightarrow> SnapshotExposer \<Rightarrow> Exposure \<Rightarrow> 'w \<Rightarrow> (go_error + bool) \<times> 'w" where
  "SnapshotExposer_Ready x exp ex w = ready x ex (temp_builder exp) w"

definition SnapshotExposer_Progress ::
  "('w, 'z) exposer_env_scheme \<Rightarrow> SnapshotExposer \<Rightarrow> Exposure \<Rightarrow> 'w \<Rightarrow> SnapshotProgress option" where
  "SnapshotExposer_Progress x exp ex w = originProgress x ex w"

definition SnapshotExposer_Cleanup :: "('w, 'z) exposer_env_scheme \<Rightarrow> SnapshotExposer \<Rightarrow> Exposure \<Rightarrow> 'w \<Rightarrow> go_error option \<times> 'w" where
  "SnapshotExposer_Cleanup x exp ex w = cleanup x ex w"

text \<open>The registry as the Backup controller holds it.\<close>

definition with_registry ::
  "('w, 'y) exposer_env_scheme \<Rightarrow> ('w, 'expr, SnapshotExposer, 'z) backup_env_scheme \<Rightarrow> ('w, 'expr, SnapshotExposer, 'z) backup_env_scheme" where
  "with_registry x e =
     e\<lparr>be_For := For x, be_Precheck := SnapshotExposer_Precheck x, be_Expose := SnapshotExposer_Expose x,
       be_Ready := SnapshotExposer_Ready x, be_Progress := SnapshotExposer_Progress x\<rparr>"

end
