(* ===== verification/Reaper_Safety.thy ===== *)
theory Reaper_Safety
  imports Reaper Backup_Safety
begin

text \<open>
  What the orphan reaper promises. The specification says when an object is abandoned (its owner is gone or
  done with it) and which writes are then allowed; a sweep is a sequence of such writes and nothing else.
  Objects of a live Backup are left exactly as they are, only a confirmed absence is reported as a reap, and
  the published gauge counts what the whole sweep found stuck.
\<close>

section \<open>When an object is abandoned\<close>

text \<open>The owner an object's labels name is gone, or has finished and is not being torn down by its own finalizer.\<close>

inductive abandoned :: "('w, 'z) reaper_env_scheme \<Rightarrow> 'w \<Rightarrow> string_map \<Rightarrow> bool" for e w labels where
  restore_gone: "abandoned e w labels"
  if "map_get labels LabelRestore \<noteq> []" "map_get labels LabelNamespace \<noteq> []"
    "pe_get_restore e (map_get labels LabelNamespace) (map_get labels LabelRestore) w = Inl NotFound"
| restore_done: "abandoned e w labels"
  if "map_get labels LabelRestore \<noteq> []" "map_get labels LabelNamespace \<noteq> []"
    "pe_get_restore e (map_get labels LabelNamespace) (map_get labels LabelRestore) w = Inr restore"
    "m_DeletionTimestamp (r_Meta restore) = None" "r_phase restore \<in> {''Completed'', ''PartiallyFailed'', ''Failed''}"
| cluster_restore_gone: "abandoned e w labels"
  if "map_get labels LabelRestore = []" "map_get labels LabelClusterRestore \<noteq> []"
    "pe_get_cluster_restore e (map_get labels LabelClusterRestore) w = Inl NotFound"
| cluster_restore_done: "abandoned e w labels"
  if "map_get labels LabelRestore = []" "map_get labels LabelClusterRestore \<noteq> []"
    "pe_get_cluster_restore e (map_get labels LabelClusterRestore) w = Inr restore"
    "m_DeletionTimestamp (r_Meta restore) = None" "r_phase restore \<in> {''Completed'', ''PartiallyFailed'', ''Failed''}"
| backup_gone: "abandoned e w labels"
  if "map_get labels LabelRestore = []" "map_get labels LabelClusterRestore = []" "map_get labels LabelNamespace \<noteq> []"
    "ownerBackupNameFromLabels labels \<noteq> []"
    "pe_get_backup e (map_get labels LabelNamespace) (ownerBackupNameFromLabels labels) w = Inl NotFound"
| backup_done: "abandoned e w labels"
  if "map_get labels LabelRestore = []" "map_get labels LabelClusterRestore = []" "map_get labels LabelNamespace \<noteq> []"
    "ownerBackupNameFromLabels labels \<noteq> []"
    "pe_get_backup e (map_get labels LabelNamespace) (ownerBackupNameFromLabels labels) w = Inr backup"
    "m_DeletionTimestamp (b_Meta backup) = None"
    "\<And>v. List.find (\<lambda>v. Pvc v = map_get labels LabelPVC) (bs_Volumes (b_Status backup)) = Some v \<Longrightarrow> terminal_volume v"
| unowned: "abandoned e w labels"
  if "map_get labels LabelRestore = []" "map_get labels LabelClusterRestore = []" "map_get labels LabelNamespace \<noteq> []"
    "ownerBackupNameFromLabels labels = []" "pe_list_backups e (map_get labels LabelNamespace) w = Inr backups"
    "\<And>b v. b \<in> set backups \<Longrightarrow> List.find (\<lambda>v. Pvc v = map_get labels LabelPVC) (bs_Volumes (b_Status b)) = Some v \<Longrightarrow>
       terminal_volume v \<and> m_DeletionTimestamp (b_Meta b) = None"
    "\<And>b. b \<in> set backups \<Longrightarrow> List.find (\<lambda>v. Pvc v = map_get labels LabelPVC) (bs_Volumes (b_Status b)) = None \<Longrightarrow>
       bs_Phase (b_Status b) \<in> {''Completed'', ''PartiallyCompleted'', ''PartiallyFailed'', ''Failed''}"

definition old_enough :: "instant \<Rightarrow> ObjectMeta \<Rightarrow> bool" where
  "old_enough cutoff obj \<longleftrightarrow> (case m_CreationTimestamp obj of None \<Rightarrow> - seconds 62135596800 | Some t \<Rightarrow> t) \<le> cutoff"

lemma old_enough_iff: "old_enough cutoff obj \<longleftrightarrow> \<not> created_after obj cutoff"
  by (auto simp: old_enough_def created_after_def)

lemma unattributed_iff:
  "unattributedExposureOrphaned e ns pvc w = Inr True \<longleftrightarrow> pvc \<noteq> [] \<and>
     (\<exists>backups. pe_list_backups e ns w = Inr backups \<and>
       (\<forall>b v. b \<in> set backups \<longrightarrow> List.find (\<lambda>v. Pvc v = pvc) (bs_Volumes (b_Status b)) = Some v \<longrightarrow>
         terminal_volume v \<and> m_DeletionTimestamp (b_Meta b) = None) \<and>
       (\<forall>b. b \<in> set backups \<longrightarrow> List.find (\<lambda>v. Pvc v = pvc) (bs_Volumes (b_Status b)) = None \<longrightarrow>
         bs_Phase (b_Status b) \<in> {''Completed'', ''PartiallyCompleted'', ''PartiallyFailed'', ''Failed''}))"
proof -
  have "backupMayStillNeedExposure b pvc \<longleftrightarrow>
      (\<exists>v. List.find (\<lambda>v. Pvc v = pvc) (bs_Volumes (b_Status b)) = Some v \<and> \<not> (terminal_volume v \<and> m_DeletionTimestamp (b_Meta b) = None)) \<or>
      List.find (\<lambda>v. Pvc v = pvc) (bs_Volumes (b_Status b)) = None \<and>
      bs_Phase (b_Status b) \<notin> {''Completed'', ''PartiallyCompleted'', ''PartiallyFailed'', ''Failed''}" for b
    by (auto simp: backupMayStillNeedExposure_def volumePhaseTerminal_def isTerminalBackupPhase_def split: option.splits)
  then show ?thesis
    by (cases "pe_list_backups e ns w") (auto simp: unattributedExposureOrphaned_def list_ex_iff)
qed

lemma orphaned_iff:
  "orphaned e obj cutoff w = Inr True \<longleftrightarrow>
     map_get (m_Labels obj) LabelPVC \<noteq> [] \<and> \<not> created_after obj cutoff \<and> abandoned e w (m_Labels obj)"
  supply terminal = volumePhaseTerminal_def IsTerminalRestorePhase_def
proof (cases "map_get (m_Labels obj) LabelPVC = [] \<or> created_after obj cutoff")
  case True
  then show ?thesis by (auto simp: orphaned_def Let_def)
next
  case False
  let ?l = "m_Labels obj"
  show ?thesis
  proof (cases "map_get ?l LabelRestore = []")
    case no_restore: False
    then show ?thesis using False
      by (auto simp: orphaned_def restoreOrphaned_def terminal Let_def abandoned.simps split: sum.splits if_splits)
  next
    case True
    note r = this
    show ?thesis
    proof (cases "map_get ?l LabelClusterRestore = []")
      case False
      then show ?thesis using r \<open>\<not> (map_get ?l LabelPVC = [] \<or> created_after obj cutoff)\<close>
        by (auto simp: orphaned_def clusterRestoreOrphaned_def terminal Let_def abandoned.simps split: sum.splits if_splits)
    next
      case True
      show ?thesis
      proof (cases "map_get ?l LabelNamespace = [] \<or> ownerBackupNameFromLabels ?l \<noteq> []")
        case owned: True
        then show ?thesis using r True False
          by (auto simp: orphaned_def terminal Let_def abandoned.simps split: sum.splits if_splits option.splits)
      next
        case unowned: False
        then have "orphaned e obj cutoff w = unattributedExposureOrphaned e (map_get ?l LabelNamespace) (map_get ?l LabelPVC) w"
          using r True False by (simp add: orphaned_def Let_def)
        then show ?thesis using r True False unowned
          by (simp only: unattributed_iff) (simp add: abandoned.simps; blast)
      qed
    qed
  qed
qed

lemma orphaned_cases:
  obtains (failed) err where "orphaned e obj cutoff w = Inl err"
  | (spared) "orphaned e obj cutoff w = Inr False"
  | (orphan) "orphaned e obj cutoff w = Inr True" "map_get (m_Labels obj) LabelPVC \<noteq> []" "\<not> created_after obj cutoff" "abandoned e w (m_Labels obj)"
proof (cases "orphaned e obj cutoff w")
  case (Inr b)
  then show ?thesis using spared orphan orphaned_iff [of e obj cutoff w] by (cases b) auto
qed (rule failed)

section \<open>The writes a sweep may make\<close>

text \<open>
  Every rule names the listing the object comes from, with the selectors of the list request and the world \<open>w0\<close> in
  which it was made, and judges that very object, at the moment of the write: it carries a claim label, has
  reached the minimum age and is abandoned.
\<close>

definition left_over :: "('w, 'z) reaper_env_scheme \<Rightarrow> instant \<Rightarrow> 'w \<Rightarrow> ObjectMeta \<Rightarrow> bool" where
  "left_over e cutoff w obj \<longleftrightarrow> map_get (m_Labels obj) LabelPVC \<noteq> [] \<and> old_enough cutoff obj \<and> abandoned e w (m_Labels obj)"

abbreviation to_delete :: "VolumeSnapshotContent \<Rightarrow> VolumeSnapshotContent" where
  "to_delete vsc \<equiv> vsc\<lparr>vsc_deletionPolicy := Inr (Some deletionPolicyDelete)\<rparr>"

abbreviation claimed :: "('w, 'z) reaper_env_scheme \<Rightarrow> PersistentVolume \<Rightarrow> 'w \<Rightarrow> bool" where
  "claimed e pv w \<equiv> \<exists>ns name. pv_ClaimRef pv = Some (ns, name) \<and> ns \<noteq> pe_OperatorNamespace e \<and>
     pe_get_volume_name e ns name w = Inr (m_Name (pv_Meta pv))"

inductive reclaims :: "('w, 'z) reaper_env_scheme \<Rightarrow> instant \<Rightarrow> 'w \<Rightarrow> 'w \<Rightarrow> 'w \<Rightarrow> bool" for e cutoff w0 where
  leftover: "reclaims e cutoff w0 w (snd (pe_delete e kind (m_Namespace obj) (m_Name obj) True w))"
  if "kind \<in> {kindJob, kindPVC, kindSecret}"
    "pe_list e kind (Some (pe_OperatorNamespace e)) [MatchingLabels [(LabelManagedBy, ManagedByValue)], HasLabels [LabelPVC]] w0 = Inr objs"
    "obj \<in> set objs" "left_over e cutoff w obj" "m_DeletionTimestamp obj = None"
| twin: "reclaims e cutoff w0 w (snd (pe_delete e kindPV (m_Namespace (pv_Meta pv)) (m_Name (pv_Meta pv)) False w))"
  if "pe_list_pvs e [HasLabels [LabelPVRole]] w0 = Inr pvs" "pv \<in> set pvs" "map_get (m_Labels (pv_Meta pv)) LabelPVRole = PVRoleTwin"
    "left_over e cutoff w (pv_Meta pv)" "m_DeletionTimestamp (pv_Meta pv) = None"
| handback: "reclaims e cutoff w0 w (snd (pe_patch_pv e (pv\<lparr>pv_ReclaimPolicy := PersistentVolumeReclaimDelete\<rparr>) w))"
  if "pe_list_pvs e [HasLabels [LabelPVRole]] w0 = Inr pvs" "pv \<in> set pvs" "map_get (m_Labels (pv_Meta pv)) LabelPVRole = PVRoleTransplant"
    "left_over e cutoff w (pv_Meta pv)" "\<not> claimed e pv w"
| handover: "reclaims e cutoff w0 w (snd (pe_patch_pv e out w))"
  if "pe_list_pvs e [HasLabels [LabelPVRole]] w0 = Inr pvs" "pv \<in> set pvs" "map_get (m_Labels (pv_Meta pv)) LabelPVRole = PVRoleTransplant"
    "left_over e cutoff w (pv_Meta pv)" "claimed e pv w"
    "out = pv\<lparr>pv_ReclaimPolicy := classReclaimPolicy e (pv_StorageClassName pv) w, pv_Meta := (pv_Meta pv)\<lparr>m_Labels := labels\<rparr>\<rparr>"
    "\<And>k. labels k = (if HasPrefix k (Domain @ ''/'') then None else m_Labels (pv_Meta pv) k)"

inductive reclaims_snapshots :: "('w, 'z) reaper_env_scheme \<Rightarrow> instant \<Rightarrow> 'w \<Rightarrow> 'w \<Rightarrow> 'w \<Rightarrow> bool" for e cutoff w0 where
  snapshot: "reclaims_snapshots e cutoff w0 w (snd (pe_delete e kindVolumeSnapshot (m_Namespace obj) (m_Name obj) False w))"
  if "pe_list e kindVolumeSnapshot None [MatchingLabels [(LabelManagedBy, ManagedByValue)], HasLabels [LabelPVC]] w0 = Inr objs"
    "obj \<in> set objs" "left_over e cutoff w obj" "m_DeletionTimestamp obj = None"
| content: "reclaims_snapshots e cutoff w0 w
      (snd (pe_delete e kindVolumeSnapshotContent (m_Namespace (vsc_Meta vsc)) (m_Name (vsc_Meta vsc)) False w))"
  if "pe_list_contents e [MatchingLabels [(LabelManagedBy, ManagedByValue)], HasLabels [LabelPVC]] w0 = Inr vscs" "vsc \<in> set vscs"
    "left_over e cutoff w (vsc_Meta vsc)" "m_DeletionTimestamp (vsc_Meta vsc) = None"
    "IsPreProvisionedContent vsc \<or> vsc_deletionPolicy vsc = Inr (Some deletionPolicyDelete) \<or>
     (\<exists>err a. (vsc_deletionPolicy vsc = Inl err \<or> vsc_SetError vsc = Some err) \<and> api_cause err = Some a \<and> absentOK e a)"
| policy: "reclaims_snapshots e cutoff w0 w (snd (pe_patch_content e (to_delete vsc) w))"
  if "pe_list_contents e [MatchingLabels [(LabelManagedBy, ManagedByValue)], HasLabels [LabelPVC]] w0 = Inr vscs" "vsc \<in> set vscs"
    "left_over e cutoff w (vsc_Meta vsc)" "\<not> IsPreProvisionedContent vsc" "vsc_deletionPolicy vsc \<noteq> Inr (Some deletionPolicyDelete)"
| released: "reclaims_snapshots e cutoff w0 w (snd (pe_delete e kindVolumeSnapshotContent (m_Namespace obj) (m_Name obj) False w1))"
  if "pe_list_contents e [MatchingLabels [(LabelManagedBy, ManagedByValue)], HasLabels [LabelPVC]] w0 = Inr vscs" "vsc \<in> set vscs"
    "left_over e cutoff w (vsc_Meta vsc)" "\<not> IsPreProvisionedContent vsc" "vsc_deletionPolicy vsc \<noteq> Inr (Some deletionPolicyDelete)"
    "pe_patch_content e (to_delete vsc) w = (Inr fresh, w1) \<and> obj = vsc_Meta fresh \<or>
     (\<exists>err. pe_patch_content e (to_delete vsc) w = (Inl err, w1) \<and> absentOK e err \<and> obj = vsc_Meta vsc)"
    "m_DeletionTimestamp obj = None"

inductive reclaims_grants :: "('w, 'z) reaper_env_scheme \<Rightarrow> string \<Rightarrow> 'w \<Rightarrow> 'w \<Rightarrow> 'w \<Rightarrow> bool" for e kind w0 where
  grant: "reclaims_grants e kind w0 w (snd (pe_delete e kind (m_Namespace obj) (m_Name obj) False w))"
  if "pe_list e kind None [MatchingLabels [(LabelManagedBy, ManagedByValue), (LabelMoverRole, MoverRoleManifest),
        (LabelOperatorNS, pe_OperatorNamespace e)]] w0 = Inr objs" "obj \<in> set objs"
    "old_enough (pe_now e w0 - manifestBindingMinAge) obj" "m_DeletionTimestamp obj = None" "map_get (m_Labels obj) LabelMoverJob \<noteq> []"
    "case pe_get_job e (pe_OperatorNamespace e) (map_get (m_Labels obj) LabelMoverJob) w of
       Inl err \<Rightarrow> err = NotFound | Inr job \<Rightarrow> j_Succeeded job \<noteq> 0 \<or> j_Failed job \<noteq> 0"

abbreviation sweeping :: "('w \<Rightarrow> 'w \<Rightarrow> bool) \<Rightarrow> 'w reaper_state \<Rightarrow> 'w reaper_state \<Rightarrow> bool" where
  "sweeping R st st' \<equiv> R\<^sup>*\<^sup>* (pw st) (pw st')"

lemma sweeping_foldl:
  assumes "\<And>st x. x \<in> set xs \<Longrightarrow> sweeping R st (f st x)"
  shows "sweeping R st (foldl f st xs)"
  using assms
proof (induction xs arbitrary: st)
  case (Cons x xs)
  then show ?case by (metis (no_types, lifting) foldl_Cons list.set_intros rtranclp_trans)
qed simp

lemma report_outcome_world [simp]: "pw (report_outcome e kind obj b st) = pw st"
  by (simp add: report_outcome_def Let_def split: prod.split reapOutcome.split)

lemma delete_and_report_world:
  "pw (delete_and_report e kind obj del st) = (if m_DeletionTimestamp obj \<noteq> None then pw st else snd (del obj (pw st)))"
  by (auto simp: delete_and_report_def split: prod.splits option.splits)

lemma if_orphaned_world:
  assumes "left_over e cutoff (pw st) obj \<Longrightarrow> sweeping R st (reap st)"
  shows "sweeping R st (if_orphaned e kind obj cutoff reap st)"
  by (rule orphaned_cases [of e obj cutoff "pw st"]) (use assms in \<open>auto simp: if_orphaned_def left_over_def old_enough_iff\<close>)

lemma plain_reap_sweeps:
  assumes "m_DeletionTimestamp obj = None \<Longrightarrow> R (pw st) (snd (pe_delete e kind (m_Namespace obj) (m_Name obj) b (pw st)))"
  shows "sweeping R st (reapAndReport e kind obj None (delete_object e kind b) st)"
  using assms by (auto simp: reapAndReport_def delete_and_report_world)

lemma reap_native_sweeps:
  assumes "kind \<in> {kindJob, kindPVC, kindSecret}" "pe_list e kind (Some (pe_OperatorNamespace e)) [managed, has_pvc] w0 = Inr objs" "obj \<in> set objs"
  shows "sweeping (reclaims e cutoff w0) st (reap_native e cutoff kind st obj)"
  unfolding reap_native_def by (intro if_orphaned_world plain_reap_sweeps reclaims.leftover [OF assms]) auto

lemma reap_snapshot_sweeps:
  assumes "pe_list e kindVolumeSnapshot None [managed, has_pvc] w0 = Inr objs" "obj \<in> set objs"
  shows "sweeping (reclaims_snapshots e cutoff w0) st (reap_snapshot e cutoff st obj)"
  unfolding reap_snapshot_def by (intro if_orphaned_world plain_reap_sweeps reclaims_snapshots.snapshot [OF assms]) auto

text \<open>What the preparation of a content answers: nothing was written, or the policy was patched.\<close>

lemma prepare_content_cases:
  assumes "prepare_content e vsc w = ((err, obj), w1)"
  obtains (unchanged) "w1 = w" "obj = vsc_Meta vsc" "IsPreProvisionedContent vsc \<or> vsc_deletionPolicy vsc = Inr (Some deletionPolicyDelete) \<or>
      (\<exists>g x. (vsc_deletionPolicy vsc = Inl g \<or> vsc_SetError vsc = Some g) \<and> err = Some x \<and> api_cause x = api_cause g)"
  | (patched) fresh where "\<not> IsPreProvisionedContent vsc" "vsc_deletionPolicy vsc \<noteq> Inr (Some deletionPolicyDelete)"
      "pe_patch_content e (to_delete vsc) w = (Inr fresh, w1)" "obj = vsc_Meta fresh"
  | (refused) a where "\<not> IsPreProvisionedContent vsc" "vsc_deletionPolicy vsc \<noteq> Inr (Some deletionPolicyDelete)"
      "pe_patch_content e (to_delete vsc) w = (Inl a, w1)" "obj = vsc_Meta vsc" "\<exists>x. err = Some x \<and> api_cause x = Some a"
proof (cases "IsPreProvisionedContent vsc \<or> vsc_deletionPolicy vsc = Inr (Some deletionPolicyDelete)")
  case True
  then have "w1 = w" "obj = vsc_Meta vsc"
    using assms by (auto simp: prepare_content_def PrepareOrphanVolumeSnapshotContentForReclaim_def setOriginVSCToDelete_def Let_def split: if_splits)
  then show ?thesis using unchanged True by blast
next
  case no: False
  have p: "prepare_content e vsc w = (case setOriginVSCToDelete e vsc w of ((err, fresh), w) \<Rightarrow> ((err, vsc_Meta fresh), w))"
    using no by (simp add: prepare_content_def PrepareOrphanVolumeSnapshotContentForReclaim_def)
  show ?thesis
  proof (cases "vsc_deletionPolicy vsc")
    case (Inl g)
    then have "w1 = w" "obj = vsc_Meta vsc" "\<exists>x. err = Some x \<and> api_cause x = api_cause g"
      using assms p by (auto simp: setOriginVSCToDelete_def Let_def)
    then show ?thesis using unchanged Inl by blast
  next
    case (Inr dp)
    show ?thesis
    proof (cases "vsc_SetError vsc")
      case (Some g)
      then have "w1 = w" "obj = vsc_Meta vsc" "\<exists>x. err = Some x \<and> api_cause x = api_cause g"
        using assms p Inr no by (auto simp: setOriginVSCToDelete_def Let_def split: if_splits)
      then show ?thesis using unchanged Some by blast
    next
      case None
      obtain x w2 where x: "pe_patch_content e (to_delete vsc) w = (x, w2)" by (metis surj_pair)
      show ?thesis
      proof (cases x)
        case (Inl a)
        then have "w1 = w2" "obj = vsc_Meta vsc" "\<exists>y. err = Some y \<and> api_cause y = Some a"
          using assms p x Inr None no by (auto simp: setOriginVSCToDelete_def Let_def split: if_splits)
        then show ?thesis using refused no x Inl by blast
      next
        case (Inr fresh)
        then have "w1 = w2" "obj = vsc_Meta fresh"
          using assms p x \<open>vsc_deletionPolicy vsc = Inr dp\<close> None no by (auto simp: setOriginVSCToDelete_def Let_def split: if_splits)
        then show ?thesis using patched no x Inr by blast
      qed
    qed
  qed
qed

lemma reap_content_world:
  assumes "prepare_content e vsc (pw st) = ((err, obj), w1)"
  shows "pw (reapAndReport e kindVolumeSnapshotContent (vsc_Meta vsc) (Some (prepare_content e vsc)) (delete_object e kindVolumeSnapshotContent False) st) =
    (if m_DeletionTimestamp obj = None \<and> (\<forall>x. err = Some x \<longrightarrow> (\<exists>a. api_cause x = Some a \<and> absentOK e a))
     then snd (pe_delete e kindVolumeSnapshotContent (m_Namespace obj) (m_Name obj) False w1) else w1)"
  by (auto simp: reapAndReport_def assms delete_and_report_world Let_def split: option.splits)

lemma reap_content_sweeps:
  assumes l: "pe_list_contents e [managed, has_pvc] w0 = Inr vscs" "vsc \<in> set vscs"
  shows "sweeping (reclaims_snapshots e cutoff w0) st (reap_content e cutoff st vsc)"
  unfolding reap_content_def
proof (rule if_orphaned_world)
  assume o: "left_over e cutoff (pw st) (vsc_Meta vsc)"
  let ?R = "reclaims_snapshots e cutoff w0"
  obtain err obj w1 where p: "prepare_content e vsc (pw st) = ((err, obj), w1)" by (metis prod.exhaust)
  define ok where "ok \<longleftrightarrow> m_DeletionTimestamp obj = None \<and> (\<forall>x. err = Some x \<longrightarrow> (\<exists>a. api_cause x = Some a \<and> absentOK e a))"
  have "?R\<^sup>*\<^sup>* (pw st) (if ok then snd (pe_delete e kindVolumeSnapshotContent (m_Namespace obj) (m_Name obj) False w1) else w1)"
    using p
  proof (cases rule: prepare_content_cases)
    case unchanged
    have "?R (pw st) (snd (pe_delete e kindVolumeSnapshotContent (m_Namespace obj) (m_Name obj) False w1))" if ok
    proof -
      from that have t: "m_DeletionTimestamp (vsc_Meta vsc) = None" "\<And>x. err = Some x \<Longrightarrow> \<exists>a. api_cause x = Some a \<and> absentOK e a"
        using unchanged(2) by (auto simp: ok_def)
      have "IsPreProvisionedContent vsc \<or> vsc_deletionPolicy vsc = Inr (Some deletionPolicyDelete) \<or>
          (\<exists>err a. (vsc_deletionPolicy vsc = Inl err \<or> vsc_SetError vsc = Some err) \<and> api_cause err = Some a \<and> absentOK e a)"
        using unchanged(3) t(2) by metis
      from reclaims_snapshots.content [OF l o t(1) this] show ?thesis unfolding unchanged(1,2) .
    qed
    then show ?thesis using unchanged(1) by auto
  next
    case (patched fresh)
    have "?R (pw st) w1" using reclaims_snapshots.policy [OF l o patched(1,2)] patched(3) by simp
    moreover have "?R (pw st) (snd (pe_delete e kindVolumeSnapshotContent (m_Namespace obj) (m_Name obj) False w1))" if ok
      using that patched(3,4) by (intro reclaims_snapshots.released [OF l o patched(1,2)]) (auto simp: ok_def)
    ultimately show ?thesis by auto
  next
    case (refused a)
    have "?R (pw st) w1" using reclaims_snapshots.policy [OF l o refused(1,2)] refused(3) by simp
    moreover have "?R (pw st) (snd (pe_delete e kindVolumeSnapshotContent (m_Namespace obj) (m_Name obj) False w1))" if ok
      using that refused(3-5) by (intro reclaims_snapshots.released [OF l o refused(1,2)]) (auto simp: ok_def)
    ultimately show ?thesis by auto
  qed
  then show "sweeping ?R st (reapAndReport e kindVolumeSnapshotContent (vsc_Meta vsc) (Some (prepare_content e vsc))
      (delete_object e kindVolumeSnapshotContent False) st)"
    unfolding reap_content_world [OF p] ok_def .
qed

lemma reapSnapshotObjects_sweeps: "sweeping (reclaims_snapshots e cutoff (pw st)) st (reapSnapshotObjects e cutoff st)"
proof (cases "pe_list_contents e [managed, has_pvc] (pw st)"; cases "pe_list e kindVolumeSnapshot None [managed, has_pvc] (pw st)")
  fix vscs vss assume l: "pe_list_contents e [managed, has_pvc] (pw st) = Inr vscs" "pe_list e kindVolumeSnapshot None [managed, has_pvc] (pw st) = Inr vss"
  let ?R = "reclaims_snapshots e cutoff (pw st)"
  have "sweeping ?R s (foldl (reap_content e cutoff) s (filter P vscs))" for s P
    by (rule sweeping_foldl, rule reap_content_sweeps [OF l(1)]) simp
  moreover have "sweeping ?R s (foldl (reap_snapshot e cutoff) s vss)" for s
    by (rule sweeping_foldl, rule reap_snapshot_sweeps [OF l(2)])
  ultimately have "sweeping ?R st (foldl (reap_content e cutoff) (foldl (reap_snapshot e cutoff)
      (foldl (reap_content e cutoff) st (filter P vscs)) vss) (filter Q vscs))" for P Q
    by (meson rtranclp_trans)
  then show ?thesis by (simp add: reapSnapshotObjects_def l Let_def)
qed (simp_all add: reapSnapshotObjects_def Let_def)

lemma reap_bindings_sweeps: "sweeping (reclaims_grants e kind (pw st)) st (reap_bindings e kind st)"
proof (cases "pe_list e kind None [MatchingLabels [(LabelManagedBy, ManagedByValue), (LabelMoverRole, MoverRoleManifest),
             (LabelOperatorNS, pe_OperatorNamespace e)]] (pw st)")
  case (Inl err)
  then show ?thesis by (simp add: reap_bindings_def)
next
  case (Inr objs)
  let ?R = "reclaims_grants e kind (pw st)" and ?cutoff = "pe_now e (pw st) - manifestBindingMinAge"
  have "sweeping ?R s (reap_binding e kind ?cutoff s obj)" if o: "obj \<in> set objs" for s obj
  proof -
    have "sweeping ?R s (reapAndReport e kind obj None (delete_object e kind False) s)"
      if "\<not> created_after obj ?cutoff" "map_get (m_Labels obj) LabelMoverJob \<noteq> []"
        "case pe_get_job e (pe_OperatorNamespace e) (map_get (m_Labels obj) LabelMoverJob) (pw s) of
           Inl err \<Rightarrow> err = NotFound | Inr job \<Rightarrow> j_Succeeded job \<noteq> 0 \<or> j_Failed job \<noteq> 0"
      by (rule plain_reap_sweeps, rule reclaims_grants.grant [OF Inr o _ _ that(2,3)]) (use that in \<open>simp_all add: old_enough_iff\<close>)
    then show ?thesis by (auto simp: reap_binding_def Let_def split: sum.splits)
  qed
  from sweeping_foldl [OF this] show ?thesis using Inr by (simp add: reap_bindings_def)
qed

lemma delivered_claimed: "delivered e pv w \<longleftrightarrow> claimed e pv w"
  by (auto simp: delivered_def split: option.splits)

lemma reap_transplant_sweeps:
  assumes "pe_list_pvs e [HasLabels [LabelPVRole]] w0 = Inr pvs" "pv \<in> set pvs" "map_get (m_Labels (pv_Meta pv)) LabelPVRole = PVRoleTransplant"
    "left_over e cutoff (pw st) (pv_Meta pv)"
  shows "sweeping (reclaims e cutoff w0) st (reap_transplant e pv st)"
proof (cases "delivered e pv (pw st)")
  case True
  then have "pw (reap_transplant e pv st) = snd (pe_patch_pv e (handed_over e pv (pw st)) (pw st))"
    by (auto simp: reap_transplant_def Let_def split: prod.splits option.splits)
  moreover have "reclaims e cutoff w0 (pw st) (snd (pe_patch_pv e (handed_over e pv (pw st)) (pw st)))"
    by (rule reclaims.handover [OF assms True [unfolded delivered_claimed], of _ "strip_domain (m_Labels (pv_Meta pv))"])
      (simp_all add: handed_over_def strip_domain_def)
  ultimately show ?thesis by auto
next
  case False
  then have "pw (reap_transplant e pv st) \<in> {pw st, snd (pe_patch_pv e (pv\<lparr>pv_ReclaimPolicy := PersistentVolumeReclaimDelete\<rparr>) (pw st))}"
    by (auto simp: reap_transplant_def Let_def split: prod.splits option.splits)
  then show ?thesis using reclaims.handback [OF assms False [unfolded delivered_claimed]] by auto
qed

lemma reapRestorePV_sweeps:
  assumes l: "pe_list_pvs e [HasLabels [LabelPVRole]] w0 = Inr pvs" "pv \<in> set pvs"
  shows "sweeping (reclaims e cutoff w0) st (reapRestorePV e cutoff st pv)"
proof -
  have twin: "sweeping (reclaims e cutoff w0) st (reapAndReport e kindPV (pv_Meta pv) None (delete_object e kindPV False) st)"
    if "left_over e cutoff (pw st) (pv_Meta pv)" "map_get (m_Labels (pv_Meta pv)) LabelPVRole = PVRoleTwin"
    using that by (intro plain_reap_sweeps reclaims.twin [OF l])
  show ?thesis unfolding reapRestorePV_def
    by (rule if_orphaned_world) (use twin reap_transplant_sweeps [OF l] in \<open>auto simp: Let_def\<close>)
qed

lemma sweepOnce_cases:
  obtains (refused) err where "sweepOnce e st = (Some err, st\<lparr>ptally := newReapTally\<rparr>)"
  | (swept) jobs pvcs secrets pvs st1 st2 st3 st4 st0 cutoff where
      "st0 = st\<lparr>ptally := newReapTally\<rparr>" "cutoff = pe_now e (pw st) - pe_MinAge e"
      "pe_list e kindJob (Some (pe_OperatorNamespace e)) [managed, has_pvc] (pw st) = Inr jobs"
      "pe_list e kindPVC (Some (pe_OperatorNamespace e)) [managed, has_pvc] (pw st) = Inr pvcs"
      "pe_list e kindSecret (Some (pe_OperatorNamespace e)) [managed, has_pvc] (pw st) = Inr secrets"
      "pe_list_pvs e [HasLabels [LabelPVRole]] (pw st) = Inr pvs"
      "st1 = foldl (reapRestorePV e cutoff) (foldl (reap_native e cutoff kindSecret) (foldl (reap_native e cutoff kindPVC)
        (foldl (reap_native e cutoff kindJob) st0 jobs) pvcs) secrets) pvs"
      "st2 = reapSnapshotObjects e cutoff st1" "st3 = reapManifestBindings e st2" "st4 = reapClusterManifestBindings e st3"
      "sweepOnce e st = (None, st4\<lparr>pgauge := publish (ptally st4) (pgauge st4)\<rparr>)"
proof -
  let ?native = "\<lambda>kind. pe_list e kind (Some (pe_OperatorNamespace e)) [managed, has_pvc] (pw st)"
  show ?thesis
  proof (cases "isl (?native kindJob) \<or> isl (?native kindPVC) \<or> isl (?native kindSecret) \<or> isl (pe_list_pvs e [HasLabels [LabelPVRole]] (pw st))")
    case True
    then have "\<exists>err. sweepOnce e st = (Some err, st\<lparr>ptally := newReapTally\<rparr>)"
      by (auto simp: sweepOnce_def isl_def Let_def split: sum.split)
    then show ?thesis using refused by blast
  next
    case False
    then obtain jobs pvcs secrets pvs where l: "?native kindJob = Inr jobs" "?native kindPVC = Inr pvcs" "?native kindSecret = Inr secrets"
      "pe_list_pvs e [HasLabels [LabelPVRole]] (pw st) = Inr pvs"
      by (metis sum.collapse(2))
    show ?thesis by (rule swept [OF refl refl l refl refl refl refl]) (simp add: sweepOnce_def l Let_def)
  qed
qed


section \<open>What belongs to a live owner\<close>

lemma exposure_owner:
  "map_get (exposureLabels backup pvc) LabelPVC = pvc" "map_get (exposureLabels backup pvc) LabelNamespace = m_Namespace (b_Meta backup)"
  "map_get (exposureLabels backup pvc) LabelRestore = []" "map_get (exposureLabels backup pvc) LabelClusterRestore = []"
  "m_Name (b_Meta backup) \<noteq> [] \<Longrightarrow> ownerBackupNameFromLabels (exposureLabels backup pvc) = m_Name (b_Meta backup)"
  by (simp_all add: exposureLabels_def ownerBackupNameFromLabels_def map_get_def Let_def)

lemma if_orphaned_spared: "orphaned e obj cutoff (pw st) = Inr False \<Longrightarrow> if_orphaned e kind obj cutoff reap st = st"
  by (simp add: if_orphaned_def)

text \<open>
  The objects of an exposure: they carry at least the labels the Backup stamps, as a mover Job does with one more of its
  own, and are not a restore's. The reaper with these objects taken out of everything it lists.
\<close>

definition exposed_by :: "Backup \<Rightarrow> string \<Rightarrow> ObjectMeta \<Rightarrow> bool" where
  "exposed_by backup pvc obj \<longleftrightarrow> exposureLabels backup pvc \<subseteq>\<^sub>m m_Labels obj \<and>
     map_get (m_Labels obj) LabelRestore = [] \<and> map_get (m_Labels obj) LabelClusterRestore = []"

definition unlisted :: "(ObjectMeta \<Rightarrow> bool) \<Rightarrow> ('w, 'z) reaper_env_scheme \<Rightarrow> ('w, 'z) reaper_env_scheme" where
  "unlisted P e =
     e\<lparr>pe_list := (\<lambda>kind ns sel w. map_sum id (filter (\<lambda>obj. kind \<in> {kindJob, kindPVC, kindSecret, kindVolumeSnapshot} \<longrightarrow> \<not> P obj)) (pe_list e kind ns sel w)),
       pe_list_pvs := (\<lambda>sel w. map_sum id (filter (\<lambda>pv. \<not> P (pv_Meta pv))) (pe_list_pvs e sel w)),
       pe_list_contents := (\<lambda>sel w. map_sum id (filter (\<lambda>vsc. \<not> P (vsc_Meta vsc))) (pe_list_contents e sel w))\<rparr>"

lemma unlisted_lists:
  "pe_list (unlisted P e) kind ns sel w =
     map_sum id (filter (\<lambda>obj. kind \<in> {kindJob, kindPVC, kindSecret, kindVolumeSnapshot} \<longrightarrow> \<not> P obj)) (pe_list e kind ns sel w)"
  "pe_list_pvs (unlisted P e) sel w = map_sum id (filter (\<lambda>pv. \<not> P (pv_Meta pv))) (pe_list_pvs e sel w)"
  "pe_list_contents (unlisted P e) sel w = map_sum id (filter (\<lambda>vsc. \<not> P (vsc_Meta vsc))) (pe_list_contents e sel w)"
  by (simp_all add: unlisted_def)

lemma unlisted_frame [simp]:
  "pe_OperatorNamespace (unlisted P e) = pe_OperatorNamespace e" "pe_now (unlisted P e) = pe_now e" "pe_MinAge (unlisted P e) = pe_MinAge e"
  "pe_IsNoMatchError (unlisted P e) = pe_IsNoMatchError e" "pe_Recorder (unlisted P e) = pe_Recorder e" "pe_get (unlisted P e) = pe_get e"
  "pe_APIReader (unlisted P e) = pe_APIReader e" "pe_list_backups (unlisted P e) = pe_list_backups e" "pe_get_backup (unlisted P e) = pe_get_backup e"
  "pe_get_restore (unlisted P e) = pe_get_restore e" "pe_get_cluster_restore (unlisted P e) = pe_get_cluster_restore e"
  "pe_get_job (unlisted P e) = pe_get_job e" "pe_get_volume_name (unlisted P e) = pe_get_volume_name e"
  "pe_get_class_policy (unlisted P e) = pe_get_class_policy e" "pe_delete (unlisted P e) = pe_delete e" "pe_patch_pv (unlisted P e) = pe_patch_pv e"
  "pe_patch_content (unlisted P e) = pe_patch_content e"
  by (simp_all add: unlisted_def)

text \<open>What happens to one object does not depend on the lists.\<close>

lemma unlisted_orphaned [simp]: "orphaned (unlisted P e) obj cutoff w = orphaned e obj cutoff w"
  unfolding orphaned_def restoreOrphaned_def clusterRestoreOrphaned_def unattributedExposureOrphaned_def unlisted_frame ..

lemma unlisted_if_orphaned [simp]: "if_orphaned (unlisted P e) kind obj cutoff = if_orphaned e kind obj cutoff"
  by (intro ext) (simp add: if_orphaned_def)

lemma unlisted_reapAndReport [simp]:
  "reapAndReport (unlisted P e) kind obj prep del = reapAndReport e kind obj prep del"
  by (intro ext) (unfold reapAndReport_def delete_and_report_def report_outcome_def confirmReap_def absentOK_def unlisted_frame, rule refl)

lemma unlisted_steps [simp]:
  "reap_native (unlisted P e) cutoff kind = reap_native e cutoff kind" "reap_snapshot (unlisted P e) cutoff = reap_snapshot e cutoff"
  "reap_content (unlisted P e) cutoff = reap_content e cutoff" "reapRestorePV (unlisted P e) cutoff = reapRestorePV e cutoff"
  "reap_binding (unlisted P e) kind cutoff = reap_binding e kind cutoff"
proof -
  have c: "prepare_content (unlisted P e) vsc = prepare_content e vsc" for vsc
    by (intro ext) (unfold prepare_content_def PrepareOrphanVolumeSnapshotContentForReclaim_def setOriginVSCToDelete_def unlisted_frame, rule refl)
  have t: "reap_transplant (unlisted P e) pv = reap_transplant e pv" for pv
    by (intro ext) (unfold reap_transplant_def delivered_def handed_over_def classReclaimPolicy_def unlisted_frame, rule refl)
  note step = unlisted_frame unlisted_if_orphaned unlisted_reapAndReport c t
  show "reap_native (unlisted P e) cutoff kind = reap_native e cutoff kind" "reap_snapshot (unlisted P e) cutoff = reap_snapshot e cutoff"
    "reap_content (unlisted P e) cutoff = reap_content e cutoff" "reapRestorePV (unlisted P e) cutoff = reapRestorePV e cutoff"
    "reap_binding (unlisted P e) kind cutoff = reap_binding e kind cutoff"
    by (intro ext; unfold reap_native_def reap_snapshot_def reap_content_def reapRestorePV_def reap_binding_def step; rule refl)+
qed

lemma foldl_spared:
  assumes "\<And>st x. \<not> P x \<Longrightarrow> f st x = st"
  shows "foldl f st (filter P xs) = foldl f st xs"
  using assms by (induction xs arbitrary: st) auto

lemma unlisted_sweep:
  assumes "\<And>obj w. P obj \<Longrightarrow> orphaned e obj (pe_now e (pw st) - pe_MinAge e) w = Inr False"
  shows "sweepOnce (unlisted P e) st = sweepOnce e st"
proof -
  define cutoff where "cutoff = pe_now e (pw st) - pe_MinAge e"
  have spared: "P obj \<Longrightarrow> if_orphaned e kind obj cutoff reap s = s" for obj kind reap s
    using assms [of obj "pw s"] by (simp add: if_orphaned_spared cutoff_def)
  have n: "foldl (reap_native e cutoff kind) s (filter (\<lambda>obj. b \<longrightarrow> \<not> P obj) xs) = foldl (reap_native e cutoff kind) s xs" for b kind s xs
    by (rule foldl_spared) (simp add: reap_native_def spared)
  have v: "foldl (reapRestorePV e cutoff) s (filter (\<lambda>pv. \<not> P (pv_Meta pv)) xs) = foldl (reapRestorePV e cutoff) s xs" for s xs
    by (rule foldl_spared) (simp add: reapRestorePV_def spared)
  have sn: "foldl (reap_snapshot e cutoff) s (filter (\<lambda>obj. b \<longrightarrow> \<not> P obj) xs) = foldl (reap_snapshot e cutoff) s xs" for b s xs
    by (rule foldl_spared) (simp add: reap_snapshot_def spared)
  have c: "foldl (reap_content e cutoff) s (filter Q (filter (\<lambda>vsc. \<not> P (vsc_Meta vsc)) xs)) = foldl (reap_content e cutoff) s (filter Q xs)" for s Q xs
  proof -
    have swap: "filter Q (filter (\<lambda>vsc. \<not> P (vsc_Meta vsc)) xs) = filter (\<lambda>vsc. \<not> P (vsc_Meta vsc)) (filter Q xs)" by (induction xs) auto
    show ?thesis unfolding swap by (rule foldl_spared) (simp add: reap_content_def spared)
  qed
  have snaps: "reapSnapshotObjects (unlisted P e) cutoff s = reapSnapshotObjects e cutoff s" for s
    by (cases "pe_list_contents e [managed, has_pvc] (pw s)"; cases "pe_list e kindVolumeSnapshot None [managed, has_pvc] (pw s)")
      (simp_all only: reapSnapshotObjects_def unlisted_lists Let_def map_sum.simps sum.case unlisted_steps unlisted_frame c sn id_apply)
  have bind: "reap_bindings (unlisted P e) kind s = reap_bindings e kind s" if "kind \<in> {kindRoleBinding, kindClusterRoleBinding}" for kind s
    using that by (auto simp: reap_bindings_def unlisted_lists split: sum.split)
  show ?thesis
  proof (cases rule: sweepOnce_cases [of e st])
    case (refused err)
    then show ?thesis
      by (auto simp: sweepOnce_def unlisted_lists Let_def split: sum.splits)
  next
    case (swept jobs pvcs secrets pvs st1 st2 st3 st4 st0 c)
    have "c = cutoff" by (simp add: swept(2) cutoff_def)
    then show ?thesis unfolding swept(11)
      by (simp add: sweepOnce_def unlisted_lists Let_def swept(3-6) del: filter.simps)
        (simp only: swept(1,2,7-10) cutoff_def [symmetric] unlisted_steps n [of _ _ True, unfolded simp_thms] v snaps bind
          reapManifestBindings_def reapClusterManifestBindings_def insert_iff simp_thms)
  qed
qed

text \<open>
  C16: what a Backup is still using is left exactly as it is. As long as the Backup that exposed a claim exists and
  either its own finalizer is at work or the claim's volume has not reached a terminal phase, a whole sweep does, writes and reports
  exactly what it would if no Job, claim, Secret, volume, snapshot or content carrying the labels of that exposure were
  listed at all, however old they are. So none of them is deleted, patched or even reported.
\<close>

theorem live_exposure_is_spared:
  assumes "m_Name (b_Meta backup) \<noteq> []"
    and "\<And>w. \<exists>now. pe_get_backup e (m_Namespace (b_Meta backup)) (m_Name (b_Meta backup)) w = Inr now \<and>
      (m_DeletionTimestamp (b_Meta now) \<noteq> None \<or>
       (\<exists>v. List.find (\<lambda>v. Pvc v = pvc) (bs_Volumes (b_Status now)) = Some v \<and> \<not> terminal_volume v))"
  shows "sweepOnce (unlisted (exposed_by backup pvc) e) st = sweepOnce e st"
proof (rule unlisted_sweep)
  fix obj w
  assume x: "exposed_by backup pvc obj"
  have l: "map_get (m_Labels obj) k = v" if "exposureLabels backup pvc k = Some v" for k v
    using x that by (auto simp: exposed_by_def map_le_def map_get_def dom_def)
  have "map_get (m_Labels obj) LabelBackup = m_Name (b_Meta backup)" "map_get (m_Labels obj) LabelNamespace = m_Namespace (b_Meta backup)"
    "map_get (m_Labels obj) LabelPVC = pvc"
    by (rule l; simp add: exposureLabels_def Let_def)+
  then show "orphaned e obj (pe_now e (pw st) - pe_MinAge e) w = Inr False"
    using assms(2) [of w] assms(1) x
    by (auto simp: orphaned_def exposed_by_def ownerBackupNameFromLabels_def volumePhaseTerminal_def Let_def)
qed

section \<open>What is reported\<close>

definition gone :: "('w, 'z) reaper_env_scheme \<Rightarrow> string \<Rightarrow> ObjectMeta \<Rightarrow> 'w \<Rightarrow> bool" where
  "gone e kind obj w \<longleftrightarrow>
     (case (case pe_APIReader e of None \<Rightarrow> pe_get e | Some r \<Rightarrow> r) kind (m_Namespace obj) (m_Name obj) w of
        Inl err \<Rightarrow> absentOK e err
      | Inr probe \<Rightarrow> m_UID obj \<noteq> [] \<and> m_UID probe \<noteq> [] \<and> m_UID probe \<noteq> m_UID obj)"

lemma confirmReap_gone: "confirmReap e kind obj w = (reapConfirmedGone, x) \<Longrightarrow> gone e kind obj w"
  by (auto simp: confirmReap_def gone_def Let_def split: sum.splits if_splits)

fun stuck_of :: "string \<Rightarrow> reap_report \<Rightarrow> bool" where
  "stuck_of kind (Stuck k ns name fin b) \<longleftrightarrow> k = kind"
| "stuck_of kind _ \<longleftrightarrow> False"

abbreviation stuck_count :: "string \<Rightarrow> reap_report list \<Rightarrow> int" where
  "stuck_count kind rs \<equiv> int (length (filter (stuck_of kind) rs))"

definition tallied_as :: "reapTally \<Rightarrow> string \<Rightarrow> int" where
  "tallied_as t kind = (case t kind of None \<Rightarrow> 0 | Some n \<Rightarrow> n)"

text \<open>The reports a stretch of a sweep adds: each reap was confirmed, and the tally grew by what was stuck.\<close>

definition accounted :: "('w, 'z) reaper_env_scheme \<Rightarrow> 'w reaper_state \<Rightarrow> 'w reaper_state \<Rightarrow> bool" where
  "accounted e st st' \<longleftrightarrow>
     (\<exists>new. preports st' = preports st @ new \<and> pgauge st' = pgauge st \<and>
        (\<forall>t. ptally st = Some t \<longrightarrow> (\<exists>t'. ptally st' = Some t' \<and> (\<forall>kind. tallied_as t' kind = tallied_as t kind + stuck_count kind new))) \<and>
        (\<forall>kind ns name. Reaped kind ns name \<in> set new \<longrightarrow>
          (\<exists>obj w. m_Namespace obj = ns \<and> m_Name obj = name \<and> gone e kind obj w)))"

lemma accounted_refl: "accounted e st (st\<lparr>pw := w\<rparr>)" "accounted e st st"
  by (auto simp: accounted_def)

lemma accounted_trans:
  assumes "accounted e st st1" "accounted e st1 st2"
  shows "accounted e st st2"
proof -
  from assms(1) obtain n1 where 1: "preports st1 = preports st @ n1" "pgauge st1 = pgauge st"
    "\<And>t. ptally st = Some t \<Longrightarrow> \<exists>t'. ptally st1 = Some t' \<and> (\<forall>kind. tallied_as t' kind = tallied_as t kind + stuck_count kind n1)"
    "\<And>kind ns name. Reaped kind ns name \<in> set n1 \<Longrightarrow> \<exists>obj w. m_Namespace obj = ns \<and> m_Name obj = name \<and> gone e kind obj w"
    unfolding accounted_def by blast
  from assms(2) obtain n2 where 2: "preports st2 = preports st1 @ n2" "pgauge st2 = pgauge st1"
    "\<And>t. ptally st1 = Some t \<Longrightarrow> \<exists>t'. ptally st2 = Some t' \<and> (\<forall>kind. tallied_as t' kind = tallied_as t kind + stuck_count kind n2)"
    "\<And>kind ns name. Reaped kind ns name \<in> set n2 \<Longrightarrow> \<exists>obj w. m_Namespace obj = ns \<and> m_Name obj = name \<and> gone e kind obj w"
    unfolding accounted_def by blast
  have "\<exists>t'. ptally st2 = Some t' \<and> (\<forall>kind. tallied_as t' kind = tallied_as t kind + stuck_count kind (n1 @ n2))" if t: "ptally st = Some t" for t
  proof -
    from 1(3) [OF t] obtain t1 where t1: "ptally st1 = Some t1" "\<forall>kind. tallied_as t1 kind = tallied_as t kind + stuck_count kind n1" by blast
    from 2(3) [OF t1(1)] t1(2) show ?thesis by auto
  qed
  then show ?thesis unfolding accounted_def using 1 2 by (intro exI [of _ "n1 @ n2"]) auto
qed

fun plain :: "reap_report \<Rightarrow> bool" where
  "plain (Stuck k ns name fin b) \<longleftrightarrow> False"
| "plain (Reaped k ns name) \<longleftrightarrow> False"
| "plain _ \<longleftrightarrow> True"

lemma accounted_plain:
  assumes "plain r"
  shows "accounted e st (st\<lparr>preports := preports st @ [r]\<rparr>)" "accounted e st (st\<lparr>pw := w, preports := preports st @ [r]\<rparr>)"
proof -
  have "\<not> stuck_of kind r" "Reaped kind ns name \<noteq> r" for kind ns name using assms by (cases r; simp)+
  then show "accounted e st (st\<lparr>preports := preports st @ [r]\<rparr>)" "accounted e st (st\<lparr>pw := w, preports := preports st @ [r]\<rparr>)"
    unfolding accounted_def by (auto intro!: exI [of _ "[r]"])
qed

lemma accounted_foldl: "(\<And>st x. accounted e st (f st x)) \<Longrightarrow> accounted e st (foldl f st xs)"
  by (induction xs arbitrary: st) (auto intro: accounted_refl accounted_trans)

lemma report_outcome_accounted: "accounted e st (report_outcome e kind obj b (st\<lparr>pw := w\<rparr>))"
proof -
  obtain o_c fin err where c: "confirmReap e kind obj w = (o_c, fin, err)" by (metis prod_cases3)
  show ?thesis
  proof (cases o_c)
    case reapConfirmedGone
    from confirmReap_gone c reapConfirmedGone have g: "gone e kind obj w" by metis
    then show ?thesis unfolding accounted_def report_outcome_def
      by (intro exI [of _ "[Reaped kind (m_Namespace obj) (m_Name obj)]"]) (auto simp: c reapConfirmedGone)
  next
    case reapStuck
    have "accounted e st (report (Stuck kind (m_Namespace obj) (m_Name obj) fin b) (st\<lparr>pw := w, ptally := markStuck kind (ptally st)\<rparr>))"
      unfolding accounted_def by (intro exI [of _ "[Stuck kind (m_Namespace obj) (m_Name obj) fin b]"])
        (auto simp: markStuck_def tallied_as_def)
    note stuck = this
    show ?thesis
    proof (cases "pe_Recorder e")
      case True
      then show ?thesis using accounted_trans [OF stuck accounted_plain(1) [of "StuckEvent kind (m_Namespace obj) (m_Name obj) fin"]]
        unfolding report_outcome_def by (simp add: c reapStuck Let_def)
    qed (use stuck in \<open>simp add: report_outcome_def c reapStuck Let_def\<close>)
  next
    case reapRequested
    then show ?thesis unfolding report_outcome_def by (auto simp: c intro: accounted_plain accounted_refl)
  qed
qed

lemma delete_and_report_accounted: "accounted e st (delete_and_report e kind obj del (st\<lparr>pw := w\<rparr>))"
proof -
  obtain res w' where d: "del obj w = (res, w')" by (metis surj_pair)
  show ?thesis using report_outcome_accounted [of e st kind obj] unfolding delete_and_report_def
    by (auto simp: d split: option.split intro: accounted_plain accounted_refl)
qed

lemma reapAndReport_accounted: "accounted e st (reapAndReport e kind obj prep del st)"
proof -
  obtain perr obj' w where p: "(case prep of None \<Rightarrow> ((None, obj), pw st) | Some f \<Rightarrow> f (pw st)) = ((perr, obj'), w)" by (metis prod.exhaust)
  show ?thesis unfolding reapAndReport_def p using delete_and_report_accounted [of e st kind obj' del w]
    by (auto simp: Let_def split: option.split intro: accounted_plain accounted_refl)
qed

lemma if_orphaned_accounted: "(\<And>st. accounted e st (reap st)) \<Longrightarrow> accounted e st (if_orphaned e kind obj cutoff reap st)"
  unfolding if_orphaned_def by (auto split: sum.split bool.split intro: accounted_plain accounted_refl)

lemma sub_sweeps_accounted:
  "accounted e st (reap_native e cutoff kind st obj)" "accounted e st (reap_content e cutoff st vsc)"
  "accounted e st (reap_snapshot e cutoff st obj)" "accounted e st (reap_binding e kind cutoff st obj)"
  "accounted e st (reapRestorePV e cutoff st pv)"
proof -
  have pv: "accounted e st (reap_transplant e pv st)" for st
    unfolding reap_transplant_def Let_def by (auto split: prod.split option.split intro: accounted_plain accounted_refl)
  show "accounted e st (reap_native e cutoff kind st obj)" "accounted e st (reap_content e cutoff st vsc)"
    "accounted e st (reap_snapshot e cutoff st obj)" "accounted e st (reapRestorePV e cutoff st pv)"
    unfolding reap_native_def reap_content_def reap_snapshot_def reapRestorePV_def Let_def
    by (auto intro!: if_orphaned_accounted reapAndReport_accounted intro: pv accounted_refl)
  show "accounted e st (reap_binding e kind cutoff st obj)" unfolding reap_binding_def Let_def
    by (auto split: sum.split intro: accounted_plain accounted_refl reapAndReport_accounted)
qed

lemma reapSnapshotObjects_accounted: "accounted e st (reapSnapshotObjects e cutoff st)"
proof -
  have "accounted e st (foldl (reap_content e cutoff) (foldl (reap_snapshot e cutoff) (foldl (reap_content e cutoff) st xs) ys) zs)" for xs ys zs
    by (intro accounted_trans [OF accounted_foldl accounted_trans [OF accounted_foldl accounted_foldl]] sub_sweeps_accounted)
  then show ?thesis unfolding reapSnapshotObjects_def Let_def
    by (auto split: sum.split intro: accounted_plain accounted_refl)
qed

lemma reap_bindings_accounted: "accounted e st (reap_bindings e kind st)"
  unfolding reap_bindings_def
  by (auto split: sum.split intro: accounted_plain accounted_refl intro!: accounted_foldl sub_sweeps_accounted)

text \<open>
  A sweep does not claim what it did not verify. Each object a sweep reports as reaped was
  read back afterwards and found absent, or under another identity. A sweep that completes publishes,
  for each kind, exactly the number of objects it reported stuck, zero included; one that could not list what
  it sweeps publishes nothing and leaves the gauge as it was.
\<close>

theorem sweep_reports_are_true:
  assumes s: "sweepOnce e st = (failed, st')"
  shows "\<exists>new. preports st' = preports st @ new \<and>
    (\<forall>kind ns name. Reaped kind ns name \<in> set new \<longrightarrow> (\<exists>obj w. m_Namespace obj = ns \<and> m_Name obj = name \<and> gone e kind obj w)) \<and>
    (failed = None \<longrightarrow> (\<forall>kind \<in> set orphanReapStuckKinds. pgauge st' kind = Some (stuck_count kind new))) \<and>
    (failed \<noteq> None \<longrightarrow> pgauge st' = pgauge st)"
proof (cases failed)
  case (Some err)
  then have "preports st' = preports st" "pgauge st' = pgauge st"
    using s by (auto simp: sweepOnce_def Let_def split: sum.splits)
  then show ?thesis using Some by (intro exI [of _ "[]"]) simp
next
  case None
  define st0 where "st0 = st\<lparr>ptally := newReapTally\<rparr>"
  obtain cutoff jobs pvcs secrets vols where st': "st' = (let s = reapClusterManifestBindings e (reapManifestBindings e (reapSnapshotObjects e cutoff
      (foldl (reapRestorePV e cutoff) (foldl (reap_native e cutoff kindSecret) (foldl (reap_native e cutoff kindPVC)
        (foldl (reap_native e cutoff kindJob) st0 jobs) pvcs) secrets) vols))) in s\<lparr>pgauge := publish (ptally s) (pgauge s)\<rparr>)"
    using s None unfolding sweepOnce_def Let_def st0_def by (auto split: sum.splits)
  define s1 where "s1 = reapClusterManifestBindings e (reapManifestBindings e (reapSnapshotObjects e cutoff
      (foldl (reapRestorePV e cutoff) (foldl (reap_native e cutoff kindSecret) (foldl (reap_native e cutoff kindPVC)
        (foldl (reap_native e cutoff kindJob) st0 jobs) pvcs) secrets) vols)))"
  have "accounted e st0 s1"
    unfolding s1_def reapClusterManifestBindings_def reapManifestBindings_def
    by (rule accounted_trans [OF accounted_foldl accounted_trans [OF accounted_foldl accounted_trans [OF accounted_foldl
          accounted_trans [OF accounted_foldl accounted_trans [OF reapSnapshotObjects_accounted
            accounted_trans [OF reap_bindings_accounted reap_bindings_accounted]]]]]]) (rule sub_sweeps_accounted)+
  then obtain new t where n: "preports s1 = preports st @ new" and t: "ptally s1 = Some t" "\<And>kind. tallied_as t kind = stuck_count kind new"
    and r: "\<forall>kind ns name. Reaped kind ns name \<in> set new \<longrightarrow> (\<exists>obj w. m_Namespace obj = ns \<and> m_Name obj = name \<and> gone e kind obj w)"
    by (auto simp: accounted_def st0_def newReapTally_def tallied_as_def)
  have "st' = s1\<lparr>pgauge := publish (ptally s1) (pgauge s1)\<rparr>" unfolding st' s1_def [symmetric] by simp
  then have "preports st' = preports st @ new" "\<And>kind. kind \<in> set orphanReapStuckKinds \<Longrightarrow> pgauge st' kind = Some (stuck_count kind new)"
    using n t(2) by (simp_all add: publish_def t(1) SetOrphanReapStuck_def tallied_as_def [symmetric])
  with r None show ?thesis by (intro exI [of _ new]) simp
qed

section \<open>Delivered volumes\<close>

text \<open>
  A delivered volume is never handed back for reclamation. When the claim a transplanted volume was made
  for is bound to it outside the operator's namespace, the only thing a sweep can do to the volume is to
  finish the handover: the reclaim policy becomes that of its storage class and every label of the operator's is
  removed, so that no later sweep selects it.
\<close>

theorem delivered_volume_is_kept:
  assumes "delivered e pv (pw st)" and "map_get (m_Labels (pv_Meta pv)) LabelPVRole = PVRoleTransplant"
  shows "pw (reapRestorePV e cutoff st pv) \<in> {pw st, snd (pe_patch_pv e (handed_over e pv (pw st)) (pw st))} \<and>
    pv_ReclaimPolicy (handed_over e pv (pw st)) = classReclaimPolicy e (pv_StorageClassName pv) (pw st) \<and>
    m_Labels (pv_Meta (handed_over e pv (pw st))) LabelPVRole = None \<and>
    m_Name (pv_Meta (handed_over e pv (pw st))) = m_Name (pv_Meta pv)"
proof -
  have "pw (reap_transplant e pv st) = snd (pe_patch_pv e (handed_over e pv (pw st)) (pw st))"
    using assms(1) by (auto simp: reap_transplant_def Let_def split: prod.splits option.splits)
  then have "pw (reapRestorePV e cutoff st pv) \<in> {pw st, snd (pe_patch_pv e (handed_over e pv (pw st)) (pw st))}"
    using assms(2) by (auto simp: reapRestorePV_def if_orphaned_def Let_def split: sum.split bool.split)
  then show ?thesis by (auto simp: handed_over_def strip_domain_def HasPrefix_def)
qed

text \<open>
  The check for delivery reads the claim once and takes any failure of that read, a timeout included, for a claim
  that is not bound: the volume is then set to be deleted with its claim although it was delivered.
\<close>

lemma failed_read_counts_as_undelivered:
  assumes "pv_ClaimRef pv = Some (ns, name)" "pe_get_volume_name e ns name (pw st) = Inl err"
    and "orphaned e (pv_Meta pv) cutoff (pw st) = Inr True" "map_get (m_Labels (pv_Meta pv)) LabelPVRole = PVRoleTransplant"
    and "pv_ReclaimPolicy pv \<noteq> PersistentVolumeReclaimDelete"
  shows "pw (reapRestorePV e cutoff st pv) = snd (pe_patch_pv e (pv\<lparr>pv_ReclaimPolicy := PersistentVolumeReclaimDelete\<rparr>) (pw st))"
  using assms by (auto simp: reapRestorePV_def if_orphaned_def reap_transplant_def delivered_def Let_def split: prod.splits option.splits)

section \<open>A concrete sweep\<close>

definition demo_meta :: "string_map \<Rightarrow> ObjectMeta" where
  "demo_meta labels = \<lparr>m_Namespace = ''ops'', m_Name = ''x'', m_UID = ''u'', m_Generation = 0, m_CreationTimestamp = Some 0,
     m_DeletionTimestamp = None, m_Finalizers = [], m_Annotations = Map.empty, m_Labels = labels\<rparr>"

text \<open>One Job is listed; the Backup it names is in progress or gone; a delete leaves the Job terminating.\<close>

definition demo_reaper :: "api_error + Backup \<Rightarrow> nat reaper_env" where
  "demo_reaper backup =
     \<lparr>pe_OperatorNamespace = ''ops'', pe_MinAge = minutes 30, pe_Recorder = True, pe_now = \<lambda>_. minutes 60,
      pe_list = \<lambda>kind _ _ _. Inr (if kind = kindJob then [demo_meta (exposureLabels empty_backup ''data'')] else []),
      pe_list_pvs = \<lambda>_ _. Inr [], pe_list_contents = \<lambda>_ _. Inl (OtherAPIError ''no match''), pe_list_backups = \<lambda>_ _. Inr [],
      pe_get = \<lambda>_ _ _ w. Inr ((demo_meta Map.empty)\<lparr>m_DeletionTimestamp := if w = 0 then None else Some 9\<rparr>), pe_APIReader = None,
      pe_get_backup = \<lambda>_ _ _. backup, pe_get_restore = \<lambda>_ _ _. Inl NotFound, pe_get_cluster_restore = \<lambda>_ _. Inl NotFound,
      pe_get_job = \<lambda>_ _ _. Inl NotFound, pe_get_volume_name = \<lambda>_ _ _. Inr ''x'', pe_get_class_policy = \<lambda>_ _. Inr (Some ''Retain''),
      pe_delete = \<lambda>_ _ _ _ w. (None, Suc w), pe_patch_pv = \<lambda>_ w. (None, Suc w), pe_patch_content = \<lambda>vsc w. (Inr vsc, Suc w),
      pe_IsNoMatchError = \<lambda>err. err = OtherAPIError ''no match''\<rparr>"

abbreviation demo_reaper_state :: "nat reaper_state" where
  "demo_reaper_state \<equiv> \<lparr>pw = 0, ptally = None, preports = [], pgauge = Map.empty\<rparr>"

lemma demo_reaper_sweep:
  "\<exists>st'. sweepOnce (demo_reaper (Inl NotFound)) demo_reaper_state = (None, st') \<and>
     preports st' = [Stuck kindJob ''ops'' ''x'' [] False, StuckEvent kindJob ''ops'' ''x'' []] \<and> pw st' = 1"
proof -
  let ?e = "demo_reaper (Inl NotFound)" and ?o = "demo_meta (exposureLabels empty_backup ''data'')"
  have o: "orphaned ?e ?o cutoff w = Inr True" if "cutoff \<ge> 0" for cutoff w
    using that by (simp add: orphaned_def demo_reaper_def demo_meta_def exposure_owner exposureLabels_def empty_backup_def
        ownerBackupNameFromLabels_def created_after_def Let_def)
  have r: "reap_native ?e (minutes 30) kindJob (demo_reaper_state\<lparr>ptally := newReapTally\<rparr>) ?o =
      demo_reaper_state\<lparr>pw := 1, ptally := Some [kindJob \<mapsto> 1], preports := [Stuck kindJob ''ops'' ''x'' [] False, StuckEvent kindJob ''ops'' ''x'' []]\<rparr>"
    by (simp add: reap_native_def if_orphaned_def o) (simp add: reapAndReport_def delete_and_report_def report_outcome_def confirmReap_def
        demo_reaper_def demo_meta_def newReapTally_def markStuck_def Let_def)
  have l: "pe_list ?e kind a b w = Inr (if kind = kindJob then [?o] else [])" "pe_list_pvs ?e b w = Inr []" "pe_now ?e w = minutes 60" "pe_MinAge ?e = minutes 30"
    "pe_list_contents ?e b w = Inl (OtherAPIError ''no match'')" "pe_IsNoMatchError ?e (OtherAPIError ''no match'')" for kind a b w
    by (simp_all add: demo_reaper_def)
  show ?thesis
    unfolding sweepOnce_def Let_def using r [simplified]
    by (simp add: l reapSnapshotObjects_def reapManifestBindings_def reapClusterManifestBindings_def reap_bindings_def)
qed

theorem sweep_reports_are_true_witness:
  "pgauge (snd (sweepOnce (demo_reaper (Inl NotFound)) demo_reaper_state)) kindJob = Some 1 \<and>
   pgauge (snd (sweepOnce (demo_reaper (Inl NotFound)) demo_reaper_state)) kindSecret = Some 0"
proof -
  from demo_reaper_sweep obtain st' where s: "sweepOnce (demo_reaper (Inl NotFound)) demo_reaper_state = (None, st')"
    and r: "preports st' = [Stuck kindJob ''ops'' ''x'' [] False, StuckEvent kindJob ''ops'' ''x'' []]" by blast
  from sweep_reports_are_true [OF s] obtain new where n: "preports st' = new"
    and g: "\<forall>kind \<in> set orphanReapStuckKinds. pgauge st' kind = Some (stuck_count kind new)" by auto
  have "kindJob \<in> set orphanReapStuckKinds" "kindSecret \<in> set orphanReapStuckKinds" by (simp_all add: orphanReapStuckKinds_def)
  with g have "pgauge st' kindJob = Some (stuck_count kindJob new)" "pgauge st' kindSecret = Some (stuck_count kindSecret new)" by blast+
  then show ?thesis unfolding s n [symmetric] r by simp
qed

text \<open>A mover Job of a claim that is uploading: the labels of the exposure and one of the Job's own.\<close>

definition demo_live :: "nat reaper_env" where
  "demo_live = (demo_reaper (Inr (demo_backup_of [demo_volume VolumePhaseUploading])))
     \<lparr>pe_list := \<lambda>kind _ _ _. Inr (if kind = kindJob
        then [demo_meta ((exposureLabels empty_backup (Pvc (demo_volume VolumePhaseUploading)))(''app.kubernetes.io/name'' \<mapsto> ''crystal-backup-mover''))] else [])\<rparr>"

theorem live_exposure_is_spared_witness:
  "sweepOnce (unlisted (exposed_by empty_backup (Pvc (demo_volume VolumePhaseUploading))) demo_live) demo_reaper_state = sweepOnce demo_live demo_reaper_state \<and>
   pe_list demo_live kindJob None [] 0 \<noteq> Inr [] \<and>
   pe_list (unlisted (exposed_by empty_backup (Pvc (demo_volume VolumePhaseUploading))) demo_live) kindJob None [] 0 = Inr []"
proof -
  let ?b = "demo_backup_of [demo_volume VolumePhaseUploading]" and ?pvc = "Pvc (demo_volume VolumePhaseUploading)"
  have n: "m_Name (b_Meta empty_backup) \<noteq> []" by (simp add: empty_backup_def)
  have f: "List.find (\<lambda>v. Pvc v = ?pvc) (bs_Volumes (b_Status ?b)) = Some (demo_volume VolumePhaseUploading)" "\<not> terminal_volume (demo_volume VolumePhaseUploading)"
    by (simp_all add: demo_backup_of_def demo_volume_def)
  have "pe_get_backup demo_live ns name w = Inr ?b" for ns name w by (simp add: demo_live_def demo_reaper_def)
  with f have "\<exists>now. pe_get_backup demo_live (m_Namespace (b_Meta empty_backup)) (m_Name (b_Meta empty_backup)) w = Inr now \<and>
      (m_DeletionTimestamp (b_Meta now) \<noteq> None \<or>
       (\<exists>v. List.find (\<lambda>v. Pvc v = ?pvc) (bs_Volumes (b_Status now)) = Some v \<and> \<not> terminal_volume v))" for w by auto
  note spared = live_exposure_is_spared [OF n this, of demo_reaper_state]
  let ?o = "demo_meta ((exposureLabels empty_backup ?pvc)(''app.kubernetes.io/name'' \<mapsto> ''crystal-backup-mover''))"
  have "exposed_by empty_backup ?pvc ?o"
    by (simp add: exposed_by_def demo_meta_def exposureLabels_def empty_backup_def map_le_def Let_def map_get_def)
  moreover have "pe_list demo_live kindJob None [] 0 = Inr [?o]" by (simp add: demo_live_def)
  ultimately show ?thesis using spared by (simp add: unlisted_lists)
qed


definition demo_pv :: PersistentVolume where
  "demo_pv = \<lparr>pv_Meta = demo_meta [LabelPVC \<mapsto> ''data'', LabelRestore \<mapsto> ''r'', LabelNamespace \<mapsto> ''shop'', LabelPVRole \<mapsto> PVRoleTransplant],
     pv_ClaimRef = Some (''shop'', ''data''), pv_ReclaimPolicy = ''Retain'', pv_StorageClassName = ''fast''\<rparr>"

theorem delivered_volume_is_kept_witness:
  "pv_ReclaimPolicy (handed_over (demo_reaper (Inl NotFound)) demo_pv 0) = ''Retain'' \<and>
   m_Labels (pv_Meta (handed_over (demo_reaper (Inl NotFound)) demo_pv 0)) LabelPVRole = None"
proof -
  have "delivered (demo_reaper (Inl NotFound)) demo_pv (pw demo_reaper_state)"
    by (simp add: delivered_def demo_pv_def demo_reaper_def demo_meta_def)
  moreover have "map_get (m_Labels (pv_Meta demo_pv)) LabelPVRole = PVRoleTransplant" by (simp add: demo_pv_def demo_meta_def map_get_def)
  ultimately show ?thesis using delivered_volume_is_kept [of "demo_reaper (Inl NotFound)" demo_pv demo_reaper_state 0]
    by (simp add: classReclaimPolicy_def demo_reaper_def) (simp add: demo_pv_def)
qed

end
