(* ===== verification/Target_Safety.thy ===== *)
theory Target_Safety
  imports Target_Exposer Reaper_Safety
begin

text \<open>
  What the exposure of restore targets promises: a twin is an alias that can be deleted without touching the
  data; a volume leaves its staging claim only once it is marked and retained, so that a crash never strands
  it; a handover is complete only when the target claim is bound to the volume; a cleanup finishes a
  delivered handover instead of undoing it; and the orphan reaper sees the volumes of a live restore as owned and a
  delivered one not at all.
\<close>

section \<open>Twins\<close>

lemma create_staging_world: "create_staging e staging ex w = (Inr ex', w') \<Longrightarrow> ex' = ex \<and> w' = snd (ge_create_claim e staging w)"
  by (auto simp: create_staging_def split: prod.splits if_splits)

text \<open>
  A twin is an alias. When a target is exposed as a twin for the first time, the target claim exists, is bound
  and is no block device, and exactly two objects are requested: a volume with the same source, class,
  modes, mount options and node affinity as the one the target is bound to, which is always
  retained and reserved for the staging claim, and then that staging claim, bound to it by name.
\<close>

theorem twin_is_an_alias:
  assumes "Expose e req w = (Inr ex, w')" and "te_Kind ex = KindTwin"
    and "ge_get_claim e (ge_OperatorNamespace e) (StagingPVCName (tr_NamePrefix req)) w = Inl NotFound"
  shows "\<exists>target boundPV node. ge_get_claim e (tr_TargetNamespace req) (tr_PVCName req) w = Inr target \<and> cl_Phase target = ClaimBound \<and>
    ge_get_pv e (cl_VolumeName target) w = Inr boundPV \<and> pv_VolumeMode boundPV \<noteq> Some PersistentVolumeBlock \<and>
    w' = snd (ge_create_claim e (twin_staging_claim e req boundPV node) (snd (ge_create_pv e (twin_volume e req boundPV) w))) \<and>
    pv_Source (twin_volume e req boundPV) = pv_Source boundPV \<and> pv_NodeAffinity (twin_volume e req boundPV) = pv_NodeAffinity boundPV \<and>
    pv_ReclaimPolicy (twin_volume e req boundPV) = PersistentVolumeReclaimRetain \<and>
    pv_ClaimRef (twin_volume e req boundPV) =
      Some (m_Namespace (cl_Meta (twin_staging_claim e req boundPV node)), m_Name (cl_Meta (twin_staging_claim e req boundPV node))) \<and>
    cl_VolumeName (twin_staging_claim e req boundPV node) = m_Name (pv_Meta (twin_volume e req boundPV))"
proof -
  have transplant: "te_Kind ex = KindTransplant" if "exposeTransplant e req w = (Inr ex, w')"
    using create_staging_world [OF that [unfolded exposeTransplant_def]] by (simp add: exposure_def)
  obtain target where t: "ge_get_claim e (tr_TargetNamespace req) (tr_PVCName req) w = Inr target" "cl_Phase target = ClaimBound"
    and x: "exposeTwin e req target w = (Inr ex, w')"
    using assms transplant unfolding Expose_def Let_def by (auto split: sum.splits if_splits)
  then obtain boundPV w1 res node where b: "ge_get_pv e (cl_VolumeName target) w = Inr boundPV" "pv_VolumeMode boundPV \<noteq> Some PersistentVolumeBlock"
    "ge_create_pv e (twin_volume e req boundPV) w = (res, w1)"
    and c: "create_staging e (twin_staging_claim e req boundPV node) (exposure e KindTwin req (TwinPVName (tr_NamePrefix req)) node) w1 = (Inr ex, w')"
    unfolding exposeTwin_def Let_def by (auto split: sum.splits if_splits prod.splits)
  from create_staging_world [OF c] b(3) have "w' = snd (ge_create_claim e (twin_staging_claim e req boundPV node) (snd (ge_create_pv e (twin_volume e req boundPV) w)))"
    by simp
  with t b show ?thesis
    by (intro exI [of _ target] exI [of _ boundPV] exI [of _ node]) (simp add: twin_volume_def twin_staging_claim_def new_meta_def)
qed

section \<open>The handover\<close>

definition kept_for :: "TargetExposure \<Rightarrow> ('src, 'aff) Volume \<Rightarrow> bool" where
  "kept_for ex pv \<longleftrightarrow> map_get (m_Labels (pv_Meta pv)) LabelPVRole = PVRoleTransplant \<and> pv_ReclaimPolicy pv = PersistentVolumeReclaimRetain"

lemma marked_kept: "kept_for ex (marked ex pv)" "transplant_labels ex \<subseteq>\<^sub>m m_Labels (pv_Meta (marked ex pv))" "m_Name (pv_Meta (marked ex pv)) = m_Name (pv_Meta pv)"
  by (auto simp: kept_for_def marked_def transplant_labels_def map_get_def map_le_def)

text \<open>
  C13: a restored volume is kept before it is let go. While the staging claim exists, a step of the handover never
  claims completion, and it requests the deletion of that claim only after the claim's volume was seen
  to carry the transplant marker and the Retain policy, or after the write that gives it both, with
  every label the later steps look for, was accepted. A failed write ends the step with the claim in place.
\<close>

theorem volume_marked_before_release:
  assumes k: "te_Kind ex = KindTransplant" and g: "ge_get_claim e (te_OperatorNamespace ex) (te_StagingPVCName ex) w = Inr staging"
    and f: "Finalize e ex w = (res, w')"
  shows "res \<noteq> Inr True \<and>
    (w' = w \<or> (\<exists>pv. ge_get_pv e (cl_VolumeName staging) w = Inr pv \<and>
      (kept_for ex pv \<and> w' = snd (ge_delete_claim e (m_Namespace (cl_Meta staging)) (m_Name (cl_Meta staging)) w) \<or>
       kept_for ex (marked ex pv) \<and> transplant_labels ex \<subseteq>\<^sub>m m_Labels (pv_Meta (marked ex pv)) \<and>
       (\<exists>x w1. ge_patch_pv e (marked ex pv) w = (x, w1) \<and>
         w' = (if isl x then w1 else snd (ge_delete_claim e (m_Namespace (cl_Meta staging)) (m_Name (cl_Meta staging)) w1))))))"
proof -
  let ?del = "\<lambda>w. snd (ge_delete_claim e (m_Namespace (cl_Meta staging)) (m_Name (cl_Meta staging)) w)"
  have dw: "snd (delete_claim e ns name w) = snd (ge_delete_claim e ns name w)" for ns name w
    by (simp add: delete_claim_def split: prod.split)
  have not_true: "res \<noteq> Inr True" using f k g by (auto simp: Finalize_def split: if_splits prod.splits option.splits)
  have rw: "w' = w \<or> w' = snd (retainAndReleaseStaging e ex staging w)"
    using f k g by (auto simp: Finalize_def split: if_splits prod.splits option.splits)
  show ?thesis
  proof (cases "w' = w \<or> cl_VolumeName staging = [] \<or> isl (ge_get_pv e (cl_VolumeName staging) w)")
    case True
    then have "w' = w" using rw by (auto simp: retainAndReleaseStaging_def Let_def isl_def split: if_splits)
    with not_true show ?thesis by simp
  next
    case False
    then obtain pv where pv: "ge_get_pv e (cl_VolumeName staging) w = Inr pv" by (cases "ge_get_pv e (cl_VolumeName staging) w") auto
    show ?thesis
    proof (cases "kept_for ex pv")
      case True
      then have "w' = ?del w" using rw False pv by (simp add: retainAndReleaseStaging_def kept_for_def dw Let_def)
      with True pv not_true show ?thesis by blast
    next
      case no: False
      obtain x w1 where p: "ge_patch_pv e (marked ex pv) w = (x, w1)" by (metis surj_pair)
      have "w' = (if isl x then w1 else ?del w1)"
        using rw False pv no p by (cases x) (auto simp: retainAndReleaseStaging_def kept_for_def dw Let_def)
      with p pv not_true marked_kept [of ex pv] show ?thesis by blast
    qed
  qed
qed

lemma hand_to_final_done:
  assumes "hand_to_final e ex pv w = (Inr True, w')"
  shows "\<exists>final fresh. ge_get_claim e (te_TargetNamespace ex) (te_TargetPVCName ex) w = Inr final \<and>
    cl_VolumeName final = m_Name (pv_Meta pv) \<and> cl_Phase final = ClaimBound \<and> ge_patch_pv e (released e ex w pv) w = (Inr fresh, w')"
  using assms unfolding hand_to_final_def Let_def by (auto split: sum.splits if_splits prod.splits option.splits)

lemma released_labels:
  "m_Labels (pv_Meta (released e ex w pv)) LabelPVRole = None" "k \<in> dom (te_Labels ex) \<Longrightarrow> m_Labels (pv_Meta (released e ex w pv)) k = None"
  by (simp_all add: released_def restrict_map_def)

text \<open>
  What delivers a volume: the target claim is bound to it by name, and an accepted write gives it the policy of its
  storage class and takes away the marker and every label of the operator's, and nothing else of what it
  carries, reserves or holds.
\<close>

definition volume_delivered ::
  "('w, 'src, 'aff, 'z) target_env_scheme \<Rightarrow> TargetExposure \<Rightarrow> ('src, 'aff) Volume \<Rightarrow> 'w \<Rightarrow> 'w \<Rightarrow> bool" where
  "volume_delivered e ex pv w w' \<longleftrightarrow>
     (\<exists>final out fresh. ge_get_claim e (te_TargetNamespace ex) (te_TargetPVCName ex) w = Inr final \<and> cl_Phase final = ClaimBound \<and>
        cl_VolumeName final = m_Name (pv_Meta pv) \<and> ge_patch_pv e out w = (Inr fresh, w') \<and>
        m_Name (pv_Meta out) = m_Name (pv_Meta pv) \<and> pv_Source out = pv_Source pv \<and> pv_ClaimRef out = pv_ClaimRef pv \<and>
        pv_ReclaimPolicy out = storageClassReclaimPolicy e (pv_StorageClassName pv) w \<and>
        (\<forall>k. m_Labels (pv_Meta out) k =
          (if k = LabelPVRole \<or> k \<in> dom (te_Labels ex) then None else m_Labels (pv_Meta pv) k)))"

lemma hand_to_final_delivers:
  assumes "hand_to_final e ex pv w = (Inr True, w')"
  shows "volume_delivered e ex pv w w'"
proof -
  from hand_to_final_done [OF assms] obtain final fresh where
    "ge_get_claim e (te_TargetNamespace ex) (te_TargetPVCName ex) w = Inr final" "cl_VolumeName final = m_Name (pv_Meta pv)"
    "cl_Phase final = ClaimBound" "ge_patch_pv e (released e ex w pv) w = (Inr fresh, w')" by blast
  then show ?thesis unfolding volume_delivered_def
    by (intro exI [of _ final] exI [of _ "released e ex w pv"] exI [of _ fresh]) (simp add: released_def restrict_map_def)
qed

lemma handOver_delivers:
  assumes "handOver e ex listed w = (Inr True, w')"
  shows "\<exists>pv w1. volume_delivered e ex pv w1 w' \<and>
    (pv_ClaimRef listed = Some (te_TargetNamespace ex, te_TargetPVCName ex) \<and> pv = listed \<and> w1 = w \<or>
     pv_Phase listed \<noteq> VolumeBound \<and>
       ge_patch_pv e (listed\<lparr>pv_ClaimRef := Some (te_TargetNamespace ex, te_TargetPVCName ex)\<rparr>) w = (Inr pv, w1))"
proof (cases "pv_ClaimRef listed = Some (te_TargetNamespace ex, te_TargetPVCName ex)")
  case True
  then have "hand_to_final e ex listed w = (Inr True, w')" using assms by (simp add: handOver_def)
  from hand_to_final_delivers [OF this] True show ?thesis by (intro exI [of _ listed] exI [of _ w]) simp
next
  case False
  then obtain pv w1 where "pv_Phase listed \<noteq> VolumeBound"
    "ge_patch_pv e (listed\<lparr>pv_ClaimRef := Some (te_TargetNamespace ex, te_TargetPVCName ex)\<rparr>) w = (Inr pv, w1)"
    "hand_to_final e ex pv w1 = (Inr True, w')"
    using assms unfolding handOver_def Let_def by (auto split: if_splits prod.splits sum.splits)
  with hand_to_final_delivers [OF this(3)] show ?thesis by (intro exI [of _ pv] exI [of _ w1]) simp
qed

text \<open>
  C14: the handover of a transplant that reports completion has delivered. The staging claim is gone, the read of it
  answers NotFound, and the list of the volumes by the transplant marker and the labels of the exposure decides. When it names a volume, the first it names was
  reserved for the target claim, already or by a write of this step, which is made only while the volume is not
  bound; the target claim was seen bound to that very volume; and the write that ends the step gave it the policy
  of its storage class and took the marker and the operator's labels away. When the list is empty, nothing is
  written and the target claim already has a volume. The only assumption on the API server is that a patch
  answers the object it was asked to patch.
\<close>

theorem completed_handover_delivered:
  assumes k: "te_Kind ex = KindTransplant" and f: "Finalize e ex w = (Inr True, w')"
    and same: "\<And>v w v' w'. ge_patch_pv e v w = (Inr v', w') \<Longrightarrow> m_Name (pv_Meta v') = m_Name (pv_Meta v)"
  shows "ge_get_claim e (te_OperatorNamespace ex) (te_StagingPVCName ex) w = Inl NotFound \<and>
     (\<exists>pvs. ge_list_pvs e ((te_Labels ex)(LabelPVRole \<mapsto> PVRoleTransplant)) w = Inr pvs \<and>
       (case pvs of
          [] \<Rightarrow> w' = w \<and>
            (\<exists>final. ge_get_claim e (te_TargetNamespace ex) (te_TargetPVCName ex) w = Inr final \<and> cl_VolumeName final \<noteq> [])
        | listed # _ \<Rightarrow> (\<exists>pv w1. volume_delivered e ex pv w1 w' \<and> m_Name (pv_Meta pv) = m_Name (pv_Meta listed) \<and>
            (pv_ClaimRef listed = Some (te_TargetNamespace ex, te_TargetPVCName ex) \<and> pv = listed \<and> w1 = w \<or>
             pv_Phase listed \<noteq> VolumeBound \<and>
               ge_patch_pv e (listed\<lparr>pv_ClaimRef := Some (te_TargetNamespace ex, te_TargetPVCName ex)\<rparr>) w = (Inr pv, w1)))))"
proof -
  have none: "ge_get_claim e (te_OperatorNamespace ex) (te_StagingPVCName ex) w = Inl NotFound"
    using f k by (auto simp: Finalize_def split: sum.splits if_splits prod.splits option.splits)
  show ?thesis
  proof (cases "ge_list_pvs e (transplant_labels ex) w")
    case (Inl err)
    then show ?thesis using f k none by (simp add: Finalize_def findTransplantPV_def)
  next
    case (Inr pvs)
    show ?thesis
    proof (cases pvs)
      case Nil
      then show ?thesis using f k none Inr
        by (auto simp: Finalize_def findTransplantPV_def transplant_labels_def split: sum.splits if_splits)
    next
      case (Cons listed rest)
      then have "handOver e ex listed w = (Inr True, w')"
        using f k none Inr by (simp add: Finalize_def findTransplantPV_def)
      from handOver_delivers [OF this] obtain pv w1 where d: "volume_delivered e ex pv w1 w'"
        and c: "pv_ClaimRef listed = Some (te_TargetNamespace ex, te_TargetPVCName ex) \<and> pv = listed \<and> w1 = w \<or>
          pv_Phase listed \<noteq> VolumeBound \<and>
            ge_patch_pv e (listed\<lparr>pv_ClaimRef := Some (te_TargetNamespace ex, te_TargetPVCName ex)\<rparr>) w = (Inr pv, w1)" by blast
      have "m_Name (pv_Meta pv) = m_Name (pv_Meta listed)" using c same by fastforce
      with d c none Inr Cons show ?thesis by (auto simp: transplant_labels_def)
    qed
  qed
qed

section \<open>Cleanup\<close>

text \<open>
  A cleanup never undoes a delivery. When the target claim already names the volume that carries the
  marker, the cleanup of a transplant deletes the staging claim and then does exactly one step of the
  handover; in particular it never gives that volume the policy Delete as a failed restore's.
\<close>

theorem cleanup_finishes_delivery:
  assumes "te_Kind ex = KindTransplant" and "delete_claim e (te_OperatorNamespace ex) (te_StagingPVCName ex) w = (None, w1)"
    and "ge_list_pvs e (transplant_labels ex) w1 = Inr (pv # rest)"
    and "ge_get_claim e (te_TargetNamespace ex) (te_TargetPVCName ex) w1 = Inr final" and "cl_VolumeName final = m_Name (pv_Meta pv)"
  shows "snd (Cleanup e ex w) = snd (handOver e ex pv w1) \<and> (fst (Cleanup e ex w) = None \<longleftrightarrow> \<not> isl (fst (handOver e ex pv w1)))"
proof -
  obtain x w2 where "handOver e ex pv w1 = (x, w2)" by (metis surj_pair)
  then show ?thesis using assms by (cases x) (simp_all add: Cleanup_def reclaimUnfinishedTransplant_def findTransplantPV_def Let_def)
qed

text \<open>
  A failed read of the target claim counts as a missing one: the volume is then reclaimed as that of a failed
  restore, whether or not it was delivered. And a volume that was never marked is not looked for at all: its fate is
  that of its storage class, so that a class that retains its volumes keeps the volume of a failed restore.
\<close>

lemma failed_read_undoes_delivery:
  assumes "te_Kind ex = KindTransplant" "delete_claim e (te_OperatorNamespace ex) (te_StagingPVCName ex) w = (None, w1)"
    and "ge_list_pvs e (transplant_labels ex) w1 = Inr (pv # rest)" "pv_ReclaimPolicy pv \<noteq> PersistentVolumeReclaimDelete"
    and "ge_get_claim e (te_TargetNamespace ex) (te_TargetPVCName ex) w1 = Inl err"
  shows "snd (Cleanup e ex w) = snd (ge_patch_pv e (pv\<lparr>pv_ReclaimPolicy := PersistentVolumeReclaimDelete\<rparr>) w1)"
  using assms by (simp add: Cleanup_def reclaimUnfinishedTransplant_def findTransplantPV_def Let_def split: prod.split sum.split)

lemma unmarked_volume_is_left:
  assumes "te_Kind ex = KindTransplant" "delete_claim e (te_OperatorNamespace ex) (te_StagingPVCName ex) w = (None, w1)"
    and "ge_list_pvs e (transplant_labels ex) w1 = Inr []"
  shows "Cleanup e ex w = (None, w1)"
  using assms by (simp add: Cleanup_def reclaimUnfinishedTransplant_def findTransplantPV_def)

section \<open>With the restore engine and the reaper\<close>

text \<open>
  The engine does not store an exposure: it rebuilds it from the restore and the claim. Up to the node, which only the
  first start of the mover needs, and the name of a twin, which a transplant does not use, what it rebuilds is
  what the exposer answered, also after a restart.
\<close>

lemma exposure_is_rederivable:
  assumes "Expose g req w = (Inr ex, w')" and "ge_OperatorNamespace g = be_OperatorNamespace e"
    and "tr_TargetNamespace req = rx_targetNamespace rc" "tr_PVCName req = pvc" "tr_NamePrefix req = restoreNamePrefix (rx_ownerID rc) pvc"
      "tr_Labels req = volumeLabels rc pvc" "tr_RestoredFromRun req = rx_restoredFromRun rc"
  shows "exposureFor e rc pvc (te_Kind ex) = ex\<lparr>te_NodeName := [], te_TwinPVName := TwinPVName (tr_NamePrefix req)\<rparr>"
proof -
  obtain kind twin node where "ex = exposure g kind req twin node"
    using assms(1) unfolding Expose_def exposeTransplant_def exposeTwin_def Let_def
    by (auto split: sum.splits if_splits prod.splits dest!: create_staging_world)
  then show ?thesis using assms(2-) by (simp add: exposure_def exposureFor_def Let_def)
qed

text \<open>
  The reaper keeps its hands off a live restore. As long as the Restore that owns an exposure exists
  and either its finalizer is at work or it has not finished, a sweep leaves its twin volume and its
  marked volume exactly as they are; and the release at the end of a handover removes the marker the reaper
  selects volumes by.
\<close>

theorem live_restore_volumes_are_spared:
  assumes "rx_ownerLabelKey rc = LabelRestore" and "rx_ownerName rc \<noteq> []" and "tr_Labels req = volumeLabels rc pvc" and "te_Labels ex = volumeLabels rc pvc"
    and "pe_get_restore r (rx_targetNamespace rc) (rx_ownerName rc) (pw st) = Inr restore"
    and "m_DeletionTimestamp (r_Meta restore) \<noteq> None \<or> \<not> IsTerminalRestorePhase (r_phase restore)"
  shows "reapRestorePV r cutoff st (PersistentVolume.truncate (twin_volume e req boundPV)) = st \<and>
    reapRestorePV r cutoff st (PersistentVolume.truncate (marked ex pv)) = st \<and>
    LabelPVRole \<notin> dom (m_Labels (pv_Meta (released e ex w pv)))"
proof -
  have owner: "map_get labels LabelRestore = rx_ownerName rc" "map_get labels LabelNamespace = rx_targetNamespace rc"
    if "labels = (volumeLabels rc pvc)(LabelPVRole \<mapsto> role) \<or> labels = m ++ (volumeLabels rc pvc)(LabelPVRole \<mapsto> role)" for labels m role
    using that assms(1) by (auto simp: volumeLabels_def map_get_def)
  have "orphaned r (pv_Meta x) cutoff (pw st) = Inr False"
    if "m_Labels (pv_Meta x) = (volumeLabels rc pvc)(LabelPVRole \<mapsto> role) \<or> m_Labels (pv_Meta x) = m ++ (volumeLabels rc pvc)(LabelPVRole \<mapsto> role)"
    for x :: PersistentVolume and m role
    using owner [OF that] assms(2,5,6) by (auto simp: orphaned_def restoreOrphaned_def Let_def)
  note o = this
  have twin: "m_Labels (pv_Meta (PersistentVolume.truncate (twin_volume e req boundPV))) = (volumeLabels rc pvc)(LabelPVRole \<mapsto> PVRoleTwin)"
    by (simp add: twin_volume_def new_meta_def PersistentVolume.truncate_def assms(3))
  have mark: "m_Labels (pv_Meta (PersistentVolume.truncate (marked ex pv))) =
      m_Labels (pv_Meta pv) ++ (volumeLabels rc pvc)(LabelPVRole \<mapsto> PVRoleTransplant)"
    by (simp add: marked_def transplant_labels_def PersistentVolume.truncate_def assms(4))
  note spared = o [OF disjI1 [OF twin]] o [OF disjI2 [OF mark]]
  have "reapRestorePV r cutoff st (PersistentVolume.truncate (twin_volume e req boundPV)) = st"
    unfolding reapRestorePV_def by (rule if_orphaned_spared, rule spared(1))
  moreover have "reapRestorePV r cutoff st (PersistentVolume.truncate (marked ex pv)) = st"
    unfolding reapRestorePV_def by (rule if_orphaned_spared, rule spared(2))
  ultimately show ?thesis using released_labels(1) [of e ex w pv] by (simp add: domIff)
qed

section \<open>A concrete target\<close>

definition demo_volume_of :: "string_map \<Rightarrow> (string \<times> string) option \<Rightarrow> (string, unit) Volume" where
  "demo_volume_of labels ref = \<lparr>pv_Meta = new_meta [] ''pv-1'' labels Map.empty, pv_ClaimRef = ref, pv_ReclaimPolicy = ''Retain'',
     pv_StorageClassName = ''fast'', pv_Source = ''handle-1'', pv_Capacity = 1, pv_AccessModes = [ReadWriteOnce], pv_MountOptions = [],
     pv_VolumeMode = None, pv_NodeAffinity = (), pv_Phase = ''Released''\<rparr>"

definition demo_claim :: "string \<Rightarrow> Claim" where
  "demo_claim name = \<lparr>cl_Meta = new_meta ''ops'' name Map.empty Map.empty, cl_AccessModes = [ReadWriteOnce], cl_Request = 1, cl_StorageClassName = Some ''fast'',
     cl_VolumeName = ''pv-1'', cl_VolumeMode = None, cl_Phase = ClaimBound\<rparr>"

text \<open>A cluster with one volume; the staging claim, the target claim and the marked volumes are given.\<close>

definition demo_target :: "api_error + Claim \<Rightarrow> api_error + Claim \<Rightarrow> (string, unit) Volume list \<Rightarrow> (nat, string, unit) target_env" where
  "demo_target staging target pvs =
     \<lparr>ge_OperatorNamespace = ''ops'', ge_get_claim = \<lambda>ns _ _. if ns = ''ops'' then staging else target,
      ge_get_pv = \<lambda>_ _. Inr (demo_volume_of Map.empty None), ge_get_class_policy = \<lambda>_ _. Inr (Some ''Delete''), ge_get_node = \<lambda>_ _. Inl NotFound,
      ge_list_pvs = \<lambda>_ _. Inr pvs, ge_list_attachments = \<lambda>_. Inr [], ge_create_claim = \<lambda>_ w. (None, Suc w), ge_create_pv = \<lambda>_ w. (None, Suc w),
      ge_patch_claim = \<lambda>_ w. (None, Suc w), ge_patch_pv = \<lambda>pv w. (Inr pv, Suc w), ge_delete_claim = \<lambda>_ _ w. (None, Suc w),
      ge_delete_pv = \<lambda>_ w. (None, Suc w), ge_Quote = \<lambda>s. s\<rparr>"

definition demo_request :: TargetRequest where
  "demo_request = \<lparr>tr_TargetNamespace = ''shop'', tr_PVCName = ''data'', tr_StorageClass = [], tr_Capacity = 1, tr_AccessModes = [], tr_NamePrefix = ''p'',
     tr_Labels = [LabelPVC \<mapsto> ''data''], tr_RestoredFromRun = []\<rparr>"

abbreviation demo_exposure :: TargetExposure where
  "demo_exposure \<equiv> exposure (demo_target (Inl NotFound) (Inl NotFound) []) KindTransplant demo_request [] []"

theorem twin_is_an_alias_witness:
  "\<exists>boundPV. pv_Source (twin_volume (demo_target (Inl NotFound) (Inr (demo_claim ''data'')) []) demo_request boundPV) = ''handle-1''"
proof -
  let ?e = "demo_target (Inl NotFound) (Inr (demo_claim ''data'')) []"
  have x: "Expose ?e demo_request 0 = (Inr (exposure ?e KindTwin demo_request (TwinPVName ''p'') []), 2)"
    by (simp add: Expose_def exposeTwin_def create_staging_def attachedNode_def demo_target_def demo_request_def demo_claim_def demo_volume_of_def Let_def)
  have k: "te_Kind (exposure ?e KindTwin demo_request (TwinPVName ''p'') []) = KindTwin" by (simp add: exposure_def)
  have n: "ge_get_claim ?e (ge_OperatorNamespace ?e) (StagingPVCName (tr_NamePrefix demo_request)) 0 = Inl NotFound" by (simp add: demo_target_def)
  obtain boundPV and target :: Claim where
    src: "ge_get_pv ?e (cl_VolumeName target) 0 = Inr boundPV" "pv_Source (twin_volume ?e demo_request boundPV) = pv_Source boundPV"
    using twin_is_an_alias [OF x k n] by blast
  moreover from src(1) have "pv_Source boundPV = ''handle-1''" by (auto simp: demo_target_def demo_volume_of_def)
  ultimately show ?thesis by auto
qed

theorem volume_marked_before_release_witness:
  "kept_for demo_exposure (marked demo_exposure (demo_volume_of Map.empty None)) \<and>
   snd (Finalize (demo_target (Inr (demo_claim ''p-target'')) (Inl NotFound) []) demo_exposure 0) = 2"
proof -
  let ?e = "demo_target (Inr (demo_claim ''p-target'')) (Inl NotFound) []"
  have k: "te_Kind demo_exposure = KindTransplant" by (simp add: exposure_def)
  have g: "ge_get_claim ?e (te_OperatorNamespace demo_exposure) (te_StagingPVCName demo_exposure) 0 = Inr (demo_claim ''p-target'')"
    by (simp add: demo_target_def exposure_def)
  have f: "Finalize ?e demo_exposure 0 = (Inr False, 2)"
  proof -
    have c: "m_DeletionTimestamp (cl_Meta (demo_claim ''p-target'')) = None" "cl_VolumeName (demo_claim ''p-target'') \<noteq> []"
      by (simp_all add: demo_claim_def new_meta_def)
    have "ge_get_pv ?e n w = Inr (demo_volume_of Map.empty None)" "ge_patch_pv ?e pv w = (Inr pv, Suc w)"
      "delete_claim ?e ns n w = (None, Suc w)" for n ns pv w by (simp_all add: demo_target_def delete_claim_def)
    moreover have "map_get (m_Labels (pv_Meta (demo_volume_of Map.empty None))) LabelPVRole = []" by (simp add: demo_volume_of_def new_meta_def)
    ultimately show ?thesis unfolding Finalize_def using k g c by (simp add: retainAndReleaseStaging_def)
  qed
  have pv: "pv = demo_volume_of Map.empty None" "\<not> kept_for demo_exposure pv" if "ge_get_pv ?e (cl_VolumeName (demo_claim ''p-target'')) 0 = Inr pv" for pv
    using that by (auto simp: demo_target_def kept_for_def demo_volume_of_def new_meta_def)
  from volume_marked_before_release [OF k g f] have "\<exists>pv. ge_get_pv ?e (cl_VolumeName (demo_claim ''p-target'')) 0 = Inr pv \<and>
      (kept_for demo_exposure pv \<or> kept_for demo_exposure (marked demo_exposure pv))" by force
  with pv have "kept_for demo_exposure (marked demo_exposure (demo_volume_of Map.empty None))" by blast
  with f show ?thesis by simp
qed

abbreviation demo_marked :: "(string, unit) Volume" where
  "demo_marked \<equiv> demo_volume_of [LabelPVC \<mapsto> ''data'', LabelPVRole \<mapsto> PVRoleTransplant] (Some (''shop'', ''data''))"

lemma demo_delivered:
  "handOver (demo_target (Inl NotFound) (Inr (demo_claim ''data'')) [demo_marked]) demo_exposure demo_marked w = (Inr True, Suc w)"
proof -
  let ?e = "demo_target (Inl NotFound) (Inr (demo_claim ''data'')) [demo_marked]"
  have "pv_ClaimRef demo_marked = Some (te_TargetNamespace demo_exposure, te_TargetPVCName demo_exposure)"
    by (simp add: demo_volume_of_def exposure_def demo_request_def)
  moreover have "ge_get_claim ?e (te_TargetNamespace demo_exposure) n w = Inr (demo_claim ''data'')" for n w
    by (simp add: demo_target_def exposure_def demo_request_def)
  moreover have "cl_VolumeName (demo_claim ''data'') = m_Name (pv_Meta demo_marked)" "cl_VolumeName (demo_claim ''data'') \<noteq> []"
    "cl_Phase (demo_claim ''data'') = ClaimBound" by (simp_all add: demo_claim_def demo_volume_of_def new_meta_def)
  moreover have "ge_patch_pv ?e pv w = (Inr pv, Suc w)" for pv w by (simp add: demo_target_def)
  ultimately show ?thesis by (simp add: handOver_def hand_to_final_def Let_def)
qed

lemma first_listed:
  "\<exists>pvs. l = Inr pvs \<and> (case pvs of [] \<Rightarrow> N | x # _ \<Rightarrow> \<exists>pv w. P pv w \<and> Q pv x \<and> R pv w x) \<Longrightarrow> l = Inr [y] \<Longrightarrow> \<exists>pv w. P pv w \<and> Q pv y"
  by auto

theorem completed_handover_delivered_witness:
  "fst (Finalize (demo_target (Inl NotFound) (Inr (demo_claim ''data'')) [demo_marked]) demo_exposure 0) = Inr True \<and>
   (\<exists>pv w1 w'. volume_delivered (demo_target (Inl NotFound) (Inr (demo_claim ''data'')) [demo_marked]) demo_exposure pv w1 w' \<and>
      m_Name (pv_Meta pv) = ''pv-1'')"
proof -
  let ?e = "demo_target (Inl NotFound) (Inr (demo_claim ''data'')) [demo_marked]"
  have t: "te_Kind demo_exposure = KindTransplant" "te_OperatorNamespace demo_exposure = ''ops''" "te_TargetNamespace demo_exposure = ''shop''"
    "te_TargetPVCName demo_exposure = ''data''" by (simp_all add: exposure_def demo_request_def demo_target_def)
  have g: "ge_get_claim ?e ''ops'' n w = Inl NotFound" "ge_list_pvs ?e l w = Inr [demo_marked]" for n l w by (simp_all add: demo_target_def)
  have f: "Finalize ?e demo_exposure 0 = (Inr True, Suc 0)" by (simp add: Finalize_def t g findTransplantPV_def demo_delivered)
  have n: "m_Name (pv_Meta demo_marked) = ''pv-1''" by (simp add: demo_volume_of_def new_meta_def)
  have "m_Name (pv_Meta v') = m_Name (pv_Meta v)" if "ge_patch_pv ?e v w = (Inr v', w')" for v w v' w'
    using that by (simp add: demo_target_def)
  from first_listed [OF completed_handover_delivered [OF t(1) f this, THEN conjunct2] g(2)] n
  have "\<exists>pv w1. volume_delivered ?e demo_exposure pv w1 (Suc 0) \<and> m_Name (pv_Meta pv) = ''pv-1''" by simp
  with f show ?thesis by auto
qed

theorem cleanup_finishes_delivery_witness:
  "Cleanup (demo_target (Inl NotFound) (Inr (demo_claim ''data'')) [demo_marked]) demo_exposure 0 = (None, 2)"
proof -
  let ?e = "demo_target (Inl NotFound) (Inr (demo_claim ''data'')) [demo_marked]"
  have "te_Kind demo_exposure = KindTransplant" by (simp add: exposure_def)
  moreover have "delete_claim ?e (te_OperatorNamespace demo_exposure) (te_StagingPVCName demo_exposure) 0 = (None, 1)"
    by (simp add: delete_claim_def) (simp add: demo_target_def)
  moreover have "ge_list_pvs ?e (transplant_labels demo_exposure) 1 = Inr (demo_marked # [])" by (simp add: demo_target_def)
  moreover have "ge_get_claim ?e (te_TargetNamespace demo_exposure) (te_TargetPVCName demo_exposure) 1 = Inr (demo_claim ''data'')"
    by (simp add: exposure_def demo_request_def) (simp add: demo_target_def)
  moreover have "cl_VolumeName (demo_claim ''data'') = m_Name (pv_Meta demo_marked)" by (simp add: demo_claim_def demo_volume_of_def new_meta_def)
  ultimately have "snd (Cleanup ?e demo_exposure 0) = snd (handOver ?e demo_exposure demo_marked 1) \<and>
      (fst (Cleanup ?e demo_exposure 0) = None \<longleftrightarrow> \<not> isl (fst (handOver ?e demo_exposure demo_marked 1)))"
    by (rule cleanup_finishes_delivery)
  then have "snd (Cleanup ?e demo_exposure 0) = 2" "fst (Cleanup ?e demo_exposure 0) = None" unfolding demo_delivered by simp_all
  then show ?thesis by (metis prod.collapse)
qed

definition demo_owner :: restoreExecContext where
  "demo_owner = \<lparr>rx_ownerName = ''r'', rx_ownerLabelKey = LabelRestore, rx_ownerID = ''r'', rx_targetNamespace = ''shop'', rx_deleteExtras = False,
     rx_restoredFromRun = [], rx_repoName = [], rx_repoURL = [], rx_dek = [], rx_s3CredsSecret = [], rx_s3Connections = None, rx_clusterID = [],
     rx_startBudget = 0\<rparr>"

definition demo_running_restore :: Restore where
  "demo_running_restore = \<lparr>r_Meta = new_meta ''shop'' ''r'' Map.empty Map.empty,
     r_Status = \<lparr>rst_Phase = RestorePhaseRunning, rst_RestoredResources = 0, rst_Resources = None, rst_PlannedVolumes = 0, rst_RestoredVolumes = 0,
       rst_FailedVolumes = 0, rst_RestoredBytes = 0, rst_Conditions = []\<rparr>\<rparr>"

theorem live_restore_volumes_are_spared_witness:
  "reapRestorePV ((demo_reaper (Inl NotFound))\<lparr>pe_get_restore := \<lambda>_ _ _. Inr demo_running_restore\<rparr>) (minutes 30) demo_reaper_state
     (PersistentVolume.truncate (marked (demo_exposure\<lparr>te_Labels := volumeLabels demo_owner ''data''\<rparr>) (demo_volume_of Map.empty None))) = demo_reaper_state"
proof -
  let ?r = "(demo_reaper (Inl NotFound))\<lparr>pe_get_restore := \<lambda>_ _ _. Inr demo_running_restore\<rparr>"
  have "rx_ownerLabelKey demo_owner = LabelRestore" "rx_ownerName demo_owner \<noteq> []"
    "tr_Labels (demo_request\<lparr>tr_Labels := volumeLabels demo_owner ''data''\<rparr>) = volumeLabels demo_owner ''data''"
    "te_Labels (demo_exposure\<lparr>te_Labels := volumeLabels demo_owner ''data''\<rparr>) = volumeLabels demo_owner ''data''"
    "pe_get_restore ?r (rx_targetNamespace demo_owner) (rx_ownerName demo_owner) (pw demo_reaper_state) = Inr demo_running_restore"
    "m_DeletionTimestamp (r_Meta demo_running_restore) \<noteq> None \<or> \<not> IsTerminalRestorePhase (r_phase demo_running_restore)"
    by (simp_all add: demo_owner_def demo_running_restore_def IsTerminalRestorePhase_def)
  from live_restore_volumes_are_spared [OF this, THEN conjunct2, THEN conjunct1] show ?thesis .
qed

end
