(* ===== verification/Snapshot_Safety.thy ===== *)
theory Snapshot_Safety
  imports Snapshot_Exposer Target_Safety
begin

text \<open>
  What the exposure of a source volume guarantees, alone and under the Backup controller: the copy a mover mounts
  is ready and the snapshot behind it is kept while it is shared; a refusal leaves nothing behind; the
  teardown touches only objects of its own exposure, reclaims the snapshot last, and is never refused for
  the labels the Backup controller stamps.
\<close>

section \<open>The handover\<close>

definition origin_state ::
  "('w, 'z) exposer_env_scheme \<Rightarrow> Exposure \<Rightarrow> 'w \<Rightarrow> VolumeSnapshot \<Rightarrow> VolumeSnapshotContent \<Rightarrow> string \<Rightarrow> string \<Rightarrow> bool" where
  "origin_state x ex w vs vsc driver snap_handle \<longleftrightarrow>
     xe_get_vs x (ex_OriginNamespace ex) (ex_OriginVSName ex) w = Inr vs \<and> vs_readyToUse vs = Inr (Some True) \<and>
     (\<exists>bound. vs_boundContent vs = Inr (Some bound) \<and> bound \<noteq> [] \<and> xe_get_content x bound w = Inr vsc) \<and>
     vsc_driver vsc = Inr (Some driver) \<and> driver \<noteq> [] \<and> vsc_statusHandle vsc = Inr (Some snap_handle) \<and> snap_handle \<noteq> []"

definition guarded :: "('w, 'z) exposer_env_scheme \<Rightarrow> VolumeSnapshotContent \<Rightarrow> 'w \<Rightarrow> 'w \<Rightarrow> bool" where
  "guarded x vsc w w' \<longleftrightarrow>
     (\<exists>kept. vsc_deletionPolicy kept = Inr (Some deletionPolicyRetain) \<and> m_Name (vsc_Meta kept) = m_Name (vsc_Meta vsc) \<and>
        vsc_statusHandle kept = vsc_statusHandle vsc \<and>
        (kept = vsc \<and> w' = w \<or> (\<exists>fresh. pe_patch_content x kept w = (Inr fresh, w'))))"

definition rebound ::
  "('w, 'z) exposer_env_scheme \<Rightarrow> Exposure \<Rightarrow> (Exposure \<Rightarrow> i64 \<Rightarrow> SnapshotClaim) \<Rightarrow> VolumeSnapshot \<Rightarrow> string \<Rightarrow> string \<Rightarrow> 'w \<Rightarrow> 'w \<Rightarrow> bool" where
  "rebound x ex build vs driver snap_handle w w' \<longleftrightarrow>
     (\<exists>r1 r2 r3 w1 w2. xe_create_content x (buildStaticVolumeSnapshotContent ex driver snap_handle) w = (r1, w1) \<and> accepted r1 \<and>
        xe_create_vs x (buildStaticVolumeSnapshot ex) w1 = (r2, w2) \<and> accepted r2 \<and>
        xe_create_claim x (build ex (resolveTempPVCCapacity x (ex_Capacity ex) vs)) w2 = (r3, w') \<and> accepted r3)"

definition mountable :: "('w, 'z) exposer_env_scheme \<Rightarrow> Exposure \<Rightarrow> 'w \<Rightarrow> bool" where
  "mountable x ex w \<longleftrightarrow>
     (\<exists>vs. xe_get_vs x (ex_OperatorNamespace ex) (ex_StaticVSName ex) w = Inr vs \<and> vs_readyToUse vs = Inr (Some True)) \<and>
     xe_get_claim_phase x (ex_OperatorNamespace ex) (ex_TempPVCName ex) w = Inr ClaimBound"

lemma nested_Inr: "nested zero r = Inr v \<longleftrightarrow> r = Inr (Some v) \<or> r = Inr None \<and> v = zero"
  by (cases "(zero, r)" rule: nested.cases) auto

lemma merge_label_frame:
  "mergeLabels x obj add = (obj', b) \<Longrightarrow>
     vsc_deletionPolicy obj' = vsc_deletionPolicy obj \<and> vsc_statusHandle obj' = vsc_statusHandle obj \<and>
     m_Name (vsc_Meta obj') = m_Name (vsc_Meta obj) \<and> (\<not> b \<longrightarrow> obj' = obj)"
  by (auto simp: mergeLabels_def split: prod.splits if_splits)

lemma guard_policy_Inr:
  assumes "guard_policy vsc = Inr (kept, changed)"
  shows "vsc_deletionPolicy kept = Inr (Some deletionPolicyRetain) \<and> vsc_statusHandle kept = vsc_statusHandle vsc \<and>
    m_Name (vsc_Meta kept) = m_Name (vsc_Meta vsc) \<and> (\<not> changed \<longrightarrow> kept = vsc)"
  using assms by (auto simp: guard_policy_def Let_def nested_Inr split: sum.splits if_splits option.splits)

lemma patch_guards:
  assumes "patchOriginVSCForHandover x vsc labels w = (None, w')"
  shows "guarded x vsc w w'"
proof -
  obtain kept changed where g: "guard_policy vsc = Inr (kept, changed)"
    using assms by (auto simp: patchOriginVSCForHandover_def split: sum.splits)
  obtain kept' merged where m: "mergeLabels x kept labels = (kept', merged)" by fastforce
  note kept = guard_policy_Inr [OF g] merge_label_frame [OF m]
  show ?thesis
  proof (cases "changed \<or> merged")
    case True
    then obtain fresh where "pe_patch_content x kept' w = (Inr fresh, w')"
      using assms g m by (auto simp: patchOriginVSCForHandover_def split: sum.splits prod.splits)
    then show ?thesis using kept unfolding guarded_def by (intro exI [of _ kept']) auto
  next
    case False
    then show ?thesis using assms g m kept unfolding guarded_def
      by (intro exI [of _ kept']) (auto simp: patchOriginVSCForHandover_def)
  qed
qed

lemma consumable_mountable: "consumable x ex w = Inr True \<Longrightarrow> mountable x ex w"
  by (auto simp: consumable_def volumeSnapshotReady_def mountable_def nested_Inr split: sum.splits bool.splits if_splits)

lemma rebind_rebound:
  assumes "rebind x ex build vs driver snap_handle w = (Inr b, w')"
  shows "rebound x ex build vs driver snap_handle w w' \<and> consumable x ex w' = Inr b"
  using assms unfolding rebind_def rebound_def by (auto split: prod.splits if_splits)

lemma origin_content_state:
  assumes "ready_origin x ex w = Inr (Some vs)" "origin_content x ex vs w = Inr (Some (vsc, driver, snap_handle))"
  shows "origin_state x ex w vs vsc driver snap_handle"
proof -
  have "xe_get_vs x (ex_OriginNamespace ex) (ex_OriginVSName ex) w = Inr vs" "vs_readyToUse vs = Inr (Some True)"
    using assms(1) by (auto simp: ready_origin_def nested_Inr split: sum.splits bool.splits if_splits)
  moreover obtain bound where "vs_boundContent vs = Inr (Some bound)" "bound \<noteq> []" "xe_get_content x bound w = Inr vsc"
    "nested [] (vsc_driver vsc) = Inr driver" "nested [] (vsc_statusHandle vsc) = Inr snap_handle" "driver \<noteq> []" "snap_handle \<noteq> []"
    using assms(2) by (auto simp: origin_content_def nested_Inr split: sum.splits if_splits)
  ultimately show ?thesis unfolding origin_state_def by (auto simp: nested_Inr)
qed

text \<open>
  Every write of \<open>ready\<close>: none, the refused patch of the origin's content, or the static objects after that content
  was guarded.
\<close>

lemma ready_cases:
  assumes "ready x ex build w = (res, w')"
  obtains (waiting) "w' = w" "res \<noteq> Inr True"
  | (unguarded) vs vsc driver snap_handle err where "origin_state x ex w vs vsc driver snap_handle"
      "patchOriginVSCForHandover x vsc (ex_Labels ex) w = (Some err, w')" "res = Inl err"
  | (handed) vs vsc driver snap_handle w1 where "origin_state x ex w vs vsc driver snap_handle" "guarded x vsc w w1"
      "rebind x ex build vs driver snap_handle w1 = (res, w')"
proof (cases "ready_origin x ex w")
  case (Inr ovs)
  show ?thesis
  proof (cases ovs)
    case (Some vs)
    note o = Inr [unfolded Some]
    show ?thesis
    proof (cases "origin_content x ex vs w")
      case c: (Inr oc)
      show ?thesis
      proof (cases oc)
        case s: (Some t)
        obtain vsc driver snap_handle where t: "t = (vsc, driver, snap_handle)" by (metis prod_cases3)
        note state = origin_content_state [OF o c [unfolded s t]]
        obtain perr w1 where p: "patchOriginVSCForHandover x vsc (ex_Labels ex) w = (perr, w1)" by fastforce
        show ?thesis
        proof (cases perr)
          case None
          then have "rebind x ex build vs driver snap_handle w1 = (res, w')"
            using assms o c s t p by (simp add: ready_def)
          then show ?thesis using handed [OF state patch_guards [OF p [unfolded None]]] by simp
        next
          case (Some err)
          then show ?thesis using assms o c s t p unguarded [OF state] by (auto simp: ready_def)
        qed
      qed (use assms o c waiting in \<open>auto simp: ready_def\<close>)
    qed (use assms o waiting in \<open>auto simp: ready_def\<close>)
  qed (use assms Inr waiting in \<open>auto simp: ready_def\<close>)
qed (use assms waiting in \<open>auto simp: ready_def\<close>)

lemma ready_True:
  assumes "ready x ex build w = (Inr True, w')"
  obtains vs vsc driver snap_handle w1 where "origin_state x ex w vs vsc driver snap_handle" "guarded x vsc w w1"
    "rebound x ex build vs driver snap_handle w1 w'" "mountable x ex w'"
  using assms
proof (cases rule: ready_cases)
  case (handed vs vsc driver snap_handle w1)
  show ?thesis using that [OF handed(1,2)] rebind_rebound [OF handed(3)] consumable_mountable [of x ex w'] by simp
qed simp_all

section \<open>Under the Backup controller\<close>

lemma with_registry_sel [simp]:
  "be_get_pvc (with_registry x e) = be_get_pvc e" "be_For (with_registry x e) = For x"
  "be_Precheck (with_registry x e) = SnapshotExposer_Precheck x" "be_Expose (with_registry x e) = SnapshotExposer_Expose x"
  "be_Ready (with_registry x e) = SnapshotExposer_Ready x"
  by (simp_all add: with_registry_def)

lemma backstop_or_phase:
  "backstop_or e cause otherwise vol st = (res, vol', st') \<Longrightarrow> Phase vol' = Phase vol \<or> Phase vol' = VolumePhaseFailed"
  by (erule backstop_or_cases) simp_all

lemma uploading_only_when_ready:
  assumes "advanceSnapshotting e backup rc vol st = (res, vol', st')"
    and "Phase vol = VolumePhaseSnapshotting" and "Phase vol' = VolumePhaseUploading"
  obtains exposer exposure st1 where "reconstructExposure e backup (Pvc vol) st = (Inr (exposer, exposure), st1)"
    "fst (be_Ready e exposer exposure (bw st1)) = Inr True"
proof -
  obtain r st1 where r: "reconstructExposure e backup (Pvc vol) st = (r, st1)" by fastforce
  show ?thesis
  proof (cases r)
    case (Inl err)
    then show ?thesis using assms r backstop_or_phase by (fastforce simp: advanceSnapshotting_def Let_def)
  next
    case (Inr p)
    obtain exposer exposure where p: "p = (exposer, exposure)" by fastforce
    obtain ready w where rd: "be_Ready e exposer exposure (bw st1) = (ready, w)" by fastforce
    have "ready = Inr True"
    proof (rule ccontr)
      assume n: "ready \<noteq> Inr True"
      let ?v = "case ready of
          Inl err \<Rightarrow> recordAdvanceFailure e (Wrap (''check exposure readiness for PVC '' @
            m_Namespace (b_Meta backup) @ ''/'' @ Pvc vol) err) vol
        | Inr _ \<Rightarrow> vol"
      have v: "Phase ?v = VolumePhaseSnapshotting"
        using assms(2) by (simp add: recordAdvanceFailure_def split: sum.split)
      have "Phase vol' = VolumePhaseFailed \<or> (\<exists>cause. backstop_or e cause (Inr []) ?v (st1\<lparr>bw := w\<rparr>) = (res, vol', st'))"
        using assms(1) r Inr p rd n unfolding advanceSnapshotting_def Let_def
        by (simp only: prod.case sum.case if_False) (auto split: if_splits)
      then show False using assms(3) v backstop_or_phase [of e _ "Inr []" ?v] by fastforce
    qed
    then show ?thesis using that r Inr p rd by simp
  qed
qed

text \<open>
  C17: a volume goes on to its mover only over a copy that can be mounted and a snapshot that is kept. When the
  Backup controller, with the registry of this package, moves a volume from Snapshotting to Uploading, then
  the claim was resolved to an exposer; the origin snapshot was ready and bound to a content with a driver
  and a handle; that content was already Retain or a patch making it Retain was accepted before anything
  else was created; the static content on the same handle, the static snapshot and the temporary claim were
  then accepted in this order; and in the world after that the static snapshot was ready and the temporary
  claim bound.
\<close>

theorem uploading_copy_is_mountable:
  assumes "advanceSnapshotting (with_registry x e) backup rc vol st = (res, vol', st')"
    and "Phase vol = VolumePhaseSnapshotting" and "Phase vol' = VolumePhaseUploading"
  shows "\<exists>pvc exposer (exposure :: Exposure) w0 vs vsc driver snap_handle w1 w2.
    be_get_pvc e (m_Namespace (b_Meta backup)) (Pvc vol) (bw st) = Inr pvc \<and> For x pvc (bw st) = Inr exposer \<and>
    SnapshotExposer_Expose x exposer (exposeRequest backup pvc) (bw st) = (Inr exposure, w0) \<and>
    origin_state x exposure w0 vs vsc driver snap_handle \<and> guarded x vsc w0 w1 \<and>
    rebound x exposure (temp_builder exposer) vs driver snap_handle w1 w2 \<and> mountable x exposure w2"
proof -
  obtain exposer exposure st1 where r: "reconstructExposure (with_registry x e) backup (Pvc vol) st = (Inr (exposer, exposure), st1)"
    and "fst (SnapshotExposer_Ready x exposer exposure (bw st1)) = Inr True"
    using uploading_only_when_ready [OF assms] by auto
  then obtain w' where "ready x exposure (temp_builder exposer) (bw st1) = (Inr True, w')"
    by (metis SnapshotExposer_Ready_def prod.collapse)
  then obtain vs vsc driver snap_handle w1 where ok: "origin_state x exposure (bw st1) vs vsc driver snap_handle"
    "guarded x vsc (bw st1) w1" "rebound x exposure (temp_builder exposer) vs driver snap_handle w1 w'" "mountable x exposure w'"
    by (rule ready_True)
  obtain pvc where pvc: "be_get_pvc e (m_Namespace (b_Meta backup)) (Pvc vol) (bw st) = Inr pvc"
    using r by (simp add: reconstructExposure_def split: sum.splits)
  have "For x pvc (bw st) = Inr exposer"
    "SnapshotExposer_Expose x exposer (exposeRequest backup pvc) (bw st) = (Inr exposure, bw st1)"
    using r pvc by (auto simp: reconstructExposure_def split: sum.splits prod.splits)
  then show ?thesis using pvc ok by blast
qed

text \<open>The Secret a class names in plain strings, both halves present and without a template.\<close>

definition names_secret :: "VolumeSnapshotClass \<Rightarrow> string \<Rightarrow> string \<Rightarrow> bool" where
  "names_secret vsc namespace name \<longleftrightarrow>
     snapshotterSecretRef vsc = (namespace, name, False) \<and> namespace \<noteq> [] \<and> name \<noteq> []"

lemma verdict_Err [simp]:
  "Err (okResult name detail) = None" "Err (notCheckableResult name detail) = None"
  "Err (failedResult name reason detail) =
     Some (ErrPrecheckFailed (Wrap ''exposer: snapshot pre-check failed'' (ErrorNew detail)))"
  by (simp_all add: Err_def okResult_def notCheckableResult_def failedResult_def)

lemma precheck_refusal:
  assumes "SnapshotExposer_Precheck x exposer w = Some err"
  obtains namespace name cause where "names_secret (vsClass exposer) namespace name"
    "xe_get_secret x namespace name w = Some NotFound" "err = ErrPrecheckFailed cause"
proof -
  obtain namespace name templated where r: "snapshotterSecretRef (vsClass exposer) = (namespace, name, templated)"
    by (metis prod_cases3)
  have s: "(if templated \<or> namespace = [] \<or> name = [] \<or> xe_get_secret x namespace name w \<noteq> Some NotFound then None
      else Some (ErrPrecheckFailed (Wrap ''exposer: snapshot pre-check failed''
        (ErrorNew (missing_detail x (vsClass exposer) namespace name))))) = Some err"
    using assms r by (auto simp: SnapshotExposer_Precheck_def Precheck_def split: option.splits if_splits)
  then show ?thesis using that [of namespace name] r by (auto simp: names_secret_def split: if_splits)
qed

definition no_csi :: "('w, 'z) exposer_env_scheme \<Rightarrow> PersistentVolumeClaim \<Rightarrow> 'w \<Rightarrow> bool" where
  "no_csi x pvc w \<longleftrightarrow>
     (\<exists>pv. pc_VolumeName pvc \<noteq> [] \<and> xe_get_pv x (pc_VolumeName pvc) w = Inr pv \<and>
        (bv_CSIDriver pv = None \<or> bv_CSIDriver pv = Some []) \<and> map_get (bv_Annotations pv) migratedToAnnotation = [])"

definition no_snapshot_class :: "('w, 'z) exposer_env_scheme \<Rightarrow> PersistentVolumeClaim \<Rightarrow> 'w \<Rightarrow> bool" where
  "no_snapshot_class x pvc w \<longleftrightarrow>
     (\<exists>driver origin. driverFor x pvc w = Inr (driver, origin) \<and> findVolumeSnapshotClass x driver w = Inr None)"

lemma driverFor_unsupported:
  assumes "driverFor x pvc w = Inl (ErrUnsupported cause)"
  shows "no_csi x pvc w"
proof (cases "pc_VolumeName pvc = []")
  case True
  then show ?thesis using assms
    by (simp add: driverFor_def unread_error_def unbound_error_def split: sum.splits option.splits prod.splits if_splits)
next
  case False
  then obtain pv where "xe_get_pv x (pc_VolumeName pvc) w = Inr pv" "volume_driver x pvc pv = Inl (ErrUnsupported cause)"
    using assms by (simp add: driverFor_def unread_error_def split: sum.splits)
  with False show ?thesis by (simp add: no_csi_def volume_driver_def split: if_splits)
qed

lemma For_unsupported:
  assumes "For x pvc w = Inl (ErrUnsupported cause)"
  shows "no_csi x pvc w \<or> no_snapshot_class x pvc w"
proof (cases "driverFor x pvc w")
  case (Inl err)
  then show ?thesis using assms driverFor_unsupported [of x pvc w cause] by (simp add: For_def)
next
  case (Inr d)
  obtain driver origin where "d = (driver, origin)" by fastforce
  then show ?thesis using assms Inr by (simp add: For_def no_snapshot_class_def split: sum.splits option.splits)
qed

text \<open>
  A refusal leaves nothing behind and is never a guess. When a pending volume ends as Skipped or Failed in
  one attempt of the Backup controller with this registry, no write reached the cluster. It is Skipped only
  when its volume is no CSI volume or a complete listing holds no snapshot class for its driver, and Failed
  for the pre-check only when the class names a Secret in plain strings and the read of that Secret
  answered that it does not exist; otherwise it is Failed because the claim does not exist.
\<close>

theorem refusal_leaves_nothing:
  assumes "pending_attempt (with_registry x e) backup vol st = (vol', st')" and "Phase vol = VolumePhasePending"
    and "Phase vol' = VolumePhaseSkipped \<or> Phase vol' = VolumePhaseFailed"
  shows "bw st' = bw st \<and>
    (if Phase vol' = VolumePhaseSkipped
     then \<exists>pvc. be_get_pvc e (m_Namespace (b_Meta backup)) (Pvc vol) (bw st) = Inr pvc \<and>
       (no_csi x pvc (bw st) \<or> no_snapshot_class x pvc (bw st))
     else be_get_pvc e (m_Namespace (b_Meta backup)) (Pvc vol) (bw st) = Inl NotFound \<or>
       (\<exists>pvc exposer namespace name. be_get_pvc e (m_Namespace (b_Meta backup)) (Pvc vol) (bw st) = Inr pvc \<and>
          For x pvc (bw st) = Inr exposer \<and> names_secret (vsClass exposer) namespace name \<and>
          xe_get_secret x namespace name (bw st) = Some NotFound \<and> Reason vol' = backupReasonPrecheckFailed))"
proof (cases "be_get_pvc e (m_Namespace (b_Meta backup)) (Pvc vol) (bw st)")
  case (Inl err)
  then show ?thesis using assms by (auto simp: pending_attempt_def parkVolume_def split: if_splits)
next
  case pvc: (Inr pvc)
  show ?thesis
  proof (cases "For x pvc (bw st)")
    case (Inl err)
    show ?thesis
    proof (cases err)
      case (ErrUnsupported cause)
      then show ?thesis using assms pvc Inl For_unsupported [OF Inl [unfolded ErrUnsupported]] by (auto simp: pending_attempt_def)
    qed (use assms pvc Inl in \<open>auto simp: pending_attempt_def parkVolume_def\<close>)
  next
    case (Inr exposer)
    show ?thesis
    proof (cases "SnapshotExposer_Precheck x exposer (bw st)")
      case None
      then show ?thesis using assms pvc Inr
        by (auto simp: pending_attempt_def parkVolume_def split: prod.splits sum.splits)
    next
      case (Some err)
      then obtain namespace name cause where n: "names_secret (vsClass exposer) namespace name"
        "xe_get_secret x namespace name (bw st) = Some NotFound" "err = ErrPrecheckFailed cause" by (rule precheck_refusal)
      then have "vol' = vol\<lparr>Phase := VolumePhaseFailed, Reason := backupReasonPrecheckFailed\<rparr> \<and> bw st' = bw st"
        using assms(1) pvc Inr Some by (auto simp: pending_attempt_def)
      then show ?thesis using pvc Inr n(1,2) by (simp, intro exI [of _ namespace] exI [of _ name]) simp
    qed
  qed
qed

section \<open>Teardown\<close>

abbreviation del :: "('w, 'z) exposer_env_scheme \<Rightarrow> string \<Rightarrow> string \<Rightarrow> string \<Rightarrow> 'w \<Rightarrow> 'w" where
  "del x kind ns name w \<equiv> snd (pe_delete x kind ns name False w)"

text \<open>A content whose policy is Delete when the step to the second world is over.\<close>

definition released_content :: "('w, 'z) exposer_env_scheme \<Rightarrow> VolumeSnapshotContent \<Rightarrow> VolumeSnapshotContent \<Rightarrow> 'w \<Rightarrow> 'w \<Rightarrow> bool" where
  "released_content x vsc fresh w w' \<longleftrightarrow>
     vsc_deletionPolicy vsc = Inr (Some deletionPolicyDelete) \<and> fresh = vsc \<and> w' = w \<or>
     pe_patch_content x (to_delete vsc) w = (Inr fresh, w')"

text \<open>The origin's content before the origin is deleted: there is none to read, or it is released.\<close>

definition origin_released :: "('w, 'z) exposer_env_scheme \<Rightarrow> VolumeSnapshot \<Rightarrow> 'w \<Rightarrow> 'w \<Rightarrow> bool" where
  "origin_released x vs w w' \<longleftrightarrow>
     (\<exists>bound. nested [] (vs_boundContent vs) = Inr bound \<and>
        ((bound = [] \<or> xe_get_content x bound w = Inl NotFound) \<and> w' = w \<or>
         (\<exists>vsc fresh. xe_get_content x bound w = Inr vsc \<and> released_content x vsc fresh w w')))"

text \<open>A content that could not be released: its policy cannot be read or set, or the write of it was refused.\<close>

definition release_refused :: "('w, 'z) exposer_env_scheme \<Rightarrow> VolumeSnapshotContent \<Rightarrow> 'w \<Rightarrow> 'w \<Rightarrow> bool" where
  "release_refused x vsc w w' \<longleftrightarrow>
     vsc_deletionPolicy vsc \<noteq> Inr (Some deletionPolicyDelete) \<and>
     ((isl (vsc_deletionPolicy vsc) \<or> vsc_SetError vsc \<noteq> None) \<and> w' = w \<or>
      (\<exists>err. pe_patch_content x (to_delete vsc) w = (Inl err, w')))"

text \<open>
  What the recovery of the contents of a listing may write, item by item and in the order of the listing: its own static
  content is passed over; any other is released and then, under the identity the release answered, deleted; and the
  recovery may end at any item, at its release or at its delete.
\<close>

fun recovers :: "('w, 'z) exposer_env_scheme \<Rightarrow> string \<Rightarrow> VolumeSnapshotContent list \<Rightarrow> 'w \<Rightarrow> 'w \<Rightarrow> bool" where
  "recovers x static [] w w' \<longleftrightarrow> w' = w"
| "recovers x static (item # items) w w' \<longleftrightarrow>
     (if m_Name (vsc_Meta item) = static then recovers x static items w w'
      else release_refused x item w w' \<or>
        (\<exists>fresh w1 w2. released_content x item fresh w w1 \<and>
          w2 = del x kindVolumeSnapshotContent (m_Namespace (vsc_Meta fresh)) (m_Name (vsc_Meta fresh)) w1 \<and>
          (w' = w2 \<or> recovers x static items w2 w')))"

text \<open>
  What a teardown may write once the objects of the operator's namespace are dealt with, from the world in which it
  reads the origin. While the origin is there: the release of the content it is bound to, and its own delete after
  that. When it is gone: the recovery of the contents a listing by exactly the labels of the exposure holds, and
  this only when there are labels and none of them is empty.
\<close>

definition origin_writes :: "('w, 'z) exposer_env_scheme \<Rightarrow> string \<Rightarrow> string \<Rightarrow> string_map \<Rightarrow> 'w \<Rightarrow> 'w \<Rightarrow> bool" where
  "origin_writes x ns pre labels w w' \<longleftrightarrow> w' = w \<or>
     (case xe_get_vs x ns (volumeSnapshotName pre) w of
        Inr vs \<Rightarrow>
          (\<exists>bound vsc. vs_boundContent vs = Inr (Some bound) \<and> xe_get_content x bound w = Inr vsc \<and> release_refused x vsc w w') \<or>
          (\<exists>w1. origin_released x vs w w1 \<and> w' = del x kindVolumeSnapshot ns (volumeSnapshotName pre) w1)
      | Inl err \<Rightarrow> err = NotFound \<and> xe_range x labels \<noteq> [] \<and> [] \<notin> snd ` set (xe_range x labels) \<and>
          (\<exists>items. xe_list_contents x labels w = Inr items \<and> recovers x (staticVSCName pre) items w w'))"

lemma setOriginVSCToDelete_cases:
  assumes "setOriginVSCToDelete x vsc w = ((err, fresh), w')"
  obtains (released) "err = None" "released_content x vsc fresh w w'"
  | (failed) e where "err = Some e" "release_refused x vsc w w'"
  using assms unfolding setOriginVSCToDelete_def Let_def released_content_def release_refused_def
  by (auto split: sum.splits if_splits option.splits prod.splits)

lemma delete_world:
  "snd (deletePVC x ns name w) = del x kindPVC ns name w"
  "snd (deleteVolumeSnapshot x ns name w) = del x kindVolumeSnapshot ns name w"
  "snd (deleteVolumeSnapshotContent x name w) = del x kindVolumeSnapshotContent [] name w"
  by (simp_all add: deletePVC_def deleteVolumeSnapshot_def deleteVolumeSnapshotContent_def split: prod.split option.split)

lemma restoreOriginVSCByName_cases:
  assumes "restoreOriginVSCByName x name w = (err, w')"
  obtains (absent) "err = None" "w' = w" "xe_get_content x name w = Inl NotFound"
  | (unread) e where "err = Some e" "w' = w"
  | (released) vsc fresh where "err = None" "xe_get_content x name w = Inr vsc" "released_content x vsc fresh w w'"
  | (refused) vsc e where "err = Some e" "xe_get_content x name w = Inr vsc" "release_refused x vsc w w'"
proof (cases "xe_get_content x name w")
  case (Inl e)
  then show ?thesis using assms absent unread by (auto simp: restoreOriginVSCByName_def split: if_splits)
next
  case (Inr vsc)
  obtain fresh where s: "setOriginVSCToDelete x vsc w = ((err, fresh), w')"
    using assms Inr by (auto simp: restoreOriginVSCByName_def split: prod.splits)
  then show ?thesis using Inr released refused by (cases rule: setOriginVSCToDelete_cases) blast+
qed

lemma derived_exposure [simp]:
  "ex_OriginNamespace (deriveExposure ns op pre labels) = ns" "ex_OperatorNamespace (deriveExposure ns op pre labels) = op"
  "ex_OriginVSName (deriveExposure ns op pre labels) = volumeSnapshotName pre"
  "ex_StaticVSCName (deriveExposure ns op pre labels) = staticVSCName pre"
  "ex_StaticVSName (deriveExposure ns op pre labels) = staticVSName pre"
  "ex_TempPVCName (deriveExposure ns op pre labels) = tempPVCName pre" "ex_Labels (deriveExposure ns op pre labels) = labels"
  by (simp_all add: deriveExposure_def)

lemma reclaim_contents_recovers:
  "recovers x (ex_StaticVSCName ex) items w (snd (reclaim_contents x ex items w))"
proof (induction items arbitrary: w)
  case (Cons item items)
  show ?case
  proof (cases "m_Name (vsc_Meta item) = ex_StaticVSCName ex")
    case False
    obtain err fresh w1 where s: "setOriginVSCToDelete x item w = ((err, fresh), w1)" by (metis prod.collapse)
    from s show ?thesis
    proof (cases rule: setOriginVSCToDelete_cases)
      case released
      obtain res w2 where d: "pe_delete x kindVolumeSnapshotContent (m_Namespace (vsc_Meta fresh)) (m_Name (vsc_Meta fresh)) False w1 = (res, w2)"
        by fastforce
      have "snd (reclaim_contents x ex (item # items) w) = w2 \<or>
          snd (reclaim_contents x ex (item # items) w) = snd (reclaim_contents x ex items w2)"
        using s d released(1) False by simp
      with Cons.IH [of w2] have "snd (reclaim_contents x ex (item # items) w) = w2 \<or>
          recovers x (ex_StaticVSCName ex) items w2 (snd (reclaim_contents x ex (item # items) w))" by metis
      moreover have "w2 = del x kindVolumeSnapshotContent (m_Namespace (vsc_Meta fresh)) (m_Name (vsc_Meta fresh)) w1" using d by simp
      ultimately show ?thesis unfolding recovers.simps using released(2) False by metis
    next
      case (failed e)
      then show ?thesis using s False by simp
    qed
  qed (use Cons in simp)
qed simp

lemma reclaimOrigin_writes:
  "origin_writes x ns pre labels w (snd (reclaimOrigin x (deriveExposure ns op pre labels) w))" (is "origin_writes x ns pre labels w ?w'")
proof (cases "xe_get_vs x ns (volumeSnapshotName pre) w")
  case (Inl err)
  show ?thesis
  proof (cases "?w' = w")
    case False
    then have n: "err = NotFound" "xe_range x labels \<noteq> []" using Inl by (auto simp: reclaimOrigin_def reclaimOrphanOriginVSC_def split: if_splits)
    then have f: "List.find (\<lambda>(key, value). value = []) (xe_range x labels) = None"
      using Inl False by (auto simp: reclaimOrigin_def reclaimOrphanOriginVSC_def split: option.splits)
    then have e: "[] \<notin> snd ` set (xe_range x labels)" by (auto simp: find_None_iff)
    obtain items where l: "xe_list_contents x labels w = Inr items"
      using Inl False n f by (cases "xe_list_contents x labels w") (auto simp: reclaimOrigin_def reclaimOrphanOriginVSC_def split: if_splits)
    have "?w' = snd (reclaim_contents x (deriveExposure ns op pre labels) items w)"
      using Inl n f l by (simp add: reclaimOrigin_def reclaimOrphanOriginVSC_def)
    then show ?thesis using Inl n e l reclaim_contents_recovers [of x "deriveExposure ns op pre labels" items w]
      by (simp add: origin_writes_def)
  qed (simp add: origin_writes_def)
next
  case vs: (Inr vs)
  show ?thesis
  proof (cases "nested [] (vs_boundContent vs)")
    case (Inl e)
    then show ?thesis using vs by (simp add: origin_writes_def reclaimOrigin_def)
  next
    case (Inr bound)
    obtain err w1 where r: "(if bound \<noteq> [] then restoreOriginVSCByName x bound w else (None, w)) = (err, w1)" by fastforce
    have w': "?w' = (if err = None then del x kindVolumeSnapshot ns (volumeSnapshotName pre) w1 else w1)"
      using vs Inr r by (auto simp: reclaimOrigin_def delete_world split: option.splits)
    show ?thesis
    proof (cases "bound = []")
      case True
      then have "err = None" "origin_released x vs w w1" using r Inr by (auto simp: origin_released_def)
      then show ?thesis using vs w' by (auto simp: origin_writes_def)
    next
      case False
      then have b: "vs_boundContent vs = Inr (Some bound)" and "restoreOriginVSCByName x bound w = (err, w1)"
        using r Inr by (simp_all add: nested_Inr)
      from this(2) show ?thesis
      proof (cases rule: restoreOriginVSCByName_cases)
        case absent
        then have "origin_released x vs w w1" using Inr by (auto simp: origin_released_def)
        then show ?thesis using vs w' absent(1) by (auto simp: origin_writes_def)
      next
        case unread
        then show ?thesis using w' by (simp add: origin_writes_def)
      next
        case (released vsc fresh)
        then have "origin_released x vs w w1" using Inr unfolding origin_released_def by blast
        then show ?thesis using vs w' released(1) by (auto simp: origin_writes_def)
      next
        case (refused vsc e)
        then show ?thesis using vs w' b by (auto simp: origin_writes_def)
      qed
    qed
  qed
qed

text \<open>
  C18: a teardown stays within its exposure. Whatever the cluster answers, what a teardown has written when it ends is: the
  delete of the temporary claim of its own prefix, possibly then that of its static snapshot, possibly then that
  of its static content, and after these three at most what the origin calls for. While the origin is
  there this is the release of the content it is bound to, which is the change of its policy to Delete, and then the
  delete of the origin, never without the release. When the origin is gone it is the release and then the delete of
  contents that a listing by exactly the labels of the exposure held, its own static content excepted, and each is
  deleted only after its release. Nothing is created, and no other object is written.
\<close>

theorem teardown_stays_within_the_exposure:
  assumes "w1 = snd (pe_delete x kindPVC (pe_OperatorNamespace x) (tempPVCName pre) False w)"
    and "w2 = snd (pe_delete x kindVolumeSnapshot (pe_OperatorNamespace x) (staticVSName pre) False w1)"
    and "w3 = snd (pe_delete x kindVolumeSnapshotContent [] (staticVSCName pre) False w2)"
    and "Registry_TeardownExposure x ns pre labels w = (err, w')"
  shows "w' = w1 \<or> w' = w2 \<or> w' = w3 \<or> origin_writes x ns pre labels w3 w'"
proof -
  let ?ex = "deriveExposure ns (pe_OperatorNamespace x) pre labels"
  obtain r1 where d1: "deletePVC x (pe_OperatorNamespace x) (tempPVCName pre) w = (r1, w1)"
    using delete_world(1) [of x "pe_OperatorNamespace x" "tempPVCName pre" w] assms(1) by (metis prod.collapse)
  obtain r2 where d2: "deleteVolumeSnapshot x (pe_OperatorNamespace x) (staticVSName pre) w1 = (r2, w2)"
    using delete_world(2) [of x "pe_OperatorNamespace x" "staticVSName pre" w1] assms(2) by (metis prod.collapse)
  obtain r3 where d3: "deleteVolumeSnapshotContent x (staticVSCName pre) w2 = (r3, w3)"
    using delete_world(3) [of x "staticVSCName pre" w2] assms(3) by (metis prod.collapse)
  have "w' = w1 \<or> w' = w2 \<or> w' = w3 \<or> w' = snd (reclaimOrigin x ?ex w3)"
    using assms(4) d1 d2 d3 by (auto simp: Registry_TeardownExposure_def TeardownExposure_def cleanup_def split: option.splits)
  then show ?thesis using reclaimOrigin_writes [of x ns pre labels w3 "pe_OperatorNamespace x"] by auto
qed

text \<open>A delete the server accepted, or one of something that is not there.\<close>

definition removed :: "('w, 'z) exposer_env_scheme \<Rightarrow> string \<Rightarrow> string \<Rightarrow> string \<Rightarrow> 'w \<Rightarrow> 'w \<Rightarrow> bool" where
  "removed x kind ns name w w' \<longleftrightarrow>
     (\<exists>res. pe_delete x kind ns name False w = (res, w') \<and> (case res of None \<Rightarrow> True | Some err \<Rightarrow> absentOK x err))"

fun all_reclaimed :: "('w, 'z) exposer_env_scheme \<Rightarrow> string \<Rightarrow> VolumeSnapshotContent list \<Rightarrow> 'w \<Rightarrow> 'w \<Rightarrow> bool" where
  "all_reclaimed x static [] w w' \<longleftrightarrow> w' = w"
| "all_reclaimed x static (item # items) w w' \<longleftrightarrow>
     (if m_Name (vsc_Meta item) = static then all_reclaimed x static items w w'
      else \<exists>fresh w1 w2. released_content x item fresh w w1 \<and>
        removed x kindVolumeSnapshotContent (m_Namespace (vsc_Meta fresh)) (m_Name (vsc_Meta fresh)) w1 w2 \<and>
        all_reclaimed x static items w2 w')"

lemma delete_None:
  "deletePVC x ns name w = (None, w') \<Longrightarrow> removed x kindPVC ns name w w'"
  "deleteVolumeSnapshot x ns name w = (None, w') \<Longrightarrow> removed x kindVolumeSnapshot ns name w w'"
  "deleteVolumeSnapshotContent x name w = (None, w') \<Longrightarrow> removed x kindVolumeSnapshotContent [] name w w'"
  by (auto simp: deletePVC_def deleteVolumeSnapshot_def deleteVolumeSnapshotContent_def removed_def absentOK_def
      split: prod.splits option.splits if_splits)

lemma reclaim_contents_None:
  "reclaim_contents x ex items w = (None, w') \<Longrightarrow> all_reclaimed x (ex_StaticVSCName ex) items w w'"
proof (induction items arbitrary: w)
  case (Cons item items)
  show ?case
  proof (cases "m_Name (vsc_Meta item) = ex_StaticVSCName ex")
    case False
    obtain err fresh w1 where s: "setOriginVSCToDelete x item w = ((err, fresh), w1)" by (metis prod.collapse)
    obtain res w2 where d: "pe_delete x kindVolumeSnapshotContent (m_Namespace (vsc_Meta fresh)) (m_Name (vsc_Meta fresh)) False w1 = (res, w2)"
      by fastforce
    have "err = None" using Cons.prems s False by (cases err) simp_all
    moreover from this have "res = None \<or> res = Some NotFound" "reclaim_contents x ex items w2 = (None, w')"
      using Cons.prems s d False by (auto split: if_splits)
    moreover have "released_content x item fresh w w1"
      using s \<open>err = None\<close> by (cases rule: setOriginVSCToDelete_cases) simp_all
    moreover have "removed x kindVolumeSnapshotContent (m_Namespace (vsc_Meta fresh)) (m_Name (vsc_Meta fresh)) w1 w2"
      using calculation(2) d by (auto simp: removed_def absentOK_def)
    ultimately show ?thesis using Cons.IH [of w2] False by auto
  qed (use Cons in simp)
qed simp

lemma origin_reclaim_None:
  assumes "reclaimOrigin x ex w = (None, w')" "xe_get_vs x (ex_OriginNamespace ex) (ex_OriginVSName ex) w = Inr vs"
  shows "\<exists>w1. origin_released x vs w w1 \<and> removed x kindVolumeSnapshot (ex_OriginNamespace ex) (ex_OriginVSName ex) w1 w'"
proof -
  obtain bound where b: "nested [] (vs_boundContent vs) = Inr bound"
    using assms by (auto simp: reclaimOrigin_def split: sum.splits)
  obtain err w1 where r: "(if bound \<noteq> [] then restoreOriginVSCByName x bound w else (None, w)) = (err, w1)" by fastforce
  have n: "err = None" using assms b r by (cases err) (simp_all add: reclaimOrigin_def)
  then have "deleteVolumeSnapshot x (ex_OriginNamespace ex) (ex_OriginVSName ex) w1 = (None, w')"
    using assms b r by (simp add: reclaimOrigin_def)
  then have "removed x kindVolumeSnapshot (ex_OriginNamespace ex) (ex_OriginVSName ex) w1 w'" by (rule delete_None(2))
  moreover have "origin_released x vs w w1"
  proof (cases "bound = []")
    case False
    then have "restoreOriginVSCByName x bound w = (None, w1)" using r n by simp
    then show ?thesis using b unfolding origin_released_def by (cases rule: restoreOriginVSCByName_cases) (blast, simp, blast, simp)
  qed (use r b in \<open>auto simp: origin_released_def\<close>)
  ultimately show ?thesis by (intro exI [of _ w1] conjI)
qed

text \<open>
  A teardown that reports success is complete and in order. Then the temporary claim, the static snapshot and
  the static content were deleted, in this order, or were not there. Only afterwards the origin was looked at:
  if it is there, the content it is bound to had the policy Delete or was given it before the origin was
  deleted; if it is gone, every content a listing by the exposure's labels held, its static content excepted,
  was given the policy Delete and then deleted, unless there is no label to list by; and nothing is left to do
  only on a cluster without the snapshot kinds.
\<close>

theorem finished_teardown_is_complete:
  assumes "Registry_TeardownExposure x ns pre labels w = (None, w')"
  shows "\<exists>w1 w2 w3. removed x kindPVC (pe_OperatorNamespace x) (tempPVCName pre) w w1 \<and>
    removed x kindVolumeSnapshot (pe_OperatorNamespace x) (staticVSName pre) w1 w2 \<and>
    removed x kindVolumeSnapshotContent [] (staticVSCName pre) w2 w3 \<and>
    (case xe_get_vs x ns (volumeSnapshotName pre) w3 of
       Inr vs \<Rightarrow> \<exists>w4. origin_released x vs w3 w4 \<and> removed x kindVolumeSnapshot ns (volumeSnapshotName pre) w4 w'
     | Inl err \<Rightarrow>
         if err = NotFound
         then xe_range x labels = [] \<and> w' = w3 \<or>
           (case xe_list_contents x labels w3 of
              Inl err \<Rightarrow> pe_IsNoMatchError x err \<and> w' = w3
            | Inr items \<Rightarrow> all_reclaimed x (staticVSCName pre) items w3 w')
         else pe_IsNoMatchError x err \<and> w' = w3)"
proof -
  let ?ex = "deriveExposure ns (pe_OperatorNamespace x) pre labels"
  have c: "cleanup x ?ex w = (None, w')" using assms by (simp add: Registry_TeardownExposure_def TeardownExposure_def)
  obtain w1 where d1: "deletePVC x (pe_OperatorNamespace x) (tempPVCName pre) w = (None, w1)"
    using c by (auto simp: cleanup_def split: prod.splits option.splits)
  obtain w2 where d2: "deleteVolumeSnapshot x (pe_OperatorNamespace x) (staticVSName pre) w1 = (None, w2)"
    using c d1 by (auto simp: cleanup_def split: prod.splits option.splits)
  obtain w3 where d3: "deleteVolumeSnapshotContent x (staticVSCName pre) w2 = (None, w3)"
    using c d1 d2 by (auto simp: cleanup_def split: prod.splits option.splits)
  have r: "reclaimOrigin x ?ex w3 = (None, w')" using c d1 d2 d3 by (simp add: cleanup_def)
  have "case xe_get_vs x ns (volumeSnapshotName pre) w3 of
       Inr vs \<Rightarrow> \<exists>w4. origin_released x vs w3 w4 \<and> removed x kindVolumeSnapshot ns (volumeSnapshotName pre) w4 w'
     | Inl err \<Rightarrow>
         if err = NotFound
         then xe_range x labels = [] \<and> w' = w3 \<or>
           (case xe_list_contents x labels w3 of
              Inl err \<Rightarrow> pe_IsNoMatchError x err \<and> w' = w3
            | Inr items \<Rightarrow> all_reclaimed x (staticVSCName pre) items w3 w')
         else pe_IsNoMatchError x err \<and> w' = w3"
  proof (cases "xe_get_vs x ns (volumeSnapshotName pre) w3")
    case (Inr vs)
    then show ?thesis using origin_reclaim_None [OF r, of vs] by simp
  next
    case (Inl err)
    then show ?thesis using r reclaim_contents_None [of x ?ex _ w3 w']
      by (auto simp: reclaimOrigin_def reclaimOrphanOriginVSC_def split: if_splits option.splits sum.splits)
  qed
  with delete_None(1) [OF d1] delete_None(2) [OF d2] delete_None(3) [OF d3] show ?thesis
    by (intro exI [of _ w1] exI [of _ w2] exI [of _ w3] conjI)
qed

text \<open>
  A recovery that ends with an error: the contents before some item of the listing were reclaimed, and that item, which is
  not the static content, could not be released, or its delete was refused for another reason than its absence.
\<close>

definition recovery_stopped :: "('w, 'z) exposer_env_scheme \<Rightarrow> string \<Rightarrow> VolumeSnapshotContent list \<Rightarrow> 'w \<Rightarrow> 'w \<Rightarrow> bool" where
  "recovery_stopped x static items w w' \<longleftrightarrow>
     (\<exists>before item after w1. items = before @ item # after \<and> m_Name (vsc_Meta item) \<noteq> static \<and> all_reclaimed x static before w w1 \<and>
       (release_refused x item w1 w' \<or>
        (\<exists>fresh w2 err. released_content x item fresh w1 w2 \<and> err \<noteq> NotFound \<and>
          pe_delete x kindVolumeSnapshotContent (m_Namespace (vsc_Meta fresh)) (m_Name (vsc_Meta fresh)) False w2 = (Some err, w'))))"

lemma recovery_stopped_Cons:
  assumes "recovery_stopped x static items w2 w'" and "\<And>before w'. all_reclaimed x static before w2 w' \<Longrightarrow> all_reclaimed x static (item # before) w w'"
  shows "recovery_stopped x static (item # items) w w'"
proof -
  obtain before it after w1 where i: "items = before @ it # after" "m_Name (vsc_Meta it) \<noteq> static" "all_reclaimed x static before w2 w1"
    and t: "release_refused x it w1 w' \<or>
        (\<exists>fresh w2 err. released_content x it fresh w1 w2 \<and> err \<noteq> NotFound \<and>
          pe_delete x kindVolumeSnapshotContent (m_Namespace (vsc_Meta fresh)) (m_Name (vsc_Meta fresh)) False w2 = (Some err, w'))"
    using assms(1) unfolding recovery_stopped_def by blast
  show ?thesis unfolding recovery_stopped_def
    by (rule exI [of _ "item # before"], rule exI [of _ it], rule exI [of _ after], rule exI [of _ w1])
      (use i t assms(2) [OF i(3)] in simp)
qed

lemma reclaim_contents_stopped:
  "reclaim_contents x ex items w = (Some err, w') \<Longrightarrow> recovery_stopped x (ex_StaticVSCName ex) items w w'"
proof (induction items arbitrary: w)
  case (Cons item items)
  show ?case
  proof (cases "m_Name (vsc_Meta item) = ex_StaticVSCName ex")
    case True
    then show ?thesis using Cons by (intro recovery_stopped_Cons [of x _ items w]) simp_all
  next
    case False
    obtain perr fresh w1 where s: "setOriginVSCToDelete x item w = ((perr, fresh), w1)" by (metis prod.collapse)
    have here: ?thesis if "release_refused x item w w' \<or>
        (\<exists>fresh w2 err. released_content x item fresh w w2 \<and> err \<noteq> NotFound \<and>
          pe_delete x kindVolumeSnapshotContent (m_Namespace (vsc_Meta fresh)) (m_Name (vsc_Meta fresh)) False w2 = (Some err, w'))"
      unfolding recovery_stopped_def
      by (rule exI [of _ "[]"], rule exI [of _ item], rule exI [of _ items], rule exI [of _ w]) (use that False in simp)
    from s show ?thesis
    proof (cases rule: setOriginVSCToDelete_cases)
      case (failed e)
      then show ?thesis using here Cons.prems s False by simp
    next
      case released
      obtain res w2 where d: "pe_delete x kindVolumeSnapshotContent (m_Namespace (vsc_Meta fresh)) (m_Name (vsc_Meta fresh)) False w1 = (res, w2)"
        by fastforce
      show ?thesis
      proof (cases "res = None \<or> res = Some NotFound")
        case True
        then have "reclaim_contents x ex items w2 = (Some err, w')" using Cons.prems s d released(1) False by auto
        moreover have "removed x kindVolumeSnapshotContent (m_Namespace (vsc_Meta fresh)) (m_Name (vsc_Meta fresh)) w1 w2"
          using True d by (auto simp: removed_def absentOK_def)
        ultimately show ?thesis using released(2) False Cons.IH by (intro recovery_stopped_Cons [of x _ items w2]) auto
      next
        case no: False
        then have "w' = w2" using Cons.prems s d released(1) False by simp
        then show ?thesis using here released(2) d no by (cases res) blast+
      qed
    qed
  qed
qed simp

text \<open>
  C19: the recovery of a parked snapshot is never refused for a Backup. The labels the Backup controller stamps on
  an exposure have no empty value when the Backup and the claim have names, whichever plane the Backup belongs to. So when
  the origin snapshot of such an exposure is gone, the contents a listing by exactly these labels holds are worked
  through in order. When no error is reported, every one of them, the exposure's own static content excepted, had the
  policy Delete or was given it and was then deleted; when one is, those before some item were, and that item could
  not be released or its delete was refused: the error is never one about the labels. The hypothesis on the range
  is what Go promises: every entry of the map, in some order.
\<close>

theorem recovery_is_not_refused:
  assumes "set (xe_range x (exposureLabels backup pvc)) = {(k, v). exposureLabels backup pvc k = Some v}"
    and "m_Name (b_Meta backup) \<noteq> []" and "m_Namespace (b_Meta backup) \<noteq> []" and "pvc \<noteq> []"
    and "xe_get_vs x (m_Namespace (b_Meta backup)) (volumeSnapshotName pre) w = Inl NotFound"
    and "xe_list_contents x (exposureLabels backup pvc) w = Inr items"
    and "reclaimOrigin x (deriveExposure (m_Namespace (b_Meta backup)) (pe_OperatorNamespace x) pre (exposureLabels backup pvc)) w = (err, w')"
  shows "case err of
      None \<Rightarrow> all_reclaimed x (staticVSCName pre) items w w'
    | Some _ \<Rightarrow> recovery_stopped x (staticVSCName pre) items w w'"
proof -
  let ?l = "exposureLabels backup pvc"
  let ?ex = "deriveExposure (m_Namespace (b_Meta backup)) (pe_OperatorNamespace x) pre ?l"
  have l: "?l LabelBackup = Some (m_Name (b_Meta backup))"
    by (simp add: exposureLabels_def Let_def)
  then have ne: "xe_range x ?l \<noteq> []" using assms(1) by force
  have "v \<noteq> []" if "?l k = Some v" for k v
    using that assms(2-4) by (auto simp: exposureLabels_def Let_def split: if_splits)
  then have "List.find (\<lambda>(key, value). value = []) (xe_range x ?l) = None"
    unfolding find_None_iff using assms(1) by auto
  with ne have "reclaim_contents x ?ex items w = (err, w')" using assms(5-7) by (simp add: reclaimOrigin_def reclaimOrphanOriginVSC_def)
  then show ?thesis
    using reclaim_contents_None [of x ?ex items w w'] reclaim_contents_stopped [of x ?ex items w] by (cases err) simp_all
qed

section \<open>Smaller facts\<close>

text \<open>What was exposed is what a teardown derives from the request alone.\<close>

lemma teardown_finds_what_expose_made:
  assumes "SnapshotExposer_Expose x exposer req w = (Inr ex, w')"
  shows "SnapshotExposer_Cleanup x exposer ex w1 = Registry_TeardownExposure x (xr_Namespace req) (xr_NamePrefix req) (xr_Labels req) w1"
proof -
  let ?d = "deriveExposure (xr_Namespace req) (pe_OperatorNamespace x) (xr_NamePrefix req) (xr_Labels req)"
  have e: "ex_OriginNamespace ex = ex_OriginNamespace ?d" "ex_OperatorNamespace ex = ex_OperatorNamespace ?d"
    "ex_OriginVSName ex = ex_OriginVSName ?d" "ex_StaticVSCName ex = ex_StaticVSCName ?d"
    "ex_StaticVSName ex = ex_StaticVSName ?d" "ex_TempPVCName ex = ex_TempPVCName ?d" "ex_Labels ex = ex_Labels ?d"
    using assms by (auto simp: SnapshotExposer_Expose_def expose_def split: prod.splits if_splits)
  have r: "reclaim_contents x ex items w = reclaim_contents x ?d items w" for items w
    by (induction items arbitrary: w) (simp_all only: reclaim_contents.simps e(4))
  show ?thesis
    unfolding SnapshotExposer_Cleanup_def Registry_TeardownExposure_def TeardownExposure_def cleanup_def reclaimOrigin_def
      reclaimOrphanOriginVSC_def e r ..
qed

text \<open>The temporary claim is at least as large as the source and as the snapshot says.\<close>

lemma temp_claim_fits:
  "requested \<le>s resolveTempPVCCapacity x requested vs"
  "readRestoreSize x vs = Some restore \<Longrightarrow> restore \<le>s resolveTempPVCCapacity x requested vs"
  by (auto simp: resolveTempPVCCapacity_def word_sle_eq word_sless_alt split: option.split)

text \<open>The class taken is the one with the least name among those of the driver, in whatever order they are listed.\<close>

lemma class_candidates_Inr:
  "class_candidates provisioner cs = Inr candidates \<Longrightarrow> candidates = filter (\<lambda>c. nested [] (vc_driver c) = Inr provisioner) cs"
  by (induction cs arbitrary: candidates) (auto split: sum.splits if_splits)

lemma class_choice_is_least:
  assumes "findVolumeSnapshotClass x provisioner w = Inr (Some c)" "xe_list_classes x w = Inr items"
  shows "c \<in> set items \<and> nested [] (vc_driver c) = Inr provisioner \<and>
    (\<forall>c' \<in> set items. nested [] (vc_driver c') = Inr provisioner \<longrightarrow> vc_Name c \<le> vc_Name c')"
proof -
  obtain candidates where c: "class_candidates provisioner items = Inr candidates"
    "(case sort_key vc_Name candidates of [] \<Rightarrow> None | c # _ \<Rightarrow> Some c) = Some c"
    using assms by (auto simp: findVolumeSnapshotClass_def split: sum.splits)
  then obtain rest where s: "sort_key vc_Name candidates = c # rest" by (auto split: list.splits)
  have "sorted (map vc_Name (c # rest))" "set (c # rest) = set candidates"
    using sorted_sort_key_map [of vc_Name candidates] set_sort [of vc_Name candidates] by (simp_all only: s)
  then show ?thesis using class_candidates_Inr [OF c(1)] by auto
qed

text \<open>
  The teardown asks for the deletes and goes on: it never reads the temporary claim, so the origin is released and
  deleted also while the claim is still there.
\<close>

lemma teardown_never_reads_the_claim:
  "Registry_TeardownExposure (x\<lparr>xe_get_claim_phase := f\<rparr>) ns pre labels w = Registry_TeardownExposure x ns pre labels w"
proof -
  let ?x = "x\<lparr>xe_get_claim_phase := f\<rparr>"
  have f: "pe_patch_content ?x = pe_patch_content x" "pe_delete ?x = pe_delete x" "pe_IsNoMatchError ?x = pe_IsNoMatchError x"
    "pe_OperatorNamespace ?x = pe_OperatorNamespace x" "xe_get_vs ?x = xe_get_vs x" "xe_get_content ?x = xe_get_content x"
    "xe_list_contents ?x = xe_list_contents x" "xe_range ?x = xe_range x" "xe_Quote ?x = xe_Quote x"
    by simp_all
  have s: "setOriginVSCToDelete ?x vsc w = setOriginVSCToDelete x vsc w" for vsc w
    unfolding setOriginVSCToDelete_def f ..
  have r: "reclaim_contents ?x ex items w = reclaim_contents x ex items w" for ex items w
    by (induction items arbitrary: w) (simp_all only: reclaim_contents.simps s f)
  have a: "absentOK ?x err = absentOK x err" for err unfolding absentOK_def f ..
  show ?thesis
    unfolding Registry_TeardownExposure_def TeardownExposure_def cleanup_def deletePVC_def deleteVolumeSnapshot_def
      deleteVolumeSnapshotContent_def reclaimOrigin_def reclaimOrphanOriginVSC_def restoreOriginVSCByName_def f r s a ..
qed

section \<open>A concrete cluster\<close>

definition demo_snapshot :: VolumeSnapshot where
  "demo_snapshot =
     \<lparr>vs_Meta = demo_meta Map.empty, vs_ClassName = None, vs_SourceClaim = None, vs_SourceContent = None,
      vs_readyToUse = Inr (Some True), vs_boundContent = Inr (Some ''content''), vs_restoreSize = Inr None, vs_error = Inr False,
      vs_creationTime = Inr None\<rparr>"

definition demo_content :: VolumeSnapshotContent where
  "demo_content =
     \<lparr>vsc_Meta = (demo_meta (exposureLabels empty_backup ''data''))\<lparr>m_Name := ''content''\<rparr>, vsc_snapshotHandle = Inr None,
      vsc_deletionPolicy = Inr (Some ''Retain''), vsc_SetError = None, vsc_driver = Inr (Some ''rbd''),
      vsc_statusHandle = Inr (Some ''h''), vsc_VolumeSnapshotRef = None\<rparr>"

definition demo_class :: VolumeSnapshotClass where
  "demo_class = \<lparr>vc_Name = ''rbd-class'', vc_driver = Inr (Some ''rbd''),
     vc_parameters = Inr (Some [snapshotterSecretNameParam \<mapsto> ParamString ''s'', snapshotterSecretNamespaceParam \<mapsto> ParamString ''n''])\<rparr>"

text \<open>Every write is accepted and counted. The origin snapshot and the answer for the Secret are given.\<close>

definition demo_exposer :: "api_error + VolumeSnapshot \<Rightarrow> api_error option \<Rightarrow> nat exposer_env" where
  "demo_exposer origin secret =
     \<lparr>pe_OperatorNamespace = ''ops'', pe_MinAge = minutes 30, pe_Recorder = True, pe_now = \<lambda>_. 0, pe_list = \<lambda>_ _ _ _. Inr [],
      pe_list_pvs = \<lambda>_ _. Inr [], pe_list_contents = \<lambda>_ _. Inr [], pe_list_backups = \<lambda>_ _. Inr [],
      pe_get = \<lambda>_ _ _ _. Inl NotFound, pe_APIReader = None, pe_get_backup = \<lambda>_ _ _. Inl NotFound,
      pe_get_restore = \<lambda>_ _ _. Inl NotFound, pe_get_cluster_restore = \<lambda>_ _. Inl NotFound, pe_get_job = \<lambda>_ _ _. Inl NotFound,
      pe_get_volume_name = \<lambda>_ _ _. Inl NotFound, pe_get_class_policy = \<lambda>_ _. Inl NotFound,
      pe_delete = \<lambda>_ _ _ _ w. (None, Suc w), pe_patch_pv = \<lambda>_ w. (None, Suc w), pe_patch_content = \<lambda>vsc w. (Inr vsc, Suc w),
      pe_IsNoMatchError = \<lambda>_. False,
      xe_get_vs = \<lambda>ns _ _. if ns = ''ops'' then Inr demo_snapshot else origin, xe_get_content = \<lambda>_ _. Inr demo_content,
      xe_get_claim_phase = \<lambda>_ _ _. Inr ''Bound'', xe_get_pv = \<lambda>_ _. Inl NotFound,
      xe_get_class = \<lambda>_ _. Inr (Map.empty, ''rbd''), xe_get_secret = \<lambda>_ _ _. secret, xe_list_classes = \<lambda>_. Inr [demo_class],
      xe_list_contents = \<lambda>ls _. Inr (if ls = exposureLabels empty_backup ''data'' then [demo_content] else []),
      xe_create_vs = \<lambda>_ w. (None, Suc w), xe_create_content = \<lambda>_ w. (None, Suc w), xe_create_claim = \<lambda>_ w. (None, Suc w),
      xe_range = \<lambda>_. [(LabelManagedBy, ManagedByValue), (LabelBackup, ''n-1''), (LabelNamespace, ''shop''), (LabelPVC, ''data'')],
      xe_ParseQuantity = \<lambda>_. None, xe_ParseTime = \<lambda>_. None, xe_show = \<lambda>_. [], xe_Quote = \<lambda>s. s\<rparr>"

lemma demo_labels: "exposureLabels empty_backup ''data'' =
  [LabelManagedBy \<mapsto> ManagedByValue, LabelBackup \<mapsto> ''n-1'', LabelNamespace \<mapsto> ''shop'', LabelPVC \<mapsto> ''data'']"
  by (simp add: exposureLabels_def empty_backup_def map_get_def)

lemma demo_reclaim:
  "reclaim_contents (demo_exposer origin secret) (deriveExposure ''shop'' ''ops'' ''p'' labels) [demo_content] w = (None, Suc (Suc w))"
  by (simp add: setOriginVSCToDelete_def demo_exposer_def demo_content_def demo_meta_def staticVSCName_def Let_def)

lemma demo_teardown:
  "Registry_TeardownExposure (demo_exposer (Inr demo_snapshot) None) ''shop'' ''p'' Map.empty 0 = (None, 5)"
  by (simp add: Registry_TeardownExposure_def TeardownExposure_def cleanup_def deletePVC_def deleteVolumeSnapshot_def
      deleteVolumeSnapshotContent_def reclaimOrigin_def restoreOriginVSCByName_def setOriginVSCToDelete_def
      demo_exposer_def demo_snapshot_def demo_content_def demo_meta_def Let_def)

theorem teardown_stays_within_the_exposure_witness:
  "origin_writes (demo_exposer (Inr demo_snapshot) None) ''shop'' ''p'' Map.empty 3 5"
proof -
  let ?x = "demo_exposer (Inr demo_snapshot) None"
  have d: "snd (pe_delete ?x kind ns name False w) = Suc w" for kind ns name w by (simp add: demo_exposer_def)
  have "5 = (1::nat) \<or> 5 = (2::nat) \<or> 5 = (3::nat) \<or> origin_writes ?x ''shop'' ''p'' Map.empty 3 5"
    by (rule teardown_stays_within_the_exposure [OF _ _ _ demo_teardown]) (simp_all add: d)
  then show ?thesis by simp
qed

theorem finished_teardown_is_complete_witness:
  "\<exists>w3 w4. origin_released (demo_exposer (Inr demo_snapshot) None) demo_snapshot w3 w4 \<and>
     removed (demo_exposer (Inr demo_snapshot) None) kindVolumeSnapshot ''shop'' (volumeSnapshotName ''p'') w4 5"
proof -
  have "xe_get_vs (demo_exposer (Inr demo_snapshot) None) ''shop'' (volumeSnapshotName ''p'') w = Inr demo_snapshot" for w
    by (simp add: demo_exposer_def)
  with finished_teardown_is_complete [OF demo_teardown] show ?thesis by (simp only: sum.case) blast
qed

theorem recovery_is_not_refused_witness:
  "all_reclaimed (demo_exposer (Inl NotFound) None) (staticVSCName ''p'') [demo_content] 0 2"
proof -
  have b: "m_Name (b_Meta empty_backup) = ''n-1''" "m_Namespace (b_Meta empty_backup) = ''shop''"
    by (simp_all add: empty_backup_def)
  let ?x = "demo_exposer (Inl NotFound) None" and ?l = "exposureLabels empty_backup ''data''"
  have range: "set (xe_range ?x ?l) = {(k, v). ?l k = Some v}"
    unfolding demo_labels by (auto simp: demo_exposer_def split: if_splits)
  have "List.find (\<lambda>(key, value). value = []) (xe_range ?x ?l) = None" "xe_range ?x ?l \<noteq> []"
    unfolding demo_labels by (simp_all add: demo_exposer_def)
  moreover have "xe_get_vs ?x ''shop'' name 0 = Inl NotFound" "xe_list_contents ?x ?l 0 = Inr [demo_content]" "pe_OperatorNamespace ?x = ''ops''" for name
    by (simp_all add: demo_exposer_def)
  ultimately have "reclaimOrigin ?x (deriveExposure ''shop'' (pe_OperatorNamespace ?x) ''p'' ?l) 0 = (None, 2)"
    using demo_reclaim [of "Inl NotFound" None] by (simp add: reclaimOrigin_def reclaimOrphanOriginVSC_def)
  with recovery_is_not_refused [OF range, of "''p''" 0 "[demo_content]" None 2] show ?thesis
    using b \<open>xe_list_contents ?x ?l 0 = Inr [demo_content]\<close> by (simp add: demo_exposer_def)
qed

definition demo_claim_of :: PersistentVolumeClaim where
  "demo_claim_of = \<lparr>pc_Namespace = ''shop'', pc_Name = ''data'', pc_Labels = Map.empty, pc_VolumeName = [],
     pc_StorageClassName = Some ''fast'', pc_AccessModes = [], pc_Capacity = 1\<rparr>"

definition demo_controller :: "(nat, unit, SnapshotExposer) backup_env" where
  "demo_controller =
     \<lparr>he_libs = demo_libs, he_now = \<lambda>_. 0, he_Hooks = None, he_list_pods = \<lambda>_ _. Inr [],
      he_update_status = \<lambda>_ w. (None, w), he_set_condition = \<lambda>c cs. c # cs, he_find_condition = \<lambda>cs t. None,
      he_duration_String = \<lambda>_. [], he_show_api = \<lambda>_. ''api'',
      be_deps = \<lparr>rd_OperatorNamespace = ''ops'', rd_now = \<lambda>_. 0, rd_elapsed_String = \<lambda>_. [],
        rd_wait = \<lambda>_ _ w. (None, w), rd_get_secret = \<lambda>_ _ _. Inr [SecretKeyAWSAccessKeyID \<mapsto> ''a'', SecretKeyAWSSecretAccessKey \<mapsto> ''b''], rd_create_secret = \<lambda>_ w. (None, w),
        rd_delete_secret = \<lambda>_ _ w. (None, w), rd_get_job = \<lambda>_ _ _. Inl NotFound, rd_list_jobs = \<lambda>_ _ _. Inr [],
        rd_create_job = \<lambda>_ w. (None, w), rd_delete_job = \<lambda>_ _ _ w. (None, w), rd_job_pods = \<lambda>_ _. Inr []\<rparr>,
      be_enqueue = \<lambda>_ w. w, be_MoverStartDeadline = 0, be_PendingResolveDeadline = 0, be_AdvanceRetryDeadline = 0,
      be_get_pvc = \<lambda>_ _ _. Inr demo_claim_of, be_For = \<lambda>_ _. Inr (csiGenericExposer demo_class), be_Precheck = \<lambda>_ _. None,
      be_Expose = \<lambda>_ _ w. (Inl (ExposerFault (ErrorNew ''no'')), w), be_Ready = \<lambda>_ _ w. (Inr False, w),
      be_Progress = \<lambda>_ _ _. None, be_QuiescenceRequired = \<lambda>_. None, be_warning_events = None,
      be_unmarshal_result = \<lambda>_. Inr zero_result\<rparr>"

lemma demo_For: "For (demo_exposer origin secret) demo_claim_of w = Inr (csiGenericExposer demo_class)"
proof -
  have "\<not> Contains ''rbd'' cephfsProvisionerMarker" by code_simp
  then show ?thesis
    by (simp add: For_def driverFor_def findVolumeSnapshotClass_def demo_exposer_def demo_claim_of_def demo_class_def map_get_def)
qed

lemma demo_secret: "names_secret demo_class ''n'' ''s''"
proof -
  have "TrimSpace ''n'' = ''n''" "TrimSpace ''s'' = ''s''" "\<not> Contains ''n'' csiTemplateMarker" "\<not> Contains ''s'' csiTemplateMarker"
    by code_simp+
  then show ?thesis by (simp add: names_secret_def snapshotterSecretRef_def demo_class_def paramString_def)
qed

lemma demo_refused:
  "pending_attempt (with_registry (demo_exposer (Inl NotFound) (Some NotFound)) demo_controller) empty_backup
     (demo_volume VolumePhasePending) \<lparr>bw = 0, bev = []\<rparr> =
   ((demo_volume VolumePhasePending)\<lparr>Phase := VolumePhaseFailed, Reason := backupReasonPrecheckFailed\<rparr>,
    emit (VolumeFailedEvent (Pvc (demo_volume VolumePhasePending)) ''SnapshotPrecheck'') \<lparr>bw = 0, bev = []\<rparr>)"
proof -
  let ?x = "demo_exposer (Inl NotFound) (Some NotFound)"
  have "snapshotterSecretRef demo_class = (''n'', ''s'', False)" using demo_secret by (simp add: names_secret_def)
  moreover have "xe_get_secret ?x ''n'' ''s'' 0 = Some NotFound" by (simp add: demo_exposer_def)
  ultimately obtain cause where "SnapshotExposer_Precheck ?x (csiGenericExposer demo_class) 0 = Some (ErrPrecheckFailed cause)"
    by (simp add: SnapshotExposer_Precheck_def Precheck_def)
  moreover have "be_get_pvc demo_controller ns pvc w = Inr demo_claim_of" for ns pvc w by (simp add: demo_controller_def)
  ultimately show ?thesis by (simp add: pending_attempt_def demo_For)
qed

theorem refusal_leaves_nothing_witness:
  "\<exists>exposer namespace name. names_secret (vsClass exposer) namespace name \<and>
     xe_get_secret (demo_exposer (Inl NotFound) (Some NotFound)) namespace name 0 = Some NotFound"
proof -
  have p: "Phase (demo_volume VolumePhasePending) = VolumePhasePending"
    "Phase ((demo_volume VolumePhasePending)\<lparr>Phase := VolumePhaseFailed, Reason := backupReasonPrecheckFailed\<rparr>) = VolumePhaseFailed"
    by (simp_all add: demo_volume_def)
  have c: "be_get_pvc demo_controller ns pvc w = Inr demo_claim_of" for ns pvc w by (simp add: demo_controller_def)
  from refusal_leaves_nothing [OF demo_refused p(1) disjI2 [OF p(2)]] show ?thesis
    unfolding p c by (simp only: sum.distinct bstate.select_convs) auto
qed

lemma demo_reconstruct:
  "\<exists>ex st1. reconstructExposure (with_registry (demo_exposer (Inr demo_snapshot) None) demo_controller) empty_backup ''data'' \<lparr>bw = 0, bev = []\<rparr> =
     (Inr (csiGenericExposer demo_class, ex), st1)"
proof -
  let ?x = "demo_exposer (Inr demo_snapshot) None"
  obtain ex w where "SnapshotExposer_Expose ?x (csiGenericExposer demo_class) (exposeRequest empty_backup demo_claim_of) 0 = (Inr ex, w)"
    by (simp add: SnapshotExposer_Expose_def expose_def accepted_def demo_exposer_def)
  moreover have "be_get_pvc demo_controller ns pvc w = Inr demo_claim_of" for ns pvc w by (simp add: demo_controller_def)
  ultimately show ?thesis by (simp add: reconstructExposure_def demo_For)
qed

lemma demo_ready: "\<exists>w'. SnapshotExposer_Ready (demo_exposer (Inr demo_snapshot) None) (csiGenericExposer demo_class) ex w = (Inr True, w')"
proof -
  let ?x = "demo_exposer (Inr demo_snapshot) None"
  have vs: "xe_get_vs ?x ns name w = Inr demo_snapshot" "xe_get_content ?x name w = Inr demo_content" for ns name w
    by (simp_all add: demo_exposer_def)
  have "ready_origin ?x ex w = Inr (Some demo_snapshot)" "origin_content ?x ex demo_snapshot w = Inr (Some (demo_content, ''rbd'', ''h''))"
    unfolding ready_origin_def origin_content_def vs by (simp_all add: demo_snapshot_def vs) (simp add: demo_content_def)
  moreover have "\<exists>w1. patchOriginVSCForHandover ?x demo_content (ex_Labels ex) w = (None, w1)"
    by (auto simp: patchOriginVSCForHandover_def guard_policy_def demo_content_def demo_exposer_def split: prod.split)
  moreover have "\<exists>w'. rebind ?x ex build demo_snapshot ''rbd'' ''h'' w1 = (Inr True, w')" for build w1
  proof -
    have "consumable ?x ex w = Inr True" for w
      unfolding consumable_def volumeSnapshotReady_def vs by (simp add: demo_snapshot_def demo_exposer_def)
    moreover have "xe_create_vs ?x a w = (None, Suc w)" "xe_create_content ?x b w = (None, Suc w)" "xe_create_claim ?x c w = (None, Suc w)"
      for a b c w by (simp_all add: demo_exposer_def)
    ultimately show ?thesis by (simp add: rebind_def accepted_def)
  qed
  ultimately show ?thesis by (auto simp: SnapshotExposer_Ready_def ready_def)
qed

lemma demo_uploading:
  "\<exists>st'. advanceSnapshotting (with_registry (demo_exposer (Inr demo_snapshot) None) demo_controller) empty_backup demo_rc
     (demo_volume VolumePhaseSnapshotting) \<lparr>bw = 0, bev = []\<rparr> =
   (Inr [], (demo_volume VolumePhaseSnapshotting)\<lparr>Phase := VolumePhaseUploading\<rparr>, st')"
proof -
  let ?e = "with_registry (demo_exposer (Inr demo_snapshot) None) demo_controller"
  have e: "rd_get_job (be_deps ?e) w ns name = Inl NotFound" "rd_list_jobs (be_deps ?e) w ns ls = Inr []" "be_QuiescenceRequired ?e w = None"
    "rd_create_job (be_deps ?e) request w = (None, w)" for w ns name ls request
    by (simp_all add: with_registry_def demo_controller_def)
  have slot: "moverSlotBlocked (be_get_job ?e w) (rd_list_jobs (be_deps ?e) w) None ns name repo 0 = Inr False" for w ns name repo
    by (simp add: moverSlotBlocked_def e)
  have creds: "ensureMoverCredsSecret (be_deps ?e) name dek s ns labels w = (None, w)" for name dek s ns labels w
    by (simp add: ensureMoverCredsSecret_def GetValue_def with_registry_def demo_controller_def Let_def)
  have start: "start_mover ?e empty_backup demo_rc ex vol st = (Inr [], vol\<lparr>Phase := VolumePhaseUploading\<rparr>, st)" for ex vol and st :: "nat bstate"
    unfolding start_mover_def Let_def e(3) by (simp add: slot creds e demo_rc_def)
  obtain ex st1 where r: "reconstructExposure ?e empty_backup ''data'' \<lparr>bw = 0, bev = []\<rparr> = (Inr (csiGenericExposer demo_class, ex), st1)"
    using demo_reconstruct by blast
  obtain w' where rd: "SnapshotExposer_Ready (demo_exposer (Inr demo_snapshot) None) (csiGenericExposer demo_class) ex (bw st1) = (Inr True, w')"
    using demo_ready by blast
  have "Pvc (demo_volume VolumePhaseSnapshotting) = ''data''" by (simp add: demo_volume_def)
  then show ?thesis using r rd start by (simp add: advanceSnapshotting_def Let_def)
qed

theorem uploading_copy_is_mountable_witness:
  "\<exists>(ex :: Exposure) w. mountable (demo_exposer (Inr demo_snapshot) None) ex w"
proof -
  have p: "Phase (demo_volume VolumePhaseSnapshotting) = VolumePhaseSnapshotting"
    "Phase ((demo_volume VolumePhaseSnapshotting)\<lparr>Phase := VolumePhaseUploading\<rparr>) = VolumePhaseUploading"
    by (simp_all add: demo_volume_def)
  from demo_uploading obtain st' where
    "advanceSnapshotting (with_registry (demo_exposer (Inr demo_snapshot) None) demo_controller) empty_backup demo_rc
       (demo_volume VolumePhaseSnapshotting) \<lparr>bw = 0, bev = []\<rparr> =
     (Inr [], (demo_volume VolumePhaseSnapshotting)\<lparr>Phase := VolumePhaseUploading\<rparr>, st')" by (rule exE)
  from uploading_copy_is_mountable [OF this p] show ?thesis by (elim exE conjE) (rule exI, rule exI)
qed

end
