(* ===== verification/Cluster_Erasure.thy ===== *)
theory Cluster_Erasure
  imports Restore_Controller
begin

text \<open>
  The erasure controller (\<^verbatim>\<open>internal/controller/clustererasure_controller.go\<close>): the physical removal of a
  tenant's, a namespace's or a claim's snapshots from a shared repository. A pass checks the typed confirmation and
  the location, measures the scope with a listing, enqueues one operation that forgets and prunes, polls it
  through its handle and writes the record of what was established as removed. The lister, the queue, the
  API server, the condition helpers and Go's \<^verbatim>\<open>%q\<close> and \<^verbatim>\<open>%v\<close> are fields of \<open>erasure_env\<close>; the map of
  operations in flight lives in the process and is part of the state. Metrics are left out.
\<close>

section \<open>The resource\<close>

abbreviation erasurePhasePending :: string where "erasurePhasePending \<equiv> ''Pending''"
abbreviation erasurePhaseAwaiting :: string where "erasurePhaseAwaiting \<equiv> ''AwaitingConfirmation''"
abbreviation erasurePhaseRunning :: string where "erasurePhaseRunning \<equiv> ''Running''"
abbreviation erasurePhaseCompleted :: string where "erasurePhaseCompleted \<equiv> ''Completed''"
abbreviation erasurePhaseBlocked :: string where "erasurePhaseBlocked \<equiv> ''Blocked''"
abbreviation erasurePhaseFailed :: string where "erasurePhaseFailed \<equiv> ''Failed''"
abbreviation conditionErasureComplete :: string where "conditionErasureComplete \<equiv> ''ErasureComplete''"
definition erasureRequeueInterval :: duration where "erasureRequeueInterval = seconds 15"
definition erasureBlockedRecheck :: duration where "erasureBlockedRecheck = hours 1"

record ClusterErasureStatus =
  zs_Phase :: string
  zs_SnapshotsTargeted :: i32
  zs_SnapshotsForgotten :: i32
  zs_SnapshotsRemaining :: i32
  zs_Conditions :: "Condition list"

record ClusterErasure =
  z_Meta :: ObjectMeta
  z_LocationRef :: string
  z_Target :: ErasureTarget
  z_Confirmation :: string
  z_Status :: ClusterErasureStatus

text \<open>A location with the repack cap of its maintenance block, none without the block.\<close>

record ErasureLocation = ClusterBackupLocation +
  zl_PruneMaxRepackSize :: "string option"

datatype erasure_event =
    ErasureBlocked string
  | ErasureStarted string i32
  | ErasureScopeGrew i32 i32
  | ErasureFailedEvent string
  | ErasureCompletedEvent string

record 'w zstate =
  zw :: 'w
  zinflight :: "string \<rightharpoonup> nat"
  zev :: "erasure_event list"

record ('w, 'identity) erasure_env =
  ze_OperatorNamespace :: string
  ze_deps :: "'w repoMaintenanceDeps"
  ze_keys :: "('w, 'identity) key_env"
  ze_get :: "string \<Rightarrow> 'w \<Rightarrow> api_error + ClusterErasure"
  ze_get_location :: "string \<Rightarrow> 'w \<Rightarrow> api_error + ErasureLocation"
  ze_get_repository :: "string \<Rightarrow> 'w \<Rightarrow> api_error + BackupRepository"
  ze_ListFiltered :: "BackupRepository \<Rightarrow> string \<Rightarrow> string list \<Rightarrow> 'w \<Rightarrow> (go_error + Snapshot list) \<times> 'w"
  ze_update_status :: "ClusterErasure \<Rightarrow> 'w \<Rightarrow> api_error option \<times> 'w"
  ze_Enqueue :: "string \<Rightarrow> OpKind \<Rightarrow> repoMaintenanceRequest \<Rightarrow> repoMaintenanceRequest \<Rightarrow> 'w \<Rightarrow> (go_error + nat) \<times> 'w"
  ze_outcome :: "nat \<Rightarrow> 'w \<Rightarrow> go_error option option"
  ze_set_condition :: "Condition \<Rightarrow> Condition list \<Rightarrow> Condition list"
  ze_show_api :: "api_error \<Rightarrow> string"
  ze_Quote :: "string \<Rightarrow> string"
  ze_show_tags :: "string list \<Rightarrow> string"

type_synonym 'w erasure_answer = "answer \<times> ClusterErasure \<times> 'w zstate"

abbreviation z_name :: "ClusterErasure \<Rightarrow> string" where "z_name er \<equiv> m_Name (z_Meta er)"
abbreviation z_phase :: "ClusterErasure \<Rightarrow> string" where "z_phase er \<equiv> zs_Phase (z_Status er)"
abbreviation show_i32 :: "i32 \<Rightarrow> string" where "show_i32 n \<equiv> FormatInt (sint n)"

section \<open>Names and scope\<close>

definition erasureConfirmationFor :: "ErasureTarget \<Rightarrow> string" where
  "erasureConfirmationFor t =
     (if et_Namespace t \<noteq> [] \<and> et_PVC t \<noteq> [] then et_Namespace t @ ''/'' @ et_PVC t
      else if et_Namespace t \<noteq> [] then et_Namespace t
      else et_Tenant t)"

definition erasurePruneMaxRepackSize :: "ErasureLocation \<Rightarrow> string" where
  "erasurePruneMaxRepackSize loc = (case zl_PruneMaxRepackSize loc of None \<Rightarrow> [] | Some s \<Rightarrow> s)"

definition erasureResourceName :: "string \<Rightarrow> string \<Rightarrow> string" where
  "erasureResourceName erasure step = ''er-'' @ erasure @ ''-'' @ step"

definition erasureCountJobName :: "string \<Rightarrow> string" where
  "erasureCountJobName erasure = ''er-'' @ erasure @ ''-count''"

definition erasureVerifyJobName :: "string \<Rightarrow> string" where
  "erasureVerifyJobName erasure = ''er-'' @ erasure @ ''-verify''"

definition stampErasureRecord :: "ErasureRecord \<Rightarrow> ClusterErasure \<Rightarrow> ClusterErasure" where
  "stampErasureRecord rec er =
     er\<lparr>z_Status := (z_Status er)\<lparr>zs_SnapshotsTargeted := er_Targeted rec, zs_SnapshotsForgotten := er_Forgotten rec,
       zs_SnapshotsRemaining := er_Remaining rec\<rparr>\<rparr>"

definition erasureTargetedScope :: "ClusterErasure \<Rightarrow> i32" where
  "erasureTargetedScope er =
     (if zs_SnapshotsTargeted (z_Status er) = 0 \<and> 0 <s zs_SnapshotsForgotten (z_Status er)
      then zs_SnapshotsForgotten (z_Status er) else zs_SnapshotsTargeted (z_Status er))"

section \<open>Answers\<close>

definition zset_cond ::
  "('w, 'identity, 'z) erasure_env_scheme \<Rightarrow> string \<Rightarrow> string \<Rightarrow> string \<Rightarrow> string \<Rightarrow> ClusterErasure \<Rightarrow> ClusterErasure" where
  "zset_cond e condType status reason message er =
     er\<lparr>z_Status := (z_Status er)\<lparr>zs_Conditions :=
       SetCondition (ze_set_condition e) condType status reason message (m_Generation (z_Meta er)) (zs_Conditions (z_Status er))\<rparr>\<rparr>"

abbreviation zset_phase :: "string \<Rightarrow> ClusterErasure \<Rightarrow> ClusterErasure" where
  "zset_phase phase er \<equiv> er\<lparr>z_Status := (z_Status er)\<lparr>zs_Phase := phase\<rparr>\<rparr>"

abbreviation zemit :: "erasure_event \<Rightarrow> 'w zstate \<Rightarrow> 'w zstate" where
  "zemit ev st \<equiv> st\<lparr>zev := zev st @ [ev]\<rparr>"

definition zwrite ::
  "('w, 'identity, 'z) erasure_env_scheme \<Rightarrow> ctrl_result \<Rightarrow> ClusterErasure \<Rightarrow> 'w zstate \<Rightarrow> 'w erasure_answer" where
  "zwrite e res er st =
     (case ze_update_status e er (zw st) of
        (Some err, w) \<Rightarrow>
          ((NoRequeue, Some (Wrap (''update status for ClusterErasure '' @ z_name er) (APIError err))), er, st\<lparr>zw := w\<rparr>)
      | (None, w) \<Rightarrow> ((res, None), er, st\<lparr>zw := w\<rparr>))"

definition parkAt ::
  "('w, 'identity, 'z) erasure_env_scheme \<Rightarrow> string \<Rightarrow> string \<Rightarrow> string \<Rightarrow> duration \<Rightarrow> ClusterErasure \<Rightarrow> 'w zstate \<Rightarrow> 'w erasure_answer" where
  "parkAt e phase reason message after er st =
     zwrite e (RequeueAfter after) (zset_cond e ConditionReady ConditionFalse reason message (zset_phase phase er)) st"

definition park ::
  "('w, 'identity, 'z) erasure_env_scheme \<Rightarrow> string \<Rightarrow> string \<Rightarrow> string \<Rightarrow> ClusterErasure \<Rightarrow> 'w zstate \<Rightarrow> 'w erasure_answer" where
  "park e phase reason message er st = parkAt e phase reason message erasureRequeueInterval er st"

definition erasure_fail ::
  "('w, 'identity, 'z) erasure_env_scheme \<Rightarrow> string \<Rightarrow> string \<Rightarrow> ClusterErasure \<Rightarrow> 'w zstate \<Rightarrow> 'w erasure_answer" where
  "erasure_fail e reason message er st =
     (let er = zset_phase erasurePhaseFailed er;
          er = zset_cond e ConditionReady ConditionFalse reason message er;
          er = zset_cond e conditionErasureComplete ConditionFalse reason message er
      in zwrite e NoRequeue er (zemit (ErasureFailedEvent message) st))"

definition erasure_complete ::
  "('w, 'identity, 'z) erasure_env_scheme \<Rightarrow> string \<Rightarrow> ClusterErasure \<Rightarrow> 'w zstate \<Rightarrow> 'w erasure_answer" where
  "erasure_complete e message er st =
     (let er = zset_phase erasurePhaseCompleted er;
          er = zset_cond e ConditionReady ConditionTrue ''Erased'' message er;
          er = zset_cond e conditionErasureComplete ConditionTrue ''Erased'' message er
      in zwrite e NoRequeue er (zemit (ErasureCompletedEvent message) st))"

section \<open>What a failed erasure left\<close>

definition unlisted_note :: "('w, 'identity, 'z) erasure_env_scheme \<Rightarrow> go_error \<Rightarrow> i32 \<Rightarrow> string" where
  "unlisted_note e err targeted =
     ''the residue could not be listed ('' @ Error (ze_show_api e) err @ ''), so this record claims no destruction: treat all '' @
     show_i32 targeted @ '' targeted snapshot(s) as still present until a re-run establishes otherwise''"

definition grown_note :: "i32 \<Rightarrow> i32 \<Rightarrow> string" where
  "grown_note remaining targeted =
     show_i32 remaining @ '' snapshot(s) match the target where '' @ show_i32 targeted @
     '' were measured, so nothing is claimed as forgotten; new data matching the target has been written since''"

definition residue_note :: "ErasureRecord \<Rightarrow> i32 \<Rightarrow> string" where
  "residue_note rec targeted =
     show_i32 (er_Forgotten rec) @ '' of '' @ show_i32 targeted @ '' snapshot(s) were forgotten before the failure; '' @
     show_i32 (er_Remaining rec) @ '' remain''"

definition observeErasureResidue ::
  "('w, 'identity, 'z) erasure_env_scheme \<Rightarrow> ClusterErasure \<Rightarrow> BackupRepository \<Rightarrow> string list \<Rightarrow> 'w zstate
   \<Rightarrow> (ErasureRecord \<times> string) \<times> 'w zstate" where
  "observeErasureResidue e er repo filterTags st =
     (let targeted = erasureTargetedScope er
      in case ze_ListFiltered e repo (erasureVerifyJobName (z_name er)) filterTags (zw st) of
           (Inl err, w) \<Rightarrow> ((ErasureResidueUnverifiable targeted, unlisted_note e err targeted), st\<lparr>zw := w\<rparr>)
         | (Inr snaps, w) \<Rightarrow>
             let remaining = of_nat (length snaps); rec = ErasureResidueObserved targeted remaining
             in if \<not> ErasureRecord_SumsUp rec
                then ((rec, grown_note remaining targeted), zemit (ErasureScopeGrew remaining targeted) (st\<lparr>zw := w\<rparr>))
                else ((rec, residue_note rec targeted), st\<lparr>zw := w\<rparr>))"

section \<open>The operation\<close>

definition resolvePlatformDEK ::
  "('w, 'identity, 'z) erasure_env_scheme \<Rightarrow> ErasureLocation \<Rightarrow> 'w \<Rightarrow> (string \<times> go_error + string) \<times> 'w" where
  "resolvePlatformDEK e loc w =
     (let ns = ze_OperatorNamespace e; kekName = cbl_ClusterKEKSecretRef loc; name = cbl_Name loc
      in case GetValue (rd_get_secret (ze_deps e)) ns kekName kekIdentityDataKey w of
           Inl err \<Rightarrow> (Inl (reasonKEKUnavailable, Wrap (''read cluster KEK secret '' @ ns @ ''/'' @ kekName) err), w)
         | Inr ident \<Rightarrow>
             (case NewAgeWrapper (ze_keys e) ident of
                Inl err \<Rightarrow> (Inl (reasonKEKInvalid, Wrap (''parse cluster KEK secret '' @ ns @ ''/'' @ kekName) err), w)
              | Inr wrapper \<Rightarrow>
                  (case EnsureDEK (ze_keys e) \<lparr>dm_wrapper = wrapper, dm_operatorNamespace = ns\<rparr> name w of
                     (Inl err, w) \<Rightarrow> (Inl (''DEKUnavailable'', Wrap (''ensure platform DEK for location '' @ name) err), w)
                   | (Inr d, w) \<Rightarrow> (Inr d, w))))"

definition erasure_request ::
  "ClusterErasure \<Rightarrow> ErasureLocation \<Rightarrow> BackupRepository \<Rightarrow> string \<Rightarrow> string \<Rightarrow> string list \<Rightarrow> repoMaintenanceRequest" where
  "erasure_request er loc repo dek step args =
     \<lparr>rm_RepoName = rep_Name repo, rm_Kind = OpPrune, rm_Name = erasureResourceName (z_name er) step, rm_Op = step,
      rm_ResticArgs = args, rm_RepoURL = rep_RepositoryURL repo, rm_DEK = dek,
      rm_S3CredsSecret = s3_CredentialsSecretRef (cbl_S3 loc), rm_CredsNamespace = [], rm_S3Connections = s3_Connections (cbl_S3 loc)\<rparr>"

text \<open>The function the queue runs: forget, then prune.\<close>

definition erasure_op ::
  "nat \<Rightarrow> ('w, 'z) repoMaintenanceDeps_scheme \<Rightarrow> repoMaintenanceRequest \<Rightarrow> repoMaintenanceRequest \<Rightarrow> 'w \<Rightarrow> (go_error option \<times> 'w) option" where
  "erasure_op rounds deps forget prune w =
     (case runRepoMaintenance rounds deps forget w of
        None \<Rightarrow> None
      | Some (Some err, w) \<Rightarrow> Some (Some (Wrap ''erasure forget'' err), w)
      | Some (None, w) \<Rightarrow>
          (case runRepoMaintenance rounds deps prune w of
             None \<Rightarrow> None
           | Some (Some err, w) \<Rightarrow>
               Some (Some (Wrap ''erasure prune (the snapshots are forgotten; their space is not yet reclaimed)'' err), w)
           | Some (None, w) \<Rightarrow> Some (None, w)))"

definition prune_error :: "('w, 'identity, 'z) erasure_env_scheme \<Rightarrow> string \<Rightarrow> string" where
  "prune_error e maxSize =
     ''invalid maintenance.pruneMaxRepackSize '' @ ze_Quote e maxSize @
     '': want a byte count with an optional k/K, m/M, g/G or t/T suffix (e.g. '' @ ze_Quote e ''50G'' @ '')''"

definition launch ::
  "('w, 'identity, 'z) erasure_env_scheme \<Rightarrow> ErasureLocation \<Rightarrow> BackupRepository \<Rightarrow> ClusterErasure \<Rightarrow> 'w zstate \<Rightarrow> 'w erasure_answer" where
  "launch e loc repo er st =
     (case ErasureForgetArgs (z_Target er) of
        Inl _ \<Rightarrow>
          erasure_fail e ''InvalidTarget'' ''restic: erasure target selects nothing (set tenant, namespace, or namespace+pvc)'' er st
      | Inr forgetArgs \<Rightarrow>
          (case PruneCommand (erasurePruneMaxRepackSize loc) of
             Inl _ \<Rightarrow> erasure_fail e ''InvalidPruneOptions'' (prune_error e (erasurePruneMaxRepackSize loc)) er st
           | Inr pruneArgs \<Rightarrow>
               (case resolvePlatformDEK e loc (zw st) of
                  (Inl (reason, err), w) \<Rightarrow> park e erasurePhaseRunning reason (Error (ze_show_api e) err) er (st\<lparr>zw := w\<rparr>)
                | (Inr dek, w) \<Rightarrow>
                    (case ze_Enqueue e (rep_Name repo) OpPrune (erasure_request er loc repo dek OpForgetJob forgetArgs)
                            (erasure_request er loc repo dek OpPruneJob pruneArgs) w of
                       (Inl _, w) \<Rightarrow> ((RequeueAfter erasureRequeueInterval, None), er, st\<lparr>zw := w\<rparr>)
                     | (Inr h, w) \<Rightarrow>
                         ((RequeueAfter erasureRequeueInterval, None), er,
                          zemit (ErasureStarted (rep_Name repo) (zs_SnapshotsTargeted (z_Status er)))
                            (st\<lparr>zw := w, zinflight := (zinflight st)(z_name er \<mapsto> h)\<rparr>))))))"

section \<open>A pass\<close>

definition measure_scope ::
  "('w, 'identity, 'z) erasure_env_scheme \<Rightarrow> BackupRepository \<Rightarrow> string list \<Rightarrow> ClusterErasure \<Rightarrow> 'w zstate \<Rightarrow> 'w erasure_answer" where
  "measure_scope e repo filterTags er st =
     (case ze_ListFiltered e repo (erasureCountJobName (z_name er)) filterTags (zw st) of
        (Inl err, w) \<Rightarrow>
          park e erasurePhasePending ''ScopeUnreadable''
            (''could not list the snapshots this erasure would remove: '' @ Error (ze_show_api e) err) er (st\<lparr>zw := w\<rparr>)
      | (Inr snaps, w) \<Rightarrow>
          let targeted = of_nat (length snaps)
          in if targeted = 0
             then erasure_complete e ''nothing matched the target; no snapshot was removed''
                    (stampErasureRecord (ErasureFullyForgotten 0) er) (st\<lparr>zw := w\<rparr>)
             else zwrite e (RequeueAfter erasureRequeueInterval)
                    (zset_cond e ConditionReady ConditionFalse ''Erasing''
                       (''erasing '' @ show_i32 targeted @ '' snapshot(s) from repository '' @ rep_Name repo)
                       (zset_phase erasurePhaseRunning (stampErasureRecord (ErasureScopeMeasured targeted) er))) (st\<lparr>zw := w\<rparr>))"

definition settle ::
  "('w, 'identity, 'z) erasure_env_scheme \<Rightarrow> BackupRepository \<Rightarrow> string list \<Rightarrow> go_error option \<Rightarrow> ClusterErasure \<Rightarrow> 'w zstate
   \<Rightarrow> 'w erasure_answer" where
  "settle e repo filterTags res er st =
     (let st = st\<lparr>zinflight := (zinflight st)(z_name er := None)\<rparr>
      in case res of
           Some err \<Rightarrow>
             (case observeErasureResidue e er repo filterTags st of
                ((rec, note), st) \<Rightarrow>
                  erasure_fail e ''ErasureFailed'' (Error (ze_show_api e) err @ '' ('' @ note @ '')'') (stampErasureRecord rec er) st)
         | None \<Rightarrow>
             let rec = ErasureFullyForgotten (erasureTargetedScope er)
             in erasure_complete e (show_i32 (er_Forgotten rec) @ '' snapshot(s) forgotten and their space pruned'')
                  (stampErasureRecord rec er) st)"

definition drive ::
  "('w, 'identity, 'z) erasure_env_scheme \<Rightarrow> ErasureLocation \<Rightarrow> BackupRepository \<Rightarrow> string list \<Rightarrow> ClusterErasure \<Rightarrow> 'w zstate
   \<Rightarrow> 'w erasure_answer" where
  "drive e loc repo filterTags er st =
     (if z_phase er \<noteq> erasurePhaseRunning then measure_scope e repo filterTags er st
      else
        (case zinflight st (z_name er) of
           None \<Rightarrow> launch e loc repo er st
         | Some h \<Rightarrow>
             (case ze_outcome e h (zw st) of
                None \<Rightarrow> ((RequeueAfter erasureRequeueInterval, None), er, st)
              | Some res \<Rightarrow> settle e repo filterTags res er st)))"

definition erasure_located ::
  "('w, 'identity, 'z) erasure_env_scheme \<Rightarrow> string list \<Rightarrow> ClusterErasure \<Rightarrow> 'w zstate \<Rightarrow> 'w erasure_answer" where
  "erasure_located e filterTags er st =
     (case ze_get_location e (z_LocationRef er) (zw st) of
        Inl err \<Rightarrow>
          if err = NotFound
          then park e erasurePhasePending ''LocationNotFound''
                 (''ClusterBackupLocation '' @ ze_Quote e (z_LocationRef er) @ '' not found'') er st
          else ((NoRequeue, Some (Wrap (''get ClusterBackupLocation '' @ z_LocationRef er) (APIError err))), er, st)
      | Inr loc \<Rightarrow>
          if cbl_Mode loc = LocationModeImmutable
          then parkAt e erasurePhaseBlocked ''ImmutableLocation''
                 ''the location is Immutable: object lock forbids deletion until expiry, so nothing has been erased''
                 erasureBlockedRecheck er
                 (if z_phase er \<noteq> erasurePhaseBlocked then zemit (ErasureBlocked (cbl_Name loc)) st else st)
          else
            let notReady = park e erasurePhasePending ''RepositoryNotReady''
                  (''BackupRepository '' @ ze_Quote e (cbl_Name loc) @ '' is not initialized yet'') er st
            in case ze_get_repository e (cbl_Name loc) (zw st) of
                 Inl _ \<Rightarrow> notReady
               | Inr repo \<Rightarrow> if \<not> rep_Initialized repo then notReady else drive e loc repo filterTags er st)"

definition await_message :: "('w, 'identity, 'z) erasure_env_scheme \<Rightarrow> string list \<Rightarrow> ClusterErasure \<Rightarrow> string" where
  "await_message e filterTags er =
     ''this will PERMANENTLY remove every snapshot matching '' @ ze_show_tags e filterTags @ '' from location '' @
     ze_Quote e (z_LocationRef er) @ ''. To proceed, set spec.confirmation to '' @
     ze_Quote e (erasureConfirmationFor (z_Target er))"

definition erasure_pass ::
  "('w, 'identity, 'z) erasure_env_scheme \<Rightarrow> ClusterErasure \<Rightarrow> 'w zstate \<Rightarrow> 'w erasure_answer" where
  "erasure_pass e er st =
     (if z_phase er = erasurePhaseCompleted \<or> z_phase er = erasurePhaseFailed then ((NoRequeue, None), er, st)
      else
        (case ErasureFilterTags (z_Target er) of
           None \<Rightarrow>
             erasure_fail e ''InvalidTarget''
               ''spec.target selects nothing: set tenant, namespace, or namespace+pvc (a bare pvc is not an identity)'' er st
         | Some filterTags \<Rightarrow>
             let want = erasureConfirmationFor (z_Target er)
             in if z_Confirmation er = []
                then park e erasurePhaseAwaiting ''AwaitingConfirmation'' (await_message e filterTags er) er st
                else if z_Confirmation er = want then erasure_located e filterTags er st
                else erasure_fail e ''ConfirmationMismatch'' (''spec.confirmation '' @ ze_Quote e (z_Confirmation er) @
                       '' does not match the target identity '' @ ze_Quote e want) er st))"

definition erasure_Reconcile ::
  "('w, 'identity, 'z) erasure_env_scheme \<Rightarrow> string \<Rightarrow> 'w zstate \<Rightarrow> answer \<times> ClusterErasure option \<times> 'w zstate" where
  "erasure_Reconcile e name st =
     (case ze_get e name (zw st) of
        Inl err \<Rightarrow> ((NoRequeue, if err = NotFound then None else Some (APIError err)), None, st)
      | Inr er \<Rightarrow> (case erasure_pass e er st of (ans, er', st') \<Rightarrow> (ans, Some er', st')))"

end
