(* ===== verification/Erasure_Safety.thy ===== *)
theory Erasure_Safety
  imports Cluster_Erasure Restore_Run_Safety
begin

text \<open>
  What the erasure controller promises: an operation that removes data is enqueued only for a confirmed erasure with a
  measured scope, on a location that may be changed, with exactly the arguments of its target; a ClusterErasure
  reads Completed only over an empty listing or an operation that reported success; no record claims more than was
  established. And one thing it does not: an erasure that is parked while its operation runs is measured again.
\<close>

section \<open>What the answers write\<close>

lemma zset_cond_frame [simp]:
  "z_phase (zset_cond e t s r m er) = z_phase er" "z_Meta (zset_cond e t s r m er) = z_Meta er"
  "zs_SnapshotsTargeted (z_Status (zset_cond e t s r m er)) = zs_SnapshotsTargeted (z_Status er)"
  "zs_SnapshotsForgotten (z_Status (zset_cond e t s r m er)) = zs_SnapshotsForgotten (z_Status er)"
  "zs_SnapshotsRemaining (z_Status (zset_cond e t s r m er)) = zs_SnapshotsRemaining (z_Status er)"
  by (simp_all add: zset_cond_def)

lemma stamp_frame [simp]:
  "z_phase (stampErasureRecord rec er) = z_phase er" "z_Meta (stampErasureRecord rec er) = z_Meta er"
  "zs_SnapshotsTargeted (z_Status (stampErasureRecord rec er)) = er_Targeted rec"
  "zs_SnapshotsForgotten (z_Status (stampErasureRecord rec er)) = er_Forgotten rec"
  "zs_SnapshotsRemaining (z_Status (stampErasureRecord rec er)) = er_Remaining rec"
  by (simp_all add: stampErasureRecord_def)

lemma zwrite_result:
  "zwrite e res er st = (ans, er', st') \<Longrightarrow>
     er' = er \<and> zw st' = snd (ze_update_status e er (zw st)) \<and> zinflight st' = zinflight st \<and> zev st' = zev st"
  by (auto simp: zwrite_def split: prod.splits option.splits)

text \<open>The three counters of the status.\<close>

definition counters :: "ClusterErasure \<Rightarrow> ErasureRecord" where
  "counters er = \<lparr>er_Targeted = zs_SnapshotsTargeted (z_Status er), er_Forgotten = zs_SnapshotsForgotten (z_Status er),
     er_Remaining = zs_SnapshotsRemaining (z_Status er)\<rparr>"

lemma counters_simps [simp]:
  "counters (stampErasureRecord rec er) = rec" "counters (zset_cond e t s r m er) = counters er"
  "counters (zset_phase p er) = counters er"
  by (simp_all add: counters_def)

lemma park_result:
  "parkAt e phase reason message after er st = (ans, er', st') \<Longrightarrow>
     z_phase er' = phase \<and> counters er' = counters er \<and> zinflight st' = zinflight st \<and> z_Meta er' = z_Meta er"
  by (auto simp: parkAt_def dest!: zwrite_result)

lemma fail_result:
  "erasure_fail e reason message er st = (ans, er', st') \<Longrightarrow>
     z_phase er' = erasurePhaseFailed \<and> counters er' = counters er \<and> zinflight st' = zinflight st \<and> z_Meta er' = z_Meta er"
  by (auto simp: erasure_fail_def Let_def dest!: zwrite_result)

lemma complete_result:
  "erasure_complete e message er st = (ans, er', st') \<Longrightarrow>
     z_phase er' = erasurePhaseCompleted \<and> counters er' = counters er \<and> zinflight st' = zinflight st \<and>
     zw st' = snd (ze_update_status e er' (zw st))"
  by (auto simp: erasure_complete_def Let_def dest!: zwrite_result)

section \<open>Removing data\<close>

text \<open>An erasure that may be driven: its target selects, it is confirmed, its location can be changed, its repository is ready.\<close>

definition drivable ::
  "('w, 'identity, 'z) erasure_env_scheme \<Rightarrow> ClusterErasure \<Rightarrow> 'w \<Rightarrow> string list \<Rightarrow> ErasureLocation \<Rightarrow> BackupRepository \<Rightarrow> bool" where
  "drivable e er w tags loc repo \<longleftrightarrow>
     z_phase er \<noteq> erasurePhaseCompleted \<and> z_phase er \<noteq> erasurePhaseFailed \<and> ErasureFilterTags (z_Target er) = Some tags \<and>
     z_Confirmation er \<noteq> [] \<and> z_Confirmation er = erasureConfirmationFor (z_Target er) \<and>
     ze_get_location e (z_LocationRef er) w = Inr loc \<and> cbl_Mode loc \<noteq> LocationModeImmutable \<and>
     ze_get_repository e (cbl_Name loc) w = Inr repo \<and> rep_Initialized repo"

lemma erasure_pass_cases:
  assumes "erasure_pass e er st = (ans, er', st')"
  obtains (driven) tags loc repo where "drivable e er (zw st) tags loc repo" "drive e loc repo tags er st = (ans, er', st')"
  | (terminal) "er' = er" "st' = st"
  | (parked) p reason message after st0 where "p \<noteq> erasurePhaseCompleted" "zinflight st0 = zinflight st" "zw st0 = zw st"
      "parkAt e p reason message after er st0 = (ans, er', st')"
  | (failed) reason message where "erasure_fail e reason message er st = (ans, er', st')"
proof (cases "z_phase er = erasurePhaseCompleted \<or> z_phase er = erasurePhaseFailed")
  case True
  then show ?thesis using assms terminal by (auto simp: erasure_pass_def)
next
  case live: False
  show ?thesis
  proof (cases "ErasureFilterTags (z_Target er)")
    case None
    then show ?thesis using assms live failed by (simp add: erasure_pass_def)
  next
    case (Some tags)
    show ?thesis
    proof (cases "z_Confirmation er = []")
      case True
      then show ?thesis using assms live Some parked [of erasurePhaseAwaiting st] by (simp add: erasure_pass_def park_def Let_def)
    next
      case ne: False
      show ?thesis
      proof (cases "z_Confirmation er = erasureConfirmationFor (z_Target er)")
        case False
        then show ?thesis using assms live Some ne failed by (simp add: erasure_pass_def Let_def)
      next
        case True
        then have l: "erasure_located e tags er st = (ans, er', st')" using assms live Some ne by (simp add: erasure_pass_def Let_def)
        show ?thesis
        proof (cases "ze_get_location e (z_LocationRef er) (zw st)")
          case (Inl err)
          then show ?thesis using l terminal parked [of erasurePhasePending st]
            by (auto simp: erasure_located_def park_def split: if_splits)
        next
          case loc: (Inr loc)
          show ?thesis
          proof (cases "cbl_Mode loc = LocationModeImmutable")
            case True
            then show ?thesis using l loc
                parked [of erasurePhaseBlocked "if z_phase er \<noteq> erasurePhaseBlocked then zemit (ErasureBlocked (cbl_Name loc)) st else st"]
              by (simp add: erasure_located_def split: if_splits)
          next
            case m: False
            show ?thesis
            proof (cases "\<exists>repo. ze_get_repository e (cbl_Name loc) (zw st) = Inr repo \<and> rep_Initialized repo")
              case True
              then obtain repo where "ze_get_repository e (cbl_Name loc) (zw st) = Inr repo" "rep_Initialized repo" by blast
              then show ?thesis using l loc m live Some ne \<open>z_Confirmation er = erasureConfirmationFor (z_Target er)\<close> driven [of tags loc repo]
                by (simp add: erasure_located_def drivable_def Let_def)
            next
              case False
              then show ?thesis using l loc m parked [of erasurePhasePending st]
                by (auto simp: erasure_located_def park_def Let_def split: sum.splits if_splits)
            qed
          qed
        qed
      qed
    qed
  qed
qed

text \<open>
  C20: data is removed only on a confirmed instruction. When a pass records a new operation in flight, the ClusterErasure
  was Running, so its scope had been measured and written; no operation of it was in flight; its target selects
  something and its confirmation is the identity of that target; its location is not Immutable and its
  repository initialized; and what was enqueued, as one exclusive operation on that repository, is the forget
  with exactly the arguments of the target followed by the prune.
\<close>

theorem erasure_only_on_confirmed_instruction:
  assumes "erasure_pass e er st = (ans, er', st')" and "zinflight st' (z_name er) = Some h" and "zinflight st (z_name er) \<noteq> Some h"
  shows "\<exists>tags loc repo forgetArgs pruneArgs dek w. drivable e er (zw st) tags loc repo \<and> z_phase er = erasurePhaseRunning \<and>
    zinflight st (z_name er) = None \<and> ErasureForgetArgs (z_Target er) = Inr forgetArgs \<and>
    ze_Enqueue e (rep_Name repo) OpPrune (erasure_request er loc repo dek OpForgetJob forgetArgs)
      (erasure_request er loc repo dek OpPruneJob pruneArgs) w = (Inr h, zw st')"
  using assms(1)
proof (cases rule: erasure_pass_cases)
  case terminal
  then show ?thesis using assms by simp
next
  case parked
  then show ?thesis using assms park_result [OF parked(4)] by simp
next
  case failed
  then show ?thesis using assms fail_result [OF failed] by simp
next
  case (driven tags loc repo)
  have r: "z_phase er = erasurePhaseRunning"
  proof (rule ccontr)
    assume "z_phase er \<noteq> erasurePhaseRunning"
    then have "zinflight st' = zinflight st" using driven(2)
      by (auto simp: drive_def measure_scope_def park_def Let_def split: prod.splits sum.splits if_splits
          dest!: park_result complete_result zwrite_result)
    then show False using assms by simp
  qed
  have n: "zinflight st (z_name er) = None"
  proof (rule ccontr)
    assume "zinflight st (z_name er) \<noteq> None"
    then obtain g where g: "zinflight st (z_name er) = Some g" by blast
    then show False
    proof (cases "ze_outcome e g (zw st)")
      case None
      then show ?thesis using driven(2) r g assms by (simp add: drive_def)
    next
      case (Some res)
      then have "settle e repo tags res er st = (ans, er', st')" using driven(2) r g by (simp add: drive_def)
      then have "zinflight st' (z_name er) = None"
        by (auto simp: settle_def observeErasureResidue_def Let_def split: prod.splits sum.splits if_splits option.splits
            dest!: fail_result complete_result)
      then show False using assms by simp
    qed
  qed
  have l: "launch e loc repo er st = (ans, er', st')" using driven(2) r n by (simp add: drive_def)
  obtain forgetArgs where f: "ErasureForgetArgs (z_Target er) = Inr forgetArgs"
    using l assms by (cases "ErasureForgetArgs (z_Target er)") (auto simp: launch_def dest!: fail_result)
  obtain pruneArgs where p: "PruneCommand (erasurePruneMaxRepackSize loc) = Inr pruneArgs"
    using l assms f by (cases "PruneCommand (erasurePruneMaxRepackSize loc)") (auto simp: launch_def dest!: fail_result)
  obtain dek w where d: "resolvePlatformDEK e loc (zw st) = (Inr dek, w)"
    using l assms f p by (cases "resolvePlatformDEK e loc (zw st)" rule: prod.exhaust)
      (auto simp: launch_def park_def split: sum.splits dest!: park_result)
  obtain q w1 where q: "ze_Enqueue e (rep_Name repo) OpPrune (erasure_request er loc repo dek OpForgetJob forgetArgs)
      (erasure_request er loc repo dek OpPruneJob pruneArgs) w = (q, w1)" by fastforce
  have "q = Inr h" "zw st' = w1" using l f p d q assms by (auto simp: launch_def split: sum.splits)
  then show ?thesis using driven(1) r n f q
    by (intro exI [of _ tags] exI [of _ loc] exI [of _ repo] exI [of _ forgetArgs] exI [of _ pruneArgs] exI [of _ dek] exI [of _ w]) simp
qed

text \<open>
  Where the location and the repository stay readable an operation is in flight only while the erasure is Running: a
  pass that finds the erasure drivable keeps this.
\<close>

lemma in_flight_only_while_running:
  assumes "erasure_pass e er st = (ans, er', st')" and "drivable e er (zw st) tags loc repo"
    and "zinflight st (z_name er) \<noteq> None \<Longrightarrow> z_phase er = erasurePhaseRunning"
    and "zinflight st' (z_name er) \<noteq> None"
  shows "z_phase er' = erasurePhaseRunning"
proof -
  have d: "drive e loc repo tags er st = (ans, er', st')"
    using assms(1,2) by (auto simp: drivable_def erasure_pass_def erasure_located_def Let_def)
  show ?thesis
  proof (cases "z_phase er = erasurePhaseRunning")
    case False
    then have "zinflight st' = zinflight st" using d
      by (auto simp: drive_def measure_scope_def park_def Let_def split: prod.splits sum.splits if_splits
          dest!: park_result complete_result zwrite_result)
    then show ?thesis using assms(3,4) False by simp
  next
    case running: True
    show ?thesis
    proof (cases "zinflight st (z_name er)")
      case None
      then have "launch e loc repo er st = (ans, er', st')" using d running by (simp add: drive_def)
      then show ?thesis using running None assms(4)
        by (auto simp: launch_def park_def split: sum.splits prod.splits dest!: park_result fail_result)
    next
      case (Some h)
      then show ?thesis using d running assms(4)
        by (auto simp: drive_def settle_def observeErasureResidue_def Let_def
            split: option.splits prod.splits sum.splits if_splits dest!: fail_result complete_result)
    qed
  qed
qed

text \<open>
  C21: a Completed erasure is attested. Where no operation of the erasure is in flight while its scope is measured, and
  no listing has 2^32 snapshots, a pass makes a ClusterErasure Completed only in two cases: its scope was being
  measured, the listing of the repository by exactly the tags of its target was empty and the three counters are
  zero; or it was Running and its operation has ended without an error, and then the counters say that the whole
  measured scope is forgotten and nothing remains. Either way nothing of it is in flight afterwards, and the status it
  writes is the one with these counters. What happens when an operation is in flight during a measurement is
  \<open>remeasured_erasure_completes_early\<close> below: the first assumption is kept by every pass that can read the location
  and the repository, and the code loses it when a pass cannot.
\<close>

theorem completed_erasure_is_attested:
  assumes "erasure_pass e er st = (ans, er', st')" and "z_phase er' = erasurePhaseCompleted" and "z_phase er \<noteq> erasurePhaseCompleted"
    and idle: "z_phase er \<noteq> erasurePhaseRunning \<Longrightarrow> zinflight st (z_name er) = None"
    and short: "\<And>repo job tags w snaps w'. ze_ListFiltered e repo job tags w = (Inr snaps, w') \<Longrightarrow> length snaps < 2 ^ 32"
  shows "\<exists>tags loc repo w. drivable e er (zw st) tags loc repo \<and> zw st' = snd (ze_update_status e er' w) \<and>
    zinflight st' (z_name er) = None \<and> zs_SnapshotsRemaining (z_Status er') = 0 \<and>
    (if z_phase er = erasurePhaseRunning
     then (\<exists>h. zinflight st (z_name er) = Some h \<and> ze_outcome e h (zw st) = Some None) \<and>
       zs_SnapshotsTargeted (z_Status er') = erasureTargetedScope er \<and> zs_SnapshotsForgotten (z_Status er') = erasureTargetedScope er
     else ze_ListFiltered e repo (erasureCountJobName (z_name er)) tags (zw st) = (Inr [], w) \<and>
       zs_SnapshotsTargeted (z_Status er') = 0 \<and> zs_SnapshotsForgotten (z_Status er') = 0)"
  using assms(1)
proof (cases rule: erasure_pass_cases)
  case terminal
  then show ?thesis using assms by simp
next
  case parked
  then show ?thesis using assms park_result [OF parked(4)] by simp
next
  case failed
  then show ?thesis using assms fail_result [OF failed] by simp
next
  case (driven tags loc repo)
  show ?thesis
  proof (cases "z_phase er = erasurePhaseRunning")
    case False
    then have m: "measure_scope e repo tags er st = (ans, er', st')" using driven(2) by (simp add: drive_def)
    obtain r w where l: "ze_ListFiltered e repo (erasureCountJobName (z_name er)) tags (zw st) = (r, w)" by fastforce
    obtain snaps where r: "r = Inr snaps"
      using m l assms(2) by (cases r) (auto simp: measure_scope_def park_def dest!: park_result)
    have z: "(of_nat (length snaps) :: i32) = 0"
    proof (rule ccontr)
      assume "(of_nat (length snaps) :: i32) \<noteq> 0"
      then have "z_phase er' = erasurePhaseRunning" using m l r by (auto simp: measure_scope_def Let_def dest!: zwrite_result)
      then show False using assms(2) by simp
    qed
    have "erasure_complete e ''nothing matched the target; no snapshot was removed''
        (stampErasureRecord (ErasureFullyForgotten 0) er) (st\<lparr>zw := w\<rparr>) = (ans, er', st')"
      using m l r z by (simp add: measure_scope_def Let_def)
    note c = complete_result [OF this]
    have "unat (of_nat (length snaps) :: i32) = length snaps"
      using short [OF l [unfolded r]] by (simp add: unat_of_nat take_bit_nat_eq_self)
    then have "snaps = []" using z by simp
    then show ?thesis using c driven(1) False l r idle
      by (intro exI [of _ tags] exI [of _ loc] exI [of _ repo] exI [of _ w]) (simp add: counters_def ErasureFullyForgotten_def)
  next
    case True
    have ph: "z_phase er' \<noteq> erasurePhaseCompleted" if "launch e loc repo er st = (ans, er', st')"
      using that True by (auto simp: launch_def park_def split: sum.splits prod.splits dest!: park_result fail_result)
    obtain h where h: "zinflight st (z_name er) = Some h"
      using driven(2) True ph assms(2) by (cases "zinflight st (z_name er)") (auto simp: drive_def)
    obtain res where o: "ze_outcome e h (zw st) = Some res"
      using driven(2) True h assms(2) by (cases "ze_outcome e h (zw st)") (auto simp: drive_def)
    have s: "settle e repo tags res er st = (ans, er', st')" using driven(2) True h o by (simp add: drive_def)
    have n: "res = None"
    proof (cases res)
      case (Some err)
      then have "z_phase er' = erasurePhaseFailed"
        using s by (auto simp: settle_def Let_def split: prod.splits dest!: fail_result)
      then show ?thesis using assms(2) by simp
    qed
    let ?st = "st\<lparr>zinflight := (zinflight st)(z_name er := None)\<rparr>"
    obtain message where "erasure_complete e message (stampErasureRecord (ErasureFullyForgotten (erasureTargetedScope er)) er) ?st = (ans, er', st')"
      using s n by (simp add: settle_def Let_def)
    from complete_result [OF this] show ?thesis using driven(1) True h o n
      by (intro exI [of _ tags] exI [of _ loc] exI [of _ repo] exI [of _ "zw ?st"]) (simp add: counters_def ErasureFullyForgotten_def)
  qed
qed

section \<open>The record of a failure\<close>

text \<open>
  A failed operation is recorded by what a listing still finds: never more as forgotten than the scope less the
  residue, nothing when the listing fails.
\<close>

lemma failed_erasure_claims_only_what_was_seen:
  assumes "settle e repo tags (Some err) er st = (ans, er', st')"
  shows "z_phase er' = erasurePhaseFailed \<and> zinflight st' (z_name er) = None \<and>
    (case fst (ze_ListFiltered e repo (erasureVerifyJobName (z_name er)) tags (zw st)) of
       Inl _ \<Rightarrow> counters er' = ErasureResidueUnverifiable (erasureTargetedScope er)
     | Inr snaps \<Rightarrow> counters er' = ErasureResidueObserved (erasureTargetedScope er) (of_nat (length snaps)))"
proof -
  let ?st = "st\<lparr>zinflight := (zinflight st)(z_name er := None)\<rparr>"
  obtain rec remark st1 where o: "observeErasureResidue e er repo tags ?st = ((rec, remark), st1)" by (metis prod.collapse)
  from o assms have "erasure_fail e ''ErasureFailed'' (Error (ze_show_api e) err @ '' ('' @ remark @ '')'') (stampErasureRecord rec er) st1 = (ans, er', st')"
    by (simp add: settle_def Let_def)
  note f = fail_result [OF this]
  have "zinflight st1 = zinflight ?st" using o
    by (auto simp: observeErasureResidue_def Let_def split: prod.splits sum.splits if_splits)
  moreover have "case fst (ze_ListFiltered e repo (erasureVerifyJobName (z_name er)) tags (zw st)) of
       Inl _ \<Rightarrow> rec = ErasureResidueUnverifiable (erasureTargetedScope er)
     | Inr snaps \<Rightarrow> rec = ErasureResidueObserved (erasureTargetedScope er) (of_nat (length snaps))"
    using o by (auto simp: observeErasureResidue_def Let_def split: prod.splits sum.splits if_splits)
  ultimately show ?thesis using f by (auto split: sum.splits)
qed

text \<open>The operation reports success only when the Jobs of both steps were seen complete, the forget's first.\<close>

lemma erasure_op_success:
  assumes "erasure_op rounds deps forget prune w = Some (None, w')"
  shows "\<exists>w1. runRepoMaintenance rounds deps forget w = Some (None, w1) \<and> runRepoMaintenance rounds deps prune w1 = Some (None, w')"
  using assms by (auto simp: erasure_op_def split: option.splits prod.splits)

section \<open>An erasure measured twice\<close>

text \<open>
  A pass of a running erasure that cannot read the repository parks it as Pending, whatever is in flight; and a pass of a
  Pending erasure measures the scope without looking at what is in flight. When the forget is through by then,
  the listing is empty: the erasure is Completed with a record of zero while its operation still runs.
\<close>

lemma unreadable_repository_parks_a_running_erasure:
  assumes "erasure_pass e er st = (ans, er', st')" and "z_phase er = erasurePhaseRunning" and "ErasureFilterTags (z_Target er) \<noteq> None"
    and "z_Confirmation er \<noteq> []" and "z_Confirmation er = erasureConfirmationFor (z_Target er)"
    and "ze_get_location e (z_LocationRef er) (zw st) = Inr loc" and "cbl_Mode loc \<noteq> LocationModeImmutable"
    and "ze_get_repository e (cbl_Name loc) (zw st) = Inl err"
  shows "z_phase er' = erasurePhasePending \<and> zinflight st' = zinflight st"
proof -
  obtain tags where "ErasureFilterTags (z_Target er) = Some tags" using assms(3) by blast
  then have "park e erasurePhasePending ''RepositoryNotReady'' (''BackupRepository '' @ ze_Quote e (cbl_Name loc) @ '' is not initialized yet'') er st
      = (ans, er', st')"
    using assms by (simp add: erasure_pass_def erasure_located_def Let_def)
  then show ?thesis unfolding park_def by (auto dest!: park_result)
qed

lemma remeasured_erasure_completes_early:
  assumes "drivable e er (zw st) tags loc repo" and "z_phase er = erasurePhasePending"
    and "ze_ListFiltered e repo (erasureCountJobName (z_name er)) tags (zw st) = (Inr [], w)"
  shows "\<exists>ans er' st'. erasure_pass e er st = (ans, er', st') \<and> z_phase er' = erasurePhaseCompleted \<and>
    er_Forgotten (counters er') = 0 \<and> zinflight st' (z_name er) = zinflight st (z_name er)"
proof -
  obtain ans er' st' where c: "erasure_complete e ''nothing matched the target; no snapshot was removed''
      (stampErasureRecord (ErasureFullyForgotten 0) er) (st\<lparr>zw := w\<rparr>) = (ans, er', st')" by (metis prod_cases3)
  then have "erasure_pass e er st = (ans, er', st')"
    using assms by (auto simp: drivable_def erasure_pass_def erasure_located_def drive_def measure_scope_def Let_def)
  then show ?thesis using complete_result [OF c] by (auto simp: ErasureFullyForgotten_def)
qed

section \<open>A concrete erasure\<close>

definition demo_erasure :: "string \<Rightarrow> ClusterErasure" where
  "demo_erasure phase =
     \<lparr>z_Meta = (b_Meta empty_backup)\<lparr>m_Name := ''gdpr''\<rparr>, z_LocationRef = ''main'',
      z_Target = \<lparr>et_Tenant = [], et_Namespace = ''shop'', et_PVC = []\<rparr>, z_Confirmation = ''shop'',
      z_Status = \<lparr>zs_Phase = phase, zs_SnapshotsTargeted = 3, zs_SnapshotsForgotten = 0, zs_SnapshotsRemaining = 3, zs_Conditions = []\<rparr>\<rparr>"

definition demo_erasure_location :: ErasureLocation where
  "demo_erasure_location =
     \<lparr>cbl_Name = ''main'', cbl_Default = True, cbl_Mode = LocationModeStandard, cbl_ClusterID = ''c'',
      cbl_S3 = \<lparr>s3_Endpoint = [], s3_Bucket = [], s3_Prefix = [], s3_Region = [], s3_CredentialsSecretRef = ''creds'', s3_CABundle = [],
        s3_ForcePathStyle = False, s3_Connections = None\<rparr>,
      cbl_ClusterKEKSecretRef = ''kek'', cbl_Retention = demo_retention, zl_PruneMaxRepackSize = None\<rparr>"

definition demo_erasure_env :: "go_error option option \<Rightarrow> (nat, string) erasure_env" where
  "demo_erasure_env outcome =
     \<lparr>ze_OperatorNamespace = ''ops'',
      ze_deps = \<lparr>rd_OperatorNamespace = ''ops'', rd_now = \<lambda>_. 0, rd_elapsed_String = \<lambda>_. [],
        rd_wait = \<lambda>_ _ w. (None, w), rd_get_secret = \<lambda>_ _ _. Inr [kekIdentityDataKey \<mapsto> ''k''], rd_create_secret = \<lambda>_ w. (None, w),
        rd_delete_secret = \<lambda>_ _ w. (None, w), rd_get_job = \<lambda>_ _ _. Inl NotFound, rd_list_jobs = \<lambda>_ _ _. Inr [],
        rd_create_job = \<lambda>_ w. (None, w), rd_delete_job = \<lambda>_ _ _ w. (None, w), rd_job_pods = \<lambda>_ _. Inr []\<rparr>,
      ze_keys = \<lparr>ke_ParseIdentities = \<lambda>_. Inr [Some ''i''], ke_Encrypt = \<lambda>_ s w. (Inr s, w), ke_Decrypt = \<lambda>_ s. Inr s,
        ke_random = \<lambda>_ w. (Inr ''r'', w), ke_get = \<lambda>_ _ w. (Inr (\<lambda>_. Some ''d''), w), ke_create = \<lambda>_ w. (None, w)\<rparr>,
      ze_get = \<lambda>_ _. Inl NotFound, ze_get_location = \<lambda>_ _. Inr demo_erasure_location,
      ze_get_repository = \<lambda>_ _. Inr \<lparr>rep_Name = ''main'', rep_Labels = Map.empty, rep_Controller = None, rep_Initialized = True, rep_RepositoryURL = []\<rparr>,
      ze_ListFiltered = \<lambda>_ _ _ w. (Inr [], w), ze_update_status = \<lambda>_ w. (None, Suc w), ze_Enqueue = \<lambda>_ _ _ _ w. (Inr 7, Suc w),
      ze_outcome = \<lambda>_ _. outcome, ze_set_condition = \<lambda>c cs. c # cs, ze_show_api = \<lambda>_. [], ze_Quote = \<lambda>s. s, ze_show_tags = concat\<rparr>"

lemma demo_drive:
  "erasure_pass (demo_erasure_env outcome) (demo_erasure erasurePhaseRunning) st =
     drive (demo_erasure_env outcome) demo_erasure_location
       \<lparr>rep_Name = ''main'', rep_Labels = Map.empty, rep_Controller = None, rep_Initialized = True, rep_RepositoryURL = []\<rparr>
       [Tag TagKeyNamespace ''shop''] (demo_erasure erasurePhaseRunning) st"
  by (simp add: erasure_pass_def erasure_located_def demo_erasure_env_def demo_erasure_def demo_erasure_location_def
      ErasureFilterTags_def erasureConfirmationFor_def Let_def)

lemma demo_completes:
  "\<exists>er' st'. erasure_pass (demo_erasure_env (Some None)) (demo_erasure erasurePhaseRunning) \<lparr>zw = 0, zinflight = [''gdpr'' \<mapsto> 7], zev = []\<rparr> =
     ((NoRequeue, None), er', st') \<and> z_phase er' = erasurePhaseCompleted"
proof -
  let ?e = "demo_erasure_env (Some None)" and ?er = "demo_erasure erasurePhaseRunning"
  have n: "z_name ?er = ''gdpr''" "z_phase ?er = erasurePhaseRunning" by (simp_all add: demo_erasure_def)
  have w: "zwrite ?e NoRequeue er st = ((NoRequeue, None), er, st\<lparr>zw := Suc (zw st)\<rparr>)" for er st
    by (simp add: zwrite_def demo_erasure_env_def)
  have o: "ze_outcome ?e h w = Some None" for h w by (simp add: demo_erasure_env_def)
  show ?thesis unfolding demo_drive drive_def n
    by (simp add: o settle_def erasure_complete_def w Let_def n)
qed

theorem completed_erasure_is_attested_witness:
  "\<exists>er'. zs_SnapshotsForgotten (z_Status er') = 3 \<and> zs_SnapshotsRemaining (z_Status er') = 0 \<and> z_phase er' = erasurePhaseCompleted"
proof -
  obtain er' st' where p: "erasure_pass (demo_erasure_env (Some None)) (demo_erasure erasurePhaseRunning) \<lparr>zw = 0, zinflight = [''gdpr'' \<mapsto> 7], zev = []\<rparr> =
     ((NoRequeue, None), er', st')" "z_phase er' = erasurePhaseCompleted" using demo_completes by metis
  have r: "z_phase (demo_erasure erasurePhaseRunning) = erasurePhaseRunning" by (simp add: demo_erasure_def)
  then have "z_phase (demo_erasure erasurePhaseRunning) \<noteq> erasurePhaseCompleted" by simp
  moreover have "length snaps < 2 ^ 32" if "ze_ListFiltered (demo_erasure_env (Some None)) repo job tags w = (Inr snaps, w')"
    for repo job tags w snaps w' using that by (simp add: demo_erasure_env_def)
  ultimately have "zs_SnapshotsForgotten (z_Status er') = erasureTargetedScope (demo_erasure erasurePhaseRunning)"
      "zs_SnapshotsRemaining (z_Status er') = 0"
    using completed_erasure_is_attested [OF p] r by (simp, metis)+
  moreover have "erasureTargetedScope (demo_erasure erasurePhaseRunning) = 3" by (simp add: erasureTargetedScope_def demo_erasure_def)
  ultimately show ?thesis using p(2) by (intro exI [of _ er']) simp
qed

lemma demo_launches:
  "\<exists>ans er' st'. erasure_pass (demo_erasure_env None) (demo_erasure erasurePhaseRunning) \<lparr>zw = 0, zinflight = Map.empty, zev = []\<rparr> = (ans, er', st') \<and>
     zinflight st' ''gdpr'' = Some 7"
proof -
  let ?e = "demo_erasure_env None" and ?er = "demo_erasure erasurePhaseRunning"
  have n: "z_name ?er = ''gdpr''" "z_phase ?er = erasurePhaseRunning" by (simp_all add: demo_erasure_def)
  have f: "ErasureForgetArgs (z_Target ?er) = Inr [forgetCmd, flagUnsafeAllowRemoveAll, flagTag, Join [TagBase, Tag TagKeyNamespace ''shop''] '','', flagRetryLock, retryLockFor]"
    by (simp add: ErasureForgetArgs_def ErasureTagFilter_def ErasureFilterTags_def demo_erasure_def)
  have p: "PruneCommand (erasurePruneMaxRepackSize demo_erasure_location) = Inr [pruneCmd, flagRetryLock, retryLockFor]"
    by (simp add: PruneCommand_def erasurePruneMaxRepackSize_def demo_erasure_location_def)
  have "TrimSpace ''k'' = ''k''" by code_simp
  then have "\<exists>dek w. resolvePlatformDEK ?e demo_erasure_location 0 = (Inr dek, w)"
    by (simp add: resolvePlatformDEK_def GetValue_def NewAgeWrapper_def EnsureDEK_def unwrapDEK_def data_value_def demo_erasure_env_def demo_erasure_location_def Let_def)
  then obtain dek w where d: "resolvePlatformDEK ?e demo_erasure_location 0 = (Inr dek, w)" by blast
  have q: "ze_Enqueue ?e r k a b w = (Inr 7, Suc w)" for r k a b w by (simp add: demo_erasure_env_def)
  show ?thesis unfolding demo_drive drive_def n by (simp add: launch_def f p d q n)
qed

theorem erasure_only_on_confirmed_instruction_witness:
  "\<exists>tags loc repo. drivable (demo_erasure_env None) (demo_erasure erasurePhaseRunning) 0 tags loc repo"
proof -
  obtain ans er' st' where p: "erasure_pass (demo_erasure_env None) (demo_erasure erasurePhaseRunning) \<lparr>zw = 0, zinflight = Map.empty, zev = []\<rparr> = (ans, er', st')"
    "zinflight st' ''gdpr'' = Some 7" using demo_launches by metis
  have n: "z_name (demo_erasure erasurePhaseRunning) = ''gdpr''" by (simp add: demo_erasure_def)
  from erasure_only_on_confirmed_instruction [OF p(1), of 7] show ?thesis using p(2) n by (simp; elim exE conjE) (intro exI)
qed

end
