(* ===== verification/Discovery.thy ===== *)
theory Discovery
  imports Cluster_Backup
begin

text \<open>
  Discovery (\<^verbatim>\<open>internal/discovery/derive.go\<close>, \<^verbatim>\<open>internal/controller/discovery_controller.go\<close> and
  \<^verbatim>\<open>discovery_inventory.go\<close>): a repository's listing becomes read-only Backups, one for each namespace and run it
  holds, and a projection goes when its snapshots are gone. The listing runs on a goroutine of its own; the
  tracker hands it to a later pass. The API server, the converter to unstructured objects and the order Go ranges over a map in are
  fields of \<open>discovery_env\<close>. Go's sort is not stable, so the sort is an argument too.
\<close>

section \<open>Deriving volumes\<close>

type_synonym volume_sort = "VolumeStatus list \<Rightarrow> VolumeStatus list"

definition derived_volume :: "string \<Rightarrow> string \<Rightarrow> VolumeStatus" where
  "derived_volume pvc snapshotID =
     \<lparr>Pvc = pvc, SnapshotID = snapshotID, SizeBytes = 0, AddedBytes = 0, Phase = VolumePhaseCompleted, Node = [], Reason = [],
      FirstAttemptAt = None, PhaseEnteredAt = None\<rparr>"

fun data_volumes :: "Snapshot list \<Rightarrow> VolumeStatus list" where
  "data_volumes [] = []"
| "data_volumes (s # snaps) =
     (if fst (TagValue (sn_Tags s) TagKeyKind) \<noteq> KindData then data_volumes snaps
      else
        (case TagValue (sn_Tags s) TagKeyPVC of
           (pvc, ok) \<Rightarrow> if \<not> ok \<or> pvc = [] then data_volumes snaps else derived_volume pvc (sn_ID s) # data_volumes snaps))"

definition VolumesFromSnapshots :: "volume_sort \<Rightarrow> Snapshot list \<Rightarrow> VolumeStatus list" where
  "VolumesFromSnapshots sort_pvc snaps = sort_pvc (data_volumes snaps)"

definition recorded_by_pvc :: "VolumeStatus list \<Rightarrow> (string \<rightharpoonup> VolumeStatus)" where
  "recorded_by_pvc recorded = foldl (\<lambda>byPVC v. byPVC(Pvc v \<mapsto> v)) Map.empty recorded"

fun fold_derived :: "(string \<rightharpoonup> VolumeStatus) \<Rightarrow> string list \<Rightarrow> VolumeStatus list \<Rightarrow> VolumeStatus list" where
  "fold_derived byPVC seen [] = []"
| "fold_derived byPVC seen (d # ds) =
     (if Pvc d \<in> set seen then fold_derived byPVC seen ds
      else (case byPVC (Pvc d) of None \<Rightarrow> d | Some rec \<Rightarrow> rec\<lparr>SnapshotID := SnapshotID d\<rparr>) # fold_derived byPVC (Pvc d # seen) ds)"

definition keeps_report :: "VolumeStatus \<Rightarrow> bool" where
  "keeps_report rec \<longleftrightarrow> Phase rec \<noteq> VolumePhaseCompleted \<or> Reason rec \<noteq> []"

definition MergeProjectedVolumes :: "volume_sort \<Rightarrow> VolumeStatus list \<Rightarrow> VolumeStatus list \<Rightarrow> VolumeStatus list" where
  "MergeProjectedVolumes sort_pvc recorded derived =
     sort_pvc (fold_derived (recorded_by_pvc recorded) [] derived @
       filter (\<lambda>rec. Pvc rec \<notin> set (map Pvc derived) \<and> keeps_report rec) recorded)"

definition DistinctNamespaces :: "Snapshot list \<Rightarrow> nat" where
  "DistinctNamespaces snaps =
     length (remdups (filter (\<lambda>ns. ns \<noteq> []) (map (\<lambda>s. fst (TagValue (sn_Tags s) TagKeyNamespace)) snaps)))"

section \<open>The tracker\<close>

datatype inventoryState = inventoryIdle | inventoryPending | inventoryReady

record inventoryResult =
  ir_snaps :: "Snapshot list"
  ir_err :: "go_error option"
  ir_at :: instant

record inventoryTracker =
  it_inFlight :: "string \<Rightarrow> bool"
  it_results :: "string \<rightharpoonup> inventoryResult"

definition inventoryWatchdogInterval :: duration where "inventoryWatchdogInterval = seconds 30"
definition discoveryDefaultInterval :: duration where "discoveryDefaultInterval = hours 1"
definition discoveryMinInterval :: duration where "discoveryMinInterval = minutes 1"
definition discoveryRetryInterval :: duration where "discoveryRetryInterval = seconds 30"

definition newInventoryTracker :: inventoryTracker where
  "newInventoryTracker = \<lparr>it_inFlight = \<lambda>_. False, it_results = Map.empty\<rparr>"

definition take_inventory :: "string \<Rightarrow> inventoryTracker \<Rightarrow> (inventoryResult option \<times> inventoryState) \<times> inventoryTracker" where
  "take_inventory repoName t =
     (case it_results t repoName of
        Some res \<Rightarrow> ((Some res, inventoryReady), t\<lparr>it_results := (it_results t)(repoName := None)\<rparr>)
      | None \<Rightarrow> ((None, if it_inFlight t repoName then inventoryPending else inventoryIdle), t))"

definition retain :: "string \<Rightarrow> inventoryResult option \<Rightarrow> duration \<Rightarrow> instant \<Rightarrow> inventoryTracker \<Rightarrow> bool \<times> inventoryTracker" where
  "retain repoName res maxAge now t =
     (case res of
        None \<Rightarrow> (False, t)
      | Some r \<Rightarrow>
          if time_sub now (ir_at r) \<ge> maxAge then (False, t)
          else if it_inFlight t repoName \<or> it_results t repoName \<noteq> None then (False, t)
          else (True, t\<lparr>it_results := (it_results t)(repoName \<mapsto> r)\<rparr>))"

text \<open>The locked part of \<^verbatim>\<open>start\<close>: whether a goroutine is launched.\<close>

definition start_inventory :: "string \<Rightarrow> inventoryTracker \<Rightarrow> bool \<times> inventoryTracker" where
  "start_inventory repoName t =
     (if it_inFlight t repoName then (False, t) else (True, t\<lparr>it_inFlight := (it_inFlight t)(repoName := True)\<rparr>))"

definition finish_inventory :: "string \<Rightarrow> inventoryResult \<Rightarrow> instant \<Rightarrow> inventoryTracker \<Rightarrow> inventoryTracker" where
  "finish_inventory repoName res now t =
     t\<lparr>it_inFlight := (it_inFlight t)(repoName := False), it_results := (it_results t)(repoName \<mapsto> res\<lparr>ir_at := now\<rparr>)\<rparr>"

text \<open>What the goroutine hands to \<^verbatim>\<open>finish\<close>: the lister's answer, or the recovered panic, which is \<open>None\<close>.\<close>

definition inventory_outcome :: "(go_error + Snapshot list) option \<Rightarrow> inventoryResult" where
  "inventory_outcome answer =
     (case answer of
        None \<Rightarrow> \<lparr>ir_snaps = [], ir_err = Some (ErrorNew ''inventory pass panicked''), ir_at = 0\<rparr>
      | Some (Inl err) \<Rightarrow> \<lparr>ir_snaps = [], ir_err = Some err, ir_at = 0\<rparr>
      | Some (Inr snaps) \<Rightarrow> \<lparr>ir_snaps = snaps, ir_err = None, ir_at = 0\<rparr>)"

section \<open>The environment of a pass\<close>

text \<open>A repository with the rest of its metadata and status; of the maintenance records only their number, since discovery masks them.\<close>

record DiscoveredRepository = BackupRepository +
  dr_Generation :: int
  dr_Annotations :: string_map
  dr_Location :: "string \<times> string"
  dr_Scope :: string
  dr_OwnerNamespace :: string
  dr_Mode :: string
  dr_KeySlots :: "string list"
  dr_Conditions :: "Condition list"
  dr_SnapshotCount :: i32
  dr_NamespacesPresent :: i32
  dr_LastDiscoveryTime :: "instant option"
  dr_ProjectedBackups :: i32
  dr_OrphanSnapshots :: i32
  dr_LastDiscoverySuccess :: "bool option"
  dr_LastMaintenanceTime :: "instant option"
  dr_LastCheckTime :: "instant option"
  dr_LastCheckResult :: string
  dr_ApproximateSizeBytes :: i64
  dr_StaleLocks :: i32
  dr_RecentMaintenance :: nat

datatype discovery_event =
    InventoryFailed go_error
  | ProjectionIncomplete nat go_error
  | ProjectionRemoved string string

record Projection =
  pj_Namespace :: string
  pj_Name :: string
  pj_Labels :: string_map
  pj_Annotations :: string_map
  pj_LocationKind :: string
  pj_LocationName :: string

record 'w discovery_env =
  ye_now :: "'w \<Rightarrow> instant"
  ye_get_repository :: "string \<Rightarrow> 'w \<Rightarrow> api_error + DiscoveredRepository"
  ye_get_location :: "string \<Rightarrow> 'w \<Rightarrow> api_error + bool option \<times> duration"
  ye_get_namespace :: "string \<Rightarrow> 'w \<Rightarrow> api_error + string \<times> bool"
  ye_get_backup :: "string \<Rightarrow> string \<Rightarrow> 'w \<Rightarrow> api_error + Backup"
  ye_list_backups :: "string \<times> string \<Rightarrow> 'w \<Rightarrow> api_error + (Backup \<times> string) list"
  ye_convert :: "string \<Rightarrow> string \<Rightarrow> go_error option"
  ye_convert_status :: "string \<Rightarrow> string \<Rightarrow> go_error option"
  ye_apply :: "Projection \<Rightarrow> 'w \<Rightarrow> api_error option \<times> 'w"
  ye_apply_status :: "string \<Rightarrow> string \<Rightarrow> string \<Rightarrow> VolumeStatus list \<Rightarrow> 'w \<Rightarrow> api_error option \<times> 'w"
  ye_delete :: "string \<Rightarrow> string \<Rightarrow> 'w \<Rightarrow> api_error option \<times> 'w"
  ye_update_status :: "DiscoveredRepository \<Rightarrow> 'w \<Rightarrow> api_error option \<times> 'w"
  ye_order :: "NamespaceRun list \<Rightarrow> NamespaceRun list"
  ye_sort :: volume_sort

record 'w ystate =
  yw :: 'w
  ytracker :: inventoryTracker
  ystarted :: "string list"
  yev :: "discovery_event list"

abbreviation yemit :: "discovery_event \<Rightarrow> 'w ystate \<Rightarrow> 'w ystate" where
  "yemit ev st \<equiv> st\<lparr>yev := yev st @ [ev]\<rparr>"

section \<open>Projecting one group\<close>

datatype groupOutcome = groupProjected | groupOrphan

definition projectedPhase :: "string \<Rightarrow> string" where
  "projectedPhase recorded = (if isTerminalBackupPhase recorded then recorded else BackupPhaseCompleted)"

definition projection :: "DiscoveredRepository \<Rightarrow> NamespaceRun \<Rightarrow> Projection" where
  "projection repo key =
     \<lparr>pj_Namespace = nr_Namespace key, pj_Name = nr_Run key,
      pj_Labels = [LabelOrigin \<mapsto> OriginCluster, LabelClusterBackup \<mapsto> nr_Run key, LabelNamespace \<mapsto> nr_Namespace key],
      pj_Annotations = [AnnotationProjected \<mapsto> AnnotationProjectedValue],
      pj_LocationKind = kindClusterBackupLocation, pj_LocationName = rep_Name repo\<rparr>"

text \<open>The two applies, over what an execution recorded: its phase and its volumes.\<close>

definition apply_projection ::
  "('w, 'z) discovery_env_scheme \<Rightarrow> DiscoveredRepository \<Rightarrow> NamespaceRun \<Rightarrow> Snapshot list \<Rightarrow> string \<Rightarrow> VolumeStatus list \<Rightarrow> 'w
   \<Rightarrow> (go_error + groupOutcome) \<times> 'w" where
  "apply_projection e repo key snaps recordedPhase recorded w =
     (let ns = nr_Namespace key; name = nr_Run key; coord = ns @ ''/'' @ name
      in case ye_convert e ns name of
           Some err \<Rightarrow> (Inl (Wrap (''convert projected Backup '' @ coord @ '' to unstructured'') err), w)
         | None \<Rightarrow>
             (case ye_apply e (projection repo key) w of
                (Some err, w) \<Rightarrow> (Inl (Wrap (''project Backup '' @ coord) (APIError err)), w)
              | (None, w) \<Rightarrow>
                  (case ye_convert_status e ns name of
                     Some err \<Rightarrow> (Inl (Wrap (''convert projected Backup status '' @ coord @ '' to unstructured'') err), w)
                   | None \<Rightarrow>
                       (case ye_apply_status e ns name (projectedPhase recordedPhase)
                               (MergeProjectedVolumes (ye_sort e) recorded (VolumesFromSnapshots (ye_sort e) snaps)) w of
                          (Some err, w) \<Rightarrow> (Inl (Wrap (''project Backup status '' @ coord) (APIError err)), w)
                        | (None, w) \<Rightarrow> (Inr groupProjected, w)))))"

definition projectGroup ::
  "('w, 'z) discovery_env_scheme \<Rightarrow> DiscoveredRepository \<Rightarrow> NamespaceRun \<Rightarrow> Snapshot list \<Rightarrow> 'w \<Rightarrow> (go_error + groupOutcome) \<times> 'w" where
  "projectGroup e repo key snaps w =
     (let ns = nr_Namespace key; name = nr_Run key
      in case ye_get_namespace e ns w of
           Inl err \<Rightarrow> if err = NotFound then (Inr groupOrphan, w) else (Inl (Wrap (''get namespace '' @ ns) (APIError err)), w)
         | Inr (phase, deleting) \<Rightarrow>
             if phase = ''Terminating'' \<or> deleting then (Inr groupProjected, w)
             else
               (case ye_get_backup e ns name w of
                  Inl err \<Rightarrow>
                    if err = NotFound then apply_projection e repo key snaps [] [] w
                    else (Inl (Wrap (''get Backup '' @ ns @ ''/'' @ name) (APIError err)), w)
                | Inr existing \<Rightarrow>
                    if annotation existing AnnotationProjected \<noteq> AnnotationProjectedValue \<and>
                       \<not> isTerminalBackupPhase (bs_Phase (b_Status existing))
                    then (Inr groupProjected, w)
                    else apply_projection e repo key snaps (bs_Phase (b_Status existing)) (bs_Volumes (b_Status existing)) w))"

section \<open>A pass\<close>

record pass_tally =
  pt_projected :: i32
  pt_orphans :: i32
  pt_failures :: "go_error list"

fun project_groups ::
  "('w, 'z) discovery_env_scheme \<Rightarrow> DiscoveredRepository \<Rightarrow> (NamespaceRun \<rightharpoonup> Snapshot list) \<Rightarrow> NamespaceRun list \<Rightarrow> pass_tally \<times> 'w
   \<Rightarrow> pass_tally \<times> 'w" where
  "project_groups e repo groups [] acc = acc"
| "project_groups e repo groups (key # keys) (t, w) =
     (if nr_Namespace key = [] then project_groups e repo groups keys (t, w)
      else
        (case projectGroup e repo key (case groups key of None \<Rightarrow> [] | Some g \<Rightarrow> g) w of
           (Inl err, w) \<Rightarrow> project_groups e repo groups keys (t\<lparr>pt_failures := pt_failures t @ [err]\<rparr>, w)
         | (Inr groupOrphan, w) \<Rightarrow> project_groups e repo groups keys (t\<lparr>pt_orphans := pt_orphans t + 1\<rparr>, w)
         | (Inr groupProjected, w) \<Rightarrow> project_groups e repo groups keys (t\<lparr>pt_projected := pt_projected t + 1\<rparr>, w)))"

fun gc_each ::
  "('w, 'z) discovery_env_scheme \<Rightarrow> string \<Rightarrow> NamespaceRun list \<Rightarrow> (Backup \<times> string) list \<Rightarrow> 'w ystate \<Rightarrow> go_error option \<times> 'w ystate" where
  "gc_each e locationName repoKeys [] st = (None, st)"
| "gc_each e locationName repoKeys ((b, locationRef) # rest) st =
     (if annotation b AnnotationProjected \<noteq> AnnotationProjectedValue then gc_each e locationName repoKeys rest st
      else if locationRef \<noteq> locationName then gc_each e locationName repoKeys rest st
      else if \<lparr>nr_Namespace = b_ns b, nr_Run = b_name b\<rparr> \<in> set repoKeys then gc_each e locationName repoKeys rest st
      else
        (case ye_delete e (b_ns b) (b_name b) (yw st) of
           (res, w) \<Rightarrow>
             if res \<noteq> None \<and> res \<noteq> Some NotFound
             then (Some (Wrap (''delete stale projection '' @ b_key b) (APIError (the res))), st\<lparr>yw := w\<rparr>)
             else gc_each e locationName repoKeys rest (yemit (ProjectionRemoved (b_ns b) (b_name b)) (st\<lparr>yw := w\<rparr>))))"

definition gcProjections ::
  "('w, 'z) discovery_env_scheme \<Rightarrow> string \<Rightarrow> NamespaceRun list \<Rightarrow> 'w ystate \<Rightarrow> go_error option \<times> 'w ystate" where
  "gcProjections e locationName repoKeys st =
     (case ye_list_backups e (LabelOrigin, OriginCluster) (yw st) of
        Inl err \<Rightarrow> (Some (Wrap ''list projected Backups'' (APIError err)), st)
      | Inr items \<Rightarrow> gc_each e locationName repoKeys items st)"

definition updateInventoryStatus ::
  "('w, 'z) discovery_env_scheme \<Rightarrow> DiscoveredRepository \<Rightarrow> Snapshot list \<Rightarrow> instant \<Rightarrow> pass_tally \<Rightarrow> 'w \<Rightarrow> go_error option \<times> 'w" where
  "updateInventoryStatus e repo snaps at t w =
     (case ye_update_status e
             (repo\<lparr>dr_SnapshotCount := of_nat (length snaps), dr_NamespacesPresent := of_nat (DistinctNamespaces snaps),
               dr_LastDiscoveryTime := Some at, dr_ProjectedBackups := pt_projected t, dr_OrphanSnapshots := pt_orphans t,
               dr_LastDiscoverySuccess := Some (pt_failures t = [])\<rparr>) w of
        (Some err, w) \<Rightarrow> (Some (Wrap (''update repository inventory status '' @ rep_Name repo) (APIError err)), w)
      | (None, w) \<Rightarrow> (None, w))"

definition recordDiscoveryOutcome ::
  "('w, 'z) discovery_env_scheme \<Rightarrow> DiscoveredRepository \<Rightarrow> bool \<Rightarrow> 'w \<Rightarrow> go_error option \<times> 'w" where
  "recordDiscoveryOutcome e repo success w =
     (if dr_LastDiscoverySuccess repo = Some success then (None, w)
      else
        (case ye_update_status e (repo\<lparr>dr_LastDiscoverySuccess := Some success\<rparr>) w of
           (Some err, w) \<Rightarrow> (Some (Wrap (''record discovery outcome on repository '' @ rep_Name repo) (APIError err)), w)
         | (None, w) \<Rightarrow> (None, w)))"

definition reportPartialPass ::
  "('w, 'z) discovery_env_scheme \<Rightarrow> DiscoveredRepository \<Rightarrow> inventoryResult \<Rightarrow> go_error list \<Rightarrow> duration \<Rightarrow> 'w ystate \<Rightarrow> ctrl_result \<times> 'w ystate" where
  "reportPartialPass e repo res failures interval st =
     (let st = yemit (ProjectionIncomplete (length failures) (JoinErrors failures)) st
      in (RequeueAfter discoveryRetryInterval,
          st\<lparr>ytracker := snd (retain (rep_Name repo) (Some res) interval (ye_now e (yw st)) (ytracker st))\<rparr>))"

definition discoverySettings :: "('w, 'z) discovery_env_scheme \<Rightarrow> DiscoveredRepository \<Rightarrow> 'w \<Rightarrow> go_error + bool \<times> duration" where
  "discoverySettings e repo w =
     (case ye_get_location e (rep_Name repo) w of
        Inl err \<Rightarrow>
          if err = NotFound then Inr (False, 0) else Inl (Wrap (''get ClusterBackupLocation '' @ rep_Name repo) (APIError err))
      | Inr (enabled, interval) \<Rightarrow>
          let interval = (if interval \<le> 0 then discoveryDefaultInterval else interval);
              interval = (if interval < discoveryMinInterval then discoveryMinInterval else interval)
          in Inr (enabled = None \<or> enabled = Some True, interval))"

text \<open>The keys of the map of groups, as Go ranges over them.\<close>

definition group_keys :: "('w, 'z) discovery_env_scheme \<Rightarrow> Snapshot list \<Rightarrow> NamespaceRun list" where
  "group_keys e snaps = ye_order e (remdups (map snapshot_key snaps))"

definition consume ::
  "('w, 'z) discovery_env_scheme \<Rightarrow> DiscoveredRepository \<Rightarrow> duration \<Rightarrow> inventoryResult \<Rightarrow> 'w ystate
   \<Rightarrow> (ctrl_result \<times> go_error option) \<times> 'w ystate" where
  "consume e repo interval res st =
     (let snaps = ir_snaps res; groups = GroupByNamespaceRun snaps;
          repoKeys = filter (\<lambda>key. nr_Namespace key \<noteq> []) (remdups (map snapshot_key snaps))
      in case project_groups e repo groups (group_keys e snaps) (\<lparr>pt_projected = 0, pt_orphans = 0, pt_failures = []\<rparr>, yw st) of
           (t, w) \<Rightarrow>
             (case gcProjections e (rep_Name repo) repoKeys (st\<lparr>yw := w\<rparr>) of
                (gcErr, st) \<Rightarrow>
                  let t = (case gcErr of None \<Rightarrow> t | Some err \<Rightarrow> t\<lparr>pt_failures := pt_failures t @ [err]\<rparr>)
                  in case updateInventoryStatus e repo snaps (ir_at res) t (yw st) of
                       (Some err, w) \<Rightarrow> ((NoRequeue, Some err), st\<lparr>yw := w\<rparr>)
                     | (None, w) \<Rightarrow>
                         if pt_failures t \<noteq> []
                         then (case reportPartialPass e repo res (pt_failures t) interval (st\<lparr>yw := w\<rparr>) of (r, st) \<Rightarrow> ((r, None), st))
                         else ((RequeueAfter interval, None), st\<lparr>yw := w\<rparr>)))"

definition discovery_Reconcile ::
  "('w, 'z) discovery_env_scheme \<Rightarrow> string \<Rightarrow> 'w ystate \<Rightarrow> (ctrl_result \<times> go_error option) \<times> 'w ystate" where
  "discovery_Reconcile e name st =
     (case ye_get_repository e name (yw st) of
        Inl err \<Rightarrow> ((NoRequeue, if err = NotFound then None else Some (APIError err)), st)
      | Inr repo \<Rightarrow>
          if \<not> rep_Initialized repo then ((RequeueAfter discoveryRetryInterval, None), st)
          else
            (case discoverySettings e repo (yw st) of
               Inl err \<Rightarrow> ((NoRequeue, Some err), st)
             | Inr (enabled, interval) \<Rightarrow>
                 if \<not> enabled then ((NoRequeue, None), st)
                 else
                   (case take_inventory (rep_Name repo) (ytracker st) of
                      ((None, inventoryIdle), t) \<Rightarrow>
                        (case start_inventory (rep_Name repo) t of
                           (launched, t) \<Rightarrow>
                             ((RequeueAfter inventoryWatchdogInterval, None),
                              st\<lparr>ytracker := t, ystarted := ystarted st @ (if launched then [rep_Name repo] else [])\<rparr>))
                    | ((None, _), t) \<Rightarrow> ((RequeueAfter inventoryWatchdogInterval, None), st\<lparr>ytracker := t\<rparr>)
                    | ((Some res, _), t) \<Rightarrow>
                        let st = st\<lparr>ytracker := t\<rparr>
                        in case ir_err res of
                             Some err \<Rightarrow>
                               ((RequeueAfter discoveryRetryInterval, None),
                                (yemit (InventoryFailed err) st)\<lparr>yw := snd (recordDiscoveryOutcome e repo False (yw st))\<rparr>)
                           | None \<Rightarrow> consume e repo interval res st)))"

section \<open>What wakes discovery\<close>

definition masked :: "DiscoveredRepository \<Rightarrow> DiscoveredRepository" where
  "masked repo =
     repo\<lparr>dr_SnapshotCount := 0, dr_NamespacesPresent := 0, dr_LastDiscoveryTime := None, dr_ProjectedBackups := 0, dr_OrphanSnapshots := 0,
       dr_LastDiscoverySuccess := None, dr_LastMaintenanceTime := None, dr_LastCheckTime := None, dr_LastCheckResult := [],
       dr_ApproximateSizeBytes := 0, dr_StaleLocks := 0, dr_RecentMaintenance := 0\<rparr>"

text \<open>The status of a repository: the object without its metadata.\<close>

definition status_part :: "DiscoveredRepository \<Rightarrow> DiscoveredRepository" where
  "status_part repo =
     repo\<lparr>rep_Name := [], rep_Labels := Map.empty, rep_Controller := None, dr_Generation := 0, dr_Annotations := Map.empty\<rparr>"

definition inventoryChurnPredicate :: "DiscoveredRepository \<Rightarrow> DiscoveredRepository \<Rightarrow> bool" where
  "inventoryChurnPredicate oldRepo newRepo \<longleftrightarrow>
     dr_Generation oldRepo \<noteq> dr_Generation newRepo \<or> rep_Labels oldRepo \<noteq> rep_Labels newRepo \<or>
     dr_Annotations oldRepo \<noteq> dr_Annotations newRepo \<or> status_part (masked oldRepo) \<noteq> status_part (masked newRepo)"

definition mapRunToRepository :: "string \<Rightarrow> string list" where
  "mapRunToRepository loc = (if loc = [] then [] else [loc])"

end
