(* ===== verification/Discovery_Safety.thy ===== *)
theory Discovery_Safety
  imports Discovery
begin

text \<open>
  What discovery promises: a projection completes the report of an execution and never replaces it; a pass writes
  projections, removes the projections whose snapshots are gone and records its own inventory, and none of these
  writes wakes it again; one listing runs for a repository at a time, under every interleaving of the workers and the listing goroutines.
\<close>

section \<open>The merge of a report with a listing\<close>

text \<open>What Go promises of \<^verbatim>\<open>slices.SortFunc\<close> with a comparison of claim names: a permutation in order. It promises nothing on ties.\<close>

definition orders_volumes :: "volume_sort \<Rightarrow> bool" where
  "orders_volumes sort_pvc \<longleftrightarrow> (\<forall>vs. mset (sort_pvc vs) = mset vs \<and> sorted (map Pvc (sort_pvc vs)))"

definition volume_of :: "VolumeStatus list \<Rightarrow> (string \<rightharpoonup> VolumeStatus)" where
  "volume_of vs = map_of (map (\<lambda>v. (Pvc v, v)) vs)"

text \<open>The data snapshots of one claim, in the order of the listing.\<close>

definition data_ids :: "string \<Rightarrow> Snapshot list \<Rightarrow> string list" where
  "data_ids pvc snaps =
     map sn_ID (filter (\<lambda>s. fst (TagValue (sn_Tags s) TagKeyKind) = KindData \<and> TagValue (sn_Tags s) TagKeyPVC = (pvc, True) \<and> pvc \<noteq> []) snaps)"

text \<open>
  The entry of a claim, written out over the fields of the status: what happened is the report's, what exists is the
  repository's. Without a snapshot a report stays only for a phase other than Completed or for a reason; without a
  report a snapshot reads as a completed volume of which nothing else is known.
\<close>

definition merged_entry :: "VolumeStatus option \<Rightarrow> string list \<Rightarrow> string \<Rightarrow> VolumeStatus option \<Rightarrow> bool" where
  "merged_entry report ids pvc entry \<longleftrightarrow>
     (case report of
        None \<Rightarrow>
          if ids = [] then entry = None
          else \<exists>snapshotID \<in> set ids.
            entry = Some \<lparr>Pvc = pvc, SnapshotID = snapshotID, SizeBytes = 0, AddedBytes = 0, Phase = ''Completed'', Node = [],
              Reason = [], FirstAttemptAt = None, PhaseEnteredAt = None\<rparr>
      | Some rec \<Rightarrow>
          if ids = [] then entry = (if Phase rec \<noteq> ''Completed'' \<or> Reason rec \<noteq> [] then Some rec else None)
          else \<exists>snapshotID \<in> set ids. entry = Some (rec\<lparr>SnapshotID := snapshotID\<rparr>))"

lemma volume_of_simps [simp]:
  "volume_of [] = Map.empty" "volume_of (v # vs) = (volume_of vs)(Pvc v \<mapsto> v)"
  by (simp_all add: volume_of_def)

lemma volume_of_append: "volume_of (vs @ us) = volume_of us ++ volume_of vs"
  by (simp add: volume_of_def)

lemma volume_of_Some: "volume_of vs pvc = Some v \<Longrightarrow> v \<in> set vs \<and> Pvc v = pvc"
  by (auto simp: volume_of_def dest!: map_of_SomeD)

lemma volume_of_None: "volume_of vs pvc = None \<longleftrightarrow> pvc \<notin> Pvc ` set vs"
  by (auto simp: volume_of_def map_of_eq_None_iff image_image)

lemma volume_of_mset:
  assumes "mset vs = mset us" and "distinct (map Pvc us)"
  shows "volume_of vs = volume_of us"
proof -
  have "distinct (map Pvc vs)" using assms by (metis mset_map mset_eq_imp_distinct_iff)
  then show ?thesis
    unfolding volume_of_def using assms mset_eq_setD [OF assms(1)]
    by (subst map_of_inject_set) (simp_all add: comp_def)
qed

lemma volume_of_inject:
  assumes "volume_of vs = volume_of us" and "distinct (map Pvc vs)" "distinct (map Pvc us)"
    and "sorted (map Pvc vs)" "sorted (map Pvc us)"
  shows "vs = us"
proof -
  have s: "(\<lambda>v. (Pvc v, v)) ` set vs = (\<lambda>v. (Pvc v, v)) ` set us"
    using assms(1-3) unfolding volume_of_def by (subst (asm) map_of_inject_set) (simp_all add: comp_def)
  have "set vs = set us" using arg_cong [OF s, of "image snd"] by (simp add: image_image)
  moreover have "inj_on Pvc (set vs \<union> set us)" using assms(2,3) calculation by (simp add: distinct_map)
  ultimately show ?thesis
    using assms(2-5) by (metis distinct_map map_sorted_distinct_set_unique)
qed

lemma recorded_by_pvc_eq: "distinct (map Pvc recorded) \<Longrightarrow> recorded_by_pvc recorded = volume_of recorded"
proof (induction recorded rule: rev_induct)
  case (snoc v vs)
  then have "volume_of vs (Pvc v) = None" by (auto simp: volume_of_None)
  then have "volume_of (vs @ [v]) = (volume_of vs)(Pvc v \<mapsto> v)"
    by (auto simp: volume_of_append map_add_def fun_eq_iff split: option.splits)
  then show ?case using snoc by (simp add: recorded_by_pvc_def)
qed (simp add: recorded_by_pvc_def)

lemma fold_derived_keys:
  assumes "\<And>k rec. byPVC k = Some rec \<Longrightarrow> Pvc rec = k"
  shows "distinct (map Pvc (fold_derived byPVC seen ds)) \<and>
    Pvc ` set (fold_derived byPVC seen ds) = Pvc ` set ds - set seen"
  using assms by (induction byPVC seen ds rule: fold_derived.induct) (auto split: option.splits)

lemma fold_derived_volume:
  assumes "\<And>k rec. byPVC k = Some rec \<Longrightarrow> Pvc rec = k" and "pvc \<notin> set seen"
  shows "volume_of (fold_derived byPVC seen ds) pvc =
    map_option (\<lambda>d. case byPVC pvc of None \<Rightarrow> d | Some rec \<Rightarrow> rec\<lparr>SnapshotID := SnapshotID d\<rparr>) (volume_of ds pvc)"
  using assms by (induction byPVC seen ds rule: fold_derived.induct) (auto split: option.splits)

lemma derived_volume_sel [simp]: "Pvc (derived_volume pvc i) = pvc" "SnapshotID (derived_volume pvc i) = i"
  by (simp_all add: derived_volume_def)

definition backs :: "Snapshot \<Rightarrow> VolumeStatus \<Rightarrow> bool" where
  "backs s v \<longleftrightarrow>
     fst (TagValue (sn_Tags s) TagKeyKind) = KindData \<and> TagValue (sn_Tags s) TagKeyPVC = (Pvc v, True) \<and> Pvc v \<noteq> [] \<and>
     v = derived_volume (Pvc v) (sn_ID s)"

lemma data_volumes_mem: "v \<in> set (data_volumes snaps) \<longleftrightarrow> (\<exists>s \<in> set snaps. backs s v)"
proof (induction snaps)
  case (Cons s snaps)
  obtain pvc ok where t: "TagValue (sn_Tags s) TagKeyPVC = (pvc, ok)" by (cases "TagValue (sn_Tags s) TagKeyPVC")
  have d: "v = derived_volume pvc i \<longleftrightarrow> pvc = Pvc v \<and> v = derived_volume (Pvc v) i" for i
    by (metis derived_volume_sel(1))
  have "backs s v \<longleftrightarrow> fst (TagValue (sn_Tags s) TagKeyKind) = KindData \<and> ok \<and> pvc \<noteq> [] \<and> v = derived_volume pvc (sn_ID s)"
    unfolding backs_def t d by auto
  then have "v \<in> set (data_volumes (s # snaps)) \<longleftrightarrow> backs s v \<or> v \<in> set (data_volumes snaps)"
    by (simp add: t) blast
  then show ?case unfolding Cons.IH by simp
qed simp

lemma data_ids_mem:
  "i \<in> set (data_ids pvc snaps) \<longleftrightarrow>
     (\<exists>s \<in> set snaps. fst (TagValue (sn_Tags s) TagKeyKind) = KindData \<and> TagValue (sn_Tags s) TagKeyPVC = (pvc, True) \<and> pvc \<noteq> [] \<and> i = sn_ID s)"
  by (auto simp: data_ids_def)

lemma data_volumes_set:
  "v \<in> set (data_volumes snaps) \<longleftrightarrow> (\<exists>i. i \<in> set (data_ids (Pvc v) snaps) \<and> v = derived_volume (Pvc v) i)"
  unfolding data_volumes_mem data_ids_mem backs_def by metis

lemma data_volumes_Pvc: "pvc \<in> Pvc ` set (data_volumes snaps) \<longleftrightarrow> data_ids pvc snaps \<noteq> []"
proof -
  have "derived_volume pvc i \<in> set (data_volumes snaps)" if "i \<in> set (data_ids pvc snaps)" for i
    using that by (subst data_volumes_set) auto
  then have "pvc \<in> Pvc ` set (data_volumes snaps)" if "i \<in> set (data_ids pvc snaps)" for i
    using that by (metis derived_volume_sel(1) imageI)
  moreover have "data_ids pvc snaps \<noteq> []" if "v \<in> set (data_volumes snaps)" "pvc = Pvc v" for v
    using that data_volumes_set [of v] by fastforce
  ultimately show ?thesis by (metis imageE last_in_set)
qed

lemma orders_volumesD:
  assumes "orders_volumes sort_pvc"
  shows "mset (sort_pvc vs) = mset vs" "set (sort_pvc vs) = set vs" "sorted (map Pvc (sort_pvc vs))"
    "distinct (map Pvc (sort_pvc vs)) = distinct (map Pvc vs)"
  using assms mset_eq_setD mset_eq_imp_distinct_iff [of "map Pvc (sort_pvc vs)" "map Pvc vs"]
  by (auto simp: orders_volumes_def)

text \<open>The merge before its last sort.\<close>

definition unsorted_merge :: "VolumeStatus list \<Rightarrow> VolumeStatus list \<Rightarrow> VolumeStatus list" where
  "unsorted_merge recorded derived =
     fold_derived (recorded_by_pvc recorded) [] derived @ filter (\<lambda>rec. Pvc rec \<notin> set (map Pvc derived) \<and> keeps_report rec) recorded"

lemma unsorted_merge_distinct:
  assumes "distinct (map Pvc recorded)"
  shows "distinct (map Pvc (unsorted_merge recorded derived))"
proof -
  have "distinct (map Pvc (fold_derived (volume_of recorded) [] derived)) \<and>
      Pvc ` set (fold_derived (volume_of recorded) [] derived) = Pvc ` set derived"
    using fold_derived_keys [of "volume_of recorded" "[]" derived] volume_of_Some [of recorded] by simp
  moreover have "Pvc ` set derived \<inter> Pvc ` set (filter (\<lambda>rec. Pvc rec \<notin> set (map Pvc derived) \<and> keeps_report rec) recorded) = {}"
    by auto (metis imageI)
  ultimately show ?thesis using assms by (simp add: unsorted_merge_def recorded_by_pvc_eq distinct_map_filter)
qed

lemma volume_of_filter:
  assumes "distinct (map Pvc vs)"
  shows "volume_of (filter P vs) pvc = (case volume_of vs pvc of None \<Rightarrow> None | Some v \<Rightarrow> if P v then Some v else None)"
  using assms by (induction vs) (auto simp: volume_of_None split: option.splits dest: volume_of_Some)

lemma merge_entry:
  assumes "orders_volumes sort_pvc" and d: "distinct (map Pvc recorded)"
  shows "merged_entry (volume_of recorded pvc) (data_ids pvc snaps) pvc
    (volume_of (MergeProjectedVolumes sort_pvc recorded (VolumesFromSnapshots sort_pvc snaps)) pvc)"
proof -
  let ?ds = "VolumesFromSnapshots sort_pvc snaps"
  note s = orders_volumesD [OF assms(1)]
  have m: "volume_of (MergeProjectedVolumes sort_pvc recorded ?ds) = volume_of (unsorted_merge recorded ?ds)"
    unfolding MergeProjectedVolumes_def unsorted_merge_def [symmetric]
    by (rule volume_of_mset [OF s(1) unsorted_merge_distinct [OF d]])
  have set: "set ?ds = set (data_volumes snaps)" by (simp add: VolumesFromSnapshots_def s)
  have f: "volume_of (fold_derived (recorded_by_pvc recorded) [] ?ds) pvc =
      map_option (\<lambda>d. case volume_of recorded pvc of None \<Rightarrow> d | Some rec \<Rightarrow> rec\<lparr>SnapshotID := SnapshotID d\<rparr>) (volume_of ?ds pvc)"
    by (simp add: fold_derived_volume recorded_by_pvc_eq [OF d] volume_of_Some)
  show ?thesis
  proof (cases "volume_of ?ds pvc")
    case None
    then have "pvc \<notin> Pvc ` set ?ds" "data_ids pvc snaps = []"
      using data_volumes_Pvc [of pvc snaps] by (simp_all add: volume_of_None set)
    then show ?thesis
      using f None by (auto simp: m unsorted_merge_def volume_of_append map_add_def merged_entry_def volume_of_filter [OF d]
            keeps_report_def split: option.splits dest: volume_of_Some)
  next
    case (Some v)
    then obtain i where i: "i \<in> set (data_ids pvc snaps)" "v = derived_volume pvc i"
      using volume_of_Some [OF Some] data_volumes_set [of v snaps] set by auto
    have "volume_of (unsorted_merge recorded ?ds) pvc =
        Some (case volume_of recorded pvc of None \<Rightarrow> derived_volume pvc i | Some rec \<Rightarrow> rec\<lparr>SnapshotID := i\<rparr>)"
    proof -
      have "volume_of (filter (\<lambda>rec. Pvc rec \<notin> set (map Pvc ?ds) \<and> keeps_report rec) recorded) pvc = None"
        using volume_of_Some [OF Some] unfolding volume_of_None by auto (metis imageI)
      then show ?thesis
        using f Some i(2) by (auto simp: unsorted_merge_def volume_of_append map_add_def derived_volume_def split: option.splits)
    qed
    then show ?thesis using i(1)
      by (auto simp: merged_entry_def m derived_volume_def split: option.splits)
  qed
qed

lemma merge_ordered:
  assumes "orders_volumes sort_pvc" and "distinct (map Pvc recorded)"
  shows "distinct (map Pvc (MergeProjectedVolumes sort_pvc recorded derived)) \<and>
    sorted (map Pvc (MergeProjectedVolumes sort_pvc recorded derived))"
  using unsorted_merge_distinct [OF assms(2), of derived] orders_volumesD [OF assms(1)]
  by (simp add: MergeProjectedVolumes_def unsorted_merge_def)

text \<open>
  C22: take a recorded status with one entry for each claim, as every pass of the controller leaves it. Over any
  order Go's sort may give ties, the merged status has one entry for each claim, in the order of the names. A claim
  with a report and a data snapshot keeps every field of its report but the snapshotID, which becomes one of the
  repository's for that claim; one with a snapshot alone reads Completed, with no size, node, reason or time; one
  with a report alone stays, unchanged, exactly when the report says what no listing can, a phase other than
  Completed or a reason; one with neither has no entry.
\<close>

theorem merge_keeps_the_execution_report:
  assumes "orders_volumes sort_pvc" and "distinct (map Pvc recorded)"
    and "out = MergeProjectedVolumes sort_pvc recorded (VolumesFromSnapshots sort_pvc snaps)"
  shows "distinct (map Pvc out) \<and> sorted (map Pvc out) \<and>
    (\<forall>pvc. merged_entry (volume_of recorded pvc) (data_ids pvc snaps) pvc (volume_of out pvc))"
  unfolding assms(3) using merge_ordered [OF assms(1,2)] merge_entry [OF assms(1,2)] by blast

lemma sort_key_orders [simp]: "orders_volumes (sort_key Pvc)"
  by (simp add: orders_volumes_def sorted_sort_key_map)

definition data_snapshot :: "string \<Rightarrow> string \<Rightarrow> Snapshot" where
  "data_snapshot pvc i =
     \<lparr>sn_ID = i, sn_ShortID = i, sn_Time = 0, sn_Host = [], sn_Paths = [], sn_Tags = [''kind=data'', ''pvc='' @ pvc], sn_Summary = None, sn_Original = []\<rparr>"

definition reported :: "string \<Rightarrow> string \<Rightarrow> int \<Rightarrow> string \<Rightarrow> string \<Rightarrow> VolumeStatus" where
  "reported pvc snapshotID added phase reason =
     \<lparr>Pvc = pvc, SnapshotID = snapshotID, SizeBytes = 0, AddedBytes = added, Phase = phase, Node = [], Reason = reason,
      FirstAttemptAt = None, PhaseEnteredAt = None\<rparr>"

definition example_report :: "VolumeStatus list" where
  "example_report =
     [reported ''db'' ''gone'' 7 ''Completed'' [], reported ''old'' ''gone'' 0 ''Completed'' [],
      reported ''cache'' [] 0 ''Skipped'' [], reported ''log'' ''gone'' 3 ''Completed'' ''LateRelease'']"

lemma example_listing [simp]:
  "data_ids ''db'' [data_snapshot ''db'' ''a''] = [''a'']" "data_ids ''old'' [data_snapshot ''db'' ''a''] = []"
  "data_ids ''cache'' [data_snapshot ''db'' ''a''] = []" "data_ids ''log'' [data_snapshot ''db'' ''a''] = []"
  by code_simp+

theorem merge_keeps_the_execution_report_witness:
  "\<exists>out. out = MergeProjectedVolumes (sort_key Pvc) example_report (VolumesFromSnapshots (sort_key Pvc) [data_snapshot ''db'' ''a'']) \<and>
     sorted (map Pvc out) \<and>
     volume_of out ''db'' = Some (reported ''db'' ''a'' 7 ''Completed'' []) \<and> volume_of out ''old'' = None \<and>
     volume_of out ''cache'' = Some (reported ''cache'' [] 0 ''Skipped'' []) \<and>
     volume_of out ''log'' = Some (reported ''log'' ''gone'' 3 ''Completed'' ''LateRelease'')"
proof -
  let ?out = "MergeProjectedVolumes (sort_key Pvc) example_report (VolumesFromSnapshots (sort_key Pvc) [data_snapshot ''db'' ''a''])"
  have "distinct (map Pvc example_report)" by code_simp
  note m = merge_keeps_the_execution_report [OF sort_key_orders this refl, of "[data_snapshot ''db'' ''a'']"]
  have "merged_entry (volume_of example_report pvc) (data_ids pvc [data_snapshot ''db'' ''a'']) pvc (volume_of ?out pvc)" for pvc
    using m by blast
  note e = this [of "''db''"] this [of "''old''"] this [of "''cache''"] this [of "''log''"]
  have "volume_of ?out ''db'' = Some (reported ''db'' ''a'' 7 ''Completed'' [])"
    using e(1) by (simp add: merged_entry_def example_report_def reported_def)
  moreover have "volume_of ?out ''old'' = None"
    using e(2) by (simp add: merged_entry_def example_report_def reported_def)
  moreover have "volume_of ?out ''cache'' = Some (reported ''cache'' [] 0 ''Skipped'' [])"
    using e(3) by (simp add: merged_entry_def example_report_def reported_def)
  moreover have "volume_of ?out ''log'' = Some (reported ''log'' ''gone'' 3 ''Completed'' ''LateRelease'')"
    using e(4) by (simp add: merged_entry_def example_report_def reported_def)
  ultimately show ?thesis using m by blast
qed

lemma data_ids_mset: "mset snaps' = mset snaps \<Longrightarrow> mset (data_ids pvc snaps') = mset (data_ids pvc snaps)"
  by (simp add: data_ids_def)

lemma merged_entry_settles:
  assumes "merged_entry report ids pvc entry" and "merged_entry entry ids' pvc entry'"
    and "mset ids' = mset ids" "length ids \<le> 1"
  shows "entry' = entry"
proof (cases ids)
  case Nil
  then show ?thesis using assms by (auto simp: merged_entry_def split: option.splits if_splits)
next
  case (Cons i rest)
  then have "ids = [i]" "ids' = [i]" using assms(3,4) by auto
  then show ?thesis using assms(1,2) by (auto simp: merged_entry_def split: option.splits)
qed

text \<open>A projection is the same on the next pass, whatever order the listing comes in, where a claim has one data snapshot at most.\<close>

lemma merge_settles:
  assumes "orders_volumes sort_pvc" and "distinct (map Pvc recorded)"
    and "mset snaps' = mset snaps" and "\<And>pvc. length (data_ids pvc snaps) \<le> 1"
    and out: "out = MergeProjectedVolumes sort_pvc recorded (VolumesFromSnapshots sort_pvc snaps)"
  shows "MergeProjectedVolumes sort_pvc out (VolumesFromSnapshots sort_pvc snaps') = out"
proof -
  have o: "distinct (map Pvc out)" "sorted (map Pvc out)" unfolding out using merge_ordered [OF assms(1,2)] by simp_all
  let ?out' = "MergeProjectedVolumes sort_pvc out (VolumesFromSnapshots sort_pvc snaps')"
  have "volume_of ?out' pvc = volume_of out pvc" for pvc
    by (rule merged_entry_settles [OF merge_entry [OF assms(1,2), of pvc snaps, folded out] merge_entry [OF assms(1) o(1)]
        data_ids_mset [OF assms(3)] assms(4)])
  then show ?thesis
    using merge_ordered [OF assms(1) o(1)] o by (intro volume_of_inject) auto
qed

text \<open>With two data snapshots of a claim the sort, which compares names alone, does not choose: the order of the listing does.\<close>

definition twice :: "Snapshot list" where
  "twice = map (data_snapshot ''db'') [''a'', ''b'']"

lemma duplicate_snapshots_follow_the_listing:
  "map SnapshotID (MergeProjectedVolumes (sort_key Pvc) [] (VolumesFromSnapshots (sort_key Pvc) twice)) = [''a''] \<and>
   map SnapshotID (MergeProjectedVolumes (sort_key Pvc) [] (VolumesFromSnapshots (sort_key Pvc) (rev twice))) = [''b'']"
  by code_simp

section \<open>What a pass writes\<close>

text \<open>What an execution left at a coordinate that discovery may project over: nothing, or a projection, or a finished record.\<close>

definition recorded_at ::
  "('w, 'z) discovery_env_scheme \<Rightarrow> NamespaceRun \<Rightarrow> 'w \<Rightarrow> string \<Rightarrow> VolumeStatus list \<Rightarrow> bool" where
  "recorded_at e key w phase volumes \<longleftrightarrow>
     (case ye_get_backup e (nr_Namespace key) (nr_Run key) w of
        Inl err \<Rightarrow> err = NotFound \<and> phase = [] \<and> volumes = []
      | Inr b \<Rightarrow>
          (annotation b AnnotationProjected = AnnotationProjectedValue \<or> isTerminalBackupPhase (bs_Phase (b_Status b))) \<and>
          phase = bs_Phase (b_Status b) \<and> volumes = bs_Volumes (b_Status b))"

text \<open>The status a projection writes.\<close>

definition write_status ::
  "('w, 'z) discovery_env_scheme \<Rightarrow> NamespaceRun \<Rightarrow> Snapshot list \<Rightarrow> string \<Rightarrow> VolumeStatus list \<Rightarrow> 'w \<Rightarrow> api_error option \<times> 'w" where
  "write_status e key snaps phase volumes =
     ye_apply_status e (nr_Namespace key) (nr_Run key) (projectedPhase phase)
       (MergeProjectedVolumes (ye_sort e) volumes (VolumesFromSnapshots (ye_sort e) (filter (\<lambda>s. snapshot_key s = key) snaps)))"

inductive project_write ::
  "('w, 'z) discovery_env_scheme \<Rightarrow> DiscoveredRepository \<Rightarrow> Snapshot list \<Rightarrow> 'w \<Rightarrow> 'w \<Rightarrow> bool" for e repo snaps where
  object: "project_write e repo snaps w (snd (ye_apply e (projection repo key) w))"
  if "key \<in> snapshot_key ` set snaps" "nr_Namespace key \<noteq> []"
    "ye_get_namespace e (nr_Namespace key) w = Inr (nsPhase, False)" "nsPhase \<noteq> ''Terminating''" "recorded_at e key w phase volumes"
| status: "project_write e repo snaps w (snd (write_status e key snaps phase volumes w1))"
  if "key \<in> snapshot_key ` set snaps" "nr_Namespace key \<noteq> []"
    "ye_get_namespace e (nr_Namespace key) w = Inr (nsPhase, False)" "nsPhase \<noteq> ''Terminating''" "recorded_at e key w phase volumes"
    "ye_apply e (projection repo key) w = (None, w1)"

text \<open>The collection, over the Backups it listed.\<close>

inductive gc_write ::
  "('w, 'z) discovery_env_scheme \<Rightarrow> DiscoveredRepository \<Rightarrow> Snapshot list \<Rightarrow> (Backup \<times> string) list \<Rightarrow> 'w \<Rightarrow> 'w \<Rightarrow> bool"
  for e repo snaps items where
  stale: "gc_write e repo snaps items w (snd (ye_delete e (b_ns b) (b_name b) w))"
  if "(b, rep_Name repo) \<in> set items" "annotation b AnnotationProjected = AnnotationProjectedValue"
    "b_ns b = [] \<or> \<lparr>nr_Namespace = b_ns b, nr_Run = b_name b\<rparr> \<notin> snapshot_key ` set snaps"

lemma apply_projection_writes:
  assumes "apply_projection e repo key (filter (\<lambda>s. snapshot_key s = key) snaps) phase volumes w = (r, w')"
    and "key \<in> snapshot_key ` set snaps" "nr_Namespace key \<noteq> []"
      "ye_get_namespace e (nr_Namespace key) w = Inr (nsPhase, False)" "nsPhase \<noteq> ''Terminating''" "recorded_at e key w phase volumes"
  shows "w' = w \<or> project_write e repo snaps w w'"
  using assms(1) project_write.object [OF assms(2-6), of repo] project_write.status [OF assms(2-6), of repo]
  by (auto simp: apply_projection_def Let_def write_status_def split: option.splits prod.splits)

lemma projectGroup_writes:
  assumes p: "projectGroup e repo key (filter (\<lambda>s. snapshot_key s = key) snaps) w = (r, w')"
    and k: "key \<in> snapshot_key ` set snaps" "nr_Namespace key \<noteq> []"
  shows "w' = w \<or> project_write e repo snaps w w'"
proof (cases "ye_get_namespace e (nr_Namespace key) w")
  case (Inr ns)
  obtain nsPhase deleting where ns: "ns = (nsPhase, deleting)" by (cases ns)
  show ?thesis
  proof (cases "nsPhase = ''Terminating'' \<or> deleting")
    case True
    then show ?thesis using p Inr ns by (auto simp: projectGroup_def Let_def)
  next
    case False
    then have live: "ye_get_namespace e (nr_Namespace key) w = Inr (nsPhase, False)" "nsPhase \<noteq> ''Terminating''" using Inr ns by simp_all
    note a = apply_projection_writes [OF _ k live]
    show ?thesis
    proof (cases "ye_get_backup e (nr_Namespace key) (nr_Run key) w")
      case (Inl err)
      then show ?thesis
        using p live a [of repo "[]" "[]" r w'] by (auto simp: projectGroup_def Let_def recorded_at_def split: if_splits)
    next
      case (Inr b)
      then show ?thesis
        using p live a [of repo "bs_Phase (b_Status b)" "bs_Volumes (b_Status b)" r w']
        by (auto simp: projectGroup_def Let_def recorded_at_def split: if_splits)
    qed
  qed
qed (use p in \<open>auto simp: projectGroup_def Let_def split: if_splits\<close>)

lemma group_of_key:
  "key \<in> snapshot_key ` set snaps \<Longrightarrow>
     (case GroupByNamespaceRun snaps key of None \<Rightarrow> [] | Some g \<Rightarrow> g) = filter (\<lambda>s. snapshot_key s = key) snaps"
  by (auto simp: snapshot_groups_partition Let_def)

lemma project_groups_writes:
  assumes "project_groups e repo (GroupByNamespaceRun snaps) keys (t, w) = (t', w')" and "set keys \<subseteq> snapshot_key ` set snaps"
  shows "(project_write e repo snaps)\<^sup>*\<^sup>* w w'"
  using assms
proof (induction keys arbitrary: t w)
  case (Cons key keys)
  show ?case
  proof (cases "nr_Namespace key = []")
    case True
    then show ?thesis using Cons by simp
  next
    case False
    have k: "key \<in> snapshot_key ` set snaps" using Cons.prems by simp
    obtain r w1 where p: "projectGroup e repo key (filter (\<lambda>s. snapshot_key s = key) snaps) w = (r, w1)" by (meson surj_pair)
    obtain t1 where "project_groups e repo (GroupByNamespaceRun snaps) keys (t1, w1) = (t', w')"
      using Cons.prems(1) False p by (cases r) (auto simp: group_of_key [OF k] split: groupOutcome.splits)
    then have "(project_write e repo snaps)\<^sup>*\<^sup>* w1 w'" using Cons by simp
    then show ?thesis using projectGroup_writes [OF p k False] by (auto intro: converse_rtranclp_into_rtranclp)
  qed
qed simp

lemma gc_each_writes:
  assumes "gc_each e (rep_Name repo) repoKeys items st = (r, st')" and "set items \<subseteq> set listed"
    and "\<And>key. key \<notin> set repoKeys \<Longrightarrow> nr_Namespace key = [] \<or> key \<notin> snapshot_key ` set snaps"
  shows "(gc_write e repo snaps listed)\<^sup>*\<^sup>* (yw st) (yw st')"
  using assms(1,2)
proof (induction items arbitrary: st)
  case (Cons it items)
  obtain b loc where it: "it = (b, loc)" by (cases it)
  show ?case
  proof (cases "annotation b AnnotationProjected = AnnotationProjectedValue \<and> loc = rep_Name repo \<and>
      \<lparr>nr_Namespace = b_ns b, nr_Run = b_name b\<rparr> \<notin> set repoKeys")
    case False
    then show ?thesis using Cons by (auto simp: it split: if_splits)
  next
    case True
    have s: "gc_write e repo snaps listed (yw st) (snd (ye_delete e (b_ns b) (b_name b) (yw st)))"
      using True Cons.prems(2) assms(3) [of "\<lparr>nr_Namespace = b_ns b, nr_Run = b_name b\<rparr>"] by (intro gc_write.stale) (auto simp: it)
    obtain res w1 where d: "ye_delete e (b_ns b) (b_name b) (yw st) = (res, w1)" by (meson surj_pair)
    show ?thesis
    proof (cases "res \<noteq> None \<and> res \<noteq> Some NotFound")
      case True
      then show ?thesis
        using Cons.prems(1) \<open>annotation b _ = _ \<and> _\<close> s by (auto simp: it d)
    next
      case False
      then have "gc_each e (rep_Name repo) repoKeys items (yemit (ProjectionRemoved (b_ns b) (b_name b)) (st\<lparr>yw := w1\<rparr>)) = (r, st')"
        using Cons.prems(1) \<open>annotation b _ = _ \<and> _\<close> by (auto simp: it d)
      then show ?thesis using Cons.IH Cons.prems(2) s d by (fastforce intro: converse_rtranclp_into_rtranclp)
    qed
  qed
qed simp

text \<open>The status written over the one that was read is never a change that discovery would wake on.\<close>

definition quiet_write :: "('w, 'z) discovery_env_scheme \<Rightarrow> DiscoveredRepository \<Rightarrow> DiscoveredRepository \<Rightarrow> 'w \<Rightarrow> 'w \<Rightarrow> bool" where
  "quiet_write e repo written w w' \<longleftrightarrow> w' = snd (ye_update_status e written w) \<and> \<not> inventoryChurnPredicate repo written"

text \<open>All that a pass may write, over the inventory it consumes.\<close>

definition pass_writes ::
  "('w, 'z) discovery_env_scheme \<Rightarrow> DiscoveredRepository \<Rightarrow> inventoryResult \<Rightarrow> 'w \<Rightarrow> 'w \<Rightarrow> bool" where
  "pass_writes e repo res w w' \<longleftrightarrow>
     (if ir_err res \<noteq> None then quiet_write e repo (repo\<lparr>dr_LastDiscoverySuccess := Some False\<rparr>) w w'
      else \<exists>w1 w2 written.
             (project_write e repo (ir_snaps res))\<^sup>*\<^sup>* w w1 \<and>
             (w2 = w1 \<or> (\<exists>items. ye_list_backups e (LabelOrigin, OriginCluster) w1 = Inr items \<and>
                (gc_write e repo (ir_snaps res) items)\<^sup>*\<^sup>* w1 w2)) \<and>
             quiet_write e repo written w2 w' \<and> dr_LastDiscoveryTime written = Some (ir_at res) \<and>
             dr_SnapshotCount written = of_nat (length (ir_snaps res)))"

lemma quiet_inventory:
  "\<not> inventoryChurnPredicate repo (repo\<lparr>dr_LastDiscoverySuccess := s\<rparr>)"
  "\<not> inventoryChurnPredicate repo
     (repo\<lparr>dr_SnapshotCount := n, dr_NamespacesPresent := m, dr_LastDiscoveryTime := t, dr_ProjectedBackups := p, dr_OrphanSnapshots := q,
        dr_LastDiscoverySuccess := s\<rparr>)"
  by (simp_all add: inventoryChurnPredicate_def masked_def status_part_def)

lemma updateInventoryStatus_writes:
  "\<exists>written. quiet_write e repo written w (snd (updateInventoryStatus e repo snaps at t w)) \<and> dr_LastDiscoveryTime written = Some at \<and>
     dr_SnapshotCount written = of_nat (length snaps)"
proof -
  let ?written = "repo\<lparr>dr_SnapshotCount := of_nat (length snaps), dr_NamespacesPresent := of_nat (DistinctNamespaces snaps),
    dr_LastDiscoveryTime := Some at, dr_ProjectedBackups := pt_projected t, dr_OrphanSnapshots := pt_orphans t,
    dr_LastDiscoverySuccess := Some (pt_failures t = [])\<rparr>"
  have "snd (updateInventoryStatus e repo snaps at t w) = snd (ye_update_status e ?written w)"
    by (simp add: updateInventoryStatus_def split: prod.splits option.splits)
  then show ?thesis by (intro exI [of _ ?written]) (simp add: quiet_write_def quiet_inventory)
qed

lemma gcProjections_writes:
  assumes "gcProjections e (rep_Name repo) (filter (\<lambda>key. nr_Namespace key \<noteq> []) (remdups (map snapshot_key snaps))) st = (r, st')"
  shows "yw st' = yw st \<or> (\<exists>items. ye_list_backups e (LabelOrigin, OriginCluster) (yw st) = Inr items \<and>
    (gc_write e repo snaps items)\<^sup>*\<^sup>* (yw st) (yw st'))"
proof (cases "ye_list_backups e (LabelOrigin, OriginCluster) (yw st)")
  case (Inr items)
  then have "gc_each e (rep_Name repo) (filter (\<lambda>key. nr_Namespace key \<noteq> []) (remdups (map snapshot_key snaps))) items st = (r, st')"
    using assms by (simp add: gcProjections_def)
  from gc_each_writes [OF this, of items snaps] show ?thesis using Inr by auto
qed (use assms in \<open>simp add: gcProjections_def\<close>)

lemma consume_writes:
  assumes order: "\<And>keys. set (ye_order e keys) = set keys" and c: "consume e repo interval res st = (ans, st')" and "ir_err res = None"
  shows "pass_writes e repo res (yw st) (yw st')"
proof -
  let ?snaps = "ir_snaps res"
  obtain t w1 where p: "project_groups e repo (GroupByNamespaceRun ?snaps) (group_keys e ?snaps)
      (\<lparr>pt_projected = 0, pt_orphans = 0, pt_failures = []\<rparr>, yw st) = (t, w1)" by (meson surj_pair)
  obtain gcErr st1 where g: "gcProjections e (rep_Name repo) (filter (\<lambda>key. nr_Namespace key \<noteq> []) (remdups (map snapshot_key ?snaps)))
      (st\<lparr>yw := w1\<rparr>) = (gcErr, st1)" by (meson surj_pair)
  define t1 where "t1 = (case gcErr of None \<Rightarrow> t | Some err \<Rightarrow> t\<lparr>pt_failures := pt_failures t @ [err]\<rparr>)"
  have "yw st' = snd (updateInventoryStatus e repo ?snaps (ir_at res) t1 (yw st1))"
    using c unfolding t1_def by (auto simp: consume_def Let_def p g reportPartialPass_def split: prod.splits option.splits if_splits)
  moreover have "(project_write e repo ?snaps)\<^sup>*\<^sup>* (yw st) w1"
    by (rule project_groups_writes [OF p]) (simp add: group_keys_def order)
  moreover obtain written where "quiet_write e repo written (yw st1) (snd (updateInventoryStatus e repo ?snaps (ir_at res) t1 (yw st1)))"
      "dr_LastDiscoveryTime written = Some (ir_at res)" "dr_SnapshotCount written = of_nat (length ?snaps)"
    using updateInventoryStatus_writes [of e repo "yw st1" ?snaps "ir_at res" t1] by blast
  ultimately show ?thesis
    unfolding pass_writes_def using assms(3) gcProjections_writes [OF g]
    by simp (rule exI [of _ w1], simp, rule exI [of _ "yw st1"], auto)
qed

text \<open>
  C23: a pass changes the cluster only over a finished inventory, and only in three ways. It projects a group of the listing
  into a namespace that exists and is not going away, never over a run in progress, with the merged status and a
  phase that is never better than the recorded one. It deletes a Backup only where it is a projection of
  this location and the listing has nothing of its run. And it records the inventory, stamped with the time of the
  listing, in a write that does not wake discovery again. A failed inventory writes the health flag alone.
\<close>

theorem discovery_writes_only_its_view:
  assumes "\<And>keys. set (ye_order e keys) = set keys" and "discovery_Reconcile e name st = (ans, st')" and "yw st' \<noteq> yw st"
  shows "\<exists>repo res interval. ye_get_repository e name (yw st) = Inr repo \<and> rep_Initialized repo \<and>
    discoverySettings e repo (yw st) = Inr (True, interval) \<and> it_results (ytracker st) (rep_Name repo) = Some res \<and>
    pass_writes e repo res (yw st) (yw st')"
proof -
  from assms(2,3) obtain repo enabled interval where r: "ye_get_repository e name (yw st) = Inr repo" "rep_Initialized repo"
      "discoverySettings e repo (yw st) = Inr (enabled, interval)" "enabled"
    by (auto simp: discovery_Reconcile_def split: sum.splits if_splits)
  moreover obtain res where i: "it_results (ytracker st) (rep_Name repo) = Some res"
    using assms(2,3) r by (auto simp: discovery_Reconcile_def take_inventory_def split: option.splits if_splits prod.splits)
  moreover have "pass_writes e repo res (yw st) (yw st')"
  proof (cases "ir_err res")
    case None
    then show ?thesis
      using assms(2) r i consume_writes [OF assms(1) _ None] by (fastforce simp: discovery_Reconcile_def take_inventory_def Let_def)
  next
    case (Some err)
    then have "yw st' = snd (recordDiscoveryOutcome e repo False (yw st))"
      using assms(2) r i by (auto simp: discovery_Reconcile_def take_inventory_def Let_def)
    then show ?thesis
      using assms(3) Some
      by (auto simp: pass_writes_def quiet_write_def recordDiscoveryOutcome_def quiet_inventory split: if_splits prod.splits option.splits)
  qed
  ultimately show ?thesis by auto
qed

text \<open>A world that logs its writes: one repository whose listing has one run of the namespace \<^verbatim>\<open>shop\<close>.\<close>

definition example_repository :: DiscoveredRepository where
  "example_repository =
     \<lparr>rep_Name = ''main'', rep_Labels = Map.empty, rep_Controller = None, rep_Initialized = True, rep_RepositoryURL = [], dr_Generation = 1,
      dr_Annotations = Map.empty, dr_Location = ([], []), dr_Scope = [], dr_OwnerNamespace = [], dr_Mode = [], dr_KeySlots = [], dr_Conditions = [], dr_SnapshotCount = 0, dr_NamespacesPresent = 0, dr_LastDiscoveryTime = None,
      dr_ProjectedBackups = 0, dr_OrphanSnapshots = 0, dr_LastDiscoverySuccess = None, dr_LastMaintenanceTime = None, dr_LastCheckTime = None,
      dr_LastCheckResult = [], dr_ApproximateSizeBytes = 0, dr_StaleLocks = 0, dr_RecentMaintenance = 0\<rparr>"

definition example_discovery :: "string list discovery_env" where
  "example_discovery =
     \<lparr>ye_now = \<lambda>_. 0, ye_get_repository = \<lambda>_ _. Inr example_repository, ye_get_location = \<lambda>_ _. Inr (None, 0),
      ye_get_namespace = \<lambda>_ _. Inr (''Active'', False), ye_get_backup = \<lambda>_ _ _. Inl NotFound, ye_list_backups = \<lambda>_ _. Inr [],
      ye_convert = \<lambda>_ _. None, ye_convert_status = \<lambda>_ _. None,
      ye_apply = \<lambda>p w. (None, w @ [pj_Namespace p @ ''/'' @ pj_Name p]),
      ye_apply_status = \<lambda>_ _ phase vs w. (None, w @ [phase] @ map SnapshotID vs),
      ye_delete = \<lambda>_ _ w. (None, w @ [''delete'']), ye_update_status = \<lambda>_ w. (None, w @ [''inventory'']),
      ye_order = \<lambda>keys. keys, ye_sort = sort_key Pvc\<rparr>"

definition example_pass :: "string list ystate" where
  "example_pass =
     \<lparr>yw = [], ytracker = \<lparr>it_inFlight = \<lambda>_. False,
        it_results = [''main'' \<mapsto> \<lparr>ir_snaps = [(data_snapshot ''db'' ''a'')\<lparr>sn_Tags := [''kind=data'', ''pvc=db'', ''namespace=shop'', ''run=r1'']\<rparr>],
          ir_err = None, ir_at = 5\<rparr>]\<rparr>, ystarted = [], yev = []\<rparr>"

theorem discovery_writes_only_its_view_witness:
  "\<exists>ans st'. discovery_Reconcile example_discovery ''main'' example_pass = (ans, st') \<and>
     yw st' = [''shop/r1'', ''Completed'', ''a'', ''inventory''] \<and>
     (\<exists>res. it_results (ytracker example_pass) ''main'' = Some res \<and> pass_writes example_discovery example_repository res [] (yw st'))"
proof -
  obtain ans st' where r: "discovery_Reconcile example_discovery ''main'' example_pass = (ans, st')" by (meson surj_pair)
  have w: "yw (snd (discovery_Reconcile example_discovery ''main'' example_pass)) = [''shop/r1'', ''Completed'', ''a'', ''inventory'']"
    by code_simp
  have n: "yw st' \<noteq> yw example_pass" using w unfolding r by (simp add: example_pass_def)
  have "set (ye_order example_discovery keys) = set keys" for keys by (simp add: example_discovery_def)
  from discovery_writes_only_its_view [OF this r n] obtain repo res where
      "ye_get_repository example_discovery ''main'' (yw example_pass) = Inr repo"
      "it_results (ytracker example_pass) (rep_Name repo) = Some res"
      "pass_writes example_discovery repo res (yw example_pass) (yw st')"
    by blast
  moreover from this(1) have "repo = example_repository" by (simp add: example_discovery_def)
  moreover have "rep_Name example_repository = ''main''" by (simp add: example_repository_def)
  moreover have "yw example_pass = []" by (simp add: example_pass_def)
  ultimately have "it_results (ytracker example_pass) ''main'' = Some res" "pass_writes example_discovery example_repository res [] (yw st')"
    by simp_all
  then show ?thesis using r w unfolding r by (intro exI [of _ ans] exI [of _ st'] conjI exI [of _ res]) simp_all
qed

text \<open>The census of a pass accounts for every group of the listing that has a namespace, modulo the width of its counters.\<close>

lemma census_accounts_for_every_group:
  assumes "project_groups e repo groups keys (t, w) = (t', w')"
  shows "pt_projected t' + pt_orphans t' + of_nat (length (pt_failures t')) =
    pt_projected t + pt_orphans t + of_nat (length (pt_failures t)) + of_nat (length (filter (\<lambda>key. nr_Namespace key \<noteq> []) keys))"
  using assms
proof (induction keys arbitrary: t w)
  case (Cons key keys)
  show ?case
  proof (cases "nr_Namespace key = []")
    case True
    then show ?thesis using Cons by simp
  next
    case False
    then show ?thesis
      using Cons.prems Cons.IH by (fastforce split: prod.splits sum.splits groupOutcome.splits simp: algebra_simps)
  qed
qed simp

section \<open>One listing at a time\<close>

text \<open>
  The tracker among the workers and the listing goroutines: each method is one step, for it holds the lock, and a goroutine is a
  step of its own when its lister answers or panics. The second component is the goroutines that have not finished.
\<close>

datatype tracker_event =
    Take string
  | Retain string "inventoryResult option" duration instant
  | Start string
  | Finish string "(go_error + Snapshot list) option" instant

fun tracker_step :: "inventoryTracker \<times> string list \<Rightarrow> tracker_event \<Rightarrow> (inventoryTracker \<times> string list) option" where
  "tracker_step (t, running) (Take repo) = Some (snd (take_inventory repo t), running)"
| "tracker_step (t, running) (Retain repo res maxAge now) = Some (snd (retain repo res maxAge now t), running)"
| "tracker_step (t, running) (Start repo) =
     (case start_inventory repo t of (launched, t) \<Rightarrow> Some (t, if launched then repo # running else running))"
| "tracker_step (t, running) (Finish repo answer now) =
     (if repo \<in> set running then Some (finish_inventory repo (inventory_outcome answer) now t, remove1 repo running) else None)"

definition single_flight :: "inventoryTracker \<times> string list \<Rightarrow> bool" where
  "single_flight s \<longleftrightarrow> distinct (snd s) \<and> (\<forall>repo. it_inFlight (fst s) repo \<longleftrightarrow> repo \<in> set (snd s))"

lemma tracker_inFlight [simp]:
  "it_inFlight (snd (take_inventory repo t)) = it_inFlight t" "it_inFlight (snd (retain repo res maxAge now t)) = it_inFlight t"
  by (simp_all add: take_inventory_def retain_def split: option.splits)

interpretation tracker: machine_invariant tracker_step single_flight "\<lambda>s e. True"
proof
  fix s ev s'
  assume inv: "single_flight s" and step: "tracker_step s ev = Some s'"
  obtain t running where s: "s = (t, running)" by (cases s)
  show "single_flight s'"
    using inv step
    by (cases ev) (auto simp: s single_flight_def start_inventory_def finish_inventory_def split: if_splits)
qed

text \<open>
  C24: under every interleaving of the workers and the listing goroutines, at most one listing runs for a repository, a repository
  is marked in flight exactly while its listing runs, and a listing that ends, even by a panic, leaves the
  repository free with its outcome waiting for the next pass.
\<close>

theorem one_listing_per_repository:
  assumes "run_events tracker_step (newInventoryTracker, []) evs = Some (t, running)"
  shows "distinct running \<and> (\<forall>repo. it_inFlight t repo \<longleftrightarrow> repo \<in> set running) \<and>
    (\<forall>repo answer now t' running'. tracker_step (t, running) (Finish repo answer now) = Some (t', running') \<longrightarrow>
       \<not> it_inFlight t' repo \<and> repo \<notin> set running' \<and>
       fst (take_inventory repo t') = (Some ((inventory_outcome answer)\<lparr>ir_at := now\<rparr>), inventoryReady))"
proof -
  have "single_flight (newInventoryTracker, [])" by (simp add: single_flight_def newInventoryTracker_def)
  from tracker.run_keeps_always [OF _ this assms] have "single_flight (t, running)" by simp
  then show ?thesis
    by (auto simp: single_flight_def finish_inventory_def take_inventory_def split: if_splits)
qed

theorem one_listing_per_repository_witness:
  "\<exists>t. run_events tracker_step (newInventoryTracker, []) [Start ''main'', Start ''main'', Take ''main'', Start ''other''] =
         Some (t, [''other'', ''main'']) \<and> it_inFlight t ''main'' \<and> \<not> it_inFlight t ''third''"
proof -
  obtain t where r: "run_events tracker_step (newInventoryTracker, []) [Start ''main'', Start ''main'', Take ''main'', Start ''other''] =
      Some (t, [''other'', ''main''])"
    by (simp add: start_inventory_def newInventoryTracker_def take_inventory_def)
  from one_listing_per_repository [OF r] show ?thesis using r by (intro exI [of _ t]) simp
qed

end
