(* ===== verification/Spec2Isabelle.thy ===== *)
theory Spec2Isabelle
  imports Repo_Queue_Safety Schedule_Controller Namespace_Selection Sanitizer_Safety Repo_Keys_Safety Cluster_Safety Cluster_Restore_Safety Snapshot_Safety Erasure_Safety Discovery_Safety
begin

text \<open>
  \<^bold>\<open>CrystalBackup, a verification library.\<close>

  CrystalBackup is a Kubernetes operator that backs up and restores namespaces with restic. Its controllers
  under \<^verbatim>\<open>src/internal/controller\<close> stamp Backup objects from schedules, fan cluster runs out into namespaces,
  expose each claim as a snapshot copy, start data-mover Jobs on the copies, restore them into claims
  again, run repository maintenance and remove what interrupted runs leave. The packages beside them hold
  the decisions: what a run's phase is, in which order a repository's operations run, which snapshots a command
  selects, how a volume is exposed and handed over. This library models the decisions and the whole handlers
  around them.

  \<^bold>\<open>How the parts interact.\<close> A schedule stamps a Backup or ClusterBackup; a ClusterBackup stamps one Backup per
  namespace; a Backup drives its volumes one step per pass through the snapshot exposer, the mover gate and the
  mover's result, inside a freeze window of hooks, and captures manifests; every operation on a repository passes
  its queue. A Restore or ClusterRestore chooses a run, plans volumes and drives them through the restore engine and
  the target exposer. The reaper sweeps objects whose owner is gone. In the model the Backup controller calls
  \<open>Volume_Machine\<close>, \<open>Freeze_Window\<close> and \<open>Manifest_Phase\<close>; both restore controllers call \<open>Restore_Engine\<close>; the exposers and
  the reaper share the records of volumes and snapshot contents, and \<open>with_registry\<close> puts the snapshot exposer
  under the Backup controller.

  \<^bold>\<open>Foundations.\<close>

  \<^item> \<open>Crystal_Prelude\<close>: machine integers, instants and durations, list lemmas, and the machines driven by an
    explicit list of events, with the locale \<open>machine_invariant\<close>.
  \<^item> \<open>Api_Types\<close> (\<^verbatim>\<open>api/v1alpha1\<close>): the records of the resources, with the fields the modelled code uses.
  \<^item> \<open>Go_Strings\<close>, \<open>Go_Path_Match\<close>: the string, number and glob functions of Go's library the code calls.
  \<^item> \<open>Kube_Objects\<close>: pods, containers, errors that wrap errors, and the helpers controllers share.
  \<^item> \<open>Object_Names\<close>: the sanitised names of Jobs and Secrets; valid labels, and not always unique.

  \<^bold>\<open>Pure decisions.\<close>

  \<^item> \<open>Status_Rollup\<close> (\<^verbatim>\<open>internal/status\<close>): phases from volumes to namespaces to cluster runs and the tallies, on
    32-bit words. The locale \<open>bucket_tally\<close> is the contract of both tallies.
  \<^item> \<open>Restic_Model\<close> (\<^verbatim>\<open>internal/restic\<close>): tags, identities, addresses, argument vectors; the locale \<open>tag_codec\<close> is
    the contract of writing and reading tags. Shown: round trips, the exact scope of an erasure.
  \<^item> \<open>Schedule_Timing\<close> (\<^verbatim>\<open>internal/schedule\<close>), \<open>Namespace_Selection\<close> (\<^verbatim>\<open>internal/nsselector\<close>), \<open>Run_Coordinates\<close>
    (\<^verbatim>\<open>runname.go\<close>), \<open>Run_Abandonment\<close> (\<^verbatim>\<open>schedule_abandonment.go\<close>), \<open>Mover_Admission\<close> (\<^verbatim>\<open>internal/concurrency\<close>),
    \<open>Location_Binding\<close> (\<^verbatim>\<open>location_binding.go\<close>): due activations, fan-out, ownership of names, runs given up, the
    mover gate, and where a backup goes.
  \<^item> \<open>Manifest_Sanitizer\<close>, \<open>Sanitizer_Safety\<close> (\<^verbatim>\<open>internal/sanitize\<close>): removals on JSON trees; the locale
    \<open>parent_removal\<close> is the contract every removal satisfies. Shown: sanitising only removes.
  \<^item> \<open>Mover_Result\<close> (\<^verbatim>\<open>internal/mover/result.go\<close>, \<^verbatim>\<open>cmd/crystal-mover/run.go\<close>): what a mover writes and how it is read.

  \<^bold>\<open>Repositories.\<close>

  \<^item> \<open>Repo_Queue\<close>, \<open>Repo_Queue_Invariant\<close>, \<open>Repo_Queue_Safety\<close> (\<^verbatim>\<open>internal/repo/queue\<close>): the exclusive queue as a
    machine; each critical section is an event and a run an arbitrary list of events, so the theorems hold for
    every interleaving: order, mutual exclusion, exactly-once resolution, quiescence, shutdown.
  \<^item> \<open>Repo_Keys\<close>, \<open>Repo_Keys_Safety\<close> (\<^verbatim>\<open>internal/keys\<close>): one data key for the life of a repository, under concurrent
    callers. \<open>Repo_Maintenance\<close> (\<^verbatim>\<open>backup_maintenance.go\<close>): one maintenance operation as a Job, after the movers drained.

  \<^bold>\<open>Backups.\<close>

  \<^item> \<open>Schedule_Controller\<close>: the whole Reconcile of a BackupSchedule.
  \<^item> \<open>Hooks\<close>, \<open>Freeze_Window\<close>, \<open>Freeze_Window_Safety\<close> (\<^verbatim>\<open>internal/hooks\<close>, \<^verbatim>\<open>hooks_phase.go\<close>): what was frozen is
    released exactly; the locale \<open>bounded_release\<close> is the contract of both releases.
  \<^item> \<open>Volume_Machine\<close>, \<open>Volume_Safety\<close>, \<open>Manifest_Phase\<close>, \<open>Backup_Controller\<close>, \<open>Backup_Safety\<close>
    (\<^verbatim>\<open>backup_controller.go\<close>, \<^verbatim>\<open>manifests_phase.go\<close>): handlers of the volume phases refine an abstract machine of six
    states; a terminal phase is earned, or the quiesce failed; teardown follows the write that records it.
  \<^item> \<open>Cluster_Backup\<close>, \<open>Cluster_Safety\<close> (\<^verbatim>\<open>clusterbackup_controller.go\<close>): fan-out, ledger, honest success.
  \<^item> \<open>Snapshot_Exposer\<close>, \<open>Snapshot_Safety\<close> (\<^verbatim>\<open>internal/exposer\<close>): the copy a mover mounts is ready and its snapshot
    kept, refusals leave nothing, a teardown stays within its exposure and reclaims last.

  \<^bold>\<open>Restores and cleaning up.\<close>

  \<^item> \<open>Restore_Engine\<close>, \<open>Restore_Safety\<close>, \<open>Restore_Controller\<close>, \<open>Restore_Run_Safety\<close> (\<^verbatim>\<open>restore_engine.go\<close>,
    \<^verbatim>\<open>restore_controller.go\<close>, \<^verbatim>\<open>restore_resources.go\<close>): nothing without confirmation, the source stays pinned, Completed
    means every planned volume was handed over.
  \<^item> \<open>Cluster_Restore\<close>, \<open>Cluster_Restore_Safety\<close> (\<^verbatim>\<open>clusterrestore_controller.go\<close>, \<^verbatim>\<open>cluster_restore_resources.go\<close>).
  \<^item> \<open>Target_Exposer\<close>, \<open>Target_Safety\<close> (\<^verbatim>\<open>internal/rexposer\<close>): twins and transplants; a volume is marked before it is
    released, and delivered when the handover says so.
  \<^item> \<open>Reaper\<close>, \<open>Reaper_Safety\<close> (\<^verbatim>\<open>reaper.go\<close>, \<^verbatim>\<open>exposer/reap.go\<close>): a sweep only reclaims, spares what is alive and
    reports truthfully.
  \<^item> \<open>Cluster_Erasure\<close>, \<open>Erasure_Safety\<close> (\<^verbatim>\<open>clustererasure_controller.go\<close>): data is removed only on a confirmed
    instruction with a measured scope, and a Completed erasure is attested, unless an operation was in flight while its
    scope was measured.
  \<^item> \<open>Discovery\<close>, \<open>Discovery_Safety\<close> (\<^verbatim>\<open>internal/discovery\<close>, \<^verbatim>\<open>discovery_controller.go\<close>, \<^verbatim>\<open>discovery_inventory.go\<close>): a
    repository's listing becomes Backups. A projection completes the report of an execution and never replaces it, a pass
    writes only its own view, and one listing runs for a repository at a time.

  This theory holds the statement that spans the queue and the mover gate.

  \<^bold>\<open>How state and effects are modelled.\<close> Structs are records with a prefix per type, enums datatypes or string
  constants as in the source, errors values of sum and option types. The cluster is a world of any type; reads are
  functions of it and writes return the next one, in which other clients may have written too. The API server,
  the cron, time-zone and YAML libraries, label selectors, regular expressions, restic, the age library and the
  condition helpers of apimachinery are not part of the sources; they are arguments of the definitions that use
  them, and where a theorem needs their documented behaviour it is a named hypothesis with a concrete
  instance in the witness. The order in which Go ranges over a map is an argument wherever it matters. Events and
  log lines are constructors; spans and metrics are left out, the reaper's gauge apart.

  \<^bold>\<open>Bounds and fuel.\<close> Loops are structural recursion or functions with a termination measure, with three exceptions. The
  wait loops of \<open>Repo_Maintenance\<close> poll a cluster that may never answer: they take a number of rounds and are \<open>None\<close>
  when it does not suffice; shown there is that, with a clock that moves on at every tick, a context that ends at its
  deadline and requests not served after it, the deadline bounds the rounds a whole operation needs. The reaper's ticker is a number of sweeps, and the theorems are about each sweep. The one
  thousand catch-up ticks of \<^verbatim>\<open>DueTick\<close> are the code's own bound. Strings are byte strings; glob matching and
  name sanitising are stated for ASCII names, which Kubernetes enforces.

  \<^bold>\<open>Not modelled.\<close> The dump and apply of manifests inside the mover (\<^verbatim>\<open>internal/manifests\<close>, apart from its selections) and the
  restic process it runs: they are streams over a dynamic client and a child process. The controllers of
  locations and repositories, external synchronisation, the Job that lists a repository for discovery, and the fan-out of maintenance:
  they follow the patterns of the controllers modelled here and are the next parts. Everything that renders, exports
  or tests: metrics, alerts, tracing, self check, soak measurements, generated documentation, the webhook server,
  \<^verbatim>\<open>cmd/main.go\<close> and generated deep copies.
\<close>

section \<open>The queue and the mover gate together\<close>

text \<open>
  C1: a lock removal or a prune keeps new movers away. In every state the repository queue can
  reach, as long as an unlock or a prune queued on a repository is not resolved, the admission
  gate blocks every mover for that repository whose Job does not exist yet, whatever the
  concurrency limit and whatever the listing of Jobs answers; and it never blocks a mover whose Job
  exists.
\<close>

theorem pending_unlock_holds_movers_back:
  assumes "run_events traced_step (NewManager, []) es = Some (m, tr)"
    and "Queued repo i \<in> set tr" and "\<not> h_done (handle m i)"
    and "h_kind (handle m i) = OpUnlock \<or> h_kind (handle m i) = OpPrune" and "repo \<noteq> []"
  shows "moverSlotBlocked get_job list_jobs (Some (QuiescenceRequired m)) ns name repo limit =
    (case get_job ns name of
       Inr _ \<Rightarrow> Inr False
     | Inl e \<Rightarrow> if e = NotFound then Inr True else Inl e)"
proof -
  have "blocksMovers (h_kind (handle m i))" using assms(4) by (simp add: blocksMovers_def)
  then have "QuiescenceRequired m repo"
    using pending_needs_quiescence [OF assms(1,2) _ assms(3)] by blast
  then show ?thesis using assms(5) by (auto simp: moverSlotBlocked_def split: sum.splits)
qed

theorem pending_unlock_holds_movers_back_witness:
  "moverSlotBlocked (\<lambda>_ _. Inl NotFound) (\<lambda>_ _. Inr []) (Some (QuiescenceRequired two_ops_state))
     ''op'' ''m'' ''r'' 0 = Inr True"
proof -
  have "Queued ''r'' 0 \<in> set two_ops_trace" "\<not> h_done (handle two_ops_state 0)"
    "h_kind (handle two_ops_state 0) = OpUnlock \<or> h_kind (handle two_ops_state 0) = OpPrune"
    by (simp_all add: two_ops_state_def two_ops_trace_def newHandle_def)
  from pending_unlock_holds_movers_back [OF two_ops_run this] show ?thesis by simp
qed

end
